(* ===== verification/Prelude.thy ===== *)
theory Prelude
  imports Main "HOL-Library.AList" "HOL-Library.Char_ord" "HOL-Library.List_Lexorder"
begin

text \<open>
  What every component of the development shares.

  \<^item> the collections \<open>eff_simps\<close> (symbolic execution of effectful operations) and
    \<open>preserves_intros\<close>, \<open>keeps_intros\<close> (frame and invariant rules);
  \<^item> JavaScript's \<open>Map\<close>: an association list in insertion order, whose \<open>set\<close> replaces in
    place or appends at the end, which is exactly \<open>AList.update\<close>;
  \<^item> sums over the values of such a map, used for balances and totals;
  \<^item> template strings \<open>`${a}:${b}`\<close> as list concatenation.
\<close>

named_theorems eff_simps "symbolic execution of effectful operations"
named_theorems preserves_intros "rules for: an operation leaves a projection of the state alone"
named_theorems keeps_intros "rules for: an operation keeps an invariant of the state"

section \<open>JavaScript's Map\<close>

type_synonym ('k, 'v) jsmap = "('k \<times> 'v) list"

abbreviation jm_get :: "('k, 'v) jsmap \<Rightarrow> 'k \<Rightarrow> 'v option" where
  "jm_get m k \<equiv> map_of m k"

definition jm_has :: "('k, 'v) jsmap \<Rightarrow> 'k \<Rightarrow> bool" where
  "jm_has m k = (jm_get m k \<noteq> None)"

abbreviation jm_set :: "'k \<Rightarrow> 'v \<Rightarrow> ('k, 'v) jsmap \<Rightarrow> ('k, 'v) jsmap" where
  "jm_set \<equiv> AList.update"

abbreviation jm_values :: "('k, 'v) jsmap \<Rightarrow> 'v list" where
  "jm_values m \<equiv> map snd m"

definition jm_delete :: "'k \<Rightarrow> ('k, 'v) jsmap \<Rightarrow> ('k, 'v) jsmap" where
  "jm_delete k m = filter (\<lambda>e. fst e \<noteq> k) m"

definition jm_wf :: "('k, 'v) jsmap \<Rightarrow> bool" where
  "jm_wf m = distinct (map fst m)"

lemma jm_get_set [simp]: "jm_get (jm_set k v m) k' = (if k' = k then Some v else jm_get m k')"
  by (simp add: update_conv)

lemma jm_has_set [simp]: "jm_has (jm_set k v m) k' = (k' = k \<or> jm_has m k')"
  by (simp add: jm_has_def)

lemma jm_wf_Nil [simp]: "jm_wf []"
  by (simp add: jm_wf_def)

lemma jm_wf_set [simp]: "jm_wf m \<Longrightarrow> jm_wf (jm_set k v m)"
  by (simp add: jm_wf_def distinct_update)

lemma jm_wf_delete [simp]: "jm_wf m \<Longrightarrow> jm_wf (jm_delete k m)"
  unfolding jm_wf_def jm_delete_def by (induction m) auto

lemma jm_get_delete [simp]: "jm_get (jm_delete k m) k' = (if k' = k then None else jm_get m k')"
  unfolding jm_delete_def by (induction m) auto

lemma jm_get_in_values: "jm_get m k = Some v \<Longrightarrow> v \<in> set (jm_values m)"
  by (force dest: map_of_SomeD)

lemma jm_value_in_get:
  assumes "jm_wf m" and "v \<in> set (jm_values m)"
  obtains k where "jm_get m k = Some v"
proof -
  from assms(2) obtain k where "(k, v) \<in> set m" by auto
  with assms(1) have "jm_get m k = Some v" by (simp add: jm_wf_def)
  then show thesis by (rule that)
qed

lemma set_values_update:
  "set (jm_values (jm_set k v m)) \<subseteq> insert v (set (jm_values m))"
  by (induction m) auto

lemma jm_set_fresh: "jm_get m k = None \<Longrightarrow> jm_set k v m = m @ [(k, v)]"
  by (induction m) (auto split: if_splits)

text \<open>
  The interface of a keyed store, as the control plane and the services use it: what a lookup
  returns after a \<open>set\<close>, and that \<open>set\<close> keeps the store well formed.
\<close>

locale keyed_store =
  fixes get :: "'m \<Rightarrow> 'k \<Rightarrow> 'v option"
    and put :: "'k \<Rightarrow> 'v \<Rightarrow> 'm \<Rightarrow> 'm"
    and wf :: "'m \<Rightarrow> bool"
  assumes get_put: "get (put k v m) k' = (if k' = k then Some v else get m k')"
    and wf_put: "wf m \<Longrightarrow> wf (put k v m)"
begin

lemma get_put_same: "get (put k v m) k = Some v"
  by (simp add: get_put)

lemma get_put_other: "k' \<noteq> k \<Longrightarrow> get (put k v m) k' = get m k'"
  by (simp add: get_put)

lemma put_put_get: "get (put k v (put k w m)) = get (put k v m)"
  by (simp add: fun_eq_iff get_put)

lemma put_commute: "k \<noteq> k' \<Longrightarrow> get (put k v (put k' v' m)) = get (put k' v' (put k v m))"
  by (simp add: fun_eq_iff get_put)

end

interpretation js_store: keyed_store map_of AList.update jm_wf
  by unfold_locales (simp_all add: update_conv)

section \<open>Sums over a map of balances\<close>

definition jm_total :: "('k, int) jsmap \<Rightarrow> int" where
  "jm_total m = sum_list (jm_values m)"

definition jm_get0 :: "('k, int) jsmap \<Rightarrow> 'k \<Rightarrow> int" where
  \<comment> \<open>\<open>map.get(key) ?? 0n\<close>\<close>
  "jm_get0 m k = (case jm_get m k of None \<Rightarrow> 0 | Some v \<Rightarrow> v)"

lemma jm_total_Nil [simp]: "jm_total [] = 0"
  by (simp add: jm_total_def)

lemma jm_get0_set [simp]: "jm_get0 (jm_set k v m) k' = (if k' = k then v else jm_get0 m k')"
  by (simp add: jm_get0_def)

lemma jm_total_set: "jm_total (jm_set k v m) = jm_total m - jm_get0 m k + v"
proof (induction m)
  case Nil
  show ?case by (simp add: jm_total_def jm_get0_def)
next
  case (Cons e m)
  then show ?case by (cases e) (auto simp: jm_total_def jm_get0_def)
qed

definition jm_nonneg :: "('k, int) jsmap \<Rightarrow> bool" where
  "jm_nonneg m = (\<forall>v \<in> set (jm_values m). 0 \<le> v)"

lemma jm_nonneg_Nil [simp]: "jm_nonneg []"
  by (simp add: jm_nonneg_def)

lemma jm_nonneg_set [simp]: "jm_nonneg m \<Longrightarrow> 0 \<le> v \<Longrightarrow> jm_nonneg (jm_set k v m)"
  unfolding jm_nonneg_def using set_values_update[of k v m] by blast

lemma jm_nonneg_get0: "jm_nonneg m \<Longrightarrow> 0 \<le> jm_get0 m k"
  unfolding jm_nonneg_def jm_get0_def by (simp split: option.splits) (force dest: map_of_SomeD)

lemma jm_get0_Some: "jm_get m k = Some v \<Longrightarrow> jm_get0 m k = v"
  by (simp add: jm_get0_def)

lemma jm_get0_pos_Some: "jm_get0 m k \<noteq> 0 \<Longrightarrow> jm_get m k = Some (jm_get0 m k)"
  by (auto simp: jm_get0_def split: option.splits)

section \<open>Strings\<close>

definition colon :: "string \<Rightarrow> string \<Rightarrow> string" where
  \<comment> \<open>the template \<open>`${a}:${b}`\<close>\<close>
  "colon a b = a @ '':'' @ b"

definition ends_with :: "string \<Rightarrow> string \<Rightarrow> bool" where
  \<comment> \<open>\<open>s.endsWith(t)\<close>\<close>
  "ends_with s t = (length t \<le> length s \<and> drop (length s - length t) s = t)"

definition starts_with :: "string \<Rightarrow> string \<Rightarrow> bool" where
  "starts_with s t = (take (length t) s = t)"

lemma ends_with_append [simp]: "ends_with (a @ t) t"
  by (simp add: ends_with_def)

lemma ends_with_iff: "ends_with s t \<longleftrightarrow> (\<exists>a. s = a @ t)"
proof
  assume "ends_with s t"
  then have "s = take (length s - length t) s @ t"
    by (metis append_take_drop_id ends_with_def)
  then show "\<exists>a. s = a @ t" ..
qed auto

lemma colon_inject_right [simp]: "colon a b = colon a' b \<longleftrightarrow> a = a'"
  by (simp add: colon_def)

lemma colon_inject_left [simp]: "colon a b = colon a b' \<longleftrightarrow> b = b'"
  by (simp add: colon_def)

fun join :: "string \<Rightarrow> string list \<Rightarrow> string" where
  \<comment> \<open>\<open>parts.join(sep)\<close>\<close>
  "join sep [] = []"
| "join sep [x] = x"
| "join sep (x # y # r) = x @ sep @ join sep (y # r)"


section \<open>Reachable states\<close>

text \<open>
  The states a component can be in: those its steps lead to from its initial state. The locale is
  the contract of an invariant; a component interprets it with its own step relation.
\<close>

inductive reach :: "('s \<Rightarrow> 's \<Rightarrow> bool) \<Rightarrow> 's \<Rightarrow> 's \<Rightarrow> bool" for stp :: "'s \<Rightarrow> 's \<Rightarrow> bool" and ini :: 's where
  start: "reach stp ini ini"
| more: "reach stp ini s \<Longrightarrow> stp s t \<Longrightarrow> reach stp ini t"

locale invariant_of =
  fixes stp :: "'s \<Rightarrow> 's \<Rightarrow> bool" and ini :: 's and I :: "'s \<Rightarrow> bool"
  assumes initially: "I ini"
    and kept: "I s \<Longrightarrow> stp s t \<Longrightarrow> I t"
begin

lemma always: "reach stp ini s \<Longrightarrow> I s"
  by (induction rule: reach.induct) (auto intro: initially kept)

lemma after_steps: "I s \<Longrightarrow> stp\<^sup>*\<^sup>* s t \<Longrightarrow> I t"
  by (erule rtranclp_induct) (auto intro: kept)

end

end
