(* ===== verification/Effects.thy ===== *)
theory Effects
  imports Prelude
begin

text \<open>
  Effectful operations of the code as state transformers with exceptions.

  A method of a class that mutates \<open>this\<close> and may throw is a function from the state to a
  result (the thrown error or the returned value) and the state it leaves behind. A throw does
  not undo what was written before it: the state after the throw is kept, as in the code.
  \<open>preserves f m\<close> says that \<open>m\<close> leaves the projection \<open>f\<close> of the state alone, \<open>keeps I m\<close> that it
  keeps the invariant \<open>I\<close>, both whether it returns or throws.
\<close>

section \<open>Errors\<close>

datatype js_error =
    Coded string    \<comment> \<open>an error with a \<open>code\<close> property, as \<open>invariant\<close> and \<open>fail\<close> throw it\<close>
  | Native string   \<comment> \<open>an error of the platform (TypeError, SyntaxError, RangeError), no \<open>code\<close>\<close>

definition error_code :: "js_error \<Rightarrow> string" where
  \<comment> \<open>\<open>error.code ?? "REQUEST_FAILED"\<close>\<close>
  "error_code e = (case e of Coded c \<Rightarrow> c | Native _ \<Rightarrow> ''REQUEST_FAILED'')"

lemma error_code_simps [simp]:
  "error_code (Coded c) = c"
  "error_code (Native n) = ''REQUEST_FAILED''"
  by (simp_all add: error_code_def)

section \<open>The operations\<close>

type_synonym 'a outcome = "js_error + 'a"
type_synonym ('s, 'a) eff = "'s \<Rightarrow> 'a outcome \<times> 's"

definition retE :: "'a \<Rightarrow> ('s, 'a) eff" where
  "retE a = (\<lambda>s. (Inr a, s))"

definition throwE :: "js_error \<Rightarrow> ('s, 'a) eff" where
  "throwE e = (\<lambda>s. (Inl e, s))"

definition bindE :: "('s, 'a) eff \<Rightarrow> ('a \<Rightarrow> ('s, 'b) eff) \<Rightarrow> ('s, 'b) eff" where
  "bindE m f = (\<lambda>s. case m s of (Inl e, s') \<Rightarrow> (Inl e, s') | (Inr a, s') \<Rightarrow> f a s')"

definition thenE :: "('s, 'a) eff \<Rightarrow> ('s, 'b) eff \<Rightarrow> ('s, 'b) eff" where
  "thenE m n = bindE m (\<lambda>_. n)"

definition catchE :: "('s, 'a) eff \<Rightarrow> (js_error \<Rightarrow> ('s, 'a) eff) \<Rightarrow> ('s, 'a) eff" where
  \<comment> \<open>\<open>try m catch (error) { h }\<close>\<close>
  "catchE m h = (\<lambda>s. case m s of (Inl e, s') \<Rightarrow> h e s' | (Inr a, s') \<Rightarrow> (Inr a, s'))"

definition withE :: "('s \<Rightarrow> ('s, 'a) eff) \<Rightarrow> ('s, 'a) eff" where
  \<comment> \<open>an operation that reads the current state\<close>
  "withE f = (\<lambda>s. f s s)"

definition modifyE :: "('s \<Rightarrow> 's) \<Rightarrow> ('s, unit) eff" where
  "modifyE f = (\<lambda>s. (Inr (), f s))"

definition liftE :: "'a outcome \<Rightarrow> ('s, 'a) eff" where
  \<comment> \<open>a pure computation that may throw\<close>
  "liftE r = (\<lambda>s. (r, s))"

definition ensureE :: "bool \<Rightarrow> string \<Rightarrow> ('s, unit) eff" where
  \<comment> \<open>\<open>invariant(condition, code, message)\<close>; the message plays no part in the behaviour\<close>
  "ensureE c code = (if c then retE () else throwE (Coded code))"

definition optE :: "'a option \<Rightarrow> js_error \<Rightarrow> ('s, 'a) eff" where
  "optE x e = (case x of None \<Rightarrow> throwE e | Some a \<Rightarrow> retE a)"

fun filterE :: "('a \<Rightarrow> ('s, bool) eff) \<Rightarrow> 'a list \<Rightarrow> ('s, 'a list) eff" where
  \<comment> \<open>\<open>xs.filter(p)\<close> where \<open>p\<close> has effects\<close>
  "filterE p [] = retE []"
| "filterE p (x # xs) =
     bindE (p x) (\<lambda>b. bindE (filterE p xs) (\<lambda>ys. retE (if b then x # ys else ys)))"

fun mapE :: "('a \<Rightarrow> ('s, 'b) eff) \<Rightarrow> 'a list \<Rightarrow> ('s, 'b list) eff" where
  \<comment> \<open>\<open>xs.map(f)\<close> where \<open>f\<close> has effects\<close>
  "mapE f [] = retE []"
| "mapE f (x # xs) = bindE (f x) (\<lambda>y. bindE (mapE f xs) (\<lambda>ys. retE (y # ys)))"

fun eachE :: "('a \<Rightarrow> ('s, unit) eff) \<Rightarrow> 'a list \<Rightarrow> ('s, unit) eff" where
  \<comment> \<open>\<open>for (const x of xs) ...\<close>\<close>
  "eachE f [] = retE ()"
| "eachE f (x # xs) = thenE (f x) (eachE f xs)"

section \<open>Symbolic execution\<close>

lemma retE_iff [eff_simps]: "retE a s = (r, t) \<longleftrightarrow> r = Inr a \<and> t = s"
  by (auto simp: retE_def)

lemma throwE_iff [eff_simps]: "throwE e s = (r, t) \<longleftrightarrow> r = Inl e \<and> t = s"
  by (auto simp: throwE_def)

lemma modifyE_iff [eff_simps]: "modifyE f s = (r, t) \<longleftrightarrow> r = Inr () \<and> t = f s"
  by (auto simp: modifyE_def)

lemma liftE_iff [eff_simps]: "liftE x s = (r, t) \<longleftrightarrow> x = r \<and> t = s"
  by (auto simp: liftE_def)

lemma withE_run [eff_simps]: "withE g s = g s s"
  by (simp add: withE_def)

lemma bindE_Inr [eff_simps]:
  "bindE m f s = (Inr b, t) \<longleftrightarrow> (\<exists>a u. m s = (Inr a, u) \<and> f a u = (Inr b, t))"
  by (auto simp: bindE_def split: prod.splits sum.splits)

lemma bindE_Inl [eff_simps]:
  "bindE m f s = (Inl e, t) \<longleftrightarrow>
     m s = (Inl e, t) \<or> (\<exists>a u. m s = (Inr a, u) \<and> f a u = (Inl e, t))"
  by (auto simp: bindE_def split: prod.splits sum.splits)

lemma thenE_Inr [eff_simps]:
  "thenE m n s = (Inr b, t) \<longleftrightarrow> (\<exists>a u. m s = (Inr a, u) \<and> n u = (Inr b, t))"
  by (simp add: thenE_def bindE_Inr)

lemma thenE_Inl [eff_simps]:
  "thenE m n s = (Inl e, t) \<longleftrightarrow>
     m s = (Inl e, t) \<or> (\<exists>a u. m s = (Inr a, u) \<and> n u = (Inl e, t))"
  by (simp add: thenE_def bindE_Inl)

lemma catchE_Inr [eff_simps]:
  "catchE m h s = (Inr a, t) \<longleftrightarrow>
     m s = (Inr a, t) \<or> (\<exists>e u. m s = (Inl e, u) \<and> h e u = (Inr a, t))"
  by (auto simp: catchE_def split: prod.splits sum.splits)

lemma catchE_Inl [eff_simps]:
  "catchE m h s = (Inl e, t) \<longleftrightarrow> (\<exists>e' u. m s = (Inl e', u) \<and> h e' u = (Inl e, t))"
  by (auto simp: catchE_def split: prod.splits sum.splits)

lemma ensureE_Inr [eff_simps]: "ensureE c code s = (Inr u, t) \<longleftrightarrow> c \<and> t = s"
  by (auto simp: ensureE_def retE_def throwE_def)

lemma ensureE_Inl [eff_simps]: "ensureE c code s = (Inl e, t) \<longleftrightarrow> \<not> c \<and> e = Coded code \<and> t = s"
  by (auto simp: ensureE_def retE_def throwE_def)

lemma optE_Inr [eff_simps]: "optE x e s = (Inr a, t) \<longleftrightarrow> x = Some a \<and> t = s"
  by (auto simp: optE_def retE_def throwE_def split: option.splits)

lemma optE_Inl [eff_simps]: "optE x e s = (Inl e', t) \<longleftrightarrow> x = None \<and> e' = e \<and> t = s"
  by (auto simp: optE_def retE_def throwE_def split: option.splits)

text \<open>Running an operation forward, when the outcome of its first step is known.\<close>

lemma bindE_run: "m s = (Inr a, u) \<Longrightarrow> bindE m f s = f a u"
  by (simp add: bindE_def)

lemma thenE_run: "m s = (Inr a, u) \<Longrightarrow> thenE m n s = n u"
  by (simp add: thenE_def bindE_def)

lemma bindE_fail: "m s = (Inl e, u) \<Longrightarrow> bindE m f s = (Inl e, u)"
  by (simp add: bindE_def)

lemma thenE_fail: "m s = (Inl e, u) \<Longrightarrow> thenE m n s = (Inl e, u)"
  by (simp add: thenE_def bindE_def)

section \<open>Frame conditions\<close>

definition preserves :: "('s \<Rightarrow> 't) \<Rightarrow> ('s, 'a) eff \<Rightarrow> bool" where
  "preserves f m = (\<forall>s r t. m s = (r, t) \<longrightarrow> f t = f s)"

lemma preservesI: "(\<And>s r t. m s = (r, t) \<Longrightarrow> f t = f s) \<Longrightarrow> preserves f m"
  by (simp add: preserves_def)

lemma preservesD: "preserves f m \<Longrightarrow> m s = (r, t) \<Longrightarrow> f t = f s"
  by (simp add: preserves_def)

lemma preserves_bindE [preserves_intros]:
  assumes "preserves f m" and "\<And>a. preserves f (g a)"
  shows "preserves f (bindE m g)"
proof (rule preservesI)
  fix s r t
  assume run: "bindE m g s = (r, t)"
  obtain x u where mu: "m s = (x, u)" by (cases "m s")
  then have fu: "f u = f s" using assms(1) by (blast dest: preservesD)
  show "f t = f s"
  proof (cases x)
    case (Inl e)
    with run mu fu show ?thesis by (auto simp: bindE_def)
  next
    case (Inr a)
    with run mu have "g a u = (r, t)" by (auto simp: bindE_def)
    then show ?thesis using assms(2) fu by (metis preservesD)
  qed
qed

lemma preserves_thenE [preserves_intros]:
  "preserves f m \<Longrightarrow> preserves f n \<Longrightarrow> preserves f (thenE m n)"
  by (simp add: thenE_def preserves_bindE)

lemma preserves_catchE [preserves_intros]:
  assumes "preserves f m" and "\<And>e. preserves f (h e)"
  shows "preserves f (catchE m h)"
proof (rule preservesI)
  fix s r t
  assume run: "catchE m h s = (r, t)"
  obtain x u where mu: "m s = (x, u)" by (cases "m s")
  then have fu: "f u = f s" using assms(1) by (blast dest: preservesD)
  show "f t = f s"
  proof (cases x)
    case (Inl e)
    with run mu have "h e u = (r, t)" by (auto simp: catchE_def)
    then show ?thesis using assms(2) fu by (metis preservesD)
  next
    case (Inr a)
    with run mu fu show ?thesis by (auto simp: catchE_def)
  qed
qed

lemma preserves_withE [preserves_intros]: "(\<And>s. preserves f (g s)) \<Longrightarrow> preserves f (withE g)"
  by (auto simp: preserves_def withE_def)

lemma preserves_retE [preserves_intros]: "preserves f (retE a)"
  by (simp add: preserves_def retE_def)

lemma preserves_throwE [preserves_intros]: "preserves f (throwE e)"
  by (simp add: preserves_def throwE_def)

lemma preserves_liftE [preserves_intros]: "preserves f (liftE r)"
  by (simp add: preserves_def liftE_def)

lemma preserves_ensureE [preserves_intros]: "preserves f (ensureE c code)"
  by (simp add: ensureE_def preserves_retE preserves_throwE)

lemma preserves_optE [preserves_intros]: "preserves f (optE x e)"
  by (simp add: optE_def preserves_retE preserves_throwE split: option.splits)

lemma preserves_modifyE: "(\<And>s. f (g s) = f s) \<Longrightarrow> preserves f (modifyE g)"
  by (simp add: preserves_def modifyE_def)

lemma preserves_if [preserves_intros]:
  "(c \<Longrightarrow> preserves f m) \<Longrightarrow> (\<not> c \<Longrightarrow> preserves f n) \<Longrightarrow> preserves f (if c then m else n)"
  by simp

lemma preserves_case_option [preserves_intros]:
  "preserves f m \<Longrightarrow> (\<And>a. preserves f (g a)) \<Longrightarrow>
     preserves f (case x of None \<Rightarrow> m | Some a \<Rightarrow> g a)"
  by (simp split: option.splits)

lemma preserves_case_sum [preserves_intros]:
  "(\<And>e. preserves f (m e)) \<Longrightarrow> (\<And>a. preserves f (g a)) \<Longrightarrow>
     preserves f (case x of Inl e \<Rightarrow> m e | Inr a \<Rightarrow> g a)"
  by (simp split: sum.splits)

lemma preserves_Let [preserves_intros]: "(\<And>a. preserves f (g a)) \<Longrightarrow> preserves f (Let x g)"
  by simp

lemma preserves_filterE [preserves_intros]:
  "(\<And>x. preserves f (p x)) \<Longrightarrow> preserves f (filterE p xs)"
  by (induction xs) (auto intro!: preserves_bindE preserves_retE)

lemma preserves_mapE [preserves_intros]:
  "(\<And>x. preserves f (g x)) \<Longrightarrow> preserves f (mapE g xs)"
  by (induction xs) (auto intro!: preserves_bindE preserves_retE)

lemma preserves_eachE [preserves_intros]:
  "(\<And>x. preserves f (g x)) \<Longrightarrow> preserves f (eachE g xs)"
  by (induction xs) (auto intro!: preserves_thenE preserves_retE)

lemma preserves_compose: "preserves f m \<Longrightarrow> preserves (\<lambda>s. g (f s)) m"
  by (auto simp: preserves_def)

section \<open>Invariants\<close>

definition keeps :: "('s \<Rightarrow> bool) \<Rightarrow> ('s, 'a) eff \<Rightarrow> bool" where
  "keeps I m = (\<forall>s r t. I s \<longrightarrow> m s = (r, t) \<longrightarrow> I t)"

lemma keepsI: "(\<And>s r t. I s \<Longrightarrow> m s = (r, t) \<Longrightarrow> I t) \<Longrightarrow> keeps I m"
  by (auto simp: keeps_def)

lemma keepsD: "keeps I m \<Longrightarrow> I s \<Longrightarrow> m s = (r, t) \<Longrightarrow> I t"
  by (auto simp: keeps_def)

lemma preserves_keeps: "preserves f m \<Longrightarrow> keeps (\<lambda>s. P (f s)) m"
  by (auto simp: preserves_def keeps_def)

lemma keeps_bindE [keeps_intros]:
  assumes "keeps I m" and "\<And>a. keeps I (g a)"
  shows "keeps I (bindE m g)"
proof (rule keepsI)
  fix s r t
  assume I: "I s" and run: "bindE m g s = (r, t)"
  obtain x u where mu: "m s = (x, u)" by (cases "m s")
  then have Iu: "I u" using assms(1) I by (blast dest: keepsD)
  show "I t"
  proof (cases x)
    case (Inl e)
    with run mu Iu show ?thesis by (auto simp: bindE_def)
  next
    case (Inr a)
    with run mu have "g a u = (r, t)" by (auto simp: bindE_def)
    with Iu assms(2) show ?thesis by (blast dest: keepsD)
  qed
qed

lemma keeps_thenE [keeps_intros]: "keeps I m \<Longrightarrow> keeps I n \<Longrightarrow> keeps I (thenE m n)"
  by (simp add: thenE_def keeps_bindE)

lemma keeps_catchE [keeps_intros]:
  assumes "keeps I m" and "\<And>e. keeps I (h e)"
  shows "keeps I (catchE m h)"
proof (rule keepsI)
  fix s r t
  assume I: "I s" and run: "catchE m h s = (r, t)"
  obtain x u where mu: "m s = (x, u)" by (cases "m s")
  then have Iu: "I u" using assms(1) I by (blast dest: keepsD)
  show "I t"
  proof (cases x)
    case (Inl e)
    with run mu have "h e u = (r, t)" by (auto simp: catchE_def)
    with Iu assms(2) show ?thesis by (blast dest: keepsD)
  next
    case (Inr a)
    with run mu Iu show ?thesis by (auto simp: catchE_def)
  qed
qed

lemma keeps_withE: "(\<And>s. I s \<Longrightarrow> keeps I (g s)) \<Longrightarrow> keeps I (withE g)"
  unfolding keeps_def withE_def by blast

lemma keeps_retE [keeps_intros]: "keeps I (retE a)"
  by (rule keepsI) (auto simp: retE_iff)

lemma keeps_throwE [keeps_intros]: "keeps I (throwE e)"
  by (rule keepsI) (auto simp: throwE_iff)

lemma keeps_liftE [keeps_intros]: "keeps I (liftE r)"
  by (rule keepsI) (auto simp: liftE_iff)

lemma keeps_ensureE [keeps_intros]: "keeps I (ensureE c code)"
  by (simp add: ensureE_def keeps_retE keeps_throwE)

lemma keeps_optE [keeps_intros]: "keeps I (optE x e)"
  by (simp add: optE_def keeps_retE keeps_throwE split: option.splits)

lemma keeps_if [keeps_intros]:
  "(c \<Longrightarrow> keeps I m) \<Longrightarrow> (\<not> c \<Longrightarrow> keeps I n) \<Longrightarrow> keeps I (if c then m else n)"
  by simp

lemma keeps_case_option [keeps_intros]:
  "keeps I m \<Longrightarrow> (\<And>a. keeps I (g a)) \<Longrightarrow> keeps I (case x of None \<Rightarrow> m | Some a \<Rightarrow> g a)"
  by (simp split: option.splits)

lemma keeps_case_prod [keeps_intros]: "(\<And>a b. keeps I (g a b)) \<Longrightarrow> keeps I (case x of (a, b) \<Rightarrow> g a b)"
  by (simp split: prod.splits)

lemma keeps_modifyE: "(\<And>s. I s \<Longrightarrow> I (g s)) \<Longrightarrow> keeps I (modifyE g)"
  by (rule keepsI) (auto simp: modifyE_iff)

lemma keeps_result: "keeps I m \<Longrightarrow> I s \<Longrightarrow> I (snd (m s))"
  by (metis keepsD prod.collapse)

section \<open>Moving along a preorder\<close>

text \<open>
  A property of two states that composes, such as \<open>the log of the second extends the log of the
  first\<close>, holds of a whole operation when it holds of its primitive steps. The client of the
  interface is any such relation; \<open>within R m\<close> says that \<open>m\<close> moves along it.
\<close>

definition within :: "('s \<Rightarrow> 's \<Rightarrow> bool) \<Rightarrow> ('s, 'a) eff \<Rightarrow> bool" where
  "within R m = (\<forall>s r t. m s = (r, t) \<longrightarrow> R s t)"

lemma withinD: "within R m \<Longrightarrow> m s = (r, t) \<Longrightarrow> R s t"
  by (simp add: within_def)

lemma within_result: "within R m \<Longrightarrow> R s (snd (m s))"
  by (metis withinD prod.collapse)

locale state_preorder =
  fixes R :: "'s \<Rightarrow> 's \<Rightarrow> bool"
  assumes refl: "R s s"
    and trans: "R s t \<Longrightarrow> R t u \<Longrightarrow> R s u"
begin

lemma bindE:
  assumes "within R m" and "\<And>a. within R (g a)"
  shows "within R (bindE m g)"
  unfolding within_def
proof (intro allI impI)
  fix s r t
  assume run: "bindE m g s = (r, t)"
  obtain x u where mu: "m s = (x, u)" by (cases "m s")
  then have su: "R s u" using assms(1) by (blast dest: withinD)
  show "R s t"
  proof (cases x)
    case (Inl e)
    with run mu su show ?thesis by (auto simp: bindE_def)
  next
    case (Inr a)
    with run mu have "g a u = (r, t)" by (auto simp: bindE_def)
    then have "R u t" using assms(2) by (blast dest: withinD)
    with su show ?thesis by (rule trans)
  qed
qed

lemma thenE: "within R m \<Longrightarrow> within R n \<Longrightarrow> within R (thenE m n)"
  unfolding thenE_def by (rule bindE)

lemma catchE:
  assumes "within R m" and "\<And>e. within R (h e)"
  shows "within R (catchE m h)"
  unfolding within_def
proof (intro allI impI)
  fix s r t
  assume run: "catchE m h s = (r, t)"
  obtain x u where mu: "m s = (x, u)" by (cases "m s")
  then have su: "R s u" using assms(1) by (blast dest: withinD)
  show "R s t"
  proof (cases x)
    case (Inl e)
    with run mu have "h e u = (r, t)" by (auto simp: catchE_def)
    then have "R u t" using assms(2) by (blast dest: withinD)
    with su show ?thesis by (rule trans)
  next
    case (Inr a)
    with run mu su show ?thesis by (auto simp: catchE_def)
  qed
qed

lemma withE: "(\<And>s. within R (g s)) \<Longrightarrow> within R (withE g)"
  unfolding within_def withE_def by blast

lemma retE: "within R (retE a)"
  unfolding within_def by (auto simp: retE_iff refl)

lemma throwE: "within R (throwE e)"
  unfolding within_def by (auto simp: throwE_iff refl)

lemma liftE: "within R (liftE x)"
  unfolding within_def by (auto simp: liftE_iff refl)

lemma ensureE: "within R (ensureE c code)"
  by (simp add: ensureE_def retE throwE)

lemma optE: "within R (optE x e)"
  by (simp add: optE_def retE throwE split: option.splits)

lemma ite: "(c \<Longrightarrow> within R m) \<Longrightarrow> (\<not> c \<Longrightarrow> within R n) \<Longrightarrow> within R (if c then m else n)"
  by simp

lemma case_option:
  "within R m \<Longrightarrow> (\<And>a. within R (g a)) \<Longrightarrow> within R (case x of None \<Rightarrow> m | Some a \<Rightarrow> g a)"
  by (simp split: option.splits)

lemma let_in: "(\<And>a. within R (g a)) \<Longrightarrow> within R (Let x g)"
  by simp

lemma filterE: "(\<And>x. within R (p x)) \<Longrightarrow> within R (filterE p xs)"
  by (induction xs) (auto intro!: bindE retE)

lemma mapE: "(\<And>x. within R (g x)) \<Longrightarrow> within R (mapE g xs)"
  by (induction xs) (auto intro!: bindE retE)

lemma eachE: "(\<And>x. within R (g x)) \<Longrightarrow> within R (eachE g xs)"
  by (induction xs) (auto intro!: thenE retE)

lemmas intros = bindE thenE catchE withE retE throwE liftE ensureE optE ite case_option let_in
  filterE mapE eachE

end

section \<open>What a loop with effects does\<close>

lemma filterE_subset: "filterE p xs s = (Inr ys, t) \<Longrightarrow> set ys \<subseteq> set xs"
proof (induction xs arbitrary: s ys t)
  case Nil
  then show ?case by (simp add: eff_simps)
next
  case (Cons x xs)
  from Cons.prems obtain b u zs v where run: "filterE p xs u = (Inr zs, v)"
    and ys: "ys = (if b then x # zs else zs)" by (auto simp: eff_simps)
  from Cons.IH [OF run] ys show ?case by auto
qed

lemma mapE_length: "mapE f xs s = (Inr ys, t) \<Longrightarrow> length ys = length xs"
  by (induction xs arbitrary: s ys t) (auto simp: eff_simps)

text \<open>For runs on concrete states.\<close>

lemmas eff_defs = withE_def thenE_def bindE_def modifyE_def ensureE_def retE_def throwE_def liftE_def optE_def catchE_def

end
