(* ===== verification/JsValues.thy ===== *)
theory JsValues
  imports Effects
begin

text \<open>
  The JavaScript values the control plane computes with: JSON-like values, the decimal text of
  an integer, \<open>BigInt(value)\<close>, \<open>JSON.stringify\<close> of a string, and the function \<open>canonicalize\<close>
  that every fingerprint, signature and commitment is taken over.

  A number is \<open>JNum\<close> when it is an integer and \<open>JFloat\<close>, given by its JSON text, when it is a
  finite number that is not. A BigInt is not a value here: \<open>JSON.stringify\<close> throws on one, so no
  request, statement or rule set that reaches \<open>canonicalize\<close> holds one. A string is a list of
  code units below 256.
\<close>

section \<open>Values\<close>

datatype json =
    JUndefined
  | JNull
  | JBool bool
  | JNum int
  | JFloat string
  | JStr string
  | JArr "json list"
  | JObj "(string \<times> json) list"

definition jfield :: "json \<Rightarrow> string \<Rightarrow> json" where
  \<comment> \<open>\<open>value?.[key]\<close> for an own property, \<open>undefined\<close> otherwise\<close>
  "jfield v k = (case v of JObj kvs \<Rightarrow> (case map_of kvs k of None \<Rightarrow> JUndefined | Some w \<Rightarrow> w)
     | _ \<Rightarrow> JUndefined)"

fun jtruthy :: "json \<Rightarrow> bool" where
  "jtruthy JUndefined = False"
| "jtruthy JNull = False"
| "jtruthy (JBool b) = b"
| "jtruthy (JNum n) = (n \<noteq> 0)"
| "jtruthy (JFloat _) = True"
| "jtruthy (JStr s) = (s \<noteq> [])"
| "jtruthy (JArr _) = True"
| "jtruthy (JObj _) = True"

fun jelems :: "json \<Rightarrow> json list" where
  \<comment> \<open>the elements of an array; any other value has none\<close>
  "jelems (JArr xs) = xs"
| "jelems _ = []"

definition nonempty_array :: "json \<Rightarrow> bool" where
  \<comment> \<open>\<open>Array.isArray(v) && v.length > 0\<close>\<close>
  "nonempty_array v = (case v of JArr xs \<Rightarrow> xs \<noteq> [] | _ \<Rightarrow> False)"

definition integer_between :: "int \<Rightarrow> int \<Rightarrow> json \<Rightarrow> bool" where
  \<comment> \<open>\<open>Number.isInteger(v) && v >= lo && v <= hi\<close>\<close>
  "integer_between lo hi v = (case v of JNum n \<Rightarrow> lo \<le> n \<and> n \<le> hi | _ \<Rightarrow> False)"

fun jstrict_eq :: "json \<Rightarrow> json \<Rightarrow> bool" where
  \<comment> \<open>\<open>a === b\<close>; two arrays or objects are never the same reference here\<close>
  "jstrict_eq (JArr _) _ = False"
| "jstrict_eq (JObj _) _ = False"
| "jstrict_eq a b = (a = b)"

section \<open>Decimal text of an integer\<close>

definition digit_char :: "nat \<Rightarrow> char" where
  "digit_char d = char_of (48 + d)"

fun nat_text :: "nat \<Rightarrow> string" where
  "nat_text n = (if n < 10 then [digit_char n] else nat_text (n div 10) @ [digit_char (n mod 10)])"

declare nat_text.simps [simp del]

definition int_text :: "int \<Rightarrow> string" where
  \<comment> \<open>\<open>value.toString()\<close> of a BigInt or of an integer\<close>
  "int_text n = (if n < 0 then CHR ''-'' # nat_text (nat (- n)) else nat_text (nat n))"

section \<open>\<open>BigInt(value)\<close>\<close>

definition digit_value :: "nat \<Rightarrow> char \<Rightarrow> nat option" where
  "digit_value base c =
     (let n = of_char c :: nat;
          d = (if 48 \<le> n \<and> n \<le> 57 then Some (n - 48)
               else if 97 \<le> n \<and> n \<le> 122 then Some (n - 87)
               else if 65 \<le> n \<and> n \<le> 90 then Some (n - 55)
               else None)
      in case d of None \<Rightarrow> None | Some v \<Rightarrow> if v < base then Some v else None)"

fun digits_from :: "nat \<Rightarrow> nat \<Rightarrow> string \<Rightarrow> nat option" where
  "digits_from base acc [] = Some acc"
| "digits_from base acc (c # cs) =
     (case digit_value base c of None \<Rightarrow> None | Some d \<Rightarrow> digits_from base (acc * base + d) cs)"

definition parse_digits :: "nat \<Rightarrow> string \<Rightarrow> int option" where
  "parse_digits base s = (if s = [] then None else map_option int (digits_from base 0 s))"

definition js_space :: "char \<Rightarrow> bool" where
  "js_space c = ((of_char c :: nat) \<in> {9, 10, 11, 12, 13, 32, 160})"

definition js_trim :: "string \<Rightarrow> string" where
  "js_trim s = rev (dropWhile js_space (rev (dropWhile js_space s)))"

definition bigint_of_string :: "string \<Rightarrow> int option" where
  \<comment> \<open>StringToBigInt: blank is zero, a sign only before decimal digits, prefixes for other bases\<close>
  "bigint_of_string s =
     (let t = js_trim s in
      if t = [] then Some 0
      else if take 2 t \<in> {''0x'', ''0X''} then parse_digits 16 (drop 2 t)
      else if take 2 t \<in> {''0o'', ''0O''} then parse_digits 8 (drop 2 t)
      else if take 2 t \<in> {''0b'', ''0B''} then parse_digits 2 (drop 2 t)
      else if hd t = CHR ''-'' then map_option uminus (parse_digits 10 (tl t))
      else if hd t = CHR ''+'' then parse_digits 10 (tl t)
      else parse_digits 10 t)"

primrec js_to_string :: "json \<Rightarrow> string" where
  \<comment> \<open>\<open>String(value)\<close>, the text of a value in a template\<close>
  "js_to_string JUndefined = ''undefined''"
| "js_to_string JNull = ''null''"
| "js_to_string (JBool b) = (if b then ''true'' else ''false'')"
| "js_to_string (JNum n) = int_text n"
| "js_to_string (JFloat s) = s"
| "js_to_string (JStr s) = s"
| "js_to_string (JArr xs) =
     join '','' (map (\<lambda>(x, t). if x = JNull \<or> x = JUndefined then [] else t)
       (zip xs (map js_to_string xs)))"
| "js_to_string (JObj kvs) = ''[object Object]''"

definition text_field :: "json \<Rightarrow> string \<Rightarrow> string" where
  \<comment> \<open>the text of a property in a template\<close>
  "text_field v k = js_to_string (jfield v k)"

definition syntax_int :: "string \<Rightarrow> int outcome" where
  "syntax_int s = (case bigint_of_string s of None \<Rightarrow> Inl (Native ''SyntaxError'') | Some n \<Rightarrow> Inr n)"

fun to_bigint :: "json \<Rightarrow> int outcome" where
  \<comment> \<open>\<open>BigInt(value)\<close>\<close>
  "to_bigint (JNum n) = Inr n"
| "to_bigint (JBool b) = Inr (if b then 1 else 0)"
| "to_bigint (JStr s) = syntax_int s"
| "to_bigint (JFloat _) = Inl (Native ''RangeError'')"
| "to_bigint JUndefined = Inl (Native ''TypeError'')"
| "to_bigint JNull = Inl (Native ''TypeError'')"
| "to_bigint (JArr xs) = syntax_int (js_to_string (JArr xs))"
| "to_bigint (JObj kvs) = syntax_int (js_to_string (JObj kvs))"

section \<open>\<open>JSON.stringify\<close> of a string\<close>

definition hex_char :: "nat \<Rightarrow> char" where
  "hex_char d = char_of (if d < 10 then 48 + d else 87 + d)"

definition escape_char :: "char \<Rightarrow> string" where
  "escape_char c =
     (let n = of_char c :: nat in
      if n = 34 then [CHR 0x5C, CHR 0x22]
      else if n = 92 then [CHR 0x5C, CHR 0x5C]
      else if n = 8 then [CHR 0x5C, CHR ''b'']
      else if n = 12 then [CHR 0x5C, CHR ''f'']
      else if n = 10 then [CHR 0x5C, CHR ''n'']
      else if n = 13 then [CHR 0x5C, CHR ''r'']
      else if n = 9 then [CHR 0x5C, CHR ''t'']
      else if n < 32 then CHR 0x5C # ''u00'' @ [hex_char (n div 16), hex_char (n mod 16)]
      else [c])"

definition json_quote :: "string \<Rightarrow> string" where
  "json_quote s = CHR 0x22 # concat (map escape_char s) @ [CHR 0x22]"

section \<open>\<open>canonicalize\<close>\<close>

text \<open>
  An array keeps its order, an object lists its keys in code-unit order, everything else is
  \<open>JSON.stringify\<close>, which is \<open>undefined\<close> for an undefined value. The template of an object
  prints that as the text \<open>undefined\<close>, the \<open>join\<close> of an array as no text at all.
\<close>

primrec canonicalize :: "json \<Rightarrow> string" where
  "canonicalize JUndefined = ''undefined''"
| "canonicalize JNull = ''null''"
| "canonicalize (JBool b) = (if b then ''true'' else ''false'')"
| "canonicalize (JNum n) = int_text n"
| "canonicalize (JFloat s) = s"
| "canonicalize (JStr s) = json_quote s"
| "canonicalize (JArr xs) = ''['' @ join '','' (map (\<lambda>(x, t). if x = JUndefined then [] else t)
       (zip xs (map canonicalize xs))) @ '']''"
| "canonicalize (JObj kvs) =
     ''{'' @ join '','' (map (\<lambda>(k, t). json_quote k @ '':'' @ t)
       (sort_key fst (map (map_prod id canonicalize) kvs))) @ ''}''"

text \<open>
  The normal form two values share exactly when they differ only in the order of keys and in
  \<open>[undefined]\<close> for an empty array.
\<close>

primrec jnorm :: "json \<Rightarrow> json" where
  "jnorm JUndefined = JUndefined"
| "jnorm JNull = JNull"
| "jnorm (JBool b) = JBool b"
| "jnorm (JNum n) = JNum n"
| "jnorm (JFloat s) = JFloat s"
| "jnorm (JStr s) = JStr s"
| "jnorm (JArr xs) = (if xs = [JUndefined] then JArr [] else JArr (map jnorm xs))"
| "jnorm (JObj kvs) = JObj (sort_key fst (map (map_prod id jnorm) kvs))"

text \<open>
  What a \<open>jsonb\<close> column holds of \<open>JSON.stringify(value)\<close>, read back: an undefined property is left
  out, an undefined element is null. Of an undefined value nothing is written; the store is given none.
\<close>

primrec stored_json :: "json \<Rightarrow> json" where
  "stored_json JUndefined = JUndefined"
| "stored_json JNull = JNull"
| "stored_json (JBool b) = JBool b"
| "stored_json (JNum n) = JNum n"
| "stored_json (JFloat s) = JFloat s"
| "stored_json (JStr s) = JStr s"
| "stored_json (JArr xs) = JArr (map (\<lambda>v. if v = JUndefined then JNull else v) (map stored_json xs))"
| "stored_json (JObj kvs) =
     (let entries = map (map_prod id stored_json) kvs in
      JObj (filter (\<lambda>e. map_of entries (fst e) \<noteq> Some JUndefined) entries))"

lemma stored_json_cases [simp]: "stored_json v = JUndefined \<longleftrightarrow> v = JUndefined" "stored_json v = JNull \<longleftrightarrow> v = JNull"
  by (cases v; simp add: Let_def)+

lemma map_of_filter_keys: "map_of (filter (\<lambda>e. P (fst e)) xs) k = (if P k then map_of xs k else None)"
  by (induction xs) auto

lemma jfield_stored: "jfield (stored_json v) k = stored_json (jfield v k)"
proof (cases v)
  case (JObj kvs)
  have "map_of (map (map_prod id stored_json) kvs) k = map_option stored_json (map_of kvs k)"
    by (induction kvs) (auto simp: id_def)
  then show ?thesis
    by (auto simp: JObj Let_def jfield_def map_of_filter_keys [of "\<lambda>k. map_of (map (map_prod id stored_json) kvs) k \<noteq> Some JUndefined"]
        split: option.splits)
qed (simp_all add: jfield_def)

lemma js_to_string_stored: "js_to_string (stored_json v) = js_to_string v"
proof (induction v)
  case (JArr xs)
  let ?t = "\<lambda>x. if x = JNull \<or> x = JUndefined then [] else js_to_string x"
  have z: "map (\<lambda>(x, t). if x = JNull \<or> x = JUndefined then [] else t) (zip ys (map js_to_string ys)) = map ?t ys" for ys
    by (induction ys) auto
  have "map ?t (map (\<lambda>v. if v = JUndefined then JNull else v) (map stored_json xs)) = map ?t xs"
    using JArr.IH by (auto simp: comp_def)
  then show ?case by (simp only: js_to_string.simps stored_json.simps z)
qed (simp_all add: Let_def)

lemma to_bigint_stored: "to_bigint (stored_json v) = to_bigint v"
  using js_to_string_stored [of v] by (cases v) (simp_all add: Let_def)

lemma text_field_stored: "text_field (stored_json v) k = text_field v k"
  by (simp add: text_field_def jfield_stored js_to_string_stored)

definition float_text :: "string \<Rightarrow> bool" where
  \<comment> \<open>the JSON text of a finite number that is not an integer\<close>
  "float_text s =
     (s \<noteq> [] \<and> set s \<subseteq> set ''0123456789-+.e'' \<and> (CHR ''.'' \<in> set s \<or> CHR ''e'' \<in> set s))"

primrec wf_json :: "json \<Rightarrow> bool" where
  "wf_json JUndefined = True"
| "wf_json JNull = True"
| "wf_json (JBool b) = True"
| "wf_json (JNum n) = True"
| "wf_json (JFloat s) = float_text s"
| "wf_json (JStr s) = True"
| "wf_json (JArr xs) = list_all (\<lambda>b. b) (map wf_json xs)"
| "wf_json (JObj kvs) = list_all snd (map (map_prod id wf_json) kvs)"

primrec normal_json :: "json \<Rightarrow> bool" where
  \<comment> \<open>well formed, and no array in it is \<open>[undefined]\<close>\<close>
  "normal_json JUndefined = True"
| "normal_json JNull = True"
| "normal_json (JBool b) = True"
| "normal_json (JNum n) = True"
| "normal_json (JFloat s) = float_text s"
| "normal_json (JStr s) = True"
| "normal_json (JArr xs) = (xs \<noteq> [JUndefined] \<and> list_all (\<lambda>b. b) (map normal_json xs))"
| "normal_json (JObj kvs) = list_all snd (map (map_prod id normal_json) kvs)"

end
