(* ===== verification/CpState.thy ===== *)
theory CpState
  imports JsValues
begin

text \<open>
  The state of the in-memory control plane, class \<open>ControlPlane\<close> of \<open>src/control-plane.js\<close>, and
  the small operations every handler is made of: the clock, the event log, the lookups that throw,
  signature checks and the asset ledgers.

  The objects the code keeps are records. An optional or nullable property is an \<open>option\<close>. The
  injected clock, the platform's hash, signature check, date parser and random source are the
  fields of a \<open>host\<close>, an argument of every operation that uses them. The clock and the random
  source are sequences of readings; the state counts how many have been taken, so that every
  \<open>this.now()\<close> of the code is one reading of the model, in the code's order.
\<close>

section \<open>The host\<close>

record host =
  h_now :: "nat \<Rightarrow> int"                       \<comment> \<open>milliseconds returned by the n-th \<open>this.now()\<close>\<close>
  h_iso :: "int \<Rightarrow> string"                    \<comment> \<open>\<open>Date.prototype.toISOString\<close>\<close>
  h_date :: "string \<Rightarrow> int option"            \<comment> \<open>\<open>new Date(text).getTime()\<close>, \<open>None\<close> for NaN\<close>
  h_sha256 :: "string \<Rightarrow> string"              \<comment> \<open>hex digest\<close>
  h_verify :: "string \<Rightarrow> string \<Rightarrow> string \<Rightarrow> bool option"
    \<comment> \<open>\<open>verify(null, message, key, signature)\<close>: key, message, base64 signature; \<open>None\<close> if it throws\<close>
  h_random :: "nat \<Rightarrow> string"                 \<comment> \<open>hex text of the n-th \<open>randomBytes(32)\<close>\<close>

section \<open>Objects\<close>

record institution =
  inst_id :: string
  inst_roles :: "string list"
  inst_publicKeyPem :: string

record product =
  prod_id :: string
  prod_name :: string
  prod_jurisdiction :: string
  prod_issuerId :: string
  prod_roleAssignments :: "(string, string) jsmap"
  prod_rules :: json
  prod_ruleVersion :: nat
  prod_status :: string
  prod_createdAt :: string

record credential =
  cred_id :: string
  cred_productId :: string
  cred_issuerId :: string
  cred_subjectId :: string
  cred_investorClass :: string
  cred_jurisdiction :: string
  cred_maxUnits :: json
  cred_validFrom :: string
  cred_validUntil :: string
  cred_signature :: string
  cred_extra :: "(string \<times> json) list"     \<comment> \<open>further properties the issuer signed\<close>

record restriction =
  restr_status :: string
  restr_reason :: string
  restr_effectiveAt :: string

record evidence =
  ev_id :: string
  ev_productId :: string
  ev_dataType :: string
  ev_sourceInstitutionId :: string
  ev_issuerId :: "string option"           \<comment> \<open>absent from the documented envelope, read by the signature check\<close>
  ev_trustTier :: string
  ev_schemaVersion :: string
  ev_effectiveAt :: string
  ev_expiresAt :: string
  ev_payload :: json
  ev_signature :: string
  ev_status :: string

type_synonym lifecycle = "(string \<times> string) list"   \<comment> \<open>(state, at)\<close>

record transaction =
  tx_id :: string
  tx_type :: string
  tx_productId :: string
  tx_sellerId :: "string option"
  tx_buyerId :: "string option"
  tx_units :: string
  tx_pricePerUnit :: "string option"
  tx_cashAmount :: string
  tx_fee :: "string option"
  tx_expiresAt :: "string option"
  tx_ruleVersion :: nat
  tx_navEvidenceId :: string
  tx_navEffectiveAt :: string
  tx_navExpiresAt :: string
  tx_navSchemaVersion :: string
  tx_policySnapshotHash :: string
  tx_settlementMode :: string
  tx_state :: string
  tx_settledAt :: "string option"
  tx_lifecycle :: lifecycle
  tx_sandboxCommitment :: string

record cash_settlement =
  cs_transactionId :: string
  cs_productId :: string
  cs_state :: string
  cs_source :: string
  cs_confirmedAt :: string

record proposal =
  pr_decision :: string
  pr_replacementTransactionId :: "string option"
  pr_makerId :: string
  pr_proposedAt :: string

record retry_payload =
  rp_productId :: string
  rp_sellerId :: string
  rp_sellerCredentialId :: string
  rp_buyerId :: string
  rp_buyerCredentialId :: string
  rp_units :: string
  rp_pricePerUnit :: string
  rp_fee :: string
  rp_expiresAt :: string

record exception_case =
  ec_id :: string
  ec_productId :: string
  ec_transactionId :: string
  ec_status :: string
  ec_failureStage :: string
  ec_reasonCode :: string
  ec_assignedRole :: string
  ec_openedAt :: string
  ec_resolvedAt :: "string option"
  ec_replacementTransactionId :: "string option"
  ec_proposal :: "proposal option"
  ec_retryPayload :: retry_payload
  ec_checkedBy :: "string option"

record receipt =
  rc_transactionId :: string
  rc_productId :: string
  rc_type :: string
  rc_state :: string
  rc_settledAt :: "string option"
  rc_navEvidenceId :: string
  rc_ruleVersion :: nat
  rc_settlementMode :: string
  rc_lifecycle :: "string list"
  rc_evidencePackageHash :: string
  rc_sandboxCommitment :: string
  rc_proofSystem :: string
  rc_exceptionCaseId :: "string option"
  rc_reasonCode :: "string option"

record event =
  e_sequence :: nat
  e_type :: string
  e_at :: string
  e_payload :: "(string \<times> json) list"

record plane =
  clock_reads :: nat
  random_reads :: nat
  institutions :: "(string, institution) jsmap"
  products :: "(string, product) jsmap"
  credentials :: "(string, credential) jsmap"
  credentialRestrictions :: "(string, restriction) jsmap"
  evidences :: "(string, evidence) jsmap"
  transactions :: "(string, transaction) jsmap"
  cashSettlements :: "(string, cash_settlement) jsmap"
  exceptionCases :: "(string, exception_case) jsmap"
  idempotency :: "(string, string \<times> receipt) jsmap"
  cashBalances :: "(string, int) jsmap"
  assetBalances :: "(string, int) jsmap"
  legalRegister :: "(string, int) jsmap"
  events :: "event list"

definition new_plane :: plane where
  "new_plane = \<lparr>clock_reads = 0, random_reads = 0, institutions = [], products = [], credentials = [],
     credentialRestrictions = [], evidences = [], transactions = [], cashSettlements = [],
     exceptionCases = [], idempotency = [], cashBalances = [], assetBalances = [],
     legalRegister = [], events = []\<rparr>"

definition REQUIRED_PRODUCT_ROLES :: "string list" where
  "REQUIRED_PRODUCT_ROLES =
     [''issuer'', ''distributor'', ''credential_issuer'', ''fund_administrator'', ''custodian'',
      ''transfer_agent'', ''cash_provider'']"

definition EVIDENCE_ROLE :: "(string, string) jsmap" where
  "EVIDENCE_ROLE =
     [(''nav'', ''fund_administrator''), (''custody_balance'', ''custodian''),
      (''legal_register'', ''transfer_agent''), (''cash_state'', ''cash_provider'')]"

section \<open>Dates\<close>

definition date_gt :: "int option \<Rightarrow> int option \<Rightarrow> bool" where
  \<comment> \<open>\<open>a > b\<close> on dates: false as soon as one is invalid\<close>
  "date_gt a b = (case (a, b) of (Some x, Some y) \<Rightarrow> y < x | _ \<Rightarrow> False)"

definition date_le :: "int option \<Rightarrow> int option \<Rightarrow> bool" where
  "date_le a b = (case (a, b) of (Some x, Some y) \<Rightarrow> x \<le> y | _ \<Rightarrow> False)"

section \<open>Clock, randomness and event log\<close>

type_synonym 'a cp = "(plane, 'a) eff"

definition now :: "host \<Rightarrow> int cp" where
  "now h = (\<lambda>p. (Inr (h_now h (clock_reads p)), p\<lparr>clock_reads := Suc (clock_reads p)\<rparr>))"

definition now_iso :: "host \<Rightarrow> string cp" where
  "now_iso h = bindE (now h) (\<lambda>t. retE (h_iso h t))"

definition random_hex :: "host \<Rightarrow> string cp" where
  "random_hex h = (\<lambda>p. (Inr (h_random h (random_reads p)), p\<lparr>random_reads := Suc (random_reads p)\<rparr>))"

definition record_event :: "host \<Rightarrow> string \<Rightarrow> (string \<times> json) list \<Rightarrow> unit cp" where
  "record_event h type payload =
     bindE (now_iso h) (\<lambda>at.
     modifyE (\<lambda>p. p\<lparr>events := events p @
       [\<lparr>e_sequence = length (events p) + 1, e_type = type, e_at = at, e_payload = payload\<rparr>]\<rparr>))"

section \<open>Lookups and checks shared by the handlers\<close>

definition getE :: "(plane \<Rightarrow> 'a) \<Rightarrow> 'a cp" where
  "getE f = (\<lambda>p. (Inr (f p), p))"

definition toNonNegativeInteger :: "json \<Rightarrow> int outcome" where
  "toNonNegativeInteger v = (case to_bigint v of
       Inl e \<Rightarrow> Inl e
     | Inr n \<Rightarrow> if 0 \<le> n then Inr n else Inl (Coded ''INVALID_AMOUNT''))"

definition hasRole :: "plane \<Rightarrow> string \<Rightarrow> string \<Rightarrow> bool" where
  "hasRole p institutionId role =
     (case jm_get (institutions p) institutionId of
        None \<Rightarrow> False
      | Some i \<Rightarrow> role \<in> set (inst_roles i))"

definition get_product :: "string \<Rightarrow> product cp" where
  "get_product productId =
     withE (\<lambda>p. optE (jm_get (products p) productId) (Coded ''UNKNOWN_PRODUCT''))"

definition activeProduct :: "string \<Rightarrow> product cp" where
  "activeProduct productId =
     bindE (get_product productId) (\<lambda>product.
     thenE (ensureE (prod_status product = ''ACTIVE'') ''PRODUCT_NOT_ACTIVE'')
     (retE product))"

definition assetOf :: "(string, int) jsmap \<Rightarrow> string \<Rightarrow> string \<Rightarrow> int" where
  "assetOf ledger accountId productId = jm_get0 ledger (colon accountId productId)"

definition totalForProduct :: "(string, int) jsmap \<Rightarrow> string \<Rightarrow> int" where
  "totalForProduct ledger productId =
     sum_list (map snd (filter (\<lambda>(key, _). ends_with key ('':'' @ productId)) ledger))"

definition addAsset :: "(string, int) jsmap \<Rightarrow> string \<Rightarrow> string \<Rightarrow> int \<Rightarrow> (string, int) jsmap outcome" where
  "addAsset ledger accountId productId delta =
     (let key = colon accountId productId;
          next = jm_get0 ledger key + delta
      in if 0 \<le> next then Inr (jm_set key next ledger) else Inl (Coded ''NEGATIVE_BALANCE''))"

definition add_assetBalance :: "string \<Rightarrow> string \<Rightarrow> int \<Rightarrow> unit cp" where
  "add_assetBalance accountId productId delta =
     withE (\<lambda>p. bindE (liftE (addAsset (assetBalances p) accountId productId delta))
       (\<lambda>l. modifyE (\<lambda>q. q\<lparr>assetBalances := l\<rparr>)))"

definition add_legalRegister :: "string \<Rightarrow> string \<Rightarrow> int \<Rightarrow> unit cp" where
  "add_legalRegister accountId productId delta =
     withE (\<lambda>p. bindE (liftE (addAsset (legalRegister p) accountId productId delta))
       (\<lambda>l. modifyE (\<lambda>q. q\<lparr>legalRegister := l\<rparr>)))"

section \<open>Signed statements\<close>

definition opt_field :: "string \<Rightarrow> string option \<Rightarrow> (string \<times> json) list" where
  "opt_field k v = (case v of None \<Rightarrow> [] | Some s \<Rightarrow> [(k, JStr s)])"

definition unsigned_credential :: "credential \<Rightarrow> json" where
  "unsigned_credential c = JObj (
     [(''id'', JStr (cred_id c)), (''productId'', JStr (cred_productId c)),
      (''issuerId'', JStr (cred_issuerId c)), (''subjectId'', JStr (cred_subjectId c)),
      (''investorClass'', JStr (cred_investorClass c)), (''jurisdiction'', JStr (cred_jurisdiction c)),
      (''maxUnits'', cred_maxUnits c), (''validFrom'', JStr (cred_validFrom c)),
      (''validUntil'', JStr (cred_validUntil c))] @ cred_extra c)"

definition unsigned_evidence :: "evidence \<Rightarrow> json" where
  "unsigned_evidence ev = JObj (
     [(''id'', JStr (ev_id ev)), (''productId'', JStr (ev_productId ev)),
      (''dataType'', JStr (ev_dataType ev)),
      (''sourceInstitutionId'', JStr (ev_sourceInstitutionId ev))]
     @ opt_field ''issuerId'' (ev_issuerId ev) @
     [(''trustTier'', JStr (ev_trustTier ev)), (''schemaVersion'', JStr (ev_schemaVersion ev)),
      (''effectiveAt'', JStr (ev_effectiveAt ev)), (''expiresAt'', JStr (ev_expiresAt ev)),
      (''payload'', ev_payload ev)])"

definition verifyStatement :: "host \<Rightarrow> string \<Rightarrow> json \<Rightarrow> string \<Rightarrow> bool cp" where
  \<comment> \<open>the signer's id is \<open>statement.issuerId ?? statement.sourceInstitutionId\<close>\<close>
  "verifyStatement h institutionId body signature =
     withE (\<lambda>p. case jm_get (institutions p) institutionId of
         None \<Rightarrow> retE False
       | Some i \<Rightarrow> if signature = [] then retE False
           else optE (h_verify h (inst_publicKeyPem i) (canonicalize body) signature) (Native ''Error''))"

definition verify_credential :: "host \<Rightarrow> credential \<Rightarrow> bool cp" where
  "verify_credential h c = verifyStatement h (cred_issuerId c) (unsigned_credential c) (cred_signature c)"

definition evidence_signer :: "evidence \<Rightarrow> string" where
  "evidence_signer ev = (case ev_issuerId ev of Some i \<Rightarrow> i | None \<Rightarrow> ev_sourceInstitutionId ev)"

definition verify_evidence :: "host \<Rightarrow> evidence \<Rightarrow> bool cp" where
  "verify_evidence h ev = verifyStatement h (evidence_signer ev) (unsigned_evidence ev) (ev_signature ev)"

end
