(* ===== verification/CpPolicy.thy ===== *)
theory CpPolicy
  imports CpState
begin

text \<open>
  The policy checks of the settlement handlers: credential status, eligibility, exit permission,
  the evidence in force, the policy snapshot; and the pieces every settlement is built from:
  lifecycle transitions, the sandbox cash journal, idempotency and the attempt wrapper.
\<close>

text \<open>
  What a transaction discloses: the evidence package with its hash, and the public receipt
  (\<open>transactionEvidencePackage\<close> and \<open>publicReceipt\<close> of \<open>src/control-plane.js\<close>).
\<close>

definition opt_null :: "string option \<Rightarrow> json" where
  "opt_null v = (case v of None \<Rightarrow> JNull | Some s \<Rightarrow> JStr s)"

definition creation_states :: "string list" where
  "creation_states = [''REQUESTED'', ''POLICY_CHECKED'', ''CASH_RESERVED'', ''REGISTER_PENDING'',
     ''REGISTER_FAILED'', ''REQUIRES_REVIEW'', ''SETTLED'']"

definition lifecycle_at_creation :: "lifecycle \<Rightarrow> lifecycle" where
  "lifecycle_at_creation lc = filter (\<lambda>(state, _). state \<in> set creation_states) lc"

definition state_at_creation :: "transaction \<Rightarrow> string" where
  "state_at_creation t =
     (case tx_settledAt t of
        Some s \<Rightarrow> if s \<noteq> [] then ''SETTLED'' else ''REQUIRES_REVIEW''
      | None \<Rightarrow> ''REQUIRES_REVIEW'')"

definition immutable_core :: "transaction \<Rightarrow> cash_settlement option \<Rightarrow> json" where
  "immutable_core t cash = JObj
     [(''schemaVersion'', JStr ''1.0.0-sandbox''),
      (''transaction'', JObj
        [(''id'', JStr (tx_id t)), (''productId'', JStr (tx_productId t)), (''type'', JStr (tx_type t)),
         (''stateAtCreation'', JStr (state_at_creation t)),
         (''ruleVersion'', JNum (int (tx_ruleVersion t))),
         (''navEvidenceId'', JStr (tx_navEvidenceId t)),
         (''navEffectiveAt'', JStr (tx_navEffectiveAt t)),
         (''navExpiresAt'', JStr (tx_navExpiresAt t)),
         (''navSchemaVersion'', JStr (tx_navSchemaVersion t)),
         (''policySnapshotHash'', JStr (tx_policySnapshotHash t)),
         (''settlementMode'', JStr (tx_settlementMode t)),
         (''lifecycleAtCreation'', JArr (map (\<lambda>(state, at). JObj [(''state'', JStr state), (''at'', JStr at)])
            (lifecycle_at_creation (tx_lifecycle t))))]),
      (''cashControl'', case cash of
          None \<Rightarrow> JNull
        | Some c \<Rightarrow> JObj [(''state'', JStr (cs_state c)), (''source'', JStr (cs_source c)),
            (''confirmedAt'', JStr (cs_confirmedAt c))]),
      (''disclosure'', JStr ''NO_PARTIES_NO_AMOUNTS_NO_PRICES''),
      (''proofSystem'', JStr ''SANDBOX_NO_ZK_PROOF'')]"

record evidence_package =
  pk_core :: json
  pk_generatedAt :: string
  pk_packageHash :: string

definition transactionEvidencePackage :: "host \<Rightarrow> string \<Rightarrow> evidence_package cp" where
  "transactionEvidencePackage h transactionId =
     withE (\<lambda>p.
     bindE (optE (jm_get (transactions p) transactionId) (Coded ''UNKNOWN_TRANSACTION'')) (\<lambda>t.
     let core = immutable_core t (jm_get (cashSettlements p) transactionId) in
     bindE (now_iso h) (\<lambda>at.
     retE \<lparr>pk_core = core, pk_generatedAt = at, pk_packageHash = h_sha256 h (canonicalize core)\<rparr>)))"

definition publicReceipt :: "host \<Rightarrow> transaction \<Rightarrow> receipt cp" where
  "publicReceipt h t =
     bindE (transactionEvidencePackage h (tx_id t)) (\<lambda>pk.
     retE \<lparr>rc_transactionId = tx_id t, rc_productId = tx_productId t, rc_type = tx_type t,
       rc_state = tx_state t, rc_settledAt = tx_settledAt t, rc_navEvidenceId = tx_navEvidenceId t,
       rc_ruleVersion = tx_ruleVersion t, rc_settlementMode = tx_settlementMode t,
       rc_lifecycle = map fst (tx_lifecycle t), rc_evidencePackageHash = pk_packageHash pk,
       rc_sandboxCommitment = tx_sandboxCommitment t, rc_proofSystem = ''SANDBOX_NO_ZK_PROOF'',
       rc_exceptionCaseId = None, rc_reasonCode = None\<rparr>)"


section \<open>Credentials\<close>

definition credentialStatus :: "host \<Rightarrow> string \<Rightarrow> string cp" where
  "credentialStatus h credentialId =
     withE (\<lambda>p. case jm_get (credentialRestrictions p) credentialId of
       Some r \<Rightarrow> retE (restr_status r)
     | None \<Rightarrow>
        (case jm_get (credentials p) credentialId of
           None \<Rightarrow> retE ''UNKNOWN''
         | Some c \<Rightarrow>
             bindE (now h) (\<lambda>t1.
             if date_gt (h_date h (cred_validFrom c)) (Some t1) then retE ''PENDING''
             else bindE (now h) (\<lambda>t2.
               if date_le (h_date h (cred_validUntil c)) (Some t2) then retE ''EXPIRED''
               else retE ''ACTIVE''))))"

definition assertEligible :: "host \<Rightarrow> product \<Rightarrow> string \<Rightarrow> string \<Rightarrow> int \<Rightarrow> unit cp" where
  "assertEligible h product investorId credentialId additionalUnits =
     withE (\<lambda>p.
     bindE (optE (jm_get (credentials p) credentialId) (Coded ''UNKNOWN_CREDENTIAL'')) (\<lambda>credential.
     bindE (credentialStatus h credentialId) (\<lambda>status.
     thenE (ensureE (status \<noteq> ''RESTRICTED_EXIT'') ''CREDENTIAL_REVOKED'')
    (thenE (ensureE (status = ''ACTIVE'') ''CREDENTIAL_TIME'')
    (thenE (ensureE (cred_productId credential = prod_id product) ''CREDENTIAL_SCOPE'')
    (thenE (ensureE (cred_subjectId credential = investorId) ''CREDENTIAL_SUBJECT'')
    (bindE (verify_credential h credential) (\<lambda>ok.
     thenE (ensureE ok ''INVALID_SIGNATURE'')
    (bindE (now h) (\<lambda>t.
     thenE (ensureE (date_le (h_date h (cred_validFrom credential)) (Some t)
       \<and> date_gt (h_date h (cred_validUntil credential)) (Some t)) ''CREDENTIAL_TIME'')
    (thenE (ensureE (JStr (cred_investorClass credential)
       \<in> set (jelems (jfield (prod_rules product) ''allowedInvestorClasses''))) ''INVESTOR_CLASS'')
    (thenE (ensureE (JStr (cred_jurisdiction credential)
       \<in> set (jelems (jfield (prod_rules product) ''allowedJurisdictions''))) ''INVESTOR_JURISDICTION'')
    (bindE (liftE (to_bigint (cred_maxUnits credential))) (\<lambda>maxUnits.
     ensureE (assetOf (assetBalances p) investorId (prod_id product) + additionalUnits \<le> maxUnits)
       ''HOLDING_LIMIT''))))))))))))))"

definition assertExitAllowed :: "host \<Rightarrow> product \<Rightarrow> string \<Rightarrow> string \<Rightarrow> string cp" where
  "assertExitAllowed h product investorId credentialId =
     withE (\<lambda>p.
     bindE (optE (jm_get (credentials p) credentialId) (Coded ''UNKNOWN_CREDENTIAL'')) (\<lambda>credential.
     thenE (ensureE (cred_productId credential = prod_id product) ''CREDENTIAL_SCOPE'')
    (thenE (ensureE (cred_subjectId credential = investorId) ''CREDENTIAL_SUBJECT'')
    (bindE (verify_credential h credential) (\<lambda>ok.
     thenE (ensureE ok ''INVALID_SIGNATURE'')
    (bindE (credentialStatus h credentialId) (\<lambda>status.
     thenE (ensureE (status \<noteq> ''FROZEN'') ''CREDENTIAL_FROZEN'')
    (thenE (ensureE (status = ''ACTIVE'' \<or> status = ''RESTRICTED_EXIT'') ''EXIT_NOT_ALLOWED'')
    (retE status)))))))))"

section \<open>Evidence in force and policy snapshot\<close>

definition date_ms :: "host \<Rightarrow> string \<Rightarrow> int" where
  "date_ms h s = (case h_date h s of None \<Rightarrow> 0 | Some t \<Rightarrow> t)"

definition evidence_in_force :: "host \<Rightarrow> product \<Rightarrow> string \<Rightarrow> evidence \<Rightarrow> bool cp" where
  "evidence_in_force h product dataType ev =
     (if ev_productId ev = prod_id product \<and> ev_dataType ev = dataType \<and> ev_status ev = ''ACTIVE''
      then bindE (now h) (\<lambda>t. retE (date_le (h_date h (ev_effectiveAt ev)) (Some t)))
      else retE False)"

definition currentEvidence :: "host \<Rightarrow> product \<Rightarrow> string \<Rightarrow> evidence cp" where
  \<comment> \<open>the sort is stable and latest first, so \<open>sort_key\<close> on the negated time\<close>
  "currentEvidence h product dataType =
     withE (\<lambda>p.
     bindE (filterE (evidence_in_force h product dataType) (jm_values (evidences p))) (\<lambda>found.
     let candidates = sort_key (\<lambda>ev. - date_ms h (ev_effectiveAt ev)) found in
     case candidates of
       [] \<Rightarrow> throwE (Coded ''MISSING_EVIDENCE'')
     | ev # _ \<Rightarrow>
         bindE (now h) (\<lambda>t.
         thenE (ensureE (date_gt (h_date h (ev_expiresAt ev)) (Some t)) ''EVIDENCE_EXPIRED'')
        (retE ev))))"

record policy_snapshot =
  ps_ruleVersion :: nat
  ps_navEvidenceId :: string
  ps_navEffectiveAt :: string
  ps_navExpiresAt :: string
  ps_navSchemaVersion :: string
  ps_policySnapshotHash :: string

definition snapshot_json :: "product \<Rightarrow> evidence \<Rightarrow> json" where
  "snapshot_json product nav = JObj
     [(''ruleVersion'', JNum (int (prod_ruleVersion product))), (''rules'', prod_rules product),
      (''navEvidenceId'', JStr (ev_id nav)), (''navEffectiveAt'', JStr (ev_effectiveAt nav)),
      (''navExpiresAt'', JStr (ev_expiresAt nav)), (''navSchemaVersion'', JStr (ev_schemaVersion nav))]"

definition policySnapshot :: "host \<Rightarrow> product \<Rightarrow> evidence \<Rightarrow> policy_snapshot" where
  "policySnapshot h product nav =
     \<lparr>ps_ruleVersion = prod_ruleVersion product, ps_navEvidenceId = ev_id nav,
      ps_navEffectiveAt = ev_effectiveAt nav, ps_navExpiresAt = ev_expiresAt nav,
      ps_navSchemaVersion = ev_schemaVersion nav,
      ps_policySnapshotHash = h_sha256 h (canonicalize (snapshot_json product nav))\<rparr>"

section \<open>Transactions\<close>

record tx_data =
  td_id :: string
  td_type :: string
  td_productId :: string
  td_sellerId :: "string option"
  td_buyerId :: "string option"
  td_units :: int
  td_pricePerUnit :: "int option"
  td_cashAmount :: int
  td_fee :: "int option"
  td_expiresAt :: "string option"
  td_snapshot :: policy_snapshot
  td_settlementMode :: string

definition private_body :: "tx_data \<Rightarrow> json" where
  "private_body d = (let s = td_snapshot d in JObj (
     [(''id'', JStr (td_id d)), (''type'', JStr (td_type d)), (''productId'', JStr (td_productId d))]
     @ opt_field ''sellerId'' (td_sellerId d) @ opt_field ''buyerId'' (td_buyerId d)
     @ [(''units'', JStr (int_text (td_units d)))]
     @ opt_field ''pricePerUnit'' (map_option int_text (td_pricePerUnit d))
     @ [(''cashAmount'', JStr (int_text (td_cashAmount d)))]
     @ opt_field ''fee'' (map_option int_text (td_fee d))
     @ opt_field ''expiresAt'' (td_expiresAt d)
     @ [(''ruleVersion'', JNum (int (ps_ruleVersion s))), (''navEvidenceId'', JStr (ps_navEvidenceId s)),
        (''navEffectiveAt'', JStr (ps_navEffectiveAt s)), (''navExpiresAt'', JStr (ps_navExpiresAt s)),
        (''navSchemaVersion'', JStr (ps_navSchemaVersion s)),
        (''policySnapshotHash'', JStr (ps_policySnapshotHash s)),
        (''settlementMode'', JStr (td_settlementMode d))]))"

definition make_transaction ::
  "tx_data \<Rightarrow> string \<Rightarrow> string option \<Rightarrow> lifecycle \<Rightarrow> string \<Rightarrow> transaction" where
  "make_transaction d state settledAt lifecycle commitment = (let s = td_snapshot d in
     \<lparr>tx_id = td_id d, tx_type = td_type d, tx_productId = td_productId d,
      tx_sellerId = td_sellerId d, tx_buyerId = td_buyerId d, tx_units = int_text (td_units d),
      tx_pricePerUnit = map_option int_text (td_pricePerUnit d),
      tx_cashAmount = int_text (td_cashAmount d), tx_fee = map_option int_text (td_fee d),
      tx_expiresAt = td_expiresAt d, tx_ruleVersion = ps_ruleVersion s,
      tx_navEvidenceId = ps_navEvidenceId s, tx_navEffectiveAt = ps_navEffectiveAt s,
      tx_navExpiresAt = ps_navExpiresAt s, tx_navSchemaVersion = ps_navSchemaVersion s,
      tx_policySnapshotHash = ps_policySnapshotHash s, tx_settlementMode = td_settlementMode d,
      tx_state = state, tx_settledAt = settledAt, tx_lifecycle = lifecycle,
      tx_sandboxCommitment = commitment\<rparr>)"

definition transition :: "host \<Rightarrow> lifecycle \<Rightarrow> string \<Rightarrow> string \<Rightarrow> string \<Rightarrow> string \<Rightarrow> lifecycle cp" where
  \<comment> \<open>pushes onto the lifecycle array; the extended array is the result\<close>
  "transition h lifecycle state txId type productId =
     bindE (now_iso h) (\<lambda>at.
     thenE (record_event h ''transaction.state_changed''
       [(''transactionId'', JStr txId), (''productId'', JStr productId),
        (''transactionType'', JStr type), (''state'', JStr state)])
    (retE (lifecycle @ [(state, at)])))"

definition confirmSandboxCash :: "host \<Rightarrow> string \<Rightarrow> string \<Rightarrow> unit cp" where
  "confirmSandboxCash h transactionId productId =
     bindE (now_iso h) (\<lambda>at.
     thenE (modifyE (\<lambda>q. q\<lparr>cashSettlements := jm_set transactionId
       \<lparr>cs_transactionId = transactionId, cs_productId = productId, cs_state = ''CONFIRMED'',
        cs_source = ''SANDBOX_CASH_JOURNAL'', cs_confirmedAt = at\<rparr> (cashSettlements q)\<rparr>))
    (record_event h ''cash.sandbox_confirmed''
       [(''transactionId'', JStr transactionId), (''productId'', JStr productId),
        (''state'', JStr ''CONFIRMED'')]))"

definition completeTransaction :: "host \<Rightarrow> tx_data \<Rightarrow> lifecycle \<Rightarrow> transaction cp" where
  "completeTransaction h d lifecycle =
     withE (\<lambda>p.
     thenE (ensureE (\<not> jm_has (transactions p) (td_id d)) ''DUPLICATE_TRANSACTION'')
    (bindE (random_hex h) (\<lambda>salt.
     bindE (now_iso h) (\<lambda>settledAt.
     let commitment = h_sha256 h (colon (canonicalize (private_body d)) salt) in
     bindE (transition h lifecycle ''SETTLED'' (td_id d) (td_type d) (td_productId d)) (\<lambda>lc.
     let t = make_transaction d ''SETTLED'' (Some settledAt) lc commitment in
     thenE (modifyE (\<lambda>q. q\<lparr>transactions := jm_set (td_id d) t (transactions q)\<rparr>))
    (retE t))))))"

definition storeExceptionTransaction :: "host \<Rightarrow> tx_data \<Rightarrow> lifecycle \<Rightarrow> transaction cp" where
  "storeExceptionTransaction h d lifecycle =
     (let t = make_transaction d ''REQUIRES_REVIEW'' None lifecycle
        (h_sha256 h (colon (canonicalize (private_body d)) ''exception'')) in
      thenE (modifyE (\<lambda>q. q\<lparr>transactions := jm_set (td_id d) t (transactions q)\<rparr>))
     (retE t))"

definition assertNewTransaction :: "string \<Rightarrow> unit cp" where
  "assertNewTransaction txId =
     withE (\<lambda>p. ensureE (\<not> jm_has (transactions p) txId) ''DUPLICATE_TRANSACTION'')"

definition reject_attempt :: "host \<Rightarrow> string \<Rightarrow> string \<Rightarrow> string \<Rightarrow> js_error \<Rightarrow> 'a cp" where
  "reject_attempt h txId type productId e =
     thenE (record_event h ''transaction.rejected''
       [(''transactionId'', JStr txId), (''productId'', JStr productId),
        (''transactionType'', JStr type), (''state'', JStr ''REJECTED''),
        (''reasonCode'', JStr (error_code e))])
    (throwE e)"

definition runTransactionAttempt ::
  "host \<Rightarrow> string \<Rightarrow> string \<Rightarrow> string \<Rightarrow> (lifecycle \<Rightarrow> 'a cp) \<Rightarrow> 'a cp" where
  "runTransactionAttempt h txId type productId operation =
     bindE (transition h [] ''REQUESTED'' txId type productId) (\<lambda>lifecycle.
     catchE (operation lifecycle) (reject_attempt h txId type productId))"

definition idempotent :: "host \<Rightarrow> string \<Rightarrow> json \<Rightarrow> receipt cp \<Rightarrow> receipt cp" where
  "idempotent h key request operation =
     thenE (ensureE (key \<noteq> []) ''MISSING_IDEMPOTENCY_KEY'')
    (let fingerprint = h_sha256 h (canonicalize request) in
     withE (\<lambda>p. case jm_get (idempotency p) key of
       Some (previous, result) \<Rightarrow>
         thenE (ensureE (previous = fingerprint) ''IDEMPOTENCY_CONFLICT'') (retE result)
     | None \<Rightarrow>
         bindE operation (\<lambda>result.
         thenE (modifyE (\<lambda>q. q\<lparr>idempotency := jm_set key (fingerprint, result) (idempotency q)\<rparr>))
        (retE result))))"

section \<open>The cash ledger\<close>

definition cash_key :: "string \<Rightarrow> product \<Rightarrow> string" where
  \<comment> \<open>the template \<open>`${account}:${product.rules.currency}`\<close>\<close>
  "cash_key account product = colon account (js_to_string (jfield (prod_rules product) ''currency''))"

definition cash_debit :: "string \<Rightarrow> int \<Rightarrow> unit cp" where
  \<comment> \<open>\<open>set(key, get(key) - amount)\<close>: a missing key makes the subtraction throw\<close>
  "cash_debit key amount =
     withE (\<lambda>p. bindE (optE (jm_get (cashBalances p) key) (Native ''TypeError'')) (\<lambda>b.
       modifyE (\<lambda>q. q\<lparr>cashBalances := jm_set key (b - amount) (cashBalances q)\<rparr>)))"

definition cash_credit :: "string \<Rightarrow> int \<Rightarrow> unit cp" where
  \<comment> \<open>\<open>set(key, (get(key) ?? 0n) + amount)\<close>\<close>
  "cash_credit key amount =
     withE (\<lambda>p. modifyE (\<lambda>q. q\<lparr>cashBalances :=
       jm_set key (jm_get0 (cashBalances p) key + amount) (cashBalances q)\<rparr>))"

end
