(* ===== verification/CpSettlement.thy ===== *)
theory CpSettlement
  imports CpPolicy
begin

text \<open>
  The settlement handlers of \<open>src/control-plane.js\<close>: \<open>subscribe\<close>, \<open>transfer\<close>, \<open>redeem\<close> and
  \<open>simulateRegisterFailure\<close>. Each is the checks in the code's order, which read the state and the
  clock only, followed by the effects: the cash and unit ledgers, the cash journal, the
  transaction and the receipt. \<open>transfer\<close> and \<open>simulateRegisterFailure\<close> run the same checks,
  which are \<open>transfer_checks\<close> here.
\<close>

section \<open>Requests\<close>

record subscribe_request =
  sr_id :: string
  sr_idempotencyKey :: string
  sr_productId :: string
  sr_investorId :: string
  sr_credentialId :: string
  sr_units :: json
  sr_cashAmount :: json

record transfer_request =
  tr_id :: string
  tr_idempotencyKey :: string
  tr_productId :: string
  tr_sellerId :: string
  tr_sellerCredentialId :: string
  tr_buyerId :: string
  tr_buyerCredentialId :: string
  tr_units :: json
  tr_pricePerUnit :: json
  tr_fee :: json
  tr_expiresAt :: string

record redeem_request =
  rr_id :: string
  rr_idempotencyKey :: string
  rr_productId :: string
  rr_investorId :: string
  rr_credentialId :: string
  rr_units :: json

definition subscribe_json :: "subscribe_request \<Rightarrow> json" where
  "subscribe_json r = JObj
     [(''id'', JStr (sr_id r)), (''productId'', JStr (sr_productId r)),
      (''investorId'', JStr (sr_investorId r)), (''credentialId'', JStr (sr_credentialId r)),
      (''units'', sr_units r), (''cashAmount'', sr_cashAmount r)]"

definition default_fee :: "json \<Rightarrow> json" where
  \<comment> \<open>the parameter default \<open>fee = "0"\<close>\<close>
  "default_fee v = (if v = JUndefined then JStr ''0'' else v)"

definition transfer_json :: "transfer_request \<Rightarrow> json" where
  "transfer_json r = JObj
     [(''id'', JStr (tr_id r)), (''productId'', JStr (tr_productId r)),
      (''sellerId'', JStr (tr_sellerId r)), (''sellerCredentialId'', JStr (tr_sellerCredentialId r)),
      (''buyerId'', JStr (tr_buyerId r)), (''buyerCredentialId'', JStr (tr_buyerCredentialId r)),
      (''units'', tr_units r), (''pricePerUnit'', tr_pricePerUnit r), (''fee'', default_fee (tr_fee r)),
      (''expiresAt'', JStr (tr_expiresAt r))]"

definition redeem_json :: "redeem_request \<Rightarrow> json" where
  "redeem_json r = JObj
     [(''id'', JStr (rr_id r)), (''productId'', JStr (rr_productId r)),
      (''investorId'', JStr (rr_investorId r)), (''credentialId'', JStr (rr_credentialId r)),
      (''units'', rr_units r)]"

section \<open>Subscription\<close>

definition subscribe_checks :: "host \<Rightarrow> subscribe_request \<Rightarrow> (product \<times> evidence \<times> int \<times> int) cp" where
  "subscribe_checks h r =
     thenE (assertNewTransaction (sr_id r))
    (bindE (activeProduct (sr_productId r)) (\<lambda>product.
     bindE (liftE (toNonNegativeInteger (sr_units r))) (\<lambda>unitCount.
     bindE (liftE (toNonNegativeInteger (sr_cashAmount r))) (\<lambda>amount.
     thenE (ensureE (0 < unitCount) ''INVALID_AMOUNT'')
    (thenE (assertEligible h product (sr_investorId r) (sr_credentialId r) unitCount)
    (bindE (currentEvidence h product ''nav'') (\<lambda>nav.
     bindE (liftE (to_bigint (jfield (ev_payload nav) ''navPerUnit''))) (\<lambda>navPrice.
     thenE (ensureE (amount = unitCount * navPrice) ''PRICE_MISMATCH'')
    (withE (\<lambda>p.
     thenE (ensureE (amount \<le> jm_get0 (cashBalances p) (cash_key (sr_investorId r) product))
       ''INSUFFICIENT_CASH'')
    (retE (product, nav, unitCount, amount))))))))))))"

definition subscribe_data ::
  "host \<Rightarrow> subscribe_request \<Rightarrow> product \<Rightarrow> evidence \<Rightarrow> int \<Rightarrow> int \<Rightarrow> tx_data" where
  "subscribe_data h r product nav unitCount amount =
     \<lparr>td_id = sr_id r, td_type = ''SUBSCRIBE'', td_productId = sr_productId r, td_sellerId = None,
      td_buyerId = Some (sr_investorId r), td_units = unitCount, td_pricePerUnit = None,
      td_cashAmount = amount, td_fee = None, td_expiresAt = None,
      td_snapshot = policySnapshot h product nav, td_settlementMode = ''STANDARD''\<rparr>"

definition subscribe_effects ::
  "host \<Rightarrow> subscribe_request \<Rightarrow> lifecycle \<Rightarrow> product \<Rightarrow> evidence \<Rightarrow> int \<Rightarrow> int \<Rightarrow> receipt cp" where
  "subscribe_effects h r lc0 product nav unitCount amount =
     bindE (transition h lc0 ''POLICY_CHECKED'' (sr_id r) ''SUBSCRIBE'' (sr_productId r)) (\<lambda>lc1.
     bindE (transition h lc1 ''CASH_RESERVED'' (sr_id r) ''SUBSCRIBE'' (sr_productId r)) (\<lambda>lc2.
     thenE (cash_debit (cash_key (sr_investorId r) product) amount)
    (thenE (cash_credit (cash_key (prod_issuerId product) product) amount)
    (thenE (confirmSandboxCash h (sr_id r) (sr_productId r))
    (bindE (transition h lc2 ''REGISTER_PENDING'' (sr_id r) ''SUBSCRIBE'' (sr_productId r)) (\<lambda>lc3.
     thenE (add_assetBalance (sr_investorId r) (sr_productId r) unitCount)
    (thenE (add_legalRegister (sr_investorId r) (sr_productId r) unitCount)
    (bindE (completeTransaction h (subscribe_data h r product nav unitCount amount) lc3) (\<lambda>t.
     thenE (record_event h ''subscription.settled''
       [(''transactionId'', JStr (sr_id r)), (''productId'', JStr (sr_productId r))])
    (publicReceipt h t))))))))))"

definition subscribe :: "host \<Rightarrow> subscribe_request \<Rightarrow> receipt cp" where
  "subscribe h r =
     idempotent h (sr_idempotencyKey r) (subscribe_json r)
       (runTransactionAttempt h (sr_id r) ''SUBSCRIBE'' (sr_productId r) (\<lambda>lifecycle.
         bindE (subscribe_checks h r) (\<lambda>(product, nav, unitCount, amount).
         subscribe_effects h r lifecycle product nav unitCount amount)))"

section \<open>Transfer\<close>

record transfer_plan =
  tp_product :: product
  tp_units :: int
  tp_price :: int
  tp_fee :: int
  tp_nav :: evidence
  tp_consideration :: int

definition price_deviation :: "int \<Rightarrow> int \<Rightarrow> int" where
  "price_deviation price navPrice = (if navPrice < price then price - navPrice else navPrice - price)"

definition transfer_checks :: "host \<Rightarrow> transfer_request \<Rightarrow> transfer_plan cp" where
  "transfer_checks h r =
     thenE (assertNewTransaction (tr_id r))
    (bindE (activeProduct (tr_productId r)) (\<lambda>product.
     bindE (now h) (\<lambda>t.
     thenE (ensureE (date_gt (h_date h (tr_expiresAt r)) (Some t)) ''TRANSACTION_EXPIRED'')
    (bindE (liftE (toNonNegativeInteger (tr_units r))) (\<lambda>unitCount.
     bindE (liftE (toNonNegativeInteger (tr_pricePerUnit r))) (\<lambda>price.
     bindE (liftE (toNonNegativeInteger (default_fee (tr_fee r)))) (\<lambda>feeAmount.
     thenE (ensureE (0 < unitCount \<and> 0 < price) ''INVALID_AMOUNT'')
    (thenE (ensureE (tr_sellerId r \<noteq> tr_buyerId r) ''SELF_TRANSFER'')
    (withE (\<lambda>p.
     thenE (ensureE (unitCount \<le> assetOf (assetBalances p) (tr_sellerId r) (tr_productId r))
       ''INSUFFICIENT_ASSET'')
    (thenE (assertEligible h product (tr_sellerId r) (tr_sellerCredentialId r) 0)
    (thenE (assertEligible h product (tr_buyerId r) (tr_buyerCredentialId r) unitCount)
    (bindE (currentEvidence h product ''nav'') (\<lambda>nav.
     bindE (liftE (to_bigint (jfield (ev_payload nav) ''navPerUnit''))) (\<lambda>navPrice.
     bindE (liftE (to_bigint (jfield (prod_rules product) ''maxPriceDeviationBps''))) (\<lambda>maxBps.
     thenE (ensureE (price_deviation price navPrice * 10000 \<le> navPrice * maxBps) ''PRICE_DEVIATION'')
    (let consideration = unitCount * price in
     thenE (ensureE (consideration + feeAmount
         \<le> jm_get0 (cashBalances p) (cash_key (tr_buyerId r) product)) ''INSUFFICIENT_CASH'')
    (retE \<lparr>tp_product = product, tp_units = unitCount, tp_price = price, tp_fee = feeAmount,
       tp_nav = nav, tp_consideration = consideration\<rparr>))))))))))))))))))"

definition transfer_data :: "host \<Rightarrow> transfer_request \<Rightarrow> transfer_plan \<Rightarrow> string \<Rightarrow> tx_data" where
  "transfer_data h r tp mode =
     \<lparr>td_id = tr_id r, td_type = ''TRANSFER'', td_productId = tr_productId r,
      td_sellerId = Some (tr_sellerId r), td_buyerId = Some (tr_buyerId r), td_units = tp_units tp,
      td_pricePerUnit = Some (tp_price tp), td_cashAmount = tp_consideration tp,
      td_fee = Some (tp_fee tp), td_expiresAt = Some (tr_expiresAt r),
      td_snapshot = policySnapshot h (tp_product tp) (tp_nav tp), td_settlementMode = mode\<rparr>"

definition transfer_effects ::
  "host \<Rightarrow> transfer_request \<Rightarrow> lifecycle \<Rightarrow> transfer_plan \<Rightarrow> receipt cp" where
  "transfer_effects h r lc0 tp =
     bindE (transition h lc0 ''POLICY_CHECKED'' (tr_id r) ''TRANSFER'' (tr_productId r)) (\<lambda>lc1.
     bindE (transition h lc1 ''CASH_RESERVED'' (tr_id r) ''TRANSFER'' (tr_productId r)) (\<lambda>lc2.
     thenE (cash_debit (cash_key (tr_buyerId r) (tp_product tp)) (tp_consideration tp + tp_fee tp))
    (thenE (cash_credit (cash_key (tr_sellerId r) (tp_product tp)) (tp_consideration tp))
    (thenE (cash_credit (cash_key (prod_issuerId (tp_product tp)) (tp_product tp)) (tp_fee tp))
    (thenE (confirmSandboxCash h (tr_id r) (tr_productId r))
    (bindE (transition h lc2 ''REGISTER_PENDING'' (tr_id r) ''TRANSFER'' (tr_productId r)) (\<lambda>lc3.
     thenE (add_assetBalance (tr_sellerId r) (tr_productId r) (- tp_units tp))
    (thenE (add_assetBalance (tr_buyerId r) (tr_productId r) (tp_units tp))
    (thenE (add_legalRegister (tr_sellerId r) (tr_productId r) (- tp_units tp))
    (thenE (add_legalRegister (tr_buyerId r) (tr_productId r) (tp_units tp))
    (bindE (completeTransaction h (transfer_data h r tp ''STANDARD'') lc3) (\<lambda>t.
     thenE (record_event h ''transfer.settled''
       [(''transactionId'', JStr (tr_id r)), (''productId'', JStr (tr_productId r))])
    (publicReceipt h t)))))))))))))"

definition transfer :: "host \<Rightarrow> transfer_request \<Rightarrow> receipt cp" where
  "transfer h r =
     idempotent h (tr_idempotencyKey r) (transfer_json r)
       (runTransactionAttempt h (tr_id r) ''TRANSFER'' (tr_productId r) (\<lambda>lifecycle.
         bindE (transfer_checks h r) (transfer_effects h r lifecycle)))"

section \<open>Redemption\<close>

record redeem_plan =
  rp_product :: product
  rp_unitCount :: int
  rp_credentialStatus :: string
  rp_nav :: evidence
  rp_cashAmount :: int

definition redeem_checks :: "host \<Rightarrow> redeem_request \<Rightarrow> redeem_plan cp" where
  "redeem_checks h r =
     thenE (assertNewTransaction (rr_id r))
    (bindE (activeProduct (rr_productId r)) (\<lambda>product.
     bindE (liftE (toNonNegativeInteger (rr_units r))) (\<lambda>unitCount.
     thenE (ensureE (0 < unitCount) ''INVALID_AMOUNT'')
    (bindE (assertExitAllowed h product (rr_investorId r) (rr_credentialId r)) (\<lambda>credentialStatus.
     withE (\<lambda>p.
     thenE (ensureE (unitCount \<le> assetOf (assetBalances p) (rr_investorId r) (rr_productId r))
       ''INSUFFICIENT_ASSET'')
    (bindE (currentEvidence h product ''nav'') (\<lambda>nav.
     bindE (liftE (to_bigint (jfield (ev_payload nav) ''navPerUnit''))) (\<lambda>navPrice.
     let cashAmount = unitCount * navPrice in
     thenE (ensureE (cashAmount \<le> jm_get0 (cashBalances p) (cash_key (prod_issuerId product) product))
       ''INSUFFICIENT_REDEMPTION_CASH'')
    (retE \<lparr>rp_product = product, rp_unitCount = unitCount, rp_credentialStatus = credentialStatus,
       rp_nav = nav, rp_cashAmount = cashAmount\<rparr>))))))))))"

definition redeem_mode :: "redeem_plan \<Rightarrow> string" where
  "redeem_mode rp =
     (if rp_credentialStatus rp = ''RESTRICTED_EXIT'' then ''RESTRICTED_EXIT'' else ''STANDARD'')"

definition redeem_data :: "host \<Rightarrow> redeem_request \<Rightarrow> redeem_plan \<Rightarrow> tx_data" where
  "redeem_data h r rp =
     \<lparr>td_id = rr_id r, td_type = ''REDEEM'', td_productId = rr_productId r,
      td_sellerId = Some (rr_investorId r), td_buyerId = None, td_units = rp_unitCount rp,
      td_pricePerUnit = None, td_cashAmount = rp_cashAmount rp, td_fee = None, td_expiresAt = None,
      td_snapshot = policySnapshot h (rp_product rp) (rp_nav rp), td_settlementMode = redeem_mode rp\<rparr>"

definition redeem_effects :: "host \<Rightarrow> redeem_request \<Rightarrow> lifecycle \<Rightarrow> redeem_plan \<Rightarrow> receipt cp" where
  "redeem_effects h r lc0 rp =
     bindE (transition h lc0 ''POLICY_CHECKED'' (rr_id r) ''REDEEM'' (rr_productId r)) (\<lambda>lc1.
     bindE (transition h lc1 ''CASH_RESERVED'' (rr_id r) ''REDEEM'' (rr_productId r)) (\<lambda>lc2.
     thenE (add_assetBalance (rr_investorId r) (rr_productId r) (- rp_unitCount rp))
    (thenE (add_legalRegister (rr_investorId r) (rr_productId r) (- rp_unitCount rp))
    (thenE (cash_debit (cash_key (prod_issuerId (rp_product rp)) (rp_product rp)) (rp_cashAmount rp))
    (thenE (cash_credit (cash_key (rr_investorId r) (rp_product rp)) (rp_cashAmount rp))
    (thenE (confirmSandboxCash h (rr_id r) (rr_productId r))
    (bindE (transition h lc2 ''REGISTER_PENDING'' (rr_id r) ''REDEEM'' (rr_productId r)) (\<lambda>lc3.
     bindE (completeTransaction h (redeem_data h r rp) lc3) (\<lambda>t.
     thenE (record_event h
       (if rp_credentialStatus rp = ''RESTRICTED_EXIT'' then ''redemption.restricted_exit_settled''
        else ''redemption.settled'')
       [(''transactionId'', JStr (rr_id r)), (''productId'', JStr (rr_productId r))])
    (publicReceipt h t))))))))))"

definition redeem :: "host \<Rightarrow> redeem_request \<Rightarrow> receipt cp" where
  "redeem h r =
     idempotent h (rr_idempotencyKey r) (redeem_json r)
       (runTransactionAttempt h (rr_id r) ''REDEEM'' (rr_productId r) (\<lambda>lifecycle.
         bindE (redeem_checks h r) (redeem_effects h r lifecycle)))"

section \<open>Register failure\<close>

definition retry_payload_of :: "transfer_request \<Rightarrow> transfer_plan \<Rightarrow> retry_payload" where
  "retry_payload_of r tp =
     \<lparr>rp_productId = tr_productId r, rp_sellerId = tr_sellerId r,
      rp_sellerCredentialId = tr_sellerCredentialId r, rp_buyerId = tr_buyerId r,
      rp_buyerCredentialId = tr_buyerCredentialId r, rp_units = int_text (tp_units tp),
      rp_pricePerUnit = int_text (tp_price tp), rp_fee = int_text (tp_fee tp),
      rp_expiresAt = tr_expiresAt r\<rparr>"

definition register_failure_effects ::
  "host \<Rightarrow> transfer_request \<Rightarrow> lifecycle \<Rightarrow> transfer_plan \<Rightarrow> receipt cp" where
  "register_failure_effects h r lc0 tp =
     bindE (transition h lc0 ''POLICY_CHECKED'' (tr_id r) ''TRANSFER'' (tr_productId r)) (\<lambda>lc1.
     bindE (transition h lc1 ''CASH_RESERVED'' (tr_id r) ''TRANSFER'' (tr_productId r)) (\<lambda>lc2.
     bindE (transition h lc2 ''REGISTER_FAILED'' (tr_id r) ''TRANSFER'' (tr_productId r)) (\<lambda>lc3.
     bindE (now_iso h) (\<lambda>releasedAt.
     thenE (modifyE (\<lambda>q. q\<lparr>cashSettlements := jm_set (tr_id r)
       \<lparr>cs_transactionId = tr_id r, cs_productId = tr_productId r, cs_state = ''RELEASED'',
        cs_source = ''SANDBOX_CASH_JOURNAL'', cs_confirmedAt = releasedAt\<rparr> (cashSettlements q)\<rparr>))
    (thenE (record_event h ''cash.reservation_released''
       [(''transactionId'', JStr (tr_id r)), (''productId'', JStr (tr_productId r)),
        (''state'', JStr ''RELEASED'')])
    (bindE (transition h lc3 ''REQUIRES_REVIEW'' (tr_id r) ''TRANSFER'' (tr_productId r)) (\<lambda>lc4.
     bindE (storeExceptionTransaction h (transfer_data h r tp ''EXCEPTION_REVIEW'') lc4) (\<lambda>t.
     bindE (now_iso h) (\<lambda>openedAt.
     let caseId = ''case-'' @ tr_id r in
     thenE (modifyE (\<lambda>q. q\<lparr>exceptionCases := jm_set caseId
       \<lparr>ec_id = caseId, ec_productId = tr_productId r, ec_transactionId = tr_id r,
        ec_status = ''OPEN'', ec_failureStage = ''REGISTER_PENDING'',
        ec_reasonCode = ''REGISTER_TIMEOUT'', ec_assignedRole = ''operations'',
        ec_openedAt = openedAt, ec_resolvedAt = None, ec_replacementTransactionId = None,
        ec_proposal = None, ec_retryPayload = retry_payload_of r tp, ec_checkedBy = None\<rparr>
       (exceptionCases q)\<rparr>))
    (thenE (record_event h ''exception.opened''
       [(''productId'', JStr (tr_productId r)), (''transactionId'', JStr (tr_id r)),
        (''state'', JStr ''OPEN''), (''reasonCode'', JStr ''REGISTER_TIMEOUT'')])
    (bindE (publicReceipt h t) (\<lambda>rc.
     retE (rc\<lparr>rc_exceptionCaseId := Some caseId, rc_reasonCode := Some ''REGISTER_TIMEOUT''\<rparr>)))))))))))))"

definition simulateRegisterFailure :: "host \<Rightarrow> transfer_request \<Rightarrow> receipt cp" where
  "simulateRegisterFailure h r =
     idempotent h (tr_idempotencyKey r) (transfer_json r)
       (runTransactionAttempt h (tr_id r) ''TRANSFER'' (tr_productId r) (\<lambda>lifecycle.
         bindE (transfer_checks h r) (register_failure_effects h r lifecycle)))"

end
