(* ===== verification/CpExceptions.thy ===== *)
theory CpExceptions
  imports CpSettlement
begin

text \<open>
  The exception handlers of \<open>src/control-plane.js\<close>: \<open>proposeExceptionResolution\<close> by a maker and
  \<open>approveExceptionResolution\<close> by a checker. The code mutates the case and the transaction it holds
  references to; here each mutation updates the object the map holds under its key, read again at
  that point.
\<close>

section \<open>Updates in place\<close>

definition update_case :: "string \<Rightarrow> (exception_case \<Rightarrow> exception_case) \<Rightarrow> unit cp" where
  "update_case caseId f = modifyE (\<lambda>q. case jm_get (exceptionCases q) caseId of
       None \<Rightarrow> q
     | Some c \<Rightarrow> q\<lparr>exceptionCases := jm_set caseId (f c) (exceptionCases q)\<rparr>)"

definition update_tx :: "string \<Rightarrow> (transaction \<Rightarrow> transaction) \<Rightarrow> unit cp" where
  "update_tx txId f = modifyE (\<lambda>q. case jm_get (transactions q) txId of
       None \<Rightarrow> q
     | Some t \<Rightarrow> q\<lparr>transactions := jm_set txId (f t) (transactions q)\<rparr>)"

definition transition_tx :: "host \<Rightarrow> string \<Rightarrow> string \<Rightarrow> unit cp" where
  \<comment> \<open>\<open>this.#transition(original.lifecycle, state, {...})\<close> on a stored transaction\<close>
  "transition_tx h txId state =
     withE (\<lambda>p. bindE (optE (jm_get (transactions p) txId) (Native ''TypeError'')) (\<lambda>original.
     bindE (transition h (tx_lifecycle original) state (tx_id original) (tx_type original)
       (tx_productId original)) (\<lambda>lc.
     update_tx txId (\<lambda>t. t\<lparr>tx_lifecycle := lc\<rparr>))))"

definition set_tx_state :: "string \<Rightarrow> string \<Rightarrow> unit cp" where
  \<comment> \<open>\<open>original.state = state\<close>: a missing transaction makes the assignment throw\<close>
  "set_tx_state txId state =
     withE (\<lambda>p. thenE (optE (map_option (\<lambda>_. ()) (jm_get (transactions p) txId)) (Native ''TypeError''))
       (update_tx txId (\<lambda>t. t\<lparr>tx_state := state\<rparr>)))"

definition get_case :: "string \<Rightarrow> exception_case cp" where
  "get_case caseId =
     withE (\<lambda>p. optE (jm_get (exceptionCases p) caseId) (Coded ''UNKNOWN_EXCEPTION''))"

section \<open>Maker\<close>

record propose_request =
  pq_caseId :: string
  pq_makerId :: string                              \<comment> \<open>empty when absent\<close>
  pq_decision :: string
  pq_replacementTransactionId :: "string option"    \<comment> \<open>\<open>null\<close> by default\<close>

definition truthy_opt :: "string option \<Rightarrow> bool" where
  "truthy_opt v = (case v of None \<Rightarrow> False | Some s \<Rightarrow> s \<noteq> [])"

record propose_result =
  pres_caseId :: string
  pres_state :: string
  pres_decision :: string
  pres_replacementTransactionId :: "string option"
  pres_makerId :: string

definition record_proposal :: "host \<Rightarrow> propose_request \<Rightarrow> exception_case \<Rightarrow> propose_result cp" where
  "record_proposal h r exceptionCase =
     thenE (update_case (pq_caseId r) (\<lambda>c. c\<lparr>ec_status := ''PENDING_APPROVAL''\<rparr>))
    (let txId = ec_transactionId exceptionCase in
     thenE (set_tx_state txId ''PENDING_APPROVAL'')
    (thenE (transition_tx h txId ''REVIEW_PROPOSED'')
    (bindE (now_iso h) (\<lambda>proposedAt.
     thenE (update_case (pq_caseId r) (\<lambda>c. c\<lparr>ec_proposal := Some
       \<lparr>pr_decision = pq_decision r, pr_replacementTransactionId = pq_replacementTransactionId r,
        pr_makerId = pq_makerId r, pr_proposedAt = proposedAt\<rparr>\<rparr>))
    (thenE (record_event h ''exception.resolution_proposed''
       [(''productId'', JStr (ec_productId exceptionCase)),
        (''transactionId'', JStr txId), (''state'', JStr ''PENDING_APPROVAL'')])
    (retE \<lparr>pres_caseId = pq_caseId r, pres_state = ''PENDING_APPROVAL'', pres_decision = pq_decision r,
       pres_replacementTransactionId = pq_replacementTransactionId r,
       pres_makerId = pq_makerId r\<rparr>))))))"

definition proposeExceptionResolution :: "host \<Rightarrow> propose_request \<Rightarrow> propose_result cp" where
  "proposeExceptionResolution h r =
     bindE (get_case (pq_caseId r)) (\<lambda>exceptionCase.
     thenE (ensureE (ec_status exceptionCase = ''OPEN'') ''EXCEPTION_NOT_OPEN'')
    (thenE (ensureE (pq_makerId r \<noteq> []) ''MISSING_MAKER'')
    (thenE (ensureE (pq_decision r = ''RETRY'' \<or> pq_decision r = ''CANCEL'') ''INVALID_DECISION'')
    (thenE (ensureE (pq_decision r \<noteq> ''RETRY'' \<or> truthy_opt (pq_replacementTransactionId r))
       ''MISSING_REPLACEMENT_ID'')
    (record_proposal h r exceptionCase)))))"

section \<open>Checker\<close>

record approve_result =
  ares_caseId :: string
  ares_state :: string
  ares_makerId :: string
  ares_checkerId :: string
  ares_replacement :: "receipt option"

definition retry_request :: "string \<Rightarrow> string option \<Rightarrow> retry_payload \<Rightarrow> transfer_request" where
  "retry_request caseId replacement rp = (let rid = (case replacement of Some s \<Rightarrow> s | None \<Rightarrow> ''null'') in
     \<lparr>tr_id = rid, tr_idempotencyKey = ''exception-retry:'' @ colon caseId rid,
      tr_productId = rp_productId rp, tr_sellerId = rp_sellerId rp,
      tr_sellerCredentialId = rp_sellerCredentialId rp, tr_buyerId = rp_buyerId rp,
      tr_buyerCredentialId = rp_buyerCredentialId rp, tr_units = JStr (rp_units rp),
      tr_pricePerUnit = JStr (rp_pricePerUnit rp), tr_fee = JStr (rp_fee rp),
      tr_expiresAt = rp_expiresAt rp\<rparr>)"

definition resolve_case :: "host \<Rightarrow> string \<Rightarrow> string \<Rightarrow> unit cp" where
  \<comment> \<open>\<open>resolvedAt\<close> and \<open>checkedBy\<close>, written at the end of both branches\<close>
  "resolve_case h caseId checkerId =
     bindE (now_iso h) (\<lambda>at.
     update_case caseId (\<lambda>c. c\<lparr>ec_resolvedAt := Some at, ec_checkedBy := Some checkerId\<rparr>))"

definition retry_blocked :: "host \<Rightarrow> string \<Rightarrow> exception_case \<Rightarrow> js_error \<Rightarrow> receipt cp" where
  "retry_blocked h caseId exceptionCase e = (let txId = ec_transactionId exceptionCase in
     thenE (update_case caseId (\<lambda>c. c\<lparr>ec_status := ''OPEN'', ec_proposal := None\<rparr>))
    (thenE (set_tx_state txId ''REQUIRES_REVIEW'')
    (thenE (transition_tx h txId ''RETRY_BLOCKED'')
    (thenE (record_event h ''exception.retry_blocked''
       [(''productId'', JStr (ec_productId exceptionCase)), (''transactionId'', JStr txId),
        (''state'', JStr ''OPEN''), (''reasonCode'', JStr (error_code e))])
    (throwE e)))))"

definition record_resolved :: "host \<Rightarrow> exception_case \<Rightarrow> string \<Rightarrow> unit cp" where
  "record_resolved h exceptionCase status =
     record_event h ''exception.resolved''
       [(''productId'', JStr (ec_productId exceptionCase)),
        (''transactionId'', JStr (ec_transactionId exceptionCase)), (''state'', JStr status)]"

definition resolve_cancelled ::
  "host \<Rightarrow> string \<Rightarrow> string \<Rightarrow> exception_case \<Rightarrow> proposal \<Rightarrow> approve_result cp" where
  "resolve_cancelled h caseId checkerId exceptionCase proposal =
     (let txId = ec_transactionId exceptionCase in
      thenE (set_tx_state txId ''CANCELLED'')
     (thenE (transition_tx h txId ''CANCELLED'')
     (thenE (update_case caseId (\<lambda>c. c\<lparr>ec_status := ''RESOLVED_CANCELLED''\<rparr>))
     (thenE (resolve_case h caseId checkerId)
     (thenE (record_resolved h exceptionCase ''RESOLVED_CANCELLED'')
     (retE \<lparr>ares_caseId = caseId, ares_state = ''RESOLVED_CANCELLED'',
        ares_makerId = pr_makerId proposal, ares_checkerId = checkerId, ares_replacement = None\<rparr>))))))"

definition resolve_retried ::
  "host \<Rightarrow> string \<Rightarrow> string \<Rightarrow> exception_case \<Rightarrow> proposal \<Rightarrow> receipt \<Rightarrow> approve_result cp" where
  "resolve_retried h caseId checkerId exceptionCase proposal receipt =
     (let txId = ec_transactionId exceptionCase in
      thenE (set_tx_state txId ''REPLACED'')
     (thenE (transition_tx h txId ''REPLACED'')
     (thenE (update_case caseId (\<lambda>c. c\<lparr>ec_status := ''RESOLVED_RETRIED'',
        ec_replacementTransactionId := pr_replacementTransactionId proposal\<rparr>))
     (thenE (resolve_case h caseId checkerId)
     (thenE (record_resolved h exceptionCase ''RESOLVED_RETRIED'')
     (retE \<lparr>ares_caseId = caseId, ares_state = ''RESOLVED_RETRIED'',
        ares_makerId = pr_makerId proposal, ares_checkerId = checkerId,
        ares_replacement = Some receipt\<rparr>))))))"

definition retry_transfer ::
  "host \<Rightarrow> string \<Rightarrow> exception_case \<Rightarrow> proposal \<Rightarrow> receipt cp" where
  "retry_transfer h caseId exceptionCase proposal =
     catchE (transfer h (retry_request caseId (pr_replacementTransactionId proposal)
         (ec_retryPayload exceptionCase)))
       (retry_blocked h caseId exceptionCase)"

definition approveExceptionResolution :: "host \<Rightarrow> string \<Rightarrow> string \<Rightarrow> approve_result cp" where
  "approveExceptionResolution h caseId checkerId =
     bindE (get_case caseId) (\<lambda>exceptionCase.
     thenE (ensureE (ec_status exceptionCase = ''PENDING_APPROVAL'') ''EXCEPTION_NOT_PENDING_APPROVAL'')
    (thenE (ensureE (checkerId \<noteq> []) ''MISSING_CHECKER'')
    (bindE (optE (ec_proposal exceptionCase) (Native ''TypeError'')) (\<lambda>proposal.
     thenE (ensureE (checkerId \<noteq> pr_makerId proposal) ''MAKER_CHECKER_CONFLICT'')
    (thenE (transition_tx h (ec_transactionId exceptionCase) ''REVIEW_APPROVED'')
    (if pr_decision proposal = ''CANCEL''
     then resolve_cancelled h caseId checkerId exceptionCase proposal
     else bindE (retry_transfer h caseId exceptionCase proposal)
       (resolve_retried h caseId checkerId exceptionCase proposal)))))))"

end
