(* ===== verification/CpViews.thy ===== *)
theory CpViews
  imports CpExceptions
begin

text \<open>
  The read side of \<open>src/control-plane.js\<close>: \<open>reconcile\<close> and \<open>viewForRole\<close>. A view is the JSON
  object the code returns, with its properties in the code's order.
\<close>

section \<open>Reconciliation\<close>

record reconciliation =
  rec_productId :: string
  rec_confidentialAssetUnits :: string
  rec_legalRegisterUnits :: string
  rec_assetRegisterMatched :: bool
  rec_cashExpectedCount :: nat
  rec_cashConfirmedCount :: nat
  rec_cashControlMode :: string
  rec_cashConfirmed :: bool
  rec_openExceptionCount :: nat
  rec_matched :: bool
  rec_overallStatus :: string
  rec_checkedAt :: string

definition settled_for :: "plane \<Rightarrow> string \<Rightarrow> transaction list" where
  "settled_for p productId =
     filter (\<lambda>t. tx_productId t = productId \<and> tx_state t = ''SETTLED'') (jm_values (transactions p))"

definition cash_confirmed :: "plane \<Rightarrow> transaction \<Rightarrow> bool" where
  "cash_confirmed p t =
     (case jm_get (cashSettlements p) (tx_id t) of None \<Rightarrow> False | Some c \<Rightarrow> cs_state c = ''CONFIRMED'')"

definition open_exceptions :: "plane \<Rightarrow> string \<Rightarrow> exception_case list" where
  "open_exceptions p productId =
     filter (\<lambda>c. ec_productId c = productId \<and> \<not> starts_with (ec_status c) ''RESOLVED_'')
       (jm_values (exceptionCases p))"

definition reconcile :: "host \<Rightarrow> string \<Rightarrow> reconciliation cp" where
  "reconcile h productId =
     thenE (get_product productId)
    (withE (\<lambda>p.
     let asset = totalForProduct (assetBalances p) productId;
         register = totalForProduct (legalRegister p) productId;
         settled = settled_for p productId;
         confirmed = filter (cash_confirmed p) settled;
         openCount = length (open_exceptions p productId);
         assetRegisterMatched = (asset = register);
         cashConfirmed = (length confirmed = length settled);
         accountingControlsMatched = (assetRegisterMatched \<and> cashConfirmed)
     in
     bindE (now_iso h) (\<lambda>at.
     retE \<lparr>rec_productId = productId, rec_confidentialAssetUnits = int_text asset,
       rec_legalRegisterUnits = int_text register, rec_assetRegisterMatched = assetRegisterMatched,
       rec_cashExpectedCount = length settled, rec_cashConfirmedCount = length confirmed,
       rec_cashControlMode = ''SANDBOX_JOURNAL_NOT_BANK_RECEIPT'', rec_cashConfirmed = cashConfirmed,
       rec_openExceptionCount = openCount, rec_matched = accountingControlsMatched,
       rec_overallStatus =
         (if \<not> accountingControlsMatched then ''RECONCILIATION_EXCEPTION''
          else if 0 < openCount then ''ATTENTION_REQUIRED'' else ''SANDBOX_CONTROLLED''),
       rec_checkedAt = at\<rparr>)))"

definition reconciliation_json :: "reconciliation \<Rightarrow> json" where
  "reconciliation_json r = JObj
     [(''productId'', JStr (rec_productId r)),
      (''confidentialAssetUnits'', JStr (rec_confidentialAssetUnits r)),
      (''legalRegisterUnits'', JStr (rec_legalRegisterUnits r)),
      (''assetRegisterMatched'', JBool (rec_assetRegisterMatched r)),
      (''cashExpectedCount'', JNum (int (rec_cashExpectedCount r))),
      (''cashConfirmedCount'', JNum (int (rec_cashConfirmedCount r))),
      (''cashControlMode'', JStr (rec_cashControlMode r)),
      (''cashConfirmed'', JBool (rec_cashConfirmed r)),
      (''openExceptionCount'', JNum (int (rec_openExceptionCount r))),
      (''matched'', JBool (rec_matched r)),
      (''overallStatus'', JStr (rec_overallStatus r)),
      (''checkedAt'', JStr (rec_checkedAt r))]"

section \<open>Rows of the views\<close>

definition evidence_row :: "host \<Rightarrow> evidence \<Rightarrow> json cp" where
  "evidence_row h ev =
     bindE (now h) (\<lambda>t1.
     bindE (if date_gt (h_date h (ev_effectiveAt ev)) (Some t1) then retE ''PENDING''
            else bindE (now h) (\<lambda>t2.
              retE (if date_gt (h_date h (ev_expiresAt ev)) (Some t2) then ev_status ev else ''EXPIRED''))) (\<lambda>status.
     retE (JObj
       [(''id'', JStr (ev_id ev)), (''dataType'', JStr (ev_dataType ev)),
        (''sourceInstitutionId'', JStr (ev_sourceInstitutionId ev)),
        (''trustTier'', JStr (ev_trustTier ev)), (''effectiveAt'', JStr (ev_effectiveAt ev)),
        (''expiresAt'', JStr (ev_expiresAt ev)), (''status'', JStr status)])))"

definition transaction_row :: "host \<Rightarrow> transaction \<Rightarrow> json cp" where
  "transaction_row h t =
     bindE (transactionEvidencePackage h (tx_id t)) (\<lambda>pk.
     retE (JObj
       [(''id'', JStr (tx_id t)), (''type'', JStr (tx_type t)), (''state'', JStr (tx_state t)),
        (''settledAt'', opt_null (tx_settledAt t)), (''settlementMode'', JStr (tx_settlementMode t)),
        (''evidencePackageHash'', JStr (pk_packageHash pk))]))"

definition exception_row :: "exception_case \<Rightarrow> json" where
  "exception_row c = JObj
     [(''id'', JStr (ec_id c)), (''transactionId'', JStr (ec_transactionId c)),
      (''status'', JStr (ec_status c)), (''failureStage'', JStr (ec_failureStage c)),
      (''reasonCode'', JStr (ec_reasonCode c)), (''assignedRole'', JStr (ec_assignedRole c)),
      (''openedAt'', JStr (ec_openedAt c)), (''resolvedAt'', opt_null (ec_resolvedAt c)),
      (''replacementTransactionId'', opt_null (ec_replacementTransactionId c)),
      (''proposedDecision'', opt_null (map_option pr_decision (ec_proposal c))),
      (''proposedBy'', opt_null (map_option pr_makerId (ec_proposal c))),
      (''checkedBy'', opt_null (ec_checkedBy c))]"

definition restriction_json :: "restriction option \<Rightarrow> json" where
  "restriction_json r = (case r of None \<Rightarrow> JNull | Some x \<Rightarrow> JObj
     [(''status'', JStr (restr_status x)), (''reason'', JStr (restr_reason x)),
      (''effectiveAt'', JStr (restr_effectiveAt x))])"

definition credential_row :: "host \<Rightarrow> bool \<Rightarrow> credential \<Rightarrow> json cp" where
  \<comment> \<open>the distributor's row carries the subject, the investor's own credential does not\<close>
  "credential_row h withSubject c =
     bindE (credentialStatus h (cred_id c)) (\<lambda>status.
     withE (\<lambda>p.
     retE (JObj (
       [(''id'', JStr (cred_id c))]
       @ (if withSubject then [(''subjectId'', JStr (cred_subjectId c))] else []) @
       [(''investorClass'', JStr (cred_investorClass c)), (''jurisdiction'', JStr (cred_jurisdiction c)),
        (''maxUnits'', cred_maxUnits c), (''validUntil'', JStr (cred_validUntil c)),
        (''status'', JStr status),
        (''restriction'', restriction_json (jm_get (credentialRestrictions p) (cred_id c)))]))))"

definition own_transaction_row :: "transaction \<Rightarrow> json" where
  "own_transaction_row t = JObj
     [(''id'', JStr (tx_id t)), (''type'', JStr (tx_type t)), (''state'', JStr (tx_state t)),
      (''units'', JStr (tx_units t)), (''cashAmount'', JStr (tx_cashAmount t)),
      (''fee'', JStr (case tx_fee t of None \<Rightarrow> ''0'' | Some f \<Rightarrow> f)),
      (''settlementMode'', JStr (tx_settlementMode t)), (''settledAt'', opt_null (tx_settledAt t))]"

definition broker_row :: "transaction \<Rightarrow> json" where
  "broker_row t = JObj
     [(''id'', JStr (tx_id t)), (''type'', JStr (tx_type t)),
      (''sellerId'', opt_null (tx_sellerId t)), (''buyerId'', opt_null (tx_buyerId t)),
      (''units'', JStr (tx_units t)), (''pricePerUnit'', opt_null (tx_pricePerUnit t)),
      (''fee'', JStr (case tx_fee t of None \<Rightarrow> ''0'' | Some f \<Rightarrow> f)),
      (''state'', JStr (tx_state t)), (''settledAt'', opt_null (tx_settledAt t)),
      (''navEvidenceId'', JStr (tx_navEvidenceId t)),
      (''ruleVersion'', JNum (int (tx_ruleVersion t))),
      (''policySnapshotHash'', JStr (tx_policySnapshotHash t)),
      (''settlementMode'', JStr (tx_settlementMode t)),
      (''lifecycle'', JArr (map (\<lambda>(s, at). JObj [(''state'', JStr s), (''at'', JStr at)]) (tx_lifecycle t)))]"

definition payload_or_null :: "event \<Rightarrow> string \<Rightarrow> json" where
  "payload_or_null e k = (case map_of (e_payload e) k of
       None \<Rightarrow> JNull
     | Some v \<Rightarrow> if v = JUndefined then JNull else v)"

definition audit_row :: "host \<Rightarrow> event \<Rightarrow> json" where
  "audit_row h e = JObj
     [(''sequence'', JNum (int (e_sequence e))), (''type'', JStr (e_type e)), (''at'', JStr (e_at e)),
      (''productId'', payload_or_null e ''productId''),
      (''transactionId'', payload_or_null e ''transactionId''),
      (''transactionType'', payload_or_null e ''transactionType''),
      (''state'', payload_or_null e ''state''),
      (''reasonCode'', payload_or_null e ''reasonCode''),
      (''evidenceId'', payload_or_null e ''evidenceId''),
      (''credentialRef'',
         case payload_or_null e ''credentialId'' of
           JStr c \<Rightarrow> if c = [] then JNull else JStr (take 16 (h_sha256 h c))
         | _ \<Rightarrow> JNull)]"

section \<open>\<open>viewForRole\<close>\<close>

definition view_base :: "string \<Rightarrow> string \<Rightarrow> product \<Rightarrow> (string \<times> json) list" where
  "view_base role generatedAt product =
     [(''role'', JStr role), (''sandbox'', JBool True), (''generatedAt'', JStr generatedAt),
      (''product'', JObj
        [(''id'', JStr (prod_id product)), (''name'', JStr (prod_name product)),
         (''jurisdiction'', JStr (prod_jurisdiction product)), (''status'', JStr (prod_status product)),
         (''ruleVersion'', JNum (int (prod_ruleVersion product))), (''rules'', prod_rules product)])]"

definition issuer_view :: "product \<Rightarrow> json list \<Rightarrow> reconciliation \<Rightarrow> json list \<Rightarrow> (string \<times> json) list" where
  "issuer_view product evidence reconciliation transactionSummary =
     [(''roleAssignments'', JObj (map (\<lambda>(k, v). (k, JStr v)) (prod_roleAssignments product))),
      (''evidence'', JArr evidence), (''reconciliation'', reconciliation_json reconciliation),
      (''transactionSummary'', JArr transactionSummary)]"

definition distributor_view :: "host \<Rightarrow> string \<Rightarrow> (string \<times> json) list cp" where
  "distributor_view h productId =
     withE (\<lambda>p.
     bindE (mapE (credential_row h True)
       (filter (\<lambda>c. cred_productId c = productId) (jm_values (credentials p)))) (\<lambda>rows.
     retE [(''credentials'', JArr rows)]))"

definition own_transactions :: "plane \<Rightarrow> string \<Rightarrow> string \<Rightarrow> transaction list" where
  "own_transactions p productId actorId =
     filter (\<lambda>t. tx_productId t = productId \<and> (tx_buyerId t = Some actorId \<or> tx_sellerId t = Some actorId))
       (jm_values (transactions p))"

definition investor_view :: "host \<Rightarrow> product \<Rightarrow> string \<Rightarrow> string option \<Rightarrow> (string \<times> json) list cp" where
  "investor_view h product productId actor =
     thenE (ensureE (truthy_opt actor) ''MISSING_ACTOR'')
    (let actorId = (case actor of Some a \<Rightarrow> a | None \<Rightarrow> []) in
     withE (\<lambda>p.
     bindE (case find (\<lambda>c. cred_productId c = productId \<and> cred_subjectId c = actorId)
              (jm_values (credentials p)) of
          None \<Rightarrow> retE JNull
        | Some c \<Rightarrow> credential_row h False c) (\<lambda>credential.
     retE [(''actorId'', JStr actorId),
       (''positionUnits'', JStr (int_text (assetOf (assetBalances p) actorId productId))),
       (''cashBalance'', JStr (int_text (jm_get0 (cashBalances p) (cash_key actorId product)))),
       (''credential'', credential),
       (''ownTransactions'', JArr (map own_transaction_row (own_transactions p productId actorId)))])))"

definition broker_view :: "plane \<Rightarrow> string \<Rightarrow> (string \<times> json) list" where
  "broker_view p productId =
     [(''transactions'', JArr (map broker_row
        (filter (\<lambda>t. tx_productId t = productId) (jm_values (transactions p)))))]"

definition supervisor_view :: "host \<Rightarrow> plane \<Rightarrow> json list \<Rightarrow> reconciliation \<Rightarrow> (string \<times> json) list" where
  "supervisor_view h p evidence reconciliation =
     [(''evidence'', JArr evidence), (''reconciliation'', reconciliation_json reconciliation),
      (''auditEvents'', JArr (map (audit_row h) (events p))),
      (''disclosureMode'', JStr ''SANDBOX_METADATA_ONLY'')]"

definition viewForRole :: "host \<Rightarrow> string \<Rightarrow> string \<Rightarrow> string option \<Rightarrow> json cp" where
  "viewForRole h role productId actorId =
     bindE (get_product productId) (\<lambda>product.
     bindE (reconcile h productId) (\<lambda>reconciliation.
     withE (\<lambda>p.
     bindE (mapE (evidence_row h)
       (filter (\<lambda>ev. ev_productId ev = productId) (jm_values (evidences p)))) (\<lambda>evidence.
     bindE (mapE (transaction_row h)
       (filter (\<lambda>t. tx_productId t = productId) (jm_values (transactions p)))) (\<lambda>transactionSummary.
     let exceptions = map exception_row
           (filter (\<lambda>c. ec_productId c = productId) (jm_values (exceptionCases p))) in
     bindE (now_iso h) (\<lambda>generatedAt.
     let base = view_base role generatedAt product in
     if role = ''issuer'' then
       retE (JObj (base @ issuer_view product evidence reconciliation transactionSummary))
     else if role = ''distributor'' then
       bindE (distributor_view h productId) (\<lambda>v. retE (JObj (base @ v)))
     else if role = ''investor'' then
       bindE (investor_view h product productId actorId) (\<lambda>v. retE (JObj (base @ v)))
     else if role = ''broker'' then
       retE (JObj (base @ broker_view p productId))
     else if role = ''operations'' then
       retE (JObj (base @ [(''evidence'', JArr evidence),
         (''reconciliation'', reconciliation_json reconciliation),
         (''transactionSummary'', JArr transactionSummary), (''exceptions'', JArr exceptions)]))
     else if role = ''supervisor'' then
       retE (JObj (base @ supervisor_view h p evidence reconciliation))
     else throwE (Coded ''UNKNOWN_ROLE'')))))))"

definition eventsForAudit :: "event list cp" where
  "eventsForAudit = getE events"

end
