(* ===== verification/CpRegistry.thy ===== *)
theory CpRegistry
  imports CpState
begin

text \<open>
  The handlers of \<open>src/control-plane.js\<close> that set a product up: institutions, products and their
  status, credentials and their restriction, evidence, and the sandbox cash faucet.
\<close>

definition registerInstitution :: "host \<Rightarrow> string \<Rightarrow> string list option \<Rightarrow> string \<Rightarrow> unit cp" where
  \<comment> \<open>\<open>roles\<close> is \<open>None\<close> when the property is not an array\<close>
  "registerInstitution h institutionId roles publicKeyPem =
     withE (\<lambda>p.
     thenE (ensureE (\<not> jm_has (institutions p) institutionId) ''DUPLICATE_INSTITUTION'')
    (thenE (ensureE (case roles of None \<Rightarrow> False | Some rs \<Rightarrow> rs \<noteq> []) ''INVALID_ROLES'')
    (thenE (modifyE (\<lambda>q. q\<lparr>institutions := jm_set institutionId
       \<lparr>inst_id = institutionId, inst_roles = the roles, inst_publicKeyPem = publicKeyPem\<rparr> (institutions q)\<rparr>))
    (record_event h ''institution.registered''
       [(''institutionId'', JStr institutionId), (''roles'', JArr (map JStr (the roles)))]))))"

definition rules_complete :: "json \<Rightarrow> bool" where
  "rules_complete rules =
     (jtruthy (jfield rules ''currency'')
      \<and> nonempty_array (jfield rules ''allowedInvestorClasses'')
      \<and> nonempty_array (jfield rules ''allowedJurisdictions''))"

definition createProduct ::
  "host \<Rightarrow> string \<Rightarrow> string \<Rightarrow> string \<Rightarrow> string \<Rightarrow> (string, string) jsmap \<Rightarrow> json \<Rightarrow> product cp" where
  "createProduct h productId name jurisdiction issuerId roleAssignments rules =
     withE (\<lambda>p.
     thenE (ensureE (\<not> jm_has (products p) productId) ''DUPLICATE_PRODUCT'')
    (thenE (ensureE (jurisdiction = ''HK'') ''UNSUPPORTED_JURISDICTION'')
    (thenE (ensureE (hasRole p issuerId ''issuer'') ''UNAUTHORIZED_ISSUER'')
    (thenE (ensureE (rules_complete rules) ''INVALID_RULES'')
    (thenE (ensureE (integer_between 0 10000 (jfield rules ''maxPriceDeviationBps'')) ''INVALID_RULES'')
    (bindE (now_iso h) (\<lambda>createdAt.
     let product = \<lparr>prod_id = productId, prod_name = name, prod_jurisdiction = jurisdiction,
           prod_issuerId = issuerId, prod_roleAssignments = roleAssignments, prod_rules = rules,
           prod_ruleVersion = 1, prod_status = ''DRAFT'', prod_createdAt = createdAt\<rparr> in
     thenE (modifyE (\<lambda>q. q\<lparr>products := jm_set productId product (products q)\<rparr>))
    (thenE (record_event h ''product.created''
       [(''productId'', JStr productId), (''issuerId'', JStr issuerId), (''ruleVersion'', JNum 1)])
    (retE product)))))))))"

definition set_product_status :: "string \<Rightarrow> product \<Rightarrow> string \<Rightarrow> unit cp" where
  \<comment> \<open>\<open>product.status = status\<close> on the object the map holds under \<open>productId\<close>\<close>
  "set_product_status productId product status =
     modifyE (\<lambda>q. q\<lparr>products := jm_set productId (product\<lparr>prod_status := status\<rparr>) (products q)\<rparr>)"

definition check_role_assignment :: "product \<Rightarrow> string \<Rightarrow> unit cp" where
  "check_role_assignment product role =
     withE (\<lambda>p. case jm_get (prod_roleAssignments product) role of
         None \<Rightarrow> throwE (Coded ''MISSING_ROLE'')
       | Some institutionId \<Rightarrow>
           thenE (ensureE (institutionId \<noteq> []) ''MISSING_ROLE'')
                 (ensureE (hasRole p institutionId role) ''INVALID_ROLE_ASSIGNMENT''))"

definition activateProduct :: "host \<Rightarrow> string \<Rightarrow> unit cp" where
  "activateProduct h productId =
     bindE (get_product productId) (\<lambda>product.
     thenE (ensureE (prod_status product = ''DRAFT'' \<or> prod_status product = ''PAUSED'')
       ''INVALID_PRODUCT_STATE'')
    (thenE (eachE (check_role_assignment product) REQUIRED_PRODUCT_ROLES)
    (thenE (set_product_status productId product ''ACTIVE'')
    (record_event h ''product.activated''
       [(''productId'', JStr productId), (''ruleVersion'', JNum (int (prod_ruleVersion product)))]))))"

definition pauseProduct :: "host \<Rightarrow> string \<Rightarrow> string \<Rightarrow> unit cp" where
  "pauseProduct h productId reason =
     bindE (get_product productId) (\<lambda>product.
     thenE (ensureE (prod_status product = ''ACTIVE'') ''INVALID_PRODUCT_STATE'')
    (thenE (set_product_status productId product ''PAUSED'')
    (record_event h ''product.paused'' [(''productId'', JStr productId), (''reason'', JStr reason)])))"

definition valid_window :: "host \<Rightarrow> string \<Rightarrow> string \<Rightarrow> bool" where
  \<comment> \<open>both dates are valid and the second is later\<close>
  "valid_window h from until =
     (h_date h from \<noteq> None \<and> h_date h until \<noteq> None \<and> date_gt (h_date h until) (h_date h from))"

definition registerCredential :: "host \<Rightarrow> credential \<Rightarrow> unit cp" where
  "registerCredential h c =
     bindE (get_product (cred_productId c)) (\<lambda>product.
     thenE (ensureE (jm_get (prod_roleAssignments product) ''credential_issuer'' = Some (cred_issuerId c))
       ''UNAUTHORIZED_CREDENTIAL_ISSUER'')
    (bindE (verify_credential h c) (\<lambda>ok.
     thenE (ensureE ok ''INVALID_SIGNATURE'')
    (withE (\<lambda>p.
     thenE (ensureE (\<not> jm_has (credentials p) (cred_id c)) ''DUPLICATE_CREDENTIAL'')
    (thenE (ensureE (valid_window h (cred_validFrom c) (cred_validUntil c)) ''INVALID_CREDENTIAL_TIME'')
    (bindE (liftE (toNonNegativeInteger (cred_maxUnits c))) (\<lambda>n.
     thenE (ensureE (0 < n) ''INVALID_CREDENTIAL_LIMIT'')
    (thenE (modifyE (\<lambda>q. q\<lparr>credentials := jm_set (cred_id c) c (credentials q)\<rparr>))
    (record_event h ''credential.registered''
       [(''credentialId'', JStr (cred_id c)), (''productId'', JStr (cred_productId c)),
        (''subjectId'', JStr (cred_subjectId c))]))))))))))"

definition revokeCredential :: "host \<Rightarrow> string \<Rightarrow> string \<Rightarrow> unit cp" where
  "revokeCredential h credentialId reason =
     withE (\<lambda>p.
     thenE (ensureE (jm_has (credentials p) credentialId) ''UNKNOWN_CREDENTIAL'')
    (thenE (ensureE (\<not> jm_has (credentialRestrictions p) credentialId) ''CREDENTIAL_ALREADY_RESTRICTED'')
    (bindE (now_iso h) (\<lambda>at.
     thenE (modifyE (\<lambda>q. q\<lparr>credentialRestrictions := jm_set credentialId
       \<lparr>restr_status = ''RESTRICTED_EXIT'', restr_reason = reason, restr_effectiveAt = at\<rparr>
       (credentialRestrictions q)\<rparr>))
    (record_event h ''credential.restricted''
       [(''credentialId'', JStr credentialId), (''reason'', JStr reason),
        (''status'', JStr ''RESTRICTED_EXIT'')])))))"

definition submitEvidence :: "host \<Rightarrow> evidence \<Rightarrow> unit cp" where
  "submitEvidence h ev =
     bindE (get_product (ev_productId ev)) (\<lambda>product.
     bindE (optE (jm_get EVIDENCE_ROLE (ev_dataType ev)) (Coded ''UNSUPPORTED_EVIDENCE'')) (\<lambda>requiredRole.
     thenE (ensureE (jm_get (prod_roleAssignments product) requiredRole = Some (ev_sourceInstitutionId ev))
       ''UNAUTHORIZED_EVIDENCE_SOURCE'')
    (bindE (verify_evidence h ev) (\<lambda>ok.
     thenE (ensureE ok ''INVALID_SIGNATURE'')
    (thenE (ensureE (valid_window h (ev_effectiveAt ev) (ev_expiresAt ev)) ''INVALID_EVIDENCE_TIME'')
    (thenE (if ev_dataType ev = ''nav'' then
         thenE (ensureE (jstrict_eq (jfield (ev_payload ev) ''currency'') (jfield (prod_rules product) ''currency''))
           ''EVIDENCE_CURRENCY'')
        (bindE (liftE (toNonNegativeInteger (jfield (ev_payload ev) ''navPerUnit''))) (\<lambda>nav.
         ensureE (0 < nav) ''INVALID_NAV''))
       else retE ())
    (withE (\<lambda>p.
     thenE (ensureE (\<not> jm_has (evidences p) (ev_id ev)) ''DUPLICATE_EVIDENCE'')
    (thenE (modifyE (\<lambda>q. q\<lparr>evidences := jm_set (ev_id ev) (ev\<lparr>ev_status := ''ACTIVE''\<rparr>) (evidences q)\<rparr>))
    (record_event h ''evidence.accepted''
       [(''evidenceId'', JStr (ev_id ev)), (''productId'', JStr (ev_productId ev)),
        (''dataType'', JStr (ev_dataType ev))]))))))))))"

definition creditSandboxCash :: "host \<Rightarrow> string \<Rightarrow> string \<Rightarrow> json \<Rightarrow> unit cp" where
  "creditSandboxCash h accountId currency amount =
     withE (\<lambda>p. let key = colon accountId currency in
     bindE (liftE (toNonNegativeInteger amount)) (\<lambda>n.
     thenE (modifyE (\<lambda>q. q\<lparr>cashBalances := jm_set key (jm_get0 (cashBalances p) key + n) (cashBalances q)\<rparr>))
    (record_event h ''sandbox.cash_credited''
       [(''accountId'', JStr accountId), (''currency'', JStr currency),
        (''amount'', JStr (js_to_string amount))])))"

end
