(* ===== verification/CpFrames.thy ===== *)
theory CpFrames
  imports CpViews CpRegistry
begin

text \<open>
  What the operations of the control plane leave alone.

  \<open>quiet p\<close> is the state but for the clock, \<open>body p\<close> the state but for the clock, the random source
  and the event log. Every check preserves \<open>quiet\<close>, every logging step preserves \<open>body\<close>; the
  fields follow from these two.
\<close>

definition quiet :: "plane \<Rightarrow> plane" where
  "quiet p = p\<lparr>clock_reads := 0\<rparr>"

definition body :: "plane \<Rightarrow> plane" where
  "body p = p\<lparr>clock_reads := 0, random_reads := 0, events := []\<rparr>"

lemma quiet_body: "quiet p = quiet q \<Longrightarrow> body p = body q"
  unfolding quiet_def body_def by (cases p; cases q) simp

lemma preserves_quiet_body: "preserves quiet m \<Longrightarrow> preserves body m"
  by (auto simp: preserves_def intro: quiet_body)

lemma body_fields:
  assumes "body p = body q"
  shows "institutions p = institutions q" "products p = products q"
    "credentials p = credentials q" "credentialRestrictions p = credentialRestrictions q"
    "evidences p = evidences q" "transactions p = transactions q"
    "cashSettlements p = cashSettlements q" "exceptionCases p = exceptionCases q"
    "idempotency p = idempotency q" "cashBalances p = cashBalances q"
    "assetBalances p = assetBalances q" "legalRegister p = legalRegister q"
  using assms by (cases p; cases q; simp add: body_def)+

lemma quiet_events: "quiet p = quiet q \<Longrightarrow> events p = events q"
  by (cases p; cases q; simp add: quiet_def)

section \<open>Primitives\<close>

lemma now_quiet [preserves_intros]: "preserves quiet (now h)"
  by (rule preservesI) (auto simp: now_def quiet_def)

lemma now_body [preserves_intros]: "preserves body (now h)"
  by (rule preserves_quiet_body [OF now_quiet])

lemma now_iso_quiet [preserves_intros]: "preserves quiet (now_iso h)"
  unfolding now_iso_def by (intro preserves_intros)

lemma now_iso_body [preserves_intros]: "preserves body (now_iso h)"
  by (rule preserves_quiet_body [OF now_iso_quiet])

lemma random_hex_body [preserves_intros]: "preserves body (random_hex h)"
  by (rule preservesI) (auto simp: random_hex_def body_def)

lemma record_event_body [preserves_intros]: "preserves body (record_event h ty pl)"
  unfolding record_event_def
  by (intro preserves_intros preserves_modifyE) (simp add: body_def)

lemma transition_body [preserves_intros]: "preserves body (transition h lc st i ty pid)"
  unfolding transition_def by (intro preserves_intros)

lemma get_product_quiet [preserves_intros]: "preserves quiet (get_product pid)"
  unfolding get_product_def by (intro preserves_intros)

lemma activeProduct_quiet [preserves_intros]: "preserves quiet (activeProduct pid)"
  unfolding activeProduct_def by (intro preserves_intros)

lemma verifyStatement_quiet [preserves_intros]: "preserves quiet (verifyStatement h i b s)"
  unfolding verifyStatement_def by (intro preserves_intros)

lemma verify_credential_quiet [preserves_intros]: "preserves quiet (verify_credential h c)"
  unfolding verify_credential_def by (intro preserves_intros)

lemma verify_evidence_quiet [preserves_intros]: "preserves quiet (verify_evidence h ev)"
  unfolding verify_evidence_def by (intro preserves_intros)

lemma credentialStatus_quiet [preserves_intros]: "preserves quiet (credentialStatus h cid)"
  unfolding credentialStatus_def by (intro preserves_intros)

lemma assertEligible_quiet [preserves_intros]: "preserves quiet (assertEligible h pr i c n)"
  unfolding assertEligible_def by (intro preserves_intros)

lemma assertExitAllowed_quiet [preserves_intros]: "preserves quiet (assertExitAllowed h pr i c)"
  unfolding assertExitAllowed_def by (intro preserves_intros)

lemma evidence_in_force_quiet [preserves_intros]: "preserves quiet (evidence_in_force h pr d ev)"
  unfolding evidence_in_force_def by (intro preserves_intros)

lemma currentEvidence_quiet [preserves_intros]: "preserves quiet (currentEvidence h pr d)"
  unfolding currentEvidence_def Let_def
  by (intro preserves_intros) (auto intro!: preserves_intros split: list.splits)

lemma assertNewTransaction_quiet [preserves_intros]: "preserves quiet (assertNewTransaction i)"
  unfolding assertNewTransaction_def by (intro preserves_intros)

lemma transactionEvidencePackage_quiet [preserves_intros]:
  "preserves quiet (transactionEvidencePackage h i)"
  unfolding transactionEvidencePackage_def by (intro preserves_intros)

lemma publicReceipt_quiet [preserves_intros]: "preserves quiet (publicReceipt h t)"
  unfolding publicReceipt_def by (intro preserves_intros)

lemma get_case_quiet [preserves_intros]: "preserves quiet (get_case c)"
  unfolding get_case_def by (intro preserves_intros)

lemma check_role_assignment_quiet [preserves_intros]:
  "preserves quiet (check_role_assignment pr role)"
  unfolding check_role_assignment_def by (intro preserves_intros)

section \<open>Checks and reads\<close>

lemma subscribe_checks_quiet: "preserves quiet (subscribe_checks h r)"
  unfolding subscribe_checks_def by (intro preserves_intros)

lemma transfer_checks_quiet: "preserves quiet (transfer_checks h r)"
  unfolding transfer_checks_def by (intro preserves_intros)

lemma redeem_checks_quiet: "preserves quiet (redeem_checks h r)"
  unfolding redeem_checks_def by (intro preserves_intros)

lemma reconcile_quiet [preserves_intros]: "preserves quiet (reconcile h pid)"
  unfolding reconcile_def by (intro preserves_intros)

lemma evidence_row_quiet [preserves_intros]: "preserves quiet (evidence_row h ev)"
  unfolding evidence_row_def by (intro preserves_intros)

lemma transaction_row_quiet [preserves_intros]: "preserves quiet (transaction_row h t)"
  unfolding transaction_row_def by (intro preserves_intros)

lemma credential_row_quiet [preserves_intros]: "preserves quiet (credential_row h b c)"
  unfolding credential_row_def by (intro preserves_intros)

lemma distributor_view_quiet [preserves_intros]: "preserves quiet (distributor_view h pid)"
  unfolding distributor_view_def by (intro preserves_intros)

lemma investor_view_quiet [preserves_intros]: "preserves quiet (investor_view h pr pid a)"
  unfolding investor_view_def by (intro preserves_intros)

lemma viewForRole_quiet: "preserves quiet (viewForRole h role pid a)"
  unfolding viewForRole_def by (intro preserves_intros)

lemmas checks_quiet = subscribe_checks_quiet transfer_checks_quiet redeem_checks_quiet

end
