(* ===== verification/CpRuns.thy ===== *)
theory CpRuns
  imports CpFrames
begin

text \<open>
  Total correctness of the effects. \<open>runs m B P\<close> says that from every state whose body is \<open>B\<close> the
  operation \<open>m\<close> returns, with a result and a body that satisfy \<open>P\<close>. Clock readings, random draws
  and log entries are abstracted away, so one rule per primitive suffices and the final body of a
  handler is computed by applying them in the code's order.
\<close>

definition runs :: "'a cp \<Rightarrow> plane \<Rightarrow> ('a \<Rightarrow> plane \<Rightarrow> bool) \<Rightarrow> bool" where
  "runs m B P = (\<forall>s. body s = B \<longrightarrow> (\<exists>a t. m s = (Inr a, t) \<and> P a (body t)))"

named_theorems runs_intros "one rule per primitive of the handlers"

lemma runsI: "(\<And>s. body s = B \<Longrightarrow> \<exists>a t. m s = (Inr a, t) \<and> P a (body t)) \<Longrightarrow> runs m B P"
  by (simp add: runs_def)

lemma runsD: "runs m (body s) P \<Longrightarrow> \<exists>a t. m s = (Inr a, t) \<and> P a (body t)"
  by (simp add: runs_def)

lemma runsE:
  assumes "runs m (body s) P" and "m s = (x, t)"
  obtains a where "x = Inr a" and "P a (body t)"
  using runsD [OF assms(1)] assms(2) that by auto

lemma runs_mono: "runs m B P \<Longrightarrow> (\<And>a B'. P a B' \<Longrightarrow> Q a B') \<Longrightarrow> runs m B Q"
  unfolding runs_def by blast

lemma runs_bindE [runs_intros]: "runs m B (\<lambda>a B'. runs (f a) B' P) \<Longrightarrow> runs (bindE m f) B P"
  unfolding runs_def by (metis bindE_run)

lemma runs_thenE [runs_intros]: "runs m B (\<lambda>a B'. runs n B' P) \<Longrightarrow> runs (thenE m n) B P"
  unfolding thenE_def by (rule runs_bindE)

lemma runs_retE [runs_intros]: "P a B \<Longrightarrow> runs (retE a) B P"
  by (auto intro!: runsI simp: retE_iff)

lemma runs_ensureE [runs_intros]: "c \<Longrightarrow> P () B \<Longrightarrow> runs (ensureE c code) B P"
  by (simp add: ensureE_def runs_retE)

lemma runs_Let [runs_intros]: "runs (f x) B P \<Longrightarrow> runs (Let x f) B P"
  by simp

lemma runs_noise:
  assumes "preserves body m" and "\<And>s. \<exists>a t. m s = (Inr a, t)" and "\<And>a. P a B"
  shows "runs m B P"
proof (rule runsI)
  fix s
  assume B: "body s = B"
  obtain a t where run: "m s = (Inr a, t)" using assms(2) by blast
  with assms(1) B have "body t = B" by (auto dest: preservesD)
  with run assms(3) show "\<exists>a t. m s = (Inr a, t) \<and> P a (body t)" by blast
qed

lemma runs_now_iso [runs_intros]: "(\<And>at. P at B) \<Longrightarrow> runs (now_iso h) B P"
  by (rule runs_noise [OF now_iso_body]) (auto simp: now_iso_def now_def bindE_def retE_def)

lemma runs_random_hex [runs_intros]: "(\<And>x. P x B) \<Longrightarrow> runs (random_hex h) B P"
  by (rule runs_noise [OF random_hex_body]) (auto simp: random_hex_def)

lemma runs_record_event [runs_intros]: "P () B \<Longrightarrow> runs (record_event h ty pl) B P"
  by (rule runs_noise [OF record_event_body])
     (auto simp: record_event_def now_iso_def now_def bindE_def retE_def modifyE_def)

lemma runs_transition [runs_intros]:
  "(\<And>at. P (lc @ [(st, at)]) B) \<Longrightarrow> runs (transition h lc st i ty pid) B P"
  unfolding transition_def by (intro runs_intros) simp

section \<open>The body of an updated state\<close>

lemma body_idem [simp]: "body (body s) = body s"
  by (simp add: body_def)

lemma body_get [simp]:
  "institutions (body s) = institutions s" "products (body s) = products s"
  "credentials (body s) = credentials s" "credentialRestrictions (body s) = credentialRestrictions s"
  "evidences (body s) = evidences s" "transactions (body s) = transactions s"
  "cashSettlements (body s) = cashSettlements s" "exceptionCases (body s) = exceptionCases s"
  "idempotency (body s) = idempotency s" "cashBalances (body s) = cashBalances s"
  "assetBalances (body s) = assetBalances s" "legalRegister (body s) = legalRegister s"
  by (simp_all add: body_def)

lemma body_put [simp]:
  "body (s\<lparr>transactions := x1\<rparr>) = (body s)\<lparr>transactions := x1\<rparr>"
  "body (s\<lparr>cashSettlements := x2\<rparr>) = (body s)\<lparr>cashSettlements := x2\<rparr>"
  "body (s\<lparr>exceptionCases := x3\<rparr>) = (body s)\<lparr>exceptionCases := x3\<rparr>"
  "body (s\<lparr>idempotency := x4\<rparr>) = (body s)\<lparr>idempotency := x4\<rparr>"
  "body (s\<lparr>cashBalances := x5\<rparr>) = (body s)\<lparr>cashBalances := x5\<rparr>"
  "body (s\<lparr>assetBalances := x6\<rparr>) = (body s)\<lparr>assetBalances := x6\<rparr>"
  "body (s\<lparr>legalRegister := x7\<rparr>) = (body s)\<lparr>legalRegister := x7\<rparr>"
  by (simp_all add: body_def)

section \<open>Moving balances\<close>

definition move :: "string \<Rightarrow> int \<Rightarrow> (string, int) jsmap \<Rightarrow> (string, int) jsmap" where
  \<comment> \<open>a balance changed by a signed amount\<close>
  "move key delta m = jm_set key (jm_get0 m key + delta) m"

lemma jm_get0_move: "jm_get0 (move k d m) k' = (if k' = k then jm_get0 m k + d else jm_get0 m k')"
  by (simp add: move_def)

lemma jm_total_move [simp]: "jm_total (move k d m) = jm_total m + d"
  by (simp add: move_def jm_total_set)

lemma jm_nonneg_move: "jm_nonneg m \<Longrightarrow> 0 \<le> jm_get0 m k + d \<Longrightarrow> jm_nonneg (move k d m)"
  by (simp add: move_def)

lemma jm_wf_move [simp]: "jm_wf m \<Longrightarrow> jm_wf (move k d m)"
  by (simp add: move_def)

lemma runs_cash_debit [runs_intros]:
  "jm_get (cashBalances B) key = Some b \<Longrightarrow>
   P () (B\<lparr>cashBalances := move key (- amount) (cashBalances B)\<rparr>) \<Longrightarrow>
   runs (cash_debit key amount) B P"
  by (auto intro!: runsI simp: cash_debit_def withE_run optE_def bindE_def retE_def modifyE_def
      move_def jm_get0_Some)

lemma runs_cash_credit [runs_intros]:
  "P () (B\<lparr>cashBalances := move key amount (cashBalances B)\<rparr>) \<Longrightarrow> runs (cash_credit key amount) B P"
  by (auto intro!: runsI simp: cash_credit_def withE_run modifyE_def move_def)

lemma runs_add_assetBalance [runs_intros]:
  "0 \<le> jm_get0 (assetBalances B) (colon a pid) + d \<Longrightarrow>
   P () (B\<lparr>assetBalances := move (colon a pid) d (assetBalances B)\<rparr>) \<Longrightarrow>
   runs (add_assetBalance a pid d) B P"
  by (auto intro!: runsI simp: add_assetBalance_def addAsset_def Let_def withE_run liftE_def
      bindE_def modifyE_def move_def)

lemma runs_add_legalRegister [runs_intros]:
  "0 \<le> jm_get0 (legalRegister B) (colon a pid) + d \<Longrightarrow>
   P () (B\<lparr>legalRegister := move (colon a pid) d (legalRegister B)\<rparr>) \<Longrightarrow>
   runs (add_legalRegister a pid d) B P"
  by (auto intro!: runsI simp: add_legalRegister_def addAsset_def Let_def withE_run liftE_def
      bindE_def modifyE_def move_def)

lemma runs_withE [runs_intros]:
  assumes "\<And>s. body s = B \<Longrightarrow> runs (g s) B P"
  shows "runs (withE g) B P"
  using assms by (auto simp: runs_def withE_run)

lemma runs_put_cashSettlements [runs_intros]:
  "P () (B\<lparr>cashSettlements := f (cashSettlements B)\<rparr>) \<Longrightarrow>
   runs (modifyE (\<lambda>q. q\<lparr>cashSettlements := f (cashSettlements q)\<rparr>)) B P"
  by (auto intro!: runsI simp: modifyE_iff)

lemma runs_put_transactions [runs_intros]:
  "P () (B\<lparr>transactions := f (transactions B)\<rparr>) \<Longrightarrow>
   runs (modifyE (\<lambda>q. q\<lparr>transactions := f (transactions q)\<rparr>)) B P"
  by (auto intro!: runsI simp: modifyE_iff)

lemma runs_put_exceptionCases [runs_intros]:
  "P () (B\<lparr>exceptionCases := f (exceptionCases B)\<rparr>) \<Longrightarrow>
   runs (modifyE (\<lambda>q. q\<lparr>exceptionCases := f (exceptionCases q)\<rparr>)) B P"
  by (auto intro!: runsI simp: modifyE_iff)

lemma runs_optE [runs_intros]: "x = Some a \<Longrightarrow> P a B \<Longrightarrow> runs (optE x e) B P"
  by (simp add: optE_def runs_retE)

lemma runs_confirmSandboxCash [runs_intros]:
  assumes "\<And>at. P () (B\<lparr>cashSettlements := jm_set i
     \<lparr>cs_transactionId = i, cs_productId = pid, cs_state = ''CONFIRMED'',
      cs_source = ''SANDBOX_CASH_JOURNAL'', cs_confirmedAt = at\<rparr> (cashSettlements B)\<rparr>)"
  shows "runs (confirmSandboxCash h i pid) B P"
  unfolding confirmSandboxCash_def by (intro runs_intros assms)

lemma runs_completeTransaction [runs_intros]:
  assumes "\<not> jm_has (transactions B) (td_id d)"
    and "\<And>at c at'. P (make_transaction d ''SETTLED'' (Some at) (lc @ [(''SETTLED'', at')]) c)
       (B\<lparr>transactions := jm_set (td_id d)
         (make_transaction d ''SETTLED'' (Some at) (lc @ [(''SETTLED'', at')]) c) (transactions B)\<rparr>)"
  shows "runs (completeTransaction h d lc) B P"
  unfolding completeTransaction_def Let_def
  by (intro runs_intros assms(2)) (use assms(1) in auto)

lemma runs_storeExceptionTransaction [runs_intros]:
  assumes "\<And>c. P (make_transaction d ''REQUIRES_REVIEW'' None lc c)
       (B\<lparr>transactions := jm_set (td_id d)
         (make_transaction d ''REQUIRES_REVIEW'' None lc c) (transactions B)\<rparr>)"
  shows "runs (storeExceptionTransaction h d lc) B P"
  unfolding storeExceptionTransaction_def Let_def by (intro runs_intros assms)

lemma runs_publicReceipt [runs_intros]:
  assumes "jm_get (transactions B) (tx_id t) = Some t'"
    and "\<And>rc. \<lbrakk>rc_transactionId rc = tx_id t; rc_state rc = tx_state t;
        rc_lifecycle rc = map fst (tx_lifecycle t); rc_settlementMode rc = tx_settlementMode t;
        rc_evidencePackageHash rc =
          h_sha256 h (canonicalize (immutable_core t' (jm_get (cashSettlements B) (tx_id t))))\<rbrakk>
        \<Longrightarrow> P rc B"
  shows "runs (publicReceipt h t) B P"
  unfolding publicReceipt_def transactionEvidencePackage_def Let_def
  by (intro runs_intros assms(2)) (use assms(1) in \<open>auto simp: body_def\<close>)

section \<open>What the settlement handlers do\<close>

text \<open>
  \<open>settles h d cash assets reg rc B B'\<close>: from body \<open>B\<close> to \<open>B'\<close> the transaction \<open>d\<close> was settled, with
  the new ledgers \<open>cash\<close>, \<open>assets\<close> and \<open>reg\<close>, a confirmed cash entry, a stored transaction with the
  full lifecycle, and nothing else; \<open>rc\<close> is the receipt.
\<close>

definition settled_lifecycle :: "string list" where
  "settled_lifecycle =
     [''REQUESTED'', ''POLICY_CHECKED'', ''CASH_RESERVED'', ''REGISTER_PENDING'', ''SETTLED'']"

definition settles :: "host \<Rightarrow> tx_data \<Rightarrow> (string, int) jsmap \<Rightarrow> (string, int) jsmap \<Rightarrow>
    (string, int) jsmap \<Rightarrow> receipt \<Rightarrow> plane \<Rightarrow> plane \<Rightarrow> bool" where
  "settles h d cash assets reg rc B B' =
     (\<exists>at lc c cs. cs_state cs = ''CONFIRMED'' \<and> map fst lc = settled_lifecycle \<and>
        (let t = make_transaction d ''SETTLED'' (Some at) lc c in
         B' = B\<lparr>cashBalances := cash, assetBalances := assets, legalRegister := reg,
           cashSettlements := jm_set (td_id d) cs (cashSettlements B),
           transactions := jm_set (td_id d) t (transactions B)\<rparr> \<and>
         rc_transactionId rc = td_id d \<and> rc_state rc = ''SETTLED'' \<and>
         rc_lifecycle rc = settled_lifecycle \<and> rc_settlementMode rc = td_settlementMode d \<and>
         rc_evidencePackageHash rc = h_sha256 h (canonicalize (immutable_core t (Some cs)))))"

lemma settlesI:
  assumes "t = make_transaction d ''SETTLED'' (Some at) lc c"
    and "cs_state cs = ''CONFIRMED''" and "map fst lc = settled_lifecycle"
    and "B' = B\<lparr>cashBalances := cash, assetBalances := assets, legalRegister := reg,
           cashSettlements := jm_set (td_id d) cs (cashSettlements B),
           transactions := jm_set (td_id d) t (transactions B)\<rparr>"
    and "rc_transactionId rc = td_id d" and "rc_state rc = ''SETTLED''"
    and "rc_lifecycle rc = settled_lifecycle" and "rc_settlementMode rc = td_settlementMode d"
    and "rc_evidencePackageHash rc = h_sha256 h (canonicalize (immutable_core t (Some cs)))"
  shows "settles h d cash assets reg rc B B'"
  unfolding settles_def Let_def using assms by blast

lemma make_transaction_simps [simp]:
  "tx_id (make_transaction d st sa lc c) = td_id d"
  "tx_type (make_transaction d st sa lc c) = td_type d"
  "tx_productId (make_transaction d st sa lc c) = td_productId d"
  "tx_state (make_transaction d st sa lc c) = st"
  "tx_settledAt (make_transaction d st sa lc c) = sa"
  "tx_lifecycle (make_transaction d st sa lc c) = lc"
  "tx_settlementMode (make_transaction d st sa lc c) = td_settlementMode d"
  "tx_buyerId (make_transaction d st sa lc c) = td_buyerId d"
  "tx_sellerId (make_transaction d st sa lc c) = td_sellerId d"
  "tx_units (make_transaction d st sa lc c) = int_text (td_units d)"
  "tx_cashAmount (make_transaction d st sa lc c) = int_text (td_cashAmount d)"
  by (simp_all add: make_transaction_def Let_def)

lemma subscribe_data_simps [simp]:
  "td_id (subscribe_data h r pr nav u a) = sr_id r"
  "td_settlementMode (subscribe_data h r pr nav u a) = ''STANDARD''"
  "td_units (subscribe_data h r pr nav u a) = u"
  "td_cashAmount (subscribe_data h r pr nav u a) = a"
  by (simp_all add: subscribe_data_def)

lemma transfer_data_simps [simp]:
  "td_id (transfer_data h r tp mode) = tr_id r"
  "td_settlementMode (transfer_data h r tp mode) = mode"
  by (simp_all add: transfer_data_def)

lemma redeem_data_simps [simp]:
  "td_id (redeem_data h r rp) = rr_id r"
  "td_settlementMode (redeem_data h r rp) = redeem_mode rp"
  by (simp_all add: redeem_data_def)

lemma map_fst_singleton: "map fst lc = [a] \<Longrightarrow> \<exists>b. lc = [(a, b)]"
  by (cases lc) auto

lemma subscribe_effects_runs:
  assumes "\<not> jm_has (transactions B) (sr_id r)" and "map fst lc0 = [''REQUESTED'']"
    and "jm_get (cashBalances B) (cash_key (sr_investorId r) pr) = Some b"
    and "0 \<le> jm_get0 (assetBalances B) (colon (sr_investorId r) (sr_productId r)) + u"
    and "assetBalances B = legalRegister B"
  shows "runs (subscribe_effects h r lc0 pr nav u a) B (\<lambda>rc. settles h (subscribe_data h r pr nav u a)
      (move (cash_key (prod_issuerId pr) pr) a (move (cash_key (sr_investorId r) pr) (- a) (cashBalances B)))
      (move (colon (sr_investorId r) (sr_productId r)) u (assetBalances B))
      (move (colon (sr_investorId r) (sr_productId r)) u (legalRegister B)) rc B)"
  unfolding subscribe_effects_def
  using assms(1,3,4)
  by (intro runs_intros)
     (simp_all add: assms(5),
      auto simp: assms(2,5) settled_lifecycle_def intro!: settlesI [OF refl])

lemma transfer_effects_runs:
  assumes "\<not> jm_has (transactions B) (tr_id r)" and "map fst lc0 = [''REQUESTED'']"
    and "jm_get (cashBalances B) (cash_key (tr_buyerId r) (tp_product tp)) = Some b"
    and "tp_units tp \<le> jm_get0 (assetBalances B) (colon (tr_sellerId r) (tr_productId r))"
    and "0 \<le> jm_get0 (assetBalances B) (colon (tr_buyerId r) (tr_productId r)) + tp_units tp"
    and "tr_sellerId r \<noteq> tr_buyerId r"
    and "assetBalances B = legalRegister B"
  shows "runs (transfer_effects h r lc0 tp) B (\<lambda>rc. settles h (transfer_data h r tp ''STANDARD'')
      (move (cash_key (prod_issuerId (tp_product tp)) (tp_product tp)) (tp_fee tp)
        (move (cash_key (tr_sellerId r) (tp_product tp)) (tp_consideration tp)
          (move (cash_key (tr_buyerId r) (tp_product tp)) (- (tp_consideration tp + tp_fee tp))
            (cashBalances B))))
      (move (colon (tr_buyerId r) (tr_productId r)) (tp_units tp)
        (move (colon (tr_sellerId r) (tr_productId r)) (- tp_units tp) (assetBalances B)))
      (move (colon (tr_buyerId r) (tr_productId r)) (tp_units tp)
        (move (colon (tr_sellerId r) (tr_productId r)) (- tp_units tp) (legalRegister B))) rc B)"
  unfolding transfer_effects_def
  using assms(1,3-6)
  by (intro runs_intros)
     (simp_all add: assms(7) jm_get0_move,
      auto simp: assms(2,7) settled_lifecycle_def intro!: settlesI [OF refl])

lemma redeem_effects_runs:
  assumes "\<not> jm_has (transactions B) (rr_id r)" and "map fst lc0 = [''REQUESTED'']"
    and "jm_get (cashBalances B) (cash_key (prod_issuerId (rp_product rp)) (rp_product rp)) = Some b"
    and "rp_unitCount rp \<le> jm_get0 (assetBalances B) (colon (rr_investorId r) (rr_productId r))"
    and "assetBalances B = legalRegister B"
  shows "runs (redeem_effects h r lc0 rp) B (\<lambda>rc. settles h (redeem_data h r rp)
      (move (cash_key (rr_investorId r) (rp_product rp)) (rp_cashAmount rp)
        (move (cash_key (prod_issuerId (rp_product rp)) (rp_product rp)) (- rp_cashAmount rp)
          (cashBalances B)))
      (move (colon (rr_investorId r) (rr_productId r)) (- rp_unitCount rp) (assetBalances B))
      (move (colon (rr_investorId r) (rr_productId r)) (- rp_unitCount rp) (legalRegister B)) rc B)"
  unfolding redeem_effects_def
  using assms(1,3,4)
  by (intro runs_intros)
     (simp_all add: assms(5),
      auto simp: assms(2,5) settled_lifecycle_def intro!: settlesI [OF refl])

section \<open>What a simulated register failure does\<close>

definition failed_lifecycle :: "string list" where
  "failed_lifecycle =
     [''REQUESTED'', ''POLICY_CHECKED'', ''CASH_RESERVED'', ''REGISTER_FAILED'', ''REQUIRES_REVIEW'']"

definition new_case :: "transfer_request \<Rightarrow> transfer_plan \<Rightarrow> string \<Rightarrow> exception_case" where
  "new_case r tp at =
     \<lparr>ec_id = ''case-'' @ tr_id r, ec_productId = tr_productId r, ec_transactionId = tr_id r,
      ec_status = ''OPEN'', ec_failureStage = ''REGISTER_PENDING'',
      ec_reasonCode = ''REGISTER_TIMEOUT'', ec_assignedRole = ''operations'',
      ec_openedAt = at, ec_resolvedAt = None, ec_replacementTransactionId = None,
      ec_proposal = None, ec_retryPayload = retry_payload_of r tp, ec_checkedBy = None\<rparr>"

definition opens_review ::
  "host \<Rightarrow> transfer_request \<Rightarrow> transfer_plan \<Rightarrow> receipt \<Rightarrow> plane \<Rightarrow> plane \<Rightarrow> bool" where
  "opens_review h r tp rc B B' =
     (\<exists>at lc c cs. cs_state cs = ''RELEASED'' \<and> map fst lc = failed_lifecycle \<and>
        (let t = make_transaction (transfer_data h r tp ''EXCEPTION_REVIEW'') ''REQUIRES_REVIEW'' None lc c in
         B' = B\<lparr>cashSettlements := jm_set (tr_id r) cs (cashSettlements B),
           transactions := jm_set (tr_id r) t (transactions B),
           exceptionCases := jm_set (''case-'' @ tr_id r) (new_case r tp at) (exceptionCases B)\<rparr> \<and>
         rc_transactionId rc = tr_id r \<and> rc_state rc = ''REQUIRES_REVIEW'' \<and>
         rc_exceptionCaseId rc = Some (''case-'' @ tr_id r) \<and>
         rc_evidencePackageHash rc = h_sha256 h (canonicalize (immutable_core t (Some cs)))))"

lemma opens_reviewI:
  assumes "t = make_transaction (transfer_data h r tp ''EXCEPTION_REVIEW'') ''REQUIRES_REVIEW'' None lc c"
    and "cs_state cs = ''RELEASED''" and "map fst lc = failed_lifecycle"
    and "B' = B\<lparr>cashSettlements := jm_set (tr_id r) cs (cashSettlements B),
           transactions := jm_set (tr_id r) t (transactions B),
           exceptionCases := jm_set (''case-'' @ tr_id r) (new_case r tp at) (exceptionCases B)\<rparr>"
    and "rc_transactionId rc = tr_id r" and "rc_state rc = ''REQUIRES_REVIEW''"
    and "rc_exceptionCaseId rc = Some (''case-'' @ tr_id r)"
    and "rc_evidencePackageHash rc = h_sha256 h (canonicalize (immutable_core t (Some cs)))"
  shows "opens_review h r tp rc B B'"
  unfolding opens_review_def Let_def using assms by blast

lemma register_failure_effects_runs:
  assumes "\<not> jm_has (transactions B) (tr_id r)" and "map fst lc0 = [''REQUESTED'']"
  shows "runs (register_failure_effects h r lc0 tp) B (\<lambda>rc. opens_review h r tp rc B)"
  unfolding register_failure_effects_def
  using assms(1)
  by (intro runs_intros)
     (simp_all,
      auto simp: assms(2) failed_lifecycle_def new_case_def intro!: opens_reviewI [OF refl])

end
