(* ===== verification/CpChecks.thy ===== *)
theory CpChecks
  imports CpRuns
begin

text \<open>
  What a passed check guarantees: inversion of the policy checks of the settlement handlers. The
  state a check returns with differs from the state it started in by clock readings only, so
  every fact is stated of the starting state.
\<close>

definition toNonNeg_ok :: "json \<Rightarrow> int \<Rightarrow> bool" where
  "toNonNeg_ok v n = (to_bigint v = Inr n \<and> 0 \<le> n)"

lemma toNonNegativeInteger_Inr: "toNonNegativeInteger v = Inr n \<longleftrightarrow> toNonNeg_ok v n"
  by (auto simp: toNonNegativeInteger_def toNonNeg_ok_def split: sum.splits if_splits)

lemma quiet_fields:
  assumes "quiet p = quiet q"
  shows "institutions p = institutions q" "products p = products q"
    "credentials p = credentials q" "credentialRestrictions p = credentialRestrictions q"
    "evidences p = evidences q" "transactions p = transactions q"
    "cashSettlements p = cashSettlements q" "exceptionCases p = exceptionCases q"
    "idempotency p = idempotency q" "cashBalances p = cashBalances q"
    "assetBalances p = assetBalances q" "legalRegister p = legalRegister q" "events p = events q"
    "random_reads p = random_reads q" "body p = body q"
  using assms body_fields [OF quiet_body [OF assms]] quiet_events [OF assms] quiet_body [OF assms]
  by (simp_all, cases p, cases q, simp add: quiet_def)

text \<open>Where a check that preserves \<open>quiet\<close> has returned, nothing but the clock has moved.\<close>

lemma quiet_after: "preserves quiet m \<Longrightarrow> m s = (r, t) \<Longrightarrow> quiet t = quiet s"
  by (rule preservesD)

definition statement_verified :: "host \<Rightarrow> plane \<Rightarrow> string \<Rightarrow> json \<Rightarrow> string \<Rightarrow> bool" where
  \<comment> \<open>the signature checks under the registered key of this institution\<close>
  "statement_verified h p signer text sig =
     (\<exists>i. jm_get (institutions p) signer = Some i \<and> sig \<noteq> [] \<and>
        h_verify h (inst_publicKeyPem i) (canonicalize text) sig = Some True)"

lemma verifyStatement_True:
  "verifyStatement h signer text sig s = (Inr True, t) \<Longrightarrow>
     statement_verified h s signer text sig \<and> t = s"
  by (auto simp: verifyStatement_def statement_verified_def eff_simps split: option.splits if_splits)

definition eligible :: "host \<Rightarrow> plane \<Rightarrow> product \<Rightarrow> string \<Rightarrow> string \<Rightarrow> int \<Rightarrow> credential \<Rightarrow> bool" where
  \<comment> \<open>the credential admits the investor to the product, at some reading of the clock, for a
      holding that grows by the given units\<close>
  "eligible h p product investorId credentialId n c =
     (jm_get (credentials p) credentialId = Some c
      \<and> (\<forall>r. jm_get (credentialRestrictions p) credentialId = Some r \<longrightarrow> restr_status r = ''ACTIVE'')
      \<and> cred_productId c = prod_id product \<and> cred_subjectId c = investorId
      \<and> statement_verified h p (cred_issuerId c) (unsigned_credential c) (cred_signature c)
      \<and> (\<exists>k. date_le (h_date h (cred_validFrom c)) (Some (h_now h k))
             \<and> date_gt (h_date h (cred_validUntil c)) (Some (h_now h k)))
      \<and> JStr (cred_investorClass c) \<in> set (jelems (jfield (prod_rules product) ''allowedInvestorClasses''))
      \<and> JStr (cred_jurisdiction c) \<in> set (jelems (jfield (prod_rules product) ''allowedJurisdictions''))
      \<and> (\<exists>m. to_bigint (cred_maxUnits c) = Inr m
             \<and> assetOf (assetBalances p) investorId (prod_id product) + n \<le> m))"

lemma statement_verified_quiet:
  "quiet p = quiet q \<Longrightarrow> statement_verified h p signer b sig = statement_verified h q signer b sig"
  unfolding statement_verified_def using quiet_fields(1) [of p q] by simp

lemma eligible_quiet: "quiet p = quiet q \<Longrightarrow> eligible h p pr i c n = eligible h q pr i c n"
  unfolding eligible_def fun_eq_iff
  using quiet_fields(3,4,11) [of p q] statement_verified_quiet [of p q] by simp

lemma now_run: "now h s = (Inr t, u) \<Longrightarrow> t = h_now h (clock_reads s) \<and> quiet u = quiet s"
  by (auto simp: now_def quiet_def)

lemma credentialStatus_restricted:
  "credentialStatus h cid s = (Inr st, t) \<Longrightarrow> jm_get (credentialRestrictions s) cid = Some r \<Longrightarrow>
     st = restr_status r"
  by (simp add: credentialStatus_def eff_simps)

lemma assertEligible_ok:
  assumes "assertEligible h product i cid n s = (Inr u, t)"
  shows "\<exists>c. eligible h s product i cid n c"
proof -
  from assms obtain c status s1 s2 s3 k m where
    c: "jm_get (credentials s) cid = Some c" and
    st: "credentialStatus h cid s = (Inr status, s1)" "status = ''ACTIVE''" and
    sc: "cred_productId c = prod_id product" "cred_subjectId c = i" and
    v: "verify_credential h c s1 = (Inr True, s2)" and
    k: "now h s2 = (Inr k, s3)" and
    w: "date_le (h_date h (cred_validFrom c)) (Some k)" "date_gt (h_date h (cred_validUntil c)) (Some k)" and
    ij: "JStr (cred_investorClass c) \<in> set (jelems (jfield (prod_rules product) ''allowedInvestorClasses''))"
      "JStr (cred_jurisdiction c) \<in> set (jelems (jfield (prod_rules product) ''allowedJurisdictions''))" and
    m: "to_bigint (cred_maxUnits c) = Inr m"
      "assetOf (assetBalances s) i (prod_id product) + n \<le> m"
    by (auto simp: assertEligible_def eff_simps)
  have q: "quiet s1 = quiet s" using quiet_after [OF credentialStatus_quiet st(1)] .
  have sv: "statement_verified h s (cred_issuerId c) (unsigned_credential c) (cred_signature c)"
    using verifyStatement_True v statement_verified_quiet [OF q] unfolding verify_credential_def by blast
  have restr: "\<forall>r. jm_get (credentialRestrictions s) cid = Some r \<longrightarrow> restr_status r = ''ACTIVE''"
    using credentialStatus_restricted [OF st(1)] st(2) by simp
  have win: "\<exists>k. date_le (h_date h (cred_validFrom c)) (Some (h_now h k))
      \<and> date_gt (h_date h (cred_validUntil c)) (Some (h_now h k))"
    using w now_run [OF k] by blast
  have lim: "\<exists>m. to_bigint (cred_maxUnits c) = Inr m
      \<and> assetOf (assetBalances s) i (prod_id product) + n \<le> m"
    using m by blast
  show ?thesis unfolding eligible_def
    by (intro exI [of _ c] conjI) (fact c restr sc sv win ij lim)+
qed

lemma filterE_sound:
  assumes "filterE p xs s = (Inr ys, t)" and "\<And>x s t. p x s = (Inr True, t) \<Longrightarrow> Q x"
  shows "\<forall>y \<in> set ys. y \<in> set xs \<and> Q y"
  using assms(1)
proof (induction xs arbitrary: s ys t)
  case Nil
  then show ?case by (simp add: eff_simps)
next
  case (Cons x xs)
  from Cons.prems obtain b u zs v where b: "p x s = (Inr b, u)"
    and run: "filterE p xs u = (Inr zs, v)" and ys: "ys = (if b then x # zs else zs)"
    by (auto simp: eff_simps)
  from Cons.IH [OF run] ys b assms(2) show ?case by (cases b) auto
qed

lemma currentEvidence_ok:
  assumes "currentEvidence h product d s = (Inr ev, t)"
  shows "ev \<in> set (jm_values (evidences s)) \<and> ev_productId ev = prod_id product \<and> ev_dataType ev = d
    \<and> ev_status ev = ''ACTIVE''
    \<and> (\<exists>k. date_le (h_date h (ev_effectiveAt ev)) (Some (h_now h k)))
    \<and> (\<exists>k. date_gt (h_date h (ev_expiresAt ev)) (Some (h_now h k)))"
proof -
  let ?f = "\<lambda>ev. - date_ms h (ev_effectiveAt ev)"
  from assms obtain found s1 where
    f: "filterE (evidence_in_force h product d) (jm_values (evidences s)) s = (Inr found, s1)"
    by (auto simp: currentEvidence_def eff_simps)
  with assms obtain rest k s2 where
    hd: "sort_key ?f found = ev # rest" and
    k: "now h s1 = (Inr k, s2)" "date_gt (h_date h (ev_expiresAt ev)) (Some k)"
    by (cases "sort_key ?f found") (auto simp: currentEvidence_def eff_simps Let_def)
  have "ev \<in> set found" using hd by (metis list.set_intros(1) set_sort)
  moreover have "\<forall>y \<in> set found. y \<in> set (jm_values (evidences s)) \<and>
     (ev_productId y = prod_id product \<and> ev_dataType y = d \<and> ev_status y = ''ACTIVE''
      \<and> (\<exists>k. date_le (h_date h (ev_effectiveAt y)) (Some (h_now h k))))"
    using f by (rule filterE_sound)
      (auto simp: evidence_in_force_def eff_simps split: if_splits dest!: now_run)
  ultimately show ?thesis using k now_run by blast
qed

section \<open>Subscription\<close>

lemma subscribe_checks_ok:
  assumes "subscribe_checks h r s = (Inr (product, nav, u, a), t)"
  shows "\<not> jm_has (transactions s) (sr_id r)"
    and "jm_get (products s) (sr_productId r) = Some product" and "prod_status product = ''ACTIVE''"
    and "to_bigint (sr_units r) = Inr u" and "0 < u" and "to_bigint (sr_cashAmount r) = Inr a"
    and "\<exists>c. eligible h s product (sr_investorId r) (sr_credentialId r) u c"
    and "nav \<in> set (jm_values (evidences s))" and "ev_dataType nav = ''nav''"
    and "ev_productId nav = prod_id product"
    and "\<exists>price. to_bigint (jfield (ev_payload nav) ''navPerUnit'') = Inr price \<and> a = u * price"
    and "a \<le> jm_get0 (cashBalances s) (cash_key (sr_investorId r) product)"
    and "quiet t = quiet s"
proof -
  from assms obtain s1 s2 s3 price where
    n: "\<not> jm_has (transactions s) (sr_id r)" and
    pr: "jm_get (products s) (sr_productId r) = Some product" "prod_status product = ''ACTIVE''" and
    u: "toNonNegativeInteger (sr_units r) = Inr u" "0 < u" and
    a: "toNonNegativeInteger (sr_cashAmount r) = Inr a" and
    e: "assertEligible h product (sr_investorId r) (sr_credentialId r) u s = (Inr (), s1)" and
    ev: "currentEvidence h product ''nav'' s1 = (Inr nav, s2)" and
    price: "to_bigint (jfield (ev_payload nav) ''navPerUnit'') = Inr price" "a = u * price" and
    cash: "a \<le> jm_get0 (cashBalances s2) (cash_key (sr_investorId r) product)" and t: "t = s2"
    by (auto simp: subscribe_checks_def assertNewTransaction_def activeProduct_def get_product_def
        eff_simps)
  have q1: "quiet s1 = quiet s" using quiet_after [OF assertEligible_quiet e] .
  have q2: "quiet s2 = quiet s" using quiet_after [OF currentEvidence_quiet ev] q1 by simp
  show "\<exists>c. eligible h s product (sr_investorId r) (sr_credentialId r) u c"
    using assertEligible_ok [OF e] .
  show "nav \<in> set (jm_values (evidences s))" "ev_dataType nav = ''nav''"
    "ev_productId nav = prod_id product"
    using currentEvidence_ok [OF ev] quiet_fields [OF q1] by auto
  show "a \<le> jm_get0 (cashBalances s) (cash_key (sr_investorId r) product)"
    using cash quiet_fields [OF q2] by simp
  show "quiet t = quiet s" using q2 t by simp
  show "\<exists>price. to_bigint (jfield (ev_payload nav) ''navPerUnit'') = Inr price \<and> a = u * price"
    using price by blast
qed (use assms in \<open>auto simp: subscribe_checks_def assertNewTransaction_def activeProduct_def
       get_product_def eff_simps toNonNegativeInteger_Inr toNonNeg_ok_def\<close>)

section \<open>Transfer\<close>

lemma transfer_checks_ok:
  assumes "transfer_checks h r s = (Inr tp, t)"
  shows "\<not> jm_has (transactions s) (tr_id r)"
    and "jm_get (products s) (tr_productId r) = Some (tp_product tp)"
    and "prod_status (tp_product tp) = ''ACTIVE''"
    and "\<exists>k. date_gt (h_date h (tr_expiresAt r)) (Some (h_now h k))"
    and "to_bigint (tr_units r) = Inr (tp_units tp)" and "0 < tp_units tp"
    and "to_bigint (tr_pricePerUnit r) = Inr (tp_price tp)" and "0 < tp_price tp"
    and "to_bigint (default_fee (tr_fee r)) = Inr (tp_fee tp)" and "0 \<le> tp_fee tp"
    and "tr_sellerId r \<noteq> tr_buyerId r"
    and "tp_units tp \<le> assetOf (assetBalances s) (tr_sellerId r) (tr_productId r)"
    and "\<exists>c. eligible h s (tp_product tp) (tr_sellerId r) (tr_sellerCredentialId r) 0 c"
    and "\<exists>c. eligible h s (tp_product tp) (tr_buyerId r) (tr_buyerCredentialId r) (tp_units tp) c"
    and "tp_nav tp \<in> set (jm_values (evidences s))" and "ev_dataType (tp_nav tp) = ''nav''"
    and "ev_productId (tp_nav tp) = prod_id (tp_product tp)"
    and "\<exists>price bps. to_bigint (jfield (ev_payload (tp_nav tp)) ''navPerUnit'') = Inr price
      \<and> to_bigint (jfield (prod_rules (tp_product tp)) ''maxPriceDeviationBps'') = Inr bps
      \<and> price_deviation (tp_price tp) price * 10000 \<le> price * bps"
    and "tp_consideration tp = tp_units tp * tp_price tp"
    and "tp_consideration tp + tp_fee tp
      \<le> jm_get0 (cashBalances s) (cash_key (tr_buyerId r) (tp_product tp))"
    and "quiet t = quiet s"
proof -
  from assms obtain product k s1 u p f s2 s3 s4 nav price bps where
    n: "\<not> jm_has (transactions s) (tr_id r)" and
    pr: "jm_get (products s) (tr_productId r) = Some product" "prod_status product = ''ACTIVE''" and
    k: "now h s = (Inr k, s1)" "date_gt (h_date h (tr_expiresAt r)) (Some k)" and
    amounts: "toNonNegativeInteger (tr_units r) = Inr u"
      "toNonNegativeInteger (tr_pricePerUnit r) = Inr p"
      "toNonNegativeInteger (default_fee (tr_fee r)) = Inr f" "0 < u" "0 < p" and
    ne: "tr_sellerId r \<noteq> tr_buyerId r" and
    asset: "u \<le> assetOf (assetBalances s1) (tr_sellerId r) (tr_productId r)" and
    e1: "assertEligible h product (tr_sellerId r) (tr_sellerCredentialId r) 0 s1 = (Inr (), s2)" and
    e2: "assertEligible h product (tr_buyerId r) (tr_buyerCredentialId r) u s2 = (Inr (), s3)" and
    ev: "currentEvidence h product ''nav'' s3 = (Inr nav, s4)" and
    price: "to_bigint (jfield (ev_payload nav) ''navPerUnit'') = Inr price"
      "to_bigint (jfield (prod_rules product) ''maxPriceDeviationBps'') = Inr bps"
      "price_deviation p price * 10000 \<le> price * bps" and
    cash: "u * p + f \<le> jm_get0 (cashBalances s1) (cash_key (tr_buyerId r) product)" and
    tp: "tp = \<lparr>tp_product = product, tp_units = u, tp_price = p, tp_fee = f, tp_nav = nav,
       tp_consideration = u * p\<rparr>" and t: "t = s4"
    by (auto simp: transfer_checks_def assertNewTransaction_def activeProduct_def get_product_def
        eff_simps Let_def)
  have q1: "quiet s1 = quiet s" using now_run [OF k(1)] by simp
  have q2: "quiet s2 = quiet s" using quiet_after [OF assertEligible_quiet e1] q1 by simp
  have q3: "quiet s3 = quiet s" using quiet_after [OF assertEligible_quiet e2] q2 by simp
  have q4: "quiet s4 = quiet s" using quiet_after [OF currentEvidence_quiet ev] q3 by simp
  note amounts' = amounts [unfolded toNonNegativeInteger_Inr toNonNeg_ok_def]
  show "\<not> jm_has (transactions s) (tr_id r)" by (rule n)
  show "jm_get (products s) (tr_productId r) = Some (tp_product tp)"
    "prod_status (tp_product tp) = ''ACTIVE''" using pr tp by simp_all
  show "\<exists>k. date_gt (h_date h (tr_expiresAt r)) (Some (h_now h k))" using k now_run by blast
  show "to_bigint (tr_units r) = Inr (tp_units tp)" "0 < tp_units tp"
    "to_bigint (tr_pricePerUnit r) = Inr (tp_price tp)" "0 < tp_price tp"
    "to_bigint (default_fee (tr_fee r)) = Inr (tp_fee tp)" "0 \<le> tp_fee tp"
    using amounts' tp by simp_all
  show "tr_sellerId r \<noteq> tr_buyerId r" by (rule ne)
  show "tp_units tp \<le> assetOf (assetBalances s) (tr_sellerId r) (tr_productId r)"
    using asset tp quiet_fields(11) [OF q1] by simp
  show "\<exists>c. eligible h s (tp_product tp) (tr_sellerId r) (tr_sellerCredentialId r) 0 c"
    using assertEligible_ok [OF e1] eligible_quiet [OF q1] tp by simp
  show "\<exists>c. eligible h s (tp_product tp) (tr_buyerId r) (tr_buyerCredentialId r) (tp_units tp) c"
    using assertEligible_ok [OF e2] eligible_quiet [OF q2] tp by simp
  show "tp_nav tp \<in> set (jm_values (evidences s))" "ev_dataType (tp_nav tp) = ''nav''"
    "ev_productId (tp_nav tp) = prod_id (tp_product tp)"
    using currentEvidence_ok [OF ev] quiet_fields(5) [OF q3] tp by simp_all
  show "\<exists>price bps. to_bigint (jfield (ev_payload (tp_nav tp)) ''navPerUnit'') = Inr price
      \<and> to_bigint (jfield (prod_rules (tp_product tp)) ''maxPriceDeviationBps'') = Inr bps
      \<and> price_deviation (tp_price tp) price * 10000 \<le> price * bps" using price tp by simp
  show "tp_consideration tp = tp_units tp * tp_price tp" using tp by simp
  show "tp_consideration tp + tp_fee tp
      \<le> jm_get0 (cashBalances s) (cash_key (tr_buyerId r) (tp_product tp))"
    using cash tp quiet_fields(10) [OF q1] by simp
  show "quiet t = quiet s" using q4 t by simp
qed

section \<open>Redemption\<close>

definition exit_allowed :: "host \<Rightarrow> plane \<Rightarrow> product \<Rightarrow> string \<Rightarrow> string \<Rightarrow> string \<Rightarrow> bool" where
  \<comment> \<open>a credential of this investor and product permits the exit, with the given status\<close>
  "exit_allowed h p product investorId credentialId status =
     (\<exists>c. jm_get (credentials p) credentialId = Some c
      \<and> cred_productId c = prod_id product \<and> cred_subjectId c = investorId
      \<and> statement_verified h p (cred_issuerId c) (unsigned_credential c) (cred_signature c)
      \<and> status \<in> {''ACTIVE'', ''RESTRICTED_EXIT''}
      \<and> (\<forall>r. jm_get (credentialRestrictions p) credentialId = Some r \<longrightarrow> restr_status r = status)
      \<and> (status = ''RESTRICTED_EXIT'' \<longrightarrow> jm_has (credentialRestrictions p) credentialId))"

lemma credentialStatus_RESTRICTED:
  "credentialStatus h cid s = (Inr ''RESTRICTED_EXIT'', t) \<Longrightarrow> jm_has (credentialRestrictions s) cid"
  by (auto simp: credentialStatus_def eff_simps jm_has_def split: option.splits if_splits)

lemma assertExitAllowed_ok:
  assumes "assertExitAllowed h product i cid s = (Inr status, t)"
  shows "exit_allowed h s product i cid status"
proof -
  from assms obtain c s1 where
    c: "jm_get (credentials s) cid = Some c" "cred_productId c = prod_id product" "cred_subjectId c = i" and
    v: "verify_credential h c s = (Inr True, s1)" and
    st: "credentialStatus h cid s1 = (Inr status, t)" and
    ok: "status = ''ACTIVE'' \<or> status = ''RESTRICTED_EXIT''"
    unfolding assertExitAllowed_def
    by (simp only: eff_simps prod.inject sum.inject) (elim exE conjE, metis that)
  from verifyStatement_True [OF v [unfolded verify_credential_def]]
  have sv: "statement_verified h s (cred_issuerId c) (unsigned_credential c) (cred_signature c)"
    and s1: "s1 = s" by auto
  have "\<forall>r. jm_get (credentialRestrictions s) cid = Some r \<longrightarrow> restr_status r = status"
    using credentialStatus_restricted [OF st] s1 by simp
  moreover have "status = ''RESTRICTED_EXIT'' \<longrightarrow> jm_has (credentialRestrictions s) cid"
    using credentialStatus_RESTRICTED st s1 by blast
  ultimately show ?thesis unfolding exit_allowed_def using c sv ok by blast
qed

lemma redeem_checks_ok:
  assumes "redeem_checks h r s = (Inr rp, t)"
  shows "\<not> jm_has (transactions s) (rr_id r)"
    and "jm_get (products s) (rr_productId r) = Some (rp_product rp)"
    and "prod_status (rp_product rp) = ''ACTIVE''"
    and "to_bigint (rr_units r) = Inr (rp_unitCount rp)" and "0 < rp_unitCount rp"
    and "exit_allowed h s (rp_product rp) (rr_investorId r) (rr_credentialId r) (rp_credentialStatus rp)"
    and "rp_unitCount rp \<le> assetOf (assetBalances s) (rr_investorId r) (rr_productId r)"
    and "rp_nav rp \<in> set (jm_values (evidences s))" and "ev_dataType (rp_nav rp) = ''nav''"
    and "ev_productId (rp_nav rp) = prod_id (rp_product rp)"
    and "\<exists>price. to_bigint (jfield (ev_payload (rp_nav rp)) ''navPerUnit'') = Inr price
      \<and> rp_cashAmount rp = rp_unitCount rp * price"
    and "rp_cashAmount rp
      \<le> jm_get0 (cashBalances s) (cash_key (prod_issuerId (rp_product rp)) (rp_product rp))"
    and "quiet t = quiet s"
proof -
  from assms obtain product u status s1 nav s2 price where
    n: "\<not> jm_has (transactions s) (rr_id r)" and
    pr: "jm_get (products s) (rr_productId r) = Some product" "prod_status product = ''ACTIVE''" and
    u: "toNonNegativeInteger (rr_units r) = Inr u" "0 < u" and
    e: "assertExitAllowed h product (rr_investorId r) (rr_credentialId r) s = (Inr status, s1)" and
    asset: "u \<le> assetOf (assetBalances s1) (rr_investorId r) (rr_productId r)" and
    ev: "currentEvidence h product ''nav'' s1 = (Inr nav, s2)" and
    price: "to_bigint (jfield (ev_payload nav) ''navPerUnit'') = Inr price" and
    cash: "u * price \<le> jm_get0 (cashBalances s1) (cash_key (prod_issuerId product) product)" and
    rp: "rp = \<lparr>rp_product = product, rp_unitCount = u, rp_credentialStatus = status, rp_nav = nav,
      rp_cashAmount = u * price\<rparr>" and t: "t = s2"
    by (auto simp: redeem_checks_def assertNewTransaction_def activeProduct_def get_product_def
        eff_simps Let_def)
  have q1: "quiet s1 = quiet s" using quiet_after [OF assertExitAllowed_quiet e] .
  have q2: "quiet s2 = quiet s" using quiet_after [OF currentEvidence_quiet ev] q1 by simp
  show "\<not> jm_has (transactions s) (rr_id r)" by (rule n)
  show "jm_get (products s) (rr_productId r) = Some (rp_product rp)"
    "prod_status (rp_product rp) = ''ACTIVE''" using pr rp by simp_all
  show "to_bigint (rr_units r) = Inr (rp_unitCount rp)" "0 < rp_unitCount rp"
    using u [unfolded toNonNegativeInteger_Inr toNonNeg_ok_def] rp by simp_all
  show "exit_allowed h s (rp_product rp) (rr_investorId r) (rr_credentialId r) (rp_credentialStatus rp)"
    using assertExitAllowed_ok [OF e] rp by simp
  show "rp_unitCount rp \<le> assetOf (assetBalances s) (rr_investorId r) (rr_productId r)"
    using asset rp quiet_fields(11) [OF q1] by simp
  show "rp_nav rp \<in> set (jm_values (evidences s))" "ev_dataType (rp_nav rp) = ''nav''"
    "ev_productId (rp_nav rp) = prod_id (rp_product rp)"
    using currentEvidence_ok [OF ev] quiet_fields(5) [OF q1] rp by simp_all
  show "\<exists>price. to_bigint (jfield (ev_payload (rp_nav rp)) ''navPerUnit'') = Inr price
      \<and> rp_cashAmount rp = rp_unitCount rp * price" using price rp by simp
  show "rp_cashAmount rp
      \<le> jm_get0 (cashBalances s) (cash_key (prod_issuerId (rp_product rp)) (rp_product rp))"
    using cash rp quiet_fields(10) [OF q1] by simp
  show "quiet t = quiet s" using q2 rp t by simp
qed

end
