(* ===== verification/CpSpecs.thy ===== *)
theory CpSpecs
  imports CpChecks
begin

text \<open>
  An abstract specification of the four settlement handlers, as relations between the body of the
  state before and after, and the proof that the handlers implement it: from a well-formed state a
  handler either fails and leaves the body as it was, or replays a stored receipt, or performs
  exactly the specified change and stores the receipt under the idempotency key.
\<close>

section \<open>Specifications\<close>

definition nav_price :: "evidence \<Rightarrow> int \<Rightarrow> bool" where
  "nav_price ev n = (to_bigint (jfield (ev_payload ev) ''navPerUnit'') = Inr n)"

definition nav_for :: "plane \<Rightarrow> product \<Rightarrow> evidence \<Rightarrow> bool" where
  "nav_for B product ev =
     (ev \<in> set (jm_values (evidences B)) \<and> ev_dataType ev = ''nav'' \<and> ev_productId ev = prod_id product)"

definition active_product :: "plane \<Rightarrow> string \<Rightarrow> product \<Rightarrow> bool" where
  "active_product B productId product =
     (jm_get (products B) productId = Some product \<and> prod_status product = ''ACTIVE'')"

definition subscribe_spec :: "host \<Rightarrow> subscribe_request \<Rightarrow> receipt \<Rightarrow> plane \<Rightarrow> plane \<Rightarrow> bool" where
  "subscribe_spec h r rc B B' =
     (\<exists>product nav u a price c.
        \<not> jm_has (transactions B) (sr_id r) \<and> active_product B (sr_productId r) product
        \<and> to_bigint (sr_units r) = Inr u \<and> 0 < u \<and> to_bigint (sr_cashAmount r) = Inr a
        \<and> eligible h B product (sr_investorId r) (sr_credentialId r) u c
        \<and> nav_for B product nav \<and> nav_price nav price \<and> a = u * price
        \<and> a \<le> jm_get0 (cashBalances B) (cash_key (sr_investorId r) product)
        \<and> settles h (subscribe_data h r product nav u a)
            (move (cash_key (prod_issuerId product) product) a
              (move (cash_key (sr_investorId r) product) (- a) (cashBalances B)))
            (move (colon (sr_investorId r) (sr_productId r)) u (assetBalances B))
            (move (colon (sr_investorId r) (sr_productId r)) u (legalRegister B)) rc B B')"

definition transfer_terms :: "host \<Rightarrow> transfer_request \<Rightarrow> transfer_plan \<Rightarrow> plane \<Rightarrow> bool" where
  \<comment> \<open>what both \<open>transfer\<close> and \<open>simulateRegisterFailure\<close> have checked\<close>
  "transfer_terms h r tp B =
     (\<not> jm_has (transactions B) (tr_id r) \<and> active_product B (tr_productId r) (tp_product tp)
      \<and> (\<exists>k. date_gt (h_date h (tr_expiresAt r)) (Some (h_now h k)))
      \<and> to_bigint (tr_units r) = Inr (tp_units tp) \<and> 0 < tp_units tp
      \<and> to_bigint (tr_pricePerUnit r) = Inr (tp_price tp) \<and> 0 < tp_price tp
      \<and> to_bigint (default_fee (tr_fee r)) = Inr (tp_fee tp) \<and> 0 \<le> tp_fee tp
      \<and> tr_sellerId r \<noteq> tr_buyerId r
      \<and> tp_units tp \<le> assetOf (assetBalances B) (tr_sellerId r) (tr_productId r)
      \<and> (\<exists>c. eligible h B (tp_product tp) (tr_sellerId r) (tr_sellerCredentialId r) 0 c)
      \<and> (\<exists>c. eligible h B (tp_product tp) (tr_buyerId r) (tr_buyerCredentialId r) (tp_units tp) c)
      \<and> nav_for B (tp_product tp) (tp_nav tp)
      \<and> (\<exists>price bps. nav_price (tp_nav tp) price
          \<and> to_bigint (jfield (prod_rules (tp_product tp)) ''maxPriceDeviationBps'') = Inr bps
          \<and> price_deviation (tp_price tp) price * 10000 \<le> price * bps)
      \<and> tp_consideration tp = tp_units tp * tp_price tp
      \<and> tp_consideration tp + tp_fee tp
          \<le> jm_get0 (cashBalances B) (cash_key (tr_buyerId r) (tp_product tp)))"

definition transfer_spec :: "host \<Rightarrow> transfer_request \<Rightarrow> receipt \<Rightarrow> plane \<Rightarrow> plane \<Rightarrow> bool" where
  "transfer_spec h r rc B B' =
     (\<exists>tp. transfer_terms h r tp B
        \<and> settles h (transfer_data h r tp ''STANDARD'')
            (move (cash_key (prod_issuerId (tp_product tp)) (tp_product tp)) (tp_fee tp)
              (move (cash_key (tr_sellerId r) (tp_product tp)) (tp_consideration tp)
                (move (cash_key (tr_buyerId r) (tp_product tp)) (- (tp_consideration tp + tp_fee tp))
                  (cashBalances B))))
            (move (colon (tr_buyerId r) (tr_productId r)) (tp_units tp)
              (move (colon (tr_sellerId r) (tr_productId r)) (- tp_units tp) (assetBalances B)))
            (move (colon (tr_buyerId r) (tr_productId r)) (tp_units tp)
              (move (colon (tr_sellerId r) (tr_productId r)) (- tp_units tp) (legalRegister B))) rc B B')"

definition redeem_spec :: "host \<Rightarrow> redeem_request \<Rightarrow> receipt \<Rightarrow> plane \<Rightarrow> plane \<Rightarrow> bool" where
  "redeem_spec h r rc B B' =
     (\<exists>rp price.
        \<not> jm_has (transactions B) (rr_id r) \<and> active_product B (rr_productId r) (rp_product rp)
        \<and> to_bigint (rr_units r) = Inr (rp_unitCount rp) \<and> 0 < rp_unitCount rp
        \<and> exit_allowed h B (rp_product rp) (rr_investorId r) (rr_credentialId r) (rp_credentialStatus rp)
        \<and> rp_unitCount rp \<le> assetOf (assetBalances B) (rr_investorId r) (rr_productId r)
        \<and> nav_for B (rp_product rp) (rp_nav rp) \<and> nav_price (rp_nav rp) price
        \<and> rp_cashAmount rp = rp_unitCount rp * price
        \<and> rp_cashAmount rp
            \<le> jm_get0 (cashBalances B) (cash_key (prod_issuerId (rp_product rp)) (rp_product rp))
        \<and> settles h (redeem_data h r rp)
            (move (cash_key (rr_investorId r) (rp_product rp)) (rp_cashAmount rp)
              (move (cash_key (prod_issuerId (rp_product rp)) (rp_product rp)) (- rp_cashAmount rp)
                (cashBalances B)))
            (move (colon (rr_investorId r) (rr_productId r)) (- rp_unitCount rp) (assetBalances B))
            (move (colon (rr_investorId r) (rr_productId r)) (- rp_unitCount rp) (legalRegister B)) rc B B')"

definition register_failure_spec :: "host \<Rightarrow> transfer_request \<Rightarrow> receipt \<Rightarrow> plane \<Rightarrow> plane \<Rightarrow> bool" where
  "register_failure_spec h r rc B B' = (\<exists>tp. transfer_terms h r tp B \<and> opens_review h r tp rc B B')"

section \<open>Well-formed ledgers and evidence\<close>

definition nav_ok :: "plane \<Rightarrow> bool" where
  \<comment> \<open>every NAV on file is positive\<close>
  "nav_ok p = (\<forall>ev \<in> set (jm_values (evidences p)). ev_dataType ev = ''nav'' \<longrightarrow> (\<exists>n > 0. nav_price ev n))"

definition ledgers_ok :: "plane \<Rightarrow> bool" where
  "ledgers_ok p =
     (assetBalances p = legalRegister p \<and> jm_nonneg (cashBalances p) \<and> jm_nonneg (assetBalances p))"

lemma nav_ok_body [simp]: "nav_ok (body p) = nav_ok p"
  by (simp add: nav_ok_def)

lemma ledgers_ok_body [simp]: "ledgers_ok (body p) = ledgers_ok p"
  by (simp add: ledgers_ok_def)

lemma nav_price_pos: "nav_ok B \<Longrightarrow> nav_for B product ev \<Longrightarrow> nav_price ev n \<Longrightarrow> 0 < n"
  unfolding nav_ok_def nav_for_def nav_price_def by auto

lemma assets_nonneg: "ledgers_ok B \<Longrightarrow> 0 \<le> jm_get0 (assetBalances B) k"
  unfolding ledgers_ok_def by (blast intro: jm_nonneg_get0)

lemma statement_verified_body [simp]:
  "statement_verified h (body p) signer b sig = statement_verified h p signer b sig"
  by (simp add: statement_verified_def)

lemma eligible_body [simp]: "eligible h (body p) pr i c n = eligible h p pr i c n"
  by (simp add: eligible_def fun_eq_iff)

lemma exit_allowed_body [simp]: "exit_allowed h (body p) pr i c st = exit_allowed h p pr i c st"
  by (simp add: exit_allowed_def)

section \<open>Attempts\<close>

text \<open>An attempt either fails, leaving the body alone, or succeeds as specified.\<close>

definition all_or_nothing :: "('a \<Rightarrow> plane \<Rightarrow> plane \<Rightarrow> bool) \<Rightarrow> 'a cp \<Rightarrow> plane \<Rightarrow> bool" where
  "all_or_nothing S m B = (\<forall>s x t. body s = B \<longrightarrow> m s = (x, t) \<longrightarrow>
     (case x of Inl e \<Rightarrow> body t = B | Inr a \<Rightarrow> S a B (body t)))"

lemma all_or_nothingI:
  assumes "\<And>s e t. body s = B \<Longrightarrow> m s = (Inl e, t) \<Longrightarrow> body t = B"
    and "\<And>s a t. body s = B \<Longrightarrow> m s = (Inr a, t) \<Longrightarrow> S a B (body t)"
  shows "all_or_nothing S m B"
  unfolding all_or_nothing_def
proof (intro allI impI)
  fix s x t
  assume B: "body s = B" and run: "m s = (x, t)"
  show "case x of Inl e \<Rightarrow> body t = B | Inr a \<Rightarrow> S a B (body t)"
  proof (cases x)
    case (Inl e)
    with assms(1) [OF B] run show ?thesis by simp
  next
    case (Inr a)
    with assms(2) [OF B] run show ?thesis by simp
  qed
qed

lemma all_or_nothingD:
  assumes "all_or_nothing S m (body s)" and "m s = (x, t)"
  shows "(\<exists>e. x = Inl e \<and> body t = body s) \<or> (\<exists>a. x = Inr a \<and> S a (body s) (body t))"
  using assms unfolding all_or_nothing_def by (cases x) auto

text \<open>Checks that only read, followed by effects that cannot fail after them.\<close>

lemma checks_then_effects:
  assumes "preserves quiet m"
    and "\<And>s a t. body s = B \<Longrightarrow> m s = (Inr a, t) \<Longrightarrow> runs (f a) B (\<lambda>b. S b B)"
  shows "all_or_nothing S (bindE m f) B"
proof (rule all_or_nothingI)
  fix s e t
  assume B: "body s = B" and run: "bindE m f s = (Inl e, t)"
  from run consider "m s = (Inl e, t)" | a u where "m s = (Inr a, u)" "f a u = (Inl e, t)"
    by (auto simp: eff_simps)
  then show "body t = B"
  proof cases
    case 1
    with assms(1) B show ?thesis by (metis preserves_quiet_body preservesD)
  next
    case (2 a u)
    from assms(1) 2(1) B have "body u = B" by (metis preserves_quiet_body preservesD)
    with assms(2) [OF B 2(1)] 2(2) show ?thesis by (auto simp: runs_def)
  qed
next
  fix s b t
  assume B: "body s = B" and run: "bindE m f s = (Inr b, t)"
  then obtain a u where 1: "m s = (Inr a, u)" "f a u = (Inr b, t)" by (auto simp: eff_simps)
  from assms(1) 1(1) B have "body u = B" by (metis preserves_quiet_body preservesD)
  with assms(2) [OF B 1(1)] 1(2) show "S b B (body t)" by (auto simp: runs_def)
qed

lemma reject_attempt_run:
  fixes s :: plane
  assumes "reject_attempt h i ty pid e s = ((x :: 'a outcome), t)"
  shows "x = Inl e \<and> body t = body s"
proof -
  have "preserves body (reject_attempt h i ty pid e :: 'a cp)"
    unfolding reject_attempt_def by (intro preserves_intros)
  with assms have "body t = body s" by (auto dest: preservesD)
  moreover have "x = Inl e" using assms
    by (auto simp: reject_attempt_def thenE_def bindE_def record_event_def now_iso_def now_def
        modifyE_def retE_def throwE_def)
  ultimately show ?thesis by simp
qed

lemma runTransactionAttempt_all_or_nothing:
  assumes "\<And>lc. map fst lc = [''REQUESTED''] \<Longrightarrow> all_or_nothing S (op lc) B"
  shows "all_or_nothing S (runTransactionAttempt h i ty pid op) B"
proof -
  have tr: "runs (transition h [] ''REQUESTED'' i ty pid) B (\<lambda>lc B'. map fst lc = [''REQUESTED''] \<and> B' = B)"
    by (intro runs_intros) simp
  have "(case x of Inl e \<Rightarrow> body t = B | Inr a \<Rightarrow> S a B (body t))"
    if B: "body s = B" and run: "runTransactionAttempt h i ty pid op s = (x, t)" for s x t
  proof -
    from tr B obtain lc u where lc: "transition h [] ''REQUESTED'' i ty pid s = (Inr lc, u)"
      "map fst lc = [''REQUESTED'']" "body u = B" by (auto simp: runs_def)
    from run lc(1) have c: "catchE (op lc) (reject_attempt h i ty pid) u = (x, t)"
      by (simp add: runTransactionAttempt_def bindE_run)
    obtain y v where o: "op lc u = (y, v)" by (cases "op lc u")
    from assms [OF lc(2)] lc(3) o have y: "case y of Inl e \<Rightarrow> body v = B | Inr a \<Rightarrow> S a B (body v)"
      unfolding all_or_nothing_def by blast
    show ?thesis
    proof (cases y)
      case (Inl e)
      with c o have "reject_attempt h i ty pid e v = (x, t)" by (simp add: catchE_def)
      from reject_attempt_run [OF this] Inl y show ?thesis by simp
    next
      case (Inr a)
      with c o y show ?thesis by (auto simp: catchE_def)
    qed
  qed
  then show ?thesis unfolding all_or_nothing_def by blast
qed

section \<open>Idempotency\<close>

definition idem_outcome ::
  "host \<Rightarrow> string \<Rightarrow> json \<Rightarrow> (receipt \<Rightarrow> plane \<Rightarrow> plane \<Rightarrow> bool) \<Rightarrow> plane \<Rightarrow> receipt outcome \<Rightarrow> plane \<Rightarrow> bool" where
  "idem_outcome h key request S s x t = (let fp = h_sha256 h (canonicalize request) in
     (\<exists>e. x = Inl e \<and> body t = body s)
     \<or> (\<exists>rc. x = Inr rc \<and> jm_get (idempotency s) key = Some (fp, rc) \<and> t = s)
     \<or> (\<exists>rc B. x = Inr rc \<and> key \<noteq> [] \<and> jm_get (idempotency s) key = None \<and> S rc (body s) B
          \<and> body t = B\<lparr>idempotency := jm_set key (fp, rc) (idempotency B)\<rparr>))"

lemma idempotent_outcome:
  assumes "all_or_nothing S m (body s)" and run: "idempotent h key request m s = (x, t)"
  shows "idem_outcome h key request S s x t"
proof (cases "key = []")
  case True
  with run show ?thesis by (auto simp: idempotent_def ensureE_def thenE_def bindE_def throwE_def
        idem_outcome_def Let_def)
next
  case False
  show ?thesis
  proof (cases "jm_get (idempotency s) key")
    case (Some e)
    with False run show ?thesis
      by (cases e) (auto simp: idempotent_def ensureE_def thenE_def bindE_def throwE_def retE_def
          withE_def idem_outcome_def Let_def split: if_splits)
  next
    case None
    let ?fp = "h_sha256 h (canonicalize request)"
    have run': "bindE m (\<lambda>result. thenE (modifyE (\<lambda>q. q\<lparr>idempotency :=
        jm_set key (?fp, result) (idempotency q)\<rparr>)) (retE result)) s = (x, t)"
      using run None False by (simp add: idempotent_def ensureE_def thenE_def bindE_def retE_def
          withE_def Let_def)
    obtain y u where m: "m s = (y, u)" by (cases "m s")
    from all_or_nothingD [OF assms(1) m] show ?thesis
    proof (elim disjE exE conjE)
      fix e
      assume "y = Inl e" and "body u = body s"
      with run' m show ?thesis by (auto simp: bindE_def idem_outcome_def Let_def)
    next
      fix rc
      assume "y = Inr rc" and "S rc (body s) (body u)"
      with run' m have "x = Inr rc" and "t = u\<lparr>idempotency := jm_set key (?fp, rc) (idempotency u)\<rparr>"
        by (auto simp: bindE_def thenE_def modifyE_def retE_def)
      with \<open>S rc (body s) (body u)\<close> None False show ?thesis
        unfolding idem_outcome_def Let_def by (intro disjI2 exI [of _ rc] exI [of _ "body u"]) simp
    qed
  qed
qed

section \<open>The handlers implement their specifications\<close>

lemma subscribe_attempt:
  assumes nav: "nav_ok B" and led: "ledgers_ok B" and lc: "map fst lc = [''REQUESTED'']"
  shows "all_or_nothing (subscribe_spec h r) (bindE (subscribe_checks h r)
      (\<lambda>(product, nav, u, a). subscribe_effects h r lc product nav u a)) B"
proof (rule checks_then_effects [OF subscribe_checks_quiet])
  fix s x t
  assume B: "body s = B" and run: "subscribe_checks h r s = (Inr x, t)"
  obtain product nav u a where x: "x = (product, nav, u, a)" by (cases x)
  note ok = subscribe_checks_ok [OF run [unfolded x]]
  note [simp] = B [symmetric]
  from ok(7) obtain c where c: "eligible h B product (sr_investorId r) (sr_credentialId r) u c" by auto
  have n: "nav_for B product nav" using ok(8-10) by (simp add: nav_for_def)
  from ok(11) obtain price where p: "nav_price nav price" "a = u * price" by (auto simp: nav_price_def)
  from nav_price_pos [OF nav n p(1)] p ok(5) have "0 < a" by simp
  with ok(12) have "jm_get0 (cashBalances B) (cash_key (sr_investorId r) product) \<noteq> 0" by auto
  from jm_get0_pos_Some [OF this] obtain b where
    b: "jm_get (cashBalances B) (cash_key (sr_investorId r) product) = Some b" by blast
  have units: "0 \<le> jm_get0 (assetBalances B) (colon (sr_investorId r) (sr_productId r)) + u"
    using assets_nonneg [OF led] ok(5) by (intro add_nonneg_nonneg) (simp_all only: less_imp_le)
  have "runs (subscribe_effects h r lc product nav u a) B (\<lambda>rc. settles h (subscribe_data h r product nav u a)
      (move (cash_key (prod_issuerId product) product) a
        (move (cash_key (sr_investorId r) product) (- a) (cashBalances B)))
      (move (colon (sr_investorId r) (sr_productId r)) u (assetBalances B))
      (move (colon (sr_investorId r) (sr_productId r)) u (legalRegister B)) rc B)"
    by (rule subscribe_effects_runs [OF _ lc b units]) (use ok(1) led in \<open>auto simp: ledgers_ok_def\<close>)
  moreover have "active_product B (sr_productId r) product" "\<not> jm_has (transactions B) (sr_id r)"
    "a \<le> jm_get0 (cashBalances B) (cash_key (sr_investorId r) product)"
    using ok by (auto simp: active_product_def)
  ultimately show "runs (case x of (product, nav, u, a) \<Rightarrow> subscribe_effects h r lc product nav u a) B
      (\<lambda>rc. subscribe_spec h r rc B)"
    unfolding x prod.case subscribe_spec_def
    by (elim runs_mono) (use ok c n p in blast)
qed

lemma transfer_checks_terms:
  assumes B: "body s = B" and run: "transfer_checks h r s = (Inr tp, t)"
  shows "transfer_terms h r tp B"
proof -
  note ok = transfer_checks_ok [OF run]
  show ?thesis
    unfolding transfer_terms_def active_product_def nav_for_def nav_price_def
    using ok B [symmetric] by (intro conjI) simp_all
qed

lemma terms_buyer_cash:
  assumes "transfer_terms h r tp B"
  obtains b where "jm_get (cashBalances B) (cash_key (tr_buyerId r) (tp_product tp)) = Some b"
proof -
  from assms have "0 < tp_consideration tp" and "0 \<le> tp_fee tp"
    and "tp_consideration tp + tp_fee tp
      \<le> jm_get0 (cashBalances B) (cash_key (tr_buyerId r) (tp_product tp))"
    by (simp_all add: transfer_terms_def)
  then have "jm_get0 (cashBalances B) (cash_key (tr_buyerId r) (tp_product tp)) \<noteq> 0"
    by linarith
  from jm_get0_pos_Some [OF this] show thesis by (rule that)
qed

lemma transfer_attempt:
  assumes led: "ledgers_ok B" and lc: "map fst lc = [''REQUESTED'']"
  shows "all_or_nothing (transfer_spec h r) (bindE (transfer_checks h r) (transfer_effects h r lc)) B"
proof (rule checks_then_effects [OF transfer_checks_quiet])
  fix s tp t
  assume "body s = B" and "transfer_checks h r s = (Inr tp, t)"
  then have terms: "transfer_terms h r tp B" by (rule transfer_checks_terms)
  obtain b where b: "jm_get (cashBalances B) (cash_key (tr_buyerId r) (tp_product tp)) = Some b"
    using terms_buyer_cash [OF terms] .
  have units: "0 \<le> jm_get0 (assetBalances B) (colon (tr_buyerId r) (tr_productId r)) + tp_units tp"
    using assets_nonneg [OF led] terms
    by (intro add_nonneg_nonneg) (simp_all add: transfer_terms_def)
  have facts: "\<not> jm_has (transactions B) (tr_id r)" "tr_sellerId r \<noteq> tr_buyerId r"
    "tp_units tp \<le> jm_get0 (assetBalances B) (colon (tr_sellerId r) (tr_productId r))"
    "assetBalances B = legalRegister B"
    using terms led by (simp_all add: transfer_terms_def ledgers_ok_def assetOf_def)
  show "runs (transfer_effects h r lc tp) B (\<lambda>rc. transfer_spec h r rc B)"
    by (rule runs_mono [OF transfer_effects_runs [OF facts(1) lc b facts(3) units facts(2,4)]])
       (use terms in \<open>auto simp only: transfer_spec_def\<close>)
qed

lemma redeem_attempt:
  assumes nav: "nav_ok B" and led: "ledgers_ok B" and lc: "map fst lc = [''REQUESTED'']"
  shows "all_or_nothing (redeem_spec h r) (bindE (redeem_checks h r) (redeem_effects h r lc)) B"
proof (rule checks_then_effects [OF redeem_checks_quiet])
  fix s rp t
  assume B: "body s = B" and run: "redeem_checks h r s = (Inr rp, t)"
  note ok = redeem_checks_ok [OF run]
  note [simp] = B [symmetric]
  have n: "nav_for B (rp_product rp) (rp_nav rp)" using ok(8-10) by (simp add: nav_for_def)
  from ok(11) obtain price where p: "nav_price (rp_nav rp) price"
    "rp_cashAmount rp = rp_unitCount rp * price" by (auto simp: nav_price_def)
  from nav_price_pos [OF nav n p(1)] p ok(5) have "0 < rp_cashAmount rp" by simp
  with ok(12) have "jm_get0 (cashBalances B) (cash_key (prod_issuerId (rp_product rp)) (rp_product rp)) \<noteq> 0"
    by auto
  from jm_get0_pos_Some [OF this] obtain b where
    b: "jm_get (cashBalances B) (cash_key (prod_issuerId (rp_product rp)) (rp_product rp)) = Some b" by blast
  have facts: "\<not> jm_has (transactions B) (rr_id r)" "active_product B (rr_productId r) (rp_product rp)"
    "exit_allowed h B (rp_product rp) (rr_investorId r) (rr_credentialId r) (rp_credentialStatus rp)"
    "rp_unitCount rp \<le> assetOf (assetBalances B) (rr_investorId r) (rr_productId r)"
    "rp_cashAmount rp \<le> jm_get0 (cashBalances B) (cash_key (prod_issuerId (rp_product rp)) (rp_product rp))"
    using ok by (auto simp: active_product_def)
  have "runs (redeem_effects h r lc rp) B (\<lambda>rc. settles h (redeem_data h r rp)
      (move (cash_key (rr_investorId r) (rp_product rp)) (rp_cashAmount rp)
        (move (cash_key (prod_issuerId (rp_product rp)) (rp_product rp)) (- rp_cashAmount rp)
          (cashBalances B)))
      (move (colon (rr_investorId r) (rr_productId r)) (- rp_unitCount rp) (assetBalances B))
      (move (colon (rr_investorId r) (rr_productId r)) (- rp_unitCount rp) (legalRegister B)) rc B)"
    by (rule redeem_effects_runs [OF _ lc b])
       (use facts led in \<open>auto simp: ledgers_ok_def assetOf_def\<close>)
  then show "runs (redeem_effects h r lc rp) B (\<lambda>rc. redeem_spec h r rc B)"
    unfolding redeem_spec_def by (elim runs_mono) (use ok facts n p in blast)
qed

lemma register_failure_attempt:
  assumes lc: "map fst lc = [''REQUESTED'']"
  shows "all_or_nothing (register_failure_spec h r)
    (bindE (transfer_checks h r) (register_failure_effects h r lc)) B"
proof (rule checks_then_effects [OF transfer_checks_quiet])
  fix s tp t
  assume "body s = B" and "transfer_checks h r s = (Inr tp, t)"
  then have terms: "transfer_terms h r tp B" by (rule transfer_checks_terms)
  show "runs (register_failure_effects h r lc tp) B (\<lambda>rc. register_failure_spec h r rc B)"
    unfolding register_failure_spec_def
    by (rule runs_mono [OF register_failure_effects_runs [OF _ lc]])
       (use terms in \<open>auto simp: transfer_terms_def\<close>)
qed

lemma subscribe_outcome:
  assumes "nav_ok s" and "ledgers_ok s" and "subscribe h r s = (x, t)"
  shows "idem_outcome h (sr_idempotencyKey r) (subscribe_json r) (subscribe_spec h r) s x t"
  by (rule idempotent_outcome [OF runTransactionAttempt_all_or_nothing [OF subscribe_attempt]
        assms(3) [unfolded subscribe_def]]) (use assms in simp_all)

lemma transfer_outcome:
  assumes "ledgers_ok s" and "transfer h r s = (x, t)"
  shows "idem_outcome h (tr_idempotencyKey r) (transfer_json r) (transfer_spec h r) s x t"
  by (rule idempotent_outcome [OF runTransactionAttempt_all_or_nothing [OF transfer_attempt]
        assms(2) [unfolded transfer_def]]) (use assms in simp_all)

lemma redeem_outcome:
  assumes "nav_ok s" and "ledgers_ok s" and "redeem h r s = (x, t)"
  shows "idem_outcome h (rr_idempotencyKey r) (redeem_json r) (redeem_spec h r) s x t"
  by (rule idempotent_outcome [OF runTransactionAttempt_all_or_nothing [OF redeem_attempt]
        assms(3) [unfolded redeem_def]]) (use assms in simp_all)

lemma register_failure_outcome:
  assumes "simulateRegisterFailure h r s = (x, t)"
  shows "idem_outcome h (tr_idempotencyKey r) (transfer_json r) (register_failure_spec h r) s x t"
  by (rule idempotent_outcome [OF runTransactionAttempt_all_or_nothing [OF register_failure_attempt]
        assms [unfolded simulateRegisterFailure_def]])

end
