(* ===== verification/CpInvariant.thy ===== *)
theory CpInvariant
  imports CpSpecs
begin

text \<open>
  The invariant of the control plane and its preservation by the settlement handlers: the ledgers
  agree and are never negative, every settled transaction has its cash confirmed and its full
  lifecycle, and every exception case agrees with the transaction it is about, its proposal and
  the two people who handled it.
\<close>

section \<open>The invariant\<close>

definition restrictions_ok :: "plane \<Rightarrow> bool" where
  "restrictions_ok p =
     (\<forall>k r. jm_get (credentialRestrictions p) k = Some r \<longrightarrow> restr_status r = ''RESTRICTED_EXIT'')"

definition tx_ok :: "plane \<Rightarrow> string \<Rightarrow> transaction \<Rightarrow> bool" where
  "tx_ok p k t =
     (tx_id t = k \<and>
      (tx_state t = ''SETTLED'' \<longrightarrow>
         map fst (tx_lifecycle t) = settled_lifecycle \<and>
         (\<exists>c. jm_get (cashSettlements p) k = Some c \<and> cs_state c = ''CONFIRMED'')))"

definition txs_ok :: "plane \<Rightarrow> bool" where
  "txs_ok p = (jm_wf (transactions p) \<and> (\<forall>k t. jm_get (transactions p) k = Some t \<longrightarrow> tx_ok p k t))"

definition proposal_ok :: "proposal \<Rightarrow> bool" where
  "proposal_ok pr =
     (pr_makerId pr \<noteq> [] \<and>
      (pr_decision pr = ''CANCEL'' \<or>
       pr_decision pr = ''RETRY'' \<and> truthy_opt (pr_replacementTransactionId pr)))"

definition checked_by_other :: "exception_case \<Rightarrow> proposal \<Rightarrow> bool" where
  \<comment> \<open>resolved, and by somebody else than the maker\<close>
  "checked_by_other c pr =
     (ec_resolvedAt c \<noteq> None \<and>
      (\<exists>ck. ec_checkedBy c = Some ck \<and> ck \<noteq> [] \<and> ck \<noteq> pr_makerId pr))"

definition open_case :: "exception_case \<Rightarrow> transaction \<Rightarrow> bool" where
  "open_case c t = (ec_status c = ''OPEN'' \<and> ec_proposal c = None \<and> ec_checkedBy c = None
     \<and> ec_resolvedAt c = None \<and> tx_state t = ''REQUIRES_REVIEW'')"

definition pending_case :: "exception_case \<Rightarrow> transaction \<Rightarrow> bool" where
  "pending_case c t = (ec_status c = ''PENDING_APPROVAL'' \<and> ec_checkedBy c = None
     \<and> ec_resolvedAt c = None \<and> tx_state t = ''PENDING_APPROVAL''
     \<and> (\<exists>pr. ec_proposal c = Some pr \<and> proposal_ok pr))"

definition cancelled_case :: "exception_case \<Rightarrow> transaction \<Rightarrow> bool" where
  "cancelled_case c t = (ec_status c = ''RESOLVED_CANCELLED'' \<and> tx_state t = ''CANCELLED''
     \<and> (\<exists>pr. ec_proposal c = Some pr \<and> proposal_ok pr \<and> pr_decision pr = ''CANCEL''
          \<and> checked_by_other c pr))"

definition retried_case :: "exception_case \<Rightarrow> transaction \<Rightarrow> bool" where
  "retried_case c t = (ec_status c = ''RESOLVED_RETRIED'' \<and> tx_state t = ''REPLACED''
     \<and> (\<exists>pr. ec_proposal c = Some pr \<and> proposal_ok pr \<and> pr_decision pr = ''RETRY''
          \<and> ec_replacementTransactionId c = pr_replacementTransactionId pr \<and> checked_by_other c pr))"

definition case_ok :: "plane \<Rightarrow> string \<Rightarrow> exception_case \<Rightarrow> bool" where
  "case_ok p k c =
     (k = ''case-'' @ ec_transactionId c \<and>
      (\<exists>t. jm_get (transactions p) (ec_transactionId c) = Some t \<and>
         (open_case c t \<or> pending_case c t \<or> cancelled_case c t \<or> retried_case c t)))"

definition cases_ok :: "plane \<Rightarrow> bool" where
  "cases_ok p = (jm_wf (exceptionCases p) \<and>
     (\<forall>k c. jm_get (exceptionCases p) k = Some c \<longrightarrow> case_ok p k c))"

definition plane_ok :: "plane \<Rightarrow> bool" where
  "plane_ok p = (nav_ok p \<and> ledgers_ok p \<and> restrictions_ok p \<and> txs_ok p \<and> cases_ok p)"

lemmas plane_ok_defs = plane_ok_def nav_ok_def ledgers_ok_def restrictions_ok_def txs_ok_def cases_ok_def

lemma plane_okD:
  "plane_ok p \<Longrightarrow> nav_ok p" "plane_ok p \<Longrightarrow> ledgers_ok p" "plane_ok p \<Longrightarrow> restrictions_ok p"
  "plane_ok p \<Longrightarrow> txs_ok p" "plane_ok p \<Longrightarrow> cases_ok p"
  by (simp_all add: plane_ok_def)

lemma tx_ok_body [simp]: "tx_ok (body p) = tx_ok p"
  by (simp add: tx_ok_def fun_eq_iff)

lemma case_ok_body [simp]: "case_ok (body p) = case_ok p"
  by (simp add: case_ok_def fun_eq_iff)

lemma plane_ok_body [simp]: "plane_ok (body p) = plane_ok p"
  by (simp add: plane_ok_defs)

lemma plane_ok_cong: "body t = body s \<Longrightarrow> plane_ok t = plane_ok s"
  by (metis plane_ok_body)

lemma plane_ok_new: "plane_ok new_plane"
  by (simp add: plane_ok_defs new_plane_def)

lemma plane_ok_idempotency [simp]: "plane_ok (p\<lparr>idempotency := m\<rparr>) = plane_ok p"
  by (simp add: plane_ok_defs tx_ok_def case_ok_def nav_for_def)

section \<open>Adding a transaction\<close>

lemma ledgers_ok_frame:
  "ledgers_ok B \<Longrightarrow> cashBalances B' = cashBalances B \<Longrightarrow> assetBalances B' = assetBalances B \<Longrightarrow>
     legalRegister B' = legalRegister B \<Longrightarrow> ledgers_ok B'"
  unfolding ledgers_ok_def by metis

lemma case_tx_not_fresh:
  "cases_ok B \<Longrightarrow> jm_get (exceptionCases B) k = Some c \<Longrightarrow> \<not> jm_has (transactions B) i \<Longrightarrow>
     ec_transactionId c \<noteq> i"
  unfolding cases_ok_def case_ok_def jm_has_def by (metis option.distinct(1))

lemma settles_ok:
  assumes ok: "plane_ok B" and fresh: "\<not> jm_has (transactions B) (td_id d)"
    and cash: "jm_nonneg cash" and units: "jm_nonneg assets" and eq: "assets = reg"
    and s: "settles h d cash assets reg rc B B'"
  shows "plane_ok B'"
proof -
  from s obtain at lc c cs where cs: "cs_state cs = ''CONFIRMED''" and lc: "map fst lc = settled_lifecycle"
    and B': "B' = B\<lparr>cashBalances := cash, assetBalances := assets, legalRegister := reg,
        cashSettlements := jm_set (td_id d) cs (cashSettlements B),
        transactions := jm_set (td_id d) (make_transaction d ''SETTLED'' (Some at) lc c) (transactions B)\<rparr>"
    unfolding settles_def Let_def by blast
  have t: "txs_ok B'" using plane_okD(4) [OF ok] cs lc
    unfolding txs_ok_def B' by (auto simp: tx_ok_def)
  have c: "cases_ok B'" using plane_okD(5) [OF ok] case_tx_not_fresh [OF plane_okD(5) [OF ok] _ fresh]
    unfolding cases_ok_def B' by (auto simp: case_ok_def)
  have "nav_ok B'" "restrictions_ok B'" using ok unfolding B'
    by (simp_all add: plane_ok_def nav_ok_def restrictions_ok_def)
  moreover have "ledgers_ok B'" using cash units eq unfolding B' by (simp add: ledgers_ok_def)
  ultimately show ?thesis using t c by (simp add: plane_ok_def)
qed

lemma opens_review_ok:
  assumes ok: "plane_ok B" and fresh: "\<not> jm_has (transactions B) (tr_id r)"
    and o: "opens_review h r tp rc B B'"
  shows "plane_ok B'"
proof -
  from o obtain at lc c cs where
    B': "B' = B\<lparr>cashSettlements := jm_set (tr_id r) cs (cashSettlements B),
           transactions := jm_set (tr_id r) (make_transaction (transfer_data h r tp ''EXCEPTION_REVIEW'')
             ''REQUIRES_REVIEW'' None lc c) (transactions B),
           exceptionCases := jm_set (''case-'' @ tr_id r) (new_case r tp at) (exceptionCases B)\<rparr>"
    unfolding opens_review_def Let_def by blast
  have fresh': "jm_get (transactions B) (tr_id r) = None" using fresh by (simp add: jm_has_def)
  have t: "txs_ok B'" using plane_okD(4) [OF ok] unfolding txs_ok_def B' by (auto simp: tx_ok_def fresh')
  have c: "cases_ok B'" using plane_okD(5) [OF ok] case_tx_not_fresh [OF plane_okD(5) [OF ok] _ fresh]
    unfolding cases_ok_def B' by (auto simp: case_ok_def new_case_def open_case_def)
  have "ledgers_ok B'" by (rule ledgers_ok_frame [OF plane_okD(2) [OF ok]]) (simp_all add: B')
  moreover have "nav_ok B'" "restrictions_ok B'" using ok unfolding B'
    by (simp_all add: plane_ok_def nav_ok_def restrictions_ok_def)
  ultimately show ?thesis using t c by (simp add: plane_ok_def)
qed

section \<open>The settlement handlers keep it\<close>

lemma ledgers_okD:
  "ledgers_ok B \<Longrightarrow> jm_nonneg (cashBalances B)" "ledgers_ok B \<Longrightarrow> jm_nonneg (assetBalances B)"
  "ledgers_ok B \<Longrightarrow> assetBalances B = legalRegister B"
  unfolding ledgers_ok_def by blast+

lemma cash_nonneg: "ledgers_ok B \<Longrightarrow> 0 \<le> jm_get0 (cashBalances B) k"
  unfolding ledgers_ok_def by (blast intro: jm_nonneg_get0)

lemma subscribe_spec_ok: "plane_ok B \<Longrightarrow> subscribe_spec h r rc B B' \<Longrightarrow> plane_ok B'"
proof -
  assume ok: "plane_ok B" and "subscribe_spec h r rc B B'"
  then obtain product nav u a price where
    fresh: "\<not> jm_has (transactions B) (sr_id r)" and u: "0 < u" and
    n: "nav_for B product nav" "nav_price nav price" "a = u * price" and
    cash: "a \<le> jm_get0 (cashBalances B) (cash_key (sr_investorId r) product)" and
    s: "settles h (subscribe_data h r product nav u a)
            (move (cash_key (prod_issuerId product) product) a
              (move (cash_key (sr_investorId r) product) (- a) (cashBalances B)))
            (move (colon (sr_investorId r) (sr_productId r)) u (assetBalances B))
            (move (colon (sr_investorId r) (sr_productId r)) u (legalRegister B)) rc B B'"
    unfolding subscribe_spec_def by blast
  note led = plane_okD(2) [OF ok]
  have a: "0 \<le> a" using nav_price_pos [OF plane_okD(1) [OF ok] n(1,2)] n(3) u by simp
  show "plane_ok B'"
  proof (rule settles_ok [OF ok _ _ _ _ s])
    show "\<not> jm_has (transactions B) (td_id (subscribe_data h r product nav u a))" using fresh by simp
    show "jm_nonneg (move (cash_key (prod_issuerId product) product) a
        (move (cash_key (sr_investorId r) product) (- a) (cashBalances B)))"
      using led cash a cash_nonneg [OF led]
      by (intro jm_nonneg_move) (simp_all add: ledgers_ok_def jm_get0_move)
    show "jm_nonneg (move (colon (sr_investorId r) (sr_productId r)) u (assetBalances B))"
      using u assets_nonneg [OF led, of "colon (sr_investorId r) (sr_productId r)"]
      by (intro jm_nonneg_move ledgers_okD [OF led]) simp
    show "move (colon (sr_investorId r) (sr_productId r)) u (assetBalances B)
      = move (colon (sr_investorId r) (sr_productId r)) u (legalRegister B)"
      using led by (simp add: ledgers_ok_def)
  qed
qed

lemma transfer_spec_ok: "plane_ok B \<Longrightarrow> transfer_spec h r rc B B' \<Longrightarrow> plane_ok B'"
proof -
  assume ok: "plane_ok B" and "transfer_spec h r rc B B'"
  then obtain tp where terms: "transfer_terms h r tp B" and
    s: "settles h (transfer_data h r tp ''STANDARD'')
            (move (cash_key (prod_issuerId (tp_product tp)) (tp_product tp)) (tp_fee tp)
              (move (cash_key (tr_sellerId r) (tp_product tp)) (tp_consideration tp)
                (move (cash_key (tr_buyerId r) (tp_product tp)) (- (tp_consideration tp + tp_fee tp))
                  (cashBalances B))))
            (move (colon (tr_buyerId r) (tr_productId r)) (tp_units tp)
              (move (colon (tr_sellerId r) (tr_productId r)) (- tp_units tp) (assetBalances B)))
            (move (colon (tr_buyerId r) (tr_productId r)) (tp_units tp)
              (move (colon (tr_sellerId r) (tr_productId r)) (- tp_units tp) (legalRegister B))) rc B B'"
    unfolding transfer_spec_def by blast
  note led = plane_okD(2) [OF ok]
  have nn: "0 \<le> tp_fee tp" "0 < tp_units tp" "0 \<le> tp_consideration tp" "tr_sellerId r \<noteq> tr_buyerId r"
    "tp_consideration tp + tp_fee tp \<le> jm_get0 (cashBalances B) (cash_key (tr_buyerId r) (tp_product tp))"
    "tp_units tp \<le> jm_get0 (assetBalances B) (colon (tr_sellerId r) (tr_productId r))"
    using terms by (simp_all add: transfer_terms_def assetOf_def)
  show "plane_ok B'"
  proof (rule settles_ok [OF ok _ _ _ _ s])
    show "\<not> jm_has (transactions B) (td_id (transfer_data h r tp ''STANDARD''))"
      using terms by (simp add: transfer_terms_def)
    show "jm_nonneg (move (cash_key (prod_issuerId (tp_product tp)) (tp_product tp)) (tp_fee tp)
              (move (cash_key (tr_sellerId r) (tp_product tp)) (tp_consideration tp)
                (move (cash_key (tr_buyerId r) (tp_product tp)) (- (tp_consideration tp + tp_fee tp))
                  (cashBalances B))))"
      using led nn cash_nonneg [OF led]
      by (intro jm_nonneg_move) (auto simp: ledgers_ok_def jm_get0_move intro: add_nonneg_nonneg)
    show "jm_nonneg (move (colon (tr_buyerId r) (tr_productId r)) (tp_units tp)
              (move (colon (tr_sellerId r) (tr_productId r)) (- tp_units tp) (assetBalances B)))"
      using nn assets_nonneg [OF led, of "colon (tr_buyerId r) (tr_productId r)"]
      by (intro jm_nonneg_move ledgers_okD [OF led]) (auto simp: jm_get0_move)
    show "move (colon (tr_buyerId r) (tr_productId r)) (tp_units tp)
              (move (colon (tr_sellerId r) (tr_productId r)) (- tp_units tp) (assetBalances B))
      = move (colon (tr_buyerId r) (tr_productId r)) (tp_units tp)
              (move (colon (tr_sellerId r) (tr_productId r)) (- tp_units tp) (legalRegister B))"
      using led by (simp add: ledgers_ok_def)
  qed
qed

lemma redeem_spec_ok: "plane_ok B \<Longrightarrow> redeem_spec h r rc B B' \<Longrightarrow> plane_ok B'"
proof -
  assume ok: "plane_ok B" and "redeem_spec h r rc B B'"
  then obtain rp price where
    fresh: "\<not> jm_has (transactions B) (rr_id r)" and u: "0 < rp_unitCount rp" and
    asset: "rp_unitCount rp \<le> assetOf (assetBalances B) (rr_investorId r) (rr_productId r)" and
    n: "nav_for B (rp_product rp) (rp_nav rp)" "nav_price (rp_nav rp) price"
      "rp_cashAmount rp = rp_unitCount rp * price" and
    cash: "rp_cashAmount rp
      \<le> jm_get0 (cashBalances B) (cash_key (prod_issuerId (rp_product rp)) (rp_product rp))" and
    s: "settles h (redeem_data h r rp)
            (move (cash_key (rr_investorId r) (rp_product rp)) (rp_cashAmount rp)
              (move (cash_key (prod_issuerId (rp_product rp)) (rp_product rp)) (- rp_cashAmount rp)
                (cashBalances B)))
            (move (colon (rr_investorId r) (rr_productId r)) (- rp_unitCount rp) (assetBalances B))
            (move (colon (rr_investorId r) (rr_productId r)) (- rp_unitCount rp) (legalRegister B)) rc B B'"
    unfolding redeem_spec_def by blast
  note led = plane_okD(2) [OF ok]
  have a: "0 \<le> rp_cashAmount rp" using nav_price_pos [OF plane_okD(1) [OF ok] n(1,2)] n(3) u by simp
  show "plane_ok B'"
  proof (rule settles_ok [OF ok _ _ _ _ s])
    show "\<not> jm_has (transactions B) (td_id (redeem_data h r rp))" using fresh by simp
    show "jm_nonneg (move (cash_key (rr_investorId r) (rp_product rp)) (rp_cashAmount rp)
        (move (cash_key (prod_issuerId (rp_product rp)) (rp_product rp)) (- rp_cashAmount rp)
          (cashBalances B)))"
      using led cash a cash_nonneg [OF led]
      by (intro jm_nonneg_move) (simp_all add: ledgers_ok_def jm_get0_move)
    show "jm_nonneg (move (colon (rr_investorId r) (rr_productId r)) (- rp_unitCount rp) (assetBalances B))"
      using asset by (intro jm_nonneg_move ledgers_okD [OF led]) (simp add: assetOf_def)
    show "move (colon (rr_investorId r) (rr_productId r)) (- rp_unitCount rp) (assetBalances B)
      = move (colon (rr_investorId r) (rr_productId r)) (- rp_unitCount rp) (legalRegister B)"
      using led by (simp add: ledgers_ok_def)
  qed
qed

lemma register_failure_spec_ok: "plane_ok B \<Longrightarrow> register_failure_spec h r rc B B' \<Longrightarrow> plane_ok B'"
  unfolding register_failure_spec_def by (auto simp: transfer_terms_def intro: opens_review_ok)

lemma idem_outcome_ok:
  assumes "idem_outcome h key req S s x t" and "plane_ok s"
    and "\<And>rc B. S rc (body s) B \<Longrightarrow> plane_ok B"
  shows "plane_ok t"
  using assms(1) unfolding idem_outcome_def Let_def
proof (elim disjE exE conjE)
  fix e
  assume "body t = body s"
  then show ?thesis using assms(2) plane_ok_cong by blast
next
  fix rc
  assume "t = s"
  then show ?thesis using assms(2) by simp
next
  fix rc B
  assume "S rc (body s) B" and
    "body t = B\<lparr>idempotency := jm_set key (h_sha256 h (canonicalize req), rc) (idempotency B)\<rparr>"
  then have "plane_ok (body t)" using assms(3) by simp
  then show ?thesis by simp
qed

lemma subscribe_ok:
  assumes "plane_ok s" and "subscribe h r s = (x, t)"
  shows "plane_ok t"
  using idem_outcome_ok [OF subscribe_outcome [OF plane_okD(1,2) [OF assms(1)] assms(2)] assms(1)]
    subscribe_spec_ok assms(1) plane_ok_body by blast

lemma transfer_ok:
  assumes "plane_ok s" and "transfer h r s = (x, t)"
  shows "plane_ok t"
  using idem_outcome_ok [OF transfer_outcome [OF plane_okD(2) [OF assms(1)] assms(2)] assms(1)]
    transfer_spec_ok assms(1) plane_ok_body by blast

lemma redeem_ok:
  assumes "plane_ok s" and "redeem h r s = (x, t)"
  shows "plane_ok t"
  using idem_outcome_ok [OF redeem_outcome [OF plane_okD(1,2) [OF assms(1)] assms(2)] assms(1)]
    redeem_spec_ok assms(1) plane_ok_body by blast

lemma register_failure_ok:
  assumes "plane_ok s" and "simulateRegisterFailure h r s = (x, t)"
  shows "plane_ok t"
  using idem_outcome_ok [OF register_failure_outcome [OF assms(2)] assms(1)]
    register_failure_spec_ok assms(1) plane_ok_body by blast

end
