(* ===== verification/CpResolution.thy ===== *)
theory CpResolution
  imports CpInvariant
begin

text \<open>
  What the two exception handlers do: the maker's proposal either fails and changes nothing or
  moves the case and its transaction to PENDING_APPROVAL; the checker's approval fails and changes
  nothing, cancels, retries through \<open>transfer\<close>, or, when the retry throws, reopens the case.
\<close>

section \<open>Outcomes on bodies\<close>

definition yields :: "'a cp \<Rightarrow> plane \<Rightarrow> ('a outcome \<Rightarrow> plane \<Rightarrow> bool) \<Rightarrow> bool" where
  \<comment> \<open>from every state with body \<open>B\<close> the outcome and the body after it satisfy \<open>P\<close>\<close>
  "yields m B P = (\<forall>s x t. body s = B \<longrightarrow> m s = (x, t) \<longrightarrow> P x (body t))"

lemma yieldsI: "(\<And>s x t. body s = B \<Longrightarrow> m s = (x, t) \<Longrightarrow> P x (body t)) \<Longrightarrow> yields m B P"
  by (simp add: yields_def)

lemma yieldsD: "yields m (body s) P \<Longrightarrow> m s = (x, t) \<Longrightarrow> P x (body t)"
  by (simp add: yields_def)

lemma yields_runs: "runs m B Q \<Longrightarrow> (\<And>a B'. Q a B' \<Longrightarrow> P (Inr a) B') \<Longrightarrow> yields m B P"
  unfolding runs_def yields_def by (metis prod.inject)

lemma yields_bindE:
  assumes "yields m B (\<lambda>x B'. case x of Inl e \<Rightarrow> P (Inl e) B' | Inr a \<Rightarrow> yields (f a) B' P)"
  shows "yields (bindE m f) B P"
proof (rule yieldsI)
  fix s x t
  assume B: "body s = B" and run: "bindE m f s = (x, t)"
  obtain y u where m: "m s = (y, u)" by (cases "m s")
  from assms B m have y: "case y of Inl e \<Rightarrow> P (Inl e) (body u) | Inr a \<Rightarrow> yields (f a) (body u) P"
    unfolding yields_def by blast
  show "P x (body t)"
    using y run m by (cases y) (auto simp: bindE_def dest: yieldsD)
qed

lemma yields_catchE:
  assumes "yields m B (\<lambda>x B'. case x of Inl e \<Rightarrow> yields (f e) B' P | Inr a \<Rightarrow> P (Inr a) B')"
  shows "yields (catchE m f) B P"
proof (rule yieldsI)
  fix s x t
  assume B: "body s = B" and run: "catchE m f s = (x, t)"
  obtain y u where m: "m s = (y, u)" by (cases "m s")
  from assms B m have y: "case y of Inl e \<Rightarrow> yields (f e) (body u) P | Inr a \<Rightarrow> P (Inr a) (body u)"
    unfolding yields_def by blast
  show "P x (body t)"
    using y run m by (cases y) (auto simp: catchE_def dest: yieldsD)
qed

lemma yields_throwE: "P (Inl e) B \<Longrightarrow> yields (throwE e) B P"
  by (rule yieldsI) (auto simp: throwE_iff)

lemma yields_step:
  assumes "runs m B Q" and "\<And>a B'. Q a B' \<Longrightarrow> yields (f a) B' P"
  shows "yields (bindE m f) B P"
  by (rule yields_bindE, rule yields_runs [OF assms(1)]) (simp add: assms(2))

lemma yields_then:
  assumes "runs m B Q" and "\<And>a B'. Q a B' \<Longrightarrow> yields n B' P"
  shows "yields (thenE m n) B P"
  unfolding thenE_def by (rule yields_step [OF assms])

lemma yields_ensure:
  assumes "c \<Longrightarrow> yields m B P" and "\<not> c \<Longrightarrow> P (Inl (Coded code)) B"
  shows "yields (thenE (ensureE c code) m) B P"
proof (cases c)
  case True
  then show ?thesis using assms(1)
    by (auto simp: yields_def thenE_def bindE_def ensureE_def retE_def)
next
  case False
  then show ?thesis using assms(2)
    by (auto simp: yields_def thenE_def bindE_def ensureE_def throwE_def)
qed

lemma yields_opt:
  assumes "\<And>a. x = Some a \<Longrightarrow> yields (f a) B P" and "x = None \<Longrightarrow> P (Inl e) B"
  shows "yields (bindE (optE x e) f) B P"
  using assms by (cases x) (auto simp: yields_def bindE_def optE_def retE_def throwE_def)

lemma yields_get_case:
  assumes "\<And>c. jm_get (exceptionCases B) cid = Some c \<Longrightarrow> yields (f c) B P"
    and "jm_get (exceptionCases B) cid = None \<Longrightarrow> P (Inl (Coded ''UNKNOWN_EXCEPTION'')) B"
  shows "yields (bindE (get_case cid) f) B P"
proof (cases "jm_get (exceptionCases B) cid")
  case None
  with assms(2) show ?thesis
    by (auto simp: yields_def get_case_def bindE_def withE_def optE_def throwE_def)
next
  case (Some c)
  with assms(1) [OF Some] show ?thesis
    by (auto simp: yields_def get_case_def bindE_def withE_def optE_def retE_def)
qed

lemma jm_set_set [simp]: "jm_set k v (jm_set k w m) = jm_set k v m"
  by (induction m) auto

section \<open>Updates in place\<close>

lemma runs_update_case [runs_intros]:
  "jm_get (exceptionCases B) cid = Some c \<Longrightarrow>
   P () (B\<lparr>exceptionCases := jm_set cid (f c) (exceptionCases B)\<rparr>) \<Longrightarrow>
   runs (update_case cid f) B P"
  by (auto intro!: runsI simp: update_case_def modifyE_def)

lemma runs_update_tx [runs_intros]:
  "jm_get (transactions B) i = Some t \<Longrightarrow>
   P () (B\<lparr>transactions := jm_set i (f t) (transactions B)\<rparr>) \<Longrightarrow>
   runs (update_tx i f) B P"
  by (auto intro!: runsI simp: update_tx_def modifyE_def)

lemma runs_set_tx_state [runs_intros]:
  assumes "jm_get (transactions B) i = Some t"
    and "P () (B\<lparr>transactions := jm_set i (t\<lparr>tx_state := st\<rparr>) (transactions B)\<rparr>)"
  shows "runs (set_tx_state i st) B P"
  unfolding set_tx_state_def
  by (intro runs_intros) (use assms in \<open>auto simp: body_def\<close>)

lemma runs_transition_tx [runs_intros]:
  assumes "jm_get (transactions B) i = Some t"
    and "\<And>at. P () (B\<lparr>transactions :=
      jm_set i (t\<lparr>tx_lifecycle := tx_lifecycle t @ [(st, at)]\<rparr>) (transactions B)\<rparr>)"
  shows "runs (transition_tx h i st) B P"
  unfolding transition_tx_def
  by (intro runs_intros) (use assms in \<open>auto simp: body_def\<close>)

lemma runs_resolve_case [runs_intros]:
  assumes "jm_get (exceptionCases B) cid = Some c"
    and "\<And>at. P () (B\<lparr>exceptionCases :=
      jm_set cid (c\<lparr>ec_resolvedAt := Some at, ec_checkedBy := Some ck\<rparr>) (exceptionCases B)\<rparr>)"
  shows "runs (resolve_case h cid ck) B P"
  unfolding resolve_case_def by (intro runs_intros) (use assms in auto)

lemma runs_record_resolved [runs_intros]: "P () B \<Longrightarrow> runs (record_resolved h c st) B P"
  unfolding record_resolved_def by (intro runs_intros)


section \<open>The maker\<close>

definition valid_proposal :: "propose_request \<Rightarrow> bool" where
  "valid_proposal r =
     (pq_makerId r \<noteq> [] \<and> (pq_decision r = ''RETRY'' \<or> pq_decision r = ''CANCEL'')
      \<and> (pq_decision r = ''RETRY'' \<longrightarrow> truthy_opt (pq_replacementTransactionId r)))"

definition proposes ::
  "propose_request \<Rightarrow> exception_case \<Rightarrow> transaction \<Rightarrow> plane \<Rightarrow> plane \<Rightarrow> bool" where
  "proposes r c t B B' =
     (\<exists>at at'. B' = B\<lparr>
        transactions := jm_set (ec_transactionId c)
          (t\<lparr>tx_state := ''PENDING_APPROVAL'',
             tx_lifecycle := tx_lifecycle t @ [(''REVIEW_PROPOSED'', at)]\<rparr>) (transactions B),
        exceptionCases := jm_set (pq_caseId r)
          (c\<lparr>ec_status := ''PENDING_APPROVAL'', ec_proposal := Some
             \<lparr>pr_decision = pq_decision r, pr_replacementTransactionId = pq_replacementTransactionId r,
              pr_makerId = pq_makerId r, pr_proposedAt = at'\<rparr>\<rparr>) (exceptionCases B)\<rparr>)"

definition propose_outcome ::
  "propose_request \<Rightarrow> propose_result outcome \<Rightarrow> plane \<Rightarrow> plane \<Rightarrow> bool" where
  "propose_outcome r x B B' =
     ((\<exists>e. x = Inl e \<and> B' = B) \<or>
      (\<exists>res c t. x = Inr res \<and> pres_state res = ''PENDING_APPROVAL'' \<and> valid_proposal r
         \<and> jm_get (exceptionCases B) (pq_caseId r) = Some c \<and> ec_status c = ''OPEN''
         \<and> jm_get (transactions B) (ec_transactionId c) = Some t \<and> proposes r c t B B'))"

lemma case_transaction:
  assumes "plane_ok B" and "jm_get (exceptionCases B) k = Some c"
  obtains t where "jm_get (transactions B) (ec_transactionId c) = Some t"
    and "open_case c t \<or> pending_case c t \<or> cancelled_case c t \<or> retried_case c t"
    and "k = ''case-'' @ ec_transactionId c"
  using assms unfolding plane_ok_def cases_ok_def case_ok_def by blast

lemma proposesI:
  "B' = B\<lparr>
        transactions := jm_set (ec_transactionId c)
          (t\<lparr>tx_state := ''PENDING_APPROVAL'',
             tx_lifecycle := tx_lifecycle t @ [(''REVIEW_PROPOSED'', at)]\<rparr>) (transactions B),
        exceptionCases := jm_set (pq_caseId r)
          (c\<lparr>ec_status := ''PENDING_APPROVAL'', ec_proposal := Some
             \<lparr>pr_decision = pq_decision r, pr_replacementTransactionId = pq_replacementTransactionId r,
              pr_makerId = pq_makerId r, pr_proposedAt = at'\<rparr>\<rparr>) (exceptionCases B)\<rparr> \<Longrightarrow>
   proposes r c t B B'"
  unfolding proposes_def by blast

lemma propose_yields:
  assumes ok: "plane_ok B"
  shows "yields (proposeExceptionResolution h r) B (\<lambda>x B'. propose_outcome r x B B')"
  unfolding proposeExceptionResolution_def
proof (intro yields_get_case yields_ensure)
  fix c
  assume c: "jm_get (exceptionCases B) (pq_caseId r) = Some c" and st: "ec_status c = ''OPEN''"
    and v: "pq_makerId r \<noteq> []" "pq_decision r = ''RETRY'' \<or> pq_decision r = ''CANCEL''"
      "pq_decision r \<noteq> ''RETRY'' \<or> truthy_opt (pq_replacementTransactionId r)"
  obtain t where t: "jm_get (transactions B) (ec_transactionId c) = Some t"
    by (rule case_transaction [OF ok c])
  have "runs (record_proposal h r c) B
      (\<lambda>res B'. pres_state res = ''PENDING_APPROVAL'' \<and> proposes r c t B B')"
    unfolding record_proposal_def by (intro runs_intros) (use c t in \<open>auto intro!: proposesI\<close>)
  then show "yields (record_proposal h r c) B (\<lambda>x B'. propose_outcome r x B B')"
    by (rule yields_runs) (use c st v t in \<open>auto simp: propose_outcome_def valid_proposal_def\<close>)
qed (auto simp: propose_outcome_def)

section \<open>The checker\<close>

definition reviewed :: "transaction \<Rightarrow> string \<Rightarrow> transaction" where
  "reviewed t at = t\<lparr>tx_lifecycle := tx_lifecycle t @ [(''REVIEW_APPROVED'', at)]\<rparr>"

definition with_tx :: "string \<Rightarrow> transaction \<Rightarrow> plane \<Rightarrow> plane" where
  "with_tx i t B = B\<lparr>transactions := jm_set i t (transactions B)\<rparr>"

definition closes :: "string \<Rightarrow> string \<Rightarrow> exception_case \<Rightarrow> transaction \<Rightarrow> string \<Rightarrow> string \<Rightarrow>
    string option \<Rightarrow> plane \<Rightarrow> plane \<Rightarrow> bool" where
  "closes cid ck c t txState status replacement B B' =
     (\<exists>a1 a2. B' = B\<lparr>
        transactions := jm_set (ec_transactionId c)
          (t\<lparr>tx_state := txState, tx_lifecycle := tx_lifecycle t @ [(txState, a1)]\<rparr>) (transactions B),
        exceptionCases := jm_set cid
          (c\<lparr>ec_status := status, ec_replacementTransactionId := replacement,
             ec_resolvedAt := Some a2, ec_checkedBy := Some ck\<rparr>) (exceptionCases B)\<rparr>)"

definition reopens :: "string \<Rightarrow> exception_case \<Rightarrow> transaction \<Rightarrow> plane \<Rightarrow> plane \<Rightarrow> bool" where
  "reopens cid c t B B' =
     (\<exists>a. B' = B\<lparr>
        exceptionCases := jm_set cid (c\<lparr>ec_status := ''OPEN'', ec_proposal := None\<rparr>) (exceptionCases B),
        transactions := jm_set (ec_transactionId c)
          (t\<lparr>tx_state := ''REQUIRES_REVIEW'', tx_lifecycle := tx_lifecycle t @ [(''RETRY_BLOCKED'', a)]\<rparr>)
          (transactions B)\<rparr>)"

definition retried :: "host \<Rightarrow> transfer_request \<Rightarrow> receipt \<Rightarrow> plane \<Rightarrow> plane \<Rightarrow> bool" where
  \<comment> \<open>the replacement transfer settled now, or its receipt was already on file\<close>
  "retried h r rc B B' = (let key = tr_idempotencyKey r; fp = h_sha256 h (canonicalize (transfer_json r)) in
     (jm_get (idempotency B) key = Some (fp, rc) \<and> B' = B) \<or>
     (\<exists>B1. jm_get (idempotency B) key = None \<and> transfer_spec h r rc B B1
        \<and> B' = B1\<lparr>idempotency := jm_set key (fp, rc) (idempotency B1)\<rparr>))"

definition approve_outcome ::
  "host \<Rightarrow> string \<Rightarrow> string \<Rightarrow> approve_result outcome \<Rightarrow> plane \<Rightarrow> plane \<Rightarrow> bool" where
  "approve_outcome h cid ck x B B' =
     ((\<exists>e. x = Inl e \<and> B' = B) \<or>
      (\<exists>c pr t at. jm_get (exceptionCases B) cid = Some c \<and> ec_status c = ''PENDING_APPROVAL''
         \<and> ec_proposal c = Some pr \<and> ck \<noteq> [] \<and> ck \<noteq> pr_makerId pr
         \<and> jm_get (transactions B) (ec_transactionId c) = Some t \<and>
         (let B0 = with_tx (ec_transactionId c) (reviewed t at) B;
              rr = retry_request cid (pr_replacementTransactionId pr) (ec_retryPayload c) in
          (pr_decision pr = ''CANCEL'' \<and> (\<exists>res. x = Inr res \<and> ares_state res = ''RESOLVED_CANCELLED''
             \<and> closes cid ck c (reviewed t at) ''CANCELLED'' ''RESOLVED_CANCELLED''
                 (ec_replacementTransactionId c) B0 B')) \<or>
          (pr_decision pr \<noteq> ''CANCEL'' \<and> (\<exists>res rc B1. x = Inr res \<and> ares_state res = ''RESOLVED_RETRIED''
             \<and> ares_replacement res = Some rc \<and> retried h rr rc B0 B1
             \<and> closes cid ck c (reviewed t at) ''REPLACED'' ''RESOLVED_RETRIED''
                 (pr_replacementTransactionId pr) B1 B')) \<or>
          (pr_decision pr \<noteq> ''CANCEL'' \<and> (\<exists>e. x = Inl e \<and> reopens cid c (reviewed t at) B0 B')))))"

lemma closesI:
  "B' = B\<lparr>
        transactions := jm_set (ec_transactionId c)
          (t\<lparr>tx_state := txState, tx_lifecycle := tx_lifecycle t @ [(txState, a1)]\<rparr>) (transactions B),
        exceptionCases := jm_set cid
          (c\<lparr>ec_status := status, ec_replacementTransactionId := replacement,
             ec_resolvedAt := Some a2, ec_checkedBy := Some ck\<rparr>) (exceptionCases B)\<rparr> \<Longrightarrow>
   closes cid ck c t txState status replacement B B'"
  unfolding closes_def by blast

lemma reopensI:
  "B' = B\<lparr>
        exceptionCases := jm_set cid (c\<lparr>ec_status := ''OPEN'', ec_proposal := None\<rparr>) (exceptionCases B),
        transactions := jm_set (ec_transactionId c)
          (t\<lparr>tx_state := ''REQUIRES_REVIEW'', tx_lifecycle := tx_lifecycle t @ [(''RETRY_BLOCKED'', a)]\<rparr>)
          (transactions B)\<rparr> \<Longrightarrow>
   reopens cid c t B B'"
  unfolding reopens_def by blast

lemma transfer_yields:
  assumes "ledgers_ok B"
  shows "yields (transfer h r) B (\<lambda>x B'. (\<exists>e. x = Inl e \<and> B' = B) \<or> (\<exists>rc. x = Inr rc \<and> retried h r rc B B'))"
proof (rule yieldsI)
  fix s x t
  assume B: "body s = B" and run: "transfer h r s = (x, t)"
  from assms B have "ledgers_ok s" by auto
  from transfer_outcome [OF this run] B
  show "(\<exists>e. x = Inl e \<and> body t = B) \<or> (\<exists>rc. x = Inr rc \<and> retried h r rc B (body t))"
    unfolding idem_outcome_def retried_def Let_def by auto
qed

lemma settles_frame:
  assumes "settles h d cash assets reg rc B B'"
  shows "exceptionCases B' = exceptionCases B"
    and "k \<noteq> td_id d \<Longrightarrow> jm_get (transactions B') k = jm_get (transactions B) k"
  using assms unfolding settles_def Let_def by auto

lemma retried_frame:
  assumes "retried h r rc B B'"
  shows "exceptionCases B' = exceptionCases B"
    and "jm_get (transactions B) k = Some t \<Longrightarrow> jm_get (transactions B') k = Some t"
proof -
  have "exceptionCases B' = exceptionCases B
      \<and> (jm_get (transactions B) k = Some t \<longrightarrow> jm_get (transactions B') k = Some t)"
    using assms unfolding retried_def transfer_spec_def Let_def
  proof (elim disjE exE conjE)
    fix B1 tp
    assume B': "B' = B1\<lparr>idempotency := jm_set (tr_idempotencyKey r)
        (h_sha256 h (canonicalize (transfer_json r)), rc) (idempotency B1)\<rparr>"
      and tt: "transfer_terms h r tp B"
      and st: "settles h (transfer_data h r tp ''STANDARD'')
            (move (cash_key (prod_issuerId (tp_product tp)) (tp_product tp)) (tp_fee tp)
              (move (cash_key (tr_sellerId r) (tp_product tp)) (tp_consideration tp)
                (move (cash_key (tr_buyerId r) (tp_product tp)) (- (tp_consideration tp + tp_fee tp))
                  (cashBalances B))))
            (move (colon (tr_buyerId r) (tr_productId r)) (tp_units tp)
              (move (colon (tr_sellerId r) (tr_productId r)) (- tp_units tp) (assetBalances B)))
            (move (colon (tr_buyerId r) (tr_productId r)) (tp_units tp)
              (move (colon (tr_sellerId r) (tr_productId r)) (- tp_units tp) (legalRegister B))) rc B B1"
    have "jm_get (transactions B) (tr_id r) = None"
      using tt by (simp add: transfer_terms_def jm_has_def)
    with settles_frame [OF st] B' show ?thesis by (cases "k = tr_id r") auto
  qed simp
  then show "exceptionCases B' = exceptionCases B"
    and "jm_get (transactions B) k = Some t \<Longrightarrow> jm_get (transactions B') k = Some t" by auto
qed

lemma with_tx_get [simp]:
  "transactions (with_tx i t B) = jm_set i t (transactions B)"
  "exceptionCases (with_tx i t B) = exceptionCases B"
  "ledgers_ok (with_tx i t B) = ledgers_ok B"
  by (simp_all add: with_tx_def ledgers_ok_def)

lemma cancel_runs:
  assumes "jm_get (exceptionCases B) cid = Some c"
    and "jm_get (transactions B) (ec_transactionId c) = Some t"
  shows "runs (resolve_cancelled h cid ck c pr) B
     (\<lambda>res B'. ares_state res = ''RESOLVED_CANCELLED'' \<and>
        closes cid ck c t ''CANCELLED'' ''RESOLVED_CANCELLED'' (ec_replacementTransactionId c) B B')"
  unfolding resolve_cancelled_def
  by (intro runs_intros) (use assms in \<open>auto intro!: closesI\<close>)

lemma replaced_runs:
  assumes "jm_get (exceptionCases B) cid = Some c"
    and "jm_get (transactions B) (ec_transactionId c) = Some t"
  shows "runs (resolve_retried h cid ck c pr rc) B
     (\<lambda>res B'. ares_state res = ''RESOLVED_RETRIED'' \<and> ares_replacement res = Some rc \<and>
        closes cid ck c t ''REPLACED'' ''RESOLVED_RETRIED'' (pr_replacementTransactionId pr) B B')"
  unfolding resolve_retried_def
  by (intro runs_intros) (use assms in \<open>auto intro!: closesI\<close>)

lemma retry_blocked_yields:
  assumes c: "jm_get (exceptionCases B) cid = Some c"
    and t: "jm_get (transactions B) (ec_transactionId c) = Some t"
    and P: "\<And>B'. reopens cid c t B B' \<Longrightarrow> P (Inl e) B'"
  shows "yields (retry_blocked h cid c e) B P"
proof -
  let ?pre = "thenE (update_case cid (\<lambda>c. c\<lparr>ec_status := ''OPEN'', ec_proposal := None\<rparr>))
    (thenE (set_tx_state (ec_transactionId c) ''REQUIRES_REVIEW'')
    (thenE (transition_tx h (ec_transactionId c) ''RETRY_BLOCKED'')
    (record_event h ''exception.retry_blocked''
       [(''productId'', JStr (ec_productId c)), (''transactionId'', JStr (ec_transactionId c)),
        (''state'', JStr ''OPEN''), (''reasonCode'', JStr (error_code e))])))"
  have "runs ?pre B (\<lambda>_. reopens cid c t B)"
    by (intro runs_intros) (use c t in \<open>auto intro!: reopensI\<close>)
  then have "yields (thenE ?pre (throwE e)) B P"
    by (rule yields_then) (auto intro: yields_throwE P)
  moreover have "thenE ?pre (throwE e) = retry_blocked h cid c e"
    unfolding retry_blocked_def Let_def thenE_def
    by (intro ext) (simp add: bindE_def split: prod.splits sum.splits)
  ultimately show ?thesis by simp
qed


lemma yields_if:
  "(c \<Longrightarrow> yields m B P) \<Longrightarrow> (\<not> c \<Longrightarrow> yields n B P) \<Longrightarrow> yields (if c then m else n) B P"
  by simp

lemma retry_yields:
  assumes c: "jm_get (exceptionCases B) cid = Some c"
    and t: "jm_get (transactions B) (ec_transactionId c) = Some t" and led: "ledgers_ok B"
    and blocked: "\<And>e B'. reopens cid c t B B' \<Longrightarrow> P (Inl e) B'"
    and settled: "\<And>res rc B1 B'. \<lbrakk>ares_state res = ''RESOLVED_RETRIED''; ares_replacement res = Some rc;
        retried h (retry_request cid (pr_replacementTransactionId pr) (ec_retryPayload c)) rc B B1;
        closes cid ck c t ''REPLACED'' ''RESOLVED_RETRIED'' (pr_replacementTransactionId pr) B1 B'\<rbrakk>
        \<Longrightarrow> P (Inr res) B'"
  shows "yields (bindE (retry_transfer h cid c pr) (resolve_retried h cid ck c pr)) B P"
proof -
  let ?rr = "retry_request cid (pr_replacementTransactionId pr) (ec_retryPayload c)"
  have ok: "yields (resolve_retried h cid ck c pr rc) B1 P" if r: "retried h ?rr rc B B1" for rc B1
  proof -
    have c1: "jm_get (exceptionCases B1) cid = Some c" using retried_frame(1) [OF r] c by simp
    show ?thesis
      by (rule yields_runs [OF replaced_runs [OF c1 retried_frame(2) [OF r t]]]) (blast intro: settled r)
  qed
  show ?thesis
    unfolding retry_transfer_def
  proof (rule yields_bindE, rule yields_catchE, rule yieldsI)
    fix s x t'
    assume "body s = B" and "transfer h ?rr s = (x, t')"
    with transfer_yields [OF led] have "(\<exists>e. x = Inl e \<and> body t' = B)
        \<or> (\<exists>rc. x = Inr rc \<and> retried h ?rr rc B (body t'))"
      unfolding yields_def by blast
    then show "case x of
        Inl e \<Rightarrow> yields (retry_blocked h cid c e) (body t')
          (\<lambda>x B'. case x of Inl e \<Rightarrow> P (Inl e) B' | Inr a \<Rightarrow> yields (resolve_retried h cid ck c pr a) B' P)
      | Inr a \<Rightarrow> (case Inr a of Inl e \<Rightarrow> P (Inl e) (body t')
          | Inr a \<Rightarrow> yields (resolve_retried h cid ck c pr a) (body t') P)"
      using ok retry_blocked_yields [OF c t, of "\<lambda>x B'. case x of Inl e \<Rightarrow> P (Inl e) B'
          | Inr a \<Rightarrow> yields (resolve_retried h cid ck c pr a) B' P"] blocked
      by (elim disjE exE conjE) simp_all
  qed
qed

lemma approve_yields:
  assumes ok: "plane_ok B"
  shows "yields (approveExceptionResolution h cid ck) B (\<lambda>x B'. approve_outcome h cid ck x B B')"
  unfolding approveExceptionResolution_def
proof (intro yields_get_case yields_ensure yields_opt)
  fix c pr
  assume c: "jm_get (exceptionCases B) cid = Some c" and st: "ec_status c = ''PENDING_APPROVAL''"
    and ck: "ck \<noteq> []" and pr: "ec_proposal c = Some pr" and mc: "ck \<noteq> pr_makerId pr"
  obtain t where t: "jm_get (transactions B) (ec_transactionId c) = Some t"
    by (rule case_transaction [OF ok c])
  let ?B0 = "\<lambda>at. with_tx (ec_transactionId c) (reviewed t at) B"
  let ?P = "\<lambda>x B'. approve_outcome h cid ck x B B'"
  note facts = c st pr ck mc t
  have rv: "runs (transition_tx h (ec_transactionId c) ''REVIEW_APPROVED'') B (\<lambda>_ B'. \<exists>at. B' = ?B0 at)"
    by (intro runs_intros) (use t in \<open>auto simp: with_tx_def reviewed_def\<close>)
  have step: "yields (if pr_decision pr = ''CANCEL'' then resolve_cancelled h cid ck c pr
      else bindE (retry_transfer h cid c pr) (resolve_retried h cid ck c pr)) (?B0 at) ?P" for at
  proof (rule yields_if)
    assume d: "pr_decision pr = ''CANCEL''"
    show "yields (resolve_cancelled h cid ck c pr) (?B0 at) ?P"
      by (rule yields_runs [OF cancel_runs, of _ _ _ "reviewed t at"])
         (use facts d in \<open>auto simp: approve_outcome_def Let_def\<close>)
  next
    assume d: "pr_decision pr \<noteq> ''CANCEL''"
    show "yields (bindE (retry_transfer h cid c pr) (resolve_retried h cid ck c pr)) (?B0 at) ?P"
      by (rule retry_yields [of _ _ _ "reviewed t at"])
         (use facts d plane_okD(2) [OF ok] in \<open>simp_all add: approve_outcome_def Let_def, blast+\<close>)
  qed
  show "yields (thenE (transition_tx h (ec_transactionId c) ''REVIEW_APPROVED'')
      (if pr_decision pr = ''CANCEL'' then resolve_cancelled h cid ck c pr
       else bindE (retry_transfer h cid c pr) (resolve_retried h cid ck c pr))) B ?P"
    by (rule yields_then [OF rv]) (use step in blast)
qed (auto simp: approve_outcome_def)


section \<open>Both keep the invariant\<close>

abbreviation case_agrees :: "exception_case \<Rightarrow> transaction \<Rightarrow> bool" where
  "case_agrees c t \<equiv> open_case c t \<or> pending_case c t \<or> cancelled_case c t \<or> retried_case c t"

lemma jm_set_same: "jm_get m k = Some v \<Longrightarrow> jm_set k v m = m"
  by (induction m) auto

lemma case_step_ok:
  assumes ok: "plane_ok B" and c: "jm_get (exceptionCases B) cid = Some c"
    and t: "jm_get (transactions B) (ec_transactionId c) = Some t"
    and t': "tx_id t' = tx_id t" "tx_state t' \<noteq> ''SETTLED''"
    and c': "ec_transactionId c' = ec_transactionId c" "case_agrees c' t'"
  shows "plane_ok (B\<lparr>transactions := jm_set (ec_transactionId c) t' (transactions B),
      exceptionCases := jm_set cid c' (exceptionCases B)\<rparr>)" (is "plane_ok ?B")
proof -
  have cid: "cid = ''case-'' @ ec_transactionId c" by (rule case_transaction [OF ok c])
  have "txs_ok ?B" using plane_okD(4) [OF ok] t t' unfolding txs_ok_def by (auto simp: tx_ok_def)
  moreover have "cases_ok ?B"
    unfolding cases_ok_def
  proof (intro conjI allI impI)
    show "jm_wf (exceptionCases ?B)" using plane_okD(5) [OF ok] by (simp add: cases_ok_def)
    fix k d
    assume d: "jm_get (exceptionCases ?B) k = Some d"
    show "case_ok ?B k d"
    proof (cases "k = cid")
      case True
      with d c' cid show ?thesis by (auto simp: case_ok_def)
    next
      case False
      with d have "jm_get (exceptionCases B) k = Some d" by simp
      with plane_okD(5) [OF ok] have "case_ok B k d" by (simp add: cases_ok_def)
      with False cid show ?thesis by (auto simp: case_ok_def)
    qed
  qed
  moreover have "ledgers_ok ?B" by (rule ledgers_ok_frame [OF plane_okD(2) [OF ok]]) simp_all
  moreover have "nav_ok ?B" "restrictions_ok ?B" using ok
    by (simp_all add: plane_ok_def nav_ok_def restrictions_ok_def)
  ultimately show ?thesis by (simp add: plane_ok_def)
qed

lemma proposal_okI: "valid_proposal r \<Longrightarrow> proposal_ok \<lparr>pr_decision = pq_decision r,
    pr_replacementTransactionId = pq_replacementTransactionId r, pr_makerId = pq_makerId r, pr_proposedAt = at\<rparr>"
  by (auto simp: valid_proposal_def proposal_ok_def)

lemma open_agrees:
  "case_agrees c t \<Longrightarrow> ec_status c = ''OPEN'' \<Longrightarrow> open_case c t"
  by (auto simp: open_case_def pending_case_def cancelled_case_def retried_case_def)

lemma pending_agrees:
  "case_agrees c t \<Longrightarrow> ec_status c = ''PENDING_APPROVAL'' \<Longrightarrow> pending_case c t"
  by (auto simp: open_case_def pending_case_def cancelled_case_def retried_case_def)

lemma propose_keeps:
  assumes ok: "plane_ok B" and o: "propose_outcome r x B B'"
  shows "plane_ok B'"
  using o unfolding propose_outcome_def
proof (elim disjE exE conjE)
  fix res c t
  assume v: "valid_proposal r" and c: "jm_get (exceptionCases B) (pq_caseId r) = Some c"
    and st: "ec_status c = ''OPEN''" and t: "jm_get (transactions B) (ec_transactionId c) = Some t"
    and p: "proposes r c t B B'"
  from case_transaction [OF ok c] t have "case_agrees c t" by (metis option.inject)
  from open_agrees [OF this st] have "open_case c t" .
  with p v show "plane_ok B'"
    unfolding proposes_def
    by (auto intro!: case_step_ok [OF ok c t] simp: open_case_def pending_case_def proposal_okI)
qed (use ok in simp)

lemma closes_ok:
  assumes cl: "closes cid ck c t txState status replacement B B'" and ok: "plane_ok B"
    and c: "jm_get (exceptionCases B) cid = Some c"
    and t: "jm_get (transactions B) (ec_transactionId c) = Some t" and "txState \<noteq> ''SETTLED''"
    and "\<And>a1 a2. case_agrees (c\<lparr>ec_status := status, ec_replacementTransactionId := replacement,
             ec_resolvedAt := Some a2, ec_checkedBy := Some ck\<rparr>)
          (t\<lparr>tx_state := txState, tx_lifecycle := tx_lifecycle t @ [(txState, a1)]\<rparr>)"
  shows "plane_ok B'"
proof -
  from cl obtain a1 a2 where B': "B' = B\<lparr>
        transactions := jm_set (ec_transactionId c)
          (t\<lparr>tx_state := txState, tx_lifecycle := tx_lifecycle t @ [(txState, a1)]\<rparr>) (transactions B),
        exceptionCases := jm_set cid
          (c\<lparr>ec_status := status, ec_replacementTransactionId := replacement,
             ec_resolvedAt := Some a2, ec_checkedBy := Some ck\<rparr>) (exceptionCases B)\<rparr>"
    unfolding closes_def by blast
  show ?thesis unfolding B' by (rule case_step_ok [OF ok c t]) (use assms(5,6) in simp_all)
qed

lemma reopens_ok:
  assumes ro: "reopens cid c t B B'" and ok: "plane_ok B"
    and c: "jm_get (exceptionCases B) cid = Some c" and pc: "pending_case c t"
    and t: "jm_get (transactions B) (ec_transactionId c) = Some t"
  shows "plane_ok B'"
proof -
  from ro obtain a where "B' = B\<lparr>
        exceptionCases := jm_set cid (c\<lparr>ec_status := ''OPEN'', ec_proposal := None\<rparr>) (exceptionCases B),
        transactions := jm_set (ec_transactionId c)
          (t\<lparr>tx_state := ''REQUIRES_REVIEW'', tx_lifecycle := tx_lifecycle t @ [(''RETRY_BLOCKED'', a)]\<rparr>)
          (transactions B)\<rparr>"
    unfolding reopens_def by blast
  then have B': "B' = B\<lparr>
        transactions := jm_set (ec_transactionId c)
          (t\<lparr>tx_state := ''REQUIRES_REVIEW'', tx_lifecycle := tx_lifecycle t @ [(''RETRY_BLOCKED'', a)]\<rparr>)
          (transactions B),
        exceptionCases := jm_set cid (c\<lparr>ec_status := ''OPEN'', ec_proposal := None\<rparr>) (exceptionCases B)\<rparr>"
    by simp
  show ?thesis unfolding B' by (rule case_step_ok [OF ok c t])
    (use pc in \<open>simp_all add: pending_case_def open_case_def\<close>)
qed

lemma approve_keeps:
  assumes ok: "plane_ok B" and o: "approve_outcome h cid ck x B B'"
  shows "plane_ok B'"
proof -
  have "plane_ok B'" if c: "jm_get (exceptionCases B) cid = Some c"
    and st: "ec_status c = ''PENDING_APPROVAL''" and pr: "ec_proposal c = Some pr"
    and ck: "ck \<noteq> []" "ck \<noteq> pr_makerId pr"
    and t: "jm_get (transactions B) (ec_transactionId c) = Some t"
    and o: "let B0 = with_tx (ec_transactionId c) (reviewed t at) B;
              rr = retry_request cid (pr_replacementTransactionId pr) (ec_retryPayload c) in
          (pr_decision pr = ''CANCEL'' \<and> (\<exists>res. x = Inr res \<and> ares_state res = ''RESOLVED_CANCELLED''
             \<and> closes cid ck c (reviewed t at) ''CANCELLED'' ''RESOLVED_CANCELLED''
                 (ec_replacementTransactionId c) B0 B')) \<or>
          (pr_decision pr \<noteq> ''CANCEL'' \<and> (\<exists>res rc B1. x = Inr res \<and> ares_state res = ''RESOLVED_RETRIED''
             \<and> ares_replacement res = Some rc \<and> retried h rr rc B0 B1
             \<and> closes cid ck c (reviewed t at) ''REPLACED'' ''RESOLVED_RETRIED''
                 (pr_replacementTransactionId pr) B1 B')) \<or>
          (pr_decision pr \<noteq> ''CANCEL'' \<and> (\<exists>e. x = Inl e \<and> reopens cid c (reviewed t at) B0 B'))"
    for c pr t at
  proof -
    let ?B0 = "with_tx (ec_transactionId c) (reviewed t at) B"
    from case_transaction [OF ok c] t have "case_agrees c t" by (metis option.inject)
    from pending_agrees [OF this st] have pc: "pending_case c t" .
    have po: "proposal_ok pr" using pc pr by (auto simp: pending_case_def)
    have pc0: "pending_case c (reviewed t at)" using pc by (simp add: pending_case_def reviewed_def)
    have c0: "jm_get (exceptionCases ?B0) cid = Some c" using c by simp
    have t0: "jm_get (transactions ?B0) (ec_transactionId c) = Some (reviewed t at)" by simp
    have ok0: "plane_ok ?B0"
      using case_step_ok [OF ok c t, of "reviewed t at" c] pc pc0 jm_set_same [OF c]
      by (simp add: with_tx_def reviewed_def pending_case_def)
    from o [unfolded Let_def] show ?thesis
    proof (elim disjE exE conjE)
      assume d: "pr_decision pr = ''CANCEL''" and cl: "closes cid ck c (reviewed t at) ''CANCELLED''
        ''RESOLVED_CANCELLED'' (ec_replacementTransactionId c) ?B0 B'"
      show ?thesis by (rule closes_ok [OF cl ok0 c0 t0])
        (use d pr po ck in \<open>simp_all add: cancelled_case_def checked_by_other_def\<close>)
    next
      fix rc B1
      assume d: "pr_decision pr \<noteq> ''CANCEL''"
        and r: "retried h (retry_request cid (pr_replacementTransactionId pr) (ec_retryPayload c)) rc ?B0 B1"
        and cl: "closes cid ck c (reviewed t at) ''REPLACED'' ''RESOLVED_RETRIED''
          (pr_replacementTransactionId pr) B1 B'"
      have ok1: "plane_ok B1"
        using r transfer_spec_ok [OF ok0] ok0 unfolding retried_def Let_def by auto
      have c1: "jm_get (exceptionCases B1) cid = Some c" using retried_frame(1) [OF r] c0 by simp
      have t1: "jm_get (transactions B1) (ec_transactionId c) = Some (reviewed t at)"
        by (rule retried_frame(2) [OF r t0])
      show ?thesis by (rule closes_ok [OF cl ok1 c1 t1])
        (use d pr po ck in \<open>simp_all add: retried_case_def checked_by_other_def proposal_ok_def\<close>)
    next
      assume "reopens cid c (reviewed t at) ?B0 B'"
      then show ?thesis by (rule reopens_ok [OF _ ok0 c0 pc0 t0])
    qed
  qed
  with o ok show ?thesis unfolding approve_outcome_def by blast
qed

lemma propose_ok:
  assumes "plane_ok s" and "proposeExceptionResolution h r s = (x, t)"
  shows "plane_ok t"
  using propose_keeps [OF _ yieldsD [OF propose_yields assms(2)]] assms(1) by simp

lemma approve_ok:
  assumes "plane_ok s" and "approveExceptionResolution h cid ck s = (x, t)"
  shows "plane_ok t"
  using approve_keeps [OF _ yieldsD [OF approve_yields assms(2)]] assms(1) by simp

end
