(* ===== verification/CpRegistrySpecs.thy ===== *)
theory CpRegistrySpecs
  imports CpResolution
begin

text \<open>
  What the set-up handlers of the control plane promise: each fails and changes nothing, or has
  checked what it must check and makes exactly one change to the body of the state.
\<close>

section \<open>Rules for handlers that check first\<close>

lemma yields_check:
  assumes "preserves quiet m" and "\<And>a s t. body s = B \<Longrightarrow> m s = (Inr a, t) \<Longrightarrow> yields (f a) B P"
    and "\<And>e. P (Inl e) B"
  shows "yields (bindE m f) B P"
proof (rule yieldsI)
  fix s x t
  assume B: "body s = B" and run: "bindE m f s = (x, t)"
  obtain y u where m: "m s = (y, u)" by (cases "m s")
  have u: "body u = B" using quiet_body [OF quiet_after [OF assms(1) m]] B by simp
  show "P x (body t)"
  proof (cases y)
    case (Inl e)
    with run m u assms(3) show ?thesis by (simp add: bindE_def) metis
  next
    case (Inr a)
    with run m have "f a u = (x, t)" by (simp add: bindE_def)
    with assms(2) [OF B] m Inr u show ?thesis by (auto dest: yieldsD)
  qed
qed

lemma yields_check_then:
  assumes "preserves quiet m" and "\<And>a s t. body s = B \<Longrightarrow> m s = (Inr a, t) \<Longrightarrow> yields n B P"
    and "\<And>e. P (Inl e) B"
  shows "yields (thenE m n) B P"
  unfolding thenE_def using assms by (rule yields_check)

lemma yields_withE: "(\<And>s. body s = B \<Longrightarrow> yields (g s) B P) \<Longrightarrow> yields (withE g) B P"
  by (auto simp: yields_def withE_run)

lemma yields_retE: "P (Inr a) B \<Longrightarrow> yields (retE a) B P"
  by (rule yieldsI) (auto simp: retE_iff)

lemma yields_liftE:
  assumes "\<And>a. r = Inr a \<Longrightarrow> yields (f a) B P" and "\<And>e. P (Inl e) B"
  shows "yields (bindE (liftE r) f) B P"
  using assms by (cases r) (auto simp: yields_def bindE_def liftE_def)

lemma body_put_registry [simp]:
  "body (s\<lparr>institutions := y1\<rparr>) = (body s)\<lparr>institutions := y1\<rparr>"
  "body (s\<lparr>products := y2\<rparr>) = (body s)\<lparr>products := y2\<rparr>"
  "body (s\<lparr>credentials := y3\<rparr>) = (body s)\<lparr>credentials := y3\<rparr>"
  "body (s\<lparr>credentialRestrictions := y4\<rparr>) = (body s)\<lparr>credentialRestrictions := y4\<rparr>"
  "body (s\<lparr>evidences := y5\<rparr>) = (body s)\<lparr>evidences := y5\<rparr>"
  by (simp_all add: body_def)

lemma runs_put_registry [runs_intros]:
  "P () (B\<lparr>institutions := f1 (institutions B)\<rparr>) \<Longrightarrow>
     runs (modifyE (\<lambda>q. q\<lparr>institutions := f1 (institutions q)\<rparr>)) B P"
  "P () (B\<lparr>products := f2 (products B)\<rparr>) \<Longrightarrow>
     runs (modifyE (\<lambda>q. q\<lparr>products := f2 (products q)\<rparr>)) B P"
  "P () (B\<lparr>credentials := f3 (credentials B)\<rparr>) \<Longrightarrow>
     runs (modifyE (\<lambda>q. q\<lparr>credentials := f3 (credentials q)\<rparr>)) B P"
  "P () (B\<lparr>credentialRestrictions := f4 (credentialRestrictions B)\<rparr>) \<Longrightarrow>
     runs (modifyE (\<lambda>q. q\<lparr>credentialRestrictions := f4 (credentialRestrictions q)\<rparr>)) B P"
  "P () (B\<lparr>evidences := f5 (evidences B)\<rparr>) \<Longrightarrow>
     runs (modifyE (\<lambda>q. q\<lparr>evidences := f5 (evidences q)\<rparr>)) B P"
  "P () (B\<lparr>cashBalances := f6 (cashBalances B)\<rparr>) \<Longrightarrow>
     runs (modifyE (\<lambda>q. q\<lparr>cashBalances := f6 (cashBalances q)\<rparr>)) B P"
  by (auto intro!: runsI simp: modifyE_iff)

definition changes :: "('a \<Rightarrow> plane \<Rightarrow> plane \<Rightarrow> bool) \<Rightarrow> plane \<Rightarrow> 'a outcome \<Rightarrow> plane \<Rightarrow> bool" where
  \<comment> \<open>an error and no change, or the specified change\<close>
  "changes S B x B' = (case x of Inl e \<Rightarrow> B' = B | Inr a \<Rightarrow> S a B B')"

lemma changes_simps [simp]:
  "changes S B (Inl e) B' = (B' = B)" "changes S B (Inr a) B' = S a B B'"
  by (simp_all add: changes_def)

lemma yields_changes: "runs m B (\<lambda>a. S a B) \<Longrightarrow> yields m B (changes S B)"
  by (rule yields_runs) simp_all

section \<open>Institutions and products\<close>

definition register_institution_spec :: "string \<Rightarrow> string list option \<Rightarrow> string \<Rightarrow> plane \<Rightarrow> plane \<Rightarrow> bool" where
  "register_institution_spec i roles pem B B' =
     (\<not> jm_has (institutions B) i \<and> (\<exists>rs. roles = Some rs \<and> rs \<noteq> [] \<and>
        B' = B\<lparr>institutions := jm_set i \<lparr>inst_id = i, inst_roles = rs, inst_publicKeyPem = pem\<rparr>
          (institutions B)\<rparr>))"

lemma registerInstitution_yields:
  "yields (registerInstitution h i roles pem) B (changes (\<lambda>_. register_institution_spec i roles pem) B)"
  unfolding registerInstitution_def
  by (intro yields_withE yields_ensure yields_changes runs_intros)
     (auto simp: register_institution_spec_def split: option.splits)

definition create_product_spec ::
  "string \<Rightarrow> string \<Rightarrow> string \<Rightarrow> string \<Rightarrow> (string, string) jsmap \<Rightarrow> json \<Rightarrow> product \<Rightarrow> plane \<Rightarrow> plane \<Rightarrow> bool" where
  "create_product_spec pid name jur iss ra rules product B B' =
     (\<not> jm_has (products B) pid \<and> jur = ''HK'' \<and> hasRole B iss ''issuer'' \<and> rules_complete rules
      \<and> integer_between 0 10000 (jfield rules ''maxPriceDeviationBps'')
      \<and> prod_id product = pid \<and> prod_issuerId product = iss \<and> prod_rules product = rules
      \<and> prod_roleAssignments product = ra \<and> prod_status product = ''DRAFT'' \<and> prod_ruleVersion product = 1
      \<and> B' = B\<lparr>products := jm_set pid product (products B)\<rparr>)"

lemma hasRole_body [simp]: "hasRole (body p) i role = hasRole p i role"
  by (simp add: hasRole_def)

lemma createProduct_yields:
  "yields (createProduct h pid name jur iss ra rules) B
     (changes (create_product_spec pid name jur iss ra rules) B)"
  unfolding createProduct_def
  by (intro yields_withE yields_ensure yields_changes runs_intros)
     (auto simp: create_product_spec_def)


definition set_status_spec :: "string \<Rightarrow> string list \<Rightarrow> string \<Rightarrow> plane \<Rightarrow> plane \<Rightarrow> bool" where
  "set_status_spec pid from to B B' =
     (\<exists>product. jm_get (products B) pid = Some product \<and> prod_status product \<in> set from
        \<and> B' = B\<lparr>products := jm_set pid (product\<lparr>prod_status := to\<rparr>) (products B)\<rparr>)"

definition roles_assigned :: "plane \<Rightarrow> product \<Rightarrow> bool" where
  \<comment> \<open>every required role is assigned to an institution that holds it\<close>
  "roles_assigned p product =
     (\<forall>role \<in> set REQUIRED_PRODUCT_ROLES. \<exists>i. jm_get (prod_roleAssignments product) role = Some i
        \<and> i \<noteq> [] \<and> hasRole p i role)"

definition activate_spec :: "string \<Rightarrow> plane \<Rightarrow> plane \<Rightarrow> bool" where
  "activate_spec pid B B' =
     (set_status_spec pid [''DRAFT'', ''PAUSED''] ''ACTIVE'' B B'
      \<and> (\<exists>product. jm_get (products B) pid = Some product \<and> roles_assigned B product))"

lemma get_product_run: "get_product pid s = (Inr a, t) \<Longrightarrow> jm_get (products s) pid = Some a \<and> t = s"
  by (auto simp: get_product_def eff_simps)

lemma yields_get_product:
  assumes "\<And>product. jm_get (products B) pid = Some product \<Longrightarrow> yields (f product) B P"
    and "\<And>e. P (Inl e) B"
  shows "yields (bindE (get_product pid) f) B P"
  by (rule yields_check [OF get_product_quiet]) (use assms get_product_run in \<open>force+\<close>)

lemma check_role_assignment_run:
  "check_role_assignment product role s = (Inr u, t) \<Longrightarrow>
     t = s \<and> (\<exists>i. jm_get (prod_roleAssignments product) role = Some i \<and> i \<noteq> [] \<and> hasRole s i role)"
  by (auto simp: check_role_assignment_def eff_simps split: option.splits)

lemma check_roles_run:
  "eachE (check_role_assignment product) roles s = (Inr u, t) \<Longrightarrow>
     \<forall>role \<in> set roles. \<exists>i. jm_get (prod_roleAssignments product) role = Some i \<and> i \<noteq> [] \<and> hasRole s i role"
  by (induction roles arbitrary: s) (auto simp: eff_simps dest!: check_role_assignment_run)

lemma check_roles_quiet: "preserves quiet (eachE (check_role_assignment product) roles)"
  by (intro preserves_intros)

lemma runs_set_product_status [runs_intros]:
  "P () (B\<lparr>products := jm_set pid (product\<lparr>prod_status := st\<rparr>) (products B)\<rparr>) \<Longrightarrow>
     runs (set_product_status pid product st) B P"
  unfolding set_product_status_def by (rule runs_put_registry(2))

lemma activateProduct_yields:
  "yields (activateProduct h pid) B (changes (\<lambda>_. activate_spec pid) B)"
  unfolding activateProduct_def
proof (intro yields_get_product yields_ensure yields_check_then [OF check_roles_quiet])
  fix product a s t
  assume p: "jm_get (products B) pid = Some product"
    "prod_status product = ''DRAFT'' \<or> prod_status product = ''PAUSED''"
    and r: "body s = B" "eachE (check_role_assignment product) REQUIRED_PRODUCT_ROLES s = (Inr a, t)"
  from check_roles_run [OF r(2)] have "roles_assigned s product" by (simp add: roles_assigned_def)
  with r(1) have "roles_assigned B product" unfolding roles_assigned_def using hasRole_body by metis
  with p show "yields (thenE (set_product_status pid product ''ACTIVE'') (record_event h ''product.activated''
       [(''productId'', JStr pid), (''ruleVersion'', JNum (int (prod_ruleVersion product)))])) B
       (changes (\<lambda>_. activate_spec pid) B)"
    by (intro yields_changes runs_intros) (auto simp: activate_spec_def set_status_spec_def)
qed auto

lemma pauseProduct_yields:
  "yields (pauseProduct h pid reason) B (changes (\<lambda>_. set_status_spec pid [''ACTIVE''] ''PAUSED'') B)"
  unfolding pauseProduct_def
  by (intro yields_get_product yields_ensure yields_changes runs_intros) (auto simp: set_status_spec_def)

section \<open>Credentials\<close>

definition register_credential_spec :: "host \<Rightarrow> credential \<Rightarrow> plane \<Rightarrow> plane \<Rightarrow> bool" where
  "register_credential_spec h c B B' =
     (\<exists>product. jm_get (products B) (cred_productId c) = Some product
        \<and> jm_get (prod_roleAssignments product) ''credential_issuer'' = Some (cred_issuerId c)
        \<and> statement_verified h B (cred_issuerId c) (unsigned_credential c) (cred_signature c)
        \<and> \<not> jm_has (credentials B) (cred_id c)
        \<and> valid_window h (cred_validFrom c) (cred_validUntil c)
        \<and> (\<exists>n > 0. to_bigint (cred_maxUnits c) = Inr n)
        \<and> B' = B\<lparr>credentials := jm_set (cred_id c) c (credentials B)\<rparr>)"

lemma verified_body:
  "verifyStatement h i b g s = (Inr ok, t) \<Longrightarrow> ok \<Longrightarrow> body s = B \<Longrightarrow> statement_verified h B i b g"
  by (cases ok) (use verifyStatement_True statement_verified_body in metis)+

lemma registerCredential_yields:
  "yields (registerCredential h c) B (changes (\<lambda>_. register_credential_spec h c) B)"
  unfolding registerCredential_def
proof (intro yields_get_product yields_ensure yields_check [OF verify_credential_quiet] yields_withE
    yields_liftE yields_changes runs_intros)
  fix product ok s u t n
  assume "jm_get (products B) (cred_productId c) = Some product"
    "jm_get (prod_roleAssignments product) ''credential_issuer'' = Some (cred_issuerId c)"
    "valid_window h (cred_validFrom c) (cred_validUntil c)"
    and v: "body s = B" "verify_credential h c s = (Inr ok, t)" "ok"
    and u: "body u = B" "\<not> jm_has (credentials u) (cred_id c)"
    and n: "toNonNegativeInteger (cred_maxUnits c) = Inr n" "0 < n"
  moreover from v have "statement_verified h B (cred_issuerId c) (unsigned_credential c) (cred_signature c)"
    unfolding verify_credential_def by (blast intro: verified_body)
  moreover from n have "\<exists>n > 0. to_bigint (cred_maxUnits c) = Inr n"
    by (auto simp: toNonNegativeInteger_Inr toNonNeg_ok_def)
  moreover have "\<not> jm_has (credentials B) (cred_id c)" using u by auto
  ultimately show "register_credential_spec h c B (B\<lparr>credentials := jm_set (cred_id c) c (credentials B)\<rparr>)"
    unfolding register_credential_spec_def by blast
qed auto

definition revoke_spec :: "string \<Rightarrow> string \<Rightarrow> plane \<Rightarrow> plane \<Rightarrow> bool" where
  "revoke_spec cid reason B B' =
     (jm_has (credentials B) cid \<and> \<not> jm_has (credentialRestrictions B) cid \<and>
      (\<exists>at. B' = B\<lparr>credentialRestrictions := jm_set cid
        \<lparr>restr_status = ''RESTRICTED_EXIT'', restr_reason = reason, restr_effectiveAt = at\<rparr>
        (credentialRestrictions B)\<rparr>))"

lemma revokeCredential_yields:
  "yields (revokeCredential h cid reason) B (changes (\<lambda>_. revoke_spec cid reason) B)"
  unfolding revokeCredential_def
  by (intro yields_withE yields_ensure yields_changes runs_intros) (auto simp: revoke_spec_def)

section \<open>Evidence and sandbox cash\<close>

definition submit_evidence_spec :: "host \<Rightarrow> evidence \<Rightarrow> plane \<Rightarrow> plane \<Rightarrow> bool" where
  "submit_evidence_spec h ev B B' =
     (\<exists>product role. jm_get (products B) (ev_productId ev) = Some product
        \<and> jm_get EVIDENCE_ROLE (ev_dataType ev) = Some role
        \<and> jm_get (prod_roleAssignments product) role = Some (ev_sourceInstitutionId ev)
        \<and> statement_verified h B (evidence_signer ev) (unsigned_evidence ev) (ev_signature ev)
        \<and> valid_window h (ev_effectiveAt ev) (ev_expiresAt ev)
        \<and> (ev_dataType ev = ''nav'' \<longrightarrow> (\<exists>n > 0. nav_price ev n))
        \<and> \<not> jm_has (evidences B) (ev_id ev)
        \<and> B' = B\<lparr>evidences := jm_set (ev_id ev) (ev\<lparr>ev_status := ''ACTIVE''\<rparr>) (evidences B)\<rparr>)"

definition nav_check :: "product \<Rightarrow> evidence \<Rightarrow> unit cp" where
  "nav_check product ev = (if ev_dataType ev = ''nav'' then
         thenE (ensureE (jstrict_eq (jfield (ev_payload ev) ''currency'') (jfield (prod_rules product) ''currency''))
           ''EVIDENCE_CURRENCY'')
        (bindE (liftE (toNonNegativeInteger (jfield (ev_payload ev) ''navPerUnit''))) (\<lambda>nav.
         ensureE (0 < nav) ''INVALID_NAV''))
       else retE ())"

lemma nav_check_quiet: "preserves quiet (nav_check product ev)"
  unfolding nav_check_def by (intro preserves_intros)

lemma nav_check_run:
  "nav_check product ev s = (Inr u, t) \<Longrightarrow> ev_dataType ev = ''nav'' \<Longrightarrow> \<exists>n > 0. nav_price ev n"
  by (auto simp: nav_check_def eff_simps toNonNegativeInteger_Inr toNonNeg_ok_def nav_price_def)

lemma submitEvidence_yields:
  "yields (submitEvidence h ev) B (changes (\<lambda>_. submit_evidence_spec h ev) B)"
  unfolding submitEvidence_def nav_check_def [symmetric]
proof (intro yields_get_product yields_opt yields_ensure yields_check [OF verify_evidence_quiet]
    yields_check_then [OF nav_check_quiet] yields_withE yields_changes runs_intros)
  fix product role ok s t u v w n
  assume "jm_get (products B) (ev_productId ev) = Some product"
    "jm_get EVIDENCE_ROLE (ev_dataType ev) = Some role"
    "jm_get (prod_roleAssignments product) role = Some (ev_sourceInstitutionId ev)"
    "valid_window h (ev_effectiveAt ev) (ev_expiresAt ev)"
    and v: "body s = B" "verify_evidence h ev s = (Inr ok, t)" "ok"
    and n: "nav_check product ev u = (Inr n, v)"
    and w: "body w = B" "\<not> jm_has (evidences w) (ev_id ev)"
  moreover from v have "statement_verified h B (evidence_signer ev) (unsigned_evidence ev) (ev_signature ev)"
    unfolding verify_evidence_def by (blast intro: verified_body)
  moreover note nav_check_run [OF n]
  moreover have "\<not> jm_has (evidences B) (ev_id ev)" using w by auto
  ultimately show "submit_evidence_spec h ev B
      (B\<lparr>evidences := jm_set (ev_id ev) (ev\<lparr>ev_status := ''ACTIVE''\<rparr>) (evidences B)\<rparr>)"
    unfolding submit_evidence_spec_def by blast
qed auto

definition credit_spec :: "string \<Rightarrow> string \<Rightarrow> json \<Rightarrow> plane \<Rightarrow> plane \<Rightarrow> bool" where
  "credit_spec account currency amount B B' =
     (\<exists>n. to_bigint amount = Inr n \<and> 0 \<le> n
        \<and> B' = B\<lparr>cashBalances := move (colon account currency) n (cashBalances B)\<rparr>)"

lemma creditSandboxCash_yields:
  "yields (creditSandboxCash h account currency amount) B (changes (\<lambda>_. credit_spec account currency amount) B)"
  unfolding creditSandboxCash_def Let_def
  by (intro yields_withE yields_liftE yields_changes runs_intros)
     (auto simp: credit_spec_def toNonNegativeInteger_Inr toNonNeg_ok_def move_def body_def)

end
