(* ===== verification/CpSteps.thy ===== *)
theory CpSteps
  imports CpRegistrySpecs
begin

text \<open>
  The control plane as a transition system: one step per public operation of the class, the states
  reachable from \<open>new ControlPlane()\<close>, and the abstract steps on the body of the state that the
  operations implement. The invariant \<open>plane_ok\<close> holds of every reachable state.
\<close>

section \<open>Steps\<close>

inductive cp_step :: "host \<Rightarrow> plane \<Rightarrow> plane \<Rightarrow> bool" for h :: host where
  "registerInstitution h i roles pem s = (u, t) \<Longrightarrow> cp_step h s t"
| "createProduct h pid name jur iss ra rules s = (p, t) \<Longrightarrow> cp_step h s t"
| "activateProduct h pid s = (u, t) \<Longrightarrow> cp_step h s t"
| "pauseProduct h pid reason s = (u, t) \<Longrightarrow> cp_step h s t"
| "registerCredential h c s = (u, t) \<Longrightarrow> cp_step h s t"
| "revokeCredential h cid reason s = (u, t) \<Longrightarrow> cp_step h s t"
| "submitEvidence h ev s = (u, t) \<Longrightarrow> cp_step h s t"
| "creditSandboxCash h account currency amount s = (u, t) \<Longrightarrow> cp_step h s t"
| "subscribe h sr s = (rc, t) \<Longrightarrow> cp_step h s t"
| "transfer h tr s = (rc, t) \<Longrightarrow> cp_step h s t"
| "redeem h rr s = (rc, t) \<Longrightarrow> cp_step h s t"
| "simulateRegisterFailure h tr s = (rc, t) \<Longrightarrow> cp_step h s t"
| "proposeExceptionResolution h pq s = (pres, t) \<Longrightarrow> cp_step h s t"
| "approveExceptionResolution h cid ck s = (ares, t) \<Longrightarrow> cp_step h s t"
| "reconcile h pid s = (rec, t) \<Longrightarrow> cp_step h s t"
| "transactionEvidencePackage h i s = (pk, t) \<Longrightarrow> cp_step h s t"
| "viewForRole h role pid actor s = (v, t) \<Longrightarrow> cp_step h s t"

inductive idem_settled :: "(receipt \<Rightarrow> plane \<Rightarrow> plane \<Rightarrow> bool) \<Rightarrow> plane \<Rightarrow> plane \<Rightarrow> bool" where
  \<comment> \<open>a specified change, and its receipt stored under a new idempotency key\<close>
  "jm_get (idempotency B) key = None \<Longrightarrow> S rc B B1 \<Longrightarrow>
     idem_settled S B (B1\<lparr>idempotency := jm_set key (fp, rc) (idempotency B1)\<rparr>)"

inductive abs_step :: "host \<Rightarrow> plane \<Rightarrow> plane \<Rightarrow> bool" for h :: host where
  stutter: "abs_step h B B"
| institution: "register_institution_spec i roles pem B B' \<Longrightarrow> abs_step h B B'"
| creation: "create_product_spec pid name jur iss ra rules product B B' \<Longrightarrow> abs_step h B B'"
| activate: "activate_spec pid B B' \<Longrightarrow> abs_step h B B'"
| pause: "set_status_spec pid [''ACTIVE''] ''PAUSED'' B B' \<Longrightarrow> abs_step h B B'"
| credential: "register_credential_spec h c B B' \<Longrightarrow> abs_step h B B'"
| revoke: "revoke_spec cid reason B B' \<Longrightarrow> abs_step h B B'"
| evidence: "submit_evidence_spec h ev B B' \<Longrightarrow> abs_step h B B'"
| credit: "credit_spec account currency amount B B' \<Longrightarrow> abs_step h B B'"
| subscription: "idem_settled (subscribe_spec h sr) B B' \<Longrightarrow> abs_step h B B'"
| transferred: "idem_settled (transfer_spec h tr) B B' \<Longrightarrow> abs_step h B B'"
| redemption: "idem_settled (redeem_spec h rr) B B' \<Longrightarrow> abs_step h B B'"
| failure: "idem_settled (register_failure_spec h tr) B B' \<Longrightarrow> abs_step h B B'"
| proposal: "propose_outcome pq pres B B' \<Longrightarrow> abs_step h B B'"
| approval: "approve_outcome h cid ck ares B B' \<Longrightarrow> abs_step h B B'"

inductive_cases abs_stepE: "abs_step h B B'"
inductive_cases idem_settledE: "idem_settled S B B'"

section \<open>The operations implement the abstract steps\<close>

lemma changes_step:
  assumes "yields m (body s) (changes S (body s))" and "m s = (x, t)"
    and "\<And>a B'. S a (body s) B' \<Longrightarrow> abs_step h (body s) B'"
  shows "abs_step h (body s) (body t)"
  using yieldsD [OF assms(1,2)] assms(3) by (cases x) (auto intro: stutter)

lemma idem_step:
  assumes "idem_outcome h key req S s x t"
    and "\<And>B'. idem_settled S (body s) B' \<Longrightarrow> abs_step h (body s) B'"
  shows "abs_step h (body s) (body t)"
  using assms(1) unfolding idem_outcome_def Let_def
proof (elim disjE exE conjE)
  fix rc B
  assume "jm_get (idempotency s) key = None" and "S rc (body s) B" and
    t: "body t = B\<lparr>idempotency := jm_set key (h_sha256 h (canonicalize req), rc) (idempotency B)\<rparr>"
  then have "idem_settled S (body s) (body t)" unfolding t by (intro idem_settled.intros) simp_all
  then show ?thesis by (rule assms(2))
qed (simp_all add: stutter)

lemma quiet_step: "preserves quiet m \<Longrightarrow> m s = (x, t) \<Longrightarrow> abs_step h (body s) (body t)"
  using quiet_body [OF quiet_after] by (metis stutter)

lemma cp_step_abs:
  assumes "cp_step h s t" and ok: "plane_ok s"
  shows "abs_step h (body s) (body t)"
  using assms(1)
proof cases
  case 1 show ?thesis by (rule changes_step [OF registerInstitution_yields 1]) (rule institution)
next
  case 2 show ?thesis by (rule changes_step [OF createProduct_yields 2]) (rule creation)
next
  case 3 show ?thesis by (rule changes_step [OF activateProduct_yields 3]) (rule activate)
next
  case 4 show ?thesis by (rule changes_step [OF pauseProduct_yields 4]) (rule pause)
next
  case 5 show ?thesis by (rule changes_step [OF registerCredential_yields 5]) (rule credential)
next
  case 6 show ?thesis by (rule changes_step [OF revokeCredential_yields 6]) (rule revoke)
next
  case 7 show ?thesis by (rule changes_step [OF submitEvidence_yields 7]) (rule evidence)
next
  case 8 show ?thesis by (rule changes_step [OF creditSandboxCash_yields 8]) (rule credit)
next
  case 9 show ?thesis
    by (rule idem_step [OF subscribe_outcome [OF plane_okD(1,2) [OF ok] 9]]) (rule subscription)
next
  case 10 show ?thesis by (rule idem_step [OF transfer_outcome [OF plane_okD(2) [OF ok] 10]]) (rule transferred)
next
  case 11 show ?thesis
    by (rule idem_step [OF redeem_outcome [OF plane_okD(1,2) [OF ok] 11]]) (rule redemption)
next
  case 12 show ?thesis by (rule idem_step [OF register_failure_outcome [OF 12]]) (rule failure)
next
  case 13
  from yieldsD [OF propose_yields 13] ok show ?thesis by (auto intro: proposal)
next
  case 14
  from yieldsD [OF approve_yields 14] ok show ?thesis by (auto intro: approval)
next
  case 15 show ?thesis by (rule quiet_step [OF reconcile_quiet 15])
next
  case 16 show ?thesis by (rule quiet_step [OF transactionEvidencePackage_quiet 16])
next
  case 17 show ?thesis by (rule quiet_step [OF viewForRole_quiet 17])
qed

section \<open>The invariant\<close>

definition core :: "plane \<Rightarrow> plane" where
  \<comment> \<open>the part of the state the invariant reads\<close>
  "core p = (body p)\<lparr>institutions := [], products := [], credentials := [], idempotency := []\<rparr>"

lemma plane_ok_core: "core p = core q \<Longrightarrow> plane_ok p = plane_ok q"
proof -
  have "plane_ok (core p) = plane_ok p" for p
    by (simp add: core_def plane_ok_defs tx_ok_def case_ok_def)
  then show "core p = core q \<Longrightarrow> plane_ok p = plane_ok q" by metis
qed

lemma core_put [simp]:
  "core (B\<lparr>institutions := y1\<rparr>) = core B" "core (B\<lparr>products := y2\<rparr>) = core B"
  "core (B\<lparr>credentials := y3\<rparr>) = core B" "core (B\<lparr>idempotency := y4\<rparr>) = core B"
  by (simp_all add: core_def body_def)

lemma plane_ok_frame:
  assumes "plane_ok B" and "nav_ok B'" and "ledgers_ok B'" and "restrictions_ok B'"
    and "transactions B' = transactions B" and "cashSettlements B' = cashSettlements B"
    and "exceptionCases B' = exceptionCases B"
  shows "plane_ok B'"
  using assms unfolding plane_ok_def txs_ok_def cases_ok_def tx_ok_def case_ok_def by simp

lemma plane_ok_evidence:
  assumes ok: "plane_ok B" and "ev_dataType ev = ''nav'' \<longrightarrow> (\<exists>n > 0. nav_price ev n)"
  shows "plane_ok (B\<lparr>evidences := jm_set k ev (evidences B)\<rparr>)"
proof (rule plane_ok_frame [OF ok])
  show "nav_ok (B\<lparr>evidences := jm_set k ev (evidences B)\<rparr>)"
    using set_values_update [of k ev "evidences B"] plane_okD(1) [OF ok] assms(2)
    unfolding nav_ok_def by (simp del: set_map) blast
  show "ledgers_ok (B\<lparr>evidences := jm_set k ev (evidences B)\<rparr>)"
    by (rule ledgers_ok_frame [OF plane_okD(2) [OF ok]]) simp_all
qed (use plane_okD(3) [OF ok] in \<open>simp_all add: restrictions_ok_def\<close>)

lemma plane_ok_restriction:
  assumes ok: "plane_ok B" and "restr_status r = ''RESTRICTED_EXIT''"
  shows "plane_ok (B\<lparr>credentialRestrictions := jm_set k r (credentialRestrictions B)\<rparr>)"
proof (rule plane_ok_frame [OF ok])
  show "ledgers_ok (B\<lparr>credentialRestrictions := jm_set k r (credentialRestrictions B)\<rparr>)"
    by (rule ledgers_ok_frame [OF plane_okD(2) [OF ok]]) simp_all
qed (use plane_okD(1,3) [OF ok] assms(2) in \<open>simp_all add: restrictions_ok_def nav_ok_def\<close>)

lemma plane_ok_credit:
  assumes ok: "plane_ok B" and n: "0 \<le> n"
  shows "plane_ok (B\<lparr>cashBalances := move k n (cashBalances B)\<rparr>)"
proof (rule plane_ok_frame [OF ok])
  note led = plane_okD(2) [OF ok]
  have "jm_nonneg (move k n (cashBalances B))"
    using cash_nonneg [OF led, of k] n by (intro jm_nonneg_move ledgers_okD [OF led]) simp
  then show "ledgers_ok (B\<lparr>cashBalances := move k n (cashBalances B)\<rparr>)"
    using ledgers_okD [OF led] by (simp add: ledgers_ok_def)
qed (use plane_okD(1,3) [OF ok] in \<open>simp_all add: restrictions_ok_def nav_ok_def\<close>)

lemma idem_settled_keeps:
  assumes "idem_settled S B B'" and "\<And>rc B1. S rc B B1 \<Longrightarrow> plane_ok B1"
  shows "plane_ok B'"
  using assms(1) by cases (simp add: assms(2))

lemma abs_step_keeps: "abs_step h B B' \<Longrightarrow> plane_ok B \<Longrightarrow> plane_ok B'"
proof (induction rule: abs_step.induct)
  case (evidence ev B B')
  then show ?case by (auto simp: submit_evidence_spec_def nav_price_def intro!: plane_ok_evidence)
next
  case (revoke cid reason B B')
  then show ?case by (auto simp: revoke_spec_def intro!: plane_ok_restriction)
next
  case (credit account currency amount B B')
  then show ?case by (auto simp: credit_spec_def intro!: plane_ok_credit)
next
  case (subscription sr B B')
  then show ?case by (blast intro: idem_settled_keeps subscribe_spec_ok)
next
  case (transferred tr B B')
  then show ?case by (blast intro: idem_settled_keeps transfer_spec_ok)
next
  case (redemption rr B B')
  then show ?case by (blast intro: idem_settled_keeps redeem_spec_ok)
next
  case (failure tr B B')
  then show ?case by (blast intro: idem_settled_keeps register_failure_spec_ok)
next
  case (proposal pq pres B B')
  then show ?case by (blast intro: propose_keeps)
next
  case (approval cid ck ares B B')
  then show ?case by (blast intro: approve_keeps)
next
  case (institution i roles pem B B')
  then have "core B' = core B" by (auto simp: register_institution_spec_def)
  with institution.prems show ?case using plane_ok_core by blast
next
  case (creation pid name jur iss ra rules product B B')
  then have "core B' = core B" by (auto simp: create_product_spec_def)
  with creation show ?case using plane_ok_core by blast
next
  case (activate pid B B')
  then have "core B' = core B" by (auto simp: activate_spec_def set_status_spec_def)
  with activate show ?case using plane_ok_core by blast
next
  case (pause pid B B')
  then have "core B' = core B" by (auto simp: set_status_spec_def)
  with pause show ?case using plane_ok_core by blast
next
  case (credential c B B')
  then have "core B' = core B" by (auto simp: register_credential_spec_def)
  with credential show ?case using plane_ok_core by blast
qed

lemma cp_step_keeps: "plane_ok s \<Longrightarrow> cp_step h s t \<Longrightarrow> plane_ok t"
  using abs_step_keeps [OF cp_step_abs] plane_ok_body by blast

interpretation cp: invariant_of "cp_step h" new_plane plane_ok for h
  by unfold_locales (rule plane_ok_new, rule cp_step_keeps)

abbreviation reachable :: "host \<Rightarrow> plane \<Rightarrow> bool" where
  "reachable h \<equiv> reach (cp_step h) new_plane"

end
