(* ===== verification/CpHistory.thy ===== *)
theory CpHistory
  imports CpSteps
begin

text \<open>
  What the control plane never takes back: the event log only grows and stays numbered 1, 2, 3 and
  so on; what a stored transaction disclosed at its creation, and so its evidence package hash,
  never changes; the cash in the ledger is what was credited to it.
\<close>

section \<open>The event log\<close>

definition log_extends :: "plane \<Rightarrow> plane \<Rightarrow> bool" where
  "log_extends s t = (\<exists>es. events t = events s @ es
     \<and> map e_sequence es = [length (events s) + 1 ..< length (events t) + 1])"

interpretation log: state_preorder log_extends
proof
  show "log_extends s s" for s by (simp add: log_extends_def)
  fix s t u
  assume "log_extends s t" and "log_extends t u"
  then obtain e1 e2 where t: "events t = events s @ e1"
      "map e_sequence e1 = [length (events s) + 1 ..< length (events t) + 1]"
    and u: "events u = events t @ e2" "map e_sequence e2 = [length (events t) + 1 ..< length (events u) + 1]"
    unfolding log_extends_def by blast
  have "map e_sequence (e1 @ e2) = [length (events s) + 1 ..< length (events u) + 1]"
    using t u upt_add_eq_append [of "length (events s) + 1" "length (events t) + 1" "length e2"]
    by (simp del: upt_Suc add: add.assoc)
  with t u show "log_extends s u" unfolding log_extends_def by (metis append.assoc)
qed

named_theorems log_intros "operations that only append to the event log"

lemmas [log_intros] = log.intros

lemma log_quiet: "preserves events m \<Longrightarrow> within log_extends m"
  unfolding within_def log_extends_def by (auto dest: preservesD)

lemma preserves_quiet_events: "preserves quiet m \<Longrightarrow> preserves events m"
  by (auto simp: preserves_def intro: quiet_events)

lemma log_of_quiet: "preserves quiet m \<Longrightarrow> within log_extends m"
  by (rule log_quiet [OF preserves_quiet_events])

lemma log_modify: "(\<And>s. events (f s) = events s) \<Longrightarrow> within log_extends (modifyE f)"
  by (rule log_quiet, rule preserves_modifyE)

lemma log_record_event [log_intros]: "within log_extends (record_event h ty pl)"
proof -
  have "log_extends s t" if "record_event h ty pl s = (r, t)" for s r t
  proof -
    from that have "events t = events s @ [\<lparr>e_sequence = length (events s) + 1, e_type = ty,
        e_at = h_iso h (h_now h (clock_reads s)), e_payload = pl\<rparr>]"
      by (auto simp: record_event_def now_iso_def now_def bindE_def retE_def modifyE_def)
    then show ?thesis by (simp add: log_extends_def)
  qed
  then show ?thesis by (simp add: within_def)
qed

lemma log_random_hex [log_intros]: "within log_extends (random_hex h)"
  by (rule log_quiet) (auto simp: preserves_def random_hex_def)

lemma log_put [log_intros]:
  "within log_extends (modifyE (\<lambda>q. q\<lparr>institutions := f1 q\<rparr>))"
  "within log_extends (modifyE (\<lambda>q. q\<lparr>products := f2 q\<rparr>))"
  "within log_extends (modifyE (\<lambda>q. q\<lparr>credentials := f3 q\<rparr>))"
  "within log_extends (modifyE (\<lambda>q. q\<lparr>credentialRestrictions := f4 q\<rparr>))"
  "within log_extends (modifyE (\<lambda>q. q\<lparr>evidences := f5 q\<rparr>))"
  "within log_extends (modifyE (\<lambda>q. q\<lparr>transactions := f6 q\<rparr>))"
  "within log_extends (modifyE (\<lambda>q. q\<lparr>cashSettlements := f7 q\<rparr>))"
  "within log_extends (modifyE (\<lambda>q. q\<lparr>exceptionCases := f8 q\<rparr>))"
  "within log_extends (modifyE (\<lambda>q. q\<lparr>idempotency := f9 q\<rparr>))"
  "within log_extends (modifyE (\<lambda>q. q\<lparr>cashBalances := f10 q\<rparr>))"
  "within log_extends (modifyE (\<lambda>q. q\<lparr>assetBalances := f11 q\<rparr>))"
  "within log_extends (modifyE (\<lambda>q. q\<lparr>legalRegister := f12 q\<rparr>))"
  by (rule log_modify; simp)+

lemma log_update_case [log_intros]: "within log_extends (update_case c f)"
  unfolding update_case_def by (rule log_modify) (simp split: option.splits)

lemma log_update_tx [log_intros]: "within log_extends (update_tx c f)"
  unfolding update_tx_def by (rule log_modify) (simp split: option.splits)

lemmas [log_intros] = now_iso_quiet [THEN log_of_quiet] get_product_quiet [THEN log_of_quiet]
  verify_credential_quiet [THEN log_of_quiet] verify_evidence_quiet [THEN log_of_quiet]
  check_roles_quiet [THEN log_of_quiet] subscribe_checks_quiet [THEN log_of_quiet]
  transfer_checks_quiet [THEN log_of_quiet] redeem_checks_quiet [THEN log_of_quiet]
  publicReceipt_quiet [THEN log_of_quiet] get_case_quiet [THEN log_of_quiet]
  assertNewTransaction_quiet [THEN log_of_quiet]

lemma log_transition [log_intros]: "within log_extends (transition h lc st i ty pid)"
  unfolding transition_def by (intro log_intros)

lemma log_confirm [log_intros]: "within log_extends (confirmSandboxCash h i pid)"
  unfolding confirmSandboxCash_def by (intro log_intros)

lemma log_complete [log_intros]: "within log_extends (completeTransaction h d lc)"
  unfolding completeTransaction_def Let_def by (intro log_intros)

lemma log_store [log_intros]: "within log_extends (storeExceptionTransaction h d lc)"
  unfolding storeExceptionTransaction_def Let_def by (intro log_intros)

lemma log_attempt [log_intros]:
  "(\<And>lc. within log_extends (f lc)) \<Longrightarrow> within log_extends (runTransactionAttempt h i ty pid f)"
  unfolding runTransactionAttempt_def reject_attempt_def by (intro log_intros)

lemma log_idempotent [log_intros]: "within log_extends m \<Longrightarrow> within log_extends (idempotent h key req m)"
  unfolding idempotent_def Let_def by (intro log_intros) (auto intro!: log_intros split: option.splits prod.splits)

lemma log_ledgers [log_intros]:
  "within log_extends (cash_debit key n)" "within log_extends (cash_credit key n)"
  "within log_extends (add_assetBalance a pid n)" "within log_extends (add_legalRegister a pid n)"
  unfolding cash_debit_def cash_credit_def add_assetBalance_def add_legalRegister_def
  by (intro log_intros)+

lemma log_resolution [log_intros]:
  "within log_extends (transition_tx h i st)" "within log_extends (set_tx_state i st)"
  "within log_extends (resolve_case h cid ck)" "within log_extends (record_resolved h c st)"
  unfolding transition_tx_def set_tx_state_def resolve_case_def record_resolved_def
  by (intro log_intros)+

lemma log_handlers:
  "within log_extends (registerInstitution h i roles pem)"
  "within log_extends (createProduct h pid name jur iss ra rules)"
  "within log_extends (activateProduct h pid)"
  "within log_extends (pauseProduct h pid reason)"
  "within log_extends (registerCredential h c)"
  "within log_extends (revokeCredential h cid reason)"
  "within log_extends (submitEvidence h ev)"
  "within log_extends (creditSandboxCash h account currency amount)"
  unfolding registerInstitution_def createProduct_def activateProduct_def pauseProduct_def
    registerCredential_def revokeCredential_def submitEvidence_def creditSandboxCash_def Let_def
    set_product_status_def
  by (intro log_intros)+

lemma log_subscribe: "within log_extends (subscribe h sr)"
  unfolding subscribe_def subscribe_effects_def
  by (intro log_intros) (auto intro!: log_intros split: prod.splits)

lemma log_transfer [log_intros]: "within log_extends (transfer h tr)"
  unfolding transfer_def transfer_effects_def by (intro log_intros)

lemma log_redeem: "within log_extends (redeem h rr)"
  unfolding redeem_def redeem_effects_def by (intro log_intros)

lemma log_register_failure: "within log_extends (simulateRegisterFailure h tr)"
  unfolding simulateRegisterFailure_def register_failure_effects_def Let_def by (intro log_intros)

lemma log_propose: "within log_extends (proposeExceptionResolution h pq)"
  unfolding proposeExceptionResolution_def record_proposal_def Let_def by (intro log_intros)

lemma log_approve: "within log_extends (approveExceptionResolution h cid ck)"
  unfolding approveExceptionResolution_def resolve_cancelled_def resolve_retried_def
    retry_transfer_def retry_blocked_def Let_def
  by (intro log_intros)

lemma cp_step_log: "cp_step h s t \<Longrightarrow> log_extends s t"
  by (induction rule: cp_step.induct)
     (blast intro: withinD log_handlers log_subscribe log_transfer log_redeem log_register_failure
       log_propose log_approve log_of_quiet reconcile_quiet transactionEvidencePackage_quiet viewForRole_quiet)+

definition log_numbered :: "plane \<Rightarrow> bool" where
  "log_numbered p = (map e_sequence (events p) = [1 ..< length (events p) + 1])"

lemma log_numbered_step: "log_numbered s \<Longrightarrow> log_extends s t \<Longrightarrow> log_numbered t"
  unfolding log_numbered_def log_extends_def
  using upt_add_eq_append [of 1 "length (events s) + 1" "length (events t) - length (events s)"]
  by (auto simp del: upt_Suc)

interpretation numbered: invariant_of "cp_step h" new_plane log_numbered for h
proof
  show "log_numbered new_plane" by (simp add: log_numbered_def new_plane_def)
  show "log_numbered s \<Longrightarrow> cp_step h s t \<Longrightarrow> log_numbered t" for s t
    by (blast intro: log_numbered_step cp_step_log)
qed


section \<open>What a transaction disclosed\<close>

definition disclosed :: "plane \<Rightarrow> string \<Rightarrow> json option" where
  \<comment> \<open>the hashed core of the evidence package of a transaction\<close>
  "disclosed p k = map_option (\<lambda>t. immutable_core t (jm_get (cashSettlements p) k)) (jm_get (transactions p) k)"

definition keeps_disclosed :: "plane \<Rightarrow> plane \<Rightarrow> bool" where
  "keeps_disclosed p q = (\<forall>k c. disclosed p k = Some c \<longrightarrow> disclosed q k = Some c)"

interpretation disclosure: state_preorder keeps_disclosed
  by unfold_locales (unfold keeps_disclosed_def, blast+)

lemma disclosed_body [simp]: "disclosed (body p) = disclosed p"
  by (simp add: disclosed_def fun_eq_iff)

lemma keeps_disclosed_same:
  "transactions q = transactions p \<Longrightarrow> cashSettlements q = cashSettlements p \<Longrightarrow> keeps_disclosed p q"
  by (simp add: keeps_disclosed_def disclosed_def)

lemma keeps_disclosed_new:
  assumes "\<not> jm_has (transactions p) i"
    and "\<And>k. k \<noteq> i \<Longrightarrow> jm_get (transactions q) k = jm_get (transactions p) k"
    and "\<And>k. k \<noteq> i \<Longrightarrow> jm_get (cashSettlements q) k = jm_get (cashSettlements p) k"
  shows "keeps_disclosed p q"
  unfolding keeps_disclosed_def disclosed_def
proof (intro allI impI)
  fix k c
  assume d: "map_option (\<lambda>t. immutable_core t (jm_get (cashSettlements p) k)) (jm_get (transactions p) k) = Some c"
  then have "k \<noteq> i" using assms(1) by (auto simp: jm_has_def)
  with d assms(2,3) show
    "map_option (\<lambda>t. immutable_core t (jm_get (cashSettlements q) k)) (jm_get (transactions q) k) = Some c"
    by simp
qed

definition same_core :: "transaction \<Rightarrow> transaction \<Rightarrow> bool" where
  "same_core t t' = (immutable_core t' = immutable_core t)"

lemma same_core_advance:
  "\<forall>(st, at) \<in> set xs. st \<notin> set creation_states \<Longrightarrow>
     same_core t (t\<lparr>tx_state := x, tx_lifecycle := tx_lifecycle t @ xs\<rparr>)"
  unfolding same_core_def immutable_core_def lifecycle_at_creation_def state_at_creation_def fun_eq_iff
  by (auto simp: filter_empty_conv)

lemma keeps_disclosed_advance:
  assumes "jm_get (transactions p) i = Some t" and "same_core t t'"
    and "transactions q = jm_set i t' (transactions p)" and "cashSettlements q = cashSettlements p"
  shows "keeps_disclosed p q"
  using assms unfolding keeps_disclosed_def disclosed_def same_core_def by auto

lemma settles_disclosed:
  "settles h d cash assets reg rc B B' \<Longrightarrow> \<not> jm_has (transactions B) (td_id d) \<Longrightarrow> keeps_disclosed B B'"
  unfolding settles_def Let_def by (elim exE conjE, rule keeps_disclosed_new) auto

lemma opens_review_disclosed:
  "opens_review h r tp rc B B' \<Longrightarrow> \<not> jm_has (transactions B) (tr_id r) \<Longrightarrow> keeps_disclosed B B'"
  unfolding opens_review_def Let_def by (elim exE conjE, rule keeps_disclosed_new) auto

lemma transfer_spec_disclosed: "transfer_spec h r rc B B' \<Longrightarrow> keeps_disclosed B B'"
  unfolding transfer_spec_def by (elim exE conjE, rule settles_disclosed) (auto simp: transfer_terms_def)

lemma idem_settled_disclosed:
  assumes "idem_settled S B B'" and "\<And>rc B1. S rc B B1 \<Longrightarrow> keeps_disclosed B B1"
  shows "keeps_disclosed B B'"
  using assms(1)
proof cases
  case (1 key rc B1 fp)
  have "keeps_disclosed B1 B'" by (rule keeps_disclosed_same) (simp_all add: 1)
  with assms(2) [OF 1(3)] show ?thesis by (rule disclosure.trans)
qed

lemma closes_disclosed:
  assumes "closes cid ck c t st status rep B B'" and "jm_get (transactions B) (ec_transactionId c) = Some t"
    and "st \<notin> set creation_states"
  shows "keeps_disclosed B B'"
  using assms(1) unfolding closes_def
  by (elim exE, intro keeps_disclosed_advance [OF assms(2)])
     (rule same_core_advance, use assms(3) in auto)

lemma reopens_disclosed:
  assumes "reopens cid c t B B'" and "jm_get (transactions B) (ec_transactionId c) = Some t"
  shows "keeps_disclosed B B'"
  using assms(1) unfolding reopens_def
  by (elim exE, intro keeps_disclosed_advance [OF assms(2)])
     (rule same_core_advance, auto simp: creation_states_def)

lemma propose_disclosed: "propose_outcome r x B B' \<Longrightarrow> keeps_disclosed B B'"
  unfolding propose_outcome_def proposes_def
proof (elim disjE exE conjE)
  fix res c t at at'
  assume t: "jm_get (transactions B) (ec_transactionId c) = Some t" and
    B': "B' = B\<lparr>
        transactions := jm_set (ec_transactionId c)
          (t\<lparr>tx_state := ''PENDING_APPROVAL'',
             tx_lifecycle := tx_lifecycle t @ [(''REVIEW_PROPOSED'', at)]\<rparr>) (transactions B),
        exceptionCases := jm_set (pq_caseId r)
          (c\<lparr>ec_status := ''PENDING_APPROVAL'', ec_proposal := Some
             \<lparr>pr_decision = pq_decision r, pr_replacementTransactionId = pq_replacementTransactionId r,
              pr_makerId = pq_makerId r, pr_proposedAt = at'\<rparr>\<rparr>) (exceptionCases B)\<rparr>"
  show "keeps_disclosed B B'"
    by (rule keeps_disclosed_advance [OF t same_core_advance]) (auto simp: B' creation_states_def)
qed (simp add: disclosure.refl)

lemma retried_disclosed: "retried h r rc B B' \<Longrightarrow> keeps_disclosed B B'"
  unfolding retried_def Let_def
proof (elim disjE exE conjE)
  fix B1
  assume "transfer_spec h r rc B B1" and B': "B' = B1\<lparr>idempotency := jm_set (tr_idempotencyKey r)
      (h_sha256 h (canonicalize (transfer_json r)), rc) (idempotency B1)\<rparr>"
  from transfer_spec_disclosed [OF this(1)] have "keeps_disclosed B B1" .
  moreover have "keeps_disclosed B1 B'" by (rule keeps_disclosed_same) (simp_all add: B')
  ultimately show "keeps_disclosed B B'" by (rule disclosure.trans)
qed (simp add: disclosure.refl)

lemma reviewed_disclosed:
  assumes "jm_get (transactions B) i = Some t"
  shows "keeps_disclosed B (with_tx i (reviewed t at) B)"
proof -
  have "same_core t (t\<lparr>tx_state := tx_state t, tx_lifecycle := tx_lifecycle t @ [(''REVIEW_APPROVED'', at)]\<rparr>)"
    by (rule same_core_advance) (simp add: creation_states_def)
  then show ?thesis
    by (intro keeps_disclosed_advance [OF assms]) (simp_all add: reviewed_def with_tx_def)
qed

lemma approve_disclosed:
  assumes "approve_outcome h cid ck x B B'"
  shows "keeps_disclosed B B'"
proof -
  have main: "keeps_disclosed B B'" if t: "jm_get (transactions B) (ec_transactionId c) = Some t"
    and cases: "closes cid ck c (reviewed t at) ''CANCELLED'' st rep (with_tx (ec_transactionId c) (reviewed t at) B) B'
      \<or> (\<exists>rr rc B1. retried h rr rc (with_tx (ec_transactionId c) (reviewed t at) B) B1
           \<and> closes cid ck c (reviewed t at) ''REPLACED'' st rep B1 B')
      \<or> reopens cid c (reviewed t at) (with_tx (ec_transactionId c) (reviewed t at) B) B'"
    for c t at st rep
  proof -
    let ?B0 = "with_tx (ec_transactionId c) (reviewed t at) B"
    have t0: "jm_get (transactions ?B0) (ec_transactionId c) = Some (reviewed t at)" by simp
    have "keeps_disclosed ?B0 B'"
      using cases
    proof (elim disjE exE conjE)
      fix rr rc B1
      assume r: "retried h rr rc ?B0 B1" and c: "closes cid ck c (reviewed t at) ''REPLACED'' st rep B1 B'"
      have "keeps_disclosed B1 B'"
        by (rule closes_disclosed [OF c retried_frame(2) [OF r t0]]) (simp add: creation_states_def)
      with retried_disclosed [OF r] show ?thesis by (rule disclosure.trans)
    qed (auto intro: closes_disclosed [OF _ t0] reopens_disclosed [OF _ t0] simp: creation_states_def)
    with reviewed_disclosed [OF t] show ?thesis by (rule disclosure.trans)
  qed
  from assms show ?thesis
    unfolding approve_outcome_def Let_def
    by (elim disjE exE conjE) (simp add: disclosure.refl, (rule main, assumption, blast)+)
qed

lemma abs_step_disclosed: "abs_step h B B' \<Longrightarrow> keeps_disclosed B B'"
proof (induction rule: abs_step.induct)
  case (subscription sr B B')
  then show ?case by (rule idem_settled_disclosed)
    (auto simp: subscribe_spec_def intro: settles_disclosed)
next
  case (transferred tr B B')
  then show ?case by (rule idem_settled_disclosed) (rule transfer_spec_disclosed)
next
  case (redemption rr B B')
  then show ?case by (rule idem_settled_disclosed)
    (auto simp: redeem_spec_def intro: settles_disclosed)
next
  case (failure tr B B')
  then show ?case by (rule idem_settled_disclosed)
    (auto simp: register_failure_spec_def transfer_terms_def intro: opens_review_disclosed)
next
  case (proposal pq pres B B')
  then show ?case by (rule propose_disclosed)
next
  case (approval cid ck ares B B')
  then show ?case by (rule approve_disclosed)
qed (auto simp: register_institution_spec_def create_product_spec_def activate_spec_def set_status_spec_def
  register_credential_spec_def revoke_spec_def submit_evidence_spec_def credit_spec_def disclosure.refl
  intro!: keeps_disclosed_same)

lemma cp_step_disclosed: "plane_ok s \<Longrightarrow> cp_step h s t \<Longrightarrow> keeps_disclosed s t"
  using abs_step_disclosed [OF cp_step_abs] unfolding keeps_disclosed_def by simp

lemma reach_from: "(cp_step h)\<^sup>*\<^sup>* s t \<Longrightarrow> plane_ok s \<Longrightarrow> keeps_disclosed s t \<and> plane_ok t"
  by (induction rule: rtranclp_induct)
     (auto intro: disclosure.refl disclosure.trans cp_step_disclosed cp_step_keeps)

end
