(* ===== verification/CpDemo.thy ===== *)
theory CpDemo
  imports CpHistory
begin

text \<open>
  A concrete host and a concrete run of the control plane, for the witnesses: one institution with
  every role, one active product, two investors with credentials, a NAV and cash. The run is a
  sequence of eight operations; every state of it is written out.
\<close>

definition demo_host :: host where
  "demo_host = \<lparr>h_now = (\<lambda>n. 1000), h_iso = (\<lambda>t. ''t''),
     h_date = (\<lambda>s. if s = ''past'' then Some 0 else if s = ''future'' then Some 100000 else None),
     h_sha256 = (\<lambda>s. ''h''), h_verify = (\<lambda>key msg sig. Some (key = ''pem'' \<and> sig = ''sig'')),
     h_random = (\<lambda>n. ''r'')\<rparr>"

definition demo_rules :: json where
  "demo_rules = JObj [(''currency'', JStr ''HKD''), (''allowedInvestorClasses'', JArr [JStr ''PI'']),
     (''allowedJurisdictions'', JArr [JStr ''HK'']), (''maxPriceDeviationBps'', JNum 500)]"

definition demo_credential :: "string \<Rightarrow> string \<Rightarrow> credential" where
  "demo_credential cid who = \<lparr>cred_id = cid, cred_productId = ''p'', cred_issuerId = ''i'',
     cred_subjectId = who, cred_investorClass = ''PI'', cred_jurisdiction = ''HK'',
     cred_maxUnits = JStr ''50'', cred_validFrom = ''past'', cred_validUntil = ''future'',
     cred_signature = ''sig'', cred_extra = []\<rparr>"

definition demo_nav :: evidence where
  "demo_nav = \<lparr>ev_id = ''n'', ev_productId = ''p'', ev_dataType = ''nav'', ev_sourceInstitutionId = ''i'',
     ev_issuerId = None, ev_trustTier = ''T1'', ev_schemaVersion = ''1'', ev_effectiveAt = ''past'',
     ev_expiresAt = ''future'', ev_payload = JObj [(''currency'', JStr ''HKD''), (''navPerUnit'', JStr ''10'')],
     ev_signature = ''sig'', ev_status = []\<rparr>"

definition demo_subscribe :: subscribe_request where
  "demo_subscribe = \<lparr>sr_id = ''s1'', sr_idempotencyKey = ''k1'', sr_productId = ''p'', sr_investorId = ''a'',
     sr_credentialId = ''ca'', sr_units = JStr ''5'', sr_cashAmount = JStr ''50''\<rparr>"

definition demo_transfer :: "string \<Rightarrow> transfer_request" where
  "demo_transfer i = \<lparr>tr_id = i, tr_idempotencyKey = ''k'' @ i, tr_productId = ''p'', tr_sellerId = ''a'',
     tr_sellerCredentialId = ''ca'', tr_buyerId = ''b'', tr_buyerCredentialId = ''cb'',
     tr_units = JStr ''2'', tr_pricePerUnit = JStr ''10'', tr_fee = JStr ''1'', tr_expiresAt = ''future''\<rparr>"

definition demo_roles :: "(string, string) jsmap" where
  "demo_roles = [(''issuer'', ''i''), (''distributor'', ''i''), (''credential_issuer'', ''i''),
     (''fund_administrator'', ''i''), (''custodian'', ''i''), (''transfer_agent'', ''i''), (''cash_provider'', ''i'')]"

definition demo_product :: "string \<Rightarrow> product" where
  "demo_product status = \<lparr>prod_id = ''p'', prod_name = ''Fund'', prod_jurisdiction = ''HK'', prod_issuerId = ''i'',
     prod_roleAssignments = demo_roles, prod_rules = demo_rules, prod_ruleVersion = 1,
     prod_status = status, prod_createdAt = ''t''\<rparr>"

definition demo_log :: "(string \<times> (string \<times> json) list) list \<Rightarrow> event list" where
  "demo_log es = map (\<lambda>(n, ty, pl). \<lparr>e_sequence = n, e_type = ty, e_at = ''t'', e_payload = pl\<rparr>)
     (zip [1 ..< length es + 1] es)"

definition demo_events :: "(string \<times> (string \<times> json) list) list" where
  "demo_events =
    [(''institution.registered'', [(''institutionId'', JStr ''i''), (''roles'', JArr (map JStr REQUIRED_PRODUCT_ROLES))]),
     (''product.created'', [(''productId'', JStr ''p''), (''issuerId'', JStr ''i''), (''ruleVersion'', JNum 1)]),
     (''product.activated'', [(''productId'', JStr ''p''), (''ruleVersion'', JNum 1)]),
     (''credential.registered'', [(''credentialId'', JStr ''ca''), (''productId'', JStr ''p''), (''subjectId'', JStr ''a'')]),
     (''credential.registered'', [(''credentialId'', JStr ''cb''), (''productId'', JStr ''p''), (''subjectId'', JStr ''b'')]),
     (''evidence.accepted'', [(''evidenceId'', JStr ''n''), (''productId'', JStr ''p''), (''dataType'', JStr ''nav'')]),
     (''sandbox.cash_credited'', [(''accountId'', JStr ''a''), (''currency'', JStr ''HKD''), (''amount'', JStr ''100'')]),
     (''sandbox.cash_credited'', [(''accountId'', JStr ''b''), (''currency'', JStr ''HKD''), (''amount'', JStr ''100'')])]"

definition demo1 :: plane where
  "demo1 = new_plane\<lparr>clock_reads := 1, institutions :=
     [(''i'', \<lparr>inst_id = ''i'', inst_roles = REQUIRED_PRODUCT_ROLES, inst_publicKeyPem = ''pem''\<rparr>)],
     events := demo_log (take 1 demo_events)\<rparr>"
definition demo2 :: plane where
  "demo2 = demo1\<lparr>clock_reads := 3, products := [(''p'', demo_product ''DRAFT'')],
     events := demo_log (take 2 demo_events)\<rparr>"
definition demo3 :: plane where
  "demo3 = demo2\<lparr>clock_reads := 4, products := [(''p'', demo_product ''ACTIVE'')],
     events := demo_log (take 3 demo_events)\<rparr>"
definition demo4 :: plane where
  "demo4 = demo3\<lparr>clock_reads := 5, credentials := [(''ca'', demo_credential ''ca'' ''a'')],
     events := demo_log (take 4 demo_events)\<rparr>"
definition demo5 :: plane where
  "demo5 = demo4\<lparr>clock_reads := 6, credentials := [(''ca'', demo_credential ''ca'' ''a''), (''cb'', demo_credential ''cb'' ''b'')],
     events := demo_log (take 5 demo_events)\<rparr>"
definition demo6 :: plane where
  "demo6 = demo5\<lparr>clock_reads := 7, evidences := [(''n'', demo_nav\<lparr>ev_status := ''ACTIVE''\<rparr>)],
     events := demo_log (take 6 demo_events)\<rparr>"
definition demo7 :: plane where
  "demo7 = demo6\<lparr>clock_reads := 8, cashBalances := [(''a:HKD'', 100)],
     events := demo_log (take 7 demo_events)\<rparr>"
definition demo8 :: plane where
  "demo8 = demo7\<lparr>clock_reads := 9, cashBalances := [(''a:HKD'', 100), (''b:HKD'', 100)],
     events := demo_log demo_events\<rparr>"

lemmas run_defs = bindE_def thenE_def withE_def retE_def throwE_def modifyE_def liftE_def ensureE_def
  optE_def catchE_def record_event_def now_iso_def now_def random_hex_def demo_host_def jm_has_def

lemmas demo_defs = demo_log_def demo_events_def demo_product_def demo_roles_def demo_rules_def
  demo_credential_def demo_nav_def REQUIRED_PRODUCT_ROLES_def

lemma demo_bigints [simp]:
  "bigint_of_string ''0'' = Some 0" "bigint_of_string ''1'' = Some 1" "bigint_of_string ''2'' = Some 2"
  "bigint_of_string ''5'' = Some 5" "bigint_of_string ''10'' = Some 10" "bigint_of_string ''50'' = Some 50"
  "bigint_of_string ''100'' = Some 100"
  by code_simp+

lemmas setup_defs = registerInstitution_def createProduct_def activateProduct_def registerCredential_def
  submitEvidence_def creditSandboxCash_def get_product_def check_role_assignment_def set_product_status_def
  rules_complete_def hasRole_def valid_window_def date_gt_def verifyStatement_def verify_credential_def
  verify_evidence_def evidence_signer_def toNonNegativeInteger_def syntax_int_def EVIDENCE_ROLE_def
  jfield_def nonempty_array_def integer_between_def colon_def jm_get0_def Let_def new_plane_def

lemma demo1_run: "registerInstitution demo_host ''i'' (Some REQUIRED_PRODUCT_ROLES) ''pem'' new_plane
    = (Inr (), demo1)"
  by (simp add: setup_defs run_defs demo1_def demo_defs)

lemma demo2_run: "createProduct demo_host ''p'' ''Fund'' ''HK'' ''i'' demo_roles demo_rules demo1
    = (Inr (demo_product ''DRAFT''), demo2)"
  by (simp add: setup_defs run_defs demo1_def demo2_def demo_defs)

lemma demo3_run: "activateProduct demo_host ''p'' demo2 = (Inr (), demo3)"
  by (simp add: setup_defs run_defs demo1_def demo2_def demo3_def demo_defs)

lemma demo4_run: "registerCredential demo_host (demo_credential ''ca'' ''a'') demo3 = (Inr (), demo4)"
  by (simp add: setup_defs run_defs demo1_def demo2_def demo3_def demo4_def demo_defs del: canonicalize.simps)

lemma demo5_run: "registerCredential demo_host (demo_credential ''cb'' ''b'') demo4 = (Inr (), demo5)"
  by (simp add: setup_defs run_defs demo1_def demo2_def demo3_def demo4_def demo5_def demo_defs
      del: canonicalize.simps)

lemma demo6_run: "submitEvidence demo_host demo_nav demo5 = (Inr (), demo6)"
  by (simp add: setup_defs run_defs demo1_def demo2_def demo3_def demo4_def demo5_def demo6_def demo_defs
      del: canonicalize.simps)

lemma demo7_run: "creditSandboxCash demo_host ''a'' ''HKD'' (JStr ''100'') demo6 = (Inr (), demo7)"
  by (simp add: setup_defs run_defs demo1_def demo2_def demo3_def demo4_def demo5_def demo6_def demo7_def
      demo_defs)

lemma demo8_run: "creditSandboxCash demo_host ''b'' ''HKD'' (JStr ''100'') demo7 = (Inr (), demo8)"
  by (simp add: setup_defs run_defs demo1_def demo2_def demo3_def demo4_def demo5_def demo6_def demo7_def
      demo8_def demo_defs)

lemma demo7_reachable: "reachable demo_host demo7"
proof -
  have "reachable demo_host demo1" by (rule reach.more, rule reach.start, rule cp_step.intros(1), rule demo1_run)
  then have "reachable demo_host demo2" by (rule reach.more) (rule cp_step.intros(2) [OF demo2_run])
  then have "reachable demo_host demo3" by (rule reach.more) (rule cp_step.intros(3) [OF demo3_run])
  then have "reachable demo_host demo4" by (rule reach.more) (rule cp_step.intros(5) [OF demo4_run])
  then have "reachable demo_host demo5" by (rule reach.more) (rule cp_step.intros(5) [OF demo5_run])
  then have "reachable demo_host demo6" by (rule reach.more) (rule cp_step.intros(7) [OF demo6_run])
  then show ?thesis by (rule reach.more) (rule cp_step.intros(8) [OF demo7_run])
qed

lemma demo8_reachable: "reachable demo_host demo8"
  by (rule reach.more [OF demo7_reachable cp_step.intros(8) [OF demo8_run]])

text \<open>From here on only the body of a state is written out: the host's clock stands still.\<close>

lemma demo8_body: "body demo8 = new_plane\<lparr>institutions :=
     [(''i'', \<lparr>inst_id = ''i'', inst_roles = REQUIRED_PRODUCT_ROLES, inst_publicKeyPem = ''pem''\<rparr>)],
     products := [(''p'', demo_product ''ACTIVE'')],
     credentials := [(''ca'', demo_credential ''ca'' ''a''), (''cb'', demo_credential ''cb'' ''b'')],
     evidences := [(''n'', demo_nav\<lparr>ev_status := ''ACTIVE''\<rparr>)],
     cashBalances := [(''a:HKD'', 100), (''b:HKD'', 100)]\<rparr>"
  by (simp add: body_def demo1_def demo2_def demo3_def demo4_def demo5_def demo6_def demo7_def demo8_def
      new_plane_def)

lemma body_eqD:
  assumes "body s = B"
  shows "institutions s = institutions B" "products s = products B"
    "credentials s = credentials B" "credentialRestrictions s = credentialRestrictions B"
    "evidences s = evidences B" "transactions s = transactions B"
    "cashSettlements s = cashSettlements B" "exceptionCases s = exceptionCases B"
    "idempotency s = idempotency B" "cashBalances s = cashBalances B"
    "assetBalances s = assetBalances B" "legalRegister s = legalRegister B"
  using assms by (auto simp: body_def)

lemmas handler_defs = subscribe_def idempotent_def runTransactionAttempt_def transition_def
  subscribe_checks_def subscribe_effects_def assertNewTransaction_def activeProduct_def get_product_def
  assertEligible_def credentialStatus_def verify_credential_def verifyStatement_def currentEvidence_def
  evidence_in_force_def date_gt_def date_le_def date_ms_def cash_key_def cash_debit_def cash_credit_def
  confirmSandboxCash_def add_assetBalance_def add_legalRegister_def addAsset_def assetOf_def
  completeTransaction_def publicReceipt_def transactionEvidencePackage_def toNonNegativeInteger_def
  syntax_int_def jfield_def colon_def jm_get0_def Let_def make_transaction_def subscribe_data_def
  policySnapshot_def new_plane_def

text \<open>The subscription settles.\<close>

definition demo9 :: plane where
  "demo9 = snd (subscribe demo_host demo_subscribe demo8)"

definition demo9_receipt :: receipt where
  "demo9_receipt = \<lparr>rc_transactionId = ''s1'', rc_productId = ''p'', rc_type = ''SUBSCRIBE'',
     rc_state = ''SETTLED'', rc_settledAt = Some ''t'', rc_navEvidenceId = ''n'', rc_ruleVersion = 1,
     rc_settlementMode = ''STANDARD'', rc_lifecycle = settled_lifecycle, rc_evidencePackageHash = ''h'',
     rc_sandboxCommitment = ''h'', rc_proofSystem = ''SANDBOX_NO_ZK_PROOF'', rc_exceptionCaseId = None,
     rc_reasonCode = None\<rparr>"

definition demo9_tx :: transaction where
  "demo9_tx = make_transaction (subscribe_data demo_host demo_subscribe (demo_product ''ACTIVE'')
     (demo_nav\<lparr>ev_status := ''ACTIVE''\<rparr>) 5 50) ''SETTLED'' (Some ''t'') (map (\<lambda>s. (s, ''t'')) settled_lifecycle) ''h''"

lemma demo9_run_body: "\<exists>t. subscribe demo_host demo_subscribe demo8 = (Inr demo9_receipt, t) \<and>
   body t = (body demo8)\<lparr>cashBalances := [(''a:HKD'', 50), (''b:HKD'', 100), (''i:HKD'', 50)],
     assetBalances := [(''a:p'', 5)], legalRegister := [(''a:p'', 5)],
     cashSettlements := [(''s1'', \<lparr>cs_transactionId = ''s1'', cs_productId = ''p'', cs_state = ''CONFIRMED'',
       cs_source = ''SANDBOX_CASH_JOURNAL'', cs_confirmedAt = ''t''\<rparr>)],
     transactions := [(''s1'', demo9_tx)], idempotency := [(''k1'', ''h'', demo9_receipt)]\<rparr>"
  by (simp add: handler_defs run_defs demo_subscribe_def body_eqD [OF demo8_body] demo_product_def
     demo_rules_def demo_credential_def demo_nav_def demo9_receipt_def demo9_tx_def settled_lifecycle_def
     del: canonicalize.simps) (simp add: body_def)

lemma demo9_run: "subscribe demo_host demo_subscribe demo8 = (Inr demo9_receipt, demo9)"
  using demo9_run_body by (auto simp: demo9_def)

lemmas demo9_body = demo9_run_body [unfolded demo9_run prod.inject, simplified, unfolded demo8_body]

lemma demo9_reachable: "reachable demo_host demo9"
  by (rule reach.more, rule demo8_reachable, rule cp_step.intros(9), rule demo9_run)

text \<open>A transfer of two units settles.\<close>

lemma demo_transfer_run: "\<exists>rc t. transfer demo_host (demo_transfer ''t1'') demo9 = (Inr rc, t)
    \<and> rc_state rc = ''SETTLED'' \<and> assetOf (assetBalances t) ''b'' ''p'' = 2"
  by (simp add: handler_defs transfer_def transfer_checks_def transfer_effects_def transfer_data_def
     default_fee_def price_deviation_def run_defs demo_transfer_def body_eqD [OF demo9_body] demo_product_def
     demo_rules_def demo_credential_def demo_nav_def del: canonicalize.simps)


text \<open>A transfer whose registration fails, its cancellation proposed and approved.\<close>

definition demo10 :: plane where
  "demo10 = snd (simulateRegisterFailure demo_host (demo_transfer ''t1'') demo9)"

definition demo_plan :: transfer_plan where
  "demo_plan = \<lparr>tp_product = demo_product ''ACTIVE'', tp_units = 2, tp_price = 10, tp_fee = 1,
     tp_nav = demo_nav\<lparr>ev_status := ''ACTIVE''\<rparr>, tp_consideration = 20\<rparr>"

definition demo10_tx :: transaction where
  "demo10_tx = make_transaction (transfer_data demo_host (demo_transfer ''t1'') demo_plan ''EXCEPTION_REVIEW'')
     ''REQUIRES_REVIEW'' None (map (\<lambda>s. (s, ''t'')) failed_lifecycle) ''h''"

definition demo10_case :: exception_case where
  "demo10_case = new_case (demo_transfer ''t1'') demo_plan ''t''"

lemma demo_transfer_checks:
  "\<exists>t. transfer_checks demo_host (demo_transfer ''t1'') demo9 = (Inr demo_plan, t)"
  by (simp add: handler_defs transfer_checks_def default_fee_def price_deviation_def run_defs
     demo_transfer_def body_eqD [OF demo9_body] demo_product_def demo_rules_def demo_credential_def
     demo_nav_def demo_plan_def del: canonicalize.simps)

lemma demo10_run_body: "\<exists>rc t. simulateRegisterFailure demo_host (demo_transfer ''t1'') demo9 = (Inr rc, t)
    \<and> rc_state rc = ''REQUIRES_REVIEW'' \<and> transactions t = [(''s1'', demo9_tx), (''t1'', demo10_tx)]
    \<and> exceptionCases t = [(''case-t1'', demo10_case)]"
  by (simp add: handler_defs simulateRegisterFailure_def transfer_checks_def register_failure_effects_def
     transfer_data_def storeExceptionTransaction_def failed_lifecycle_def new_case_def retry_payload_of_def
     default_fee_def price_deviation_def run_defs demo_transfer_def body_eqD [OF demo9_body] demo_product_def
     demo_rules_def demo_credential_def demo_nav_def demo_plan_def demo10_tx_def demo10_case_def
     del: canonicalize.simps)

lemma demo10_run: "\<exists>rc. simulateRegisterFailure demo_host (demo_transfer ''t1'') demo9 = (Inr rc, demo10)
    \<and> rc_state rc = ''REQUIRES_REVIEW''"
  and demo10_fields: "transactions demo10 = [(''s1'', demo9_tx), (''t1'', demo10_tx)]"
    "exceptionCases demo10 = [(''case-t1'', demo10_case)]"
  using demo10_run_body by (auto simp: demo10_def)

lemma demo10_reachable: "reachable demo_host demo10"
  using demo10_run reach.more [OF demo9_reachable cp_step.intros(12)] by blast

definition demo_propose :: propose_request where
  "demo_propose = \<lparr>pq_caseId = ''case-t1'', pq_makerId = ''m'', pq_decision = ''CANCEL'',
     pq_replacementTransactionId = None\<rparr>"

definition demo11 :: plane where
  "demo11 = snd (proposeExceptionResolution demo_host demo_propose demo10)"

lemma demo11_run_body: "\<exists>res t. proposeExceptionResolution demo_host demo_propose demo10 = (Inr res, t)
    \<and> pres_state res = ''PENDING_APPROVAL''
    \<and> transactions t = [(''s1'', demo9_tx), (''t1'', demo10_tx\<lparr>tx_state := ''PENDING_APPROVAL'',
        tx_lifecycle := tx_lifecycle demo10_tx @ [(''REVIEW_PROPOSED'', ''t'')]\<rparr>)]
    \<and> exceptionCases t = [(''case-t1'', demo10_case\<lparr>ec_status := ''PENDING_APPROVAL'', ec_proposal := Some
        \<lparr>pr_decision = ''CANCEL'', pr_replacementTransactionId = None, pr_makerId = ''m'', pr_proposedAt = ''t''\<rparr>\<rparr>)]"
  by (simp add: proposeExceptionResolution_def record_proposal_def get_case_def update_case_def set_tx_state_def
     transition_tx_def update_tx_def transition_def Let_def run_defs demo_propose_def demo10_fields new_case_def
     demo10_tx_def demo10_case_def demo_transfer_def)

lemma demo11_run: "\<exists>res. proposeExceptionResolution demo_host demo_propose demo10 = (Inr res, demo11)
    \<and> pres_state res = ''PENDING_APPROVAL''"
  using demo11_run_body by (auto simp: demo11_def)

lemma demo11_reachable: "reachable demo_host demo11"
  using demo11_run reach.more [OF demo10_reachable cp_step.intros(13)] by blast

lemma demo11_fields:
  "transactions demo11 = [(''s1'', demo9_tx), (''t1'', demo10_tx\<lparr>tx_state := ''PENDING_APPROVAL'',
        tx_lifecycle := tx_lifecycle demo10_tx @ [(''REVIEW_PROPOSED'', ''t'')]\<rparr>)]"
  "exceptionCases demo11 = [(''case-t1'', demo10_case\<lparr>ec_status := ''PENDING_APPROVAL'', ec_proposal := Some
        \<lparr>pr_decision = ''CANCEL'', pr_replacementTransactionId = None, pr_makerId = ''m'', pr_proposedAt = ''t''\<rparr>\<rparr>)]"
  using demo11_run_body by (auto simp: demo11_def)

definition demo12 :: plane where
  "demo12 = snd (approveExceptionResolution demo_host ''case-t1'' ''c'' demo11)"

lemma demo12_run_body: "\<exists>res t. approveExceptionResolution demo_host ''case-t1'' ''c'' demo11 = (Inr res, t)
    \<and> ares_state res = ''RESOLVED_CANCELLED''
    \<and> map tx_state (jm_values (transactions t)) = [''SETTLED'', ''CANCELLED'']
    \<and> map ec_status (jm_values (exceptionCases t)) = [''RESOLVED_CANCELLED'']
    \<and> map fst (exceptionCases t) = [''case-t1'']"
  by (simp add: approveExceptionResolution_def resolve_cancelled_def resolve_case_def record_resolved_def
     get_case_def update_case_def set_tx_state_def transition_tx_def update_tx_def transition_def Let_def
     run_defs demo11_fields new_case_def demo10_tx_def demo10_case_def demo9_tx_def
     demo_transfer_def)

lemma demo12_run: "\<exists>res. approveExceptionResolution demo_host ''case-t1'' ''c'' demo11 = (Inr res, demo12)
    \<and> ares_state res = ''RESOLVED_CANCELLED''"
  and demo12_states: "map tx_state (jm_values (transactions demo12)) = [''SETTLED'', ''CANCELLED'']"
    "map ec_status (jm_values (exceptionCases demo12)) = [''RESOLVED_CANCELLED'']"
    "map fst (exceptionCases demo12) = [''case-t1'']"
  using demo12_run_body by (auto simp: demo12_def)

lemma demo12_reachable: "reachable demo_host demo12"
  using demo12_run reach.more [OF demo11_reachable cp_step.intros(14)] by blast

text \<open>A credential is revoked, and its holder redeems two units.\<close>

definition demo13 :: plane where
  "demo13 = snd (revokeCredential demo_host ''ca'' ''why'' demo9)"

lemma demo13_run_body: "\<exists>t. revokeCredential demo_host ''ca'' ''why'' demo9 = (Inr (), t)
    \<and> body t = (body demo9)\<lparr>credentialRestrictions := [(''ca'', \<lparr>restr_status = ''RESTRICTED_EXIT'',
         restr_reason = ''why'', restr_effectiveAt = ''t''\<rparr>)]\<rparr>"
  by (simp add: revokeCredential_def run_defs body_eqD [OF demo9_body] new_plane_def) (simp add: body_def)

lemma demo13_run: "revokeCredential demo_host ''ca'' ''why'' demo9 = (Inr (), demo13)"
  using demo13_run_body by (auto simp: demo13_def)

lemma demo13_reachable: "reachable demo_host demo13"
  by (rule reach.more, rule demo9_reachable, rule cp_step.intros(6), rule demo13_run)

lemmas demo13_body = demo13_run_body [unfolded demo13_run prod.inject, simplified, unfolded demo9_body]

definition demo_redeem :: redeem_request where
  "demo_redeem = \<lparr>rr_id = ''r1'', rr_idempotencyKey = ''kr1'', rr_productId = ''p'', rr_investorId = ''a'',
     rr_credentialId = ''ca'', rr_units = JStr ''2''\<rparr>"

lemma demo_redeem_run: "\<exists>rc t. redeem demo_host demo_redeem demo13 = (Inr rc, t)
    \<and> rc_state rc = ''SETTLED'' \<and> rc_settlementMode rc = ''RESTRICTED_EXIT''"
  by (simp add: handler_defs redeem_def redeem_checks_def redeem_effects_def redeem_data_def redeem_mode_def
     assertExitAllowed_def run_defs demo_redeem_def body_eqD [OF demo13_body] demo_product_def
     demo_rules_def demo_credential_def demo_nav_def del: canonicalize.simps)

end
