(* ===== verification/CpFacts.thy ===== *)
theory CpFacts
  imports CpDemo
begin

text \<open>
  Consequences of the specifications of the handlers that span several of them: idempotency keys
  are never forgotten, product records stay filed under their id, settlements conserve cash, and a
  restricted credential admits to nothing but an exit.
\<close>

section \<open>Idempotency keys are kept\<close>

definition keeps_receipts :: "plane \<Rightarrow> plane \<Rightarrow> bool" where
  "keeps_receipts p q = (\<forall>key e. jm_get (idempotency p) key = Some e \<longrightarrow> jm_get (idempotency q) key = Some e)"

interpretation receipts: state_preorder keeps_receipts
  by unfold_locales (unfold keeps_receipts_def, blast+)

lemma keeps_receipts_body [simp]: "keeps_receipts (body p) (body q) = keeps_receipts p q"
  by (simp add: keeps_receipts_def)

lemma keeps_receipts_same: "idempotency q = idempotency p \<Longrightarrow> keeps_receipts p q"
  by (simp add: keeps_receipts_def)

lemma idem_settled_receipts:
  assumes "idem_settled S B B'" and "\<And>rc B1. S rc B B1 \<Longrightarrow> idempotency B1 = idempotency B"
  shows "keeps_receipts B B'"
  using assms(1) by cases (auto simp: keeps_receipts_def assms(2))

lemma settles_idempotency: "settles h d cash assets reg rc B B' \<Longrightarrow> idempotency B' = idempotency B"
  unfolding settles_def Let_def by auto

lemma opens_review_idempotency: "opens_review h r tp rc B B' \<Longrightarrow> idempotency B' = idempotency B"
  unfolding opens_review_def Let_def by auto

lemma spec_idempotency:
  "subscribe_spec h sr rc B B' \<Longrightarrow> idempotency B' = idempotency B"
  "transfer_spec h tr rc B B' \<Longrightarrow> idempotency B' = idempotency B"
  "redeem_spec h rr rc B B' \<Longrightarrow> idempotency B' = idempotency B"
  "register_failure_spec h tr rc B B' \<Longrightarrow> idempotency B' = idempotency B"
  unfolding subscribe_spec_def transfer_spec_def redeem_spec_def register_failure_spec_def
  by (blast intro: settles_idempotency opens_review_idempotency)+

lemma retried_receipts: "retried h r rc B B' \<Longrightarrow> keeps_receipts B B'"
  unfolding retried_def Let_def keeps_receipts_def using spec_idempotency(2) by fastforce

lemma closes_idempotency: "closes cid ck c t st status rep B B' \<Longrightarrow> idempotency B' = idempotency B"
  unfolding closes_def by auto

lemma reopens_idempotency: "reopens cid c t B B' \<Longrightarrow> idempotency B' = idempotency B"
  unfolding reopens_def by auto

lemma approve_receipts: "approve_outcome h cid ck x B B' \<Longrightarrow> keeps_receipts B B'"
  unfolding approve_outcome_def Let_def
proof (elim disjE exE conjE)
  fix c pr t at rc B1
  assume r: "retried h (retry_request cid (pr_replacementTransactionId pr) (ec_retryPayload c)) rc
      (with_tx (ec_transactionId c) (reviewed t at) B) B1"
    and c: "closes cid ck c (reviewed t at) ''REPLACED'' ''RESOLVED_RETRIED'' (pr_replacementTransactionId pr) B1 B'"
  have "keeps_receipts B (with_tx (ec_transactionId c) (reviewed t at) B)"
    by (rule keeps_receipts_same) (simp add: with_tx_def)
  moreover note retried_receipts [OF r]
  moreover have "keeps_receipts B1 B'" by (rule keeps_receipts_same [OF closes_idempotency [OF c]])
  ultimately show "keeps_receipts B B'" by (blast intro: receipts.trans)
qed (auto intro!: keeps_receipts_same dest!: closes_idempotency reopens_idempotency simp: with_tx_def receipts.refl)

lemma propose_receipts: "propose_outcome r x B B' \<Longrightarrow> keeps_receipts B B'"
  unfolding propose_outcome_def proposes_def by (auto intro!: keeps_receipts_same simp: receipts.refl)

lemma abs_step_receipts: "abs_step h B B' \<Longrightarrow> keeps_receipts B B'"
proof (induction rule: abs_step.induct)
  case (approval cid ck ares B B')
  then show ?case by (rule approve_receipts)
next
  case (proposal pq pres B B')
  then show ?case by (rule propose_receipts)
qed (auto simp: register_institution_spec_def create_product_spec_def activate_spec_def set_status_spec_def
  register_credential_spec_def revoke_spec_def submit_evidence_spec_def credit_spec_def receipts.refl
  intro: keeps_receipts_same idem_settled_receipts spec_idempotency)

lemma cp_step_receipts: "plane_ok s \<Longrightarrow> cp_step h s t \<Longrightarrow> keeps_receipts s t"
  using abs_step_receipts [OF cp_step_abs] by simp

lemma steps_keep:
  "(cp_step h)\<^sup>*\<^sup>* s t \<Longrightarrow> plane_ok s \<Longrightarrow> keeps_disclosed s t \<and> keeps_receipts s t \<and> log_extends s t \<and> plane_ok t"
  by (induction rule: rtranclp_induct)
     (auto intro: disclosure.refl disclosure.trans receipts.refl receipts.trans log.refl log.trans
       cp_step_disclosed cp_step_receipts cp_step_log cp_step_keeps)

section \<open>A stored receipt is replayed\<close>

lemma idempotent_replay:
  assumes "key \<noteq> []" and "jm_get (idempotency s) key = Some (h_sha256 h (canonicalize request), rc)"
  shows "idempotent h key request m s = (Inr rc, s)"
  using assms by (simp add: idempotent_def thenE_def bindE_def ensureE_def retE_def withE_def Let_def)

lemma idempotent_conflict:
  assumes "key \<noteq> []" and "jm_get (idempotency s) key = Some (fp, rc)" and "fp \<noteq> h_sha256 h (canonicalize request)"
  shows "idempotent h key request m s = (Inl (Coded ''IDEMPOTENCY_CONFLICT''), s)"
  using assms by (simp add: idempotent_def thenE_def bindE_def ensureE_def retE_def throwE_def withE_def Let_def)

lemma idempotent_stores:
  assumes "idempotent h key request m s = (Inr rc, t)"
  shows "key \<noteq> [] \<and> jm_get (idempotency t) key = Some (h_sha256 h (canonicalize request), rc)"
  using assms by (auto simp: idempotent_def eff_simps Let_def split: option.splits prod.splits)

section \<open>Products are filed under their id\<close>

definition products_filed :: "plane \<Rightarrow> bool" where
  "products_filed p = (\<forall>k pr. jm_get (products p) k = Some pr \<longrightarrow> prod_id pr = k)"

lemma products_filed_body [simp]: "products_filed (body p) = products_filed p"
  by (simp add: products_filed_def)

lemma spec_products:
  "subscribe_spec h sr rc B B' \<Longrightarrow> products B' = products B"
  "transfer_spec h tr rc B B' \<Longrightarrow> products B' = products B"
  "redeem_spec h rr rc B B' \<Longrightarrow> products B' = products B"
  "register_failure_spec h tr rc B B' \<Longrightarrow> products B' = products B"
  unfolding subscribe_spec_def transfer_spec_def redeem_spec_def register_failure_spec_def
    settles_def opens_review_def Let_def
  by auto

lemma idem_settled_products:
  assumes "idem_settled S B B'" and "\<And>rc B1. S rc B B1 \<Longrightarrow> products B1 = products B"
  shows "products B' = products B"
  using assms(1) by cases (simp add: assms(2))

lemma approve_products: "approve_outcome h cid ck x B B' \<Longrightarrow> products B' = products B"
  unfolding approve_outcome_def closes_def reopens_def with_tx_def retried_def Let_def
  using spec_products(2) by fastforce

lemma abs_step_filed: "abs_step h B B' \<Longrightarrow> products_filed B \<Longrightarrow> products_filed B'"
proof (induction rule: abs_step.induct)
  case (approval cid ck ares B B')
  then show ?case by (simp add: products_filed_def approve_products)
qed (auto simp: products_filed_def register_institution_spec_def create_product_spec_def activate_spec_def
  set_status_spec_def register_credential_spec_def revoke_spec_def submit_evidence_spec_def credit_spec_def
  propose_outcome_def proposes_def dest: idem_settled_products spec_products split: if_splits)


lemma cp_step_filed: "plane_ok s \<Longrightarrow> products_filed s \<Longrightarrow> cp_step h s t \<Longrightarrow> products_filed t"
  using abs_step_filed [OF cp_step_abs] by simp

interpretation filed: invariant_of "cp_step h" new_plane "\<lambda>p. plane_ok p \<and> products_filed p" for h
proof
  have "products_filed new_plane" by (simp add: products_filed_def new_plane_def)
  with plane_ok_new show "plane_ok new_plane \<and> products_filed new_plane" ..
  show "plane_ok s \<and> products_filed s \<Longrightarrow> cp_step h s t \<Longrightarrow> plane_ok t \<and> products_filed t" for s t
    by (blast intro: cp_step_keeps cp_step_filed)
qed

section \<open>Cash and units\<close>

definition cash_total :: "plane \<Rightarrow> int" where
  "cash_total p = jm_total (cashBalances p)"

definition unit_total :: "plane \<Rightarrow> int" where
  "unit_total p = jm_total (assetBalances p)"

lemma totals_body [simp]: "cash_total (body p) = cash_total p" "unit_total (body p) = unit_total p"
  by (simp_all add: cash_total_def unit_total_def)

lemma settles_totals:
  assumes "settles h d cash assets reg rc B B'"
  shows "jm_total (cashBalances B') = jm_total cash" and "jm_total (assetBalances B') = jm_total assets"
  using assms unfolding settles_def Let_def by auto

lemma spec_cash:
  "subscribe_spec h sr rc B B' \<Longrightarrow> cash_total B' = cash_total B"
  "transfer_spec h tr rc B B' \<Longrightarrow> cash_total B' = cash_total B"
  "redeem_spec h rr rc B B' \<Longrightarrow> cash_total B' = cash_total B"
  "register_failure_spec h tr rc B B' \<Longrightarrow> cash_total B' = cash_total B"
proof -
  show "subscribe_spec h sr rc B B' \<Longrightarrow> cash_total B' = cash_total B"
    unfolding subscribe_spec_def by (auto dest!: settles_totals(1) simp: cash_total_def)
  show "transfer_spec h tr rc B B' \<Longrightarrow> cash_total B' = cash_total B"
    unfolding transfer_spec_def by (auto dest!: settles_totals(1) simp: cash_total_def)
  show "redeem_spec h rr rc B B' \<Longrightarrow> cash_total B' = cash_total B"
    unfolding redeem_spec_def by (auto dest!: settles_totals(1) simp: cash_total_def)
  show "register_failure_spec h tr rc B B' \<Longrightarrow> cash_total B' = cash_total B"
    unfolding register_failure_spec_def opens_review_def Let_def by (auto simp: cash_total_def)
qed

lemma transfer_units: "transfer_spec h tr rc B B' \<Longrightarrow> unit_total B' = unit_total B"
  unfolding transfer_spec_def by (auto dest!: settles_totals(2) simp: unit_total_def)

lemma subscribe_units:
  "subscribe_spec h sr rc B B' \<Longrightarrow> \<exists>u > 0. to_bigint (sr_units sr) = Inr u \<and> unit_total B' = unit_total B + u"
  unfolding subscribe_spec_def by (fastforce dest!: settles_totals(2) simp: unit_total_def)

lemma redeem_units:
  "redeem_spec h rr rc B B' \<Longrightarrow> \<exists>u > 0. to_bigint (rr_units rr) = Inr u \<and> unit_total B' = unit_total B - u"
  unfolding redeem_spec_def by (fastforce dest!: settles_totals(2) simp: unit_total_def)

lemma idem_outcome_total:
  assumes "idem_outcome h key req S s x t" and "\<And>rc B. S rc (body s) B \<Longrightarrow> cash_total B = cash_total (body s)"
  shows "cash_total t = cash_total s"
  using assms(1) unfolding idem_outcome_def Let_def
proof (elim disjE exE conjE)
  fix e
  assume "body t = body s"
  then show ?thesis using totals_body(1) by metis
next
  fix rc B
  assume "S rc (body s) B" and
    "body t = B\<lparr>idempotency := jm_set key (h_sha256 h (canonicalize req), rc) (idempotency B)\<rparr>"
  then have "cash_total (body t) = cash_total (body s)" using assms(2) by (simp add: cash_total_def)
  then show ?thesis by (simp only: totals_body)
qed simp

lemma retried_cash: "retried h r rc B B' \<Longrightarrow> cash_total B' = cash_total B"
  unfolding retried_def Let_def using spec_cash(2) by (auto simp: cash_total_def)

lemma approve_cash: "approve_outcome h cid ck x B B' \<Longrightarrow> cash_total B' = cash_total B"
  unfolding approve_outcome_def closes_def reopens_def Let_def
  by (auto simp: with_tx_def cash_total_def dest!: retried_cash)

section \<open>A restricted credential\<close>

lemma restricted_not_eligible:
  assumes "plane_ok B" and "jm_get (credentialRestrictions B) cid = Some r"
  shows "\<not> eligible h B product i cid n c"
  using assms by (auto simp: plane_ok_def restrictions_ok_def eligible_def)

end
