(* ===== verification/Canonical.thy ===== *)
theory Canonical
  imports JsonText "HOL-Library.Multiset"
begin

text \<open>
  The canonical text determines the value up to the order of its keys and up to \<open>[undefined]\<close>
  for an empty array.

  \<open>render\<close> prints a value in the order its keys are given. \<open>canonicalize v\<close> is \<open>render\<close> of the
  normal form of \<open>v\<close>, and \<open>render\<close> is prefix free on normal values: a text that starts
  with the rendering of a value and goes on with a delimiter determines both.
\<close>

section \<open>Rendering without sorting\<close>

primrec render :: "json \<Rightarrow> string" where
  "render JUndefined = ''undefined''"
| "render JNull = ''null''"
| "render (JBool b) = (if b then ''true'' else ''false'')"
| "render (JNum n) = int_text n"
| "render (JFloat s) = s"
| "render (JStr s) = json_quote s"
| "render (JArr xs) = ''['' @ join '','' (map (\<lambda>(x, t). if x = JUndefined then [] else t)
       (zip xs (map render xs))) @ '']''"
| "render (JObj kvs) =
     ''{'' @ join '','' (map (\<lambda>(k, t). json_quote k @ '':'' @ t) (map (map_prod id render) kvs)) @ ''}''"

definition elem_text :: "json \<Rightarrow> string" where
  \<comment> \<open>an element as \<open>join\<close> prints it\<close>
  "elem_text x = (if x = JUndefined then [] else render x)"

lemma zip_elems: "map (\<lambda>(x, t). if x = JUndefined then [] else t) (zip xs (map f xs))
    = map (\<lambda>x. if x = JUndefined then [] else f x) xs"
  by (induction xs) simp_all

lemma render_arr: "render (JArr xs) = ''['' @ join '','' (map elem_text xs) @ '']''"
  by (simp add: zip_elems elem_text_def [abs_def])

lemma jnorm_undefined: "jnorm x = JUndefined \<longleftrightarrow> x = JUndefined"
  by (cases x) simp_all

lemma insort_key_map_prod:
  "insort_key fst (map_prod id f e) (map (map_prod id f) es) = map (map_prod id f) (insort_key fst e es)"
  by (induction es) auto

lemma sort_key_map_prod:
  "sort_key fst (map (map_prod id f) es) = map (map_prod id f) (sort_key fst es)"
proof (induction es)
  case (Cons e es)
  show ?case unfolding list.map sort_key_simps Cons.IH by (rule insort_key_map_prod)
qed simp

lemma map_prod_cong: "(\<And>k v. (k, v) \<in> set es \<Longrightarrow> f v = g v) \<Longrightarrow>
    map (map_prod id f) es = map (map_prod id g) es"
  by (induction es) (auto simp: map_prod_def)

lemma snds_in: "v \<in> Basic_BNFs.snds (k, v)"
  by (simp add: Basic_BNFs.snds.simps)

lemma canonicalize_render: "canonicalize v = render (jnorm v)"
proof (induction v)
  case (JArr xs)
  have "map (\<lambda>x. if x = JUndefined then [] else canonicalize x) xs = map (elem_text \<circ> jnorm) xs"
    using JArr by (auto simp: elem_text_def jnorm_undefined)
  then show ?case
    by (simp only: canonicalize.simps zip_elems) (simp add: render_arr elem_text_def del: render.simps(7))
next
  case (JObj kvs)
  have "map (map_prod id canonicalize) kvs = map (map_prod id (render \<circ> jnorm)) kvs"
    by (rule map_prod_cong) (use JObj snds_in in fastforce)
  then have "sort_key fst (map (map_prod id canonicalize) kvs)
      = map (map_prod id render) (sort_key fst (map (map_prod id jnorm) kvs))"
    by (simp add: sort_key_map_prod comp_def prod.map_comp [symmetric])
       (simp add: sort_key_map_prod comp_def map_prod_def split_def)
  then show ?case by simp
qed simp_all

section \<open>Tokens\<close>

definition delim :: "string \<Rightarrow> bool" where
  "delim r = (r = [] \<or> hd r \<in> {CHR '','', CHR '']'', CHR ''}''})"

definition plain :: "char \<Rightarrow> bool" where
  \<comment> \<open>a character that can occur in a token that is not quoted or bracketed\<close>
  "plain c = (c \<notin> {CHR '','', CHR '']'', CHR ''}'', CHR ''['', CHR ''{'', CHR 0x22})"

fun atom_text :: "json \<Rightarrow> string option" where
  "atom_text (JStr _) = None"
| "atom_text (JArr _) = None"
| "atom_text (JObj _) = None"
| "atom_text v = Some (render v)"

lemma int_text_plain: "c \<in> set (int_text n) \<Longrightarrow> plain c"
  using int_text_chars [of n] by (auto simp: plain_def digit_chars_def)

lemma atom_plain:
  assumes "normal_json v" and "atom_text v = Some t"
  shows "t \<noteq> [] \<and> (\<forall>c \<in> set t. plain c)"
  using assms
proof (cases v)
  case (JNum n)
  with assms show ?thesis using int_text_plain by auto
next
  case (JFloat s)
  with assms show ?thesis by (auto simp: float_text_def plain_def)
qed (auto simp: plain_def split: if_splits)

lemma token_prefix:
  assumes "t @ r = t' @ r'" and "\<forall>c \<in> set t. plain c" and "\<forall>c \<in> set t'. plain c"
    and "delim r" and "delim r'"
  shows "t = t' \<and> r = r'"
proof -
  have tw: "takeWhile plain (u @ q) = u" if "\<forall>c \<in> set u. plain c" "delim q" for u q
  proof -
    have "takeWhile plain q = []" using \<open>delim q\<close> by (cases q) (auto simp: delim_def plain_def)
    with that show ?thesis by (simp add: takeWhile_append)
  qed
  from assms tw [of t r] tw [of t' r'] have "t = t'" by simp
  with assms(1) show ?thesis by simp
qed

lemma float_not_int: "float_text s \<Longrightarrow> s \<noteq> int_text n"
  using int_text_chars [of n] by (auto simp: float_text_def digit_chars_def)

lemma int_text_not_word:
  "int_text n \<noteq> ''undefined''" "int_text n \<noteq> ''null''" "int_text n \<noteq> ''true''" "int_text n \<noteq> ''false''"
  using int_text_chars [of n] by (auto simp: digit_chars_def)

lemma float_not_word:
  "float_text s \<Longrightarrow> s \<noteq> ''undefined'' \<and> s \<noteq> ''null'' \<and> s \<noteq> ''true'' \<and> s \<noteq> ''false''"
  by (auto simp: float_text_def)

lemma atom_text_inject:
  "normal_json v \<Longrightarrow> normal_json w \<Longrightarrow> atom_text v = Some t \<Longrightarrow> atom_text w = Some t \<Longrightarrow> v = w"
  by (cases v; cases w)
     (auto simp: int_text_not_word int_text_not_word [symmetric] float_not_int float_not_int [symmetric]
       dest: float_not_word split: if_splits)

section \<open>Prefix freedom\<close>

definition prefix_free_at :: "json \<Rightarrow> bool" where
  "prefix_free_at v = (\<forall>w r r'. normal_json w \<longrightarrow> render v @ r = render w @ r' \<longrightarrow> delim r \<longrightarrow> delim r'
     \<longrightarrow> v = w \<and> r = r')"

lemma prefix_free_atD:
  "prefix_free_at v \<Longrightarrow> normal_json w \<Longrightarrow> render v @ r = render w @ r' \<Longrightarrow> delim r \<Longrightarrow> delim r' \<Longrightarrow>
     v = w \<and> r = r'"
  by (simp add: prefix_free_at_def)

lemma render_first:
  "normal_json v \<Longrightarrow> \<exists>c t. render v = c # t \<and> c \<notin> {CHR '','', CHR '']'', CHR ''}''}
     \<and> (c = CHR 0x22 \<longleftrightarrow> (\<exists>s. v = JStr s)) \<and> (c = CHR ''['' \<longleftrightarrow> (\<exists>xs. v = JArr xs))
     \<and> (c = CHR ''{'' \<longleftrightarrow> (\<exists>kvs. v = JObj kvs))"
proof (cases "atom_text v")
  case None
  then show ?thesis by (cases v) (auto simp: json_quote_def)
next
  case (Some t)
  assume wf: "normal_json v"
  from Some have "render v = t" by (cases v) auto
  moreover obtain c u where "t = c # u" "plain c"
    using atom_plain [OF wf Some] by (cases t) auto
  ultimately show ?thesis using Some by (cases v) (auto simp: plain_def)
qed

lemma render_quote: "normal_json w \<Longrightarrow> CHR 0x22 # u = render w @ q \<Longrightarrow> \<exists>s. w = JStr s"
  by (drule render_first) (elim exE conjE, simp)

lemma render_bracket: "normal_json w \<Longrightarrow> CHR ''['' # u = render w @ q \<Longrightarrow> \<exists>xs. w = JArr xs"
  by (drule render_first) (elim exE conjE, simp)

lemma render_brace: "normal_json w \<Longrightarrow> CHR ''{'' # u = render w @ q \<Longrightarrow> \<exists>kvs. w = JObj kvs"
  by (drule render_first) (elim exE conjE, simp)

lemma join_Cons: "join s (x # xs) = (if xs = [] then x else x @ s @ join s xs)"
  by (cases xs) auto

text \<open>
  A closing bracket ends a list of renderings: the list and the rest are determined. An undefined
  element has the empty text, so a list of one of them looks like no list at all.
\<close>

lemma render_no_delim:
  assumes "delim p" and "p \<noteq> []" and "normal_json v"
  shows "p \<noteq> render v @ q"
proof -
  obtain d p' where "p = d # p'" "d \<in> {CHR '','', CHR '']'', CHR ''}''}" using assms(1,2) by (cases p) (simp_all add: delim_def)
  moreover obtain c t where "render v = c # t" "c \<notin> {CHR '','', CHR '']'', CHR ''}''}" using render_first [OF assms(3)] by blast
  ultimately show ?thesis by auto
qed

lemma elem_prefix_free:
  assumes "x \<noteq> JUndefined \<Longrightarrow> prefix_free_at x" and "normal_json x" and "normal_json y"
    and "elem_text x @ p = elem_text y @ q" and "delim p" "p \<noteq> []" and "delim q" "q \<noteq> []"
  shows "x = y \<and> p = q"
proof -
  consider (both) "x = JUndefined" "y = JUndefined" | (left) "x = JUndefined" "y \<noteq> JUndefined"
    | (right) "x \<noteq> JUndefined" "y = JUndefined" | (none) "x \<noteq> JUndefined" "y \<noteq> JUndefined" by blast
  then show ?thesis
  proof cases
    case left
    with assms(4) render_no_delim [OF assms(5,6,3), of q] show ?thesis by (simp add: elem_text_def)
  next
    case right
    with assms(4) render_no_delim [OF assms(7,8,2), of p] show ?thesis by (simp add: elem_text_def)
  next
    case none
    with assms(4) have "render x @ p = render y @ q" by (simp add: elem_text_def)
    with prefix_free_atD [OF assms(1) [OF none(1)] assms(3) this assms(5,7)] show ?thesis by blast
  qed (use assms(4) in \<open>simp add: elem_text_def\<close>)
qed

lemma elems_prefix_free:
  assumes "\<And>x. x \<in> set xs \<Longrightarrow> x \<noteq> JUndefined \<Longrightarrow> prefix_free_at x" and "\<And>x. x \<in> set xs \<Longrightarrow> normal_json x"
    and "\<And>y. y \<in> set ys \<Longrightarrow> normal_json y" and "xs \<noteq> []" and "ys \<noteq> []"
    and "join '','' (map elem_text xs) @ '']'' @ r = join '','' (map elem_text ys) @ '']'' @ r'"
  shows "xs = ys \<and> r = r'"
  using assms
proof (induction xs arbitrary: ys)
  case (Cons x xs)
  then obtain y zs where ys: "ys = y # zs" by (cases ys) auto
  define p where "p = (if xs = [] then '']'' @ r else '','' @ join '','' (map elem_text xs) @ '']'' @ r)"
  define q where "q = (if zs = [] then '']'' @ r' else '','' @ join '','' (map elem_text zs) @ '']'' @ r')"
  have "elem_text x @ p = elem_text y @ q"
    using Cons.prems(6) ys by (auto simp: p_def q_def join_Cons split: if_splits)
  moreover have "delim p" "delim q" "p \<noteq> []" "q \<noteq> []" by (auto simp: delim_def p_def q_def)
  ultimately have xy: "x = y" and pq: "p = q"
    using elem_prefix_free [of x y p q] Cons.prems(1-3) ys by auto
  from pq have "(xs = [] \<and> zs = [] \<and> r = r') \<or> (xs \<noteq> [] \<and> zs \<noteq> [] \<and>
      join '','' (map elem_text xs) @ '']'' @ r = join '','' (map elem_text zs) @ '']'' @ r')"
    by (auto simp: p_def q_def split: if_splits)
  with xy ys Cons.IH [of zs] Cons.prems(1-3) show ?case by auto
qed simp

lemma no_elems: "normal_json (JArr ys) \<Longrightarrow> '']'' @ r = join '','' (map elem_text ys) @ '']'' @ r' \<Longrightarrow> ys = []"
proof (cases ys)
  case (Cons y zs)
  assume ys: "normal_json (JArr ys)" and eq: "'']'' @ r = join '','' (map elem_text ys) @ '']'' @ r'"
  show ?thesis
  proof (cases "y = JUndefined")
    case False
    have "normal_json y" using ys Cons by simp
    from render_first [OF this] eq Cons False show ?thesis by (auto simp: join_Cons elem_text_def split: if_splits)
  qed (use ys eq Cons in \<open>auto simp: join_Cons elem_text_def split: if_splits\<close>)
qed simp

lemma arr_prefix_free:
  assumes "\<And>x. x \<in> set xs \<Longrightarrow> x \<noteq> JUndefined \<Longrightarrow> prefix_free_at x" and "normal_json (JArr xs)" and "normal_json (JArr ys)"
    and eq: "join '','' (map elem_text xs) @ '']'' @ r = join '','' (map elem_text ys) @ '']'' @ r'"
  shows "xs = ys \<and> r = r'"
proof (cases "xs = [] \<or> ys = []")
  case True
  then have "xs = [] \<and> ys = []" using no_elems [OF assms(2), of r' r] no_elems [OF assms(3), of r r'] eq by auto
  with eq show ?thesis by simp
next
  case False
  then show ?thesis using elems_prefix_free [of xs ys r r'] assms by (auto simp: list_all_iff)
qed

abbreviation entry_text :: "string \<times> json \<Rightarrow> string" where
  "entry_text e \<equiv> json_quote (fst e) @ '':'' @ render (snd e)"

lemma entry_text_first: "\<exists>t. entry_text e = CHR 0x22 # t"
  by (simp add: json_quote_def)

lemma obj_prefix_free:
  assumes "\<And>e. e \<in> set es \<Longrightarrow> prefix_free_at (snd e)" and "\<And>e. e \<in> set fs \<Longrightarrow> normal_json (snd e)"
    and "join '','' (map entry_text es) @ ''}'' @ r = join '','' (map entry_text fs) @ ''}'' @ r'"
  shows "es = fs \<and> r = r'"
  using assms
proof (induction es arbitrary: fs)
  case Nil
  show ?case
  proof (cases fs)
    case (Cons f gs)
    with Nil(3) show ?thesis by (auto simp: join_Cons json_quote_def split: if_splits)
  qed (use Nil in simp)
next
  case (Cons e es)
  show ?case
  proof (cases fs)
    case Nil
    with Cons.prems(3) show ?thesis by (auto simp: join_Cons json_quote_def split: if_splits)
  next
    case (Cons f gs)
    define p where "p = (if es = [] then ''}'' @ r else '','' @ join '','' (map entry_text es) @ ''}'' @ r)"
    define q where "q = (if gs = [] then ''}'' @ r' else '','' @ join '','' (map entry_text gs) @ ''}'' @ r')"
    have "json_quote (fst e) @ ('':'' @ render (snd e) @ p) = json_quote (fst f) @ ('':'' @ render (snd f) @ q)"
      using Cons.prems(3) Cons by (auto simp: p_def q_def join_Cons split: if_splits)
    from json_quote_prefix_free [OF this]
    have key: "fst e = fst f" and val: "render (snd e) @ p = render (snd f) @ q" by auto
    moreover have "delim p" "delim q" by (auto simp: delim_def p_def q_def)
    moreover have "prefix_free_at (snd e)" "normal_json (snd f)" using Cons.prems Cons by auto
    ultimately have "snd e = snd f \<and> p = q" by (blast dest: prefix_free_atD)
    with key have "e = f" and pq: "p = q" by (auto simp: prod_eq_iff)
    from pq have "(es = [] \<and> gs = [] \<and> r = r') \<or> (es \<noteq> [] \<and> gs \<noteq> [] \<and>
        join '','' (map entry_text es) @ ''}'' @ r = join '','' (map entry_text gs) @ ''}'' @ r')"
      by (auto simp: p_def q_def split: if_splits)
    with \<open>e = f\<close> Cons Cons.IH [of gs] Cons.prems show ?thesis by auto
  qed
qed

lemma wf_json_elems: "wf_json (JArr xs) \<longleftrightarrow> (\<forall>x \<in> set xs. wf_json x)"
  by (simp add: list_all_iff)

lemma wf_json_entries: "wf_json (JObj kvs) \<longleftrightarrow> (\<forall>e \<in> set kvs. wf_json (snd e))"
  by (simp add: list_all_iff map_prod_def split_def)

lemma normal_json_elems: "normal_json (JArr xs) \<longleftrightarrow> xs \<noteq> [JUndefined] \<and> (\<forall>x \<in> set xs. normal_json x)"
  by (simp add: list_all_iff)

lemma normal_json_entries: "normal_json (JObj kvs) \<longleftrightarrow> (\<forall>e \<in> set kvs. normal_json (snd e))"
  by (simp add: list_all_iff map_prod_def split_def)

lemma render_obj: "render (JObj kvs) = ''{'' @ join '','' (map entry_text kvs) @ ''}''"
  by (simp add: comp_def split_def map_prod_def)

lemma atom_prefix_free:
  assumes "normal_json v" and "atom_text v = Some t"
  shows "prefix_free_at v"
  unfolding prefix_free_at_def
proof (intro allI impI)
  fix w r r'
  assume wf: "normal_json w" and eq: "render v @ r = render w @ r'" and d: "delim r" "delim r'"
  from assms(2) have v: "render v = t" "v \<noteq> JStr s" "v \<noteq> JArr xs" "v \<noteq> JObj kvs" for s xs kvs
    by (cases v; simp)+
  obtain t' where w: "atom_text w = Some t'"
  proof (cases "atom_text w")
    case None
    obtain c u where "t = c # u" "plain c" using atom_plain [OF assms] by (cases t) auto
    with None eq v render_first [OF wf] show thesis
      by (cases w) (auto simp: plain_def json_quote_def)
  qed
  then have rw: "render w = t'" by (cases w) auto
  from token_prefix [of t r t' r'] eq v rw atom_plain [OF assms] atom_plain [OF wf w] d
  have "t = t' \<and> r = r'" by simp
  with atom_text_inject [OF assms(1) wf assms(2)] w show "v = w \<and> r = r'" by simp
qed

lemma str_prefix_free: "prefix_free_at (JStr s)"
  unfolding prefix_free_at_def
proof (intro allI impI)
  fix w r r'
  assume "normal_json w" and eq: "render (JStr s) @ r = render w @ r'"
  have "CHR 0x22 # (concat (map escape_char s) @ [CHR 0x22]) @ r = render w @ r'"
    using eq by (simp only: render.simps json_quote_def append_Cons)
  from render_quote [OF \<open>normal_json w\<close> this] obtain s' where w: "w = JStr s'" by blast
  with eq have "json_quote s @ r = json_quote s' @ r'" by (simp only: render.simps)
  from json_quote_prefix_free [OF this] w show "JStr s = w \<and> r = r'" by simp
qed

lemma render_prefix_free: "normal_json v \<Longrightarrow> prefix_free_at v"
proof (induction v)
  case (JArr xs)
  show ?case unfolding prefix_free_at_def
  proof (intro allI impI)
    fix w r r'
    assume wf: "normal_json w" and eq: "render (JArr xs) @ r = render w @ r'"
    from eq obtain ys where w: "w = JArr ys"
      using render_bracket [OF wf] unfolding render.simps append_Cons by blast
    from eq w have "join '','' (map elem_text xs) @ '']'' @ r = join '','' (map elem_text ys) @ '']'' @ r'"
      by (simp only: render_arr) simp
    moreover have "prefix_free_at x" if "x \<in> set xs" for x
      using JArr.IH [OF that] JArr.prems that by (simp only: normal_json_elems)
    ultimately show "JArr xs = w \<and> r = r'"
      using arr_prefix_free [of xs ys r r'] JArr.prems wf w by blast
  qed
next
  case (JObj kvs)
  have IH: "prefix_free_at (snd e)" if e: "e \<in> set kvs" for e
  proof (rule JObj.IH [OF e])
    show "snd e \<in> Basic_BNFs.snds e" by (cases e) (simp add: snds_in)
    show "normal_json (snd e)" using JObj.prems e by (simp only: normal_json_entries)
  qed
  show ?case unfolding prefix_free_at_def
  proof (intro allI impI)
    fix w r r'
    assume wf: "normal_json w" and eq: "render (JObj kvs) @ r = render w @ r'"
    from eq obtain es where w: "w = JObj es"
      using render_brace [OF wf] unfolding render.simps append_Cons by blast
    from eq w have "join '','' (map entry_text kvs) @ ''}'' @ r = join '','' (map entry_text es) @ ''}'' @ r'"
      by (simp only: render_obj) simp
    moreover have "\<And>e. e \<in> set es \<Longrightarrow> normal_json (snd e)"
      using wf w by (simp only: normal_json_entries)
    ultimately show "JObj kvs = w \<and> r = r'"
      using obj_prefix_free [of kvs es r r'] IH w by simp
  qed
qed (rule str_prefix_free | rule atom_prefix_free, simp, simp)+

section \<open>The canonical text and the normal form\<close>

lemma set_insort_map: "set (sort_key f xs) = set xs"
  by simp

lemma normal_jnorm: "wf_json v \<Longrightarrow> normal_json (jnorm v)"
proof (induction v)
  case (JArr xs)
  have "map jnorm xs \<noteq> [JUndefined]" if "xs \<noteq> [JUndefined]" using that by (auto simp: jnorm_undefined)
  with JArr show ?case by (simp add: list_all_iff)
next
  case (JObj kvs)
  have "normal_json (jnorm (snd e))" if e: "e \<in> set kvs" for e
  proof (rule JObj.IH [OF e])
    show "snd e \<in> Basic_BNFs.snds e" by (cases e) (simp add: snds_in)
    show "wf_json (snd e)" using JObj.prems e by (simp only: wf_json_entries)
  qed
  then show ?case unfolding jnorm.simps normal_json_entries by (auto simp: map_prod_def)
qed simp_all

lemma canonicalize_eq_iff:
  assumes "wf_json v" and "wf_json w"
  shows "canonicalize v = canonicalize w \<longleftrightarrow> jnorm v = jnorm w"
proof
  assume "canonicalize v = canonicalize w"
  then have "render (jnorm v) @ [] = render (jnorm w) @ []" by (simp add: canonicalize_render)
  then show "jnorm v = jnorm w"
    using prefix_free_atD [OF render_prefix_free [OF normal_jnorm [OF assms(1)]]
        normal_jnorm [OF assms(2)]] unfolding delim_def by blast
qed (simp add: canonicalize_render)

lemma jnorm_perm:
  assumes "distinct (map fst kvs)" and "mset kvs = mset kvs'"
  shows "jnorm (JObj kvs) = jnorm (JObj kvs')"
proof -
  let ?g = "map (map_prod id jnorm)"
  have "mset (?g kvs) = mset (?g kvs')" using assms(2) by simp
  moreover have "inj_on fst (set (?g kvs))"
    using assms(1) by (auto simp: distinct_map inj_on_def)
  ultimately have "sort_key fst (?g kvs) = sort_key fst (?g kvs')"
    by (intro sort_key_inj_key_eq) simp_all
  then show ?thesis by simp
qed

end
