(* ===== verification/CpProperties.thy ===== *)
theory CpProperties
  imports CpFacts Canonical
begin

text \<open>
  The properties of the in-memory control plane, each with a witness on the run of \<open>CpDemo\<close>.
\<close>

section \<open>Ledgers and reconciliation\<close>

lemma reconcile_matches:
  assumes "reconcile h pid s = (Inr rec, t)" and "plane_ok s"
  shows "rec_matched rec" and "rec_confidentialAssetUnits rec = rec_legalRegisterUnits rec"
    and "rec_cashConfirmedCount rec = rec_cashExpectedCount rec"
proof -
  have conf: "cash_confirmed s tr" if "tr \<in> set (settled_for s pid)" for tr
  proof -
    from that have "tr \<in> set (jm_values (transactions s))" by (auto simp: settled_for_def)
    with plane_okD(4) [OF assms(2)] obtain k where "jm_get (transactions s) k = Some tr"
      unfolding txs_ok_def by (blast elim: jm_value_in_get)
    with plane_okD(4) [OF assms(2)] that have "tx_ok s k tr" "tx_state tr = ''SETTLED''"
      by (auto simp: txs_ok_def settled_for_def)
    then show ?thesis by (auto simp: tx_ok_def cash_confirmed_def)
  qed
  then have f: "filter (cash_confirmed s) (settled_for s pid) = settled_for s pid"
    by (simp add: filter_id_conv)
  show "rec_matched rec" "rec_confidentialAssetUnits rec = rec_legalRegisterUnits rec"
    "rec_cashConfirmedCount rec = rec_cashExpectedCount rec"
    using assms(1) ledgers_okD(3) [OF plane_okD(2) [OF assms(2)]]
    by (auto simp: reconcile_def eff_simps get_product_def Let_def f)
qed

text \<open>
  C1. In every reachable state, whatever product is reconciled, the asset ledger and the legal
  register agree, every settled transaction has its cash confirmed, and \<open>reconcile\<close> reports a match;
  the overall status is never \<open>RECONCILIATION_EXCEPTION\<close>.
\<close>

theorem reachable_reconciles:
  assumes "reachable h s" and "reconcile h pid s = (Inr rec, t)"
  shows "rec_matched rec \<and> rec_confidentialAssetUnits rec = rec_legalRegisterUnits rec
    \<and> rec_cashConfirmedCount rec = rec_cashExpectedCount rec
    \<and> rec_overallStatus rec = (if rec_openExceptionCount rec = 0 then ''SANDBOX_CONTROLLED'' else ''ATTENTION_REQUIRED'')"
proof -
  note m = reconcile_matches [OF assms(2) cp.always [OF assms(1)]]
  have "rec_overallStatus rec = (if \<not> rec_matched rec then ''RECONCILIATION_EXCEPTION''
      else if 0 < rec_openExceptionCount rec then ''ATTENTION_REQUIRED'' else ''SANDBOX_CONTROLLED'')"
    using assms(2) by (auto simp: reconcile_def eff_simps get_product_def Let_def)
  with m show ?thesis by simp
qed

lemma demo9_reconciles: "\<exists>rec t. reconcile demo_host ''p'' demo9 = (Inr rec, t)"
  by (simp add: reconcile_def run_defs get_product_def Let_def body_eqD [OF demo9_body])

theorem reachable_reconciles_witness:
  "\<exists>rec t. reconcile demo_host ''p'' demo9 = (Inr rec, t) \<and> rec_matched rec"
  using demo9_reconciles reachable_reconciles [OF demo9_reachable] by blast

text \<open>
  C2. In every reachable state the asset ledger and the legal register are the same map, and no
  balance of cash or units is negative.
\<close>

theorem reachable_ledgers:
  assumes "reachable h s"
  shows "assetBalances s = legalRegister s
    \<and> (\<forall>k. 0 \<le> jm_get0 (cashBalances s) k) \<and> (\<forall>k. 0 \<le> jm_get0 (assetBalances s) k)"
proof -
  note led = plane_okD(2) [OF cp.always [OF assms]]
  show ?thesis by (intro conjI allI ledgers_okD(3) [OF led] cash_nonneg [OF led] assets_nonneg [OF led])
qed

theorem reachable_ledgers_witness: "0 \<le> jm_get0 (cashBalances demo9) ''a:HKD''"
  using reachable_ledgers [OF demo9_reachable] by blast

text \<open>
  C3. \<open>subscribe\<close>, \<open>transfer\<close>, \<open>redeem\<close>, \<open>simulateRegisterFailure\<close> and the approval of an exception
  conserve the cash of the sandbox: whether they settle, replay or fail, the sum of all cash
  balances is what it was.
\<close>

theorem settlement_conserves_cash:
  assumes "reachable h s"
    and "subscribe h sr s = (x, t) \<or> transfer h tr s = (x, t) \<or> redeem h rr s = (x, t)
      \<or> simulateRegisterFailure h tr s = (x, t) \<or> approveExceptionResolution h cid ck s = (y, t)"
  shows "cash_total t = cash_total s"
  using assms(2)
proof (elim disjE)
  note ok = cp.always [OF assms(1)]
  show "subscribe h sr s = (x, t) \<Longrightarrow> cash_total t = cash_total s"
    by (rule idem_outcome_total [OF subscribe_outcome [OF plane_okD(1,2) [OF ok]]]) (auto dest: spec_cash)
  show "transfer h tr s = (x, t) \<Longrightarrow> cash_total t = cash_total s"
    by (rule idem_outcome_total [OF transfer_outcome [OF plane_okD(2) [OF ok]]]) (auto dest: spec_cash)
  show "redeem h rr s = (x, t) \<Longrightarrow> cash_total t = cash_total s"
    by (rule idem_outcome_total [OF redeem_outcome [OF plane_okD(1,2) [OF ok]]]) (auto dest: spec_cash)
  show "simulateRegisterFailure h tr s = (x, t) \<Longrightarrow> cash_total t = cash_total s"
    by (rule idem_outcome_total [OF register_failure_outcome]) (auto dest: spec_cash)
  show "approveExceptionResolution h cid ck s = (y, t) \<Longrightarrow> cash_total t = cash_total s"
    using approve_cash [OF yieldsD [OF approve_yields]] ok by fastforce
qed

theorem settlement_conserves_cash_witness: "cash_total demo9 = cash_total demo8"
  using settlement_conserves_cash [OF demo8_reachable] demo9_run by blast

section \<open>The settlement handlers implement their specifications\<close>

text \<open>
  C4. From a reachable state \<open>subscribe\<close> does one of three things: it fails and changes nothing but
  the clock and the log; it returns the receipt stored under the idempotency key for this very
  request; or it settles as specified (active product, eligible investor, paid amount equal to
  units times the NAV in force, cash and both registers moved) and stores the receipt.
\<close>

theorem subscribe_refines:
  assumes "reachable h s" and "subscribe h r s = (x, t)"
  shows "idem_outcome h (sr_idempotencyKey r) (subscribe_json r) (subscribe_spec h r) s x t"
  using subscribe_outcome plane_okD(1,2) cp.always assms by blast

theorem subscribe_refines_witness:
  "idem_outcome demo_host ''k1'' (subscribe_json demo_subscribe) (subscribe_spec demo_host demo_subscribe)
     demo8 (Inr demo9_receipt) demo9"
  using subscribe_refines [OF demo8_reachable demo9_run] by (simp add: demo_subscribe_def)

text \<open>
  C5. The same for \<open>transfer\<close>: a settled transfer has passed the checks of both parties, the price
  band and the buyer's cash, and moves cash, fee and units exactly.
\<close>

theorem transfer_refines:
  assumes "reachable h s" and "transfer h r s = (x, t)"
  shows "idem_outcome h (tr_idempotencyKey r) (transfer_json r) (transfer_spec h r) s x t"
  using transfer_outcome plane_okD(2) cp.always assms by blast

theorem transfer_refines_witness:
  "\<exists>rc t. transfer demo_host (demo_transfer ''t1'') demo9 = (Inr rc, t)
     \<and> idem_outcome demo_host ''kt1'' (transfer_json (demo_transfer ''t1''))
         (transfer_spec demo_host (demo_transfer ''t1'')) demo9 (Inr rc) t"
proof -
  obtain rc t where r: "transfer demo_host (demo_transfer ''t1'') demo9 = (Inr rc, t)"
    using demo_transfer_run by blast
  then show ?thesis using transfer_refines [OF demo9_reachable r] by (auto simp: demo_transfer_def)
qed

text \<open>
  The same for \<open>redeem\<close>: the units leave both registers and the issuer pays units times NAV.
\<close>

theorem redeem_refines:
  assumes "reachable h s" and "redeem h r s = (x, t)"
  shows "idem_outcome h (rr_idempotencyKey r) (redeem_json r) (redeem_spec h r) s x t"
  using redeem_outcome plane_okD(1,2) cp.always assms by blast

theorem redeem_refines_witness:
  "\<exists>rc t. redeem demo_host demo_redeem demo13 = (Inr rc, t)
     \<and> idem_outcome demo_host ''kr1'' (redeem_json demo_redeem) (redeem_spec demo_host demo_redeem) demo13 (Inr rc) t"
proof -
  obtain rc t where r: "redeem demo_host demo_redeem demo13 = (Inr rc, t)"
    using demo_redeem_run by blast
  then show ?thesis using redeem_refines [OF demo13_reachable r] by (auto simp: demo_redeem_def)
qed


section \<open>Idempotency and atomicity\<close>

text \<open>
  Once \<open>transfer\<close> has returned a receipt, the same request returns that receipt again in every
  later state, and changes nothing.
\<close>

theorem transfer_replays:
  assumes "reachable h s" and "transfer h r s = (Inr rc, t)" and "(cp_step h)\<^sup>*\<^sup>* t u"
  shows "transfer h r u = (Inr rc, u)"
proof -
  from assms(2) have k: "tr_idempotencyKey r \<noteq> []"
    "jm_get (idempotency t) (tr_idempotencyKey r) = Some (h_sha256 h (canonicalize (transfer_json r)), rc)"
    using idempotent_stores unfolding transfer_def by blast+
  have "plane_ok t" by (rule transfer_ok [OF cp.always [OF assms(1)] assms(2)])
  with steps_keep [OF assms(3)] k(2)
  have "jm_get (idempotency u) (tr_idempotencyKey r) = Some (h_sha256 h (canonicalize (transfer_json r)), rc)"
    unfolding keeps_receipts_def by blast
  then show ?thesis unfolding transfer_def by (rule idempotent_replay [OF k(1)])
qed

theorem transfer_replays_witness:
  "\<exists>rc t. transfer demo_host (demo_transfer ''t1'') demo9 = (Inr rc, t)
     \<and> transfer demo_host (demo_transfer ''t1'') t = (Inr rc, t)"
  using demo_transfer_run transfer_replays [OF demo9_reachable] by blast

text \<open>
  C8. A key that was used for a request with another fingerprint is refused with
  \<open>IDEMPOTENCY_CONFLICT\<close>, whatever the operation, and nothing changes.
\<close>

theorem reused_key_conflicts:
  assumes "jm_get (idempotency s) key = Some (fp, rc)" and "key \<noteq> []"
  shows "(sr_idempotencyKey r1 = key \<and> fp \<noteq> h_sha256 h (canonicalize (subscribe_json r1)) \<longrightarrow>
       subscribe h r1 s = (Inl (Coded ''IDEMPOTENCY_CONFLICT''), s))
    \<and> (tr_idempotencyKey r2 = key \<and> fp \<noteq> h_sha256 h (canonicalize (transfer_json r2)) \<longrightarrow>
       transfer h r2 s = (Inl (Coded ''IDEMPOTENCY_CONFLICT''), s)
       \<and> simulateRegisterFailure h r2 s = (Inl (Coded ''IDEMPOTENCY_CONFLICT''), s))
    \<and> (rr_idempotencyKey r3 = key \<and> fp \<noteq> h_sha256 h (canonicalize (redeem_json r3)) \<longrightarrow>
       redeem h r3 s = (Inl (Coded ''IDEMPOTENCY_CONFLICT''), s))"
  unfolding subscribe_def transfer_def redeem_def simulateRegisterFailure_def
  using idempotent_conflict assms by blast

theorem reused_key_conflicts_witness:
  "transfer (demo_host\<lparr>h_sha256 := \<lambda>s. ''other''\<rparr>) ((demo_transfer ''t1'')\<lparr>tr_idempotencyKey := ''k1''\<rparr>) demo9
     = (Inl (Coded ''IDEMPOTENCY_CONFLICT''), demo9)"
proof -
  have "jm_get (idempotency demo9) ''k1'' = Some (''h'', demo9_receipt)"
    by (simp add: body_eqD [OF demo9_body])
  from reused_key_conflicts [OF this] show ?thesis by simp
qed

lemma idem_failed: "idem_outcome h key req S s (Inl e) t \<Longrightarrow> body t = body s"
  by (auto simp: idem_outcome_def Let_def)

lemma changes_failed: "yields m (body s) (changes S (body s)) \<Longrightarrow> m s = (Inl e, t) \<Longrightarrow> body t = body s"
  using yieldsD by fastforce

lemma quiet_failed: "preserves quiet m \<Longrightarrow> m s = (Inl e, t) \<Longrightarrow> body t = body s"
  using quiet_body [OF quiet_after] .

lemma settlement_failed:
  assumes ok: "plane_ok s"
  shows "subscribe h sr s = (Inl e, t) \<Longrightarrow> body t = body s" and "transfer h tr s = (Inl e, t) \<Longrightarrow> body t = body s"
    and "redeem h rr s = (Inl e, t) \<Longrightarrow> body t = body s" and "simulateRegisterFailure h tr s = (Inl e, t) \<Longrightarrow> body t = body s"
    and "proposeExceptionResolution h pq s = (Inl e, t) \<Longrightarrow> body t = body s"
proof -
  show "subscribe h sr s = (Inl e, t) \<Longrightarrow> body t = body s"
    by (rule idem_failed [OF subscribe_outcome [OF plane_okD(1,2) [OF ok]]])
  show "transfer h tr s = (Inl e, t) \<Longrightarrow> body t = body s"
    by (rule idem_failed [OF transfer_outcome [OF plane_okD(2) [OF ok]]])
  show "redeem h rr s = (Inl e, t) \<Longrightarrow> body t = body s"
    by (rule idem_failed [OF redeem_outcome [OF plane_okD(1,2) [OF ok]]])
  show "simulateRegisterFailure h tr s = (Inl e, t) \<Longrightarrow> body t = body s"
    by (rule idem_failed [OF register_failure_outcome])
  show "proposeExceptionResolution h pq s = (Inl e, t) \<Longrightarrow> body t = body s"
    using yieldsD [OF propose_yields, of s h pq] ok by (auto simp: propose_outcome_def)
qed

lemma approve_failed:
  assumes "approve_outcome h cid ck (Inl e) (body s) (body t)"
  shows "body t = body s
      \<or> (\<exists>ec pr tx a1 a2. jm_get (exceptionCases s) cid = Some ec \<and> ec_status ec = ''PENDING_APPROVAL''
           \<and> ec_proposal ec = Some pr \<and> pr_decision pr \<noteq> ''CANCEL'' \<and> ck \<noteq> [] \<and> ck \<noteq> pr_makerId pr
           \<and> jm_get (transactions s) (ec_transactionId ec) = Some tx
           \<and> body t = (body s)\<lparr>
               exceptionCases := jm_set cid (ec\<lparr>ec_status := ''OPEN'', ec_proposal := None\<rparr>) (exceptionCases s),
               transactions := jm_set (ec_transactionId ec) (tx\<lparr>tx_state := ''REQUIRES_REVIEW'',
                 tx_lifecycle := tx_lifecycle tx @ [(''REVIEW_APPROVED'', a1), (''RETRY_BLOCKED'', a2)]\<rparr>) (transactions s)\<rparr>)"
proof (cases "body t = body s")
  case False
  then obtain ec pr tx at where d: "jm_get (exceptionCases s) cid = Some ec" "ec_status ec = ''PENDING_APPROVAL''"
      "ec_proposal ec = Some pr" "pr_decision pr \<noteq> ''CANCEL''" "ck \<noteq> []" "ck \<noteq> pr_makerId pr"
      "jm_get (transactions s) (ec_transactionId ec) = Some tx"
    and r: "reopens cid ec (reviewed tx at) (with_tx (ec_transactionId ec) (reviewed tx at) (body s)) (body t)"
    using assms unfolding approve_outcome_def Let_def by auto
  then obtain a where "body t = (body s)\<lparr>
               exceptionCases := jm_set cid (ec\<lparr>ec_status := ''OPEN'', ec_proposal := None\<rparr>) (exceptionCases s),
               transactions := jm_set (ec_transactionId ec) (tx\<lparr>tx_state := ''REQUIRES_REVIEW'',
                 tx_lifecycle := tx_lifecycle tx @ [(''REVIEW_APPROVED'', at), (''RETRY_BLOCKED'', a)]\<rparr>) (transactions s)\<rparr>"
    unfolding reopens_def reviewed_def with_tx_def by auto
  with d show ?thesis by blast
qed blast

text \<open>
  C9. Failure is atomic. When a public operation other than the approval of an exception throws, in
  a reachable state, every map of the state is as before: only the clock, the random source and the event log moved.
  The approval is the exception: it throws without a change when it refuses, but when the retry of
  the transfer throws it passes the error on and has put the case back to \<open>OPEN\<close> without its proposal, and
  the transaction back to review with the two steps in its history, and changed nothing else.
\<close>

theorem failure_is_atomic:
  assumes "reachable h s"
  shows "(registerInstitution h i roles pem s = (Inl e, t) \<or> createProduct h pid name jur iss ra rules s = (Inl e, t)
      \<or> activateProduct h pid s = (Inl e, t) \<or> pauseProduct h pid reason s = (Inl e, t)
      \<or> registerCredential h c s = (Inl e, t) \<or> revokeCredential h cr reason s = (Inl e, t)
      \<or> submitEvidence h ev s = (Inl e, t) \<or> creditSandboxCash h account currency amount s = (Inl e, t)
      \<or> subscribe h sr s = (Inl e, t) \<or> transfer h tr s = (Inl e, t) \<or> redeem h rr s = (Inl e, t)
      \<or> simulateRegisterFailure h tr s = (Inl e, t) \<or> proposeExceptionResolution h pq s = (Inl e, t)
      \<or> reconcile h pid s = (Inl e, t) \<or> transactionEvidencePackage h i s = (Inl e, t)
      \<or> viewForRole h role vp actor s = (Inl e, t)
      \<longrightarrow> body t = body s)
    \<and> (approveExceptionResolution h cid ck s = (Inl e, t) \<longrightarrow> body t = body s
      \<or> (\<exists>ec pr tx a1 a2. jm_get (exceptionCases s) cid = Some ec \<and> ec_status ec = ''PENDING_APPROVAL''
           \<and> ec_proposal ec = Some pr \<and> pr_decision pr \<noteq> ''CANCEL'' \<and> ck \<noteq> [] \<and> ck \<noteq> pr_makerId pr
           \<and> jm_get (transactions s) (ec_transactionId ec) = Some tx
           \<and> body t = (body s)\<lparr>
               exceptionCases := jm_set cid (ec\<lparr>ec_status := ''OPEN'', ec_proposal := None\<rparr>) (exceptionCases s),
               transactions := jm_set (ec_transactionId ec) (tx\<lparr>tx_state := ''REQUIRES_REVIEW'',
                 tx_lifecycle := tx_lifecycle tx @ [(''REVIEW_APPROVED'', a1), (''RETRY_BLOCKED'', a2)]\<rparr>) (transactions s)\<rparr>))"
proof -
  note ok = cp.always [OF assms]
  have "approveExceptionResolution h cid ck s = (Inl e, t) \<Longrightarrow> body t = body s
      \<or> (\<exists>ec pr tx a1 a2. jm_get (exceptionCases s) cid = Some ec \<and> ec_status ec = ''PENDING_APPROVAL''
           \<and> ec_proposal ec = Some pr \<and> pr_decision pr \<noteq> ''CANCEL'' \<and> ck \<noteq> [] \<and> ck \<noteq> pr_makerId pr
           \<and> jm_get (transactions s) (ec_transactionId ec) = Some tx
           \<and> body t = (body s)\<lparr>
               exceptionCases := jm_set cid (ec\<lparr>ec_status := ''OPEN'', ec_proposal := None\<rparr>) (exceptionCases s),
               transactions := jm_set (ec_transactionId ec) (tx\<lparr>tx_state := ''REQUIRES_REVIEW'',
                 tx_lifecycle := tx_lifecycle tx @ [(''REVIEW_APPROVED'', a1), (''RETRY_BLOCKED'', a2)]\<rparr>) (transactions s)\<rparr>)"
    using approve_failed yieldsD [OF approve_yields, of s h cid ck] ok by simp
  moreover have "body t = body s" if "subscribe h sr s = (Inl e, t) \<or> transfer h tr s = (Inl e, t) \<or> redeem h rr s = (Inl e, t)
      \<or> simulateRegisterFailure h tr s = (Inl e, t) \<or> proposeExceptionResolution h pq s = (Inl e, t)"
    using that settlement_failed [OF ok] by blast
  ultimately show ?thesis
    using changes_failed [OF registerInstitution_yields, of h i roles pem s e t] changes_failed [OF createProduct_yields, of h pid name jur iss ra rules s e t]
      changes_failed [OF activateProduct_yields, of h pid s e t] changes_failed [OF pauseProduct_yields, of h pid reason s e t]
      changes_failed [OF registerCredential_yields, of h c s e t] changes_failed [OF revokeCredential_yields, of h cr reason s e t]
      changes_failed [OF submitEvidence_yields, of h ev s e t] changes_failed [OF creditSandboxCash_yields, of h account currency amount s e t]
      quiet_failed [OF reconcile_quiet, of h pid s e t] quiet_failed [OF transactionEvidencePackage_quiet, of h i s e t]
      quiet_failed [OF viewForRole_quiet, of h role vp actor s e t] by blast
qed

lemma demo_duplicate_credential:
  "\<exists>t. registerCredential demo_host (demo_credential ''ca'' ''a'') demo9
     = (Inl (Coded ''DUPLICATE_CREDENTIAL''), t)"
  by (simp add: setup_defs run_defs body_eqD [OF demo9_body] demo_defs del: canonicalize.simps)

theorem failure_is_atomic_witness:
  "\<exists>t. registerCredential demo_host (demo_credential ''ca'' ''a'') demo9
     = (Inl (Coded ''DUPLICATE_CREDENTIAL''), t) \<and> body t = body demo9"
proof -
  obtain t where t: "registerCredential demo_host (demo_credential ''ca'' ''a'') demo9 = (Inl (Coded ''DUPLICATE_CREDENTIAL''), t)"
    using demo_duplicate_credential by blast
  have "body t = body demo9"
    by (rule mp [OF conjunct1 [OF failure_is_atomic [OF demo9_reachable]]])
      (rule disjI2, rule disjI2, rule disjI2, rule disjI2, rule disjI1, rule t)
  with t show ?thesis by blast
qed

section \<open>Eligibility\<close>

definition within_limit :: "host \<Rightarrow> plane \<Rightarrow> plane \<Rightarrow> string \<Rightarrow> string \<Rightarrow> string \<Rightarrow> bool" where
  "within_limit h s t investor cid pid =
     (\<exists>c m. jm_get (credentials s) cid = Some c \<and> to_bigint (cred_maxUnits c) = Inr m
        \<and> cred_productId c = pid \<and> cred_subjectId c = investor
        \<and> statement_verified h s (cred_issuerId c) (unsigned_credential c) (cred_signature c)
        \<and> \<not> jm_has (credentialRestrictions s) cid
        \<and> (\<exists>k. date_le (h_date h (cred_validFrom c)) (Some (h_now h k))
               \<and> date_gt (h_date h (cred_validUntil c)) (Some (h_now h k)))
        \<and> assetOf (assetBalances t) investor pid \<le> m)"

lemma eligible_within_limit:
  assumes "plane_ok s" and "eligible h s product investor cid n c" and "prod_id product = pid"
    and "assetOf (assetBalances t) investor pid = assetOf (assetBalances s) investor pid + n"
  shows "within_limit h s t investor cid pid"
proof -
  have "\<not> jm_has (credentialRestrictions s) cid"
    using restricted_not_eligible [OF assms(1)] assms(2) unfolding jm_has_def by blast
  with assms show ?thesis unfolding within_limit_def eligible_def by auto
qed

lemma settles_assets: "settles h d cash assets reg rc B B' \<Longrightarrow> assetBalances B' = assets"
  unfolding settles_def Let_def by auto

lemma assets_of_body:
  assumes "body t = B\<lparr>idempotency := i\<rparr>"
  shows "assetBalances t = assetBalances B"
  using arg_cong [OF assms, of assetBalances] by simp

lemma idem_new:
  assumes "idem_outcome h key req S s (Inr rc) t" and "jm_get (idempotency s) key = None"
  obtains B where "S rc (body s) B" and "assetBalances t = assetBalances B"
proof -
  from assms obtain B where "S rc (body s) B" and
    "body t = B\<lparr>idempotency := jm_set key (h_sha256 h (canonicalize req), rc) (idempotency B)\<rparr>"
    unfolding idem_outcome_def Let_def by auto
  then show thesis by (blast intro: that assets_of_body)
qed

lemma subscribe_spec_limit:
  assumes "plane_ok s" and "products_filed s" and "subscribe_spec h r rc (body s) B"
    and "assetBalances t = assetBalances B"
  shows "within_limit h s t (sr_investorId r) (sr_credentialId r) (sr_productId r)"
proof -
  from assms(3) obtain product u a nav cash reg c where
    p: "active_product (body s) (sr_productId r) product" and
    e: "eligible h (body s) product (sr_investorId r) (sr_credentialId r) u c" and
    st: "settles h (subscribe_data h r product nav u a) cash
      (move (colon (sr_investorId r) (sr_productId r)) u (assetBalances (body s))) reg rc (body s) B"
    unfolding subscribe_spec_def by blast
  have "prod_id product = sr_productId r" using p assms(2) by (auto simp: active_product_def products_filed_def)
  then show ?thesis using e
    by (intro eligible_within_limit [OF assms(1), of _ product _ _ u c])
       (simp_all add: assms(4) settles_assets [OF st] assetOf_def jm_get0_move)
qed

lemma transfer_spec_limit:
  assumes "plane_ok s" and "products_filed s" and "transfer_spec h r rc (body s) B"
    and "assetBalances t = assetBalances B"
  shows "within_limit h s t (tr_buyerId r) (tr_buyerCredentialId r) (tr_productId r)"
proof -
  from assms(3) obtain tp cash reg where terms: "transfer_terms h r tp (body s)" and
    st: "settles h (transfer_data h r tp ''STANDARD'') cash
      (move (colon (tr_buyerId r) (tr_productId r)) (tp_units tp)
        (move (colon (tr_sellerId r) (tr_productId r)) (- tp_units tp) (assetBalances (body s)))) reg rc (body s) B"
    unfolding transfer_spec_def by blast
  from terms obtain c where p: "active_product (body s) (tr_productId r) (tp_product tp)" and
    ne: "tr_sellerId r \<noteq> tr_buyerId r" and
    e: "eligible h (body s) (tp_product tp) (tr_buyerId r) (tr_buyerCredentialId r) (tp_units tp) c"
    unfolding transfer_terms_def by blast
  have "prod_id (tp_product tp) = tr_productId r"
    using p assms(2) by (auto simp: active_product_def products_filed_def)
  then show ?thesis using e ne
    by (intro eligible_within_limit [OF assms(1), of _ "tp_product tp" _ _ "tp_units tp" c])
       (auto simp: assms(4) settles_assets [OF st] assetOf_def jm_get0_move)
qed

text \<open>
  C10. When \<open>subscribe\<close> or \<open>transfer\<close> settles a new request, the units the buyer then holds are at
  most the limit of the credential it used, which was signed by its issuer under a registered key,
  names this investor and product, was in force at a clock reading, and was not restricted.
\<close>

theorem settled_within_limit:
  assumes "reachable h s"
  shows "(subscribe h r1 s = (Inr rc, t) \<and> jm_get (idempotency s) (sr_idempotencyKey r1) = None \<longrightarrow>
       within_limit h s t (sr_investorId r1) (sr_credentialId r1) (sr_productId r1))
    \<and> (transfer h r2 s = (Inr rc, t) \<and> jm_get (idempotency s) (tr_idempotencyKey r2) = None \<longrightarrow>
       within_limit h s t (tr_buyerId r2) (tr_buyerCredentialId r2) (tr_productId r2))"
proof (intro conjI impI; elim conjE)
  note ok = filed.always [OF assms]
  show "within_limit h s t (sr_investorId r1) (sr_credentialId r1) (sr_productId r1)"
    if "subscribe h r1 s = (Inr rc, t)" "jm_get (idempotency s) (sr_idempotencyKey r1) = None"
    using idem_new [OF subscribe_outcome [OF _ _ that(1)] that(2)] ok subscribe_spec_limit plane_okD(1,2)
    by metis
  show "within_limit h s t (tr_buyerId r2) (tr_buyerCredentialId r2) (tr_productId r2)"
    if "transfer h r2 s = (Inr rc, t)" "jm_get (idempotency s) (tr_idempotencyKey r2) = None"
    using idem_new [OF transfer_outcome [OF _ that(1)] that(2)] ok transfer_spec_limit plane_okD(2)
    by metis
qed

theorem settled_within_limit_witness: "within_limit demo_host demo8 demo9 ''a'' ''ca'' ''p''"
proof -
  have "jm_get (idempotency demo8) ''k1'' = None" by (simp add: body_eqD [OF demo8_body] new_plane_def)
  then show ?thesis using settled_within_limit [OF demo8_reachable, of demo_subscribe demo9_receipt demo9] demo9_run
    by (simp add: demo_subscribe_def)
qed


lemma jm_has_Some: "jm_has m k \<Longrightarrow> \<exists>v. jm_get m k = Some v"
  by (auto simp: jm_has_def)

lemma restricted_no_subscription:
  assumes "plane_ok B" and "jm_has (credentialRestrictions B) (sr_credentialId r)"
  shows "\<not> subscribe_spec h r rc B B'"
  using jm_has_Some [OF assms(2)] restricted_not_eligible [OF assms(1)] unfolding subscribe_spec_def by blast

lemma restricted_no_transfer:
  assumes "plane_ok B" and "jm_has (credentialRestrictions B) (tr_sellerCredentialId r)
      \<or> jm_has (credentialRestrictions B) (tr_buyerCredentialId r)"
  shows "\<not> transfer_spec h r rc B B'"
proof
  assume "transfer_spec h r rc B B'"
  then obtain tp where "transfer_terms h r tp B" unfolding transfer_spec_def by blast
  then have "(\<exists>c. eligible h B (tp_product tp) (tr_sellerId r) (tr_sellerCredentialId r) 0 c)
      \<and> (\<exists>c. eligible h B (tp_product tp) (tr_buyerId r) (tr_buyerCredentialId r) (tp_units tp) c)"
    by (simp add: transfer_terms_def)
  then show False using assms(2) jm_has_Some restricted_not_eligible [OF assms(1)] by metis
qed

text \<open>
  C11. A revoked credential admits to an exit only: while it is restricted no new subscription
  under it settles and no transfer it is used in, as seller or as buyer, settles.
\<close>

theorem restricted_only_exits:
  assumes "reachable h s" and "jm_has (credentialRestrictions s) cid"
  shows "(subscribe h r1 s = (Inr rc, t) \<and> sr_credentialId r1 = cid \<longrightarrow>
        jm_has (idempotency s) (sr_idempotencyKey r1) \<and> t = s)
    \<and> (transfer h r2 s = (Inr rc, t) \<and> (tr_sellerCredentialId r2 = cid \<or> tr_buyerCredentialId r2 = cid) \<longrightarrow>
        jm_has (idempotency s) (tr_idempotencyKey r2) \<and> t = s)"
proof (intro conjI impI; elim conjE)
  have ok: "plane_ok s" "plane_ok (body s)" using cp.always [OF assms(1)] by simp_all
  show "jm_has (idempotency s) (sr_idempotencyKey r1)" "t = s"
    if "subscribe h r1 s = (Inr rc, t)" "sr_credentialId r1 = cid"
    using subscribe_outcome [OF plane_okD(1,2) [OF ok(1)] that(1)] restricted_no_subscription [OF ok(2)]
      that(2) assms(2) unfolding idem_outcome_def Let_def by (auto simp: jm_has_def)
  show "jm_has (idempotency s) (tr_idempotencyKey r2)" "t = s"
    if "transfer h r2 s = (Inr rc, t)" "tr_sellerCredentialId r2 = cid \<or> tr_buyerCredentialId r2 = cid"
    using transfer_outcome [OF plane_okD(2) [OF ok(1)] that(1)] restricted_no_transfer [OF ok(2)]
      that(2) assms(2) unfolding idem_outcome_def Let_def by (auto simp: jm_has_def)
qed

lemma demo13_restricted: "jm_has (credentialRestrictions demo13) ''ca''"
  by (simp add: body_eqD [OF demo13_body] jm_has_def)

theorem restricted_only_exits_witness:
  "\<not> (\<exists>rc t. subscribe demo_host (demo_subscribe\<lparr>sr_idempotencyKey := ''new''\<rparr>) demo13 = (Inr rc, t))"
proof
  assume "\<exists>rc t. subscribe demo_host (demo_subscribe\<lparr>sr_idempotencyKey := ''new''\<rparr>) demo13 = (Inr rc, t)"
  then have "jm_has (idempotency demo13) ''new''"
    using restricted_only_exits [OF demo13_reachable demo13_restricted] by (fastforce simp: demo_subscribe_def)
  then show False by (simp add: body_eqD [OF demo13_body] jm_has_def)
qed

section \<open>Exceptions\<close>

text \<open>
  C12. Maker and checker: in every reachable state a resolved exception case has a proposal, and
  the person who checked it is not the one who made it; a case resolved by retry names its
  replacement.
\<close>

theorem maker_is_not_checker:
  assumes "reachable h s" and "jm_get (exceptionCases s) k = Some c"
    and "starts_with (ec_status c) ''RESOLVED_''"
  shows "\<exists>pr ck. ec_proposal c = Some pr \<and> ec_checkedBy c = Some ck \<and> ck \<noteq> [] \<and> pr_makerId pr \<noteq> []
    \<and> ck \<noteq> pr_makerId pr
    \<and> (ec_status c = ''RESOLVED_RETRIED'' \<longrightarrow> truthy_opt (ec_replacementTransactionId c))"
proof -
  obtain t where "case_agrees c t" using case_transaction [OF cp.always [OF assms(1)] assms(2)] by metis
  with assms(3) show ?thesis
    by (auto simp: open_case_def pending_case_def cancelled_case_def retried_case_def starts_with_def
        checked_by_other_def proposal_ok_def)
qed

theorem maker_is_not_checker_witness:
  "\<exists>c pr ck. jm_get (exceptionCases demo12) ''case-t1'' = Some c \<and> ec_proposal c = Some pr
     \<and> ec_checkedBy c = Some ck \<and> ck \<noteq> pr_makerId pr"
proof -
  from demo12_states(2) obtain k c where c: "exceptionCases demo12 = [(k, c)]"
    and st: "ec_status c = ''RESOLVED_CANCELLED''" by auto
  have "jm_get (exceptionCases demo12) k = Some c" by (simp add: c)
  from maker_is_not_checker [OF demo12_reachable this] st have
    "\<exists>pr ck. ec_proposal c = Some pr \<and> ec_checkedBy c = Some ck \<and> ck \<noteq> pr_makerId pr"
    by (auto simp: starts_with_def)
  moreover have "k = ''case-t1''"
    using demo12_states(3) c by simp
  ultimately show ?thesis using c by auto
qed


definition state_of_case :: "(string \<times> string) list" where
  "state_of_case = [(''OPEN'', ''REQUIRES_REVIEW''), (''PENDING_APPROVAL'', ''PENDING_APPROVAL''),
     (''RESOLVED_CANCELLED'', ''CANCELLED''), (''RESOLVED_RETRIED'', ''REPLACED'')]"

text \<open>
  C13. In every reachable state each exception case is filed as \<open>case-\<close> and its transaction's id, and
  the states of the two agree: an open case has its transaction in review, a pending one pending,
  a cancelled one cancelled and a retried one replaced.
\<close>

theorem case_and_transaction_agree:
  assumes "reachable h s" and "jm_get (exceptionCases s) k = Some c"
  shows "k = ''case-'' @ ec_transactionId c
    \<and> (\<exists>t. jm_get (transactions s) (ec_transactionId c) = Some t
         \<and> map_of state_of_case (ec_status c) = Some (tx_state t))"
proof -
  obtain t where "jm_get (transactions s) (ec_transactionId c) = Some t" "case_agrees c t"
    "k = ''case-'' @ ec_transactionId c"
    using case_transaction [OF cp.always [OF assms(1)] assms(2)] by metis
  then show ?thesis
    by (auto simp: open_case_def pending_case_def cancelled_case_def retried_case_def state_of_case_def)
qed

theorem case_and_transaction_agree_witness:
  "\<exists>t. jm_get (transactions demo10) ''t1'' = Some t \<and> tx_state t = ''REQUIRES_REVIEW''"
proof -
  have "jm_get (exceptionCases demo10) ''case-t1'' = Some demo10_case" by (simp add: demo10_fields)
  from case_and_transaction_agree [OF demo10_reachable this] show ?thesis
    by (auto simp: demo10_case_def new_case_def demo_transfer_def state_of_case_def)
qed

text \<open>
  C14. \<open>proposeExceptionResolution\<close> and \<open>approveExceptionResolution\<close> implement the maker-checker
  protocol from every reachable state: a proposal fails and changes nothing or moves exactly the
  case and its transaction to \<open>PENDING_APPROVAL\<close>; an approval fails and changes nothing, closes the
  case as cancelled, closes it as retried after the replacement transfer has settled, or, when that
  transfer throws, throws the same error and reopens the case.
\<close>

theorem resolution_refines:
  assumes "reachable h s"
  shows "(proposeExceptionResolution h r s = (x, t) \<longrightarrow> propose_outcome r x (body s) (body t))
    \<and> (approveExceptionResolution h cid ck s = (y, t) \<longrightarrow> approve_outcome h cid ck y (body s) (body t))"
  using yieldsD [OF propose_yields] yieldsD [OF approve_yields] cp.always [OF assms] plane_ok_body by blast

theorem resolution_refines_witness:
  "\<exists>y. approve_outcome demo_host ''case-t1'' ''c'' y (body demo11) (body demo12) \<and> (\<exists>res. y = Inr res)"
  using resolution_refines [OF demo11_reachable] demo12_run by blast

section \<open>History\<close>

text \<open>
  The event log is append-only and numbered without gaps: in a reachable state the sequence
  numbers are 1, 2, 3 and so on, and every operation leaves the log it found as a prefix of the
  one it returns with.
\<close>

theorem log_append_only:
  assumes "reachable h s"
  shows "map e_sequence (events s) = [1 ..< length (events s) + 1]
    \<and> (cp_step h s t \<longrightarrow> (\<exists>es. events t = events s @ es))"
  using numbered.always [OF assms] cp_step_log unfolding log_numbered_def log_extends_def by blast

theorem log_append_only_witness:
  "map e_sequence (events demo12) = [1 ..< length (events demo12) + 1]"
  using log_append_only [OF demo12_reachable] by blast

text \<open>
  The evidence package of a stored transaction has one hash for ever: whatever happens to the
  transaction afterwards (review, cancellation, replacement), \<open>transactionEvidencePackage\<close> returns
  the same core and the same hash.
\<close>

theorem package_hash_is_stable:
  assumes "reachable h s" and "transactionEvidencePackage h i s = (Inr pk, s')"
    and "(cp_step h)\<^sup>*\<^sup>* s u" and "transactionEvidencePackage h i u = (Inr pk', u')"
  shows "pk_packageHash pk' = pk_packageHash pk \<and> pk_core pk' = pk_core pk"
proof -
  have core: "disclosed v i = Some (pk_core p) \<and> pk_packageHash p = h_sha256 h (canonicalize (pk_core p))"
    if "transactionEvidencePackage h i v = (Inr p, w)" for v p w
    using that by (auto simp: transactionEvidencePackage_def eff_simps Let_def disclosed_def)
  have "keeps_disclosed s u" using steps_keep [OF assms(3) cp.always [OF assms(1)]] by blast
  with core [OF assms(2)] core [OF assms(4)] show ?thesis by (auto simp: keeps_disclosed_def)
qed

lemma demo_package: "jm_has (transactions s) i \<Longrightarrow> \<exists>pk t. transactionEvidencePackage h i s = (Inr pk, t)"
  by (auto simp: transactionEvidencePackage_def withE_def optE_def bindE_def retE_def now_iso_def now_def
      Let_def jm_has_def)

lemma demo_later: "(cp_step demo_host)\<^sup>*\<^sup>* demo10 demo12"
  using demo11_run demo12_run cp_step.intros(13,14) by (meson converse_rtranclp_into_rtranclp rtranclp.rtrancl_refl)

theorem package_hash_is_stable_witness:
  "\<exists>pk t pk' t'. transactionEvidencePackage demo_host ''t1'' demo10 = (Inr pk, t)
     \<and> transactionEvidencePackage demo_host ''t1'' demo12 = (Inr pk', t')
     \<and> pk_packageHash pk' = pk_packageHash pk"
proof -
  have "jm_has (transactions demo10) ''t1''" by (simp add: demo10_fields jm_has_def)
  moreover have "jm_has (transactions demo12) ''t1''"
    using steps_keep [OF demo_later cp.always [OF demo10_reachable]] calculation
    by (auto simp: keeps_disclosed_def disclosed_def jm_has_def)
  ultimately obtain pk t pk' t' where
    p: "transactionEvidencePackage demo_host ''t1'' demo10 = (Inr pk, t)"
      "transactionEvidencePackage demo_host ''t1'' demo12 = (Inr pk', t')"
    using demo_package by metis
  from package_hash_is_stable [OF demo10_reachable p(1) demo_later p(2)] p show ?thesis by blast
qed

text \<open>
  A settled transaction has gone through the full lifecycle, in order, with its cash
  confirmed, in every reachable state.
\<close>

theorem settled_is_complete:
  assumes "reachable h s" and "jm_get (transactions s) k = Some t" and "tx_state t = ''SETTLED''"
  shows "map fst (tx_lifecycle t) = settled_lifecycle
    \<and> (\<exists>c. jm_get (cashSettlements s) k = Some c \<and> cs_state c = ''CONFIRMED'')"
  using plane_okD(4) [OF cp.always [OF assms(1)]] assms(2,3) by (auto simp: txs_ok_def tx_ok_def)

theorem settled_is_complete_witness: "map fst (tx_lifecycle demo9_tx) = settled_lifecycle"
  by (rule settled_is_complete [OF demo9_reachable, of "''s1''", THEN conjunct1])
     (simp_all add: body_eqD [OF demo9_body] demo9_tx_def)


section \<open>Disclosure\<close>

definition own_credential :: "plane \<Rightarrow> string \<Rightarrow> string \<Rightarrow> json \<Rightarrow> bool" where
  "own_credential p pid actor v =
     (v = JNull \<or> (\<exists>c \<in> set (jm_values (credentials p)). cred_productId c = pid \<and> cred_subjectId c = actor
        \<and> jfield v ''id'' = JStr (cred_id c)))"

lemma credential_row_id:
  "credential_row h b c s = (Inr v, t) \<Longrightarrow> jfield v ''id'' = JStr (cred_id c)"
  by (auto simp: credential_row_def eff_simps jfield_def)

lemma investor_view_own:
  assumes "investor_view h product pid actor s = (Inr kvs, t)"
  obtains a credential pos cash where "actor = Some a"
    and "kvs = [(''actorId'', JStr a), (''positionUnits'', pos), (''cashBalance'', cash),
        (''credential'', credential),
        (''ownTransactions'', JArr (map own_transaction_row (own_transactions s pid a)))]"
    and "own_credential s pid a credential"
proof -
  from assms obtain a where a: "actor = Some a"
    by (auto simp: investor_view_def eff_simps truthy_opt_def split: option.splits)
  show thesis
  proof (cases "find (\<lambda>c. cred_productId c = pid \<and> cred_subjectId c = a) (jm_values (credentials s))")
    case None
    with assms a show thesis
      by (intro that [of a]) (auto simp: investor_view_def eff_simps own_credential_def)
  next
    case (Some c)
    then have c: "c \<in> set (jm_values (credentials s))" "cred_productId c = pid" "cred_subjectId c = a"
      by (auto simp: find_Some_iff)
    from assms a Some obtain v u where v: "credential_row h False c s = (Inr v, u)"
      and kvs: "kvs = [(''actorId'', JStr a),
        (''positionUnits'', JStr (int_text (assetOf (assetBalances s) a pid))),
        (''cashBalance'', JStr (int_text (jm_get0 (cashBalances s) (cash_key a product)))),
        (''credential'', v), (''ownTransactions'', JArr (map own_transaction_row (own_transactions s pid a)))]"
      by (auto simp: investor_view_def eff_simps)
    have "own_credential s pid a v"
      unfolding own_credential_def using c credential_row_id [OF v] by blast
    then show thesis using a kvs by (intro that [of a]) simp_all
  qed
qed

lemma own_quiet:
  assumes "quiet t = quiet s"
  shows "own_transactions t pid a = own_transactions s pid a" "own_credential t pid a v = own_credential s pid a v"
  unfolding own_transactions_def own_credential_def by (simp_all add: quiet_fields(3,6) [OF assms])

lemma mapE_quiet:
  "(\<And>x. preserves quiet (f x)) \<Longrightarrow> mapE f xs s = (Inr ys, t) \<Longrightarrow> quiet t = quiet s"
  by (rule quiet_after [OF preserves_mapE])

text \<open>
  An investor is shown nobody else's business: the credential in the view is one of the
  actor's own for this product, and every row of \<open>ownTransactions\<close> is the row of a stored transaction
  of this product in which the actor is the buyer or the seller, a row that names no party.
\<close>

theorem investor_sees_own_only:
  assumes "viewForRole h ''investor'' pid actor s = (Inr v, t)"
  shows "\<exists>a. actor = Some a \<and> jfield v ''actorId'' = JStr a \<and> own_credential s pid a (jfield v ''credential'')
    \<and> (\<forall>row \<in> set (jelems (jfield v ''ownTransactions'')). \<exists>tr \<in> set (jm_values (transactions s)).
         tx_productId tr = pid \<and> (tx_buyerId tr = Some a \<or> tx_sellerId tr = Some a)
         \<and> row = own_transaction_row tr)"
proof -
  from assms obtain product s0 rec s1 ev s2 ts s3 at s4 kvs where
    p: "get_product pid s = (Inr product, s0)" and
    r: "reconcile h pid s0 = (Inr rec, s1)" and
    e: "mapE (evidence_row h) (filter (\<lambda>ev. ev_productId ev = pid) (jm_values (evidences s1))) s1 = (Inr ev, s2)" and
    m: "mapE (transaction_row h) (filter (\<lambda>t. tx_productId t = pid) (jm_values (transactions s1))) s2 = (Inr ts, s3)" and
    n: "now_iso h s3 = (Inr at, s4)" and
    i: "investor_view h product pid actor s4 = (Inr kvs, t)" and
    v: "v = JObj (view_base ''investor'' at product @ kvs)"
    by (auto simp: viewForRole_def eff_simps Let_def)
  have "quiet s4 = quiet s"
    using quiet_after [OF get_product_quiet p] quiet_after [OF reconcile_quiet r] quiet_after [OF now_iso_quiet n]
      mapE_quiet [OF evidence_row_quiet e] mapE_quiet [OF transaction_row_quiet m] by simp
  note own = own_quiet [OF this]
  obtain a credential pos cash where a: "actor = Some a" and
    kvs: "kvs = [(''actorId'', JStr a), (''positionUnits'', pos), (''cashBalance'', cash),
        (''credential'', credential),
        (''ownTransactions'', JArr (map own_transaction_row (own_transactions s4 pid a)))]"
    and c: "own_credential s4 pid a credential"
    by (rule investor_view_own [OF i])
  have "jfield v ''actorId'' = JStr a" "jfield v ''credential'' = credential"
    "jelems (jfield v ''ownTransactions'') = map own_transaction_row (own_transactions s pid a)"
    by (simp_all add: v kvs view_base_def jfield_def own)
  with a c show ?thesis by (auto simp: own own_transactions_def)
qed

lemma demo_investor_view: "\<exists>v t. viewForRole demo_host ''investor'' ''p'' (Some ''b'') demo9 = (Inr v, t)"
  by (simp add: viewForRole_def investor_view_def reconcile_def evidence_row_def transaction_row_def
    transactionEvidencePackage_def credential_row_def credentialStatus_def get_product_def date_gt_def date_le_def
    truthy_opt_def demo_nav_def demo_credential_def run_defs Let_def body_eqD [OF demo9_body] new_plane_def
    demo9_tx_def demo_subscribe_def)

theorem investor_sees_own_only_witness:
  "\<exists>v t. viewForRole demo_host ''investor'' ''p'' (Some ''b'') demo9 = (Inr v, t)
     \<and> own_credential demo9 ''p'' ''b'' (jfield v ''credential'')"
proof -
  obtain v t where v: "viewForRole demo_host ''investor'' ''p'' (Some ''b'') demo9 = (Inr v, t)"
    using demo_investor_view by blast
  from investor_sees_own_only [OF v] v show ?thesis by auto
qed


section \<open>Signed data\<close>


definition credential_signed :: "host \<Rightarrow> plane \<Rightarrow> credential \<Rightarrow> bool" where
  "credential_signed h p c =
     (\<exists>product. jm_get (products p) (cred_productId c) = Some product
        \<and> jm_get (prod_roleAssignments product) ''credential_issuer'' = Some (cred_issuerId c)
        \<and> statement_verified h p (cred_issuerId c) (unsigned_credential c) (cred_signature c))"

definition evidence_signed :: "host \<Rightarrow> plane \<Rightarrow> evidence \<Rightarrow> bool" where
  "evidence_signed h p ev =
     (\<exists>product role. jm_get (products p) (ev_productId ev) = Some product
        \<and> jm_get EVIDENCE_ROLE (ev_dataType ev) = Some role
        \<and> jm_get (prod_roleAssignments product) role = Some (ev_sourceInstitutionId ev)
        \<and> statement_verified h p (evidence_signer ev) (unsigned_evidence ev) (ev_signature ev))"

definition all_signed :: "host \<Rightarrow> plane \<Rightarrow> bool" where
  "all_signed h p = ((\<forall>c \<in> set (jm_values (credentials p)). credential_signed h p c)
     \<and> (\<forall>ev \<in> set (jm_values (evidences p)). evidence_signed h p ev))"


definition same_registry :: "plane \<Rightarrow> plane \<Rightarrow> bool" where
  "same_registry p q = (institutions q = institutions p \<and> products q = products p \<and> credentials q = credentials p
     \<and> evidences q = evidences p)"

lemma all_signed_same: "same_registry p q \<Longrightarrow> all_signed h q = all_signed h p"
  by (simp add: same_registry_def all_signed_def credential_signed_def evidence_signed_def statement_verified_def)

lemma same_registry_trans: "same_registry p q \<Longrightarrow> same_registry q r \<Longrightarrow> same_registry p r"
  by (simp add: same_registry_def)

lemma all_signed_body [simp]: "all_signed h (body p) = all_signed h p"
  by (rule all_signed_same) (simp add: same_registry_def)











definition key_host :: host where
  "key_host = demo_host\<lparr>h_verify := \<lambda>key msg sig. Some (sig = key @ ''-sig'')\<rparr>"

definition forged_nav :: evidence where
  "forged_nav = demo_nav\<lparr>ev_issuerId := Some ''x'', ev_signature := ''pemx-sig''\<rparr>"

text \<open>
  The signature on evidence need not be the source's. The check looks the key up under
  \<open>issuerId\<close> when the envelope carries one, so a NAV of the fund administrator \<open>i\<close> that names
  another registered institution \<open>x\<close> there is accepted on the signature of \<open>x\<close>, although it
  does not verify under the key of \<open>i\<close>.
\<close>

theorem evidence_signed_by_another:
  "\<exists>s t. registerInstitution key_host ''x'' (Some [''broker'']) ''pemx'' demo5 = (Inr (), s)
     \<and> submitEvidence key_host forged_nav s = (Inr (), t)
     \<and> ev_sourceInstitutionId forged_nav = ''i''
     \<and> \<not> statement_verified key_host s ''i'' (unsigned_evidence forged_nav) (ev_signature forged_nav)"
  by (simp add: setup_defs run_defs demo1_def demo2_def demo3_def demo4_def demo5_def demo_defs
      key_host_def forged_nav_def statement_verified_def del: canonicalize.simps)

text \<open>
  The idempotency key does not cover the kind of operation. After a simulated register failure
  has returned its receipt, \<open>transfer\<close> with the same request returns that receipt: the caller is
  told of a transaction that requires review, and nothing is settled.
\<close>

theorem transfer_replays_a_failure:
  "\<exists>rc. simulateRegisterFailure demo_host (demo_transfer ''t1'') demo9 = (Inr rc, demo10)
     \<and> transfer demo_host (demo_transfer ''t1'') demo10 = (Inr rc, demo10)
     \<and> rc_state rc = ''REQUIRES_REVIEW''"
proof -
  obtain rc where r: "simulateRegisterFailure demo_host (demo_transfer ''t1'') demo9 = (Inr rc, demo10)"
    and st: "rc_state rc = ''REQUIRES_REVIEW''" using demo10_run by blast
  note k = idempotent_stores [OF r [unfolded simulateRegisterFailure_def]]
  have "transfer demo_host (demo_transfer ''t1'') demo10 = (Inr rc, demo10)"
    unfolding transfer_def by (rule idempotent_replay) (use k in blast)+
  with r st show ?thesis by blast
qed

text \<open>A total by product takes in every ledger key that ends in the product's id after a colon.\<close>

lemma total_of_another_product:
  "totalForProduct [(colon ''a'' ''x:p'', 5)] ''p'' = 5"
  by (simp add: totalForProduct_def colon_def ends_with_def)

section \<open>Canonical text\<close>

text \<open>
  C22. \<open>canonicalize\<close> is injective up to two things: two well-formed values have the same canonical
  text, and so the same fingerprint or commitment input, exactly when they are equal after the keys
  of every object in them are sorted and every array \<open>[undefined]\<close> is read as empty. That array
  is the one collision: \<open>join\<close> prints an undefined element as nothing, so it has the text \<open>[]\<close>,
  while two undefined elements have the text \<open>[,]\<close>. An undefined property is printed as \<open>undefined\<close>.
\<close>

theorem canonicalize_injective:
  assumes "wf_json v" and "wf_json w"
  shows "canonicalize v = canonicalize w \<longleftrightarrow> jnorm v = jnorm w"
  by (rule canonicalize_eq_iff [OF assms])

theorem canonicalize_injective_witness:
  "canonicalize (JObj [(''a'', JNum 1), (''b'', JArr [JUndefined])]) = canonicalize (JObj [(''b'', JArr []), (''a'', JNum 1)])
    \<and> canonicalize (JArr [JUndefined, JUndefined]) \<noteq> canonicalize (JArr [])"
proof -
  have n: "jnorm (JObj [(''a'', JNum 1), (''b'', JArr [JUndefined])]) = jnorm (JObj [(''b'', JArr []), (''a'', JNum 1)])"
    by simp
  have w: "wf_json (JObj [(''a'', JNum 1), (''b'', JArr [JUndefined])])" "wf_json (JObj [(''b'', JArr []), (''a'', JNum 1)])"
    "wf_json (JArr [JUndefined, JUndefined])" "wf_json (JArr [])"
    by simp_all
  have d: "jnorm (JArr [JUndefined, JUndefined]) \<noteq> jnorm (JArr [])" by simp
  show ?thesis using canonicalize_injective [OF w(1,2)] canonicalize_injective [OF w(3,4)] n d by blast
qed

text \<open>
  The decimal text of an integer is read back by \<open>BigInt\<close>: amounts that a transaction stores
  as text, and a retry sends again, are the amounts that were settled.
\<close>

theorem amounts_round_trip: "to_bigint (JStr (int_text n)) = Inr n"
  by (simp add: syntax_int_def)

end
