(* ===== verification/Outcome.thy ===== *)
theory Outcome
  imports JsonText
begin

text \<open>
  Pure computations that may throw: the outcome of a function is the error or the value, and a
  sequence of statements is a chain of \<open>bindR\<close>. Regular expressions the code tests strings with are
  predicates on lists of characters.
\<close>

named_theorems outcome_simps "inversion of computations that may throw"

definition bindR :: "'a outcome \<Rightarrow> ('a \<Rightarrow> 'b outcome) \<Rightarrow> 'b outcome" where
  "bindR x f = (case x of Inl e \<Rightarrow> Inl e | Inr a \<Rightarrow> f a)"

definition ensureR :: "bool \<Rightarrow> string \<Rightarrow> 'a outcome \<Rightarrow> 'a outcome" where
  \<comment> \<open>\<open>if (!c) throw error(code); rest\<close>\<close>
  "ensureR c code rest = (if c then rest else Inl (Coded code))"

definition nativeR :: "bool \<Rightarrow> string \<Rightarrow> 'a outcome \<Rightarrow> 'a outcome" where
  \<comment> \<open>\<open>if (!c) throw new TypeError(...); rest\<close>\<close>
  "nativeR c name rest = (if c then rest else Inl (Native name))"

definition recodeR :: "string \<Rightarrow> 'a outcome \<Rightarrow> 'a outcome" where
  \<comment> \<open>\<open>try { ... } catch { throw error(code) }\<close>\<close>
  "recodeR code x = (case x of Inl _ \<Rightarrow> Inl (Coded code) | Inr a \<Rightarrow> Inr a)"

definition type_error :: js_error where
  "type_error = Native ''TypeError''"

definition not_null :: "json \<Rightarrow> unit outcome" where
  \<comment> \<open>reading a property of \<open>null\<close> throws\<close>
  "not_null v = (if v = JNull then Inl type_error else Inr ())"

fun mapR :: "('a \<Rightarrow> 'b outcome) \<Rightarrow> 'a list \<Rightarrow> 'b list outcome" where
  \<comment> \<open>\<open>xs.map(f)\<close> where \<open>f\<close> may throw\<close>
  "mapR f [] = Inr []"
| "mapR f (x # xs) = bindR (f x) (\<lambda>y. bindR (mapR f xs) (\<lambda>ys. Inr (y # ys)))"

lemma bindR_simps [simp]: "bindR (Inl e) f = Inl e" "bindR (Inr a) f = f a"
  by (simp_all add: bindR_def)

lemma bindR_Inr [outcome_simps]: "bindR x f = Inr b \<longleftrightarrow> (\<exists>a. x = Inr a \<and> f a = Inr b)"
  by (cases x) auto

lemma bindR_Inl [outcome_simps]: "bindR x f = Inl e \<longleftrightarrow> x = Inl e \<or> (\<exists>a. x = Inr a \<and> f a = Inl e)"
  by (cases x) auto

lemma ensureR_Inr [outcome_simps]: "ensureR c code x = Inr a \<longleftrightarrow> c \<and> x = Inr a"
  by (simp add: ensureR_def)

lemma ensureR_Inl [outcome_simps]:
  "ensureR c code x = Inl e \<longleftrightarrow> \<not> c \<and> e = Coded code \<or> c \<and> x = Inl e"
  by (auto simp: ensureR_def)

lemma nativeR_Inr [outcome_simps]: "nativeR c code x = Inr a \<longleftrightarrow> c \<and> x = Inr a"
  by (simp add: nativeR_def)

lemma nativeR_Inl [outcome_simps]:
  "nativeR c code x = Inl e \<longleftrightarrow> \<not> c \<and> e = Native code \<or> c \<and> x = Inl e"
  by (auto simp: nativeR_def)

lemma recodeR_Inr [outcome_simps]: "recodeR code x = Inr a \<longleftrightarrow> x = Inr a"
  by (cases x) (simp_all add: recodeR_def)

lemma recodeR_Inl [outcome_simps]: "recodeR code x = Inl e \<longleftrightarrow> e = Coded code \<and> (\<exists>e'. x = Inl e')"
  by (cases x) (auto simp: recodeR_def)

lemma mapR_length: "mapR f xs = Inr ys \<Longrightarrow> length ys = length xs"
  by (induction xs arbitrary: ys) (auto simp: outcome_simps)

lemma mapR_nth: "mapR f xs = Inr ys \<Longrightarrow> i < length xs \<Longrightarrow> f (xs ! i) = Inr (ys ! i)"
  by (induction xs arbitrary: ys i) (auto simp: outcome_simps less_Suc_eq_0_disj)

lemma mapR_Inr: "(\<And>x. x \<in> set xs \<Longrightarrow> f x = Inr (g x)) \<Longrightarrow> mapR f xs = Inr (map g xs)"
  by (induction xs) auto

fun guards :: "(bool \<times> string) list \<Rightarrow> unit outcome" where
  \<comment> \<open>a run of \<open>if (bad) throw error(code);\<close> statements\<close>
  "guards [] = Inr ()"
| "guards ((bad, code) # rest) = (if bad then Inl (Coded code) else guards rest)"

lemma guards_Inr [outcome_simps]: "guards gs = Inr u \<longleftrightarrow> list_all (\<lambda>(bad, _). \<not> bad) gs"
  by (induction gs) (auto split: if_splits)

lemma guards_append: "guards (gs @ hs) = bindR (guards gs) (\<lambda>_. guards hs)"
  by (induction gs) auto

declare guards.simps [simp del]

definition is_array :: "json \<Rightarrow> bool" where
  \<comment> \<open>\<open>Array.isArray(v)\<close>\<close>
  "is_array v = (case v of JArr _ \<Rightarrow> True | _ \<Rightarrow> False)"

lemma is_array_JArr [simp]: "is_array (JArr xs)"
  by (simp add: is_array_def)

section \<open>Character classes\<close>

definition is_digit :: "char \<Rightarrow> bool" where
  "is_digit c = (c \<in> set ''0123456789'')"

definition is_lower :: "char \<Rightarrow> bool" where
  "is_lower c = (c \<in> set ''abcdefghijklmnopqrstuvwxyz'')"

definition is_upper :: "char \<Rightarrow> bool" where
  "is_upper c = (c \<in> set ''ABCDEFGHIJKLMNOPQRSTUVWXYZ'')"

definition is_hex :: "char \<Rightarrow> bool" where
  "is_hex c = (c \<in> set ''0123456789abcdef'')"

definition is_alnum :: "char \<Rightarrow> bool" where
  "is_alnum c = (is_digit c \<or> is_lower c \<or> is_upper c)"

definition id_text :: "string \<Rightarrow> nat \<Rightarrow> string \<Rightarrow> bool" where
  \<comment> \<open>\<open>/^[A-Za-z0-9][A-Za-z0-9<extra>]{0,n}$/\<close>\<close>
  "id_text extra n s =
     (s \<noteq> [] \<and> is_alnum (hd s) \<and> list_all (\<lambda>c. is_alnum c \<or> c \<in> set extra) (tl s) \<and> length (tl s) \<le> n)"

definition hex_text_any :: "nat \<Rightarrow> string \<Rightarrow> bool" where
  \<comment> \<open>\<open>/^[0-9a-fA-F]{n}$/\<close>\<close>
  "hex_text_any n s = (length s = n \<and> list_all (\<lambda>c. is_hex c \<or> c \<in> set ''ABCDEF'') s)"

definition or_empty :: "string option \<Rightarrow> string" where
  \<comment> \<open>\<open>value ?? ""\<close>\<close>
  "or_empty v = (case v of None \<Rightarrow> [] | Some s \<Rightarrow> s)"

definition present :: "string option \<Rightarrow> bool" where
  \<comment> \<open>a string that may be null, tested for truth\<close>
  "present v = (case v of None \<Rightarrow> False | Some s \<Rightarrow> s \<noteq> [])"

lemma present_simps [simp]: "\<not> present None" "present (Some s) \<longleftrightarrow> s \<noteq> []"
  by (simp_all add: present_def)

definition hex_text :: "nat \<Rightarrow> string \<Rightarrow> bool" where
  \<comment> \<open>\<open>/^[0-9a-f]{n}$/\<close>\<close>
  "hex_text n s = (length s = n \<and> list_all is_hex s)"

definition canonical_decimal :: "string \<Rightarrow> bool" where
  \<comment> \<open>\<open>/^(0|[1-9][0-9]*)$/\<close>\<close>
  "canonical_decimal s = (s = ''0'' \<or> (s \<noteq> [] \<and> hd s \<noteq> CHR ''0'' \<and> list_all is_digit s))"

lemma digit_chars: "map digit_char [0, 1, 2, 3, 4, 5, 6, 7, 8, 9] = ''0123456789''"
  by code_simp

lemma digit_char_is_digit: "d < 10 \<Longrightarrow> is_digit (digit_char d)"
proof -
  assume "d < 10"
  then have "d \<in> {0,1,2,3,4,5,6,7,8,9}" by auto
  then show ?thesis unfolding is_digit_def using digit_chars by (elim insertE) simp_all
qed

lemma nat_text_is_digits: "list_all is_digit (nat_text n)"
proof (induction n rule: nat_text.induct)
  case (1 n)
  then show ?case by (subst nat_text.simps) (auto simp: digit_char_is_digit)
qed

lemma digit_char_0: "d < 10 \<Longrightarrow> digit_char d = CHR ''0'' \<longleftrightarrow> d = 0"
proof -
  assume "d < 10"
  then have "d \<in> {0,1,2,3,4,5,6,7,8,9}" by auto
  then show ?thesis using digit_chars by (elim insertE) simp_all
qed

lemma nat_text_head: "0 < n \<Longrightarrow> nat_text n \<noteq> [] \<and> hd (nat_text n) \<noteq> CHR ''0''"
proof (induction n rule: nat_text.induct)
  case (1 n)
  show ?case
  proof (cases "n < 10")
    case True
    with "1.prems" show ?thesis by (subst (1 2) nat_text.simps) (simp add: digit_char_0)
  next
    case False
    with "1.IH" have "nat_text (n div 10) \<noteq> [] \<and> hd (nat_text (n div 10)) \<noteq> CHR ''0''" by simp
    with False show ?thesis by (subst (1 2) nat_text.simps) simp
  qed
qed

lemma canonical_decimal_int_text: "0 \<le> n \<Longrightarrow> canonical_decimal (int_text n)"
proof (cases "n = 0")
  case True
  have "nat_text 0 = ''0''" using digit_chars by (subst nat_text.simps) simp
  with True show ?thesis by (simp add: canonical_decimal_def int_text_def)
next
  case False
  assume "0 \<le> n"
  with False nat_text_head [of "nat n"] nat_text_is_digits show ?thesis
    by (simp add: canonical_decimal_def int_text_def)
qed

end
