(* ===== verification/ProofAdapter.thy ===== *)
theory ProofAdapter
  imports Outcome Canonical
begin

text \<open>
  The Groth16 proof adapter, \<open>src/security/proof-adapter.js\<close>: field elements as canonical decimal
  text, the thirteen public signals of a join-split in their fixed order, the checks the adapter is
  constructed with, and the verification of a proof against the authorised context.

  The SHA-256 digest and the verifier are arguments: a verifier takes the verification key, the
  normalised signals and the proof, and returns a value or throws.
\<close>

definition BN254_SCALAR_FIELD :: int where
  "BN254_SCALAR_FIELD = 21888242871839275222246405745257275088548364400416034343698204186575808495617"

definition JOIN_SPLIT_PUBLIC_SIGNAL_ORDER :: "string list" where
  "JOIN_SPLIT_PUBLIC_SIGNAL_ORDER =
     [''merkleRoot'', ''contextId'', ''assetType'', ''fee'', ''recipient'', ''relayer'', ''transactionHash'',
      ''inputNullifier0'', ''inputNullifier1'', ''outputCommitmentX0'', ''outputCommitmentX1'',
      ''outputCommitmentY0'', ''outputCommitmentY1'']"

definition normalizeFieldElement :: "json \<Rightarrow> string outcome" where
  "normalizeFieldElement value =
     (case value of
        JStr s \<Rightarrow>
          ensureR (canonical_decimal s) ''INVALID_PUBLIC_SIGNAL''
         (case bigint_of_string s of
            None \<Rightarrow> Inl (Native ''SyntaxError'')
          | Some parsed \<Rightarrow> ensureR (parsed < BN254_SCALAR_FIELD) ''INVALID_PUBLIC_SIGNAL'' (Inr s))
      | _ \<Rightarrow> Inl (Coded ''INVALID_PUBLIC_SIGNAL''))"

definition nullish_text :: "json \<Rightarrow> string" where
  \<comment> \<open>the text of a value, empty where the value is null or undefined\<close>
  "nullish_text v = (if v = JUndefined \<or> v = JNull then [] else js_to_string v)"

definition normalizeJoinSplitPublicInputs :: "json \<Rightarrow> (string \<times> string) list outcome" where
  "normalizeJoinSplitPublicInputs publicInputs =
     mapR (\<lambda>name. bindR (normalizeFieldElement (JStr (nullish_text (jfield publicInputs name))))
       (\<lambda>v. Inr (name, v))) JOIN_SPLIT_PUBLIC_SIGNAL_ORDER"

definition hash_json :: "(string \<Rightarrow> string) \<Rightarrow> json \<Rightarrow> string" where
  \<comment> \<open>a string is hashed as it is, any other value in its canonical text\<close>
  "hash_json sha v = (case v of JStr s \<Rightarrow> sha s | _ \<Rightarrow> sha (canonicalize v))"

definition joinSplitPublicInputsHash :: "(string \<Rightarrow> string) \<Rightarrow> json \<Rightarrow> string outcome" where
  "joinSplitPublicInputsHash sha publicInputs =
     bindR (normalizeJoinSplitPublicInputs publicInputs) (\<lambda>normalized.
     Inr (hash_json sha (JArr (map (JStr \<circ> snd) normalized))))"

section \<open>The adapter\<close>

record proof_result =
  pv_verified :: bool
  pv_mode :: string
  pv_circuitId :: json
  pv_circuitVersion :: json
  pv_verificationKeyHash :: string
  pv_manifestHash :: string
  pv_proofHash :: string
  pv_publicSignalsHash :: string

record adapter =
  ad_verifier :: "json \<Rightarrow> string list \<Rightarrow> json \<Rightarrow> json outcome"
  ad_verificationKey :: json
  ad_manifest :: json
  ad_manifestHash :: string
  ad_verificationKeyHash :: string

definition Groth16JoinSplitProofAdapter ::
  "(string \<Rightarrow> string) \<Rightarrow> (json \<Rightarrow> string list \<Rightarrow> json \<Rightarrow> json outcome) option \<Rightarrow> json \<Rightarrow> json \<Rightarrow> json \<Rightarrow>
     json \<Rightarrow> adapter outcome" where
  \<comment> \<open>\<open>verifier\<close> is \<open>None\<close> when it has no \<open>verify\<close> method; \<open>artifactManifestHash\<close> is \<open>JNull\<close> by default\<close>
  "Groth16JoinSplitProofAdapter sha verifier verificationKey manifest expectedVerificationKeyHash
     artifactManifestHash =
     ensureR (verifier \<noteq> None) ''PROOF_VERIFIER_REQUIRED''
    (ensureR (jfield manifest ''protocol'' = JStr ''groth16'' \<and> jfield manifest ''curve'' = JStr ''bn128''
        \<and> jtruthy (jfield manifest ''circuitId'') \<and> jtruthy (jfield manifest ''circuitVersion''))
      ''INVALID_PROOF_MANIFEST''
    (ensureR (canonicalize (jfield manifest ''publicSignalOrder'')
        = canonicalize (JArr (map JStr JOIN_SPLIT_PUBLIC_SIGNAL_ORDER))) ''PUBLIC_SIGNAL_ORDER_MISMATCH''
    (nativeR (verificationKey \<noteq> JUndefined) ''TypeError''
    (let verificationKeyHash = hash_json sha verificationKey in
     ensureR (jtruthy expectedVerificationKeyHash \<and> JStr verificationKeyHash = expectedVerificationKeyHash)
      ''VERIFICATION_KEY_HASH_MISMATCH''
    (ensureR (artifactManifestHash = JNull \<or> hex_text 64 (js_to_string artifactManifestHash))
      ''INVALID_ARTIFACT_MANIFEST_HASH''
    (Inr \<lparr>ad_verifier = the verifier, ad_verificationKey = verificationKey, ad_manifest = manifest,
       ad_manifestHash = (if artifactManifestHash = JNull then hash_json sha manifest
          else js_to_string artifactManifestHash),
       ad_verificationKeyHash = verificationKeyHash\<rparr>))))))"

definition check_signal :: "json \<Rightarrow> string \<Rightarrow> string \<Rightarrow> unit outcome" where
  "check_signal expectedPublicInputs name signal =
     bindR (normalizeFieldElement (JStr (js_to_string (jfield expectedPublicInputs name)))) (\<lambda>expected.
     ensureR (signal = expected) ''PROOF_CONTEXT_MISMATCH'' (Inr ()))"

definition verifyJoinSplit :: "(string \<Rightarrow> string) \<Rightarrow> adapter \<Rightarrow> json \<Rightarrow> json \<Rightarrow> json \<Rightarrow> proof_result outcome" where
  "verifyJoinSplit sha ad proof publicSignals expectedPublicInputs =
     ensureR (jtruthy proof \<and> (case publicSignals of
         JArr xs \<Rightarrow> length xs = length JOIN_SPLIT_PUBLIC_SIGNAL_ORDER | _ \<Rightarrow> False)) ''INVALID_PROOF_PACKAGE''
    (bindR (mapR (\<lambda>value. normalizeFieldElement (JStr (js_to_string value))) (jelems publicSignals)) (\<lambda>normalized.
     bindR (mapR (\<lambda>(name, signal). check_signal expectedPublicInputs name signal)
       (zip JOIN_SPLIT_PUBLIC_SIGNAL_ORDER normalized)) (\<lambda>_.
     bindR (recodeR ''PROOF_VERIFIER_UNAVAILABLE''
       (ad_verifier ad (ad_verificationKey ad) normalized proof)) (\<lambda>verified.
     ensureR (verified = JBool True) ''INVALID_ZERO_KNOWLEDGE_PROOF''
    (Inr \<lparr>pv_verified = True, pv_mode = ''GROTH16_VERIFIED'',
       pv_circuitId = jfield (ad_manifest ad) ''circuitId'',
       pv_circuitVersion = jfield (ad_manifest ad) ''circuitVersion'',
       pv_verificationKeyHash = ad_verificationKeyHash ad, pv_manifestHash = ad_manifestHash ad,
       pv_proofHash = hash_json sha proof,
       pv_publicSignalsHash = hash_json sha (JArr (map JStr normalized))\<rparr>)))))"

definition sandbox_verifyJoinSplit :: "(string \<times> json) list" where
  \<comment> \<open>\<open>SandboxNoProofAdapter.verifyJoinSplit\<close>: never verified, never acceptable in production\<close>
  "sandbox_verifyJoinSplit = [(''verified'', JBool False), (''mode'', JStr ''SANDBOX_NO_ZK_PROOF''),
     (''productionAcceptable'', JBool False)]"

section \<open>Field elements\<close>

lemma normalizeFieldElement_Inr:
  "normalizeFieldElement v = Inr s \<longleftrightarrow>
     v = JStr s \<and> canonical_decimal s \<and> (\<exists>n. bigint_of_string s = Some n \<and> n < BN254_SCALAR_FIELD)"
  by (auto simp: normalizeFieldElement_def outcome_simps split: json.splits option.splits)

lemma normalize_int_text:
  "0 \<le> n \<Longrightarrow> n < BN254_SCALAR_FIELD \<Longrightarrow> normalizeFieldElement (JStr (int_text n)) = Inr (int_text n)"
  by (simp add: normalizeFieldElement_Inr canonical_decimal_int_text)

lemma mapR_Inr_iff: "mapR f xs = Inr ys \<longleftrightarrow> list_all2 (\<lambda>x y. f x = Inr y) xs ys"
proof (induction xs arbitrary: ys)
  case Nil
  then show ?case by auto
next
  case (Cons x xs)
  then show ?case by (cases ys) (auto simp: outcome_simps)
qed

lemma check_signal_Inr:
  "check_signal pi name signal = Inr u \<longleftrightarrow>
     normalizeFieldElement (JStr (js_to_string (jfield pi name))) = Inr signal"
  by (auto simp: check_signal_def outcome_simps)

section \<open>Properties\<close>

definition signals_match :: "json \<Rightarrow> json list \<Rightarrow> string list \<Rightarrow> bool" where
  "signals_match expected signals texts =
     (list_all2 (\<lambda>v s. normalizeFieldElement (JStr (js_to_string v)) = Inr s) signals texts
      \<and> list_all2 (\<lambda>name s. normalizeFieldElement (JStr (js_to_string (jfield expected name))) = Inr s)
          JOIN_SPLIT_PUBLIC_SIGNAL_ORDER texts)"

lemma list_all2_zip_left:
  "length xs = length ys \<Longrightarrow>
     (\<exists>us. list_all2 (\<lambda>(x, y) u. P x y) (zip xs ys) (us :: unit list)) \<longleftrightarrow> list_all2 P xs ys"
proof (induction xs ys rule: list_induct2)
  case Nil
  then show ?case by auto
next
  case (Cons x xs y ys)
  have "(\<exists>us. list_all2 (\<lambda>(x, y) u. P x y) ((x, y) # zip xs ys) (us :: unit list)) \<longleftrightarrow>
      P x y \<and> (\<exists>us. list_all2 (\<lambda>(x, y) u. P x y) (zip xs ys) (us :: unit list))"
    by (auto simp: list_all2_Cons1)
  with Cons show ?case by simp
qed

text \<open>
  A proof is reported verified only when the verifier returned \<open>true\<close> for it, under the approved
  verification key, on exactly thirteen canonical field elements, each equal to the public input of
  the authorised transaction context that stands at its place in the fixed order; and when all of
  that holds it is reported verified.
\<close>

theorem verified_iff:
  "(\<exists>res. verifyJoinSplit sha ad proof (JArr signals) expected = Inr res) \<longleftrightarrow>
     jtruthy proof \<and> (\<exists>texts. signals_match expected signals texts
        \<and> ad_verifier ad (ad_verificationKey ad) texts proof = Inr (JBool True))"
  (is "?L \<longleftrightarrow> ?R")
proof -
  let ?n = "\<lambda>v. normalizeFieldElement (JStr (js_to_string v))"
  let ?c = "\<lambda>texts. \<exists>us. mapR (\<lambda>(name, signal). check_signal expected name signal)
       (zip JOIN_SPLIT_PUBLIC_SIGNAL_ORDER texts) = Inr us"
  have c: "?c texts \<longleftrightarrow> list_all2 (\<lambda>name s. ?n (jfield expected name) = Inr s) JOIN_SPLIT_PUBLIC_SIGNAL_ORDER texts"
    if "length texts = length JOIN_SPLIT_PUBLIC_SIGNAL_ORDER" for texts
    using list_all2_zip_left [OF that [symmetric]]
    by (simp add: mapR_Inr_iff check_signal_Inr split_def)
  have "?L \<longleftrightarrow> jtruthy proof \<and> length signals = length JOIN_SPLIT_PUBLIC_SIGNAL_ORDER
      \<and> (\<exists>texts. mapR ?n signals = Inr texts \<and> ?c texts
           \<and> ad_verifier ad (ad_verificationKey ad) texts proof = Inr (JBool True))"
    by (auto simp: verifyJoinSplit_def outcome_simps)
  also have "\<dots> \<longleftrightarrow> ?R"
    using c unfolding signals_match_def mapR_Inr_iff by (metis list_all2_lengthD)
  finally show ?thesis .
qed

text \<open>
  The hash of the public inputs of a join-split tells them apart up to collisions of SHA-256:
  where the digest is injective, two sets of inputs with the same hash agree on the normalised
  text of every public signal.
\<close>

theorem public_inputs_hash_injective:
  assumes "inj sha"
    and "joinSplitPublicInputsHash sha a = Inr d" and "joinSplitPublicInputsHash sha b = Inr d"
  shows "\<forall>name \<in> set JOIN_SPLIT_PUBLIC_SIGNAL_ORDER.
    nullish_text (jfield a name) = nullish_text (jfield b name)"
proof -
  let ?o = JOIN_SPLIT_PUBLIC_SIGNAL_ORDER
  have n: "xs = map (\<lambda>name. (name, nullish_text (jfield v name))) ?o"
    if "normalizeJoinSplitPublicInputs v = Inr xs" for v xs
  proof -
    from that have "list_all2 (\<lambda>name x. x = (name, nullish_text (jfield v name))) ?o xs"
      unfolding normalizeJoinSplitPublicInputs_def mapR_Inr_iff
      by (elim list_all2_mono) (auto simp: outcome_simps normalizeFieldElement_Inr)
    then show ?thesis by (simp add: list_all2_conv_all_nth list_eq_iff_nth_eq)
  qed
  have d: "d = sha (canonicalize (JArr (map (\<lambda>name. JStr (nullish_text (jfield v name))) ?o)))"
    if "joinSplitPublicInputsHash sha v = Inr d" for v
  proof -
    from that obtain xs where xs: "normalizeJoinSplitPublicInputs v = Inr xs"
      and "d = hash_json sha (JArr (map (JStr \<circ> snd) xs))"
      by (auto simp: joinSplitPublicInputsHash_def outcome_simps)
    then show ?thesis by (simp add: n [OF xs] hash_json_def comp_def del: canonicalize.simps)
  qed
  from d [OF assms(2)] d [OF assms(3)] have
    "sha (canonicalize (JArr (map (\<lambda>name. JStr (nullish_text (jfield a name))) ?o)))
      = sha (canonicalize (JArr (map (\<lambda>name. JStr (nullish_text (jfield b name))) ?o)))" by simp
  then have "canonicalize (JArr (map (\<lambda>name. JStr (nullish_text (jfield a name))) ?o))
      = canonicalize (JArr (map (\<lambda>name. JStr (nullish_text (jfield b name))) ?o))"
    using assms(1) by (simp add: inj_eq)
  then have "jnorm (JArr (map (\<lambda>name. JStr (nullish_text (jfield a name))) ?o))
      = jnorm (JArr (map (\<lambda>name. JStr (nullish_text (jfield b name))) ?o))"
    by (subst (asm) canonicalize_eq_iff) (simp_all add: list_all_iff)
  moreover have "map (\<lambda>name. JStr (g name)) ?o \<noteq> [JUndefined]" for g by (simp add: JOIN_SPLIT_PUBLIC_SIGNAL_ORDER_def)
  ultimately show ?thesis by (simp add: comp_def)
qed


definition zero_inputs :: json where
  "zero_inputs = JObj (map (\<lambda>name. (name, JStr ''0'')) JOIN_SPLIT_PUBLIC_SIGNAL_ORDER)"

lemma zero_inputs_hash: "\<exists>d. joinSplitPublicInputsHash (\<lambda>s. s) zero_inputs = Inr d"
proof -
  have "bigint_of_string ''0'' = Some 0" by code_simp
  then have "normalizeFieldElement (JStr ''0'') = Inr ''0''"
    by (simp add: normalizeFieldElement_Inr canonical_decimal_def BN254_SCALAR_FIELD_def)
  moreover have "nullish_text (jfield zero_inputs name) = ''0''" if "name \<in> set JOIN_SPLIT_PUBLIC_SIGNAL_ORDER" for name
    using that by (simp add: zero_inputs_def jfield_def nullish_text_def map_of_map_restrict comp_def
        map_of_map [where f = "\<lambda>n. JStr ''0''"] JOIN_SPLIT_PUBLIC_SIGNAL_ORDER_def) auto
  ultimately have "normalizeJoinSplitPublicInputs zero_inputs
      = Inr (map (\<lambda>name. (name, ''0'')) JOIN_SPLIT_PUBLIC_SIGNAL_ORDER)"
    unfolding normalizeJoinSplitPublicInputs_def by (intro mapR_Inr) simp
  then show ?thesis by (simp add: joinSplitPublicInputsHash_def)
qed

theorem public_inputs_hash_injective_witness:
  "nullish_text (jfield zero_inputs ''fee'') = nullish_text (jfield zero_inputs ''fee'')
    \<and> inj (\<lambda>s :: string. s)"
proof -
  obtain d where d: "joinSplitPublicInputsHash (\<lambda>s. s) zero_inputs = Inr d" using zero_inputs_hash by blast
  have "inj (\<lambda>s :: string. s)" by (simp add: inj_def)
  from public_inputs_hash_injective [OF this d d] this show ?thesis
    by (simp add: JOIN_SPLIT_PUBLIC_SIGNAL_ORDER_def)
qed

text \<open>
  An adapter can be constructed only around an approved artifact: the hash of its verification
  key is the expected one, its manifest is a versioned Groth16 circuit over bn128, and the
  manifest lists the public signals in exactly the application's order.
\<close>

theorem adapter_is_approved:
  assumes "Groth16JoinSplitProofAdapter sha verifier vk manifest expected artifact = Inr ad"
    and "wf_json (jfield manifest ''publicSignalOrder'')"
  shows "JStr (hash_json sha (ad_verificationKey ad)) = expected
    \<and> ad_verificationKeyHash ad = hash_json sha (ad_verificationKey ad)
    \<and> jfield (ad_manifest ad) ''protocol'' = JStr ''groth16'' \<and> jfield (ad_manifest ad) ''curve'' = JStr ''bn128''
    \<and> jnorm (jfield (ad_manifest ad) ''publicSignalOrder'') = JArr (map JStr JOIN_SPLIT_PUBLIC_SIGNAL_ORDER)
    \<and> (artifact \<noteq> JNull \<longrightarrow> hex_text 64 (ad_manifestHash ad))"
proof -
  let ?o = "JArr (map JStr JOIN_SPLIT_PUBLIC_SIGNAL_ORDER)"
  have "jnorm (jfield manifest ''publicSignalOrder'') = jnorm ?o"
    if "canonicalize (jfield manifest ''publicSignalOrder'') = canonicalize ?o"
    using that by (subst (asm) canonicalize_eq_iff) (use assms(2) in \<open>simp_all add: list_all_iff\<close>)
  moreover have "jnorm ?o = ?o" by (simp add: comp_def JOIN_SPLIT_PUBLIC_SIGNAL_ORDER_def)
  ultimately show ?thesis using assms(1)
    by (auto simp: Groth16JoinSplitProofAdapter_def outcome_simps Let_def simp del: canonicalize.simps jnorm.simps)
qed

definition demo_manifest :: json where
  "demo_manifest = JObj [(''protocol'', JStr ''groth16''), (''curve'', JStr ''bn128''), (''circuitId'', JStr ''c''),
     (''circuitVersion'', JStr ''1''), (''publicSignalOrder'', JArr (map JStr JOIN_SPLIT_PUBLIC_SIGNAL_ORDER))]"

theorem adapter_is_approved_witness:
  "\<exists>ad. Groth16JoinSplitProofAdapter (\<lambda>s. s) (Some (\<lambda>_ _ _. Inr (JBool True))) (JStr ''vk'') demo_manifest (JStr ''vk'') JNull
      = Inr ad \<and> jfield (ad_manifest ad) ''curve'' = JStr ''bn128''"
proof -
  obtain ad where ad: "Groth16JoinSplitProofAdapter (\<lambda>s. s) (Some (\<lambda>_ _ _. Inr (JBool True))) (JStr ''vk'')
      demo_manifest (JStr ''vk'') JNull = Inr ad"
    by (simp add: Groth16JoinSplitProofAdapter_def ensureR_def nativeR_def demo_manifest_def jfield_def hash_json_def
        Let_def del: canonicalize.simps)
  have "wf_json (jfield demo_manifest ''publicSignalOrder'')"
    by (simp add: demo_manifest_def jfield_def list_all_iff)
  from adapter_is_approved [OF ad this] ad show ?thesis by blast
qed

end
