(* ===== verification/MerkleTree.thy ===== *)
theory MerkleTree
  imports ProofAdapter PoseidonConstants
begin

text \<open>
  The incremental Merkle tree of the confidential note ledger,
  \<open>src/security/poseidon-merkle.js\<close>: the Poseidon permutation on integers modulo the BN254 scalar
  field, the stored state (a size, a frontier of 32 entries, a root) and the append of leaves, whose
  carry runs along the set bits of the size. The specification is the tree itself: \<open>mroot d xs\<close> is
  the root of the tree of depth \<open>d\<close> over the leaves \<open>xs\<close>, the places after the last leaf being zero,
  and \<open>tree_of xs\<close> is the state that stands for the leaves \<open>xs\<close>.
\<close>

section \<open>Poseidon\<close>

definition ROUNDS_F :: nat where "ROUNDS_F = 8"
definition ROUNDS_P :: nat where "ROUNDS_P = 56"

definition MERKLE_TREE_DEPTH :: nat where "MERKLE_TREE_DEPTH = 32"
definition MERKLE_LEAF_DOMAIN :: int where "MERKLE_LEAF_DOMAIN = 0x434c324c45414601"
definition MERKLE_NODE_DOMAIN :: int where "MERKLE_NODE_DOMAIN = 0x434c324e4f444501"
definition MAX_TREE_SIZE :: int where "MAX_TREE_SIZE = 2 ^ MERKLE_TREE_DEPTH"

definition mod_field :: "int \<Rightarrow> int" where
  \<comment> \<open>the code's \<open>mod\<close>: the remainder, brought into the field when it is negative\<close>
  "mod_field v = v mod BN254_SCALAR_FIELD"

definition pow5 :: "int \<Rightarrow> int" where
  "pow5 v = (let square = v * v mod BN254_SCALAR_FIELD in
     (square * square mod BN254_SCALAR_FIELD) * v mod BN254_SCALAR_FIELD)"

definition poseidon_round :: "nat \<Rightarrow> int list \<Rightarrow> int list" where
  "poseidon_round round state =
     (let added = map (\<lambda>i. mod_field (state ! i + POSEIDON_C ! (round * 4 + i))) [0..<4];
          boxed = (if round < ROUNDS_F div 2 \<or> ROUNDS_F div 2 + ROUNDS_P \<le> round then map pow5 added
                   else added[0 := pow5 (added ! 0)])
      in map (\<lambda>i. sum_list (map (\<lambda>j. POSEIDON_M ! i ! j * boxed ! j) [0..<4]) mod BN254_SCALAR_FIELD) [0..<4])"

definition poseidon3 :: "int \<Rightarrow> int \<Rightarrow> int \<Rightarrow> int" where
  "poseidon3 a b c =
     fold poseidon_round [0..<ROUNDS_F + ROUNDS_P] [0, mod_field a, mod_field b, mod_field c] ! 0"

definition merkleLeaf :: "int \<Rightarrow> int \<Rightarrow> int" where
  "merkleLeaf commitmentX commitmentY = poseidon3 MERKLE_LEAF_DOMAIN commitmentX commitmentY"

definition merkleNode :: "int \<Rightarrow> int \<Rightarrow> int" where
  "merkleNode left right = poseidon3 MERKLE_NODE_DOMAIN left right"

primrec push_zeros :: "nat \<Rightarrow> int list" where
  "push_zeros 0 = [0]"
| "push_zeros (Suc level) =
     (let zeroCache = push_zeros level in zeroCache @ [merkleNode (zeroCache ! level) (zeroCache ! level)])"

definition merkleZeros :: "int list" where
  "merkleZeros = push_zeros MERKLE_TREE_DEPTH"

section \<open>The stored state\<close>

definition parseTreeSize :: "json \<Rightarrow> int outcome" where
  "parseTreeSize v =
     (let sz = (case to_bigint v of Inl _ \<Rightarrow> - 1 | Inr n \<Rightarrow> n) in
      ensureR (0 \<le> sz \<and> sz < MAX_TREE_SIZE) ''INVALID_MERKLE_TREE_STATE'' (Inr sz))"

definition parse_entry :: "int \<Rightarrow> nat \<times> json \<Rightarrow> int option outcome" where
  "parse_entry sz = (\<lambda>(level, entry).
     if even (sz div 2 ^ level) then
       ensureR (entry = JNull) ''INVALID_MERKLE_TREE_STATE'' (Inr None)
     else
       bindR (recodeR ''INVALID_MERKLE_TREE_STATE'' (normalizeFieldElement (JStr (nullish_text entry)))) (\<lambda>normalized.
       bindR (syntax_int normalized) (\<lambda>n. Inr (Some n))))"

definition parseMerkleFrontier :: "json \<Rightarrow> json \<Rightarrow> int option list outcome" where
  "parseMerkleFrontier treeSize frontier =
     bindR (parseTreeSize treeSize) (\<lambda>sz.
     ensureR (is_array frontier \<and> length (jelems frontier) = MERKLE_TREE_DEPTH) ''INVALID_MERKLE_TREE_STATE''
    (mapR (parse_entry sz) (enumerate 0 (jelems frontier))))"

definition root_step :: "int option list \<Rightarrow> nat \<Rightarrow> int \<Rightarrow> int" where
  "root_step levels level hash =
     (case levels ! level of
        None \<Rightarrow> merkleNode hash (merkleZeros ! level)
      | Some left \<Rightarrow> merkleNode left hash)"

definition merkleRootFromFrontier :: "json \<Rightarrow> json \<Rightarrow> int outcome" where
  "merkleRootFromFrontier treeSize frontier =
     bindR (parseTreeSize treeSize) (\<lambda>sz.
     bindR (parseMerkleFrontier (JNum sz) frontier) (\<lambda>levels.
     Inr (fold (root_step levels) [0..<MERKLE_TREE_DEPTH] (merkleZeros ! 0))))"

record tree_state =
  ts_treeSize :: int
  ts_frontier :: "json list"
  ts_root :: string

definition emptyMerkleTreeState :: tree_state where
  "emptyMerkleTreeState = \<lparr>ts_treeSize = 0, ts_frontier = replicate MERKLE_TREE_DEPTH JNull,
     ts_root = int_text (merkleZeros ! MERKLE_TREE_DEPTH)\<rparr>"

section \<open>Appending\<close>

definition set_level :: "int option list \<Rightarrow> nat \<Rightarrow> int option \<Rightarrow> int option list" where
  \<comment> \<open>\<open>levels[i] = v\<close>: an array grows when it is written at its end\<close>
  "set_level levels i v =
     (if i < length levels then levels[i := v] else levels @ replicate (i - length levels) None @ [v])"

function carry_up :: "nat \<Rightarrow> nat \<Rightarrow> int \<Rightarrow> int option list \<Rightarrow> int option list outcome" where
  "carry_up sz level carry levels =
     (if odd (sz div 2 ^ level) then
        (case (if level < length levels then levels ! level else None) of
           None \<Rightarrow> Inl (Native ''TypeError'')
         | Some left \<Rightarrow> carry_up sz (Suc level) (merkleNode left carry) (set_level levels level None))
      else Inr (set_level levels level (Some carry)))"
  by pat_completeness auto
termination
proof (relation "measure (\<lambda>(sz, level, _). sz div 2 ^ level)", goal_cases)
  case (2 sz level carry levels left)
  then have "0 < sz div 2 ^ level" by (metis even_zero gr0I)
  then show ?case by (simp add: div_mult2_eq [symmetric] mult.commute div_less_dividend flip: div_mult2_eq)
      (metis One_nat_def Suc_1 div_less_dividend div_mult2_eq lessI mult.commute)
qed simp

declare carry_up.simps [simp del]

fun append_each :: "json list \<Rightarrow> nat \<times> int option list \<Rightarrow> (nat \<times> int option list) outcome" where
  "append_each [] state = Inr state"
| "append_each (leaf # rest) (sz, levels) =
     bindR (normalizeFieldElement (JStr (js_to_string leaf))) (\<lambda>s.
     bindR (syntax_int s) (\<lambda>carry.
     bindR (carry_up sz 0 carry levels) (\<lambda>levels'.
     append_each rest (sz + 1, levels'))))"

definition serialize_level :: "int option \<Rightarrow> json" where
  "serialize_level entry = (case entry of None \<Rightarrow> JNull | Some v \<Rightarrow> JStr (int_text v))"

definition root_matches :: "int \<Rightarrow> json \<Rightarrow> json \<Rightarrow> bool outcome" where
  "root_matches sz frontier expectedRoot =
     (if expectedRoot = JNull then Inr True
      else bindR (merkleRootFromFrontier (JNum sz) frontier) (\<lambda>root. Inr (int_text root = js_to_string expectedRoot)))"

definition appendMerkleLeaves :: "json \<Rightarrow> json \<Rightarrow> json \<Rightarrow> json \<Rightarrow> tree_state outcome" where
  \<comment> \<open>\<open>expectedRoot\<close> is \<open>JNull\<close> where the caller gives none\<close>
  "appendMerkleLeaves treeSize frontier expectedRoot leaves =
     bindR (parseTreeSize treeSize) (\<lambda>sz.
     bindR (parseMerkleFrontier (JNum sz) frontier) (\<lambda>levels.
     bindR (root_matches sz frontier expectedRoot) (\<lambda>matches.
     ensureR matches ''MERKLE_FRONTIER_ROOT_MISMATCH''
    (ensureR (is_array leaves \<and> jelems leaves \<noteq> []) ''INVALID_MERKLE_APPEND''
    (ensureR (sz + int (length (jelems leaves)) \<le> MAX_TREE_SIZE) ''MERKLE_TREE_FULL''
    (bindR (append_each (jelems leaves) (nat sz, levels)) (\<lambda>(sz', levels').
     let serialized = map serialize_level levels' in
     bindR (merkleRootFromFrontier (JNum (int sz')) (JArr serialized)) (\<lambda>root.
     Inr \<lparr>ts_treeSize = int sz', ts_frontier = serialized, ts_root = int_text root\<rparr>))))))))"

section \<open>The specification\<close>

primrec mroot :: "nat \<Rightarrow> int list \<Rightarrow> int" where
  "mroot 0 xs = (case xs of [] \<Rightarrow> 0 | x # _ \<Rightarrow> x)"
| "mroot (Suc d) xs = merkleNode (mroot d (take (2 ^ d) xs)) (mroot d (drop (2 ^ d) xs))"

definition block_start :: "nat \<Rightarrow> nat \<Rightarrow> nat" where
  \<comment> \<open>where the leaves below level \<open>d\<close> begin: the size with its low \<open>d\<close> bits cleared\<close>
  "block_start n d = n div 2 ^ d * 2 ^ d"

definition frontier_entry :: "int list \<Rightarrow> nat \<Rightarrow> int option" where
  "frontier_entry xs d =
     (if odd (length xs div 2 ^ d) then Some (mroot d (take (2 ^ d) (drop (block_start (length xs) (Suc d)) xs)))
      else None)"

definition frontier_of :: "int list \<Rightarrow> int option list" where
  "frontier_of xs = map (frontier_entry xs) [0..<MERKLE_TREE_DEPTH]"

definition tree_of :: "int list \<Rightarrow> tree_state" where
  "tree_of xs = \<lparr>ts_treeSize = int (length xs), ts_frontier = map serialize_level (frontier_of xs),
     ts_root = int_text (mroot MERKLE_TREE_DEPTH xs)\<rparr>"

definition is_field :: "int \<Rightarrow> bool" where
  "is_field v = (0 \<le> v \<and> v < BN254_SCALAR_FIELD)"

section \<open>Field elements\<close>

lemma field_pos: "0 < BN254_SCALAR_FIELD"
  by (simp add: BN254_SCALAR_FIELD_def)

lemma poseidon_round_field: "list_all is_field (poseidon_round r s) \<and> length (poseidon_round r s) = 4"
  by (simp add: poseidon_round_def Let_def list_all_iff is_field_def field_pos)

lemma fold_poseidon_field:
  "rs \<noteq> [] \<Longrightarrow> list_all is_field (fold poseidon_round rs s) \<and> length (fold poseidon_round rs s) = 4"
proof (induction rs rule: rev_induct)
  case (snoc r rs)
  then show ?case using poseidon_round_field by simp
qed simp

lemma poseidon3_field: "is_field (poseidon3 a b c)"
proof -
  have "[0..<ROUNDS_F + ROUNDS_P] \<noteq> []" by (simp add: ROUNDS_F_def)
  from fold_poseidon_field [OF this] show ?thesis
    by (simp add: poseidon3_def list_all_length)
qed

lemma merkleNode_field [simp]: "is_field (merkleNode a b)"
  by (simp add: merkleNode_def poseidon3_field)

lemma mroot_field: "list_all is_field xs \<Longrightarrow> is_field (mroot d xs)"
  by (cases d) (auto simp: field_pos is_field_def [of 0] split: list.splits)

lemma push_zeros_nth: "k \<le> n \<Longrightarrow> length (push_zeros n) = Suc n \<and> push_zeros n ! k = mroot k []"
proof (induction n arbitrary: k)
  case (Suc n)
  then have len: "length (push_zeros n) = Suc n" by blast
  show ?case
  proof (cases "k = Suc n")
    case True
    with Suc.IH [of n] len show ?thesis by (simp add: Let_def nth_append)
  next
    case False
    with Suc.prems have "k \<le> n" by simp
    with Suc.IH [of k] Suc.IH [of n] show ?thesis by (simp add: Let_def nth_append)
  qed
qed simp

lemma merkleZeros_nth: "k \<le> MERKLE_TREE_DEPTH \<Longrightarrow> merkleZeros ! k = mroot k []"
  using push_zeros_nth by (simp add: merkleZeros_def)

section \<open>Arithmetic of the frontier\<close>

lemma div_Suc_power: "(n :: nat) div 2 ^ Suc d = n div 2 ^ d div 2"
  by (simp only: power_Suc2 div_mult2_eq)

lemma block_start_Suc: "block_start n (Suc d) = n div 2 ^ d div 2 * 2 * 2 ^ d"
  by (simp only: block_start_def div_Suc_power) simp

lemma block_start_even: "even (n div 2 ^ d) \<Longrightarrow> block_start n (Suc d) = block_start n d"
  by (simp add: block_start_Suc) (simp add: block_start_def)

lemma block_start_odd: "odd (n div 2 ^ d) \<Longrightarrow> block_start n d = block_start n (Suc d) + 2 ^ d"
proof -
  assume "odd (n div 2 ^ d)"
  from odd_two_times_div_two_succ [OF this, symmetric]
  have "n div 2 ^ d = n div 2 ^ d div 2 * 2 + 1" by (simp only: mult.commute)
  from arg_cong [where f = "\<lambda>q. q * 2 ^ d", OF this]
  have "n div 2 ^ d * 2 ^ d = (n div 2 ^ d div 2 * 2 + 1) * 2 ^ d" .
  then show ?thesis unfolding block_start_Suc by (simp add: block_start_def algebra_simps)
qed

lemma block_start_le: "block_start n d \<le> n"
  by (simp add: block_start_def)

lemma block_start_rest: "n - block_start n d < 2 ^ d"
  by (simp add: block_start_def minus_div_mult_eq_mod)

lemma block_start_0 [simp]: "block_start n 0 = n"
  by (simp add: block_start_def)

lemma mroot_partial_step:
  assumes "d < MERKLE_TREE_DEPTH"
  shows "root_step (frontier_of xs) d (mroot d (drop (block_start (length xs) d) xs))
    = mroot (Suc d) (drop (block_start (length xs) (Suc d)) xs)"
proof (cases "odd (length xs div 2 ^ d)")
  case True
  then have "frontier_of xs ! d = Some (mroot d (take (2 ^ d) (drop (block_start (length xs) (Suc d)) xs)))"
    using assms by (simp add: frontier_of_def frontier_entry_def)
  then show ?thesis using block_start_odd [OF True] by (simp add: root_step_def add.commute)
next
  case False
  let ?rest = "drop (block_start (length xs) d) xs"
  have "length ?rest < 2 ^ d" using block_start_rest [of "length xs" d] by simp
  then have "take (2 ^ d) ?rest = ?rest" "drop (2 ^ d) ?rest = []" by simp_all
  moreover have "frontier_of xs ! d = None"
    using False assms by (simp add: frontier_of_def frontier_entry_def)
  moreover have "block_start (length xs) (Suc d) = block_start (length xs) d"
    using False by (simp add: block_start_even)
  ultimately show ?thesis using assms by (simp only: root_step_def mroot.simps merkleZeros_nth option.case less_imp_le)
qed

lemma root_of_frontier:
  assumes "d \<le> MERKLE_TREE_DEPTH"
  shows "fold (root_step (frontier_of xs)) [0..<d] (merkleZeros ! 0) = mroot d (drop (block_start (length xs) d) xs)"
  using assms
proof (induction d)
  case 0
  then show ?case by (simp add: merkleZeros_nth)
next
  case (Suc d)
  then show ?case by (simp add: mroot_partial_step del: mroot.simps)
qed

section \<open>The carry\<close>

text \<open>
  The frontier between two appends: the first \<open>d\<close> entries have been cleared, the others are those of
  the leaves \<open>xs\<close> before the append, and the carry is the root of the last \<open>2 ^ d\<close> leaves.
\<close>

definition cleared_below :: "nat \<Rightarrow> int list \<Rightarrow> int option list" where
  "cleared_below d xs = map (\<lambda>i. if i < d then None else frontier_entry xs i) [0..<MERKLE_TREE_DEPTH]"

lemma cleared_below_0: "cleared_below 0 xs = frontier_of xs"
  by (simp add: cleared_below_def frontier_of_def)

lemma cleared_below_Suc: "d < MERKLE_TREE_DEPTH \<Longrightarrow> set_level (cleared_below d xs) d None = cleared_below (Suc d) xs"
  by (auto simp: set_level_def cleared_below_def nth_list_update intro!: nth_equalityI)

lemma div_all_ones: "(2 ^ d * p + (2 ^ d - 1)) div 2 ^ d = (p :: nat)"
proof -
  obtain k where "(2 :: nat) ^ d = Suc k" by (cases "(2 :: nat) ^ d") auto
  then show ?thesis by (intro div_nat_eqI) simp_all
qed

lemma low_bits_append:
  assumes "2 ^ d dvd Suc n" and "even (n div 2 ^ d)"
  shows "odd (Suc n div 2 ^ d)" and "i > d \<Longrightarrow> Suc n div 2 ^ i = n div 2 ^ i" and "i < d \<Longrightarrow> even (Suc n div 2 ^ i)"
    and "block_start (Suc n) (Suc d) = Suc n - 2 ^ d" and "2 ^ d \<le> Suc n"
proof -
  obtain q where q: "Suc n = 2 ^ d * q" using assms(1) by (elim dvdE)
  then have "0 < q" by (cases q) auto
  then obtain p where p: "q = Suc p" by (cases q) auto
  have n: "n = 2 ^ d * p + (2 ^ d - 1)" using q p by simp
  have "n div 2 ^ d = p" unfolding n by (rule div_all_ones)
  with assms(2) obtain m where m: "p = 2 * m" by (auto elim: evenE)
  have nd: "n div 2 ^ d = 2 * m" using \<open>n div 2 ^ d = p\<close> m by simp
  have sd: "Suc n div 2 ^ d = 2 * m + 1" using q p m by simp
  show "odd (Suc n div 2 ^ d)" using sd by simp
  show "Suc n div 2 ^ i = n div 2 ^ i" if "i > d"
  proof -
    from that obtain k where k: "i = Suc d + k" using less_iff_Suc_add by auto
    have "x div 2 ^ i = x div 2 ^ d div 2 div 2 ^ k" for x :: nat
      by (simp only: k power_add div_mult2_eq div_Suc_power)
    then show ?thesis using nd sd by (simp only:) simp
  qed
  show "even (Suc n div 2 ^ i)" if "i < d"
  proof -
    from that obtain k where k: "d = i + Suc k" using less_iff_Suc_add by auto
    have "Suc n = 2 ^ i * (2 * (2 ^ k * q))" using q by (simp add: k power_add)
    then have "Suc n div 2 ^ i = 2 * (2 ^ k * q)" by simp
    then show ?thesis by simp
  qed
  show "block_start (Suc n) (Suc d) = Suc n - 2 ^ d"
    unfolding block_start_Suc sd using q p m by simp
  show "2 ^ d \<le> Suc n" using q p by simp
qed

lemma all_ones_append:
  assumes "2 ^ d dvd Suc n" and "odd (n div 2 ^ d)"
  shows "2 ^ Suc d dvd Suc n" and "block_start n (Suc d) = Suc n - 2 ^ Suc d" and "2 ^ Suc d \<le> Suc n"
proof -
  obtain q where q: "Suc n = 2 ^ d * q" using assms(1) by (elim dvdE)
  then have "0 < q" by (cases q) auto
  then obtain p where p: "q = Suc p" by (cases q) auto
  have n: "n = 2 ^ d * p + (2 ^ d - 1)" using q p by simp
  have nd: "n div 2 ^ d = p" unfolding n by (rule div_all_ones)
  with assms(2) obtain m where m: "p = 2 * m + 1" by (auto elim: oddE)
  have e: "Suc n = 2 ^ Suc d * Suc m" using q p m by (simp add: algebra_simps)
  then show "2 ^ Suc d dvd Suc n" "2 ^ Suc d \<le> Suc n" by (simp_all del: power_Suc)
  show "block_start n (Suc d) = Suc n - 2 ^ Suc d"
    unfolding block_start_Suc nd using e m by simp
qed

lemma carry_up_frontier:
  assumes "2 ^ d dvd Suc (length xs)" and "d \<le> MERKLE_TREE_DEPTH" and "Suc (length xs) < 2 ^ MERKLE_TREE_DEPTH"
  shows "carry_up (length xs) d (mroot d (drop (Suc (length xs) - 2 ^ d) (xs @ [x]))) (cleared_below d xs)
    = Inr (frontier_of (xs @ [x]))"
  using assms
proof (induction "MERKLE_TREE_DEPTH - d" arbitrary: d)
  case 0
  then have "2 ^ MERKLE_TREE_DEPTH dvd Suc (length xs)" by simp
  with "0.prems"(3) show ?case by (meson dvd_imp_le leD zero_less_Suc)
next
  case (Suc k)
  let ?n = "length xs" and ?c = "mroot d (drop (Suc (length xs) - 2 ^ d) (xs @ [x]))"
  have d: "d < MERKLE_TREE_DEPTH" using Suc.hyps(2) by simp
  show ?case
  proof (cases "odd (?n div 2 ^ d)")
    case True
    note ones = all_ones_append [OF Suc.prems(1) True]
    let ?s = "Suc ?n - 2 ^ Suc d"
    have entry: "cleared_below d xs ! d = Some (mroot d (take (2 ^ d) (drop ?s xs)))"
      using d True ones(2) by (simp add: cleared_below_def frontier_entry_def)
    have "(0 :: nat) < 2 ^ d" by simp
    then have "?s + 2 ^ d \<le> ?n" using ones(3) by (simp only: power_Suc)
    then have "take (2 ^ d) (drop ?s (xs @ [x])) = take (2 ^ d) (drop ?s xs)" by simp
    moreover have "2 ^ d + ?s = Suc ?n - 2 ^ d" using ones(3) by simp
    ultimately have node: "merkleNode (mroot d (take (2 ^ d) (drop ?s xs))) ?c = mroot (Suc d) (drop ?s (xs @ [x]))"
      by (simp only: mroot.simps drop_drop)
    have "carry_up ?n d ?c (cleared_below d xs)
        = carry_up ?n (Suc d) (mroot (Suc d) (drop ?s (xs @ [x]))) (cleared_below (Suc d) xs)"
      using True d entry node cleared_below_Suc [OF d, of xs]
      by (subst carry_up.simps) (simp add: cleared_below_def del: mroot.simps power_Suc)
    also have "\<dots> = Inr (frontier_of (xs @ [x]))"
      using Suc ones(1) d by (intro Suc.hyps(1)) auto
    finally show ?thesis .
  next
    case False
    then have "even (?n div 2 ^ d)" by simp
    note low = low_bits_append [OF Suc.prems(1) this]
    have "set_level (cleared_below d xs) d (Some ?c) = frontier_of (xs @ [x])"
    proof (rule nth_equalityI)
      show "length (set_level (cleared_below d xs) d (Some ?c)) = length (frontier_of (xs @ [x]))"
        using d by (simp add: set_level_def cleared_below_def frontier_of_def)
      fix i assume "i < length (set_level (cleared_below d xs) d (Some ?c))"
      then have i: "i < MERKLE_TREE_DEPTH" using d by (simp add: set_level_def cleared_below_def)
      consider "i < d" | "i = d" | "d < i" by linarith
      then show "set_level (cleared_below d xs) d (Some ?c) ! i = frontier_of (xs @ [x]) ! i"
      proof cases
        case 1
        with low(3) i d show ?thesis
          by (simp add: set_level_def cleared_below_def frontier_of_def frontier_entry_def)
      next
        case 2
        with low i d show ?thesis
          by (simp add: set_level_def cleared_below_def frontier_of_def frontier_entry_def del: drop_append)
      next
        case 3
        have b: "block_start ?n (Suc i) = block_start (Suc ?n) (Suc i)"
          using low(2) [of "Suc i"] 3 by (simp add: block_start_def del: power_Suc)
        have "block_start ?n (Suc i) + 2 ^ i \<le> ?n" if "odd (?n div 2 ^ i)"
          using block_start_odd [OF that] block_start_le [of ?n i] by simp
        then have "odd (?n div 2 ^ i) \<Longrightarrow> take (2 ^ i) (drop (block_start ?n (Suc i)) (xs @ [x]))
            = take (2 ^ i) (drop (block_start ?n (Suc i)) xs)" by simp
        then have "frontier_entry (xs @ [x]) i = frontier_entry xs i"
          using low(2) [OF 3] b by (simp add: frontier_entry_def del: drop_append take_append)
        then show ?thesis using 3 i d
          by (simp add: set_level_def cleared_below_def frontier_of_def)
      qed
    qed
    with False show ?thesis by (subst carry_up.simps) simp
  qed
qed

lemma append_leaf_frontier:
  assumes "Suc (length xs) < 2 ^ MERKLE_TREE_DEPTH"
  shows "carry_up (length xs) 0 x (frontier_of xs) = Inr (frontier_of (xs @ [x]))"
  using carry_up_frontier [of 0 xs x] assms by (simp add: cleared_below_0)

section \<open>The stored text\<close>

lemma mapR_enumerate:
  assumes "\<And>i. i < n \<Longrightarrow> f (i, g i) = Inr (h i)"
  shows "mapR f (enumerate 0 (map g [0..<n])) = Inr (map h [0..<n])"
proof -
  have "enumerate 0 (map g [0..<n]) = map (\<lambda>i. (i, g i)) [0..<n]"
    by (simp add: enumerate_eq_zip list_eq_iff_nth_eq)
  moreover have "mapR f (map k ks) = mapR (f \<circ> k) ks" for k and ks :: "nat list"
    by (induction ks) auto
  moreover have "mapR (f \<circ> (\<lambda>i. (i, g i))) [0..<n] = Inr (map h [0..<n])"
    using assms by (intro mapR_Inr) simp
  ultimately show ?thesis by (simp only:)
qed

lemma parseTreeSize_of_nat: "n < 2 ^ MERKLE_TREE_DEPTH \<Longrightarrow> parseTreeSize (JNum (int n)) = Inr (int n)"
  by (simp add: parseTreeSize_def ensureR_def MAX_TREE_SIZE_def)

lemma normalize_field: "is_field v \<Longrightarrow> normalizeFieldElement (JStr (int_text v)) = Inr (int_text v)"
  by (simp add: is_field_def normalize_int_text)

lemma frontier_entry_field: "list_all is_field xs \<Longrightarrow> frontier_entry xs d = Some v \<Longrightarrow> is_field v"
  by (auto simp: frontier_entry_def list_all_iff split: if_splits intro!: mroot_field dest!: in_set_takeD in_set_dropD)

lemma parse_entry_serialized:
  assumes "list_all is_field xs"
  shows "parse_entry (int (length xs)) (i, serialize_level (frontier_entry xs i)) = Inr (frontier_entry xs i)"
proof -
  have "int (length xs) div 2 ^ i = int (length xs div 2 ^ i)" by (simp add: zdiv_int)
  then have parity: "even (int (length xs) div 2 ^ i) = even (length xs div 2 ^ i)" by simp
  show ?thesis
  proof (cases "frontier_entry xs i")
    case None
    then have "even (length xs div 2 ^ i)" by (auto simp: frontier_entry_def split: if_splits)
    with None parity show ?thesis by (simp add: parse_entry_def serialize_level_def ensureR_def)
  next
    case (Some v)
    then have "odd (length xs div 2 ^ i)" by (auto simp: frontier_entry_def split: if_splits)
    moreover have "normalizeFieldElement (JStr (int_text v)) = Inr (int_text v)"
      using frontier_entry_field [OF assms Some] by (rule normalize_field)
    ultimately show ?thesis using Some parity
      by (simp add: parse_entry_def serialize_level_def nullish_text_def recodeR_def syntax_int_def)
  qed
qed

lemma parse_frontier_of:
  assumes "list_all is_field xs" and "length xs < 2 ^ MERKLE_TREE_DEPTH"
  shows "parseMerkleFrontier (JNum (int (length xs))) (JArr (map serialize_level (frontier_of xs))) = Inr (frontier_of xs)"
proof -
  have "map serialize_level (frontier_of xs) = map (serialize_level \<circ> frontier_entry xs) [0..<MERKLE_TREE_DEPTH]"
    by (simp add: frontier_of_def)
  then show ?thesis
    using mapR_enumerate [where g = "serialize_level \<circ> frontier_entry xs" and h = "frontier_entry xs"]
      parse_entry_serialized [OF assms(1)] parseTreeSize_of_nat [OF assms(2)]
    by (simp add: parseMerkleFrontier_def ensureR_def frontier_of_def)
qed

lemma merkle_root_tree_of:
  assumes "list_all is_field xs" and "length xs < 2 ^ MERKLE_TREE_DEPTH"
  shows "merkleRootFromFrontier (JNum (int (length xs))) (JArr (map serialize_level (frontier_of xs)))
    = Inr (mroot MERKLE_TREE_DEPTH xs)"
  using root_of_frontier [of MERKLE_TREE_DEPTH xs] assms
  by (simp add: merkleRootFromFrontier_def parse_frontier_of parseTreeSize_of_nat block_start_def)

abbreviation leaf_texts :: "int list \<Rightarrow> json list" where
  "leaf_texts xs \<equiv> map (\<lambda>x. JStr (int_text x)) xs"

lemma append_each_frontier:
  assumes "list_all is_field new" and "length xs + length new < 2 ^ MERKLE_TREE_DEPTH"
  shows "append_each (leaf_texts new) (length xs, frontier_of xs) = Inr (length (xs @ new), frontier_of (xs @ new))"
  using assms
proof (induction new arbitrary: xs)
  case (Cons x new)
  then have "carry_up (length xs) 0 x (frontier_of xs) = Inr (frontier_of (xs @ [x]))"
    by (intro append_leaf_frontier) simp
  with Cons.IH [of "xs @ [x]"] Cons.prems show ?case
    by (simp add: normalize_field syntax_int_def)
qed simp

lemma root_matches_tree_of:
  assumes "list_all is_field xs" and "length xs < 2 ^ MERKLE_TREE_DEPTH"
  shows "root_matches (int (length xs)) (JArr (ts_frontier (tree_of xs))) (JStr (ts_root (tree_of xs))) = Inr True"
  using merkle_root_tree_of [OF assms] by (simp add: root_matches_def tree_of_def)

lemma carry_up_returns:
  assumes "length xs < 2 ^ MERKLE_TREE_DEPTH" and "d \<le> MERKLE_TREE_DEPTH"
  shows "\<exists>levels. carry_up (length xs) d c (cleared_below d xs) = Inr levels"
  using assms(2)
proof (induction "MERKLE_TREE_DEPTH - d" arbitrary: d c)
  case 0
  then have "length xs div 2 ^ d = 0" using assms(1) by simp
  then show ?case by (subst carry_up.simps) simp
next
  case (Suc k)
  then have d: "d < MERKLE_TREE_DEPTH" by simp
  have step: "\<exists>levels. carry_up (length xs) (Suc d) c' (cleared_below (Suc d) xs) = Inr levels" for c'
    using Suc d by (intro Suc.hyps(1)) auto
  show ?case
  proof (cases "odd (length xs div 2 ^ d)")
    case True
    then obtain v where "cleared_below d xs ! d = Some v"
      using d by (simp add: cleared_below_def frontier_entry_def)
    then show ?thesis using True d step cleared_below_Suc [OF d, of xs]
      by (subst carry_up.simps) (simp add: cleared_below_def)
  qed (subst carry_up.simps, simp)
qed

lemma append_each_snoc:
  "append_each (ls @ [l]) st = bindR (append_each ls st) (append_each [l])"
  by (induction ls st rule: append_each.induct) (auto simp: bindR_def split: sum.splits)

lemma append_each_full:
  assumes "list_all is_field new" and "length xs + length new = 2 ^ MERKLE_TREE_DEPTH" and "new \<noteq> []"
  shows "\<exists>levels. append_each (leaf_texts new) (length xs, frontier_of xs) = Inr (2 ^ MERKLE_TREE_DEPTH, levels)"
proof -
  obtain init x where new: "new = init @ [x]" using assms(3) by (metis rev_exhaust)
  have len: "length (xs @ init) < 2 ^ MERKLE_TREE_DEPTH" "Suc (length (xs @ init)) = 2 ^ MERKLE_TREE_DEPTH"
    using assms(2) new by simp_all
  have first: "append_each (leaf_texts init) (length xs, frontier_of xs) = Inr (length (xs @ init), frontier_of (xs @ init))"
    using assms new len by (intro append_each_frontier) simp_all
  obtain levels where "carry_up (length (xs @ init)) 0 x (frontier_of (xs @ init)) = Inr levels"
    using carry_up_returns [OF len(1), of 0 x] by (auto simp: cleared_below_0)
  moreover have "is_field x" using assms(1) new by simp
  ultimately have "append_each [JStr (int_text x)] (length (xs @ init), frontier_of (xs @ init))
      = Inr (Suc (length (xs @ init)), levels)"
    by (simp add: normalize_field syntax_int_def)
  then have "append_each (leaf_texts new) (length xs, frontier_of xs) = Inr (Suc (length (xs @ init)), levels)"
    by (simp only: new map_append list.map append_each_snoc first bindR_simps)
  then show ?thesis by (simp only: len(2)) blast
qed

section \<open>Comparing two trees\<close>

primrec find_collision :: "nat \<Rightarrow> int list \<Rightarrow> int list \<Rightarrow> ((int \<times> int) \<times> (int \<times> int)) option" where
  "find_collision 0 xs ys = None"
| "find_collision (Suc d) xs ys =
     (let p = (mroot d (take (2 ^ d) xs), mroot d (drop (2 ^ d) xs));
          q = (mroot d (take (2 ^ d) ys), mroot d (drop (2 ^ d) ys))
      in if p \<noteq> q then Some (p, q)
         else case find_collision d (take (2 ^ d) xs) (take (2 ^ d) ys) of
                Some c \<Rightarrow> Some c
              | None \<Rightarrow> find_collision d (drop (2 ^ d) xs) (drop (2 ^ d) ys))"

lemma mroot_binds:
  "length xs = length ys \<Longrightarrow> length xs \<le> 2 ^ d \<Longrightarrow> mroot d xs = mroot d ys \<Longrightarrow>
     case find_collision d xs ys of
       None \<Rightarrow> xs = ys
     | Some (p, q) \<Rightarrow> p \<noteq> q \<and> merkleNode (fst p) (snd p) = merkleNode (fst q) (snd q)"
proof (induction d arbitrary: xs ys)
  case 0
  then show ?case by (cases xs; cases ys) auto
next
  case (Suc d)
  let ?p = "(mroot d (take (2 ^ d) xs), mroot d (drop (2 ^ d) xs))"
  let ?q = "(mroot d (take (2 ^ d) ys), mroot d (drop (2 ^ d) ys))"
  show ?case
  proof (cases "?p = ?q")
    case False
    with Suc.prems show ?thesis by (auto simp: Let_def)
  next
    case True
    note left = Suc.IH [of "take (2 ^ d) xs" "take (2 ^ d) ys"]
    note right = Suc.IH [of "drop (2 ^ d) xs" "drop (2 ^ d) ys"]
    have "take (2 ^ d) xs = take (2 ^ d) ys \<Longrightarrow> drop (2 ^ d) xs = drop (2 ^ d) ys \<Longrightarrow> xs = ys"
      by (metis append_take_drop_id)
    moreover have "length ys - 2 ^ d \<le> 2 ^ d" using Suc.prems by simp
    ultimately show ?thesis using True left right Suc.prems
      by (auto simp: Let_def split: option.splits)
  qed
qed

lemma empty_tree: "emptyMerkleTreeState = tree_of []"
  by (simp add: emptyMerkleTreeState_def tree_of_def frontier_of_def frontier_entry_def serialize_level_def
      merkleZeros_nth comp_def map_replicate_const)

lemma append_tree:
  assumes "list_all is_field xs" and "list_all is_field new" and "new \<noteq> []"
    and "length xs + length new < 2 ^ 32"
  shows "appendMerkleLeaves (JNum (ts_treeSize (tree_of xs))) (JArr (ts_frontier (tree_of xs)))
    (JStr (ts_root (tree_of xs))) (JArr (leaf_texts new)) = Inr (tree_of (xs @ new))"
proof -
  have len: "length xs + length new < 2 ^ MERKLE_TREE_DEPTH" "length xs < 2 ^ MERKLE_TREE_DEPTH"
    using assms(4) by (simp_all add: MERKLE_TREE_DEPTH_def)
  have "merkleRootFromFrontier (JNum (int (length (xs @ new)))) (JArr (map serialize_level (frontier_of (xs @ new))))
      = Inr (mroot MERKLE_TREE_DEPTH (xs @ new))"
    using assms len by (intro merkle_root_tree_of) simp_all
  moreover have "int (length xs) + int (length new) \<le> MAX_TREE_SIZE"
    using assms(4) by (simp add: MAX_TREE_SIZE_def MERKLE_TREE_DEPTH_def)
  ultimately show ?thesis
    using root_matches_tree_of [OF assms(1) len(2)] append_each_frontier [OF assms(2) len(1)]
      parse_frontier_of [OF assms(1) len(2)] parseTreeSize_of_nat [OF len(2)] assms(3)
    by (simp add: appendMerkleLeaves_def tree_of_def ensureR_def Let_def)
qed

section \<open>Properties\<close>

text \<open>
  C27. The incremental tree implements the tree: appending leaves to the state that stands for a
  list of leaves, against its own root, returns the state that stands for the list with the new
  leaves behind it. The 32 frontier entries and the root after the append are exactly those of the
  tree built from all leaves at once, however the leaves were batched.
\<close>

theorem append_refines_tree:
  assumes "list_all is_field xs" and "list_all is_field new" and "new \<noteq> []"
    and "length xs + length new < 2 ^ 32"
  shows "appendMerkleLeaves (JNum (ts_treeSize (tree_of xs))) (JArr (ts_frontier (tree_of xs)))
    (JStr (ts_root (tree_of xs))) (JArr (leaf_texts new)) = Inr (tree_of (xs @ new))"
  by (rule append_tree [OF assms])

theorem append_refines_tree_witness:
  "appendMerkleLeaves (JNum (ts_treeSize (tree_of [5]))) (JArr (ts_frontier (tree_of [5])))
    (JStr (ts_root (tree_of [5]))) (JArr (leaf_texts [7, 9])) = Inr (tree_of ([5] @ [7, 9]))"
  by (rule append_refines_tree) (simp_all add: is_field_def BN254_SCALAR_FIELD_def)

text \<open>
  The last place of the tree cannot be filled: an append that would bring the tree to exactly
  \<open>2 ^ 32\<close> leaves passes the capacity check, yet fails with \<open>INVALID_MERKLE_TREE_STATE\<close>, because the root
  of the new state is computed by a function that accepts smaller sizes only.
\<close>

theorem last_leaf_rejected:
  assumes "list_all is_field xs" and "list_all is_field new" and "new \<noteq> []"
    and "length xs + length new = 2 ^ 32"
  shows "appendMerkleLeaves (JNum (ts_treeSize (tree_of xs))) (JArr (ts_frontier (tree_of xs)))
    (JStr (ts_root (tree_of xs))) (JArr (leaf_texts new)) = Inl (Coded ''INVALID_MERKLE_TREE_STATE'')"
proof -
  have len: "length xs + length new = 2 ^ MERKLE_TREE_DEPTH"
    using assms(4) by (simp add: MERKLE_TREE_DEPTH_def)
  have "0 < length new" using assms(3) by simp
  with len have lt: "length xs < 2 ^ MERKLE_TREE_DEPTH" by linarith
  obtain levels where "append_each (leaf_texts new) (length xs, frontier_of xs) = Inr (2 ^ MERKLE_TREE_DEPTH, levels)"
    using append_each_full [OF assms(2) len assms(3)] by blast
  moreover have "parseTreeSize (JNum (2 ^ MERKLE_TREE_DEPTH)) = Inl (Coded ''INVALID_MERKLE_TREE_STATE'')"
    by (simp add: parseTreeSize_def ensureR_def MAX_TREE_SIZE_def)
  moreover have "int (length xs) + int (length new) \<le> MAX_TREE_SIZE"
    using assms(4) by (simp add: MAX_TREE_SIZE_def MERKLE_TREE_DEPTH_def)
  ultimately show ?thesis
    using root_matches_tree_of [OF assms(1) lt]
      parse_frontier_of [OF assms(1) lt] parseTreeSize_of_nat [OF lt] assms(3)
    by (simp add: appendMerkleLeaves_def merkleRootFromFrontier_def tree_of_def ensureR_def Let_def)
qed

definition full_but_one :: "int list" where
  "full_but_one = replicate (2 ^ 32 - 1) 1"

theorem last_leaf_rejected_witness:
  "appendMerkleLeaves (JNum (ts_treeSize (tree_of full_but_one))) (JArr (ts_frontier (tree_of full_but_one)))
    (JStr (ts_root (tree_of full_but_one))) (JArr (leaf_texts [1])) = Inl (Coded ''INVALID_MERKLE_TREE_STATE'')"
  by (rule last_leaf_rejected)
    (simp_all add: is_field_def BN254_SCALAR_FIELD_def full_but_one_def list_all_length)

section \<open>A tree filled by appends\<close>

text \<open>
  The gate of the ledger fills the tree batch after batch: every append starts from the size, the
  frontier and the root the one before it stored. Leaves are any values whose text is a field element.
\<close>

primrec append_batches :: "json list list \<Rightarrow> tree_state \<Rightarrow> tree_state outcome" where
  "append_batches [] s = Inr s"
| "append_batches (leaves # rest) s =
     bindR (appendMerkleLeaves (JNum (ts_treeSize s)) (JArr (ts_frontier s)) (JStr (ts_root s)) (JArr leaves))
       (append_batches rest)"

definition leaf_number :: "json \<Rightarrow> int option" where
  \<comment> \<open>\<open>BigInt(normalizeFieldElement(String(leaf)))\<close>\<close>
  "leaf_number leaf = (case bindR (normalizeFieldElement (JStr (js_to_string leaf))) syntax_int of
     Inl _ \<Rightarrow> None | Inr n \<Rightarrow> Some n)"

definition leaves_are :: "json list \<Rightarrow> int list \<Rightarrow> bool" where
  "leaves_are leaves xs = (map leaf_number leaves = map Some xs)"

lemma parse_digits_nonneg: "parse_digits b s = Some n \<Longrightarrow> 0 \<le> n"
  by (auto simp: parse_digits_def split: if_splits)

lemma decimal_nonneg:
  assumes "canonical_decimal s" and "bigint_of_string s = Some n"
  shows "0 \<le> n"
proof -
  have d: "s \<noteq> [] \<and> is_digit (hd s)"
    using assms(1) by (cases s) (auto simp: canonical_decimal_def is_digit_def)
  have "dropWhile js_space s = s" using d by (cases s) (auto simp: is_digit_def js_space_def)
  then have "js_trim s @ rev (takeWhile js_space (rev s)) = s"
    by (simp add: js_trim_def) (metis rev_append rev_rev_ident takeWhile_dropWhile_id)
  then have "js_trim s \<noteq> [] \<Longrightarrow> hd (js_trim s) = hd s" by (metis hd_append2)
  then have "js_trim s \<noteq> [] \<Longrightarrow> hd (js_trim s) \<noteq> CHR ''-''" using d by (auto simp: is_digit_def)
  with assms(2) show ?thesis by (auto simp: bigint_of_string_def Let_def dest: parse_digits_nonneg split: if_splits)
qed

lemma leaf_number_field: "normalizeFieldElement (JStr (js_to_string leaf)) = Inr s \<Longrightarrow> syntax_int s = Inr n \<Longrightarrow> is_field n"
  by (auto simp: normalizeFieldElement_Inr syntax_int_def is_field_def dest: decimal_nonneg split: option.splits)

lemma append_each_numbers:
  assumes "append_each leaves st = Inr r"
  obtains xs where "leaves_are leaves xs" and "list_all is_field xs" and "append_each (leaf_texts xs) st = Inr r"
  using assms
proof (induction leaves st arbitrary: thesis rule: append_each.induct)
  case (2 leaf rest n levels)
  then obtain s x levels' where s: "normalizeFieldElement (JStr (js_to_string leaf)) = Inr s" "syntax_int s = Inr x"
    and up: "carry_up n 0 x levels = Inr levels'" and rest: "append_each rest (n + 1, levels') = Inr r"
    by (auto simp: bindR_Inr)
  have num: "leaf_number leaf = Some x" "is_field x" using s leaf_number_field [OF s] by (simp_all add: leaf_number_def)
  obtain xs where "leaves_are rest xs" "list_all is_field xs" "append_each (leaf_texts xs) (n + 1, levels') = Inr r"
    by (rule "2.IH" [OF _ rest])
  with num up show ?case
    by (intro "2.prems"(1) [of "x # xs"]) (simp_all add: leaves_are_def normalize_field syntax_int_def)
qed (simp add: leaves_are_def)

lemma append_any:
  assumes "list_all is_field xs" and "length xs < 2 ^ 32"
    and "appendMerkleLeaves (JNum (ts_treeSize (tree_of xs))) (JArr (ts_frontier (tree_of xs)))
      (JStr (ts_root (tree_of xs))) (JArr leaves) = Inr t"
  obtains new where "leaves_are leaves new" and "list_all is_field new" and "length xs + length new < 2 ^ 32" and "t = tree_of (xs @ new)"
proof -
  have len: "length xs < 2 ^ MERKLE_TREE_DEPTH" using assms(2) by (simp add: MERKLE_TREE_DEPTH_def)
  note start = root_matches_tree_of [OF assms(1) len] parse_frontier_of [OF assms(1) len] parseTreeSize_of_nat [OF len]
  obtain r root where each: "append_each leaves (length xs, frontier_of xs) = Inr r" and "leaves \<noteq> []"
    and cap: "int (length xs) + int (length leaves) \<le> MAX_TREE_SIZE"
    and root: "merkleRootFromFrontier (JNum (int (fst r))) (JArr (map serialize_level (snd r))) = Inr root"
    using assms(3) start
    by (simp add: appendMerkleLeaves_def tree_of_def bindR_Inr ensureR_Inr Let_def case_prod_unfold) (elim exE conjE, rule that, simp+)
  obtain new where new: "leaves_are leaves new" "list_all is_field new" and texts: "append_each (leaf_texts new) (length xs, frontier_of xs) = Inr r"
    by (rule append_each_numbers [OF each])
  have "map leaf_number leaves = map Some new" using new(1) by (simp add: leaves_are_def)
  from arg_cong [where f = length, OF this] have n: "length new = length leaves" by simp
  have less: "length xs + length new < 2 ^ MERKLE_TREE_DEPTH"
  proof (rule ccontr)
    assume "\<not> ?thesis"
    moreover have "int (length xs + length new) \<le> int (2 ^ MERKLE_TREE_DEPTH)" using cap n by (simp add: MAX_TREE_SIZE_def)
    then have "length xs + length new \<le> 2 ^ MERKLE_TREE_DEPTH" by (simp only: of_nat_le_iff)
    ultimately have "length xs + length new = 2 ^ MERKLE_TREE_DEPTH" by simp
    moreover have "new \<noteq> []" using n \<open>leaves \<noteq> []\<close> by (cases new) simp_all
    ultimately obtain levels' where "append_each (leaf_texts new) (length xs, frontier_of xs) = Inr (2 ^ MERKLE_TREE_DEPTH, levels')"
      using append_each_full [OF new(2)] by blast
    with texts have "fst r = 2 ^ MERKLE_TREE_DEPTH" by auto
    with root show False by (simp add: merkleRootFromFrontier_def parseTreeSize_def ensureR_def MAX_TREE_SIZE_def)
  qed
  have "new \<noteq> []" "length xs + length new < 2 ^ 32" using \<open>leaves \<noteq> []\<close> n less by (auto simp: MERKLE_TREE_DEPTH_def)
  moreover have "r = (length (xs @ new), frontier_of (xs @ new))"
    using append_each_frontier [OF new(2) less] texts by simp
  moreover have "merkleRootFromFrontier (JNum (int (length (xs @ new)))) (JArr (map serialize_level (frontier_of (xs @ new))))
      = Inr (mroot MERKLE_TREE_DEPTH (xs @ new))"
    using assms(1) new(2) less by (intro merkle_root_tree_of) simp_all
  ultimately have "t = tree_of (xs @ new)"
    using assms(3) start each \<open>leaves \<noteq> []\<close> cap by (simp add: appendMerkleLeaves_def tree_of_def ensureR_def Let_def)
  with new \<open>length xs + length new < 2 ^ 32\<close> show thesis by (rule that)
qed

lemma append_batches_tree:
  assumes "append_batches bs (tree_of xs) = Inr t" and "list_all is_field xs" and "length xs < 2 ^ 32"
  obtains new where "leaves_are (concat bs) new" and "list_all is_field new" and "length xs + length new < 2 ^ 32" and "t = tree_of (xs @ new)"
  using assms
proof (induction bs arbitrary: xs thesis)
  case Nil
  then show ?case by (simp add: leaves_are_def)
next
  case (Cons b bs)
  obtain u where u: "appendMerkleLeaves (JNum (ts_treeSize (tree_of xs))) (JArr (ts_frontier (tree_of xs)))
      (JStr (ts_root (tree_of xs))) (JArr b) = Inr u" and rest: "append_batches bs u = Inr t"
    using Cons.prems(2) by (auto simp: bindR_Inr)
  obtain new where new: "leaves_are b new" "list_all is_field new" "length xs + length new < 2 ^ 32" "u = tree_of (xs @ new)"
    by (rule append_any [OF Cons.prems(3,4) u])
  have "list_all is_field (xs @ new)" "length (xs @ new) < 2 ^ 32" using Cons.prems(3) new by simp_all
  then obtain more where "leaves_are (concat bs) more" "list_all is_field more" "length (xs @ new) + length more < 2 ^ 32" "t = tree_of ((xs @ new) @ more)"
    using Cons.IH [OF _ rest [unfolded new(4)]] by blast
  with new show ?case by (intro Cons.prems(1) [of "new @ more"]) (simp_all add: leaves_are_def)
qed

lemma collision_fields:
  "list_all is_field xs \<Longrightarrow> list_all is_field ys \<Longrightarrow> find_collision d xs ys = Some (p, q) \<Longrightarrow>
     is_field (fst p) \<and> is_field (snd p) \<and> is_field (fst q) \<and> is_field (snd q)"
proof (induction d arbitrary: xs ys)
  case (Suc d)
  have cut: "list_all is_field (take n zs)" "list_all is_field (drop n zs)" if "list_all is_field zs" for n zs
    using that by (auto simp: list_all_iff dest: in_set_takeD in_set_dropD)
  show ?case
    using Suc.prems(3) Suc.IH [OF cut(1) cut(1), OF Suc.prems(1,2)] Suc.IH [OF cut(2) cut(2), OF Suc.prems(1,2)]
      mroot_field [OF cut(1) [OF Suc.prems(1)]] mroot_field [OF cut(2) [OF Suc.prems(1)]]
      mroot_field [OF cut(1) [OF Suc.prems(2)]] mroot_field [OF cut(2) [OF Suc.prems(2)]]
    by (auto simp: Let_def split: if_splits option.splits)
qed simp

text \<open>
  C29. The stored root binds what was appended. Fill two trees from the empty one by any appends the
  code accepts, in batches of any sizes: if they end with the same number of leaves and the same root, then
  the same field elements were appended in the same order, or comparing the two trees from the root downwards
  finds a collision of the node hash, two different pairs of field elements with the same parent.
\<close>

theorem root_binds_leaves:
  assumes "append_batches bs emptyMerkleTreeState = Inr s" and "append_batches cs emptyMerkleTreeState = Inr t"
    and "ts_treeSize s = ts_treeSize t" and "ts_root s = ts_root t"
  shows "\<exists>xs ys. leaves_are (concat bs) xs \<and> leaves_are (concat cs) ys
    \<and> (case find_collision 32 xs ys of
         None \<Rightarrow> xs = ys
       | Some (p, q) \<Rightarrow> p \<noteq> q \<and> merkleNode (fst p) (snd p) = merkleNode (fst q) (snd q)
           \<and> list_all is_field [fst p, snd p, fst q, snd q])"
proof -
  obtain xs where xs: "leaves_are (concat bs) xs" "list_all is_field xs" "length xs < 2 ^ 32" "s = tree_of xs"
    by (rule append_batches_tree [OF assms(1) [unfolded empty_tree]]) auto
  obtain ys where ys: "leaves_are (concat cs) ys" "list_all is_field ys" "t = tree_of ys"
    by (rule append_batches_tree [OF assms(2) [unfolded empty_tree]]) auto
  have "bigint_of_string (ts_root s) = bigint_of_string (ts_root t)" using assms(4) by simp
  then have "mroot 32 xs = mroot 32 ys" "length xs = length ys"
    using assms(3) xs(4) ys(3) by (simp_all add: tree_of_def MERKLE_TREE_DEPTH_def del: mroot.simps)
  then have "case find_collision 32 xs ys of
       None \<Rightarrow> xs = ys
     | Some (p, q) \<Rightarrow> p \<noteq> q \<and> merkleNode (fst p) (snd p) = merkleNode (fst q) (snd q)"
    using mroot_binds [of xs ys 32] xs(3) by simp
  with xs(1) ys(1) collision_fields [OF xs(2) ys(2)] show ?thesis
    by (intro exI [of _ xs] exI [of _ ys]) (auto split: option.splits)
qed

text \<open>Three leaves, once in one batch and two, once in two and one.\<close>

lemma small_batches:
  "append_batches [leaf_texts [5], leaf_texts [7, 9]] emptyMerkleTreeState = Inr (tree_of [5, 7, 9])"
  "append_batches [leaf_texts [5, 7], leaf_texts [9]] emptyMerkleTreeState = Inr (tree_of [5, 7, 9])"
proof -
  have f: "is_field 5" "is_field 7" "is_field 9" by (simp_all add: is_field_def BN254_SCALAR_FIELD_def)
  show "append_batches [leaf_texts [5], leaf_texts [7, 9]] emptyMerkleTreeState = Inr (tree_of [5, 7, 9])"
    using append_tree [of "[]" "[5]"] append_tree [of "[5]" "[7, 9]"] f by (simp add: empty_tree)
  show "append_batches [leaf_texts [5, 7], leaf_texts [9]] emptyMerkleTreeState = Inr (tree_of [5, 7, 9])"
    using append_tree [of "[]" "[5, 7]"] append_tree [of "[5, 7]" "[9]"] f by (simp add: empty_tree)
qed

theorem root_binds_leaves_witness:
  "\<exists>xs ys. leaves_are (concat [leaf_texts [5], leaf_texts [7, 9]]) xs \<and> leaves_are (concat [leaf_texts [5, 7], leaf_texts [9]]) ys
    \<and> (case find_collision 32 xs ys of
         None \<Rightarrow> xs = ys
       | Some (p, q) \<Rightarrow> p \<noteq> q \<and> merkleNode (fst p) (snd p) = merkleNode (fst q) (snd q)
           \<and> list_all is_field [fst p, snd p, fst q, snd q])"
  by (rule root_binds_leaves [OF small_batches(1) small_batches(2) refl refl])

end
