(* ===== verification/RuntimeConfig.thy ===== *)
theory RuntimeConfig
  imports Outcome
begin

text \<open>
  The runtime configuration, \<open>src/runtime-config.js\<close>: the record the process environment is read
  into and the checks that reject an unsafe combination, the local encryption key, and the loading of
  the key-management provider.

  The environment is a partial map. The platform's URL parser and path resolution are arguments
  (\<open>url_of\<close>, where \<open>None\<close> is the exception of \<open>new URL\<close>, and \<open>resolve\<close>).
\<close>

record url =
  u_protocol :: string
  u_origin :: string
  u_username :: string
  u_password :: string
  u_search :: string
  u_hash :: string
  u_hostname :: string
  u_params :: "string \<Rightarrow> string option"

record runtime_config =
  rc_deploymentProfile :: string
  rc_nodeEnvironment :: string
  rc_tenantId :: string
  rc_defaultProductId :: "string option"
  rc_storageMode :: string
  rc_databaseUrl :: "string option"
  rc_authMode :: string
  rc_host :: string
  rc_sandboxContainerBind :: bool
  rc_publicOrigin :: "string option"
  rc_cookieSecure :: bool
  rc_encryptionKeyHex :: "string option"
  rc_encryptionKeyId :: string
  rc_envelopeCipherMode :: string
  rc_kmsProviderModule :: "string option"
  rc_kmsKeyId :: "string option"
  rc_economicCommitmentKmsKeyId :: "string option"
  rc_allowLocalDevelopmentKey :: bool
  rc_localKeyFile :: string
  rc_zkMode :: string
  rc_zkArtifactDirectory :: "string option"
  rc_zkManifestSha256 :: "string option"
  rc_proverMode :: string
  rc_proverEndpoint :: "string option"
  rc_proverServiceToken :: "string option"
  rc_proverExpectedServiceId :: "string option"

type_synonym env = "string \<Rightarrow> string option"

definition env_or :: "env \<Rightarrow> string \<Rightarrow> string \<Rightarrow> string" where
  "env_or env name fallback = (case env name of None \<Rightarrow> fallback | Some v \<Rightarrow> v)"

definition resolved :: "(string \<Rightarrow> string) \<Rightarrow> string option \<Rightarrow> string option" where
  \<comment> \<open>\<open>v ? resolve(cwd, v) : null\<close>\<close>
  "resolved resolve v = (if present v then map_option resolve v else None)"

definition read_config :: "(string \<Rightarrow> string) \<Rightarrow> env \<Rightarrow> runtime_config" where
  "read_config resolve env =
     \<lparr>rc_deploymentProfile = env_or env ''DEPLOYMENT_PROFILE'' ''sandbox'',
      rc_nodeEnvironment = env_or env ''NODE_ENV'' ''development'',
      rc_tenantId = env_or env ''TENANT_ID'' ''sandbox-hk'',
      rc_defaultProductId = env ''DEFAULT_PRODUCT_ID'',
      rc_storageMode = env_or env ''STORAGE_MODE'' ''memory'',
      rc_databaseUrl = env ''DATABASE_URL'',
      rc_authMode = env_or env ''AUTH_MODE'' ''sandbox'',
      rc_host = env_or env ''HOST'' ''127.0.0.1'',
      rc_sandboxContainerBind = (env ''SANDBOX_CONTAINER_BIND'' = Some ''true''),
      rc_publicOrigin = env ''PUBLIC_ORIGIN'',
      rc_cookieSecure = (env ''COOKIE_SECURE'' = Some ''true''),
      rc_encryptionKeyHex = env ''ENCRYPTION_KEY_HEX'',
      rc_encryptionKeyId = env_or env ''ENCRYPTION_KEY_ID'' ''local-dev-v1'',
      rc_envelopeCipherMode = env_or env ''ENVELOPE_CIPHER_MODE'' ''local'',
      rc_kmsProviderModule = resolved resolve (env ''KMS_PROVIDER_MODULE''),
      rc_kmsKeyId = env ''KMS_KEY_ID'',
      rc_economicCommitmentKmsKeyId = env ''ECONOMIC_COMMITMENT_KMS_KEY_ID'',
      rc_allowLocalDevelopmentKey = (env ''ALLOW_LOCAL_DEV_KEY'' = Some ''true''),
      rc_localKeyFile = resolve (env_or env ''LOCAL_KEY_FILE'' ''.local/dev-encryption-key.json''),
      rc_zkMode = env_or env ''ZK_MODE'' ''disabled'',
      rc_zkArtifactDirectory = resolved resolve (env ''ZK_ARTIFACT_DIR''),
      rc_zkManifestSha256 = env ''ZK_ARTIFACT_MANIFEST_SHA256'',
      rc_proverMode = env_or env ''PROVER_MODE'' ''disabled'',
      rc_proverEndpoint = env ''PROVER_ENDPOINT'',
      rc_proverServiceToken = env ''PROVER_SERVICE_TOKEN'',
      rc_proverExpectedServiceId = env ''PROVER_EXPECTED_SERVICE_ID''\<rparr>"

section \<open>Placeholders\<close>

definition fold_case :: "char \<Rightarrow> char" where
  \<comment> \<open>the upper case of a letter\<close>
  "fold_case c =
     (case map_of (zip ''abcdefghijklmnopqrstuvwxyz'' ''ABCDEFGHIJKLMNOPQRSTUVWXYZ'') c of None \<Rightarrow> c | Some u \<Rightarrow> u)"

definition word_char :: "char \<Rightarrow> bool" where
  \<comment> \<open>\<open>[A-Z0-9_]\<close> after case folding\<close>
  "word_char c = (is_upper c \<or> is_digit c \<or> c = CHR ''_'')"

definition starts_word :: "string \<Rightarrow> string \<Rightarrow> bool" where
  \<comment> \<open>the prefix followed by \<open>[A-Z0-9_]+\<close>\<close>
  "starts_word p s = (take (length p) s = p \<and> (case drop (length p) s of [] \<Rightarrow> False | c # _ \<Rightarrow> word_char c))"

definition placeholder_at :: "string \<Rightarrow> bool" where
  "placeholder_at s =
     (take 10 s = ''REPLACE_ME'' \<or> starts_word ''REPLACE_WITH_'' s \<or> take 9 s = ''CHANGE_ME''
      \<or> take 8 s = ''CHANGEME'' \<or> starts_word ''YOUR_'' s)"

fun any_suffix :: "(string \<Rightarrow> bool) \<Rightarrow> string \<Rightarrow> bool" where
  "any_suffix p [] = p []"
| "any_suffix p (c # s) = (p (c # s) \<or> any_suffix p s)"

definition is_placeholder :: "string \<Rightarrow> bool" where
  \<comment> \<open>\<open>DEPLOYMENT_PLACEHOLDER.test(s)\<close>\<close>
  "is_placeholder s = any_suffix placeholder_at (map fold_case s)"

section \<open>The checks\<close>

definition url_or_null :: "(string \<Rightarrow> url option) \<Rightarrow> string option \<Rightarrow> url option" where
  \<comment> \<open>\<open>new URL(value)\<close>, which reads a null as the text null\<close>
  "url_or_null url_of v = url_of (case v of None \<Rightarrow> ''null'' | Some s \<Rightarrow> s)"

definition https_origin :: "(string \<Rightarrow> url option) \<Rightarrow> string option \<Rightarrow> bool" where
  "https_origin url_of origin =
     (case url_or_null url_of origin of
        None \<Rightarrow> False
      | Some u \<Rightarrow> u_protocol u = ''https:'' \<and> Some (u_origin u) = origin)"

definition verified_tls :: "(string \<Rightarrow> url option) \<Rightarrow> string \<Rightarrow> bool" where
  "verified_tls url_of database =
     (case url_of database of
        None \<Rightarrow> False
      | Some u \<Rightarrow> u_protocol u \<in> {''postgres:'', ''postgresql:''} \<and> u_params u ''sslmode'' = Some ''verify-full'')"

definition clean_endpoint :: "(string \<Rightarrow> url option) \<Rightarrow> string option \<Rightarrow> bool" where
  "clean_endpoint url_of endpoint =
     (case url_or_null url_of endpoint of
        None \<Rightarrow> False
      | Some u \<Rightarrow> u_protocol u = ''https:'' \<and> u_username u = [] \<and> u_password u = []
          \<and> u_search u = [] \<and> u_hash u = [])"

definition check_profile :: "runtime_config \<Rightarrow> unit outcome" where
  "check_profile c = guards
     [(rc_deploymentProfile c \<notin> {''sandbox'', ''production''}, ''INVALID_DEPLOYMENT_PROFILE''),
      (rc_nodeEnvironment c = ''production'' \<and> rc_deploymentProfile c \<noteq> ''production'', ''PRODUCTION_PROFILE_REQUIRED''),
      (rc_storageMode c \<notin> {''memory'', ''postgres''}, ''INVALID_STORAGE_MODE'')]"

definition check_access :: "(string \<Rightarrow> url option) \<Rightarrow> runtime_config \<Rightarrow> unit outcome" where
  "check_access url_of c = guards
     [(rc_authMode c \<notin> {''sandbox'', ''oidc''}, ''INVALID_AUTH_MODE''),
      (rc_authMode c = ''sandbox'' \<and> rc_host c \<notin> {''127.0.0.1'', ''::1'', ''localhost''} \<and> \<not> rc_sandboxContainerBind c,
        ''SANDBOX_REMOTE_BIND_FORBIDDEN''),
      (rc_sandboxContainerBind c \<and> rc_deploymentProfile c = ''production'', ''SANDBOX_REMOTE_BIND_FORBIDDEN''),
      (rc_envelopeCipherMode c \<notin> {''local'', ''kms''}, ''INVALID_ENVELOPE_CIPHER_MODE''),
      (rc_authMode c = ''oidc'' \<and> rc_storageMode c \<noteq> ''postgres'', ''PRODUCTION_AUTH_REQUIRES_POSTGRES''),
      (rc_authMode c = ''oidc'' \<and> \<not> rc_cookieSecure c, ''SECURE_COOKIE_REQUIRED''),
      (rc_authMode c = ''oidc'' \<and> \<not> https_origin url_of (rc_publicOrigin c), ''PUBLIC_ORIGIN_REQUIRED''),
      (rc_authMode c = ''oidc'' \<and> present (rc_databaseUrl c) \<and> \<not> verified_tls url_of (or_empty (rc_databaseUrl c)),
        ''DATABASE_TLS_REQUIRED''),
      (rc_storageMode c = ''postgres'' \<and> \<not> present (rc_databaseUrl c), ''DATABASE_URL_REQUIRED'')]"

definition check_zk :: "runtime_config \<Rightarrow> unit outcome" where
  "check_zk c = guards
     [(rc_zkMode c \<notin> {''disabled'', ''groth16''}, ''INVALID_ZK_MODE''),
      (rc_zkMode c = ''groth16'' \<and> rc_storageMode c \<noteq> ''postgres'', ''GROTH16_REQUIRES_POSTGRES''),
      (rc_zkMode c = ''groth16'' \<and> \<not> present (rc_zkArtifactDirectory c), ''ZK_ARTIFACT_DIR_REQUIRED''),
      (rc_zkMode c = ''groth16'' \<and> \<not> hex_text 64 (or_empty (rc_zkManifestSha256 c)), ''ZK_MANIFEST_HASH_REQUIRED'')]"

definition check_prover :: "(string \<Rightarrow> url option) \<Rightarrow> runtime_config \<Rightarrow> unit outcome" where
  "check_prover url_of c = guards
     ((rc_proverMode c \<notin> {''disabled'', ''isolated''}, ''INVALID_PROVER_MODE'') #
      (if rc_proverMode c = ''isolated'' then
         [(rc_zkMode c \<noteq> ''groth16'' \<or> rc_storageMode c \<noteq> ''postgres'', ''ISOLATED_PROVER_REQUIRES_GROTH16''),
          (\<not> clean_endpoint url_of (rc_proverEndpoint c), ''PROVER_ENDPOINT_REQUIRED''),
          (length (or_empty (rc_proverServiceToken c)) < 32, ''PROVER_CREDENTIAL_REQUIRED''),
          (\<not> id_text ''._:-'' 199 (or_empty (rc_proverExpectedServiceId c)), ''PROVER_IDENTITY_REQUIRED'')]
       else []))"

definition check_keys :: "runtime_config \<Rightarrow> unit outcome" where
  "check_keys c = guards
     ([(rc_storageMode c = ''postgres'' \<and> rc_envelopeCipherMode c = ''local'' \<and> \<not> present (rc_encryptionKeyHex c)
          \<and> \<not> rc_allowLocalDevelopmentKey c, ''ENCRYPTION_KEY_REQUIRED''),
       (present (rc_encryptionKeyHex c) \<and> \<not> hex_text_any 64 (or_empty (rc_encryptionKeyHex c)), ''INVALID_ENCRYPTION_KEY'')] @
      (if rc_envelopeCipherMode c = ''kms'' then
         [(\<not> present (rc_kmsProviderModule c), ''KMS_PROVIDER_REQUIRED''),
          (\<not> id_text ''._:/-'' 255 (or_empty (rc_kmsKeyId c)), ''KMS_KEY_ID_REQUIRED'')]
       else []))"

definition production_values :: "runtime_config \<Rightarrow> string list" where
  "production_values c = map the (filter (\<lambda>v. v \<noteq> None)
     [Some (rc_tenantId c), rc_databaseUrl c, rc_publicOrigin c, rc_kmsProviderModule c, rc_kmsKeyId c,
      rc_economicCommitmentKmsKeyId c, rc_zkArtifactDirectory c, rc_zkManifestSha256 c, rc_proverEndpoint c,
      rc_proverServiceToken c, rc_proverExpectedServiceId c])"

definition check_production :: "runtime_config \<Rightarrow> unit outcome" where
  "check_production c = guards
     (if rc_deploymentProfile c = ''production'' then
        [(rc_nodeEnvironment c \<noteq> ''production'', ''PRODUCTION_NODE_ENV_REQUIRED''),
         (rc_storageMode c \<noteq> ''postgres'' \<or> rc_authMode c \<noteq> ''oidc'', ''PRODUCTION_DURABILITY_REQUIRED''),
         (\<not> id_text ''._:-'' 199 (rc_tenantId c) \<or> rc_tenantId c = ''sandbox-hk'', ''PRODUCTION_TENANT_REQUIRED''),
         (rc_envelopeCipherMode c \<noteq> ''kms'', ''PRODUCTION_KMS_REQUIRED''),
         (present (rc_encryptionKeyHex c) \<or> rc_allowLocalDevelopmentKey c, ''LOCAL_KEY_FORBIDDEN_IN_PRODUCTION''),
         (\<not> id_text ''._:/-'' 255 (or_empty (rc_economicCommitmentKmsKeyId c)), ''ECONOMIC_COMMITMENT_KMS_KEY_REQUIRED''),
         (list_ex is_placeholder (production_values c), ''PRODUCTION_PLACEHOLDER_FORBIDDEN'')]
      else [])"

definition loadRuntimeConfig ::
  "(string \<Rightarrow> url option) \<Rightarrow> (string \<Rightarrow> string) \<Rightarrow> env \<Rightarrow> runtime_config outcome" where
  "loadRuntimeConfig url_of resolve env =
     (let config = read_config resolve env in
      bindR (check_profile config) (\<lambda>_.
      bindR (check_access url_of config) (\<lambda>_.
      bindR (check_zk config) (\<lambda>_.
      bindR (check_prover url_of config) (\<lambda>_.
      bindR (check_keys config) (\<lambda>_.
      bindR (check_production config) (\<lambda>_.
      Inr config)))))))"

section \<open>The local encryption key\<close>

definition saved_key :: "runtime_config \<Rightarrow> json \<Rightarrow> string outcome" where
  \<comment> \<open>the key of a parsed key file, as the hexadecimal text of its bytes\<close>
  "saved_key config saved =
     nativeR (saved \<noteq> JNull) ''TypeError''
    (ensureR (jfield saved ''keyId'' = JStr (rc_encryptionKeyId config)
        \<and> hex_text 64 (case jfield saved ''keyHex'' of JUndefined \<Rightarrow> [] | JNull \<Rightarrow> [] | v \<Rightarrow> js_to_string v))
      ''INVALID_LOCAL_KEY_FILE''
    (Inr (js_to_string (jfield saved ''keyHex''))))"

definition resolveEncryptionKey ::
  "json outcome \<Rightarrow> unit outcome \<Rightarrow> string \<Rightarrow> unit outcome \<Rightarrow> json outcome \<Rightarrow> runtime_config \<Rightarrow> string outcome" where
  \<comment> \<open>\<open>first\<close> and \<open>second\<close> are the outcomes of the two reads of the file, \<open>made\<close> that of creating its
     directory, \<open>fresh\<close> the random key and \<open>written\<close> the outcome of the exclusive creation; a file error
     carries its platform code\<close>
  "resolveEncryptionKey first made fresh written second config =
     ensureR (rc_envelopeCipherMode config = ''local'') ''LOCAL_KEY_MODE_REQUIRED''
    (if present (rc_encryptionKeyHex config) then Inr (or_empty (rc_encryptionKeyHex config))
     else ensureR (rc_allowLocalDevelopmentKey config) ''ENCRYPTION_KEY_REQUIRED''
       (case bindR first (saved_key config) of
          Inr key \<Rightarrow> Inr key
        | Inl e \<Rightarrow>
            if e \<noteq> Coded ''ENOENT'' then Inl e
            else bindR made (\<lambda>_.
              case written of
                Inr _ \<Rightarrow> Inr fresh
              | Inl e' \<Rightarrow> if e' \<noteq> Coded ''EEXIST'' then Inl e' else bindR second (saved_key config))))"

section \<open>The key-management provider\<close>

record kms_provider =
  has_wrapDataKey :: bool
  has_unwrapDataKey :: bool
  has_generateMac :: bool

datatype exported =
    Absent
  | NotFunction
  | Factory "string option \<Rightarrow> string \<Rightarrow> kms_provider option outcome"

record provider_module =
  createKmsProvider :: exported
  default_export :: exported

definition loadKmsProvider ::
  "(string option \<Rightarrow> provider_module outcome) \<Rightarrow> runtime_config \<Rightarrow> kms_provider outcome" where
  \<comment> \<open>a factory may answer nothing; \<open>has_\<close> says that a property of the provider is a function\<close>
  "loadKmsProvider importer config =
     ensureR (rc_envelopeCipherMode config = ''kms'') ''KMS_MODE_REQUIRED''
    (bindR (recodeR ''KMS_PROVIDER_LOAD_FAILED'' (importer (rc_kmsProviderModule config))) (\<lambda>provider_module.
     case (if createKmsProvider provider_module = Absent then default_export provider_module
           else createKmsProvider provider_module) of
       Factory factory \<Rightarrow>
         bindR (recodeR ''KMS_PROVIDER_INITIALIZATION_FAILED''
           (factory (rc_kmsKeyId config) (rc_deploymentProfile config))) (\<lambda>provider.
         case provider of
           None \<Rightarrow> Inl (Coded ''INVALID_KMS_PROVIDER'')
         | Some p \<Rightarrow>
             ensureR (has_wrapDataKey p \<and> has_unwrapDataKey p) ''INVALID_KMS_PROVIDER''
            (ensureR (rc_deploymentProfile config \<noteq> ''production'' \<or> has_generateMac p) ''KMS_MAC_PROVIDER_REQUIRED''
            (Inr p)))
     | _ \<Rightarrow> Inl (Coded ''INVALID_KMS_PROVIDER_MODULE'')))"

section \<open>Properties\<close>

lemma loadRuntimeConfig_Inr [outcome_simps]:
  "loadRuntimeConfig url_of resolve env = Inr c \<longleftrightarrow>
     c = read_config resolve env \<and> check_profile c = Inr () \<and> check_access url_of c = Inr () \<and> check_zk c = Inr ()
     \<and> check_prover url_of c = Inr () \<and> check_keys c = Inr () \<and> check_production c = Inr ()"
  by (auto simp: loadRuntimeConfig_def outcome_simps Let_def simp del: unit_eq)

lemma check_access_Inr [outcome_simps]:
  "check_access url_of c = Inr u \<Longrightarrow> rc_authMode c = ''oidc'' \<Longrightarrow>
     rc_storageMode c = ''postgres'' \<and> rc_cookieSecure c \<and> https_origin url_of (rc_publicOrigin c)
     \<and> verified_tls url_of (or_empty (rc_databaseUrl c))"
  by (auto simp: check_access_def outcome_simps)

lemma check_production_Inr:
  assumes "check_production c = Inr u" and "rc_deploymentProfile c = ''production''"
  shows "rc_nodeEnvironment c = ''production'' \<and> rc_storageMode c = ''postgres'' \<and> rc_authMode c = ''oidc''
    \<and> id_text ''._:-'' 199 (rc_tenantId c) \<and> rc_tenantId c \<noteq> ''sandbox-hk'' \<and> rc_envelopeCipherMode c = ''kms''
    \<and> \<not> present (rc_encryptionKeyHex c) \<and> \<not> rc_allowLocalDevelopmentKey c
    \<and> list_all (\<lambda>v. \<not> is_placeholder v) (production_values c)"
  using assms by (simp add: check_production_def outcome_simps) (simp add: list_ex_iff list_all_iff)?

text \<open>
  A configuration that loads under the production profile is a production configuration: users
  are authenticated by OIDC against an exact HTTPS origin with secure cookies, the state is in
  PostgreSQL over verified TLS, envelopes are encrypted by the key-management service and no raw or
  development key is present, the tenant is explicit, and no setting still holds a placeholder.
\<close>

theorem production_config_is_safe:
  assumes "loadRuntimeConfig url_of resolve env = Inr c" and "rc_deploymentProfile c = ''production''"
  shows "rc_nodeEnvironment c = ''production'' \<and> rc_authMode c = ''oidc'' \<and> rc_cookieSecure c \<and> \<not> rc_sandboxContainerBind c
    \<and> (\<exists>u. url_of (or_empty (rc_publicOrigin c)) = Some u \<and> u_protocol u = ''https:'' \<and> Some (u_origin u) = rc_publicOrigin c)
    \<and> rc_storageMode c = ''postgres'' \<and> verified_tls url_of (or_empty (rc_databaseUrl c))
    \<and> rc_envelopeCipherMode c = ''kms'' \<and> present (rc_kmsProviderModule c)
    \<and> \<not> present (rc_encryptionKeyHex c) \<and> \<not> rc_allowLocalDevelopmentKey c
    \<and> id_text ''._:-'' 199 (rc_tenantId c) \<and> rc_tenantId c \<noteq> ''sandbox-hk''
    \<and> list_all (\<lambda>v. \<not> is_placeholder v) (production_values c)"
proof -
  have checks: "check_access url_of c = Inr ()" "check_keys c = Inr ()" "check_production c = Inr ()"
    using assms(1) unfolding loadRuntimeConfig_Inr by blast+
  note prod = check_production_Inr [OF checks(3) assms(2)]
  then have "rc_authMode c = ''oidc''" by simp
  note access = check_access_Inr [OF checks(1) this]
  have "\<not> rc_sandboxContainerBind c" using checks(1) assms(2)
    unfolding check_access_def guards_Inr list.pred_inject prod.case by blast
  moreover have "present (rc_kmsProviderModule c)" using checks(2) prod by (auto simp: check_keys_def outcome_simps)
  moreover have "\<exists>u. url_of (or_empty (rc_publicOrigin c)) = Some u \<and> u_protocol u = ''https:'' \<and> Some (u_origin u) = rc_publicOrigin c"
    using access by (cases "rc_publicOrigin c")
      (auto simp: https_origin_def url_or_null_def or_empty_def split: option.splits)
  ultimately show ?thesis using prod access by blast
qed

definition sample_url :: "string \<Rightarrow> url option" where
  "sample_url s = Some \<lparr>u_protocol = (if take 6 s = ''https:'' then ''https:'' else ''postgres:''), u_origin = s,
     u_username = [], u_password = [], u_search = [], u_hash = [], u_hostname = [], u_params = (\<lambda>_. Some ''verify-full'')\<rparr>"

definition sample_env :: env where
  "sample_env = map_of
     [(''DEPLOYMENT_PROFILE'', ''production''), (''NODE_ENV'', ''production''), (''STORAGE_MODE'', ''postgres''),
      (''AUTH_MODE'', ''oidc''), (''COOKIE_SECURE'', ''true''), (''PUBLIC_ORIGIN'', ''https://rwa.hk''),
      (''DATABASE_URL'', ''postgres://db''), (''TENANT_ID'', ''bank''), (''ENVELOPE_CIPHER_MODE'', ''kms''),
      (''KMS_PROVIDER_MODULE'', ''kms.js''), (''KMS_KEY_ID'', ''k1''), (''ECONOMIC_COMMITMENT_KMS_KEY_ID'', ''k2'')]"

lemma sample_env_loads:
  "\<exists>c. loadRuntimeConfig sample_url (\<lambda>p. p) sample_env = Inr c \<and> rc_deploymentProfile c = ''production''"
proof (intro exI conjI)
  let ?c = "read_config (\<lambda>p. p) sample_env"
  have "check_profile ?c = Inr ()" "check_access sample_url ?c = Inr ()" "check_zk ?c = Inr ()"
    "check_prover sample_url ?c = Inr ()" "check_keys ?c = Inr ()" "check_production ?c = Inr ()"
    by code_simp+
  then show "loadRuntimeConfig sample_url (\<lambda>p. p) sample_env = Inr ?c" unfolding loadRuntimeConfig_Inr by blast
  show "rc_deploymentProfile ?c = ''production''" by code_simp
qed

theorem production_config_is_safe_witness:
  "\<exists>c. loadRuntimeConfig sample_url (\<lambda>p. p) sample_env = Inr c \<and> rc_authMode c = ''oidc''"
proof -
  obtain c where c: "loadRuntimeConfig sample_url (\<lambda>p. p) sample_env = Inr c" "rc_deploymentProfile c = ''production''"
    using sample_env_loads by blast
  from production_config_is_safe [OF c] c(1) show ?thesis by blast
qed

lemma sandbox_identity_stays_local:
  assumes "loadRuntimeConfig url_of resolve env = Inr c" and "rc_authMode c = ''sandbox''"
  shows "rc_deploymentProfile c = ''sandbox'' \<and> rc_nodeEnvironment c \<noteq> ''production''
    \<and> (rc_host c \<in> {''127.0.0.1'', ''::1'', ''localhost''} \<or> rc_sandboxContainerBind c)"
proof -
  have c: "check_access url_of c = Inr ()" "check_profile c = Inr ()" "check_production c = Inr ()"
    using assms(1) unfolding loadRuntimeConfig_Inr by blast+
  have "rc_deploymentProfile c \<noteq> ''production''" using check_production_Inr [OF c(3)] assms(2) by auto
  moreover have "rc_host c \<in> {''127.0.0.1'', ''::1'', ''localhost''} \<or> rc_sandboxContainerBind c"
    using c(1) assms(2) unfolding check_access_def guards_Inr list.pred_inject prod.case by blast
  moreover have "rc_deploymentProfile c \<in> {''sandbox'', ''production''}" "rc_nodeEnvironment c = ''production'' \<Longrightarrow> rc_deploymentProfile c = ''production''"
    using c(2) unfolding check_profile_def guards_Inr list.pred_inject prod.case by blast+
  ultimately show ?thesis by blast
qed

lemma encryption_key_size:
  assumes "loadRuntimeConfig url_of resolve env = Inr c" and "hex_text_any 64 fresh"
    and "resolveEncryptionKey first made fresh written second c = Inr key"
  shows "hex_text_any 64 key"
proof -
  have "check_keys c = Inr ()" using assms(1) unfolding loadRuntimeConfig_Inr by blast
  then have "present (rc_encryptionKeyHex c) \<Longrightarrow> hex_text_any 64 (or_empty (rc_encryptionKeyHex c))"
    by (auto simp: check_keys_def outcome_simps)
  moreover have "hex_text_any 64 k" if "saved_key c v = Inr k" for v k
    using that by (auto simp: saved_key_def outcome_simps hex_text_def hex_text_any_def list_all_iff split: json.splits)
  ultimately show ?thesis using assms(2,3)
    by (auto simp: resolveEncryptionKey_def outcome_simps split: if_splits sum.splits)
qed

end
