(* ===== verification/ProductionPreflight.thy ===== *)
theory ProductionPreflight
  imports RuntimeConfig
begin

text \<open>
  The deployment checks around the runtime configuration: \<open>src/production-preflight.js\<close>, which a
  production environment has to pass before it is deployed and which the outbox worker repeats for its
  own part of the environment, and \<open>src/monitoring-config.js\<close>. Paths are POSIX paths.
\<close>

definition required :: "env \<Rightarrow> string \<Rightarrow> string outcome" where
  "required env name =
     (case env name of
        None \<Rightarrow> Inl (Coded ''PRODUCTION_VALUE_REQUIRED'')
      | Some value \<Rightarrow>
          ensureR (js_trim value \<noteq> []) ''PRODUCTION_VALUE_REQUIRED''
         (ensureR (\<not> is_placeholder value) ''PRODUCTION_PLACEHOLDER_FORBIDDEN'' (Inr value)))"

definition isAbsolute :: "string \<Rightarrow> bool" where
  "isAbsolute path = (take 1 path = ''/'')"

definition absolutePath :: "(string \<Rightarrow> string) \<Rightarrow> env \<Rightarrow> string \<Rightarrow> string outcome" where
  "absolutePath resolve env name =
     bindR (required env name) (\<lambda>value.
     ensureR (isAbsolute value) ''PRODUCTION_ABSOLUTE_PATH_REQUIRED'' (Inr (resolve value)))"

definition requireSameTenant :: "env \<Rightarrow> string \<Rightarrow> string \<Rightarrow> unit outcome" where
  "requireSameTenant env name tenant =
     bindR (required env name) (\<lambda>value.
     ensureR (value = tenant) ''PRODUCTION_TENANT_SCOPE_MISMATCH'' (Inr ()))"

definition new_url :: "(string \<Rightarrow> url option) \<Rightarrow> string option \<Rightarrow> url outcome" where
  "new_url url_of v = (case url_or_null url_of v of None \<Rightarrow> Inl (Native ''TypeError'') | Some u \<Rightarrow> Inr u)"

definition endsWith :: "string \<Rightarrow> string \<Rightarrow> bool" where
  "endsWith s suffix = (length suffix \<le> length s \<and> drop (length s - length suffix) s = suffix)"

definition reserved_host :: "url \<Rightarrow> bool" where
  "reserved_host u = (endsWith (u_hostname u) ''.example'' \<or> endsWith (u_hostname u) ''.example.com'')"

record preflight_report =
  pf_config :: runtime_config
  pf_databaseHost :: string
  pf_outboxPublisherModule :: string

definition critical_settings :: "string list" where
  "critical_settings =
     [''TENANT_ID'', ''DATABASE_URL'', ''PUBLIC_ORIGIN'', ''KMS_KEY_ID'', ''ECONOMIC_COMMITMENT_KMS_KEY_ID'',
      ''ZK_ARTIFACT_MANIFEST_SHA256'', ''PROVER_ENDPOINT'', ''PROVER_SERVICE_TOKEN'', ''PROVER_EXPECTED_SERVICE_ID'',
      ''OUTBOX_PUBLISHER_MODULE'']"

definition validateProductionDeployment ::
  "(string \<Rightarrow> url option) \<Rightarrow> (string \<Rightarrow> string) \<Rightarrow> env \<Rightarrow> preflight_report outcome" where
  \<comment> \<open>the report repeats eight settings of the configuration, here \<open>pf_config\<close>\<close>
  "validateProductionDeployment url_of resolve env =
     bindR (loadRuntimeConfig url_of resolve env) (\<lambda>config.
     ensureR (rc_deploymentProfile config = ''production'') ''PRODUCTION_PROFILE_REQUIRED''
    (ensureR (rc_zkMode config = ''groth16'' \<and> rc_proverMode config = ''isolated'') ''PRODUCTION_CONFIDENTIAL_RUNTIME_REQUIRED''
    (bindR (mapR (required env) critical_settings) (\<lambda>_.
     ensureR (\<not> present (env ''MIGRATION_DATABASE_URL'')) ''MIGRATION_CREDENTIAL_IN_RUNTIME_ENV''
    (bindR (mapR (absolutePath resolve env) [''KMS_PROVIDER_MODULE'', ''ZK_ARTIFACT_DIR'', ''OUTBOX_PUBLISHER_MODULE'']) (\<lambda>_.
     bindR (requireSameTenant env ''PROVER_TENANT_ID'' (rc_tenantId config)) (\<lambda>_.
     bindR (requireSameTenant env ''OUTBOX_TENANT_ID'' (rc_tenantId config)) (\<lambda>_.
     bindR (new_url url_of (rc_databaseUrl config)) (\<lambda>database.
     ensureR (u_username database \<noteq> [] \<and> u_hostname database \<notin> {[], ''localhost'', ''127.0.0.1''})
       ''PRODUCTION_DATABASE_ENDPOINT_INVALID''
    (bindR (new_url url_of (rc_publicOrigin config)) (\<lambda>origin.
     ensureR (\<not> reserved_host origin) ''PRODUCTION_RESERVED_ENDPOINT_FORBIDDEN''
    (bindR (new_url url_of (rc_proverEndpoint config)) (\<lambda>prover.
     ensureR (\<not> reserved_host prover) ''PRODUCTION_RESERVED_ENDPOINT_FORBIDDEN''
    (Inr \<lparr>pf_config = config, pf_databaseHost = u_hostname database,
       pf_outboxPublisherModule = resolve (or_empty (env ''OUTBOX_PUBLISHER_MODULE''))\<rparr>))))))))))))))"

record worker_deployment =
  wd_deploymentProfile :: string
  wd_tenantId :: string

definition outbox_tenant :: "env \<Rightarrow> string" where
  "outbox_tenant env =
     (case env ''OUTBOX_TENANT_ID'' of None \<Rightarrow> env_or env ''TENANT_ID'' ''sandbox-hk'' | Some t \<Rightarrow> t)"

definition validateOutboxWorkerDeployment :: "(string \<Rightarrow> string) \<Rightarrow> env \<Rightarrow> worker_deployment outcome" where
  "validateOutboxWorkerDeployment resolve env =
     (let profile = env_or env ''DEPLOYMENT_PROFILE'' ''sandbox'';
          environment = env_or env ''NODE_ENV'' ''development'';
          tenant = outbox_tenant env;
          result = \<lparr>wd_deploymentProfile = profile, wd_tenantId = tenant\<rparr> in
      ensureR (environment \<noteq> ''production'' \<or> profile = ''production'') ''PRODUCTION_PROFILE_REQUIRED''
     (ensureR (profile \<in> {''sandbox'', ''production''}) ''INVALID_DEPLOYMENT_PROFILE''
     (if profile = ''production'' then
        ensureR (tenant \<noteq> ''sandbox-hk'' \<and> \<not> is_placeholder tenant) ''PRODUCTION_TENANT_REQUIRED''
       (ensureR (\<not> present (env ''TENANT_ID'') \<or> Some tenant = env ''TENANT_ID'') ''PRODUCTION_TENANT_SCOPE_MISMATCH''
       (bindR (absolutePath resolve env ''OUTBOX_PUBLISHER_MODULE'') (\<lambda>_. Inr result)))
      else Inr result)))"

section \<open>Monitoring\<close>

definition deployment_identifier :: "string \<Rightarrow> bool" where
  \<comment> \<open>\<open>/^[a-z][a-z0-9-]{0,62}$/\<close>\<close>
  "deployment_identifier s = (s \<noteq> [] \<and> is_lower (hd s)
     \<and> list_all (\<lambda>c. is_lower c \<or> is_digit c \<or> c = CHR ''-'') (tl s) \<and> length (tl s) \<le> 62)"

definition scrape_config :: "string \<Rightarrow> string \<Rightarrow> string \<Rightarrow> int \<Rightarrow> json" where
  "scrape_config tenant environment worker port =
     JObj [(''job_name'', JStr (''rwa-'' @ worker)), (''metrics_path'', JStr ''/metrics/prometheus''),
       (''scrape_timeout'', JStr ''5s''),
       (''static_configs'', JArr [JObj
         [(''targets'', JArr [JStr ((if worker = ''web'' then ''web'' else worker @ ''-worker'') @ '':'' @ int_text port)]),
          (''labels'', JObj [(''tenant'', JStr tenant), (''environment'', JStr environment)])]])]"

definition buildPrometheusConfig :: "json \<Rightarrow> json \<Rightarrow> json \<Rightarrow> json outcome" where
  "buildPrometheusConfig tenantId environment notifications =
     nativeR (case notifications of JBool _ \<Rightarrow> True | _ \<Rightarrow> False) ''TypeError''
    (case (tenantId, environment) of
       (JStr tenant, JStr env) \<Rightarrow>
         nativeR (deployment_identifier tenant) ''TypeError''
        (nativeR (deployment_identifier env) ''TypeError''
        (nativeR (\<not> (env = ''production'' \<and> take 7 tenant = ''sandbox'')) ''TypeError''
        (Inr (JObj (
           [(''global'', JObj [(''scrape_interval'', JStr ''15s''), (''evaluation_interval'', JStr ''15s'')]),
            (''rule_files'', JArr [JStr ''/etc/prometheus/rwa-alerts.yml''])] @
           (if notifications = JBool True then
              [(''alerting'', JObj [(''alertmanagers'', JArr [JObj [(''static_configs'',
                 JArr [JObj [(''targets'', JArr [JStr ''alertmanager:9093''])]])]])])] else []) @
           [(''scrape_configs'', JArr (map (\<lambda>(worker, port). scrape_config tenant env worker port)
              [(''outbox'', 8770), (''prover'', 8771), (''web'', 8772)]))])))))
     | _ \<Rightarrow> Inl (Native ''TypeError''))"

section \<open>Properties\<close>

lemma required_Inr [outcome_simps]:
  "required env name = Inr v \<longleftrightarrow> env name = Some v \<and> js_trim v \<noteq> [] \<and> \<not> is_placeholder v"
  by (auto simp: required_def outcome_simps split: option.splits)

lemma absolutePath_Inr [outcome_simps]:
  "absolutePath resolve env name = Inr p \<longleftrightarrow> (\<exists>v. required env name = Inr v \<and> isAbsolute v \<and> p = resolve v)"
  by (auto simp: absolutePath_def outcome_simps)

lemma requireSameTenant_Inr [outcome_simps]:
  "requireSameTenant env name tenant = Inr u \<longleftrightarrow> required env name = Inr tenant"
  by (auto simp: requireSameTenant_def outcome_simps)

lemma preflight_Inr:
  assumes "validateProductionDeployment url_of resolve env = Inr report"
  shows "loadRuntimeConfig url_of resolve env = Inr (pf_config report)
    \<and> rc_deploymentProfile (pf_config report) = ''production''
    \<and> (\<exists>vs. mapR (required env) critical_settings = Inr vs)
    \<and> (\<exists>ps. mapR (absolutePath resolve env) [''KMS_PROVIDER_MODULE'', ''ZK_ARTIFACT_DIR'', ''OUTBOX_PUBLISHER_MODULE''] = Inr ps)
    \<and> required env ''OUTBOX_TENANT_ID'' = Inr (rc_tenantId (pf_config report))"
  using assms unfolding validateProductionDeployment_def bindR_Inr ensureR_Inr requireSameTenant_Inr
  apply (elim exE conjE)
  apply (simp only: sum.inject)
  apply hypsubst
  apply (simp only: preflight_report.simps)
  apply blast
  done

text \<open>
  The two deployment checks agree: an environment that passes the production preflight starts the
  outbox worker too, under the production profile and for the very tenant the control plane serves.
\<close>

theorem preflight_covers_worker:
  assumes "validateProductionDeployment url_of resolve env = Inr report"
  shows "validateOutboxWorkerDeployment resolve env
    = Inr \<lparr>wd_deploymentProfile = ''production'', wd_tenantId = rc_tenantId (pf_config report)\<rparr>"
proof -
  note steps = preflight_Inr [OF assms]
  define config where "config = pf_config report"
  have config: "loadRuntimeConfig url_of resolve env = Inr config" "pf_config report = config"
    and production: "rc_deploymentProfile config = ''production''"
    and critical: "\<exists>vs. mapR (required env) critical_settings = Inr vs"
    and paths: "\<exists>ps. mapR (absolutePath resolve env) [''KMS_PROVIDER_MODULE'', ''ZK_ARTIFACT_DIR'', ''OUTBOX_PUBLISHER_MODULE''] = Inr ps"
    and tenant: "required env ''OUTBOX_TENANT_ID'' = Inr (rc_tenantId config)"
    using steps unfolding config_def by blast+
  have read: "config = read_config resolve env" and checks: "check_production config = Inr ()"
    using config(1) unfolding loadRuntimeConfig_Inr by blast+
  note prod = check_production_Inr [OF checks production]
  obtain module where "absolutePath resolve env ''OUTBOX_PUBLISHER_MODULE'' = Inr module"
    using paths by (auto simp: outcome_simps)
  moreover have "env_or env ''DEPLOYMENT_PROFILE'' ''sandbox'' = ''production''"
    using production unfolding read by (simp add: read_config_def)
  moreover have "outbox_tenant env = rc_tenantId config" and "\<not> is_placeholder (rc_tenantId config)"
    using tenant by (simp_all add: required_Inr outbox_tenant_def)
  moreover have "\<exists>v. env ''TENANT_ID'' = Some v"
    using critical unfolding critical_settings_def by (auto simp: outcome_simps)
  then have "Some (rc_tenantId config) = env ''TENANT_ID''"
    unfolding read by (auto simp: read_config_def env_or_def)
  ultimately show ?thesis using prod config(2)
    by (simp add: validateOutboxWorkerDeployment_def ensureR_def Let_def)
qed

definition preflight_url :: "string \<Rightarrow> url option" where
  "preflight_url s = map_option (\<lambda>u. u\<lparr>u_username := (if take 2 s = ''po'' then ''rwa'' else []), u_hostname := ''rwa.hk''\<rparr>)
     (sample_url s)"

definition preflight_env :: env where
  "preflight_env = sample_env ++ map_of
     [(''ZK_MODE'', ''groth16''), (''ZK_ARTIFACT_DIR'', ''/zk''), (''KMS_PROVIDER_MODULE'', ''/kms.js''),
      (''ZK_ARTIFACT_MANIFEST_SHA256'', replicate 64 CHR ''a''), (''PROVER_MODE'', ''isolated''),
      (''PROVER_ENDPOINT'', ''https://prover.rwa.hk''), (''PROVER_SERVICE_TOKEN'', replicate 32 CHR ''t''),
      (''PROVER_EXPECTED_SERVICE_ID'', ''prover''), (''OUTBOX_PUBLISHER_MODULE'', ''/publish.js''),
      (''PROVER_TENANT_ID'', ''bank''), (''OUTBOX_TENANT_ID'', ''bank'')]"

lemma preflight_env_passes:
  "\<exists>report. validateProductionDeployment preflight_url (\<lambda>p. p) preflight_env = Inr report \<and> rc_tenantId (pf_config report) = ''bank''"
proof -
  let ?c = "read_config (\<lambda>p. p) preflight_env"
  have "check_profile ?c = Inr ()" "check_access preflight_url ?c = Inr ()" "check_zk ?c = Inr ()"
    "check_prover preflight_url ?c = Inr ()" "check_keys ?c = Inr ()" "check_production ?c = Inr ()"
    by code_simp+
  then have "loadRuntimeConfig preflight_url (\<lambda>p. p) preflight_env = Inr ?c" unfolding loadRuntimeConfig_Inr by blast
  moreover have "mapR (required preflight_env) critical_settings = Inr (map (\<lambda>n. the (preflight_env n)) critical_settings)"
    "mapR (absolutePath (\<lambda>p. p) preflight_env) [''KMS_PROVIDER_MODULE'', ''ZK_ARTIFACT_DIR'', ''OUTBOX_PUBLISHER_MODULE'']
      = Inr [''/kms.js'', ''/zk'', ''/publish.js'']"
    "requireSameTenant preflight_env ''PROVER_TENANT_ID'' (rc_tenantId ?c) = Inr ()"
    "requireSameTenant preflight_env ''OUTBOX_TENANT_ID'' (rc_tenantId ?c) = Inr ()"
    "preflight_env ''MIGRATION_DATABASE_URL'' = None" "rc_tenantId ?c = ''bank''"
    by code_simp+
  moreover have "rc_databaseUrl ?c = Some ''postgres://db''" "rc_publicOrigin ?c = Some ''https://rwa.hk''"
    "rc_proverEndpoint ?c = Some ''https://prover.rwa.hk''" "rc_deploymentProfile ?c = ''production''"
    "rc_zkMode ?c = ''groth16''" "rc_proverMode ?c = ''isolated''"
    by code_simp+
  ultimately show ?thesis
    by (simp add: validateProductionDeployment_def new_url_def url_or_null_def preflight_url_def sample_url_def
        ensureR_def reserved_host_def endsWith_def del: mapR.simps)
qed

theorem preflight_covers_worker_witness:
  "\<exists>d. validateOutboxWorkerDeployment (\<lambda>p. p) preflight_env = Inr d \<and> wd_tenantId d = ''bank''"
proof -
  obtain report where "validateProductionDeployment preflight_url (\<lambda>p. p) preflight_env = Inr report"
    "rc_tenantId (pf_config report) = ''bank''" using preflight_env_passes by blast
  from preflight_covers_worker [OF this(1)] this(2) show ?thesis by simp
qed

end
