(* ===== verification/PgState.thy ===== *)
theory PgState
  imports Outcome Canonical
begin

text \<open>
  The tables of the durable store that \<open>src/storage/postgres-store.js\<close> reads and writes, as lists of
  rows in the order of insertion, and its two transaction wrappers.

  A statement is the function its SQL text describes: an \<open>UPDATE ... WHERE\<close> maps the rows, a
  \<open>SELECT ... WHERE\<close> filters them, an \<open>INSERT\<close> appends one and fails with the platform code \<open>23505\<close> when
  the primary key is taken. A time is a number of milliseconds, read as an argument \<open>now\<close> where the
  statement reads \<open>clock_timestamp()\<close>. Locks are not represented: operations here run one after the
  other. The triggers of the schema only reject statements, so they are not represented either.
\<close>

record intent_row =
  ti_id :: string
  ti_tenant :: string
  ti_product :: string
  ti_key :: string
  ti_hash :: string
  ti_type :: string
  ti_state :: string
  ti_ruleVersion :: json
  ti_navEvidenceId :: json
  ti_policyHash :: json
  ti_ciphertext :: json
  ti_rail :: string
  ti_institution :: "string option"
  ti_partyKey :: "string option"
  ti_version :: nat

record history_row =
  th_tx :: string
  th_from :: "string option"
  th_to :: string
  th_reason :: "string option"
  th_actor :: "string option"

record batch_row =
  bt_id :: string
  bt_tx :: "string option"
  bt_source :: string   \<comment> \<open>the source type of a ledger batch, the asset code of a register batch\<close>
  bt_status :: string
  bt_count :: nat

record entry_row =
  en_batch :: string
  en_account :: string
  en_asset :: string
  en_delta :: int

record book =   \<comment> \<open>the ledger and the register have tables of the same shape\<close>
  bk_accounts :: "string list"
  bk_batches :: "batch_row list"
  bk_entries :: "entry_row list"

record receipt_row =
  rc_tx :: string
  rc_receipt :: json
  rc_hash :: string

record audit_record =
  au_tenant :: string
  au_event :: string
  au_aggType :: string
  au_aggId :: string
  au_metadata :: json
  au_previous :: "string option"
  au_hash :: string

record exception_record =
  xc_id :: string
  xc_tx :: string
  xc_product :: string
  xc_status :: string
  xc_round :: nat
  xc_replacement :: "string option"
  xc_version :: nat

record approval_row =
  ap_exception :: string
  ap_round :: nat
  ap_role :: string
  ap_actor :: string
  ap_decision :: string
  ap_replacement :: "string option"
  ap_signature :: "string option"

record outbox_row =
  ob_id :: string
  ob_tenant :: string
  ob_topic :: string
  ob_aggregate :: string
  ob_payload :: json
  ob_hash :: string
  ob_status :: string
  ob_attempts :: nat
  ob_availableAt :: int
  ob_claimedBy :: "string option"
  ob_leaseExpiresAt :: "int option"
  ob_publishedAt :: "int option"
  ob_lastError :: "string option"
  ob_deadAt :: "int option"
  ob_replays :: nat

record inbox_row =
  ib_consumer :: string
  ib_event :: string
  ib_hash :: string
  ib_result :: json

record callback_row =
  cb_event :: string
  cb_tx :: json
  cb_type :: string
  cb_hash :: string

record replay_row =
  rq_id :: string
  rq_event :: string
  rq_tenant :: string
  rq_maker :: string
  rq_reason :: string
  rq_snapshot :: "string option"
  rq_status :: string
  rq_checker :: "string option"
  rq_decision :: "string option"

record db =
  db_intents :: "intent_row list"
  db_parties :: "(string \<times> string \<times> string \<times> string) list"
  db_history :: "history_row list"
  db_ledger :: book
  db_register :: book
  db_receipts :: "receipt_row list"
  db_audit :: "audit_record list"
  db_exceptions :: "exception_record list"
  db_approvals :: "approval_row list"
  db_outbox :: "outbox_row list"   \<comment> \<open>in the order of \<open>enqueue_sequence\<close>\<close>
  db_inbox :: "inbox_row list"
  db_callbacks :: "callback_row list"
  db_replays :: "replay_row list"

definition unique_violation :: js_error where
  "unique_violation = Coded ''23505''"

definition update_where :: "('r \<Rightarrow> bool) \<Rightarrow> ('r \<Rightarrow> 'r) \<Rightarrow> 'r list \<Rightarrow> 'r list" where
  "update_where p f rows = map (\<lambda>r. if p r then f r else r) rows"

definition find_last :: "('r \<Rightarrow> bool) \<Rightarrow> 'r list \<Rightarrow> 'r option" where
  \<comment> \<open>\<open>ORDER BY sequence_id DESC LIMIT 1\<close>\<close>
  "find_last p rows = find p (rev rows)"

section \<open>Transactions\<close>

text \<open>
  The database decides about every commit: \<open>commit n\<close> is what \<open>COMMIT\<close> answers at the \<open>n\<close>-th
  attempt. A transaction that fails, in its body or at its commit, leaves the state as it was; a
  serializable transaction is then tried again when the failure is a serialization failure or a
  deadlock, three times by default.
\<close>

definition retryable :: "js_error \<Rightarrow> bool" where
  "retryable e = (e \<in> {Coded ''40001'', Coded ''40P01''})"

definition attempt_once :: "unit outcome \<Rightarrow> ('s, 'a) eff \<Rightarrow> ('s, 'a) eff" where
  \<comment> \<open>\<open>BEGIN\<close>, the operation, \<open>COMMIT\<close>; \<open>ROLLBACK\<close> when one of them throws\<close>
  "attempt_once commit operation = (\<lambda>s.
     case operation s of
       (Inl e, _) \<Rightarrow> (Inl e, s)
     | (Inr a, t) \<Rightarrow> (case commit of Inl e \<Rightarrow> (Inl e, s) | Inr _ \<Rightarrow> (Inr a, t)))"

fun serializable_from :: "nat \<Rightarrow> nat \<Rightarrow> (nat \<Rightarrow> unit outcome) \<Rightarrow> ('s, 'a) eff \<Rightarrow> ('s, 'a) eff" where
  \<comment> \<open>the loop from attempt \<open>attempt\<close>, with \<open>left\<close> attempts to go\<close>
  "serializable_from 0 attempt commit operation = throwE (Native ''Error'')"
| "serializable_from (Suc left) attempt commit operation =
     catchE (attempt_once (commit attempt) operation)
       (\<lambda>e. if \<not> retryable e \<or> left = 0 then throwE e
            else serializable_from left (Suc attempt) commit operation)"

definition withSerializableTransaction :: "nat \<Rightarrow> (nat \<Rightarrow> unit outcome) \<Rightarrow> ('s, 'a) eff \<Rightarrow> ('s, 'a) eff" where
  "withSerializableTransaction retries commit operation = serializable_from retries 1 commit operation"

definition withReadCommittedTransaction :: "unit outcome \<Rightarrow> ('s, 'a) eff \<Rightarrow> ('s, 'a) eff" where
  "withReadCommittedTransaction commit operation = attempt_once commit operation"

lemma attempt_once_result:
  "attempt_once commit operation s = (r, t) \<Longrightarrow>
     (\<exists>e. r = Inl e \<and> t = s) \<or> (\<exists>a. r = Inr a \<and> operation s = (Inr a, t))"
  by (auto simp: attempt_once_def split: prod.splits sum.splits)

lemma serializable_from_result:
  "serializable_from left attempt commit operation s = (r, t) \<Longrightarrow>
     (\<exists>e. r = Inl e \<and> t = s) \<or> (\<exists>a. r = Inr a \<and> operation s = (Inr a, t))"
proof (induction left arbitrary: attempt)
  case 0
  then show ?case by (simp add: throwE_iff)
next
  case (Suc left)
  obtain x u where first: "attempt_once (commit attempt) operation s = (x, u)"
    by (cases "attempt_once (commit attempt) operation s")
  note once = attempt_once_result [OF first]
  show ?case
  proof (cases x)
    case (Inr a)
    with Suc.prems first once show ?thesis by (auto simp: catchE_def)
  next
    case (Inl e)
    with once have "u = s" by auto
    with Suc.prems first Inl have "(if \<not> retryable e \<or> left = 0 then throwE e
        else serializable_from left (Suc attempt) commit operation) s = (r, t)"
      by (simp add: catchE_def)
    then show ?thesis using Suc.IH by (auto simp: throwE_iff split: if_splits)
  qed
qed

lemma serializable_keeps:
  "keeps I operation \<Longrightarrow> keeps I (withSerializableTransaction retries commit operation)"
  unfolding withSerializableTransaction_def
  by (rule keepsI) (metis keepsD serializable_from_result)

lemma read_committed_keeps: "keeps I operation \<Longrightarrow> keeps I (withReadCommittedTransaction commit operation)"
  unfolding withReadCommittedTransaction_def
  by (rule keepsI) (metis keepsD attempt_once_result)

end
