(* ===== verification/PgStore.thy ===== *)
theory PgStore
  imports PgState
begin

text \<open>
  The durable transaction store, \<open>src/storage/postgres-store.js\<close>: transaction intents and their state
  machine, the double-entry ledger and the register, receipts, the hash-chained audit log and the
  maker-checker record of exceptions. The outbox operations of the same class are in \<open>Outbox\<close>.
  \<open>sha\<close> is the SHA-256 digest in hexadecimal text.
\<close>

section \<open>The state machine\<close>

definition TRANSITIONS :: "(string \<times> string list) list" where
  "TRANSITIONS =
     [(''REQUESTED'', [''POLICY_CHECKED'', ''REJECTED'']),
      (''POLICY_CHECKED'', [''CASH_RESERVED'', ''PROOF_PENDING'', ''REJECTED'']),
      (''CASH_RESERVED'', [''REGISTER_PENDING'', ''REQUIRES_REVIEW'', ''REJECTED'']),
      (''REGISTER_PENDING'', [''SETTLED'', ''REQUIRES_REVIEW'', ''REJECTED'']),
      (''PROOF_PENDING'', [''ROOT_PENDING'', ''REQUIRES_REVIEW'', ''REJECTED'']),
      (''ROOT_PENDING'', [''SETTLED'']),
      (''REQUIRES_REVIEW'', [''PENDING_APPROVAL'', ''CANCELLED'']),
      (''PENDING_APPROVAL'', [''REQUIRES_REVIEW'', ''REPLACED'', ''CANCELLED''])]"

definition sha256Canonical :: "(string \<Rightarrow> string) \<Rightarrow> json \<Rightarrow> string" where
  "sha256Canonical sha v = sha (canonicalize v)"

definition transition_allowed :: "string \<Rightarrow> string \<Rightarrow> bool" where
  "transition_allowed fromState toState =
     (case map_of TRANSITIONS fromState of None \<Rightarrow> False | Some tos \<Rightarrow> toState \<in> set tos)"

definition assertTransition :: "string \<Rightarrow> string \<Rightarrow> unit outcome" where
  "assertTransition fromState toState =
     ensureR (transition_allowed fromState toState) ''INVALID_STATE_TRANSITION'' (Inr ())"

section \<open>Intents\<close>

record intent_request =
  iq_id :: string
  iq_tenant :: string
  iq_product :: string
  iq_key :: string
  iq_request :: json
  iq_type :: string
  iq_ruleVersion :: json
  iq_navEvidenceId :: json
  iq_policyHash :: json
  iq_ciphertext :: json
  iq_rail :: "string option"
  iq_institution :: "string option option"   \<comment> \<open>\<open>None\<close> where the caller leaves it undefined\<close>
  iq_partyIndex :: "(string \<times> string list) option"
  iq_actor :: "string option"

definition new_intent :: "(string \<Rightarrow> string) \<Rightarrow> intent_request \<Rightarrow> intent_row" where
  "new_intent sha intent =
     \<lparr>ti_id = iq_id intent, ti_tenant = iq_tenant intent, ti_product = iq_product intent, ti_key = iq_key intent,
      ti_hash = sha256Canonical sha (iq_request intent), ti_type = iq_type intent, ti_state = ''REQUESTED'',
      ti_ruleVersion = iq_ruleVersion intent, ti_navEvidenceId = iq_navEvidenceId intent,
      ti_policyHash = iq_policyHash intent, ti_ciphertext = iq_ciphertext intent,
      ti_rail = (case iq_rail intent of None \<Rightarrow> ''REGISTERED'' | Some r \<Rightarrow> r),
      ti_institution = (case iq_institution intent of None \<Rightarrow> None | Some i \<Rightarrow> i),
      ti_partyKey = map_option fst (iq_partyIndex intent), ti_version = 0\<rparr>"

definition add_parties :: "intent_request \<Rightarrow> db \<Rightarrow> db" where
  \<comment> \<open>\<open>INSERT ... ON CONFLICT DO NOTHING\<close> for every party MAC\<close>
  "add_parties intent s =
     s\<lparr>db_parties := fold (\<lambda>mac rows.
         let row = (iq_id intent, iq_tenant intent, iq_product intent, mac) in
         if row \<in> set rows then rows else rows @ [row])
       (case iq_partyIndex intent of None \<Rightarrow> [] | Some (_, macs) \<Rightarrow> macs) (db_parties s)\<rparr>"

definition add_history :: "string \<Rightarrow> string option \<Rightarrow> string \<Rightarrow> string option \<Rightarrow> string option \<Rightarrow> db \<Rightarrow> db" where
  "add_history tx fromState toState reasonCode actorRef s =
     s\<lparr>db_history := db_history s @ [\<lparr>th_tx = tx, th_from = fromState, th_to = toState,
       th_reason = reasonCode, th_actor = actorRef\<rparr>]\<rparr>"

definition same_request :: "(string \<Rightarrow> string) \<Rightarrow> intent_request \<Rightarrow> intent_row \<Rightarrow> bool" where
  "same_request sha intent existing =
     (ti_hash existing = sha256Canonical sha (iq_request intent)
      \<and> (case iq_institution intent of None \<Rightarrow> True | Some i \<Rightarrow> ti_institution existing = i))"

definition createTransactionIntent :: "(string \<Rightarrow> string) \<Rightarrow> intent_request \<Rightarrow> (db, bool \<times> intent_row) eff" where
  "createTransactionIntent sha intent = withE (\<lambda>s.
     case find (\<lambda>r. ti_tenant r = iq_tenant intent \<and> ti_key r = iq_key intent) (db_intents s) of
       Some existing \<Rightarrow>
         thenE (ensureE (same_request sha intent existing) ''IDEMPOTENCY_CONFLICT'')
        (retE (False, existing))
     | None \<Rightarrow>
         if \<exists>r \<in> set (db_intents s). ti_id r = iq_id intent then throwE unique_violation
         else
           thenE (modifyE (\<lambda>s. s\<lparr>db_intents := db_intents s @ [new_intent sha intent]\<rparr>))
          (thenE (modifyE (add_parties intent))
          (thenE (modifyE (add_history (iq_id intent) None ''REQUESTED'' None (iq_actor intent)))
          (retE (True, new_intent sha intent)))))"

definition transitionTransaction :: "string \<Rightarrow> string \<Rightarrow> string option \<Rightarrow> string option \<Rightarrow> (db, unit) eff" where
  "transitionTransaction tx toState reasonCode actorRef = withE (\<lambda>s.
     bindE (optE (find (\<lambda>r. ti_id r = tx) (db_intents s)) (Coded ''UNKNOWN_TRANSACTION'')) (\<lambda>locked.
     thenE (liftE (assertTransition (ti_state locked) toState))
    (thenE (modifyE (\<lambda>s. s\<lparr>db_intents := update_where (\<lambda>r. ti_id r = tx)
         (\<lambda>r. r\<lparr>ti_state := toState, ti_version := ti_version r + 1\<rparr>) (db_intents s)\<rparr>))
    (modifyE (add_history tx (Some (ti_state locked)) toState reasonCode actorRef)))))"

section \<open>Ledger and register\<close>

record entry_request =
  eq_account :: string
  eq_asset :: string
  eq_delta :: int   \<comment> \<open>\<open>BigInt(entry.signedDelta)\<close>\<close>

fun add_totals :: "entry_request list \<Rightarrow> (string, int) jsmap \<Rightarrow> (string, int) jsmap outcome" where
  "add_totals [] totals = Inr totals"
| "add_totals (entry # rest) totals =
     ensureR (eq_delta entry \<noteq> 0) ''INVALID_LEDGER_ENTRY''
    (add_totals rest (jm_set (eq_asset entry) (jm_get0 totals (eq_asset entry) + eq_delta entry) totals))"

definition assertBalancedEntries :: "entry_request list \<Rightarrow> unit outcome" where
  "assertBalancedEntries entries =
     ensureR (2 \<le> length entries) ''INVALID_LEDGER_BATCH''
    (bindR (add_totals entries []) (\<lambda>totals.
     ensureR (list_all (\<lambda>(_, total). total = 0) totals) ''UNBALANCED_LEDGER_BATCH'' (Inr ())))"

definition entry_of :: "string \<Rightarrow> entry_request \<Rightarrow> entry_row" where
  "entry_of batch e = \<lparr>en_batch = batch, en_account = eq_account e, en_asset = eq_asset e, en_delta = eq_delta e\<rparr>"

definition post_batch :: "string \<Rightarrow> string option \<Rightarrow> string \<Rightarrow> entry_request list \<Rightarrow> book \<Rightarrow> book" where
  \<comment> \<open>the batch inserted as a draft, its entries, and its status set to posted\<close>
  "post_batch batch tx source entries b =
     (let drafted = b\<lparr>bk_batches := bk_batches b @
            [\<lparr>bt_id = batch, bt_tx = tx, bt_source = source, bt_status = ''DRAFT'', bt_count = length entries\<rparr>]\<rparr>;
          filled = drafted\<lparr>bk_entries := bk_entries drafted @ map (entry_of batch) entries\<rparr>
      in filled\<lparr>bk_batches := update_where (\<lambda>r. bt_id r = batch) (\<lambda>r. r\<lparr>bt_status := ''POSTED''\<rparr>) (bk_batches filled)\<rparr>)"

definition accounts_exist :: "entry_request list \<Rightarrow> book \<Rightarrow> bool" where
  \<comment> \<open>the locked rows are as many as the distinct accounts of the entries\<close>
  "accounts_exist entries b =
     (length (filter (\<lambda>a. a \<in> set (map eq_account entries)) (bk_accounts b))
      = length (remdups (map eq_account entries)))"

definition appendLedgerBatch :: "string \<Rightarrow> string option \<Rightarrow> string \<Rightarrow> entry_request list \<Rightarrow> (db, unit) eff" where
  "appendLedgerBatch batch tx sourceType entries =
     thenE (liftE (assertBalancedEntries entries)) (withE (\<lambda>s.
     thenE (ensureE (accounts_exist entries (db_ledger s)) ''UNKNOWN_LEDGER_ACCOUNT'')
    (if \<exists>r \<in> set (bk_batches (db_ledger s)). bt_id r = batch then throwE unique_violation
     else modifyE (\<lambda>s. s\<lparr>db_ledger := post_batch batch tx sourceType entries (db_ledger s)\<rparr>))))"

definition appendRegisterBatch :: "string \<Rightarrow> string option \<Rightarrow> string \<Rightarrow> entry_request list \<Rightarrow> (db, unit) eff" where
  "appendRegisterBatch batch tx assetCode entries =
     thenE (liftE (assertBalancedEntries entries)) (withE (\<lambda>s.
     thenE (ensureE (accounts_exist entries (db_register s)) ''UNKNOWN_REGISTER_ACCOUNT'')
    (if \<exists>r \<in> set (bk_batches (db_register s)). bt_id r = batch then throwE unique_violation
     else modifyE (\<lambda>s. s\<lparr>db_register := post_batch batch tx assetCode entries (db_register s)\<rparr>))))"

definition balance_in :: "book \<Rightarrow> string \<Rightarrow> int" where
  "balance_in b account = sum_list (map en_delta (filter (\<lambda>e. en_account e = account) (bk_entries b)))"

definition accountBalance :: "string \<Rightarrow> string \<Rightarrow> (db, int) eff" where
  "accountBalance table account = withE (\<lambda>s.
     if table = ''ledger'' then retE (balance_in (db_ledger s) account)
     else if table = ''register'' then retE (balance_in (db_register s) account)
     else throwE (Native ''Error''))"

section \<open>Receipts and the audit log\<close>

definition storeReceipt :: "(string \<Rightarrow> string) \<Rightarrow> string \<Rightarrow> json \<Rightarrow> (db, string) eff" where
  "storeReceipt sha tx receipt = withE (\<lambda>s.
     let receiptHash = sha256Canonical sha receipt in
     if \<exists>r \<in> set (db_receipts s). rc_tx r = tx then throwE unique_violation
     else thenE (modifyE (\<lambda>s. s\<lparr>db_receipts := db_receipts s @
            [\<lparr>rc_tx = tx, rc_receipt = stored_json receipt, rc_hash = receiptHash\<rparr>]\<rparr>))
         (retE receiptHash))"

record audit_event =
  ae_tenant :: string
  ae_event :: string
  ae_aggType :: string
  ae_aggId :: string
  ae_metadata :: json

definition nullable :: "string option \<Rightarrow> json" where
  "nullable v = (case v of None \<Rightarrow> JNull | Some s \<Rightarrow> JStr s)"

definition audit_body :: "audit_event \<Rightarrow> string option \<Rightarrow> json" where
  "audit_body event previousHash =
     JObj [(''tenantId'', JStr (ae_tenant event)), (''eventType'', JStr (ae_event event)),
       (''aggregateType'', JStr (ae_aggType event)), (''aggregateId'', JStr (ae_aggId event)),
       (''metadata'', ae_metadata event), (''previousHash'', nullable previousHash)]"

definition same_aggregate :: "audit_event \<Rightarrow> audit_record \<Rightarrow> bool" where
  "same_aggregate event r =
     (au_tenant r = ae_tenant event \<and> au_aggType r = ae_aggType event \<and> au_aggId r = ae_aggId event)"

definition recordAuditEvent :: "(string \<Rightarrow> string) \<Rightarrow> audit_event \<Rightarrow> (db, string) eff" where
  "recordAuditEvent sha event = withE (\<lambda>s.
     let previousHash = map_option au_hash (find_last (same_aggregate event) (db_audit s));
         eventHash = sha256Canonical sha (audit_body event previousHash)
     in thenE (modifyE (\<lambda>s. s\<lparr>db_audit := db_audit s @
          [\<lparr>au_tenant = ae_tenant event, au_event = ae_event event, au_aggType = ae_aggType event,
             au_aggId = ae_aggId event, au_metadata = stored_json (ae_metadata event), au_previous = previousHash,
             au_hash = eventHash\<rparr>]\<rparr>))
       (retE eventHash))"

section \<open>Exceptions\<close>

definition store_proposeExceptionResolution ::
  "string \<Rightarrow> string \<Rightarrow> string \<Rightarrow> string option \<Rightarrow> string option \<Rightarrow> (db, exception_record) eff" where
  "store_proposeExceptionResolution exceptionId makerRef decision replacementTransactionId signature =
     thenE (ensureE (decision \<in> {''RETRY'', ''CANCEL''}) ''INVALID_APPROVAL_DECISION'')
    (thenE (ensureE (\<not> (decision = ''RETRY'' \<and> \<not> present replacementTransactionId
          \<or> decision = ''CANCEL'' \<and> present replacementTransactionId)) ''INVALID_APPROVAL_PAYLOAD'')
    (withE (\<lambda>s.
     case find (\<lambda>r. xc_id r = exceptionId) (db_exceptions s) of
       None \<Rightarrow> throwE (Coded ''INVALID_EXCEPTION_STATE'')
     | Some exception \<Rightarrow>
         thenE (ensureE (xc_status exception = ''OPEN'') ''INVALID_EXCEPTION_STATE'')
        (let approvalRound = xc_round exception + 1;
             updated = exception\<lparr>xc_status := ''PENDING_APPROVAL'', xc_round := approvalRound,
               xc_version := xc_version exception + 1\<rparr> in
         thenE (modifyE (\<lambda>s. s\<lparr>db_approvals := db_approvals s @
            [\<lparr>ap_exception = exceptionId, ap_round = approvalRound, ap_role = ''MAKER'', ap_actor = makerRef,
               ap_decision = decision, ap_replacement = replacementTransactionId, ap_signature = signature\<rparr>]\<rparr>))
        (thenE (modifyE (\<lambda>s. s\<lparr>db_exceptions := update_where (\<lambda>r. xc_id r = exceptionId) (\<lambda>_. updated)
            (db_exceptions s)\<rparr>))
        (retE updated))))))"

record approval_outcome =
  ao_exception :: exception_record
  ao_proposalDecision :: string
  ao_replacement :: "string option"
  ao_checkerDecision :: string
  ao_maker :: string

definition maker_record :: "db \<Rightarrow> string \<Rightarrow> nat \<Rightarrow> approval_row list" where
  "maker_record s exceptionId approvalRound =
     filter (\<lambda>a. ap_exception a = exceptionId \<and> ap_round a = approvalRound \<and> ap_role a = ''MAKER'') (db_approvals s)"

definition store_approveExceptionResolution ::
  "string \<Rightarrow> string \<Rightarrow> string \<Rightarrow> string option \<Rightarrow> (db, approval_outcome) eff" where
  "store_approveExceptionResolution exceptionId checkerRef decision signature =
     thenE (ensureE (decision \<in> {''APPROVE'', ''REJECT''}) ''INVALID_APPROVAL_DECISION'')
    (withE (\<lambda>s.
     case find (\<lambda>r. xc_id r = exceptionId) (db_exceptions s) of
       None \<Rightarrow> throwE (Coded ''INVALID_EXCEPTION_STATE'')
     | Some exception \<Rightarrow>
         (case maker_record s exceptionId (xc_round exception) of
            [maker] \<Rightarrow>
              thenE (ensureE (xc_status exception = ''PENDING_APPROVAL'') ''INVALID_EXCEPTION_STATE'')
             (thenE (ensureE (ap_actor maker \<noteq> checkerRef) ''MAKER_CHECKER_CONFLICT'')
             (thenE (modifyE (\<lambda>s. s\<lparr>db_approvals := db_approvals s @
                [\<lparr>ap_exception = exceptionId, ap_round = xc_round exception, ap_role = ''CHECKER'',
                   ap_actor = checkerRef, ap_decision = decision, ap_replacement = None, ap_signature = signature\<rparr>]\<rparr>))
             (retE \<lparr>ao_exception = exception, ao_proposalDecision = ap_decision maker,
                ao_replacement = ap_replacement maker, ao_checkerDecision = decision, ao_maker = ap_actor maker\<rparr>)))
          | _ \<Rightarrow> throwE (Coded ''INVALID_EXCEPTION_STATE''))))"

definition returnExceptionForReview :: "string \<Rightarrow> (db, exception_record) eff" where
  "returnExceptionForReview exceptionId = withE (\<lambda>s.
     case find (\<lambda>r. xc_id r = exceptionId \<and> xc_status r = ''PENDING_APPROVAL'') (db_exceptions s) of
       None \<Rightarrow> throwE (Coded ''INVALID_EXCEPTION_STATE'')
     | Some exception \<Rightarrow>
         let updated = exception\<lparr>xc_status := ''OPEN'', xc_version := xc_version exception + 1\<rparr> in
         thenE (modifyE (\<lambda>s. s\<lparr>db_exceptions := update_where
             (\<lambda>r. xc_id r = exceptionId \<and> xc_status r = ''PENDING_APPROVAL'') (\<lambda>_. updated) (db_exceptions s)\<rparr>))
        (retE updated))"

definition resolveExceptionCase :: "string \<Rightarrow> string \<Rightarrow> string option \<Rightarrow> (db, exception_record) eff" where
  "resolveExceptionCase exceptionId status replacementTransactionId =
     thenE (ensureE (status \<in> {''RESOLVED_RETRIED'', ''RESOLVED_CANCELLED''}) ''INVALID_EXCEPTION_STATE'')
    (withE (\<lambda>s.
     case find (\<lambda>r. xc_id r = exceptionId \<and> xc_status r = ''PENDING_APPROVAL'') (db_exceptions s) of
       None \<Rightarrow> throwE (Coded ''INVALID_EXCEPTION_STATE'')
     | Some exception \<Rightarrow>
         let updated = exception\<lparr>xc_status := status, xc_replacement := replacementTransactionId,
           xc_version := xc_version exception + 1\<rparr> in
         thenE (modifyE (\<lambda>s. s\<lparr>db_exceptions := update_where
             (\<lambda>r. xc_id r = exceptionId \<and> xc_status r = ''PENDING_APPROVAL'') (\<lambda>_. updated) (db_exceptions s)\<rparr>))
        (retE updated)))"

end
