(* ===== verification/Outbox.thy ===== *)
theory Outbox
  imports PgStore
begin

text \<open>
  The reliable outbox: its operations in \<open>src/storage/postgres-store.js\<close> (enqueue, claim, publish, fail,
  consume once, maker-checker replay of a dead letter), the dispatcher in
  \<open>src/storage/outbox-dispatcher.js\<close> and the cycle of the worker in \<open>src/storage/outbox-worker.js\<close>.
  The event a worker publishes goes to a publisher outside the program, an argument that returns or
  throws. The rows of \<open>db_outbox\<close> stand in the order of their \<open>enqueue_sequence\<close>.
\<close>

section \<open>Enqueue and claim\<close>

definition enqueueOutbox ::
  "(string \<Rightarrow> string) \<Rightarrow> int \<Rightarrow> string \<Rightarrow> string \<Rightarrow> string \<Rightarrow> string \<Rightarrow> json \<Rightarrow> int option \<Rightarrow> (db, string) eff" where
  "enqueueOutbox sha now eventId tenant topic aggregateId payload availableAt = withE (\<lambda>s.
     let payloadHash = sha256Canonical sha payload in
     if \<exists>r \<in> set (db_outbox s). ob_id r = eventId then throwE unique_violation
     else thenE (modifyE (\<lambda>s. s\<lparr>db_outbox := db_outbox s @
            [\<lparr>ob_id = eventId, ob_tenant = tenant, ob_topic = topic, ob_aggregate = aggregateId, ob_payload = stored_json payload,
               ob_hash = payloadHash, ob_status = ''PENDING'', ob_attempts = 0,
               ob_availableAt = (case availableAt of None \<Rightarrow> now | Some t \<Rightarrow> t), ob_claimedBy = None,
               ob_leaseExpiresAt = None, ob_publishedAt = None, ob_lastError = None, ob_deadAt = None, ob_replays = 0\<rparr>]\<rparr>))
         (retE payloadHash))"

definition same_stream :: "outbox_row \<Rightarrow> outbox_row \<Rightarrow> bool" where
  "same_stream p e = (ob_tenant p = ob_tenant e \<and> ob_aggregate p = ob_aggregate e)"

definition due :: "int \<Rightarrow> outbox_row \<Rightarrow> bool" where
  "due now e =
     (ob_status e \<in> {''PENDING'', ''FAILED''} \<and> ob_availableAt e \<le> now
      \<or> ob_status e = ''CLAIMED'' \<and> (case ob_leaseExpiresAt e of None \<Rightarrow> False | Some t \<Rightarrow> t \<le> now))"

fun candidates_from :: "int \<Rightarrow> string option \<Rightarrow> outbox_row list \<Rightarrow> outbox_row list \<Rightarrow> outbox_row list" where
  \<comment> \<open>the claimable rows, in sequence order; \<open>earlier\<close> holds the rows before\<close>
  "candidates_from now tenant earlier [] = []"
| "candidates_from now tenant earlier (e # rest) =
     (if (case tenant of None \<Rightarrow> True | Some t \<Rightarrow> ob_tenant e = t) \<and> due now e
         \<and> \<not> list_ex (\<lambda>p. same_stream p e \<and> ob_status p \<noteq> ''PUBLISHED'') earlier
      then e # candidates_from now tenant (earlier @ [e]) rest
      else candidates_from now tenant (earlier @ [e]) rest)"

definition claim_row :: "int \<Rightarrow> string \<Rightarrow> nat \<Rightarrow> outbox_row \<Rightarrow> outbox_row" where
  "claim_row now workerId leaseMs r =
     r\<lparr>ob_status := ''CLAIMED'', ob_claimedBy := Some workerId, ob_leaseExpiresAt := Some (now + int leaseMs),
       ob_attempts := ob_attempts r + 1\<rparr>"

definition claimOutboxBatch ::
  "int \<Rightarrow> unit outcome \<Rightarrow> string \<Rightarrow> string option \<Rightarrow> nat \<Rightarrow> nat \<Rightarrow> (db, outbox_row list) eff" where
  "claimOutboxBatch now commit workerId tenant limit leaseMs = withReadCommittedTransaction commit (withE (\<lambda>s.
     let chosen = map ob_id (take limit (candidates_from now tenant [] (db_outbox s)));
         rows = update_where (\<lambda>r. ob_id r \<in> set chosen) (claim_row now workerId leaseMs) (db_outbox s)
     in thenE (modifyE (\<lambda>s. s\<lparr>db_outbox := rows\<rparr>))
       (retE (filter (\<lambda>r. ob_id r \<in> set chosen) rows))))"

section \<open>Outcome of a delivery\<close>

definition owned :: "int \<Rightarrow> string \<Rightarrow> string \<Rightarrow> outbox_row \<Rightarrow> bool" where
  "owned now eventId workerId r =
     (ob_id r = eventId \<and> ob_status r = ''CLAIMED'' \<and> ob_claimedBy r = Some workerId
      \<and> (case ob_leaseExpiresAt r of None \<Rightarrow> False | Some t \<Rightarrow> now < t))"

definition markOutboxPublished :: "int \<Rightarrow> string \<Rightarrow> string \<Rightarrow> (db, unit) eff" where
  "markOutboxPublished now eventId workerId = withE (\<lambda>s.
     thenE (modifyE (\<lambda>s. s\<lparr>db_outbox := update_where (owned now eventId workerId)
       (\<lambda>r. r\<lparr>ob_status := ''PUBLISHED'', ob_publishedAt := Some now, ob_lastError := None,
          ob_claimedBy := None, ob_leaseExpiresAt := None\<rparr>) (db_outbox s)\<rparr>))
    (ensureE (length (filter (owned now eventId workerId) (db_outbox s)) = 1) ''OUTBOX_CLAIM_MISMATCH''))"

definition fail_row :: "int \<Rightarrow> string \<Rightarrow> bool \<Rightarrow> int \<Rightarrow> outbox_row \<Rightarrow> outbox_row" where
  "fail_row now error dead retryDelay r =
     r\<lparr>ob_status := (if dead then ''DEAD'' else ''FAILED''), ob_lastError := Some (take 2000 error),
       ob_availableAt := (if dead then ob_availableAt r else now + retryDelay),
       ob_deadAt := (if dead then Some now else None), ob_claimedBy := None, ob_leaseExpiresAt := None\<rparr>"

definition markOutboxFailed :: "int \<Rightarrow> string \<Rightarrow> string \<Rightarrow> string \<Rightarrow> bool \<Rightarrow> int \<Rightarrow> (db, unit) eff" where
  "markOutboxFailed now eventId workerId error dead retryDelay = withE (\<lambda>s.
     thenE (modifyE (\<lambda>s. s\<lparr>db_outbox := update_where (owned now eventId workerId)
       (fail_row now error dead retryDelay) (db_outbox s)\<rparr>))
    (ensureE (length (filter (owned now eventId workerId) (db_outbox s)) = 1) ''OUTBOX_CLAIM_MISMATCH''))"

section \<open>Consuming once\<close>

definition consumeOutboxOnce ::
  "(string \<Rightarrow> string) \<Rightarrow> (nat \<Rightarrow> unit outcome) \<Rightarrow> string \<Rightarrow> outbox_row \<Rightarrow> (db, json) eff \<Rightarrow> (db, bool \<times> json) eff" where
  \<comment> \<open>\<open>handler\<close> answers \<open>JUndefined\<close> or \<open>JNull\<close> where it has no result\<close>
  "consumeOutboxOnce sha commit consumerName event handler = withSerializableTransaction 3 commit (withE (\<lambda>s.
     case find (\<lambda>r. ib_consumer r = consumerName \<and> ib_event r = ob_id event) (db_inbox s) of
       Some existing \<Rightarrow>
         thenE (ensureE (ib_hash existing = ob_hash event) ''INBOX_PAYLOAD_CONFLICT'')
        (retE (True, ib_result existing))
     | None \<Rightarrow>
         thenE (ensureE (sha256Canonical sha (ob_payload event) = ob_hash event) ''OUTBOX_PAYLOAD_TAMPERED'')
        (bindE handler (\<lambda>handlerResult.
         let result = (if handlerResult = JUndefined \<or> handlerResult = JNull then JObj [] else handlerResult) in
         thenE (modifyE (\<lambda>s. s\<lparr>db_inbox := db_inbox s @
            [\<lparr>ib_consumer = consumerName, ib_event = ob_id event, ib_hash = ob_hash event, ib_result = stored_json result\<rparr>]\<rparr>))
        (retE (False, result))))))"

definition register_callback :: "outbox_row \<Rightarrow> (db, json) eff" where
  \<comment> \<open>the handler of \<open>SimulatedRegisterCallbackConsumer.consume\<close>\<close>
  "register_callback event = withE (\<lambda>s.
     let named = jfield (ob_payload event) ''transactionId'';
         tx = (if named = JUndefined \<or> named = JNull then JStr (ob_aggregate event) else named) in
     if \<exists>r \<in> set (db_callbacks s). cb_event r = ob_id event then throwE unique_violation
     else thenE (modifyE (\<lambda>s. s\<lparr>db_callbacks := db_callbacks s @
            [\<lparr>cb_event = ob_id event, cb_tx = tx, cb_type = ob_topic event, cb_hash = ob_hash event\<rparr>]\<rparr>))
         (retE (JObj [(''transactionId'', tx), (''callbackType'', JStr (ob_topic event))])))"

definition consume :: "(string \<Rightarrow> string) \<Rightarrow> (nat \<Rightarrow> unit outcome) \<Rightarrow> string \<Rightarrow> outbox_row \<Rightarrow> (db, bool \<times> json) eff" where
  "consume sha commit consumerName event =
     consumeOutboxOnce sha commit consumerName event (register_callback event)"

section \<open>Dead letters\<close>

definition replay_audit :: "string \<Rightarrow> string \<Rightarrow> string \<Rightarrow> json \<Rightarrow> audit_event" where
  "replay_audit tenant eventType eventId metadata =
     \<lparr>ae_tenant = tenant, ae_event = eventType, ae_aggType = ''outbox_event'', ae_aggId = eventId,
      ae_metadata = metadata\<rparr>"

definition proposeDeadLetterReplay ::
  "(string \<Rightarrow> string) \<Rightarrow> (nat \<Rightarrow> unit outcome) \<Rightarrow> string \<Rightarrow> string \<Rightarrow> string \<Rightarrow> string \<Rightarrow> string \<Rightarrow> (db, unit) eff" where
  "proposeDeadLetterReplay sha commit requestId eventId tenant makerRef reason =
     withSerializableTransaction 3 commit (withE (\<lambda>s.
     case find (\<lambda>r. ob_id r = eventId) (db_outbox s) of
       None \<Rightarrow> throwE (Coded ''INVALID_DEAD_LETTER_STATE'')
     | Some event \<Rightarrow>
         thenE (ensureE (ob_status event = ''DEAD'' \<and> ob_tenant event = tenant) ''INVALID_DEAD_LETTER_STATE'')
        (if \<exists>r \<in> set (db_replays s). rq_id r = requestId \<or> rq_event r = eventId \<and> rq_status r = ''PENDING''
         then throwE unique_violation
         else thenE (modifyE (\<lambda>s. s\<lparr>db_replays := db_replays s @
            [\<lparr>rq_id = requestId, rq_event = eventId, rq_tenant = tenant, rq_maker = makerRef, rq_reason = reason,
               rq_snapshot = ob_lastError event, rq_status = ''PENDING'', rq_checker = None, rq_decision = None\<rparr>]\<rparr>))
        (thenE (recordAuditEvent sha (replay_audit tenant ''outbox.dead_letter_replay_proposed'' eventId
            (JObj [(''requestId'', JStr requestId), (''makerRef'', JStr makerRef), (''reason'', JStr reason)])))
        (retE ())))))"

definition revive :: "int \<Rightarrow> outbox_row \<Rightarrow> outbox_row" where
  "revive now r = r\<lparr>ob_status := ''PENDING'', ob_attempts := 0, ob_availableAt := now, ob_claimedBy := None,
     ob_leaseExpiresAt := None, ob_publishedAt := None, ob_deadAt := None, ob_lastError := None,
     ob_replays := ob_replays r + 1\<rparr>"

definition decided :: "string \<Rightarrow> string \<Rightarrow> string \<Rightarrow> replay_row \<Rightarrow> replay_row" where
  "decided checkerRef decision status r = r\<lparr>rq_status := status, rq_checker := Some checkerRef, rq_decision := Some decision\<rparr>"

definition decideDeadLetterReplay ::
  "(string \<Rightarrow> string) \<Rightarrow> int \<Rightarrow> (nat \<Rightarrow> unit outcome) \<Rightarrow> string \<Rightarrow> string \<Rightarrow> string \<Rightarrow> (db, string) eff" where
  "decideDeadLetterReplay sha now commit requestId checkerRef decision =
     thenE (ensureE (decision \<in> {''APPROVE'', ''REJECT''}) ''INVALID_APPROVAL_DECISION'')
    (withSerializableTransaction 3 commit (withE (\<lambda>s.
     case find (\<lambda>r. rq_id r = requestId) (db_replays s) of
       None \<Rightarrow> throwE (Coded ''INVALID_DEAD_LETTER_STATE'')
     | Some row \<Rightarrow>
         thenE (ensureE (rq_status row = ''PENDING'') ''INVALID_DEAD_LETTER_STATE'')
        (thenE (ensureE (rq_maker row \<noteq> checkerRef) ''MAKER_CHECKER_CONFLICT'')
        (thenE
          (if decision = ''REJECT'' then
             modifyE (\<lambda>s. s\<lparr>db_replays := update_where (\<lambda>r. rq_id r = requestId)
               (decided checkerRef ''REJECT'' ''REJECTED'') (db_replays s)\<rparr>)
           else
             thenE (ensureE (case find (\<lambda>r. ob_id r = rq_event row) (db_outbox s) of
                None \<Rightarrow> False | Some event \<Rightarrow> ob_status event = ''DEAD'') ''INVALID_DEAD_LETTER_STATE'')
            (thenE (modifyE (\<lambda>s. s\<lparr>db_outbox := update_where (\<lambda>r. ob_id r = rq_event row) (revive now) (db_outbox s)\<rparr>))
            (modifyE (\<lambda>s. s\<lparr>db_replays := update_where (\<lambda>r. rq_id r = requestId)
               (decided checkerRef ''APPROVE'' ''EXECUTED'') (db_replays s)\<rparr>))))
        (thenE (recordAuditEvent sha (replay_audit (rq_tenant row)
            (if decision = ''APPROVE'' then ''outbox.dead_letter_replay_approve'' else ''outbox.dead_letter_replay_reject'')
            (rq_event row)
            (JObj [(''requestId'', JStr requestId), (''makerRef'', JStr (rq_maker row)),
               (''checkerRef'', JStr checkerRef), (''decision'', JStr decision)])))
        (retE (if decision = ''APPROVE'' then ''EXECUTED'' else ''REJECTED''))))))))"

section \<open>The dispatcher\<close>

definition retryDelayMs :: "int \<Rightarrow> int \<Rightarrow> int \<Rightarrow> int outcome" where
  \<comment> \<open>the arguments are integers; \<open>assertPositiveInteger\<close> rejects the others too\<close>
  "retryDelayMs attempt baseDelayMs maxDelayMs =
     nativeR (0 < attempt \<and> 0 < baseDelayMs \<and> 0 < maxDelayMs) ''TypeError''
    (Inr (min maxDelayMs (baseDelayMs * 2 ^ nat (min (attempt - 1) 30))))"

record dispatcher =
  dp_workerId :: string
  dp_tenantId :: "string option"
  dp_leaseMs :: nat
  dp_maxAttempts :: nat
  dp_baseDelayMs :: nat
  dp_maxDelayMs :: nat

definition OutboxDispatcher :: "dispatcher \<Rightarrow> dispatcher outcome" where
  "OutboxDispatcher d =
     nativeR (dp_workerId d \<noteq> []) ''TypeError''
    (nativeR (0 < dp_leaseMs d \<and> 0 < dp_maxAttempts d \<and> 0 < dp_baseDelayMs d \<and> 0 < dp_maxDelayMs d) ''TypeError''
    (Inr d))"

record batch_result =
  dr_claimed :: nat
  dr_published :: nat
  dr_failed :: nat
  dr_dead :: nat

text \<open>
  One delivery reads the clock when it marks the event: \<open>clock n\<close> is the time at the \<open>n\<close>-th event of
  the batch. \<open>publish\<close> is the external publisher.
\<close>

definition deliver ::
  "dispatcher \<Rightarrow> (outbox_row \<Rightarrow> string + unit) \<Rightarrow> int \<Rightarrow> outbox_row \<Rightarrow> batch_result \<Rightarrow> (db, batch_result) eff" where
  \<comment> \<open>a failed mark is caught like a failed publication; the message of a mismatch is fixed\<close>
  "deliver d publish now event result =
     (let failure = (\<lambda>message.
            let dead = dp_maxAttempts d \<le> ob_attempts event in
            bindE (liftE (retryDelayMs (int (ob_attempts event)) (int (dp_baseDelayMs d)) (int (dp_maxDelayMs d)))) (\<lambda>delay.
            thenE (markOutboxFailed now (ob_id event) (dp_workerId d) message dead delay)
           (retE (if dead then result\<lparr>dr_dead := dr_dead result + 1\<rparr>
                  else result\<lparr>dr_failed := dr_failed result + 1\<rparr>))))
      in case publish event of
        Inl message \<Rightarrow> failure message
      | Inr _ \<Rightarrow>
          catchE (thenE (markOutboxPublished now (ob_id event) (dp_workerId d))
              (retE (result\<lparr>dr_published := dr_published result + 1\<rparr>)))
            (\<lambda>_. failure ''outbox claim is missing or owned by another worker''))"

fun deliver_all ::
  "dispatcher \<Rightarrow> (outbox_row \<Rightarrow> string + unit) \<Rightarrow> int list \<Rightarrow> outbox_row list \<Rightarrow> batch_result \<Rightarrow> (db, batch_result) eff" where
  "deliver_all d publish clock [] result = retE result"
| "deliver_all d publish [] (event # events) result = retE result"
| "deliver_all d publish (now # clock) (event # events) result =
     bindE (deliver d publish now event result) (deliver_all d publish clock events)"

definition dispatchBatch ::
  "dispatcher \<Rightarrow> (outbox_row \<Rightarrow> string + unit) \<Rightarrow> int \<Rightarrow> unit outcome \<Rightarrow> (nat \<Rightarrow> int) \<Rightarrow> nat \<Rightarrow> (db, batch_result) eff" where
  "dispatchBatch d publish now commit clock limit =
     thenE (liftE (nativeR (0 < limit) ''TypeError'' (Inr ())))
    (bindE (claimOutboxBatch now commit (dp_workerId d) (dp_tenantId d) limit (dp_leaseMs d)) (\<lambda>events.
     deliver_all d publish (map clock [0..<length events]) events
       \<lparr>dr_claimed = length events, dr_published = 0, dr_failed = 0, dr_dead = 0\<rparr>))"

section \<open>The worker\<close>

record worker_metrics =
  wm_running :: bool
  wm_inFlight :: bool
  wm_cycles :: nat
  wm_claimed :: nat
  wm_published :: nat
  wm_failed :: nat
  wm_dead :: nat
  wm_cycleErrors :: nat
  wm_lastCycleAt :: "int option"
  wm_lastSuccessAt :: "int option"
  wm_lastError :: "js_error option"

definition count_result :: "batch_result \<Rightarrow> worker_metrics \<Rightarrow> worker_metrics" where
  "count_result r m = m\<lparr>wm_claimed := wm_claimed m + dr_claimed r, wm_published := wm_published m + dr_published r,
     wm_failed := wm_failed m + dr_failed r, wm_dead := wm_dead m + dr_dead r\<rparr>"

definition OutboxWorker_runOnce ::
  "int \<Rightarrow> int \<Rightarrow> (db, batch_result) eff \<Rightarrow> worker_metrics \<times> db \<Rightarrow> batch_result option \<times> worker_metrics \<times> db" where
  "OutboxWorker_runOnce started finished dispatch = (\<lambda>(m, s).
     if wm_inFlight m then (None, m, s)
     else
       let m1 = m\<lparr>wm_inFlight := True, wm_lastCycleAt := Some started\<rparr> in
       case dispatch s of
         (Inr result, t) \<Rightarrow>
           (Some result, (count_result result (m1\<lparr>wm_cycles := wm_cycles m1 + 1\<rparr>))
             \<lparr>wm_lastSuccessAt := Some finished, wm_lastError := None, wm_inFlight := False\<rparr>, t)
       | (Inl e, t) \<Rightarrow>
           (None, m1\<lparr>wm_cycles := wm_cycles m1 + 1, wm_cycleErrors := wm_cycleErrors m1 + 1,
             wm_lastError := Some e, wm_inFlight := False\<rparr>, t))"

end
