(* ===== verification/PgFrames.thy ===== *)
theory PgFrames
  imports Outbox
begin

text \<open>
  Which tables an operation of the store leaves alone, the step relation of the store, and the
  states it reaches from an empty database.
\<close>

lemma preserves_case_list [preserves_intros]:
  "preserves f m \<Longrightarrow> (\<And>x xs. preserves f (g x xs)) \<Longrightarrow> preserves f (case ys of [] \<Rightarrow> m | x # xs \<Rightarrow> g x xs)"
  by (simp split: list.splits)

lemma preserves_serializable [preserves_intros]:
  "preserves f m \<Longrightarrow> preserves f (withSerializableTransaction retries commit m)"
  unfolding withSerializableTransaction_def
  by (rule preservesI) (metis preservesD serializable_from_result)

lemma preserves_read_committed [preserves_intros]:
  "preserves f m \<Longrightarrow> preserves f (withReadCommittedTransaction commit m)"
  unfolding withReadCommittedTransaction_def
  by (rule preservesI) (metis preservesD attempt_once_result)

section \<open>Frames\<close>

definition books_of :: "db \<Rightarrow> book \<times> book" where
  "books_of s = (db_ledger s, db_register s)"

definition tracks_of :: "db \<Rightarrow> intent_row list \<times> history_row list" where
  "tracks_of s = (db_intents s, db_history s)"

definition cases_of :: "db \<Rightarrow> exception_record list \<times> approval_row list" where
  "cases_of s = (db_exceptions s, db_approvals s)"

lemmas table_defs = books_of_def tracks_of_def cases_of_def

lemma createTransactionIntent_frame:
  "preserves books_of (createTransactionIntent sha q)"
  "preserves cases_of (createTransactionIntent sha q)"
  "preserves db_audit (createTransactionIntent sha q)"
  "preserves db_outbox (createTransactionIntent sha q)"
  "preserves db_replays (createTransactionIntent sha q)"
  "preserves db_inbox (createTransactionIntent sha q)"
  unfolding createTransactionIntent_def
  by (intro preserves_intros preserves_modifyE | simp add: table_defs add_parties_def add_history_def)+

lemma transitionTransaction_frame:
  "preserves books_of (transitionTransaction tx st rs ac)"
  "preserves cases_of (transitionTransaction tx st rs ac)"
  "preserves db_audit (transitionTransaction tx st rs ac)"
  "preserves db_outbox (transitionTransaction tx st rs ac)"
  "preserves db_replays (transitionTransaction tx st rs ac)"
  "preserves db_inbox (transitionTransaction tx st rs ac)"
  unfolding transitionTransaction_def
  by (intro preserves_intros preserves_modifyE | simp add: table_defs add_history_def)+

lemma appendLedgerBatch_frame:
  "preserves tracks_of (appendLedgerBatch b tx src es)"
  "preserves cases_of (appendLedgerBatch b tx src es)"
  "preserves db_audit (appendLedgerBatch b tx src es)"
  "preserves db_outbox (appendLedgerBatch b tx src es)"
  "preserves db_replays (appendLedgerBatch b tx src es)"
  "preserves db_inbox (appendLedgerBatch b tx src es)"
  unfolding appendLedgerBatch_def
  by (intro preserves_intros preserves_modifyE | simp add: table_defs)+

lemma appendRegisterBatch_frame:
  "preserves tracks_of (appendRegisterBatch b tx src es)"
  "preserves cases_of (appendRegisterBatch b tx src es)"
  "preserves db_audit (appendRegisterBatch b tx src es)"
  "preserves db_outbox (appendRegisterBatch b tx src es)"
  "preserves db_replays (appendRegisterBatch b tx src es)"
  "preserves db_inbox (appendRegisterBatch b tx src es)"
  unfolding appendRegisterBatch_def
  by (intro preserves_intros preserves_modifyE | simp add: table_defs)+

lemma storeReceipt_frame:
  "preserves books_of (storeReceipt sha tx rcpt)"
  "preserves tracks_of (storeReceipt sha tx rcpt)"
  "preserves cases_of (storeReceipt sha tx rcpt)"
  "preserves db_audit (storeReceipt sha tx rcpt)"
  "preserves db_outbox (storeReceipt sha tx rcpt)"
  "preserves db_replays (storeReceipt sha tx rcpt)"
  "preserves db_inbox (storeReceipt sha tx rcpt)"
  unfolding storeReceipt_def
  by (intro preserves_intros preserves_modifyE | simp add: table_defs)+

lemma recordAuditEvent_frame:
  "preserves books_of (recordAuditEvent sha e)"
  "preserves tracks_of (recordAuditEvent sha e)"
  "preserves cases_of (recordAuditEvent sha e)"
  "preserves db_outbox (recordAuditEvent sha e)"
  "preserves db_replays (recordAuditEvent sha e)"
  "preserves db_inbox (recordAuditEvent sha e)"
  unfolding recordAuditEvent_def
  by (intro preserves_intros preserves_modifyE | simp add: table_defs)+

lemma store_proposeExceptionResolution_frame:
  "preserves books_of (store_proposeExceptionResolution x mk dec rep sig)"
  "preserves tracks_of (store_proposeExceptionResolution x mk dec rep sig)"
  "preserves db_audit (store_proposeExceptionResolution x mk dec rep sig)"
  "preserves db_outbox (store_proposeExceptionResolution x mk dec rep sig)"
  "preserves db_replays (store_proposeExceptionResolution x mk dec rep sig)"
  "preserves db_inbox (store_proposeExceptionResolution x mk dec rep sig)"
  unfolding store_proposeExceptionResolution_def
  by (intro preserves_intros preserves_modifyE | simp add: table_defs)+

lemma store_approveExceptionResolution_frame:
  "preserves books_of (store_approveExceptionResolution x ck dec sig)"
  "preserves tracks_of (store_approveExceptionResolution x ck dec sig)"
  "preserves db_audit (store_approveExceptionResolution x ck dec sig)"
  "preserves db_outbox (store_approveExceptionResolution x ck dec sig)"
  "preserves db_replays (store_approveExceptionResolution x ck dec sig)"
  "preserves db_inbox (store_approveExceptionResolution x ck dec sig)"
  unfolding store_approveExceptionResolution_def
  by (intro preserves_intros preserves_modifyE | simp add: table_defs)+

lemma returnExceptionForReview_frame:
  "preserves books_of (returnExceptionForReview x)"
  "preserves tracks_of (returnExceptionForReview x)"
  "preserves db_audit (returnExceptionForReview x)"
  "preserves db_outbox (returnExceptionForReview x)"
  "preserves db_replays (returnExceptionForReview x)"
  "preserves db_inbox (returnExceptionForReview x)"
  unfolding returnExceptionForReview_def
  by (intro preserves_intros preserves_modifyE | simp add: table_defs)+

lemma resolveExceptionCase_frame:
  "preserves books_of (resolveExceptionCase x st rep)"
  "preserves tracks_of (resolveExceptionCase x st rep)"
  "preserves db_audit (resolveExceptionCase x st rep)"
  "preserves db_outbox (resolveExceptionCase x st rep)"
  "preserves db_replays (resolveExceptionCase x st rep)"
  "preserves db_inbox (resolveExceptionCase x st rep)"
  unfolding resolveExceptionCase_def
  by (intro preserves_intros preserves_modifyE | simp add: table_defs)+

lemma enqueueOutbox_frame:
  "preserves books_of (enqueueOutbox sha now ev ten tpc agg pay av)"
  "preserves tracks_of (enqueueOutbox sha now ev ten tpc agg pay av)"
  "preserves cases_of (enqueueOutbox sha now ev ten tpc agg pay av)"
  "preserves db_audit (enqueueOutbox sha now ev ten tpc agg pay av)"
  "preserves db_replays (enqueueOutbox sha now ev ten tpc agg pay av)"
  "preserves db_inbox (enqueueOutbox sha now ev ten tpc agg pay av)"
  unfolding enqueueOutbox_def
  by (intro preserves_intros preserves_modifyE | simp add: table_defs)+

lemma claimOutboxBatch_frame:
  "preserves books_of (claimOutboxBatch now com w ten lim lease)"
  "preserves tracks_of (claimOutboxBatch now com w ten lim lease)"
  "preserves cases_of (claimOutboxBatch now com w ten lim lease)"
  "preserves db_audit (claimOutboxBatch now com w ten lim lease)"
  "preserves db_replays (claimOutboxBatch now com w ten lim lease)"
  "preserves db_inbox (claimOutboxBatch now com w ten lim lease)"
  unfolding claimOutboxBatch_def
  by (intro preserves_intros preserves_modifyE | simp add: table_defs)+

lemma markOutboxPublished_frame:
  "preserves books_of (markOutboxPublished now ev w)"
  "preserves tracks_of (markOutboxPublished now ev w)"
  "preserves cases_of (markOutboxPublished now ev w)"
  "preserves db_audit (markOutboxPublished now ev w)"
  "preserves db_replays (markOutboxPublished now ev w)"
  "preserves db_inbox (markOutboxPublished now ev w)"
  unfolding markOutboxPublished_def
  by (intro preserves_intros preserves_modifyE | simp add: table_defs)+

lemma markOutboxFailed_frame:
  "preserves books_of (markOutboxFailed now ev w err dead delay)"
  "preserves tracks_of (markOutboxFailed now ev w err dead delay)"
  "preserves cases_of (markOutboxFailed now ev w err dead delay)"
  "preserves db_audit (markOutboxFailed now ev w err dead delay)"
  "preserves db_replays (markOutboxFailed now ev w err dead delay)"
  "preserves db_inbox (markOutboxFailed now ev w err dead delay)"
  unfolding markOutboxFailed_def
  by (intro preserves_intros preserves_modifyE | simp add: table_defs)+

lemma register_callback_frame:
  "preserves books_of (register_callback ev)"
  "preserves tracks_of (register_callback ev)"
  "preserves cases_of (register_callback ev)"
  "preserves db_audit (register_callback ev)"
  "preserves db_outbox (register_callback ev)"
  "preserves db_replays (register_callback ev)"
  "preserves db_inbox (register_callback ev)"
  unfolding register_callback_def
  by (intro preserves_intros preserves_modifyE | simp add: table_defs)+

lemma consume_frame:
  "preserves books_of (consume sha coms c ev)"
  "preserves tracks_of (consume sha coms c ev)"
  "preserves cases_of (consume sha coms c ev)"
  "preserves db_audit (consume sha coms c ev)"
  "preserves db_outbox (consume sha coms c ev)"
  "preserves db_replays (consume sha coms c ev)"
  unfolding consume_def consumeOutboxOnce_def
  by (intro preserves_intros preserves_modifyE register_callback_frame | simp add: table_defs)+

lemma proposeDeadLetterReplay_frame:
  "preserves books_of (proposeDeadLetterReplay sha coms rq ev ten mk rs)"
  "preserves tracks_of (proposeDeadLetterReplay sha coms rq ev ten mk rs)"
  "preserves cases_of (proposeDeadLetterReplay sha coms rq ev ten mk rs)"
  "preserves db_outbox (proposeDeadLetterReplay sha coms rq ev ten mk rs)"
  "preserves db_inbox (proposeDeadLetterReplay sha coms rq ev ten mk rs)"
  unfolding proposeDeadLetterReplay_def
  by (intro preserves_intros preserves_modifyE recordAuditEvent_frame | simp add: table_defs)+

lemma decideDeadLetterReplay_frame:
  "preserves books_of (decideDeadLetterReplay sha now coms rq ck dec)"
  "preserves tracks_of (decideDeadLetterReplay sha now coms rq ck dec)"
  "preserves cases_of (decideDeadLetterReplay sha now coms rq ck dec)"
  "preserves db_inbox (decideDeadLetterReplay sha now coms rq ck dec)"
  unfolding decideDeadLetterReplay_def
  by (intro preserves_intros preserves_modifyE recordAuditEvent_frame | simp add: table_defs)+

lemmas frames = createTransactionIntent_frame transitionTransaction_frame appendLedgerBatch_frame
  appendRegisterBatch_frame storeReceipt_frame recordAuditEvent_frame store_proposeExceptionResolution_frame
  store_approveExceptionResolution_frame returnExceptionForReview_frame resolveExceptionCase_frame
  enqueueOutbox_frame claimOutboxBatch_frame markOutboxPublished_frame markOutboxFailed_frame consume_frame
  proposeDeadLetterReplay_frame decideDeadLetterReplay_frame

section \<open>The store as a transition system\<close>

text \<open>
  A transaction of a client is a sequence of operations that each return; one that throws is rolled
  back. The operations that open their own transaction take effect whether they return or throw.
\<close>

inductive pg_step :: "(string \<Rightarrow> string) \<Rightarrow> db \<Rightarrow> db \<Rightarrow> bool" for sha :: "string \<Rightarrow> string" where
  "createTransactionIntent sha q s = (Inr x1, t) \<Longrightarrow> pg_step sha s t"
| "transitionTransaction tx st rs ac s = (Inr x2, t) \<Longrightarrow> pg_step sha s t"
| "appendLedgerBatch b txo src es s = (Inr x3, t) \<Longrightarrow> pg_step sha s t"
| "appendRegisterBatch b txo src es s = (Inr x4, t) \<Longrightarrow> pg_step sha s t"
| "storeReceipt sha tx rcpt s = (Inr x5, t) \<Longrightarrow> pg_step sha s t"
| "recordAuditEvent sha e s = (Inr x6, t) \<Longrightarrow> pg_step sha s t"
| "store_proposeExceptionResolution x mk dec rep sig s = (Inr x7, t) \<Longrightarrow> pg_step sha s t"
| "store_approveExceptionResolution x ck dec sig s = (Inr x8, t) \<Longrightarrow> pg_step sha s t"
| "returnExceptionForReview x s = (Inr x9, t) \<Longrightarrow> pg_step sha s t"
| "resolveExceptionCase x st rep s = (Inr x10, t) \<Longrightarrow> pg_step sha s t"
| "enqueueOutbox sha now ev ten tpc agg pay av s = (Inr x11, t) \<Longrightarrow> pg_step sha s t"
| "claimOutboxBatch now com w teno lim lease s = (r1, t) \<Longrightarrow> pg_step sha s t"
| "markOutboxPublished now ev w s = (r2, t) \<Longrightarrow> pg_step sha s t"
| "markOutboxFailed now ev w err dead delay s = (r3, t) \<Longrightarrow> pg_step sha s t"
| "consume sha coms c evr s = (r4, t) \<Longrightarrow> pg_step sha s t"
| "proposeDeadLetterReplay sha coms rq ev ten mk rs' s = (r5, t) \<Longrightarrow> pg_step sha s t"
| "decideDeadLetterReplay sha now coms rq ck dec s = (r6, t) \<Longrightarrow> pg_step sha s t"

text \<open>Two ways an operation keeps an invariant of some of the tables.\<close>

lemma keeps_run: "m s = (r, t) \<Longrightarrow> keeps I m \<Longrightarrow> I s \<Longrightarrow> I t"
  by (rule keepsD)

lemma pg_step_keeps:
  assumes step: "pg_step sha s t" and I: "I s"
    and "\<And>q. keeps I (createTransactionIntent sha q)"
    and "\<And>tx st rs ac. keeps I (transitionTransaction tx st rs ac)"
    and "\<And>b tx src es. keeps I (appendLedgerBatch b tx src es)"
    and "\<And>b tx src es. keeps I (appendRegisterBatch b tx src es)"
    and "\<And>tx rcpt. keeps I (storeReceipt sha tx rcpt)"
    and "\<And>e. keeps I (recordAuditEvent sha e)"
    and "\<And>x mk dec rep sig. keeps I (store_proposeExceptionResolution x mk dec rep sig)"
    and "\<And>x ck dec sig. keeps I (store_approveExceptionResolution x ck dec sig)"
    and "\<And>x. keeps I (returnExceptionForReview x)"
    and "\<And>x st rep. keeps I (resolveExceptionCase x st rep)"
    and "\<And>now ev ten tpc agg pay av. keeps I (enqueueOutbox sha now ev ten tpc agg pay av)"
    and "\<And>now com w ten lim lease. keeps I (claimOutboxBatch now com w ten lim lease)"
    and "\<And>now ev w. keeps I (markOutboxPublished now ev w)"
    and "\<And>now ev w err dead delay. keeps I (markOutboxFailed now ev w err dead delay)"
    and "\<And>coms c ev. keeps I (consume sha coms c ev)"
    and "\<And>coms rq ev ten mk rs. keeps I (proposeDeadLetterReplay sha coms rq ev ten mk rs)"
    and "\<And>now coms rq ck dec. keeps I (decideDeadLetterReplay sha now coms rq ck dec)"
  shows "I t"
  using step I by cases (erule keeps_run, (rule assms(3-) | assumption)+)+

definition empty_db :: "string list \<Rightarrow> string list \<Rightarrow> db" where
  \<comment> \<open>the tables after the migrations, with the ledger and register accounts that were opened\<close>
  "empty_db ledgerAccounts registerAccounts =
     \<lparr>db_intents = [], db_parties = [], db_history = [],
      db_ledger = \<lparr>bk_accounts = ledgerAccounts, bk_batches = [], bk_entries = []\<rparr>,
      db_register = \<lparr>bk_accounts = registerAccounts, bk_batches = [], bk_entries = []\<rparr>,
      db_receipts = [], db_audit = [], db_exceptions = [], db_approvals = [], db_outbox = [], db_inbox = [],
      db_callbacks = [], db_replays = []\<rparr>"

end
