(* ===== verification/PgInvariants.thy ===== *)
theory PgInvariants
  imports PgFrames
begin

text \<open>
  Invariants of the durable store: double entry, the state machine of the intents, the hash chain of
  the audit log, the delivery order of the outbox and the separation of maker and checker. Each is a
  predicate on the tables it speaks about, and an interpretation of \<open>invariant_of\<close>.
\<close>

section \<open>Double entry\<close>

definition batch_total :: "entry_row list \<Rightarrow> string \<Rightarrow> string \<Rightarrow> int" where
  "batch_total es batch asset =
     sum_list (map en_delta (filter (\<lambda>e. en_batch e = batch \<and> en_asset e = asset) es))"

definition asset_total :: "entry_row list \<Rightarrow> string \<Rightarrow> int" where
  "asset_total es asset = sum_list (map en_delta (filter (\<lambda>e. en_asset e = asset) es))"

definition request_total :: "entry_request list \<Rightarrow> string \<Rightarrow> int" where
  "request_total es asset = sum_list (map eq_delta (filter (\<lambda>e. eq_asset e = asset) es))"

definition book_ok :: "book \<Rightarrow> bool" where
  "book_ok b =
     ((\<forall>batch asset. batch_total (bk_entries b) batch asset = 0) \<and> (\<forall>asset. asset_total (bk_entries b) asset = 0)
      \<and> (\<forall>e \<in> set (bk_entries b). en_batch e \<in> bt_id ` set (bk_batches b))
      \<and> (\<forall>r \<in> set (bk_batches b). bt_status r = ''POSTED''
          \<and> bt_count r = length (filter (\<lambda>e. en_batch e = bt_id r) (bk_entries b))))"

lemma add_totals_get0:
  "add_totals es totals = Inr totals' \<Longrightarrow> jm_get0 totals' asset = jm_get0 totals asset + request_total es asset"
proof (induction es arbitrary: totals)
  case (Cons e es)
  then have "add_totals es (jm_set (eq_asset e) (jm_get0 totals (eq_asset e) + eq_delta e) totals) = Inr totals'"
    by (simp add: ensureR_Inr)
  from Cons.IH [OF this] show ?case by (simp add: request_total_def)
qed (simp add: request_total_def)

lemma all_zero_get0: "list_all (\<lambda>(_, total). total = 0) totals \<Longrightarrow> jm_get0 totals a = 0"
  by (auto simp: jm_get0_def list_all_iff split: option.splits dest!: map_of_SomeD)

lemma balanced_total:
  assumes "assertBalancedEntries es = Inr u"
  shows "request_total es asset = 0"
proof -
  obtain totals where totals: "add_totals es [] = Inr totals" "list_all (\<lambda>(_, total). total = 0) totals"
    using assms by (auto simp: assertBalancedEntries_def outcome_simps)
  have "jm_get0 totals asset = jm_get0 [] asset + request_total es asset" by (rule add_totals_get0 [OF totals(1)])
  moreover have "jm_get0 ([] :: (string, int) jsmap) asset = 0" by (simp add: jm_get0_def)
  ultimately show ?thesis using all_zero_get0 [OF totals(2)] by simp
qed

lemma totals_append:
  "batch_total (xs @ ys) batch asset = batch_total xs batch asset + batch_total ys batch asset"
  "asset_total (xs @ ys) asset = asset_total xs asset + asset_total ys asset"
  by (simp_all add: batch_total_def asset_total_def)

lemma totals_of_request:
  "batch_total (map (entry_of batch) es) batch' asset = (if batch' = batch then request_total es asset else 0)"
  "asset_total (map (entry_of batch) es) asset = request_total es asset"
  by (induction es) (auto simp: batch_total_def asset_total_def request_total_def entry_of_def)

lemma post_batch_ok:
  assumes "book_ok b" and "assertBalancedEntries es = Inr u" and "\<not> (\<exists>r \<in> set (bk_batches b). bt_id r = batch)"
  shows "book_ok (post_batch batch tx src es b)"
proof -
  have "\<forall>e \<in> set (bk_entries b). en_batch e \<in> bt_id ` set (bk_batches b)" using assms(1) by (simp add: book_ok_def)
  then have none: "filter (\<lambda>e. en_batch e = batch) (bk_entries b) = []"
    using assms(3) unfolding filter_empty_conv by (metis imageE)
  have new: "length (filter (\<lambda>e. en_batch e = batch) (map (entry_of batch) es)) = length es"
    by (simp add: entry_of_def comp_def)
  have other: "batch' \<noteq> batch \<Longrightarrow> filter (\<lambda>e. en_batch e = batch') (map (entry_of batch) es) = []" for batch'
    by (simp add: entry_of_def filter_empty_conv)
  have entries: "bk_entries (post_batch batch tx src es b) = bk_entries b @ map (entry_of batch) es"
    by (simp add: post_batch_def Let_def)
  have batches: "bk_batches (post_batch batch tx src es b) = bk_batches b @
      [\<lparr>bt_id = batch, bt_tx = tx, bt_source = src, bt_status = ''POSTED'', bt_count = length es\<rparr>]"
    using assms(3) by (simp add: post_batch_def Let_def update_where_def map_idI)
  show ?thesis
    unfolding book_ok_def entries batches
  proof (intro conjI allI ballI)
    fix r assume r: "r \<in> set (bk_batches b @ [\<lparr>bt_id = batch, bt_tx = tx, bt_source = src, bt_status = ''POSTED'', bt_count = length es\<rparr>])"
    show "bt_status r = ''POSTED''" using r assms(1) by (auto simp: book_ok_def)
    show "bt_count r = length (filter (\<lambda>e. en_batch e = bt_id r) (bk_entries b @ map (entry_of batch) es))"
    proof (cases "bt_id r = batch")
      case True
      with assms(3) have "r \<notin> set (bk_batches b)" by blast
      with r have "bt_count r = length es" by auto
      with True none new show ?thesis by simp
    next
      case False
      with r have "r \<in> set (bk_batches b)" by auto
      with False other [OF False] assms(1) show ?thesis by (simp add: book_ok_def)
    qed
  next
    fix e assume "e \<in> set (bk_entries b @ map (entry_of batch) es)"
    then show "en_batch e \<in> bt_id ` set (bk_batches b @ [\<lparr>bt_id = batch, bt_tx = tx, bt_source = src, bt_status = ''POSTED'', bt_count = length es\<rparr>])"
      using assms(1) by (auto simp: book_ok_def entry_of_def)
  qed (use assms(1) balanced_total [OF assms(2)] in \<open>simp_all add: book_ok_def totals_append totals_of_request\<close>)
qed

definition books_ok :: "book \<times> book \<Rightarrow> bool" where
  "books_ok bs = (book_ok (fst bs) \<and> book_ok (snd bs))"

lemma appendLedgerBatch_keeps: "keeps (\<lambda>s. books_ok (books_of s)) (appendLedgerBatch b tx src es)"
  by (rule keepsI)
    (auto simp: appendLedgerBatch_def books_ok_def books_of_def thenE_def bindE_def withE_def liftE_def modifyE_def throwE_def
      ensureE_def retE_def intro: post_batch_ok split: sum.splits if_splits)

lemma appendRegisterBatch_keeps: "keeps (\<lambda>s. books_ok (books_of s)) (appendRegisterBatch b tx src es)"
  by (rule keepsI)
    (auto simp: appendRegisterBatch_def books_ok_def books_of_def thenE_def bindE_def withE_def liftE_def modifyE_def throwE_def
      ensureE_def retE_def intro: post_batch_ok split: sum.splits if_splits)

interpretation pg_books: invariant_of "pg_step sha" "empty_db la ra" "\<lambda>s. books_ok (books_of s)" for sha la ra
proof
  show "books_ok (books_of (empty_db la ra))"
    by (simp add: books_ok_def books_of_def empty_db_def book_ok_def batch_total_def asset_total_def)
  show "books_ok (books_of t)" if "books_ok (books_of s)" and "pg_step sha s t" for s t
    using that(2,1)
    by (rule pg_step_keeps)
      (rule appendLedgerBatch_keeps appendRegisterBatch_keeps frames [THEN preserves_keeps])+
qed

section \<open>The life of an intent\<close>

inductive trail :: "history_row list \<Rightarrow> string \<Rightarrow> bool" where
  requested: "th_from h = None \<Longrightarrow> th_to h = ''REQUESTED'' \<Longrightarrow> trail [h] ''REQUESTED''"
| moved: "trail hs st \<Longrightarrow> th_from h = Some st \<Longrightarrow> transition_allowed st (th_to h) \<Longrightarrow> trail (hs @ [h]) (th_to h)"

definition history_for :: "string \<Rightarrow> history_row list \<Rightarrow> history_row list" where
  "history_for tx = filter (\<lambda>h. th_tx h = tx)"

definition tracks_ok :: "intent_row list \<times> history_row list \<Rightarrow> bool" where
  "tracks_ok = (\<lambda>(intents, history).
     distinct (map ti_id intents) \<and> (\<forall>h \<in> set history. th_tx h \<in> ti_id ` set intents)
     \<and> (\<forall>r \<in> set intents. trail (history_for (ti_id r) history) (ti_state r)))"

lemma tracks_ok_new:
  assumes "tracks_ok (intents, history)" and "ti_id r \<notin> ti_id ` set intents" and "ti_state r = ''REQUESTED''"
    and "th_tx h = ti_id r" and "th_from h = None" and "th_to h = ''REQUESTED''"
  shows "tracks_ok (intents @ [r], history @ [h])"
proof -
  have "\<forall>h \<in> set history. th_tx h \<in> ti_id ` set intents" using assms(1) by (simp add: tracks_ok_def)
  then have "history_for (ti_id r) history = []"
    unfolding history_for_def using assms(2) by (intro filter_False) metis
  moreover have "trail [h] ''REQUESTED''" using assms(5,6) by (rule trail.requested)
  moreover have "ti_id q \<noteq> ti_id r" if "q \<in> set intents" for q using that assms(2) by (metis imageI)
  ultimately show ?thesis using assms by (auto simp: tracks_ok_def history_for_def)
qed

lemma tracks_ok_move:
  assumes "tracks_ok (intents, history)" and "find (\<lambda>r. ti_id r = tx) intents = Some locked"
    and "transition_allowed (ti_state locked) to"
    and "th_tx h = tx" "th_from h = Some (ti_state locked)" "th_to h = to"
    and "\<And>r. ti_id (f r) = ti_id r" and "\<And>r. ti_state (f r) = to"
  shows "tracks_ok (update_where (\<lambda>r. ti_id r = tx) f intents, history @ [h])"
proof -
  have locked: "locked \<in> set intents" "ti_id locked = tx" using assms(2) by (auto simp: find_Some_iff)
  have ids: "map ti_id (update_where (\<lambda>r. ti_id r = tx) f intents) = map ti_id intents"
    using assms(7) by (simp add: update_where_def)
  show ?thesis
    unfolding tracks_ok_def prod.case
  proof (intro conjI ballI)
    show "distinct (map ti_id (update_where (\<lambda>r. ti_id r = tx) f intents))"
      using assms(1) by (simp add: ids tracks_ok_def)
    fix x assume "x \<in> set (history @ [h])"
    moreover have "tx \<in> ti_id ` set intents" using locked by (metis imageI)
    ultimately have "th_tx x \<in> ti_id ` set intents" using assms(1,4) by (auto simp: tracks_ok_def)
    also have "ti_id ` set intents = set (map ti_id (update_where (\<lambda>r. ti_id r = tx) f intents))" by (simp add: ids)
    finally show "th_tx x \<in> ti_id ` set (update_where (\<lambda>r. ti_id r = tx) f intents)" by simp
  next
    fix r assume "r \<in> set (update_where (\<lambda>r. ti_id r = tx) f intents)"
    then obtain q where q: "q \<in> set intents" "r = (if ti_id q = tx then f q else q)" by (auto simp: update_where_def)
    then have old: "trail (history_for (ti_id q) history) (ti_state q)" using assms(1) by (simp add: tracks_ok_def)
    show "trail (history_for (ti_id r) (history @ [h])) (ti_state r)"
    proof (cases "ti_id q = tx")
      case True
      have "q = locked" using True locked q(1) assms(1) by (auto simp: tracks_ok_def distinct_map inj_on_def)
      then have "trail (history_for tx history @ [h]) (th_to h)"
        using old True assms(3,5,6) by (intro trail.moved) auto
      with True q assms(4,6-8) show ?thesis by (simp add: history_for_def)
    next
      case False
      with q old assms(4) show ?thesis by (simp add: history_for_def)
    qed
  qed
qed

lemma createTransactionIntent_keeps: "keeps (\<lambda>s. tracks_ok (tracks_of s)) (createTransactionIntent sha q)"
proof (rule keepsI)
  fix s r t
  assume ok: "tracks_ok (tracks_of s)" and run: "createTransactionIntent sha q s = (r, t)"
  show "tracks_ok (tracks_of t)"
  proof (cases "tracks_of t = tracks_of s")
    case False
    with run have "iq_id q \<notin> ti_id ` set (db_intents s)"
      and "tracks_of t = (db_intents s @ [new_intent sha q], db_history s @
        [\<lparr>th_tx = iq_id q, th_from = None, th_to = ''REQUESTED'', th_reason = None, th_actor = iq_actor q\<rparr>])"
      by (auto simp: createTransactionIntent_def tracks_of_def thenE_def bindE_def withE_def modifyE_def throwE_def
          ensureE_def retE_def add_parties_def add_history_def split: option.splits if_splits)
    with ok show ?thesis by (simp only: tracks_of_def) (rule tracks_ok_new, simp_all add: new_intent_def)
  qed (use ok in simp)
qed

lemma transitionTransaction_keeps: "keeps (\<lambda>s. tracks_ok (tracks_of s)) (transitionTransaction tx to rs ac)"
proof (rule keepsI)
  fix s r t
  assume ok: "tracks_ok (tracks_of s)" and run: "transitionTransaction tx to rs ac s = (r, t)"
  show "tracks_ok (tracks_of t)"
  proof (cases "tracks_of t = tracks_of s")
    case False
    with run obtain locked where "find (\<lambda>r. ti_id r = tx) (db_intents s) = Some locked"
      and "transition_allowed (ti_state locked) to"
      and "tracks_of t = (update_where (\<lambda>r. ti_id r = tx) (\<lambda>r. r\<lparr>ti_state := to, ti_version := ti_version r + 1\<rparr>) (db_intents s),
        db_history s @ [\<lparr>th_tx = tx, th_from = Some (ti_state locked), th_to = to, th_reason = rs, th_actor = ac\<rparr>])"
      by (auto simp: transitionTransaction_def assertTransition_def ensureR_def tracks_of_def thenE_def bindE_def withE_def
          modifyE_def throwE_def liftE_def optE_def retE_def add_history_def split: option.splits if_splits)
    with ok show ?thesis by (simp only: tracks_of_def) (rule tracks_ok_move, simp_all)
  qed (use ok in simp)
qed

interpretation pg_tracks: invariant_of "pg_step sha" "empty_db la ra" "\<lambda>s. tracks_ok (tracks_of s)" for sha la ra
proof
  show "tracks_ok (tracks_of (empty_db la ra))" by (simp add: tracks_ok_def tracks_of_def empty_db_def)
  show "tracks_ok (tracks_of t)" if "tracks_ok (tracks_of s)" and "pg_step sha s t" for s t
    using that(2,1)
    by (rule pg_step_keeps)
      (rule createTransactionIntent_keeps transitionTransaction_keeps frames [THEN preserves_keeps])+
qed

section \<open>The audit chain\<close>

definition event_with :: "json \<Rightarrow> audit_record \<Rightarrow> audit_event" where
  \<comment> \<open>the event of a row, with this metadata\<close>
  "event_with metadata r = \<lparr>ae_tenant = au_tenant r, ae_event = au_event r, ae_aggType = au_aggType r, ae_aggId = au_aggId r,
     ae_metadata = metadata\<rparr>"

definition event_of :: "audit_record \<Rightarrow> audit_event" where
  "event_of r = event_with (au_metadata r) r"

definition linked :: "(string \<Rightarrow> string) \<Rightarrow> audit_record list \<Rightarrow> audit_record \<Rightarrow> bool" where
  \<comment> \<open>the row names the hash of the last row of its aggregate before it, and its own hash covers that and
      the metadata as they were given, of which the row holds what is stored\<close>
  "linked sha before r =
     (au_previous r = map_option au_hash (find_last (same_aggregate (event_of r)) before)
      \<and> (\<exists>metadata. stored_json metadata = au_metadata r
           \<and> au_hash r = sha256Canonical sha (audit_body (event_with metadata r) (au_previous r))))"

definition chained :: "(string \<Rightarrow> string) \<Rightarrow> audit_record list \<Rightarrow> bool" where
  "chained sha rows = (\<forall>i < length rows. linked sha (take i rows) (rows ! i))"

lemma chained_snoc: "chained sha rows \<Longrightarrow> linked sha rows r \<Longrightarrow> chained sha (rows @ [r])"
  by (auto simp: chained_def less_Suc_eq nth_append)

lemma recordAuditEvent_run:
  "recordAuditEvent sha e s = (Inr x, t) \<Longrightarrow> \<exists>row. db_audit t = db_audit s @ [row] \<and> au_metadata row = stored_json (ae_metadata e)
     \<and> event_with (ae_metadata e) row = e \<and> au_previous row = map_option au_hash (find_last (same_aggregate e) (db_audit s))
     \<and> au_hash row = sha256Canonical sha (audit_body e (au_previous row)) \<and> x = au_hash row"
  by (auto simp: recordAuditEvent_def Let_def thenE_def bindE_def withE_def modifyE_def retE_def event_with_def)

lemma recordAuditEvent_keeps: "keeps (\<lambda>s. chained sha (db_audit s)) (recordAuditEvent sha e)"
proof (rule keepsI)
  fix s r t
  assume ok: "chained sha (db_audit s)" and run: "recordAuditEvent sha e s = (r, t)"
  obtain x where "r = Inr x" using run by (auto simp: recordAuditEvent_def Let_def thenE_def bindE_def withE_def modifyE_def retE_def)
  with recordAuditEvent_run [of sha e s x t] run obtain row where t: "db_audit t = db_audit s @ [row]"
    and row: "au_metadata row = stored_json (ae_metadata e)" "event_with (ae_metadata e) row = e"
      "au_previous row = map_option au_hash (find_last (same_aggregate e) (db_audit s))"
      "au_hash row = sha256Canonical sha (audit_body e (au_previous row))" by auto
  obtain m where "e = event_with m row" using row(2) [symmetric] by (rule that)
  then have "same_aggregate (event_of row) = same_aggregate e"
    by (simp add: event_of_def event_with_def same_aggregate_def fun_eq_iff)
  with row have "linked sha (db_audit s) row" unfolding linked_def by metis
  with ok show "chained sha (db_audit t)" unfolding t by (rule chained_snoc)
qed

lemma replay_audit_frames:
  "preserves db_audit (modifyE (\<lambda>s. s\<lparr>db_replays := f s\<rparr>))" "preserves db_audit (modifyE (\<lambda>s. s\<lparr>db_outbox := g s\<rparr>))"
  by (rule preserves_modifyE, simp)+

lemma proposeDeadLetterReplay_keeps:
  "keeps (\<lambda>s. chained sha (db_audit s)) (proposeDeadLetterReplay sha coms rq ev ten mk rs)"
  unfolding proposeDeadLetterReplay_def
  by (intro serializable_keeps keeps_withE keeps_intros recordAuditEvent_keeps replay_audit_frames [THEN preserves_keeps])

lemma decideDeadLetterReplay_keeps:
  "keeps (\<lambda>s. chained sha (db_audit s)) (decideDeadLetterReplay sha now coms rq ck dec)"
  unfolding decideDeadLetterReplay_def
  by (intro serializable_keeps keeps_withE keeps_intros recordAuditEvent_keeps replay_audit_frames [THEN preserves_keeps])

interpretation pg_audit: invariant_of "pg_step sha" "empty_db la ra" "\<lambda>s. chained sha (db_audit s)" for sha la ra
proof
  show "chained sha (db_audit (empty_db la ra))" by (simp add: chained_def empty_db_def)
  show "chained sha (db_audit t)" if "chained sha (db_audit s)" and "pg_step sha s t" for s t
    using that(2,1)
    by (rule pg_step_keeps)
      (rule recordAuditEvent_keeps proposeDeadLetterReplay_keeps decideDeadLetterReplay_keeps frames [THEN preserves_keeps])+
qed

section \<open>Maker and checker\<close>

definition checked_by_another :: "approval_row list \<Rightarrow> bool" where
  "checked_by_another approvals =
     (\<forall>c \<in> set approvals. ap_role c = ''CHECKER'' \<longrightarrow>
        (\<exists>m \<in> set approvals. ap_exception m = ap_exception c \<and> ap_round m = ap_round c
           \<and> ap_role m = ''MAKER'' \<and> ap_actor m \<noteq> ap_actor c))"

lemma checked_maker: "checked_by_another as \<Longrightarrow> ap_role m = ''MAKER'' \<Longrightarrow> checked_by_another (as @ [m])"
  by (auto simp: checked_by_another_def)

lemma checked_checker:
  "checked_by_another as \<Longrightarrow> m \<in> set as \<Longrightarrow> ap_exception m = ap_exception c \<Longrightarrow> ap_round m = ap_round c
     \<Longrightarrow> ap_role m = ''MAKER'' \<Longrightarrow> ap_actor m \<noteq> ap_actor c \<Longrightarrow> checked_by_another (as @ [c])"
  unfolding checked_by_another_def by (metis Un_iff set_ConsD set_append empty_iff list.set(1))

lemma store_propose_keeps:
  "keeps (\<lambda>s. checked_by_another (db_approvals s)) (store_proposeExceptionResolution x mk dec rep sig)"
  unfolding store_proposeExceptionResolution_def
  by (intro keeps_withE keeps_intros | rule keeps_modifyE | simp add: Let_def checked_maker)+

lemma store_approve_keeps:
  "keeps (\<lambda>s. checked_by_another (db_approvals s)) (store_approveExceptionResolution x ck dec sig)"
proof (rule keepsI)
  fix s r t
  assume ok: "checked_by_another (db_approvals s)" and run: "store_approveExceptionResolution x ck dec sig s = (r, t)"
  show "checked_by_another (db_approvals t)"
  proof (cases "db_approvals t = db_approvals s")
    case False
    with run obtain exception :: exception_record and maker where maker: "maker_record s x (xc_round exception) = [maker]" "ap_actor maker \<noteq> ck"
      and t: "db_approvals t = db_approvals s @
        [\<lparr>ap_exception = x, ap_round = xc_round exception, ap_role = ''CHECKER'', ap_actor = ck, ap_decision = dec,
           ap_replacement = None, ap_signature = sig\<rparr>]"
      by (auto simp: store_approveExceptionResolution_def thenE_def bindE_def withE_def modifyE_def throwE_def
          ensureE_def retE_def split: option.splits if_splits list.splits)
    have "maker \<in> set (maker_record s x (xc_round exception))" using maker(1) by simp
    then have "maker \<in> set (db_approvals s)" "ap_exception maker = x" "ap_round maker = xc_round exception" "ap_role maker = ''MAKER''"
      by (simp_all add: maker_record_def)
    with ok maker(2) show ?thesis unfolding t by (intro checked_checker) simp_all
  qed (use ok in simp)
qed

lemma case_updates_frame:
  "preserves db_approvals (returnExceptionForReview x)" "preserves db_approvals (resolveExceptionCase x st rep)"
  unfolding returnExceptionForReview_def resolveExceptionCase_def
  by (intro preserves_intros preserves_modifyE | simp)+

lemma cases_keep: "preserves cases_of m \<Longrightarrow> keeps (\<lambda>s. P (db_approvals s)) m"
  by (auto simp: preserves_def keeps_def cases_of_def)

interpretation pg_approvals: invariant_of "pg_step sha" "empty_db la ra" "\<lambda>s. checked_by_another (db_approvals s)" for sha la ra
proof
  show "checked_by_another (db_approvals (empty_db la ra))" by (simp add: checked_by_another_def empty_db_def)
  show "checked_by_another (db_approvals t)" if "checked_by_another (db_approvals s)" and "pg_step sha s t" for s t
    using that(2,1)
    by (rule pg_step_keeps)
      (rule store_propose_keeps store_approve_keeps case_updates_frame [THEN preserves_keeps]
        | (rule cases_keep, rule frames))+
qed

section \<open>Replays\<close>

definition replays_ok :: "replay_row list \<Rightarrow> bool" where
  "replays_ok rows = (distinct (map rq_id rows)
     \<and> (\<forall>r \<in> set rows. rq_status r \<noteq> ''PENDING'' \<longrightarrow> (\<exists>c. rq_checker r = Some c \<and> c \<noteq> rq_maker r)))"

lemma replays_ok_decided:
  assumes "replays_ok rows" and "find (\<lambda>r. rq_id r = rq) rows = Some row" and "rq_maker row \<noteq> ck"
  shows "replays_ok (update_where (\<lambda>r. rq_id r = rq) (decided ck dec st) rows)"
proof -
  have row: "row \<in> set rows" "rq_id row = rq" using assms(2) by (auto simp: find_Some_iff)
  have same: "r = row" if "r \<in> set rows" "rq_id r = rq" for r
    using that row assms(1) by (auto simp: replays_ok_def distinct_map inj_on_def)
  have "map (rq_id \<circ> (\<lambda>r. if rq_id r = rq then decided ck dec st r else r)) rows = map rq_id rows"
    by (simp add: decided_def)
  then have "distinct (map (rq_id \<circ> (\<lambda>r. if rq_id r = rq then decided ck dec st r else r)) rows)"
    using assms(1) by (simp only: replays_ok_def)
  with assms same show ?thesis by (auto simp: replays_ok_def update_where_def decided_def)
qed

lemma propose_replay_keeps:
  "keeps (\<lambda>s. replays_ok (db_replays s)) (proposeDeadLetterReplay sha coms rq ev ten mk rs)"
proof -
  have "keeps (\<lambda>s. replays_ok (db_replays s)) (recordAuditEvent sha e)" for e
    by (rule recordAuditEvent_frame [THEN preserves_keeps])
  then show ?thesis
    unfolding proposeDeadLetterReplay_def
    by (intro serializable_keeps keepsI)
      (auto simp: withE_def thenE_def bindE_def modifyE_def ensureE_def retE_def throwE_def replays_ok_def recordAuditEvent_def
        Let_def split: option.splits if_splits)
qed

lemma decide_replay_keeps:
  "keeps (\<lambda>s. replays_ok (db_replays s)) (decideDeadLetterReplay sha now coms rq ck dec)"
  unfolding decideDeadLetterReplay_def
  by (intro keeps_thenE keeps_ensureE serializable_keeps keepsI)
    (auto simp: withE_def thenE_def bindE_def modifyE_def ensureE_def retE_def throwE_def recordAuditEvent_def Let_def
      intro: replays_ok_decided split: option.splits if_splits)

interpretation pg_replays: invariant_of "pg_step sha" "empty_db la ra" "\<lambda>s. replays_ok (db_replays s)" for sha la ra
proof
  show "replays_ok (db_replays (empty_db la ra))" by (simp add: replays_ok_def empty_db_def)
  show "replays_ok (db_replays t)" if "replays_ok (db_replays s)" and "pg_step sha s t" for s t
    using that(2,1)
    by (rule pg_step_keeps)
      (rule propose_replay_keeps decide_replay_keeps frames [THEN preserves_keeps])+
qed

end
