(* ===== verification/OutboxOrder.thy ===== *)
theory OutboxOrder
  imports PgInvariants
begin

text \<open>
  The delivery order of the outbox: within the stream of one aggregate an event is claimed only when
  everything before it is published, whatever fails, expires, dies or is replayed; and the inbox,
  which makes a consumer handle an event once.
\<close>

section \<open>Order within a stream\<close>

definition started :: "outbox_row \<Rightarrow> bool" where
  "started e = (ob_status e \<in> {''CLAIMED'', ''PUBLISHED'', ''FAILED'', ''DEAD''})"

definition after_published :: "outbox_row \<Rightarrow> outbox_row \<Rightarrow> bool" where
  "after_published p e = (same_stream p e \<longrightarrow> started e \<longrightarrow> ob_status p = ''PUBLISHED'')"

definition outbox_ok :: "outbox_row list \<Rightarrow> bool" where
  "outbox_ok rows = (distinct (map ob_id rows) \<and> sorted_wrt after_published rows)"

lemma sorted_wrt_map_weaken:
  "sorted_wrt P xs \<Longrightarrow> (\<And>x y. x \<in> set xs \<Longrightarrow> y \<in> set xs \<Longrightarrow> P x y \<Longrightarrow> Q (f x) (f y)) \<Longrightarrow> sorted_wrt Q (map f xs)"
  unfolding sorted_wrt_map by (erule sorted_wrt_mono_rel [rotated])

lemma outbox_ok_update:
  assumes "outbox_ok rows"
    and "\<And>r. r \<in> set rows \<Longrightarrow> p r \<Longrightarrow> ob_status r \<noteq> ''PUBLISHED'' \<and> (started (f r) \<longrightarrow> started r)"
    and "\<And>r. ob_id (f r) = ob_id r \<and> ob_tenant (f r) = ob_tenant r \<and> ob_aggregate (f r) = ob_aggregate r"
  shows "outbox_ok (update_where p f rows)"
proof -
  have ids: "map ob_id (update_where p f rows) = map ob_id rows" using assms(3) by (simp add: update_where_def)
  have "sorted_wrt after_published (update_where p f rows)"
    unfolding update_where_def
  proof (rule sorted_wrt_map_weaken)
    show "sorted_wrt after_published rows" using assms(1) by (simp add: outbox_ok_def)
    fix x y assume x: "x \<in> set rows" and y: "y \<in> set rows" and xy: "after_published x y"
    show "after_published (if p x then f x else x) (if p y then f y else y)"
      unfolding after_published_def
    proof (intro impI)
      assume "same_stream (if p x then f x else x) (if p y then f y else y)" and st: "started (if p y then f y else y)"
      then have "same_stream x y" using assms(3) by (auto simp: same_stream_def split: if_splits)
      moreover have "started y" using st assms(2) [OF y] by (auto split: if_splits)
      ultimately have "ob_status x = ''PUBLISHED''" using xy by (simp add: after_published_def)
      with assms(2) [OF x] show "ob_status (if p x then f x else x) = ''PUBLISHED''" by auto
    qed
  qed
  with assms(1) ids show ?thesis by (simp add: outbox_ok_def)
qed

lemma owned_claimed: "owned now ev w r \<Longrightarrow> ob_status r \<noteq> ''PUBLISHED'' \<and> started r"
  by (simp add: owned_def started_def)

lemma markOutboxPublished_keeps: "keeps (\<lambda>s. outbox_ok (db_outbox s)) (markOutboxPublished now ev w)"
  by (rule keepsI)
    (auto simp: markOutboxPublished_def withE_def thenE_def bindE_def modifyE_def ensureE_def retE_def throwE_def
      dest: owned_claimed intro!: outbox_ok_update split: if_splits)

lemma markOutboxFailed_keeps: "keeps (\<lambda>s. outbox_ok (db_outbox s)) (markOutboxFailed now ev w err dead delay)"
  by (rule keepsI)
    (auto simp: markOutboxFailed_def withE_def thenE_def bindE_def modifyE_def ensureE_def retE_def throwE_def fail_row_def
      dest: owned_claimed intro!: outbox_ok_update split: if_splits)

lemma enqueueOutbox_keeps: "keeps (\<lambda>s. outbox_ok (db_outbox s)) (enqueueOutbox sha now ev ten tpc agg pay av)"
  by (rule keepsI)
    (auto simp: enqueueOutbox_def withE_def thenE_def bindE_def modifyE_def retE_def throwE_def Let_def outbox_ok_def
      sorted_wrt_append after_published_def started_def split: if_splits)

section \<open>Claims\<close>

lemma candidates_from_spec:
  "e \<in> set (candidates_from now ten earlier rest) \<Longrightarrow>
     \<exists>pre post. rest = pre @ e # post \<and> due now e
       \<and> (\<forall>p \<in> set (earlier @ pre). same_stream p e \<longrightarrow> ob_status p = ''PUBLISHED'')"
proof (induction now ten earlier rest rule: candidates_from.induct)
  case (2 now ten earlier x rest)
  show ?case
  proof (cases "e \<in> set (candidates_from now ten (earlier @ [x]) rest)")
    case True
    with 2 obtain pre post where "rest = pre @ e # post" "due now e"
      "\<forall>p \<in> set ((earlier @ [x]) @ pre). same_stream p e \<longrightarrow> ob_status p = ''PUBLISHED''" by (auto split: if_splits)
    then show ?thesis by (intro exI [of _ "x # pre"] exI [of _ post]) simp
  next
    case False
    with 2(3) have "e = x" "due now e" "\<not> list_ex (\<lambda>p. same_stream p e \<and> ob_status p \<noteq> ''PUBLISHED'') earlier"
      by (auto split: if_splits)
    then show ?thesis by (intro exI [of _ "[]"] exI [of _ rest]) (simp add: list_ex_iff)
  qed
qed simp

definition claimed_ids :: "int \<Rightarrow> string option \<Rightarrow> nat \<Rightarrow> outbox_row list \<Rightarrow> string list" where
  "claimed_ids now ten lim rows = map ob_id (take lim (candidates_from now ten [] rows))"

lemma claimed_row:
  assumes "distinct (map ob_id rows)" and "j < length rows" and "ob_id (rows ! j) \<in> set (claimed_ids now ten lim rows)"
  shows "due now (rows ! j)" and "i < j \<Longrightarrow> same_stream (rows ! i) (rows ! j) \<Longrightarrow> ob_status (rows ! i) = ''PUBLISHED''"
proof -
  obtain e where e: "e \<in> set (candidates_from now ten [] rows)" "ob_id e = ob_id (rows ! j)"
    using assms(3) by (auto simp: claimed_ids_def dest!: in_set_takeD)
  obtain pre post where rows: "rows = pre @ e # post" and due: "due now e"
    and pub: "\<forall>p \<in> set pre. same_stream p e \<longrightarrow> ob_status p = ''PUBLISHED''"
    using candidates_from_spec [OF e(1)] by auto
  have at: "rows ! length pre = e" "length pre < length rows" using rows by simp_all
  have "map ob_id rows ! length pre = map ob_id rows ! j" using at e(2) assms(2) by simp
  then have j: "length pre = j" using assms(1,2) at(2) by (metis length_map nth_eq_iff_index_eq)
  then show "due now (rows ! j)" using at due by simp
  show "ob_status (rows ! i) = ''PUBLISHED''" if "i < j" "same_stream (rows ! i) (rows ! j)"
  proof -
    have "rows ! i \<in> set pre" using that(1) j rows by (simp add: nth_append)
    with pub that(2) at j show ?thesis by simp
  qed
qed

lemma outbox_ok_claim:
  assumes "outbox_ok rows"
  shows "outbox_ok (update_where (\<lambda>r. ob_id r \<in> set (claimed_ids now ten lim rows)) (claim_row now w lease) rows)"
    (is "outbox_ok (update_where ?p ?f rows)")
proof -
  have dist: "distinct (map ob_id rows)" and order: "sorted_wrt after_published rows"
    using assms by (simp_all add: outbox_ok_def)
  have ids: "map ob_id (update_where ?p ?f rows) = map ob_id rows" by (simp add: update_where_def claim_row_def)
  have unclaimed: "\<not> ?p (rows ! i)" if "i < length rows" "ob_status (rows ! i) = ''PUBLISHED''" for i
    using claimed_row(1) [OF dist that(1)] that(2) by (auto simp: due_def)
  have "sorted_wrt after_published (map (\<lambda>r. if ?p r then ?f r else r) rows)"
    unfolding sorted_wrt_iff_nth_less
  proof (intro allI impI)
    fix i j assume ij: "i < j" and "j < length (map (\<lambda>r. if ?p r then ?f r else r) rows)"
    then have j: "j < length rows" and i: "i < length rows" by simp_all
    show "after_published (map (\<lambda>r. if ?p r then ?f r else r) rows ! i) (map (\<lambda>r. if ?p r then ?f r else r) rows ! j)"
      unfolding after_published_def nth_map [OF i] nth_map [OF j]
    proof (intro impI)
      assume "same_stream (if ?p (rows ! i) then ?f (rows ! i) else rows ! i) (if ?p (rows ! j) then ?f (rows ! j) else rows ! j)"
        and st: "started (if ?p (rows ! j) then ?f (rows ! j) else rows ! j)"
      then have same: "same_stream (rows ! i) (rows ! j)" by (auto simp: same_stream_def claim_row_def split: if_splits)
      have "ob_status (rows ! i) = ''PUBLISHED''"
      proof (cases "?p (rows ! j)")
        case True
        then show ?thesis using claimed_row(2) [OF dist j _ ij same] by simp
      next
        case False
        with st have "started (rows ! j)" by simp
        with order ij j same show ?thesis by (auto simp: sorted_wrt_iff_nth_less after_published_def)
      qed
      with unclaimed [OF i] show "ob_status (if ?p (rows ! i) then ?f (rows ! i) else rows ! i) = ''PUBLISHED''" by simp
    qed
  qed
  then have "sorted_wrt after_published (update_where ?p ?f rows)" by (simp only: update_where_def)
  with dist ids show ?thesis by (simp only: outbox_ok_def)
qed

lemma claimOutboxBatch_keeps: "keeps (\<lambda>s. outbox_ok (db_outbox s)) (claimOutboxBatch now com w ten lim lease)"
  unfolding claimOutboxBatch_def
  by (intro read_committed_keeps keepsI)
    (auto simp: withE_def thenE_def bindE_def modifyE_def retE_def Let_def
      intro: outbox_ok_claim [unfolded claimed_ids_def set_map])

lemma outbox_ok_revive:
  assumes "outbox_ok rows" and "find (\<lambda>r. ob_id r = ev) rows = Some event" and "ob_status event = ''DEAD''"
  shows "outbox_ok (update_where (\<lambda>r. ob_id r = ev) (revive now) rows)"
proof (rule outbox_ok_update [OF assms(1)])
  fix r assume r: "r \<in> set rows" "ob_id r = ev"
  have "event \<in> set rows" "ob_id event = ev" using assms(2) by (auto simp: find_Some_iff)
  with r assms(1) have "r = event" by (auto simp: outbox_ok_def distinct_map inj_on_def)
  with assms(3) show "ob_status r \<noteq> ''PUBLISHED'' \<and> (started (revive now r) \<longrightarrow> started r)"
    by (simp add: started_def)
qed (simp_all add: revive_def)

lemma decide_outbox_keeps: "keeps (\<lambda>s. outbox_ok (db_outbox s)) (decideDeadLetterReplay sha now coms rq ck dec)"
  unfolding decideDeadLetterReplay_def
  by (intro keeps_thenE keeps_ensureE serializable_keeps keepsI)
    (auto simp: withE_def thenE_def bindE_def modifyE_def ensureE_def retE_def throwE_def recordAuditEvent_def Let_def
      intro: outbox_ok_revive split: option.splits if_splits)

interpretation pg_outbox: invariant_of "pg_step sha" "empty_db la ra" "\<lambda>s. outbox_ok (db_outbox s)" for sha la ra
proof
  show "outbox_ok (db_outbox (empty_db la ra))" by (simp add: outbox_ok_def empty_db_def)
  show "outbox_ok (db_outbox t)" if "outbox_ok (db_outbox s)" and "pg_step sha s t" for s t
    using that(2,1)
    by (rule pg_step_keeps)
      (rule enqueueOutbox_keeps claimOutboxBatch_keeps markOutboxPublished_keeps markOutboxFailed_keeps decide_outbox_keeps
        frames [THEN preserves_keeps])+
qed

section \<open>The inbox\<close>

definition inbox_extends :: "db \<Rightarrow> db \<Rightarrow> bool" where
  "inbox_extends s t = (\<exists>rows. db_inbox t = db_inbox s @ rows)"

lemma inbox_frame: "preserves db_inbox m \<Longrightarrow> m s = (r, t) \<Longrightarrow> inbox_extends s t"
  unfolding preserves_def inbox_extends_def by (metis append_Nil2)

lemma consume_result:
  assumes "consume sha coms c ev s = (r, t)"
  shows "(\<exists>e. r = Inl e) \<and> t = s
    \<or> (\<exists>row. find (\<lambda>x. ib_consumer x = c \<and> ib_event x = ob_id ev) (db_inbox s) = Some row \<and> t = s
         \<and> r = Inr (True, ib_result row) \<and> ib_hash row = ob_hash ev)
    \<or> (\<exists>row. find (\<lambda>x. ib_consumer x = c \<and> ib_event x = ob_id ev) (db_inbox s) = None \<and> db_inbox t = db_inbox s @ [row]
         \<and> ib_consumer row = c \<and> ib_event row = ob_id ev \<and> ib_hash row = ob_hash ev \<and> (\<exists>res. r = Inr (False, res) \<and> ib_result row = stored_json res)
         \<and> sha256Canonical sha (ob_payload ev) = ob_hash ev)"
  using serializable_from_result [OF assms [unfolded consume_def consumeOutboxOnce_def withSerializableTransaction_def]]
  by (auto simp: withE_def thenE_def bindE_def modifyE_def ensureE_def retE_def throwE_def register_callback_def Let_def
      split: option.splits if_splits)

lemma consume_inbox: "consume sha coms c ev s = (r, t) \<Longrightarrow> inbox_extends s t"
  unfolding inbox_extends_def by (drule consume_result) (metis append_Nil2)

lemma pg_step_inbox:
  assumes "pg_step sha s t"
  shows "inbox_extends s t"
  using assms by cases (erule consume_inbox | (erule inbox_frame [rotated], rule frames))+

lemma pg_steps_inbox: "(pg_step sha)\<^sup>*\<^sup>* s t \<Longrightarrow> inbox_extends s t"
proof (induction rule: rtranclp_induct)
  case (step t u)
  from step.IH pg_step_inbox [OF step.hyps(2)] show ?case by (auto simp: inbox_extends_def)
qed (simp add: inbox_extends_def)

lemma find_append_Some: "find P xs = Some x \<Longrightarrow> find P (xs @ ys) = Some x"
  by (induction xs) auto

lemma find_append_None: "find P xs = None \<Longrightarrow> P y \<Longrightarrow> find P (xs @ [y]) = Some y"
  by (induction xs) auto

end
