(* ===== verification/OutboxDelivery.thy ===== *)
theory OutboxDelivery
  imports OutboxOrder
begin

text \<open>
  What a round of the dispatcher achieves when the publisher accepts: every event it claimed is
  published, and repeated rounds empty the outbox.
\<close>

definition publish_row :: "int \<Rightarrow> outbox_row \<Rightarrow> outbox_row" where
  "publish_row now r = r\<lparr>ob_status := ''PUBLISHED'', ob_publishedAt := Some now, ob_lastError := None,
     ob_claimedBy := None, ob_leaseExpiresAt := None\<rparr>"

definition held :: "string \<Rightarrow> int \<Rightarrow> outbox_row \<Rightarrow> bool" where
  "held w lease r = (ob_status r = ''CLAIMED'' \<and> ob_claimedBy r = Some w \<and> ob_leaseExpiresAt r = Some lease)"

definition only_published :: "string set \<Rightarrow> outbox_row \<Rightarrow> outbox_row \<Rightarrow> bool" where
  "only_published ids r r' = (ob_id r' = ob_id r \<and> (if ob_id r \<in> ids then ob_status r' = ''PUBLISHED'' else r' = r))"

lemma only_published_trans:
  assumes "list_all2 (only_published {a}) xs ys" and "list_all2 (only_published B) ys zs"
  shows "list_all2 (only_published (insert a B)) xs zs"
proof (rule list_all2_trans [OF _ assms])
  fix r s t
  assume "only_published {a} r s" "only_published B s t"
  then show "only_published (insert a B) r t" by (auto simp: only_published_def split: if_splits)
qed

lemma only_published_ids: "list_all2 (only_published B) xs ys \<Longrightarrow> map ob_id ys = map ob_id xs"
  by (induction rule: list_all2_induct) (auto simp: only_published_def)

lemma deliver_published:
  assumes dist: "distinct (map ob_id (db_outbox s))" and r: "r \<in> set (db_outbox s)" "ob_id r = ob_id e" "held (dp_workerId d) lease r"
    and now: "now < lease" and pub: "publish e = Inr ()"
  obtains rows where "deliver d publish now e res s = (Inr (res\<lparr>dr_published := dr_published res + 1\<rparr>), s\<lparr>db_outbox := rows\<rparr>)"
    and "list_all2 (only_published {ob_id e}) (db_outbox s) rows"
    and "\<And>q. q \<in> set (db_outbox s) \<Longrightarrow> ob_id q \<noteq> ob_id e \<Longrightarrow> q \<in> set rows"
proof -
  let ?own = "owned now (ob_id e) (dp_workerId d)"
  have same: "q = r" if "q \<in> set (db_outbox s)" "ob_id q = ob_id e" for q
    using that r(1,2) dist unfolding distinct_map inj_on_def by metis
  have own: "?own q \<longleftrightarrow> q = r" if "q \<in> set (db_outbox s)" for q
  proof
    show "q = r" if "?own q" using same [OF \<open>q \<in> set (db_outbox s)\<close>] that by (simp add: owned_def)
    show "?own q" if "q = r" using that r now by (simp add: owned_def held_def)
  qed
  have "filter ?own (db_outbox s) = filter (\<lambda>q. q = r) (db_outbox s)" using own by (auto intro: filter_cong)
  moreover have "length (filter (\<lambda>q. q = r) (db_outbox s)) = 1"
    using r(1) dist by (simp add: distinct_map distinct_length_filter)
  ultimately have one: "length (filter ?own (db_outbox s)) = 1" by simp
  let ?rows = "update_where ?own (publish_row now) (db_outbox s)"
  have "deliver d publish now e res s = (Inr (res\<lparr>dr_published := dr_published res + 1\<rparr>), s\<lparr>db_outbox := ?rows\<rparr>)"
    using one pub by (simp add: deliver_def markOutboxPublished_def catchE_def thenE_def bindE_def withE_def modifyE_def
        ensureE_def retE_def publish_row_def [abs_def])
  moreover have "only_published {ob_id e} q (if ?own q then publish_row now q else q)" if "q \<in> set (db_outbox s)" for q
  proof (cases "q = r")
    case True
    then have "?own q" using own [OF that] by blast
    with True r(2) show ?thesis by (simp add: only_published_def publish_row_def)
  next
    case False
    then have "\<not> ?own q" "ob_id q \<noteq> ob_id e" using own [OF that] same [OF that] by blast+
    then show ?thesis by (simp add: only_published_def)
  qed
  then have "list_all2 (only_published {ob_id e}) (db_outbox s) ?rows"
    by (simp add: update_where_def list_all2_conv_all_nth)
  moreover have "q \<in> set ?rows" if "q \<in> set (db_outbox s)" "ob_id q \<noteq> ob_id e" for q
  proof -
    have "\<not> ?own q" using that(2) by (simp add: owned_def)
    with that(1) show ?thesis by (force simp: update_where_def)
  qed
  ultimately show ?thesis by (rule that)
qed

lemma deliver_all_published:
  assumes "distinct (map ob_id (db_outbox s))" and "distinct (map ob_id events)" and "length clock = length events"
    and "\<forall>e \<in> set events. \<exists>r \<in> set (db_outbox s). ob_id r = ob_id e \<and> held (dp_workerId d) lease r"
    and "\<forall>c \<in> set clock. c < lease" and "\<forall>e \<in> set events. publish e = Inr ()"
  shows "\<exists>rows. deliver_all d publish clock events res s
      = (Inr (res\<lparr>dr_published := dr_published res + length events\<rparr>), s\<lparr>db_outbox := rows\<rparr>)
    \<and> list_all2 (only_published (ob_id ` set events)) (db_outbox s) rows"
  using assms
proof (induction events arbitrary: clock res s)
  case Nil
  then show ?case by (intro exI [of _ "db_outbox s"])
      (simp add: retE_def list_all2_conv_all_nth only_published_def)
next
  case (Cons e events)
  obtain c clock' where clock: "clock = c # clock'" using Cons.prems(3) by (cases clock) auto
  obtain r where "r \<in> set (db_outbox s)" "ob_id r = ob_id e" "held (dp_workerId d) lease r" using Cons.prems(4) by auto
  moreover have "c < lease" "publish e = Inr ()" using Cons.prems(5,6) clock by simp_all
  ultimately obtain rows where run: "deliver d publish c e res s = (Inr (res\<lparr>dr_published := dr_published res + 1\<rparr>), s\<lparr>db_outbox := rows\<rparr>)"
    and rows: "list_all2 (only_published {ob_id e}) (db_outbox s) rows"
    and others: "\<And>q. q \<in> set (db_outbox s) \<Longrightarrow> ob_id q \<noteq> ob_id e \<Longrightarrow> q \<in> set rows"
    using deliver_published [OF Cons.prems(1)] by metis
  let ?s = "s\<lparr>db_outbox := rows\<rparr>"
  let ?res = "res\<lparr>dr_published := dr_published res + 1\<rparr>"
  have d1: "distinct (map ob_id (db_outbox ?s))" using only_published_ids [OF rows] Cons.prems(1) by simp
  have d2: "distinct (map ob_id events)" and c1: "length clock' = length events" and c2: "\<forall>c \<in> set clock'. c < lease"
    and p: "\<forall>e \<in> set events. publish e = Inr ()"
    using Cons.prems clock by simp_all
  have h: "\<forall>e' \<in> set events. \<exists>r \<in> set (db_outbox ?s). ob_id r = ob_id e' \<and> held (dp_workerId d) lease r"
  proof
    fix e' assume e': "e' \<in> set events"
    then obtain q where "q \<in> set (db_outbox s)" "ob_id q = ob_id e'" "held (dp_workerId d) lease q"
      using Cons.prems(4) by auto
    moreover have "ob_id e \<notin> ob_id ` set events" using Cons.prems(2) by simp
    then have "ob_id e' \<noteq> ob_id e" using e' by (metis imageI)
    ultimately show "\<exists>r \<in> set (db_outbox ?s). ob_id r = ob_id e' \<and> held (dp_workerId d) lease r"
      using others by (metis db.select_convs(10) db.surjective db.update_convs(10))
  qed
  from Cons.IH [OF d1 d2 c1 h c2 p, of ?res]
  obtain rows' where "deliver_all d publish clock' events ?res ?s
      = (Inr (res\<lparr>dr_published := dr_published res + 1 + length events\<rparr>), s\<lparr>db_outbox := rows'\<rparr>)"
    and "list_all2 (only_published (ob_id ` set events)) rows rows'" by auto
  then show ?case using run only_published_trans [OF rows] clock
    by (intro exI [of _ rows']) (simp add: bindE_def)
qed

section \<open>A round\<close>

definition unpublished :: "outbox_row \<Rightarrow> bool" where
  "unpublished r = (ob_status r \<noteq> ''PUBLISHED'')"

definition backlog :: "outbox_row list \<Rightarrow> nat" where
  "backlog rows = length (filter unpublished rows)"

definition calm_outbox :: "int \<Rightarrow> outbox_row list \<Rightarrow> bool" where
  \<comment> \<open>no event is dead, held by a worker or backing off\<close>
  "calm_outbox now rows = (\<forall>r \<in> set rows. unpublished r \<longrightarrow> ob_status r \<in> {''PENDING'', ''FAILED''} \<and> ob_availableAt r \<le> now)"

lemma filter_decreases:
  "list_all2 (\<lambda>x y. P y \<longrightarrow> P x) xs ys \<Longrightarrow>
     length (filter P ys) \<le> length (filter P xs) \<and> ((\<exists>i < length xs. P (xs ! i) \<and> \<not> P (ys ! i)) \<longrightarrow>
       length (filter P ys) < length (filter P xs))"
proof (induction rule: list_all2_induct)
  case (Cons x xs y ys)
  have "(\<exists>i < length (x # xs). P ((x # xs) ! i) \<and> \<not> P ((y # ys) ! i)) \<longleftrightarrow>
      P x \<and> \<not> P y \<or> (\<exists>i < length xs. P (xs ! i) \<and> \<not> P (ys ! i))"
    by (auto simp: less_Suc_eq_0_disj)
  with Cons show ?case by auto
qed simp

lemma some_candidate:
  "calm_outbox now rest \<Longrightarrow> \<forall>p \<in> set earlier. \<not> unpublished p \<Longrightarrow> 0 < backlog rest \<Longrightarrow> candidates_from now None earlier rest \<noteq> []"
proof (induction now "None :: string option" earlier rest rule: candidates_from.induct)
  case (2 now earlier e rest)
  show ?case
  proof (cases "unpublished e")
    case True
    then have "due now e" using "2.prems"(1) by (auto simp: calm_outbox_def due_def)
    moreover have "\<not> list_ex (\<lambda>p. same_stream p e \<and> ob_status p \<noteq> ''PUBLISHED'') earlier"
      using "2.prems"(2) by (auto simp: list_ex_iff unpublished_def)
    ultimately show ?thesis by simp
  next
    case False
    then have "\<not> due now e" by (auto simp: unpublished_def due_def)
    with "2.hyps"(2) "2.prems" False show ?thesis by (simp add: calm_outbox_def backlog_def)
  qed
qed (simp add: backlog_def)

lemma dispatch_round:
  assumes ok: "outbox_ok (db_outbox s)" and calm_outbox: "calm_outbox now (db_outbox s)" and limit: "0 < lim"
    and tenant: "dp_tenantId d = None" and clock: "\<And>i. clock i < now + int (dp_leaseMs d)" and publish: "\<And>e. publish e = Inr ()"
  obtains res rows where "dispatchBatch d publish now (Inr ()) clock lim s = (Inr res, s\<lparr>db_outbox := rows\<rparr>)"
    and "map ob_id rows = map ob_id (db_outbox s)" and "calm_outbox now rows"
    and "backlog rows \<le> backlog (db_outbox s)"
    and "0 < backlog (db_outbox s) \<Longrightarrow> backlog rows < backlog (db_outbox s)"
    and "dr_published res = dr_claimed res"
proof -
  let ?w = "dp_workerId d" and ?rows = "db_outbox s" and ?lease = "now + int (dp_leaseMs d)"
  let ?chosen = "claimed_ids now None lim ?rows"
  let ?claimed = "update_where (\<lambda>r. ob_id r \<in> set ?chosen) (claim_row now ?w (dp_leaseMs d)) ?rows"
  let ?events = "filter (\<lambda>r. ob_id r \<in> set ?chosen) ?claimed"
  let ?s = "s\<lparr>db_outbox := ?claimed\<rparr>"
  have dist: "distinct (map ob_id ?rows)" using ok by (simp add: outbox_ok_def)
  have ids: "map ob_id ?claimed = map ob_id ?rows" by (simp add: update_where_def claim_row_def)
  have claim: "claimOutboxBatch now (Inr ()) ?w (dp_tenantId d) lim (dp_leaseMs d) s = (Inr ?events, ?s)"
    by (simp add: claimOutboxBatch_def withReadCommittedTransaction_def attempt_once_def withE_def thenE_def bindE_def modifyE_def
        retE_def Let_def tenant claimed_ids_def)
  have "\<forall>e \<in> set ?events. \<exists>r \<in> set (db_outbox ?s). ob_id r = ob_id e \<and> held ?w ?lease r"
    by (auto simp: update_where_def claim_row_def held_def split: if_splits)
  moreover have "distinct (map ob_id (db_outbox ?s))" "distinct (map ob_id ?events)"
    using dist ids distinct_map_filter by (metis db.select_convs(10) db.update_convs(10) db.surjective, metis)
  moreover have "\<forall>c \<in> set (map clock [0..<length ?events]). c < ?lease" using clock by auto
  ultimately obtain rows where run: "deliver_all d publish (map clock [0..<length ?events]) ?events
        \<lparr>dr_claimed = length ?events, dr_published = 0, dr_failed = 0, dr_dead = 0\<rparr> ?s
      = (Inr \<lparr>dr_claimed = length ?events, dr_published = length ?events, dr_failed = 0, dr_dead = 0\<rparr>, s\<lparr>db_outbox := rows\<rparr>)"
    and rows: "list_all2 (only_published (ob_id ` set ?events)) ?claimed rows"
    using deliver_all_published [of ?s ?events "map clock [0..<length ?events]" d ?lease publish
        "\<lparr>dr_claimed = length ?events, dr_published = 0, dr_failed = 0, dr_dead = 0\<rparr>"] publish by auto
  have after: "list_all2 (only_published (set ?chosen)) ?rows rows"
    unfolding list_all2_conv_all_nth
  proof (intro conjI allI impI)
    show "length ?rows = length rows" using rows by (simp add: list_all2_conv_all_nth update_where_def)
    fix i assume i: "i < length ?rows"
    then have "only_published (ob_id ` set ?events) (?claimed ! i) (rows ! i)" and "?claimed ! i \<in> set ?claimed"
      using rows by (simp_all add: list_all2_conv_all_nth update_where_def)
    note step = this
    show "only_published (set ?chosen) (?rows ! i) (rows ! i)"
    proof (cases "ob_id (?rows ! i) \<in> set ?chosen")
      case True
      then have c: "?claimed ! i = claim_row now ?w (dp_leaseMs d) (?rows ! i)" using i by (simp add: update_where_def)
      then have id: "ob_id (?claimed ! i) = ob_id (?rows ! i)" by (simp add: claim_row_def)
      have "?claimed ! i \<in> set ?events" using step(2) True id by simp
      then have "ob_id (?claimed ! i) \<in> ob_id ` set ?events" by (rule imageI)
      with step(1) True id show ?thesis by (simp add: only_published_def)
    next
      case False
      then have c: "?claimed ! i = ?rows ! i" using i by (simp add: update_where_def)
      with False have "ob_id (?claimed ! i) \<notin> ob_id ` set ?events" by auto
      with step(1) False c show ?thesis by (simp add: only_published_def)
    qed
  qed
  have fewer: "list_all2 (\<lambda>r r'. unpublished r' \<longrightarrow> unpublished r) ?rows rows"
    using after by (rule list_all2_mono) (auto simp: only_published_def unpublished_def split: if_splits)
  then have le: "backlog rows \<le> backlog ?rows" using filter_decreases unfolding backlog_def by blast
  have less: "backlog rows < backlog ?rows" if "0 < backlog ?rows"
  proof -
    have "candidates_from now None [] ?rows \<noteq> []" using some_candidate calm_outbox that by simp
    then have "?chosen \<noteq> []" using limit by (simp add: claimed_ids_def)
    then obtain x where x: "x \<in> set ?chosen" by (meson last_in_set)
    then obtain e where "e \<in> set (candidates_from now None [] ?rows)" "ob_id e = x"
      by (auto simp: claimed_ids_def dest!: in_set_takeD)
    then obtain i where i: "i < length ?rows" "ob_id (?rows ! i) = x" "due now (?rows ! i)"
      using candidates_from_spec [of e now None "[]" ?rows] by (metis append_Cons in_set_conv_decomp in_set_conv_nth)
    have "unpublished (?rows ! i)" using i(3) by (auto simp: due_def unpublished_def)
    moreover have "\<not> unpublished (rows ! i)" using after i x by (auto simp: list_all2_conv_all_nth only_published_def unpublished_def)
    ultimately show ?thesis using filter_decreases [OF fewer] i(1) unfolding backlog_def by blast
  qed
  have calm: "calm_outbox now rows"
    unfolding calm_outbox_def
  proof (intro ballI impI)
    fix r assume "r \<in> set rows" and un: "unpublished r"
    then obtain i where "i < length rows" "rows ! i = r" by (auto simp: in_set_conv_nth)
    with after un have "r = ?rows ! i" "i < length ?rows"
      by (auto simp: list_all2_conv_all_nth only_published_def unpublished_def split: if_splits)
    with calm_outbox un show "ob_status r \<in> {''PENDING'', ''FAILED''} \<and> ob_availableAt r \<le> now" by (simp add: calm_outbox_def)
  qed
  have round: "dispatchBatch d publish now (Inr ()) clock lim s
      = (Inr \<lparr>dr_claimed = length ?events, dr_published = length ?events, dr_failed = 0, dr_dead = 0\<rparr>, s\<lparr>db_outbox := rows\<rparr>)"
    using claim run limit by (simp add: dispatchBatch_def thenE_def bindE_def liftE_def nativeR_def)
  show ?thesis by (rule that [OF round only_published_ids [OF after] calm le less]) simp_all
qed

section \<open>Rounds\<close>

primrec rounds :: "nat \<Rightarrow> ('s, 'a) eff \<Rightarrow> 's \<Rightarrow> 's" where
  \<comment> \<open>\<open>k\<close> cycles of the worker's loop\<close>
  "rounds 0 dispatch s = s"
| "rounds (Suc k) dispatch s = rounds k dispatch (snd (dispatch s))"

lemma deliver_keeps: "keeps (\<lambda>s. outbox_ok (db_outbox s)) (deliver d publish now e res)"
  unfolding deliver_def Let_def
  by (cases "publish e")
    (auto intro!: keeps_intros markOutboxPublished_keeps markOutboxFailed_keeps)

lemma deliver_all_keeps: "keeps (\<lambda>s. outbox_ok (db_outbox s)) (deliver_all d publish clock events res)"
  by (induction d publish clock events res rule: deliver_all.induct)
    (auto intro!: keeps_intros deliver_keeps)

lemma dispatchBatch_keeps: "keeps (\<lambda>s. outbox_ok (db_outbox s)) (dispatchBatch d publish now commit clock lim)"
  unfolding dispatchBatch_def by (intro keeps_intros claimOutboxBatch_keeps deliver_all_keeps)

lemma rounds_drain:
  assumes "outbox_ok (db_outbox s)" and "calm_outbox now (db_outbox s)" and "0 < lim" and "dp_tenantId d = None"
    and "\<And>i. clock i < now + int (dp_leaseMs d)" and "\<And>e. publish e = Inr ()" and "backlog (db_outbox s) \<le> k"
  shows "backlog (db_outbox (rounds k (dispatchBatch d publish now (Inr ()) clock lim) s)) = 0"
  using assms(1,2,7)
proof (induction k arbitrary: s)
  case (Suc k)
  obtain res rows where run: "dispatchBatch d publish now (Inr ()) clock lim s = (Inr res, s\<lparr>db_outbox := rows\<rparr>)"
    and rows: "calm_outbox now rows" "backlog rows \<le> backlog (db_outbox s)" "0 < backlog (db_outbox s) \<Longrightarrow> backlog rows < backlog (db_outbox s)"
    by (rule dispatch_round [where clock = clock and publish = publish, OF Suc.prems(1,2) assms(3-6)]) (rule that, blast+)
  have "outbox_ok rows" using keepsD [OF dispatchBatch_keeps Suc.prems(1) run] by simp
  moreover have "backlog rows \<le> k" using rows(2,3) Suc.prems(3) by linarith
  ultimately show ?case using Suc.IH [of "s\<lparr>db_outbox := rows\<rparr>"] rows(1) run by simp
qed simp

end
