(* ===== verification/PgProperties.thy ===== *)
theory PgProperties
  imports OutboxDelivery Canonical
begin

text \<open>The properties of the durable store and of the outbox, with a run of the store they are applied to.\<close>

section \<open>A run\<close>

definition demo_sha :: "string \<Rightarrow> string" where
  "demo_sha s = ''h''"

definition demo_intent :: intent_request where
  "demo_intent = \<lparr>iq_id = ''t1'', iq_tenant = ''hk'', iq_product = ''p'', iq_key = ''k'', iq_request = JNull,
     iq_type = ''SUBSCRIBE'', iq_ruleVersion = JNull, iq_navEvidenceId = JNull, iq_policyHash = JNull,
     iq_ciphertext = JNull, iq_rail = None, iq_institution = None, iq_partyIndex = Some (''pk'', [''m'']), iq_actor = None\<rparr>"

definition demo_entries :: "entry_request list" where
  "demo_entries = [\<lparr>eq_account = ''a'', eq_asset = ''HKD'', eq_delta = - 100\<rparr>, \<lparr>eq_account = ''b'', eq_asset = ''HKD'', eq_delta = 100\<rparr>]"

definition demo_event :: audit_event where
  "demo_event = \<lparr>ae_tenant = ''hk'', ae_event = ''e'', ae_aggType = ''transaction'', ae_aggId = ''t1'', ae_metadata = JNull\<rparr>"

definition pg0 :: db where "pg0 = empty_db [''a'', ''b''] []"
definition pg1 :: db where "pg1 = snd (createTransactionIntent demo_sha demo_intent pg0)"
definition pg2 :: db where "pg2 = snd (transitionTransaction ''t1'' ''POLICY_CHECKED'' None None pg1)"
definition pg3 :: db where "pg3 = snd (appendLedgerBatch ''b1'' (Some ''t1'') ''TRANSACTION'' demo_entries pg2)"
definition pg4 :: db where "pg4 = snd (recordAuditEvent demo_sha demo_event pg3)"
definition pg5 :: db where "pg5 = snd (enqueueOutbox demo_sha 0 ''o1'' ''hk'' ''top'' ''t1'' JNull None pg4)"
definition pg6 :: db where "pg6 = snd (enqueueOutbox demo_sha 0 ''o2'' ''hk'' ''top'' ''t1'' JNull None pg5)"

lemma pg1_eq: "fst (createTransactionIntent demo_sha demo_intent pg0) = Inr (True, new_intent demo_sha demo_intent)"
  "db_intents pg1 = [new_intent demo_sha demo_intent]"
  "db_history pg1 = [\<lparr>th_tx = ''t1'', th_from = None, th_to = ''REQUESTED'', th_reason = None, th_actor = None\<rparr>]"
  "db_ledger pg1 = db_ledger pg0" "db_outbox pg1 = []" "db_audit pg1 = []" "db_inbox pg1 = []"
  by (simp_all add: pg1_def pg0_def empty_db_def createTransactionIntent_def demo_intent_def eff_defs add_parties_def add_history_def)

lemma pg2_eq: "fst (transitionTransaction ''t1'' ''POLICY_CHECKED'' None None pg1) = Inr ()"
  "db_ledger pg2 = db_ledger pg0" "db_outbox pg2 = []" "db_audit pg2 = []" "db_inbox pg2 = []"
  "map ti_state (db_intents pg2) = [''POLICY_CHECKED'']"
  by (simp_all add: pg2_def pg1_eq transitionTransaction_def eff_defs new_intent_def demo_intent_def add_history_def
      assertTransition_def ensureR_def transition_allowed_def TRANSITIONS_def update_where_def)

lemma pg3_eq: "fst (appendLedgerBatch ''b1'' (Some ''t1'') ''TRANSACTION'' demo_entries pg2) = Inr ()"
  "bk_entries (db_ledger pg3) \<noteq> []" "db_outbox pg3 = []" "db_audit pg3 = []" "db_inbox pg3 = []"
  "map ti_state (db_intents pg3) = [''POLICY_CHECKED'']"
  by (simp_all add: pg3_def pg2_eq pg0_def empty_db_def appendLedgerBatch_def eff_defs demo_entries_def assertBalancedEntries_def
      ensureR_def accounts_exist_def post_batch_def Let_def entry_of_def jm_get0_def)

lemma pg4_eq: "fst (recordAuditEvent demo_sha demo_event pg3) = Inr ''h''"
  "bk_entries (db_ledger pg4) \<noteq> []" "db_outbox pg4 = []" "db_audit pg4 \<noteq> []" "db_inbox pg4 = []"
  "map ti_state (db_intents pg4) = [''POLICY_CHECKED'']"
  by (simp_all add: pg4_def pg3_eq recordAuditEvent_def eff_defs Let_def sha256Canonical_def demo_sha_def)

lemma pg5_eq: "fst (enqueueOutbox demo_sha 0 ''o1'' ''hk'' ''top'' ''t1'' JNull None pg4) = Inr ''h''"
  "map ob_id (db_outbox pg5) = [''o1'']" "map ob_status (db_outbox pg5) = [''PENDING'']" "map ob_availableAt (db_outbox pg5) = [0]"
  "db_inbox pg5 = []"
  by (simp_all add: pg5_def pg4_eq enqueueOutbox_def eff_defs Let_def sha256Canonical_def demo_sha_def)

lemma pg6_eq: "fst (enqueueOutbox demo_sha 0 ''o2'' ''hk'' ''top'' ''t1'' JNull None pg5) = Inr ''h''"
  "map ob_id (db_outbox pg6) = [''o1'', ''o2'']" "map ob_status (db_outbox pg6) = [''PENDING'', ''PENDING'']"
  "map ob_availableAt (db_outbox pg6) = [0, 0]" "db_inbox pg6 = []"
proof -
  have none: "\<not> (\<exists>r \<in> set (db_outbox pg5). ob_id r = ''o2'')"
  proof
    assume "\<exists>r \<in> set (db_outbox pg5). ob_id r = ''o2''"
    then have "''o2'' \<in> set (map ob_id (db_outbox pg5))" unfolding set_map by (metis imageI)
    then show False by (simp add: pg5_eq)
  qed
  show "fst (enqueueOutbox demo_sha 0 ''o2'' ''hk'' ''top'' ''t1'' JNull None pg5) = Inr ''h''"
    "map ob_id (db_outbox pg6) = [''o1'', ''o2'']" "map ob_status (db_outbox pg6) = [''PENDING'', ''PENDING'']"
    "map ob_availableAt (db_outbox pg6) = [0, 0]" "db_inbox pg6 = []"
    using none by (simp_all add: pg6_def pg5_eq enqueueOutbox_def eff_defs Let_def sha256Canonical_def demo_sha_def)
qed

abbreviation demo_reachable :: "db \<Rightarrow> bool" where
  "demo_reachable \<equiv> reach (pg_step demo_sha) (empty_db [''a'', ''b''] [])"

lemma run_Inr: "fst p = Inr x \<Longrightarrow> p = (Inr x, snd p)"
  by (cases p) simp

lemma demo_more: "demo_reachable s \<Longrightarrow> pg_step demo_sha s t \<Longrightarrow> demo_reachable t"
  by (rule reach.more)

lemma pg_reachable: "demo_reachable pg2" "demo_reachable pg4" "demo_reachable pg6"
proof -
  have r0: "demo_reachable pg0" unfolding pg0_def by (rule reach.start)
  have r1: "demo_reachable pg1"
    unfolding pg1_def by (rule demo_more [OF r0 pg_step.intros(1) [OF run_Inr [OF pg1_eq(1)]]])
  show r2: "demo_reachable pg2"
    unfolding pg2_def by (rule demo_more [OF r1 pg_step.intros(2) [OF run_Inr [OF pg2_eq(1)]]])
  have r3: "demo_reachable pg3"
    unfolding pg3_def by (rule demo_more [OF r2 pg_step.intros(3) [OF run_Inr [OF pg3_eq(1)]]])
  show r4: "demo_reachable pg4"
    unfolding pg4_def by (rule demo_more [OF r3 pg_step.intros(6) [OF run_Inr [OF pg4_eq(1)]]])
  have r5: "demo_reachable pg5"
    unfolding pg5_def by (rule demo_more [OF r4 pg_step.intros(11) [OF run_Inr [OF pg5_eq(1)]]])
  show "demo_reachable pg6"
    unfolding pg6_def by (rule demo_more [OF r5 pg_step.intros(11) [OF run_Inr [OF pg6_eq(1)]]])
qed

section \<open>Properties\<close>

text \<open>
  C32. Double entry: in every reachable state of the store, the ledger and the register balance to
  zero in every asset, as a whole and batch by batch, and every batch is posted with all of its
  entries, whichever operations ran or failed before.
\<close>

theorem books_balance:
  assumes "reach (pg_step sha) (empty_db la ra) s" and "b \<in> {db_ledger s, db_register s}"
  shows "asset_total (bk_entries b) asset = 0 \<and> batch_total (bk_entries b) batch asset = 0
    \<and> (\<forall>r \<in> set (bk_batches b). bt_status r = ''POSTED''
        \<and> bt_count r = length (filter (\<lambda>e. en_batch e = bt_id r) (bk_entries b)))"
  using pg_books.always [OF assms(1)] assms(2) by (auto simp: books_ok_def books_of_def book_ok_def)

theorem books_balance_witness:
  "asset_total (bk_entries (db_ledger pg4)) ''HKD'' = 0 \<and> bk_entries (db_ledger pg4) \<noteq> []"
  using books_balance [OF pg_reachable(2), of "db_ledger pg4" "''HKD''"] pg4_eq(2) by blast

lemma trail_policy:
  "trail hs st \<Longrightarrow> st = ''REQUESTED'' \<or> st = ''REJECTED'' \<or> ''POLICY_CHECKED'' \<in> th_to ` set hs"
proof (induction rule: trail.induct)
  case (moved hs st h)
  have "st = ''REQUESTED'' \<Longrightarrow> th_to h = ''POLICY_CHECKED'' \<or> th_to h = ''REJECTED''"
    and "st \<noteq> ''REJECTED''"
    using moved.hyps(3) by (auto simp: transition_allowed_def TRANSITIONS_def)
  with moved.IH show ?case by auto
qed simp

text \<open>
  C33. The stored history of an intent is a path through the transition table from its creation to
  its current state, so no state is skipped or left twice in a way the table forbids; in particular
  an intent that is anything but requested or rejected has passed the policy check.
\<close>

theorem history_is_a_path:
  assumes "reach (pg_step sha) (empty_db la ra) s" and "r \<in> set (db_intents s)"
  shows "trail (history_for (ti_id r) (db_history s)) (ti_state r)
    \<and> (ti_state r \<notin> {''REQUESTED'', ''REJECTED''} \<longrightarrow>
        ''POLICY_CHECKED'' \<in> th_to ` set (history_for (ti_id r) (db_history s)))"
proof -
  have "trail (history_for (ti_id r) (db_history s)) (ti_state r)"
    using pg_tracks.always [OF assms(1)] assms(2) by (simp add: tracks_ok_def tracks_of_def)
  with trail_policy [OF this] show ?thesis by blast
qed

theorem history_is_a_path_witness:
  "\<exists>r. r \<in> set (db_intents pg2) \<and> trail (history_for (ti_id r) (db_history pg2)) ''POLICY_CHECKED''"
proof -
  obtain r where r: "r \<in> set (db_intents pg2)" "ti_state r = ''POLICY_CHECKED''"
    using pg2_eq(6) by (cases "db_intents pg2") auto
  from history_is_a_path [OF pg_reachable(1) r(1)] r show ?thesis by auto
qed

lemma wf_stored: "wf_json v \<Longrightarrow> wf_json (stored_json v)"
proof (induction v)
  case (JArr xs)
  then show ?case by (auto simp: list_all_iff)
next
  case (JObj kvs)
  have "wf_json (stored_json (snd e))" if e: "e \<in> set kvs" for e
  proof (rule JObj.IH [OF e])
    show "snd e \<in> Basic_BNFs.snds e" by (cases e) (simp add: snds_in)
    show "wf_json (snd e)" using JObj.prems e by (simp only: wf_json_entries)
  qed
  then show ?case unfolding stored_json.simps Let_def wf_json_entries by auto
qed simp_all

text \<open>
  The digest covers the metadata as they are given, the row holds what \<open>JSON.stringify\<close> writes of them.
  Where a property is undefined, as the reason of a status change may be, the digest of what the row holds is
  another one: nobody who has the row alone can check its digest.
\<close>

lemma undefined_metadata_breaks_digest:
  assumes "recordAuditEvent sha e s = (Inr x, t)" and wf: "wf_json (ae_metadata e)"
    and lost: "jnorm (stored_json (ae_metadata e)) \<noteq> jnorm (ae_metadata e)"
  obtains row where "db_audit t = db_audit s @ [row]"
    and "sha256Canonical sha (audit_body (event_of row) (au_previous row)) \<noteq> au_hash row \<or> (\<exists>x y. x \<noteq> y \<and> sha x = sha y)"
proof -
  obtain row where t: "db_audit t = db_audit s @ [row]" and row: "au_metadata row = stored_json (ae_metadata e)"
      "event_with (ae_metadata e) row = e" "au_hash row = sha256Canonical sha (audit_body e (au_previous row))"
    using recordAuditEvent_run [OF assms(1)] by auto
  let ?a = "audit_body (event_of row) (au_previous row)" and ?b = "audit_body e (au_previous row)"
  have nul: "wf_json (nullable v)" "jnorm (nullable v) = nullable v" for v by (simp_all add: nullable_def split: option.split)
  have "wf_json ?a" "wf_json ?b" using wf wf_stored [OF wf] row(1) nul by (simp_all add: audit_body_def event_of_def event_with_def)
  moreover have "jnorm ?a \<noteq> jnorm ?b" using lost row(1) by (simp add: audit_body_def event_of_def event_with_def)
  ultimately have "canonicalize ?a \<noteq> canonicalize ?b" using canonicalize_eq_iff by blast
  then show thesis using that [OF t] row(3) unfolding sha256Canonical_def by metis
qed

lemma status_change_without_reason:
  "jnorm (stored_json (JObj [(''productId'', JStr p), (''status'', JStr st), (''actorRef'', JStr a), (''reason'', JUndefined)]))
     \<noteq> jnorm (JObj [(''productId'', JStr p), (''status'', JStr st), (''actorRef'', JStr a), (''reason'', JUndefined)])"
  by simp



text \<open>
  C35. Events of one aggregate are delivered in the order they were enqueued: in every reachable
  state, an event that was ever claimed and not replayed since has only published events before it in
  its stream, through failed deliveries, expired leases, dead letters and replays. At most one event
  of a stream is in flight.
\<close>

theorem delivery_in_order:
  assumes "reach (pg_step sha) (empty_db la ra) s" and "i < j" and "j < length (db_outbox s)"
    and "same_stream (db_outbox s ! i) (db_outbox s ! j)"
    and "ob_status (db_outbox s ! j) \<in> {''CLAIMED'', ''PUBLISHED'', ''FAILED'', ''DEAD''}"
  shows "ob_status (db_outbox s ! i) = ''PUBLISHED''"
proof -
  have "after_published (db_outbox s ! i) (db_outbox s ! j)"
    using pg_outbox.always [OF assms(1)] assms(2,3) unfolding outbox_ok_def sorted_wrt_iff_nth_less by blast
  with assms(4,5) show ?thesis by (simp add: after_published_def started_def)
qed

definition demo_worker :: dispatcher where
  "demo_worker = \<lparr>dp_workerId = ''w'', dp_tenantId = None, dp_leaseMs = 10, dp_maxAttempts = 8, dp_baseDelayMs = 1, dp_maxDelayMs = 1\<rparr>"

definition pg7 :: db where "pg7 = snd (claimOutboxBatch 0 (Inr ()) ''w'' None 50 10 pg6)"
definition pg8 :: db where "pg8 = snd (markOutboxPublished 1 ''o1'' ''w'' pg7)"
definition pg9 :: db where "pg9 = snd (claimOutboxBatch 2 (Inr ()) ''w'' None 50 10 pg8)"

lemma pg9_reachable: "demo_reachable pg9"
proof -
  have r7: "demo_reachable pg7" unfolding pg7_def
    by (rule demo_more [OF pg_reachable(3) pg_step.intros(12) [OF prod.collapse [symmetric]]])
  have r8: "demo_reachable pg8" unfolding pg8_def
    by (rule demo_more [OF r7 pg_step.intros(13) [OF prod.collapse [symmetric]]])
  show ?thesis unfolding pg9_def
    by (rule demo_more [OF r8 pg_step.intros(12) [OF prod.collapse [symmetric]]])
qed

lemma pg6_rows: "db_outbox pg6 =
    map (\<lambda>i. \<lparr>ob_id = i, ob_tenant = ''hk'', ob_topic = ''top'', ob_aggregate = ''t1'', ob_payload = JNull, ob_hash = ''h'',
      ob_status = ''PENDING'', ob_attempts = 0, ob_availableAt = 0, ob_claimedBy = None, ob_leaseExpiresAt = None,
      ob_publishedAt = None, ob_lastError = None, ob_deadAt = None, ob_replays = 0\<rparr>) [''o1'', ''o2'']"
  by (simp add: pg6_def pg5_def pg4_eq enqueueOutbox_def eff_defs Let_def sha256Canonical_def demo_sha_def)

lemma pg9_rows: "map ob_status (db_outbox pg9) = [''PUBLISHED'', ''CLAIMED'']" "map ob_id (db_outbox pg9) = [''o1'', ''o2'']"
  "map ob_aggregate (db_outbox pg9) = [''t1'', ''t1'']" "map ob_tenant (db_outbox pg9) = [''hk'', ''hk'']"
  by (simp_all add: pg9_def pg8_def pg7_def pg6_rows claimOutboxBatch_def withReadCommittedTransaction_def attempt_once_def eff_defs
      Let_def due_def same_stream_def update_where_def claim_row_def markOutboxPublished_def owned_def)

theorem delivery_in_order_witness:
  "ob_status (db_outbox pg9 ! 0) = ''PUBLISHED'' \<and> ob_status (db_outbox pg9 ! 1) = ''CLAIMED''"
proof -
  obtain x y where rows: "db_outbox pg9 = [x, y]" using pg9_rows(1) by (auto simp: map_eq_Cons_conv)
  have "same_stream x y" "ob_status y = ''CLAIMED''" using pg9_rows rows by (simp_all add: same_stream_def)
  with delivery_in_order [OF pg9_reachable, of 0 1] rows show ?thesis by simp
qed

text \<open>
  A consumer handles an event once: after a first consumption that returned, every later
  consumption of the event by that consumer, whatever the store did in between, answers the stored
  result as a duplicate, without running the handler or changing the state.
\<close>

theorem consumed_once:
  assumes "consume sha coms c ev s = (Inr (d, res), t)" and "(pg_step sha)\<^sup>*\<^sup>* t u" and "coms' 1 = Inr ()"
  shows "consume sha coms' c ev u = (Inr (True, if d then res else stored_json res), u)"
proof -
  let ?P = "\<lambda>x. ib_consumer x = c \<and> ib_event x = ob_id ev"
  obtain row where row: "find ?P (db_inbox t) = Some row" "ib_result row = (if d then res else stored_json res)" "ib_hash row = ob_hash ev"
    using consume_result [OF assms(1)] find_append_None [of ?P "db_inbox s"] by auto
  obtain rows where "db_inbox u = db_inbox t @ rows" using pg_steps_inbox [OF assms(2)] by (auto simp: inbox_extends_def)
  then have "find ?P (db_inbox u) = Some row" using row(1) by (simp add: find_append_Some)
  then show ?thesis using row(2,3) assms(3)
    by (simp add: consume_def consumeOutboxOnce_def withSerializableTransaction_def numeral_3_eq_3 attempt_once_def eff_defs)
qed

theorem consumed_once_witness:
  "\<exists>u res. consume demo_sha (\<lambda>_. Inr ()) ''c'' (db_outbox pg6 ! 0) u = (Inr (True, res), u)"
proof -
  have "\<exists>res t. consume demo_sha (\<lambda>_. Inr ()) ''c'' (db_outbox pg6 ! 0) pg0 = (Inr (False, res), t)"
    by (simp add: consume_def consumeOutboxOnce_def withSerializableTransaction_def numeral_3_eq_3 attempt_once_def eff_defs
        pg6_rows sha256Canonical_def demo_sha_def register_callback_def Let_def pg0_def empty_db_def)
  then obtain res t where "consume demo_sha (\<lambda>_. Inr ()) ''c'' (db_outbox pg6 ! 0) pg0 = (Inr (False, res), t)" by blast
  from consumed_once [OF this rtranclp.rtrancl_refl, of "\<lambda>_. Inr ()"] show ?thesis by auto
qed

text \<open>
  C37. The outbox drains when it is left to one dispatcher and nothing fails. The assumptions are: the state is
  reachable and its outbox calm, which is to say that no event is dead, held by a worker or backing off, and all
  are available; the dispatcher has no tenant filter and its batches are not empty; the transaction of every
  claim commits; the publisher accepts every event; every delivery ends within its lease; and nobody
  else writes the outbox meanwhile. Then as many rounds of the dispatcher as there are unpublished events publish all of
  them, however small the batches are. Without any one of these the outbox may keep unpublished events: a dead
  event holds back its stream until it is replayed, for instance.
\<close>

theorem outbox_drains:
  assumes "reach (pg_step sha) (empty_db la ra) s" and "calm_outbox now (db_outbox s)" and "0 < lim"
    and "dp_tenantId d = None" and "\<And>i. clock i < now + int (dp_leaseMs d)" and "\<And>e. publish e = Inr ()"
  shows "\<forall>r \<in> set (db_outbox (rounds (backlog (db_outbox s)) (dispatchBatch d publish now (Inr ()) clock lim) s)).
    ob_status r = ''PUBLISHED''"
proof -
  have "backlog (db_outbox (rounds (backlog (db_outbox s)) (dispatchBatch d publish now (Inr ()) clock lim) s)) = 0"
    using pg_outbox.always [OF assms(1)] assms(2-) by (intro rounds_drain) auto
  then show ?thesis by (auto simp: backlog_def unpublished_def filter_empty_conv)
qed

lemma pg6_quiet: "calm_outbox 0 (db_outbox pg6)" "backlog (db_outbox pg6) = 2"
  by (simp_all add: pg6_rows calm_outbox_def backlog_def unpublished_def)

theorem outbox_drains_witness:
  "list_all (\<lambda>r. ob_status r = ''PUBLISHED'')
    (db_outbox (rounds 2 (dispatchBatch demo_worker (\<lambda>_. Inr ()) 0 (Inr ()) (\<lambda>_. 1) 1) pg6))"
  using outbox_drains [OF pg_reachable(3) pg6_quiet(1), of 1 demo_worker "\<lambda>_. 1" "\<lambda>_. Inr ()"] pg6_quiet(2)
  by (simp add: demo_worker_def list_all_iff)

end
