(* ===== verification/AuditCheckpoints.thy ===== *)
theory AuditCheckpoints
  imports PgInvariants Canonical
begin

text \<open>
  The global checkpoints of the audit log, \<open>src/storage/audit-checkpoint-service.js\<close>: a checkpoint
  folds the hashes of all audit events of a tenant above the last checkpoint, in the order of their
  sequence ids, into a digest that chains to the digest before.

  An audit event is a row of the table \<open>audit_events\<close>: its content and its hash as \<open>recordAuditEvent\<close> stores
  them, and its sequence id. The service reads the sequence id, the tenant and the hash of a row and
  nothing else of it. Sequence ids are given in increasing order, which the advisory locks of the service and
  of the writers ensure for the rows a checkpoint can see.
\<close>

record chain_event = audit_record +
  ce_seq :: int

record checkpoint_row =
  ck_tenant :: string
  ck_number :: int
  ck_through :: int
  ck_count :: int
  ck_previous :: "string option"
  ck_digest :: string
  ck_createdBy :: string
  ck_anchor :: "json option"

record chain_db =
  cd_events :: "chain_event list"
  cd_checkpoints :: "checkpoint_row list"

section \<open>Digests\<close>

definition separator :: char where
  "separator = CHR 0x1F"

definition digest_text :: "string option \<Rightarrow> int \<Rightarrow> int \<Rightarrow> string list \<Rightarrow> string" where
  "digest_text previousDigest through eventCount eventHashes =
     ''rwa.audit-chain-checkpoint.v1'' @ separator # or_empty previousDigest @ separator # int_text through
       @ separator # int_text eventCount @ concat (map (\<lambda>eventHash. separator # eventHash) eventHashes)"

definition digestOf :: "(string \<Rightarrow> string) \<Rightarrow> string option \<Rightarrow> int \<Rightarrow> int \<Rightarrow> string list \<Rightarrow> string" where
  "digestOf sha previousDigest through eventCount eventHashes =
     sha (digest_text previousDigest through eventCount eventHashes)"

section \<open>Reading a range of events page by page\<close>

definition BATCH :: nat where
  "BATCH = 1000"

definition in_range :: "string \<Rightarrow> int \<Rightarrow> int option \<Rightarrow> chain_event \<Rightarrow> bool" where
  "in_range tenant cursor until e =
     (au_tenant e = tenant \<and> cursor \<le> ce_seq e \<and> (case until of None \<Rightarrow> True | Some u \<Rightarrow> ce_seq e \<le> u))"

definition event_page :: "chain_event list \<Rightarrow> string \<Rightarrow> int \<Rightarrow> int option \<Rightarrow> chain_event list" where
  "event_page events tenant cursor until =
     take BATCH (sort_key ce_seq (filter (in_range tenant cursor until) events))"

definition through_of :: "int \<Rightarrow> chain_event list \<Rightarrow> int" where
  "through_of through page = (if page = [] then through else ce_seq (last page))"

lemma full_page_advances:
  assumes page: "\<not> length (event_page events tenant cursor until) < BATCH"
  shows "cursor \<le> through_of through (event_page events tenant cursor until)"
    and "\<exists>e \<in> set events. cursor \<le> ce_seq e \<and> ce_seq e < through_of through (event_page events tenant cursor until) + 1"
proof -
  let ?p = "event_page events tenant cursor until"
  have ne: "?p \<noteq> []" using page by (auto simp: BATCH_def)
  then have l: "last ?p \<in> set ?p" by simp
  have "set ?p \<subseteq> set (sort_key ce_seq (filter (in_range tenant cursor until) events))"
    unfolding event_page_def by (rule set_take_subset)
  then have "last ?p \<in> set (filter (in_range tenant cursor until) events)"
    using l by auto
  then have "last ?p \<in> set events \<and> cursor \<le> ce_seq (last ?p)" by (simp add: in_range_def)
  with ne show "cursor \<le> through_of through ?p"
    and "\<exists>e \<in> set events. cursor \<le> ce_seq e \<and> ce_seq e < through_of through ?p + 1"
    by (auto simp: through_of_def)
qed

function event_range_from ::
  "chain_event list \<Rightarrow> string \<Rightarrow> int option \<Rightarrow> string list \<Rightarrow> int \<Rightarrow> int \<Rightarrow> string list \<times> int" where
  "event_range_from events tenant until eventHashes cursor through =
     (let page = event_page events tenant cursor until;
          hashes = eventHashes @ map au_hash page;
          reached = through_of through page
      in if length page < BATCH then (hashes, reached)
         else event_range_from events tenant until hashes (reached + 1) reached)"
  by pat_completeness auto

lemma filter_length_less:
  assumes "\<And>x. Q x \<Longrightarrow> P x" and "x \<in> set xs" and "P x" and "\<not> Q x"
  shows "length (filter Q xs) < length (filter P xs)"
proof -
  have "length (filter Q xs) = length (filter Q (filter P xs))"
    using assms(1) by (simp add: conj_commute) (metis (mono_tags, lifting) filter_cong)
  also have "\<dots> < length (filter P xs)"
    by (rule length_filter_less [of x]) (use assms in auto)
  finally show ?thesis .
qed

termination event_range_from
proof (relation "measure (\<lambda>(events, tenant, until, hs, cursor, through).
    length (filter (\<lambda>e. cursor \<le> ce_seq e) events))", goal_cases)
  case 1
  show ?case by simp
next
  case (2 events tenant until hs cursor through page hashes reached)
  then have full: "\<not> length (event_page events tenant cursor until) < BATCH"
    and r: "reached = through_of through (event_page events tenant cursor until)" by simp_all
  from full_page_advances(2) [OF full, of through] obtain e where
    e: "e \<in> set events" "cursor \<le> ce_seq e" "\<not> reached + 1 \<le> ce_seq e" unfolding r by auto
  have c: "cursor \<le> reached" using full_page_advances(1) [OF full] r by simp
  show ?case using filter_length_less [of "\<lambda>e. reached + 1 \<le> ce_seq e" "\<lambda>e. cursor \<le> ce_seq e" e events] e c
    by simp
qed

declare event_range_from.simps [simp del]

definition event_range :: "chain_event list \<Rightarrow> string \<Rightarrow> int \<Rightarrow> int option \<Rightarrow> string list \<times> int" where
  "event_range events tenant begin_at until = event_range_from events tenant until [] begin_at (begin_at - 1)"

text \<open>What the pages amount to: one sorted reading of the range.\<close>

definition range_rows :: "chain_event list \<Rightarrow> string \<Rightarrow> int \<Rightarrow> int option \<Rightarrow> chain_event list" where
  "range_rows events tenant cursor until = sort_key ce_seq (filter (in_range tenant cursor until) events)"

lemma rows_after_page:
  assumes d: "distinct (map ce_seq events)"
    and full: "\<not> length (event_page events tenant cursor until) < BATCH"
    and r: "reached = through_of through (event_page events tenant cursor until)"
  shows "range_rows events tenant (reached + 1) until = drop BATCH (range_rows events tenant cursor until)"
proof -
  let ?R = "range_rows events tenant cursor until"
  have pg: "event_page events tenant cursor until = take BATCH ?R" by (simp add: event_page_def range_rows_def)
  have ne: "take BATCH ?R \<noteq> []" using full pg by (auto simp: BATCH_def)
  have rr: "reached = ce_seq (last (take BATCH ?R))" using r pg ne by (simp add: through_of_def)
  have c: "cursor \<le> reached" using full_page_advances(1) [OF full] r by simp
  have "distinct (map ce_seq (filter (in_range tenant cursor until) events))"
    using d by (simp add: distinct_map_filter)
  then have dR: "distinct (map ce_seq ?R)" unfolding range_rows_def
    by (metis distinct_map distinct_sort set_sort)
  have sR: "sorted (map ce_seq ?R)" by (simp add: range_rows_def)
  have split: "?R = take BATCH ?R @ drop BATCH ?R" by simp
  have strict: "sorted_wrt (<) (map ce_seq ?R)" using sR dR by (simp add: strict_sorted_iff)
  then have "sorted_wrt (<) (map ce_seq (take BATCH ?R) @ map ce_seq (drop BATCH ?R))"
    by (metis map_append split)
  then have low: "\<And>a b. a \<in> set (take BATCH ?R) \<Longrightarrow> b \<in> set (drop BATCH ?R) \<Longrightarrow> ce_seq a < ce_seq b"
    and st: "sorted_wrt (<) (map ce_seq (take BATCH ?R))"
    by (auto simp: sorted_wrt_append)
  have upto: "\<And>a. a \<in> set (take BATCH ?R) \<Longrightarrow> ce_seq a \<le> reached"
  proof -
    fix a assume a: "a \<in> set (take BATCH ?R)"
    have bl: "take BATCH ?R = butlast (take BATCH ?R) @ [last (take BATCH ?R)]" using ne by simp
    have "sorted_wrt (<) (map ce_seq (butlast (take BATCH ?R)) @ [ce_seq (last (take BATCH ?R))])"
      using st bl by (metis list.simps(8) list.simps(9) map_append)
    then have "\<forall>x \<in> set (butlast (take BATCH ?R)). ce_seq x < reached"
      by (auto simp: sorted_wrt_append rr)
    moreover have "a \<in> set (butlast (take BATCH ?R)) \<or> a = last (take BATCH ?R)"
      using a bl by (metis Un_iff empty_iff empty_set insert_iff list.simps(15) set_append)
    ultimately show "ce_seq a \<le> reached" using rr by auto
  qed
  have above: "\<And>b. b \<in> set (drop BATCH ?R) \<Longrightarrow> reached + 1 \<le> ce_seq b"
    using low [OF last_in_set [OF ne]] rr by fastforce
  have "range_rows events tenant (reached + 1) until
      = sort_key ce_seq (filter (\<lambda>e. reached + 1 \<le> ce_seq e) (filter (in_range tenant cursor until) events))"
  proof -
    have "filter (in_range tenant (reached + 1) until) events
        = filter (\<lambda>e. reached + 1 \<le> ce_seq e) (filter (in_range tenant cursor until) events)"
      unfolding filter_filter by (rule filter_cong) (use c in \<open>auto simp: in_range_def\<close>)
    then show ?thesis by (simp add: range_rows_def)
  qed
  also have "\<dots> = filter (\<lambda>e. reached + 1 \<le> ce_seq e) ?R" by (simp add: filter_sort range_rows_def)
  also have "\<dots> = filter (\<lambda>e. reached + 1 \<le> ce_seq e) (take BATCH ?R)
      @ filter (\<lambda>e. reached + 1 \<le> ce_seq e) (drop BATCH ?R)"
    by (metis filter_append split)
  also have "filter (\<lambda>e. reached + 1 \<le> ce_seq e) (take BATCH ?R) = []"
    using upto by (fastforce simp: filter_empty_conv)
  also have "filter (\<lambda>e. reached + 1 \<le> ce_seq e) (drop BATCH ?R) = drop BATCH ?R"
    using above by (simp add: filter_id_conv)
  finally show ?thesis by simp
qed

lemma event_range_from_rows:
  assumes "distinct (map ce_seq events)"
  shows "event_range_from events tenant until hs cursor through
    = (hs @ map au_hash (range_rows events tenant cursor until),
       through_of through (range_rows events tenant cursor until))"
  using assms
proof (induction events tenant until hs cursor through rule: event_range_from.induct)
  case (1 events tenant until hs cursor through)
  let ?p = "event_page events tenant cursor until"
  let ?R = "range_rows events tenant cursor until"
  have pg: "?p = take BATCH ?R" by (simp add: event_page_def range_rows_def)
  show ?case
  proof (cases "length ?p < BATCH")
    case True
    then have "?p = ?R" using pg by (cases "BATCH \<le> length ?R") simp_all
    with True show ?thesis by (subst event_range_from.simps) (simp add: Let_def)
  next
    case False
    let ?r = "through_of through ?p"
    have rest: "range_rows events tenant (?r + 1) until = drop BATCH ?R"
      by (rule rows_after_page [OF "1.prems" False refl])
    have hashes: "map au_hash ?p @ map au_hash (drop BATCH ?R) = map au_hash ?R"
      unfolding pg by (metis append_take_drop_id map_append)
    have ne: "?p \<noteq> []" using False by (auto simp: BATCH_def)
    have thr: "through_of ?r (drop BATCH ?R) = through_of through ?R"
    proof (cases "drop BATCH ?R = []")
      case True
      then have "?p = ?R" using pg by simp
      with True show ?thesis by (simp add: through_of_def)
    next
      case False
      then have "last (drop BATCH ?R) = last ?R" by (simp add: last_drop)
      with False show ?thesis by (auto simp: through_of_def)
    qed
    have "event_range_from events tenant until hs cursor through
        = event_range_from events tenant until (hs @ map au_hash ?p) (?r + 1) ?r"
      using False by (subst event_range_from.simps) (simp add: Let_def)
    also have "\<dots> = (hs @ map au_hash ?p @ map au_hash (drop BATCH ?R), through_of ?r (drop BATCH ?R))"
      using "1.IH" [OF refl refl refl False "1.prems"] rest by simp
    finally show ?thesis using hashes thr by simp
  qed
qed

lemma event_range_rows:
  "distinct (map ce_seq events) \<Longrightarrow> event_range events tenant begin_at until
    = (map au_hash (range_rows events tenant begin_at until),
       through_of (begin_at - 1) (range_rows events tenant begin_at until))"
  by (simp add: event_range_def event_range_from_rows)

section \<open>Operations\<close>

definition checkpoints_of :: "chain_db \<Rightarrow> string \<Rightarrow> checkpoint_row list" where
  \<comment> \<open>the checkpoints of a tenant in the order of their numbers\<close>
  "checkpoints_of s tenant = sort_key ck_number (filter (\<lambda>c. ck_tenant c = tenant) (cd_checkpoints s))"

definition lastCheckpoint :: "chain_db \<Rightarrow> string \<Rightarrow> checkpoint_row option" where
  "lastCheckpoint s tenant =
     (if checkpoints_of s tenant = [] then None else Some (last (checkpoints_of s tenant)))"

definition AuditChainCheckpointService :: "string \<Rightarrow> string outcome" where
  \<comment> \<open>the constructor: the tenant the service is for\<close>
  "AuditChainCheckpointService tenant =
     ensureR (1 \<le> length tenant \<and> length tenant \<le> 200) ''INVALID_TENANT_SCOPE'' (Inr tenant)"

definition next_checkpoint :: "(string \<Rightarrow> string) \<Rightarrow> string \<Rightarrow> string \<Rightarrow> checkpoint_row option
    \<Rightarrow> string list \<Rightarrow> int \<Rightarrow> checkpoint_row" where
  "next_checkpoint sha tenant createdBy previous eventHashes through =
     (let eventCount = (case previous of None \<Rightarrow> 0 | Some c \<Rightarrow> ck_count c) + int (length eventHashes);
          previousDigest = map_option ck_digest previous
      in \<lparr>ck_tenant = tenant, ck_number = (case previous of None \<Rightarrow> 0 | Some c \<Rightarrow> ck_number c) + 1,
          ck_through = through, ck_count = eventCount, ck_previous = previousDigest,
          ck_digest = digestOf sha previousDigest through eventCount eventHashes,
          ck_createdBy = createdBy, ck_anchor = None\<rparr>)"

definition createCheckpoint ::
  "(string \<Rightarrow> string) \<Rightarrow> (nat \<Rightarrow> unit outcome) \<Rightarrow> string \<Rightarrow> string \<Rightarrow> (chain_db, checkpoint_row) eff" where
  "createCheckpoint sha commit tenant createdBy =
     thenE (ensureE (1 \<le> length createdBy \<and> length createdBy \<le> 200) ''INVALID_CHECKPOINT_ACTOR'')
    (withSerializableTransaction 3 commit (withE (\<lambda>s.
     let previous = lastCheckpoint s tenant;
         begin_at = (case previous of None \<Rightarrow> 0 | Some c \<Rightarrow> ck_through c);
         (eventHashes, through) = event_range (cd_events s) tenant (begin_at + 1) None;
         row = next_checkpoint sha tenant createdBy previous eventHashes through
     in thenE (ensureE (eventHashes \<noteq> []) ''NO_NEW_AUDIT_EVENTS'')
       (thenE (modifyE (\<lambda>s. s\<lparr>cd_checkpoints := cd_checkpoints s @ [row]\<rparr>))
       (retE row)))))"

datatype verdict =
    Mismatch string int int bool   \<comment> \<open>reason, checkpoint number, through, anchored\<close>
  | Valid nat int "string option" "json option"   \<comment> \<open>checkpoints, events, latest digest and anchor\<close>

definition mismatch :: "string \<Rightarrow> checkpoint_row \<Rightarrow> verdict" where
  "mismatch reason row = Mismatch reason (ck_number row) (ck_through row) (ck_anchor row \<noteq> None)"

fun verify_from :: "(string \<Rightarrow> string) \<Rightarrow> chain_event list \<Rightarrow> string \<Rightarrow> string option \<Rightarrow> int \<Rightarrow> int
    \<Rightarrow> checkpoint_row list \<Rightarrow> verdict + (string option \<times> int \<times> int)" where
  \<comment> \<open>the loop of \<open>verifyCheckpoints\<close> over the rows left\<close>
  "verify_from sha events tenant previousDigest previousThrough eventCount [] =
     Inr (previousDigest, previousThrough, eventCount)"
| "verify_from sha events tenant previousDigest previousThrough eventCount (row # rest) =
     (let eventHashes = fst (event_range events tenant (previousThrough + 1) (Some (ck_through row)));
          counted = eventCount + int (length eventHashes)
      in if ck_previous row \<noteq> previousDigest then Inl (mismatch ''CHECKPOINT_CHAIN_BROKEN'' row)
         else if ck_count row \<noteq> counted then Inl (mismatch ''EVENT_COUNT_MISMATCH'' row)
         else if digestOf sha previousDigest (ck_through row) counted eventHashes \<noteq> ck_digest row
           then Inl (mismatch ''DIGEST_MISMATCH'' row)
         else verify_from sha events tenant (Some (ck_digest row)) (ck_through row) counted rest)"

definition verifyCheckpoints :: "(string \<Rightarrow> string) \<Rightarrow> string \<Rightarrow> chain_db \<Rightarrow> verdict" where
  "verifyCheckpoints sha tenant s =
     (let rows = checkpoints_of s tenant in
      case verify_from sha (cd_events s) tenant None 0 0 rows of
        Inl bad \<Rightarrow> bad
      | Inr (latestDigest, _, eventCount) \<Rightarrow>
          Valid (length rows) eventCount latestDigest (if rows = [] then None else ck_anchor (last rows)))"

definition recorded_anchor :: "string \<Rightarrow> json \<Rightarrow> json" where
  \<comment> \<open>\<open>{ ...anchor, recordedAt }\<close>\<close>
  "recorded_anchor nowText anchor =
     (case anchor of JObj kvs \<Rightarrow> JObj (jm_set ''recordedAt'' (JStr nowText) kvs) | v \<Rightarrow> v)"

definition nonempty_string :: "json \<Rightarrow> bool" where
  "nonempty_string v = (case v of JStr s \<Rightarrow> s \<noteq> [] | _ \<Rightarrow> False)"

definition is_object :: "json \<Rightarrow> bool" where
  "is_object v = (case v of JObj _ \<Rightarrow> True | _ \<Rightarrow> False)"

definition unanchored :: "string \<Rightarrow> int \<Rightarrow> checkpoint_row \<Rightarrow> bool" where
  "unanchored tenant number r = (ck_tenant r = tenant \<and> ck_number r = number \<and> ck_anchor r = None)"

definition recordExternalAnchor ::
  "string \<Rightarrow> string \<Rightarrow> json \<Rightarrow> json \<Rightarrow> (chain_db, string \<times> json) eff" where
  "recordExternalAnchor tenant nowText checkpointNumber anchor =
     thenE (ensureE (integer_between 1 9007199254740991 checkpointNumber) ''INVALID_CHECKPOINT_NUMBER'')
    (thenE (ensureE (is_object anchor \<and> nonempty_string (jfield anchor ''service'')
        \<and> nonempty_string (jfield anchor ''reference'')) ''INVALID_EXTERNAL_ANCHOR'')
    (withE (\<lambda>s.
     let number = (case checkpointNumber of JNum n \<Rightarrow> n | _ \<Rightarrow> 0);
         recorded = recorded_anchor nowText anchor;
         hit = filter (unanchored tenant number) (cd_checkpoints s)
     in thenE (modifyE (\<lambda>s. s\<lparr>cd_checkpoints := update_where (unanchored tenant number)
            (\<lambda>r. r\<lparr>ck_anchor := Some recorded\<rparr>) (cd_checkpoints s)\<rparr>))
       (case hit of [row] \<Rightarrow> retE (ck_digest row, recorded)
          | _ \<Rightarrow> throwE (Coded ''CHECKPOINT_ANCHOR_UNAVAILABLE'')))))"

section \<open>Every checkpoint of a history verifies\<close>

inductive chain_step :: "(string \<Rightarrow> string) \<Rightarrow> chain_db \<Rightarrow> chain_db \<Rightarrow> bool" for sha :: "string \<Rightarrow> string" where
  record_event: "list_all (\<lambda>e. ce_seq e < ce_seq new) (cd_events s) \<Longrightarrow> 0 < ce_seq new
     \<Longrightarrow> chain_step sha s (s\<lparr>cd_events := cd_events s @ [new]\<rparr>)"
| create: "createCheckpoint sha commit tenant createdBy s = (r, t) \<Longrightarrow> chain_step sha s t"
| anchor: "recordExternalAnchor tenant nowText number anchor s = (r, t) \<Longrightarrow> chain_step sha s t"

definition no_chain :: chain_db where
  "no_chain = \<lparr>cd_events = [], cd_checkpoints = []\<rparr>"

lemma verify_from_append:
  "verify_from sha events tenant d th n (xs @ ys) =
     (case verify_from sha events tenant d th n xs of Inl bad \<Rightarrow> Inl bad
      | Inr (d', th', n') \<Rightarrow> verify_from sha events tenant d' th' n' ys)"
  by (induction xs arbitrary: d th n) (simp_all add: Let_def)

lemma verify_from_cong:
  assumes "\<And>th row. row \<in> set rows \<Longrightarrow> event_range events tenant th (Some (ck_through row))
      = event_range events' tenant th (Some (ck_through row))"
  shows "verify_from sha events tenant d th n rows = verify_from sha events' tenant d th n rows"
  using assms by (induction rows arbitrary: d th n) (simp_all add: Let_def)

lemma verify_from_end:
  "verify_from sha events tenant d th n rows = Inr (d', th', n') \<Longrightarrow> rows \<noteq> [] \<Longrightarrow>
     d' = Some (ck_digest (last rows)) \<and> th' = ck_through (last rows) \<and> n' = ck_count (last rows)"
  by (induction rows arbitrary: d th n) (auto simp: Let_def split: if_splits)

lemma verify_from_map:
  assumes "\<And>r. ck_previous (f r) = ck_previous r \<and> ck_count (f r) = ck_count r
      \<and> ck_through (f r) = ck_through r \<and> ck_digest (f r) = ck_digest r"
  shows "(\<exists>x. verify_from sha events tenant d th n (map f rows) = Inr x)
    \<longleftrightarrow> (\<exists>x. verify_from sha events tenant d th n rows = Inr x)"
  using assms by (induction rows arbitrary: d th n) (simp_all add: Let_def)

lemma insort_map: "(\<And>r. key (f r) = key r) \<Longrightarrow> insort_key key (f x) (map f xs) = map f (insort_key key x xs)"
  by (induction xs) simp_all

lemma sort_map: "(\<And>r. key (f r) = key r) \<Longrightarrow> sort_key key (map f xs) = map f (sort_key key xs)"
  by (induction xs) (simp_all add: insort_map)

lemma insort_snoc: "key x < key y \<Longrightarrow> insort_key key x (xs @ [y]) = insort_key key x xs @ [y]"
  by (induction xs) auto

lemma sort_snoc:
  "(\<And>x. x \<in> set xs \<Longrightarrow> key x < key y) \<Longrightarrow> sort_key key (xs @ [y]) = sort_key key xs @ [y]"
  by (induction xs) (simp_all add: insort_snoc)

definition chain_ok :: "(string \<Rightarrow> string) \<Rightarrow> chain_db \<Rightarrow> bool" where
  "chain_ok sha s =
     (distinct (map ce_seq (cd_events s))
      \<and> (\<forall>r \<in> set (cd_checkpoints s). \<exists>e \<in> set (cd_events s). ck_through r \<le> ce_seq e)
      \<and> (\<forall>tenant. \<exists>x. verify_from sha (cd_events s) tenant None 0 0 (checkpoints_of s tenant) = Inr x))"

lemma range_rows_fresh:
  assumes "u < ce_seq new"
  shows "range_rows (events @ [new]) tenant c (Some u) = range_rows events tenant c (Some u)"
  using assms by (simp add: range_rows_def in_range_def)

lemma chain_ok_record:
  assumes ok: "chain_ok sha s" and new: "list_all (\<lambda>e. ce_seq e < ce_seq new) (cd_events s)"
  shows "chain_ok sha (s\<lparr>cd_events := cd_events s @ [new]\<rparr>)"
proof -
  let ?E = "cd_events s"
  have d: "distinct (map ce_seq ?E)" and d': "distinct (map ce_seq (?E @ [new]))"
    using ok new by (auto simp: chain_ok_def list_all_iff)
  have same: "verify_from sha (?E @ [new]) tenant None 0 0 (checkpoints_of s tenant)
      = verify_from sha ?E tenant None 0 0 (checkpoints_of s tenant)" for tenant
  proof (rule verify_from_cong)
    fix th row assume "row \<in> set (checkpoints_of s tenant)"
    then have "row \<in> set (cd_checkpoints s)" by (simp add: checkpoints_of_def)
    then obtain e where "e \<in> set ?E" "ck_through row \<le> ce_seq e" using ok by (auto simp: chain_ok_def)
    then have "ck_through row < ce_seq new" using new by (force simp: list_all_iff)
    then show "event_range (?E @ [new]) tenant th (Some (ck_through row)) = event_range ?E tenant th (Some (ck_through row))"
      by (simp only: event_range_rows [OF d] event_range_rows [OF d'] range_rows_fresh)
  qed
  have rows: "checkpoints_of (s\<lparr>cd_events := ?E @ [new]\<rparr>) tenant = checkpoints_of s tenant" for tenant
    by (simp add: checkpoints_of_def)
  show ?thesis using ok d' same rows by (auto simp: chain_ok_def)
qed

lemma range_rows_closed:
  assumes "range_rows events tenant c None = rows" and "rows \<noteq> []"
  shows "range_rows events tenant c (Some (ce_seq (last rows))) = rows"
proof -
  have sorted: "sorted (map ce_seq rows)" using assms(1) by (auto simp: range_rows_def)
  have "\<And>e. e \<in> set rows \<Longrightarrow> ce_seq e \<le> ce_seq (last rows)"
  proof -
    fix e assume "e \<in> set rows"
    then obtain i where i: "i < length rows" "rows ! i = e" by (auto simp: in_set_conv_nth)
    have "map ce_seq rows ! i \<le> map ce_seq rows ! (length rows - 1)"
      using i sorted by (intro sorted_nth_mono) auto
    then show "ce_seq e \<le> ce_seq (last rows)" using i assms(2) by (simp add: last_conv_nth)
  qed
  moreover have "set rows = set (filter (in_range tenant c None) events)" using assms(1) by (auto simp: range_rows_def)
  ultimately have "filter (in_range tenant c (Some (ce_seq (last rows)))) events = filter (in_range tenant c None) events"
    by (intro filter_cong) (auto simp: in_range_def)
  then show ?thesis using assms(1) by (simp add: range_rows_def)
qed

lemma range_rows_empty: "range_rows events tenant c until \<noteq> [] \<Longrightarrow> last (range_rows events tenant c until) \<in> set events"
  using last_in_set [of "range_rows events tenant c until"] by (simp add: range_rows_def)

lemma checkpoints_of_last:
  assumes "lastCheckpoint s tenant = Some c" and "x \<in> set (checkpoints_of s tenant)"
  shows "ck_number x \<le> ck_number c"
proof -
  let ?R = "checkpoints_of s tenant"
  have "sorted (map ck_number ?R)" by (simp add: checkpoints_of_def)
  moreover obtain i where i: "i < length ?R" "?R ! i = x" using assms(2) by (auto simp: in_set_conv_nth)
  ultimately have "map ck_number ?R ! i \<le> map ck_number ?R ! (length ?R - 1)"
    by (intro sorted_nth_mono) auto
  then show ?thesis using i assms by (auto simp: lastCheckpoint_def last_conv_nth split: if_splits)
qed

lemma chain_ok_create:
  assumes ok: "chain_ok sha s" and rng: "event_range (cd_events s) tenant
      ((case lastCheckpoint s tenant of None \<Rightarrow> 0 | Some c \<Rightarrow> ck_through c) + 1) None = (hs, th)"
    and ne: "hs \<noteq> []"
  shows "chain_ok sha (s\<lparr>cd_checkpoints := cd_checkpoints s
      @ [next_checkpoint sha tenant by_whom (lastCheckpoint s tenant) hs th]\<rparr>)" (is "chain_ok sha ?t")
proof -
  let ?E = "cd_events s" and ?prev = "lastCheckpoint s tenant"
  let ?new = "next_checkpoint sha tenant by_whom ?prev hs th"
  let ?c = "case ?prev of None \<Rightarrow> 0 | Some c \<Rightarrow> ck_through c"
  have d: "distinct (map ce_seq ?E)" using ok by (simp add: chain_ok_def)
  obtain rows where rows: "range_rows ?E tenant (?c + 1) None = rows" by simp
  have hs: "hs = map au_hash rows" and th: "th = through_of ?c rows"
    using rng by (simp_all add: event_range_rows [OF d] rows)
  have rne: "rows \<noteq> []" using ne hs by simp
  have thl: "th = ce_seq (last rows)" using th rne by (simp add: through_of_def)
  have le: "last rows \<in> set ?E" using range_rows_empty rows rne by metis
  have again: "fst (event_range ?E tenant (?c + 1) (Some th)) = hs"
    using range_rows_closed [OF rows rne] by (simp add: event_range_rows [OF d] hs thl)
  have fields: "ck_tenant ?new = tenant" "ck_through ?new = th" "ck_previous ?new = map_option ck_digest ?prev"
    "ck_number ?new = (case ?prev of None \<Rightarrow> 0 | Some c \<Rightarrow> ck_number c) + 1"
    "ck_count ?new = (case ?prev of None \<Rightarrow> 0 | Some c \<Rightarrow> ck_count c) + int (length hs)"
    "ck_digest ?new = digestOf sha (map_option ck_digest ?prev) th (ck_count ?new) hs"
    by (simp_all add: next_checkpoint_def Let_def)
  have cps: "checkpoints_of ?t tenant = checkpoints_of s tenant @ [?new]"
  proof -
    have "sort_key ck_number (filter (\<lambda>c. ck_tenant c = tenant) (cd_checkpoints s) @ [?new])
        = sort_key ck_number (filter (\<lambda>c. ck_tenant c = tenant) (cd_checkpoints s)) @ [?new]"
    proof (rule sort_snoc)
      fix x assume x: "x \<in> set (filter (\<lambda>c. ck_tenant c = tenant) (cd_checkpoints s))"
      then have x': "x \<in> set (checkpoints_of s tenant)" by (simp add: checkpoints_of_def)
      then have "?prev \<noteq> None" by (auto simp: lastCheckpoint_def)
      then obtain c where c: "?prev = Some c" by blast
      from checkpoints_of_last [OF c x'] show "ck_number x < ck_number ?new" unfolding fields(4) by (simp add: c)
    qed
    then show ?thesis by (simp add: checkpoints_of_def fields(1))
  qed
  have others: "checkpoints_of ?t tn = checkpoints_of s tn" if "tn \<noteq> tenant" for tn
    using that by (simp add: checkpoints_of_def fields(1))
  obtain x where x: "verify_from sha ?E tenant None 0 0 (checkpoints_of s tenant) = Inr x"
    using ok unfolding chain_ok_def by blast
  obtain d0 t0 n0 where run: "verify_from sha ?E tenant None 0 0 (checkpoints_of s tenant) = Inr (d0, t0, n0)"
    using x by (cases x) simp
  have ends: "d0 = map_option ck_digest ?prev \<and> t0 = ?c \<and> n0 = (case ?prev of None \<Rightarrow> 0 | Some c \<Rightarrow> ck_count c)"
  proof (cases "checkpoints_of s tenant = []")
    case True
    with run show ?thesis by (simp add: lastCheckpoint_def)
  next
    case False
    with verify_from_end [OF run] show ?thesis by (simp add: lastCheckpoint_def)
  qed
  have "\<exists>x. verify_from sha ?E tenant None 0 0 (checkpoints_of ?t tenant) = Inr x"
    using ends again fields by (simp add: cps verify_from_append run Let_def)
  moreover have "\<exists>e \<in> set ?E. ck_through ?new \<le> ce_seq e" using le thl fields(2) by auto
  ultimately show ?thesis using ok others by (auto simp: chain_ok_def) (metis others)
qed

lemma createCheckpoint_ok: "keeps (chain_ok sha) (createCheckpoint sha commit tenant createdBy)"
  unfolding createCheckpoint_def
proof (intro keeps_intros serializable_keeps keepsI, goal_cases)
  case (1 s r t)
  then show ?case
    by (cases r) (auto simp: eff_simps Let_def split: prod.splits intro: chain_ok_create)
qed

lemma chain_ok_anchor:
  assumes "chain_ok sha s"
  shows "chain_ok sha (s\<lparr>cd_checkpoints := update_where p (\<lambda>r. r\<lparr>ck_anchor := a\<rparr>) (cd_checkpoints s)\<rparr>)"
    (is "chain_ok sha ?t")
proof -
  let ?f = "\<lambda>r. if p r then r\<lparr>ck_anchor := a\<rparr> else r"
  have cps: "checkpoints_of ?t tenant = map ?f (checkpoints_of s tenant)" for tenant
  proof -
    have "filter (\<lambda>c. ck_tenant c = tenant) (map ?f (cd_checkpoints s))
        = map ?f (filter (\<lambda>c. ck_tenant c = tenant) (cd_checkpoints s))"
      by (induction "cd_checkpoints s") (auto simp: filter_map comp_def)
    then show ?thesis unfolding checkpoints_of_def update_where_def by (simp add: sort_map)
  qed
  have "(\<exists>x. verify_from sha (cd_events s) tenant None 0 0 (map ?f (checkpoints_of s tenant)) = Inr x)
      \<longleftrightarrow> (\<exists>x. verify_from sha (cd_events s) tenant None 0 0 (checkpoints_of s tenant) = Inr x)" for tenant
    by (rule verify_from_map) simp
  then show ?thesis using assms cps by (auto simp: chain_ok_def update_where_def)
qed

lemma recordExternalAnchor_ok: "keeps (chain_ok sha) (recordExternalAnchor tenant nowText number anchor)"
  unfolding recordExternalAnchor_def Let_def
  by (intro keeps_intros keeps_withE keeps_modifyE chain_ok_anchor)
    (auto split: list.splits intro: keeps_intros)

interpretation checkpoints: invariant_of "chain_step sha" no_chain "chain_ok sha" for sha
proof unfold_locales
  show "chain_ok sha no_chain" by (simp add: chain_ok_def no_chain_def checkpoints_of_def)
next
  fix s t assume ok: "chain_ok sha s" and step: "chain_step sha s t"
  from step show "chain_ok sha t"
  proof cases
    case (record_event new)
    then show ?thesis using chain_ok_record [OF ok] by simp
  next
    case (create commit tenant createdBy r)
    then show ?thesis using keepsD [OF createCheckpoint_ok ok] by blast
  next
    case (anchor tenant nowText number anchor r)
    then show ?thesis using keepsD [OF recordExternalAnchor_ok ok] by blast
  qed
qed

lemma verified_answer:
  assumes "chain_ok sha s"
  shows "verifyCheckpoints sha tenant s = Valid (length (checkpoints_of s tenant))
    (case lastCheckpoint s tenant of None \<Rightarrow> 0 | Some c \<Rightarrow> ck_count c)
    (map_option ck_digest (lastCheckpoint s tenant)) (Option.bind (lastCheckpoint s tenant) ck_anchor)"
proof -
  obtain x where x: "verify_from sha (cd_events s) tenant None 0 0 (checkpoints_of s tenant) = Inr x"
    using assms unfolding chain_ok_def by blast
  obtain d t n where run: "verify_from sha (cd_events s) tenant None 0 0 (checkpoints_of s tenant) = Inr (d, t, n)"
    using x by (cases x) simp
  show ?thesis
  proof (cases "checkpoints_of s tenant = []")
    case True
    with run show ?thesis by (simp add: verifyCheckpoints_def lastCheckpoint_def)
  next
    case False
    with run verify_from_end [OF run] show ?thesis by (simp add: verifyCheckpoints_def lastCheckpoint_def Let_def)
  qed
qed


section \<open>A published digest fixes the history below it\<close>

text \<open>
  What a verification of the rows recomputes: for every checkpoint the text it hashes, and the
  boundary with the hashes of the events folded in.
\<close>

fun checkpointed :: "chain_event list \<Rightarrow> string \<Rightarrow> int \<Rightarrow> checkpoint_row list \<Rightarrow> (int \<times> string list) list" where
  "checkpointed events tenant th [] = []"
| "checkpointed events tenant th (row # rest) =
     (ck_through row, fst (event_range events tenant (th + 1) (Some (ck_through row))))
       # checkpointed events tenant (ck_through row) rest"

fun hashed_texts :: "chain_event list \<Rightarrow> string \<Rightarrow> string option \<Rightarrow> int \<Rightarrow> int \<Rightarrow> checkpoint_row list \<Rightarrow> string list" where
  "hashed_texts events tenant d th n [] = []"
| "hashed_texts events tenant d th n (row # rest) =
     (let hs = fst (event_range events tenant (th + 1) (Some (ck_through row)))
      in digest_text d (ck_through row) (n + int (length hs)) hs
           # hashed_texts events tenant (Some (ck_digest row)) (ck_through row) (n + int (length hs)) rest)"

lemma checkpointed_append:
  "checkpointed events tenant th (xs @ [row]) = checkpointed events tenant th xs
     @ [(ck_through row, fst (event_range events tenant ((if xs = [] then th else ck_through (last xs)) + 1)
          (Some (ck_through row))))]"
  by (induction xs arbitrary: th) simp_all

lemma hashed_texts_append:
  "verify_from sha events tenant d th n xs = Inr (d', th', n') \<Longrightarrow>
     hashed_texts events tenant d th n (xs @ [row]) = hashed_texts events tenant d th n xs
       @ [let hs = fst (event_range events tenant (th' + 1) (Some (ck_through row)))
          in digest_text d' (ck_through row) (n' + int (length hs)) hs]"
  by (induction xs arbitrary: d th n) (auto simp: Let_def split: if_splits)

lemma nat_text_no_separator: "separator \<notin> set (nat_text n)"
proof -
  have "\<not> is_digit separator" by code_simp
  then show ?thesis using nat_text_is_digits [of n] by (auto simp: list_all_iff)
qed

lemma int_text_no_separator: "separator \<notin> set (int_text n)"
  using nat_text_no_separator by (auto simp: int_text_def separator_def)

lemma split_at_separator:
  assumes "a @ separator # x = b @ separator # y" and "separator \<notin> set a" and "separator \<notin> set b"
  shows "a = b \<and> x = y"
  using assms by (auto simp: append_eq_append_conv2 append_eq_Cons_conv Cons_eq_append_conv)

abbreviation folded :: "string list \<Rightarrow> string" where
  "folded hs \<equiv> concat (map (\<lambda>h. separator # h) hs)"

lemma split_at_fold:
  assumes eq: "x @ folded xs = y @ folded ys" and "separator \<notin> set x" and "separator \<notin> set y"
  shows "x = y \<and> folded xs = folded ys"
proof -
  have shape: "\<exists>w. folded zs @ [separator] = separator # w" for zs by (cases zs) auto
  obtain u where u: "folded xs @ [separator] = separator # u" using shape by blast
  obtain v where v: "folded ys @ [separator] = separator # v" using shape by blast
  have "x @ folded xs @ [separator] = y @ folded ys @ [separator]" using eq by simp
  then have "x @ separator # u = y @ separator # v" using u v by simp
  then have "x = y" using split_at_separator assms(2,3) by blast
  then show ?thesis using eq by simp
qed

lemma folded_inj:
  assumes "folded xs = folded ys"
    and "list_all (\<lambda>h. separator \<notin> set h) xs" and "list_all (\<lambda>h. separator \<notin> set h) ys"
  shows "xs = ys"
  using assms
proof (induction xs arbitrary: ys)
  case Nil
  then show ?case by (cases ys) simp_all
next
  case (Cons x xs)
  from Cons.prems(1) obtain y ys' where ys: "ys = y # ys'" by (cases ys) auto
  have "x @ folded xs = y @ folded ys'" using Cons.prems(1) ys by simp
  then have "x = y \<and> folded xs = folded ys'" by (rule split_at_fold) (use Cons.prems(2,3) ys in simp_all)
  with Cons.IH [of ys'] Cons.prems(2,3) ys show ?case by simp
qed

lemma digest_text_inject:
  assumes eq: "digest_text d th n hs = digest_text d' th' n' hs'"
    and "separator \<notin> set (or_empty d)" and "separator \<notin> set (or_empty d')"
    and hs: "list_all (\<lambda>h. separator \<notin> set h) hs" "list_all (\<lambda>h. separator \<notin> set h) hs'"
  shows "or_empty d = or_empty d' \<and> th = th' \<and> n = n' \<and> hs = hs'"
proof -
  have "or_empty d @ separator # (int_text th @ separator # int_text n @ folded hs)
      = or_empty d' @ separator # (int_text th' @ separator # int_text n' @ folded hs')"
    using eq by (simp add: digest_text_def)
  then have d: "or_empty d = or_empty d'"
    and r: "int_text th @ separator # (int_text n @ folded hs) = int_text th' @ separator # (int_text n' @ folded hs')"
    using split_at_separator assms(2,3) by blast+
  from r have th: "int_text th = int_text th'" and r': "int_text n @ folded hs = int_text n' @ folded hs'"
    using split_at_separator int_text_no_separator by blast+
  from split_at_fold [OF r' int_text_no_separator int_text_no_separator]
  have "int_text n = int_text n'" and "folded hs = folded hs'" by blast+
  with d th folded_inj hs show ?thesis by simp
qed

lemma verify_from_snoc:
  assumes "verify_from sha events tenant None 0 0 (xs @ [row]) = Inr (d, th, n)"
  obtains d1 th1 n1 hs where "verify_from sha events tenant None 0 0 xs = Inr (d1, th1, n1)"
    and "hs = fst (event_range events tenant (th1 + 1) (Some (ck_through row)))"
    and "d = Some (sha (digest_text d1 (ck_through row) (n1 + int (length hs)) hs))"
    and "hashed_texts events tenant None 0 0 (xs @ [row])
      = hashed_texts events tenant None 0 0 xs @ [digest_text d1 (ck_through row) (n1 + int (length hs)) hs]"
    and "checkpointed events tenant 0 (xs @ [row]) = checkpointed events tenant 0 xs @ [(ck_through row, hs)]"
proof -
  obtain x where "verify_from sha events tenant None 0 0 xs = Inr x"
    using assms by (auto simp: verify_from_append split: sum.splits)
  then obtain d1 th1 n1 where run: "verify_from sha events tenant None 0 0 xs = Inr (d1, th1, n1)"
    by (cases x) simp
  define hs where "hs = fst (event_range events tenant (th1 + 1) (Some (ck_through row)))"
  have th1: "th1 = (if xs = [] then 0 else ck_through (last xs))"
    using run verify_from_end [OF run] by (cases "xs = []") auto
  show thesis
  proof (rule that [OF run hs_def])
    show "d = Some (sha (digest_text d1 (ck_through row) (n1 + int (length hs)) hs))"
      using assms by (auto simp: verify_from_append run Let_def digestOf_def hs_def split: if_splits)
    show "hashed_texts events tenant None 0 0 (xs @ [row])
      = hashed_texts events tenant None 0 0 xs @ [digest_text d1 (ck_through row) (n1 + int (length hs)) hs]"
      by (simp add: hashed_texts_append [OF run] Let_def hs_def)
    show "checkpointed events tenant 0 (xs @ [row]) = checkpointed events tenant 0 xs @ [(ck_through row, hs)]"
      by (simp add: checkpointed_append th1 [symmetric] hs_def)
  qed
qed

lemma verified_digest:
  assumes "verify_from sha events tenant None 0 0 rows = Inr (Some d, th, n)"
  shows "d \<in> range sha"
proof -
  have "rows \<noteq> []" using assms by auto
  then obtain xs row where rows: "rows = xs @ [row]" by (metis rev_exhaust)
  show ?thesis using verify_from_snoc [OF assms [unfolded rows]] by (metis option.inject rangeI)
qed

lemma verified_or_empty:
  assumes run: "verify_from sha events tenant None 0 0 rows = Inr (d, th, n)"
    and sha: "\<And>x. sha x \<noteq> [] \<and> separator \<notin> set (sha x)"
  shows "separator \<notin> set (or_empty d) \<and> (d = None \<longleftrightarrow> or_empty d = [])"
proof (cases d)
  case None
  then show ?thesis by (simp add: or_empty_def)
next
  case (Some t)
  with run obtain x where "t = sha x" using verified_digest by blast
  with sha [of x] Some show ?thesis by (simp add: or_empty_def)
qed

lemma event_range_clean:
  assumes "distinct (map ce_seq events)" and "list_all (\<lambda>e. separator \<notin> set (au_hash e)) events"
  shows "list_all (\<lambda>h. separator \<notin> set h) (fst (event_range events tenant c until))"
  using assms(2) by (auto simp: event_range_rows [OF assms(1)] range_rows_def list_all_iff)

lemma same_digest_same_history:
  assumes "verify_from sha ev tenant None 0 0 rows = Inr (d, th, n)"
    and "verify_from sha ev' tenant' None 0 0 rows' = Inr (d, th', n')"
    and "inj_on sha (set (hashed_texts ev tenant None 0 0 rows) \<union> set (hashed_texts ev' tenant' None 0 0 rows'))"
    and sha: "\<And>x. sha x \<noteq> [] \<and> separator \<notin> set (sha x)"
    and ev: "distinct (map ce_seq ev)" "list_all (\<lambda>e. separator \<notin> set (au_hash e)) ev"
    and ev': "distinct (map ce_seq ev')" "list_all (\<lambda>e. separator \<notin> set (au_hash e)) ev'"
  shows "checkpointed ev tenant 0 rows = checkpointed ev' tenant' 0 rows'"
  using assms(1-3)
proof (induction rows arbitrary: rows' d th n th' n' rule: rev_induct)
  case Nil
  then have "d = None" by simp
  then have "rows' = []" using verify_from_end [OF Nil.prems(2)] by blast
  then show ?case by simp
next
  case (snoc row xs)
  obtain d1 th1 n1 hs where
    run: "verify_from sha ev tenant None 0 0 xs = Inr (d1, th1, n1)"
    and hs: "hs = fst (event_range ev tenant (th1 + 1) (Some (ck_through row)))"
    and d: "d = Some (sha (digest_text d1 (ck_through row) (n1 + int (length hs)) hs))"
    and tx: "hashed_texts ev tenant None 0 0 (xs @ [row])
      = hashed_texts ev tenant None 0 0 xs @ [digest_text d1 (ck_through row) (n1 + int (length hs)) hs]"
    and cp: "checkpointed ev tenant 0 (xs @ [row]) = checkpointed ev tenant 0 xs @ [(ck_through row, hs)]"
    by (rule verify_from_snoc [OF snoc.prems(1)])
  have "rows' \<noteq> []" using snoc.prems(2) d by auto
  then obtain ys row' where rows': "rows' = ys @ [row']" by (metis rev_exhaust)
  obtain d2 th2 n2 hs' where
    run': "verify_from sha ev' tenant' None 0 0 ys = Inr (d2, th2, n2)"
    and hs': "hs' = fst (event_range ev' tenant' (th2 + 1) (Some (ck_through row')))"
    and d': "d = Some (sha (digest_text d2 (ck_through row') (n2 + int (length hs')) hs'))"
    and tx': "hashed_texts ev' tenant' None 0 0 (ys @ [row'])
      = hashed_texts ev' tenant' None 0 0 ys @ [digest_text d2 (ck_through row') (n2 + int (length hs')) hs']"
    and cp': "checkpointed ev' tenant' 0 (ys @ [row']) = checkpointed ev' tenant' 0 ys @ [(ck_through row', hs')]"
    by (rule verify_from_snoc [OF snoc.prems(2) [unfolded rows']])
  have texts: "digest_text d1 (ck_through row) (n1 + int (length hs)) hs
      = digest_text d2 (ck_through row') (n2 + int (length hs')) hs'"
  proof (rule inj_onD [OF snoc.prems(3)])
    show "sha (digest_text d1 (ck_through row) (n1 + int (length hs)) hs)
        = sha (digest_text d2 (ck_through row') (n2 + int (length hs')) hs')" using d d' by simp
  qed (simp_all only: rows' tx tx' set_append Un_iff list.set insert_iff simp_thms)
  have c1: "separator \<notin> set (or_empty d1) \<and> (d1 = None \<longleftrightarrow> or_empty d1 = [])"
    by (rule verified_or_empty [OF run sha])
  have c2: "separator \<notin> set (or_empty d2) \<and> (d2 = None \<longleftrightarrow> or_empty d2 = [])"
    by (rule verified_or_empty [OF run' sha])
  have clean: "list_all (\<lambda>h. separator \<notin> set h) hs" "list_all (\<lambda>h. separator \<notin> set h) hs'"
    unfolding hs hs' using event_range_clean ev ev' by blast+
  have same: "or_empty d1 = or_empty d2 \<and> ck_through row = ck_through row' \<and> hs = hs'"
    using digest_text_inject [OF texts] c1 c2 clean by blast
  have "d1 = d2" using same c1 c2 by (cases d1; cases d2) (auto simp: or_empty_def)
  then have "verify_from sha ev' tenant' None 0 0 ys = Inr (d1, th2, n2)" using run' by simp
  moreover have "inj_on sha (set (hashed_texts ev tenant None 0 0 xs) \<union> set (hashed_texts ev' tenant' None 0 0 ys))"
    by (rule inj_on_subset [OF snoc.prems(3)]) (simp only: rows' tx tx' set_append, blast)
  ultimately have "checkpointed ev tenant 0 xs = checkpointed ev' tenant' 0 ys" by (rule snoc.IH [OF run])
  with same show ?case by (simp add: rows' cp cp')
qed

section \<open>Properties\<close>

definition hex_digests :: "(string \<Rightarrow> string) \<Rightarrow> bool" where
  \<comment> \<open>the digest is written as 64 hexadecimal digits\<close>
  "hex_digests sha = (\<forall>x. hex_text 64 (sha x))"

definition stored_events_ok :: "chain_event list \<Rightarrow> bool" where
  \<comment> \<open>the constraints of the table: sequence ids are unique, hashes are 64 hexadecimal digits, metadata are JSON\<close>
  "stored_events_ok events =
     (distinct (map ce_seq events) \<and> list_all (\<lambda>e. hex_text 64 (au_hash e) \<and> wf_json (au_metadata e)) events)"

definition content_text :: "chain_event \<Rightarrow> string" where
  \<comment> \<open>the text whose digest \<open>recordAuditEvent\<close> stores, of the content the row holds\<close>
  "content_text e = canonicalize (audit_body (event_of (audit_record.truncate e)) (au_previous e))"

definition own_digest :: "(string \<Rightarrow> string) \<Rightarrow> chain_event \<Rightarrow> bool" where
  \<comment> \<open>the stored hash is the digest of the stored content\<close>
  "own_digest sha e = (au_hash e = sha (content_text e))"

definition event_content :: "chain_event \<Rightarrow> string \<times> string \<times> string \<times> string \<times> json \<times> string option" where
  \<comment> \<open>the content of a row, its metadata up to the order of keys\<close>
  "event_content e = (au_tenant e, au_event e, au_aggType e, au_aggId e, jnorm (au_metadata e), au_previous e)"

fun folded_events :: "chain_event list \<Rightarrow> string \<Rightarrow> int \<Rightarrow> checkpoint_row list \<Rightarrow> chain_event list" where
  \<comment> \<open>the events the checkpoints fold in, in their order\<close>
  "folded_events events tenant th [] = []"
| "folded_events events tenant th (row # rest) =
     range_rows events tenant (th + 1) (Some (ck_through row)) @ folded_events events tenant (ck_through row) rest"

lemma folded_hashes:
  "distinct (map ce_seq events) \<Longrightarrow>
     concat (map snd (checkpointed events tenant th rows)) = map au_hash (folded_events events tenant th rows)"
  by (induction rows arbitrary: th) (simp_all add: event_range_rows)

lemma folded_from_table: "set (folded_events events tenant th rows) \<subseteq> set events"
  by (induction rows arbitrary: th) (auto simp: range_rows_def)

lemma content_text_inject:
  assumes "content_text e = content_text e'" and "wf_json (au_metadata e)" and "wf_json (au_metadata e')"
  shows "event_content e = event_content e'"
proof -
  let ?b = "\<lambda>e. audit_body (event_of (audit_record.truncate e)) (au_previous e)"
  have nul: "wf_json (nullable v)" "jnorm (nullable v) = nullable v" for v by (simp_all add: nullable_def split: option.split)
  have fields: "audit_record.truncate e = \<lparr>au_tenant = au_tenant e, au_event = au_event e, au_aggType = au_aggType e, au_aggId = au_aggId e,
      au_metadata = au_metadata e, au_previous = au_previous e, au_hash = au_hash e\<rparr>" for e :: chain_event
    by (simp add: audit_record.truncate_def)
  have wf: "wf_json (?b e)" if "wf_json (au_metadata e)" for e :: chain_event
    using that nul by (simp add: audit_body_def event_of_def event_with_def fields)
  have "jnorm (?b e) = jnorm (?b e')"
    using assms canonicalize_eq_iff [OF wf wf] unfolding content_text_def by blast
  moreover have "v = v'" if "nullable v = nullable v'" for v v' using that by (simp add: nullable_def split: option.splits)
  ultimately show ?thesis by (simp add: audit_body_def event_of_def event_with_def fields event_content_def nul)
qed

lemma same_hashes_same_contents:
  assumes "map au_hash es = map au_hash fs" and "list_all (own_digest sha) es" and "list_all (own_digest sha) fs"
    and "inj_on sha (content_text ` (set es \<union> set fs))"
    and "list_all (\<lambda>e. wf_json (au_metadata e)) es" and "list_all (\<lambda>e. wf_json (au_metadata e)) fs"
  shows "map event_content es = map event_content fs"
  using assms
proof (induction es arbitrary: fs)
  case (Cons e es)
  then obtain f gs where fs: "fs = f # gs" by (cases fs) auto
  have "sha (content_text e) = sha (content_text f)" using Cons.prems(1-3) by (simp add: fs own_digest_def)
  with inj_onD [OF Cons.prems(4) this] have "content_text e = content_text f" by (simp add: fs)
  then have "event_content e = event_content f" using Cons.prems(5,6) by (intro content_text_inject) (simp_all add: fs)
  moreover have "map event_content es = map event_content gs"
    using Cons.prems by (intro Cons.IH) (auto simp: fs intro: inj_on_subset)
  ultimately show ?case by (simp add: fs)
qed simp

lemma hex_text_no_separator: "hex_text n x \<Longrightarrow> separator \<notin> set x"
proof -
  assume "hex_text n x"
  then have "list_all is_hex x" by (simp add: hex_text_def)
  moreover have "\<not> is_hex separator" by code_simp
  ultimately show ?thesis by (auto simp: list_all_iff)
qed

lemma stored_events_clean:
  "stored_events_ok events \<Longrightarrow> distinct (map ce_seq events) \<and> list_all (\<lambda>e. separator \<notin> set (au_hash e)) events"
  using hex_text_no_separator by (auto simp: stored_events_ok_def list_all_iff)

text \<open>
  The verification reads the stored hashes only and never computes the digest of a row's content. So an edit of the
  table that leaves sequence ids, tenants and hashes as they are is not noticed, below an anchor or above it.
\<close>

lemma range_rows_map:
  assumes "\<And>e. ce_seq (f e) = ce_seq e \<and> au_tenant (f e) = au_tenant e"
  shows "range_rows (map f events) tenant c until = map f (range_rows events tenant c until)"
proof -
  have "in_range tenant c until (f e) = in_range tenant c until e" for e
    using assms [of e] by (simp add: in_range_def split: option.split)
  then have "filter (in_range tenant c until) (map f events) = map f (filter (in_range tenant c until) events)"
    by (simp add: filter_map comp_def)
  then show ?thesis using assms by (simp add: range_rows_def sort_map)
qed

theorem content_edit_unnoticed:
  assumes "stored_events_ok (cd_events s)" and same: "\<And>e. ce_seq (f e) = ce_seq e \<and> au_tenant (f e) = au_tenant e \<and> au_hash (f e) = au_hash e"
  shows "verifyCheckpoints sha tenant (s\<lparr>cd_events := map f (cd_events s)\<rparr>) = verifyCheckpoints sha tenant s"
proof -
  let ?E = "cd_events s"
  have d: "distinct (map ce_seq ?E)" using assms(1) by (simp add: stored_events_ok_def)
  have d': "distinct (map ce_seq (map f ?E))" using d same by (simp add: comp_def)
  have "through_of b (map f rs) = through_of b rs" for b rs using same by (simp add: through_of_def last_map)
  then have range: "event_range (map f ?E) tenant b u = event_range ?E tenant b u" for b u
    using same by (simp add: event_range_rows [OF d] event_range_rows [OF d'] range_rows_map comp_def)
  have "verify_from sha (map f ?E) tenant None 0 0 rows = verify_from sha ?E tenant None 0 0 rows" for rows
    by (rule verify_from_cong) (rule range)
  then show ?thesis by (simp add: verifyCheckpoints_def checkpoints_of_def)
qed

lemma verdict_run:
  "verifyCheckpoints sha tenant s = Valid k n d a \<Longrightarrow>
     \<exists>th. verify_from sha (cd_events s) tenant None 0 0 (checkpoints_of s tenant) = Inr (d, th, n)"
proof -
  assume v: "verifyCheckpoints sha tenant s = Valid k n d a"
  have not_mismatch: "verify_from sha ev tn d0 th0 n0 rows = Inl bad \<Longrightarrow> bad \<noteq> Valid k n d a" for ev tn d0 th0 n0 rows bad
    by (induction rows arbitrary: d0 th0 n0) (auto simp: Let_def mismatch_def split: if_splits)
  show ?thesis using v
    by (auto simp: verifyCheckpoints_def Let_def split: sum.splits dest!: not_mismatch)
qed

definition demo_hex :: "string \<Rightarrow> string" where
  "demo_hex s = replicate 64 CHR ''a''"

definition demo_row :: "int \<Rightarrow> string \<Rightarrow> chain_event" where
  "demo_row n hash = \<lparr>au_tenant = ''hk'', au_event = ''e'', au_aggType = ''transaction'', au_aggId = ''t1'',
     au_metadata = JObj [(''state'', JStr ''SETTLED'')], au_previous = None, au_hash = hash, ce_seq = n\<rparr>"

definition chain1 :: chain_db where
  "chain1 = no_chain\<lparr>cd_events := cd_events no_chain @ [demo_row 1 (demo_hex [])]\<rparr>"
definition chain2 :: chain_db where
  "chain2 = snd (createCheckpoint demo_hex (\<lambda>_. Inr ()) ''hk'' ''ops'' chain1)"
definition chain3 :: chain_db where
  "chain3 = chain2\<lparr>cd_events := cd_events chain2 @ [demo_row 2 (replicate 64 CHR ''b'')]\<rparr>"

lemma demo_chain_reachable: "reach (chain_step demo_hex) no_chain chain3"
proof -
  have "chain_step demo_hex no_chain chain1" unfolding chain1_def
    by (rule chain_step.record_event) (simp_all add: no_chain_def demo_row_def)
  moreover have "chain_step demo_hex chain1 chain2" unfolding chain2_def
    by (rule chain_step.create) (rule prod.collapse [symmetric])
  moreover have "list_all (\<lambda>e. ce_seq e < 2) (cd_events chain2)"
    unfolding chain2_def chain1_def no_chain_def by code_simp
  then have "chain_step demo_hex chain2 chain3" unfolding chain3_def
    by (intro chain_step.record_event) (simp_all add: demo_row_def)
  ultimately show ?thesis by (blast intro: reach.intros)
qed

lemma demo_chain_verdicts:
  "verifyCheckpoints demo_hex ''hk'' chain2 = Valid 1 1 (Some (demo_hex [])) None"
  "verifyCheckpoints demo_hex ''hk'' chain3 = Valid 1 1 (Some (demo_hex [])) None"
  "hashed_texts (cd_events chain2) ''hk'' None 0 0 (checkpoints_of chain2 ''hk'')
     = hashed_texts (cd_events chain3) ''hk'' None 0 0 (checkpoints_of chain3 ''hk'')"
  "length (hashed_texts (cd_events chain3) ''hk'' None 0 0 (checkpoints_of chain3 ''hk'')) = 1"
  unfolding chain3_def chain2_def chain1_def no_chain_def by code_simp+

lemma demo_events_ok: "stored_events_ok (cd_events chain2)" "stored_events_ok (cd_events chain3)"
  unfolding stored_events_ok_def chain3_def chain2_def chain1_def no_chain_def by code_simp+

lemma demo_hex_digests: "hex_digests demo_hex"
proof -
  have "hex_text 64 (replicate 64 CHR ''a'')" by code_simp
  then show ?thesis by (simp add: hex_digests_def demo_hex_def)
qed

lemma demo_folded:
  "folded_events (cd_events chain2) ''hk'' 0 (checkpoints_of chain2 ''hk'') = [demo_row 1 (demo_hex [])]"
  "folded_events (cd_events chain3) ''hk'' 0 (checkpoints_of chain3 ''hk'') = [demo_row 1 (demo_hex [])]"
  unfolding chain3_def chain2_def chain1_def no_chain_def by code_simp+

text \<open>
  C38. What an anchored digest fixes. Take two contents of the tables that satisfy their constraints, say the
  one a digest was published from and the one stored later. When both verify and end in that same digest, they
  agree on every boundary and on the stored hashes of all the events folded in, in their order, unless two of the texts
  hashed in the two verifications collide: so an event that is removed or inserted below the boundary, or whose
  stored hash is edited, makes the verification fail or changes the digest. The contents of the events are
  fixed only where somebody checks that the stored hash of each is the digest of its content, which the verification
  does not: then the two agree on tenant, type, aggregate, metadata up to the order of keys and previous hash of
  all events folded in, unless the texts of two contents collide. Without that check an edit of the metadata
  alone goes unnoticed (\<open>content_edit_unnoticed\<close>).
\<close>

theorem anchored_history_is_fixed:
  assumes "verifyCheckpoints sha tenant s = Valid k n d a"
    and "verifyCheckpoints sha tenant t = Valid k' n' d a'"
    and "hex_digests sha" and "stored_events_ok (cd_events s)" and "stored_events_ok (cd_events t)"
    and "inj_on sha (set (hashed_texts (cd_events s) tenant None 0 0 (checkpoints_of s tenant))
      \<union> set (hashed_texts (cd_events t) tenant None 0 0 (checkpoints_of t tenant)))"
  shows "checkpointed (cd_events s) tenant 0 (checkpoints_of s tenant)
      = checkpointed (cd_events t) tenant 0 (checkpoints_of t tenant)
    \<and> (let es = folded_events (cd_events s) tenant 0 (checkpoints_of s tenant);
           fs = folded_events (cd_events t) tenant 0 (checkpoints_of t tenant)
       in map au_hash es = map au_hash fs
         \<and> (list_all (own_digest sha) es \<and> list_all (own_digest sha) fs \<and> inj_on sha (content_text ` (set es \<union> set fs))
              \<longrightarrow> map event_content es = map event_content fs))"
proof -
  obtain th where s: "verify_from sha (cd_events s) tenant None 0 0 (checkpoints_of s tenant) = Inr (d, th, n)"
    using verdict_run [OF assms(1)] by blast
  obtain th' where t: "verify_from sha (cd_events t) tenant None 0 0 (checkpoints_of t tenant) = Inr (d, th', n')"
    using verdict_run [OF assms(2)] by blast
  have "sha x \<noteq> [] \<and> separator \<notin> set (sha x)" for x
  proof -
    have h: "hex_text 64 (sha x)" using assms(3) by (simp add: hex_digests_def)
    then have "sha x \<noteq> []" by (auto simp: hex_text_def)
    with hex_text_no_separator [OF h] show ?thesis by blast
  qed
  then have same: "checkpointed (cd_events s) tenant 0 (checkpoints_of s tenant) = checkpointed (cd_events t) tenant 0 (checkpoints_of t tenant)"
    using same_digest_same_history [OF s t assms(6)] stored_events_clean assms(4,5) by blast
  let ?es = "folded_events (cd_events s) tenant 0 (checkpoints_of s tenant)"
  let ?fs = "folded_events (cd_events t) tenant 0 (checkpoints_of t tenant)"
  have hashes: "map au_hash ?es = map au_hash ?fs"
    using same folded_hashes assms(4,5) unfolding stored_events_ok_def by metis
  have "list_all (\<lambda>e. wf_json (au_metadata e)) ?es" "list_all (\<lambda>e. wf_json (au_metadata e)) ?fs"
    using folded_from_table assms(4,5) by (fastforce simp: stored_events_ok_def list_all_iff)+
  then show ?thesis unfolding Let_def using same hashes same_hashes_same_contents [OF hashes] by blast
qed

theorem anchored_history_is_fixed_witness:
  "checkpointed (cd_events chain2) ''hk'' 0 (checkpoints_of chain2 ''hk'')
      = checkpointed (cd_events chain3) ''hk'' 0 (checkpoints_of chain3 ''hk'')
    \<and> map event_content (folded_events (cd_events chain2) ''hk'' 0 (checkpoints_of chain2 ''hk''))
      = map event_content (folded_events (cd_events chain3) ''hk'' 0 (checkpoints_of chain3 ''hk''))
    \<and> cd_events chain2 \<noteq> cd_events chain3"
proof -
  have inj: "inj_on demo_hex (set (hashed_texts (cd_events chain2) ''hk'' None 0 0 (checkpoints_of chain2 ''hk''))
      \<union> set (hashed_texts (cd_events chain3) ''hk'' None 0 0 (checkpoints_of chain3 ''hk'')))"
    using demo_chain_verdicts(4) unfolding demo_chain_verdicts(3)
    by (cases "hashed_texts (cd_events chain3) ''hk'' None 0 0 (checkpoints_of chain3 ''hk'')") auto
  have "list_all (own_digest demo_hex) [demo_row 1 (demo_hex [])]" by (simp add: own_digest_def demo_row_def demo_hex_def)
  moreover have "inj_on demo_hex (content_text ` (set [demo_row 1 (demo_hex [])] \<union> set [demo_row 1 (demo_hex [])]))" by simp
  moreover have "cd_events chain2 \<noteq> cd_events chain3" by (simp add: chain3_def)
  ultimately show ?thesis
    using anchored_history_is_fixed [OF demo_chain_verdicts(1,2) demo_hex_digests demo_events_ok inj]
    unfolding Let_def demo_folded by blast
qed

text \<open>
  In every state that recording events, creating checkpoints and recording anchors can reach,
  with operations that fail included, the verification accepts the checkpoints of every tenant, and
  answers their number, the events folded in, the latest digest and its anchor.
\<close>

theorem checkpoints_verify:
  assumes "reach (chain_step sha) no_chain s"
  shows "verifyCheckpoints sha tenant s = Valid (length (checkpoints_of s tenant))
    (case lastCheckpoint s tenant of None \<Rightarrow> 0 | Some c \<Rightarrow> ck_count c)
    (map_option ck_digest (lastCheckpoint s tenant)) (Option.bind (lastCheckpoint s tenant) ck_anchor)"
  by (rule verified_answer [OF checkpoints.always [OF assms]])

theorem checkpoints_verify_witness:
  "verifyCheckpoints demo_hex ''hk'' chain3 = Valid (length (checkpoints_of chain3 ''hk''))
    (case lastCheckpoint chain3 ''hk'' of None \<Rightarrow> 0 | Some c \<Rightarrow> ck_count c)
    (map_option ck_digest (lastCheckpoint chain3 ''hk'')) (Option.bind (lastCheckpoint chain3 ''hk'') ck_anchor)
   \<and> checkpoints_of chain3 ''hk'' \<noteq> []"
  using checkpoints_verify [OF demo_chain_reachable, of "''hk''"] demo_chain_verdicts(2) by auto

end
