(* ===== verification/ProverJobs.thy ===== *)
theory ProverJobs
  imports Outbox
begin

text \<open>
  Durable prover jobs: the service in \<open>src/storage/prover-job-service.js\<close>, the cycle of its worker in
  \<open>src/storage/prover-worker.js\<close> and the monitor in \<open>src/storage/prover-monitor.js\<close>. The prover service, the
  payload cipher and the settlement gate are handed to the constructor; they are a record of
  functions here. The two halves of a cycle, the claim of a job and what a worker does with the
  claimed job, are separate operations, since other workers run between them. Of the schema the unique
  index on the remote job, the unique reference to a receipt and the trigger that guards the life cycle of a
  job are not represented: they can only make an update fail that succeeds here.
\<close>

section \<open>State\<close>

record auth_row =   \<comment> \<open>\<open>rwa.zk_transaction_authorizations\<close>\<close>
  za_tx :: string
  za_tenant :: string
  za_status :: string
  za_circuit :: string
  za_version :: string
  za_hash :: string

record prover_job =
  pj_id :: string
  pj_tx :: string
  pj_tenant :: string
  pj_product :: string
  pj_circuit :: string
  pj_version :: string
  pj_authHash :: string
  pj_ciphertext :: string
  pj_state :: string
  pj_external :: "string option"
  pj_attempts :: nat
  pj_polls :: nat
  pj_nextAt :: int
  pj_owner :: "string option"
  pj_leaseExpiresAt :: "int option"
  pj_receipt :: "string option"
  pj_error :: "string option"
  pj_requestedBy :: string
  pj_requestedAt :: int
  pj_updatedAt :: int

record proof_receipt =   \<comment> \<open>\<open>rwa.zk_proof_receipts\<close>\<close>
  zr_id :: string
  zr_tx :: string
  zr_tenant :: string

record prover_db =
  pd_store :: db
  pd_auths :: "auth_row list"
  pd_jobs :: "prover_job list"
  pd_receipts :: "proof_receipt list"

definition inStore :: "(db, 'a) eff \<Rightarrow> (prover_db, 'a) eff" where
  \<comment> \<open>an operation of the store on the same client\<close>
  "inStore m = (\<lambda>s. case m (pd_store s) of (r, t) \<Rightarrow> (r, s\<lparr>pd_store := t\<rparr>))"

record cipher_context =
  cc_tenant :: string
  cc_tx :: string
  cc_product :: string
  cc_type :: string

record proof_request =
  pq_requestId :: string
  pq_tx :: string
  pq_circuit :: string
  pq_version :: string
  pq_authHash :: string
  pq_witness :: string

record remote_job =
  rj_state :: string
  rj_errorCode :: "string option"
  rj_proof :: json
  rj_signals :: json

record prover_services =
  encrypt :: "string \<Rightarrow> cipher_context \<Rightarrow> string outcome"
  decrypt :: "string \<Rightarrow> cipher_context \<Rightarrow> string outcome"
  submitJob :: "proof_request \<Rightarrow> string outcome"
  getJob :: "string \<Rightarrow> remote_job outcome"
  gate_accept :: "string \<Rightarrow> string \<Rightarrow> json \<Rightarrow> json \<Rightarrow> (prover_db, json) eff"

record public_job =
  pb_job :: string
  pb_tx :: string
  pb_state :: string
  pb_attempts :: nat
  pb_polls :: nat
  pb_nextAt :: int
  pb_receipt :: "string option"
  pb_error :: "string option"
  pb_requestedAt :: int
  pb_updatedAt :: int

definition publicJob :: "prover_job \<Rightarrow> public_job" where
  "publicJob r =
     \<lparr>pb_job = pj_id r, pb_tx = pj_tx r, pb_state = pj_state r, pb_attempts = pj_attempts r, pb_polls = pj_polls r,
      pb_nextAt = pj_nextAt r, pb_receipt = pj_receipt r, pb_error = pj_error r,
      pb_requestedAt = pj_requestedAt r, pb_updatedAt = pj_updatedAt r\<rparr>"

definition MAX_ATTEMPTS :: nat where
  "MAX_ATTEMPTS = 8"

definition bounded :: "json \<Rightarrow> string outcome" where
  "bounded v = (case v of
     JStr s \<Rightarrow> ensureR (1 \<le> length s \<and> length s \<le> 200) ''INVALID_PROVER_JOB'' (Inr s)
   | _ \<Rightarrow> Inl (Coded ''INVALID_PROVER_JOB''))"

section \<open>Requesting a proof\<close>

definition reference_tail :: "string \<Rightarrow> bool" where
  \<comment> \<open>\<open>[A-Za-z0-9][A-Za-z0-9._:/-]*$\<close>\<close>
  "reference_tail s = (s \<noteq> [] \<and> is_alnum (hd s) \<and> list_all (\<lambda>c. is_alnum c \<or> c \<in> set ''._:/-'') (tl s))"

definition witness_reference :: "json \<Rightarrow> string outcome" where
  "witness_reference v = (case v of
     JStr s \<Rightarrow> ensureR (length s \<le> 500
         \<and> list_ex (\<lambda>p. starts_with s p \<and> reference_tail (drop (length p) s)) [''vault://'', ''hsm://'', ''kmsref://''])
       ''INVALID_WITNESS_REFERENCE'' (Inr s)
   | _ \<Rightarrow> Inl (Coded ''INVALID_WITNESS_REFERENCE''))"

definition job_context :: "string \<Rightarrow> string \<Rightarrow> string \<Rightarrow> cipher_context" where
  "job_context tenant tx product = \<lparr>cc_tenant = tenant, cc_tx = tx, cc_product = product, cc_type = ''PROVER_JOB''\<rparr>"

definition new_job :: "int \<Rightarrow> string \<Rightarrow> intent_row \<Rightarrow> auth_row \<Rightarrow> string \<Rightarrow> string \<Rightarrow> prover_job" where
  "new_job now jobId intent auth ciphertext requestedBy =
     \<lparr>pj_id = jobId, pj_tx = ti_id intent, pj_tenant = ti_tenant intent, pj_product = ti_product intent,
      pj_circuit = za_circuit auth, pj_version = za_version auth, pj_authHash = za_hash auth,
      pj_ciphertext = ciphertext, pj_state = ''QUEUED'', pj_external = None, pj_attempts = 0, pj_polls = 0,
      pj_nextAt = now, pj_owner = None, pj_leaseExpiresAt = None, pj_receipt = None, pj_error = None,
      pj_requestedBy = requestedBy, pj_requestedAt = now, pj_updatedAt = now\<rparr>"

definition proof_context :: "prover_db \<Rightarrow> string \<Rightarrow> string \<Rightarrow> (intent_row \<times> auth_row) list" where
  \<comment> \<open>the join of intents and authorizations\<close>
  "proof_context s tx tenant =
     [(t, a). t \<leftarrow> db_intents (pd_store s), ti_id t = tx \<and> ti_tenant t = tenant,
              a \<leftarrow> pd_auths s, za_tx a = ti_id t \<and> za_tenant a = ti_tenant t]"

definition foreign_actor :: "string option option \<Rightarrow> intent_row \<Rightarrow> bool" where
  \<comment> \<open>\<open>None\<close> where the caller leaves the institution undefined\<close>
  "foreign_actor actor intent = (case actor of None \<Rightarrow> False
     | Some who \<Rightarrow> \<not> present who \<or> ti_institution intent \<noteq> who)"

definition queue_job ::
  "(string \<Rightarrow> string) \<Rightarrow> prover_services \<Rightarrow> int \<Rightarrow> string \<Rightarrow> string \<Rightarrow> intent_row \<Rightarrow> auth_row \<Rightarrow> string \<Rightarrow> string
    \<Rightarrow> (prover_db, public_job \<times> bool) eff" where
  "queue_job sha svc now uuid eventId intent auth witnessReference requestedBy =
     (let tx = ti_id intent; tenant = ti_tenant intent;
          jobId = ''prover:'' @ tx @ '':'' @ uuid in
      bindE (liftE (encrypt svc witnessReference (job_context tenant tx (ti_product intent)))) (\<lambda>encrypted.
      withE (\<lambda>s.
      if \<exists>j \<in> set (pd_jobs s). pj_id j = jobId \<or> pj_tx j = tx then throwE unique_violation
      else
        let job = new_job now jobId intent auth encrypted requestedBy;
            metadata = JObj [(''productId'', JStr (ti_product intent)), (''transactionId'', JStr tx),
              (''jobId'', JStr jobId), (''state'', JStr ''QUEUED'')] in
        thenE (modifyE (\<lambda>s. s\<lparr>pd_jobs := pd_jobs s @ [job]\<rparr>))
       (thenE (inStore (recordAuditEvent sha \<lparr>ae_tenant = tenant, ae_event = ''zk.prover_job.queued'',
            ae_aggType = ''transaction'', ae_aggId = tx, ae_metadata = metadata\<rparr>))
       (thenE (inStore (enqueueOutbox sha now eventId tenant ''rwa.zk.prover_job.queued'' tx metadata None))
       (retE (publicJob job, True)))))))"

definition request_in ::
  "(string \<Rightarrow> string) \<Rightarrow> prover_services \<Rightarrow> int \<Rightarrow> string \<Rightarrow> string \<Rightarrow> string \<Rightarrow> string \<Rightarrow> string \<Rightarrow> string
    \<Rightarrow> string option option \<Rightarrow> (prover_db, public_job \<times> bool) eff" where
  \<comment> \<open>the body of the transaction of \<open>request\<close>\<close>
  "request_in sha svc now uuid eventId tx tenant witnessReference requestedBy actor = withE (\<lambda>s.
     case proof_context s tx tenant of
       [(intent, auth)] \<Rightarrow>
         thenE (ensureE (\<not> foreign_actor actor intent) ''ZK_TRANSACTION_NOT_AUTHORIZED'')
        (thenE (ensureE (ti_state intent = ''PROOF_PENDING'' \<and> za_status auth = ''PENDING'') ''INVALID_ZK_TRANSACTION_STATE'')
        (case filter (\<lambda>j. pj_tx j = tx \<and> pj_tenant j = tenant) (pd_jobs s) of
           [existing] \<Rightarrow> retE (publicJob existing, False)
         | _ \<Rightarrow> queue_job sha svc now uuid eventId intent auth witnessReference requestedBy))
     | _ \<Rightarrow> throwE (Coded ''ZK_TRANSACTION_NOT_AUTHORIZED''))"

definition prover_request ::
  "(string \<Rightarrow> string) \<Rightarrow> prover_services \<Rightarrow> string \<Rightarrow> int \<Rightarrow> (nat \<Rightarrow> unit outcome) \<Rightarrow> string \<Rightarrow> string
    \<Rightarrow> json \<Rightarrow> string \<Rightarrow> json \<Rightarrow> json \<Rightarrow> string option option \<Rightarrow> (prover_db, public_job \<times> bool) eff" where
  "prover_request sha svc home now commit uuid eventId transactionId tenant witnessReference requestedBy actor =
     bindE (liftE (bounded transactionId)) (\<lambda>tx.
     bindE (liftE (bounded requestedBy)) (\<lambda>who.
     thenE (ensureE (tenant = home) ''TENANT_SCOPE_MISMATCH'')
    (bindE (liftE (witness_reference witnessReference)) (\<lambda>witness.
     withSerializableTransaction 3 commit (request_in sha svc now uuid eventId tx tenant witness who actor)))))"

definition prover_get :: "json \<Rightarrow> string \<Rightarrow> string option option \<Rightarrow> (prover_db, public_job) eff" where
  "prover_get transactionId tenant actor =
     bindE (liftE (bounded transactionId)) (\<lambda>tx.
     withE (\<lambda>s.
     case [j. j \<leftarrow> pd_jobs s, pj_tx j = tx \<and> pj_tenant j = tenant,
              t \<leftarrow> db_intents (pd_store s), ti_id t = pj_tx j \<and> (case actor of None \<Rightarrow> True
                | Some who \<Rightarrow> ti_institution t = Some (if present who then the who else [CHR 0x00]))] of
       [job] \<Rightarrow> retE (publicJob job)
     | _ \<Rightarrow> throwE (Coded ''UNKNOWN_PROVER_JOB'')))"

section \<open>Claiming a job\<close>

definition lease_over :: "int \<Rightarrow> prover_job \<Rightarrow> bool" where
  "lease_over now j = (case pj_leaseExpiresAt j of None \<Rightarrow> False | Some t \<Rightarrow> t \<le> now)"

definition recover_job :: "int \<Rightarrow> prover_job \<Rightarrow> prover_job" where
  "recover_job now j =
     j\<lparr>pj_state := (if MAX_ATTEMPTS \<le> pj_attempts j + 1 then ''FAILED'' else ''RETRYABLE''),
       pj_attempts := pj_attempts j + 1, pj_owner := None, pj_leaseExpiresAt := None,
       pj_error := Some ''PROVER_LEASE_EXPIRED'', pj_nextAt := now, pj_updatedAt := now\<rparr>"

definition expired :: "string \<Rightarrow> int \<Rightarrow> prover_job \<Rightarrow> bool" where
  "expired tenant now j =
     (pj_tenant j = tenant \<and> pj_state j \<in> {''SUBMITTING'', ''VERIFYING''} \<and> lease_over now j)"

definition claimable :: "string \<Rightarrow> int \<Rightarrow> prover_job \<Rightarrow> bool" where
  "claimable tenant now j =
     (pj_tenant j = tenant \<and> pj_state j \<in> {''QUEUED'', ''REMOTE_PENDING'', ''RETRYABLE''} \<and> pj_nextAt j \<le> now
      \<and> (pj_leaseExpiresAt j = None \<or> lease_over now j))"

definition next_job :: "string \<Rightarrow> int \<Rightarrow> prover_job list \<Rightarrow> prover_job option" where
  \<comment> \<open>\<open>ORDER BY next_attempt_at,requested_at,id LIMIT 1\<close>\<close>
  "next_job tenant now jobs =
     (case sort_key pj_nextAt (sort_key pj_requestedAt (sort_key pj_id (filter (claimable tenant now) jobs))) of
        [] \<Rightarrow> None | j # _ \<Rightarrow> Some j)"

definition take_job :: "int \<Rightarrow> nat \<Rightarrow> string \<Rightarrow> prover_job \<Rightarrow> prover_job" where
  "take_job now leaseMs workerId j =
     j\<lparr>pj_state := (if present (pj_external j) then ''VERIFYING'' else ''SUBMITTING''),
       pj_owner := Some workerId, pj_polls := pj_polls j + (if pj_external j = None then 0 else 1),
       pj_leaseExpiresAt := Some (now + int leaseMs), pj_updatedAt := now\<rparr>"

definition claim_job ::
  "string \<Rightarrow> nat \<Rightarrow> int \<Rightarrow> unit outcome \<Rightarrow> string \<Rightarrow> (prover_db, prover_job option) eff" where
  \<comment> \<open>the transaction \<open>runOnce\<close> begins with\<close>
  "claim_job home leaseMs now commit workerId = withReadCommittedTransaction commit (withE (\<lambda>s.
     let jobs = update_where (expired home now) (recover_job now) (pd_jobs s) in
     thenE (modifyE (\<lambda>s. s\<lparr>pd_jobs := jobs\<rparr>))
    (case next_job home now jobs of
       None \<Rightarrow> retE None
     | Some row \<Rightarrow>
         thenE (modifyE (\<lambda>s. s\<lparr>pd_jobs := update_where (\<lambda>j. pj_id j = pj_id row) (take_job now leaseMs workerId) jobs\<rparr>))
        (retE (Some (take_job now leaseMs workerId row))))))"

section \<open>Working on a claimed job\<close>

definition write_job :: "string \<Rightarrow> string \<Rightarrow> string list \<Rightarrow> (prover_job \<Rightarrow> prover_job) \<Rightarrow> js_error \<Rightarrow> (prover_db, public_job) eff" where
  \<comment> \<open>\<open>UPDATE ... WHERE id=$1 AND lease_owner=$2 AND state ... RETURNING *\<close>; \<open>lost\<close> is thrown unless it hit one row.
      A unique violation of the remote job's id or of the receipt, and the trigger's errors, are left out\<close>
  "write_job jobId workerId states f lost = withE (\<lambda>s.
     let mine = (\<lambda>j. pj_id j = jobId \<and> pj_owner j = Some workerId \<and> pj_state j \<in> set states) in
     thenE (modifyE (\<lambda>s. s\<lparr>pd_jobs := update_where mine f (pd_jobs s)\<rparr>))
    (case filter mine (pd_jobs s) of [j] \<Rightarrow> retE (publicJob (f j)) | _ \<Rightarrow> throwE lost))"

definition unlease :: "int \<Rightarrow> prover_job \<Rightarrow> prover_job" where
  "unlease now j = j\<lparr>pj_owner := None, pj_leaseExpiresAt := None, pj_updatedAt := now\<rparr>"

definition lease_lost :: js_error where
  "lease_lost = Coded ''PROVER_JOB_LEASE_LOST''"

definition submit :: "prover_services \<Rightarrow> int \<Rightarrow> prover_job \<Rightarrow> string \<Rightarrow> (prover_db, public_job) eff" where
  "submit svc now job workerId =
     bindE (liftE (decrypt svc (pj_ciphertext job) (job_context (pj_tenant job) (pj_tx job) (pj_product job)))) (\<lambda>witness.
     bindE (liftE (submitJob svc \<lparr>pq_requestId = pj_id job, pq_tx = pj_tx job, pq_circuit = pj_circuit job,
         pq_version = pj_version job, pq_authHash = pj_authHash job, pq_witness = witness\<rparr>)) (\<lambda>remoteId.
     write_job (pj_id job) workerId [''SUBMITTING'']
       (\<lambda>j. (unlease now j)\<lparr>pj_state := ''REMOTE_PENDING'', pj_external := Some remoteId,
          pj_nextAt := now + 1000, pj_error := None\<rparr>) lease_lost))"

definition poll_delay :: "nat \<Rightarrow> int" where
  \<comment> \<open>seconds, by the number of polls\<close>
  "poll_delay polls = min 30 (2 * 2 ^ min (polls div 5) 4)"

definition accepted_receipt :: "prover_services \<Rightarrow> prover_job \<Rightarrow> remote_job \<Rightarrow> (prover_db, json) eff" where
  "accepted_receipt svc job remote =
     catchE (gate_accept svc (pj_tx job) (pj_tenant job) (rj_proof remote) (rj_signals remote))
       (\<lambda>e. if e \<noteq> Coded ''ZK_TRANSACTION_NOT_AUTHORIZED'' then throwE e
            else withE (\<lambda>s. case filter (\<lambda>r. zr_tx r = pj_tx job \<and> zr_tenant r = pj_tenant job) (pd_receipts s) of
              [r] \<Rightarrow> retE (JObj [(''receiptId'', JStr (zr_id r))])
            | _ \<Rightarrow> throwE e))"

definition receipt_id :: "json \<Rightarrow> string outcome" where
  \<comment> \<open>\<open>accepted.receiptId ?? accepted.proofReceiptId\<close>, a non-empty string\<close>
  "receipt_id accepted =
     (let named = jfield accepted ''receiptId'';
          v = (if named = JUndefined \<or> named = JNull then jfield accepted ''proofReceiptId'' else named)
      in case v of JStr s \<Rightarrow> ensureR (s \<noteq> []) ''INVALID_ZK_GATE_RECEIPT'' (Inr s)
         | _ \<Rightarrow> Inl (Coded ''INVALID_ZK_GATE_RECEIPT''))"

definition poll :: "prover_services \<Rightarrow> int \<Rightarrow> prover_job \<Rightarrow> string \<Rightarrow> (prover_db, public_job) eff" where
  "poll svc now job workerId =
     bindE (liftE (getJob svc (or_empty (pj_external job)))) (\<lambda>remote.
     if rj_state remote \<in> {''QUEUED'', ''RUNNING''} then
       write_job (pj_id job) workerId [''VERIFYING'']
         (\<lambda>j. (unlease now j)\<lparr>pj_state := ''REMOTE_PENDING'', pj_nextAt := now + 1000 * poll_delay (pj_polls j)\<rparr>) lease_lost
     else if rj_state remote \<in> {''FAILED'', ''CANCELLED''} then
       write_job (pj_id job) workerId [''VERIFYING'']
         (\<lambda>j. (unlease now j)\<lparr>pj_state := ''FAILED'', pj_error := Some (case rj_errorCode remote of
            None \<Rightarrow> ''PROVER_JOB_FAILED'' | Some c \<Rightarrow> c)\<rparr>) lease_lost
     else
       bindE (accepted_receipt svc job remote) (\<lambda>accepted.
       bindE (liftE (receipt_id accepted)) (\<lambda>receiptId.
       write_job (pj_id job) workerId [''VERIFYING'']
         (\<lambda>j. (unlease now j)\<lparr>pj_state := ''VERIFIED'', pj_receipt := Some receiptId, pj_error := None\<rparr>) lease_lost)))"

definition stored_code :: "js_error \<Rightarrow> string" where
  \<comment> \<open>the code of the error when it matches \<open>/^[A-Z][A-Z0-9_]{0,79}$/\<close>\<close>
  "stored_code e = (case e of
     Coded c \<Rightarrow> if c \<noteq> [] \<and> is_upper (hd c) \<and> length (tl c) \<le> 79
         \<and> list_all (\<lambda>x. is_upper x \<or> is_digit x \<or> x = CHR ''_'') (tl c) then c else ''PROVER_SERVICE_FAILURE''
   | Native _ \<Rightarrow> ''PROVER_SERVICE_FAILURE'')"

definition retry_delay :: "nat \<Rightarrow> int" where
  "retry_delay failedAttempts = min 60 (2 ^ min failedAttempts 6)"

definition retry :: "int \<Rightarrow> prover_job \<Rightarrow> string \<Rightarrow> js_error \<Rightarrow> (prover_db, public_job) eff" where
  "retry now job workerId e =
     (let failedAttempts = pj_attempts job + 1 in
      write_job (pj_id job) workerId [''SUBMITTING'', ''VERIFYING'']
        (\<lambda>j. (unlease now j)\<lparr>pj_state := (if MAX_ATTEMPTS \<le> failedAttempts then ''FAILED'' else ''RETRYABLE''),
           pj_attempts := pj_attempts j + 1, pj_error := Some (stored_code e),
           pj_nextAt := now + 1000 * retry_delay failedAttempts\<rparr>) e)"

definition work_job :: "prover_services \<Rightarrow> int \<Rightarrow> prover_job \<Rightarrow> string \<Rightarrow> (prover_db, public_job) eff" where
  \<comment> \<open>the rest of \<open>runOnce\<close>, on the job its transaction claimed\<close>
  "work_job svc now job workerId =
     catchE (if \<not> present (pj_external job) then submit svc now job workerId else poll svc now job workerId)
       (retry now job workerId)"

definition prover_runOnce ::
  "prover_services \<Rightarrow> string \<Rightarrow> nat \<Rightarrow> int \<Rightarrow> unit outcome \<Rightarrow> int \<Rightarrow> json \<Rightarrow> (prover_db, public_job option) eff" where
  "prover_runOnce svc home leaseMs now commit later worker =
     bindE (liftE (bounded worker)) (\<lambda>workerId.
     bindE (claim_job home leaseMs now commit workerId) (\<lambda>claimed.
     case claimed of None \<Rightarrow> retE None
     | Some job \<Rightarrow> bindE (work_job svc later job workerId) (\<lambda>done_job. retE (Some done_job))))"

section \<open>The worker\<close>

record prover_metrics =
  pm_inFlight :: bool
  pm_cycles :: nat
  pm_processed :: nat
  pm_verified :: nat
  pm_retryable :: nat
  pm_failed :: nat
  pm_cycleErrors :: nat
  pm_lastCycleAt :: "int option"
  pm_lastSuccessAt :: "int option"
  pm_lastError :: "js_error option"

definition ProverWorker :: "string \<Rightarrow> json \<Rightarrow> prover_metrics outcome" where
  \<comment> \<open>the constructor: the checks on the worker id and the poll interval\<close>
  "ProverWorker workerId pollIntervalMs =
     nativeR (workerId \<noteq> []) ''TypeError''
    (nativeR (integer_between 100 60000 pollIntervalMs) ''TypeError''
    (Inr \<lparr>pm_inFlight = False, pm_cycles = 0, pm_processed = 0, pm_verified = 0, pm_retryable = 0, pm_failed = 0,
       pm_cycleErrors = 0, pm_lastCycleAt = None, pm_lastSuccessAt = None, pm_lastError = None\<rparr>))"

definition count_job :: "public_job option \<Rightarrow> prover_metrics \<Rightarrow> prover_metrics" where
  "count_job result m = (case result of None \<Rightarrow> m
   | Some job \<Rightarrow> m\<lparr>pm_processed := pm_processed m + 1,
       pm_verified := pm_verified m + (if pb_state job = ''VERIFIED'' then 1 else 0),
       pm_retryable := pm_retryable m + (if pb_state job = ''RETRYABLE'' then 1 else 0),
       pm_failed := pm_failed m + (if pb_state job \<in> {''FAILED'', ''CANCELLED''} then 1 else 0)\<rparr>)"

definition ProverWorker_runOnce ::
  "('s, public_job option) eff \<Rightarrow> int \<Rightarrow> int \<Rightarrow> prover_metrics \<Rightarrow> 's \<Rightarrow> public_job option \<times> prover_metrics \<times> 's" where
  "ProverWorker_runOnce runJob now later m s =
     (if pm_inFlight m then (None, m, s)
      else
        let begun = m\<lparr>pm_inFlight := True, pm_lastCycleAt := Some now\<rparr> in
        case runJob s of
          (Inr result, t) \<Rightarrow>
            (result, (count_job result (begun\<lparr>pm_cycles := pm_cycles m + 1\<rparr>))
               \<lparr>pm_lastSuccessAt := Some later, pm_lastError := None, pm_inFlight := False\<rparr>, t)
        | (Inl e, t) \<Rightarrow>
            (None, begun\<lparr>pm_cycles := pm_cycles m + 1, pm_cycleErrors := pm_cycleErrors m + 1,
               pm_lastError := Some e, pm_inFlight := False\<rparr>, t))"

section \<open>The monitor\<close>

record prover_monitor =
  mo_tenant :: string
  mo_warningBacklog :: nat
  mo_criticalBacklog :: nat
  mo_warningAge :: nat
  mo_criticalAge :: nat
  mo_failedLookback :: nat

definition ProverOperationalMonitor :: "prover_monitor \<Rightarrow> prover_monitor outcome" where
  "ProverOperationalMonitor m =
     nativeR (mo_tenant m \<noteq> []) ''TypeError''
    (nativeR (mo_warningBacklog m \<le> mo_criticalBacklog m \<and> mo_warningAge m \<le> mo_criticalAge m) ''TypeError'' (Inr m))"

record prover_sample =
  pp_backlog :: nat
  pp_active :: nat
  pp_retryable :: nat
  pp_recentFailed :: nat
  pp_expiredLeases :: nat
  pp_oldestAge :: int

definition waiting :: "prover_job \<Rightarrow> bool" where
  "waiting j = (pj_state j \<in> {''QUEUED'', ''REMOTE_PENDING'', ''RETRYABLE''})"

definition oldest_age :: "int \<Rightarrow> prover_job list \<Rightarrow> int" where
  "oldest_age now jobs = (case map pj_requestedAt (filter waiting jobs) of [] \<Rightarrow> 0 | t # ts \<Rightarrow> now - fold min ts t)"

definition prover_sample_of :: "prover_monitor \<Rightarrow> int \<Rightarrow> prover_db \<Rightarrow> prover_sample" where
  "prover_sample_of m now s =
     (let jobs = filter (\<lambda>j. pj_tenant j = mo_tenant m) (pd_jobs s) in
      \<lparr>pp_backlog = length (filter waiting jobs),
       pp_active = length (filter (\<lambda>j. pj_state j \<in> {''SUBMITTING'', ''VERIFYING''}) jobs),
       pp_retryable = length (filter (\<lambda>j. pj_state j = ''RETRYABLE'') jobs),
       pp_recentFailed = length (filter (\<lambda>j. pj_state j = ''FAILED'' \<and> now - int (mo_failedLookback m) \<le> pj_updatedAt j) jobs),
       pp_expiredLeases = length (filter (\<lambda>j. case pj_leaseExpiresAt j of None \<Rightarrow> False | Some t \<Rightarrow> t < now) jobs),
       pp_oldestAge = oldest_age now jobs\<rparr>)"

definition prover_alerts :: "prover_monitor \<Rightarrow> prover_sample \<Rightarrow> (string \<times> string \<times> int) list" where
  "prover_alerts m p =
     (if mo_criticalBacklog m \<le> pp_backlog p then [(''CRITICAL'', ''PROVER_BACKLOG_HIGH'', int (pp_backlog p))]
      else if mo_warningBacklog m \<le> pp_backlog p then [(''WARNING'', ''PROVER_BACKLOG_ELEVATED'', int (pp_backlog p))] else [])
     @ (if int (mo_criticalAge m) \<le> pp_oldestAge p then [(''CRITICAL'', ''PROVER_JOB_STALE'', pp_oldestAge p)]
        else if int (mo_warningAge m) \<le> pp_oldestAge p then [(''WARNING'', ''PROVER_JOB_DELAYED'', pp_oldestAge p)] else [])
     @ (if 0 < pp_expiredLeases p then [(''WARNING'', ''PROVER_EXPIRED_LEASES'', int (pp_expiredLeases p))] else [])
     @ (if 0 < pp_recentFailed p then [(''CRITICAL'', ''PROVER_RECENT_FAILURES'', int (pp_recentFailed p))] else [])"

definition prover_snapshot :: "prover_monitor \<Rightarrow> int \<Rightarrow> prover_db \<Rightarrow> prover_sample \<times> (string \<times> string \<times> int) list" where
  "prover_snapshot m now s = (let p = prover_sample_of m now s in (p, prover_alerts m p))"

definition gauge :: "string \<Rightarrow> int \<Rightarrow> string" where
  "gauge name v = name @ '' '' @ int_text v"

definition proverPrometheusMetrics :: "bool \<Rightarrow> bool \<Rightarrow> prover_metrics \<Rightarrow> prover_sample \<Rightarrow> string" where
  "proverPrometheusMetrics running ready m p =
     join [CHR 0x0A]
      [''# TYPE rwa_prover_worker_running gauge'', gauge ''rwa_prover_worker_running'' (if running then 1 else 0),
       ''# TYPE rwa_prover_worker_ready gauge'', gauge ''rwa_prover_worker_ready'' (if ready then 1 else 0),
       gauge ''rwa_prover_worker_cycles_total'' (int (pm_cycles m)),
       gauge ''rwa_prover_worker_processed_total'' (int (pm_processed m)),
       gauge ''rwa_prover_worker_verified_total'' (int (pm_verified m)),
       gauge ''rwa_prover_worker_retryable_total'' (int (pm_retryable m)),
       gauge ''rwa_prover_worker_failed_total'' (int (pm_failed m)),
       gauge ''rwa_prover_worker_cycle_errors_total'' (int (pm_cycleErrors m)),
       gauge ''rwa_prover_backlog'' (int (pp_backlog p)), gauge ''rwa_prover_active'' (int (pp_active p)),
       gauge ''rwa_prover_expired_leases'' (int (pp_expiredLeases p)),
       gauge ''rwa_prover_recent_failures'' (int (pp_recentFailed p)),
       gauge ''rwa_prover_oldest_job_age_milliseconds'' (pp_oldestAge p)] @ [CHR 0x0A]"

end
