(* ===== verification/ProverProperties.thy ===== *)
theory ProverProperties
  imports ProverJobs
begin

text \<open>The properties of the prover jobs, with a run they are applied to.\<close>

text \<open>
  What holds of the stored prover jobs whatever the order in which workers claim, work, crash and
  come back: the constraints of the table, the bound on attempts, and that failing attempts end.
\<close>

section \<open>Well-formed rows\<close>

definition JOB_STATES :: "string list" where
  "JOB_STATES = [''QUEUED'', ''SUBMITTING'', ''REMOTE_PENDING'', ''VERIFYING'', ''RETRYABLE'', ''VERIFIED'',
     ''FAILED'', ''CANCELLED'']"

definition job_ok :: "prover_job \<Rightarrow> bool" where
  "job_ok j =
     (pj_state j \<in> set JOB_STATES \<and> pj_attempts j \<le> MAX_ATTEMPTS
      \<and> (pj_attempts j = MAX_ATTEMPTS \<longrightarrow> pj_state j = ''FAILED'')
      \<and> (pj_owner j = None \<longleftrightarrow> pj_leaseExpiresAt j = None)
      \<and> (pj_owner j \<noteq> None \<longleftrightarrow> pj_state j \<in> {''SUBMITTING'', ''VERIFYING''})
      \<and> (pj_state j = ''VERIFIED'' \<longleftrightarrow> pj_receipt j \<noteq> None))"

type_synonym flights = "(string \<times> prover_job) list"   \<comment> \<open>the job every worker in a cycle has claimed\<close>

definition jobs_ok :: "flights \<Rightarrow> prover_job list \<Rightarrow> bool" where
  "jobs_ok flight jobs =
     (list_all job_ok jobs \<and> distinct (map pj_id jobs)
      \<and> (\<forall>(w, job) \<in> set flight. \<forall>j \<in> set jobs. pj_id j = pj_id job \<and> pj_owner j = Some w
           \<longrightarrow> pj_attempts j = pj_attempts job))"

lemma jobs_okD:
  assumes "jobs_ok flight jobs"
  shows "list_all job_ok jobs" and "distinct (map pj_id jobs)"
    and "(w, job) \<in> set flight \<Longrightarrow> j \<in> set jobs \<Longrightarrow> pj_id j = pj_id job \<Longrightarrow> pj_owner j = Some w
      \<Longrightarrow> pj_attempts j = pj_attempts job"
  using assms by (auto simp: jobs_ok_def)

lemma ids_of_update: "(\<And>j. pj_id (f j) = pj_id j) \<Longrightarrow> map pj_id (update_where p f jobs) = map pj_id jobs"
  by (simp add: update_where_def)

lemma jobs_ok_update:
  assumes ok: "jobs_ok flight jobs" and ids: "\<And>j. pj_id (f j) = pj_id j"
    and rows: "\<And>j. j \<in> set jobs \<Longrightarrow> p j \<Longrightarrow> job_ok j \<Longrightarrow> job_ok (f j) \<and> pj_owner (f j) = None"
  shows "jobs_ok flight (update_where p f jobs)"
  using ok rows unfolding jobs_ok_def ids_of_update [of f, OF ids]
  by (fastforce simp: update_where_def list_all_iff ids)

section \<open>Every operation keeps them\<close>

lemma write_job_keeps:
  assumes ids: "\<And>j. pj_id (f j) = pj_id j"
    and rows: "\<And>jobs j. jobs_ok flight jobs \<Longrightarrow> j \<in> set jobs \<Longrightarrow> pj_id j = jobId \<Longrightarrow> pj_owner j = Some w
      \<Longrightarrow> pj_state j \<in> set states \<Longrightarrow> job_ok (f j) \<and> pj_owner (f j) = None"
  shows "keeps (\<lambda>s. jobs_ok flight (pd_jobs s)) (write_job jobId w states f lost)"
  unfolding write_job_def Let_def
proof (rule keeps_withE, rule keeps_thenE)
  fix s :: prover_db
  show "keeps (\<lambda>s. jobs_ok flight (pd_jobs s)) (modifyE (\<lambda>s. s\<lparr>pd_jobs :=
      update_where (\<lambda>j. pj_id j = jobId \<and> pj_owner j = Some w \<and> pj_state j \<in> set states) f (pd_jobs s)\<rparr>))"
    by (rule keeps_modifyE) (auto intro!: jobs_ok_update ids dest: rows)
  show "keeps (\<lambda>s. jobs_ok flight (pd_jobs s))
      (case filter (\<lambda>j. pj_id j = jobId \<and> pj_owner j = Some w \<and> pj_state j \<in> set states) (pd_jobs s) of
         [] \<Rightarrow> throwE lost | [j] \<Rightarrow> retE (publicJob (f j)) | j # a # b \<Rightarrow> throwE lost)"
    by (auto split: list.split intro: keeps_intros)
qed

lemma job_ok_free:
  "job_ok j \<Longrightarrow> pj_owner j = Some w \<Longrightarrow> pj_attempts j < MAX_ATTEMPTS \<and> pj_receipt j = None"
  by (auto simp: job_ok_def)

definition gate_keeps_jobs :: "prover_services \<Rightarrow> bool" where
  \<comment> \<open>the settlement gate does not write the table of jobs\<close>
  "gate_keeps_jobs svc = (\<forall>tx tenant p sig. preserves pd_jobs (gate_accept svc tx tenant p sig))"

lemma finished_ok:
  assumes "jobs_ok flight jobs" and "j \<in> set jobs" and "pj_owner j = Some w"
    and "st \<in> {''REMOTE_PENDING'', ''FAILED''}"
  shows "job_ok ((unlease now j)\<lparr>pj_state := st\<rparr>)"
proof -
  have "job_ok j" using jobs_okD(1) [OF assms(1)] assms(2) by (auto simp: list_all_iff)
  with job_ok_free [OF this assms(3)] assms(4) show ?thesis
    by (auto simp: job_ok_def unlease_def JOB_STATES_def)
qed

lemma submit_keeps: "keeps (\<lambda>s. jobs_ok flight (pd_jobs s)) (submit svc now job w)"
  unfolding submit_def
  by (intro keeps_intros write_job_keeps)
    (auto dest: finished_ok [where now = now and st = "''REMOTE_PENDING''"] simp: unlease_def job_ok_def)

lemma poll_keeps:
  assumes "gate_keeps_jobs svc"
  shows "keeps (\<lambda>s. jobs_ok flight (pd_jobs s)) (poll svc now job w)"
proof -
  have gate: "keeps (\<lambda>s. jobs_ok flight (pd_jobs s)) (accepted_receipt svc job remote)" for remote
    unfolding accepted_receipt_def
  proof (intro keeps_intros keeps_withE)
    show "keeps (\<lambda>s. jobs_ok flight (pd_jobs s)) (gate_accept svc (pj_tx job) (pj_tenant job) (rj_proof remote) (rj_signals remote))"
      using assms by (intro preserves_keeps) (simp add: gate_keeps_jobs_def)
  qed (auto split: list.split intro: keeps_intros)
  have verified: "job_ok ((unlease now j)\<lparr>pj_state := ''VERIFIED'', pj_receipt := Some r, pj_error := None\<rparr>)"
    if "jobs_ok flight jobs" "j \<in> set jobs" "pj_owner j = Some w" for jobs j r
  proof -
    have "job_ok j" using jobs_okD(1) [OF that(1)] that(2) by (auto simp: list_all_iff)
    with job_ok_free [OF this that(3)] show ?thesis by (auto simp: job_ok_def unlease_def JOB_STATES_def)
  qed
  show ?thesis unfolding poll_def
    by (intro keeps_intros gate write_job_keeps)
      (auto dest: finished_ok [where now = now and st = "''REMOTE_PENDING''"]
         finished_ok [where now = now and st = "''FAILED''"] verified simp: unlease_def job_ok_def)
qed

lemma retry_keeps:
  assumes mine: "(w, job) \<in> set flight"
  shows "keeps (\<lambda>s. jobs_ok flight (pd_jobs s)) (retry now job w e)"
proof -
  have "job_ok ((unlease now j)\<lparr>pj_state := (if MAX_ATTEMPTS \<le> pj_attempts job + 1 then ''FAILED'' else ''RETRYABLE''),
      pj_attempts := pj_attempts j + 1, pj_error := er, pj_nextAt := t\<rparr>)"
    if "jobs_ok flight jobs" "j \<in> set jobs" "pj_id j = pj_id job" "pj_owner j = Some w" for jobs j er t
  proof -
    have "job_ok j" using jobs_okD(1) [OF that(1)] that(2) by (auto simp: list_all_iff)
    moreover have "pj_attempts j = pj_attempts job" using jobs_okD(3) [OF that(1) mine that(2-4)] .
    ultimately show ?thesis using job_ok_free [of j w] that(4)
      by (auto simp: job_ok_def unlease_def JOB_STATES_def)
  qed
  then show ?thesis unfolding retry_def Let_def
    by (intro write_job_keeps) (simp_all add: unlease_def)
qed

lemma work_job_keeps:
  "gate_keeps_jobs svc \<Longrightarrow> (w, job) \<in> set flight \<Longrightarrow> keeps (\<lambda>s. jobs_ok flight (pd_jobs s)) (work_job svc now job w)"
  unfolding work_job_def by (intro keeps_intros submit_keeps poll_keeps retry_keeps)

text \<open>The claim: leases that ran out are counted as attempts, then one job goes to the worker.\<close>

lemma recovered_ok:
  assumes "job_ok j" and "expired home now j"
  shows "job_ok (recover_job now j) \<and> pj_owner (recover_job now j) = None"
proof -
  have "pj_owner j \<noteq> None" using assms by (auto simp: job_ok_def expired_def)
  then obtain w where "pj_owner j = Some w" by blast
  from job_ok_free [OF assms(1) this] assms show ?thesis
    by (auto simp: job_ok_def recover_job_def JOB_STATES_def expired_def)
qed

lemma recovery_keeps:
  "jobs_ok flight jobs \<Longrightarrow> jobs_ok flight (update_where (expired home now) (recover_job now) jobs)"
  by (rule jobs_ok_update) (auto simp: recover_job_def dest: recovered_ok)

lemma next_job_claimable: "next_job home now jobs = Some row \<Longrightarrow> row \<in> set jobs \<and> claimable home now row"
proof -
  assume "next_job home now jobs = Some row"
  then obtain rest where
    "sort_key pj_nextAt (sort_key pj_requestedAt (sort_key pj_id (filter (claimable home now) jobs))) = row # rest"
    by (simp add: next_job_def split: list.splits)
  then have "row \<in> set (sort_key pj_nextAt (sort_key pj_requestedAt (sort_key pj_id (filter (claimable home now) jobs))))"
    by (metis list.set_intros(1))
  then show ?thesis by simp
qed

lemma taken_ok:
  assumes "job_ok j" and "claimable home now j"
  shows "job_ok (take_job now leaseMs w j)"
proof -
  have "pj_state j \<noteq> ''FAILED''" and "pj_receipt j = None" using assms by (auto simp: job_ok_def claimable_def)
  moreover have "pj_attempts j \<le> MAX_ATTEMPTS" and "pj_attempts j \<noteq> MAX_ATTEMPTS"
    using assms(1) calculation(1) by (auto simp: job_ok_def)
  ultimately show ?thesis by (simp add: job_ok_def take_job_def JOB_STATES_def)
qed

lemma unique_row:
  "distinct (map pj_id jobs) \<Longrightarrow> a \<in> set jobs \<Longrightarrow> b \<in> set jobs \<Longrightarrow> pj_id a = pj_id b \<Longrightarrow> a = b"
  using inj_onD [of pj_id "set jobs" a b] by (simp add: distinct_map)

lemma take_keeps:
  assumes ok: "jobs_ok flight jobs" and row: "row \<in> set jobs" "claimable home now row"
    and free: "w \<notin> fst ` set flight"
  shows "jobs_ok ((w, take_job now leaseMs w row) # flight)
    (update_where (\<lambda>j. pj_id j = pj_id row) (take_job now leaseMs w) jobs)" (is "jobs_ok ?fl ?jobs")
proof -
  have ids: "pj_id (take_job now leaseMs w j) = pj_id j" for j by (simp add: take_job_def)
  have d: "distinct (map pj_id jobs)" by (rule jobs_okD(2) [OF ok])
  have elem: "j' \<in> set ?jobs \<Longrightarrow> j' = take_job now leaseMs w row \<or> j' \<in> set jobs \<and> pj_id j' \<noteq> pj_id row" for j'
    using unique_row [OF d _ row(1)] by (auto simp: update_where_def)
  have rowok: "job_ok row" using jobs_okD(1) [OF ok] row(1) by (auto simp: list_all_iff)
  have "list_all job_ok ?jobs" unfolding list_all_iff
  proof
    fix j' assume "j' \<in> set ?jobs"
    with elem jobs_okD(1) [OF ok] taken_ok [OF rowok row(2)] show "job_ok j'" by (auto simp: list_all_iff)
  qed
  moreover have "distinct (map pj_id ?jobs)" using d by (simp add: ids_of_update ids)
  moreover have "\<forall>(v, job) \<in> set ?fl. \<forall>j \<in> set ?jobs. pj_id j = pj_id job \<and> pj_owner j = Some v
      \<longrightarrow> pj_attempts j = pj_attempts job"
  proof (intro ballI, unfold case_prod_beta, intro ballI impI, elim conjE)
    fix p j'
    assume f: "p \<in> set ?fl" and j': "j' \<in> set ?jobs" "pj_id j' = pj_id (snd p)" "pj_owner j' = Some (fst p)"
    have owner: "pj_owner (take_job now leaseMs w row) = Some w" by (simp add: take_job_def)
    show "pj_attempts j' = pj_attempts (snd p)"
    proof (cases "p = (w, take_job now leaseMs w row)")
      case True
      with elem [OF j'(1)] j'(2) show ?thesis by (auto simp: ids)
    next
      case False
      then have old: "(fst p, snd p) \<in> set flight" using f by auto
      then have "fst p \<noteq> w" using free by force
      then have "j' \<noteq> take_job now leaseMs w row" using owner j'(3) by auto
      with elem [OF j'(1)] jobs_okD(3) [OF ok old] j' show ?thesis by blast
    qed
  qed
  ultimately show ?thesis by (simp add: jobs_ok_def)
qed

lemma claim_job_result:
  assumes "claim_job home leaseMs now commit w s = (r, t)"
  shows "(\<exists>e. r = Inl e \<and> t = s)
    \<or> (\<exists>jobs. jobs = update_where (expired home now) (recover_job now) (pd_jobs s)
        \<and> (r = Inr None \<and> next_job home now jobs = None \<and> t = s\<lparr>pd_jobs := jobs\<rparr>
           \<or> (\<exists>row. next_job home now jobs = Some row \<and> r = Inr (Some (take_job now leaseMs w row))
                \<and> t = s\<lparr>pd_jobs := update_where (\<lambda>j. pj_id j = pj_id row) (take_job now leaseMs w) jobs\<rparr>)))"
proof -
  from attempt_once_result [OF assms [unfolded claim_job_def withReadCommittedTransaction_def]]
  show ?thesis
    by (auto simp: eff_simps Let_def split: option.splits)
qed

lemma claim_keeps:
  assumes "claim_job home leaseMs now commit w s = (r, t)" and ok: "jobs_ok flight (pd_jobs s)"
    and free: "w \<notin> fst ` set flight"
  shows "jobs_ok (case r of Inr (Some job) \<Rightarrow> (w, job) # flight | _ \<Rightarrow> flight) (pd_jobs t)"
  using claim_job_result [OF assms(1)]
proof (elim disjE exE conjE)
  fix e assume "r = Inl e" "t = s"
  then show ?thesis using ok by simp
next
  fix jobs assume "jobs = update_where (expired home now) (recover_job now) (pd_jobs s)"
    and "r = Inr None" and "t = s\<lparr>pd_jobs := jobs\<rparr>"
  then show ?thesis using recovery_keeps [OF ok] by simp
next
  fix jobs row assume jobs: "jobs = update_where (expired home now) (recover_job now) (pd_jobs s)"
    and nxt: "next_job home now jobs = Some row" and r: "r = Inr (Some (take_job now leaseMs w row))"
    and t: "t = s\<lparr>pd_jobs := update_where (\<lambda>j. pj_id j = pj_id row) (take_job now leaseMs w) jobs\<rparr>"
  have "jobs_ok flight jobs" unfolding jobs by (rule recovery_keeps [OF ok])
  from take_keeps [OF this conjunct1 [OF next_job_claimable [OF nxt]] conjunct2 [OF next_job_claimable [OF nxt]] free]
  show ?thesis by (simp add: r t)
qed

section \<open>The system\<close>

inductive prover_step :: "(string \<Rightarrow> string) \<Rightarrow> prover_services \<Rightarrow> string \<Rightarrow> nat
    \<Rightarrow> prover_db \<times> flights \<Rightarrow> prover_db \<times> flights \<Rightarrow> bool"
  for sha :: "string \<Rightarrow> string" and svc :: prover_services and home :: string and leaseMs :: nat where
  requested: "prover_request sha svc home now commit uuid eventId txv tenant wv byv actor s = (r, t)
     \<Longrightarrow> prover_step sha svc home leaseMs (s, fl) (t, fl)"
| claimed: "w \<notin> fst ` set fl \<Longrightarrow> claim_job home leaseMs now commit w s = (r, t)
     \<Longrightarrow> prover_step sha svc home leaseMs (s, fl) (t, case r of Inr (Some job) \<Rightarrow> (w, job) # fl | _ \<Rightarrow> fl)"
| worked: "(w, job) \<in> set fl \<Longrightarrow> work_job svc now job w s = (r, t)
     \<Longrightarrow> prover_step sha svc home leaseMs (s, fl) (t, filter (\<lambda>(v, _). v \<noteq> w) fl)"
| crashed: "prover_step sha svc home leaseMs (s, fl) (s, filter (\<lambda>(v, _). v \<noteq> w) fl)"
| elsewhere: "pd_jobs t = pd_jobs s \<Longrightarrow> prover_step sha svc home leaseMs (s, fl) (t, fl)"

lemma keeps_inStore [keeps_intros]: "keeps (\<lambda>s. P (pd_jobs s)) (inStore m)"
  by (rule keepsI) (auto simp: inStore_def split: prod.splits)


lemma then_modify: "thenE (modifyE f) n s = n (f s)"
  by (simp add: thenE_def bindE_def modifyE_def)


definition no_jobs :: "prover_db \<Rightarrow> bool" where
  "no_jobs s = (pd_jobs s = [])"

lemma jobs_ok_fewer: "jobs_ok fl jobs \<Longrightarrow> set fl' \<subseteq> set fl \<Longrightarrow> jobs_ok fl' jobs"
  unfolding jobs_ok_def by blast


section \<open>Failing attempts end\<close>

definition terminal :: "prover_job \<Rightarrow> bool" where
  "terminal j = (pj_state j \<in> {''VERIFIED'', ''FAILED'', ''CANCELLED''})"

definition attempts_left :: "prover_job \<Rightarrow> nat" where
  "attempts_left j = (if terminal j then 0 else MAX_ATTEMPTS - pj_attempts j)"

definition total_left :: "prover_job list \<Rightarrow> nat" where
  "total_left jobs = sum_list (map attempts_left jobs)"

lemma total_left_update:
  assumes "\<And>j. j \<in> set jobs \<Longrightarrow> p j \<Longrightarrow> attempts_left (f j) \<le> attempts_left j"
  shows "total_left (update_where p f jobs) \<le> total_left jobs"
  using assms by (induction jobs) (auto simp: total_left_def update_where_def add_mono le_SucI)

lemma total_left_less:
  assumes "\<And>j. j \<in> set jobs \<Longrightarrow> p j \<Longrightarrow> attempts_left (f j) < attempts_left j" and "j0 \<in> set jobs" and "p j0"
  shows "total_left (update_where p f jobs) < total_left jobs"
  using assms
proof (induction jobs)
  case Nil
  then show ?case by simp
next
  case (Cons j jobs)
  have le: "total_left (update_where p f jobs) \<le> total_left jobs"
    by (rule total_left_update) (use Cons.prems(1) in \<open>auto intro: less_imp_le\<close>)
  show ?case
  proof (cases "p j")
    case True
    with Cons.prems(1) [of j] le show ?thesis by (simp add: total_left_def update_where_def)
  next
    case False
    with Cons.prems have "total_left (update_where p f jobs) < total_left jobs" by (intro Cons.IH) auto
    with False show ?thesis by (simp add: total_left_def update_where_def)
  qed
qed

lemma attempts_left_bound: "attempts_left j \<le> MAX_ATTEMPTS"
  by (simp add: attempts_left_def)

lemma total_left_bound: "total_left jobs \<le> MAX_ATTEMPTS * length jobs"
  by (induction jobs) (simp_all add: total_left_def add_mono attempts_left_bound)

definition failing :: "prover_services \<Rightarrow> bool" where
  \<comment> \<open>the prover service answers every call with an error\<close>
  "failing svc = ((\<forall>q. \<exists>e. submitJob svc q = Inl e) \<and> (\<forall>i. \<exists>e. getJob svc i = Inl e))"

lemma attempt_fails:
  assumes "failing svc"
  shows "\<exists>e. (if \<not> present (pj_external job) then submit svc now job w else poll svc now job w) s = (Inl e, s)"
proof -
  have "\<exists>e. submit svc now job w s = (Inl e, s)"
  proof (cases "decrypt svc (pj_ciphertext job) (job_context (pj_tenant job) (pj_tx job) (pj_product job))")
    case (Inl e)
    then show ?thesis by (simp add: submit_def bindE_def liftE_def)
  next
    case (Inr x)
    obtain e where "submitJob svc \<lparr>pq_requestId = pj_id job, pq_tx = pj_tx job, pq_circuit = pj_circuit job,
         pq_version = pj_version job, pq_authHash = pj_authHash job, pq_witness = x\<rparr> = Inl e"
      using assms by (auto simp: failing_def)
    with Inr show ?thesis by (simp add: submit_def bindE_def liftE_def)
  qed
  moreover have "\<exists>e. poll svc now job w s = (Inl e, s)"
  proof -
    obtain e where "getJob svc (or_empty (pj_external job)) = Inl e" using assms by (auto simp: failing_def)
    then show ?thesis by (simp add: poll_def bindE_def liftE_def)
  qed
  ultimately show ?thesis by simp
qed

lemma retry_uses_one:
  assumes ok: "jobs_ok [(w, job)] (pd_jobs s)" and mine: "job \<in> set (pd_jobs s)" "pj_owner job = Some w"
    and run: "retry now job w e s = (r, t)"
  shows "total_left (pd_jobs t) < total_left (pd_jobs s)"
proof -
  let ?mine = "\<lambda>j. pj_id j = pj_id job \<and> pj_owner j = Some w \<and> pj_state j \<in> set [''SUBMITTING'', ''VERIFYING'']"
  let ?f = "\<lambda>j. (unlease now j)\<lparr>pj_state := (if MAX_ATTEMPTS \<le> pj_attempts job + 1 then ''FAILED'' else ''RETRYABLE''),
      pj_attempts := pj_attempts j + 1, pj_error := Some (stored_code e),
      pj_nextAt := now + 1000 * retry_delay (pj_attempts job + 1)\<rparr>"
  have t: "pd_jobs t = update_where ?mine ?f (pd_jobs s)"
    using run unfolding retry_def write_job_def Let_def withE_run then_modify
    by (auto simp: retE_def throwE_def split: list.splits)
  have jok: "job_ok job" using jobs_okD(1) [OF ok] mine by (auto simp: list_all_iff)
  show ?thesis unfolding t
  proof (rule total_left_less [OF _ mine(1)])
    show "?mine job" using jok mine(2) by (auto simp: job_ok_def)
    fix j assume j: "j \<in> set (pd_jobs s)" "?mine j"
    then have "job_ok j" using jobs_okD(1) [OF ok] by (auto simp: list_all_iff)
    with j(2) have "pj_attempts j < MAX_ATTEMPTS" using job_ok_free by blast
    moreover have "\<not> terminal j" using j(2) by (auto simp: terminal_def)
    ultimately show "attempts_left (?f j) < attempts_left j"
      unfolding attempts_left_def by auto
  qed
qed

lemma recovery_left:
  assumes "jobs_ok fl jobs"
  shows "total_left (update_where (expired home now) (recover_job now) jobs) \<le> total_left jobs"
proof (rule total_left_update)
  fix j assume "expired home now j"
  then have "\<not> terminal j" by (auto simp: expired_def terminal_def)
  then show "attempts_left (recover_job now j) \<le> attempts_left j"
    unfolding attempts_left_def recover_job_def by auto
qed

definition processed :: "public_job option outcome \<Rightarrow> bool" where
  "processed r = (case r of Inr (Some _) \<Rightarrow> True | _ \<Rightarrow> False)"

fun cycles :: "prover_services \<Rightarrow> string \<Rightarrow> nat \<Rightarrow> json \<Rightarrow> (int \<times> unit outcome \<times> int) list \<Rightarrow> prover_db
    \<Rightarrow> public_job option outcome list \<times> prover_db" where
  \<comment> \<open>a worker that runs a cycle at every one of the given times\<close>
  "cycles svc home leaseMs worker [] s = ([], s)"
| "cycles svc home leaseMs worker ((now, commit, later) # rest) s =
     (let (r, t) = prover_runOnce svc home leaseMs now commit later worker s;
          (rs, u) = cycles svc home leaseMs worker rest t
      in (r # rs, u))"

lemma cycle_uses_one:
  assumes bad: "failing svc" and gate: "gate_keeps_jobs svc" and ok: "jobs_ok [] (pd_jobs s)"
    and run: "prover_runOnce svc home leaseMs now commit later worker s = (r, t)"
  shows "jobs_ok [] (pd_jobs t) \<and> (if processed r then 1 else 0) + total_left (pd_jobs t) \<le> total_left (pd_jobs s)"
proof (cases "bounded worker")
  case (Inl e)
  with run ok show ?thesis by (auto simp: prover_runOnce_def bindE_def liftE_def processed_def)
next
  case (Inr w)
  obtain c u where claim: "claim_job home leaseMs now commit w s = (c, u)" by (cases "claim_job home leaseMs now commit w s")
  have keep: "jobs_ok (case c of Inr (Some job) \<Rightarrow> [(w, job)] | _ \<Rightarrow> []) (pd_jobs u)"
    using claim_keeps [OF claim ok] by simp
  from claim_job_result [OF claim] show ?thesis
  proof (elim disjE exE conjE)
    fix e assume "c = Inl e" "u = s"
    with run claim Inr ok show ?thesis by (auto simp: prover_runOnce_def bindE_def liftE_def processed_def)
  next
    fix jobs assume jobs: "jobs = update_where (expired home now) (recover_job now) (pd_jobs s)"
      and c: "c = Inr None" and u: "u = s\<lparr>pd_jobs := jobs\<rparr>"
    with run claim Inr have "r = Inr None \<and> t = u" by (simp add: prover_runOnce_def bindE_def liftE_def retE_def)
    with keep c u recovery_left [OF ok] jobs show ?thesis by (simp add: processed_def)
  next
    fix jobs row assume jobs: "jobs = update_where (expired home now) (recover_job now) (pd_jobs s)"
      and nxt: "next_job home now jobs = Some row" and c: "c = Inr (Some (take_job now leaseMs w row))"
      and u: "u = s\<lparr>pd_jobs := update_where (\<lambda>j. pj_id j = pj_id row) (take_job now leaseMs w) jobs\<rparr>"
    let ?job = "take_job now leaseMs w row"
    have row: "row \<in> set jobs" "claimable home now row" using next_job_claimable [OF nxt] by blast+
    have jok: "jobs_ok [] jobs" unfolding jobs by (rule recovery_keeps [OF ok])
    have ok_u: "jobs_ok [(w, ?job)] (pd_jobs u)" using keep c by simp
    have in_u: "?job \<in> set (pd_jobs u)" using row by (auto simp: u update_where_def)
    have same: "total_left (pd_jobs u) \<le> total_left jobs"
    proof -
      have "attempts_left (take_job now leaseMs w j) \<le> attempts_left j" if "j \<in> set jobs" "pj_id j = pj_id row" for j
      proof -
        have "j = row" using unique_row [OF jobs_okD(2) [OF jok] that(1) row(1) that(2)] .
        then have "\<not> terminal j" using row(2) by (auto simp: claimable_def terminal_def)
        then show ?thesis by (simp add: attempts_left_def take_job_def)
      qed
      then show ?thesis by (simp add: u total_left_update)
    qed
    obtain e where fails: "(if \<not> present (pj_external ?job) then submit svc later ?job w else poll svc later ?job w) u = (Inl e, u)"
      using attempt_fails [OF bad] by blast
    obtain r' t' where rt: "retry later ?job w e u = (r', t')" by (cases "retry later ?job w e u")
    then have work: "work_job svc later ?job w u = (r', t')" using fails by (simp add: work_job_def catchE_def)
    have "jobs_ok [] (pd_jobs t')"
      using keepsD [OF work_job_keeps [OF gate, of w ?job "[(w, ?job)]"] ok_u work] by (auto intro: jobs_ok_fewer)
    moreover have "total_left (pd_jobs t') < total_left (pd_jobs u)"
      by (rule retry_uses_one [OF ok_u in_u _ rt]) (simp add: take_job_def)
    moreover have "t = t'" using run claim Inr c work
      by (auto simp: prover_runOnce_def bindE_def liftE_def retE_def split: sum.splits)
    ultimately show ?thesis using same recovery_left [OF ok, of home now] jobs by simp
  qed
qed

lemma cycles_end:
  assumes "failing svc" and "gate_keeps_jobs svc" and "jobs_ok [] (pd_jobs s)"
  shows "length (filter processed (fst (cycles svc home leaseMs worker ts s)))
    + total_left (pd_jobs (snd (cycles svc home leaseMs worker ts s))) \<le> total_left (pd_jobs s)"
  using assms(3)
proof (induction ts arbitrary: s)
  case Nil
  then show ?case by simp
next
  case (Cons x ts)
  obtain now commit later where x: "x = (now, commit, later)" by (cases x)
  obtain r t where run: "prover_runOnce svc home leaseMs now commit later worker s = (r, t)"
    by (cases "prover_runOnce svc home leaseMs now commit later worker s")
  from cycle_uses_one [OF assms(1,2) Cons.prems run] Cons.IH [of t]
  show ?case by (auto simp: x run split: prod.splits)
qed


definition offline :: prover_services where
  \<comment> \<open>a prover service that answers every call with an error\<close>
  "offline = \<lparr>encrypt = (\<lambda>w c. Inr w), decrypt = (\<lambda>w c. Inr w), submitJob = (\<lambda>q. Inl (Coded ''PROVER_DOWN'')),
     getJob = (\<lambda>i. Inl (Coded ''PROVER_DOWN'')), gate_accept = (\<lambda>tx tenant p sig. retE JNull)\<rparr>"

definition demo_intents :: "intent_row list" where
  "demo_intents = [\<lparr>ti_id = ''t1'', ti_tenant = ''hk'', ti_product = ''p'', ti_key = ''k'', ti_hash = ''h'', ti_type = ''TRANSFER'',
     ti_state = ''PROOF_PENDING'', ti_ruleVersion = JNull, ti_navEvidenceId = JNull, ti_policyHash = JNull, ti_ciphertext = JNull,
     ti_rail = ''CONFIDENTIAL'', ti_institution = Some ''inst'', ti_partyKey = None, ti_version = 2\<rparr>]"

definition pj0 :: prover_db where
  "pj0 = \<lparr>pd_store = \<lparr>db_intents = demo_intents, db_parties = [], db_history = [],
       db_ledger = \<lparr>bk_accounts = [], bk_batches = [], bk_entries = []\<rparr>,
       db_register = \<lparr>bk_accounts = [], bk_batches = [], bk_entries = []\<rparr>, db_receipts = [], db_audit = [],
       db_exceptions = [], db_approvals = [], db_outbox = [], db_inbox = [], db_callbacks = [], db_replays = []\<rparr>,
     pd_auths = [\<lparr>za_tx = ''t1'', za_tenant = ''hk'', za_status = ''PENDING'', za_circuit = ''c'', za_version = ''1'', za_hash = ''h''\<rparr>],
     pd_jobs = [], pd_receipts = []\<rparr>"





lemma offline_gate: "gate_keeps_jobs offline"
  by (simp add: gate_keeps_jobs_def offline_def preserves_retE)






text \<open>
  C40. Failing attempts end. While the prover service answers every call with an error, a worker that
  keeps running cycles, at whatever times, processes a job at most as often as there are attempts left
  over all open jobs, eight for a fresh one; what it does not use is still left. When the attempts are
  used up, nothing is left over and every job is in a final state.
\<close>

theorem failing_attempts_end:
  assumes "failing svc" and "gate_keeps_jobs svc" and "jobs_ok [] (pd_jobs s)"
  shows "length (filter processed (fst (cycles svc home leaseMs worker ts s)))
      + total_left (pd_jobs (snd (cycles svc home leaseMs worker ts s))) \<le> total_left (pd_jobs s)
    \<and> total_left (pd_jobs s) \<le> MAX_ATTEMPTS * length (pd_jobs s)"
  using cycles_end [OF assms] total_left_bound by blast

definition pj7 :: prover_db where
  \<comment> \<open>a job that failed seven times\<close>
  "pj7 = pj0\<lparr>pd_jobs := [(new_job 0 ''j'' (hd demo_intents) (hd (pd_auths pj0)) ''c'' ''broker'')
     \<lparr>pj_state := ''RETRYABLE'', pj_attempts := 7\<rparr>]\<rparr>"

definition one_cycle :: "(int \<times> unit outcome \<times> int) list" where
  "one_cycle = [(0, Inr (), 1)]"

definition row7 :: prover_job where
  "row7 = (new_job 0 ''j'' (hd demo_intents) (hd (pd_auths pj0)) ''c'' ''broker'')
     \<lparr>pj_state := ''RETRYABLE'', pj_attempts := 7\<rparr>"

lemma row7_fields: "pj_id row7 = ''j''" "pj_state row7 = ''RETRYABLE''" "pj_attempts row7 = 7" "pj_tenant row7 = ''hk''"
  "pj_nextAt row7 = 0" "pj_leaseExpiresAt row7 = None" "pj_external row7 = None" "pd_jobs pj7 = [row7]" "pj_owner row7 = None"
  by (simp_all add: row7_def pj7_def new_job_def demo_intents_def)

lemma claim7: "claim_job ''hk'' 30000 0 (Inr ()) ''w1'' pj7
    = (Inr (Some (take_job 0 30000 ''w1'' row7)), pj7\<lparr>pd_jobs := [take_job 0 30000 ''w1'' row7]\<rparr>)"
  by (simp add: claim_job_def withReadCommittedTransaction_def attempt_once_def withE_def thenE_def bindE_def modifyE_def
      retE_def row7_fields update_where_def expired_def next_job_def claimable_def Let_def)

lemma work7: "\<exists>s. work_job offline 1 (take_job 0 30000 ''w1'' row7) ''w1'' (pj7\<lparr>pd_jobs := [take_job 0 30000 ''w1'' row7]\<rparr>)
    = (Inr (publicJob (hd (pd_jobs s))), s) \<and> map pj_state (pd_jobs s) = [''FAILED'']"
  by (simp add: work_job_def submit_def catchE_def bindE_def liftE_def offline_def retry_def write_job_def Let_def
      withE_def thenE_def modifyE_def retE_def take_job_def row7_fields update_where_def MAX_ATTEMPTS_def unlease_def)

lemma one_cycle_run:
  "map processed (fst (cycles offline ''hk'' 30000 (JStr ''w1'') one_cycle pj7)) = [True]
   \<and> map pj_state (pd_jobs (snd (cycles offline ''hk'' 30000 (JStr ''w1'') one_cycle pj7))) = [''FAILED'']"
proof -
  from work7 obtain s where work: "work_job offline 1 (take_job 0 30000 ''w1'' row7) ''w1'' (pj7\<lparr>pd_jobs := [take_job 0 30000 ''w1'' row7]\<rparr>)
      = (Inr (publicJob (hd (pd_jobs s))), s)" and st: "map pj_state (pd_jobs s) = [''FAILED'']"
    by (elim exE conjE)
  have "bounded (JStr ''w1'') = Inr ''w1''" by code_simp
  then have "prover_runOnce offline ''hk'' 30000 0 (Inr ()) 1 (JStr ''w1'') pj7 = (Inr (Some (publicJob (hd (pd_jobs s)))), s)"
    by (simp add: prover_runOnce_def bindE_def liftE_def claim7 work retE_def)
  with st show ?thesis by (simp add: one_cycle_def processed_def)
qed

theorem failing_attempts_end_witness:
  "length (filter processed (fst (cycles offline ''hk'' 30000 (JStr ''w1'') one_cycle pj7)))
      + total_left (pd_jobs (snd (cycles offline ''hk'' 30000 (JStr ''w1'') one_cycle pj7))) \<le> total_left (pd_jobs pj7)
   \<and> map processed (fst (cycles offline ''hk'' 30000 (JStr ''w1'') one_cycle pj7)) = [True]"
proof -
  have f: "failing offline" by (simp add: failing_def offline_def)
  have ok: "jobs_ok [] (pd_jobs pj7)" by code_simp
  from failing_attempts_end [OF f offline_gate ok, of "''hk''" 30000 "JStr ''w1''" one_cycle] one_cycle_run
  show ?thesis by blast
qed

end
