(* ===== verification/ZkState.thy ===== *)
theory ZkState
  imports PgStore Outbox ProofAdapter
begin

text \<open>
  The tables of the confidential note rail and the eligibility checks of
  \<open>src/storage/confidential-eligibility.js\<close>. A field element is stored as its canonical decimal text,
  which a \<open>numeric\<close> column gives back. The store of \<open>PgState\<close> is a part of the state, so that a
  transition, a receipt, an audit event or an outbox event of the rail is the operation of the store.
\<close>

record zk_product =
  zp_id :: string
  zp_status :: string
  zp_ruleVersion :: json
  zp_rules :: json

record zk_context =   \<comment> \<open>\<open>rwa.zk_product_contexts\<close>\<close>
  zc_product :: string
  zc_circuit :: string
  zc_version :: string
  zc_context :: string
  zc_asset :: string
  zc_createdBy :: string
  zc_retired :: bool

record circuit_row =   \<comment> \<open>\<open>rwa.proof_circuit_versions\<close>\<close>
  kv_circuit :: string
  kv_version :: string
  kv_keyHash :: string
  kv_manifestHash :: string
  kv_order :: json
  kv_status :: string

record instruction_row =   \<comment> \<open>\<open>rwa.zk_execution_instructions\<close>\<close>
  zi_tx :: string
  zi_tenant :: string
  zi_requestHash :: string
  zi_fee :: string
  zi_recipient :: string
  zi_relayer :: string
  zi_authorizedBy :: string
  zi_expiresAt :: int
  zi_senderSubject :: "string option"
  zi_senderCredential :: "string option"
  zi_recipientSubject :: "string option"
  zi_recipientCredential :: "string option"

record zk_credential =
  cr_id :: string
  cr_product :: string
  cr_subject :: string
  cr_class :: string
  cr_jurisdiction :: string
  cr_from :: int
  cr_until :: int
  cr_status :: string

record owner_key =   \<comment> \<open>\<open>rwa.confidential_note_owner_keys\<close>\<close>
  nk_product :: string
  nk_key :: string
  nk_subject :: string
  nk_credential :: string
  nk_status :: string
  nk_registeredBy :: string
  nk_revokedBy :: "string option"
  nk_reason :: "string option"

record root_row =   \<comment> \<open>\<open>rwa.zk_merkle_roots\<close>\<close>
  mr_context :: string
  mr_root :: string
  mr_size :: int
  mr_frontier :: json
  mr_status :: string
  mr_expiresAt :: "int option"
  mr_source :: string

record zk_authorization =   \<comment> \<open>the thirteen signal columns are a list of names and texts\<close>
  zt_tx :: string
  zt_tenant :: string
  zt_circuit :: string
  zt_version :: string
  zt_inputs :: "(string \<times> string) list"
  zt_hash :: string
  zt_status :: string
  zt_receipt :: "string option"
  zt_by :: string

record zk_receipt =   \<comment> \<open>\<open>rwa.zk_proof_receipts\<close>\<close>
  zq_id :: string
  zq_tx :: string
  zq_tenant :: string
  zq_circuit :: string
  zq_version :: string
  zq_context :: string
  zq_root :: string
  zq_keyHash :: string
  zq_proofHash :: string
  zq_signalsHash :: string

record nullifier_row =
  zn_context :: string
  zn_nullifier :: string
  zn_receipt :: string

record output_row =   \<comment> \<open>\<open>rwa.zk_output_commitments\<close>\<close>
  zo_receipt :: string
  zo_index :: nat
  zo_context :: string
  zo_x :: string
  zo_y :: string

record zk_settlement =
  zs_tx :: string
  zs_receipt :: string
  zs_tenant :: string
  zs_product :: string
  zs_context :: string
  zs_root :: string
  zs_domain :: string
  zs_status :: string
  zs_outputRoot :: "string option"
  zs_outputSize :: "int option"
  zs_source :: "string option"
  zs_execution :: "string option"
  zs_finalizedBy :: "string option"

record finality_proposal =   \<comment> \<open>\<open>rwa.zk_finalization_proposals\<close>\<close>
  zf_id :: string
  zf_tx :: string
  zf_tenant :: string
  zf_root :: string
  zf_size :: int
  zf_baseRoot :: string
  zf_baseSize :: int
  zf_source :: string
  zf_execution :: string
  zf_status :: string
  zf_proposedBy :: string
  zf_approvedBy :: "string option"
  zf_cancelledBy :: "string option"
  zf_reason :: "string option"

record attestation_row =   \<comment> \<open>\<open>rwa.zk_root_publication_attestations\<close>\<close>
  zx_tx :: string
  zx_tenant :: string
  zx_context :: string
  zx_receipt :: string
  zx_root :: string
  zx_size :: int
  zx_source :: string
  zx_execution :: string
  zx_attestedBy :: string
  zx_proposal :: string
  zx_approvedBy :: string

record parameter_proposal =   \<comment> \<open>\<open>rwa.zk_parameter_proposals\<close>\<close>
  zm_id :: string
  zm_tenant :: string
  zm_kind :: string
  zm_payload :: json
  zm_hash :: string
  zm_status :: string
  zm_proposedBy :: string
  zm_decidedBy :: "string option"
  zm_reason :: "string option"

record zk_db =
  zg_store :: db
  zg_products :: "zk_product list"
  zg_accounts :: "(string \<times> string) list"   \<comment> \<open>product and tenant of the ledger accounts\<close>
  zg_roles :: "(string \<times> string \<times> string) list"   \<comment> \<open>product, role, institution; the ones that have not ended\<close>
  zg_contexts :: "zk_context list"
  zg_circuits :: "circuit_row list"
  zg_instructions :: "instruction_row list"
  zg_credentials :: "zk_credential list"
  zg_keys :: "owner_key list"
  zg_roots :: "root_row list"
  zg_auths :: "zk_authorization list"
  zg_receipts :: "zk_receipt list"
  zg_nullifiers :: "nullifier_row list"
  zg_outputs :: "output_row list"
  zg_settlements :: "zk_settlement list"
  zg_proposals :: "finality_proposal list"
  zg_attestations :: "attestation_row list"
  zg_parameters :: "parameter_proposal list"

definition inZk :: "(db, 'a) eff \<Rightarrow> (zk_db, 'a) eff" where
  \<comment> \<open>an operation of the store on the same client\<close>
  "inZk m = (\<lambda>s. case m (zg_store s) of (r, t) \<Rightarrow> (r, s\<lparr>zg_store := t\<rparr>))"

definition oneE :: "'a list \<Rightarrow> string \<Rightarrow> ('s, 'a) eff" where
  \<comment> \<open>the only row of a result, or the error\<close>
  "oneE rows code = (case rows of [row] \<Rightarrow> retE row | _ \<Rightarrow> throwE (Coded code))"

definition bounded_text :: "string \<Rightarrow> nat \<Rightarrow> json \<Rightarrow> string outcome" where
  \<comment> \<open>a string of 1 to \<open>n\<close> characters\<close>
  "bounded_text code n v = (case v of JStr s \<Rightarrow> ensureR (1 \<le> length s \<and> length s \<le> n) code (Inr s)
     | _ \<Rightarrow> Inl (Coded code))"

definition intents_of :: "zk_db \<Rightarrow> string \<Rightarrow> intent_row list" where
  "intents_of s tx = filter (\<lambda>t. ti_id t = tx) (db_intents (zg_store s))"

definition has_accounts :: "zk_db \<Rightarrow> string \<Rightarrow> string \<Rightarrow> bool" where
  "has_accounts s product tenant = ((product, tenant) \<in> set (zg_accounts s))"

definition product_of :: "zk_db \<Rightarrow> string \<Rightarrow> zk_product list" where
  "product_of s product = filter (\<lambda>p. zp_id p = product) (zg_products s)"

definition approved_contexts :: "zk_db \<Rightarrow> string \<Rightarrow> string \<Rightarrow> string \<Rightarrow> string \<Rightarrow> zk_context list" where
  \<comment> \<open>the contexts of a product that are not retired, for an active circuit\<close>
  "approved_contexts s product circuit version tenant =
     [z. z \<leftarrow> zg_contexts s, zc_product z = product \<and> \<not> zc_retired z \<and> zc_circuit z = circuit
           \<and> zc_version z = version \<and> has_accounts s product tenant,
         k \<leftarrow> zg_circuits s, kv_circuit k = zc_circuit z \<and> kv_version k = zc_version z \<and> kv_status k = ''ACTIVE'']"

section \<open>Eligibility\<close>

definition ineligible_reason :: "zk_db \<Rightarrow> string \<Rightarrow> json \<Rightarrow> string \<Rightarrow> string \<Rightarrow> int \<Rightarrow> string option" where
  "ineligible_reason s product rules subject credentialId now =
     (case filter (\<lambda>c. cr_id c = credentialId \<and> cr_product c = product) (zg_credentials s) of
        [c] \<Rightarrow>
          if cr_subject c \<noteq> subject then Some ''CREDENTIAL_SUBJECT_MISMATCH''
          else if now < cr_from c \<or> cr_until c \<le> now then Some ''CREDENTIAL_NOT_CURRENT''
          else if cr_status c \<noteq> ''ACTIVE'' then Some ''CREDENTIAL_RESTRICTED''
          else if JStr (cr_class c) \<notin> set (jelems (jfield rules ''allowedInvestorClasses'')) then Some ''INVESTOR_CLASS_NOT_ALLOWED''
          else if JStr (cr_jurisdiction c) \<notin> set (jelems (jfield rules ''allowedJurisdictions'')) then Some ''INVESTOR_JURISDICTION_NOT_ALLOWED''
          else None
      | _ \<Rightarrow> Some ''UNKNOWN_CREDENTIAL'')"

definition assertEligibleCredential :: "zk_db \<Rightarrow> string \<Rightarrow> json \<Rightarrow> json \<Rightarrow> json \<Rightarrow> int \<Rightarrow> unit outcome" where
  "assertEligibleCredential s product rules subjectRef credentialId now =
     ensureR (is_array (jfield rules ''allowedInvestorClasses'') \<and> is_array (jfield rules ''allowedJurisdictions''))
       ''PRODUCT_ELIGIBILITY_RULES_MISSING''
    (bindR (bounded_text ''INVALID_CONFIDENTIAL_PARTY'' 200 subjectRef) (\<lambda>subject.
     bindR (bounded_text ''INVALID_CONFIDENTIAL_PARTY'' 200 credentialId) (\<lambda>credential.
     ensureR (ineligible_reason s product rules subject credential now = None) ''CONFIDENTIAL_PARTY_INELIGIBLE'' (Inr ()))))"

definition assertRegisteredRecipientKey :: "zk_db \<Rightarrow> string \<Rightarrow> string \<Rightarrow> json \<Rightarrow> json \<Rightarrow> unit outcome" where
  "assertRegisteredRecipientKey s product ownerPublicKey subjectRef credentialId =
     ensureR (case filter (\<lambda>k. nk_product k = product \<and> nk_key k = ownerPublicKey) (zg_keys s) of
         [key] \<Rightarrow> nk_status key = ''ACTIVE'' \<and> JStr (nk_subject key) = subjectRef \<and> JStr (nk_credential key) = credentialId
       | _ \<Rightarrow> False) ''RECIPIENT_KEY_NOT_REGISTERED'' (Inr ())"

definition assertInstructionParties :: "zk_db \<Rightarrow> string \<Rightarrow> json \<Rightarrow> instruction_row \<Rightarrow> int \<Rightarrow> unit outcome" where
  "assertInstructionParties s product rules i now =
     ensureR (present (zi_senderSubject i) \<and> present (zi_senderCredential i) \<and> present (zi_recipientSubject i)
         \<and> present (zi_recipientCredential i)) ''CONFIDENTIAL_PARTIES_MISSING''
    (bindR (assertEligibleCredential s product rules (nullable (zi_senderSubject i)) (nullable (zi_senderCredential i)) now) (\<lambda>_.
     bindR (assertEligibleCredential s product rules (nullable (zi_recipientSubject i)) (nullable (zi_recipientCredential i)) now) (\<lambda>_.
     assertRegisteredRecipientKey s product (zi_recipient i) (nullable (zi_recipientSubject i)) (nullable (zi_recipientCredential i)))))"

lemma oneE_Inr [eff_simps]: "oneE rows code s = (Inr row, t) \<longleftrightarrow> rows = [row] \<and> t = s"
  by (auto simp: oneE_def retE_def throwE_def split: list.splits)

lemma oneE_Inl [eff_simps]:
  "oneE rows code s = (Inl e, t) \<longleftrightarrow> (\<forall>row. rows \<noteq> [row]) \<and> e = Coded code \<and> t = s"
  by (auto simp: oneE_def retE_def throwE_def split: list.splits)

lemma preserves_oneE [preserves_intros]: "preserves f (oneE rows code)"
  by (auto simp: oneE_def preserves_retE preserves_throwE split: list.splits)

lemma keeps_oneE [keeps_intros]: "keeps I (oneE rows code)"
  by (auto simp: oneE_def keeps_retE keeps_throwE split: list.splits)

lemma inZk_Inr [eff_simps]: "inZk m s = (Inr a, t) \<longleftrightarrow> (\<exists>u. m (zg_store s) = (Inr a, u) \<and> t = s\<lparr>zg_store := u\<rparr>)"
  by (auto simp: inZk_def split: prod.splits)

lemma inZk_Inl [eff_simps]: "inZk m s = (Inl e, t) \<longleftrightarrow> (\<exists>u. m (zg_store s) = (Inl e, u) \<and> t = s\<lparr>zg_store := u\<rparr>)"
  by (auto simp: inZk_def split: prod.splits)

lemma preserves_inZk [preserves_intros]: "(\<And>s t. f (s\<lparr>zg_store := t\<rparr>) = f s) \<Longrightarrow> preserves f (inZk m)"
  by (auto simp: preserves_def inZk_def split: prod.splits)

end
