(* ===== verification/ConfidentialTransfer.thy ===== *)
theory ConfidentialTransfer
  imports ZkState
begin

text \<open>
  Preparing a confidential transfer and the register of note owner keys,
  \<open>src/storage/confidential-transfer-service.js\<close>. The payload cipher is an argument, and so is the
  calendar: \<open>expiry\<close> is the time \<open>new Date(expiresAt)\<close> stands for, if it is one, \<open>iso\<close> writes a time
  as text.
\<close>

definition UINT64_LIMIT :: int where
  "UINT64_LIMIT = 18446744073709551616"

definition instructionField :: "json \<Rightarrow> string outcome" where
  "instructionField value = recodeR ''INVALID_CONFIDENTIAL_INSTRUCTION'' (normalizeFieldElement (JStr (nullish_text value)))"

record prepare_request =
  pr_tx :: json
  pr_key :: json
  pr_product :: json
  pr_fee :: json
  pr_recipient :: json
  pr_relayer :: json
  pr_authorizedBy :: json
  pr_tenant :: string
  pr_expiry :: "int option"
  pr_senderInvestor :: json
  pr_senderCredential :: json
  pr_recipientInvestor :: json
  pr_recipientCredential :: json
  pr_institution :: json

record transfer_service =
  cs_circuit :: string
  cs_version :: string
  cs_tenant :: string
  cs_encrypt :: "json \<Rightarrow> string outcome"
  cs_iso :: "int \<Rightarrow> string"

record prepared =   \<comment> \<open>a request that passed the checks before the transaction\<close>
  pp_tx :: string
  pp_key :: string
  pp_product :: string
  pp_by :: string
  pp_fee :: string
  pp_recipient :: string
  pp_relayer :: string
  pp_expiry :: int
  pp_sender :: "string \<times> string"
  pp_receiver :: "string \<times> string"
  pp_institution :: string

definition valid_expiry :: "int option \<Rightarrow> int \<Rightarrow> int outcome" where
  "valid_expiry expiry now = (case expiry of
     None \<Rightarrow> Inl (Coded ''INVALID_CONFIDENTIAL_INSTRUCTION'')
   | Some t \<Rightarrow> ensureR (now < t \<and> t - now \<le> 24 * 60 * 60 * 1000) ''INVALID_CONFIDENTIAL_INSTRUCTION'' (Inr t))"

definition check_prepare :: "transfer_service \<Rightarrow> int \<Rightarrow> prepare_request \<Rightarrow> prepared outcome" where
  "check_prepare svc now q =
     ensureR (pr_tenant q = cs_tenant svc) ''TENANT_SCOPE_MISMATCH''
    (bindR (bounded_text ''INVALID_IDEMPOTENCY_KEY'' 200 (pr_key q)) (\<lambda>key.
     bindR (bounded_text ''INVALID_CONFIDENTIAL_INSTRUCTION'' 200 (pr_tx q)) (\<lambda>tx.
     bindR (bounded_text ''INVALID_CONFIDENTIAL_INSTRUCTION'' 200 (pr_product q)) (\<lambda>product.
     bindR (bounded_text ''INVALID_CONFIDENTIAL_INSTRUCTION'' 200 (pr_authorizedBy q)) (\<lambda>who.
     bindR (valid_expiry (pr_expiry q) now) (\<lambda>expiry.
     bindR (instructionField (pr_fee q)) (\<lambda>fee.
     bindR (instructionField (pr_recipient q)) (\<lambda>recipient.
     bindR (instructionField (pr_relayer q)) (\<lambda>relayer.
     bindR (syntax_int fee) (\<lambda>feeValue.
     ensureR (feeValue < UINT64_LIMIT) ''INVALID_CONFIDENTIAL_INSTRUCTION''
    (ensureR (recipient \<noteq> ''0'') ''INVALID_CONFIDENTIAL_INSTRUCTION''
    (bindR (bounded_text ''AUTHORIZATION_DENIED'' 200 (pr_institution q)) (\<lambda>institution.
     bindR (bounded_text ''INVALID_CONFIDENTIAL_INSTRUCTION'' 200 (pr_senderInvestor q)) (\<lambda>sender.
     bindR (bounded_text ''INVALID_CONFIDENTIAL_INSTRUCTION'' 200 (pr_senderCredential q)) (\<lambda>senderCredential.
     bindR (bounded_text ''INVALID_CONFIDENTIAL_INSTRUCTION'' 200 (pr_recipientInvestor q)) (\<lambda>receiver.
     bindR (bounded_text ''INVALID_CONFIDENTIAL_INSTRUCTION'' 200 (pr_recipientCredential q)) (\<lambda>receiverCredential.
     Inr \<lparr>pp_tx = tx, pp_key = key, pp_product = product, pp_by = who, pp_fee = fee, pp_recipient = recipient,
       pp_relayer = relayer, pp_expiry = expiry, pp_sender = (sender, senderCredential),
       pp_receiver = (receiver, receiverCredential), pp_institution = institution\<rparr>)))))))))))))))))"

definition prepare_body :: "transfer_service \<Rightarrow> prepared \<Rightarrow> json" where
  \<comment> \<open>the request that is hashed and encrypted\<close>
  "prepare_body svc p =
     JObj [(''operation'', JStr ''CONFIDENTIAL_JOIN_SPLIT_TRANSFER''), (''transactionId'', JStr (pp_tx p)),
       (''productId'', JStr (pp_product p)), (''fee'', JStr (pp_fee p)), (''recipient'', JStr (pp_recipient p)),
       (''relayer'', JStr (pp_relayer p)), (''expiresAt'', JStr (cs_iso svc (pp_expiry p))),
       (''senderInvestorId'', JStr (fst (pp_sender p))), (''senderCredentialId'', JStr (snd (pp_sender p))),
       (''recipientInvestorId'', JStr (fst (pp_receiver p))), (''recipientCredentialId'', JStr (snd (pp_receiver p)))]"

definition policy_snapshot :: "transfer_service \<Rightarrow> zk_product \<Rightarrow> zk_context \<Rightarrow> json" where
  "policy_snapshot svc product z =
     JObj [(''ruleVersion'', zp_ruleVersion product), (''rules'', zp_rules product), (''circuitId'', JStr (cs_circuit svc)),
       (''circuitVersion'', JStr (cs_version svc)), (''contextId'', JStr (zc_context z)), (''assetType'', JStr (zc_asset z))]"

definition prepare_intent ::
  "(string \<Rightarrow> string) \<Rightarrow> transfer_service \<Rightarrow> prepared \<Rightarrow> zk_product \<Rightarrow> zk_context \<Rightarrow> string \<Rightarrow> intent_request" where
  "prepare_intent sha svc p product z ciphertext =
     \<lparr>iq_id = pp_tx p, iq_tenant = cs_tenant svc, iq_product = pp_product p, iq_key = pp_key p,
      iq_request = prepare_body svc p, iq_type = ''TRANSFER'', iq_ruleVersion = zp_ruleVersion product,
      iq_navEvidenceId = JNull, iq_policyHash = JStr (sha256Canonical sha (policy_snapshot svc product z)),
      iq_ciphertext = JStr ciphertext, iq_rail = Some ''CONFIDENTIAL_NOTE'', iq_institution = Some (Some (pp_institution p)),
      iq_partyIndex = None, iq_actor = Some (pp_by p)\<rparr>"

record prepare_answer =
  pa_tx :: string
  pa_state :: string
  pa_rail :: string
  pa_context :: string
  pa_asset :: string
  pa_expiresAt :: int
  pa_created :: bool

definition prepare_policy :: "zk_db \<Rightarrow> transfer_service \<Rightarrow> string \<Rightarrow> (zk_product \<times> zk_context) list" where
  "prepare_policy s svc product =
     [(p, z). p \<leftarrow> zg_products s, zp_id p = product \<and> zp_status p = ''ACTIVE'',
              z \<leftarrow> approved_contexts s (zp_id p) (cs_circuit svc) (cs_version svc) (cs_tenant svc)]"

definition check_parties :: "zk_db \<Rightarrow> zk_product \<Rightarrow> prepared \<Rightarrow> int \<Rightarrow> unit outcome" where
  "check_parties s product p now =
     bindR (assertEligibleCredential s (pp_product p) (zp_rules product) (JStr (fst (pp_sender p))) (JStr (snd (pp_sender p))) now) (\<lambda>_.
     bindR (assertEligibleCredential s (pp_product p) (zp_rules product) (JStr (fst (pp_receiver p))) (JStr (snd (pp_receiver p))) now) (\<lambda>_.
     assertRegisteredRecipientKey s (pp_product p) (pp_recipient p) (JStr (fst (pp_receiver p))) (JStr (snd (pp_receiver p)))))"

definition existing_answer :: "zk_context \<Rightarrow> intent_row \<Rightarrow> (zk_db, prepare_answer) eff" where
  \<comment> \<open>the idempotent answer for a transaction that exists\<close>
  "existing_answer z row = withE (\<lambda>s.
     case [(t, i). t \<leftarrow> intents_of s (ti_id row), i \<leftarrow> zg_instructions s, zi_tx i = ti_id t] of
       [(t, i)] \<Rightarrow>
         if ti_rail t = ''CONFIDENTIAL_NOTE'' then
           retE \<lparr>pa_tx = ti_id row, pa_state = ti_state t, pa_rail = ti_rail t, pa_context = zc_context z,
             pa_asset = zc_asset z, pa_expiresAt = zi_expiresAt i, pa_created = False\<rparr>
         else throwE (Coded ''IDEMPOTENCY_INTEGRITY_FAILURE'')
     | _ \<Rightarrow> throwE (Coded ''IDEMPOTENCY_INTEGRITY_FAILURE''))"

definition new_instruction :: "transfer_service \<Rightarrow> prepared \<Rightarrow> string \<Rightarrow> instruction_row" where
  "new_instruction svc p requestHash =
     \<lparr>zi_tx = pp_tx p, zi_tenant = cs_tenant svc, zi_requestHash = requestHash, zi_fee = pp_fee p,
      zi_recipient = pp_recipient p, zi_relayer = pp_relayer p, zi_authorizedBy = pp_by p, zi_expiresAt = pp_expiry p,
      zi_senderSubject = Some (fst (pp_sender p)), zi_senderCredential = Some (snd (pp_sender p)),
      zi_recipientSubject = Some (fst (pp_receiver p)), zi_recipientCredential = Some (snd (pp_receiver p))\<rparr>"

definition prepared_metadata :: "transfer_service \<Rightarrow> prepared \<Rightarrow> zk_context \<Rightarrow> (string \<times> json) list" where
  "prepared_metadata svc p z =
     [(''productId'', JStr (pp_product p)), (''state'', JStr ''PROOF_PENDING''), (''settlementRail'', JStr ''CONFIDENTIAL_NOTE''),
      (''contextId'', JStr (zc_context z)), (''assetType'', JStr (zc_asset z)), (''circuitId'', JStr (cs_circuit svc)),
      (''circuitVersion'', JStr (cs_version svc)), (''expiresAt'', JStr (cs_iso svc (pp_expiry p))),
      (''legalRegisterApplied'', JBool False)]"

definition announce ::
  "(string \<Rightarrow> string) \<Rightarrow> int \<Rightarrow> string \<Rightarrow> string \<Rightarrow> string \<Rightarrow> string \<Rightarrow> json \<Rightarrow> string \<Rightarrow> json \<Rightarrow> (zk_db, unit) eff" where
  \<comment> \<open>\<open>recordAuditEvent\<close> for a transaction, then \<open>enqueueOutbox\<close>\<close>
  "announce sha now eventId tenant eventType tx metadata topic payload =
     thenE (inZk (recordAuditEvent sha \<lparr>ae_tenant = tenant, ae_event = eventType, ae_aggType = ''transaction'',
         ae_aggId = tx, ae_metadata = metadata\<rparr>))
    (thenE (inZk (enqueueOutbox sha now eventId tenant topic tx payload None))
    (retE ()))"

definition prepare_new ::
  "(string \<Rightarrow> string) \<Rightarrow> transfer_service \<Rightarrow> int \<Rightarrow> string \<Rightarrow> prepared \<Rightarrow> zk_context \<Rightarrow> intent_row \<Rightarrow> (zk_db, prepare_answer) eff" where
  "prepare_new sha svc now eventId p z row =
     thenE (withE (\<lambda>s. if \<exists>i \<in> set (zg_instructions s). zi_tx i = pp_tx p then throwE unique_violation
       else modifyE (\<lambda>s. s\<lparr>zg_instructions := zg_instructions s @ [new_instruction svc p (ti_hash row)]\<rparr>)))
    (thenE (inZk (transitionTransaction (pp_tx p) ''POLICY_CHECKED'' None (Some (pp_by p))))
    (thenE (inZk (transitionTransaction (pp_tx p) ''PROOF_PENDING'' None (Some (pp_by p))))
    (thenE (announce sha now eventId (cs_tenant svc) ''zk.confidential_transfer.prepared'' (pp_tx p)
        (JObj (prepared_metadata svc p z)) ''rwa.zk.confidential_transfer.prepared''
        (JObj ((''transactionId'', JStr (pp_tx p)) # prepared_metadata svc p z)))
    (retE \<lparr>pa_tx = pp_tx p, pa_state = ''PROOF_PENDING'', pa_rail = ''CONFIDENTIAL_NOTE'', pa_context = zc_context z,
       pa_asset = zc_asset z, pa_expiresAt = pp_expiry p, pa_created = True\<rparr>))))"

definition prepare ::
  "(string \<Rightarrow> string) \<Rightarrow> transfer_service \<Rightarrow> int \<Rightarrow> (nat \<Rightarrow> unit outcome) \<Rightarrow> string \<Rightarrow> prepare_request \<Rightarrow> (zk_db, prepare_answer) eff" where
  "prepare sha svc now commit eventId q =
     bindE (liftE (check_prepare svc now q)) (\<lambda>p.
     withSerializableTransaction 3 commit (withE (\<lambda>s.
     bindE (oneE (prepare_policy s svc (pp_product p)) ''UNAPPROVED_PROOF_CONTEXT'') (\<lambda>(product, z).
     thenE (liftE (check_parties s product p now))
    (bindE (liftE (cs_encrypt svc (prepare_body svc p))) (\<lambda>ciphertext.
     bindE (inZk (createTransactionIntent sha (prepare_intent sha svc p product z ciphertext))) (\<lambda>(created, row).
     if created then prepare_new sha svc now eventId p z row else existing_answer z row)))))))"

section \<open>Note owner keys\<close>

definition may_register :: "zk_db \<Rightarrow> string \<Rightarrow> string \<Rightarrow> bool" where
  "may_register s product institution =
     list_ex (\<lambda>(p, role, i). p = product \<and> i = institution \<and> role \<in> {''distributor'', ''credential_issuer''}) (zg_roles s)"

definition key_audit :: "(string \<Rightarrow> string) \<Rightarrow> string \<Rightarrow> string \<Rightarrow> string \<Rightarrow> json \<Rightarrow> (zk_db, string) eff" where
  "key_audit sha tenant eventType credentialId metadata =
     inZk (recordAuditEvent sha \<lparr>ae_tenant = tenant, ae_event = eventType, ae_aggType = ''credential'',
       ae_aggId = credentialId, ae_metadata = metadata\<rparr>)"

definition registerOwnerKey ::
  "(string \<Rightarrow> string) \<Rightarrow> transfer_service \<Rightarrow> int \<Rightarrow> (nat \<Rightarrow> unit outcome) \<Rightarrow> string \<Rightarrow> json \<Rightarrow> json \<Rightarrow> json \<Rightarrow> json
    \<Rightarrow> json \<Rightarrow> json \<Rightarrow> (zk_db, string) eff" where
  \<comment> \<open>answers the normalised key\<close>
  "registerOwnerKey sha svc now commit tenant productId subjectRef credentialId ownerPublicKey registeredBy actorInstitutionId =
     thenE (ensureE (tenant = cs_tenant svc) ''TENANT_SCOPE_MISMATCH'')
    (bindE (liftE (mapR (bounded_text ''INVALID_NOTE_OWNER_KEY'' 200)
        [productId, subjectRef, credentialId, registeredBy, actorInstitutionId])) (\<lambda>fields.
     bindE (liftE (instructionField ownerPublicKey)) (\<lambda>key.
     thenE (ensureE (key \<noteq> ''0'') ''INVALID_NOTE_OWNER_KEY'')
    (let product = fields ! 0; subject = fields ! 1; credential = fields ! 2; who = fields ! 3; institution = fields ! 4 in
     withSerializableTransaction 3 commit (withE (\<lambda>s.
     bindE (oneE (filter (\<lambda>p. has_accounts s product tenant) (product_of s product)) ''UNKNOWN_PRODUCT'') (\<lambda>row.
     thenE (ensureE (may_register s product institution) ''AUTHORIZATION_DENIED'')
    (thenE (liftE (assertEligibleCredential s product (zp_rules row) subjectRef credentialId now))
    (thenE (ensureE (\<not> (\<exists>k \<in> set (zg_keys s). nk_product k = product \<and> nk_key k = key)) ''NOTE_OWNER_KEY_ALREADY_REGISTERED'')
    (thenE (modifyE (\<lambda>s. s\<lparr>zg_keys := zg_keys s @ [\<lparr>nk_product = product, nk_key = key, nk_subject = subject,
         nk_credential = credential, nk_status = ''ACTIVE'', nk_registeredBy = who, nk_revokedBy = None, nk_reason = None\<rparr>]\<rparr>))
    (thenE (key_audit sha tenant ''zk.note_owner_key.registered'' credential
        (JObj [(''productId'', JStr product), (''credentialId'', JStr credential),
          (''subjectRefHash'', JStr (sha256Canonical sha (JStr subject))), (''registeredBy'', JStr who), (''status'', JStr ''ACTIVE'')]))
    (retE key))))))))))))"

definition active_key :: "zk_db \<Rightarrow> string \<Rightarrow> string \<Rightarrow> string \<Rightarrow> owner_key \<Rightarrow> bool" where
  "active_key s product key tenant k =
     (nk_product k = product \<and> nk_key k = key \<and> nk_status k = ''ACTIVE'' \<and> has_accounts s product tenant)"

definition revokeOwnerKey ::
  "(string \<Rightarrow> string) \<Rightarrow> transfer_service \<Rightarrow> (nat \<Rightarrow> unit outcome) \<Rightarrow> string \<Rightarrow> json \<Rightarrow> json \<Rightarrow> json \<Rightarrow> json \<Rightarrow> (zk_db, string) eff" where
  "revokeOwnerKey sha svc commit tenant productId ownerPublicKey revokedBy reason =
     thenE (ensureE (tenant = cs_tenant svc) ''TENANT_SCOPE_MISMATCH'')
    (bindE (liftE (mapR (bounded_text ''INVALID_NOTE_OWNER_KEY'' 1000) [productId, revokedBy, reason])) (\<lambda>fields.
     bindE (liftE (instructionField ownerPublicKey)) (\<lambda>key.
     let product = fields ! 0; who = fields ! 1; why = fields ! 2 in
     withSerializableTransaction 3 commit (withE (\<lambda>s.
     let hit = active_key s product key tenant in
     thenE (modifyE (\<lambda>t. t\<lparr>zg_keys := update_where hit
         (\<lambda>k. k\<lparr>nk_status := ''REVOKED'', nk_revokedBy := Some who, nk_reason := Some why\<rparr>) (zg_keys s)\<rparr>))
    (bindE (oneE (filter hit (zg_keys s)) ''NOTE_OWNER_KEY_NOT_ACTIVE'') (\<lambda>k.
     thenE (key_audit sha tenant ''zk.note_owner_key.revoked'' (nk_credential k)
        (JObj [(''productId'', JStr product), (''revokedBy'', JStr who), (''reason'', JStr why), (''status'', JStr ''REVOKED'')]))
    (retE key))))))))"

end
