(* ===== verification/ZkGovernance.thy ===== *)
theory ZkGovernance
  imports ConfidentialTransfer MerkleTree
begin

text \<open>
  Governed changes of the trust parameters of the confidential rail,
  \<open>src/storage/zk-governance-service.js\<close>: the activation of the pinned circuit, and the context of a
  product with its empty note tree, each proposed by one principal and decided by another.
\<close>

definition governance_text :: "nat \<Rightarrow> json \<Rightarrow> string outcome" where
  \<comment> \<open>\<open>bounded(value, label, max)\<close>\<close>
  "governance_text n v = (case v of
     JStr s \<Rightarrow> ensureR (1 \<le> length (js_trim s) \<and> length s \<le> n) ''INVALID_ZK_PARAMETER_PROPOSAL'' (Inr s)
   | _ \<Rightarrow> Inl (Coded ''INVALID_ZK_PARAMETER_PROPOSAL''))"

definition circuitPayload :: "adapter \<Rightarrow> json" where
  "circuitPayload ad =
     JObj [(''circuitId'', jfield (ad_manifest ad) ''circuitId''), (''circuitVersion'', jfield (ad_manifest ad) ''circuitVersion''),
       (''verificationKeyHash'', JStr (ad_verificationKeyHash ad)), (''artifactManifestHash'', JStr (ad_manifestHash ad)),
       (''publicSignalOrder'', JArr (map JStr JOIN_SPLIT_PUBLIC_SIGNAL_ORDER))]"

definition contextPayload :: "adapter \<Rightarrow> json \<Rightarrow> json outcome" where
  "contextPayload ad input =
     bindR (governance_text 200 (jfield input ''productId'')) (\<lambda>productId.
     bindR (recodeR ''INVALID_ZK_PARAMETER_PROPOSAL'' (normalizeFieldElement (JStr (nullish_text (jfield input ''contextId''))))) (\<lambda>contextId.
     bindR (recodeR ''INVALID_ZK_PARAMETER_PROPOSAL'' (normalizeFieldElement (JStr (nullish_text (jfield input ''assetType''))))) (\<lambda>assetType.
     bindR (syntax_int assetType) (\<lambda>asset.
     ensureR (contextId \<noteq> ''0'' \<and> asset < 2 ^ 32) ''INVALID_ZK_PARAMETER_PROPOSAL''
    (Inr (JObj [(''productId'', JStr productId), (''contextId'', JStr contextId), (''assetType'', JStr assetType),
       (''circuitId'', jfield (ad_manifest ad) ''circuitId''), (''circuitVersion'', jfield (ad_manifest ad) ''circuitVersion'')]))))))"

definition proposal_payload :: "adapter \<Rightarrow> string \<Rightarrow> json \<Rightarrow> json outcome" where
  "proposal_payload ad kind input =
     (if kind = ''CIRCUIT_ACTIVATION'' then Inr (circuitPayload ad)
      else if kind = ''PRODUCT_CONTEXT'' then contextPayload ad input
      else Inl (Coded ''INVALID_ZK_PARAMETER_PROPOSAL''))"

definition assertCircuitAvailable :: "zk_db \<Rightarrow> json \<Rightarrow> unit outcome" where
  "assertCircuitAvailable s payload =
     ensureR (\<not> (\<exists>k \<in> set (zg_circuits s). kv_circuit k = text_field payload ''circuitId''
         \<and> kv_version k = text_field payload ''circuitVersion'')) ''ZK_CIRCUIT_ALREADY_REGISTERED'' (Inr ())"

definition assertContextAvailable :: "zk_db \<Rightarrow> string \<Rightarrow> json \<Rightarrow> unit outcome" where
  "assertContextAvailable s tenant payload =
     (let product = text_field payload ''productId''; context_id = text_field payload ''contextId'' in
      guards [
        (\<not> (\<exists>p \<in> set (product_of s product). has_accounts s product tenant), ''UNKNOWN_PRODUCT''),
        (\<not> (\<exists>k \<in> set (zg_circuits s). kv_circuit k = text_field payload ''circuitId''
            \<and> kv_version k = text_field payload ''circuitVersion'' \<and> kv_status k = ''ACTIVE''), ''UNAPPROVED_PROOF_CIRCUIT''),
        (\<exists>z \<in> set (zg_contexts s). zc_product z = product \<and> \<not> zc_retired z, ''ZK_CONTEXT_ALREADY_ACTIVE''),
        ((\<exists>z \<in> set (zg_contexts s). zc_context z = context_id) \<or> (\<exists>r \<in> set (zg_roots s). mr_context r = context_id),
          ''ZK_CONTEXT_ID_REUSED'')])"

definition assertAvailable :: "zk_db \<Rightarrow> string \<Rightarrow> string \<Rightarrow> json \<Rightarrow> unit outcome" where
  "assertAvailable s tenant kind payload =
     (if kind = ''PRODUCT_CONTEXT'' then assertContextAvailable s tenant payload else assertCircuitAvailable s payload)"

definition parameter_audit :: "(string \<Rightarrow> string) \<Rightarrow> string \<Rightarrow> string \<Rightarrow> string \<Rightarrow> (string \<times> json) list \<Rightarrow> json \<Rightarrow> (zk_db, string) eff" where
  \<comment> \<open>the audit event of a proposal; the payload is spread into the metadata\<close>
  "parameter_audit sha tenant eventType proposalId metadata payload =
     inZk (recordAuditEvent sha \<lparr>ae_tenant = tenant, ae_event = eventType, ae_aggType = ''zk_parameters'', ae_aggId = proposalId,
       ae_metadata = JObj (metadata @ (case payload of JObj kvs \<Rightarrow> kvs | _ \<Rightarrow> []))\<rparr>)"

definition governance_propose ::
  "(string \<Rightarrow> string) \<Rightarrow> adapter \<Rightarrow> string \<Rightarrow> (nat \<Rightarrow> unit outcome) \<Rightarrow> string \<Rightarrow> string \<Rightarrow> string \<Rightarrow> json \<Rightarrow> json
    \<Rightarrow> (zk_db, parameter_proposal) eff" where
  "governance_propose sha ad home commit uuid tenant kind input proposedBy =
     thenE (ensureE (tenant = home) ''TENANT_SCOPE_MISMATCH'')
    (bindE (liftE (governance_text 200 proposedBy)) (\<lambda>who.
     bindE (liftE (proposal_payload ad kind input)) (\<lambda>payload.
     withSerializableTransaction 3 commit (withE (\<lambda>s.
     thenE (liftE (assertAvailable s tenant kind payload))
    (thenE (ensureE (\<not> (\<exists>p \<in> set (zg_parameters s). zm_tenant p = tenant \<and> zm_status p = ''PENDING'' \<and> zm_kind p = kind
         \<and> (kind \<noteq> ''PRODUCT_CONTEXT'' \<or> jfield (zm_payload p) ''productId'' = jfield payload ''productId'')))
       ''ZK_PARAMETER_PROPOSAL_PENDING'')
    (let id = ''zk-parameters:'' @ uuid;
         payloadHash = sha256Canonical sha payload;
         row = \<lparr>zm_id = id, zm_tenant = tenant, zm_kind = kind, zm_payload = payload, zm_hash = payloadHash,
           zm_status = ''PENDING'', zm_proposedBy = who, zm_decidedBy = None, zm_reason = None\<rparr> in
     if \<exists>p \<in> set (zg_parameters s). zm_id p = id then throwE unique_violation
     else
       thenE (modifyE (\<lambda>s. s\<lparr>zg_parameters := zg_parameters s @ [row]\<rparr>))
      (thenE (parameter_audit sha tenant ''zk.parameters.proposed'' id
          [(''proposalId'', JStr id), (''kind'', JStr kind), (''payloadHash'', JStr payloadHash), (''proposedBy'', JStr who)] payload)
      (retE row)))))))))"

section \<open>Deciding\<close>

definition activate_circuit :: "(string \<Rightarrow> string) \<Rightarrow> adapter \<Rightarrow> parameter_proposal \<Rightarrow> (zk_db, unit) eff" where
  "activate_circuit sha ad proposal = withE (\<lambda>s.
     let payload = zm_payload proposal in
     thenE (ensureE (sha256Canonical sha (circuitPayload ad) = zm_hash proposal) ''ZK_ARTIFACT_CHANGED'')
    (thenE (liftE (assertCircuitAvailable s payload))
    (modifyE (\<lambda>s. s\<lparr>zg_circuits := zg_circuits s @ [\<lparr>kv_circuit = text_field payload ''circuitId'',
       kv_version = text_field payload ''circuitVersion'', kv_keyHash = text_field payload ''verificationKeyHash'',
       kv_manifestHash = text_field payload ''artifactManifestHash'', kv_order = jfield payload ''publicSignalOrder'',
       kv_status = ''ACTIVE''\<rparr>]\<rparr>))))"

definition genesis_root :: "string \<Rightarrow> string \<Rightarrow> root_row" where
  "genesis_root context_id proposalId =
     \<lparr>mr_context = context_id, mr_root = ts_root emptyMerkleTreeState, mr_size = 0,
      mr_frontier = JArr (ts_frontier emptyMerkleTreeState), mr_status = ''CURRENT'', mr_expiresAt = None,
      mr_source = ''genesis:'' @ proposalId\<rparr>"

definition open_context :: "string \<Rightarrow> parameter_proposal \<Rightarrow> string \<Rightarrow> (zk_db, unit) eff" where
  "open_context tenant proposal decidedBy = withE (\<lambda>s.
     let payload = zm_payload proposal;
         z = \<lparr>zc_product = text_field payload ''productId'', zc_circuit = text_field payload ''circuitId'',
           zc_version = text_field payload ''circuitVersion'', zc_context = text_field payload ''contextId'',
           zc_asset = text_field payload ''assetType'', zc_createdBy = zm_proposedBy proposal @ ''+'' @ decidedBy, zc_retired = False\<rparr> in
     thenE (liftE (assertContextAvailable s tenant payload))
    (if \<exists>y \<in> set (zg_contexts s). zc_product y = zc_product z \<and> zc_circuit y = zc_circuit z \<and> zc_version y = zc_version z
     then throwE unique_violation
     else modifyE (\<lambda>s. s\<lparr>zg_contexts := zg_contexts s @ [z],
       zg_roots := zg_roots s @ [genesis_root (zc_context z) (zm_id proposal)]\<rparr>)))"

definition decided_proposal :: "string \<Rightarrow> string \<Rightarrow> string \<Rightarrow> parameter_proposal \<Rightarrow> parameter_proposal" where
  "decided_proposal status who why p = p\<lparr>zm_status := status, zm_decidedBy := Some who, zm_reason := Some why\<rparr>"

definition governance_decide ::
  "(string \<Rightarrow> string) \<Rightarrow> adapter \<Rightarrow> string \<Rightarrow> (nat \<Rightarrow> unit outcome) \<Rightarrow> string \<Rightarrow> json \<Rightarrow> string \<Rightarrow> json \<Rightarrow> json
    \<Rightarrow> (zk_db, string) eff" where
  \<comment> \<open>answers the status\<close>
  "governance_decide sha ad home commit tenant proposalId decision reason decidedBy =
     thenE (ensureE (tenant = home) ''TENANT_SCOPE_MISMATCH'')
    (bindE (liftE (governance_text 200 proposalId)) (\<lambda>id.
     bindE (liftE (governance_text 200 decidedBy)) (\<lambda>who.
     bindE (liftE (governance_text 1000 reason)) (\<lambda>why.
     thenE (ensureE (decision \<in> {''APPROVE'', ''REJECT''}) ''INVALID_ZK_PARAMETER_DECISION'')
    (withSerializableTransaction 3 commit (withE (\<lambda>s.
     bindE (oneE (filter (\<lambda>p. zm_id p = id \<and> zm_tenant p = tenant) (zg_parameters s)) ''ZK_PARAMETER_PROPOSAL_NOT_PENDING'') (\<lambda>proposal.
     thenE (ensureE (zm_status proposal = ''PENDING'') ''ZK_PARAMETER_PROPOSAL_NOT_PENDING'')
    (thenE (ensureE (zm_proposedBy proposal \<noteq> who) ''MAKER_CHECKER_CONFLICT'')
    (thenE (ensureE (sha256Canonical sha (zm_payload proposal) = zm_hash proposal) ''ZK_PARAMETER_PROPOSAL_INTEGRITY_FAILURE'')
    (thenE (if decision = ''APPROVE'' then
         (if zm_kind proposal = ''CIRCUIT_ACTIVATION'' then activate_circuit sha ad proposal else open_context tenant proposal who)
       else retE ())
    (let status = (if decision = ''APPROVE'' then ''APPROVED'' else ''REJECTED'') in
     thenE (modifyE (\<lambda>s. s\<lparr>zg_parameters := update_where (\<lambda>p. zm_id p = id) (decided_proposal status who why) (zg_parameters s)\<rparr>))
    (thenE (parameter_audit sha tenant
        (if decision = ''APPROVE'' then ''zk.parameters.approved'' else ''zk.parameters.rejected'') id
        [(''proposalId'', JStr id), (''kind'', JStr (zm_kind proposal)), (''payloadHash'', JStr (zm_hash proposal)),
         (''maker'', JStr (zm_proposedBy proposal)), (''checker'', JStr who), (''reason'', JStr why)] (zm_payload proposal))
    (retE status))))))))))))))"

end
