(* ===== verification/ZkGate.thy ===== *)
theory ZkGate
  imports ZkGovernance
begin

text \<open>
  The settlement gate of the confidential rail, \<open>src/storage/zk-settlement-gate.js\<close>: a transaction is
  authorised on thirteen public signals, a proof over them is accepted once and spends two
  nullifiers, and one operator proposes and another approves the note tree that follows. \<open>now\<close> is the
  clock of the runtime, \<open>clock\<close> the one of the database; \<open>active\<close> counts the verifications running.
\<close>

record gate =
  ga_adapter :: adapter
  ga_maxConcurrent :: nat

definition ZkSettlementGate :: "adapter option \<Rightarrow> json \<Rightarrow> gate outcome" where
  \<comment> \<open>\<open>None\<close> where there is no adapter in mode GROTH16_VERIFIED\<close>
  "ZkSettlementGate proofAdapter maxConcurrentVerifications =
     ensureR (proofAdapter \<noteq> None) ''PRODUCTION_PROOF_ADAPTER_REQUIRED''
    (ensureR (integer_between 1 32 maxConcurrentVerifications) ''INVALID_VERIFIER_CONCURRENCY''
    (Inr \<lparr>ga_adapter = the proofAdapter,
       ga_maxConcurrent = (case maxConcurrentVerifications of JNum n \<Rightarrow> nat n | _ \<Rightarrow> 0)\<rparr>))"

definition gate_circuit :: "adapter \<Rightarrow> string" where "gate_circuit ad = text_field (ad_manifest ad) ''circuitId''"
definition gate_version :: "adapter \<Rightarrow> string" where "gate_version ad = text_field (ad_manifest ad) ''circuitVersion''"

definition assertRequestScope :: "json \<Rightarrow> json \<Rightarrow> (string \<times> string) outcome" where
  "assertRequestScope transactionId tenantId =
     bindR (bounded_text ''INVALID_ZK_REQUEST_SCOPE'' 200 transactionId) (\<lambda>tx.
     bindR (bounded_text ''INVALID_ZK_REQUEST_SCOPE'' 200 tenantId) (\<lambda>tenant. Inr (tx, tenant)))"

definition assertOriginatingInstitution :: "intent_row \<Rightarrow> string option option \<Rightarrow> unit outcome" where
  \<comment> \<open>\<open>None\<close> where the caller leaves the institution undefined\<close>
  "assertOriginatingInstitution row actor =
     ensureR (case actor of None \<Rightarrow> True | Some who \<Rightarrow> present who \<and> ti_institution row = who) ''UNKNOWN_ZK_TRANSACTION'' (Inr ())"

definition signal :: "(string \<times> string) list \<Rightarrow> string \<Rightarrow> string" where
  "signal inputs name = or_empty (map_of inputs name)"

definition transaction_rows :: "zk_db \<Rightarrow> string \<Rightarrow> (intent_row \<times> zk_product) list" where
  "transaction_rows s tx = [(t, p). t \<leftarrow> intents_of s tx, p \<leftarrow> product_of s (ti_product t)]"

definition own_transaction :: "zk_db \<Rightarrow> string \<Rightarrow> string \<Rightarrow> (intent_row \<times> zk_product) outcome" where
  "own_transaction s tx tenant = (case transaction_rows s tx of
     [(t, p)] \<Rightarrow> ensureR (ti_tenant t = tenant) ''UNKNOWN_ZK_TRANSACTION'' (Inr (t, p))
   | _ \<Rightarrow> Inl (Coded ''UNKNOWN_ZK_TRANSACTION''))"

definition transfer_guards :: "intent_row \<Rightarrow> zk_product \<Rightarrow> unit outcome" where
  \<comment> \<open>the four checks \<open>authorize\<close> and \<open>accept\<close> make on the locked transaction\<close>
  "transfer_guards t p = guards [
     (ti_state t \<noteq> ''PROOF_PENDING'', ''INVALID_ZK_TRANSACTION_STATE''),
     (ti_type t \<noteq> ''TRANSFER'', ''UNSUPPORTED_ZK_TRANSACTION_TYPE''),
     (ti_rail t \<noteq> ''CONFIDENTIAL_NOTE'', ''UNSUPPORTED_ZK_SETTLEMENT_RAIL''),
     (zp_status p \<noteq> ''ACTIVE'', ''PRODUCT_NOT_ACTIVE'')]"

definition root_accepted :: "zk_db \<Rightarrow> string \<Rightarrow> string \<Rightarrow> int \<Rightarrow> bool" where
  "root_accepted s context_id root now =
     (case filter (\<lambda>r. mr_context r = context_id \<and> mr_root r = root) (zg_roots s) of
        [r] \<Rightarrow> mr_status r \<noteq> ''REVOKED'' \<and> (case mr_expiresAt r of None \<Rightarrow> True | Some t \<Rightarrow> now < t)
      | _ \<Rightarrow> False)"

section \<open>Authorising\<close>

definition server_owned :: "zk_context \<Rightarrow> instruction_row \<Rightarrow> (string \<times> string) list" where
  "server_owned z i =
     [(''contextId'', zc_context z), (''assetType'', zc_asset z), (''fee'', zi_fee i), (''recipient'', zi_recipient i),
      (''relayer'', zi_relayer i)]"

definition own_instruction :: "zk_db \<Rightarrow> intent_row \<Rightarrow> string \<Rightarrow> instruction_row outcome" where
  "own_instruction s t tenant = (case filter (\<lambda>i. zi_tx i = ti_id t) (zg_instructions s) of
     [i] \<Rightarrow> ensureR (zi_tenant i = tenant \<and> zi_requestHash i = ti_hash t) ''INVALID_ZK_EXECUTION_INSTRUCTION'' (Inr i)
   | _ \<Rightarrow> Inl (Coded ''INVALID_ZK_EXECUTION_INSTRUCTION''))"

definition check_authorize ::
  "zk_db \<Rightarrow> adapter \<Rightarrow> int \<Rightarrow> string \<Rightarrow> string \<Rightarrow> (string \<times> string) list \<Rightarrow> string option option \<Rightarrow> instruction_row outcome" where
  \<comment> \<open>everything the transaction of \<open>authorize\<close> reads and checks before it writes\<close>
  "check_authorize s ad now tx tenant normalized actor =
     bindR (own_transaction s tx tenant) (\<lambda>(t, p).
     bindR (assertOriginatingInstitution t actor) (\<lambda>_.
     bindR (transfer_guards t p) (\<lambda>_.
     case approved_contexts s (ti_product t) (gate_circuit ad) (gate_version ad) tenant of
       [z] \<Rightarrow>
         bindR (own_instruction s t tenant) (\<lambda>i.
         ensureR (now < zi_expiresAt i) ''ZK_EXECUTION_INSTRUCTION_EXPIRED''
        (bindR (assertInstructionParties s (ti_product t) (zp_rules p) i now) (\<lambda>_.
         bindR (guards (map (\<lambda>(name, v). (signal normalized name \<noteq> v, ''ZK_BUSINESS_CONTEXT_MISMATCH'')) (server_owned z i))) (\<lambda>_.
         ensureR (root_accepted s (signal normalized ''contextId'') (signal normalized ''merkleRoot'') now)
           ''UNACCEPTED_MERKLE_ROOT'' (Inr i)))))
     | _ \<Rightarrow> Inl (Coded ''UNAPPROVED_PROOF_CONTEXT''))))"

definition authorize ::
  "(string \<Rightarrow> string) \<Rightarrow> gate \<Rightarrow> int \<Rightarrow> (nat \<Rightarrow> unit outcome) \<Rightarrow> json \<Rightarrow> json \<Rightarrow> json \<Rightarrow> string option option \<Rightarrow> (zk_db, string) eff" where
  \<comment> \<open>answers the hash of the public inputs\<close>
  "authorize sha g now commit transactionId tenantId proofPublicInputs actor =
     bindE (liftE (assertRequestScope transactionId tenantId)) (\<lambda>(tx, tenant).
     bindE (liftE (recodeR ''INVALID_ZK_AUTHORIZATION'' (normalizeJoinSplitPublicInputs proofPublicInputs))) (\<lambda>normalized.
     thenE (ensureE (signal normalized ''inputNullifier0'' \<noteq> signal normalized ''inputNullifier1'') ''INVALID_ZK_AUTHORIZATION'')
    (bindE (liftE (joinSplitPublicInputsHash sha (JObj (map (map_prod id JStr) normalized)))) (\<lambda>publicInputsHash.
     withSerializableTransaction 3 commit (withE (\<lambda>s.
     bindE (liftE (check_authorize s (ga_adapter g) now tx tenant normalized actor)) (\<lambda>i.
     thenE (ensureE (\<not> (\<exists>a \<in> set (zg_auths s). zt_tx a = tx)) ''ZK_TRANSACTION_ALREADY_AUTHORIZED'')
    (thenE (modifyE (\<lambda>s. s\<lparr>zg_auths := zg_auths s @
        [\<lparr>zt_tx = tx, zt_tenant = tenant, zt_circuit = gate_circuit (ga_adapter g), zt_version = gate_version (ga_adapter g),
          zt_inputs = normalized, zt_hash = publicInputsHash, zt_status = ''PENDING'', zt_receipt = None,
          zt_by = zi_authorizedBy i\<rparr>]\<rparr>))
    (retE publicInputsHash)))))))))"

section \<open>Accepting a proof\<close>

definition expected_inputs :: "zk_authorization \<Rightarrow> json" where
  "expected_inputs a = JObj (map (map_prod id JStr) (zt_inputs a))"

definition pending_rows :: "zk_db \<Rightarrow> string \<Rightarrow> string \<Rightarrow> (zk_authorization \<times> intent_row \<times> zk_product) list" where
  "pending_rows s tx tenant =
     [(a, t, p). a \<leftarrow> zg_auths s, zt_tx a = tx \<and> zt_tenant a = tenant \<and> zt_status a = ''PENDING'',
                 t \<leftarrow> intents_of s (zt_tx a), ti_tenant t = zt_tenant a, p \<leftarrow> product_of s (ti_product t)]"

definition check_pending :: "(string \<Rightarrow> string) \<Rightarrow> zk_db \<Rightarrow> string \<Rightarrow> string \<Rightarrow> string option option \<Rightarrow> zk_authorization outcome" where
  \<comment> \<open>what \<open>accept\<close> reads before it verifies\<close>
  "check_pending sha s tx tenant actor = (case pending_rows s tx tenant of
     [(a, t, p)] \<Rightarrow>
       bindR (assertOriginatingInstitution t actor) (\<lambda>_.
       bindR (guards [(ti_state t \<noteq> ''PROOF_PENDING'' \<or> ti_rail t \<noteq> ''CONFIDENTIAL_NOTE'', ''INVALID_ZK_TRANSACTION_STATE''),
         (zp_status p \<noteq> ''ACTIVE'', ''PRODUCT_NOT_ACTIVE'')]) (\<lambda>_.
       bindR (joinSplitPublicInputsHash sha (expected_inputs a)) (\<lambda>h.
       ensureR (h = zt_hash a) ''ZK_AUTHORIZATION_INTEGRITY_FAILURE'' (Inr a))))
   | _ \<Rightarrow> Inl (Coded ''ZK_TRANSACTION_NOT_AUTHORIZED''))"

definition verify_proof ::
  "(string \<Rightarrow> string) \<Rightarrow> gate \<Rightarrow> nat \<Rightarrow> json \<Rightarrow> json \<Rightarrow> zk_authorization \<Rightarrow> proof_result outcome" where
  "verify_proof sha g active proof publicSignals a =
     ensureR (active < ga_maxConcurrent g) ''PROOF_VERIFIER_BUSY''
    (verifyJoinSplit sha (ga_adapter g) proof publicSignals (expected_inputs a))"

definition current_context :: "zk_db \<Rightarrow> string \<Rightarrow> proof_result \<Rightarrow> (string \<times> string) list \<Rightarrow> string \<Rightarrow> zk_context list" where
  "current_context s product v inputs tenant = filter (\<lambda>z. zc_product z = product
     \<and> zc_circuit z = js_to_string (pv_circuitId v) \<and> zc_version z = js_to_string (pv_circuitVersion v)
     \<and> zc_context z = signal inputs ''contextId'' \<and> zc_asset z = signal inputs ''assetType'' \<and> \<not> zc_retired z
     \<and> has_accounts s product tenant) (zg_contexts s)"

definition current_instruction :: "zk_db \<Rightarrow> intent_row \<Rightarrow> string \<Rightarrow> (string \<times> string) list \<Rightarrow> int \<Rightarrow> instruction_row list" where
  "current_instruction s t tenant inputs now = filter (\<lambda>i. zi_tx i = ti_id t \<and> zi_tenant i = tenant
     \<and> zi_requestHash i = ti_hash t \<and> zi_fee i = signal inputs ''fee'' \<and> zi_recipient i = signal inputs ''recipient''
     \<and> zi_relayer i = signal inputs ''relayer'' \<and> now < zi_expiresAt i) (zg_instructions s)"

definition approved_circuit :: "zk_db \<Rightarrow> adapter \<Rightarrow> proof_result \<Rightarrow> bool" where
  "approved_circuit s ad v =
     (case filter (\<lambda>k. kv_circuit k = js_to_string (pv_circuitId v) \<and> kv_version k = js_to_string (pv_circuitVersion v)
         \<and> kv_status k = ''ACTIVE'') (zg_circuits s) of
        [k] \<Rightarrow> kv_keyHash k = pv_verificationKeyHash v \<and> kv_manifestHash k = pv_manifestHash v
          \<and> canonicalize (kv_order k) = canonicalize (jfield (ad_manifest ad) ''publicSignalOrder'')
      | _ \<Rightarrow> False)"

definition check_accept ::
  "zk_db \<Rightarrow> gate \<Rightarrow> int \<Rightarrow> string \<Rightarrow> string \<Rightarrow> zk_authorization \<Rightarrow> proof_result \<Rightarrow> intent_row outcome" where
  \<comment> \<open>everything the transaction of \<open>accept\<close> checks again before it writes\<close>
  "check_accept s g now tx tenant a v =
     bindR (own_transaction s tx tenant) (\<lambda>(t, p).
     bindR (transfer_guards t p) (\<lambda>_.
     ensureR (length (current_context s (ti_product t) v (zt_inputs a) tenant) = 1) ''ZK_BUSINESS_CONTEXT_RETIRED''
    (case current_instruction s t tenant (zt_inputs a) now of
       [i] \<Rightarrow>
         bindR (assertInstructionParties s (ti_product t) (zp_rules p) i now) (\<lambda>_.
         bindR (guards [
           (\<not> approved_circuit s (ga_adapter g) v, ''UNAPPROVED_PROOF_CIRCUIT''),
           (map zt_status (filter (\<lambda>b. zt_tx b = tx \<and> zt_tenant b = tenant) (zg_auths s)) \<noteq> [''PENDING''], ''ZK_TRANSACTION_NOT_AUTHORIZED''),
           (\<not> root_accepted s (signal (zt_inputs a) ''contextId'') (signal (zt_inputs a) ''merkleRoot'') now, ''UNACCEPTED_MERKLE_ROOT'')]) (\<lambda>_.
         Inr t))
     | _ \<Rightarrow> Inl (Coded ''INVALID_ZK_EXECUTION_INSTRUCTION''))))"

definition spend :: "string \<Rightarrow> string \<Rightarrow> string \<Rightarrow> (zk_db, unit) eff" where
  "spend context_id receiptId nullifier = withE (\<lambda>s.
     thenE (ensureE (\<not> (\<exists>n \<in> set (zg_nullifiers s). zn_context n = context_id \<and> zn_nullifier n = nullifier)) ''NULLIFIER_ALREADY_SPENT'')
    (modifyE (\<lambda>s. s\<lparr>zg_nullifiers := zg_nullifiers s @
       [\<lparr>zn_context = context_id, zn_nullifier = nullifier, zn_receipt = receiptId\<rparr>]\<rparr>)))"

definition output_at :: "(string \<times> string) list \<Rightarrow> string \<Rightarrow> nat \<Rightarrow> output_row" where
  "output_at inputs receiptId index =
     \<lparr>zo_receipt = receiptId, zo_index = index, zo_context = signal inputs ''contextId'',
      zo_x = signal inputs (if index = 0 then ''outputCommitmentX0'' else ''outputCommitmentX1''),
      zo_y = signal inputs (if index = 0 then ''outputCommitmentY0'' else ''outputCommitmentY1'')\<rparr>"

definition add_output :: "output_row \<Rightarrow> (zk_db, unit) eff" where
  "add_output row = withE (\<lambda>s.
     if \<exists>o' \<in> set (zg_outputs s). zo_receipt o' = zo_receipt row \<and> zo_index o' = zo_index row
        \<or> zo_context o' = zo_context row \<and> zo_x o' = zo_x row \<and> zo_y o' = zo_y row then throwE unique_violation
     else modifyE (\<lambda>s. s\<lparr>zg_outputs := zg_outputs s @ [row]\<rparr>))"

definition new_receipt :: "string \<Rightarrow> string \<Rightarrow> string \<Rightarrow> proof_result \<Rightarrow> (string \<times> string) list \<Rightarrow> zk_receipt" where
  "new_receipt receiptId tx tenant v inputs =
     \<lparr>zq_id = receiptId, zq_tx = tx, zq_tenant = tenant, zq_circuit = js_to_string (pv_circuitId v),
      zq_version = js_to_string (pv_circuitVersion v), zq_context = signal inputs ''contextId'',
      zq_root = signal inputs ''merkleRoot'', zq_keyHash = pv_verificationKeyHash v, zq_proofHash = pv_proofHash v,
      zq_signalsHash = pv_publicSignalsHash v\<rparr>"

definition add_receipt :: "zk_receipt \<Rightarrow> (zk_db, unit) eff" where
  "add_receipt row = withE (\<lambda>s.
     if \<exists>q \<in> set (zg_receipts s). zq_id q = zq_id row \<or> zq_tx q = zq_tx row then throwE unique_violation
     else modifyE (\<lambda>s. s\<lparr>zg_receipts := zg_receipts s @ [row]\<rparr>))"

definition new_settlement :: "string \<Rightarrow> intent_row \<Rightarrow> string \<Rightarrow> (string \<times> string) list \<Rightarrow> zk_settlement" where
  "new_settlement receiptId t tenant inputs =
     \<lparr>zs_tx = ti_id t, zs_receipt = receiptId, zs_tenant = tenant, zs_product = ti_product t,
      zs_context = signal inputs ''contextId'', zs_root = signal inputs ''merkleRoot'',
      zs_domain = ''CONFIDENTIAL_PROOF_REGISTRY'', zs_status = ''ROOT_PENDING'', zs_outputRoot = None,
      zs_outputSize = None, zs_source = None, zs_execution = None, zs_finalizedBy = None\<rparr>"

definition add_settlement :: "zk_settlement \<Rightarrow> (zk_db, unit) eff" where
  "add_settlement row = withE (\<lambda>s.
     if \<exists>z \<in> set (zg_settlements s). zs_tx z = zs_tx row \<or> zs_receipt z = zs_receipt row then throwE unique_violation
     else modifyE (\<lambda>s. s\<lparr>zg_settlements := zg_settlements s @ [row]\<rparr>))"

definition accept_metadata :: "string \<Rightarrow> intent_row \<Rightarrow> proof_result \<Rightarrow> string \<Rightarrow> json" where
  "accept_metadata receiptId t v settledAt =
     JObj [(''receiptId'', JStr receiptId), (''transactionId'', JStr (ti_id t)), (''productId'', JStr (ti_product t)),
       (''state'', JStr ''ROOT_PENDING''), (''settlementRail'', JStr ''CONFIDENTIAL_NOTE''), (''circuitId'', pv_circuitId v),
       (''circuitVersion'', pv_circuitVersion v), (''verificationKeyHash'', JStr (pv_verificationKeyHash v)),
       (''proofHash'', JStr (pv_proofHash v)), (''publicSignalsHash'', JStr (pv_publicSignalsHash v)),
       (''finalityDomain'', JStr ''CONFIDENTIAL_PROOF_REGISTRY''), (''rootPublicationRequired'', JBool True),
       (''externalExecutionRequired'', JBool True), (''legalRegisterApplied'', JBool False),
       (''provisionalReceipt'', JObj [(''transactionId'', JStr (ti_id t)), (''productId'', JStr (ti_product t)),
         (''type'', JStr ''TRANSFER''), (''state'', JStr ''ROOT_PENDING''), (''settledAt'', JStr settledAt),
         (''settlementMode'', JStr ''CONFIDENTIAL_PROOF_REGISTRY''), (''finalityDomain'', JStr ''CONFIDENTIAL_PROOF_REGISTRY''),
         (''legalRegisterApplied'', JBool False), (''proofReceiptId'', JStr receiptId),
         (''lifecycle'', JArr (map JStr [''REQUESTED'', ''POLICY_CHECKED'', ''PROOF_PENDING'', ''ROOT_PENDING''])),
         (''proofSystem'', JStr ''GROTH16_VERIFIED'')])]"

definition verified_authorization :: "string \<Rightarrow> zk_authorization \<Rightarrow> zk_authorization" where
  "verified_authorization receiptId a = a\<lparr>zt_status := ''VERIFIED'', zt_receipt := Some receiptId\<rparr>"

definition record_acceptance ::
  "(string \<Rightarrow> string) \<Rightarrow> (int \<Rightarrow> string) \<Rightarrow> int \<Rightarrow> string \<Rightarrow> string \<Rightarrow> string \<Rightarrow> zk_authorization \<Rightarrow> proof_result \<Rightarrow> intent_row
    \<Rightarrow> (zk_db, string) eff" where
  \<comment> \<open>the writes of \<open>accept\<close>; answers the receipt\<close>
  "record_acceptance sha isoText now eventId receiptId tenant a v t =
     (let inputs = zt_inputs a; context_id = signal inputs ''contextId''; tx = ti_id t in
      thenE (add_receipt (new_receipt receiptId tx tenant v inputs))
     (thenE (spend context_id receiptId (signal inputs ''inputNullifier0''))
     (thenE (spend context_id receiptId (signal inputs ''inputNullifier1''))
     (thenE (add_output (output_at inputs receiptId 0))
     (thenE (add_output (output_at inputs receiptId 1))
     (thenE (modifyE (\<lambda>s. s\<lparr>zg_auths := update_where (\<lambda>b. zt_tx b = tx) (verified_authorization receiptId) (zg_auths s)\<rparr>))
     (thenE (inZk (transitionTransaction tx ''ROOT_PENDING'' (Some ''ZK_JOIN_SPLIT_VERIFIED'') (Some ''zk-settlement-gate'')))
     (thenE (add_settlement (new_settlement receiptId t tenant inputs))
     (thenE (announce sha now eventId tenant ''zk.confidential_transfer.proof_accepted'' tx (accept_metadata receiptId t v (isoText now))
         ''rwa.zk.confidential_transfer.root_requested'' (accept_metadata receiptId t v (isoText now)))
     (retE receiptId))))))))))"

definition accept_commit ::
  "(string \<Rightarrow> string) \<Rightarrow> (int \<Rightarrow> string) \<Rightarrow> gate \<Rightarrow> int \<Rightarrow> (nat \<Rightarrow> unit outcome) \<Rightarrow> string \<Rightarrow> string \<Rightarrow> string \<Rightarrow> string
    \<Rightarrow> zk_authorization \<Rightarrow> proof_result \<Rightarrow> (zk_db, string) eff" where
  \<comment> \<open>the transaction of \<open>accept\<close>, after the verification\<close>
  "accept_commit sha isoText g now commit uuid eventId tx tenant a v = withSerializableTransaction 3 commit (withE (\<lambda>s.
     bindE (liftE (check_accept s g now tx tenant a v)) (\<lambda>t.
     record_acceptance sha isoText now eventId (''zk-proof:'' @ tx @ '':'' @ uuid) tenant a v t)))"

definition accept ::
  "(string \<Rightarrow> string) \<Rightarrow> (int \<Rightarrow> string) \<Rightarrow> gate \<Rightarrow> int \<Rightarrow> nat \<Rightarrow> (nat \<Rightarrow> unit outcome) \<Rightarrow> string \<Rightarrow> string \<Rightarrow> json \<Rightarrow> json
    \<Rightarrow> json \<Rightarrow> json \<Rightarrow> string option option \<Rightarrow> (zk_db, string) eff" where
  "accept sha isoText g now active commit uuid eventId transactionId tenantId proof publicSignals actor =
     bindE (liftE (assertRequestScope transactionId tenantId)) (\<lambda>(tx, tenant). withE (\<lambda>s.
     bindE (liftE (check_pending sha s tx tenant actor)) (\<lambda>a.
     bindE (liftE (verify_proof sha g active proof publicSignals a)) (\<lambda>v.
     accept_commit sha isoText g now commit uuid eventId tx tenant a v))))"

end
