(* ===== verification/ZkFinality.thy ===== *)
theory ZkFinality
  imports ZkGate
begin

text \<open>
  The second half of \<open>src/storage/zk-settlement-gate.js\<close>: the note tree that follows an accepted proof
  is recomputed from the current tree and the outputs of the proof, proposed by one operator,
  and made current by another; a proposal against a tree that moved on is cancelled.
\<close>

section \<open>The extension of the current tree\<close>

definition current_roots :: "zk_db \<Rightarrow> string \<Rightarrow> root_row list" where
  "current_roots s context_id = filter (\<lambda>r. mr_context r = context_id \<and> mr_status r = ''CURRENT'') (zg_roots s)"

definition outputs_of :: "zk_db \<Rightarrow> string \<Rightarrow> string \<Rightarrow> output_row list" where
  "outputs_of s receiptId context_id =
     sort_key zo_index (filter (\<lambda>r. zo_receipt r = receiptId \<and> zo_context r = context_id) (zg_outputs s))"

definition leaf_text :: "output_row \<Rightarrow> string outcome" where
  \<comment> \<open>\<open>merkleLeaf(commitment_x, commitment_y).toString()\<close>\<close>
  "leaf_text r =
     bindR (syntax_int (zo_x r)) (\<lambda>x.
     bindR (syntax_int (zo_y r)) (\<lambda>y. Inr (int_text (merkleLeaf x y))))"

definition error_of :: "js_error \<Rightarrow> js_error" where
  \<comment> \<open>\<open>cause.code ?? "ROOT_FRONTIER_UNAVAILABLE"\<close>\<close>
  "error_of e = (case e of Coded c \<Rightarrow> Coded c | Native _ \<Rightarrow> Coded ''ROOT_FRONTIER_UNAVAILABLE'')"

definition extend_tree :: "root_row \<Rightarrow> output_row list \<Rightarrow> tree_state outcome" where
  "extend_tree base outputs =
     (case bindR (mapR leaf_text outputs) (\<lambda>leaves.
        appendMerkleLeaves (JNum (mr_size base)) (mr_frontier base) (JStr (mr_root base)) (JArr (map JStr leaves))) of
        Inl e \<Rightarrow> Inl (error_of e) | Inr nxt \<Rightarrow> Inr nxt)"

definition verifiedTreeExtension :: "zk_db \<Rightarrow> string \<Rightarrow> string \<Rightarrow> (root_row \<times> tree_state) outcome" where
  "verifiedTreeExtension s context_id receiptId =
     (case current_roots s context_id of
        [base] \<Rightarrow>
          ensureR (mr_frontier base \<noteq> JNull) ''ROOT_FRONTIER_UNAVAILABLE''
         (ensureR (map zo_index (outputs_of s receiptId context_id) = [0, 1]) ''ZK_OUTPUTS_UNAVAILABLE''
         (bindR (extend_tree base (outputs_of s receiptId context_id)) (\<lambda>nxt. Inr (base, nxt))))
      | _ \<Rightarrow> Inl (Coded ''ROOT_FRONTIER_UNAVAILABLE''))"

section \<open>Proposing\<close>

definition pending_settlements :: "zk_db \<Rightarrow> string \<Rightarrow> string \<Rightarrow> (intent_row \<times> zk_product \<times> zk_settlement) list" where
  "pending_settlements s tx tenant =
     [(t, p, z). t \<leftarrow> intents_of s tx, ti_tenant t = tenant, p \<leftarrow> product_of s (ti_product t),
                 z \<leftarrow> zg_settlements s, zs_tx z = ti_id t \<and> zs_status z = ''ROOT_PENDING'']"

definition proposal_metadata :: "finality_proposal \<Rightarrow> json" where
  "proposal_metadata q =
     JObj [(''proposalId'', JStr (zf_id q)), (''transactionId'', JStr (zf_tx q)), (''outputMerkleRoot'', JStr (zf_root q)),
       (''outputTreeSize'', JNum (zf_size q)), (''baseMerkleRoot'', JStr (zf_baseRoot q)), (''baseTreeSize'', JNum (zf_baseSize q)),
       (''rootVerification'', JStr ''SERVER_RECOMPUTED''), (''rootSourceReference'', JStr (zf_source q)),
       (''executionReference'', JStr (zf_execution q)), (''proposedBy'', JStr (zf_proposedBy q)), (''status'', JStr ''PENDING'')]"

definition live :: "finality_proposal \<Rightarrow> bool" where
  "live q = (zf_status q \<in> {''PENDING'', ''APPROVED''})"

definition check_finalization ::
  "zk_db \<Rightarrow> string \<Rightarrow> string \<Rightarrow> string \<Rightarrow> int \<Rightarrow> (root_row \<times> tree_state) outcome" where
  \<comment> \<open>the reads and checks of the transaction of \<open>proposeFinalization\<close>\<close>
  "check_finalization s tx tenant root treeSize = (case pending_settlements s tx tenant of
     [(t, p, z)] \<Rightarrow>
       bindR (guards [(ti_state t \<noteq> ''ROOT_PENDING'' \<or> ti_rail t \<noteq> ''CONFIDENTIAL_NOTE'', ''INVALID_ZK_TRANSACTION_STATE''),
         (zp_status p \<noteq> ''ACTIVE'', ''PRODUCT_NOT_ACTIVE'')]) (\<lambda>_.
       bindR (verifiedTreeExtension s (zs_context z) (zs_receipt z)) (\<lambda>(base, nxt).
       ensureR (ts_root nxt = root \<and> ts_treeSize nxt = treeSize) ''ROOT_PUBLICATION_MISMATCH'' (Inr (base, nxt))))
   | _ \<Rightarrow> Inl (Coded ''INVALID_ZK_TRANSACTION_STATE''))"

definition proposeFinalization ::
  "(string \<Rightarrow> string) \<Rightarrow> int \<Rightarrow> (nat \<Rightarrow> unit outcome) \<Rightarrow> string \<Rightarrow> string \<Rightarrow> json \<Rightarrow> json \<Rightarrow> json \<Rightarrow> int option
    \<Rightarrow> json \<Rightarrow> json \<Rightarrow> json \<Rightarrow> (zk_db, finality_proposal) eff" where
  \<comment> \<open>\<open>outputTreeSize\<close> is \<open>Number(outputTreeSize)\<close> where that is a safe integer\<close>
  "proposeFinalization sha now commit uuid eventId transactionId tenantId outputMerkleRoot outputTreeSize
     rootSourceReference executionReference proposedBy =
     bindE (liftE (assertRequestScope transactionId tenantId)) (\<lambda>(tx, tenant).
     bindE (liftE (recodeR ''INVALID_ROOT_PUBLICATION'' (normalizeFieldElement (JStr (nullish_text outputMerkleRoot))))) (\<lambda>root.
     bindE (liftE (bounded_text ''INVALID_ROOT_PUBLICATION'' 500 rootSourceReference)) (\<lambda>source.
     bindE (liftE (bounded_text ''INVALID_ROOT_PUBLICATION'' 500 executionReference)) (\<lambda>execution.
     bindE (liftE (bounded_text ''INVALID_ROOT_PUBLICATION'' 500 proposedBy)) (\<lambda>who.
     bindE (optE outputTreeSize (Coded ''INVALID_ROOT_PUBLICATION'')) (\<lambda>treeSize.
     thenE (ensureE (2 \<le> treeSize) ''INVALID_ROOT_PUBLICATION'')
    (withSerializableTransaction 3 commit (withE (\<lambda>s.
     bindE (liftE (check_finalization s tx tenant root treeSize)) (\<lambda>(base, nxt).
     let q = \<lparr>zf_id = ''zk-finality:'' @ tx @ '':'' @ uuid, zf_tx = tx, zf_tenant = tenant, zf_root = root, zf_size = treeSize,
           zf_baseRoot = mr_root base, zf_baseSize = mr_size base, zf_source = source, zf_execution = execution,
           zf_status = ''PENDING'', zf_proposedBy = who, zf_approvedBy = None, zf_cancelledBy = None, zf_reason = None\<rparr> in
     thenE (ensureE (\<not> (\<exists>p \<in> set (zg_proposals s). zf_id p = zf_id q \<or> zf_tx p = tx \<and> live p)) ''ROOT_FINALIZATION_ALREADY_PROPOSED'')
    (thenE (modifyE (\<lambda>s. s\<lparr>zg_proposals := zg_proposals s @ [q]\<rparr>))
    (thenE (announce sha now eventId tenant ''zk.confidential_transfer.finality_proposed'' tx (proposal_metadata q)
        ''rwa.zk.confidential_transfer.finality_proposed'' (proposal_metadata q))
    (retE q)))))))))))))"

section \<open>Cancelling\<close>

definition cancelled :: "string \<Rightarrow> string \<Rightarrow> finality_proposal \<Rightarrow> finality_proposal" where
  "cancelled who why q = q\<lparr>zf_status := ''CANCELLED'', zf_cancelledBy := Some who, zf_reason := Some why\<rparr>"

definition cancelProposal ::
  "(string \<Rightarrow> string) \<Rightarrow> int \<Rightarrow> string \<Rightarrow> string \<Rightarrow> string \<Rightarrow> string \<Rightarrow> string \<Rightarrow> string \<Rightarrow> (zk_db, json) eff" where
  "cancelProposal sha now eventId tenant tx proposalId cancelledBy reason =
     (let metadata = JObj [(''proposalId'', JStr proposalId), (''transactionId'', JStr tx), (''cancelledBy'', JStr cancelledBy),
        (''reason'', JStr reason), (''status'', JStr ''CANCELLED'')] in
      thenE (modifyE (\<lambda>s. s\<lparr>zg_proposals := update_where (\<lambda>q. zf_id q = proposalId \<and> zf_status q = ''PENDING'')
         (cancelled cancelledBy reason) (zg_proposals s)\<rparr>))
     (thenE (announce sha now eventId tenant ''zk.confidential_transfer.finality_cancelled'' tx metadata
         ''rwa.zk.confidential_transfer.finality_cancelled'' metadata)
     (retE metadata)))"

definition cancellation_text :: "json \<Rightarrow> string outcome" where
  "cancellation_text v = (case v of
     JStr s \<Rightarrow> ensureR (3 \<le> length (js_trim s) \<and> length s \<le> 1000) ''INVALID_FINALIZATION_CANCELLATION'' (Inr s)
   | _ \<Rightarrow> Inl (Coded ''INVALID_FINALIZATION_CANCELLATION''))"

definition pending_proposals :: "zk_db \<Rightarrow> string \<Rightarrow> string \<Rightarrow> (intent_row \<times> finality_proposal) list" where
  "pending_proposals s tx tenant =
     [(t, q). q \<leftarrow> zg_proposals s, zf_tx q = tx \<and> zf_tenant q = tenant \<and> zf_status q = ''PENDING'',
              t \<leftarrow> intents_of s (zf_tx q), ti_tenant t = zf_tenant q]"

definition cancelFinalization ::
  "(string \<Rightarrow> string) \<Rightarrow> int \<Rightarrow> (nat \<Rightarrow> unit outcome) \<Rightarrow> string \<Rightarrow> json \<Rightarrow> json \<Rightarrow> json \<Rightarrow> json \<Rightarrow> (zk_db, json) eff" where
  "cancelFinalization sha now commit eventId transactionId tenantId cancelledBy reason =
     bindE (liftE (assertRequestScope transactionId tenantId)) (\<lambda>(tx, tenant).
     bindE (liftE (cancellation_text cancelledBy)) (\<lambda>who.
     bindE (liftE (cancellation_text reason)) (\<lambda>why.
     withSerializableTransaction 3 commit (withE (\<lambda>s.
     bindE (oneE (pending_proposals s tx tenant) ''ROOT_FINALIZATION_NOT_PENDING'') (\<lambda>(_, q).
     cancelProposal sha now eventId tenant tx (zf_id q) who why))))))"

section \<open>Finalising\<close>

definition finality_rows :: "zk_db \<Rightarrow> string \<Rightarrow> string \<Rightarrow> (intent_row \<times> zk_product \<times> zk_settlement \<times> finality_proposal) list" where
  "finality_rows s tx tenant =
     [(t, p, z, q). (t, q) \<leftarrow> pending_proposals s tx tenant, p \<leftarrow> product_of s (ti_product t),
                    z \<leftarrow> zg_settlements s, zs_tx z = ti_id t]"

definition final_metadata :: "intent_row \<Rightarrow> zk_settlement \<Rightarrow> finality_proposal \<Rightarrow> (string \<times> json) list" where
  "final_metadata t z q =
     [(''transactionId'', JStr (ti_id t)), (''productId'', JStr (ti_product t)), (''state'', JStr ''SETTLED''),
      (''proofReceiptId'', JStr (zs_receipt z)), (''inputMerkleRoot'', JStr (zs_root z)),
      (''baseMerkleRoot'', JStr (zf_baseRoot q)), (''outputMerkleRoot'', JStr (zf_root q)), (''outputTreeSize'', JNum (zf_size q)),
      (''rootVerification'', JStr ''SERVER_RECOMPUTED''), (''rootSourceReference'', JStr (zf_source q)),
      (''executionReference'', JStr (zf_execution q)), (''finalityDomain'', JStr ''CONFIDENTIAL_NOTE_LEDGER''),
      (''legalRegisterApplied'', JBool False)]"

definition publish_root :: "int \<Rightarrow> string \<Rightarrow> finality_proposal \<Rightarrow> tree_state \<Rightarrow> (zk_db, unit) eff" where
  \<comment> \<open>the current tree of the context becomes historical, the approved one current\<close>
  "publish_root clock context_id q nxt =
     thenE (modifyE (\<lambda>s. s\<lparr>zg_roots := update_where (\<lambda>r. mr_context r = context_id \<and> mr_status r = ''CURRENT'')
       (\<lambda>r. r\<lparr>mr_status := ''HISTORICAL'', mr_expiresAt := Some (clock + 60 * 60 * 1000)\<rparr>) (zg_roots s)\<rparr>))
    (withE (\<lambda>s. if \<exists>r \<in> set (zg_roots s). mr_context r = context_id \<and> mr_root r = zf_root q then throwE unique_violation
       else modifyE (\<lambda>s. s\<lparr>zg_roots := zg_roots s @ [\<lparr>mr_context = context_id, mr_root = zf_root q, mr_size = zf_size q,
         mr_frontier = JArr (ts_frontier nxt), mr_status = ''CURRENT'', mr_expiresAt = None, mr_source = zf_source q\<rparr>]\<rparr>)))"

definition attestation :: "zk_settlement \<Rightarrow> finality_proposal \<Rightarrow> string \<Rightarrow> attestation_row" where
  "attestation z q finalizedBy =
     \<lparr>zx_tx = zs_tx z, zx_tenant = zf_tenant q, zx_context = zs_context z, zx_receipt = zs_receipt z, zx_root = zf_root q,
      zx_size = zf_size q, zx_source = zf_source q, zx_execution = zf_execution q, zx_attestedBy = zf_proposedBy q,
      zx_proposal = zf_id q, zx_approvedBy = finalizedBy\<rparr>"

definition add_attestation :: "attestation_row \<Rightarrow> (zk_db, unit) eff" where
  "add_attestation row = withE (\<lambda>s.
     if \<exists>x \<in> set (zg_attestations s). zx_tx x = zx_tx row \<or> zx_receipt x = zx_receipt row then throwE unique_violation
     else modifyE (\<lambda>s. s\<lparr>zg_attestations := zg_attestations s @ [row]\<rparr>))"

definition final_settlement :: "finality_proposal \<Rightarrow> string \<Rightarrow> zk_settlement \<Rightarrow> zk_settlement" where
  "final_settlement q finalizedBy z =
     z\<lparr>zs_domain := ''CONFIDENTIAL_NOTE_LEDGER'', zs_status := ''FINAL'', zs_outputRoot := Some (zf_root q),
       zs_outputSize := Some (zf_size q), zs_source := Some (zf_source q), zs_execution := Some (zf_execution q),
       zs_finalizedBy := Some finalizedBy\<rparr>"

definition record_finality ::
  "(string \<Rightarrow> string) \<Rightarrow> (int \<Rightarrow> string) \<Rightarrow> int \<Rightarrow> int \<Rightarrow> string \<Rightarrow> string \<Rightarrow> intent_row \<Rightarrow> zk_settlement \<Rightarrow> finality_proposal
    \<Rightarrow> tree_state \<Rightarrow> string \<Rightarrow> (zk_db, string) eff" where
  \<comment> \<open>the writes of \<open>finalize\<close>; answers the hash of the receipt\<close>
  "record_finality sha isoText now clock eventId tenant t z q nxt finalizedBy =
     (let tx = ti_id t; metadata = final_metadata t z q in
      thenE (publish_root clock (zs_context z) q nxt)
     (thenE (modifyE (\<lambda>s. s\<lparr>zg_proposals := update_where (\<lambda>p. zf_id p = zf_id q)
         (\<lambda>p. p\<lparr>zf_status := ''APPROVED'', zf_approvedBy := Some finalizedBy\<rparr>) (zg_proposals s)\<rparr>))
     (thenE (add_attestation (attestation z q finalizedBy))
     (thenE (modifyE (\<lambda>s. s\<lparr>zg_settlements := update_where (\<lambda>y. zs_tx y = tx) (final_settlement q finalizedBy) (zg_settlements s)\<rparr>))
     (thenE (inZk (transitionTransaction tx ''SETTLED'' (Some ''ZK_ROOT_AND_EFFECTS_ATTESTED'') (Some finalizedBy)))
     (bindE (inZk (storeReceipt sha tx (JObj (metadata @ [(''type'', JStr ''TRANSFER''), (''settledAt'', JStr (isoText now)),
         (''lifecycle'', JArr (map JStr [''REQUESTED'', ''POLICY_CHECKED'', ''PROOF_PENDING'', ''ROOT_PENDING'', ''SETTLED'']))])))) (\<lambda>receiptHash.
     let full = JObj (metadata @ [(''transactionReceiptHash'', JStr receiptHash)]) in
     thenE (announce sha now eventId tenant ''zk.confidential_transfer.settled'' tx full ''rwa.zk.confidential_transfer.settled'' full)
    (retE receiptHash))))))))"

definition finality_guards :: "intent_row \<Rightarrow> zk_product \<Rightarrow> zk_settlement \<Rightarrow> finality_proposal \<Rightarrow> string \<Rightarrow> unit outcome" where
  "finality_guards t p z q finalizedBy = guards [
     (ti_state t \<noteq> ''ROOT_PENDING'' \<or> ti_rail t \<noteq> ''CONFIDENTIAL_NOTE'' \<or> zs_status z \<noteq> ''ROOT_PENDING'', ''INVALID_ZK_TRANSACTION_STATE''),
     (zp_status p \<noteq> ''ACTIVE'', ''PRODUCT_NOT_ACTIVE''),
     (zf_proposedBy q = finalizedBy, ''MAKER_CHECKER_SEPARATION_REQUIRED'')]"

definition stale_reason :: string where
  "stale_reason = ''the note tree advanced after this proposal was made; re-propose against the current root''"

definition finalize_in ::
  "(string \<Rightarrow> string) \<Rightarrow> (int \<Rightarrow> string) \<Rightarrow> int \<Rightarrow> int \<Rightarrow> string \<Rightarrow> string \<Rightarrow> string \<Rightarrow> string \<Rightarrow> (zk_db, string option) eff" where
  \<comment> \<open>the transaction of \<open>finalize\<close>; \<open>None\<close> where it found the proposal stale and cancelled it\<close>
  "finalize_in sha isoText now clock eventId tx tenant finalizedBy = withE (\<lambda>s.
     bindE (oneE (finality_rows s tx tenant) ''UNKNOWN_ZK_TRANSACTION'') (\<lambda>(t, p, z, q).
     thenE (liftE (finality_guards t p z q finalizedBy))
    (bindE (liftE (verifiedTreeExtension s (zs_context z) (zs_receipt z))) (\<lambda>(base, nxt).
     if mr_root base \<noteq> zf_baseRoot q \<or> mr_size base \<noteq> zf_baseSize q then
       thenE (cancelProposal sha now eventId tenant tx (zf_id q) ''system:stale-base-root'' stale_reason) (retE None)
     else
       thenE (ensureE (ts_root nxt = zf_root q \<and> ts_treeSize nxt = zf_size q) ''ROOT_PUBLICATION_MISMATCH'')
      (bindE (record_finality sha isoText now clock eventId tenant t z q nxt finalizedBy) (\<lambda>h. retE (Some h)))))))"

definition finalize ::
  "(string \<Rightarrow> string) \<Rightarrow> (int \<Rightarrow> string) \<Rightarrow> int \<Rightarrow> int \<Rightarrow> (nat \<Rightarrow> unit outcome) \<Rightarrow> string \<Rightarrow> json \<Rightarrow> json \<Rightarrow> json \<Rightarrow> (zk_db, string) eff" where
  "finalize sha isoText now clock commit eventId transactionId tenantId finalizedBy =
     bindE (liftE (assertRequestScope transactionId tenantId)) (\<lambda>(tx, tenant).
     bindE (liftE (bounded_text ''INVALID_ROOT_PUBLICATION'' 500 finalizedBy)) (\<lambda>who.
     bindE (withSerializableTransaction 3 commit (finalize_in sha isoText now clock eventId tx tenant who)) (\<lambda>answer.
     case answer of None \<Rightarrow> throwE (Coded ''STALE_ROOT_PUBLICATION'') | Some h \<Rightarrow> retE h)))"

end
