(* ===== verification/ZkInvariants.thy ===== *)
theory ZkInvariants
  imports ZkFinality PgFrames
begin

text \<open>The invariants of the confidential rail and that every operation keeps them.\<close>

text \<open>
  The tables of the confidential rail as a transition system, with proofs in flight: a verification
  reads an authorisation, other operations run, and only then its transaction commits. The invariants:
  a nullifier is spent once, and the current note tree of a context is the tree of the outputs of the
  settlements made final, in their order.
\<close>

section \<open>Writes of a transaction\<close>

lemma transaction_result:
  "withSerializableTransaction n commit m s = (r, t) \<Longrightarrow> t = s \<or> (\<exists>x. m s = (Inr x, t))"
  unfolding withSerializableTransaction_def by (drule serializable_from_result) blast

lemma announce_fields:
  assumes "announce sha now eventId tenant ev tx metadata topic payload s = (Inr u, t)"
  shows "\<exists>d. t = s\<lparr>zg_store := d\<rparr>"
  using assms by (auto simp: announce_def eff_simps)

lemma record_acceptance_result:
  assumes "record_acceptance sha isoText now eventId receiptId tenant a v i s = (Inr x, t)"
  shows "zg_receipts t = zg_receipts s @ [new_receipt receiptId (ti_id i) tenant v (zt_inputs a)]"
    and "receiptId \<notin> zq_id ` set (zg_receipts s)"
    and "\<exists>n0 n1. zg_nullifiers t = zg_nullifiers s @ [n0, n1]
      \<and> n0 = \<lparr>zn_context = signal (zt_inputs a) ''contextId'', zn_nullifier = signal (zt_inputs a) ''inputNullifier0'', zn_receipt = receiptId\<rparr>
      \<and> n1 = \<lparr>zn_context = signal (zt_inputs a) ''contextId'', zn_nullifier = signal (zt_inputs a) ''inputNullifier1'', zn_receipt = receiptId\<rparr>
      \<and> (\<forall>n \<in> set (zg_nullifiers s). (zn_context n, zn_nullifier n) \<notin> {(zn_context n0, zn_nullifier n0), (zn_context n1, zn_nullifier n1)})
      \<and> zn_nullifier n0 \<noteq> zn_nullifier n1"
    and "zg_outputs t = zg_outputs s @ [output_at (zt_inputs a) receiptId 0, output_at (zt_inputs a) receiptId 1]"
    and "zg_auths t = update_where (\<lambda>b. zt_tx b = ti_id i) (verified_authorization receiptId) (zg_auths s)"
    and "zg_settlements t = zg_settlements s @ [new_settlement receiptId i tenant (zt_inputs a)]"
    and "zg_roots t = zg_roots s" and "zg_attestations t = zg_attestations s"
  using assms
  by (auto simp: record_acceptance_def Let_def eff_simps add_receipt_def spend_def add_output_def add_settlement_def
      new_receipt_def split: if_splits dest!: announce_fields)

lemma record_finality_result:
  assumes "record_finality sha isoText now clock eventId tenant i z q nxt who s = (Inr x, t)"
  shows "zg_roots t = update_where (\<lambda>r. mr_context r = zs_context z \<and> mr_status r = ''CURRENT'')
      (\<lambda>r. r\<lparr>mr_status := ''HISTORICAL'', mr_expiresAt := Some (clock + 60 * 60 * 1000)\<rparr>) (zg_roots s)
      @ [\<lparr>mr_context = zs_context z, mr_root = zf_root q, mr_size = zf_size q, mr_frontier = JArr (ts_frontier nxt),
          mr_status = ''CURRENT'', mr_expiresAt = None, mr_source = zf_source q\<rparr>]"
    and "zg_attestations t = zg_attestations s @ [attestation z q who]"
    and "zg_settlements t = update_where (\<lambda>y. zs_tx y = ti_id i) (final_settlement q who) (zg_settlements s)"
    and "zg_receipts t = zg_receipts s" and "zg_nullifiers t = zg_nullifiers s" and "zg_outputs t = zg_outputs s"
    and "zg_auths t = zg_auths s"
  using assms
  by (auto simp: record_finality_def Let_def eff_simps publish_root_def add_attestation_def
      split: if_splits dest!: announce_fields)

section \<open>Frames\<close>

definition rail_of :: "zk_db \<Rightarrow> root_row list \<times> zk_authorization list \<times> zk_receipt list \<times> nullifier_row list
    \<times> output_row list \<times> zk_settlement list \<times> attestation_row list" where
  "rail_of s = (zg_roots s, zg_auths s, zg_receipts s, zg_nullifiers s, zg_outputs s, zg_settlements s, zg_attestations s)"

lemma preserves_case_prod [preserves_intros]: "(\<And>a b. preserves f (g a b)) \<Longrightarrow> preserves f (case x of (a, b) \<Rightarrow> g a b)"
  by (simp split: prod.splits)

lemma announce_frame [preserves_intros]: "preserves rail_of (announce sha now eventId tenant ev tx metadata topic payload)"
  unfolding announce_def by (intro preserves_intros) (simp_all add: rail_of_def)

lemma audit_frames [preserves_intros]:
  "preserves rail_of (key_audit sha tenant ev c metadata)"
  "preserves rail_of (parameter_audit sha tenant ev c kvs payload)"
  unfolding key_audit_def parameter_audit_def by (intro preserves_intros; simp add: rail_of_def)+

lemma prepare_frame: "preserves rail_of (prepare sha svc now commit eventId q)"
  unfolding prepare_def prepare_new_def existing_answer_def
  by (intro preserves_intros preserves_modifyE | simp add: rail_of_def split: list.split prod.split)+

lemma registerOwnerKey_frame: "preserves rail_of (registerOwnerKey sha svc now commit tenant p sr c k by_whom inst)"
  unfolding registerOwnerKey_def by (intro preserves_intros preserves_modifyE | simp add: rail_of_def)+

lemma revokeOwnerKey_frame: "preserves rail_of (revokeOwnerKey sha svc commit tenant p k by_whom why)"
  unfolding revokeOwnerKey_def by (intro preserves_intros preserves_modifyE | simp add: rail_of_def)+

lemma governance_propose_frame: "preserves rail_of (governance_propose sha ad home commit uuid tenant kind input by_whom)"
  unfolding governance_propose_def by (intro preserves_intros preserves_modifyE | simp add: rail_of_def)+

lemma proposeFinalization_frame:
  "preserves rail_of (proposeFinalization sha now commit uuid eventId txv tenv root sz src exe by_whom)"
  unfolding proposeFinalization_def by (intro preserves_intros preserves_modifyE | simp add: rail_of_def)+

lemma cancelProposal_frame [preserves_intros]: "preserves rail_of (cancelProposal sha now eventId tenant tx pid by_whom why)"
  unfolding cancelProposal_def by (intro preserves_intros preserves_modifyE | simp add: rail_of_def)+

lemma cancelFinalization_frame: "preserves rail_of (cancelFinalization sha now commit eventId txv tenv by_whom why)"
  unfolding cancelFinalization_def by (intro preserves_intros | simp add: rail_of_def)+


section \<open>The note tree of a context\<close>

definition text_value :: "string \<Rightarrow> int" where
  "text_value s = (case bigint_of_string s of None \<Rightarrow> 0 | Some n \<Rightarrow> n)"

definition leaf_value :: "output_row \<Rightarrow> int" where
  "leaf_value r = merkleLeaf (text_value (zo_x r)) (text_value (zo_y r))"

definition attested :: "zk_db \<Rightarrow> string \<Rightarrow> attestation_row list" where
  "attested s context_id = filter (\<lambda>x. zx_context x = context_id) (zg_attestations s)"

definition note_leaves :: "zk_db \<Rightarrow> string \<Rightarrow> int list" where
  \<comment> \<open>the outputs of the settlements made final in a context, in their order\<close>
  "note_leaves s context_id =
     concat (map (\<lambda>x. map leaf_value (outputs_of s (zx_receipt x) context_id)) (attested s context_id))"

definition stands_for :: "root_row \<Rightarrow> int list \<Rightarrow> bool" where
  "stands_for r xs = (mr_size r = ts_treeSize (tree_of xs) \<and> mr_frontier r = JArr (ts_frontier (tree_of xs))
     \<and> mr_root r = ts_root (tree_of xs))"

definition tree_ok :: "zk_db \<Rightarrow> string \<Rightarrow> bool" where
  "tree_ok s c = (case current_roots s c of
     [] \<Rightarrow> attested s c = [] \<and> filter (\<lambda>r. mr_context r = c) (zg_roots s) = []
   | [r] \<Rightarrow> stands_for r (note_leaves s c) \<and> length (note_leaves s c) < 2 ^ MERKLE_TREE_DEPTH
   | _ \<Rightarrow> False)"

lemma merkleLeaf_field: "is_field (merkleLeaf x y)"
  unfolding merkleLeaf_def by (rule poseidon3_field)

lemma leaves_field: "list_all is_field (map leaf_value rows)"
  by (simp add: list_all_iff leaf_value_def merkleLeaf_field)

lemma note_leaves_field: "list_all is_field (note_leaves s c)"
  using leaves_field by (auto simp: note_leaves_def list_all_iff leaf_value_def merkleLeaf_field)

lemma leaf_text_value: "leaf_text r = Inr t \<Longrightarrow> t = int_text (leaf_value r)"
  by (auto simp: leaf_text_def outcome_simps syntax_int_def leaf_value_def text_value_def split: option.splits)

lemma leaf_texts_values: "mapR leaf_text rows = Inr ts \<Longrightarrow> map JStr ts = leaf_texts (map leaf_value rows)"
  by (induction rows arbitrary: ts) (auto simp: outcome_simps dest: leaf_text_value)

lemma append_each_size: "append_each ls (n, levels) = Inr (n', levels') \<Longrightarrow> n' = n + length ls"
  by (induction ls arbitrary: n levels) (fastforce simp: outcome_simps)+

lemma append_capacity:
  assumes "appendMerkleLeaves (JNum sz) frontier root (JArr ls) = Inr nxt"
  shows "nat sz + length ls < 2 ^ MERKLE_TREE_DEPTH"
  using assms
  by (auto simp: appendMerkleLeaves_def outcome_simps Let_def merkleRootFromFrontier_def parseTreeSize_def MAX_TREE_SIZE_def
      simp flip: of_nat_less_iff split: prod.splits dest!: append_each_size)

lemma extended:
  assumes base: "stands_for base xs" and field: "list_all is_field xs"
    and ext: "extend_tree base outs = Inr nxt" and ne: "outs \<noteq> []"
  shows "nxt = tree_of (xs @ map leaf_value outs) \<and> length (xs @ map leaf_value outs) < 2 ^ MERKLE_TREE_DEPTH"
proof -
  from ext obtain ts where ts: "mapR leaf_text outs = Inr ts"
    and app: "appendMerkleLeaves (JNum (mr_size base)) (mr_frontier base) (JStr (mr_root base)) (JArr (map JStr ts)) = Inr nxt"
    by (auto simp: extend_tree_def outcome_simps split: sum.splits)
  have leaves: "map JStr ts = leaf_texts (map leaf_value outs)" by (rule leaf_texts_values [OF ts])
  have size: "nat (mr_size base) = length xs" using base by (simp add: stands_for_def tree_of_def)
  have len: "length xs + length outs < 2 ^ MERKLE_TREE_DEPTH"
    using append_capacity [OF app] size leaves mapR_length [OF ts] by simp
  have "appendMerkleLeaves (JNum (mr_size base)) (mr_frontier base) (JStr (mr_root base)) (JArr (map JStr ts))
      = Inr (tree_of (xs @ map leaf_value outs))"
    unfolding leaves using append_tree [OF field leaves_field] base ne len
    by (simp add: stands_for_def MERKLE_TREE_DEPTH_def)
  with app len show ?thesis by simp
qed

section \<open>Nullifiers\<close>

definition nullifier_names :: "string list" where
  "nullifier_names = [''inputNullifier0'', ''inputNullifier1'']"

definition spent_under :: "zk_db \<Rightarrow> zk_authorization \<Rightarrow> string \<Rightarrow> bool" where
  \<comment> \<open>both inputs of the authorisation are spent by this receipt, which is the one of its transaction\<close>
  "spent_under s a r =
     ((\<exists>q \<in> set (zg_receipts s). zq_id q = r \<and> zq_tx q = zt_tx a)
      \<and> (\<forall>name \<in> set nullifier_names. \<lparr>zn_context = signal (zt_inputs a) ''contextId'',
           zn_nullifier = signal (zt_inputs a) name, zn_receipt = r\<rparr> \<in> set (zg_nullifiers s)))"

definition rail_ok :: "zk_db \<Rightarrow> bool" where
  "rail_ok s =
     (distinct (map (\<lambda>n. (zn_context n, zn_nullifier n)) (zg_nullifiers s))
      \<and> distinct (map zq_id (zg_receipts s)) \<and> distinct (map zt_tx (zg_auths s))
      \<and> (\<forall>a \<in> set (zg_auths s). zt_status a = ''VERIFIED'' \<longrightarrow> (\<exists>r. zt_receipt a = Some r \<and> spent_under s a r))
      \<and> (\<forall>z \<in> set (zg_settlements s). zs_receipt z \<in> zq_id ` set (zg_receipts s))
      \<and> (\<forall>x \<in> set (zg_attestations s). zx_receipt x \<in> zq_id ` set (zg_receipts s))
      \<and> (\<forall>c. tree_ok s c))"

definition in_flight_ok :: "zk_authorization list \<Rightarrow> zk_db \<Rightarrow> bool" where
  \<comment> \<open>the authorisations being verified are stored, whatever became of their status\<close>
  "in_flight_ok flight s = (\<forall>a \<in> set flight. \<exists>b \<in> set (zg_auths s). zt_tx b = zt_tx a \<and> zt_inputs b = zt_inputs a)"

lemma tree_ok_cong:
  assumes "zg_roots t = zg_roots s" and "zg_attestations t = zg_attestations s"
    and "\<And>x. x \<in> set (zg_attestations s) \<Longrightarrow> outputs_of t (zx_receipt x) c = outputs_of s (zx_receipt x) c"
  shows "tree_ok t c = tree_ok s c"
proof -
  have roots: "current_roots t c = current_roots s c" using assms(1) by (simp add: current_roots_def)
  have att: "attested t c = attested s c" using assms(2) by (simp add: attested_def)
  have leaves: "note_leaves t c = note_leaves s c" unfolding note_leaves_def att
    by (rule arg_cong [where f = concat], rule map_cong [OF refl]) (simp add: assms(3) attested_def)
  show ?thesis unfolding tree_ok_def roots att leaves assms(1) by (rule refl)
qed

lemma rail_ok_cong:
  assumes "rail_of t = rail_of s"
  shows "rail_ok t = rail_ok s" and "in_flight_ok flight t = in_flight_ok flight s"
proof -
  have f: "zg_roots t = zg_roots s" "zg_auths t = zg_auths s" "zg_receipts t = zg_receipts s" "zg_nullifiers t = zg_nullifiers s"
    "zg_outputs t = zg_outputs s" "zg_settlements t = zg_settlements s" "zg_attestations t = zg_attestations s"
    using assms by (simp_all add: rail_of_def)
  have "tree_ok t c = tree_ok s c" for c by (rule tree_ok_cong) (simp_all add: f outputs_of_def)
  then show "rail_ok t = rail_ok s" by (simp add: rail_ok_def f spent_under_def)
  show "in_flight_ok flight t = in_flight_ok flight s" by (simp add: in_flight_ok_def f)
qed

lemma framed:
  assumes "preserves rail_of m" and "m s = (r, t)" and "rail_ok s" and "in_flight_ok flight s"
  shows "rail_ok t \<and> in_flight_ok flight t"
  using rail_ok_cong [OF preservesD [OF assms(1,2)]] assms(3,4) by simp

section \<open>Governance\<close>

lemma open_context_result:
  assumes "open_context tenant p who s = (Inr u, t)"
  shows "\<exists>c. zg_roots t = zg_roots s @ [genesis_root c (zm_id p)] \<and> filter (\<lambda>r. mr_context r = c) (zg_roots s) = []
    \<and> zg_auths t = zg_auths s \<and> zg_receipts t = zg_receipts s \<and> zg_nullifiers t = zg_nullifiers s
    \<and> zg_outputs t = zg_outputs s \<and> zg_settlements t = zg_settlements s \<and> zg_attestations t = zg_attestations s"
proof -
  have "text_field (zm_payload p) ''contextId'' \<notin> mr_context ` set (zg_roots s)"
    using assms unfolding open_context_def Let_def assertContextAvailable_def
    by (auto simp: eff_simps outcome_simps split: if_splits)
  then have "filter (\<lambda>r. mr_context r = text_field (zm_payload p) ''contextId'') (zg_roots s) = []"
    by (simp add: filter_empty_conv) (metis image_eqI)
  then show ?thesis using assms
    by (auto simp: open_context_def Let_def eff_simps split: if_splits)
qed

lemma genesis_stands: "stands_for (genesis_root c pid) []"
  by (simp add: stands_for_def genesis_root_def empty_tree tree_of_def)

lemma genesis_ok:
  assumes ok: "rail_ok s" and roots: "zg_roots t = zg_roots s @ [genesis_root c pid]"
    and fresh: "filter (\<lambda>r. mr_context r = c) (zg_roots s) = []"
    and same: "zg_auths t = zg_auths s" "zg_receipts t = zg_receipts s" "zg_nullifiers t = zg_nullifiers s"
      "zg_outputs t = zg_outputs s" "zg_settlements t = zg_settlements s" "zg_attestations t = zg_attestations s"
  shows "rail_ok t"
proof -
  have trees: "tree_ok s d" for d using ok by (simp add: rail_ok_def)
  have "tree_ok t d" for d
  proof (cases "d = c")
    case True
    have none: "current_roots s c = []" using fresh by (auto simp: current_roots_def filter_empty_conv)
    then have att: "attested s c = []" using trees [of c] by (simp add: tree_ok_def)
    have "current_roots t c = [genesis_root c pid]"
      using none by (simp add: current_roots_def roots genesis_root_def)
    moreover have "note_leaves t c = []" using att by (simp add: note_leaves_def attested_def same)
    ultimately show ?thesis using genesis_stands True by (simp add: tree_ok_def)
  next
    case False
    then have rts: "current_roots t d = current_roots s d" "filter (\<lambda>r. mr_context r = d) (zg_roots t) = filter (\<lambda>r. mr_context r = d) (zg_roots s)"
      by (simp_all add: current_roots_def roots genesis_root_def)
    have rest: "attested t d = attested s d" "note_leaves t d = note_leaves s d"
      by (simp_all add: attested_def note_leaves_def outputs_of_def same)
    show ?thesis using trees [of d] unfolding tree_ok_def rts rest .
  qed
  then show ?thesis using ok by (simp add: rail_ok_def same spent_under_def)
qed

section \<open>Every operation keeps the invariants\<close>

definition rail_inv :: "zk_authorization list \<Rightarrow> zk_db \<Rightarrow> bool" where
  "rail_inv flight s = (rail_ok s \<and> in_flight_ok flight s)"

lemma frame_keeps: "preserves rail_of m \<Longrightarrow> keeps (rail_inv flight) m"
  unfolding keeps_def rail_inv_def by (blast dest: framed)

lemmas framed_operations =
  prepare_frame registerOwnerKey_frame revokeOwnerKey_frame governance_propose_frame proposeFinalization_frame
  cancelFinalization_frame

lemma open_context_keeps: "keeps (rail_inv flight) (open_context tenant p who)"
proof (rule keepsI)
  fix s r t assume inv: "rail_inv flight s" and run: "open_context tenant p who s = (r, t)"
  show "rail_inv flight t"
  proof (cases r)
    case (Inl e)
    then have "t = s" using run by (auto simp: open_context_def Let_def eff_simps split: if_splits)
    then show ?thesis using inv by simp
  next
    case (Inr u)
    then obtain c where res: "zg_roots t = zg_roots s @ [genesis_root c (zm_id p)]"
        "filter (\<lambda>r. mr_context r = c) (zg_roots s) = []" "zg_auths t = zg_auths s" "zg_receipts t = zg_receipts s"
        "zg_nullifiers t = zg_nullifiers s" "zg_outputs t = zg_outputs s" "zg_settlements t = zg_settlements s"
        "zg_attestations t = zg_attestations s"
      using open_context_result run by blast
    then show ?thesis using inv genesis_ok [OF _ res] by (simp add: rail_inv_def in_flight_ok_def)
  qed
qed

lemma activate_circuit_frame: "preserves rail_of (activate_circuit sha ad p)"
  unfolding activate_circuit_def Let_def by (intro preserves_intros preserves_modifyE | simp add: rail_of_def)+

lemma governance_decide_keeps:
  "keeps (rail_inv flight) (governance_decide sha ad home commit tenant pid decision reason who)"
  unfolding governance_decide_def Let_def
  by (intro keeps_intros keeps_withE open_context_keeps frame_keeps [OF activate_circuit_frame]
      frame_keeps [OF audit_frames(2)] keeps_modifyE serializable_keeps
    | simp add: rail_inv_def rail_ok_cong [of "s\<lparr>zg_parameters := p\<rparr>" s for s p] rail_of_def)+

lemma stored_unverified:
  assumes "rail_ok s" and roots: "rail_of t = (case rail_of s of (r, au, q, n, out, z, x) \<Rightarrow> (r, au @ [a], q, n, out, z, x))"
    and fresh: "zt_tx a \<notin> zt_tx ` set (zg_auths s)" and st: "zt_status a \<noteq> ''VERIFIED''"
  shows "rail_ok t"
proof -
  have f: "zg_roots t = zg_roots s" "zg_auths t = zg_auths s @ [a]" "zg_receipts t = zg_receipts s" "zg_nullifiers t = zg_nullifiers s"
    "zg_outputs t = zg_outputs s" "zg_settlements t = zg_settlements s" "zg_attestations t = zg_attestations s"
    using roots by (simp_all add: rail_of_def)
  have "tree_ok t c = tree_ok s c" for c by (rule tree_ok_cong) (simp_all add: f outputs_of_def)
  then show ?thesis using assms(1) fresh st by (auto simp: rail_ok_def f spent_under_def)
qed

lemma keeps_withE_run: "(\<And>s r t. I s \<Longrightarrow> g s s = (r, t) \<Longrightarrow> I t) \<Longrightarrow> keeps I (withE g)"
  unfolding keeps_def withE_def by blast

lemma in_flight_more: "in_flight_ok flight s \<Longrightarrow> zg_auths t = zg_auths s @ as \<Longrightarrow> in_flight_ok flight t"
  by (auto simp: in_flight_ok_def)

lemma authorize_keeps: "keeps (rail_inv flight) (authorize sha g now commit txv tenv inputs actor)"
proof -
  have body: "keeps (rail_inv flight) (withE (\<lambda>s.
     bindE (liftE (check_authorize s (ga_adapter g) now tx tenant normalized actor)) (\<lambda>i.
     thenE (ensureE (\<not> (\<exists>a \<in> set (zg_auths s). zt_tx a = tx)) ''ZK_TRANSACTION_ALREADY_AUTHORIZED'')
    (thenE (modifyE (\<lambda>s. s\<lparr>zg_auths := zg_auths s @
        [\<lparr>zt_tx = tx, zt_tenant = tenant, zt_circuit = gate_circuit (ga_adapter g), zt_version = gate_version (ga_adapter g),
          zt_inputs = normalized, zt_hash = h, zt_status = ''PENDING'', zt_receipt = None,
          zt_by = zi_authorizedBy i\<rparr>]\<rparr>))
    (retE h)))))" for tx tenant normalized h
  proof (rule keeps_withE_run)
    fix s r t assume inv: "rail_inv flight s" and run: "bindE (liftE (check_authorize s (ga_adapter g) now tx tenant normalized actor)) (\<lambda>i.
     thenE (ensureE (\<not> (\<exists>a \<in> set (zg_auths s). zt_tx a = tx)) ''ZK_TRANSACTION_ALREADY_AUTHORIZED'')
    (thenE (modifyE (\<lambda>s. s\<lparr>zg_auths := zg_auths s @
        [\<lparr>zt_tx = tx, zt_tenant = tenant, zt_circuit = gate_circuit (ga_adapter g), zt_version = gate_version (ga_adapter g),
          zt_inputs = normalized, zt_hash = h, zt_status = ''PENDING'', zt_receipt = None,
          zt_by = zi_authorizedBy i\<rparr>]\<rparr>))
    (retE h))) s = (r, t)"
    show "rail_inv flight t"
    proof (cases r)
      case (Inl e)
      then have "t = s" using run by (auto simp: eff_simps)
      then show ?thesis using inv by simp
    next
      case (Inr x)
      then obtain a where a: "t = s\<lparr>zg_auths := zg_auths s @ [a]\<rparr>" "zt_tx a \<notin> zt_tx ` set (zg_auths s)" "zt_status a \<noteq> ''VERIFIED''"
        using run by (force simp: eff_simps)
      have "rail_ok t" using stored_unverified [OF _ _ a(2,3)] inv by (simp add: a(1) rail_of_def rail_inv_def)
      moreover have "in_flight_ok flight t" using inv by (auto simp: in_flight_more rail_inv_def a(1))
      ultimately show ?thesis by (simp add: rail_inv_def)
    qed
  qed
  show ?thesis unfolding authorize_def
    by (intro keeps_intros serializable_keeps body)
qed

section \<open>Accepting\<close>

lemma own_transaction_id: "own_transaction s tx tenant = Inr (i, p) \<Longrightarrow> ti_id i = tx"
proof -
  assume "own_transaction s tx tenant = Inr (i, p)"
  then have "transaction_rows s tx = [(i, p)]"
    by (auto simp: own_transaction_def outcome_simps split: list.splits prod.splits)
  then have "(i, p) \<in> set (transaction_rows s tx)" by simp
  then show ?thesis by (auto simp: transaction_rows_def intents_of_def)
qed

lemma acceptance_checks:
  assumes "check_accept s g now tx tenant a v = Inr i"
  shows "ti_id i = tx" and "map zt_status (filter (\<lambda>b. zt_tx b = tx \<and> zt_tenant b = tenant) (zg_auths s)) = [''PENDING'']"
proof -
  obtain t p where own: "own_transaction s tx tenant = Inr (t, p)"
    and rest: "(case current_instruction s t tenant (zt_inputs a) now of
       [i] \<Rightarrow> bindR (assertInstructionParties s (ti_product t) (zp_rules p) i now) (\<lambda>_.
         bindR (guards [
           (\<not> approved_circuit s (ga_adapter g) v, ''UNAPPROVED_PROOF_CIRCUIT''),
           (map zt_status (filter (\<lambda>b. zt_tx b = tx \<and> zt_tenant b = tenant) (zg_auths s)) \<noteq> [''PENDING''], ''ZK_TRANSACTION_NOT_AUTHORIZED''),
           (\<not> root_accepted s (signal (zt_inputs a) ''contextId'') (signal (zt_inputs a) ''merkleRoot'') now, ''UNACCEPTED_MERKLE_ROOT'')]) (\<lambda>_.
         Inr t))
     | _ \<Rightarrow> Inl (Coded ''INVALID_ZK_EXECUTION_INSTRUCTION'')) = Inr i"
    using assms by (force simp: check_accept_def outcome_simps)
  obtain x where "current_instruction s t tenant (zt_inputs a) now = [x]"
    using rest by (cases "current_instruction s t tenant (zt_inputs a) now"; cases "tl (current_instruction s t tenant (zt_inputs a) now)") auto
  then have "t = i" and st: "map zt_status (filter (\<lambda>b. zt_tx b = tx \<and> zt_tenant b = tenant) (zg_auths s)) = [''PENDING'']"
    using rest by (simp_all add: outcome_simps guards_Inr)
  then show "ti_id i = tx" using own_transaction_id [OF own] by simp
  show "map zt_status (filter (\<lambda>b. zt_tx b = tx \<and> zt_tenant b = tenant) (zg_auths s)) = [''PENDING'']" by (rule st)
qed

lemma spent_under_more:
  assumes "spent_under s a r" and "set (zg_receipts s) \<subseteq> set (zg_receipts t)" and "set (zg_nullifiers s) \<subseteq> set (zg_nullifiers t)"
  shows "spent_under t a r"
  using assms unfolding spent_under_def by blast

lemma same_row:
  "distinct (map zt_tx rows) \<Longrightarrow> a \<in> set rows \<Longrightarrow> b \<in> set rows \<Longrightarrow> zt_tx a = zt_tx b \<Longrightarrow> a = b"
  by (simp add: distinct_map inj_on_def)

lemma outputs_of_frame:
  assumes "zg_outputs t = zg_outputs s @ new" and "\<And>n. n \<in> set new \<Longrightarrow> zo_receipt n \<noteq> r"
  shows "outputs_of t r c = outputs_of s r c"
proof -
  have "filter (\<lambda>n. zo_receipt n = r \<and> zo_context n = c) new = []" using assms(2) by (auto simp: filter_empty_conv)
  then show ?thesis by (simp add: outputs_of_def assms(1))
qed

lemma accepted_ok:
  assumes ok: "rail_ok s" and row: "b \<in> set (zg_auths s)" "zt_tx b = ti_id i" "zt_inputs b = zt_inputs a"
    and run: "record_acceptance sha isoText now eventId rid tenant a v i s = (Inr x, t)"
  shows "rail_ok t"
proof -
  note res = record_acceptance_result [OF run]
  obtain n0 n1 where nul: "zg_nullifiers t = zg_nullifiers s @ [n0, n1]"
    "n0 = \<lparr>zn_context = signal (zt_inputs a) ''contextId'', zn_nullifier = signal (zt_inputs a) ''inputNullifier0'', zn_receipt = rid\<rparr>"
    "n1 = \<lparr>zn_context = signal (zt_inputs a) ''contextId'', zn_nullifier = signal (zt_inputs a) ''inputNullifier1'', zn_receipt = rid\<rparr>"
    "\<And>n. n \<in> set (zg_nullifiers s) \<Longrightarrow> (zn_context n, zn_nullifier n) \<noteq> (zn_context n0, zn_nullifier n0)
       \<and> (zn_context n, zn_nullifier n) \<noteq> (zn_context n1, zn_nullifier n1)"
    "zn_nullifier n0 \<noteq> zn_nullifier n1" using res(3) by blast
  have old: "distinct (map (\<lambda>n. (zn_context n, zn_nullifier n)) (zg_nullifiers s))" "distinct (map zq_id (zg_receipts s))"
    "distinct (map zt_tx (zg_auths s))" "\<And>c. tree_ok s c"
    "\<And>x. x \<in> set (zg_attestations s) \<Longrightarrow> zx_receipt x \<in> zq_id ` set (zg_receipts s)"
    "\<And>z. z \<in> set (zg_settlements s) \<Longrightarrow> zs_receipt z \<in> zq_id ` set (zg_receipts s)"
    using ok by (simp_all add: rail_ok_def)
  have nullifiers: "distinct (map (\<lambda>n. (zn_context n, zn_nullifier n)) (zg_nullifiers t))"
  proof -
    have "(zn_context n0, zn_nullifier n0) \<notin> (\<lambda>n. (zn_context n, zn_nullifier n)) ` set (zg_nullifiers s)"
      "(zn_context n1, zn_nullifier n1) \<notin> (\<lambda>n. (zn_context n, zn_nullifier n)) ` set (zg_nullifiers s)"
      using nul(4) by (metis (no_types, lifting) imageE)+
    then show ?thesis using old(1) nul(5) by (simp add: nul(1))
  qed
  have receipts: "distinct (map zq_id (zg_receipts t))" using old(2) res(2) by (simp add: res(1) new_receipt_def)
  have auths: "distinct (map zt_tx (zg_auths t))"
  proof -
    have "map zt_tx (zg_auths t) = map zt_tx (zg_auths s)" by (simp add: res(5) update_where_def verified_authorization_def)
    then show ?thesis using old(3) by simp
  qed
  have more: "set (zg_receipts s) \<subseteq> set (zg_receipts t)" "set (zg_nullifiers s) \<subseteq> set (zg_nullifiers t)"
    by (auto simp: res(1) nul(1))
  have spent: "\<exists>r. zt_receipt e = Some r \<and> spent_under t e r" if "e \<in> set (zg_auths t)" "zt_status e = ''VERIFIED''" for e
  proof -
    have "e \<in> (\<lambda>d. if zt_tx d = ti_id i then verified_authorization rid d else d) ` set (zg_auths s)"
      using that(1) by (simp add: res(5) update_where_def)
    then obtain d where d: "d \<in> set (zg_auths s)" "e = (if zt_tx d = ti_id i then verified_authorization rid d else d)"
      by (rule imageE) simp
    show ?thesis
    proof (cases "zt_tx d = ti_id i")
      case True
      then have "d = b" using same_row [OF old(3) d(1) row(1)] row(2) by simp
      then have "e = verified_authorization rid b" using d(2) True by simp
      then show ?thesis using row(2,3)
        by (auto simp: verified_authorization_def spent_under_def res(1) new_receipt_def nul(1-3) nullifier_names_def)
    next
      case False
      then have "\<exists>r. zt_receipt d = Some r \<and> spent_under s d r" using ok d(1) that(2) d(2) by (simp add: rail_ok_def)
      then show ?thesis using spent_under_more [OF _ more] d(2) False by auto
    qed
  qed
  have trees: "tree_ok t c" for c
  proof -
    have "outputs_of t (zx_receipt y) c = outputs_of s (zx_receipt y) c" if "y \<in> set (zg_attestations s)" for y
    proof -
      have "zx_receipt y \<noteq> rid" using old(5) [OF that] res(2) by auto
      then show ?thesis by (intro outputs_of_frame [OF res(4)]) (auto simp: output_at_def)
    qed
    then show ?thesis using tree_ok_cong [OF res(7,8)] old(4) by simp
  qed
  show ?thesis
    unfolding rail_ok_def
    using nullifiers receipts auths spent trees old(5,6) by (auto simp: res(1,6,8) new_settlement_def new_receipt_def)
qed

lemma in_flight_cong:
  assumes "map (\<lambda>b. (zt_tx b, zt_inputs b)) (zg_auths t) = map (\<lambda>b. (zt_tx b, zt_inputs b)) (zg_auths s)"
  shows "in_flight_ok flight t = in_flight_ok flight s"
proof -
  have "in_flight_ok flight u = (\<forall>a \<in> set flight. (zt_tx a, zt_inputs a) \<in> set (map (\<lambda>b. (zt_tx b, zt_inputs b)) (zg_auths u)))" for u
    by (auto simp: in_flight_ok_def image_iff) metis+
  then show ?thesis by (simp only: assms)
qed

lemma verified_columns:
  "zg_auths t = update_where p (verified_authorization rid) (zg_auths s) \<Longrightarrow>
     map (\<lambda>b. (zt_tx b, zt_inputs b)) (zg_auths t) = map (\<lambda>b. (zt_tx b, zt_inputs b)) (zg_auths s)"
  by (simp add: update_where_def verified_authorization_def)

lemma accept_commit_keeps:
  assumes inv: "rail_inv flight s" and a: "a \<in> set flight"
    and run: "accept_commit sha isoText g now commit uuid eventId (zt_tx a) tenant a v s = (r, t)"
  shows "rail_inv flight t"
proof -
  consider "t = s" | i x where "check_accept s g now (zt_tx a) tenant a v = Inr i"
    "record_acceptance sha isoText now eventId (''zk-proof:'' @ zt_tx a @ '':'' @ uuid) tenant a v i s = (Inr x, t)"
    using transaction_result [OF run [unfolded accept_commit_def]] by (auto simp: eff_simps)
  then show ?thesis
  proof cases
    case 1
    then show ?thesis using inv by simp
  next
    case 2
    obtain b where b: "b \<in> set (zg_auths s)" "zt_tx b = zt_tx a" "zt_inputs b = zt_inputs a"
      using inv a by (auto simp: rail_inv_def in_flight_ok_def)
    have "rail_ok t" using accepted_ok [OF _ b(1) _ b(3) 2(2)] inv b(2) acceptance_checks(1) [OF 2(1)] by (simp add: rail_inv_def)
    moreover have "in_flight_ok flight t"
      using in_flight_cong [OF verified_columns [OF record_acceptance_result(5) [OF 2(2)]]] inv by (simp add: rail_inv_def)
    ultimately show ?thesis by (simp add: rail_inv_def)
  qed
qed

section \<open>Finalising\<close>

lemma extension_result:
  assumes "verifiedTreeExtension s c receipt = Inr (base, nxt)"
  shows "current_roots s c = [base]" and "extend_tree base (outputs_of s receipt c) = Inr nxt"
    and "map zo_index (outputs_of s receipt c) = [0, 1]"
proof -
  obtain b where b: "current_roots s c = [b]"
    using assms by (auto simp: verifiedTreeExtension_def split: list.splits)
  then show "current_roots s c = [base]" "extend_tree base (outputs_of s receipt c) = Inr nxt"
    "map zo_index (outputs_of s receipt c) = [0, 1]"
    using assms by (auto simp: verifiedTreeExtension_def outcome_simps)
qed

lemma published_root:
  assumes "zg_roots t = update_where (\<lambda>r. mr_context r = c \<and> mr_status r = ''CURRENT'') (\<lambda>r. r\<lparr>mr_status := ''HISTORICAL'', mr_expiresAt := e\<rparr>)
      (zg_roots s) @ [new]" and "mr_context new = c" and "mr_status new = ''CURRENT''"
  shows "current_roots t c = [new]"
    and "d \<noteq> c \<Longrightarrow> current_roots t d = current_roots s d"
    and "d \<noteq> c \<Longrightarrow> (filter (\<lambda>r. mr_context r = d) (zg_roots t) = []) = (filter (\<lambda>r. mr_context r = d) (zg_roots s) = [])"
proof -
  let ?h = "\<lambda>r. if mr_context r = c \<and> mr_status r = ''CURRENT'' then r\<lparr>mr_status := ''HISTORICAL'', mr_expiresAt := e\<rparr> else r"
  have roots: "zg_roots t = map ?h (zg_roots s) @ [new]" using assms(1) by (simp add: update_where_def)
  have none: "filter (\<lambda>r. mr_context r = c \<and> mr_status r = ''CURRENT'') (map ?h xs) = []" for xs
    by (induction xs) auto
  show "current_roots t c = [new]" using none assms(2,3) by (simp add: current_roots_def roots)
  have other: "filter (\<lambda>r. mr_context r = d \<and> mr_status r = ''CURRENT'') (map ?h xs)
      = filter (\<lambda>r. mr_context r = d \<and> mr_status r = ''CURRENT'') xs" if "d \<noteq> c" for xs d
    using that by (induction xs) auto
  show "d \<noteq> c \<Longrightarrow> current_roots t d = current_roots s d"
    using other [of d] assms(2) by (simp add: current_roots_def roots)
  show "d \<noteq> c \<Longrightarrow> (filter (\<lambda>r. mr_context r = d) (zg_roots t) = []) = (filter (\<lambda>r. mr_context r = d) (zg_roots s) = [])"
    using assms(2) by (auto simp: roots filter_empty_conv)
qed

lemma finalized_ok:
  assumes ok: "rail_ok s" and z: "z \<in> set (zg_settlements s)"
    and ext: "verifiedTreeExtension s (zs_context z) (zs_receipt z) = Inr (base, nxt)"
    and match: "ts_root nxt = zf_root q" "ts_treeSize nxt = zf_size q"
    and run: "record_finality sha isoText now clock eventId tenant i z q nxt who s = (Inr x, t)"
  shows "rail_ok t"
proof -
  note res = record_finality_result [OF run]
  define c where "c = zs_context z"
  define outs where "outs = outputs_of s (zs_receipt z) c"
  have trees: "tree_ok s d" for d using ok by (simp add: rail_ok_def)
  note base = extension_result [OF ext]
  have outputs: "outputs_of t = outputs_of s" by (simp add: fun_eq_iff outputs_of_def res(6))
  note roots = published_root [OF res(1)]
  have new: "tree_ok t c"
  proof -
    have leaves: "note_leaves t c = note_leaves s c @ map leaf_value outs"
      by (simp add: note_leaves_def attested_def res(2) outputs attestation_def c_def outs_def)
    have "stands_for base (note_leaves s c)" using trees [of c] base(1) by (simp add: tree_ok_def c_def)
    moreover have "outs \<noteq> []" using base(3) by (auto simp: outs_def c_def)
    ultimately have "nxt = tree_of (note_leaves t c) \<and> length (note_leaves t c) < 2 ^ MERKLE_TREE_DEPTH"
      using extended [OF _ note_leaves_field, of base s c outs nxt] base(2) by (simp add: leaves [unfolded outs_def c_def] outs_def c_def)
    then show ?thesis using roots(1) match unfolding tree_ok_def c_def [symmetric] by (auto simp: stands_for_def c_def)
  qed
  have "tree_ok t d" for d
  proof (cases "d = c")
    case True
    then show ?thesis using new by simp
  next
    case False
    then have d: "d \<noteq> zs_context z" by (simp add: c_def)
    have att: "attested t d = attested s d" using d by (simp add: attested_def res(2) attestation_def)
    have leaves: "note_leaves t d = note_leaves s d" by (simp add: note_leaves_def att outputs)
    have cur: "current_roots t d = current_roots s d" using roots(2) d by simp
    have emp: "(filter (\<lambda>r. mr_context r = d) (zg_roots t) = []) = (filter (\<lambda>r. mr_context r = d) (zg_roots s) = [])"
      using roots(3) d by simp
    show ?thesis using trees [of d] unfolding tree_ok_def att leaves cur emp .
  qed
  moreover have "\<forall>y \<in> set (zg_settlements t). zs_receipt y \<in> zq_id ` set (zg_receipts t)"
    using ok by (auto simp: rail_ok_def res(3,4) update_where_def final_settlement_def)
  moreover have "\<forall>y \<in> set (zg_attestations t). zx_receipt y \<in> zq_id ` set (zg_receipts t)"
    using ok z by (auto simp: rail_ok_def res(2,4) attestation_def)
  ultimately show ?thesis using ok by (simp add: rail_ok_def spent_under_def res(4,5,7))
qed

lemma finality_row: "oneE (finality_rows s tx tenant) code s = (Inr (i, p, z, q), u) \<Longrightarrow> z \<in> set (zg_settlements s) \<and> u = s"
proof -
  assume "oneE (finality_rows s tx tenant) code s = (Inr (i, p, z, q), u)"
  then have rows: "finality_rows s tx tenant = [(i, p, z, q)]" and u: "u = s" by (simp_all add: eff_simps)
  have "(i, p, z, q) \<in> set (finality_rows s tx tenant)" by (simp add: rows)
  then show ?thesis using u by (auto simp: finality_rows_def)
qed

lemma finalize_in_result:
  assumes inv: "rail_inv flight s" and run: "finalize_in sha isoText now clock eventId tx tenant who s = (Inr x, t)"
  shows "rail_inv flight t"
proof -
  obtain i p z q base nxt where one: "oneE (finality_rows s tx tenant) ''UNKNOWN_ZK_TRANSACTION'' s = (Inr (i, p, z, q), s)"
    and ext: "verifiedTreeExtension s (zs_context z) (zs_receipt z) = Inr (base, nxt)"
    and rest: "(if mr_root base \<noteq> zf_baseRoot q \<or> mr_size base \<noteq> zf_baseSize q then
       thenE (cancelProposal sha now eventId tenant tx (zf_id q) ''system:stale-base-root'' stale_reason) (retE None)
     else
       thenE (ensureE (ts_root nxt = zf_root q \<and> ts_treeSize nxt = zf_size q) ''ROOT_PUBLICATION_MISMATCH'')
      (bindE (record_finality sha isoText now clock eventId tenant i z q nxt who) (\<lambda>h. retE (Some h)))) s = (Inr x, t)"
  proof -
    obtain row where row: "finality_rows s tx tenant = [row]" using run by (auto simp: finalize_in_def eff_simps)
    obtain i p z q where r: "row = (i, p, z, q)" by (cases row)
    obtain e where e: "verifiedTreeExtension s (zs_context z) (zs_receipt z) = Inr e"
      using run by (auto simp: finalize_in_def eff_simps row r)
    obtain base nxt where "e = (base, nxt)" by (cases e)
    then show thesis using run e that [of i p z q base nxt] by (simp add: finalize_in_def eff_simps row r)
  qed
  have z: "z \<in> set (zg_settlements s)" using finality_row [OF one] by simp
  show ?thesis
  proof (cases "mr_root base \<noteq> zf_baseRoot q \<or> mr_size base \<noteq> zf_baseSize q")
    case True
    then obtain y where "cancelProposal sha now eventId tenant tx (zf_id q) ''system:stale-base-root'' stale_reason s = (Inr y, t)"
      using rest by (auto simp: eff_simps)
    then show ?thesis by (rule keepsD [OF frame_keeps [OF cancelProposal_frame] inv])
  next
    case False
    then obtain h where match: "ts_root nxt = zf_root q" "ts_treeSize nxt = zf_size q"
      and rec: "record_finality sha isoText now clock eventId tenant i z q nxt who s = (Inr h, t)"
      using rest by (auto simp: eff_simps)
    have "rail_ok t" using finalized_ok [OF _ z ext match rec] inv by (simp add: rail_inv_def)
    moreover have "in_flight_ok flight t" using inv record_finality_result(7) [OF rec] by (simp add: rail_inv_def in_flight_ok_def)
    ultimately show ?thesis by (simp add: rail_inv_def)
  qed
qed

lemma finalize_keeps: "keeps (rail_inv flight) (finalize sha isoText now clock commit eventId txv tenv who)"
proof -
  have "keeps (rail_inv flight) (withSerializableTransaction 3 commit (finalize_in sha isoText now clock eventId tx tenant w))" for tx tenant w
  proof (rule keepsI)
    fix s r t assume "rail_inv flight s" and "withSerializableTransaction 3 commit (finalize_in sha isoText now clock eventId tx tenant w) s = (r, t)"
    then show "rail_inv flight t" by (auto dest!: transaction_result intro: finalize_in_result)
  qed
  then show ?thesis unfolding finalize_def
    by (intro keeps_intros)
qed

end
