(* ===== verification/ZkSteps.thy ===== *)
theory ZkSteps
  imports ZkInvariants
begin

text \<open>
  The confidential rail as a transition system. A world is the tables and the authorisations whose
  proofs are being verified: a verification reads an authorisation, any operations run meanwhile, and
  only then its transaction commits.
\<close>

section \<open>The steps\<close>

type_synonym zk_world = "zk_db \<times> zk_authorization list"

inductive zk_step :: "(string \<Rightarrow> string) \<Rightarrow> zk_world \<Rightarrow> zk_world \<Rightarrow> bool" for sha where
  prepares: "prepare sha svc now commit eventId q s = (r, t) \<Longrightarrow> zk_step sha (s, fl) (t, fl)"
| registers: "registerOwnerKey sha svc now commit tenant p sr c k by_whom inst s = (r, t) \<Longrightarrow> zk_step sha (s, fl) (t, fl)"
| revokes: "revokeOwnerKey sha svc commit tenant p k by_whom why s = (r, t) \<Longrightarrow> zk_step sha (s, fl) (t, fl)"
| proposes_parameters: "governance_propose sha ad home commit uuid tenant kind input by_whom s = (r, t) \<Longrightarrow> zk_step sha (s, fl) (t, fl)"
| decides: "governance_decide sha ad home commit tenant pid decision reason who s = (r, t) \<Longrightarrow> zk_step sha (s, fl) (t, fl)"
| authorizes: "authorize sha g now commit txv tenv inputs actor s = (r, t) \<Longrightarrow> zk_step sha (s, fl) (t, fl)"
| reads: "check_pending sha s tx tenant actor = Inr a \<Longrightarrow> zk_step sha (s, fl) (s, a # fl)"
| accepts: "a \<in> set fl \<Longrightarrow> verify_proof sha g active proof publicSignals a = Inr v \<Longrightarrow>
    accept_commit sha isoText g now commit uuid eventId (zt_tx a) (zt_tenant a) a v s = (r, t) \<Longrightarrow> zk_step sha (s, fl) (t, fl)"
| proposes: "proposeFinalization sha now commit uuid eventId txv tenv root sz src exe by_whom s = (r, t) \<Longrightarrow> zk_step sha (s, fl) (t, fl)"
| cancels: "cancelFinalization sha now commit eventId txv tenv by_whom why s = (r, t) \<Longrightarrow> zk_step sha (s, fl) (t, fl)"
| finalizes: "finalize sha isoText now clock commit eventId txv tenv who s = (r, t) \<Longrightarrow> zk_step sha (s, fl) (t, fl)"
| elsewhere: "rail_of t = rail_of s \<Longrightarrow> zk_step sha (s, fl) (t, fl)"
  \<comment> \<open>the rest of the system: products, credentials, the store\<close>

definition zk_start :: zk_world where
  "zk_start = (\<lparr>zg_store = empty_db [] [], zg_products = [], zg_accounts = [], zg_roles = [], zg_contexts = [],
     zg_circuits = [], zg_instructions = [], zg_credentials = [], zg_keys = [], zg_roots = [], zg_auths = [],
     zg_receipts = [], zg_nullifiers = [], zg_outputs = [], zg_settlements = [], zg_proposals = [],
     zg_attestations = [], zg_parameters = []\<rparr>, [])"

inductive_cases zk_stepE: "zk_step sha w x"

lemma pending_is_stored: "check_pending sha s tx tenant actor = Inr a \<Longrightarrow> a \<in> set (zg_auths s)"
proof -
  assume run: "check_pending sha s tx tenant actor = Inr a"
  obtain i p where "pending_rows s tx tenant = [(a, i, p)]"
    using run by (auto simp: check_pending_def outcome_simps split: list.splits prod.splits)
  then have "(a, i, p) \<in> set (pending_rows s tx tenant)" by simp
  then show ?thesis by (auto simp: pending_rows_def)
qed

definition world_ok :: "zk_world \<Rightarrow> bool" where
  "world_ok w = rail_inv (snd w) (fst w)"

lemma kept_world: "m s = (r, t) \<Longrightarrow> world_ok (s, fl) \<Longrightarrow> keeps (rail_inv fl) m \<Longrightarrow> world_ok (t, fl)"
  unfolding world_ok_def fst_conv snd_conv by (rule keepsD)

lemmas kept_operations = governance_decide_keeps authorize_keeps finalize_keeps framed_operations [THEN frame_keeps]

lemma world_ok_read: "world_ok (s, fl) \<Longrightarrow> check_pending sha s tx tenant actor = Inr a \<Longrightarrow> world_ok (s, a # fl)"
  by (drule pending_is_stored) (auto simp: world_ok_def rail_inv_def in_flight_ok_def)

lemma world_ok_elsewhere:
  assumes "world_ok (s, fl)" and "rail_of t = rail_of s"
  shows "world_ok (t, fl)"
  using assms(1) unfolding world_ok_def rail_inv_def fst_conv snd_conv rail_ok_cong [OF assms(2)] .

lemma world_ok_accepts:
  "world_ok (s, fl) \<Longrightarrow> a \<in> set fl \<Longrightarrow> accept_commit sha isoText g now commit uuid eventId (zt_tx a) (zt_tenant a) a v s = (r, t)
    \<Longrightarrow> world_ok (t, fl)"
  by (simp add: world_ok_def accept_commit_keeps)

lemma world_ok_step:
  assumes "world_ok w" and "zk_step sha w x"
  shows "world_ok x"
  using assms(2,1)
  by (cases rule: zk_step.cases; hypsubst)
    (erule (1) world_ok_read | erule (1) world_ok_elsewhere | erule (1) world_ok_accepts, assumption
      | erule (1) kept_world, rule kept_operations)+

interpretation zk_rail: invariant_of "zk_step sha" zk_start world_ok for sha
proof unfold_locales
  show "world_ok zk_start"
    by (simp add: world_ok_def zk_start_def rail_inv_def rail_ok_def in_flight_ok_def tree_ok_def current_roots_def attested_def)
next
  show "world_ok t" if "world_ok s" and "zk_step sha s t" for s t using world_ok_step that .
qed

lemma reachable_rail: "reach (zk_step sha) zk_start (s, fl) \<Longrightarrow> rail_ok s"
  by (drule zk_rail.always) (simp add: world_ok_def rail_inv_def)

lemma spent_together:
  assumes ok: "rail_ok s" and a: "spent_under s a r" and b: "spent_under s b q"
    and "n \<in> set nullifier_names" and "m \<in> set nullifier_names"
    and same: "signal (zt_inputs a) n = signal (zt_inputs b) m"
    and ctx: "signal (zt_inputs a) ''contextId'' = signal (zt_inputs b) ''contextId''"
  shows "zt_tx a = zt_tx b"
proof -
  have keys: "inj_on (\<lambda>n. (zn_context n, zn_nullifier n)) (set (zg_nullifiers s))" and ids: "inj_on zq_id (set (zg_receipts s))"
    using ok by (simp_all add: rail_ok_def distinct_map)
  let ?n = "\<lambda>r. \<lparr>zn_context = signal (zt_inputs a) ''contextId'', zn_nullifier = signal (zt_inputs a) n, zn_receipt = r\<rparr>"
  have "?n r \<in> set (zg_nullifiers s)" "?n q \<in> set (zg_nullifiers s)"
    using a b assms(4,5) unfolding spent_under_def by (metis (no_types) same ctx)+
  then have "?n r = ?n q" by (rule inj_onD [OF keys, rotated]) simp
  then have "r = q" by (simp add: nullifier_row.ext_inject)
  obtain x y where x: "x \<in> set (zg_receipts s)" "zq_id x = r" "zq_tx x = zt_tx a"
    and y: "y \<in> set (zg_receipts s)" "zq_id y = q" "zq_tx y = zt_tx b"
    using a b unfolding spent_under_def by blast
  then have "x = y" using inj_onD [OF ids] \<open>r = q\<close> by metis
  then show ?thesis using x y by simp
qed

end
