(* ===== verification/ZkRun.thy ===== *)
theory ZkRun
  imports ZkSteps
begin

text \<open>
  A run of the confidential rail from its empty tables: a context is opened, two transactions are
  authorised on the same input notes, and the proof of the first is accepted.
\<close>

definition run_sha :: "string \<Rightarrow> string" where "run_sha x = ''h''"

definition run_ok :: "nat \<Rightarrow> unit outcome" where "run_ok n = Inr ()"

definition run_adapter :: adapter where
  "run_adapter = \<lparr>ad_verifier = (\<lambda>key signals pf. Inr (JBool True)), ad_verificationKey = JNull,
     ad_manifest = JObj [(''circuitId'', JStr ''c''), (''circuitVersion'', JStr ''1''),
       (''publicSignalOrder'', JArr (map JStr JOIN_SPLIT_PUBLIC_SIGNAL_ORDER))],
     ad_manifestHash = ''m'', ad_verificationKeyHash = ''k''\<rparr>"

definition run_gate :: gate where "run_gate = \<lparr>ga_adapter = run_adapter, ga_maxConcurrent = 1\<rparr>"

definition run_root :: string where "run_root = ts_root emptyMerkleTreeState"

definition run_inputs :: "(string \<times> string) list" where
  "run_inputs = [(''merkleRoot'', run_root), (''contextId'', ''7''), (''assetType'', ''1''), (''fee'', ''0''), (''recipient'', ''5''),
     (''relayer'', ''0''), (''transactionHash'', ''9''), (''inputNullifier0'', ''11''), (''inputNullifier1'', ''12''),
     (''outputCommitmentX0'', ''21''), (''outputCommitmentX1'', ''22''), (''outputCommitmentY0'', ''23''),
     (''outputCommitmentY1'', ''24'')]"

definition run_intent :: "string \<Rightarrow> intent_row" where
  "run_intent tx = \<lparr>ti_id = tx, ti_tenant = ''T'', ti_product = ''P'', ti_key = tx, ti_hash = ''h'', ti_type = ''TRANSFER'',
     ti_state = ''PROOF_PENDING'', ti_ruleVersion = JStr ''1'', ti_navEvidenceId = JNull, ti_policyHash = JStr ''h'',
     ti_ciphertext = JStr ''x'', ti_rail = ''CONFIDENTIAL_NOTE'', ti_institution = Some ''I'', ti_partyKey = None, ti_version = 1\<rparr>"

definition run_instruction :: "string \<Rightarrow> instruction_row" where
  "run_instruction tx = \<lparr>zi_tx = tx, zi_tenant = ''T'', zi_requestHash = ''h'', zi_fee = ''0'', zi_recipient = ''5'', zi_relayer = ''0'',
     zi_authorizedBy = ''op'', zi_expiresAt = 100, zi_senderSubject = Some ''S'', zi_senderCredential = Some ''C1'',
     zi_recipientSubject = Some ''R'', zi_recipientCredential = Some ''C2''\<rparr>"

definition run_credential :: "string \<Rightarrow> string \<Rightarrow> zk_credential" where
  "run_credential c subject = \<lparr>cr_id = c, cr_product = ''P'', cr_subject = subject, cr_class = ''A'', cr_jurisdiction = ''J'',
     cr_from = 0, cr_until = 100, cr_status = ''ACTIVE''\<rparr>"

definition run_payload :: json where
  "run_payload = JObj [(''productId'', JStr ''P''), (''contextId'', JStr ''7''), (''assetType'', JStr ''1''),
     (''circuitId'', JStr ''c''), (''circuitVersion'', JStr ''1'')]"

definition run0 :: zk_db where
  \<comment> \<open>the tables around the rail: a product, its credentials, two prepared transactions, a proposed context\<close>
  "run0 = \<lparr>zg_store = (empty_db [] [])\<lparr>db_intents := [run_intent ''t1'', run_intent ''t2'']\<rparr>,
     zg_products = [\<lparr>zp_id = ''P'', zp_status = ''ACTIVE'', zp_ruleVersion = JStr ''1'', zp_rules = JObj
       [(''allowedInvestorClasses'', JArr [JStr ''A'']), (''allowedJurisdictions'', JArr [JStr ''J''])]\<rparr>],
     zg_accounts = [(''P'', ''T'')], zg_roles = [], zg_contexts = [],
     zg_circuits = [\<lparr>kv_circuit = ''c'', kv_version = ''1'', kv_keyHash = ''k'', kv_manifestHash = ''m'',
       kv_order = JArr (map JStr JOIN_SPLIT_PUBLIC_SIGNAL_ORDER), kv_status = ''ACTIVE''\<rparr>],
     zg_instructions = [run_instruction ''t1'', run_instruction ''t2''],
     zg_credentials = [run_credential ''C1'' ''S'', run_credential ''C2'' ''R''],
     zg_keys = [\<lparr>nk_product = ''P'', nk_key = ''5'', nk_subject = ''R'', nk_credential = ''C2'', nk_status = ''ACTIVE'',
       nk_registeredBy = ''op'', nk_revokedBy = None, nk_reason = None\<rparr>],
     zg_roots = [], zg_auths = [], zg_receipts = [], zg_nullifiers = [], zg_outputs = [], zg_settlements = [],
     zg_proposals = [], zg_attestations = [],
     zg_parameters = [\<lparr>zm_id = ''p'', zm_tenant = ''T'', zm_kind = ''PRODUCT_CONTEXT'', zm_payload = run_payload, zm_hash = ''h'',
       zm_status = ''PENDING'', zm_proposedBy = ''maker'', zm_decidedBy = None, zm_reason = None\<rparr>]\<rparr>"

lemma run_serializable: "withSerializableTransaction 3 run_ok m s = (Inr x, t) \<longleftrightarrow> m s = (Inr x, t)"
  by (auto simp: withSerializableTransaction_def numeral_3_eq_3 attempt_once_def run_ok_def eff_defs split: prod.splits sum.splits)

lemma js_trim_words: "js_trim ''p'' = ''p''" "js_trim ''why'' = ''why''" "js_trim ''checker'' = ''checker''"
  by code_simp+

definition run_context :: zk_context where
  "run_context = \<lparr>zc_product = ''P'', zc_circuit = ''c'', zc_version = ''1'', zc_context = ''7'', zc_asset = ''1'',
     zc_createdBy = ''maker+checker'', zc_retired = False\<rparr>"

definition run_around :: "zk_db \<Rightarrow> bool" where
  \<comment> \<open>the tables that only this run's first steps write\<close>
  "run_around s = (zg_products s = zg_products run0 \<and> zg_accounts s = zg_accounts run0 \<and> zg_contexts s = [run_context]
     \<and> zg_circuits s = zg_circuits run0 \<and> zg_instructions s = zg_instructions run0
     \<and> zg_credentials s = zg_credentials run0 \<and> zg_keys s = zg_keys run0)"

definition run_rail :: "zk_db \<Rightarrow> root_row list \<Rightarrow> zk_authorization list \<Rightarrow> zk_receipt list \<Rightarrow> nullifier_row list
    \<Rightarrow> output_row list \<Rightarrow> zk_settlement list \<Rightarrow> attestation_row list \<Rightarrow> bool" where
  "run_rail s r a q n out z x = (rail_of s = (r, a, q, n, out, z, x))"

lemma run_opens:
  "\<exists>t. governance_decide run_sha run_adapter ''T'' run_ok ''T'' (JStr ''p'') ''APPROVE'' (JStr ''why'') (JStr ''checker'') run0
     = (Inr ''APPROVED'', t)
   \<and> run_around t \<and> run_rail t [genesis_root ''7'' ''p''] [] [] [] [] [] [] \<and> zg_proposals t = []
   \<and> db_intents (zg_store t) = [run_intent ''t1'', run_intent ''t2''] \<and> db_outbox (zg_store t) = [] \<and> db_receipts (zg_store t) = []"
  by (simp add: governance_decide_def governance_text_def js_trim_words eff_simps run_serializable Let_def
   run0_def open_context_def assertContextAvailable_def text_field_def run_payload_def js_to_string.simps jfield_def
   product_of_def has_accounts_def parameter_audit_def recordAuditEvent_def sha256Canonical_def run_sha_def outcome_simps
   run_around_def run_rail_def rail_of_def run_context_def empty_db_def)

lemma run_root_text: "normalizeFieldElement (JStr run_root) = Inr run_root"
proof -
  have "is_field (mroot MERKLE_TREE_DEPTH [])" by (rule mroot_field) simp
  then show ?thesis by (simp add: run_root_def empty_tree tree_of_def normalize_field)
qed

lemma run_number: "s \<in> {''7'', ''1'', ''0'', ''5'', ''9'', ''11'', ''12'', ''21'', ''22'', ''23'', ''24''} \<Longrightarrow> normalizeFieldElement (JStr s) = Inr s"
proof -
  have "list_all (\<lambda>s. normalizeFieldElement (JStr s) = Inr s) [''7'', ''1'', ''0'', ''5'', ''9'', ''11'', ''12'', ''21'', ''22'', ''23'', ''24'']"
    by code_simp
  then show "s \<in> {''7'', ''1'', ''0'', ''5'', ''9'', ''11'', ''12'', ''21'', ''22'', ''23'', ''24''} \<Longrightarrow> ?thesis" by auto
qed

lemma run_normalized: "normalizeJoinSplitPublicInputs (JObj (map (map_prod id JStr) run_inputs)) = Inr run_inputs"
  by (simp add: normalizeJoinSplitPublicInputs_def JOIN_SPLIT_PUBLIC_SIGNAL_ORDER_def run_inputs_def jfield_def nullish_text_def
      js_to_string.simps run_root_text run_number)

definition run_auth :: "string \<Rightarrow> zk_authorization" where
  "run_auth tx = \<lparr>zt_tx = tx, zt_tenant = ''T'', zt_circuit = ''c'', zt_version = ''1'', zt_inputs = run_inputs, zt_hash = ''h'',
     zt_status = ''PENDING'', zt_receipt = None, zt_by = ''op''\<rparr>"

lemma run_signals: "signal run_inputs ''contextId'' = ''7''" "signal run_inputs ''assetType'' = ''1''" "signal run_inputs ''fee'' = ''0''"
  "signal run_inputs ''recipient'' = ''5''" "signal run_inputs ''relayer'' = ''0''" "signal run_inputs ''merkleRoot'' = run_root"
  "signal run_inputs ''inputNullifier0'' = ''11''" "signal run_inputs ''inputNullifier1'' = ''12''"
  "signal run_inputs ''outputCommitmentX0'' = ''21''" "signal run_inputs ''outputCommitmentX1'' = ''22''"
  "signal run_inputs ''outputCommitmentY0'' = ''23''" "signal run_inputs ''outputCommitmentY1'' = ''24''"
  by (simp_all add: signal_def run_inputs_def or_empty_def)

lemma run_parties:
  "run_around s \<Longrightarrow> assertInstructionParties s ''P'' (zp_rules (hd (zg_products run0))) (run_instruction tx) 0 = Inr ()"
  by (simp add: assertInstructionParties_def run_instruction_def assertEligibleCredential_def bounded_text_def ineligible_reason_def
      assertRegisteredRecipientKey_def run_around_def run0_def run_credential_def outcome_simps jfield_def nullable_def
      ensureR_def)

definition run_intents :: "zk_db \<Rightarrow> bool" where
  "run_intents s = (db_intents (zg_store s) = [run_intent ''t1'', run_intent ''t2''])"

lemma run_own:
  assumes "run_around s" and "run_intents s" and "tx = ''t1'' \<or> tx = ''t2''"
  shows "own_transaction s tx ''T'' = Inr (run_intent tx, hd (zg_products run0))"
  using assms
  by (auto simp: own_transaction_def transaction_rows_def intents_of_def product_of_def run_intents_def run_around_def run_intent_def
      run0_def ensureR_def)

lemma run_own_instruction:
  assumes "run_around s" and "tx = ''t1'' \<or> tx = ''t2''"
  shows "filter (\<lambda>i. zi_tx i = tx) (zg_instructions s) = [run_instruction tx]"
  using assms by (auto simp: run_around_def run0_def run_instruction_def)

lemma run_genesis: "mr_context (genesis_root ''7'' ''p'') = ''7''" "mr_root (genesis_root ''7'' ''p'') = run_root"
  "mr_status (genesis_root ''7'' ''p'') = ''CURRENT''" "mr_expiresAt (genesis_root ''7'' ''p'') = None"
  by (simp_all add: genesis_root_def run_root_def)

lemma run_approved: "run_around s \<Longrightarrow> approved_contexts s ''P'' ''c'' ''1'' ''T'' = [run_context]"
  by (simp add: approved_contexts_def run_around_def run0_def run_context_def has_accounts_def)

lemma run_accepted_root: "zg_roots s = [genesis_root ''7'' ''p''] \<Longrightarrow> root_accepted s ''7'' run_root 0"
  by (simp add: root_accepted_def run_genesis)

lemma run_gate_names: "gate_circuit run_adapter = ''c''" "gate_version run_adapter = ''1''"
  by (simp_all add: gate_circuit_def gate_version_def run_adapter_def text_field_def jfield_def js_to_string.simps)

lemma run_checks:
  assumes "run_around s" and "run_intents s" and "tx = ''t1'' \<or> tx = ''t2''" and "zg_roots s = [genesis_root ''7'' ''p'']"
  shows "check_authorize s run_adapter 0 tx ''T'' run_inputs None = Inr (run_instruction tx)"
proof -
  have "own_instruction s (run_intent tx) ''T'' = Inr (run_instruction tx)"
    using run_own_instruction [OF assms(1,3)] by (simp add: own_instruction_def run_intent_def run_instruction_def ensureR_def)
  moreover have "transfer_guards (run_intent tx) (hd (zg_products run0)) = Inr ()"
    by (simp add: transfer_guards_def run_intent_def run0_def guards.simps)
  ultimately show ?thesis
    using run_own [OF assms(1,2,3)] run_parties [OF assms(1)] run_approved [OF assms(1)] run_accepted_root [OF assms(4)]
    by (simp add: check_authorize_def assertOriginatingInstitution_def run_gate_names run_signals server_owned_def ensureR_def guards.simps
        run_intent_def run_instruction_def run_context_def)
qed

lemma run_hash: "joinSplitPublicInputsHash run_sha (JObj (map (map_prod id JStr) run_inputs)) = Inr ''h''"
  by (simp add: joinSplitPublicInputsHash_def run_normalized hash_json_def run_sha_def)

lemma run_authorizes:
  assumes "run_around s" and "run_intents s" and "tx = ''t1'' \<or> tx = ''t2''" and "zg_roots s = [genesis_root ''7'' ''p'']"
    and "tx \<notin> zt_tx ` set (zg_auths s)"
  shows "authorize run_sha run_gate 0 run_ok (JStr tx) (JStr ''T'') (JObj (map (map_prod id JStr) run_inputs)) None s
    = (Inr ''h'', s\<lparr>zg_auths := zg_auths s @ [run_auth tx]\<rparr>)"
proof -
  have scope: "assertRequestScope (JStr tx) (JStr ''T'') = Inr (tx, ''T'')"
    using assms(3) by (auto simp: assertRequestScope_def bounded_text_def ensureR_def)
  have fresh: "\<forall>a \<in> set (zg_auths s). zt_tx a \<noteq> tx" using assms(5) by blast
  show ?thesis
    using run_checks [OF assms(1-4)]
    by (simp add: authorize_def eff_simps scope run_normalized run_hash run_serializable run_signals recodeR_def fresh run_gate_def
        run_auth_def run_gate_names run_instruction_def)
qed

definition run_verified :: proof_result where
  "run_verified = \<lparr>pv_verified = True, pv_mode = ''GROTH16_VERIFIED'', pv_circuitId = JStr ''c'', pv_circuitVersion = JStr ''1'',
     pv_verificationKeyHash = ''k'', pv_manifestHash = ''m'', pv_proofHash = ''h'', pv_publicSignalsHash = ''h''\<rparr>"

lemma run_pending:
  assumes "run_around s" and "run_intents s" and "zg_auths s = [run_auth ''t1'', run_auth ''t2'']"
  shows "check_pending run_sha s ''t1'' ''T'' None = Inr (run_auth ''t1'')"
proof -
  have "pending_rows s ''t1'' ''T'' = [(run_auth ''t1'', run_intent ''t1'', hd (zg_products run0))]"
    using assms by (simp add: pending_rows_def intents_of_def product_of_def run_intents_def run_around_def run_intent_def
      run0_def run_auth_def)
  then show ?thesis
    by (simp add: check_pending_def assertOriginatingInstitution_def ensureR_def guards.simps run_hash expected_inputs_def
        run_auth_def run_intent_def run0_def)
qed

definition run_signal_list :: json where
  "run_signal_list = JArr (map (JStr \<circ> snd) run_inputs)"

lemma run_verifies: "verify_proof run_sha run_gate 0 (JStr ''pf'') run_signal_list (run_auth ''t1'') = Inr run_verified"
proof -
  have signals: "mapR (\<lambda>value. normalizeFieldElement (JStr (js_to_string value))) (map (JStr \<circ> snd) run_inputs) = Inr (map snd run_inputs)"
    by (simp add: run_inputs_def js_to_string.simps run_root_text run_number)
  have checks: "mapR (\<lambda>(name, signal). check_signal (JObj (map (map_prod id JStr) run_inputs)) name signal)
      (zip JOIN_SPLIT_PUBLIC_SIGNAL_ORDER (map snd run_inputs)) = Inr (map (\<lambda>x. ()) run_inputs)"
    by (simp add: run_inputs_def JOIN_SPLIT_PUBLIC_SIGNAL_ORDER_def check_signal_def jfield_def js_to_string.simps run_root_text run_number
        ensureR_def)
  have len: "length run_inputs = length JOIN_SPLIT_PUBLIC_SIGNAL_ORDER" by (simp add: run_inputs_def JOIN_SPLIT_PUBLIC_SIGNAL_ORDER_def)
  show ?thesis
    by (simp add: verify_proof_def verifyJoinSplit_def run_signal_list_def run_gate_def run_auth_def expected_inputs_def
        signals [unfolded comp_def] checks len ensureR_def comp_def recodeR_def run_adapter_def run_verified_def jfield_def hash_json_def run_sha_def jtruthy.simps)
qed

definition run_receipt :: string where "run_receipt = ''zk-proof:t1:u''"

lemma run_checks_accept:
  assumes "run_around s" and "run_intents s" and "zg_auths s = [run_auth ''t1'', run_auth ''t2'']"
    and "zg_roots s = [genesis_root ''7'' ''p'']"
  shows "check_accept s run_gate 0 ''t1'' ''T'' (run_auth ''t1'') run_verified = Inr (run_intent ''t1'')"
proof -
  have "transfer_guards (run_intent ''t1'') (hd (zg_products run0)) = Inr ()"
    by (simp add: transfer_guards_def run_intent_def run0_def guards.simps)
  moreover have "current_context s ''P'' run_verified run_inputs ''T'' = [run_context]"
    using assms(1) by (simp add: current_context_def run_around_def run_context_def run_verified_def js_to_string.simps run_signals
        has_accounts_def run0_def)
  moreover have "current_instruction s (run_intent ''t1'') ''T'' run_inputs 0 = [run_instruction ''t1'']"
    using assms(1) by (simp add: current_instruction_def run_around_def run_intent_def run_instruction_def run_signals run0_def)
  moreover have "approved_circuit s run_adapter run_verified"
    using assms(1) by (simp add: approved_circuit_def run_around_def run0_def run_verified_def run_adapter_def js_to_string.simps jfield_def)
  moreover have "map zt_status (filter (\<lambda>b. zt_tx b = ''t1'' \<and> zt_tenant b = ''T'') (zg_auths s)) = [''PENDING'']"
    by (simp add: assms(3) run_auth_def)
  moreover have "ti_product (run_intent ''t1'') = ''P''" "zt_inputs (run_auth ''t1'') = run_inputs"
    by (simp_all add: run_intent_def run_auth_def)
  ultimately show ?thesis
    using run_own [OF assms(1,2), of "''t1''"] run_parties [OF assms(1)] run_accepted_root [OF assms(4)]
    by (simp add: check_accept_def ensureR_def guards.simps run_signals run_gate_def)
qed

lemma run_accepts:
  assumes "run_around s" and "run_intents s" and rail: "run_rail s [genesis_root ''7'' ''p''] [run_auth ''t1'', run_auth ''t2''] [] [] [] [] []"
    and "db_outbox (zg_store s) = []"
  shows "\<exists>t. accept_commit run_sha (\<lambda>n. ''time'') run_gate 0 run_ok ''u'' ''e1'' ''t1'' ''T'' (run_auth ''t1'') run_verified s
      = (Inr run_receipt, t)
    \<and> run_around t
    \<and> run_rail t [genesis_root ''7'' ''p''] [verified_authorization run_receipt (run_auth ''t1''), run_auth ''t2'']
        [new_receipt run_receipt ''t1'' ''T'' run_verified run_inputs]
        [\<lparr>zn_context = ''7'', zn_nullifier = ''11'', zn_receipt = run_receipt\<rparr>, \<lparr>zn_context = ''7'', zn_nullifier = ''12'', zn_receipt = run_receipt\<rparr>]
        [output_at run_inputs run_receipt 0, output_at run_inputs run_receipt 1]
        [new_settlement run_receipt (run_intent ''t1'') ''T'' run_inputs] []
    \<and> db_intents (zg_store t) = [(run_intent ''t1'')\<lparr>ti_state := ''ROOT_PENDING'', ti_version := 2\<rparr>, run_intent ''t2'']
    \<and> map ob_id (db_outbox (zg_store t)) = [''e1''] \<and> db_receipts (zg_store t) = db_receipts (zg_store s)
    \<and> zg_proposals t = zg_proposals s"
proof -
  have r: "zg_roots s = [genesis_root ''7'' ''p'']" "zg_auths s = [run_auth ''t1'', run_auth ''t2'']" "zg_receipts s = []" "zg_nullifiers s = []"
    "zg_outputs s = []" "zg_settlements s = []" "zg_attestations s = []"
    using rail by (simp_all add: run_rail_def rail_of_def)
  have c: "check_accept s run_gate 0 ''t1'' ''T'' (run_auth ''t1'') run_verified = Inr (run_intent ''t1'')"
    by (rule run_checks_accept [OF assms(1,2) r(2,1)])
  have i: "ti_id (run_intent ''t1'') = ''t1''" "ti_id (run_intent ''t2'') = ''t2''" "ti_state (run_intent ''t1'') = ''PROOF_PENDING''"
    "ti_version (run_intent ''t1'') = 1" "zt_tx (run_auth ''t1'') = ''t1''" "zt_tx (run_auth ''t2'') = ''t2''" "zt_inputs (run_auth ''t1'') = run_inputs"
    by (simp_all add: run_intent_def run_auth_def)
  have tr: "assertTransition ''PROOF_PENDING'' ''ROOT_PENDING'' = Inr ()"
    by (simp add: assertTransition_def ensureR_def transition_allowed_def TRANSITIONS_def)
  show ?thesis using assms(1,2,4)
    by (simp add: accept_commit_def eff_simps run_serializable c record_acceptance_def Let_def add_receipt_def spend_def add_output_def
        add_settlement_def r i tr run_signals transitionTransaction_def run_intents_def announce_def recordAuditEvent_def enqueueOutbox_def
        new_receipt_def new_settlement_def output_at_def update_where_def add_history_def run_around_def run_rail_def rail_of_def run_receipt_def)
qed

lemma run_reaches:
  "\<exists>s. reach (zk_step run_sha) zk_start (s, [run_auth ''t1''])
    \<and> zg_auths s = [verified_authorization run_receipt (run_auth ''t1''), run_auth ''t2'']
    \<and> zg_roots s = [genesis_root ''7'' ''p''] \<and> zg_attestations s = [] \<and> length (zg_nullifiers s) = 2"
proof -
  let ?S = "zk_step run_sha"
  have s0: "reach ?S zk_start (run0, [])"
  proof (rule reach.more [OF reach.start])
    show "?S zk_start (run0, [])" unfolding zk_start_def by (rule zk_step.elsewhere) (simp add: rail_of_def run0_def)
  qed
  obtain s1 where open1: "governance_decide run_sha run_adapter ''T'' run_ok ''T'' (JStr ''p'') ''APPROVE'' (JStr ''why'') (JStr ''checker'') run0
      = (Inr ''APPROVED'', s1)"
    and s1: "run_around s1" "run_rail s1 [genesis_root ''7'' ''p''] [] [] [] [] [] []" "zg_proposals s1 = []"
      "db_intents (zg_store s1) = [run_intent ''t1'', run_intent ''t2'']" "db_outbox (zg_store s1) = []" "db_receipts (zg_store s1) = []"
    using run_opens by blast
  have r1: "reach ?S zk_start (s1, [])" by (rule reach.more [OF s0 zk_step.decides [OF open1]])
  have f1: "zg_roots s1 = [genesis_root ''7'' ''p'']" "zg_auths s1 = []" "run_intents s1"
    using s1(2,4) by (simp_all add: run_rail_def rail_of_def run_intents_def)
  define s2 where "s2 = s1\<lparr>zg_auths := [run_auth ''t1'']\<rparr>"
  define s3 where "s3 = s1\<lparr>zg_auths := [run_auth ''t1'', run_auth ''t2'']\<rparr>"
  have a1: "authorize run_sha run_gate 0 run_ok (JStr ''t1'') (JStr ''T'') (JObj (map (map_prod id JStr) run_inputs)) None s1 = (Inr ''h'', s2)"
    using run_authorizes [of s1 "''t1''"] s1(1) f1 by (simp add: s2_def)
  have a2: "authorize run_sha run_gate 0 run_ok (JStr ''t2'') (JStr ''T'') (JObj (map (map_prod id JStr) run_inputs)) None s2 = (Inr ''h'', s3)"
    using run_authorizes [of s2 "''t2''"] s1(1) f1 by (simp add: s2_def s3_def run_around_def run_intents_def run_auth_def)
  have r3: "reach ?S zk_start (s3, [])"
    by (rule reach.more [OF reach.more [OF r1 zk_step.authorizes [OF a1]] zk_step.authorizes [OF a2]])
  have f3: "run_around s3" "run_intents s3" "zg_auths s3 = [run_auth ''t1'', run_auth ''t2'']" "db_outbox (zg_store s3) = []"
    "run_rail s3 [genesis_root ''7'' ''p''] [run_auth ''t1'', run_auth ''t2''] [] [] [] [] []"
    using s1 f1 by (simp_all add: s3_def run_around_def run_intents_def run_rail_def rail_of_def)
  have r4: "reach ?S zk_start (s3, [run_auth ''t1''])"
    by (rule reach.more [OF r3 zk_step.reads [OF run_pending [OF f3(1-3)]]])
  obtain s4 where acc: "accept_commit run_sha (\<lambda>n. ''time'') run_gate 0 run_ok ''u'' ''e1'' ''t1'' ''T'' (run_auth ''t1'') run_verified s3
      = (Inr run_receipt, s4)"
    and s4: "run_rail s4 [genesis_root ''7'' ''p''] [verified_authorization run_receipt (run_auth ''t1''), run_auth ''t2'']
        [new_receipt run_receipt ''t1'' ''T'' run_verified run_inputs]
        [\<lparr>zn_context = ''7'', zn_nullifier = ''11'', zn_receipt = run_receipt\<rparr>, \<lparr>zn_context = ''7'', zn_nullifier = ''12'', zn_receipt = run_receipt\<rparr>]
        [output_at run_inputs run_receipt 0, output_at run_inputs run_receipt 1]
        [new_settlement run_receipt (run_intent ''t1'') ''T'' run_inputs] []"
    using run_accepts [OF f3(1,2,5,4)] by (elim exE conjE) (rule that)
  have ids: "zt_tx (run_auth ''t1'') = ''t1''" "zt_tenant (run_auth ''t1'') = ''T''" by (simp_all add: run_auth_def)
  have "?S (s3, [run_auth ''t1'']) (s4, [run_auth ''t1''])"
    by (rule zk_step.accepts [OF _ run_verifies]) (simp, unfold ids, rule acc)
  then have "reach ?S zk_start (s4, [run_auth ''t1''])" by (rule reach.more [OF r4])
  then show ?thesis using s4 by (intro exI [of _ s4]) (simp add: run_rail_def rail_of_def)
qed

end
