(* ===== verification/ZkProperties.thy ===== *)
theory ZkProperties
  imports ZkRun
begin

text \<open>The properties of the confidential rail, applied to the run of \<open>ZkRun\<close>.\<close>

text \<open>
  C20. An input note is spent once: in every state the rail can reach, whatever proofs were being
  verified at the same time, an authorisation that shares a nullifier of the same context with a verified
  authorisation of another transaction is not verified.
\<close>

theorem nullifier_spent_once:
  assumes "reach (zk_step sha) zk_start (s, fl)"
    and "a \<in> set (zg_auths s)" and "b \<in> set (zg_auths s)" and "zt_tx a \<noteq> zt_tx b"
    and "signal (zt_inputs a) ''contextId'' = signal (zt_inputs b) ''contextId''"
    and "n \<in> {''inputNullifier0'', ''inputNullifier1''}" and "m \<in> {''inputNullifier0'', ''inputNullifier1''}"
    and "signal (zt_inputs a) n = signal (zt_inputs b) m"
    and "zt_status a = ''VERIFIED''"
  shows "zt_status b \<noteq> ''VERIFIED''"
proof
  assume "zt_status b = ''VERIFIED''"
  have ok: "rail_ok s" by (rule reachable_rail [OF assms(1)])
  obtain r where r: "spent_under s a r" using ok assms(2,9) by (auto simp: rail_ok_def)
  obtain q where q: "spent_under s b q" using ok assms(3) \<open>zt_status b = ''VERIFIED''\<close> by (auto simp: rail_ok_def)
  have n: "n \<in> set nullifier_names" "m \<in> set nullifier_names" using assms(6,7) by (simp_all add: nullifier_names_def)
  show False using spent_together [OF ok r q n assms(8,5)] assms(4) by simp
qed

theorem nullifier_spent_once_witness:
  "\<exists>s fl a b. reach (zk_step run_sha) zk_start (s, fl) \<and> zg_auths s = [a, b] \<and> zt_tx a \<noteq> zt_tx b \<and> zt_status a = ''VERIFIED''
    \<and> signal (zt_inputs a) ''inputNullifier0'' = signal (zt_inputs b) ''inputNullifier0'' \<and> zt_status b \<noteq> ''VERIFIED''"
proof -
  let ?a = "verified_authorization run_receipt (run_auth ''t1'')" and ?b = "run_auth ''t2''"
  obtain s where s: "reach (zk_step run_sha) zk_start (s, [run_auth ''t1''])" "zg_auths s = [?a, ?b]" using run_reaches by blast
  have f: "zt_tx ?a \<noteq> zt_tx ?b" "zt_status ?a = ''VERIFIED''" "zt_inputs ?a = zt_inputs ?b"
    by (simp_all add: verified_authorization_def run_auth_def)
  have "zt_status ?b \<noteq> ''VERIFIED''"
    by (rule nullifier_spent_once [OF s(1), of ?a ?b "''inputNullifier0''" "''inputNullifier0''"]) (simp_all add: s(2) f)
  then show ?thesis using s f by (intro exI [of _ s] exI [of _ "[run_auth ''t1'']"] exI [of _ ?a] exI [of _ ?b]) simp
qed

text \<open>
  C21. The current tree of a context, as stored with its size, frontier and root, is the Merkle tree
  of the output notes of the settlements made final in that context, in the order in which they were
  made final, and it is the only current one.
\<close>

theorem current_root_is_the_tree:
  assumes "reach (zk_step sha) zk_start (s, fl)" and "r \<in> set (current_roots s c)"
  shows "current_roots s c = [r] \<and> mr_size r = int (length (note_leaves s c))
    \<and> mr_frontier r = JArr (ts_frontier (tree_of (note_leaves s c))) \<and> mr_root r = ts_root (tree_of (note_leaves s c))"
proof -
  have ok: "tree_ok s c" using reachable_rail [OF assms(1)] by (simp add: rail_ok_def)
  then obtain q where q: "current_roots s c = [q]" using assms(2) by (auto simp: tree_ok_def split: list.splits)
  then show ?thesis using assms(2) ok by (simp add: tree_ok_def stands_for_def) (simp add: tree_of_def)
qed

theorem current_root_is_the_tree_witness:
  "\<exists>s fl. reach (zk_step run_sha) zk_start (s, fl) \<and> length (zg_nullifiers s) = 2
    \<and> current_roots s ''7'' = [genesis_root ''7'' ''p''] \<and> mr_root (genesis_root ''7'' ''p'') = ts_root (tree_of (note_leaves s ''7''))"
proof -
  obtain s where s: "reach (zk_step run_sha) zk_start (s, [run_auth ''t1''])" "zg_roots s = [genesis_root ''7'' ''p'']"
    "length (zg_nullifiers s) = 2" using run_reaches by blast
  have "current_roots s ''7'' = [genesis_root ''7'' ''p'']" by (simp add: current_roots_def s(2) run_genesis)
  moreover from this have "mr_root (genesis_root ''7'' ''p'') = ts_root (tree_of (note_leaves s ''7''))"
    using current_root_is_the_tree [OF s(1), of "genesis_root ''7'' ''p''" "''7''"] by simp
  ultimately show ?thesis using s(1,3) by (intro exI [of _ s] exI [of _ "[run_auth ''t1'']"]) simp
qed

end
