(* ===== verification/EconomicCommitment.thy ===== *)
theory EconomicCommitment
  imports Canonical ProofAdapter PgStore
begin

text \<open>
  Keyed commitments to the amounts of a transaction, \<open>src/security/economic-commitment.js\<close>. The HMAC is
  an argument, from a key and a message to 32 bytes; \<open>hexOf\<close> writes bytes as hexadecimal text.
\<close>

type_synonym bytes = "nat list"

record commit_request =
  cq_tenant :: string
  cq_tx :: "string option"   \<comment> \<open>\<open>null\<close> for the index of parties\<close>
  cq_product :: string
  cq_field :: string
  cq_value :: string   \<comment> \<open>\<open>String(value)\<close>\<close>

definition commit_message :: "commit_request \<Rightarrow> string" where
  "commit_message q = canonicalize (JObj [(''domain'', JStr ''rwa.economic-commitment.v1''), (''tenantId'', JStr (cq_tenant q)),
     (''transactionId'', nullable (cq_tx q)), (''productId'', JStr (cq_product q)), (''field'', JStr (cq_field q)), (''value'', JStr (cq_value q))])"

definition deriveEconomicCommitmentKey :: "(bytes \<Rightarrow> string \<Rightarrow> string \<Rightarrow> nat \<Rightarrow> bytes) \<Rightarrow> bytes option \<Rightarrow> bytes outcome" where
  \<comment> \<open>HKDF from a key, a salt and an info text; \<open>None\<close> where the master key is no buffer\<close>
  "deriveEconomicCommitmentKey hkdf masterKey = (case masterKey of
     None \<Rightarrow> Inl (Native ''TypeError'')
   | Some key \<Rightarrow> nativeR (32 \<le> length key) ''TypeError'' (Inr (hkdf key ''rwa-control-plane'' ''economic-commitment-v1'' 32)))"

section \<open>A committer with its own keys\<close>

record key_committer =
  kc_keys :: "(string, bytes) jsmap"
  kc_keyId :: string

definition keys_32 :: "(string, bytes) jsmap \<Rightarrow> (string, bytes) jsmap outcome" where
  "keys_32 keys = nativeR (list_all (\<lambda>(_, key). length key = 32) keys) ''TypeError'' (Inr keys)"

definition EconomicCommitter :: "bytes option \<Rightarrow> string option \<Rightarrow> (string, bytes) jsmap \<Rightarrow> key_committer outcome" where
  "EconomicCommitter key keyId keys =
     nativeR (present keyId) ''TypeError''
    (let id = or_empty keyId; all = (case key of None \<Rightarrow> keys | Some k \<Rightarrow> jm_set id k keys) in
     bindR (keys_32 all) (\<lambda>ks.
     nativeR (jm_has ks id) ''TypeError'' (Inr \<lparr>kc_keys = ks, kc_keyId = id\<rparr>)))"

definition hmac_commit :: "(bytes \<Rightarrow> string \<Rightarrow> bytes) \<Rightarrow> (bytes \<Rightarrow> string) \<Rightarrow> key_committer \<Rightarrow> string \<Rightarrow> commit_request \<Rightarrow> string outcome" where
  "hmac_commit hmac hexOf c keyId q = (case jm_get (kc_keys c) keyId of
     None \<Rightarrow> Inl (Coded ''UNKNOWN_ECONOMIC_COMMITMENT_KEY'')
   | Some key \<Rightarrow> Inr (hexOf (hmac key (commit_message q))))"

definition matches_with :: "(commit_request \<Rightarrow> string outcome) \<Rightarrow> commit_request \<Rightarrow> string option \<Rightarrow> bool outcome" where
  \<comment> \<open>the hexadecimal text is compared as the bytes it stands for\<close>
  "matches_with commitOf q expectedHex =
     (if \<not> hex_text 64 (or_empty expectedHex) then Inr False
      else bindR (commitOf q) (\<lambda>actual. Inr (actual = or_empty expectedHex)))"

definition hmac_matches :: "(bytes \<Rightarrow> string \<Rightarrow> bytes) \<Rightarrow> (bytes \<Rightarrow> string) \<Rightarrow> key_committer \<Rightarrow> string \<Rightarrow> commit_request \<Rightarrow> string option \<Rightarrow> bool outcome" where
  "hmac_matches hmac hexOf c keyId = matches_with (hmac_commit hmac hexOf c keyId)"

section \<open>A committer whose key is in the KMS\<close>

record kms_committer =
  kk_generateMac :: "string \<Rightarrow> string \<Rightarrow> bytes option outcome"   \<comment> \<open>\<open>None\<close> where the answer holds no buffer\<close>
  kk_keyId :: string

definition KmsEconomicCommitter :: "(string \<Rightarrow> string \<Rightarrow> bytes option outcome) option \<Rightarrow> string option \<Rightarrow> kms_committer outcome" where
  "KmsEconomicCommitter provider keyId =
     nativeR (provider \<noteq> None) ''TypeError''
    (nativeR (present keyId) ''TypeError''
    (Inr \<lparr>kk_generateMac = the provider, kk_keyId = or_empty keyId\<rparr>))"

definition kms_commit :: "(bytes \<Rightarrow> string) \<Rightarrow> kms_committer \<Rightarrow> string \<Rightarrow> commit_request \<Rightarrow> string outcome" where
  "kms_commit hexOf c keyId q =
     bindR (kk_generateMac c keyId (commit_message q)) (\<lambda>result. case result of
       Some mac \<Rightarrow> ensureR (length mac = 32) ''INVALID_KMS_MAC_RESPONSE'' (Inr (hexOf mac))
     | None \<Rightarrow> Inl (Coded ''INVALID_KMS_MAC_RESPONSE''))"

definition kms_matches :: "(bytes \<Rightarrow> string) \<Rightarrow> kms_committer \<Rightarrow> string \<Rightarrow> commit_request \<Rightarrow> string option \<Rightarrow> bool outcome" where
  "kms_matches hexOf c keyId = matches_with (kms_commit hexOf c keyId)"

section \<open>The index of parties\<close>

record committer =   \<comment> \<open>what the callers use of either class\<close>
  em_version :: string
  em_keyId :: string
  em_commit :: "commit_request \<Rightarrow> string outcome"

definition committer_of :: "(bytes \<Rightarrow> string \<Rightarrow> bytes) \<Rightarrow> (bytes \<Rightarrow> string) \<Rightarrow> key_committer \<Rightarrow> committer" where
  "committer_of hmac hexOf c = \<lparr>em_version = ''HMAC-SHA256-v1'', em_keyId = kc_keyId c, em_commit = hmac_commit hmac hexOf c (kc_keyId c)\<rparr>"

definition kms_committer_of :: "(bytes \<Rightarrow> string) \<Rightarrow> kms_committer \<Rightarrow> committer" where
  "kms_committer_of hexOf c = \<lparr>em_version = ''KMS-HMAC-SHA256-v1'', em_keyId = kk_keyId c, em_commit = kms_commit hexOf c (kk_keyId c)\<rparr>"

definition party_request :: "string \<Rightarrow> string \<Rightarrow> string \<Rightarrow> commit_request" where
  "party_request tenant product partyRef = \<lparr>cq_tenant = tenant, cq_tx = None, cq_product = product,
     cq_field = ''party-index-v1'', cq_value = partyRef\<rparr>"

definition partyIndexMac :: "committer \<Rightarrow> string \<Rightarrow> string \<Rightarrow> string \<Rightarrow> string outcome" where
  "partyIndexMac c tenant product partyRef = em_commit c (party_request tenant product partyRef)"

definition PARTY_REF_FIELDS :: "string list" where
  "PARTY_REF_FIELDS = [''investorId'', ''buyerId'', ''sellerId'']"

fun first_of_each :: "'a list \<Rightarrow> 'a list" where
  \<comment> \<open>\<open>[...new Set(xs)]\<close>\<close>
  "first_of_each [] = []"
| "first_of_each (x # xs) = x # filter (\<lambda>y. y \<noteq> x) (first_of_each xs)"

definition party_refs :: "json \<Rightarrow> string list" where
  "party_refs request = first_of_each (concat (map (\<lambda>field. case jfield request field of
     JStr s \<Rightarrow> if s = [] then [] else [s] | _ \<Rightarrow> []) PARTY_REF_FIELDS))"

definition partyIndexFor :: "committer option \<Rightarrow> string \<Rightarrow> string \<Rightarrow> json \<Rightarrow> (string \<times> string list) option outcome" where
  "partyIndexFor committer tenant product request = (case committer of
     None \<Rightarrow> Inr None
   | Some c \<Rightarrow> bindR (mapR (partyIndexMac c tenant product) (party_refs request)) (\<lambda>macs. Inr (Some (em_keyId c, macs))))"

section \<open>Domain separation\<close>

lemma distinct_first_of_each: "distinct (first_of_each xs) \<and> set (first_of_each xs) = set xs"
  by (induction xs) auto

lemma nullable_inject: "nullable a = nullable b \<longleftrightarrow> a = b"
  by (auto simp: nullable_def split: option.splits)

lemma commit_message_inject: "commit_message q = commit_message r \<longleftrightarrow> q = r"
proof -
  have wf: "wf_json (nullable v)" "jnorm (nullable v) = nullable v" for v by (simp_all add: nullable_def split: option.split)
  show ?thesis unfolding commit_message_def
    by (subst canonicalize_eq_iff) (auto simp: wf nullable_inject)
qed

end
