(* ===== verification/DurableWorkflow.thy ===== *)
theory DurableWorkflow
  imports EconomicCommitment Outbox
begin

text \<open>
  The durable workflows, \<open>src/storage/durable-workflow-service.js\<close>: subscribing, transferring and redeeming
  as one serializable transaction over the store, the simulated register failure, the exception cases
  with a maker and a checker, the status of a product and the restriction of a credential. The payload
  cipher, the calendar (\<open>new Date(v)\<close>, \<open>toISOString\<close>) and the economic committer are functions of the
  service; the clock stands still within a transaction.
\<close>

section \<open>Tables\<close>

record wf_product =
  wp_id :: string
  wp_issuer :: string
  wp_currency :: string
  wp_status :: string
  wp_ruleVersion :: int
  wp_rules :: json
  wp_version :: nat

record wf_evidence =
  we_id :: string
  we_product :: string
  we_type :: string
  we_status :: string
  we_effectiveAt :: int
  we_expiresAt :: int
  we_payload :: json

record wf_credential =
  wc_id :: string
  wc_product :: string
  wc_subject :: string
  wc_class :: string
  wc_jurisdiction :: string
  wc_maxUnits :: int
  wc_from :: int
  wc_until :: int
  wc_status :: string
  wc_reason :: "string option"

record commitment_row =   \<comment> \<open>\<open>rwa.transaction_economic_commitments\<close>\<close>
  ec_tx :: string
  ec_version :: string
  ec_keyId :: string
  ec_asset :: string
  ec_currency :: string
  ec_units :: string
  ec_cash :: string
  ec_fee :: string

record confirmation_row =   \<comment> \<open>\<open>rwa.cash_confirmations\<close>\<close>
  cf_tx :: string
  cf_source :: string
  cf_state :: string
  cf_reference :: string
  cf_receipt :: json

record wf_db =
  wf_store :: db
  wf_institutions :: "(string \<times> string) list"   \<comment> \<open>id and public key\<close>
  wf_products :: "wf_product list"
  wf_roles :: "(string \<times> string \<times> string) list"   \<comment> \<open>product, role, institution; the ones that have not ended\<close>
  wf_evidence :: "wf_evidence list"
  wf_credentials :: "wf_credential list"
  wf_commitments :: "commitment_row list"
  wf_confirmations :: "confirmation_row list"

record workflow =
  wk_tenant :: string
  wk_now :: int
  wk_iso :: "int \<Rightarrow> string"
  wk_date :: "json \<Rightarrow> int option"
  wk_encrypt :: "json \<Rightarrow> json \<Rightarrow> string outcome"
  wk_decrypt :: "json \<Rightarrow> json \<Rightarrow> json outcome"
  wk_committer :: "committer option"
  wk_sha :: "string \<Rightarrow> string"

definition inWf :: "(db, 'a) eff \<Rightarrow> (wf_db, 'a) eff" where
  \<comment> \<open>an operation of the store on the same client\<close>
  "inWf m = (\<lambda>s. case m (wf_store s) of (r, t) \<Rightarrow> (r, s\<lparr>wf_store := t\<rparr>))"

definition sql_is :: "json \<Rightarrow> string \<Rightarrow> bool" where
  \<comment> \<open>a text column against a parameter\<close>
  "sql_is v column = (v \<noteq> JUndefined \<and> v \<noteq> JNull \<and> js_to_string v = column)"

definition sql_key :: "json \<Rightarrow> string outcome" where
  \<comment> \<open>a parameter stored in a column that is not null\<close>
  "sql_key v = ensureR (v \<noteq> JUndefined \<and> v \<noteq> JNull) ''23502'' (Inr (js_to_string v))"

definition positive :: "json \<Rightarrow> int outcome" where
  "positive v = bindR (to_bigint v) (\<lambda>n. ensureR (0 < n) ''INVALID_AMOUNT'' (Inr n))"

definition account_suffix :: "string \<Rightarrow> string \<Rightarrow> string \<Rightarrow> string \<Rightarrow> string" where
  "account_suffix product owner asset kind = product @ '':'' @ owner @ '':'' @ asset @ '':'' @ kind"

definition ledgerAccountId :: "string \<Rightarrow> string \<Rightarrow> string \<Rightarrow> string \<Rightarrow> string" where
  "ledgerAccountId product owner asset kind = ''ledger:'' @ account_suffix product owner asset kind"

definition registerAccountId :: "string \<Rightarrow> string \<Rightarrow> string \<Rightarrow> string \<Rightarrow> string" where
  "registerAccountId product owner asset kind = ''register:'' @ account_suffix product owner asset kind"

definition unit_asset :: "string \<Rightarrow> string" where
  "unit_asset product = ''UNIT:'' @ product"

section \<open>The terms of a settlement\<close>

definition current_product :: "wf_db \<Rightarrow> json \<Rightarrow> wf_product outcome" where
  "current_product s productId = (case filter (\<lambda>p. sql_is productId (wp_id p) \<and> wp_status p = ''ACTIVE'') (wf_products s) of
     [p] \<Rightarrow> Inr p | _ \<Rightarrow> Inl (Coded ''PRODUCT_NOT_ACTIVE''))"

definition current_nav :: "wf_db \<Rightarrow> wf_product \<Rightarrow> int \<Rightarrow> wf_evidence outcome" where
  \<comment> \<open>the latest NAV in force\<close>
  "current_nav s product now =
     (case sort_key (\<lambda>e. - we_effectiveAt e) (filter (\<lambda>e. we_product e = wp_id product \<and> we_type e = ''nav''
         \<and> we_status e = ''ACTIVE'' \<and> we_effectiveAt e \<le> now \<and> now < we_expiresAt e) (wf_evidence s)) of
        [] \<Rightarrow> Inl (Coded ''MISSING_EVIDENCE'')
      | nav # _ \<Rightarrow> ensureR (jfield (we_payload nav) ''currency'' = JStr (wp_currency product)) ''EVIDENCE_CURRENCY'' (Inr nav))"

definition includes_text :: "json \<Rightarrow> string \<Rightarrow> string \<Rightarrow> unit outcome" where
  \<comment> \<open>\<open>fail(list.includes(value), code)\<close>\<close>
  "includes_text xs v code = nativeR (is_array xs) ''TypeError'' (ensureR (JStr v \<in> set (jelems xs)) code (Inr ()))"

definition assertCredential :: "wf_db \<Rightarrow> workflow \<Rightarrow> wf_product \<Rightarrow> json \<Rightarrow> json \<Rightarrow> int \<Rightarrow> bool \<Rightarrow> string outcome" where
  "assertCredential s w product subjectRef credentialId additionalUnits allowRestrictedExit =
     (case filter (\<lambda>c. sql_is credentialId (wc_id c) \<and> wc_product c = wp_id product) (wf_credentials s) of
        [c] \<Rightarrow>
          bindR (guards [
            (JStr (wc_subject c) \<noteq> subjectRef, ''CREDENTIAL_SUBJECT''),
            (\<not> (wc_from c \<le> wk_now w \<and> wk_now w < wc_until c), ''CREDENTIAL_TIME''),
            (\<not> (wc_status c = ''ACTIVE'' \<or> allowRestrictedExit \<and> wc_status c = ''RESTRICTED_EXIT''), ''CREDENTIAL_REVOKED'')]) (\<lambda>_.
          bindR (includes_text (jfield (wp_rules product) ''allowedInvestorClasses'') (wc_class c) ''INVESTOR_CLASS'') (\<lambda>_.
          bindR (includes_text (jfield (wp_rules product) ''allowedJurisdictions'') (wc_jurisdiction c) ''INVESTOR_JURISDICTION'') (\<lambda>_.
          ensureR (additionalUnits \<le> 0 \<or> balance_in (db_register (wf_store s))
              (registerAccountId (wp_id product) (js_to_string subjectRef) (unit_asset (wp_id product)) ''INVESTOR'')
              + additionalUnits \<le> wc_maxUnits c) ''HOLDING_LIMIT''
         (Inr (wc_status c)))))
      | _ \<Rightarrow> Inl (Coded ''UNKNOWN_CREDENTIAL''))"

record terms =
  te_cash :: int
  te_fee :: int
  te_mode :: string
  te_ledger :: "entry_request list"
  te_register :: "entry_request list"

definition movement :: "string \<Rightarrow> string \<Rightarrow> int \<Rightarrow> entry_request" where
  "movement account asset delta = \<lparr>eq_account = account, eq_asset = asset, eq_delta = delta\<rparr>"

definition rules_currency :: "wf_product \<Rightarrow> string" where
  "rules_currency product = text_field (wp_rules product) ''currency''"

definition ledger_balance :: "wf_db \<Rightarrow> string \<Rightarrow> int" where
  "ledger_balance s account = balance_in (db_ledger (wf_store s)) account"

definition units_move :: "string \<Rightarrow> (string \<times> string) \<Rightarrow> (string \<times> string) \<Rightarrow> int
    \<Rightarrow> (string \<Rightarrow> string \<Rightarrow> string \<Rightarrow> string \<Rightarrow> string) \<Rightarrow> entry_request list" where
  \<comment> \<open>units leave the first account (owner and type) for the second\<close>
  "units_move product source target units accountId = (let asset = unit_asset product in
     [movement (accountId product (fst source) asset (snd source)) asset (- units),
      movement (accountId product (fst target) asset (snd target)) asset units])"

definition subscribe_terms :: "wf_db \<Rightarrow> workflow \<Rightarrow> wf_product \<Rightarrow> int \<Rightarrow> int \<Rightarrow> json \<Rightarrow> terms outcome" where
  "subscribe_terms s w product navPrice units request =
     bindR (assertCredential s w product (jfield request ''investorId'') (jfield request ''credentialId'') units False) (\<lambda>_.
     bindR (positive (jfield request ''cashAmount'')) (\<lambda>cashAmount.
     ensureR (cashAmount = units * navPrice) ''PRICE_MISMATCH''
    (let p = wp_id product; currency = rules_currency product; investor = text_field request ''investorId'';
         investorCash = ledgerAccountId p investor currency ''INVESTOR'' in
     ensureR (cashAmount \<le> ledger_balance s investorCash) ''INSUFFICIENT_CASH''
    (Inr \<lparr>te_cash = cashAmount, te_fee = 0, te_mode = ''STANDARD'',
       te_ledger = [movement investorCash currency (- cashAmount),
         movement (ledgerAccountId p (wp_issuer product) currency ''ISSUER'') currency cashAmount]
         @ units_move p (''TREASURY'', ''TREASURY'') (investor, ''INVESTOR'') units ledgerAccountId,
       te_register = units_move p (''TREASURY'', ''TREASURY'') (investor, ''INVESTOR'') units registerAccountId\<rparr>))))"

definition request_fee :: "json \<Rightarrow> int outcome" where
  \<comment> \<open>the fee of the request, zero where it has none\<close>
  "request_fee request = (let v = jfield request ''fee'' in to_bigint (if v = JUndefined \<or> v = JNull then JStr ''0'' else v))"

definition price_in_band :: "wf_product \<Rightarrow> int \<Rightarrow> int \<Rightarrow> unit outcome" where
  "price_in_band product price navPrice =
     bindR (to_bigint (jfield (wp_rules product) ''maxPriceDeviationBps'')) (\<lambda>bps.
     ensureR ((if navPrice < price then price - navPrice else navPrice - price) * 10000 \<le> navPrice * bps) ''PRICE_DEVIATION'' (Inr ()))"

definition not_expired :: "workflow \<Rightarrow> json \<Rightarrow> bool" where
  "not_expired w expiresAt = (case wk_date w expiresAt of None \<Rightarrow> False | Some t \<Rightarrow> wk_now w < t)"

definition durable_transfer_terms :: "wf_db \<Rightarrow> workflow \<Rightarrow> wf_product \<Rightarrow> int \<Rightarrow> int \<Rightarrow> json \<Rightarrow> terms outcome" where
  "durable_transfer_terms s w product navPrice units request =
     bindR (guards [(\<not> not_expired w (jfield request ''expiresAt''), ''TRANSACTION_EXPIRED''),
       (jstrict_eq (jfield request ''sellerId'') (jfield request ''buyerId''), ''SELF_TRANSFER'')]) (\<lambda>_.
     bindR (assertCredential s w product (jfield request ''sellerId'') (jfield request ''sellerCredentialId'') 0 False) (\<lambda>_.
     bindR (assertCredential s w product (jfield request ''buyerId'') (jfield request ''buyerCredentialId'') units False) (\<lambda>_.
     bindR (positive (jfield request ''pricePerUnit'')) (\<lambda>price.
     bindR (request_fee request) (\<lambda>fee.
     ensureR (0 \<le> fee) ''INVALID_AMOUNT''
    (bindR (price_in_band product price navPrice) (\<lambda>_.
     let p = wp_id product; currency = rules_currency product; asset = unit_asset p; cashAmount = units * price;
         seller = text_field request ''sellerId''; buyer = text_field request ''buyerId'';
         sellerUnit = ledgerAccountId p seller asset ''INVESTOR''; buyerCash = ledgerAccountId p buyer currency ''INVESTOR'' in
     ensureR (units \<le> ledger_balance s sellerUnit) ''INSUFFICIENT_ASSET''
    (ensureR (cashAmount + fee \<le> ledger_balance s buyerCash) ''INSUFFICIENT_CASH''
    (Inr \<lparr>te_cash = cashAmount, te_fee = fee, te_mode = ''STANDARD'',
       te_ledger = [movement buyerCash currency (- (cashAmount + fee)),
         movement (ledgerAccountId p seller currency ''INVESTOR'') currency cashAmount]
         @ (if fee = 0 then [] else [movement (ledgerAccountId p (wp_issuer product) currency ''FEE'') currency fee])
         @ units_move p (seller, ''INVESTOR'') (buyer, ''INVESTOR'') units ledgerAccountId,
       te_register = units_move p (seller, ''INVESTOR'') (buyer, ''INVESTOR'') units registerAccountId\<rparr>)))))))))"

definition redeem_terms :: "wf_db \<Rightarrow> workflow \<Rightarrow> wf_product \<Rightarrow> int \<Rightarrow> int \<Rightarrow> json \<Rightarrow> terms outcome" where
  "redeem_terms s w product navPrice units request =
     bindR (assertCredential s w product (jfield request ''investorId'') (jfield request ''credentialId'') 0 True) (\<lambda>status.
     let p = wp_id product; currency = rules_currency product; investor = text_field request ''investorId'';
         cashAmount = units * navPrice; investorUnit = ledgerAccountId p investor (unit_asset p) ''INVESTOR'';
         issuerCash = ledgerAccountId p (wp_issuer product) currency ''ISSUER'' in
     ensureR (units \<le> ledger_balance s investorUnit) ''INSUFFICIENT_ASSET''
    (ensureR (cashAmount \<le> ledger_balance s issuerCash) ''INSUFFICIENT_REDEMPTION_CASH''
    (Inr \<lparr>te_cash = cashAmount, te_fee = 0, te_mode = (if status = ''RESTRICTED_EXIT'' then ''RESTRICTED_EXIT'' else ''STANDARD''),
       te_ledger = [movement issuerCash currency (- cashAmount),
         movement (ledgerAccountId p investor currency ''INVESTOR'') currency cashAmount]
         @ units_move p (investor, ''INVESTOR'') (''TREASURY'', ''TREASURY'') units ledgerAccountId,
       te_register = units_move p (investor, ''INVESTOR'') (''TREASURY'', ''TREASURY'') units registerAccountId\<rparr>)))"

definition settle_terms :: "string \<Rightarrow> wf_db \<Rightarrow> workflow \<Rightarrow> wf_product \<Rightarrow> int \<Rightarrow> int \<Rightarrow> json \<Rightarrow> terms outcome" where
  "settle_terms type = (if type = ''SUBSCRIBE'' then subscribe_terms else if type = ''TRANSFER'' then durable_transfer_terms else redeem_terms)"

record settle_plan =
  pl_product :: wf_product
  pl_nav :: wf_evidence
  pl_units :: int
  pl_terms :: terms

definition plan_settlement :: "wf_db \<Rightarrow> workflow \<Rightarrow> string \<Rightarrow> json \<Rightarrow> settle_plan outcome" where
  "plan_settlement s w type request =
     bindR (current_product s (jfield request ''productId'')) (\<lambda>product.
     bindR (current_nav s product (wk_now w)) (\<lambda>nav.
     bindR (positive (jfield request ''units'')) (\<lambda>units.
     bindR (to_bigint (jfield (we_payload nav) ''navPerUnit'')) (\<lambda>navPrice.
     bindR (settle_terms type s w product navPrice units request) (\<lambda>t.
     Inr \<lparr>pl_product = product, pl_nav = nav, pl_units = units, pl_terms = t\<rparr>)))))"

section \<open>Settling\<close>

definition replay_rows :: "wf_db \<Rightarrow> workflow \<Rightarrow> json \<Rightarrow> (intent_row \<times> json option) list" where
  "replay_rows s w request =
     [(t, map_option rc_receipt (find (\<lambda>r. rc_tx r = ti_id t) (db_receipts (wf_store s)))).
        t \<leftarrow> db_intents (wf_store s), ti_tenant t = wk_tenant w \<and> sql_is (jfield request ''idempotencyKey'') (ti_key t)]"

definition assigned :: "wf_db \<Rightarrow> string \<Rightarrow> string \<Rightarrow> string list" where
  "assigned s product role = [i. (p, r, i) \<leftarrow> wf_roles s, p = product \<and> r = role]"

definition cipher_context_of :: "string \<Rightarrow> json \<Rightarrow> string \<Rightarrow> string \<Rightarrow> json" where
  "cipher_context_of tenant tx product type = JObj [(''tenantId'', JStr tenant), (''transactionId'', tx), (''productId'', JStr product),
     (''transactionType'', JStr type)]"

definition settle_intent ::
  "wf_db \<Rightarrow> workflow \<Rightarrow> settle_plan \<Rightarrow> string \<Rightarrow> json \<Rightarrow> string \<Rightarrow> (string \<times> string list) option \<Rightarrow> string \<Rightarrow> string \<Rightarrow> intent_request" where
  "settle_intent s w pl type request ciphertext index tx key =
     (let product = pl_product pl in
      \<lparr>iq_id = tx, iq_tenant = wk_tenant w, iq_product = wp_id product, iq_key = key, iq_request = request, iq_type = type,
       iq_ruleVersion = JNum (wp_ruleVersion product), iq_navEvidenceId = JStr (we_id (pl_nav pl)),
       iq_policyHash = JStr (sha256Canonical (wk_sha w) (JObj [(''ruleVersion'', JNum (wp_ruleVersion product)),
         (''rules'', wp_rules product), (''navEvidenceId'', JStr (we_id (pl_nav pl)))])),
       iq_ciphertext = JStr ciphertext, iq_rail = None,
       iq_institution = Some (case assigned s (wp_id product) ''distributor'' of [] \<Rightarrow> None | i # _ \<Rightarrow> Some i),
       iq_partyIndex = index, iq_actor = Some ''sandbox-workflow''\<rparr>)"

definition commitment :: "committer \<Rightarrow> workflow \<Rightarrow> string \<Rightarrow> string \<Rightarrow> string \<Rightarrow> int \<Rightarrow> string outcome" where
  "commitment c w tx product field value =
     em_commit c \<lparr>cq_tenant = wk_tenant w, cq_tx = Some tx, cq_product = product, cq_field = field, cq_value = int_text value\<rparr>"

definition add_commitment :: "workflow \<Rightarrow> string \<Rightarrow> settle_plan \<Rightarrow> (wf_db, unit) eff" where
  "add_commitment w tx pl = (case wk_committer w of
     None \<Rightarrow> throwE (Coded ''ECONOMIC_COMMITTER_REQUIRED'')
   | Some c \<Rightarrow> let product = wp_id (pl_product pl) in
       bindE (liftE (commitment c w tx product ''units'' (pl_units pl))) (\<lambda>units.
       bindE (liftE (commitment c w tx product ''cashAmountMinor'' (te_cash (pl_terms pl)))) (\<lambda>cash.
       bindE (liftE (commitment c w tx product ''feeAmountMinor'' (te_fee (pl_terms pl)))) (\<lambda>fee. withE (\<lambda>s.
       if \<exists>r \<in> set (wf_commitments s). ec_tx r = tx then throwE unique_violation
       else modifyE (\<lambda>s. s\<lparr>wf_commitments := wf_commitments s @
         [\<lparr>ec_tx = tx, ec_version = em_version c, ec_keyId = em_keyId c, ec_asset = unit_asset product,
           ec_currency = wp_currency (pl_product pl), ec_units = units, ec_cash = cash, ec_fee = fee\<rparr>]\<rparr>))))))"

fun walk_states :: "string \<Rightarrow> string list \<Rightarrow> (wf_db, unit) eff" where
  \<comment> \<open>\<open>for (const state of states) await transitionTransaction(...)\<close>\<close>
  "walk_states tx [] = retE ()"
| "walk_states tx (state # rest) =
     thenE (inWf (transitionTransaction tx state None (Some ''sandbox-workflow''))) (walk_states tx rest)"

definition confirm_cash :: "string \<Rightarrow> string \<Rightarrow> string \<Rightarrow> string \<Rightarrow> string \<Rightarrow> (wf_db, unit) eff" where
  "confirm_cash tx product state reference mode = withE (\<lambda>s.
     case assigned s product ''cash_provider'' of
       [i] \<Rightarrow>
         if \<exists>c \<in> set (wf_confirmations s). cf_tx c = tx then throwE unique_violation
         else modifyE (\<lambda>s. s\<lparr>wf_confirmations := wf_confirmations s @
           [\<lparr>cf_tx = tx, cf_source = i, cf_state = state, cf_reference = reference @ tx, cf_receipt = JObj [(''mode'', JStr mode)]\<rparr>]\<rparr>)
     | _ \<Rightarrow> throwE (Coded ''MISSING_ROLE''))"

definition wf_announce :: "workflow \<Rightarrow> string \<Rightarrow> string \<Rightarrow> string \<Rightarrow> string \<Rightarrow> json \<Rightarrow> string \<Rightarrow> json \<Rightarrow> (wf_db, unit) eff" where
  \<comment> \<open>\<open>recordAuditEvent\<close>, then \<open>enqueueOutbox\<close>, for an aggregate\<close>
  "wf_announce w eventId eventType aggType aggId metadata topic payload =
     thenE (inWf (recordAuditEvent (wk_sha w) \<lparr>ae_tenant = wk_tenant w, ae_event = eventType, ae_aggType = aggType, ae_aggId = aggId,
         ae_metadata = metadata\<rparr>))
    (thenE (inWf (enqueueOutbox (wk_sha w) (wk_now w) eventId (wk_tenant w) topic aggId payload None))
    (retE ()))"

definition review_receipt :: "string \<Rightarrow> string \<Rightarrow> settle_plan \<Rightarrow> json" where
  "review_receipt tx type pl =
     JObj [(''transactionId'', JStr tx), (''productId'', JStr (wp_id (pl_product pl))), (''type'', JStr type),
       (''state'', JStr ''REQUIRES_REVIEW''), (''settledAt'', JNull), (''navEvidenceId'', JStr (we_id (pl_nav pl))),
       (''ruleVersion'', JNum (wp_ruleVersion (pl_product pl))), (''settlementMode'', JStr ''EXCEPTION_REVIEW''),
       (''lifecycle'', JArr (map JStr [''REQUESTED'', ''POLICY_CHECKED'', ''CASH_RESERVED'', ''REQUIRES_REVIEW''])),
       (''proofSystem'', JStr ''SANDBOX_NO_ZK_PROOF''), (''exceptionCaseId'', JStr (''case-'' @ tx)), (''reasonCode'', JStr ''REGISTER_TIMEOUT'')]"

definition open_exception_case :: "string \<Rightarrow> string \<Rightarrow> (wf_db, unit) eff" where
  "open_exception_case tx product = inWf (withE (\<lambda>s.
     if \<exists>x \<in> set (db_exceptions s). xc_id x = ''case-'' @ tx \<or> xc_tx x = tx then throwE unique_violation
     else modifyE (\<lambda>s. s\<lparr>db_exceptions := db_exceptions s @
       [\<lparr>xc_id = ''case-'' @ tx, xc_tx = tx, xc_product = product, xc_status = ''OPEN'', xc_round = 0, xc_replacement = None,
         xc_version = 0\<rparr>]\<rparr>)))"

definition settle_review :: "workflow \<Rightarrow> string \<Rightarrow> string \<Rightarrow> string \<Rightarrow> settle_plan \<Rightarrow> (wf_db, json) eff" where
  \<comment> \<open>the branch of a simulated register failure\<close>
  "settle_review w eventId tx type pl =
     (let product = wp_id (pl_product pl); receipt = review_receipt tx type pl in
      thenE (walk_states tx [''POLICY_CHECKED'', ''CASH_RESERVED''])
     (thenE (confirm_cash tx product ''RELEASED'' ''sandbox-released:'' ''SANDBOX_REGISTER_TIMEOUT'')
     (thenE (inWf (transitionTransaction tx ''REQUIRES_REVIEW'' (Some ''REGISTER_TIMEOUT'') (Some ''sandbox-workflow'')))
     (thenE (open_exception_case tx product)
     (bindE (inWf (storeReceipt (wk_sha w) tx receipt)) (\<lambda>receiptHash.
      thenE (wf_announce w eventId ''exception.opened'' ''transaction'' tx
         (JObj [(''productId'', JStr product), (''state'', JStr ''REQUIRES_REVIEW''), (''reasonCode'', JStr ''REGISTER_TIMEOUT''),
           (''receiptHash'', JStr receiptHash)])
         ''rwa.exception.opened''
         (JObj [(''transactionId'', JStr tx), (''productId'', JStr product), (''exceptionCaseId'', JStr (''case-'' @ tx)),
           (''reasonCode'', JStr ''REGISTER_TIMEOUT'')]))
     (retE receipt)))))))"

definition settled_receipt :: "workflow \<Rightarrow> string \<Rightarrow> string \<Rightarrow> settle_plan \<Rightarrow> json" where
  "settled_receipt w tx type pl =
     JObj [(''transactionId'', JStr tx), (''productId'', JStr (wp_id (pl_product pl))), (''type'', JStr type),
       (''state'', JStr ''SETTLED''), (''settledAt'', JStr (wk_iso w (wk_now w))), (''navEvidenceId'', JStr (we_id (pl_nav pl))),
       (''ruleVersion'', JNum (wp_ruleVersion (pl_product pl))), (''settlementMode'', JStr (te_mode (pl_terms pl))),
       (''lifecycle'', JArr (map JStr [''REQUESTED'', ''POLICY_CHECKED'', ''CASH_RESERVED'', ''REGISTER_PENDING'', ''SETTLED''])),
       (''proofSystem'', JStr ''SANDBOX_NO_ZK_PROOF'')]"

definition lower_type :: "string \<Rightarrow> string" where
  "lower_type type = (if type = ''SUBSCRIBE'' then ''subscribe'' else if type = ''TRANSFER'' then ''transfer'' else ''redeem'')"

definition finish_settlement :: "workflow \<Rightarrow> string \<Rightarrow> string \<Rightarrow> string \<Rightarrow> settle_plan \<Rightarrow> (wf_db, json) eff" where
  \<comment> \<open>the confirmation, the receipt and the announcement, after the postings\<close>
  "finish_settlement w eventId tx type pl =
     (let product = wp_id (pl_product pl); receipt = settled_receipt w tx type pl in
      thenE (confirm_cash tx product ''CONFIRMED'' ''sandbox:'' ''SANDBOX_JOURNAL'')
     (thenE (inWf (transitionTransaction tx ''SETTLED'' None (Some ''sandbox-workflow'')))
     (bindE (inWf (storeReceipt (wk_sha w) tx receipt)) (\<lambda>receiptHash.
      thenE (wf_announce w eventId (lower_type type @ ''.settled'') ''transaction'' tx
         (JObj [(''productId'', JStr product), (''state'', JStr ''SETTLED''), (''receiptHash'', JStr receiptHash)])
         ''rwa.transaction.settled''
         (JObj [(''transactionId'', JStr tx), (''productId'', JStr product), (''type'', JStr type), (''state'', JStr ''SETTLED''),
           (''receiptHash'', JStr receiptHash)]))
     (retE receipt)))))"

definition settle_books :: "workflow \<Rightarrow> string \<Rightarrow> string \<Rightarrow> string \<Rightarrow> settle_plan \<Rightarrow> (wf_db, json) eff" where
  \<comment> \<open>the branch that posts to the ledger and the register\<close>
  "settle_books w eventId tx type pl =
     thenE (walk_states tx [''POLICY_CHECKED'', ''CASH_RESERVED'', ''REGISTER_PENDING''])
    (thenE (inWf (appendLedgerBatch (''ledger:'' @ tx) (Some tx) ''TRANSACTION'' (te_ledger (pl_terms pl))))
    (thenE (inWf (appendRegisterBatch (''register:'' @ tx) (Some tx) (unit_asset (wp_id (pl_product pl))) (te_register (pl_terms pl))))
    (finish_settlement w eventId tx type pl)))"

definition stored_receipt :: "string \<Rightarrow> (wf_db, json) eff" where
  "stored_receipt tx = withE (\<lambda>s. optE (map_option rc_receipt (find (\<lambda>r. rc_tx r = tx) (db_receipts (wf_store s))))
     (Coded ''IDEMPOTENCY_IN_FLIGHT''))"

definition settle_created :: "workflow \<Rightarrow> string \<Rightarrow> string \<Rightarrow> string \<Rightarrow> settle_plan \<Rightarrow> bool \<Rightarrow> bool \<times> intent_row \<Rightarrow> (wf_db, json) eff" where
  \<comment> \<open>after \<open>createTransactionIntent\<close>\<close>
  "settle_created w eventId tx type pl registerFailure answer =
     (if \<not> fst answer then stored_receipt (ti_id (snd answer))
      else thenE (add_commitment w tx pl)
        (if registerFailure then settle_review w eventId tx type pl else settle_books w eventId tx type pl))"

definition settle_new :: "workflow \<Rightarrow> string \<Rightarrow> string \<Rightarrow> json \<Rightarrow> bool \<Rightarrow> (wf_db, json) eff" where
  \<comment> \<open>a request whose idempotency key is not used yet\<close>
  "settle_new w eventId type request registerFailure = withE (\<lambda>s.
     bindE (liftE (plan_settlement s w type request)) (\<lambda>pl.
     let product = wp_id (pl_product pl) in
     bindE (liftE (wk_encrypt w request (cipher_context_of (wk_tenant w) (jfield request ''id'') product type))) (\<lambda>ciphertext.
     bindE (liftE (partyIndexFor (wk_committer w) (wk_tenant w) product request)) (\<lambda>index.
     bindE (liftE (sql_key (jfield request ''id''))) (\<lambda>tx.
     bindE (liftE (sql_key (jfield request ''idempotencyKey''))) (\<lambda>key.
     bindE (inWf (createTransactionIntent (wk_sha w) (settle_intent s w pl type request ciphertext index tx key)))
       (settle_created w eventId tx type pl registerFailure)))))))"

definition settleInTransaction :: "workflow \<Rightarrow> string \<Rightarrow> string \<Rightarrow> json \<Rightarrow> bool \<Rightarrow> (wf_db, json) eff" where
  "settleInTransaction w eventId type request registerFailure = withE (\<lambda>s.
     case replay_rows s w request of
       [(t, receipt)] \<Rightarrow>
         thenE (ensureE (ti_hash t = sha256Canonical (wk_sha w) request) ''IDEMPOTENCY_CONFLICT'')
        (optE receipt (Coded ''IDEMPOTENCY_IN_FLIGHT''))
     | _ \<Rightarrow> settle_new w eventId type request registerFailure)"

definition settle :: "workflow \<Rightarrow> (nat \<Rightarrow> unit outcome) \<Rightarrow> string \<Rightarrow> string \<Rightarrow> json \<Rightarrow> (wf_db, json) eff" where
  "settle w commit eventId type request = withSerializableTransaction 3 commit (settleInTransaction w eventId type request False)"

definition durable_subscribe :: "workflow \<Rightarrow> (nat \<Rightarrow> unit outcome) \<Rightarrow> string \<Rightarrow> json \<Rightarrow> (wf_db, json) eff" where
  "durable_subscribe w commit eventId request = settle w commit eventId ''SUBSCRIBE'' request"

definition durable_transfer :: "workflow \<Rightarrow> (nat \<Rightarrow> unit outcome) \<Rightarrow> string \<Rightarrow> json \<Rightarrow> (wf_db, json) eff" where
  "durable_transfer w commit eventId request = settle w commit eventId ''TRANSFER'' request"

definition durable_redeem :: "workflow \<Rightarrow> (nat \<Rightarrow> unit outcome) \<Rightarrow> string \<Rightarrow> json \<Rightarrow> (wf_db, json) eff" where
  "durable_redeem w commit eventId request = settle w commit eventId ''REDEEM'' request"

definition durable_simulateRegisterFailure :: "workflow \<Rightarrow> (nat \<Rightarrow> unit outcome) \<Rightarrow> string \<Rightarrow> json \<Rightarrow> (wf_db, json) eff" where
  "durable_simulateRegisterFailure w commit eventId request =
     withSerializableTransaction 3 commit (settleInTransaction w eventId ''TRANSFER'' request True)"

section \<open>Exception cases\<close>

definition durable_proposeExceptionResolution ::
  "workflow \<Rightarrow> (nat \<Rightarrow> unit outcome) \<Rightarrow> string \<Rightarrow> string \<Rightarrow> string \<Rightarrow> string \<Rightarrow> string option \<Rightarrow> (wf_db, exception_record) eff" where
  \<comment> \<open>answers the case\<close>
  "durable_proposeExceptionResolution w commit eventId caseId makerId decision replacementTransactionId =
     withSerializableTransaction 3 commit (
     bindE (inWf (store_proposeExceptionResolution caseId makerId decision replacementTransactionId None)) (\<lambda>proposed.
     thenE (inWf (transitionTransaction (xc_tx proposed) ''PENDING_APPROVAL'' None (Some makerId)))
    (thenE (wf_announce w eventId ''exception.resolution_proposed'' ''transaction'' (xc_tx proposed)
        (JObj [(''productId'', JStr (xc_product proposed)), (''exceptionCaseId'', JStr caseId), (''approvalRound'', JNum (int (xc_round proposed))),
          (''decision'', JStr decision), (''makerId'', JStr makerId)])
        ''rwa.exception.resolution_proposed''
        (JObj [(''exceptionCaseId'', JStr caseId), (''approvalRound'', JNum (int (xc_round proposed))), (''decision'', JStr decision)]))
    (retE proposed))))"

record approval_context =
  ac_case :: string
  ac_checker :: string
  ac_outcome :: approval_outcome

definition recordExceptionDecision :: "workflow \<Rightarrow> string \<Rightarrow> approval_context \<Rightarrow> string \<Rightarrow> string option \<Rightarrow> (wf_db, unit) eff" where
  "recordExceptionDecision w eventId ac state reasonCode =
     (let x = ao_exception (ac_outcome ac);
          metadata = JObj [(''productId'', JStr (xc_product x)), (''exceptionCaseId'', JStr (ac_case ac)),
            (''approvalRound'', JNum (int (xc_round x))), (''checkerId'', JStr (ac_checker ac)), (''state'', JStr state),
            (''reasonCode'', nullable reasonCode)] in
      wf_announce w eventId (if starts_with state ''RESOLVED_'' then ''exception.resolved'' else ''exception.retry_blocked'')
        ''transaction'' (xc_tx x) metadata ''rwa.exception.decision_recorded'' metadata)"

datatype decision_answer =
    Returned_for_review
  | Retry_blocked string
  | Resolved_cancelled string   \<comment> \<open>with the maker\<close>
  | Resolved_retried string json   \<comment> \<open>with the maker and the receipt of the replacement\<close>

definition reopen_case :: "workflow \<Rightarrow> string \<Rightarrow> approval_context \<Rightarrow> string option \<Rightarrow> string \<Rightarrow> (wf_db, unit) eff" where
  \<comment> \<open>the transaction and the case go back to review\<close>
  "reopen_case w eventId ac reasonCode recorded =
     thenE (inWf (transitionTransaction (xc_tx (ao_exception (ac_outcome ac))) ''REQUIRES_REVIEW'' reasonCode (Some (ac_checker ac))))
    (thenE (inWf (returnExceptionForReview (ac_case ac)))
    (recordExceptionDecision w eventId ac ''OPEN'' (Some recorded)))"

definition close_case :: "workflow \<Rightarrow> string \<Rightarrow> approval_context \<Rightarrow> string \<Rightarrow> string \<Rightarrow> string option \<Rightarrow> (wf_db, unit) eff" where
  "close_case w eventId ac txState caseState replacement =
     thenE (inWf (transitionTransaction (xc_tx (ao_exception (ac_outcome ac))) txState None (Some (ac_checker ac))))
    (thenE (inWf (resolveExceptionCase (ac_case ac) caseState replacement))
    (recordExceptionDecision w eventId ac caseState None))"

definition with_property :: "string \<Rightarrow> json \<Rightarrow> json \<Rightarrow> json" where
  \<comment> \<open>the object spread into a new one, with a property set\<close>
  "with_property k v request = JObj (AList.update k v (case request of JObj kvs \<Rightarrow> kvs | _ \<Rightarrow> []))"

definition replacement_request :: "string \<Rightarrow> string option \<Rightarrow> json \<Rightarrow> json" where
  "replacement_request caseId replacement original =
     with_property ''idempotencyKey'' (JStr (''exception-retry:'' @ caseId @ '':'' @ js_to_string (nullable replacement)))
       (with_property ''id'' (nullable replacement) original)"

definition error_reason :: "js_error \<Rightarrow> string" where
  \<comment> \<open>\<open>error.code\<close>, RETRY_BLOCKED where there is none\<close>
  "error_reason e = (case e of Coded c \<Rightarrow> c | Native _ \<Rightarrow> ''RETRY_BLOCKED'')"

definition try_settlement :: "workflow \<Rightarrow> string \<Rightarrow> string \<Rightarrow> json \<Rightarrow> (wf_db, js_error + json) eff" where
  \<comment> \<open>between a savepoint and its release, or the rollback to it\<close>
  "try_settlement w eventId type request =
     catchE (bindE (attempt_once (Inr ()) (settleInTransaction w eventId type request False)) (\<lambda>receipt. retE (Inr receipt)))
       (\<lambda>e. retE (Inl e))"

definition retry_case :: "workflow \<Rightarrow> string \<Rightarrow> string \<Rightarrow> approval_context \<Rightarrow> intent_row \<Rightarrow> json \<Rightarrow> (wf_db, decision_answer) eff" where
  "retry_case w retryEventId eventId ac original originalRequest =
     (let a = ac_outcome ac; request = replacement_request (ac_case ac) (ao_replacement a) originalRequest in
      bindE (try_settlement w retryEventId (ti_type original) request) (\<lambda>outcome. case outcome of
          Inl e \<Rightarrow> thenE (reopen_case w eventId ac (Some (error_reason e)) (error_reason e)) (retE (Retry_blocked (error_reason e)))
        | Inr receipt \<Rightarrow> thenE (close_case w eventId ac ''REPLACED'' ''RESOLVED_RETRIED'' (ao_replacement a))
            (retE (Resolved_retried (ao_maker a) receipt))))"

definition retry_original :: "workflow \<Rightarrow> string \<Rightarrow> string \<Rightarrow> approval_context \<Rightarrow> (wf_db, decision_answer) eff" where
  \<comment> \<open>the original request is decrypted and settled again\<close>
  "retry_original w retryEventId eventId ac = withE (\<lambda>s.
     bindE (optE (find (\<lambda>t. ti_id t = xc_tx (ao_exception (ac_outcome ac))) (db_intents (wf_store s))) (Coded ''UNKNOWN_TRANSACTION'')) (\<lambda>row.
     bindE (liftE (wk_decrypt w (ti_ciphertext row) (cipher_context_of (ti_tenant row) (JStr (ti_id row)) (ti_product row) (ti_type row)))) (\<lambda>request.
     retry_case w retryEventId eventId ac row request)))"

definition decide_case :: "workflow \<Rightarrow> string \<Rightarrow> string \<Rightarrow> string \<Rightarrow> approval_context \<Rightarrow> (wf_db, decision_answer) eff" where
  "decide_case w retryEventId eventId decision ac =
     (if decision = ''REJECT'' then thenE (reopen_case w eventId ac None ''CHECKER_REJECTED'') (retE Returned_for_review)
      else if ao_proposalDecision (ac_outcome ac) = ''CANCEL'' then
        thenE (close_case w eventId ac ''CANCELLED'' ''RESOLVED_CANCELLED'' None) (retE (Resolved_cancelled (ao_maker (ac_outcome ac))))
      else retry_original w retryEventId eventId ac)"

definition durable_approveExceptionResolution ::
  "workflow \<Rightarrow> (nat \<Rightarrow> unit outcome) \<Rightarrow> string \<Rightarrow> string \<Rightarrow> string \<Rightarrow> string \<Rightarrow> string \<Rightarrow> (wf_db, decision_answer) eff" where
  \<comment> \<open>\<open>retryEventId\<close> and \<open>eventId\<close> are the ids drawn for the outbox events of the retry and of the decision\<close>
  "durable_approveExceptionResolution w commit retryEventId eventId caseId checkerId decision =
     withSerializableTransaction 3 commit (
     bindE (inWf (store_approveExceptionResolution caseId checkerId decision None)) (\<lambda>a.
     decide_case w retryEventId eventId decision \<lparr>ac_case = caseId, ac_checker = checkerId, ac_outcome = a\<rparr>))"

section \<open>Products and credentials\<close>

definition status_payload :: "string \<Rightarrow> string \<Rightarrow> string \<Rightarrow> json \<Rightarrow> json" where
  "status_payload productId status actorRef reason =
     JObj [(''productId'', JStr productId), (''status'', JStr status), (''actorRef'', JStr actorRef), (''reason'', reason)]"

definition setProductStatus ::
  "workflow \<Rightarrow> (nat \<Rightarrow> unit outcome) \<Rightarrow> string \<Rightarrow> string \<Rightarrow> string \<Rightarrow> string option \<Rightarrow> json \<Rightarrow> (wf_db, string) eff" where
  \<comment> \<open>answers the status\<close>
  "setProductStatus w commit eventId productId status actorRef reason =
     thenE (ensureE (status \<in> {''ACTIVE'', ''PAUSED''}) ''INVALID_PRODUCT_STATUS'')
    (thenE (ensureE (present actorRef) ''MISSING_ACTOR'')
    (withSerializableTransaction 3 commit (withE (\<lambda>s.
     case filter (\<lambda>p. wp_id p = productId) (wf_products s) of
       [p] \<Rightarrow>
         thenE (ensureE (wp_status p = (if status = ''PAUSED'' then ''ACTIVE'' else ''PAUSED'')) ''INVALID_PRODUCT_STATE'')
        (thenE (modifyE (\<lambda>s. s\<lparr>wf_products := update_where (\<lambda>p. wp_id p = productId)
            (\<lambda>p. p\<lparr>wp_status := status, wp_version := wp_version p + 1\<rparr>) (wf_products s)\<rparr>))
        (thenE (wf_announce w eventId (if status = ''ACTIVE'' then ''product.active'' else ''product.paused'') ''product'' productId
            (status_payload productId status (or_empty actorRef) reason) ''rwa.product.status_changed''
            (status_payload productId status (or_empty actorRef) reason))
        (retE status)))
     | _ \<Rightarrow> throwE (Coded ''UNKNOWN_PRODUCT'')))))"

definition active_credential :: "string \<Rightarrow> wf_credential \<Rightarrow> bool" where
  "active_credential credentialId c = (wc_id c = credentialId \<and> wc_status c = ''ACTIVE'')"

definition restrictCredential ::
  "workflow \<Rightarrow> (nat \<Rightarrow> unit outcome) \<Rightarrow> string \<Rightarrow> string \<Rightarrow> string option \<Rightarrow> string option \<Rightarrow> (wf_db, string) eff" where
  \<comment> \<open>answers the status\<close>
  "restrictCredential w commit eventId credentialId actorRef reason =
     thenE (ensureE (present actorRef) ''MISSING_ACTOR'')
    (thenE (ensureE (present reason) ''MISSING_REASON'')
    (withSerializableTransaction 3 commit (withE (\<lambda>s.
     case filter (active_credential credentialId) (wf_credentials s) of
       [c] \<Rightarrow>
         thenE (modifyE (\<lambda>s. s\<lparr>wf_credentials := update_where (active_credential credentialId)
            (\<lambda>c. c\<lparr>wc_status := ''RESTRICTED_EXIT'', wc_reason := reason\<rparr>) (wf_credentials s)\<rparr>))
        (thenE (wf_announce w eventId ''credential.restricted_exit'' ''credential'' credentialId
            (JObj [(''productId'', JStr (wc_product c)), (''subjectRefHash'', JStr (sha256Canonical (wk_sha w) (JStr (wc_subject c)))),
              (''actorRef'', nullable actorRef), (''reason'', nullable reason)])
            ''rwa.credential.restricted''
            (JObj [(''credentialId'', JStr credentialId), (''productId'', JStr (wc_product c)), (''status'', JStr ''RESTRICTED_EXIT'')]))
        (retE ''RESTRICTED_EXIT''))
     | _ \<Rightarrow> throwE (Coded ''INVALID_CREDENTIAL_STATE'')))))"

end
