(* ===== verification/DurableFacts.thy ===== *)
theory DurableFacts
  imports DurableWorkflow PgFrames PgInvariants
begin

text \<open>
  What the durable workflows do to the books: a settlement appends the entries of its terms to the
  ledger and to the register, or leaves both alone, and its terms are covered by the balances.
\<close>

section \<open>Frames\<close>

lemma inWf_Inr [eff_simps]: "inWf m s = (Inr a, t) \<longleftrightarrow> (\<exists>u. m (wf_store s) = (Inr a, u) \<and> t = s\<lparr>wf_store := u\<rparr>)"
  by (auto simp: inWf_def split: prod.splits)

lemma inWf_Inl [eff_simps]: "inWf m s = (Inl e, t) \<longleftrightarrow> (\<exists>u. m (wf_store s) = (Inl e, u) \<and> t = s\<lparr>wf_store := u\<rparr>)"
  by (auto simp: inWf_def split: prod.splits)

definition wf_frame :: "wf_db \<Rightarrow> (book \<times> book) \<times> wf_product list \<times> wf_evidence list" where
  "wf_frame s = (books_of (wf_store s), wf_products s, wf_evidence s)"

lemma preserves_inWf [preserves_intros]:
  assumes "preserves books_of m"
  shows "preserves wf_frame (inWf m)"
proof (rule preservesI)
  fix s r t assume "inWf m s = (r, t)"
  then obtain u where u: "m (wf_store s) = (r, u)" "t = s\<lparr>wf_store := u\<rparr>" by (auto simp: inWf_def split: prod.splits)
  then show "wf_frame t = wf_frame s" using preservesD [OF assms u(1)] by (simp add: wf_frame_def)
qed

lemma walk_frame [preserves_intros]: "preserves wf_frame (walk_states tx states)"
  by (induction states) (simp_all, (intro preserves_intros frames | assumption)+)

lemma confirm_frame [preserves_intros]: "preserves wf_frame (confirm_cash tx product state reference mode)"
  unfolding confirm_cash_def
  by (intro preserves_intros preserves_modifyE | simp add: wf_frame_def split: list.split)+

lemma commitment_frame [preserves_intros]: "preserves wf_frame (add_commitment w tx pl)"
  unfolding add_commitment_def Let_def
  by (intro preserves_intros preserves_modifyE | simp add: wf_frame_def split: option.split)+

lemma wf_announce_frame [preserves_intros]: "preserves wf_frame (wf_announce w eventId ev ty c metadata topic payload)"
  unfolding wf_announce_def by (intro preserves_intros frames)

lemma open_exception_case_frame [preserves_intros]: "preserves wf_frame (open_exception_case tx product)"
  unfolding open_exception_case_def
  by (intro preserves_intros preserves_modifyE | simp add: books_of_def)+

lemma review_frame: "preserves wf_frame (settle_review w eventId tx type pl)"
  unfolding settle_review_def Let_def by (intro preserves_intros frames)

lemma stored_receipt_frame [preserves_intros]: "preserves wf_frame (stored_receipt tx)"
  unfolding stored_receipt_def by (intro preserves_intros)

lemma reopen_frame [preserves_intros]: "preserves wf_frame (reopen_case w eventId ac reason recorded)"
  unfolding reopen_case_def recordExceptionDecision_def Let_def by (intro preserves_intros frames)

lemma close_frame [preserves_intros]: "preserves wf_frame (close_case w eventId ac txState caseState replacement)"
  unfolding close_case_def recordExceptionDecision_def Let_def by (intro preserves_intros frames)

lemma durable_propose_frame: "preserves wf_frame (durable_proposeExceptionResolution w commit eventId caseId makerId decision replacement)"
  unfolding durable_proposeExceptionResolution_def by (intro preserves_intros frames)

lemma restrict_frame: "preserves wf_frame (restrictCredential w commit eventId c actor reason)"
  unfolding restrictCredential_def
  by (intro preserves_intros preserves_modifyE | simp add: wf_frame_def split: list.split)+

section \<open>What a settlement posts\<close>

definition posted :: "string \<Rightarrow> settle_plan \<Rightarrow> wf_db \<Rightarrow> wf_db \<Rightarrow> bool" where
  "posted tx pl s t =
     (wf_products t = wf_products s \<and> wf_evidence t = wf_evidence s
      \<and> bk_entries (db_ledger (wf_store t)) = bk_entries (db_ledger (wf_store s)) @ map (entry_of (''ledger:'' @ tx)) (te_ledger (pl_terms pl))
      \<and> bk_entries (db_register (wf_store t)) = bk_entries (db_register (wf_store s)) @ map (entry_of (''register:'' @ tx)) (te_register (pl_terms pl)))"

lemma ledger_post:
  assumes "inWf (appendLedgerBatch b tx src es) s = (Inr u, t)"
  shows "wf_products t = wf_products s" and "wf_evidence t = wf_evidence s" and "db_register (wf_store t) = db_register (wf_store s)"
    and "bk_entries (db_ledger (wf_store t)) = bk_entries (db_ledger (wf_store s)) @ map (entry_of b) es"
    and "assertBalancedEntries es = Inr ()"
  using assms by (auto simp: appendLedgerBatch_def eff_simps post_batch_def Let_def split: if_splits)

lemma register_post:
  assumes "inWf (appendRegisterBatch b tx src es) s = (Inr u, t)"
  shows "wf_products t = wf_products s" and "wf_evidence t = wf_evidence s" and "db_ledger (wf_store t) = db_ledger (wf_store s)"
    and "bk_entries (db_register (wf_store t)) = bk_entries (db_register (wf_store s)) @ map (entry_of b) es"
  using assms by (auto simp: appendRegisterBatch_def eff_simps post_batch_def Let_def split: if_splits)

lemma wf_frameD:
  assumes "preserves wf_frame m" and "m s = (r, t)"
  shows "wf_products t = wf_products s" and "wf_evidence t = wf_evidence s" and "db_ledger (wf_store t) = db_ledger (wf_store s)"
    and "db_register (wf_store t) = db_register (wf_store s)"
  using preservesD [OF assms] by (simp_all add: wf_frame_def books_of_def)

lemma finish_frame: "preserves wf_frame (finish_settlement w eventId tx type pl)"
  unfolding finish_settlement_def Let_def by (intro preserves_intros frames)

lemma books_posted:
  assumes run: "settle_books w eventId tx type pl s = (Inr r, t)"
  shows "posted tx pl s t"
proof -
  obtain u1 u2 u3 x1 x2 x3 where
    s1: "walk_states tx [''POLICY_CHECKED'', ''CASH_RESERVED'', ''REGISTER_PENDING''] s = (Inr x1, u1)"
    and s2: "inWf (appendLedgerBatch (''ledger:'' @ tx) (Some tx) ''TRANSACTION'' (te_ledger (pl_terms pl))) u1 = (Inr x2, u2)"
    and s3: "inWf (appendRegisterBatch (''register:'' @ tx) (Some tx) (unit_asset (wp_id (pl_product pl))) (te_register (pl_terms pl))) u2 = (Inr x3, u3)"
    and s4: "finish_settlement w eventId tx type pl u3 = (Inr r, t)"
    using run unfolding settle_books_def thenE_Inr by (elim exE conjE) (rule that)
  note f = wf_frameD [OF walk_frame s1] ledger_post [OF s2] register_post [OF s3] wf_frameD [OF finish_frame s4]
  show ?thesis unfolding posted_def using f by simp
qed

lemma created_result:
  assumes run: "settle_created w eventId tx type pl registerFailure answer s = (Inr r, t)"
  shows "wf_frame t = wf_frame s \<or> posted tx pl s t"
proof -
  consider "stored_receipt (ti_id (snd answer)) s = (Inr r, t)" | x u where "add_commitment w tx pl s = (Inr x, u)"
    "(if registerFailure then settle_review w eventId tx type pl else settle_books w eventId tx type pl) u = (Inr r, t)"
    using run unfolding settle_created_def by (cases "fst answer") (simp_all only: thenE_Inr not_True_eq_False not_False_eq_True if_False if_True, elim exE conjE, blast+)
  then show ?thesis
  proof cases
    case 1
    then show ?thesis using preservesD [OF stored_receipt_frame] by blast
  next
    case 2
    note c = wf_frameD [OF commitment_frame 2(1)]
    have f: "wf_frame u = wf_frame s" by (rule preservesD [OF commitment_frame 2(1)])
    show ?thesis
    proof (cases registerFailure)
      case True
      then show ?thesis using 2(2) preservesD [OF review_frame] f by (simp only: if_True) metis
    next
      case False
      then have "posted tx pl u t" using 2(2) books_posted by simp
      then show ?thesis by (simp add: posted_def c)
    qed
  qed
qed

lemma settlement_result:
  assumes run: "settleInTransaction w eventId type request registerFailure s = (Inr r, t)"
  shows "wf_frame t = wf_frame s \<or> (\<exists>tx pl. plan_settlement s w type request = Inr pl \<and> posted tx pl s t)"
proof (cases "\<exists>i x. replay_rows s w request = [(i, x)]")
  case True
  then have "t = s" using run by (auto simp: settleInTransaction_def eff_simps)
  then show ?thesis by simp
next
  case False
  then have new: "settle_new w eventId type request registerFailure s = (Inr r, t)"
    using run by (auto simp: settleInTransaction_def eff_simps split: list.splits prod.splits)
  then obtain pl ct ix tx key answer u where pl: "plan_settlement s w type request = Inr pl"
    and made: "inWf (createTransactionIntent (wk_sha w) (settle_intent s w pl type request ct ix tx key)) s = (Inr answer, u)"
    and rest: "settle_created w eventId tx type pl registerFailure answer u = (Inr r, t)"
    unfolding settle_new_def withE_run bindE_Inr liftE_iff Let_def by (elim exE conjE) (hypsubst, rule that; assumption)
  note f = wf_frameD [OF preserves_inWf [OF createTransactionIntent_frame(1)] made]
  have same: "wf_frame u = wf_frame s" by (rule preservesD [OF preserves_inWf [OF createTransactionIntent_frame(1)] made])
  have carry: "posted tx pl u t \<Longrightarrow> posted tx pl s t" by (simp add: posted_def f)
  from created_result [OF rest] show ?thesis
  proof
    assume "wf_frame t = wf_frame u"
    then show ?thesis using same by simp
  next
    assume "posted tx pl u t"
    then show ?thesis using carry pl by blast
  qed
qed

section \<open>What the terms cover\<close>

definition colon_free :: "string \<Rightarrow> bool" where
  "colon_free s = (CHR '':'' \<notin> set s)"

definition own_accounts :: "wf_product \<Rightarrow> bool" where
  \<comment> \<open>the id keeps the accounts of units and of cash apart\<close>
  "own_accounts p = (colon_free (wp_id p) \<and> rules_currency p \<noteq> wp_id p)"

definition product_ok :: "wf_product \<Rightarrow> bool" where
  "product_ok p = (colon_free (rules_currency p) \<and> own_accounts p)"

definition nav_positive :: "wf_evidence \<Rightarrow> bool" where
  "nav_positive e = (\<forall>n. to_bigint (jfield (we_payload e) ''navPerUnit'') = Inr n \<longrightarrow> 0 < n)"

definition clearing :: "string \<Rightarrow> bool" where
  \<comment> \<open>the accounts that units and cash come from, which may be below zero\<close>
  "clearing account = (ends_with account '':TREASURY'' \<or> ends_with account '':CASH_CLEARING'')"

definition requested_on :: "string \<Rightarrow> entry_request list \<Rightarrow> int" where
  "requested_on account es = sum_list (map eq_delta (filter (\<lambda>e. eq_account e = account) es))"

lemma requested_on_simps [simp]:
  "requested_on a [] = 0" "requested_on a (movement b asset n # es) = (if b = a then n else 0) + requested_on a es"
  "requested_on a (es @ es') = requested_on a es + requested_on a es'"
  by (simp_all add: requested_on_def movement_def)

lemma requested_on_if: "requested_on a (if c then es else es') = (if c then requested_on a es else requested_on a es')"
  by simp

lemma after_last_colon:
  assumes "colon_free a" and "colon_free b" and "x @ '':'' @ a = y @ '':'' @ b"
  shows "a = b"
proof -
  have take: "takeWhile (\<lambda>c. c \<noteq> CHR '':'') (rev (z @ '':'' @ d)) = rev d" if "colon_free d" for z d
    using that by (auto simp: colon_free_def takeWhile_append)
  have "takeWhile (\<lambda>c. c \<noteq> CHR '':'') (rev (x @ '':'' @ a)) = takeWhile (\<lambda>c. c \<noteq> CHR '':'') (rev (y @ '':'' @ b))"
    by (simp only: assms(3))
  then have "rev a = rev b" unfolding take [OF assms(1)] take [OF assms(2)] .
  then show ?thesis by simp
qed

lemma cash_is_not_units:
  assumes "product_ok p"
  shows "ledgerAccountId (wp_id p) o1 (rules_currency p) k \<noteq> ledgerAccountId (wp_id p) o2 (unit_asset (wp_id p)) k"
proof
  assume "ledgerAccountId (wp_id p) o1 (rules_currency p) k = ledgerAccountId (wp_id p) o2 (unit_asset (wp_id p)) k"
  then have "o1 @ '':'' @ rules_currency p = (o2 @ '':UNIT'') @ '':'' @ wp_id p"
    by (simp add: ledgerAccountId_def account_suffix_def unit_asset_def)
  then have "rules_currency p = wp_id p" using after_last_colon assms by (simp only: product_ok_def own_accounts_def) blast
  then show False using assms by (simp add: product_ok_def own_accounts_def)
qed

text \<open>
  Where the id of a product is its currency they are not apart: the cash account of an owner whose
  name ends in \<open>:UNIT\<close> is the unit account of the owner before it, and a transfer checks the two balances
  one by one and takes from the one account twice.
\<close>

lemma accounts_coincide: "ledgerAccountId c (x @ '':UNIT'') c k = ledgerAccountId c x (unit_asset c) k"
  by (simp add: ledgerAccountId_def account_suffix_def unit_asset_def)

lemma issuer_is_not_investor: "ledgerAccountId p o1 a1 ''ISSUER'' \<noteq> ledgerAccountId p o2 a2 ''INVESTOR''"
proof
  assume "ledgerAccountId p o1 a1 ''ISSUER'' = ledgerAccountId p o2 a2 ''INVESTOR''"
  then have "rev (ledgerAccountId p o1 a1 ''ISSUER'') = rev (ledgerAccountId p o2 a2 ''INVESTOR'')" by simp
  then show False by (simp add: ledgerAccountId_def account_suffix_def)
qed

lemma treasury_clearing: "clearing (ledgerAccountId p o1 a ''TREASURY'')"
proof -
  have "ledgerAccountId p o1 a ''TREASURY'' = (''ledger:'' @ p @ '':'' @ o1 @ '':'' @ a) @ '':TREASURY''"
    by (simp add: ledgerAccountId_def account_suffix_def)
  then show ?thesis unfolding clearing_def by (metis ends_with_append)
qed

definition covered :: "wf_db \<Rightarrow> entry_request list \<Rightarrow> bool" where
  \<comment> \<open>no account but a clearing one falls below zero\<close>
  "covered s es = (\<forall>a. clearing a \<or> 0 \<le> ledger_balance s a \<longrightarrow> clearing a \<or> 0 \<le> ledger_balance s a + requested_on a es)"

lemma positive_Inr: "positive v = Inr n \<longleftrightarrow> to_bigint v = Inr n \<and> 0 < n"
  by (auto simp: positive_def outcome_simps)

lemma subscribe_covered:
  assumes "subscribe_terms s w product navPrice units request = Inr te" and "0 < units"
  shows "covered s (te_ledger te)"
proof -
  obtain cash where cash: "0 < cash" "cash \<le> ledger_balance s (ledgerAccountId (wp_id product) (text_field request ''investorId'') (rules_currency product) ''INVESTOR'')"
    and te: "te_ledger te = [movement (ledgerAccountId (wp_id product) (text_field request ''investorId'') (rules_currency product) ''INVESTOR'') (rules_currency product) (- cash),
         movement (ledgerAccountId (wp_id product) (wp_issuer product) (rules_currency product) ''ISSUER'') (rules_currency product) cash]
         @ units_move (wp_id product) (''TREASURY'', ''TREASURY'') (text_field request ''investorId'', ''INVESTOR'') units ledgerAccountId"
    using assms(1) by (auto simp: subscribe_terms_def outcome_simps Let_def positive_Inr)
  show ?thesis unfolding covered_def te
    using cash assms(2) treasury_clearing by (auto simp: units_move_def Let_def)
qed

lemma transfer_covered:
  assumes "durable_transfer_terms s w product navPrice units request = Inr te" and "0 < units" and "product_ok product"
  shows "covered s (te_ledger te)"
proof -
  define buyerCash where "buyerCash = ledgerAccountId (wp_id product) (text_field request ''buyerId'') (rules_currency product) ''INVESTOR''"
  define sellerUnit where "sellerUnit = ledgerAccountId (wp_id product) (text_field request ''sellerId'') (unit_asset (wp_id product)) ''INVESTOR''"
  obtain price fee where n: "0 < price" "0 \<le> fee" "units \<le> ledger_balance s sellerUnit" "units * price + fee \<le> ledger_balance s buyerCash"
    and te: "te_ledger te = [movement buyerCash (rules_currency product) (- (units * price + fee)),
         movement (ledgerAccountId (wp_id product) (text_field request ''sellerId'') (rules_currency product) ''INVESTOR'') (rules_currency product) (units * price)]
         @ (if fee = 0 then [] else [movement (ledgerAccountId (wp_id product) (wp_issuer product) (rules_currency product) ''FEE'') (rules_currency product) fee])
         @ units_move (wp_id product) (text_field request ''sellerId'', ''INVESTOR'') (text_field request ''buyerId'', ''INVESTOR'') units ledgerAccountId"
    using assms(1) by (auto simp: durable_transfer_terms_def outcome_simps Let_def positive_Inr buyerCash_def sellerUnit_def)
  have ne: "buyerCash \<noteq> sellerUnit" unfolding buyerCash_def sellerUnit_def by (rule cash_is_not_units [OF assms(3)])
  have pos: "0 < units * price" using n(1) assms(2) by simp
  show ?thesis unfolding covered_def te
    using n(2-4) pos assms(2) ne by (auto simp: units_move_def Let_def simp flip: sellerUnit_def)
qed

lemma redeem_covered:
  assumes "redeem_terms s w product navPrice units request = Inr te" and "0 < units" and "0 < navPrice"
  shows "covered s (te_ledger te)"
proof -
  define issuerCash where "issuerCash = ledgerAccountId (wp_id product) (wp_issuer product) (rules_currency product) ''ISSUER''"
  define investorUnit where "investorUnit = ledgerAccountId (wp_id product) (text_field request ''investorId'') (unit_asset (wp_id product)) ''INVESTOR''"
  have n: "units \<le> ledger_balance s investorUnit" "units * navPrice \<le> ledger_balance s issuerCash"
    and te: "te_ledger te = [movement issuerCash (rules_currency product) (- (units * navPrice)),
         movement (ledgerAccountId (wp_id product) (text_field request ''investorId'') (rules_currency product) ''INVESTOR'') (rules_currency product) (units * navPrice)]
         @ units_move (wp_id product) (text_field request ''investorId'', ''INVESTOR'') (''TREASURY'', ''TREASURY'') units ledgerAccountId"
    using assms(1) by (auto simp: redeem_terms_def outcome_simps Let_def issuerCash_def investorUnit_def)
  have ne: "issuerCash \<noteq> investorUnit" unfolding issuerCash_def investorUnit_def by (rule issuer_is_not_investor)
  have pos: "0 < units * navPrice" using assms(2,3) by simp
  show ?thesis unfolding covered_def te
    using n pos assms(2) ne by (auto simp: units_move_def Let_def simp flip: investorUnit_def)
qed

section \<open>The register is the unit side of the ledger\<close>

definition key_after :: "nat \<Rightarrow> entry_row \<Rightarrow> string \<times> string \<times> int" where
  "key_after n e = (drop n (en_account e), en_asset e, en_delta e)"

definition unit_entries :: "book \<Rightarrow> (string \<times> string \<times> int) list" where
  \<comment> \<open>the entries of a ledger over units, by the account without its prefix\<close>
  "unit_entries b = map (key_after (length ''ledger:'')) (filter (\<lambda>e. starts_with (en_asset e) ''UNIT:'') (bk_entries b))"

definition register_entries :: "book \<Rightarrow> (string \<times> string \<times> int) list" where
  "register_entries b = map (key_after (length ''register:'')) (bk_entries b)"

definition same_units :: "entry_request list \<Rightarrow> entry_request list \<Rightarrow> bool" where
  "same_units ls rs = (map (\<lambda>e. (drop (length ''ledger:'') (eq_account e), eq_asset e, eq_delta e)) (filter (\<lambda>e. starts_with (eq_asset e) ''UNIT:'') ls)
     = map (\<lambda>e. (drop (length ''register:'') (eq_account e), eq_asset e, eq_delta e)) rs)"

lemma unit_asset_starts: "starts_with (unit_asset p) ''UNIT:''"
  by (simp add: starts_with_def unit_asset_def)

lemma colon_free_no_unit:
  assumes "colon_free c"
  shows "\<not> starts_with c ''UNIT:''"
proof
  assume "starts_with c ''UNIT:''"
  then have "take 5 c = ''UNIT:''" by (simp add: starts_with_def eval_nat_numeral)
  then have "CHR '':'' \<in> set (take 5 c)" by simp
  then have "CHR '':'' \<in> set c" by (rule in_set_takeD)
  then show False using assms by (simp add: colon_free_def)
qed

lemma currency_is_no_unit: "colon_free (rules_currency p) \<Longrightarrow> \<not> starts_with (rules_currency p) ''UNIT:''"
  by (rule colon_free_no_unit)

lemma moves_same_units:
  assumes "colon_free (rules_currency product)"
  shows "same_units ([movement a1 (rules_currency product) n1, movement a2 (rules_currency product) n2]
      @ units_move (wp_id product) x y units ledgerAccountId) (units_move (wp_id product) x y units registerAccountId)"
    and "same_units ([movement a1 (rules_currency product) n1, movement a2 (rules_currency product) n2]
      @ (if c then [] else [movement a3 (rules_currency product) n3])
      @ units_move (wp_id product) x y units ledgerAccountId) (units_move (wp_id product) x y units registerAccountId)"
  using currency_is_no_unit [OF assms] unit_asset_starts
  by (simp_all add: same_units_def movement_def units_move_def Let_def ledgerAccountId_def registerAccountId_def)

lemma subscribe_same_units:
  assumes "subscribe_terms s w product navPrice units request = Inr te" and ok: "colon_free (rules_currency product)"
  shows "same_units (te_ledger te) (te_register te)"
proof -
  obtain a1 a2 n1 n2 x y where "te_ledger te = [movement a1 (rules_currency product) n1, movement a2 (rules_currency product) n2]
      @ units_move (wp_id product) x y units ledgerAccountId" "te_register te = units_move (wp_id product) x y units registerAccountId"
    using assms(1) by (auto simp: subscribe_terms_def outcome_simps Let_def)
  then show ?thesis by (simp only: moves_same_units(1) [OF ok])
qed

lemma transfer_same_units:
  assumes "durable_transfer_terms s w product navPrice units request = Inr te" and ok: "colon_free (rules_currency product)"
  shows "same_units (te_ledger te) (te_register te)"
proof -
  obtain price fee where "te_ledger te = [movement (ledgerAccountId (wp_id product) (text_field request ''buyerId'') (rules_currency product) ''INVESTOR'') (rules_currency product) (- (units * price + fee)),
         movement (ledgerAccountId (wp_id product) (text_field request ''sellerId'') (rules_currency product) ''INVESTOR'') (rules_currency product) (units * price)]
         @ (if fee = 0 then [] else [movement (ledgerAccountId (wp_id product) (wp_issuer product) (rules_currency product) ''FEE'') (rules_currency product) fee])
         @ units_move (wp_id product) (text_field request ''sellerId'', ''INVESTOR'') (text_field request ''buyerId'', ''INVESTOR'') units ledgerAccountId"
    "te_register te = units_move (wp_id product) (text_field request ''sellerId'', ''INVESTOR'') (text_field request ''buyerId'', ''INVESTOR'') units registerAccountId"
    using assms(1) by (auto simp: durable_transfer_terms_def outcome_simps Let_def positive_Inr)
  then show ?thesis by (simp only: moves_same_units(2) [OF ok])
qed

lemma redeem_same_units:
  assumes "redeem_terms s w product navPrice units request = Inr te" and ok: "colon_free (rules_currency product)"
  shows "same_units (te_ledger te) (te_register te)"
proof -
  obtain a1 a2 n1 n2 x y where "te_ledger te = [movement a1 (rules_currency product) n1, movement a2 (rules_currency product) n2]
      @ units_move (wp_id product) x y units ledgerAccountId" "te_register te = units_move (wp_id product) x y units registerAccountId"
    using assms(1) by (auto simp: redeem_terms_def outcome_simps Let_def)
  then show ?thesis by (simp only: moves_same_units(1) [OF ok])
qed

lemma terms_same_units:
  assumes "settle_terms type s w product navPrice units request = Inr te" and "colon_free (rules_currency product)"
  shows "same_units (te_ledger te) (te_register te)"
  using assms(1) subscribe_same_units [OF _ assms(2)] transfer_same_units [OF _ assms(2)] redeem_same_units [OF _ assms(2)]
  unfolding settle_terms_def by (simp only: split: if_splits)

lemma terms_covered:
  assumes "settle_terms type s w product navPrice units request = Inr te" and "0 < units" and "0 < navPrice" and "product_ok product"
  shows "covered s (te_ledger te)"
  using assms(1) subscribe_covered [OF _ assms(2)] transfer_covered [OF _ assms(2,4)] redeem_covered [OF _ assms(2,3)]
  unfolding settle_terms_def by (simp only: split: if_splits)

section \<open>The invariant of the books\<close>

definition durable_ok :: "wf_db \<Rightarrow> bool" where
  \<comment> \<open>as long as every product keeps its accounts apart, no account but a clearing one is below zero\<close>
  "durable_ok s =
     ((\<forall>p \<in> set (wf_products s). colon_free (rules_currency p))
      \<and> (\<forall>e \<in> set (wf_evidence s). we_type e = ''nav'' \<longrightarrow> nav_positive e)
      \<and> unit_entries (db_ledger (wf_store s)) = register_entries (db_register (wf_store s))
      \<and> ((\<exists>p \<in> set (wf_products s). \<not> own_accounts p) \<or> (\<forall>a. clearing a \<or> 0 \<le> ledger_balance s a)))"

lemma durable_ok_cong: "wf_frame t = wf_frame s \<Longrightarrow> durable_ok t = durable_ok s"
  by (simp add: wf_frame_def books_of_def durable_ok_def ledger_balance_def)

text \<open>The books as they are, every product kept with its rules, and new products and evidence as they should be.\<close>

lemma durable_ok_change:
  assumes ok: "durable_ok s" and books: "db_ledger (wf_store t) = db_ledger (wf_store s)" "db_register (wf_store t) = db_register (wf_store s)"
    and nav: "\<And>e. e \<in> set (wf_evidence t) \<Longrightarrow> e \<in> set (wf_evidence s) \<or> (we_type e = ''nav'' \<longrightarrow> nav_positive e)"
    and kept: "\<And>q. q \<in> set (wf_products s) \<Longrightarrow> \<exists>p \<in> set (wf_products t). wp_id p = wp_id q \<and> wp_rules p = wp_rules q"
    and new: "\<And>p. p \<in> set (wf_products t) \<Longrightarrow> (\<exists>q \<in> set (wf_products s). wp_rules p = wp_rules q) \<or> colon_free (rules_currency p)"
  shows "durable_ok t"
proof -
  have rules: "colon_free (rules_currency p)" if "p \<in> set (wf_products t)" for p
    using new [OF that] ok by (auto simp: durable_ok_def rules_currency_def)
  have "\<exists>p \<in> set (wf_products t). \<not> own_accounts p" if q: "q \<in> set (wf_products s)" "\<not> own_accounts q" for q
  proof -
    obtain p where p: "p \<in> set (wf_products t)" "wp_id p = wp_id q" "wp_rules p = wp_rules q" using kept [OF q(1)] by blast
    then have "own_accounts p = own_accounts q" by (simp add: own_accounts_def rules_currency_def)
    then show ?thesis using p(1) q(2) by blast
  qed
  moreover have "ledger_balance t a = ledger_balance s a" for a by (simp add: ledger_balance_def books)
  ultimately have "(\<exists>p \<in> set (wf_products t). \<not> own_accounts p) \<or> (\<forall>a. clearing a \<or> 0 \<le> ledger_balance t a)"
    using ok unfolding durable_ok_def by auto
  moreover have "\<forall>e \<in> set (wf_evidence t). we_type e = ''nav'' \<longrightarrow> nav_positive e" using nav ok unfolding durable_ok_def by blast
  ultimately show ?thesis using ok rules books unfolding durable_ok_def by simp
qed

lemma planned_product:
  assumes "current_product s productId = Inr product"
  shows "product \<in> set (wf_products s)"
proof -
  have "filter (\<lambda>p. sql_is productId (wp_id p) \<and> wp_status p = ''ACTIVE'') (wf_products s) = [product]"
    using assms by (auto simp: current_product_def split: list.splits)
  then have "product \<in> set (filter (\<lambda>p. sql_is productId (wp_id p) \<and> wp_status p = ''ACTIVE'') (wf_products s))"
    by (simp only: list.set insertI1)
  then show ?thesis by simp
qed

lemma planned_nav:
  assumes "current_nav s product now = Inr nav" and "durable_ok s"
  shows "nav_positive nav"
proof -
  define found where "found = sort_key (\<lambda>e. - we_effectiveAt e) (filter (\<lambda>e. we_product e = wp_id product \<and> we_type e = ''nav''
         \<and> we_status e = ''ACTIVE'' \<and> we_effectiveAt e \<le> now \<and> now < we_expiresAt e) (wf_evidence s))"
  have "nav \<in> set found" using assms(1) unfolding current_nav_def found_def [symmetric]
    by (cases found) (auto simp: outcome_simps)
  then have "nav \<in> set (wf_evidence s)" "we_type nav = ''nav''" by (simp_all add: found_def)
  then show ?thesis using assms(2) by (simp add: durable_ok_def)
qed

lemma plan_facts:
  assumes "plan_settlement s w type request = Inr pl" and ok: "durable_ok s"
  shows "(\<exists>p \<in> set (wf_products s). \<not> own_accounts p) \<or> covered s (te_ledger (pl_terms pl))"
    and "same_units (te_ledger (pl_terms pl)) (te_register (pl_terms pl))"
proof -
  obtain product nav units navPrice te where p: "current_product s (jfield request ''productId'') = Inr product"
    and nav: "current_nav s product (wk_now w) = Inr nav" and units: "positive (jfield request ''units'') = Inr units"
    and price: "to_bigint (jfield (we_payload nav) ''navPerUnit'') = Inr navPrice"
    and te: "settle_terms type s w product navPrice units request = Inr te" and pl: "pl_terms pl = te"
    using assms(1) unfolding plan_settlement_def bindR_Inr by (elim exE conjE) (rule that, assumption+, auto)
  have "0 < units" "0 < navPrice"
    using units price planned_nav [OF nav ok] by (simp_all add: positive_Inr nav_positive_def)
  moreover have cur: "colon_free (rules_currency product)" using planned_product [OF p] ok by (simp add: durable_ok_def)
  ultimately have "own_accounts product \<Longrightarrow> covered s (te_ledger te)" using terms_covered [OF te] by (simp add: product_ok_def)
  then show "(\<exists>p \<in> set (wf_products s). \<not> own_accounts p) \<or> covered s (te_ledger (pl_terms pl))"
    using planned_product [OF p] unfolding pl by blast
  show "same_units (te_ledger (pl_terms pl)) (te_register (pl_terms pl))" using terms_same_units [OF te cur] by (simp add: pl)
qed

lemma appended_keys:
  "map (key_after n) (map (entry_of b) es) = map (\<lambda>e. (drop n (eq_account e), eq_asset e, eq_delta e)) es"
  "filter (\<lambda>e. starts_with (en_asset e) u) (map (entry_of b) es) = map (entry_of b) (filter (\<lambda>e. starts_with (eq_asset e) u) es)"
  by (simp_all add: key_after_def entry_of_def filter_map comp_def)

lemma balance_appended:
  "sum_list (map en_delta (filter (\<lambda>e. en_account e = a) (map (entry_of b) es))) = requested_on a es"
  by (simp add: requested_on_def entry_of_def filter_map comp_def)

lemma posted_ok:
  assumes ok: "durable_ok s" and plan: "plan_settlement s w type request = Inr pl" and post: "posted tx pl s t"
  shows "durable_ok t"
proof -
  note f = post [unfolded posted_def]
  have units: "unit_entries (db_ledger (wf_store t)) = unit_entries (db_ledger (wf_store s))
      @ map (\<lambda>e. (drop (length ''ledger:'') (eq_account e), eq_asset e, eq_delta e)) (filter (\<lambda>e. starts_with (eq_asset e) ''UNIT:'') (te_ledger (pl_terms pl)))"
    using f by (simp only: unit_entries_def filter_append map_append appended_keys)
  have regs: "register_entries (db_register (wf_store t)) = register_entries (db_register (wf_store s))
      @ map (\<lambda>e. (drop (length ''register:'') (eq_account e), eq_asset e, eq_delta e)) (te_register (pl_terms pl))"
    using f by (simp only: register_entries_def map_append appended_keys)
  have bal: "ledger_balance t a = ledger_balance s a + requested_on a (te_ledger (pl_terms pl))" for a
    using f by (simp add: ledger_balance_def balance_in_def balance_appended [unfolded map_map])
  have same: "unit_entries (db_ledger (wf_store t)) = register_entries (db_register (wf_store t))"
    using ok plan_facts(2) [OF plan ok] unfolding units regs same_units_def durable_ok_def by simp
  have "(\<exists>p \<in> set (wf_products t). \<not> own_accounts p) \<or> (\<forall>a. clearing a \<or> 0 \<le> ledger_balance t a)"
    using ok plan_facts(1) [OF plan ok] f by (auto simp: bal durable_ok_def covered_def)
  then show ?thesis using ok f same by (simp add: durable_ok_def)
qed

lemma settlement_keeps:
  assumes "settleInTransaction w eventId type request registerFailure s = (Inr r, t)" and "durable_ok s"
  shows "durable_ok t"
  using settlement_result [OF assms(1)] durable_ok_cong posted_ok [OF assms(2)] assms(2) by blast

end
