(* ===== verification/DurableBootstrap.thy ===== *)
theory DurableBootstrap
  imports DurableWorkflow CpState
begin

text \<open>
  \<open>bootstrapFromControlPlane\<close> of \<open>src/storage/durable-workflow-service.js\<close>: the durable tables are filled
  from an in-memory control plane, whose cash balances become opening batches of the ledger. The
  \<open>CHECK\<close> of the product's currency is written out, as the separation of cash and unit accounts rests
  on it; the foreign keys of the other inserts are not.
\<close>

definition insert_unless :: "bool \<Rightarrow> (wf_db \<Rightarrow> wf_db) \<Rightarrow> (wf_db, unit) eff" where
  \<comment> \<open>\<open>INSERT ... ON CONFLICT DO NOTHING\<close>\<close>
  "insert_unless conflict add = (if conflict then retE () else modifyE add)"

definition boot_institution :: "institution \<Rightarrow> (wf_db, unit) eff" where
  "boot_institution i =
     thenE (withE (\<lambda>s. insert_unless (inst_id i \<in> set (map fst (wf_institutions s)))
        (\<lambda>s. s\<lparr>wf_institutions := wf_institutions s @ [(inst_id i, inst_publicKeyPem i)]\<rparr>)))
    (withE (\<lambda>s. ensureE (map_of (wf_institutions s) (inst_id i) = Some (inst_publicKeyPem i)) ''BOOTSTRAP_KEY_MISMATCH''))"

definition iso_currency :: "string \<Rightarrow> bool" where
  \<comment> \<open>\<open>currency ~ '^[A-Z]{3}$'\<close>\<close>
  "iso_currency c = (length c = 3 \<and> list_all (\<lambda>x. of_char x \<in> {65..(90::nat)}) c)"

definition product_row :: "product \<Rightarrow> wf_product" where
  "product_row p = \<lparr>wp_id = prod_id p, wp_issuer = prod_issuerId p, wp_currency = text_field (prod_rules p) ''currency'',
     wp_status = prod_status p, wp_ruleVersion = int (prod_ruleVersion p), wp_rules = stored_json (prod_rules p), wp_version = 0\<rparr>"

definition boot_role :: "string \<Rightarrow> string \<times> string \<Rightarrow> (wf_db, unit) eff" where
  \<comment> \<open>a product has one current assignment of a role\<close>
  "boot_role product assignment = withE (\<lambda>s.
     insert_unless (\<exists>i. i \<in> set (wf_roles s) \<and> fst i = product \<and> fst (snd i) = fst assignment)
       (\<lambda>s. s\<lparr>wf_roles := wf_roles s @ [(product, assignment)]\<rparr>))"

definition boot_product :: "product \<Rightarrow> (wf_db, unit) eff" where
  "boot_product p =
     thenE (withE (\<lambda>s. thenE (ensureE (iso_currency (wp_currency (product_row p))) ''23514'')
        (insert_unless (prod_id p \<in> wp_id ` set (wf_products s)) (\<lambda>s. s\<lparr>wf_products := wf_products s @ [product_row p]\<rparr>))))
    (eachE (boot_role (prod_id p)) (prod_roleAssignments p))"

definition column_time :: "workflow \<Rightarrow> string \<Rightarrow> int outcome" where
  "column_time w v = (case wk_date w (JStr v) of None \<Rightarrow> Inl (Coded ''22007'') | Some t \<Rightarrow> Inr t)"

definition boot_evidence :: "workflow \<Rightarrow> evidence \<Rightarrow> (wf_db, unit) eff" where
  "boot_evidence w e =
     bindE (liftE (column_time w (ev_effectiveAt e))) (\<lambda>effective.
     bindE (liftE (column_time w (ev_expiresAt e))) (\<lambda>expires.
     withE (\<lambda>s. insert_unless (ev_id e \<in> we_id ` set (wf_evidence s)) (\<lambda>s. s\<lparr>wf_evidence := wf_evidence s @
       [\<lparr>we_id = ev_id e, we_product = ev_productId e, we_type = ev_dataType e, we_status = ev_status e,
         we_effectiveAt = effective, we_expiresAt = expires, we_payload = stored_json (ev_payload e)\<rparr>]\<rparr>))))"

definition boot_credential :: "workflow \<Rightarrow> plane \<Rightarrow> credential \<Rightarrow> (wf_db, unit) eff" where
  "boot_credential w plane c =
     (let restriction = jm_get (credentialRestrictions plane) (cred_id c) in
     bindE (liftE (to_bigint (cred_maxUnits c))) (\<lambda>maxUnits.
     bindE (liftE (column_time w (cred_validFrom c))) (\<lambda>from.
     bindE (liftE (column_time w (cred_validUntil c))) (\<lambda>until.
     withE (\<lambda>s. insert_unless (cred_id c \<in> wc_id ` set (wf_credentials s)) (\<lambda>s. s\<lparr>wf_credentials := wf_credentials s @
       [\<lparr>wc_id = cred_id c, wc_product = cred_productId c, wc_subject = cred_subjectId c, wc_class = cred_investorClass c,
         wc_jurisdiction = cred_jurisdiction c, wc_maxUnits = maxUnits, wc_from = from, wc_until = until,
         wc_status = (case restriction of None \<Rightarrow> ''ACTIVE'' | Some r \<Rightarrow> restr_status r),
         wc_reason = map_option restr_reason restriction\<rparr>]\<rparr>))))))"

section \<open>Accounts\<close>

definition open_account :: "string \<Rightarrow> book \<Rightarrow> book" where
  "open_account account b = b\<lparr>bk_accounts := (if account \<in> set (bk_accounts b) then bk_accounts b else bk_accounts b @ [account])\<rparr>"

definition ensureLedgerAccount :: "string \<Rightarrow> string \<Rightarrow> string \<Rightarrow> string \<Rightarrow> (wf_db, unit) eff" where
  "ensureLedgerAccount product owner asset kind =
     inWf (modifyE (\<lambda>s. s\<lparr>db_ledger := open_account (ledgerAccountId product owner asset kind) (db_ledger s)\<rparr>))"

definition ensureRegisterAccount :: "string \<Rightarrow> string \<Rightarrow> string \<Rightarrow> string \<Rightarrow> (wf_db, unit) eff" where
  "ensureRegisterAccount product owner asset kind =
     inWf (modifyE (\<lambda>s. s\<lparr>db_register := open_account (registerAccountId product owner asset kind) (db_register s)\<rparr>))"

definition account_owners :: "plane \<Rightarrow> product \<Rightarrow> string list" where
  "account_owners plane p = remdups ([prod_issuerId p, ''EXTERNAL_CASH'', ''TREASURY'']
     @ map cred_subjectId (filter (\<lambda>c. cred_productId c = prod_id p) (jm_values (credentials plane))))"

definition boot_owner :: "product \<Rightarrow> string \<Rightarrow> (wf_db, unit) eff" where
  "boot_owner p owner =
     (let unitType = (if owner = ''TREASURY'' then ''TREASURY'' else ''INVESTOR'') in
      thenE (if owner = ''TREASURY'' then retE ()
        else ensureLedgerAccount (prod_id p) owner (wp_currency (product_row p))
          (if owner = prod_issuerId p then ''ISSUER'' else if owner = ''EXTERNAL_CASH'' then ''CASH_CLEARING'' else ''INVESTOR''))
     (if owner = ''EXTERNAL_CASH'' then retE ()
      else thenE (ensureLedgerAccount (prod_id p) owner (unit_asset (prod_id p)) unitType)
        (ensureRegisterAccount (prod_id p) owner (unit_asset (prod_id p)) unitType)))"

definition boot_accounts :: "plane \<Rightarrow> product \<Rightarrow> (wf_db, unit) eff" where
  "boot_accounts plane p = thenE (eachE (boot_owner p) (account_owners plane p))
     (ensureLedgerAccount (prod_id p) (prod_issuerId p) (wp_currency (product_row p)) ''FEE'')"

section \<open>Opening balances\<close>

definition cash_key_parts :: "string \<Rightarrow> string \<times> string" where
  \<comment> \<open>the owner and the currency, around the last colon\<close>
  "cash_key_parts key = (let back = rev key in
     (rev (drop 1 (dropWhile (\<lambda>c. c \<noteq> CHR '':'') back)), rev (takeWhile (\<lambda>c. c \<noteq> CHR '':'') back)))"

definition opening_entries :: "string \<Rightarrow> string \<Rightarrow> string \<Rightarrow> int \<Rightarrow> entry_request list" where
  "opening_entries product owner currency balance =
     [movement (ledgerAccountId product owner currency ''INVESTOR'') currency balance,
      movement (ledgerAccountId product ''EXTERNAL_CASH'' currency ''CASH_CLEARING'') currency (- balance)]"

definition boot_cash :: "plane \<Rightarrow> string \<times> int \<Rightarrow> (wf_db, unit) eff" where
  "boot_cash plane account =
     (if snd account = 0 then retE () else
      let owner = fst (cash_key_parts (fst account)); currency = snd (cash_key_parts (fst account)) in
      case find (\<lambda>p. jfield (prod_rules p) ''currency'' = JStr currency) (jm_values (products plane)) of
        None \<Rightarrow> retE ()
      | Some p \<Rightarrow> let batch = ''opening:'' @ prod_id p @ '':'' @ owner @ '':'' @ currency in
          withE (\<lambda>s. if batch \<in> bt_id ` set (bk_batches (db_ledger (wf_store s))) then retE ()
            else inWf (appendLedgerBatch batch None ''OPENING'' (opening_entries (prod_id p) owner currency (snd account)))))"

definition bootstrapFromControlPlane :: "workflow \<Rightarrow> (nat \<Rightarrow> unit outcome) \<Rightarrow> plane \<Rightarrow> (wf_db, unit) eff" where
  "bootstrapFromControlPlane w commit plane = withSerializableTransaction 3 commit (
     thenE (eachE boot_institution (jm_values (institutions plane)))
    (thenE (eachE boot_product (jm_values (products plane)))
    (thenE (eachE (boot_evidence w) (jm_values (evidences plane)))
    (thenE (eachE (boot_credential w plane) (jm_values (credentials plane)))
    (thenE (eachE (boot_accounts plane) (jm_values (products plane)))
    (eachE (boot_cash plane) (cashBalances plane)))))))"

end
