(* ===== verification/ProductEvidence.thy ===== *)
theory ProductEvidence
  imports PgStore Canonical
begin

text \<open>
  The signed evidence of a product's activation, \<open>src/security/product-evidence.js\<close>: the payload that
  is signed, the canonical base64 text of a signature and its verification. Bytes are characters; the
  platform's parsing of a key, its signature check and the text of a date are fields of \<open>evidence_crypto\<close>.
\<close>

section \<open>Base64\<close>

definition base64_chars :: string where
  \<comment> \<open>\<open>A-Za-z0-9+/\<close>\<close>
  "base64_chars = map char_of ([65..<91] @ [97..<123] @ [48..<58] @ [43, 47 :: nat])"

definition base64_char :: "nat \<Rightarrow> char" where
  "base64_char n = base64_chars ! n"

fun position_from :: "nat \<Rightarrow> char \<Rightarrow> string \<Rightarrow> nat option" where
  "position_from i c [] = None"
| "position_from i c (x # xs) = (if x = c then Some i else position_from (Suc i) c xs)"

definition base64_value :: "char \<Rightarrow> nat" where
  \<comment> \<open>of a character of the alphabet\<close>
  "base64_value c = (case position_from 0 c base64_chars of None \<Rightarrow> 0 | Some n \<Rightarrow> n)"

fun sextets_of :: "nat list \<Rightarrow> nat list" where
  "sextets_of [] = []"
| "sextets_of [a] = [a div 4, a mod 4 * 16]"
| "sextets_of [a, b] = [a div 4, a mod 4 * 16 + b div 16, b mod 16 * 4]"
| "sextets_of (a # b # c # rest) =
     a div 4 # (a mod 4 * 16 + b div 16) # (b mod 16 * 4 + c div 64) # c mod 64 # sextets_of rest"

fun octets_of :: "nat list \<Rightarrow> nat list" where
  \<comment> \<open>bits that do not fill an octet are dropped\<close>
  "octets_of (a # b # c # d # rest) =
     (a * 4 + b div 16) # (b mod 16 * 16 + c div 4) # (c mod 4 * 64 + d) # octets_of rest"
| "octets_of [a, b, c] = [a * 4 + b div 16, b mod 16 * 16 + c div 4]"
| "octets_of [a, b] = [a * 4 + b div 16]"
| "octets_of _ = []"

definition base64_encode :: "string \<Rightarrow> string" where
  \<comment> \<open>\<open>buffer.toString("base64")\<close>\<close>
  "base64_encode bytes =
     map base64_char (sextets_of (map of_char bytes)) @ replicate ((3 - length bytes mod 3) mod 3) CHR ''=''"

definition base64_decode :: "string \<Rightarrow> string" where
  \<comment> \<open>\<open>Buffer.from(text, "base64")\<close> of a text that matches the pattern below\<close>
  "base64_decode s = map char_of (octets_of (map base64_value (takeWhile (\<lambda>c. c \<noteq> CHR ''='') s)))"

definition base64_pattern :: "string \<Rightarrow> bool" where
  \<comment> \<open>\<open>/^[A-Za-z0-9+/]+={0,2}$/\<close>\<close>
  "base64_pattern s =
     (let body = takeWhile (\<lambda>c. c \<noteq> CHR ''='') s; pad = dropWhile (\<lambda>c. c \<noteq> CHR ''='') s in
      body \<noteq> [] \<and> list_all (\<lambda>c. c \<in> set base64_chars) body \<and> list_all (\<lambda>c. c = CHR ''='') pad \<and> length pad \<le> 2)"

definition strictBase64 :: "json \<Rightarrow> string outcome" where
  "strictBase64 value = (case value of
     JStr s \<Rightarrow>
       ensureR (4 \<le> length s \<and> length s \<le> 16384 \<and> length s mod 4 = 0 \<and> base64_pattern s) ''INVALID_EVIDENCE_SIGNATURE_ENCODING''
      (ensureR (base64_encode (base64_decode s) = s) ''INVALID_EVIDENCE_SIGNATURE_ENCODING''
      (Inr (base64_decode s)))
   | _ \<Rightarrow> Inl (Coded ''INVALID_EVIDENCE_SIGNATURE_ENCODING''))"

section \<open>Evidence\<close>

definition PRODUCT_EVIDENCE_ENVELOPE :: string where
  "PRODUCT_EVIDENCE_ENVELOPE = ''rwa.product-activation-evidence.v1''"

definition PRODUCT_EVIDENCE_ALGORITHM :: string where
  "PRODUCT_EVIDENCE_ALGORITHM = ''Ed25519''"

definition PRODUCT_EVIDENCE_VERIFIER :: string where
  "PRODUCT_EVIDENCE_VERIFIER = ''product-evidence-verifier.v1''"

record evidence_crypto =
  ey_sha :: "string \<Rightarrow> string"
  ey_iso :: "int \<Rightarrow> string"   \<comment> \<open>\<open>toISOString\<close> of a valid date\<close>
  ey_key :: "string \<Rightarrow> (string \<times> string) option"   \<comment> \<open>type and kind of the key \<open>createPublicKey\<close> makes; \<open>None\<close> if it throws\<close>
  ey_verify :: "string \<Rightarrow> string \<Rightarrow> string \<Rightarrow> bool option"   \<comment> \<open>message, key, signature bytes; \<open>None\<close> if it throws\<close>

record evidence_fields =
  ef_tenant :: string
  ef_product :: string
  ef_id :: string
  ef_requirement :: string
  ef_source :: string
  ef_schema :: string
  ef_content :: string
  ef_issuedAt :: int
  ef_expiresAt :: int
  ef_key :: string

definition canonicalizeProductEvidence :: "json \<Rightarrow> string" where
  "canonicalizeProductEvidence value = canonicalize value"

definition productEvidencePayload :: "evidence_crypto \<Rightarrow> evidence_fields \<Rightarrow> json" where
  "productEvidencePayload y f = JObj [(''envelope'', JStr PRODUCT_EVIDENCE_ENVELOPE), (''tenantId'', JStr (ef_tenant f)),
     (''productId'', JStr (ef_product f)), (''evidenceId'', JStr (ef_id f)), (''requirementCode'', JStr (ef_requirement f)),
     (''sourceInstitutionId'', JStr (ef_source f)), (''documentSchemaVersion'', JStr (ef_schema f)), (''contentHash'', JStr (ef_content f)),
     (''issuedAt'', JStr (ey_iso y (ef_issuedAt f))), (''expiresAt'', JStr (ey_iso y (ef_expiresAt f))),
     (''signatureAlgorithm'', JStr PRODUCT_EVIDENCE_ALGORITHM), (''signingKeyId'', JStr (ef_key f))]"

definition productEvidencePayloadHash :: "evidence_crypto \<Rightarrow> evidence_fields \<Rightarrow> string" where
  "productEvidencePayloadHash y f = ey_sha y (canonicalizeProductEvidence (productEvidencePayload y f))"

definition assertEd25519PublicKey :: "evidence_crypto \<Rightarrow> string \<Rightarrow> unit outcome" where
  "assertEd25519PublicKey y publicKeyPem = (case ey_key y publicKeyPem of
     None \<Rightarrow> Inl (Coded ''INVALID_INSTITUTION_SIGNING_KEY'')
   | Some key \<Rightarrow> ensureR (key = (''public'', ''ed25519'')) ''UNSUPPORTED_EVIDENCE_SIGNING_KEY'' (Inr ()))"

definition verifyProductEvidenceSignature :: "evidence_crypto \<Rightarrow> evidence_fields \<Rightarrow> string \<Rightarrow> string \<Rightarrow> (json \<times> string \<times> string) outcome" where
  \<comment> \<open>the payload, its hash and the version of the verifier\<close>
  "verifyProductEvidenceSignature y f signature publicKeyPem =
     bindR (assertEd25519PublicKey y publicKeyPem) (\<lambda>_.
     bindR (strictBase64 (JStr signature)) (\<lambda>bytes.
     let payload = productEvidencePayload y f in
     ensureR (ey_verify y (canonicalizeProductEvidence payload) publicKeyPem bytes = Some True) ''INVALID_EVIDENCE_SIGNATURE''
       (Inr (payload, productEvidencePayloadHash y f, PRODUCT_EVIDENCE_VERIFIER))))"

definition signProductEvidence :: "(string \<Rightarrow> string) \<Rightarrow> evidence_crypto \<Rightarrow> evidence_fields \<Rightarrow> string \<times> string \<times> string" where
  \<comment> \<open>envelope version, algorithm and signature that are added to the fields; \<open>sign\<close> is the platform's, of bytes\<close>
  "signProductEvidence sign y f =
     (PRODUCT_EVIDENCE_ENVELOPE, PRODUCT_EVIDENCE_ALGORITHM, base64_encode (sign (canonicalizeProductEvidence (productEvidencePayload y f))))"

section \<open>Base64 is read back\<close>

lemma position_nth: "distinct xs \<Longrightarrow> n < length xs \<Longrightarrow> position_from i (xs ! n) xs = Some (i + n)"
proof (induction xs arbitrary: i n)
  case (Cons x xs)
  then show ?case by (cases n) (auto simp: nth_mem)
qed simp

lemma base64_chars_facts: "distinct base64_chars" "length base64_chars = 64" "CHR ''='' \<notin> set base64_chars"
proof -
  have inj: "char_of m = char_of n \<Longrightarrow> m < 256 \<Longrightarrow> n < 256 \<Longrightarrow> m = n" for m n :: nat
    by (metis mod_less of_char_of)
  have e: "CHR ''='' = char_of (61 :: nat)" by code_simp
  show "distinct base64_chars"
    unfolding base64_chars_def distinct_map by (auto simp: inj_on_def intro: inj)
  show "length base64_chars = 64" by (simp add: base64_chars_def)
  show "CHR ''='' \<notin> set base64_chars"
    unfolding e base64_chars_def by (auto simp del: char_of_nat dest: inj [of 61])
qed

lemma base64_alphabet:
  assumes "n < 64"
  shows "base64_value (base64_char n) = n" "base64_char n \<in> set base64_chars" "base64_char n \<noteq> CHR ''=''"
proof -
  show "base64_value (base64_char n) = n"
    using position_nth [OF base64_chars_facts(1), of n 0] assms by (simp add: base64_value_def base64_char_def base64_chars_facts(2))
  show "base64_char n \<in> set base64_chars" using assms by (simp add: base64_char_def base64_chars_facts(2))
  then show "base64_char n \<noteq> CHR ''=''" using base64_chars_facts(3) by auto
qed

lemma sextets_bound: "\<forall>x \<in> set xs. x < 256 \<Longrightarrow> \<forall>x \<in> set (sextets_of xs). x < 64"
  by (induction xs rule: sextets_of.induct) auto

lemma octets_sextets: "\<forall>x \<in> set xs. x < 256 \<Longrightarrow> octets_of (sextets_of xs) = xs"
  by (induction xs rule: sextets_of.induct) auto

lemma sextets_length: "length (sextets_of xs) + (3 - length xs mod 3) mod 3 = 4 * ((length xs + 2) div 3)"
proof (induction xs rule: sextets_of.induct)
  case (4 a b c rest)
  have "length (a # b # c # rest) mod 3 = length rest mod 3" "(length (a # b # c # rest) + 2) div 3 = Suc ((length rest + 2) div 3)"
    by (simp_all only: list.size) presburger+
  with 4 show ?case by simp
qed simp_all

lemma encode_length: "length (base64_encode bytes) = 4 * ((length bytes + 2) div 3)"
  using sextets_length [of "map of_char bytes"] by (simp add: base64_encode_def)

lemma encode_body:
  "takeWhile (\<lambda>c. c \<noteq> CHR ''='') (base64_encode bytes) = map base64_char (sextets_of (map of_char bytes))" (is ?body)
  "dropWhile (\<lambda>c. c \<noteq> CHR ''='') (base64_encode bytes) = replicate ((3 - length bytes mod 3) mod 3) CHR ''=''" (is ?pad)
proof -
  have "\<forall>x \<in> set (sextets_of (map of_char bytes)). x < 64" by (rule sextets_bound) (auto simp: of_char_def) 
  then have "\<forall>c \<in> set (map base64_char (sextets_of (map of_char bytes))). c \<noteq> CHR ''=''" using base64_alphabet by auto
  then show ?body ?pad by (simp_all add: base64_encode_def takeWhile_append dropWhile_append)
qed

lemma decode_encode: "base64_decode (base64_encode bytes) = bytes"
proof -
  have b: "\<forall>x \<in> set (map of_char bytes :: nat list). x < 256" by auto
  then have "map (base64_value \<circ> base64_char) (sextets_of (map of_char bytes)) = sextets_of (map of_char bytes)"
    using sextets_bound [OF b] base64_alphabet by (intro map_idI) auto
  then show ?thesis by (simp add: base64_decode_def encode_body octets_sextets [OF b] comp_def)
qed

lemma encode_pattern: "bytes \<noteq> [] \<Longrightarrow> base64_pattern (base64_encode bytes)"
proof -
  assume "bytes \<noteq> []"
  then have "sextets_of (map of_char bytes :: nat list) \<noteq> []" by (cases "map of_char bytes :: nat list" rule: sextets_of.cases) auto
  moreover have "\<forall>x \<in> set (sextets_of (map of_char bytes)). x < (64 :: nat)" by (rule sextets_bound) auto
  ultimately show ?thesis using base64_alphabet by (auto simp: base64_pattern_def encode_body list_all_iff)
qed

lemma strictBase64_iff:
  "strictBase64 (JStr s) = Inr bytes \<longleftrightarrow> s = base64_encode bytes \<and> 4 \<le> length s \<and> length s \<le> 16384" (is "?l \<longleftrightarrow> ?r")
proof
  assume ?l then show ?r by (auto simp: strictBase64_def ensureR_Inr)
next
  assume r: ?r
  then have "bytes \<noteq> []" by (auto simp: encode_length)
  moreover have "length (base64_encode bytes) mod 4 = 0" by (simp add: encode_length)
  moreover from r have "4 \<le> length (base64_encode bytes)" "length (base64_encode bytes) \<le> 16384" "s = base64_encode bytes" by auto
  ultimately show ?l by (simp add: strictBase64_def ensureR_Inr decode_encode encode_pattern)
qed

section \<open>What a signature binds\<close>

lemma payload_wf: "wf_json (productEvidencePayload y f)"
  by (simp add: productEvidencePayload_def)

lemma payload_binds:
  \<comment> \<open>a signed text is that of one tenant, product, requirement, institution, document, interval and key\<close>
  assumes "canonicalizeProductEvidence (productEvidencePayload y f) = canonicalizeProductEvidence (productEvidencePayload y g)"
    and "inj (ey_iso y)"
  shows "f = g"
proof -
  have "jnorm (productEvidencePayload y f) = jnorm (productEvidencePayload y g)"
    using assms(1) canonicalize_eq_iff [OF payload_wf payload_wf] by (simp add: canonicalizeProductEvidence_def)
  then show ?thesis by (simp add: productEvidencePayload_def inj_eq [OF assms(2)])
qed

lemma verified_evidence:
  "verifyProductEvidenceSignature y f signature pem = Inr (payload, payloadHash, version) \<longleftrightarrow>
     ey_key y pem = Some (''public'', ''ed25519'') \<and> payload = productEvidencePayload y f \<and> payloadHash = productEvidencePayloadHash y f
     \<and> version = PRODUCT_EVIDENCE_VERIFIER
     \<and> (\<exists>bytes. signature = base64_encode bytes \<and> 4 \<le> length signature \<and> length signature \<le> 16384
          \<and> ey_verify y (canonicalizeProductEvidence payload) pem bytes = Some True)"
  by (auto simp: verifyProductEvidenceSignature_def bindR_Inr assertEd25519PublicKey_def ensureR_Inr strictBase64_iff Let_def split: option.splits)

lemma signed_evidence_verifies:
  assumes "signProductEvidence sign y f = (version, algorithm, signature)" and "ey_key y pem = Some (''public'', ''ed25519'')"
    and "\<And>m. ey_verify y m pem (sign m) = Some True" and "\<And>m. 0 < length (sign m) \<and> length (sign m) \<le> 12288"
  shows "verifyProductEvidenceSignature y f signature pem = Inr (productEvidencePayload y f, productEvidencePayloadHash y f, PRODUCT_EVIDENCE_VERIFIER)"
proof -
  let ?m = "canonicalizeProductEvidence (productEvidencePayload y f)"
  have s: "signature = base64_encode (sign ?m)" using assms(1) by (simp add: signProductEvidence_def)
  have "4 \<le> length signature" "length signature \<le> 16384" using assms(4) [of ?m] unfolding s encode_length by presburger+
  then show ?thesis using assms(2,3) s by (auto simp: verified_evidence)
qed

end
