(* ===== verification/InstitutionCallback.thy ===== *)
theory InstitutionCallback
  imports DurableWorkflow
begin

text \<open>
  Signed callbacks of the institutions, \<open>src/storage/institution-callback-service.js\<close>: the format of an
  envelope, the source of a callback and its signature, the streams in which callbacks are applied in the
  order of their sequence, what is buffered, and the comparison with the committed amounts. The clock
  stands still within a transaction; the platform's hash, signature check and dates are fields of the
  service. An envelope is what \<open>JSON.parse\<close> returned of a request body: nothing in it is undefined, so its
  payload is stored as it is.
\<close>

section \<open>Envelopes\<close>

definition CALLBACK_SCHEMA :: string where
  "CALLBACK_SCHEMA = ''rwa.institution-callback.v1''"

definition CHANNEL_ROLE :: "(string, string) jsmap" where
  "CHANNEL_ROLE = [(''REGISTER'', ''transfer_agent''), (''CASH'', ''cash_provider''), (''CUSTODY'', ''custodian'')]"

definition CALLBACK_OUTCOMES :: "string list" where
  "CALLBACK_OUTCOMES = [''CONFIRMED'', ''REJECTED'', ''PERMANENT_FAILURE'']"

definition asset_code :: "string \<Rightarrow> bool" where
  \<comment> \<open>\<open>/^[A-Za-z0-9][A-Za-z0-9:_-]{1,127}$/\<close>\<close>
  "asset_code s = (id_text '':_-'' 127 s \<and> tl s \<noteq> [])"

definition currency_code :: "string \<Rightarrow> bool" where
  \<comment> \<open>\<open>/^[A-Z]{3}$/\<close>\<close>
  "currency_code s = (length s = 3 \<and> list_all is_upper s)"

definition DEFAULT_CALLBACK_KEY_ID :: string where
  "DEFAULT_CALLBACK_KEY_ID = ''primary-v1''"

record callback_service =
  ch_tenant :: string
  ch_now :: int
  ch_maxSkew :: int
  ch_maxValidity :: int
  ch_date :: "string \<Rightarrow> int option"   \<comment> \<open>\<open>None\<close> for an invalid date\<close>
  ch_sha :: "string \<Rightarrow> string"
  ch_keyOk :: "string \<Rightarrow> bool"   \<comment> \<open>\<open>assertEd25519PublicKey\<close> returns\<close>
  ch_verify :: "string \<Rightarrow> string \<Rightarrow> string \<Rightarrow> bool option"   \<comment> \<open>message, key, signature; \<open>None\<close> if it throws\<close>
  ch_decoy :: string
  ch_matches :: "(string \<Rightarrow> commit_request \<Rightarrow> string option \<Rightarrow> bool outcome) option"   \<comment> \<open>\<open>economicCommitter.matches\<close>, by key\<close>
  ch_eventId :: "string \<Rightarrow> string"   \<comment> \<open>the id drawn for the outbox event of an incident\<close>

definition required_text :: "json \<Rightarrow> bool" where
  "required_text v = (case v of JStr s \<Rightarrow> s \<noteq> [] | _ \<Rightarrow> False)"

definition is_text :: "json \<Rightarrow> bool" where
  "is_text v = (case v of JStr _ \<Rightarrow> True | _ \<Rightarrow> False)"

definition plain_object :: "json \<Rightarrow> bool" where
  "plain_object v = (case v of JObj _ \<Rightarrow> True | _ \<Rightarrow> False)"

definition object_keys :: "json \<Rightarrow> string list" where
  "object_keys v = (case v of JObj kvs \<Rightarrow> map fst kvs | _ \<Rightarrow> [])"

definition one_of_texts :: "json \<Rightarrow> string list \<Rightarrow> bool" where
  "one_of_texts v texts = (case v of JStr s \<Rightarrow> s \<in> set texts | _ \<Rightarrow> False)"

definition safe_positive :: "json \<Rightarrow> bool" where
  \<comment> \<open>\<open>Number.isSafeInteger(v) && v > 0\<close>\<close>
  "safe_positive v = integer_between 1 9007199254740991 v"

definition CALLBACK_FIELDS :: "string list" where
  "CALLBACK_FIELDS = [''callbackId'', ''tenantId'', ''institutionId'', ''productId'', ''channel'', ''eventType'', ''occurredAt'',
     ''expiresAt'', ''payloadHash'', ''signature'']"

definition callback_format :: "callback_service \<Rightarrow> json \<Rightarrow> unit outcome" where
  \<comment> \<open>a channel named like an inherited property, \<open>constructor\<close> say, passes the lookup of the role in the
      code and is refused by a later check; here it is refused at the lookup, so under another error\<close>
  "callback_format h e =
     (let keyId = jfield e ''keyId''; payload = jfield e ''payload'' in guards [
       (jfield e ''schema'' \<noteq> JStr CALLBACK_SCHEMA, ''UNSUPPORTED_CALLBACK_SCHEMA''),
       (\<not> list_all (\<lambda>f. required_text (jfield e f)) CALLBACK_FIELDS, ''INVALID_CALLBACK''),
       (\<not> jm_has CHANNEL_ROLE (text_field e ''channel''), ''INVALID_CALLBACK_CHANNEL''),
       (keyId \<noteq> JUndefined \<and> \<not> (is_text keyId \<and> id_text ''._:-'' 127 (text_field e ''keyId'')), ''INVALID_CALLBACK_KEY_ID''),
       (\<not> safe_positive (jfield e ''sequence''), ''INVALID_CALLBACK_SEQUENCE''),
       (\<not> plain_object payload, ''INVALID_CALLBACK_PAYLOAD''),
       (\<not> (one_of_texts (jfield payload ''outcome'') CALLBACK_OUTCOMES \<and> is_text (jfield payload ''subjectRef'')), ''INVALID_CALLBACK_PAYLOAD''),
       (sha256Canonical (ch_sha h) payload \<noteq> text_field e ''payloadHash'', ''CALLBACK_PAYLOAD_TAMPERED'')])"

definition callback_time :: "callback_service \<Rightarrow> json \<Rightarrow> unit outcome" where
  "callback_time h e = (case (ch_date h (text_field e ''occurredAt''), ch_date h (text_field e ''expiresAt'')) of
     (Some occurredAt, Some expiresAt) \<Rightarrow> guards [
       (expiresAt \<le> occurredAt, ''INVALID_CALLBACK_TIME''),
       (ch_maxSkew h < occurredAt - ch_now h, ''CALLBACK_FROM_FUTURE''),
       (expiresAt \<le> ch_now h, ''CALLBACK_EXPIRED''),
       (ch_maxValidity h < expiresAt - occurredAt, ''CALLBACK_VALIDITY_TOO_LONG'')]
   | _ \<Rightarrow> Inl (Coded ''INVALID_CALLBACK_TIME''))"

definition detail_fields :: "string \<Rightarrow> string list" where
  "detail_fields channel =
     (if channel = ''REGISTER'' then [''registerReference'', ''assetCode'', ''units'', ''registerVersion'']
      else if channel = ''CASH'' then [''bankReference'', ''currency'', ''amountMinor'', ''feeMinor'']
      else [''statementId'', ''assetCode'', ''balanceUnits'', ''asOf''])"

definition valid_details :: "callback_service \<Rightarrow> string \<Rightarrow> json \<Rightarrow> bool" where
  "valid_details h channel d =
     (if channel = ''REGISTER'' then is_text (jfield d ''registerReference'') \<and> asset_code (text_field d ''assetCode'')
        \<and> canonical_decimal (text_field d ''units'') \<and> jfield d ''units'' \<noteq> JStr ''0'' \<and> safe_positive (jfield d ''registerVersion'')
      else if channel = ''CASH'' then is_text (jfield d ''bankReference'') \<and> currency_code (text_field d ''currency'')
        \<and> canonical_decimal (text_field d ''amountMinor'') \<and> jfield d ''amountMinor'' \<noteq> JStr ''0'' \<and> canonical_decimal (text_field d ''feeMinor'')
      else is_text (jfield d ''statementId'') \<and> asset_code (text_field d ''assetCode'')
        \<and> canonical_decimal (text_field d ''balanceUnits'') \<and> ch_date h (text_field d ''asOf'') \<noteq> None)"

definition callback_business :: "callback_service \<Rightarrow> json \<Rightarrow> unit outcome" where
  "callback_business h e =
     (let channel = text_field e ''channel''; payload = jfield e ''payload''; details = jfield payload ''details'' in guards [
       (text_field e ''eventType'' \<noteq> channel @ ''.'' @ text_field payload ''outcome'', ''CALLBACK_EVENT_OUTCOME_MISMATCH''),
       (jfield payload ''subjectType'' \<noteq> JStr (if channel = ''CUSTODY'' then ''POSITION'' else ''TRANSACTION''), ''INVALID_CALLBACK_SUBJECT''),
       (\<not> list_all (\<lambda>k. k \<in> {''subjectType'', ''subjectRef'', ''outcome'', ''details''}) (object_keys payload) \<or> \<not> plain_object details,
          ''INVALID_CALLBACK_PAYLOAD''),
       (length (object_keys details) \<noteq> length (detail_fields channel)
          \<or> \<not> list_all (\<lambda>f. f \<in> set (object_keys details)) (detail_fields channel) \<or> \<not> valid_details h channel details,
          ''INVALID_CALLBACK_PAYLOAD'')])"

definition validateInstitutionCallbackEnvelope :: "callback_service \<Rightarrow> bool \<Rightarrow> json \<Rightarrow> unit outcome" where
  "validateInstitutionCallbackEnvelope h includeBusinessRules e =
     bindR (callback_format h e) (\<lambda>_.
     bindR (callback_time h e) (\<lambda>_.
     if includeBusinessRules then callback_business h e else Inr ()))"

definition unsigned_envelope :: "json \<Rightarrow> json" where
  "unsigned_envelope e = (case e of JObj kvs \<Rightarrow> JObj (filter (\<lambda>(k, _). k \<noteq> ''signature'') kvs) | _ \<Rightarrow> JObj [])"

definition verifyInstitutionCallbackSignature :: "callback_service \<Rightarrow> json \<Rightarrow> string \<Rightarrow> unit outcome" where
  "verifyInstitutionCallbackSignature h e publicKey =
     ensureR (ch_keyOk h publicKey
       \<and> ch_verify h (canonicalize (unsigned_envelope e)) publicKey (text_field e ''signature'') = Some True) ''INVALID_CALLBACK_SIGNATURE'' (Inr ())"

definition createSignedCallback :: "(string \<Rightarrow> string) \<Rightarrow> (string, json) jsmap \<Rightarrow> json" where
  \<comment> \<open>by an institution, with its signature function\<close>
  "createSignedCallback sign kvs =
     (let body = foldl (\<lambda>m (k, v). jm_set k v m) [(''schema'', JStr CALLBACK_SCHEMA)] kvs in
      JObj (jm_set ''signature'' (JStr (sign (canonicalize (JObj body)))) body))"

definition InstitutionCallbackService :: "json \<Rightarrow> string outcome" where
  \<comment> \<open>the tenant of a new service\<close>
  "InstitutionCallbackService tenantId = (case tenantId of
     JStr t \<Rightarrow> ensureR (1 \<le> length t \<and> length t \<le> 200) ''CALLBACK_TENANT_REQUIRED'' (Inr t)
   | _ \<Rightarrow> Inl (Coded ''CALLBACK_TENANT_REQUIRED''))"

section \<open>Tables\<close>

record signing_key =
  sk_institution :: string
  sk_key :: string
  sk_algorithm :: string
  sk_pem :: string
  sk_status :: string
  sk_from :: int
  sk_until :: "int option"
  sk_revoked :: bool

type_synonym stream = "string \<times> string \<times> string \<times> string"   \<comment> \<open>tenant, institution, product, channel\<close>

record callback =   \<comment> \<open>an envelope, or a row of \<open>rwa.callback_receipts\<close> as \<open>#fromReceipt\<close> reads it\<close>
  ik_id :: string
  ik_tenant :: string
  ik_institution :: string
  ik_product :: string
  ik_channel :: string
  ik_sequence :: int
  ik_eventType :: string
  ik_occurredAt :: int
  ik_expiresAt :: int
  ik_payload :: json
  ik_payloadHash :: string
  ik_signature :: string
  ik_keyId :: string

record callback_receipt =
  kr_callback :: callback
  kr_envelopeHash :: string

record callback_application =
  ka_id :: string
  ka_status :: string
  ka_outcome :: "string option"

record callback_effect =
  ke_id :: string
  ke_subject :: string
  ke_outcome :: string
  ke_details :: json

record callback_evidence =
  kd_callback :: string
  kd_id :: string
  kd_type :: string
  kd_payload :: json

record callback_confirmation =
  kn_callback :: string
  kn_tx :: "string option"
  kn_product :: string
  kn_channel :: string
  kn_outcome :: string
  kn_status :: string
  kn_reason :: "string option"
  kn_evidence :: string

record incident =
  nc_id :: string
  nc_callback :: string
  nc_tx :: "string option"
  nc_tenant :: string
  nc_product :: string
  nc_channel :: string
  nc_status :: string
  nc_severity :: string
  nc_reason :: string
  nc_round :: nat
  nc_remediation :: "string option"
  nc_version :: nat

record incident_approval =
  np_incident :: string
  np_round :: nat
  np_role :: string
  np_actor :: string
  np_decision :: string
  np_reference :: "string option"
  np_signature :: "string option"

record callback_db =
  ks_store :: db
  ks_institutions :: "(string \<times> string) list"   \<comment> \<open>id and status\<close>
  ks_roles :: "(string \<times> string \<times> string) list"   \<comment> \<open>product, role, institution; the ones that have not ended\<close>
  ks_keys :: "signing_key list"
  ks_products :: "(string \<times> string) list"   \<comment> \<open>id and currency\<close>
  ks_commitments :: "commitment_row list"
  ks_positions :: "(stream, int) jsmap"
  ks_receipts :: "callback_receipt list"
  ks_applications :: "callback_application list"
  ks_effects :: "callback_effect list"
  ks_evidence :: "callback_evidence list"
  ks_confirmations :: "callback_confirmation list"
  ks_incidents :: "incident list"
  ks_approvals :: "incident_approval list"

definition inCallbacks :: "(db, 'a) eff \<Rightarrow> (callback_db, 'a) eff" where
  \<comment> \<open>an operation of the store on the same client\<close>
  "inCallbacks m = (\<lambda>s. case m (ks_store s) of (r, t) \<Rightarrow> (r, s\<lparr>ks_store := t\<rparr>))"

definition insert_row :: "bool \<Rightarrow> ('s \<Rightarrow> 's) \<Rightarrow> ('s, unit) eff" where
  \<comment> \<open>an \<open>INSERT\<close>, which fails where a unique key is taken\<close>
  "insert_row taken add = (if taken then throwE unique_violation else modifyE add)"

definition stream_of :: "callback \<Rightarrow> stream" where
  "stream_of k = (ik_tenant k, ik_institution k, ik_product k, ik_channel k)"

section \<open>The source\<close>

definition key_available :: "callback_service \<Rightarrow> int \<Rightarrow> signing_key \<Rightarrow> bool" where
  "key_available h signedAt row =
     (sk_algorithm row = ''Ed25519'' \<and> sk_status row = ''ACTIVE'' \<and> \<not> sk_revoked row \<and> sk_from row - ch_maxSkew h \<le> signedAt
      \<and> (case sk_until row of None \<Rightarrow> True | Some u \<Rightarrow> signedAt < u \<and> ch_now h < u))"

definition authorizedSource :: "callback_service \<Rightarrow> callback_db \<Rightarrow> callback \<Rightarrow> string outcome" where
  \<comment> \<open>the public key of the source\<close>
  "authorizedSource h s k =
     (if map_of (ks_institutions s) (ik_institution k) \<noteq> Some ''ACTIVE'' then Inl (Coded ''UNTRUSTED_CALLBACK_SOURCE'')
      else if length (filter (\<lambda>r. r = (ik_product k, or_empty (jm_get CHANNEL_ROLE (ik_channel k)), ik_institution k)) (ks_roles s)) \<noteq> 1
        then Inl (Coded ''UNAUTHORIZED_CALLBACK_SOURCE'')
      else case filter (\<lambda>r. sk_institution r = ik_institution k \<and> sk_key r = ik_keyId k) (ks_keys s) of
        [row] \<Rightarrow> ensureR (key_available h (ik_occurredAt k) row) ''CALLBACK_SIGNING_KEY_UNAVAILABLE'' (Inr (sk_pem row))
      | _ \<Rightarrow> Inl (Coded ''CALLBACK_SIGNING_KEY_UNAVAILABLE''))"

definition callback_of :: "callback_service \<Rightarrow> json \<Rightarrow> callback" where
  "callback_of h e = \<lparr>ik_id = text_field e ''callbackId'', ik_tenant = text_field e ''tenantId'', ik_institution = text_field e ''institutionId'',
     ik_product = text_field e ''productId'', ik_channel = text_field e ''channel'',
     ik_sequence = (case jfield e ''sequence'' of JNum n \<Rightarrow> n | _ \<Rightarrow> 0), ik_eventType = text_field e ''eventType'',
     ik_occurredAt = (case ch_date h (text_field e ''occurredAt'') of Some t \<Rightarrow> t | None \<Rightarrow> 0),
     ik_expiresAt = (case ch_date h (text_field e ''expiresAt'') of Some t \<Rightarrow> t | None \<Rightarrow> 0), ik_payload = jfield e ''payload'',
     ik_payloadHash = text_field e ''payloadHash'', ik_signature = text_field e ''signature'',
     ik_keyId = (if jfield e ''keyId'' = JUndefined then DEFAULT_CALLBACK_KEY_ID else text_field e ''keyId'')\<rparr>"

definition authenticate :: "callback_service \<Rightarrow> callback_db \<Rightarrow> json \<Rightarrow> unit outcome" where
  \<comment> \<open>the signature is verified even where the source is rejected, then against the decoy key\<close>
  "authenticate h s e =
     (let k = callback_of h e; foreign = ik_tenant k \<noteq> ch_tenant h; source = authorizedSource h s k;
          publicKey = (case source of Inr pem \<Rightarrow> if foreign then ch_decoy h else pem | Inl _ \<Rightarrow> ch_decoy h);
          signed = verifyInstitutionCallbackSignature h e publicKey in
      ensureR (\<not> foreign \<and> (\<exists>pem. source = Inr pem) \<and> signed = Inr ()) ''CALLBACK_AUTHENTICATION_FAILED'' (Inr ()))"

section \<open>Reconciliation\<close>

definition evidence_type :: "string \<Rightarrow> string" where
  "evidence_type channel = (if channel = ''REGISTER'' then ''legal_register'' else if channel = ''CASH'' then ''cash_state'' else ''custody_balance'')"

definition commitment_checks :: "string \<Rightarrow> json \<Rightarrow> commitment_row \<Rightarrow> (string \<times> string \<times> string) list" where
  \<comment> \<open>field, value and the commitment it is compared with\<close>
  "commitment_checks channel details row =
     (if channel = ''REGISTER'' then [(''units'', text_field details ''units'', ec_units row)]
      else [(''cashAmountMinor'', text_field details ''amountMinor'', ec_cash row), (''feeAmountMinor'', text_field details ''feeMinor'', ec_fee row)])"

definition match_commitment :: "callback_service \<Rightarrow> callback_db \<Rightarrow> callback \<Rightarrow> (string \<times> string option) outcome" where
  \<comment> \<open>the status and the reason of a mismatch\<close>
  "match_commitment h s k =
     (let tx = text_field (ik_payload k) ''subjectRef''; details = jfield (ik_payload k) ''details'' in
      case (ch_matches h, filter (\<lambda>r. ec_tx r = tx) (ks_commitments s)) of
        (Some matches, [row]) \<Rightarrow>
          bindR (mapR (\<lambda>(field, value, expected). matches (ec_keyId row) \<lparr>cq_tenant = ik_tenant k, cq_tx = Some tx, cq_product = ik_product k,
              cq_field = field, cq_value = value\<rparr> (Some expected)) (commitment_checks (ik_channel k) details row)) (\<lambda>matched.
          Inr (if list_all id matched then (''FULLY_MATCHED'', None)
            else (''MISMATCH'', Some (if ik_channel k = ''REGISTER'' then ''UNITS_COMMITMENT_MISMATCH'' else ''CASH_COMMITMENT_MISMATCH''))))
      | _ \<Rightarrow> Inr (''MISMATCH'', Some ''MISSING_ECONOMIC_COMMITMENT''))"

definition cash_currency_differs :: "callback_db \<Rightarrow> callback \<Rightarrow> bool outcome" where
  "cash_currency_differs s k =
     (if ik_channel k \<noteq> ''CASH'' then Inr False
      else case map_of (ks_products s) (ik_product k) of None \<Rightarrow> Inl (Native ''TypeError'')
        | Some currency \<Rightarrow> Inr (jfield (jfield (ik_payload k) ''details'') ''currency'' \<noteq> JStr currency))"

definition reconcile_callback :: "callback_service \<Rightarrow> callback_db \<Rightarrow> callback \<Rightarrow> (string option \<times> string \<times> string option) outcome" where
  \<comment> \<open>the transaction, the status and the reason of a mismatch\<close>
  "reconcile_callback h s k =
     (if jfield (ik_payload k) ''subjectType'' \<noteq> JStr ''TRANSACTION'' then Inr (None, ''NOT_APPLICABLE'', None)
      else case find (\<lambda>t. ti_id t = text_field (ik_payload k) ''subjectRef'') (db_intents (ks_store s)) of
        None \<Rightarrow> Inr (None, ''MISMATCH'', Some ''UNKNOWN_TRANSACTION'')
      | Some t \<Rightarrow>
          if ti_tenant t \<noteq> ik_tenant k \<or> ti_product t \<noteq> ik_product k then Inr (Some (ti_id t), ''MISMATCH'', Some ''TRANSACTION_CONTEXT_MISMATCH'')
          else bindR (cash_currency_differs s k) (\<lambda>differs.
            if differs then Inr (Some (ti_id t), ''MISMATCH'', Some ''CURRENCY_MISMATCH'')
            else if ik_channel k = ''REGISTER'' \<and> jfield (jfield (ik_payload k) ''details'') ''assetCode'' \<noteq> JStr (unit_asset (ik_product k))
              then Inr (Some (ti_id t), ''MISMATCH'', Some ''ASSET_MISMATCH'')
            else bindR (match_commitment h s k) (\<lambda>(status, reason). Inr (Some (ti_id t), status, reason))))"

section \<open>Applying a callback\<close>

definition report_incident :: "callback_service \<Rightarrow> string \<Rightarrow> string \<Rightarrow> json \<Rightarrow> (callback_db, unit) eff" where
  "report_incident h tenant incidentId metadata =
     thenE (inCallbacks (recordAuditEvent (ch_sha h) \<lparr>ae_tenant = tenant, ae_event = ''external_incident.opened'',
         ae_aggType = ''external_incident'', ae_aggId = incidentId, ae_metadata = metadata\<rparr>))
    (thenE (inCallbacks (enqueueOutbox (ch_sha h) (ch_now h) (ch_eventId h incidentId) tenant ''rwa.external_incident.opened'' incidentId metadata None))
    (retE ()))"

definition new_incident :: "string \<Rightarrow> callback \<Rightarrow> string option \<Rightarrow> string \<Rightarrow> string \<Rightarrow> incident" where
  "new_incident incidentId k tx severity reasonCode =
     \<lparr>nc_id = incidentId, nc_callback = ik_id k, nc_tx = tx, nc_tenant = ik_tenant k, nc_product = ik_product k, nc_channel = ik_channel k,
      nc_status = ''OPEN'', nc_severity = severity, nc_reason = reasonCode, nc_round = 0, nc_remediation = None, nc_version = 0\<rparr>"

definition add_incident :: "incident \<Rightarrow> (callback_db, unit) eff" where
  "add_incident i = withE (\<lambda>s. insert_row (\<exists>j \<in> set (ks_incidents s). nc_id j = nc_id i \<or> nc_callback j = nc_callback i)
     (\<lambda>s. s\<lparr>ks_incidents := ks_incidents s @ [i]\<rparr>))"

definition incident_metadata :: "string \<Rightarrow> callback \<Rightarrow> string option \<Rightarrow> string \<Rightarrow> string \<Rightarrow> json" where
  "incident_metadata incidentId k tx severity reasonCode =
     JObj [(''incidentId'', JStr incidentId), (''callbackId'', JStr (ik_id k)), (''transactionId'', nullable tx),
       (''channel'', JStr (ik_channel k)), (''severity'', JStr severity), (''reasonCode'', JStr reasonCode)]"

definition open_callback_incident :: "callback_service \<Rightarrow> callback \<Rightarrow> string option \<Rightarrow> string option \<Rightarrow> (callback_db, unit) eff" where
  "open_callback_incident h k tx mismatchReason =
     (let outcome = text_field (ik_payload k) ''outcome''; incidentId = ''external-incident:'' @ ik_id k;
          reasonCode = (case mismatchReason of Some r \<Rightarrow> r | None \<Rightarrow> ''EXTERNAL_'' @ ik_channel k @ ''_'' @ outcome);
          severity = (if outcome = ''PERMANENT_FAILURE'' then ''CRITICAL'' else ''HIGH'') in
      thenE (add_incident (new_incident incidentId k tx severity reasonCode))
        (report_incident h (ik_tenant k) incidentId (incident_metadata incidentId k tx severity reasonCode)))"

definition recordEvidenceAndReconciliation :: "callback_service \<Rightarrow> callback \<Rightarrow> (callback_db, unit) eff" where
  "recordEvidenceAndReconciliation h k =
     (let evidenceId = ''callback:'' @ ik_id k; outcome = text_field (ik_payload k) ''outcome'' in
      thenE (withE (\<lambda>s. insert_row (ik_id k \<in> kd_callback ` set (ks_evidence s)) (\<lambda>s. s\<lparr>ks_evidence := ks_evidence s @
        [\<lparr>kd_callback = ik_id k, kd_id = evidenceId, kd_type = evidence_type (ik_channel k), kd_payload = ik_payload k\<rparr>]\<rparr>)))
     (withE (\<lambda>s. bindE (liftE (reconcile_callback h s k)) (\<lambda>(tx, status, reason).
      thenE (insert_row (ik_id k \<in> kn_callback ` set (ks_confirmations s)) (\<lambda>s. s\<lparr>ks_confirmations := ks_confirmations s @
        [\<lparr>kn_callback = ik_id k, kn_tx = tx, kn_product = ik_product k, kn_channel = ik_channel k, kn_outcome = outcome, kn_status = status,
          kn_reason = reason, kn_evidence = evidenceId\<rparr>]\<rparr>))
     (if status = ''MISMATCH'' \<or> outcome \<noteq> ''CONFIRMED'' then open_callback_incident h k tx reason else retE ())))))"

definition mark_applied :: "callback \<Rightarrow> bool \<Rightarrow> (callback_db, unit) eff" where
  "mark_applied k buffered = (let outcome = Some (text_field (ik_payload k) ''outcome'') in
     if buffered then modifyE (\<lambda>s. s\<lparr>ks_applications := update_where (\<lambda>a. ka_id a = ik_id k)
         (\<lambda>a. a\<lparr>ka_status := ''APPLIED'', ka_outcome := outcome\<rparr>) (ks_applications s)\<rparr>)
     else withE (\<lambda>s. insert_row (ik_id k \<in> ka_id ` set (ks_applications s)) (\<lambda>s. s\<lparr>ks_applications := ks_applications s @
         [\<lparr>ka_id = ik_id k, ka_status = ''APPLIED'', ka_outcome = outcome\<rparr>]\<rparr>)))"

definition add_effect :: "callback \<Rightarrow> (callback_db, unit) eff" where
  "add_effect k = withE (\<lambda>s. insert_row (ik_id k \<in> ke_id ` set (ks_effects s)) (\<lambda>s. s\<lparr>ks_effects := ks_effects s @
     [\<lparr>ke_id = ik_id k, ke_subject = text_field (ik_payload k) ''subjectRef'', ke_outcome = text_field (ik_payload k) ''outcome'',
       ke_details = jfield (ik_payload k) ''details''\<rparr>]\<rparr>))"

definition apply_callback :: "callback_service \<Rightarrow> callback \<Rightarrow> bool \<Rightarrow> (callback_db, unit) eff" where
  "apply_callback h k buffered =
     thenE (mark_applied k buffered) (thenE (add_effect k) (recordEvidenceAndReconciliation h k))"

section \<open>Receiving\<close>

definition openBlockedStreamIncident :: "callback_service \<Rightarrow> callback \<Rightarrow> string \<Rightarrow> (callback_db, unit) eff" where
  "openBlockedStreamIncident h k reasonCode = withE (\<lambda>s.
     let incidentId = ''external-incident:blocked:'' @ ik_id k; code = ''BUFFERED_CALLBACK_'' @ reasonCode in
     if ik_id k \<in> nc_callback ` set (ks_incidents s) then retE ()
     else thenE (add_incident (new_incident incidentId k None ''CRITICAL'' code))
       (report_incident h (ik_tenant k) incidentId (JObj [(''incidentId'', JStr incidentId), (''callbackId'', JStr (ik_id k)),
         (''channel'', JStr (ik_channel k)), (''sequence'', JNum (ik_sequence k)), (''severity'', JStr ''CRITICAL''), (''reasonCode'', JStr code)])))"

definition application_status :: "callback_db \<Rightarrow> string \<Rightarrow> callback_application option" where
  "application_status s callbackId = find (\<lambda>a. ka_id a = callbackId) (ks_applications s)"

definition buffered_at :: "callback_db \<Rightarrow> stream \<Rightarrow> int \<Rightarrow> callback option" where
  "buffered_at s st sequence = map_option kr_callback (find (\<lambda>r. stream_of (kr_callback r) = st \<and> ik_sequence (kr_callback r) = sequence
     \<and> map_option ka_status (application_status s (ik_id (kr_callback r))) = Some ''BUFFERED'') (ks_receipts s))"

fun drain_stream :: "callback_service \<Rightarrow> stream \<Rightarrow> nat \<Rightarrow> int \<Rightarrow> nat \<Rightarrow> (callback_db, int \<times> nat \<times> (string \<times> int \<times> string) option) eff" where
  \<comment> \<open>the loop over the buffered callbacks: at most \<open>fuel\<close> of them\<close>
  "drain_stream h st 0 nextSequence drained = throwE (Native ''out of fuel'')"
| "drain_stream h st (Suc fuel) nextSequence drained = withE (\<lambda>s. case buffered_at s st nextSequence of
     None \<Rightarrow> retE (nextSequence, drained, None)
   | Some k \<Rightarrow> (case authorizedSource h s k of
       Inl e \<Rightarrow> (let code = (case e of Coded c \<Rightarrow> c | Native n \<Rightarrow> n) in
         thenE (openBlockedStreamIncident h k code) (retE (nextSequence, drained, Some (ik_id k, ik_sequence k, code))))
     | Inr _ \<Rightarrow> thenE (apply_callback h k True) (drain_stream h st fuel (nextSequence + 1) (drained + 1))))"

datatype receive_answer =
    Duplicate_callback string "string option"   \<comment> \<open>its status and outcome\<close>
  | Buffered_callback int   \<comment> \<open>with the expected sequence\<close>
  | Applied_callback nat "(string \<times> int \<times> string) option"   \<comment> \<open>with the number drained and the callback that blocks\<close>

definition stream_position :: "callback_db \<Rightarrow> stream \<Rightarrow> int" where
  \<comment> \<open>\<open>next_sequence\<close>, 1 in a new stream\<close>
  "stream_position s st = (case jm_get (ks_positions s) st of None \<Rightarrow> 1 | Some n \<Rightarrow> n)"

definition set_position :: "stream \<Rightarrow> int \<Rightarrow> (callback_db, unit) eff" where
  "set_position st n = modifyE (\<lambda>s. s\<lparr>ks_positions := jm_set st n (ks_positions s)\<rparr>)"

definition add_receipt_row :: "callback \<Rightarrow> string \<Rightarrow> (callback_db, unit) eff" where
  "add_receipt_row k envelopeHash = withE (\<lambda>s.
     if \<exists>r \<in> set (ks_receipts s). ik_id (kr_callback r) = ik_id k
         \<or> stream_of (kr_callback r) = stream_of k \<and> ik_sequence (kr_callback r) = ik_sequence k
     then throwE (Coded ''CALLBACK_SEQUENCE_CONFLICT'')
     else modifyE (\<lambda>s. s\<lparr>ks_receipts := ks_receipts s @ [\<lparr>kr_callback = k, kr_envelopeHash = envelopeHash\<rparr>]\<rparr>))"

definition buffer_callback :: "callback \<Rightarrow> (callback_db, unit) eff" where
  "buffer_callback k = withE (\<lambda>s. insert_row (ik_id k \<in> ka_id ` set (ks_applications s)) (\<lambda>s. s\<lparr>ks_applications := ks_applications s @
     [\<lparr>ka_id = ik_id k, ka_status = ''BUFFERED'', ka_outcome = None\<rparr>]\<rparr>))"

definition apply_and_drain :: "callback_service \<Rightarrow> callback \<Rightarrow> (callback_db, receive_answer) eff" where
  \<comment> \<open>a callback whose turn it is, then the buffered ones that follow it\<close>
  "apply_and_drain h k =
     thenE (apply_callback h k False) (withE (\<lambda>s.
     bindE (drain_stream h (stream_of k) (Suc (length (ks_receipts s))) (ik_sequence k + 1) 0) (\<lambda>(nextSequence, drained, blocked).
     thenE (set_position (stream_of k) nextSequence) (retE (Applied_callback drained blocked)))))"

definition accept_callback :: "callback_service \<Rightarrow> callback \<Rightarrow> string \<Rightarrow> (callback_db, receive_answer) eff" where
  \<comment> \<open>a callback that was not received before\<close>
  "accept_callback h k envelopeHash = withE (\<lambda>s.
     let expected = stream_position s (stream_of k) in
     thenE (set_position (stream_of k) expected)
    (thenE (ensureE (expected \<le> ik_sequence k) ''CALLBACK_SEQUENCE_CONFLICT'')
    (thenE (add_receipt_row k envelopeHash)
    (if ik_sequence k = expected then apply_and_drain h k
     else thenE (buffer_callback k) (retE (Buffered_callback expected))))))"

definition receive_in :: "callback_service \<Rightarrow> json \<Rightarrow> (callback_db, receive_answer) eff" where
  "receive_in h e = withE (\<lambda>s.
     thenE (liftE (authenticate h s e))
    (thenE (liftE (validateInstitutionCallbackEnvelope h True e))
    (let k = callback_of h e; envelopeHash = sha256Canonical (ch_sha h) (unsigned_envelope e) in
     case (find (\<lambda>r. ik_id (kr_callback r) = ik_id k) (ks_receipts s), application_status s (ik_id k)) of
       (Some r, Some a) \<Rightarrow> thenE (ensureE (kr_envelopeHash r = envelopeHash) ''CALLBACK_ID_CONFLICT'')
         (retE (Duplicate_callback (ka_status a) (ka_outcome a)))
     | _ \<Rightarrow> accept_callback h k envelopeHash)))"

definition receive :: "callback_service \<Rightarrow> (nat \<Rightarrow> unit outcome) \<Rightarrow> json \<Rightarrow> (callback_db, receive_answer) eff" where
  "receive h commit e =
     thenE (liftE (validateInstitutionCallbackEnvelope h False e)) (withSerializableTransaction 3 commit (receive_in h e))"

end
