(* ===== verification/CatalogInput.thy ===== *)
theory CatalogInput
  imports ProductEvidence InstitutionCallback
begin

text \<open>
  What the product catalogue accepts, the validation functions of
  \<open>src/storage/product-catalog-service.js\<close>: bounded texts, lists, tenants, institutions, products,
  signing keys, reviews and evidence.
\<close>

record catalog_service =
  sv_crypto :: evidence_crypto
  sv_date :: "json \<Rightarrow> int option"   \<comment> \<open>\<open>new Date(value)\<close>, \<open>None\<close> for an invalid date\<close>
  sv_now :: int   \<comment> \<open>\<open>this.now()\<close>\<close>
  sv_clock :: int   \<comment> \<open>\<open>clock_timestamp()\<close> of the database\<close>
  sv_skew :: int
  sv_validity :: int
  sv_eventId :: string   \<comment> \<open>the id drawn for the outbox event of the call\<close>

abbreviation "sv_sha h \<equiv> ey_sha (sv_crypto h)"

section \<open>Texts\<close>

definition slug_char :: "char \<Rightarrow> bool" where
  "slug_char c = (is_lower c \<or> is_digit c)"

definition slug_text :: "nat \<Rightarrow> string \<Rightarrow> bool" where
  \<comment> \<open>\<open>/^[a-z0-9][a-z0-9-]{2,n}$/\<close>\<close>
  "slug_text n s = (s \<noteq> [] \<and> slug_char (hd s) \<and> list_all (\<lambda>c. slug_char c \<or> c = CHR ''-'') (tl s)
     \<and> 2 \<le> length (tl s) \<and> length (tl s) \<le> n)"

definition requirement_code :: "string \<Rightarrow> bool" where
  \<comment> \<open>\<open>/^[a-z][a-z0-9_]{2,63}$/\<close>\<close>
  "requirement_code s = (s \<noteq> [] \<and> is_lower (hd s) \<and> list_all (\<lambda>c. slug_char c \<or> c = CHR ''_'') (tl s)
     \<and> 2 \<le> length (tl s) \<and> length (tl s) \<le> 63)"

definition country_code :: "string \<Rightarrow> bool" where
  \<comment> \<open>\<open>/^[A-Z]{2}$/\<close>\<close>
  "country_code s = (length s = 2 \<and> list_all is_upper s)"

definition sha256_text :: "string \<Rightarrow> bool" where
  \<comment> \<open>\<open>/^[0-9a-f]{64}$/\<close>\<close>
  "sha256_text s = (length s = 64 \<and> list_all is_hex s)"

definition contains_text :: "string \<Rightarrow> string \<Rightarrow> bool" where
  \<comment> \<open>\<open>s.includes(part)\<close>\<close>
  "contains_text s part = list_ex (\<lambda>i. take (length part) (drop i s) = part) [0..<Suc (length s)]"

definition any_text :: "string \<Rightarrow> bool" where
  "any_text s = True"

definition requireString :: "nat \<Rightarrow> nat \<Rightarrow> (string \<Rightarrow> bool) \<Rightarrow> json \<Rightarrow> string outcome" where
  "requireString lo hi pattern value = (case value of
     JStr s \<Rightarrow> ensureR (lo \<le> length s \<and> length s \<le> hi \<and> pattern s) ''INVALID_CATALOG_INPUT'' (Inr s)
   | _ \<Rightarrow> Inl (Coded ''INVALID_CATALOG_INPUT''))"

definition stringList :: "(string \<Rightarrow> bool) \<Rightarrow> json \<Rightarrow> string list outcome" where
  "stringList pattern value = (case value of
     JArr xs \<Rightarrow> ensureR (xs \<noteq> [] \<and> length xs \<le> 50) ''INVALID_CATALOG_INPUT''
       (bindR (mapR (requireString 1 64 pattern) xs) (\<lambda>texts.
        ensureR (distinct texts) ''INVALID_CATALOG_INPUT'' (Inr texts)))
   | _ \<Rightarrow> Inl (Coded ''INVALID_CATALOG_INPUT''))"

definition ROLE :: "string list" where
  "ROLE = [''issuer'', ''distributor'', ''credential_issuer'', ''fund_administrator'', ''custodian'', ''transfer_agent'', ''cash_provider'']"

section \<open>Inputs\<close>

definition reviewInput :: "json \<Rightarrow> (string \<times> string) outcome" where
  \<comment> \<open>the decision and its reason\<close>
  "reviewInput input =
     bindR (requireString 1 20 any_text (jfield input ''decision'')) (\<lambda>decision.
     ensureR (decision \<in> {''APPROVE'', ''REJECT''}) ''INVALID_REVIEW_DECISION''
    (bindR (requireString 3 1000 any_text (jfield input ''reason'')) (\<lambda>reason. Inr (decision, reason))))"

record evidence_input =
  vi_id :: string
  vi_requirement :: string
  vi_source :: string
  vi_schema :: string
  vi_content :: string
  vi_envelope :: string
  vi_algorithm :: string
  vi_key :: string
  vi_signature :: string
  vi_issuedAt :: int
  vi_expiresAt :: int

definition evidence_times :: "catalog_service \<Rightarrow> json \<Rightarrow> (int \<times> int) outcome" where
  "evidence_times h input = (case (sv_date h (jfield input ''issuedAt''), sv_date h (jfield input ''expiresAt'')) of
     (Some issuedAt, Some expiresAt) \<Rightarrow> ensureR (issuedAt < expiresAt) ''INVALID_EVIDENCE_TIME'' (Inr (issuedAt, expiresAt))
   | _ \<Rightarrow> Inl (Coded ''INVALID_EVIDENCE_TIME''))"

definition evidenceInput :: "catalog_service \<Rightarrow> json \<Rightarrow> evidence_input outcome" where
  "evidenceInput h input =
     bindR (evidence_times h input) (\<lambda>(issuedAt, expiresAt).
     bindR (requireString 3 100 (slug_text 99) (jfield input ''id'')) (\<lambda>i.
     bindR (requireString 3 64 requirement_code (jfield input ''requirementCode'')) (\<lambda>code.
     bindR (requireString 3 100 (slug_text 99) (jfield input ''sourceInstitutionId'')) (\<lambda>source.
     bindR (requireString 1 40 any_text (jfield input ''schemaVersion'')) (\<lambda>schema.
     bindR (requireString 64 64 sha256_text (jfield input ''contentHash'')) (\<lambda>content.
     bindR (requireString 1 80 any_text (jfield input ''envelopeVersion'')) (\<lambda>envelope.
     bindR (requireString 1 40 any_text (jfield input ''signatureAlgorithm'')) (\<lambda>algorithm.
     bindR (requireString 1 128 (id_text ''._:-'' 127) (jfield input ''keyId'')) (\<lambda>keyId.
     bindR (requireString 16 16384 any_text (jfield input ''signature'')) (\<lambda>signature.
     Inr \<lparr>vi_id = i, vi_requirement = code, vi_source = source, vi_schema = schema, vi_content = content, vi_envelope = envelope,
       vi_algorithm = algorithm, vi_key = keyId, vi_signature = signature, vi_issuedAt = issuedAt, vi_expiresAt = expiresAt\<rparr>))))))))))"

definition nullish :: "json \<Rightarrow> bool" where
  \<comment> \<open>\<open>value == null\<close>\<close>
  "nullish v = (v \<in> {JUndefined, JNull})"

definition key_times :: "catalog_service \<Rightarrow> json \<Rightarrow> (int \<times> int option) outcome" where
  "key_times h input =
     (let until = jfield input ''validUntil'' in
      case (sv_date h (jfield input ''validFrom''), if nullish until \<or> until = JStr [] then Some None else map_option Some (sv_date h until)) of
        (Some validFrom, Some validUntil) \<Rightarrow>
          ensureR (case validUntil of None \<Rightarrow> True | Some u \<Rightarrow> validFrom < u) ''INVALID_SIGNING_KEY_TIME'' (Inr (validFrom, validUntil))
      | _ \<Rightarrow> Inl (Coded ''INVALID_SIGNING_KEY_TIME''))"

definition signingKeyInput :: "catalog_service \<Rightarrow> string \<Rightarrow> json \<Rightarrow> signing_key outcome" where
  \<comment> \<open>the row of the key for the institution\<close>
  "signingKeyInput h institution input =
     bindR (key_times h input) (\<lambda>(validFrom, validUntil).
     bindR (requireString 1 40 any_text (jfield input ''algorithm'')) (\<lambda>algorithm.
     ensureR (algorithm = PRODUCT_EVIDENCE_ALGORITHM) ''UNSUPPORTED_EVIDENCE_ALGORITHM''
    (bindR (requireString 64 16384 any_text (jfield input ''publicKeyPem'')) (\<lambda>publicKeyPem.
     bindR (assertEd25519PublicKey (sv_crypto h) publicKeyPem) (\<lambda>_.
     bindR (requireString 1 128 (id_text ''._:-'' 127) (jfield input ''keyId'')) (\<lambda>keyId.
     Inr \<lparr>sk_institution = institution, sk_key = keyId, sk_algorithm = algorithm, sk_pem = publicKeyPem, sk_status = ''ACTIVE'',
       sk_from = validFrom, sk_until = validUntil, sk_revoked = False\<rparr>))))))"

record tenant_input =
  ni_id :: string
  ni_legalName :: string
  ni_home :: string
  ni_region :: string

definition validateTenantInput :: "json \<Rightarrow> tenant_input outcome" where
  "validateTenantInput input =
     bindR (requireString 3 63 (slug_text 62) (jfield input ''id'')) (\<lambda>i.
     bindR (requireString 2 200 any_text (jfield input ''legalName'')) (\<lambda>legalName.
     bindR (requireString 2 2 country_code (jfield input ''homeJurisdiction'')) (\<lambda>home.
     bindR (requireString 2 63 (slug_text 62) (jfield input ''dataRegion'')) (\<lambda>region.
     Inr \<lparr>ni_id = i, ni_legalName = legalName, ni_home = home, ni_region = region\<rparr>))))"

record institution_input =
  ui_id :: string
  ui_legalName :: string
  ui_jurisdiction :: string
  ui_pem :: string
  ui_reference :: "string option"

definition validateInstitutionInput :: "catalog_service \<Rightarrow> json \<Rightarrow> institution_input outcome" where
  "validateInstitutionInput h input =
     bindR (requireString 64 16384 any_text (jfield input ''publicKeyPem'')) (\<lambda>pem.
     ensureR (contains_text pem ''BEGIN PUBLIC KEY'' \<and> \<not> contains_text pem ''PRIVATE KEY'') ''INVALID_INSTITUTION_KEY''
    (bindR (assertEd25519PublicKey (sv_crypto h) pem) (\<lambda>_.
     bindR (requireString 3 100 (slug_text 99) (jfield input ''id'')) (\<lambda>i.
     bindR (requireString 2 200 any_text (jfield input ''legalName'')) (\<lambda>legalName.
     bindR (requireString 2 2 country_code (jfield input ''jurisdiction'')) (\<lambda>jurisdiction.
     bindR (if nullish (jfield input ''externalReference'') then Inr None
       else bindR (requireString 1 200 any_text (jfield input ''externalReference'')) (\<lambda>r. Inr (Some r))) (\<lambda>reference.
     Inr \<lparr>ui_id = i, ui_legalName = legalName, ui_jurisdiction = jurisdiction, ui_pem = pem, ui_reference = reference\<rparr>)))))))"

record template_row =   \<comment> \<open>as \<open>rowTemplate\<close> reads it\<close>
  tm_id :: string
  tm_assetClass :: string
  tm_version :: int
  tm_displayName :: string
  tm_roles :: "string list"
  tm_actions :: json
  tm_rules :: "(string, json) jsmap"
  tm_status :: string

record product_input =
  xi_id :: string
  xi_name :: string
  xi_jurisdiction :: string
  xi_issuer :: string
  xi_currency :: string
  xi_template :: string
  xi_rules :: "(string, json) jsmap"

definition supplied_rules :: "json \<Rightarrow> (string, json) jsmap outcome" where
  "supplied_rules input =
     (let rules = jfield input ''rules'' in
      if nullish rules then Inr []
      else case rules of JObj kvs \<Rightarrow> Inr kvs | _ \<Rightarrow> Inl (Coded ''INVALID_CATALOG_INPUT''))"

definition merged_rules :: "template_row \<Rightarrow> (string, json) jsmap \<Rightarrow> string \<Rightarrow> (string, json) jsmap" where
  \<comment> \<open>\<open>{ ...template.defaultRules, ...suppliedRules, currency }\<close>\<close>
  "merged_rules template supplied currency =
     jm_set ''currency'' (JStr currency) (foldl (\<lambda>m (k, v). jm_set k v m) (tm_rules template) supplied)"

definition product_rules :: "(string, json) jsmap \<Rightarrow> (string, json) jsmap outcome" where
  "product_rules rules =
     bindR (stringList any_text (jfield (JObj rules) ''allowedInvestorClasses'')) (\<lambda>classes.
     bindR (stringList country_code (jfield (JObj rules) ''allowedJurisdictions'')) (\<lambda>jurisdictions.
     ensureR (integer_between 0 10000 (jfield (JObj rules) ''maxPriceDeviationBps'')) ''INVALID_CATALOG_INPUT''
       (Inr (jm_set ''allowedJurisdictions'' (JArr (map JStr jurisdictions)) (jm_set ''allowedInvestorClasses'' (JArr (map JStr classes)) rules)))))"

definition validateProductInput :: "json \<Rightarrow> template_row option \<Rightarrow> product_input outcome" where
  "validateProductInput input template = (case template of
     None \<Rightarrow> Inl (Coded ''UNKNOWN_PRODUCT_TEMPLATE'')
   | Some t \<Rightarrow> ensureR (tm_status t = ''ACTIVE'') ''UNKNOWN_PRODUCT_TEMPLATE''
    (bindR (requireString 3 3 currency_code (jfield input ''currency'')) (\<lambda>currency.
     bindR (supplied_rules input) (\<lambda>supplied.
     bindR (product_rules (merged_rules t supplied currency)) (\<lambda>rules.
     bindR (requireString 3 100 (slug_text 99) (jfield input ''id'')) (\<lambda>i.
     bindR (requireString 3 200 any_text (jfield input ''name'')) (\<lambda>name.
     bindR (requireString 2 2 country_code (jfield input ''jurisdiction'')) (\<lambda>jurisdiction.
     bindR (requireString 3 100 (slug_text 99) (jfield input ''issuerId'')) (\<lambda>issuer.
     Inr \<lparr>xi_id = i, xi_name = name, xi_jurisdiction = jurisdiction, xi_issuer = issuer, xi_currency = currency, xi_template = tm_id t,
       xi_rules = rules\<rparr>)))))))))"

end
