(* ===== verification/DurableSteps.thy ===== *)
theory DurableSteps
  imports DurableFacts DurableBootstrap CpSteps CatalogInput
begin

text \<open>
  The durable workflows as a transition system from empty tables, and the invariant of its books: the
  register is the unit side of the ledger, entry by entry, and no account but a clearing one is below
  zero as long as the id of every product keeps its unit and cash accounts apart.
\<close>

section \<open>The workflows keep the invariant\<close>

lemma framed_keeps: "preserves wf_frame m \<Longrightarrow> keeps durable_ok m"
  unfolding preserves_def keeps_def using durable_ok_cong by blast

lemma attempt_keeps:
  "keeps durable_ok (attempt_once commit (settleInTransaction w eventId type request registerFailure))"
  by (rule keepsI) (metis attempt_once_result settlement_keeps)

lemma settle_ok:
  "durable_ok s \<Longrightarrow> withSerializableTransaction n commit (settleInTransaction w eventId type request registerFailure) s = (r, t)
     \<Longrightarrow> durable_ok t"
  using serializable_from_result settlement_keeps unfolding withSerializableTransaction_def by metis

lemma keeps_case_list [keeps_intros]:
  "keeps I m \<Longrightarrow> (\<And>x xs. keeps I (g x xs)) \<Longrightarrow> keeps I (case xs of [] \<Rightarrow> m | x # xs \<Rightarrow> g x xs)"
  by (simp split: list.split)

lemma keeps_case_sum [keeps_intros]:
  "(\<And>e. keeps I (m e)) \<Longrightarrow> (\<And>x. keeps I (g x)) \<Longrightarrow> keeps I (case r of Inl e \<Rightarrow> m e | Inr x \<Rightarrow> g x)"
  by (simp split: sum.split)

lemma durable_retry_keeps: "keeps durable_ok (retry_original w retryEventId eventId ac)"
  unfolding retry_original_def retry_case_def try_settlement_def Let_def
  by (intro keeps_intros keeps_withE framed_keeps [OF reopen_frame] framed_keeps [OF close_frame] attempt_keeps)

lemma decide_keeps: "keeps durable_ok (decide_case w retryEventId eventId decision ac)"
  unfolding decide_case_def
  by (intro keeps_intros durable_retry_keeps framed_keeps [OF reopen_frame] framed_keeps [OF close_frame])

lemma durable_approve_keeps: "keeps durable_ok (durable_approveExceptionResolution w commit retryEventId eventId caseId checkerId decision)"
  unfolding durable_approveExceptionResolution_def
  by (rule serializable_keeps) (intro keeps_intros decide_keeps framed_keeps preserves_inWf frames)

lemma status_keeps: "keeps durable_ok (setProductStatus w commit eventId productId status actorRef reason)"
proof -
  let ?f = "\<lambda>p. p\<lparr>wp_status := status, wp_version := wp_version p + 1\<rparr>"
  have row: "keeps durable_ok (modifyE (\<lambda>s. s\<lparr>wf_products := update_where (\<lambda>p. wp_id p = productId) ?f (wf_products s)\<rparr>))"
  proof (rule keepsI)
    fix s r t
    assume ok: "durable_ok s" and "modifyE (\<lambda>s. s\<lparr>wf_products := update_where (\<lambda>p. wp_id p = productId) ?f (wf_products s)\<rparr>) s = (r, t)"
    then have t: "t = s\<lparr>wf_products := update_where (\<lambda>p. wp_id p = productId) ?f (wf_products s)\<rparr>" by (simp add: modifyE_def)
    show "durable_ok t"
      using ok
    proof (rule durable_ok_change)
      show "\<exists>p \<in> set (wf_products t). wp_id p = wp_id q \<and> wp_rules p = wp_rules q" if "q \<in> set (wf_products s)" for q
        by (rule bexI [of _ "if wp_id q = productId then ?f q else q"]) (use that in \<open>auto simp: t update_where_def\<close>)
    qed (auto simp: t update_where_def)
  qed
  show ?thesis unfolding setProductStatus_def
    by (intro keeps_intros serializable_keeps keeps_withE row framed_keeps [OF wf_announce_frame])
qed

section \<open>So does the bootstrap\<close>

lemma keeps_eachE: "(\<And>x. x \<in> set xs \<Longrightarrow> keeps I (f x)) \<Longrightarrow> keeps I (eachE f xs)"
  by (induction xs) (auto intro!: keeps_intros)

lemma iso_colon_free: "iso_currency c \<Longrightarrow> colon_free c"
  by (auto simp: iso_currency_def colon_free_def list_all_iff)

lemma insert_keeps:
  assumes "\<And>s. durable_ok s \<Longrightarrow> durable_ok (add s)"
  shows "keeps durable_ok (insert_unless c add)"
  unfolding insert_unless_def using assms by (intro keeps_intros) (rule keepsI, auto simp: eff_simps)

lemma boot_institution_keeps: "keeps durable_ok (boot_institution i)"
  unfolding boot_institution_def
  by (intro keeps_intros keeps_withE insert_keeps) (simp add: durable_ok_def ledger_balance_def)

lemma boot_product_keeps: "keeps durable_ok (boot_product p)"
proof -
  have row: "keeps durable_ok (thenE (ensureE (iso_currency (wp_currency (product_row p))) ''23514'')
      (insert_unless c (\<lambda>s. s\<lparr>wf_products := wf_products s @ [product_row p]\<rparr>)))" for c
  proof (cases "iso_currency (wp_currency (product_row p))")
    case True
    then have "colon_free (rules_currency (product_row p))" using iso_colon_free by (simp add: product_row_def rules_currency_def text_field_stored)
    then show ?thesis by (intro keeps_intros insert_keeps, elim durable_ok_change) auto
  next
    case False
    then show ?thesis by (intro keepsI) (simp add: ensureE_def thenE_def bindE_def throwE_def split: if_splits)
  qed
  have role: "keeps durable_ok (boot_role x y)" for x y
    unfolding boot_role_def by (intro keeps_withE insert_keeps) (simp add: durable_ok_def ledger_balance_def)
  show ?thesis unfolding boot_product_def by (intro keeps_intros keeps_withE row keeps_eachE role)
qed

lemma boot_evidence_keeps:
  assumes "ev_dataType e = ''nav'' \<longrightarrow> (\<exists>n > 0. nav_price e n)"
  shows "keeps durable_ok (boot_evidence w e)"
  unfolding boot_evidence_def using assms
  by (intro keeps_intros keeps_withE insert_keeps, elim durable_ok_change) (auto simp: durable_ok_def nav_positive_def nav_price_def jfield_stored to_bigint_stored)

lemma boot_credential_keeps: "keeps durable_ok (boot_credential w plane c)"
  unfolding boot_credential_def Let_def
  by (intro keeps_intros keeps_withE insert_keeps) (simp add: durable_ok_def ledger_balance_def)

lemma same_entries_ok:
  "durable_ok s \<Longrightarrow> bk_entries (db_ledger u) = bk_entries (db_ledger (wf_store s))
     \<Longrightarrow> bk_entries (db_register u) = bk_entries (db_register (wf_store s)) \<Longrightarrow> durable_ok (s\<lparr>wf_store := u\<rparr>)"
  by (simp add: durable_ok_def ledger_balance_def balance_in_def unit_entries_def register_entries_def)

lemma account_keeps: "keeps durable_ok (ensureLedgerAccount p ow a k)" "keeps durable_ok (ensureRegisterAccount p ow a k)"
  by (rule keepsI, auto simp: ensureLedgerAccount_def ensureRegisterAccount_def open_account_def inWf_def modifyE_def intro: same_entries_ok)+

lemma boot_accounts_keeps: "keeps durable_ok (boot_accounts plane p)"
  unfolding boot_accounts_def boot_owner_def Let_def by (intro keeps_intros keeps_eachE account_keeps)

lemma clearing_account: "clearing (ledgerAccountId p ow c ''CASH_CLEARING'')"
proof -
  have "ledgerAccountId p ow c ''CASH_CLEARING'' = (''ledger:'' @ p @ '':'' @ ow @ '':'' @ c) @ '':CASH_CLEARING''"
    by (simp add: ledgerAccountId_def account_suffix_def)
  then show ?thesis unfolding clearing_def by (metis ends_with_append)
qed

lemma key_currency_colon_free: "colon_free (snd (cash_key_parts key))"
  by (auto simp: cash_key_parts_def colon_free_def Let_def dest: set_takeWhileD)

lemma opening_ok:
  assumes ok: "durable_ok s" and b: "0 \<le> b" and c: "colon_free c"
    and run: "appendLedgerBatch batch tx src (opening_entries p ow c b) (wf_store s) = (Inr x, u)"
  shows "durable_ok (s\<lparr>wf_store := u\<rparr>)"
proof -
  have led: "bk_entries (db_ledger u) = bk_entries (db_ledger (wf_store s)) @ map (entry_of batch) (opening_entries p ow c b)"
    and reg: "db_register u = db_register (wf_store s)"
    using run by (auto simp: appendLedgerBatch_def eff_simps post_batch_def Let_def split: if_splits)
  have no: "\<not> starts_with c ''UNIT:''" using c colon_free_no_unit by blast
  have units: "unit_entries (db_ledger u) = unit_entries (db_ledger (wf_store s))"
    using no by (simp add: unit_entries_def led opening_entries_def entry_of_def movement_def)
  have bal: "ledger_balance (s\<lparr>wf_store := u\<rparr>) a = ledger_balance s a + requested_on a (opening_entries p ow c b)" for a
    by (simp add: ledger_balance_def balance_in_def led balance_appended [unfolded map_map])
  have "(\<exists>p \<in> set (wf_products s). \<not> own_accounts p) \<or> (\<forall>a. clearing a \<or> 0 \<le> ledger_balance (s\<lparr>wf_store := u\<rparr>) a)"
    using ok b clearing_account by (auto simp: bal durable_ok_def opening_entries_def)
  then show ?thesis using ok units reg by (simp add: durable_ok_def)
qed

lemma append_failed: "appendLedgerBatch b tx src es s = (Inl e, u) \<Longrightarrow> u = s"
  by (auto simp: appendLedgerBatch_def eff_simps split: if_splits)

lemma boot_cash_keeps:
  assumes "0 \<le> snd account"
  shows "keeps durable_ok (boot_cash plane account)"
proof -
  have post: "keeps durable_ok (inWf (appendLedgerBatch batch None ''OPENING''
      (opening_entries p ow (snd (cash_key_parts key)) (snd account))))" for batch p ow key
  proof (rule keepsI)
    fix s r t
    assume ok: "durable_ok s"
      and "inWf (appendLedgerBatch batch None ''OPENING'' (opening_entries p ow (snd (cash_key_parts key)) (snd account))) s = (r, t)"
    then obtain u where u: "appendLedgerBatch batch None ''OPENING'' (opening_entries p ow (snd (cash_key_parts key)) (snd account)) (wf_store s) = (r, u)"
      and t: "t = s\<lparr>wf_store := u\<rparr>" by (auto simp: inWf_def split: prod.splits)
    show "durable_ok t"
    proof (cases r)
      case (Inl e)
      then have "t = s" using append_failed u by (auto simp: t)
      then show ?thesis using ok by simp
    next
      case (Inr x)
      then show ?thesis using opening_ok [OF ok assms key_currency_colon_free] u by (simp add: t)
    qed
  qed
  show ?thesis unfolding boot_cash_def Let_def
    by (intro keeps_intros keeps_withE post)
qed

text \<open>
  A plane the control plane has reached has positive NAVs and no debts, which is what the bootstrap relies on. The
  ids of its products are whatever they were created with.
\<close>

lemma bootstrap_keeps:
  assumes fit: "plane_ok plane"
  shows "keeps durable_ok (bootstrapFromControlPlane w commit plane)"
proof -
  have e: "e \<in> set (jm_values (evidences plane)) \<Longrightarrow> keeps durable_ok (boot_evidence w e)" for e
    using plane_okD(1) [OF fit] unfolding nav_ok_def by (intro boot_evidence_keeps) blast
  have c: "account \<in> set (cashBalances plane) \<Longrightarrow> keeps durable_ok (boot_cash plane account)" for account
    using ledgers_okD(1) [OF plane_okD(2) [OF fit]] by (intro boot_cash_keeps) (auto simp: jm_nonneg_def)
  show ?thesis unfolding bootstrapFromControlPlane_def
    by (intro serializable_keeps keeps_intros keeps_eachE boot_institution_keeps boot_product_keeps e boot_credential_keeps boot_accounts_keeps c)
qed

section \<open>The other services\<close>

text \<open>
  Of the other services only the product catalogue writes products: it inserts those its validation has
  accepted, whose ids are lower case and whose currencies are upper case, and activates them. None writes
  the books or the evidence.
\<close>

definition catalogue_product :: "wf_product \<Rightarrow> bool" where
  "catalogue_product p = (\<exists>input template x. validateProductInput input template = Inr x
     \<and> wp_id p = xi_id x \<and> wp_rules p = stored_json (JObj (xi_rules x)))"

definition catalogue_changes :: "wf_db \<Rightarrow> wf_db \<Rightarrow> bool" where
  "catalogue_changes s t =
     (db_ledger (wf_store t) = db_ledger (wf_store s) \<and> db_register (wf_store t) = db_register (wf_store s)
      \<and> wf_evidence t = wf_evidence s
      \<and> (\<forall>q \<in> set (wf_products s). \<exists>p \<in> set (wf_products t). wp_id p = wp_id q \<and> wp_rules p = wp_rules q)
      \<and> (\<forall>p \<in> set (wf_products t). catalogue_product p \<or> (\<exists>q \<in> set (wf_products s). wp_id p = wp_id q \<and> wp_rules p = wp_rules q)))"

lemma requireString_Inr: "requireString lo hi pattern v = Inr x \<Longrightarrow> pattern x"
  by (auto simp: requireString_def ensureR_Inr split: json.splits)

lemma stored_text: "map_of kvs k = Some (JStr c) \<Longrightarrow> text_field (stored_json (JObj kvs)) k = c"
  unfolding text_field_stored by (simp add: text_field_def jfield_def)

lemma rules_keep_currency: "product_rules (merged_rules t supplied c) = Inr rules \<Longrightarrow> map_of rules ''currency'' = Some (JStr c)"
  by (auto simp: product_rules_def bindR_Inr ensureR_Inr merged_rules_def)

lemma validated_product:
  assumes "validateProductInput input (Some t) = Inr x"
  obtains c supplied where "currency_code c" and "slug_text 99 (xi_id x)" and "product_rules (merged_rules t supplied c) = Inr (xi_rules x)"
proof -
  obtain c supplied rules i y where "requireString 3 3 currency_code (jfield input ''currency'') = Inr c"
      "product_rules (merged_rules t supplied c) = Inr rules" "requireString 3 100 (slug_text 99) (jfield input ''id'') = Inr i"
      "xi_id x = i" "xi_rules x = rules"
    using assms unfolding validateProductInput_def option.case ensureR_Inr bindR_Inr sum.inject by (elim exE conjE) (rule that, assumption+, (hypsubst, rule product_input.select_convs)+)
  then show thesis using that requireString_Inr by metis
qed

lemma letter_kinds: "\<not> is_upper CHR '':''" "\<not> slug_char CHR '':''" "slug_char c \<Longrightarrow> \<not> is_upper c"
  by (auto simp: slug_char_def is_lower_def is_digit_def is_upper_def)

lemma catalogue_accounts:
  assumes "catalogue_product p"
  shows "colon_free (rules_currency p)" and "own_accounts p"
proof -
  obtain input t x where v: "validateProductInput input (Some t) = Inr x" and p: "wp_id p = xi_id x" "wp_rules p = stored_json (JObj (xi_rules x))"
    using assms by (auto simp: catalogue_product_def validateProductInput_def split: option.splits)
  obtain c supplied where c: "currency_code c" and i: "slug_text 99 (xi_id x)"
    and r: "product_rules (merged_rules t supplied c) = Inr (xi_rules x)" using validated_product [OF v] by blast
  have cur: "rules_currency p = c"
    using stored_text [OF rules_keep_currency [OF r]] by (simp add: rules_currency_def p del: stored_json.simps)
  show "colon_free (rules_currency p)" using c letter_kinds(1) by (auto simp: cur currency_code_def colon_free_def list_all_iff)
  obtain a as where a: "xi_id x = a # as" "slug_char a" "list_all (\<lambda>b. slug_char b \<or> b = CHR ''-'') as"
    using i by (cases "xi_id x") (simp_all add: slug_text_def)
  have "CHR '':'' \<noteq> a" "CHR '':'' \<notin> set as" using a(2,3) letter_kinds(2) by (auto simp: list_all_iff)
  moreover have "c \<noteq> a # as" using c a(2) letter_kinds(3) by (auto simp: currency_code_def)
  ultimately show "own_accounts p" by (simp add: own_accounts_def cur p colon_free_def a(1))
qed

lemma catalogue_keeps: "durable_ok s \<Longrightarrow> catalogue_changes s t \<Longrightarrow> durable_ok t"
proof (erule durable_ok_change)
  assume ch: "catalogue_changes s t"
  show "(\<exists>q \<in> set (wf_products s). wp_rules p = wp_rules q) \<or> colon_free (rules_currency p)" if "p \<in> set (wf_products t)" for p
    using ch that catalogue_accounts(1) by (auto simp: catalogue_changes_def)
qed (simp_all add: catalogue_changes_def)

section \<open>The transition system\<close>

definition wf_empty :: wf_db where
  "wf_empty = \<lparr>wf_store = empty_db [] [], wf_institutions = [], wf_products = [], wf_roles = [], wf_evidence = [],
     wf_credentials = [], wf_commitments = [], wf_confirmations = []\<rparr>"

inductive wf_step :: "workflow \<Rightarrow> wf_db \<Rightarrow> wf_db \<Rightarrow> bool" for w :: workflow where
  wf_bootstraps: "reachable h plane \<Longrightarrow> bootstrapFromControlPlane w commit plane s = (r0, t) \<Longrightarrow> wf_step w s t"
  \<comment> \<open>from any state the control plane of the process can be in, under any host\<close>
| wf_settles: "settle w commit eventId type request s = (r1, t) \<Longrightarrow> wf_step w s t"
| wf_fails: "durable_simulateRegisterFailure w commit eventId request s = (r2, t) \<Longrightarrow> wf_step w s t"
| wf_proposes: "durable_proposeExceptionResolution w commit eventId caseId makerId decision replacement s = (r3, t) \<Longrightarrow> wf_step w s t"
| wf_approves: "durable_approveExceptionResolution w commit retryEventId eventId caseId checkerId decision s = (r4, t) \<Longrightarrow> wf_step w s t"
| wf_sets_status: "setProductStatus w commit eventId productId status actorRef reason s = (r5, t) \<Longrightarrow> wf_step w s t"
| wf_restricts: "restrictCredential w commit eventId credentialId actor cause s = (r6, t) \<Longrightarrow> wf_step w s t"
| wf_elsewhere: "catalogue_changes s t \<Longrightarrow> wf_step w s t"

lemma wf_step_ok:
  assumes ok: "durable_ok s" and stp: "wf_step w s t"
  shows "durable_ok t"
  using stp
proof cases
  case (wf_bootstraps h plane commit r0)
  show ?thesis by (rule keepsD [OF bootstrap_keeps [OF cp.always [OF wf_bootstraps(1)]] ok wf_bootstraps(2)])
next
  case wf_settles
  then show ?thesis unfolding settle_def by (rule settle_ok [OF ok])
next
  case wf_fails
  then show ?thesis unfolding durable_simulateRegisterFailure_def by (rule settle_ok [OF ok])
next
  case wf_proposes
  then show ?thesis by (rule keepsD [OF framed_keeps [OF durable_propose_frame] ok])
next
  case wf_approves
  then show ?thesis by (rule keepsD [OF durable_approve_keeps ok])
next
  case wf_sets_status
  then show ?thesis by (rule keepsD [OF status_keeps ok])
next
  case wf_restricts
  then show ?thesis by (rule keepsD [OF framed_keeps [OF restrict_frame] ok])
next
  case wf_elsewhere
  then show ?thesis by (rule catalogue_keeps [OF ok])
qed

interpretation durable_books: invariant_of "wf_step w" wf_empty durable_ok for w
proof
  show "durable_ok wf_empty"
    by (simp add: durable_ok_def wf_empty_def empty_db_def unit_entries_def register_entries_def ledger_balance_def balance_in_def)
qed (rule wf_step_ok)

end
