(* ===== verification/DurableReplay.thy ===== *)
theory DurableReplay
  imports DurableSteps
begin

text \<open>
  Two properties of single workflows: a settlement sent again answers what it answered, and a retry
  that is blocked leaves no trace outside the case and the transaction under review.
\<close>

section \<open>Which transactions the store knows, and their receipts\<close>

definition intent_ident :: "intent_row \<Rightarrow> string \<times> string \<times> string \<times> string" where
  "intent_ident r = (ti_id r, ti_tenant r, ti_key r, ti_hash r)"

definition known :: "db \<Rightarrow> (string \<times> string \<times> string \<times> string) list \<times> receipt_row list" where
  "known d = (map intent_ident (db_intents d), db_receipts d)"

definition wf_known :: "wf_db \<Rightarrow> (string \<times> string \<times> string \<times> string) list \<times> receipt_row list" where
  "wf_known s = known (wf_store s)"

lemma known_inWf:
  assumes "preserves known m"
  shows "preserves wf_known (inWf m)"
  by (rule preservesI) (auto simp: inWf_def wf_known_def split: prod.splits dest: preservesD [OF assms])

lemma moved_idents: "map intent_ident (update_where P (\<lambda>r. r\<lparr>ti_state := st, ti_version := ti_version r + 1\<rparr>) rows) = map intent_ident rows"
  by (simp add: update_where_def intent_ident_def)

lemma transition_known: "preserves known (transitionTransaction tx st rs ac)"
  unfolding transitionTransaction_def
  by (intro preserves_intros preserves_modifyE) (simp_all add: known_def moved_idents [unfolded update_where_def] update_where_def add_history_def intent_ident_def)

lemma batches_known: "preserves known (appendLedgerBatch b tx src es)" "preserves known (appendRegisterBatch b tx src es)"
  unfolding appendLedgerBatch_def appendRegisterBatch_def
  by (intro preserves_intros preserves_modifyE; simp add: known_def)+

lemma audit_known: "preserves known (recordAuditEvent sha e)"
  unfolding recordAuditEvent_def Let_def by (intro preserves_intros preserves_modifyE) (simp add: known_def)

lemma outbox_known: "preserves known (enqueueOutbox sha clock ev ten tpc agg pay av)"
  unfolding enqueueOutbox_def Let_def by (intro preserves_intros preserves_modifyE | simp add: known_def)+

lemma walk_known: "preserves wf_known (walk_states tx states)"
  by (induction states) (simp_all, (intro preserves_intros known_inWf transition_known | assumption)+)

lemma confirm_known: "preserves wf_known (confirm_cash tx product state reference mode)"
  unfolding confirm_cash_def by (intro preserves_intros preserves_modifyE) (simp add: wf_known_def)

lemma commitment_known: "preserves wf_known (add_commitment w tx pl)"
  unfolding add_commitment_def Let_def by (intro preserves_intros preserves_modifyE) (simp add: wf_known_def)

lemma announce_known: "preserves wf_known (wf_announce w eventId ev ty c metadata topic payload)"
  unfolding wf_announce_def by (intro preserves_intros known_inWf audit_known outbox_known)

lemma open_exception_case_known: "preserves wf_known (open_exception_case tx product)"
  unfolding open_exception_case_def by (intro preserves_intros known_inWf preserves_modifyE) (simp add: known_def)

lemmas knowns = walk_known confirm_known commitment_known announce_known open_exception_case_known
  known_inWf [OF transition_known] known_inWf [OF batches_known(1)] known_inWf [OF batches_known(2)]

definition receipted :: "wf_db \<Rightarrow> string \<Rightarrow> json \<Rightarrow> wf_db \<Rightarrow> bool" where
  \<comment> \<open>the store knows the same transactions and one more receipt\<close>
  "receipted s tx r t = (map intent_ident (db_intents (wf_store t)) = map intent_ident (db_intents (wf_store s))
     \<and> tx \<notin> rc_tx ` set (db_receipts (wf_store s))
     \<and> (\<exists>hash. db_receipts (wf_store t) = db_receipts (wf_store s) @ [\<lparr>rc_tx = tx, rc_receipt = r, rc_hash = hash\<rparr>]))"

text \<open>The two receipts have no undefined part, so what the store holds of them is all of them.\<close>

lemma receipts_stored: "stored_json (settled_receipt w tx type pl) = settled_receipt w tx type pl"
  "stored_json (review_receipt tx type pl) = review_receipt tx type pl"
  by (simp_all add: settled_receipt_def review_receipt_def)

lemma storeReceipt_receipted:
  assumes "inWf (storeReceipt sha tx r) s = (Inr x, t)" and "stored_json r = r"
  shows "receipted s tx r t"
  using assms by (auto simp: storeReceipt_def receipted_def eff_simps Let_def split: if_splits)

lemma receipted_frames:
  assumes "wf_known u = wf_known s" and "receipted u tx r v" and "wf_known t = wf_known v"
  shows "receipted s tx r t"
  using assms by (simp add: receipted_def wf_known_def known_def)

lemma finish_receipted:
  assumes run: "finish_settlement w eventId tx type pl s = (Inr r, t)"
  shows "receipted s tx r t"
proof -
  obtain x1 x2 x3 x4 u1 u2 u3 where
    s1: "confirm_cash tx (wp_id (pl_product pl)) ''CONFIRMED'' ''sandbox:'' ''SANDBOX_JOURNAL'' s = (Inr x1, u1)"
    and s2: "inWf (transitionTransaction tx ''SETTLED'' None (Some ''sandbox-workflow'')) u1 = (Inr x2, u2)"
    and s3: "inWf (storeReceipt (wk_sha w) tx (settled_receipt w tx type pl)) u2 = (Inr x3, u3)"
    and s4: "wf_known t = wf_known u3" and r: "r = settled_receipt w tx type pl"
    using run unfolding finish_settlement_def Let_def thenE_Inr bindE_Inr retE_iff
    by (elim exE conjE) (rule that, assumption+, (drule preservesD [OF announce_known], simp)+)
  have "wf_known u2 = wf_known s" using preservesD [OF confirm_known s1] preservesD [OF known_inWf [OF transition_known] s2] by simp
  then show ?thesis unfolding r by (rule receipted_frames [OF _ storeReceipt_receipted [OF s3 receipts_stored(1)] s4])
qed

lemma books_receipted:
  assumes run: "settle_books w eventId tx type pl s = (Inr r, t)"
  shows "receipted s tx r t"
proof -
  obtain x1 x2 x3 u1 u2 u3 where
    s1: "walk_states tx [''POLICY_CHECKED'', ''CASH_RESERVED'', ''REGISTER_PENDING''] s = (Inr x1, u1)"
    and s2: "inWf (appendLedgerBatch (''ledger:'' @ tx) (Some tx) ''TRANSACTION'' (te_ledger (pl_terms pl))) u1 = (Inr x2, u2)"
    and s3: "inWf (appendRegisterBatch (''register:'' @ tx) (Some tx) (unit_asset (wp_id (pl_product pl))) (te_register (pl_terms pl))) u2 = (Inr x3, u3)"
    and s4: "finish_settlement w eventId tx type pl u3 = (Inr r, t)"
    using run unfolding settle_books_def thenE_Inr by (elim exE conjE) (rule that)
  have "wf_known u3 = wf_known s"
    using preservesD [OF knowns(1) s1] preservesD [OF knowns(7) s2] preservesD [OF knowns(8) s3] by simp
  then show ?thesis by (rule receipted_frames [OF _ finish_receipted [OF s4] refl])
qed

lemma review_receipted:
  assumes run: "settle_review w eventId tx type pl s = (Inr r, t)"
  shows "receipted s tx r t"
proof -
  obtain x1 x2 x3 x4 x5 u1 u2 u3 u4 u5 where
    s1: "walk_states tx [''POLICY_CHECKED'', ''CASH_RESERVED''] s = (Inr x1, u1)"
    and s2: "confirm_cash tx (wp_id (pl_product pl)) ''RELEASED'' ''sandbox-released:'' ''SANDBOX_REGISTER_TIMEOUT'' u1 = (Inr x2, u2)"
    and s3: "inWf (transitionTransaction tx ''REQUIRES_REVIEW'' (Some ''REGISTER_TIMEOUT'') (Some ''sandbox-workflow'')) u2 = (Inr x3, u3)"
    and s4: "open_exception_case tx (wp_id (pl_product pl)) u3 = (Inr x4, u4)"
    and s5: "inWf (storeReceipt (wk_sha w) tx (review_receipt tx type pl)) u4 = (Inr x5, u5)"
    and s6: "wf_known t = wf_known u5" and r: "r = review_receipt tx type pl"
    using run unfolding settle_review_def Let_def thenE_Inr bindE_Inr retE_iff
    by (elim exE conjE) (rule that, assumption+, (drule preservesD [OF announce_known], simp)+)
  have "wf_known u4 = wf_known s"
    using preservesD [OF knowns(1) s1] preservesD [OF knowns(2) s2] preservesD [OF knowns(6) s3] preservesD [OF knowns(5) s4] by simp
  then show ?thesis unfolding r by (rule receipted_frames [OF _ storeReceipt_receipted [OF s5 receipts_stored(2)] s6])
qed

section \<open>A settlement sent again\<close>

lemma replay_rows_ident:
  "replay_rows s w request = map (\<lambda>t. (t, map_option rc_receipt (find (\<lambda>r. rc_tx r = ti_id t) (db_receipts (wf_store s)))))
     (filter (\<lambda>t. ti_tenant t = wk_tenant w \<and> sql_is (jfield request ''idempotencyKey'') (ti_key t)) (db_intents (wf_store s)))"
proof -
  have "concat (map (\<lambda>t. if P t then [f t] else []) rows) = map f (filter P rows)" for P and f :: "intent_row \<Rightarrow> intent_row \<times> json option" and rows
    by (induction rows) auto
  then show ?thesis by (simp add: replay_rows_def)
qed

lemma find_snoc: "find P (xs @ [x]) = (case find P xs of None \<Rightarrow> if P x then Some x else None | Some y \<Rightarrow> Some y)"
  by (induction xs) auto

definition replays :: "workflow \<Rightarrow> json \<Rightarrow> json \<Rightarrow> wf_db \<Rightarrow> bool" where
  \<comment> \<open>one transaction has the key of the request; its hash is the request's and its receipt is \<open>r\<close>\<close>
  "replays w request r s = (\<exists>i. replay_rows s w request = [(i, Some r)] \<and> ti_hash i = sha256Canonical (wk_sha w) request)"

lemma replays_run: "replays w request r s \<Longrightarrow> settleInTransaction w eventId type request b s = (Inr r, s)"
  by (auto simp: replays_def settleInTransaction_def eff_simps)

lemma filter_singleton_ident:
  assumes "map intent_ident rows = map intent_ident old @ [(tx, tenant, key, hash)]"
    and "\<And>r. r \<in> set old \<Longrightarrow> \<not> P (ti_tenant r) (ti_key r)" and "P tenant key"
  shows "\<exists>i. filter (\<lambda>r. P (ti_tenant r) (ti_key r)) rows = [i] \<and> ti_id i = tx \<and> ti_hash i = hash"
proof -
  have "map intent_ident (filter (\<lambda>r. P (ti_tenant r) (ti_key r)) rows)
      = filter (\<lambda>(x, t, k, h). P t k) (map intent_ident rows)"
    by (simp add: filter_map comp_def intent_ident_def)
  also have "\<dots> = [(tx, tenant, key, hash)]"
    using assms(2,3) by (simp add: assms(1) filter_map comp_def intent_ident_def filter_False)
  finally show ?thesis by (auto simp: map_eq_Cons_conv intent_ident_def)
qed

lemma created_replays:
  assumes run: "settle_created w eventId tx type pl b (True, i) s = (Inr r, t)"
    and idents: "map intent_ident (db_intents (wf_store s)) = map intent_ident old @ [(tx, wk_tenant w, key, sha256Canonical (wk_sha w) request)]"
    and fresh: "\<And>x. x \<in> set old \<Longrightarrow> \<not> (ti_tenant x = wk_tenant w \<and> ti_key x = key)"
    and key: "\<And>c. sql_is (jfield request ''idempotencyKey'') c \<longleftrightarrow> c = key"
  shows "replays w request r t"
proof -
  obtain x u where c: "add_commitment w tx pl s = (Inr x, u)"
    and rest: "(if b then settle_review w eventId tx type pl else settle_books w eventId tx type pl) u = (Inr r, t)"
    using run unfolding settle_created_def by (simp only: fst_conv not_True_eq_False if_False thenE_Inr) blast
  have "receipted u tx r t" using rest review_receipted books_receipted by (cases b) (simp_all only: if_True if_False)
  then have rec: "receipted s tx r t" by (rule receipted_frames [OF preservesD [OF commitment_known c] _ refl])
  have all: "map intent_ident (db_intents (wf_store t)) = map intent_ident old @ [(tx, wk_tenant w, key, sha256Canonical (wk_sha w) request)]"
    using rec idents by (simp add: receipted_def)
  obtain i where i: "filter (\<lambda>r. ti_tenant r = wk_tenant w \<and> ti_key r = key) (db_intents (wf_store t)) = [i]" "ti_id i = tx"
    "ti_hash i = sha256Canonical (wk_sha w) request"
    using filter_singleton_ident [OF all, of "\<lambda>x k. x = wk_tenant w \<and> k = key"] fresh by auto
  have "find (\<lambda>r. rc_tx r = tx) (db_receipts (wf_store s)) = None"
    using rec by (auto simp: receipted_def find_None_iff)
  then have "map_option rc_receipt (find (\<lambda>r. rc_tx r = tx) (db_receipts (wf_store t))) = Some r"
    using rec by (auto simp: receipted_def find_snoc)
  then show ?thesis using i by (simp add: replays_def replay_rows_ident key)
qed

definition keys_unique :: "wf_db \<Rightarrow> bool" where
  \<comment> \<open>the unique constraint of \<open>rwa.transaction_intents\<close>\<close>
  "keys_unique s = distinct (map (\<lambda>t. (ti_tenant t, ti_key t)) (db_intents (wf_store s)))"

lemma keyed_once:
  assumes "distinct (map (\<lambda>t. (ti_tenant t, ti_key t)) rows)" and "find (\<lambda>t. ti_tenant t = tenant \<and> ti_key t = key) rows = Some i"
  shows "filter (\<lambda>t. ti_tenant t = tenant \<and> ti_key t = key) rows = [i]"
  using assms by (induction rows) (auto split: if_splits simp: filter_empty_conv image_iff)

lemma settlement_replays:
  assumes unique: "keys_unique s" and run: "settleInTransaction w eventId type request b s = (Inr r, t)"
  shows "replays w request r t"
proof (cases "\<exists>i x. replay_rows s w request = [(i, x)]")
  case True
  then show ?thesis using run by (auto simp: settleInTransaction_def eff_simps replays_def)
next
  case False
  then have new: "settle_new w eventId type request b s = (Inr r, t)"
    using run by (auto simp: settleInTransaction_def eff_simps split: list.splits prod.splits)
  then obtain pl ct ix tx key answer u where k: "sql_key (jfield request ''idempotencyKey'') = Inr key"
    and made: "inWf (createTransactionIntent (wk_sha w) (settle_intent s w pl type request ct ix tx key)) s = (Inr answer, u)"
    and rest: "settle_created w eventId tx type pl b answer u = (Inr r, t)"
    unfolding settle_new_def withE_run bindE_Inr liftE_iff Let_def by (elim exE conjE) (hypsubst, rule that; assumption)
  have key: "sql_is (jfield request ''idempotencyKey'') c \<longleftrightarrow> c = key" for c
    using k by (auto simp: sql_key_def sql_is_def outcome_simps)
  have none: "find (\<lambda>t. ti_tenant t = wk_tenant w \<and> ti_key t = key) (db_intents (wf_store s)) = None"
  proof (rule ccontr)
    assume "\<not> ?thesis"
    then obtain i where "find (\<lambda>t. ti_tenant t = wk_tenant w \<and> ti_key t = key) (db_intents (wf_store s)) = Some i" by auto
    then show False using False keyed_once [OF unique [unfolded keys_unique_def]] by (simp add: replay_rows_ident key)
  qed
  then have answer: "fst answer" and idents: "map intent_ident (db_intents (wf_store u))
      = map intent_ident (db_intents (wf_store s)) @ [(tx, wk_tenant w, key, sha256Canonical (wk_sha w) request)]"
    using made by (auto simp: createTransactionIntent_def settle_intent_def Let_def eff_simps intent_ident_def new_intent_def
      add_parties_def add_history_def split: if_splits)
  obtain i where i: "answer = (True, i)" using answer by (cases answer) auto
  show ?thesis
    by (rule created_replays [OF rest [unfolded i] idents _ key]) (use none in \<open>auto simp: find_None_iff\<close>)
qed

lemma committed_first:
  "commit 1 = Inr () \<Longrightarrow> m s = (Inr x, t) \<Longrightarrow> withSerializableTransaction (Suc n) commit m s = (Inr x, t)"
  by (simp add: withSerializableTransaction_def attempt_once_def catchE_def)

section \<open>A retry that is blocked\<close>

definition spared :: "wf_db \<Rightarrow> (book \<times> book \<times> receipt_row list) \<times> wf_product list \<times> wf_evidence list \<times> wf_credential list
    \<times> commitment_row list \<times> confirmation_row list" where
  "spared s = ((db_ledger (wf_store s), db_register (wf_store s), db_receipts (wf_store s)), wf_products s, wf_evidence s,
     wf_credentials s, wf_commitments s, wf_confirmations s)"

definition stored :: "db \<Rightarrow> book \<times> book \<times> receipt_row list" where
  "stored d = (db_ledger d, db_register d, db_receipts d)"

lemma spared_inWf:
  assumes "preserves stored m"
  shows "preserves spared (inWf m)"
  by (rule preservesI) (auto simp: inWf_def spared_def stored_def split: prod.splits dest: preservesD [OF assms [unfolded stored_def]])

lemma transition_stored: "preserves stored (transitionTransaction tx st rs ac)"
  unfolding transitionTransaction_def
  by (intro preserves_intros preserves_modifyE) (simp_all add: stored_def add_history_def)

lemma case_stored: "preserves stored (returnExceptionForReview x)" "preserves stored (store_approveExceptionResolution x ck dec sig)"
  unfolding returnExceptionForReview_def store_approveExceptionResolution_def Let_def
  by (intro preserves_intros preserves_modifyE; simp add: stored_def)+

lemma audit_stored: "preserves stored (recordAuditEvent sha e)"
  unfolding recordAuditEvent_def Let_def by (intro preserves_intros preserves_modifyE) (simp add: stored_def)

lemma outbox_stored: "preserves stored (enqueueOutbox sha clock ev ten tpc agg pay av)"
  unfolding enqueueOutbox_def Let_def by (intro preserves_intros preserves_modifyE | simp add: stored_def)+

lemma announce_spared: "preserves spared (wf_announce w eventId ev ty c metadata topic payload)"
  unfolding wf_announce_def by (intro preserves_intros spared_inWf audit_stored outbox_stored)

definition tracked :: "wf_db \<Rightarrow> intent_row list \<times> exception_record list" where
  "tracked s = (db_intents (wf_store s), db_exceptions (wf_store s))"

lemma announce_tracked: "preserves tracked (wf_announce w eventId ev ty c metadata topic payload)"
proof -
  have lift: "preserves (\<lambda>d. (db_intents d, db_exceptions d)) m \<Longrightarrow> preserves tracked (inWf m)" for m :: "(db, string) eff"
    by (rule preservesI) (auto simp: inWf_def tracked_def split: prod.splits dest: preservesD)
  have "preserves (\<lambda>d. (db_intents d, db_exceptions d)) (recordAuditEvent sha e)" for sha e
    unfolding recordAuditEvent_def Let_def by (intro preserves_intros preserves_modifyE) simp
  moreover have "preserves (\<lambda>d. (db_intents d, db_exceptions d)) (enqueueOutbox sha clock ev ten tpc agg pay av)" for sha clock ev ten tpc agg pay av
    unfolding enqueueOutbox_def Let_def by (intro preserves_intros preserves_modifyE | simp)+
  ultimately show ?thesis unfolding wf_announce_def by (intro preserves_intros lift)
qed

definition back_in_review :: "string \<Rightarrow> exception_record \<Rightarrow> wf_db \<Rightarrow> wf_db \<Rightarrow> bool" where
  \<comment> \<open>only the transaction and the case under review changed, and both wait for review again\<close>
  "back_in_review caseId x s t = (spared t = spared s
     \<and> db_intents (wf_store t) = update_where (\<lambda>r. ti_id r = xc_tx x)
         (\<lambda>r. r\<lparr>ti_state := ''REQUIRES_REVIEW'', ti_version := ti_version r + 1\<rparr>) (db_intents (wf_store s))
     \<and> db_exceptions (wf_store t) = update_where (\<lambda>r. xc_id r = caseId \<and> xc_status r = ''PENDING_APPROVAL'')
         (\<lambda>_. x\<lparr>xc_status := ''OPEN'', xc_version := xc_version x + 1\<rparr>) (db_exceptions (wf_store s)))"

lemma transition_tracked:
  assumes "inWf (transitionTransaction tx st rs ac) s = (Inr u, t)"
  shows "tracked t = (update_where (\<lambda>r. ti_id r = tx) (\<lambda>r. r\<lparr>ti_state := st, ti_version := ti_version r + 1\<rparr>) (db_intents (wf_store s)),
    db_exceptions (wf_store s))"
  using assms by (auto simp: transitionTransaction_def eff_simps tracked_def add_history_def)

lemma return_tracked:
  assumes "inWf (returnExceptionForReview caseId) s = (Inr u, t)"
    and "find (\<lambda>r. xc_id r = caseId \<and> xc_status r = ''PENDING_APPROVAL'') (db_exceptions (wf_store s)) = Some x"
  shows "tracked t = (db_intents (wf_store s), update_where (\<lambda>r. xc_id r = caseId \<and> xc_status r = ''PENDING_APPROVAL'')
      (\<lambda>_. x\<lparr>xc_status := ''OPEN'', xc_version := xc_version x + 1\<rparr>) (db_exceptions (wf_store s)))"
  using assms by (auto simp: returnExceptionForReview_def eff_simps tracked_def Let_def)

lemma reopened:
  assumes run: "reopen_case w eventId ac reason recorded s = (Inr u, t)"
    and x: "find (\<lambda>r. xc_id r = ac_case ac \<and> xc_status r = ''PENDING_APPROVAL'') (db_exceptions (wf_store s)) = Some x"
    and tx: "ao_exception (ac_outcome ac) = x"
  shows "back_in_review (ac_case ac) x s t"
proof -
  obtain x1 x2 u1 u2 where
    s1: "inWf (transitionTransaction (xc_tx x) ''REQUIRES_REVIEW'' reason (Some (ac_checker ac))) s = (Inr x1, u1)"
    and s2: "inWf (returnExceptionForReview (ac_case ac)) u1 = (Inr x2, u2)"
    and s3: "spared t = spared u2" "tracked t = tracked u2"
    using run unfolding reopen_case_def thenE_Inr tx recordExceptionDecision_def Let_def
    by (elim exE conjE) (rule that, assumption+, (drule preservesD [OF announce_spared] preservesD [OF announce_tracked], assumption)+)
  have "spared t = spared s"
    using s3(1) preservesD [OF spared_inWf [OF transition_stored] s1] preservesD [OF spared_inWf [OF case_stored(1)] s2] by simp
  moreover have u1: "db_exceptions (wf_store u1) = db_exceptions (wf_store s)" "db_intents (wf_store u1) = update_where (\<lambda>r. ti_id r = xc_tx x)
         (\<lambda>r. r\<lparr>ti_state := ''REQUIRES_REVIEW'', ti_version := ti_version r + 1\<rparr>) (db_intents (wf_store s))"
    using transition_tracked [OF s1] by (simp_all add: tracked_def)
  moreover have "tracked u2 = (db_intents (wf_store u1), update_where (\<lambda>r. xc_id r = ac_case ac \<and> xc_status r = ''PENDING_APPROVAL'')
      (\<lambda>_. x\<lparr>xc_status := ''OPEN'', xc_version := xc_version x + 1\<rparr>) (db_exceptions (wf_store u1)))"
    by (rule return_tracked [OF s2]) (simp add: u1(1) x)
  ultimately show ?thesis using s3(2) by (simp add: back_in_review_def tracked_def)
qed

lemma attempt_failed:
  assumes "try_settlement w eventId type request s = (Inr (Inl e), t)"
  shows "t = s"
proof -
  obtain u where "attempt_once (Inr ()) (settleInTransaction w eventId type request False) s = (Inl e, u)" and "t = u"
    using assms unfolding try_settlement_def by (auto simp: eff_simps)
  then show ?thesis by (auto dest: attempt_once_result)
qed

lemma blocked_in_review:
  assumes run: "decide_case w retryEventId eventId decision ac s = (Inr (Retry_blocked code), t)"
    and x: "find (\<lambda>r. xc_id r = ac_case ac \<and> xc_status r = ''PENDING_APPROVAL'') (db_exceptions (wf_store s)) = Some x"
    and tx: "ao_exception (ac_outcome ac) = x"
  shows "back_in_review (ac_case ac) x s t"
proof -
  have "retry_original w retryEventId eventId ac s = (Inr (Retry_blocked code), t)"
    using run unfolding decide_case_def by (simp add: eff_simps split: if_splits)
  then obtain row request where retry: "retry_case w retryEventId eventId ac row request s = (Inr (Retry_blocked code), t)"
    unfolding retry_original_def withE_run bindE_Inr optE_Inr liftE_iff by blast
  then obtain outcome u where tried: "try_settlement w retryEventId (ti_type row) (replacement_request (ac_case ac) (ao_replacement (ac_outcome ac)) request) s = (Inr outcome, u)"
    and rest: "(case outcome of Inl e \<Rightarrow> thenE (reopen_case w eventId ac (Some (error_reason e)) (error_reason e)) (retE (Retry_blocked (error_reason e)))
        | Inr receipt \<Rightarrow> thenE (close_case w eventId ac ''REPLACED'' ''RESOLVED_RETRIED'' (ao_replacement (ac_outcome ac)))
            (retE (Resolved_retried (ao_maker (ac_outcome ac)) receipt))) u = (Inr (Retry_blocked code), t)"
    unfolding retry_case_def Let_def bindE_Inr by (elim exE conjE) (rule that)
  then obtain e v where e: "outcome = Inl e" and again: "reopen_case w eventId ac (Some (error_reason e)) (error_reason e) u = (Inr v, t)"
    by (cases outcome) (auto simp: eff_simps)
  have "u = s" by (rule attempt_failed [OF tried [unfolded e]])
  then show ?thesis using reopened [OF again _ tx] x by simp
qed

lemma approve_blocked:
  assumes run: "durable_approveExceptionResolution w commit retryEventId eventId caseId checkerId decision s = (Inr (Retry_blocked code), t)"
  shows "\<exists>x. find (\<lambda>r. xc_id r = caseId) (db_exceptions (wf_store s)) = Some x \<and> back_in_review caseId x s t"
proof -
  obtain a u where app: "store_approveExceptionResolution caseId checkerId decision None (wf_store s) = (Inr a, u)"
    and rest: "decide_case w retryEventId eventId decision \<lparr>ac_case = caseId, ac_checker = checkerId, ac_outcome = a\<rparr> (s\<lparr>wf_store := u\<rparr>)
      = (Inr (Retry_blocked code), t)"
    using run unfolding durable_approveExceptionResolution_def withSerializableTransaction_def
    by (auto dest!: serializable_from_result simp: bindE_Inr inWf_Inr)
  have x: "find (\<lambda>r. xc_id r = caseId) (db_exceptions (wf_store s)) = Some (ao_exception a)" "xc_status (ao_exception a) = ''PENDING_APPROVAL''"
    and u: "db_exceptions u = db_exceptions (wf_store s)" "db_intents u = db_intents (wf_store s)" "stored u = stored (wf_store s)"
    using app by (auto simp: store_approveExceptionResolution_def eff_simps stored_def split: option.splits list.splits)
  have f: "find (\<lambda>r. xc_id r = caseId \<and> xc_status r = ''PENDING_APPROVAL'') rows = Some y"
    if "find (\<lambda>r. xc_id r = caseId) rows = Some y" and "xc_status y = ''PENDING_APPROVAL''" for rows y
    using that by (induction rows) (auto split: if_splits)
  have "find (\<lambda>r. xc_id r = caseId \<and> xc_status r = ''PENDING_APPROVAL'') (db_exceptions u) = Some (ao_exception a)"
    unfolding u(1) by (rule f [OF x])
  then have "back_in_review (ac_case \<lparr>ac_case = caseId, ac_checker = checkerId, ac_outcome = a\<rparr>) (ao_exception a) (s\<lparr>wf_store := u\<rparr>) t"
    by (intro blocked_in_review [OF rest]) simp_all
  then have "back_in_review caseId (ao_exception a) s t"
    using u by (simp add: back_in_review_def spared_def stored_def)
  then show ?thesis using x by blast
qed

end
