(* ===== verification/DurableProperties.thy ===== *)
theory DurableProperties
  imports DurableReplay ZkRun CpDemo
begin

text \<open>The properties of the durable workflows, applied to the run below.\<close>

text \<open>
  A run of the durable workflows: the tables are filled from a control plane with one product and one
  investor, who then subscribes.
\<close>

definition run_committer :: committer where
  "run_committer = \<lparr>em_version = ''1'', em_keyId = ''k'', em_commit = (\<lambda>q. Inr ''c'')\<rparr>"

definition run_workflow :: workflow where
  "run_workflow = \<lparr>wk_tenant = ''T'', wk_now = 5, wk_iso = (\<lambda>_. ''now''),
     wk_date = (\<lambda>v. if v = JStr ''past'' then Some 0 else if v = JStr ''future'' then Some 9 else None),
     wk_encrypt = (\<lambda>_ _. Inr ''x''), wk_decrypt = (\<lambda>_ _. Inl (Coded ''NO_KEY'')), wk_committer = Some run_committer, wk_sha = run_sha\<rparr>"

definition run_request :: json where
  "run_request = JObj [(''id'', JStr ''t1''), (''idempotencyKey'', JStr ''k1''), (''productId'', JStr ''p''), (''investorId'', JStr ''a''),
     (''credentialId'', JStr ''ca''), (''units'', JStr ''3''), (''cashAmount'', JStr ''30'')]"

definition run_entry :: "string \<Rightarrow> string \<Rightarrow> string \<Rightarrow> int \<Rightarrow> entry_row" where
  "run_entry batch account asset delta = \<lparr>en_batch = batch, en_account = account, en_asset = asset, en_delta = delta\<rparr>"

lemma run_facts:
  "iso_currency ''HKD''" "cash_key_parts ''a:HKD'' = (''a'', ''HKD'')" "to_bigint (JStr ''50'') = Inr 50" "to_bigint (JStr ''10'') = Inr 10"
  "to_bigint (JStr ''3'') = Inr 3" "to_bigint (JStr ''30'') = Inr 30"
  by code_simp+

definition run_product_row :: wf_product where
  "run_product_row = \<lparr>wp_id = ''p'', wp_issuer = ''i'', wp_currency = ''HKD'', wp_status = ''ACTIVE'', wp_ruleVersion = 1,
     wp_rules = demo_rules, wp_version = 0\<rparr>"

definition booted_credential :: "string \<Rightarrow> string \<Rightarrow> wf_credential" where
  "booted_credential cid who = \<lparr>wc_id = cid, wc_product = ''p'', wc_subject = who, wc_class = ''PI'', wc_jurisdiction = ''HK'', wc_maxUnits = 50,
     wc_from = 0, wc_until = 9, wc_status = ''ACTIVE'', wc_reason = None\<rparr>"

definition run_tables :: wf_db where
  \<comment> \<open>the tables before the accounts are opened\<close>
  "run_tables = \<lparr>wf_store = empty_db [] [], wf_institutions = [(''i'', ''pem'')], wf_products = [run_product_row],
     wf_roles = map (Pair ''p'') demo_roles,
     wf_evidence = [\<lparr>we_id = ''n'', we_product = ''p'', we_type = ''nav'', we_status = ''ACTIVE'', we_effectiveAt = 0, we_expiresAt = 9,
       we_payload = ev_payload demo_nav\<rparr>],
     wf_credentials = [booted_credential ''ca'' ''a'', booted_credential ''cb'' ''b''],
     wf_commitments = [], wf_confirmations = []\<rparr>"

definition run_opened :: db where
  "run_opened = empty_db [''ledger:p:i:HKD:ISSUER'', ''ledger:p:i:UNIT:p:INVESTOR'', ''ledger:p:EXTERNAL_CASH:HKD:CASH_CLEARING'',
      ''ledger:p:TREASURY:UNIT:p:TREASURY'', ''ledger:p:a:HKD:INVESTOR'', ''ledger:p:a:UNIT:p:INVESTOR'',
      ''ledger:p:b:HKD:INVESTOR'', ''ledger:p:b:UNIT:p:INVESTOR'', ''ledger:p:i:HKD:FEE'']
    [''register:p:i:UNIT:p:INVESTOR'', ''register:p:TREASURY:UNIT:p:TREASURY'', ''register:p:a:UNIT:p:INVESTOR'', ''register:p:b:UNIT:p:INVESTOR'']"

definition run_booted :: db where
  "run_booted = run_opened\<lparr>db_ledger := \<lparr>bk_accounts = bk_accounts (db_ledger run_opened),
     bk_batches = [\<lparr>bt_id = ''opening:p:a:HKD'', bt_tx = None, bt_source = ''OPENING'', bt_status = ''POSTED'', bt_count = 2\<rparr>],
     bk_entries = [run_entry ''opening:p:a:HKD'' ''ledger:p:a:HKD:INVESTOR'' ''HKD'' 100,
       run_entry ''opening:p:a:HKD'' ''ledger:p:EXTERNAL_CASH:HKD:CASH_CLEARING'' ''HKD'' (- 100)]\<rparr>\<rparr>"

lemma demo7_fields:
  "institutions demo7 = [(''i'', \<lparr>inst_id = ''i'', inst_roles = REQUIRED_PRODUCT_ROLES, inst_publicKeyPem = ''pem''\<rparr>)]"
  "products demo7 = [(''p'', demo_product ''ACTIVE'')]" "cashBalances demo7 = [(''a:HKD'', 100)]"
  "credentials demo7 = [(''ca'', demo_credential ''ca'' ''a''), (''cb'', demo_credential ''cb'' ''b'')]" "credentialRestrictions demo7 = []"
  "evidences demo7 = [(''n'', demo_nav\<lparr>ev_status := ''ACTIVE''\<rparr>)]"
  by (simp_all add: demo1_def demo2_def demo3_def demo4_def demo5_def demo6_def demo7_def new_plane_def)

lemma run_rules: "stored_json demo_rules = demo_rules" "text_field demo_rules ''currency'' = ''HKD''" "stored_json (ev_payload demo_nav) = ev_payload demo_nav"
  by (simp_all add: demo_rules_def demo_nav_def text_field_def jfield_def)

lemmas run_boot_defs = eff_defs insert_unless_def column_time_def run_workflow_def wf_empty_def run_tables_def

lemma run_boots_institutions:
  "eachE boot_institution (jm_values (institutions demo7)) wf_empty = (Inr (), wf_empty\<lparr>wf_institutions := wf_institutions run_tables\<rparr>)"
  by (simp add: demo7_fields run_boot_defs boot_institution_def)

lemma run_boots_rows:
  "eachE boot_product (jm_values (products demo7)) (wf_empty\<lparr>wf_institutions := wf_institutions run_tables\<rparr>)
    = (Inr (), run_tables\<lparr>wf_evidence := [], wf_credentials := []\<rparr>)"
  by (simp add: demo7_fields run_boot_defs boot_product_def product_row_def boot_role_def run_product_row_def run_rules run_facts
    demo_product_def demo_roles_def)

lemma run_boots_evidence:
  "eachE (boot_evidence run_workflow) (jm_values (evidences demo7)) (run_tables\<lparr>wf_evidence := [], wf_credentials := []\<rparr>)
    = (Inr (), run_tables\<lparr>wf_credentials := []\<rparr>)"
  by (simp add: demo7_fields run_boot_defs boot_evidence_def demo_nav_def)

lemma run_boots_credential:
  "eachE (boot_credential run_workflow demo7) (jm_values (credentials demo7)) (run_tables\<lparr>wf_credentials := []\<rparr>) = (Inr (), run_tables)"
  by (simp add: demo7_fields run_boot_defs boot_credential_def Let_def demo_credential_def booted_credential_def run_facts del: to_bigint.simps)

lemma run_ensures:
  "ensureLedgerAccount p ow a k (run_tables\<lparr>wf_store := empty_db la ra\<rparr>)
     = (Inr (), run_tables\<lparr>wf_store := empty_db (if ledgerAccountId p ow a k \<in> set la then la else la @ [ledgerAccountId p ow a k]) ra\<rparr>)"
  "ensureRegisterAccount p ow a k (run_tables\<lparr>wf_store := empty_db la ra\<rparr>)
     = (Inr (), run_tables\<lparr>wf_store := empty_db la (if registerAccountId p ow a k \<in> set ra then ra else ra @ [registerAccountId p ow a k])\<rparr>)"
  by (simp_all add: ensureLedgerAccount_def ensureRegisterAccount_def open_account_def inWf_def modifyE_def empty_db_def run_tables_def)

lemma run_owners: "account_owners demo7 (demo_product ''ACTIVE'') = [''i'', ''EXTERNAL_CASH'', ''TREASURY'', ''a'', ''b'']"
  "wp_currency (product_row (demo_product ''ACTIVE'')) = ''HKD''" "prod_id (demo_product ''ACTIVE'') = ''p''" "prod_issuerId (demo_product ''ACTIVE'') = ''i''"
  by (simp_all add: account_owners_def demo7_fields demo_credential_def product_row_def demo_product_def run_rules)

lemma run_boots_accounts:
  "eachE (boot_accounts demo7) (jm_values (products demo7)) run_tables = (Inr (), run_tables\<lparr>wf_store := run_opened\<rparr>)"
proof -
  have p: "jm_values (products demo7) = [demo_product ''ACTIVE'']" by (simp add: demo7_fields)
  have t: "run_tables = run_tables\<lparr>wf_store := empty_db [] []\<rparr>" by (simp add: run_tables_def)
  show ?thesis unfolding p
    by (subst t) (simp add: boot_accounts_def run_owners boot_owner_def thenE_def bindE_def retE_def run_ensures
      ledgerAccountId_def registerAccountId_def account_suffix_def unit_asset_def run_opened_def Let_def)
qed

lemma run_boots_cash:
  "eachE (boot_cash demo7) (cashBalances demo7) (run_tables\<lparr>wf_store := run_opened\<rparr>) = (Inr (), run_tables\<lparr>wf_store := run_booted\<rparr>)"
  by (simp add: demo7_fields run_facts eff_defs boot_cash_def inWf_def ledgerAccountId_def account_suffix_def demo_product_def run_rules
    demo_credential_def demo_rules_def jfield_def
    empty_db_def opening_entries_def movement_def appendLedgerBatch_def assertBalancedEntries_def run_opened_def
    outcome_simps ensureR_def bindR_def accounts_exist_def post_batch_def entry_of_def update_where_def run_booted_def run_entry_def Let_def jm_get0_def)

lemma run_boots: "bootstrapFromControlPlane run_workflow run_ok demo7 wf_empty = (Inr (), run_tables\<lparr>wf_store := run_booted\<rparr>)"
  unfolding bootstrapFromControlPlane_def run_serializable thenE_Inr
  using run_boots_institutions run_boots_rows run_boots_evidence run_boots_credential run_boots_accounts run_boots_cash by blast

section \<open>The subscription\<close>

definition run_s :: wf_db where
  "run_s = run_tables\<lparr>wf_store := run_booted\<rparr>"

definition run_terms :: terms where
  "run_terms = \<lparr>te_cash = 30, te_fee = 0, te_mode = ''STANDARD'',
     te_ledger = [movement ''ledger:p:a:HKD:INVESTOR'' ''HKD'' (- 30), movement ''ledger:p:i:HKD:ISSUER'' ''HKD'' 30,
       movement ''ledger:p:TREASURY:UNIT:p:TREASURY'' ''UNIT:p'' (- 3), movement ''ledger:p:a:UNIT:p:INVESTOR'' ''UNIT:p'' 3],
     te_register = [movement ''register:p:TREASURY:UNIT:p:TREASURY'' ''UNIT:p'' (- 3), movement ''register:p:a:UNIT:p:INVESTOR'' ''UNIT:p'' 3]\<rparr>"

definition run_pl :: settle_plan where
  "run_pl = \<lparr>pl_product = run_product_row, pl_nav = hd (wf_evidence run_tables), pl_units = 3, pl_terms = run_terms\<rparr>"

lemma run_product: "current_product run_s (JStr ''p'') = Inr run_product_row"
  by (simp add: current_product_def sql_is_def js_to_string.simps run_s_def run_tables_def run_product_row_def)

lemma run_navs: "current_nav run_s run_product_row 5 = Inr (hd (wf_evidence run_tables))"
  by (simp add: current_nav_def run_s_def run_tables_def run_product_row_def ensureR_def demo_nav_def jfield_def)

lemma run_fields: "jfield run_request ''investorId'' = JStr ''a''" "jfield run_request ''credentialId'' = JStr ''ca''"
  "jfield run_request ''units'' = JStr ''3''" "jfield run_request ''cashAmount'' = JStr ''30''" "jfield run_request ''productId'' = JStr ''p''"
  "jfield run_request ''id'' = JStr ''t1''" "jfield run_request ''idempotencyKey'' = JStr ''k1''" "text_field run_request ''investorId'' = ''a''"
  by (simp_all add: run_request_def jfield_def text_field_def js_to_string.simps)

lemma run_credential_ok: "assertCredential run_s run_workflow run_product_row (JStr ''a'') (JStr ''ca'') 3 False = Inr ''ACTIVE''"
  by (simp add: assertCredential_def run_s_def run_tables_def booted_credential_def run_product_row_def sql_is_def js_to_string.simps run_workflow_def outcome_simps
    demo_rules_def jfield_def includes_text_def nativeR_def ensureR_def balance_in_def run_booted_def run_opened_def empty_db_def)

lemma run_plans: "plan_settlement run_s run_workflow ''SUBSCRIBE'' run_request = Inr run_pl"
proof -
  have c: "rules_currency run_product_row = ''HKD''" "wp_id run_product_row = ''p''" "wp_issuer run_product_row = ''i''"
    by (simp_all add: rules_currency_def run_product_row_def demo_rules_def text_field_def jfield_def js_to_string.simps)
  have b: "ledger_balance run_s ''ledger:p:a:HKD:INVESTOR'' = 100"
    by (simp add: ledger_balance_def run_s_def run_booted_def balance_in_def run_entry_def)
  have n: "jfield (we_payload (hd (wf_evidence run_tables))) ''navPerUnit'' = JStr ''10''"
    by (simp add: run_tables_def demo_nav_def jfield_def)
  have p: "positive (JStr ''3'') = Inr 3" "positive (JStr ''30'') = Inr 30"
    by (simp_all only: positive_def run_facts) (simp_all add: bindR_def ensureR_def)
  have "subscribe_terms run_s run_workflow run_product_row 10 3 run_request = Inr run_terms"
    unfolding subscribe_terms_def run_fields run_credential_ok p
    by (simp add: bindR_def ensureR_def c b Let_def ledgerAccountId_def registerAccountId_def account_suffix_def unit_asset_def units_move_def
      run_terms_def)
  then show ?thesis
    unfolding plan_settlement_def run_fields run_product p n run_facts
    by (simp add: bindR_def run_navs run_workflow_def settle_terms_def run_pl_def p n run_facts del: to_bigint.simps)
qed

definition run_row :: intent_row where
  "run_row = new_intent run_sha (settle_intent run_s run_workflow run_pl ''SUBSCRIBE'' run_request ''x'' (Some (''k'', [''c''])) ''t1'' ''k1'')"

definition run_before :: "wf_db \<Rightarrow> bool" where
  \<comment> \<open>the tables the rest of the settlement depends on\<close>
  "run_before s = (wf_roles s = wf_roles run_tables \<and> wf_commitments s = [] \<and> wf_confirmations s = []
     \<and> db_intents (wf_store s) = [run_row] \<and> db_receipts (wf_store s) = [] \<and> db_audit (wf_store s) = [] \<and> db_outbox (wf_store s) = []
     \<and> db_ledger (wf_store s) = db_ledger run_booted \<and> db_register (wf_store s) = db_register run_opened)"

lemma run_key_ok: "sql_key (JStr x) = Inr x"
  by (simp add: sql_key_def ensureR_def js_to_string.simps)

lemma run_index: "partyIndexFor (Some run_committer) ''T'' ''p'' run_request = Inr (Some (''k'', [''c'']))"
  by (simp add: partyIndexFor_def run_request_def party_refs_def partyIndexMac_def run_committer_def PARTY_REF_FIELDS_def
    jfield_def bindR_def)

lemma run_creates:
  "\<exists>t. inWf (createTransactionIntent run_sha (settle_intent run_s run_workflow run_pl ''SUBSCRIBE'' run_request ''x'' (Some (''k'', [''c''])) ''t1'' ''k1''))
     run_s = (Inr (True, run_row), t) \<and> run_before t"
  by (simp add: inWf_def createTransactionIntent_def eff_defs settle_intent_def Let_def run_row_def run_before_def run_s_def
    run_booted_def run_opened_def empty_db_def add_parties_def add_history_def run_tables_def)

definition run_committed :: "wf_db \<Rightarrow> bool" where
  "run_committed s = (\<exists>u c. run_before u \<and> s = u\<lparr>wf_commitments := c\<rparr>)"

lemma run_commits:
  assumes "run_before s"
  shows "\<exists>t. add_commitment run_workflow ''t1'' run_pl s = (Inr (), t) \<and> run_committed t"
  using assms by (auto simp: add_commitment_def run_workflow_def eff_defs commitment_def run_committer_def run_before_def run_committed_def Let_def)

definition run_receipt_json :: json where
  "run_receipt_json = settled_receipt run_workflow ''t1'' ''SUBSCRIBE'' run_pl"

definition run_walked :: "wf_db \<Rightarrow> bool" where
  "run_walked s = (wf_roles s = wf_roles run_tables \<and> wf_confirmations s = []
     \<and> (\<exists>n. db_intents (wf_store s) = [run_row\<lparr>ti_state := ''REGISTER_PENDING'', ti_version := n\<rparr>])
     \<and> db_receipts (wf_store s) = [] \<and> db_audit (wf_store s) = [] \<and> db_outbox (wf_store s) = []
     \<and> db_ledger (wf_store s) = db_ledger run_booted \<and> db_register (wf_store s) = db_register run_opened)"

lemma run_allowed:
  "assertTransition ''REQUESTED'' ''POLICY_CHECKED'' = Inr ()" "assertTransition ''POLICY_CHECKED'' ''CASH_RESERVED'' = Inr ()"
  "assertTransition ''CASH_RESERVED'' ''REGISTER_PENDING'' = Inr ()" "assertTransition ''REGISTER_PENDING'' ''SETTLED'' = Inr ()"
  by (simp_all add: assertTransition_def transition_allowed_def TRANSITIONS_def ensureR_def)

lemma run_row_fields: "ti_id run_row = ''t1''" "ti_state run_row = ''REQUESTED''"
  by (simp_all add: run_row_def new_intent_def settle_intent_def Let_def)

lemma run_walks:
  assumes "run_committed s"
  shows "\<exists>t. walk_states ''t1'' [''POLICY_CHECKED'', ''CASH_RESERVED'', ''REGISTER_PENDING''] s = (Inr (), t) \<and> run_walked t"
  using assms
  by (auto simp: run_committed_def run_before_def run_walked_def transitionTransaction_def eff_defs inWf_def run_row_fields run_allowed
    update_where_def add_history_def)

definition run_posted :: "wf_db \<Rightarrow> bool" where
  "run_posted s = (wf_roles s = wf_roles run_tables \<and> wf_confirmations s = []
     \<and> (\<exists>n. db_intents (wf_store s) = [run_row\<lparr>ti_state := ''REGISTER_PENDING'', ti_version := n\<rparr>])
     \<and> db_receipts (wf_store s) = [] \<and> db_audit (wf_store s) = [] \<and> db_outbox (wf_store s) = []
     \<and> bk_entries (db_register (wf_store s)) = [run_entry ''register:t1'' ''register:p:TREASURY:UNIT:p:TREASURY'' ''UNIT:p'' (- 3),
         run_entry ''register:t1'' ''register:p:a:UNIT:p:INVESTOR'' ''UNIT:p'' 3])"

lemma run_posts:
  assumes "run_walked s"
  shows "\<exists>t. thenE (inWf (appendLedgerBatch ''ledger:t1'' (Some ''t1'') ''TRANSACTION'' (te_ledger run_terms)))
      (inWf (appendRegisterBatch ''register:t1'' (Some ''t1'') ''UNIT:p'' (te_register run_terms))) s = (Inr (), t) \<and> run_posted t"
  using assms
  by (auto simp: run_walked_def run_posted_def appendLedgerBatch_def appendRegisterBatch_def eff_defs inWf_def assertBalancedEntries_def
    outcome_simps ensureR_def bindR_def run_terms_def movement_def jm_get0_def accounts_exist_def run_booted_def run_opened_def empty_db_def
    post_batch_def entry_of_def run_entry_def Let_def)

lemma run_finishes:
  assumes "run_posted s"
  shows "\<exists>t. finish_settlement run_workflow ''e'' ''t1'' ''SUBSCRIBE'' run_pl s = (Inr run_receipt_json, t)
    \<and> db_register (wf_store t) = db_register (wf_store s)"
  using assms
  by (auto simp: run_posted_def finish_settlement_def confirm_cash_def eff_defs inWf_def run_tables_def demo_roles_def assigned_def run_pl_def run_product_row_def
    transitionTransaction_def run_row_fields run_allowed add_history_def storeReceipt_def Let_def wf_announce_def recordAuditEvent_def
    enqueueOutbox_def run_receipt_json_def)

lemma run_books:
  assumes "run_committed s"
  shows "\<exists>t. settle_books run_workflow ''e'' ''t1'' ''SUBSCRIBE'' run_pl s = (Inr run_receipt_json, t)
    \<and> bk_entries (db_register (wf_store t)) = [run_entry ''register:t1'' ''register:p:TREASURY:UNIT:p:TREASURY'' ''UNIT:p'' (- 3),
         run_entry ''register:t1'' ''register:p:a:UNIT:p:INVESTOR'' ''UNIT:p'' 3]"
proof -
  obtain u1 where u1: "walk_states ''t1'' [''POLICY_CHECKED'', ''CASH_RESERVED'', ''REGISTER_PENDING''] s = (Inr (), u1)" "run_walked u1"
    using run_walks [OF assms] by blast
  obtain u2 where u2: "thenE (inWf (appendLedgerBatch ''ledger:t1'' (Some ''t1'') ''TRANSACTION'' (te_ledger run_terms)))
      (inWf (appendRegisterBatch ''register:t1'' (Some ''t1'') ''UNIT:p'' (te_register run_terms))) u1 = (Inr (), u2)" "run_posted u2"
    using run_posts [OF u1(2)] by blast
  obtain t where t: "finish_settlement run_workflow ''e'' ''t1'' ''SUBSCRIBE'' run_pl u2 = (Inr run_receipt_json, t)"
    "db_register (wf_store t) = db_register (wf_store u2)" using run_finishes [OF u2(2)] by blast
  have names: "unit_asset (wp_id (pl_product run_pl)) = ''UNIT:p''" "pl_terms run_pl = run_terms"
    "''ledger:'' @ ''t1'' = ''ledger:t1''" "''register:'' @ ''t1'' = ''register:t1''"
    by (simp_all add: run_pl_def run_product_row_def unit_asset_def)
  have "settle_books run_workflow ''e'' ''t1'' ''SUBSCRIBE'' run_pl s = (Inr run_receipt_json, t)"
    unfolding settle_books_def names using u1(1) u2(1) t(1) by (simp only: thenE_Inr) blast
  then show ?thesis using t(2) u2(2) by (simp add: run_posted_def)
qed

lemma run_settles:
  "\<exists>t. settle run_workflow run_ok ''e'' ''SUBSCRIBE'' run_request run_s = (Inr run_receipt_json, t)
    \<and> bk_entries (db_register (wf_store t)) = [run_entry ''register:t1'' ''register:p:TREASURY:UNIT:p:TREASURY'' ''UNIT:p'' (- 3),
         run_entry ''register:t1'' ''register:p:a:UNIT:p:INVESTOR'' ''UNIT:p'' 3]"
proof -
  let ?intent = "settle_intent run_s run_workflow run_pl ''SUBSCRIBE'' run_request ''x'' (Some (''k'', [''c''])) ''t1'' ''k1''"
  obtain u1 where u1: "inWf (createTransactionIntent run_sha ?intent) run_s = (Inr (True, run_row), u1)" "run_before u1"
    using run_creates by blast
  obtain u2 where u2: "add_commitment run_workflow ''t1'' run_pl u1 = (Inr (), u2)" "run_committed u2" using run_commits [OF u1(2)] by blast
  obtain t where t: "settle_books run_workflow ''e'' ''t1'' ''SUBSCRIBE'' run_pl u2 = (Inr run_receipt_json, t)"
    "bk_entries (db_register (wf_store t)) = [run_entry ''register:t1'' ''register:p:TREASURY:UNIT:p:TREASURY'' ''UNIT:p'' (- 3),
         run_entry ''register:t1'' ''register:p:a:UNIT:p:INVESTOR'' ''UNIT:p'' 3]"
    using run_books [OF u2(2)] by blast
  have w: "wk_encrypt run_workflow x y = Inr ''x''" "wk_committer run_workflow = Some run_committer" "wk_tenant run_workflow = ''T''"
    "wk_sha run_workflow = run_sha" "wp_id (pl_product run_pl) = ''p''" for x y
    by (simp_all add: run_workflow_def run_pl_def run_product_row_def)
  have c: "settle_created run_workflow ''e'' ''t1'' ''SUBSCRIBE'' run_pl False (True, run_row) u1 = (Inr run_receipt_json, t)"
    by (simp add: settle_created_def thenE_def bindE_def u2(1) t(1))
  have "settle_new run_workflow ''e'' ''SUBSCRIBE'' run_request False run_s = (Inr run_receipt_json, t)"
    unfolding settle_new_def withE_run run_plans liftE_def w Let_def run_fields run_index run_key_ok
    by (simp add: bindE_def w run_index u1(1) c)
  moreover have "replay_rows run_s run_workflow run_request = []"
    by (simp add: replay_rows_ident run_s_def run_booted_def run_opened_def empty_db_def)
  ultimately have "settleInTransaction run_workflow ''e'' ''SUBSCRIBE'' run_request False run_s = (Inr run_receipt_json, t)"
    by (simp add: settleInTransaction_def withE_run)
  then show ?thesis unfolding settle_def run_serializable using t(2) by blast
qed

lemma run_subscribed:
  "\<exists>t. reach (wf_step run_workflow) wf_empty t \<and> settle run_workflow run_ok ''e'' ''SUBSCRIBE'' run_request run_s = (Inr run_receipt_json, t)
    \<and> bk_entries (db_register (wf_store t)) = [run_entry ''register:t1'' ''register:p:TREASURY:UNIT:p:TREASURY'' ''UNIT:p'' (- 3),
         run_entry ''register:t1'' ''register:p:a:UNIT:p:INVESTOR'' ''UNIT:p'' 3] \<and> wf_products t = [run_product_row]"
proof -
  have "wf_step run_workflow wf_empty run_s" unfolding run_s_def by (rule wf_bootstraps [OF demo7_reachable run_boots])
  then have r: "reach (wf_step run_workflow) wf_empty run_s" by (blast intro: reach.intros)
  obtain t where t: "settle run_workflow run_ok ''e'' ''SUBSCRIBE'' run_request run_s = (Inr run_receipt_json, t)"
    "bk_entries (db_register (wf_store t)) = [run_entry ''register:t1'' ''register:p:TREASURY:UNIT:p:TREASURY'' ''UNIT:p'' (- 3),
         run_entry ''register:t1'' ''register:p:a:UNIT:p:INVESTOR'' ''UNIT:p'' 3]"
    using run_settles by blast
  have "settleInTransaction run_workflow ''e'' ''SUBSCRIBE'' run_request False run_s = (Inr run_receipt_json, t)"
    using t(1) serializable_from_result unfolding settle_def withSerializableTransaction_def by fastforce
  from settlement_result [OF this] have "wf_products t = wf_products run_s" by (auto simp: wf_frame_def posted_def)
  then have "wf_products t = [run_product_row]" by (simp add: run_s_def run_tables_def)
  with t show ?thesis using reach.intros(2) [OF r wf_settles [OF t(1)]] by blast
qed

text \<open>
  C6. The books of the durable workflows. The steps are the bootstrap from any state the control plane of a
  process can be in, settlements, simulated register failures, the proposal and approval of exception cases, status changes,
  credential restrictions, and what the other services write: the product catalogue, which inserts products that passed
  its validation. In every state these reach from empty tables, the register holds the
  entries of the ledger over units, one by one and in their order. Where moreover the id of every product has
  no colon and is not its currency, no account but a clearing one (the treasury, or the cash clearing account)
  is below zero. The catalogue ensures this of the products it inserts. The control plane does not: it creates a product with
  its own currency as id, and then the units of an investor \<open>x\<close> and the cash of the investor \<open>x:UNIT\<close> are one account
  (\<open>accounts_coincide\<close>), whose balance a transfer between them checks for each and takes from twice.
\<close>

theorem register_mirrors_ledger:
  assumes "reach (wf_step w) wf_empty s"
  shows "unit_entries (db_ledger (wf_store s)) = register_entries (db_register (wf_store s))
    \<and> ((\<forall>p \<in> set (wf_products s). own_accounts p) \<longrightarrow> (\<forall>a. clearing a \<or> 0 \<le> ledger_balance s a))"
  using durable_books.always [OF assms] by (auto simp: durable_ok_def)

theorem register_mirrors_ledger_witness:
  "\<exists>s. reach (wf_step run_workflow) wf_empty s
    \<and> unit_entries (db_ledger (wf_store s)) = [(''p:TREASURY:UNIT:p:TREASURY'', ''UNIT:p'', - 3), (''p:a:UNIT:p:INVESTOR'', ''UNIT:p'', 3)]
    \<and> map wp_id (wf_products s) = [''p''] \<and> 0 \<le> ledger_balance s ''ledger:p:a:HKD:INVESTOR''"
proof -
  obtain s where s: "reach (wf_step run_workflow) wf_empty s"
    "bk_entries (db_register (wf_store s)) = [run_entry ''register:t1'' ''register:p:TREASURY:UNIT:p:TREASURY'' ''UNIT:p'' (- 3),
         run_entry ''register:t1'' ''register:p:a:UNIT:p:INVESTOR'' ''UNIT:p'' 3]" "wf_products s = [run_product_row]"
    using run_subscribed by blast
  have "register_entries (db_register (wf_store s)) = [(''p:TREASURY:UNIT:p:TREASURY'', ''UNIT:p'', - 3), (''p:a:UNIT:p:INVESTOR'', ''UNIT:p'', 3)]"
    by (simp add: register_entries_def s(2) run_entry_def key_after_def)
  moreover have "own_accounts run_product_row"
    by (simp add: own_accounts_def rules_currency_def run_product_row_def run_rules colon_free_def)
  moreover have "\<not> clearing ''ledger:p:a:HKD:INVESTOR''" by (simp add: clearing_def ends_with_def)
  moreover have "map wp_id (wf_products s) = [''p'']" by (simp add: s(3) run_product_row_def)
  moreover have "\<forall>p \<in> set (wf_products s). own_accounts p" using calculation(2) by (simp add: s(3))
  ultimately show ?thesis using s(1) register_mirrors_ledger [OF s(1)] by (intro exI [of _ s] conjI) (simp_all, blast)
qed



section \<open>A case whose retry is blocked\<close>

definition review_workflow :: workflow where
  "review_workflow = run_workflow\<lparr>wk_decrypt := (\<lambda>_ _. Inr run_request)\<rparr>"

definition review_case :: exception_record where
  "review_case = \<lparr>xc_id = ''x'', xc_tx = ''t1'', xc_product = ''p'', xc_status = ''PENDING_APPROVAL'', xc_round = 1, xc_replacement = None,
     xc_version = 1\<rparr>"

definition review_db :: wf_db where
  \<comment> \<open>a proposed retry, without an active product\<close>
  "review_db = wf_empty\<lparr>wf_store := (empty_db [] [])\<lparr>
     db_intents := [run_row\<lparr>ti_state := ''PENDING_APPROVAL''\<rparr>], db_exceptions := [review_case],
     db_approvals := [\<lparr>ap_exception = ''x'', ap_round = 1, ap_role = ''MAKER'', ap_actor = ''m'', ap_decision = ''RETRY'',
       ap_replacement = Some ''t2'', ap_signature = None\<rparr>]\<rparr>\<rparr>"

lemma review_blocked_try:
  assumes "wf_products s = []" and "db_intents (wf_store s) = [run_row\<lparr>ti_state := ''PENDING_APPROVAL''\<rparr>]"
  shows "try_settlement review_workflow ''e1'' type (replacement_request ''x'' (Some ''t2'') run_request) s = (Inr (Inl (Coded ''PRODUCT_NOT_ACTIVE'')), s)"
proof -
  have k: "ti_key run_row = ''k1''" by (simp add: run_row_def new_intent_def settle_intent_def Let_def)
  have "replay_rows s review_workflow (replacement_request ''x'' (Some ''t2'') run_request) = []"
    by (simp add: replay_rows_ident assms(2) k replacement_request_def with_property_def jfield_def sql_is_def js_to_string.simps nullable_def)
  then have "settleInTransaction review_workflow ''e1'' type (replacement_request ''x'' (Some ''t2'') run_request) False s = (Inl (Coded ''PRODUCT_NOT_ACTIVE''), s)"
    by (simp add: settleInTransaction_def settle_new_def eff_defs plan_settlement_def current_product_def assms(1) bindR_def)
  then show ?thesis by (simp add: try_settlement_def attempt_once_def eff_defs)
qed

lemma review_runs:
  "\<exists>t. durable_approveExceptionResolution review_workflow run_ok ''e1'' ''e2'' ''x'' ''c'' ''APPROVE'' review_db = (Inr (Retry_blocked ''PRODUCT_NOT_ACTIVE''), t)"
proof -
  let ?a = "\<lparr>ao_exception = review_case, ao_proposalDecision = ''RETRY'', ao_replacement = Some ''t2'', ao_checkerDecision = ''APPROVE'', ao_maker = ''m''\<rparr>"
  let ?ac = "\<lparr>ac_case = ''x'', ac_checker = ''c'', ac_outcome = ?a\<rparr>"
  obtain u where u: "inWf (store_approveExceptionResolution ''x'' ''c'' ''APPROVE'' None) review_db = (Inr ?a, u)"
    "wf_products u = []" "db_intents (wf_store u) = [run_row\<lparr>ti_state := ''PENDING_APPROVAL''\<rparr>]" "db_exceptions (wf_store u) = [review_case]"
    "db_audit (wf_store u) = []" "db_outbox (wf_store u) = []"
    by (simp add: inWf_def store_approveExceptionResolution_def eff_defs review_db_def maker_record_def review_case_def empty_db_def wf_empty_def)
  have allowed: "assertTransition ''PENDING_APPROVAL'' ''REQUIRES_REVIEW'' = Inr ()"
    by (simp add: assertTransition_def transition_allowed_def TRANSITIONS_def ensureR_def)
  have again: "\<exists>t. reopen_case review_workflow ''e2'' ?ac c r u = (Inr (), t)" for c r
    using u(3-6) allowed
    by (simp add: reopen_case_def eff_defs inWf_def transitionTransaction_def run_row_fields review_case_def add_history_def update_where_def
      returnExceptionForReview_def Let_def recordExceptionDecision_def wf_announce_def recordAuditEvent_def enqueueOutbox_def)
  have d: "wk_decrypt review_workflow x y = Inr run_request" for x y by (simp add: review_workflow_def)
  have tx: "xc_tx review_case = ''t1''" by (simp add: review_case_def)
  obtain t where t: "reopen_case review_workflow ''e2'' ?ac (Some ''PRODUCT_NOT_ACTIVE'') ''PRODUCT_NOT_ACTIVE'' u = (Inr (), t)" using again by blast
  have "decide_case review_workflow ''e1'' ''e2'' ''APPROVE'' ?ac u = (Inr (Retry_blocked ''PRODUCT_NOT_ACTIVE''), t)"
    by (simp add: decide_case_def retry_original_def withE_def bindE_def thenE_def optE_def liftE_def retE_def u(3) run_row_fields tx d
      retry_case_def Let_def review_blocked_try [OF u(2,3)] error_reason_def t)
  then have "\<exists>t. durable_approveExceptionResolution review_workflow run_ok ''e1'' ''e2'' ''x'' ''c'' ''APPROVE'' review_db
      = (Inr (Retry_blocked ''PRODUCT_NOT_ACTIVE''), t)"
    unfolding durable_approveExceptionResolution_def run_serializable by (simp add: bindE_def u(1))
  then show ?thesis .
qed

text \<open>
  C31. A retry that is blocked leaves no trace: when the approval of a case answers that the retry was
  blocked, the ledger, the register, the receipts, the commitments, the cash confirmations, the products,
  the evidence and the credentials are what they were, no transaction was added or changed but the one
  under review, and that transaction and its case wait for review again.
\<close>

theorem blocked_retry_leaves_no_trace:
  assumes "durable_approveExceptionResolution w commit retryEventId eventId caseId checkerId decision s = (Inr (Retry_blocked code), t)"
  shows "\<exists>x. find (\<lambda>r. xc_id r = caseId) (db_exceptions (wf_store s)) = Some x \<and> back_in_review caseId x s t"
  by (rule approve_blocked [OF assms])

theorem blocked_retry_leaves_no_trace_witness:
  "\<exists>t. durable_approveExceptionResolution review_workflow run_ok ''e1'' ''e2'' ''x'' ''c'' ''APPROVE'' review_db
      = (Inr (Retry_blocked ''PRODUCT_NOT_ACTIVE''), t)
    \<and> db_ledger (wf_store t) = db_ledger (wf_store review_db) \<and> map xc_status (db_exceptions (wf_store t)) = [''OPEN'']
    \<and> map ti_state (db_intents (wf_store t)) = [''REQUIRES_REVIEW'']"
proof -
  obtain t where t: "durable_approveExceptionResolution review_workflow run_ok ''e1'' ''e2'' ''x'' ''c'' ''APPROVE'' review_db
      = (Inr (Retry_blocked ''PRODUCT_NOT_ACTIVE''), t)" using review_runs by blast
  have r: "db_exceptions (wf_store review_db) = [review_case]" "db_intents (wf_store review_db) = [run_row\<lparr>ti_state := ''PENDING_APPROVAL''\<rparr>]"
    by (simp_all add: review_db_def)
  have f: "find (\<lambda>r. xc_id r = ''x'') (db_exceptions (wf_store review_db)) = Some review_case" by (simp add: r review_case_def)
  from blocked_retry_leaves_no_trace [OF t] obtain x where x: "find (\<lambda>r. xc_id r = ''x'') (db_exceptions (wf_store review_db)) = Some x"
    "back_in_review ''x'' x review_db t" by (elim exE conjE) (rule that; assumption)
  have "x = review_case" using x(1) unfolding f by simp
  note b = x(2) [unfolded this back_in_review_def]
  have "db_ledger (wf_store t) = db_ledger (wf_store review_db)" using b by (simp only: spared_def prod.inject)
  moreover have "map xc_status (db_exceptions (wf_store t)) = [''OPEN'']"
    using b [THEN conjunct2, THEN conjunct2] by (simp add: r update_where_def review_case_def)
  moreover have "map ti_state (db_intents (wf_store t)) = [''REQUIRES_REVIEW'']"
    using b [THEN conjunct2, THEN conjunct1] by (simp add: r update_where_def review_case_def run_row_fields)
  ultimately show ?thesis by (intro exI [of _ t] conjI t)
qed

end
