(* ===== verification/CallbackFacts.thy ===== *)
theory CallbackFacts
  imports InstitutionCallback PgFrames
begin

text \<open>
  The streams of callbacks: what is applied in a stream is its callbacks from the first one to the one
  before the next sequence, in that order and each once.
\<close>

section \<open>What was applied\<close>

definition receipt_for :: "callback_receipt list \<Rightarrow> string \<Rightarrow> callback option" where
  "receipt_for rows callbackId = map_option kr_callback (find (\<lambda>r. ik_id (kr_callback r) = callbackId) rows)"

definition applied_callbacks :: "callback_receipt list \<Rightarrow> callback_effect list \<Rightarrow> callback list" where
  \<comment> \<open>the callbacks behind the effects, in the order of the effects\<close>
  "applied_callbacks rows effects = List.map_filter (\<lambda>e. receipt_for rows (ke_id e)) effects"

definition applied_in :: "callback_db \<Rightarrow> stream \<Rightarrow> int list" where
  "applied_in s st = map ik_sequence (filter (\<lambda>k. stream_of k = st) (applied_callbacks (ks_receipts s) (ks_effects s)))"

definition receipts_ok :: "callback_receipt list \<Rightarrow> callback_effect list \<Rightarrow> bool" where
  "receipts_ok rows effects =
     (distinct (map (\<lambda>r. ik_id (kr_callback r)) rows)
      \<and> distinct (map (\<lambda>r. (stream_of (kr_callback r), ik_sequence (kr_callback r))) rows)
      \<and> ke_id ` set effects \<subseteq> (\<lambda>r. ik_id (kr_callback r)) ` set rows)"

definition streams_ok :: "callback_db \<Rightarrow> bool" where
  "streams_ok s = (receipts_ok (ks_receipts s) (ks_effects s)
     \<and> (\<forall>st. 1 \<le> stream_position s st \<and> applied_in s st = [1 .. stream_position s st - 1]))"

lemma streams_okD:
  assumes "streams_ok s"
  shows "receipts_ok (ks_receipts s) (ks_effects s)" and "1 \<le> stream_position s st" and "applied_in s st = [1 .. stream_position s st - 1]"
  using assms unfolding streams_ok_def by blast+

lemma streams_okI:
  assumes "receipts_ok (ks_receipts s) (ks_effects s)" and "\<And>st. 1 \<le> stream_position s st \<and> applied_in s st = [1 .. stream_position s st - 1]"
  shows "streams_ok s"
  using assms unfolding streams_ok_def by blast

lemma receipt_for_member:
  "distinct (map (\<lambda>r. ik_id (kr_callback r)) rows) \<Longrightarrow> r \<in> set rows \<Longrightarrow> receipt_for rows (ik_id (kr_callback r)) = Some (kr_callback r)"
  by (induction rows) (auto simp: receipt_for_def image_iff)

lemma receipt_for_snoc:
  "i \<in> (\<lambda>r. ik_id (kr_callback r)) ` set rows \<Longrightarrow> receipt_for (rows @ [r]) i = receipt_for rows i"
  unfolding receipt_for_def by (induction rows) auto

lemma applied_snoc_receipt:
  assumes "ke_id ` set effects \<subseteq> (\<lambda>r. ik_id (kr_callback r)) ` set rows"
  shows "applied_callbacks (rows @ [r]) effects = applied_callbacks rows effects"
  using assms by (induction effects) (simp_all add: applied_callbacks_def map_filter_simps receipt_for_snoc split: option.split)

lemma applied_snoc_effect:
  "receipt_for rows (ke_id e) = Some k \<Longrightarrow> applied_callbacks rows (effects @ [e]) = applied_callbacks rows effects @ [k]"
  by (simp add: applied_callbacks_def map_filter_def)

section \<open>Frames\<close>

lemma inCallbacks_Inr [eff_simps]: "inCallbacks m s = (Inr a, t) \<longleftrightarrow> (\<exists>u. m (ks_store s) = (Inr a, u) \<and> t = s\<lparr>ks_store := u\<rparr>)"
  by (auto simp: inCallbacks_def split: prod.splits)

definition stream_tables :: "callback_db \<Rightarrow> (stream, int) jsmap \<times> callback_receipt list \<times> callback_effect list" where
  "stream_tables s = (ks_positions s, ks_receipts s, ks_effects s)"

lemma inCallbacks_tables [preserves_intros]: "preserves stream_tables (inCallbacks m)"
  by (rule preservesI) (auto simp: inCallbacks_def stream_tables_def split: prod.splits)

lemma insert_row_preserves [preserves_intros]: "(\<And>s. f (add s) = f s) \<Longrightarrow> preserves f (insert_row taken add)"
  unfolding insert_row_def by (intro preserves_intros preserves_modifyE)

lemma report_tables [preserves_intros]: "preserves stream_tables (report_incident h tenant incidentId metadata)"
  unfolding report_incident_def by (intro preserves_intros)

lemma add_incident_tables [preserves_intros]: "preserves stream_tables (add_incident i)"
  unfolding add_incident_def by (intro preserves_intros) (simp add: stream_tables_def)

lemma reconciliation_tables [preserves_intros]: "preserves stream_tables (recordEvidenceAndReconciliation h k)"
  unfolding recordEvidenceAndReconciliation_def open_callback_incident_def Let_def case_prod_beta
  by (intro preserves_intros) (simp_all add: stream_tables_def)

lemma mark_tables [preserves_intros]: "preserves stream_tables (mark_applied k buffered)"
  unfolding mark_applied_def Let_def by (intro preserves_intros preserves_modifyE) (simp_all add: stream_tables_def)

lemma blocked_tables [preserves_intros]: "preserves stream_tables (openBlockedStreamIncident h k code)"
  unfolding openBlockedStreamIncident_def Let_def by (intro preserves_intros)

lemma buffer_tables [preserves_intros]: "preserves stream_tables (buffer_callback k)"
  unfolding buffer_callback_def by (intro preserves_intros) (simp add: stream_tables_def)

lemma tablesD:
  assumes "preserves stream_tables m" and "m s = (r, t)"
  shows "ks_positions t = ks_positions s" and "ks_receipts t = ks_receipts s" and "ks_effects t = ks_effects s"
  using preservesD [OF assms] by (simp_all add: stream_tables_def)

lemma apply_result:
  assumes run: "apply_callback h k buffered s = (Inr u, t)"
  shows "ks_positions t = ks_positions s" and "ks_receipts t = ks_receipts s"
    and "\<exists>e. ke_id e = ik_id k \<and> ks_effects t = ks_effects s @ [e]"
proof -
  obtain x1 x2 u1 u2 where s1: "mark_applied k buffered s = (Inr x1, u1)" and s2: "add_effect k u1 = (Inr x2, u2)"
    and s3: "recordEvidenceAndReconciliation h k u2 = (Inr u, t)"
    using run unfolding apply_callback_def thenE_Inr by (elim exE conjE) (rule that)
  note f = tablesD [OF mark_tables s1] tablesD [OF reconciliation_tables s3]
  have "ks_positions u2 = ks_positions u1" "ks_receipts u2 = ks_receipts u1" "\<exists>e. ke_id e = ik_id k \<and> ks_effects u2 = ks_effects u1 @ [e]"
    using s2 by (auto simp: add_effect_def insert_row_def eff_simps split: if_splits)
  then show "ks_positions t = ks_positions s" "ks_receipts t = ks_receipts s" "\<exists>e. ke_id e = ik_id k \<and> ks_effects t = ks_effects s @ [e]"
    using f by simp_all
qed

lemma apply_in_stream:
  assumes run: "apply_callback h k buffered s = (Inr u, t)" and ok: "receipts_ok (ks_receipts s) (ks_effects s)"
    and known: "\<exists>r \<in> set (ks_receipts s). kr_callback r = k"
  shows "receipts_ok (ks_receipts t) (ks_effects t)"
    and "applied_in t st = applied_in s st @ (if stream_of k = st then [ik_sequence k] else [])"
proof -
  obtain e where e: "ke_id e = ik_id k" "ks_effects t = ks_effects s @ [e]" using apply_result(3) [OF run] by blast
  have r: "receipt_for (ks_receipts s) (ke_id e) = Some k"
    using known ok receipt_for_member e(1) unfolding receipts_ok_def by fastforce
  show "receipts_ok (ks_receipts t) (ks_effects t)"
    using ok known e by (auto simp: receipts_ok_def apply_result(2) [OF run])
  show "applied_in t st = applied_in s st @ (if stream_of k = st then [ik_sequence k] else [])"
    by (simp add: applied_in_def e(2) apply_result(2) [OF run] applied_snoc_effect [OF r])
qed

section \<open>The loop over the buffered callbacks\<close>

lemma find_member: "find P xs = Some x \<Longrightarrow> x \<in> set xs \<and> P x"
  by (induction xs) (auto split: if_splits)

lemma buffered_known:
  "buffered_at s st n = Some k \<Longrightarrow> (\<exists>r \<in> set (ks_receipts s). kr_callback r = k) \<and> stream_of k = st \<and> ik_sequence k = n"
  unfolding buffered_at_def by (auto dest!: find_member)

subsection \<open>Its fuel is enough\<close>

definition later_receipts :: "callback_db \<Rightarrow> stream \<Rightarrow> int \<Rightarrow> nat" where
  "later_receipts s st n = length (filter (\<lambda>r. stream_of (kr_callback r) = st \<and> n \<le> ik_sequence (kr_callback r)) (ks_receipts s))"

lemma later_decreases:
  assumes "buffered_at s st n = Some k"
  shows "later_receipts s st (n + 1) < later_receipts s st n"
proof -
  let ?rows = "filter (\<lambda>r. stream_of (kr_callback r) = st \<and> n \<le> ik_sequence (kr_callback r)) (ks_receipts s)"
  obtain r where "r \<in> set (ks_receipts s)" "stream_of (kr_callback r) = st" "ik_sequence (kr_callback r) = n" using buffered_known [OF assms] by blast
  then have "r \<in> set ?rows" "\<not> n + 1 \<le> ik_sequence (kr_callback r)" by simp_all
  then have "length (filter (\<lambda>r. n + 1 \<le> ik_sequence (kr_callback r)) ?rows) < length ?rows" by (rule length_filter_less)
  moreover have "filter (\<lambda>r. n + 1 \<le> ik_sequence (kr_callback r)) ?rows
      = filter (\<lambda>r. stream_of (kr_callback r) = st \<and> n + 1 \<le> ik_sequence (kr_callback r)) (ks_receipts s)"
    by (auto intro: filter_cong)
  ultimately show ?thesis by (simp add: later_receipts_def)
qed

lemma enough_fuel:
  \<comment> \<open>with more fuel than there are callbacks left in the stream, more of it changes nothing\<close>
  "later_receipts s st n < fuel \<Longrightarrow> drain_stream h st (fuel + m) n d s = drain_stream h st fuel n d s"
proof (induction fuel arbitrary: n d s)
  case (Suc fuel)
  show ?case
  proof (cases "buffered_at s st n")
    case (Some k)
    show ?thesis
    proof (cases "authorizedSource h s k")
      case (Inr pem)
      have "drain_stream h st (fuel + m) (n + 1) (d + 1) u = drain_stream h st fuel (n + 1) (d + 1) u" if "apply_callback h k True s = (Inr x, u)" for x u
        using Suc.IH [of u "n + 1"] later_decreases [OF Some] Suc.prems by (simp add: later_receipts_def apply_result(2) [OF that])
      then show ?thesis using Some Inr
        by (cases "apply_callback h k True s"; cases "fst (apply_callback h k True s)") (simp_all add: withE_def thenE_def bindE_def)
    qed (simp add: Some withE_def)
  qed (simp add: withE_def)
qed simp

lemma receipts_are_enough: "drain_stream h st (Suc (length (ks_receipts s)) + m) n d s = drain_stream h st (Suc (length (ks_receipts s))) n d s"
  by (rule enough_fuel) (simp add: later_receipts_def less_Suc_eq_le)

lemma drain_result:
  assumes "drain_stream h st fuel n d s = (Inr (n', d', b), t)" and "receipts_ok (ks_receipts s) (ks_effects s)"
    and "applied_in s st = [1 .. n - 1]" and "1 \<le> n"
  shows "ks_positions t = ks_positions s \<and> ks_receipts t = ks_receipts s \<and> receipts_ok (ks_receipts t) (ks_effects t)
    \<and> applied_in t st = [1 .. n' - 1] \<and> n \<le> n' \<and> (\<forall>st'. st' \<noteq> st \<longrightarrow> applied_in t st' = applied_in s st')"
  using assms
proof (induction fuel arbitrary: n d s)
  case 0
  then show ?case by (simp add: throwE_iff)
next
  case (Suc fuel)
  show ?case
  proof (cases "buffered_at s st n")
    case None
    then show ?thesis using Suc.prems by (simp add: withE_run retE_iff)
  next
    case (Some k)
    note known = buffered_known [OF Some]
    show ?thesis
    proof (cases "authorizedSource h s k")
      case (Inl e)
      then have "n' = n" "stream_tables t = stream_tables s"
        using Suc.prems(1) Some preservesD [OF blocked_tables]
        by (auto simp: withE_run Let_def eff_simps split: js_error.splits)
      then show ?thesis using Suc.prems by (simp add: stream_tables_def applied_in_def)
    next
      case (Inr pem)
      then obtain x u where step: "apply_callback h k True s = (Inr x, u)" and rest: "drain_stream h st fuel (n + 1) (d + 1) u = (Inr (n', d', b), t)"
        using Suc.prems(1) Some by (auto simp: withE_run eff_simps)
      note a = apply_result [OF step] apply_in_stream [OF step Suc.prems(2) conjunct1 [OF known]]
      have "applied_in u st = [1 .. (n + 1) - 1]"
        using a(5) [of st] known Suc.prems(3,4) by (simp add: upto_rec2)
      then show ?thesis using Suc.IH [OF rest a(4)] Suc.prems(4) a(1,2,5) known by auto
    qed
  qed
qed

lemma drain_facts:
  assumes "drain_stream h st fuel n d s = (Inr (n', d', b), t)" and "receipts_ok (ks_receipts s) (ks_effects s)"
    and "applied_in s st = [1 .. n - 1]" and "1 \<le> n"
  shows "ks_positions t = ks_positions s" and "ks_receipts t = ks_receipts s" and "receipts_ok (ks_receipts t) (ks_effects t)"
    and "applied_in t st = [1 .. n' - 1]" and "n \<le> n'" and "st' \<noteq> st \<Longrightarrow> applied_in t st' = applied_in s st'"
proof -
  note D = drain_result [OF assms]
  show "ks_positions t = ks_positions s" "ks_receipts t = ks_receipts s" "receipts_ok (ks_receipts t) (ks_effects t)"
    "applied_in t st = [1 .. n' - 1]" "n \<le> n'" using D by blast+
  show "st' \<noteq> st \<Longrightarrow> applied_in t st' = applied_in s st'" using D by blast
qed

section \<open>Receiving keeps the streams\<close>

definition sent_on :: "callback_db \<Rightarrow> stream \<Rightarrow> int \<Rightarrow> bool" where
  \<comment> \<open>a callback of the stream with this sequence was received\<close>
  "sent_on s st n = (\<exists>r \<in> set (ks_receipts s). stream_of (kr_callback r) = st \<and> ik_sequence (kr_callback r) = n)"

lemma accept_steps:
  assumes run: "accept_callback h k envelopeHash s = (Inr a, t)"
  obtains s1 where "stream_position s (stream_of k) \<le> ik_sequence k" and "\<not> sent_on s (stream_of k) (ik_sequence k)"
    and "ks_positions s1 = jm_set (stream_of k) (stream_position s (stream_of k)) (ks_positions s)" and "ks_effects s1 = ks_effects s"
    and "ks_receipts s1 = ks_receipts s @ [\<lparr>kr_callback = k, kr_envelopeHash = envelopeHash\<rparr>]"
    and "\<forall>r \<in> set (ks_receipts s). ik_id (kr_callback r) \<noteq> ik_id k"
    and "(if ik_sequence k = stream_position s (stream_of k) then apply_and_drain h k
      else thenE (buffer_callback k) (retE (Buffered_callback (stream_position s (stream_of k))))) s1 = (Inr a, t)"
proof -
  let ?s1 = "s\<lparr>ks_positions := jm_set (stream_of k) (stream_position s (stream_of k)) (ks_positions s),
    ks_receipts := ks_receipts s @ [\<lparr>kr_callback = k, kr_envelopeHash = envelopeHash\<rparr>]\<rparr>"
  have r: "stream_position s (stream_of k) \<le> ik_sequence k \<and> \<not> sent_on s (stream_of k) (ik_sequence k)
    \<and> (\<forall>r \<in> set (ks_receipts s). ik_id (kr_callback r) \<noteq> ik_id k)
    \<and> (if ik_sequence k = stream_position s (stream_of k) then apply_and_drain h k
      else thenE (buffer_callback k) (retE (Buffered_callback (stream_position s (stream_of k))))) ?s1 = (Inr a, t)"
    using run unfolding accept_callback_def Let_def withE_run thenE_Inr ensureE_Inr set_position_def modifyE_iff add_receipt_row_def
    by (elim exE conjE) (auto simp: sent_on_def throwE_iff modifyE_iff split: if_splits)
  show thesis by (rule that [of ?s1]) (use r in \<open>elim conjE; (assumption | simp)\<close>)+
qed

lemma position_update: "ks_positions t = jm_set st n (ks_positions s) \<Longrightarrow> stream_position t st' = (if st' = st then n else stream_position s st')"
  by (simp add: stream_position_def)

lemma drain_steps:
  assumes run: "apply_and_drain h k s = (Inr a, t)"
  obtains x u n d b v where "apply_callback h k False s = (Inr x, u)"
    and "drain_stream h (stream_of k) (Suc (length (ks_receipts u))) (ik_sequence k + 1) 0 u = (Inr (n, d, b), v)"
    and "t = v\<lparr>ks_positions := jm_set (stream_of k) n (ks_positions v)\<rparr>"
proof -
  obtain x u p v where "apply_callback h k False s = (Inr x, u)"
    "drain_stream h (stream_of k) (Suc (length (ks_receipts u))) (ik_sequence k + 1) 0 u = (Inr p, v)"
    "t = v\<lparr>ks_positions := jm_set (stream_of k) (fst p) (ks_positions v)\<rparr>"
    using run unfolding apply_and_drain_def thenE_Inr withE_run bindE_Inr case_prod_beta set_position_def modifyE_iff retE_iff
    by (elim exE conjE) (rule that; simp)
  then show thesis by (cases p) (auto intro: that)
qed

lemma apply_and_drain_result:
  assumes run: "apply_and_drain h k s = (Inr a, t)" and ok: "receipts_ok (ks_receipts s) (ks_effects s)"
    and known: "\<exists>r \<in> set (ks_receipts s). kr_callback r = k"
    and before: "applied_in s (stream_of k) = [1 .. ik_sequence k - 1]" "1 \<le> ik_sequence k"
  shows "receipts_ok (ks_receipts t) (ks_effects t)"
    and "\<exists>n. ks_positions t = jm_set (stream_of k) n (ks_positions s) \<and> 1 \<le> n \<and> applied_in t (stream_of k) = [1 .. n - 1]"
    and "st \<noteq> stream_of k \<Longrightarrow> applied_in t st = applied_in s st"
proof -
  obtain x u n d b v where s1: "apply_callback h k False s = (Inr x, u)"
    and s2: "drain_stream h (stream_of k) (Suc (length (ks_receipts u))) (ik_sequence k + 1) 0 u = (Inr (n, d, b), v)"
    and t: "t = v\<lparr>ks_positions := jm_set (stream_of k) n (ks_positions v)\<rparr>"
    by (rule drain_steps [OF run])
  note a = apply_result [OF s1] apply_in_stream [OF s1 ok known]
  have "applied_in u (stream_of k) = [1 .. (ik_sequence k + 1) - 1]"
    using a(5) [of "stream_of k"] before by (simp add: upto_rec2)
  note d = drain_facts [OF s2 a(4) this]
  have n: "1 \<le> ik_sequence k + 1" using before(2) by simp
  have f: "applied_in t st' = applied_in v st'" for st' by (simp add: t applied_in_def)
  show "receipts_ok (ks_receipts t) (ks_effects t)" using d(3) [OF n] by (simp add: t)
  show "\<exists>n. ks_positions t = jm_set (stream_of k) n (ks_positions s) \<and> 1 \<le> n \<and> applied_in t (stream_of k) = [1 .. n - 1]"
    using d(1,4,5) [OF n] n a(1) by (intro exI [of _ n]) (simp add: f, simp add: t)
  show "st \<noteq> stream_of k \<Longrightarrow> applied_in t st = applied_in s st" using d(6) [OF n, of st] a(5) [of st] by (simp add: f)
qed

lemma apply_and_drain_receipts:
  assumes run: "apply_and_drain h k s = (Inr a, t)" and ok: "receipts_ok (ks_receipts s) (ks_effects s)"
    and known: "\<exists>r \<in> set (ks_receipts s). kr_callback r = k"
    and before: "applied_in s (stream_of k) = [1 .. ik_sequence k - 1]" "1 \<le> ik_sequence k"
  shows "ks_receipts t = ks_receipts s"
proof -
  obtain x u n d b v where s1: "apply_callback h k False s = (Inr x, u)"
    and s2: "drain_stream h (stream_of k) (Suc (length (ks_receipts u))) (ik_sequence k + 1) 0 u = (Inr (n, d, b), v)"
    and t: "t = v\<lparr>ks_positions := jm_set (stream_of k) n (ks_positions v)\<rparr>"
    by (rule drain_steps [OF run])
  note a = apply_result [OF s1] apply_in_stream [OF s1 ok known]
  have "applied_in u (stream_of k) = [1 .. (ik_sequence k + 1) - 1]"
    using a(5) [of "stream_of k"] before by (simp add: upto_rec2)
  then have "ks_receipts v = ks_receipts u" using drain_result [OF s2 a(4)] before(2) by simp
  then show ?thesis using a(2) t by simp
qed

lemma accept_keeps:
  assumes run: "accept_callback h k envelopeHash s = (Inr a, t)" and ok: "streams_ok s"
  shows "streams_ok t"
proof -
  obtain s1 where low: "stream_position s (stream_of k) \<le> ik_sequence k" and new: "\<not> sent_on s (stream_of k) (ik_sequence k)"
    and pos: "ks_positions s1 = jm_set (stream_of k) (stream_position s (stream_of k)) (ks_positions s)" and eff: "ks_effects s1 = ks_effects s"
    and rec: "ks_receipts s1 = ks_receipts s @ [\<lparr>kr_callback = k, kr_envelopeHash = envelopeHash\<rparr>]"
    and fresh: "\<forall>r \<in> set (ks_receipts s). ik_id (kr_callback r) \<noteq> ik_id k"
    and rest: "(if ik_sequence k = stream_position s (stream_of k) then apply_and_drain h k
      else thenE (buffer_callback k) (retE (Buffered_callback (stream_position s (stream_of k))))) s1 = (Inr a, t)"
    by (rule accept_steps [OF run])
  have rok: "receipts_ok (ks_receipts s1) (ks_effects s1)"
    using streams_okD(1) [OF ok] new fresh by (auto simp: receipts_ok_def rec eff sent_on_def image_iff)
  have app: "applied_in s1 st = applied_in s st" for st
    using streams_okD(1) [OF ok] by (simp add: applied_in_def rec eff applied_snoc_receipt receipts_ok_def)
  have p1: "stream_position s1 st = stream_position s st" for st using position_update [OF pos] by simp
  have ok1: "streams_ok s1" using streams_okD(2,3) [OF ok] by (intro streams_okI [OF rok]) (simp add: app p1)
  show ?thesis
  proof (cases "ik_sequence k = stream_position s (stream_of k)")
    case True
    then have go: "apply_and_drain h k s1 = (Inr a, t)" using rest by simp
    have known: "\<exists>r \<in> set (ks_receipts s1). kr_callback r = k" by (simp add: rec)
    have before: "applied_in s1 (stream_of k) = [1 .. ik_sequence k - 1]" "1 \<le> ik_sequence k"
      using streams_okD(2,3) [OF ok, of "stream_of k"] by (simp_all add: app True)
    note d = apply_and_drain_result [OF go rok known before]
    obtain n where n: "ks_positions t = jm_set (stream_of k) n (ks_positions s1)" "1 \<le> n" "applied_in t (stream_of k) = [1 .. n - 1]"
      using d(2) by blast
    have "1 \<le> stream_position t st \<and> applied_in t st = [1 .. stream_position t st - 1]" for st
      using d(3) [of st] n(2,3) streams_okD(2,3) [OF ok1, of st] position_update [OF n(1), of st] by (cases "st = stream_of k") simp_all
    then show ?thesis by (rule streams_okI [OF d(1)])
  next
    case False
    then obtain x where "buffer_callback k s1 = (Inr x, t)" using rest by (auto simp: thenE_Inr retE_iff)
    note f = tablesD [OF buffer_tables this]
    show ?thesis using ok1 f by (simp add: streams_ok_def applied_in_def stream_position_def)
  qed
qed

lemma receive_cases:
  assumes run: "receive_in h e s = (Inr a, t)"
  shows "t = s \<or> accept_callback h (callback_of h e) (sha256Canonical (ch_sha h) (unsigned_envelope e)) s = (Inr a, t)"
  using run unfolding receive_in_def Let_def withE_run thenE_Inr liftE_iff
  by (elim exE conjE) (auto simp: eff_simps split: option.splits)

lemma receive_result:
  assumes run: "receive h commit e s = (r, t)"
  shows "t = s \<or> (\<exists>a. receive_in h e s = (Inr a, t))"
proof (cases "validateInstitutionCallbackEnvelope h False e")
  case (Inl e')
  then show ?thesis using run by (simp add: receive_def thenE_def bindE_def liftE_def)
next
  case (Inr u)
  then have "serializable_from 3 1 commit (receive_in h e) s = (r, t)"
    using run by (simp add: receive_def thenE_def bindE_def liftE_def withSerializableTransaction_def)
  then show ?thesis by (auto dest!: serializable_from_result)
qed

inductive cb_step :: "callback_db \<Rightarrow> callback_db \<Rightarrow> bool" where
  cb_receives: "receive h commit e s = (r, t) \<Longrightarrow> cb_step s t"
| cb_elsewhere: "stream_tables t = stream_tables s \<Longrightarrow> cb_step s t"
  \<comment> \<open>the roles, the keys, the products and the other tables are the business of other services\<close>

definition cb_empty :: callback_db where
  "cb_empty = \<lparr>ks_store = empty_db [] [], ks_institutions = [], ks_roles = [], ks_keys = [], ks_products = [], ks_commitments = [],
     ks_positions = [], ks_receipts = [], ks_applications = [], ks_effects = [], ks_evidence = [], ks_confirmations = [],
     ks_incidents = [], ks_approvals = []\<rparr>"

lemma same_tables_ok: "stream_tables t = stream_tables s \<Longrightarrow> streams_ok t = streams_ok s"
  by (simp add: stream_tables_def streams_ok_def applied_in_def stream_position_def)

lemma cb_step_ok: "streams_ok s \<Longrightarrow> cb_step s t \<Longrightarrow> streams_ok t"
proof -
  assume ok: "streams_ok s" and "cb_step s t"
  from this(2) show "streams_ok t"
  proof cases
    case (cb_receives h commit e r)
    from receive_result [OF this] show ?thesis
    proof (elim disjE exE)
      fix a assume "receive_in h e s = (Inr a, t)"
      from receive_cases [OF this] show ?thesis using ok accept_keeps [OF _ ok] by (elim disjE) (hypsubst, assumption, blast)
    qed (simp add: ok)
  next
    case cb_elsewhere
    then show ?thesis using ok by (simp only: same_tables_ok [OF cb_elsewhere])
  qed
qed

interpretation callbacks: invariant_of cb_step cb_empty streams_ok
proof
  show "streams_ok cb_empty"
    by (simp add: cb_empty_def streams_ok_def receipts_ok_def applied_in_def applied_callbacks_def map_filter_simps stream_position_def)
qed (rule cb_step_ok)

section \<open>Sources\<close>

lemma authorized_facts:
  assumes "authorizedSource h s k = Inr pem"
  shows "map_of (ks_institutions s) (ik_institution k) = Some ''ACTIVE''"
    and "(ik_product k, or_empty (jm_get CHANNEL_ROLE (ik_channel k)), ik_institution k) \<in> set (ks_roles s)"
    and "\<exists>key \<in> set (ks_keys s). sk_institution key = ik_institution k \<and> sk_key key = ik_keyId k \<and> key_available h (ik_occurredAt k) key \<and> sk_pem key = pem"
proof -
  show "map_of (ks_institutions s) (ik_institution k) = Some ''ACTIVE''"
    using assms by (simp add: authorizedSource_def split: if_splits)
  have "filter (\<lambda>r. r = (ik_product k, or_empty (jm_get CHANNEL_ROLE (ik_channel k)), ik_institution k)) (ks_roles s) \<noteq> []"
    using assms by (auto simp: authorizedSource_def split: if_splits)
  then show "(ik_product k, or_empty (jm_get CHANNEL_ROLE (ik_channel k)), ik_institution k) \<in> set (ks_roles s)"
    by (auto simp: filter_empty_conv)
  obtain row where row: "filter (\<lambda>r. sk_institution r = ik_institution k \<and> sk_key r = ik_keyId k) (ks_keys s) = [row]"
    and good: "key_available h (ik_occurredAt k) row" "sk_pem row = pem"
    using assms by (auto simp: authorizedSource_def ensureR_Inr split: if_splits list.splits)
  have "row \<in> set (filter (\<lambda>r. sk_institution r = ik_institution k \<and> sk_key r = ik_keyId k) (ks_keys s))"
    unfolding row by simp
  then have m: "row \<in> set (ks_keys s)" "sk_institution row = ik_institution k" "sk_key row = ik_keyId k" by simp_all
  show "\<exists>key \<in> set (ks_keys s). sk_institution key = ik_institution k \<and> sk_key key = ik_keyId k
      \<and> key_available h (ik_occurredAt k) key \<and> sk_pem key = pem" by (intro bexI [of _ row] conjI m good)
qed

lemma unset_key: "k \<notin> fst ` set m \<Longrightarrow> filter (\<lambda>(k', _). k' \<noteq> k) (jm_set k v m) = m"
  by (induction m) (auto simp: filter_id_conv)

lemma fold_set_keys: "fst ` set (foldl (\<lambda>m (k, v). jm_set k v m) m kvs) = fst ` set m \<union> fst ` set kvs"
  by (induction kvs arbitrary: m) (simp_all only: foldl.simps case_prod_beta dom_update list.set image_insert image_empty Un_insert_left Un_insert_right Un_empty_left Un_empty_right
    insert_commute)

lemma jfield_set: "jfield (JObj (jm_set k v m)) k = v"
  by (induction m) (auto simp: jfield_def)

lemma signed_callback_verifies:
  \<comment> \<open>what an institution signs is verified under its key\<close>
  assumes "ch_keyOk h pem" and "\<And>m. ch_verify h m pem (sign m) = Some True" and "''signature'' \<notin> fst ` set kvs"
  shows "verifyInstitutionCallbackSignature h (createSignedCallback sign kvs) pem = Inr ()"
proof -
  have "''signature'' \<notin> fst ` set (foldl (\<lambda>m (k, v). jm_set k v m) [(''schema'', JStr CALLBACK_SCHEMA)] kvs)"
    using assms(3) by (simp add: fold_set_keys)
  then show ?thesis using assms(1,2)
    by (simp add: verifyInstitutionCallbackSignature_def createSignedCallback_def Let_def unsigned_envelope_def unset_key text_field_def jfield_set
      js_to_string.simps ensureR_def)
qed

section \<open>A stream that is blocked\<close>

definition stuck :: "stream \<Rightarrow> int \<Rightarrow> callback_db \<Rightarrow> bool" where
  \<comment> \<open>the callback whose turn it is was received, and is not applied\<close>
  "stuck st n s = (streams_ok s \<and> stream_position s st = n \<and> sent_on s st n)"

lemma accept_stuck:
  assumes run: "accept_callback h k envelopeHash s = (Inr a, t)" and stuck: "stuck st n s"
  shows "stuck st n t"
proof -
  have ok: "streams_ok s" and at: "stream_position s st = n" and sent: "sent_on s st n" using stuck by (simp_all add: stuck_def)
  obtain s1 where low: "stream_position s (stream_of k) \<le> ik_sequence k" and new: "\<not> sent_on s (stream_of k) (ik_sequence k)"
    and pos: "ks_positions s1 = jm_set (stream_of k) (stream_position s (stream_of k)) (ks_positions s)" and eff: "ks_effects s1 = ks_effects s"
    and rec: "ks_receipts s1 = ks_receipts s @ [\<lparr>kr_callback = k, kr_envelopeHash = envelopeHash\<rparr>]"
    and fresh: "\<forall>r \<in> set (ks_receipts s). ik_id (kr_callback r) \<noteq> ik_id k"
    and rest: "(if ik_sequence k = stream_position s (stream_of k) then apply_and_drain h k
      else thenE (buffer_callback k) (retE (Buffered_callback (stream_position s (stream_of k))))) s1 = (Inr a, t)"
    by (rule accept_steps [OF run])
  have rok: "receipts_ok (ks_receipts s1) (ks_effects s1)"
    using streams_okD(1) [OF ok] new fresh by (auto simp: receipts_ok_def rec eff sent_on_def image_iff)
  have p1: "stream_position s1 st' = stream_position s st'" for st' using position_update [OF pos] by simp
  have "stream_position t st = n \<and> ks_receipts t = ks_receipts s1"
  proof (cases "ik_sequence k = stream_position s (stream_of k)")
    case True
    then have other: "stream_of k \<noteq> st" using new sent at by auto
    have go: "apply_and_drain h k s1 = (Inr a, t)" using rest True by simp
    have known: "\<exists>r \<in> set (ks_receipts s1). kr_callback r = k" by (simp add: rec)
    have before: "applied_in s1 (stream_of k) = [1 .. ik_sequence k - 1]" "1 \<le> ik_sequence k"
      using streams_okD(1) [OF ok] streams_okD(2,3) [OF ok, of "stream_of k"] by (simp_all add: applied_in_def rec eff applied_snoc_receipt receipts_ok_def True)
    obtain m where m: "ks_positions t = jm_set (stream_of k) m (ks_positions s1)" using apply_and_drain_result(2) [OF go rok known before] by blast
    have "ks_receipts t = ks_receipts s1" by (rule apply_and_drain_receipts [OF go rok known before])
    then show ?thesis using position_update [OF m] other at p1 by simp
  next
    case False
    then obtain x where "buffer_callback k s1 = (Inr x, t)" using rest by (auto simp: thenE_Inr retE_iff)
    note f = tablesD [OF buffer_tables this]
    then show ?thesis using p1 at by (simp add: stream_position_def)
  qed
  then show ?thesis using accept_keeps [OF run ok] sent by (auto simp: stuck_def sent_on_def rec)
qed

lemma stuck_kept: "stuck st n s \<Longrightarrow> cb_step s t \<Longrightarrow> stuck st n t"
proof -
  assume stuck: "stuck st n s" and "cb_step s t"
  from this(2) show "stuck st n t"
  proof cases
    case (cb_receives h commit e r)
    from receive_result [OF this] show ?thesis
    proof (elim disjE exE)
      fix a assume "receive_in h e s = (Inr a, t)"
      from receive_cases [OF this] show ?thesis using stuck accept_stuck [OF _ stuck] by (elim disjE) (hypsubst, assumption, blast)
    qed (simp add: stuck)
  next
    case cb_elsewhere
    then show ?thesis using stuck same_tables_ok [OF cb_elsewhere] by (simp add: stuck_def sent_on_def stream_position_def stream_tables_def)
  qed
qed

end
