(* ===== verification/CallbackProperties.thy ===== *)
theory CallbackProperties
  imports CallbackFacts ZkRun
begin

text \<open>The properties of the callbacks, applied to the run below.\<close>

text \<open>
  A run of the callbacks of a custodian: the second callback of a stream arrives first and is buffered,
  its key is revoked, and the first one is applied.
\<close>

definition cb_payload :: json where
  "cb_payload = JObj [(''subjectType'', JStr ''POSITION''), (''subjectRef'', JStr ''x''), (''outcome'', JStr ''CONFIRMED''),
     (''details'', JObj [(''statementId'', JStr ''s''), (''assetCode'', JStr ''UNIT:P''), (''balanceUnits'', JStr ''5''), (''asOf'', JStr ''1'')])]"

definition cb_envelope :: "string \<Rightarrow> int \<Rightarrow> string \<Rightarrow> json" where
  "cb_envelope i n keyId = JObj [(''schema'', JStr CALLBACK_SCHEMA), (''callbackId'', JStr i), (''tenantId'', JStr ''T''), (''institutionId'', JStr ''B''),
     (''productId'', JStr ''P''), (''channel'', JStr ''CUSTODY''), (''eventType'', JStr ''CUSTODY.CONFIRMED''), (''occurredAt'', JStr ''1''),
     (''expiresAt'', JStr ''9''), (''payloadHash'', JStr ''h''), (''signature'', JStr ''s''), (''keyId'', JStr keyId), (''sequence'', JNum n),
     (''payload'', cb_payload)]"

definition cb_service :: callback_service where
  "cb_service = \<lparr>ch_tenant = ''T'', ch_now = 5, ch_maxSkew = 10, ch_maxValidity = 100,
     ch_date = (\<lambda>s. if s = ''1'' then Some 1 else if s = ''9'' then Some 9 else None), ch_sha = run_sha, ch_keyOk = (\<lambda>_. True),
     ch_verify = (\<lambda>_ _ _. Some True), ch_decoy = ''d'', ch_matches = None, ch_eventId = id\<rparr>"

definition cb_key :: "string \<Rightarrow> bool \<Rightarrow> signing_key" where
  "cb_key i revoked = \<lparr>sk_institution = ''B'', sk_key = i, sk_algorithm = ''Ed25519'', sk_pem = ''pem'', sk_status = ''ACTIVE'', sk_from = 0,
     sk_until = None, sk_revoked = revoked\<rparr>"

definition cb_start :: callback_db where
  "cb_start = cb_empty\<lparr>ks_institutions := [(''B'', ''ACTIVE'')], ks_roles := [(''P'', ''custodian'', ''B'')],
     ks_keys := [cb_key ''k1'' False, cb_key ''k2'' False]\<rparr>"

definition cb_stream :: stream where
  "cb_stream = (''T'', ''B'', ''P'', ''CUSTODY'')"

definition cb_callback :: "string \<Rightarrow> int \<Rightarrow> string \<Rightarrow> callback" where
  "cb_callback i n keyId = \<lparr>ik_id = i, ik_tenant = ''T'', ik_institution = ''B'', ik_product = ''P'', ik_channel = ''CUSTODY'', ik_sequence = n,
     ik_eventType = ''CUSTODY.CONFIRMED'', ik_occurredAt = 1, ik_expiresAt = 9, ik_payload = cb_payload, ik_payloadHash = ''h'',
     ik_signature = ''s'', ik_keyId = keyId\<rparr>"

lemma cb_callback_of: "callback_of cb_service (cb_envelope i n keyId) = cb_callback i n keyId"
  by (simp add: callback_of_def cb_envelope_def cb_callback_def text_field_def jfield_def js_to_string.simps cb_service_def)

lemma cb_stream_of: "stream_of (cb_callback i n keyId) = cb_stream" "ik_id (cb_callback i n keyId) = i"
  "ik_sequence (cb_callback i n keyId) = n" "ik_payload (cb_callback i n keyId) = cb_payload"
  by (simp_all add: stream_of_def cb_callback_def cb_stream_def)

lemma cb_fields:
  "jfield (cb_envelope i n keyId) ''schema'' = JStr CALLBACK_SCHEMA" "jfield (cb_envelope i n keyId) ''callbackId'' = JStr i"
  "jfield (cb_envelope i n keyId) ''tenantId'' = JStr ''T''" "jfield (cb_envelope i n keyId) ''institutionId'' = JStr ''B''"
  "jfield (cb_envelope i n keyId) ''productId'' = JStr ''P''" "jfield (cb_envelope i n keyId) ''channel'' = JStr ''CUSTODY''"
  "jfield (cb_envelope i n keyId) ''eventType'' = JStr ''CUSTODY.CONFIRMED''" "jfield (cb_envelope i n keyId) ''occurredAt'' = JStr ''1''"
  "jfield (cb_envelope i n keyId) ''expiresAt'' = JStr ''9''" "jfield (cb_envelope i n keyId) ''payloadHash'' = JStr ''h''"
  "jfield (cb_envelope i n keyId) ''signature'' = JStr ''s''" "jfield (cb_envelope i n keyId) ''keyId'' = JStr keyId"
  "jfield (cb_envelope i n keyId) ''sequence'' = JNum n" "jfield (cb_envelope i n keyId) ''payload'' = cb_payload"
  by (simp_all add: cb_envelope_def jfield_def)

lemma cb_payload_ok: "plain_object cb_payload" "one_of_texts (jfield cb_payload ''outcome'') CALLBACK_OUTCOMES" "is_text (jfield cb_payload ''subjectRef'')"
  "text_field cb_payload ''outcome'' = ''CONFIRMED''" "jfield cb_payload ''subjectType'' = JStr ''POSITION''"
  "list_all (\<lambda>k. k \<in> {''subjectType'', ''subjectRef'', ''outcome'', ''details''}) (object_keys cb_payload)"
  "plain_object (jfield cb_payload ''details'')" "object_keys (jfield cb_payload ''details'') = [''statementId'', ''assetCode'', ''balanceUnits'', ''asOf'']"
  by (simp_all add: cb_payload_def plain_object_def one_of_texts_def CALLBACK_OUTCOMES_def is_text_def jfield_def text_field_def js_to_string.simps
    object_keys_def)

lemma cb_texts: "asset_code ''UNIT:P''" "canonical_decimal ''5''" "id_text ''._:-'' 127 ''k1''" "id_text ''._:-'' 127 ''k2''"
  by code_simp+

lemma cb_details: "valid_details cb_service ''CUSTODY'' (jfield cb_payload ''details'')"
  by (simp add: valid_details_def cb_payload_def jfield_def text_field_def js_to_string.simps is_text_def cb_texts cb_service_def)

lemma cb_valid:
  assumes "i \<noteq> []" and "id_text ''._:-'' 127 keyId" and "n \<in> {1, 2}"
  shows "validateInstitutionCallbackEnvelope cb_service b (cb_envelope i n keyId) = Inr ()"
proof -
  have "list_all (\<lambda>f. required_text (jfield (cb_envelope i n keyId) f)) CALLBACK_FIELDS"
    using assms(1) by (simp add: CALLBACK_FIELDS_def required_text_def cb_fields)
  moreover have "sha256Canonical (ch_sha cb_service) v = ''h''" for v by (simp add: sha256Canonical_def cb_service_def run_sha_def)
  ultimately have f: "callback_format cb_service (cb_envelope i n keyId) = Inr ()"
    using assms(2,3) cb_payload_ok
    by (auto simp: callback_format_def Let_def guards.simps cb_fields text_field_def js_to_string.simps jm_has_def CHANNEL_ROLE_def is_text_def
      safe_positive_def integer_between_def)
  have t: "callback_time cb_service (cb_envelope i n keyId) = Inr ()"
    by (simp add: callback_time_def cb_service_def text_field_def cb_fields js_to_string.simps guards.simps)
  have b: "callback_business cb_service (cb_envelope i n keyId) = Inr ()"
    using cb_payload_ok cb_details by (simp add: callback_business_def Let_def guards.simps cb_fields text_field_def js_to_string.simps detail_fields_def)
  show ?thesis by (simp add: validateInstitutionCallbackEnvelope_def f t b)
qed

lemma cb_signed: "verifyInstitutionCallbackSignature cb_service e pem = Inr ()"
  by (simp add: verifyInstitutionCallbackSignature_def cb_service_def ensureR_def)

definition cb_registered :: "callback_db \<Rightarrow> bool \<Rightarrow> bool" where
  "cb_registered s revoked = (ks_institutions s = [(''B'', ''ACTIVE'')] \<and> ks_roles s = [(''P'', ''custodian'', ''B'')]
     \<and> ks_keys s = [cb_key ''k1'' False, cb_key ''k2'' revoked])"

lemma cb_source:
  assumes "cb_registered s revoked"
  shows "authorizedSource cb_service s (cb_callback i n ''k1'') = Inr ''pem''"
    and "authorizedSource cb_service s (cb_callback i n ''k2'') = (if revoked then Inl (Coded ''CALLBACK_SIGNING_KEY_UNAVAILABLE'') else Inr ''pem'')"
  using assms by (simp_all add: authorizedSource_def cb_registered_def cb_callback_def cb_key_def CHANNEL_ROLE_def key_available_def cb_service_def
    or_empty_def ensureR_def)

lemma cb_authentic:
  assumes "authorizedSource cb_service s (cb_callback i n keyId) = Inr pem"
  shows "authenticate cb_service s (cb_envelope i n keyId) = Inr ()"
  using assms by (simp add: authenticate_def cb_callback_of cb_signed Let_def ensureR_def) (simp add: cb_callback_def cb_service_def)

definition cb_row :: "string \<Rightarrow> int \<Rightarrow> string \<Rightarrow> callback_receipt" where
  "cb_row i n keyId = \<lparr>kr_callback = cb_callback i n keyId, kr_envelopeHash = ''h''\<rparr>"

lemma cb_hash: "sha256Canonical (ch_sha cb_service) v = ''h''"
  by (simp add: sha256Canonical_def cb_service_def run_sha_def)

definition cb_buffered :: callback_db where
  "cb_buffered = cb_start\<lparr>ks_positions := [(cb_stream, 1)], ks_receipts := [cb_row ''c2'' 2 ''k2''],
     ks_applications := [\<lparr>ka_id = ''c2'', ka_status = ''BUFFERED'', ka_outcome = None\<rparr>]\<rparr>"

lemma cb_buffers: "receive cb_service run_ok (cb_envelope ''c2'' 2 ''k2'') cb_start = (Inr (Buffered_callback 1), cb_buffered)"
proof -
  have r: "cb_registered cb_start False" by (simp add: cb_registered_def cb_start_def)
  have "accept_callback cb_service (cb_callback ''c2'' 2 ''k2'') ''h'' cb_start = (Inr (Buffered_callback 1), cb_buffered)"
    by (simp add: accept_callback_def eff_defs Let_def cb_stream_of stream_position_def set_position_def add_receipt_row_def buffer_callback_def
      insert_row_def cb_start_def cb_empty_def cb_buffered_def cb_row_def)
  then have "receive_in cb_service (cb_envelope ''c2'' 2 ''k2'') cb_start = (Inr (Buffered_callback 1), cb_buffered)"
    by (simp add: receive_in_def withE_run thenE_def bindE_def liftE_def cb_authentic [OF cb_source(2) [OF r, simplified]] cb_valid cb_texts Let_def cb_callback_of
      cb_hash cb_stream_of) (simp add: cb_start_def cb_empty_def)
  then show ?thesis by (simp add: receive_def thenE_def bindE_def liftE_def cb_valid cb_texts run_serializable)
qed

definition cb_revoked :: callback_db where
  "cb_revoked = cb_buffered\<lparr>ks_keys := [cb_key ''k1'' False, cb_key ''k2'' True]\<rparr>"

definition cb_blocked :: "callback_db \<Rightarrow> bool" where
  "cb_blocked s = (stream_position s cb_stream = 2 \<and> ks_receipts s = [cb_row ''c2'' 2 ''k2'', cb_row ''c1'' 1 ''k1''] \<and> map ke_id (ks_effects s) = [''c1''])"

lemma cb_applies:
  assumes "ks_applications s = [\<lparr>ka_id = ''c2'', ka_status = ''BUFFERED'', ka_outcome = None\<rparr>]" and "ks_effects s = []" and "ks_evidence s = []"
    and "ks_confirmations s = []"
  shows "\<exists>t. apply_callback cb_service (cb_callback ''c1'' 1 ''k1'') False s = (Inr (), t)
    \<and> ks_positions t = ks_positions s \<and> ks_receipts t = ks_receipts s \<and> map ke_id (ks_effects t) = [''c1'']
    \<and> (\<forall>r. cb_registered s r \<longrightarrow> cb_registered t r) \<and> ks_incidents t = ks_incidents s \<and> ks_store t = ks_store s
    \<and> map ka_id (ks_applications t) = [''c2'', ''c1''] \<and> map ka_status (ks_applications t) = [''BUFFERED'', ''APPLIED'']"
  using assms
  by (simp add: apply_callback_def eff_defs mark_applied_def insert_row_def Let_def cb_stream_of add_effect_def recordEvidenceAndReconciliation_def
    reconcile_callback_def cb_payload_ok cb_registered_def)

definition cb_incident :: incident where
  "cb_incident = new_incident ''external-incident:blocked:c2'' (cb_callback ''c2'' 2 ''k2'') None ''CRITICAL''
     ''BUFFERED_CALLBACK_CALLBACK_SIGNING_KEY_UNAVAILABLE''"

lemma cb_blocks:
  assumes "cb_registered s True" and "ks_incidents s = []" and "ks_store s = empty_db [] []"
    and "map ka_id (ks_applications s) = [''c2'', ''c1'']" and "map ka_status (ks_applications s) = [''BUFFERED'', ''APPLIED'']"
    and "ks_receipts s = [cb_row ''c2'' 2 ''k2'', cb_row ''c1'' 1 ''k1'']"
  shows "\<exists>t. drain_stream cb_service cb_stream (Suc (length (ks_receipts s))) 2 0 s
      = (Inr (2, 0, Some (''c2'', 2, ''CALLBACK_SIGNING_KEY_UNAVAILABLE'')), t)
    \<and> ks_receipts t = ks_receipts s \<and> ks_effects t = ks_effects s \<and> ks_incidents t = [cb_incident]"
proof -
  have at: "buffered_at s cb_stream 2 = Some (cb_callback ''c2'' 2 ''k2'')"
    using assms(4,5) by (auto simp: buffered_at_def assms(6) cb_row_def cb_stream_of application_status_def)
  show ?thesis using assms(2,3)
    by (simp add: withE_run at cb_source(2) [OF assms(1)] openBlockedStreamIncident_def Let_def thenE_def bindE_def retE_def cb_stream_of add_incident_def
      cb_incident_def insert_row_def modifyE_def report_incident_def inCallbacks_def recordAuditEvent_def enqueueOutbox_def empty_db_def)
qed

lemma cb_receives_first:
  "\<exists>t. receive cb_service run_ok (cb_envelope ''c1'' 1 ''k1'') cb_revoked
      = (Inr (Applied_callback 0 (Some (''c2'', 2, ''CALLBACK_SIGNING_KEY_UNAVAILABLE''))), t) \<and> cb_blocked t \<and> ks_incidents t = [cb_incident]"
proof -
  let ?k = "cb_callback ''c1'' 1 ''k1''"
  let ?s1 = "cb_revoked\<lparr>ks_positions := jm_set cb_stream 1 (ks_positions cb_revoked), ks_receipts := ks_receipts cb_revoked @ [cb_row ''c1'' 1 ''k1'']\<rparr>"
  have r0: "cb_registered cb_revoked True" by (simp add: cb_registered_def cb_revoked_def cb_buffered_def cb_start_def)
  have s1: "ks_applications ?s1 = [\<lparr>ka_id = ''c2'', ka_status = ''BUFFERED'', ka_outcome = None\<rparr>]" "ks_effects ?s1 = []" "ks_evidence ?s1 = []"
    "ks_confirmations ?s1 = []" "ks_incidents ?s1 = []" "ks_store ?s1 = empty_db [] []" "ks_receipts ?s1 = [cb_row ''c2'' 2 ''k2'', cb_row ''c1'' 1 ''k1'']"
    "cb_registered ?s1 True"
    using r0 by (simp_all add: cb_revoked_def cb_buffered_def cb_start_def cb_empty_def cb_registered_def)
  obtain u where u: "apply_callback cb_service ?k False ?s1 = (Inr (), u)" "ks_receipts u = ks_receipts ?s1" "map ke_id (ks_effects u) = [''c1'']"
    "cb_registered u True" "ks_incidents u = ks_incidents ?s1" "ks_store u = ks_store ?s1" "map ka_id (ks_applications u) = [''c2'', ''c1'']"
    "map ka_status (ks_applications u) = [''BUFFERED'', ''APPLIED'']"
  proof -
    from cb_applies [OF s1(1-4)] obtain u where f: "apply_callback cb_service ?k False ?s1 = (Inr (), u)" "ks_receipts u = ks_receipts ?s1"
      "map ke_id (ks_effects u) = [''c1'']" "\<forall>r. cb_registered ?s1 r \<longrightarrow> cb_registered u r" "ks_incidents u = ks_incidents ?s1"
      "ks_store u = ks_store ?s1" "map ka_id (ks_applications u) = [''c2'', ''c1'']" "map ka_status (ks_applications u) = [''BUFFERED'', ''APPLIED'']"
      by (elim exE conjE) (rule that)
    have "cb_registered u True" by (rule f(4) [rule_format, OF s1(8)])
    then show thesis by (rule that [OF f(1-3) _ f(5-8)])
  qed
  obtain v where v: "drain_stream cb_service cb_stream (Suc (length (ks_receipts u))) 2 0 u
      = (Inr (2, 0, Some (''c2'', 2, ''CALLBACK_SIGNING_KEY_UNAVAILABLE'')), v)" "ks_receipts v = ks_receipts u" "ks_effects v = ks_effects u"
    "ks_incidents v = [cb_incident]"
  proof -
    have e: "ks_incidents u = []" "ks_store u = empty_db [] []" "ks_receipts u = [cb_row ''c2'' 2 ''k2'', cb_row ''c1'' 1 ''k1'']"
      by (simp_all only: u(2,5,6) s1(5,6,7))
    from cb_blocks [OF u(4) e(1,2) u(7,8) e(3)] show thesis by (elim exE conjE) (rule that)
  qed
  let ?t = "v\<lparr>ks_positions := jm_set cb_stream 2 (ks_positions v)\<rparr>"
  have "accept_callback cb_service ?k ''h'' cb_revoked = apply_and_drain cb_service ?k ?s1"
    by (simp add: accept_callback_def withE_run Let_def thenE_def bindE_def cb_stream_of stream_position_def set_position_def modifyE_def ensureE_def
      retE_def add_receipt_row_def cb_revoked_def cb_buffered_def cb_start_def cb_empty_def cb_row_def)
  also have "\<dots> = (Inr (Applied_callback 0 (Some (''c2'', 2, ''CALLBACK_SIGNING_KEY_UNAVAILABLE''))), ?t)"
    unfolding apply_and_drain_def thenE_def bindE_def u(1)
    using v(1) by (simp add: withE_def cb_stream_of set_position_def modifyE_def retE_def)
  finally have a: "accept_callback cb_service ?k ''h'' cb_revoked = (Inr (Applied_callback 0 (Some (''c2'', 2, ''CALLBACK_SIGNING_KEY_UNAVAILABLE''))), ?t)" .
  have none: "find (\<lambda>r. ik_id (kr_callback r) = ''c1'') (ks_receipts cb_revoked) = None"
    by (simp add: cb_revoked_def cb_buffered_def cb_row_def cb_stream_of)
  have "receive_in cb_service (cb_envelope ''c1'' 1 ''k1'') cb_revoked = (Inr (Applied_callback 0 (Some (''c2'', 2, ''CALLBACK_SIGNING_KEY_UNAVAILABLE''))), ?t)"
    by (simp add: receive_in_def withE_run thenE_def bindE_def liftE_def cb_authentic [OF cb_source(1) [OF r0]] cb_valid cb_texts Let_def cb_callback_of
      cb_hash cb_stream_of none a)
  then have "receive cb_service run_ok (cb_envelope ''c1'' 1 ''k1'') cb_revoked
      = (Inr (Applied_callback 0 (Some (''c2'', 2, ''CALLBACK_SIGNING_KEY_UNAVAILABLE''))), ?t)"
    by (simp add: receive_def thenE_def bindE_def liftE_def cb_valid cb_texts run_serializable)
  moreover have "cb_blocked ?t" using v u(2,3) s1(7) by (simp add: cb_blocked_def stream_position_def)
  moreover have "ks_incidents ?t = [cb_incident]" using v(4) by simp
  ultimately show ?thesis by blast
qed

lemma cb_reaches: "\<exists>t. reach cb_step cb_empty t \<and> cb_blocked t"
proof -
  have "cb_step cb_empty cb_start" by (rule cb_elsewhere) (simp add: cb_start_def stream_tables_def)
  then have "reach cb_step cb_empty cb_start" by (rule reach.more [OF reach.start])
  then have "reach cb_step cb_empty cb_buffered" by (rule reach.more) (rule cb_receives [OF cb_buffers])
  then have r: "reach cb_step cb_empty cb_revoked" by (rule reach.more) (rule cb_elsewhere, simp add: cb_revoked_def stream_tables_def)
  obtain t where t: "receive cb_service run_ok (cb_envelope ''c1'' 1 ''k1'') cb_revoked
      = (Inr (Applied_callback 0 (Some (''c2'', 2, ''CALLBACK_SIGNING_KEY_UNAVAILABLE''))), t)" "cb_blocked t"
    using cb_receives_first by blast
  then show ?thesis using reach.more [OF r cb_receives [OF t(1)]] by blast
qed


text \<open>
  C15. Callbacks are applied in order: in every reachable state the effects of a stream are those of its
  callbacks from the first to the one before the next sequence, in this order, without a gap and each once.
\<close>

theorem callbacks_in_order:
  assumes "reach cb_step cb_empty s"
  shows "applied_in s st = [1 .. stream_position s st - 1]"
  by (rule streams_okD(3) [OF callbacks.always [OF assms]])

theorem callbacks_in_order_witness:
  "\<exists>s. reach cb_step cb_empty s \<and> map ke_id (ks_effects s) = [''c1''] \<and> applied_in s cb_stream = [1]"
proof -
  obtain s where s: "reach cb_step cb_empty s" "cb_blocked s" using cb_reaches by blast
  have "applied_in s cb_stream = [1]" using callbacks_in_order [OF s(1), of cb_stream] s(2) by (simp add: cb_blocked_def)
  then show ?thesis using s by (auto simp: cb_blocked_def)
qed

text \<open>
  C28. A stream that blocks stays blocked: once the callback whose turn it is was received and not applied
  (its source had lost its authority when the stream reached it), no later callback, of any content and at
  any time, moves the stream or has an effect in it, also when the source is authorised again.
\<close>

theorem blocked_stream_stays_blocked:
  assumes "reach cb_step cb_empty s" and "sent_on s st (stream_position s st)" and "cb_step\<^sup>*\<^sup>* s t"
  shows "stream_position t st = stream_position s st \<and> applied_in t st = applied_in s st"
proof -
  have "stuck st (stream_position s st) s" using assms(2) callbacks.always [OF assms(1)] by (simp add: stuck_def)
  with assms(3) have "stuck st (stream_position s st) t" by (induction rule: rtranclp_induct) (auto intro: stuck_kept)
  then have "streams_ok t" "stream_position t st = stream_position s st" by (simp_all add: stuck_def)
  then show ?thesis using streams_okD(3) callbacks.always [OF assms(1)] by metis
qed

theorem blocked_stream_stays_blocked_witness:
  "\<exists>s. reach cb_step cb_empty s \<and> sent_on s cb_stream 2
    \<and> (\<forall>t. cb_step\<^sup>*\<^sup>* s t \<longrightarrow> stream_position t cb_stream = 2 \<and> applied_in t cb_stream = [1])"
proof -
  obtain s where s: "reach cb_step cb_empty s" "cb_blocked s" using cb_reaches by blast
  have at: "stream_position s cb_stream = 2" using s(2) by (simp add: cb_blocked_def)
  have sent: "sent_on s cb_stream 2" using s(2) by (simp add: sent_on_def cb_blocked_def cb_row_def cb_stream_of)
  have app: "applied_in s cb_stream = [1]" using streams_okD(3) [OF callbacks.always [OF s(1)], of cb_stream] at by simp
  have "stream_position t cb_stream = 2 \<and> applied_in t cb_stream = [1]" if "cb_step\<^sup>*\<^sup>* s t" for t
    using blocked_stream_stays_blocked [OF s(1) _ that, of cb_stream] sent at app by simp
  then show ?thesis using s(1) sent by blast
qed

text \<open>
  C25. An accepted callback is authentic: whenever a callback is answered, it names this tenant, its
  institution is active and holds the role of the channel, and its signature was verified under a key
  registered for the institution, active and not revoked, that was valid when it was signed and is now.
\<close>

theorem accepted_callback_is_authentic:
  assumes "receive h commit e s = (Inr a, t)"
  shows "ik_tenant (callback_of h e) = ch_tenant h
    \<and> map_of (ks_institutions s) (ik_institution (callback_of h e)) = Some ''ACTIVE''
    \<and> (\<exists>role. jm_get CHANNEL_ROLE (ik_channel (callback_of h e)) = Some role
         \<and> (ik_product (callback_of h e), role, ik_institution (callback_of h e)) \<in> set (ks_roles s))
    \<and> (\<exists>key \<in> set (ks_keys s). sk_institution key = ik_institution (callback_of h e) \<and> sk_key key = ik_keyId (callback_of h e)
         \<and> key_available h (ik_occurredAt (callback_of h e)) key
         \<and> ch_verify h (canonicalize (unsigned_envelope e)) (sk_pem key) (text_field e ''signature'') = Some True)"
proof -
  have f: "validateInstitutionCallbackEnvelope h False e = Inr ()" and "\<exists>t. receive_in h e s = (Inr a, t)"
    using assms by (auto simp: receive_def thenE_Inr liftE_iff withSerializableTransaction_def dest!: serializable_from_result)
  then obtain t' where run: "receive_in h e s = (Inr a, t')" by blast
  have auth: "authenticate h s e = Inr ()" using run by (auto simp: receive_in_def withE_run thenE_Inr liftE_iff)
  then obtain pem where tenant: "ik_tenant (callback_of h e) = ch_tenant h" and source: "authorizedSource h s (callback_of h e) = Inr pem"
    and signed: "ch_verify h (canonicalize (unsigned_envelope e)) pem (text_field e ''signature'') = Some True"
    by (auto simp: authenticate_def Let_def ensureR_Inr verifyInstitutionCallbackSignature_def split: if_splits)
  have role: "jm_has CHANNEL_ROLE (ik_channel (callback_of h e))"
    using f by (auto simp: validateInstitutionCallbackEnvelope_def bindR_Inr callback_format_def Let_def guards_Inr callback_of_def)
  show ?thesis using authorized_facts [OF source] role tenant signed by (auto simp: jm_has_def or_empty_def)
qed

theorem accepted_callback_is_authentic_witness:
  "\<exists>key \<in> set (ks_keys cb_start). sk_key key = ''k2''
    \<and> ch_verify cb_service (canonicalize (unsigned_envelope (cb_envelope ''c2'' 2 ''k2''))) (sk_pem key) (text_field (cb_envelope ''c2'' 2 ''k2'') ''signature'') = Some True"
  using accepted_callback_is_authentic [OF cb_buffers] by (auto simp: cb_callback_of) (auto simp: cb_callback_def)

end
