(* ===== verification/ProductCatalog.thy ===== *)
theory ProductCatalog
  imports CatalogInput
begin

text \<open>
  The product catalogue, \<open>ProductCatalogService\<close> of \<open>src/storage/product-catalog-service.js\<close>: tenants,
  institutions and their review, signing keys, draft products, roles, activation evidence and the
  activation of a product by a maker and a checker. What the tables of the migrations do by themselves
  is part of the operations: a new institution gets its first key, a key is valid for some time, and a
  key that is revoked takes with it the evidence it signed and the products that rest on it. Every call
  is one serializable transaction; locks are not represented.
\<close>

section \<open>Tables\<close>

record tenant_row =
  tn_id :: string
  tn_legalName :: string
  tn_home :: string
  tn_region :: string
  tn_status :: string

record template_requirement =
  tq_template :: string
  tq_code :: string
  tq_role :: string
  tq_description :: string
  tq_mandatory :: bool

record institution_row =
  iu_id :: string
  iu_legalName :: string
  iu_jurisdiction :: string
  iu_status :: string
  iu_pem :: string

record membership =
  mm_tenant :: string
  mm_institution :: string
  mm_status :: string
  mm_reference :: "string option"

record catalog_product =
  gp_id :: string
  gp_name :: string
  gp_jurisdiction :: string
  gp_issuer :: string
  gp_currency :: string
  gp_status :: string
  gp_ruleVersion :: int
  gp_rules :: "(string, json) jsmap"
  gp_version :: nat

record configuration =
  fg_product :: string
  fg_tenant :: string
  fg_template :: string
  fg_status :: string
  fg_version :: int
  fg_createdBy :: string

record role_assignment =
  rg_product :: string
  rg_role :: string
  rg_institution :: string
  rg_active :: bool   \<comment> \<open>\<open>ended_at IS NULL\<close>\<close>

record requirement =
  rr_product :: string
  rr_code :: string
  rr_role :: string
  rr_description :: string
  rr_mandatory :: bool
  rr_status :: string
  rr_evidence :: "string option"

record activation_evidence =
  ve_id :: string
  ve_product :: string
  ve_requirement :: string
  ve_source :: string
  ve_schema :: string
  ve_content :: string
  ve_signature :: string
  ve_issuedAt :: int
  ve_expiresAt :: int
  ve_receivedBy :: string
  ve_key :: string
  ve_hash :: string
  ve_status :: string
  ve_verifier :: string
  ve_verifiedAt :: int

record review_row =
  wr_tenant :: string
  wr_institution :: string
  wr_round :: nat
  wr_role :: string
  wr_actor :: string
  wr_decision :: string
  wr_reason :: string

record activation_row =
  wa_product :: string
  wa_round :: nat
  wa_role :: string
  wa_actor :: string
  wa_decision :: string
  wa_reason :: string

record snapshot_row =
  sx_tenant :: string
  sx_product :: string
  sx_version :: int
  sx_event :: string
  sx_actor :: string
  sx_snapshot :: json
  sx_hash :: string

record catalog_db =
  ct_store :: db
  ct_tenants :: "tenant_row list"
  ct_templates :: "template_row list"
  ct_templateRequirements :: "template_requirement list"
  ct_institutions :: "institution_row list"
  ct_memberships :: "membership list"
  ct_keys :: "signing_key list"
  ct_products :: "catalog_product list"
  ct_configurations :: "configuration list"
  ct_roles :: "role_assignment list"
  ct_requirements :: "requirement list"
  ct_evidence :: "activation_evidence list"
  ct_reviews :: "review_row list"
  ct_activations :: "activation_row list"
  ct_snapshots :: "snapshot_row list"

definition inCatalog :: "(db, 'a) eff \<Rightarrow> (catalog_db, 'a) eff" where
  \<comment> \<open>an operation of the store on the same client\<close>
  "inCatalog m = (\<lambda>s. case m (ct_store s) of (r, t) \<Rightarrow> (r, s\<lparr>ct_store := t\<rparr>))"

definition check_violation :: js_error where
  "check_violation = Coded ''23514''"

definition latest_by :: "('r \<Rightarrow> nat) \<Rightarrow> 'r list \<Rightarrow> 'r option" where
  \<comment> \<open>\<open>ORDER BY key DESC LIMIT 1\<close>\<close>
  "latest_by key rows = find (\<lambda>r. list_all (\<lambda>x. key x \<le> key r) rows) rows"

section \<open>What the operations share\<close>

definition catalog_audit :: "catalog_service \<Rightarrow> string \<Rightarrow> string \<Rightarrow> string \<Rightarrow> string \<Rightarrow> json \<Rightarrow> (catalog_db, unit) eff" where
  "catalog_audit h tenant event aggType aggId metadata =
     thenE (inCatalog (recordAuditEvent (sv_sha h) \<lparr>ae_tenant = tenant, ae_event = event, ae_aggType = aggType, ae_aggId = aggId,
       ae_metadata = metadata\<rparr>)) (retE ())"

definition catalog_record :: "catalog_service \<Rightarrow> string \<Rightarrow> string \<Rightarrow> string \<Rightarrow> string \<Rightarrow> json \<Rightarrow> (catalog_db, unit) eff" where
  "catalog_record h tenant event aggType aggId metadata =
     thenE (catalog_audit h tenant event aggType aggId metadata)
    (thenE (inCatalog (enqueueOutbox (sv_sha h) (sv_clock h) (sv_eventId h) tenant (''rwa.'' @ event) aggId metadata None)) (retE ()))"

definition catalog_tenant :: "string \<Rightarrow> (catalog_db, tenant_row) eff" where
  "catalog_tenant tenant = withE (\<lambda>s.
     thenE (liftE (requireString 3 63 (slug_text 62) (JStr tenant)))
    (bindE (optE (find (\<lambda>t. tn_id t = tenant) (ct_tenants s)) (Coded ''UNKNOWN_TENANT'')) (\<lambda>row.
     thenE (ensureE (tn_status row \<in> {''ONBOARDING'', ''ACTIVE''}) ''TENANT_NOT_ACTIVE'') (retE row))))"

definition institution_approved :: "catalog_db \<Rightarrow> string \<Rightarrow> string \<Rightarrow> bool" where
  "institution_approved s tenant institution =
     (list_ex (\<lambda>m. mm_tenant m = tenant \<and> mm_institution m = institution \<and> mm_status m = ''APPROVED'') (ct_memberships s)
      \<and> list_ex (\<lambda>i. iu_id i = institution \<and> iu_status i = ''ACTIVE'') (ct_institutions s))"

definition approvedInstitution :: "string \<Rightarrow> string \<Rightarrow> (catalog_db, unit) eff" where
  "approvedInstitution tenant institution =
     withE (\<lambda>s. ensureE (institution_approved s tenant institution) ''INSTITUTION_NOT_APPROVED'')"

definition find_product :: "catalog_db \<Rightarrow> string \<Rightarrow> string \<Rightarrow> (catalog_product \<times> configuration \<times> template_row) option" where
  \<comment> \<open>the join of the configuration, the product and the template\<close>
  "find_product s tenant product =
     Option.bind (find (\<lambda>c. fg_tenant c = tenant \<and> fg_product c = product) (ct_configurations s)) (\<lambda>c.
     Option.bind (find (\<lambda>p. gp_id p = product) (ct_products s)) (\<lambda>p.
     map_option (\<lambda>t. (p, c, t)) (find (\<lambda>t. tm_id t = fg_template c) (ct_templates s))))"

definition catalog_product_of :: "string \<Rightarrow> string \<Rightarrow> (catalog_db, catalog_product \<times> configuration \<times> template_row) eff" where
  "catalog_product_of tenant product = withE (\<lambda>s. optE (find_product s tenant product) (Coded ''UNKNOWN_PRODUCT''))"

definition assigned_roles :: "catalog_db \<Rightarrow> string \<Rightarrow> string list" where
  "assigned_roles s product = map rg_role (filter (\<lambda>r. rg_product r = product \<and> rg_active r) (ct_roles s))"

definition approved_roles :: "catalog_db \<Rightarrow> string \<Rightarrow> string \<Rightarrow> string list" where
  "approved_roles s tenant product = map rg_role (filter (\<lambda>r. rg_product r = product \<and> rg_active r
     \<and> institution_approved s tenant (rg_institution r)) (ct_roles s))"

definition key_unfit :: "int \<Rightarrow> signing_key \<Rightarrow> bool" where
  "key_unfit issuedAt k = (sk_status k \<noteq> ''ACTIVE'' \<or> sk_revoked k \<or> issuedAt < sk_from k
     \<or> (case sk_until k of None \<Rightarrow> False | Some u \<Rightarrow> u \<le> issuedAt))"

definition requirement_missing :: "catalog_db \<Rightarrow> int \<Rightarrow> requirement \<Rightarrow> bool" where
  "requirement_missing s clock r = (rr_mandatory r \<and> (rr_status r \<noteq> ''SATISFIED'' \<or>
     (case Option.bind (rr_evidence r) (\<lambda>i. find (\<lambda>e. ve_id e = i) (ct_evidence s)) of
       None \<Rightarrow> True
     | Some e \<Rightarrow> ve_expiresAt e \<le> clock \<or> ve_status e \<noteq> ''VERIFIED'' \<or>
         (case find (\<lambda>k. sk_institution k = ve_source e \<and> sk_key k = ve_key e) (ct_keys s) of
           None \<Rightarrow> False | Some k \<Rightarrow> key_unfit (ve_issuedAt e) k))))"

definition assertActivationReady :: "catalog_service \<Rightarrow> string \<Rightarrow> string \<Rightarrow> string list \<Rightarrow> (catalog_db, unit) eff" where
  "assertActivationReady h tenant product required = withE (\<lambda>s.
     thenE (ensureE (list_all (\<lambda>role. role \<in> set (approved_roles s tenant product)) required) ''ACTIVATION_ROLE_NOT_APPROVED'')
    (ensureE (\<not> list_ex (\<lambda>r. rr_product r = product \<and> requirement_missing s (sv_clock h) r) (ct_requirements s))
       ''ACTIVATION_EVIDENCE_INCOMPLETE''))"

definition set_configuration :: "string \<Rightarrow> (configuration \<Rightarrow> configuration) \<Rightarrow> (catalog_db, unit) eff" where
  \<comment> \<open>an update of the configuration, which counts its versions\<close>
  "set_configuration product f = modifyE (\<lambda>s. s\<lparr>ct_configurations := update_where (\<lambda>c. fg_product c = product)
     (\<lambda>c. (f c)\<lparr>fg_version := fg_version c + 1\<rparr>) (ct_configurations s)\<rparr>)"

definition catalog_snapshot_json :: "catalog_db \<Rightarrow> catalog_product \<Rightarrow> configuration \<Rightarrow> json" where
  "catalog_snapshot_json s p c =
     (let roles = sort_key fst (map (\<lambda>r. (rg_role r, JStr (rg_institution r)))
            (filter (\<lambda>r. rg_product r = gp_id p \<and> rg_active r) (ct_roles s)));
          requirements = sort_key rr_code (filter (\<lambda>r. rr_product r = gp_id p) (ct_requirements s)) in
      JObj [(''product'', JObj [(''id'', JStr (gp_id p)), (''name'', JStr (gp_name p)), (''jurisdiction'', JStr (gp_jurisdiction p)),
          (''issuerId'', JStr (gp_issuer p)), (''currency'', JStr (gp_currency p)), (''status'', JStr (gp_status p)),
          (''ruleVersion'', JNum (gp_ruleVersion p)), (''rules'', JObj (gp_rules p))]),
        (''configuration'', JObj [(''templateId'', JStr (fg_template c)), (''status'', JStr (fg_status c)), (''version'', JNum (fg_version c))]),
        (''roles'', JObj (foldl (\<lambda>m (k, v). jm_set k v m) [] roles)),
        (''requirements'', JArr (map (\<lambda>r. JObj [(''code'', JStr (rr_code r)), (''responsibleRole'', JStr (rr_role r)),
          (''mandatory'', JBool (rr_mandatory r)), (''status'', JStr (rr_status r)), (''evidenceId'', nullable (rr_evidence r))]) requirements))])"

definition catalog_snapshot :: "catalog_service \<Rightarrow> string \<Rightarrow> string \<Rightarrow> string \<Rightarrow> string \<Rightarrow> (catalog_db, unit) eff" where
  "catalog_snapshot h tenant product actorRef event = withE (\<lambda>s.
     case (find (\<lambda>p. gp_id p = product) (ct_products s), find (\<lambda>c. fg_product c = product \<and> fg_tenant c = tenant) (ct_configurations s)) of
       (Some p, Some c) \<Rightarrow>
         if \<exists>x \<in> set (ct_snapshots s). sx_product x = product \<and> sx_version x = fg_version c then retE ()
         else modifyE (\<lambda>s. s\<lparr>ct_snapshots := ct_snapshots s @ [\<lparr>sx_tenant = tenant, sx_product = product, sx_version = fg_version c,
           sx_event = event, sx_actor = actorRef, sx_snapshot = catalog_snapshot_json s p c, sx_hash = sha256Canonical (sv_sha h) (catalog_snapshot_json s p c)\<rparr>]\<rparr>)
     | _ \<Rightarrow> throwE (Coded ''UNKNOWN_PRODUCT''))"

section \<open>Tenants and institutions\<close>

definition provisionTenant :: "catalog_service \<Rightarrow> (nat \<Rightarrow> unit outcome) \<Rightarrow> json \<Rightarrow> string \<Rightarrow> (catalog_db, tenant_input) eff" where
  "provisionTenant h commit input actorRef =
     bindE (liftE (validateTenantInput input)) (\<lambda>t. withSerializableTransaction 3 commit (withE (\<lambda>s.
     thenE (ensureE (ni_id t \<notin> tn_id ` set (ct_tenants s)) ''TENANT_ALREADY_EXISTS'')
    (thenE (modifyE (\<lambda>s. s\<lparr>ct_tenants := ct_tenants s @ [\<lparr>tn_id = ni_id t, tn_legalName = ni_legalName t, tn_home = ni_home t,
       tn_region = ni_region t, tn_status = ''ONBOARDING''\<rparr>]\<rparr>))
    (thenE (catalog_audit h (ni_id t) ''tenant.provisioned'' ''tenant'' (ni_id t)
       (JObj [(''actorRef'', JStr actorRef), (''homeJurisdiction'', JStr (ni_home t)), (''dataRegion'', JStr (ni_region t))]))
    (retE t))))))"

definition primary_key :: "catalog_service \<Rightarrow> institution_input \<Rightarrow> signing_key" where
  \<comment> \<open>the key that the trigger on \<open>rwa.institutions\<close> registers\<close>
  "primary_key h i = \<lparr>sk_institution = ui_id i, sk_key = DEFAULT_CALLBACK_KEY_ID, sk_algorithm = ''Ed25519'', sk_pem = ui_pem i,
     sk_status = ''ACTIVE'', sk_from = sv_clock h, sk_until = None, sk_revoked = False\<rparr>"

definition add_institution :: "catalog_service \<Rightarrow> string \<Rightarrow> institution_input \<Rightarrow> catalog_db \<Rightarrow> catalog_db" where
  "add_institution h tenant i s =
     s\<lparr>ct_institutions := ct_institutions s @ [\<lparr>iu_id = ui_id i, iu_legalName = ui_legalName i, iu_jurisdiction = ui_jurisdiction i,
         iu_status = ''ACTIVE'', iu_pem = ui_pem i\<rparr>],
       ct_keys := (if \<exists>k \<in> set (ct_keys s). sk_institution k = ui_id i \<and> sk_key k = DEFAULT_CALLBACK_KEY_ID then ct_keys s
         else ct_keys s @ [primary_key h i]),
       ct_memberships := ct_memberships s @ [\<lparr>mm_tenant = tenant, mm_institution = ui_id i, mm_status = ''DUE_DILIGENCE'',
         mm_reference = ui_reference i\<rparr>]\<rparr>"

definition register_in :: "catalog_service \<Rightarrow> string \<Rightarrow> string \<Rightarrow> institution_input \<Rightarrow> (catalog_db, institution_input) eff" where
  "register_in h tenant actorRef i =
     thenE (catalog_tenant tenant) (withE (\<lambda>s.
     thenE (ensureE (ui_id i \<notin> iu_id ` set (ct_institutions s)) ''INSTITUTION_ALREADY_EXISTS'')
    (thenE (modifyE (add_institution h tenant i))
    (thenE (catalog_audit h tenant ''institution.registered'' ''institution'' (ui_id i)
       (JObj [(''actorRef'', JStr actorRef), (''jurisdiction'', JStr (ui_jurisdiction i)), (''onboardingStatus'', JStr ''DUE_DILIGENCE'')]))
    (retE i)))))"

definition catalog_registerInstitution :: "catalog_service \<Rightarrow> (nat \<Rightarrow> unit outcome) \<Rightarrow> string \<Rightarrow> string \<Rightarrow> json \<Rightarrow> (catalog_db, institution_input) eff" where
  "catalog_registerInstitution h commit tenant actorRef input =
     bindE (liftE (validateInstitutionInput h input)) (\<lambda>i. withSerializableTransaction 3 commit (register_in h tenant actorRef i))"

definition nullable_date :: "catalog_service \<Rightarrow> int option \<Rightarrow> json" where
  "nullable_date h d = (case d of None \<Rightarrow> JNull | Some t \<Rightarrow> JStr (ey_iso (sv_crypto h) t))"

definition register_key_in :: "catalog_service \<Rightarrow> string \<Rightarrow> string \<Rightarrow> string \<Rightarrow> signing_key \<Rightarrow> (catalog_db, signing_key) eff" where
  "register_key_in h tenant actorRef institution k =
     thenE (approvedInstitution tenant institution) (withE (\<lambda>s.
     thenE (ensureE (\<not> (\<exists>x \<in> set (ct_keys s). sk_institution x = institution \<and> sk_key x = sk_key k)) ''SIGNING_KEY_ALREADY_EXISTS'')
    (thenE (modifyE (\<lambda>s. s\<lparr>ct_keys := ct_keys s @ [k]\<rparr>))
    (thenE (catalog_record h tenant ''institution.signing_key_registered'' ''institution'' institution
       (JObj [(''actorRef'', JStr actorRef), (''keyId'', JStr (sk_key k)), (''algorithm'', JStr (sk_algorithm k)),
          (''validFrom'', JStr (ey_iso (sv_crypto h) (sk_from k))), (''validUntil'', nullable_date h (sk_until k))]))
    (retE k)))))"

definition registerInstitutionSigningKey ::
  "catalog_service \<Rightarrow> (nat \<Rightarrow> unit outcome) \<Rightarrow> string \<Rightarrow> string \<Rightarrow> string \<Rightarrow> json \<Rightarrow> (catalog_db, signing_key) eff" where
  "registerInstitutionSigningKey h commit tenant actorRef institution input =
     thenE (liftE (requireString 3 100 (slug_text 99) (JStr institution)))
    (bindE (liftE (signingKeyInput h institution input)) (\<lambda>k. withSerializableTransaction 3 commit (register_key_in h tenant actorRef institution k)))"

end
