(* ===== verification/CatalogWorkflow.thy ===== *)
theory CatalogWorkflow
  imports ProductCatalog
begin

text \<open>
  The workflows of \<open>ProductCatalogService\<close> over the tables of \<open>ProductCatalog\<close>: revoking a key, drafting
  a product, assigning its roles, reviewing an institution, attaching evidence and activating a product.
\<close>

section \<open>Revoking a key\<close>

definition revoke_row :: "int \<Rightarrow> signing_key \<Rightarrow> signing_key" where
  \<comment> \<open>\<open>valid_until = LEAST(COALESCE(valid_until, $3), $3)\<close>\<close>
  "revoke_row at k = k\<lparr>sk_status := ''REVOKED'', sk_revoked := True,
     sk_until := Some (case sk_until k of None \<Rightarrow> at | Some u \<Rightarrow> min u at)\<rparr>"

definition invalidate_requirements :: "string \<Rightarrow> string \<Rightarrow> catalog_db \<Rightarrow> catalog_db" where
  "invalidate_requirements institution keyId s = s\<lparr>ct_requirements := update_where
     (\<lambda>r. \<exists>e \<in> set (ct_evidence s). rr_evidence r = Some (ve_id e) \<and> ve_source e = institution \<and> ve_key e = keyId)
     (\<lambda>r. r\<lparr>rr_status := ''MISSING'', rr_evidence := None\<rparr>) (ct_requirements s)\<rparr>"

definition suspend_configurations :: "catalog_db \<Rightarrow> catalog_db" where
  "suspend_configurations s = s\<lparr>ct_configurations := update_where
     (\<lambda>c. fg_status c = ''ACTIVE'' \<and> (\<exists>r \<in> set (ct_requirements s). rr_product r = fg_product c \<and> rr_mandatory r \<and> rr_status r \<noteq> ''SATISFIED''))
     (\<lambda>c. c\<lparr>fg_status := ''SUSPENDED'', fg_version := fg_version c + 1\<rparr>) (ct_configurations s)\<rparr>"

definition pause_products :: "catalog_db \<Rightarrow> catalog_db" where
  "pause_products s = s\<lparr>ct_products := update_where
     (\<lambda>p. gp_status p = ''ACTIVE'' \<and> (\<exists>c \<in> set (ct_configurations s). fg_product c = gp_id p \<and> fg_status c = ''SUSPENDED''))
     (\<lambda>p. p\<lparr>gp_status := ''PAUSED'', gp_version := gp_version p + 1\<rparr>) (ct_products s)\<rparr>"

definition invalidate_evidence_for :: "string \<Rightarrow> string \<Rightarrow> catalog_db \<Rightarrow> catalog_db" where
  \<comment> \<open>the trigger on a key that is no longer active\<close>
  "invalidate_evidence_for institution keyId s = pause_products (suspend_configurations (invalidate_requirements institution keyId s))"

definition revoke_key :: "string \<Rightarrow> string \<Rightarrow> int \<Rightarrow> (catalog_db, unit) eff" where
  \<comment> \<open>the update of the active key, under the constraint that a key ends after it begins\<close>
  "revoke_key institution keyId at = withE (\<lambda>s.
     case find (\<lambda>k. sk_institution k = institution \<and> sk_key k = keyId \<and> sk_status k = ''ACTIVE'') (ct_keys s) of
       None \<Rightarrow> throwE (Coded ''SIGNING_KEY_NOT_ACTIVE'')
     | Some k \<Rightarrow>
         if the (sk_until (revoke_row at k)) \<le> sk_from k then throwE check_violation
         else modifyE (\<lambda>s. invalidate_evidence_for institution keyId
           (s\<lparr>ct_keys := update_where (\<lambda>k. sk_institution k = institution \<and> sk_key k = keyId \<and> sk_status k = ''ACTIVE'') (revoke_row at) (ct_keys s)\<rparr>)))"

definition revoke_in :: "catalog_service \<Rightarrow> string \<Rightarrow> string \<Rightarrow> string \<Rightarrow> string \<Rightarrow> string \<Rightarrow> (catalog_db, unit) eff" where
  "revoke_in h tenant actorRef institution keyId reason = withE (\<lambda>s.
     thenE (ensureE (\<exists>m \<in> set (ct_memberships s). mm_tenant m = tenant \<and> mm_institution m = institution) ''UNKNOWN_TENANT_INSTITUTION'')
    (thenE (revoke_key institution keyId (sv_now h))
    (catalog_record h tenant ''institution.signing_key_revoked'' ''institution'' institution
       (JObj [(''actorRef'', JStr actorRef), (''keyId'', JStr keyId), (''reason'', JStr reason),
          (''revokedAt'', JStr (ey_iso (sv_crypto h) (sv_now h)))]))))"

definition revokeInstitutionSigningKey ::
  "catalog_service \<Rightarrow> (nat \<Rightarrow> unit outcome) \<Rightarrow> string \<Rightarrow> string \<Rightarrow> string \<Rightarrow> string \<Rightarrow> json \<Rightarrow> (catalog_db, unit) eff" where
  "revokeInstitutionSigningKey h commit tenant actorRef institution keyId reason =
     thenE (liftE (requireString 3 100 (slug_text 99) (JStr institution)))
    (thenE (liftE (requireString 1 128 (id_text ''._:-'' 127) (JStr keyId)))
    (bindE (liftE (requireString 3 1000 any_text reason)) (\<lambda>boundedReason.
     withSerializableTransaction 3 commit (revoke_in h tenant actorRef institution keyId boundedReason))))"

section \<open>Draft products\<close>

definition add_product :: "string \<Rightarrow> string \<Rightarrow> product_input \<Rightarrow> catalog_db \<Rightarrow> catalog_db" where
  "add_product tenant actorRef p s =
     s\<lparr>ct_products := ct_products s @ [\<lparr>gp_id = xi_id p, gp_name = xi_name p, gp_jurisdiction = xi_jurisdiction p, gp_issuer = xi_issuer p,
         gp_currency = xi_currency p, gp_status = ''DRAFT'', gp_ruleVersion = 1, gp_rules = xi_rules p, gp_version = 0\<rparr>],
       ct_configurations := ct_configurations s @ [\<lparr>fg_product = xi_id p, fg_tenant = tenant, fg_template = xi_template p,
         fg_status = ''ROLES_PENDING'', fg_version = 1, fg_createdBy = actorRef\<rparr>],
       ct_roles := ct_roles s @ [\<lparr>rg_product = xi_id p, rg_role = ''issuer'', rg_institution = xi_issuer p, rg_active = True\<rparr>],
       ct_requirements := ct_requirements s @ map (\<lambda>q. \<lparr>rr_product = xi_id p, rr_code = tq_code q, rr_role = tq_role q,
         rr_description = tq_description q, rr_mandatory = tq_mandatory q, rr_status = ''MISSING'', rr_evidence = None\<rparr>)
         (filter (\<lambda>q. tq_template q = xi_template p) (ct_templateRequirements s))\<rparr>"

definition create_in :: "catalog_service \<Rightarrow> string \<Rightarrow> string \<Rightarrow> json \<Rightarrow> (catalog_db, product_input) eff" where
  "create_in h tenant actorRef input =
     thenE (catalog_tenant tenant) (withE (\<lambda>s.
     bindE (liftE (validateProductInput input (find (\<lambda>t. JStr (tm_id t) = jfield input ''templateId'') (ct_templates s)))) (\<lambda>p.
     thenE (approvedInstitution tenant (xi_issuer p))
    (thenE (ensureE (xi_id p \<notin> gp_id ` set (ct_products s)) ''PRODUCT_ALREADY_EXISTS'')
    (thenE (modifyE (add_product tenant actorRef p))
    (thenE (catalog_audit h tenant ''product.draft_created'' ''product'' (xi_id p)
       (JObj [(''actorRef'', JStr actorRef), (''templateId'', JStr (xi_template p)), (''jurisdiction'', JStr (xi_jurisdiction p)),
          (''currency'', JStr (xi_currency p))]))
    (thenE (catalog_snapshot h tenant (xi_id p) actorRef ''product.draft_created'')
    (retE p))))))))"

definition catalog_createProduct :: "catalog_service \<Rightarrow> (nat \<Rightarrow> unit outcome) \<Rightarrow> string \<Rightarrow> string \<Rightarrow> json \<Rightarrow> (catalog_db, product_input) eff" where
  "catalog_createProduct h commit tenant actorRef input = withSerializableTransaction 3 commit (create_in h tenant actorRef input)"

definition assign :: "string \<Rightarrow> string \<Rightarrow> string \<Rightarrow> catalog_db \<Rightarrow> catalog_db" where
  "assign product role institution s = s\<lparr>ct_roles :=
     update_where (\<lambda>r. rg_product r = product \<and> rg_role r = role \<and> rg_active r) (\<lambda>r. r\<lparr>rg_active := False\<rparr>) (ct_roles s)
     @ [\<lparr>rg_product = product, rg_role = role, rg_institution = institution, rg_active = True\<rparr>]\<rparr>"

definition refreshConfigurationStatus :: "string \<Rightarrow> string list \<Rightarrow> (catalog_db, string) eff" where
  "refreshConfigurationStatus product required = withE (\<lambda>s.
     let status = (if list_all (\<lambda>role. role \<in> set (assigned_roles s product)) required then ''READY_FOR_EVIDENCE'' else ''ROLES_PENDING'') in
     thenE (set_configuration product (\<lambda>c. c\<lparr>fg_status := status\<rparr>)) (retE status))"

definition assign_in :: "catalog_service \<Rightarrow> string \<Rightarrow> string \<Rightarrow> string \<Rightarrow> string \<Rightarrow> string \<Rightarrow> (catalog_db, string) eff" where
  "assign_in h tenant actorRef product role institution =
     bindE (catalog_product_of tenant product) (\<lambda>(p, c, t).
     thenE (ensureE (gp_status p = ''DRAFT'') ''PRODUCT_CONFIGURATION_LOCKED'')
    (thenE (approvedInstitution tenant institution)
    (thenE (ensureE (role \<in> set (tm_roles t)) ''ROLE_NOT_REQUIRED_BY_TEMPLATE'')
    (thenE (modifyE (assign product role institution))
    (bindE (refreshConfigurationStatus product (tm_roles t)) (\<lambda>status.
     thenE (catalog_audit h tenant ''product.role_assigned'' ''product'' product
       (JObj [(''actorRef'', JStr actorRef), (''role'', JStr role), (''institutionId'', JStr institution), (''configurationStatus'', JStr status)]))
    (thenE (catalog_snapshot h tenant product actorRef ''product.role_assigned'')
    (retE status))))))))"

definition assignRole ::
  "catalog_service \<Rightarrow> (nat \<Rightarrow> unit outcome) \<Rightarrow> string \<Rightarrow> string \<Rightarrow> string \<Rightarrow> string \<Rightarrow> string \<Rightarrow> (catalog_db, string) eff" where
  "assignRole h commit tenant actorRef product role institution =
     thenE (liftE (requireString 3 100 (slug_text 99) (JStr product)))
    (thenE (liftE (requireString 3 100 (slug_text 99) (JStr institution)))
    (thenE (ensureE (role \<in> set ROLE) ''INVALID_PRODUCT_ROLE'')
    (withSerializableTransaction 3 commit (assign_in h tenant actorRef product role institution))))"

section \<open>Reviewing an institution\<close>

definition reviews_of :: "catalog_db \<Rightarrow> string \<Rightarrow> string \<Rightarrow> review_row list" where
  "reviews_of s tenant institution = filter (\<lambda>r. wr_tenant r = tenant \<and> wr_institution r = institution) (ct_reviews s)"

definition open_reviews :: "catalog_db \<Rightarrow> string \<Rightarrow> string \<Rightarrow> review_row list" where
  \<comment> \<open>the proposals of a maker that no checker has decided\<close>
  "open_reviews s tenant institution = filter (\<lambda>m. wr_role m = ''MAKER''
     \<and> \<not> (\<exists>c \<in> set (reviews_of s tenant institution). wr_round c = wr_round m \<and> wr_role c = ''CHECKER'')) (reviews_of s tenant institution)"

definition in_due_diligence :: "string \<Rightarrow> string \<Rightarrow> (catalog_db, unit) eff" where
  "in_due_diligence tenant institution = withE (\<lambda>s. ensureE
     (map mm_status (filter (\<lambda>m. mm_tenant m = tenant \<and> mm_institution m = institution) (ct_memberships s)) = [''DUE_DILIGENCE'']) ''INSTITUTION_NOT_REVIEWABLE'')"

definition add_review :: "string \<Rightarrow> string \<Rightarrow> nat \<Rightarrow> string \<Rightarrow> string \<Rightarrow> string \<Rightarrow> string \<Rightarrow> (catalog_db, unit) eff" where
  "add_review tenant institution n role actorRef decision reason = withE (\<lambda>s.
     insert_row (\<exists>r \<in> set (ct_reviews s). wr_tenant r = tenant \<and> wr_institution r = institution \<and> wr_round r = n \<and> wr_role r = role)
       (\<lambda>s. s\<lparr>ct_reviews := ct_reviews s @ [\<lparr>wr_tenant = tenant, wr_institution = institution, wr_round = n, wr_role = role,
          wr_actor = actorRef, wr_decision = decision, wr_reason = reason\<rparr>]\<rparr>))"

definition last_round :: "nat list \<Rightarrow> nat" where
  \<comment> \<open>\<open>COALESCE(max(approval_round), 0)\<close>\<close>
  "last_round rounds = fold max rounds 0"

definition propose_review_in :: "catalog_service \<Rightarrow> string \<Rightarrow> string \<Rightarrow> string \<Rightarrow> string \<Rightarrow> string \<Rightarrow> (catalog_db, nat \<times> string) eff" where
  "propose_review_in h tenant actorRef institution decision reason =
     thenE (catalog_tenant tenant)
    (thenE (in_due_diligence tenant institution) (withE (\<lambda>s.
     let rows = reviews_of s tenant institution; lastRound = last_round (map wr_round rows);
         pending = (0 < lastRound \<and> \<not> (\<exists>c \<in> set rows. wr_round c = lastRound \<and> wr_role c = ''CHECKER'')) in
     thenE (ensureE (\<not> pending) ''INSTITUTION_REVIEW_PENDING'')
    (thenE (add_review tenant institution (lastRound + 1) ''MAKER'' actorRef decision reason)
    (thenE (catalog_record h tenant ''institution.review_proposed'' ''institution'' institution
       (JObj [(''actorRef'', JStr actorRef), (''round'', JNum (int (lastRound + 1))), (''decision'', JStr decision), (''reason'', JStr reason)]))
    (retE (lastRound + 1, decision)))))))"

definition proposeInstitutionReview ::
  "catalog_service \<Rightarrow> (nat \<Rightarrow> unit outcome) \<Rightarrow> string \<Rightarrow> string \<Rightarrow> string \<Rightarrow> json \<Rightarrow> (catalog_db, nat \<times> string) eff" where
  "proposeInstitutionReview h commit tenant actorRef institution input =
     thenE (liftE (requireString 3 100 (slug_text 99) (JStr institution)))
    (bindE (liftE (reviewInput input)) (\<lambda>(decision, reason).
     withSerializableTransaction 3 commit (propose_review_in h tenant actorRef institution decision reason)))"

definition set_onboarding :: "string \<Rightarrow> string \<Rightarrow> string \<Rightarrow> (catalog_db, unit) eff" where
  "set_onboarding tenant institution state = modifyE (\<lambda>s. s\<lparr>ct_memberships :=
     update_where (\<lambda>m. mm_tenant m = tenant \<and> mm_institution m = institution) (\<lambda>m. m\<lparr>mm_status := state\<rparr>) (ct_memberships s)\<rparr>)"

definition decide_review_in :: "catalog_service \<Rightarrow> string \<Rightarrow> string \<Rightarrow> string \<Rightarrow> string \<Rightarrow> string \<Rightarrow> (catalog_db, nat \<times> string) eff" where
  "decide_review_in h tenant actorRef institution decision reason =
     thenE (in_due_diligence tenant institution) (withE (\<lambda>s.
     bindE (optE (latest_by wr_round (open_reviews s tenant institution)) (Coded ''INSTITUTION_REVIEW_NOT_PENDING'')) (\<lambda>proposal.
     thenE (ensureE (wr_actor proposal \<noteq> actorRef) ''MAKER_CHECKER_CONFLICT'')
    (thenE (add_review tenant institution (wr_round proposal) ''CHECKER'' actorRef decision reason)
    (let state = (if decision = ''APPROVE'' then (if wr_decision proposal = ''APPROVE'' then ''APPROVED'' else ''REJECTED'') else ''DUE_DILIGENCE'') in
     thenE (if decision = ''APPROVE'' then set_onboarding tenant institution state else retE ())
    (thenE (catalog_record h tenant (if decision = ''APPROVE'' then ''institution.review_decided'' else ''institution.review_returned'')
       ''institution'' institution (JObj [(''actorRef'', JStr actorRef), (''round'', JNum (int (wr_round proposal))), (''checkerDecision'', JStr decision),
          (''makerDecision'', JStr (wr_decision proposal)), (''resultingState'', JStr state), (''reason'', JStr reason)]))
    (retE (wr_round proposal, state))))))))"

definition decideInstitutionReview ::
  "catalog_service \<Rightarrow> (nat \<Rightarrow> unit outcome) \<Rightarrow> string \<Rightarrow> string \<Rightarrow> string \<Rightarrow> json \<Rightarrow> (catalog_db, nat \<times> string) eff" where
  "decideInstitutionReview h commit tenant actorRef institution input =
     thenE (liftE (requireString 3 100 (slug_text 99) (JStr institution)))
    (bindE (liftE (reviewInput input)) (\<lambda>(decision, reason).
     withSerializableTransaction 3 commit (decide_review_in h tenant actorRef institution decision reason)))"

end
