(* ===== verification/CatalogActivation.thy ===== *)
theory CatalogActivation
  imports CatalogWorkflow
begin

text \<open>
  Activation in \<open>ProductCatalogService\<close>: evidence signed by the institution that a requirement names,
  the maker's proposal and the checker's decision, and the change of an active product's status, which is
  an operation of \<open>src/storage/durable-workflow-service.js\<close> on the same table.
\<close>

section \<open>Evidence\<close>

definition evidence_policy :: "catalog_service \<Rightarrow> evidence_input \<Rightarrow> unit outcome" where
  "evidence_policy h e = guards [
     (vi_envelope e \<noteq> PRODUCT_EVIDENCE_ENVELOPE, ''UNSUPPORTED_EVIDENCE_ENVELOPE''),
     (vi_algorithm e \<noteq> PRODUCT_EVIDENCE_ALGORITHM, ''UNSUPPORTED_EVIDENCE_ALGORITHM''),
     (sv_skew h < vi_issuedAt e - sv_now h, ''EVIDENCE_FROM_FUTURE''),
     (vi_expiresAt e \<le> sv_now h, ''EVIDENCE_EXPIRED''),
     (sv_validity h < vi_expiresAt e - vi_issuedAt e, ''EVIDENCE_VALIDITY_TOO_LONG'')]"

definition evidence_key_policy :: "evidence_input \<Rightarrow> signing_key \<Rightarrow> unit outcome" where
  "evidence_key_policy e k = guards [
     (sk_algorithm k \<noteq> vi_algorithm e \<or> sk_status k \<noteq> ''ACTIVE'' \<or> sk_revoked k, ''EVIDENCE_SIGNING_KEY_UNAVAILABLE''),
     (vi_issuedAt e < sk_from k \<or> (case sk_until k of None \<Rightarrow> False | Some u \<Rightarrow> u \<le> vi_issuedAt e), ''EVIDENCE_SIGNING_KEY_OUTSIDE_VALIDITY'')]"

definition signed_fields :: "string \<Rightarrow> string \<Rightarrow> evidence_input \<Rightarrow> evidence_fields" where
  "signed_fields tenant product e = \<lparr>ef_tenant = tenant, ef_product = product, ef_id = vi_id e, ef_requirement = vi_requirement e,
     ef_source = vi_source e, ef_schema = vi_schema e, ef_content = vi_content e, ef_issuedAt = vi_issuedAt e, ef_expiresAt = vi_expiresAt e,
     ef_key = vi_key e\<rparr>"

definition attached_row :: "catalog_service \<Rightarrow> string \<Rightarrow> string \<Rightarrow> evidence_input \<Rightarrow> string \<Rightarrow> string \<Rightarrow> activation_evidence" where
  "attached_row h product actorRef e payloadHash version = \<lparr>ve_id = vi_id e, ve_product = product, ve_requirement = vi_requirement e,
     ve_source = vi_source e, ve_schema = vi_schema e, ve_content = vi_content e, ve_signature = vi_signature e, ve_issuedAt = vi_issuedAt e,
     ve_expiresAt = vi_expiresAt e, ve_receivedBy = actorRef, ve_key = vi_key e, ve_hash = payloadHash, ve_status = ''VERIFIED'',
     ve_verifier = version, ve_verifiedAt = sv_now h\<rparr>"

definition evidence_source :: "string \<Rightarrow> string \<Rightarrow> evidence_input \<Rightarrow> (catalog_db, signing_key) eff" where
  \<comment> \<open>the requirement, the role of the source and its key\<close>
  "evidence_source tenant product e = withE (\<lambda>s.
     bindE (optE (find (\<lambda>r. rr_product r = product \<and> rr_code r = vi_requirement e) (ct_requirements s)) (Coded ''UNKNOWN_EVIDENCE_REQUIREMENT'')) (\<lambda>r.
     thenE (approvedInstitution tenant (vi_source e))
    (thenE (ensureE (\<exists>a \<in> set (ct_roles s). rg_product a = product \<and> rg_role a = rr_role r \<and> rg_institution a = vi_source e \<and> rg_active a)
       ''EVIDENCE_SOURCE_ROLE_MISMATCH'')
    (optE (find (\<lambda>k. sk_institution k = vi_source e \<and> sk_key k = vi_key e) (ct_keys s)) (Coded ''UNKNOWN_EVIDENCE_SIGNING_KEY'')))))"

definition add_evidence :: "activation_evidence \<Rightarrow> (catalog_db, unit) eff" where
  "add_evidence row = withE (\<lambda>s. insert_row (ve_id row \<in> ve_id ` set (ct_evidence s)) (\<lambda>s. s\<lparr>ct_evidence := ct_evidence s @ [row]\<rparr>))"

definition satisfy :: "string \<Rightarrow> string \<Rightarrow> string \<Rightarrow> (catalog_db, unit) eff" where
  "satisfy product code evidence = modifyE (\<lambda>s. s\<lparr>ct_requirements := update_where (\<lambda>r. rr_product r = product \<and> rr_code r = code)
     (\<lambda>r. r\<lparr>rr_status := ''SATISFIED'', rr_evidence := Some evidence\<rparr>) (ct_requirements s)\<rparr>)"

definition evidence_metadata :: "catalog_service \<Rightarrow> string \<Rightarrow> evidence_input \<Rightarrow> string \<Rightarrow> string \<Rightarrow> json" where
  "evidence_metadata h actorRef e payloadHash version = JObj [(''actorRef'', JStr actorRef), (''evidenceId'', JStr (vi_id e)),
     (''requirementCode'', JStr (vi_requirement e)), (''sourceInstitutionId'', JStr (vi_source e)), (''contentHash'', JStr (vi_content e)),
     (''expiresAt'', JStr (ey_iso (sv_crypto h) (vi_expiresAt e))), (''signingKeyId'', JStr (vi_key e)),
     (''signatureAlgorithm'', JStr (vi_algorithm e)), (''canonicalPayloadHash'', JStr payloadHash), (''verifierVersion'', JStr version)]"

definition attach_in :: "catalog_service \<Rightarrow> string \<Rightarrow> string \<Rightarrow> string \<Rightarrow> evidence_input \<Rightarrow> (catalog_db, string) eff" where
  \<comment> \<open>the transaction; its result is the hash of the signed payload\<close>
  "attach_in h tenant actorRef product e =
     bindE (catalog_product_of tenant product) (\<lambda>(p, c, t).
     thenE (ensureE (gp_status p = ''DRAFT'') ''PRODUCT_CONFIGURATION_LOCKED'')
    (bindE (evidence_source tenant product e) (\<lambda>k.
     thenE (liftE (evidence_key_policy e k))
    (bindE (liftE (verifyProductEvidenceSignature (sv_crypto h) (signed_fields tenant product e) (vi_signature e) (sk_pem k))) (\<lambda>(payload, payloadHash, version).
     thenE (add_evidence (attached_row h product actorRef e payloadHash version))
    (thenE (satisfy product (vi_requirement e) (vi_id e))
    (thenE (set_configuration product (\<lambda>c. c))
    (thenE (catalog_record h tenant ''product.activation_evidence_attached'' ''product'' product (evidence_metadata h actorRef e payloadHash version))
    (thenE (catalog_snapshot h tenant product actorRef ''product.activation_evidence_attached'')
    (retE payloadHash))))))))))"

definition attachActivationEvidence ::
  "catalog_service \<Rightarrow> (nat \<Rightarrow> unit outcome) \<Rightarrow> string \<Rightarrow> string \<Rightarrow> string \<Rightarrow> json \<Rightarrow> (catalog_db, string) eff" where
  "attachActivationEvidence h commit tenant actorRef product input =
     thenE (liftE (requireString 3 100 (slug_text 99) (JStr product)))
    (bindE (liftE (evidenceInput h input)) (\<lambda>e.
     thenE (liftE (evidence_policy h e))
    (withSerializableTransaction 3 commit (attach_in h tenant actorRef product e))))"

section \<open>Activation\<close>

definition activations_of :: "catalog_db \<Rightarrow> string \<Rightarrow> activation_row list" where
  "activations_of s product = filter (\<lambda>a. wa_product a = product) (ct_activations s)"

definition open_activations :: "catalog_db \<Rightarrow> string \<Rightarrow> activation_row list" where
  \<comment> \<open>the proposals of a maker that no checker has decided\<close>
  "open_activations s product = filter (\<lambda>m. wa_role m = ''MAKER''
     \<and> \<not> (\<exists>c \<in> set (activations_of s product). wa_round c = wa_round m \<and> wa_role c = ''CHECKER'')) (activations_of s product)"

definition add_activation :: "string \<Rightarrow> nat \<Rightarrow> string \<Rightarrow> string \<Rightarrow> string \<Rightarrow> string \<Rightarrow> (catalog_db, unit) eff" where
  "add_activation product n role actorRef decision reason = withE (\<lambda>s.
     insert_row (\<exists>a \<in> set (ct_activations s). wa_product a = product \<and> wa_round a = n \<and> wa_role a = role)
       (\<lambda>s. s\<lparr>ct_activations := ct_activations s @ [\<lparr>wa_product = product, wa_round = n, wa_role = role, wa_actor = actorRef,
          wa_decision = decision, wa_reason = reason\<rparr>]\<rparr>))"

definition propose_in :: "catalog_service \<Rightarrow> string \<Rightarrow> string \<Rightarrow> string \<Rightarrow> string \<Rightarrow> (catalog_db, nat) eff" where
  "propose_in h tenant actorRef product reason =
     bindE (catalog_product_of tenant product) (\<lambda>(p, c, t).
     thenE (ensureE (gp_status p = ''DRAFT'' \<and> fg_status c = ''READY_FOR_EVIDENCE'') ''PRODUCT_NOT_READY_FOR_ACTIVATION'')
    (thenE (assertActivationReady h tenant product (tm_roles t)) (withE (\<lambda>s.
     let n = last_round (map wa_round (activations_of s product)) + 1 in
     thenE (ensureE (open_activations s product = []) ''ACTIVATION_ALREADY_PENDING'')
    (thenE (add_activation product n ''MAKER'' actorRef ''ACTIVATE'' reason)
    (thenE (set_configuration product (\<lambda>c. c\<lparr>fg_status := ''ACTIVATION_PENDING''\<rparr>))
    (thenE (catalog_record h tenant ''product.activation_proposed'' ''product'' product
       (JObj [(''actorRef'', JStr actorRef), (''round'', JNum (int n)), (''reason'', JStr reason)]))
    (thenE (catalog_snapshot h tenant product actorRef ''product.activation_proposed'')
    (retE n)))))))))"

definition proposeActivation :: "catalog_service \<Rightarrow> (nat \<Rightarrow> unit outcome) \<Rightarrow> string \<Rightarrow> string \<Rightarrow> string \<Rightarrow> json \<Rightarrow> (catalog_db, nat) eff" where
  "proposeActivation h commit tenant actorRef product input =
     thenE (liftE (requireString 3 100 (slug_text 99) (JStr product)))
    (bindE (liftE (requireString 3 1000 any_text (jfield input ''reason''))) (\<lambda>reason.
     withSerializableTransaction 3 commit (propose_in h tenant actorRef product reason)))"

definition activate_product :: "string \<Rightarrow> (catalog_db, unit) eff" where
  "activate_product product = modifyE (\<lambda>s. s\<lparr>ct_products := update_where (\<lambda>p. gp_id p = product \<and> gp_status p = ''DRAFT'')
     (\<lambda>p. p\<lparr>gp_status := ''ACTIVE'', gp_version := gp_version p + 1\<rparr>) (ct_products s)\<rparr>)"

definition decide_in :: "catalog_service \<Rightarrow> string \<Rightarrow> string \<Rightarrow> string \<Rightarrow> string \<Rightarrow> string \<Rightarrow> (catalog_db, nat \<times> string) eff" where
  "decide_in h tenant actorRef product decision reason =
     bindE (catalog_product_of tenant product) (\<lambda>(p, c, t).
     thenE (ensureE (gp_status p = ''DRAFT'' \<and> fg_status c = ''ACTIVATION_PENDING'') ''ACTIVATION_NOT_PENDING'') (withE (\<lambda>s.
     bindE (optE (latest_by wa_round (open_activations s product)) (Coded ''ACTIVATION_NOT_PENDING'')) (\<lambda>maker.
     thenE (ensureE (wa_actor maker \<noteq> actorRef) ''MAKER_CHECKER_CONFLICT'')
    (thenE (add_activation product (wa_round maker) ''CHECKER'' actorRef decision reason)
    (let approved = (decision = ''APPROVE''); state = (if approved then ''ACTIVE'' else ''READY_FOR_EVIDENCE'');
         event = (if approved then ''product.activation_approved'' else ''product.activation_rejected'') in
     thenE (if approved then thenE (assertActivationReady h tenant product (tm_roles t)) (activate_product product) else retE ())
    (thenE (set_configuration product (\<lambda>c. c\<lparr>fg_status := state\<rparr>))
    (thenE (catalog_record h tenant event ''product'' product (JObj [(''actorRef'', JStr actorRef), (''round'', JNum (int (wa_round maker))),
       (''decision'', JStr decision), (''reason'', JStr reason), (''resultingState'', JStr state)]))
    (thenE (catalog_snapshot h tenant product actorRef event)
    (retE (wa_round maker, state)))))))))))"

definition decideActivation :: "catalog_service \<Rightarrow> (nat \<Rightarrow> unit outcome) \<Rightarrow> string \<Rightarrow> string \<Rightarrow> string \<Rightarrow> json \<Rightarrow> (catalog_db, nat \<times> string) eff" where
  "decideActivation h commit tenant actorRef product input =
     thenE (liftE (requireString 3 100 (slug_text 99) (JStr product)))
    (bindE (liftE (reviewInput input)) (\<lambda>(decision, reason).
     withSerializableTransaction 3 commit (decide_in h tenant actorRef product decision reason)))"

section \<open>Pausing and resuming\<close>

definition switch_status :: "string \<Rightarrow> string \<Rightarrow> (catalog_db, unit) eff" where
  \<comment> \<open>what \<open>setProductStatus\<close> of the durable workflows does to the table of products\<close>
  "switch_status product status = withE (\<lambda>s.
     thenE (ensureE (status \<in> {''ACTIVE'', ''PAUSED''}) ''INVALID_PRODUCT_STATUS'')
    (bindE (optE (find (\<lambda>p. gp_id p = product) (ct_products s)) (Coded ''UNKNOWN_PRODUCT'')) (\<lambda>p.
     thenE (ensureE (gp_status p = (if status = ''PAUSED'' then ''ACTIVE'' else ''PAUSED'')) ''INVALID_PRODUCT_STATE'')
    (modifyE (\<lambda>s. s\<lparr>ct_products := update_where (\<lambda>p. gp_id p = product)
       (\<lambda>p. p\<lparr>gp_status := status, gp_version := gp_version p + 1\<rparr>) (ct_products s)\<rparr>)))))"

end
