(* ===== verification/CatalogFacts.thy ===== *)
theory CatalogFacts
  imports CatalogActivation PgFrames
begin

text \<open>
  What the operations of the catalogue do to its tables: frames, the steps of the operations that
  return, and the step relation of the catalogue.
\<close>

section \<open>Frames\<close>

definition catalog_core :: "catalog_db \<Rightarrow> _" where
  \<comment> \<open>all tables but those of the store, the tenants and the snapshots\<close>
  "catalog_core s = (ct_templates s, ct_institutions s, ct_memberships s, ct_keys s, ct_products s, ct_configurations s, ct_roles s,
     ct_requirements s, ct_evidence s, ct_reviews s, ct_activations s)"

lemma coreD:
  assumes "preserves catalog_core m" and "m s = (r, t)"
  shows "ct_templates t = ct_templates s" "ct_institutions t = ct_institutions s" "ct_memberships t = ct_memberships s" "ct_keys t = ct_keys s"
    "ct_products t = ct_products s" "ct_configurations t = ct_configurations s" "ct_roles t = ct_roles s" "ct_requirements t = ct_requirements s"
    "ct_evidence t = ct_evidence s" "ct_reviews t = ct_reviews s" "ct_activations t = ct_activations s"
  using preservesD [OF assms] by (simp_all add: catalog_core_def)

lemma inCatalog_core: "preserves catalog_core (inCatalog m)"
  by (rule preservesI) (auto simp: inCatalog_def catalog_core_def split: prod.splits)

lemma audit_core: "preserves catalog_core (catalog_audit h tenant event aggType aggId metadata)"
  unfolding catalog_audit_def by (intro preserves_intros inCatalog_core)

lemma record_core: "preserves catalog_core (catalog_record h tenant event aggType aggId metadata)"
  unfolding catalog_record_def by (intro preserves_intros inCatalog_core audit_core)

lemma snapshot_core: "preserves catalog_core (catalog_snapshot h tenant product actorRef event)"
  unfolding catalog_snapshot_def case_prod_beta
  by (intro preserves_intros preserves_modifyE) (simp add: catalog_core_def)

lemmas core_rules = preserves_intros audit_core record_core snapshot_core

lemma tenant_same: "catalog_tenant tenant s = (Inr row, t) \<Longrightarrow> t = s"
  by (auto simp: catalog_tenant_def eff_simps)

lemma approved_same: "approvedInstitution tenant institution s = (Inr u, t) \<longleftrightarrow> institution_approved s tenant institution \<and> t = s"
  by (simp add: approvedInstitution_def withE_run ensureE_Inr)

lemma product_of_same: "catalog_product_of tenant product s = (Inr x, t) \<longleftrightarrow> find_product s tenant product = Some x \<and> t = s"
  by (auto simp: catalog_product_of_def withE_run optE_Inr)

lemma find_someD: "find P xs = Some x \<Longrightarrow> x \<in> set xs \<and> P x"
  by (induction xs) (auto split: if_splits)

lemma find_productD:
  assumes "find_product s tenant product = Some (p, c, tm)"
  shows "p \<in> set (ct_products s)" "gp_id p = product" "c \<in> set (ct_configurations s)" "fg_product c = product" "fg_tenant c = tenant"
    "tm \<in> set (ct_templates s)" "tm_id tm = fg_template c"
  using assms by (auto simp: find_product_def bind_eq_Some_conv dest!: find_someD)

lemma serializable_cases:
  assumes "withSerializableTransaction n commit m s = (r, t)"
  shows "t = s \<or> (\<exists>a. m s = (Inr a, t))"
  using serializable_from_result [OF assms [unfolded withSerializableTransaction_def]] by auto

section \<open>Attaching evidence\<close>

lemma evidence_source_same:
  "evidence_source tenant product e s = (Inr k, t) \<longleftrightarrow> t = s \<and> (\<exists>r.
     find (\<lambda>r. rr_product r = product \<and> rr_code r = vi_requirement e) (ct_requirements s) = Some r \<and> institution_approved s tenant (vi_source e)
     \<and> (\<exists>x \<in> set (ct_roles s). rg_product x = product \<and> rg_role x = rr_role r \<and> rg_institution x = vi_source e \<and> rg_active x)
     \<and> find (\<lambda>k. sk_institution k = vi_source e \<and> sk_key k = vi_key e) (ct_keys s) = Some k)"
  by (auto simp: evidence_source_def withE_run bindE_Inr thenE_Inr ensureE_Inr optE_Inr approved_same)

lemma attach_steps:
  assumes run: "attach_in h tenant actorRef product e s = (Inr a, t)"
  obtains p c tm r k payload payloadHash version where "find_product s tenant product = Some (p, c, tm)" and "gp_status p = ''DRAFT''"
    and "find (\<lambda>r. rr_product r = product \<and> rr_code r = vi_requirement e) (ct_requirements s) = Some r"
    and "institution_approved s tenant (vi_source e)"
    and "\<exists>x \<in> set (ct_roles s). rg_product x = product \<and> rg_role x = rr_role r \<and> rg_institution x = vi_source e \<and> rg_active x"
    and "find (\<lambda>k. sk_institution k = vi_source e \<and> sk_key k = vi_key e) (ct_keys s) = Some k" and "evidence_key_policy e k = Inr ()"
    and "verifyProductEvidenceSignature (sv_crypto h) (signed_fields tenant product e) (vi_signature e) (sk_pem k) = Inr (payload, payloadHash, version)"
    and "vi_id e \<notin> ve_id ` set (ct_evidence s)" and "ct_evidence t = ct_evidence s @ [attached_row h product actorRef e payloadHash version]"
    and "ct_requirements t = update_where (\<lambda>r. rr_product r = product \<and> rr_code r = vi_requirement e)
      (\<lambda>r. r\<lparr>rr_status := ''SATISFIED'', rr_evidence := Some (vi_id e)\<rparr>) (ct_requirements s)"
    and "ct_configurations t = update_where (\<lambda>c. fg_product c = product) (\<lambda>c. c\<lparr>fg_version := fg_version c + 1\<rparr>) (ct_configurations s)"
    and "ct_products t = ct_products s" and "ct_keys t = ct_keys s" and "ct_activations t = ct_activations s" and "ct_roles t = ct_roles s"
    and "ct_memberships t = ct_memberships s" and "ct_institutions t = ct_institutions s" and "ct_templates t = ct_templates s"
    and "ct_reviews t = ct_reviews s"
proof -
  obtain pct s0 y0 s1 k s2 y1 s3 v s4 y2 s5 y3 s6 y4 s7 y5 s8 y6 where f: "catalog_product_of tenant product s = (Inr pct, s0)"
    and d: "ensureE (gp_status (fst pct) = ''DRAFT'') ''PRODUCT_CONFIGURATION_LOCKED'' s0 = (Inr y0, s1)"
    and src: "evidence_source tenant product e s1 = (Inr k, s2)" and pol: "liftE (evidence_key_policy e k) s2 = (Inr y1, s3)"
    and ver: "liftE (verifyProductEvidenceSignature (sv_crypto h) (signed_fields tenant product e) (vi_signature e) (sk_pem k)) s3 = (Inr v, s4)"
    and add: "add_evidence (attached_row h product actorRef e (fst (snd v)) (snd (snd v))) s4 = (Inr y2, s5)"
    and sat: "satisfy product (vi_requirement e) (vi_id e) s5 = (Inr y3, s6)" and cfg: "set_configuration product (\<lambda>c. c) s6 = (Inr y4, s7)"
    and rec: "catalog_record h tenant ''product.activation_evidence_attached'' ''product'' product
      (evidence_metadata h actorRef e (fst (snd v)) (snd (snd v))) s7 = (Inr y5, s8)"
    and snap: "thenE (catalog_snapshot h tenant product actorRef ''product.activation_evidence_attached'') (retE (fst (snd v))) s8 = (Inr a, t)"
    using run unfolding attach_in_def bindE_Inr thenE_Inr [of "ensureE _ _"] thenE_Inr [of "liftE _"] thenE_Inr [of "add_evidence _"]
      thenE_Inr [of "satisfy _ _ _"] thenE_Inr [of "set_configuration _ _"] thenE_Inr [of "catalog_record _ _ _ _ _ _"] case_prod_beta
    by (elim exE conjE) (rule that; assumption)
  obtain p c tm where pct: "pct = (p, c, tm)" by (cases pct)
  obtain payload payloadHash version where v: "v = (payload, payloadHash, version)" by (cases v)
  have f': "find_product s tenant product = Some (p, c, tm)" "s0 = s" using f by (simp_all add: product_of_same pct)
  have d': "gp_status p = ''DRAFT''" "s1 = s" using d f' by (simp_all add: ensureE_Inr pct)
  have s: "s2 = s" "s3 = s" "s4 = s" using src pol ver d' by (simp_all add: evidence_source_same liftE_iff)
  have add': "vi_id e \<notin> ve_id ` set (ct_evidence s)"
    "s5 = s\<lparr>ct_evidence := ct_evidence s @ [attached_row h product actorRef e payloadHash version]\<rparr>"
    using add by (auto simp: add_evidence_def insert_row_def eff_simps v s attached_row_def split: if_splits)
  have s7: "s7 = s\<lparr>ct_evidence := ct_evidence s @ [attached_row h product actorRef e payloadHash version],
      ct_requirements := update_where (\<lambda>r. rr_product r = product \<and> rr_code r = vi_requirement e)
        (\<lambda>r. r\<lparr>rr_status := ''SATISFIED'', rr_evidence := Some (vi_id e)\<rparr>) (ct_requirements s),
      ct_configurations := update_where (\<lambda>c. fg_product c = product) (\<lambda>c. c\<lparr>fg_version := fg_version c + 1\<rparr>) (ct_configurations s)\<rparr>"
    using sat cfg add'(2) by (simp add: satisfy_def set_configuration_def modifyE_iff)
  have "preserves catalog_core (thenE (catalog_snapshot h tenant product actorRef ''product.activation_evidence_attached'') (retE (fst (snd v))))"
    by (intro preserves_intros snapshot_core)
  note core = coreD [OF this snap] coreD [OF record_core rec]
  note src' = src [unfolded evidence_source_same d']
  from src' obtain r where r: "find (\<lambda>r. rr_product r = product \<and> rr_code r = vi_requirement e) (ct_requirements s) = Some r"
    "institution_approved s tenant (vi_source e)"
    "\<exists>x \<in> set (ct_roles s). rg_product x = product \<and> rg_role x = rr_role r \<and> rg_institution x = vi_source e \<and> rg_active x"
    "find (\<lambda>k. sk_institution k = vi_source e \<and> sk_key k = vi_key e) (ct_keys s) = Some k" by blast
  show thesis
    by (rule that [OF f'(1) d'(1) r _ _ add'(1)]) (use pol ver s d' v core s7 in \<open>simp_all add: liftE_iff\<close>)
qed

section \<open>Activation\<close>

definition activation_ready :: "catalog_db \<Rightarrow> int \<Rightarrow> string \<Rightarrow> string \<Rightarrow> string list \<Rightarrow> bool" where
  "activation_ready s clock tenant product required =
     (set required \<subseteq> set (approved_roles s tenant product)
      \<and> (\<forall>r \<in> set (ct_requirements s). rr_product r = product \<longrightarrow> \<not> requirement_missing s clock r))"

lemma ready_same:
  "assertActivationReady h tenant product required s = (Inr u, t) \<longleftrightarrow> activation_ready s (sv_clock h) tenant product required \<and> t = s"
  by (auto simp: assertActivationReady_def withE_run thenE_Inr ensureE_Inr activation_ready_def list_all_iff list_ex_iff)

lemma ready_cong:
  assumes "ct_roles t = ct_roles s" and "ct_memberships t = ct_memberships s" and "ct_institutions t = ct_institutions s"
    and "ct_requirements t = ct_requirements s" and "ct_evidence t = ct_evidence s" and "ct_keys t = ct_keys s"
  shows "activation_ready t = activation_ready s"
  unfolding activation_ready_def approved_roles_def institution_approved_def requirement_missing_def fun_eq_iff assms by (intro allI) (rule refl)

definition set_status :: "string \<Rightarrow> string \<Rightarrow> configuration list \<Rightarrow> configuration list" where
  "set_status product status cs = update_where (\<lambda>c. fg_product c = product) (\<lambda>c. c\<lparr>fg_status := status, fg_version := fg_version c + 1\<rparr>) cs"

lemma propose_steps:
  assumes run: "propose_in h tenant actorRef product reason s = (Inr n, t)"
  obtains p c tm where "find_product s tenant product = Some (p, c, tm)" and "gp_status p = ''DRAFT''" and "fg_status c = ''READY_FOR_EVIDENCE''"
    and "activation_ready s (sv_clock h) tenant product (tm_roles tm)" and "open_activations s product = []"
    and "n = last_round (map wa_round (activations_of s product)) + 1"
    and "catalog_core t = catalog_core (s\<lparr>ct_activations := ct_activations s @ [\<lparr>wa_product = product, wa_round = n, wa_role = ''MAKER'',
      wa_actor = actorRef, wa_decision = ''ACTIVATE'', wa_reason = reason\<rparr>],
      ct_configurations := set_status product ''ACTIVATION_PENDING'' (ct_configurations s)\<rparr>)"
proof -
  let ?n = "last_round (map wa_round (activations_of s product)) + 1"
  from run obtain p c tm where f: "find_product s tenant product = Some (p, c, tm)" "gp_status p = ''DRAFT''" "fg_status c = ''READY_FOR_EVIDENCE''"
      "activation_ready s (sv_clock h) tenant product (tm_roles tm)" "open_activations s product = []"
    and rest: "thenE (add_activation product ?n ''MAKER'' actorRef ''ACTIVATE'' reason)
      (thenE (set_configuration product (\<lambda>c. c\<lparr>fg_status := ''ACTIVATION_PENDING''\<rparr>))
      (thenE (catalog_record h tenant ''product.activation_proposed'' ''product'' product
         (JObj [(''actorRef'', JStr actorRef), (''round'', JNum (int ?n)), (''reason'', JStr reason)]))
      (thenE (catalog_snapshot h tenant product actorRef ''product.activation_proposed'') (retE ?n)))) s = (Inr n, t)"
    unfolding propose_in_def by (auto simp: bindE_Inr product_of_same thenE_Inr [of "ensureE _ _"] thenE_Inr [of "assertActivationReady _ _ _ _"]
      ensureE_Inr ready_same withE_run Let_def)
  from rest obtain s1 s2 s3 y1 y2 y3 y4 where add: "add_activation product ?n ''MAKER'' actorRef ''ACTIVATE'' reason s = (Inr y1, s1)"
    and cfg: "set_configuration product (\<lambda>c. c\<lparr>fg_status := ''ACTIVATION_PENDING''\<rparr>) s1 = (Inr y2, s2)"
    and rec: "catalog_record h tenant ''product.activation_proposed'' ''product'' product
         (JObj [(''actorRef'', JStr actorRef), (''round'', JNum (int ?n)), (''reason'', JStr reason)]) s2 = (Inr y3, s3)"
    and snap: "catalog_snapshot h tenant product actorRef ''product.activation_proposed'' s3 = (Inr y4, t)" and n: "n = ?n"
    unfolding thenE_Inr retE_iff by (elim exE conjE) (rule that; simp)
  have s2: "s2 = s\<lparr>ct_activations := ct_activations s @ [\<lparr>wa_product = product, wa_round = n, wa_role = ''MAKER'',
      wa_actor = actorRef, wa_decision = ''ACTIVATE'', wa_reason = reason\<rparr>],
      ct_configurations := set_status product ''ACTIVATION_PENDING'' (ct_configurations s)\<rparr>"
    using add cfg by (auto simp: add_activation_def insert_row_def eff_simps set_configuration_def set_status_def n split: if_splits)
  show thesis
    by (rule that [OF f n]) (use preservesD [OF snapshot_core snap] preservesD [OF record_core rec] s2 in simp)
qed

lemma decide_steps:
  assumes run: "decide_in h tenant actorRef product decision reason s = (Inr (n, state), t)"
  obtains p c tm maker where "find_product s tenant product = Some (p, c, tm)" and "gp_status p = ''DRAFT''" and "fg_status c = ''ACTIVATION_PENDING''"
    and "latest_by wa_round (open_activations s product) = Some maker" and "wa_actor maker \<noteq> actorRef" and "n = wa_round maker"
    and "\<not> (\<exists>a \<in> set (ct_activations s). wa_product a = product \<and> wa_round a = n \<and> wa_role a = ''CHECKER'')"
    and "decision = ''APPROVE'' \<Longrightarrow> activation_ready s (sv_clock h) tenant product (tm_roles tm)"
    and "state = (if decision = ''APPROVE'' then ''ACTIVE'' else ''READY_FOR_EVIDENCE'')"
    and "catalog_core t = catalog_core (s\<lparr>ct_activations := ct_activations s @ [\<lparr>wa_product = product, wa_round = n, wa_role = ''CHECKER'',
      wa_actor = actorRef, wa_decision = decision, wa_reason = reason\<rparr>], ct_configurations := set_status product state (ct_configurations s),
      ct_products := (if decision = ''APPROVE'' then update_where (\<lambda>p. gp_id p = product \<and> gp_status p = ''DRAFT'')
        (\<lambda>p. p\<lparr>gp_status := ''ACTIVE'', gp_version := gp_version p + 1\<rparr>) (ct_products s) else ct_products s)\<rparr>)"
proof -
  let ?state = "if decision = ''APPROVE'' then ''ACTIVE'' else ''READY_FOR_EVIDENCE''"
  let ?event = "if decision = ''APPROVE'' then ''product.activation_approved'' else ''product.activation_rejected''"
  let ?row = "\<lambda>n. \<lparr>wa_product = product, wa_round = n, wa_role = ''CHECKER'', wa_actor = actorRef, wa_decision = decision, wa_reason = reason\<rparr>"
  from run obtain p c tm maker where f: "find_product s tenant product = Some (p, c, tm)" "gp_status p = ''DRAFT''" "fg_status c = ''ACTIVATION_PENDING''"
      "latest_by wa_round (open_activations s product) = Some maker" "wa_actor maker \<noteq> actorRef"
    and rest: "thenE (add_activation product (wa_round maker) ''CHECKER'' actorRef decision reason)
      (thenE (if decision = ''APPROVE'' then thenE (assertActivationReady h tenant product (tm_roles tm)) (activate_product product) else retE ())
      (thenE (set_configuration product (\<lambda>c. c\<lparr>fg_status := ?state\<rparr>))
      (thenE (catalog_record h tenant ?event ''product'' product (JObj [(''actorRef'', JStr actorRef), (''round'', JNum (int (wa_round maker))),
         (''decision'', JStr decision), (''reason'', JStr reason), (''resultingState'', JStr ?state)]))
      (thenE (catalog_snapshot h tenant product actorRef ?event)
      (retE (wa_round maker, ?state)))))) s = (Inr (n, state), t)"
    unfolding decide_in_def by (auto simp: bindE_Inr product_of_same thenE_Inr [of "ensureE _ _"] ensureE_Inr withE_run Let_def optE_Inr)
  from rest obtain s1 s2 s3 s4 s5 y1 y2 y3 y4 y5 where add: "add_activation product (wa_round maker) ''CHECKER'' actorRef decision reason s = (Inr y1, s1)"
    and act: "(if decision = ''APPROVE'' then thenE (assertActivationReady h tenant product (tm_roles tm)) (activate_product product) else retE ()) s1 = (Inr y2, s2)"
    and cfg: "set_configuration product (\<lambda>c. c\<lparr>fg_status := ?state\<rparr>) s2 = (Inr y3, s3)"
    and rec: "catalog_record h tenant ?event ''product'' product (JObj [(''actorRef'', JStr actorRef), (''round'', JNum (int (wa_round maker))),
         (''decision'', JStr decision), (''reason'', JStr reason), (''resultingState'', JStr ?state)]) s3 = (Inr y4, s4)"
    and snap: "catalog_snapshot h tenant product actorRef ?event s4 = (Inr y5, s5)" and t: "t = s5" and n: "n = wa_round maker" "state = ?state"
    unfolding thenE_Inr [of "add_activation _ _ _ _ _ _"] thenE_Inr [of "set_configuration _ _"] thenE_Inr [of "catalog_record _ _ _ _ _ _"]
      thenE_Inr [of "catalog_snapshot _ _ _ _ _"] thenE_Inr [of "if _ then _ else _"] retE_iff [of "(_, _)"] prod.inject sum.inject
    by (elim exE conjE) (rule that; assumption)
  have s1: "s1 = s\<lparr>ct_activations := ct_activations s @ [?row n]\<rparr>"
    "\<not> (\<exists>a \<in> set (ct_activations s). wa_product a = product \<and> wa_round a = n \<and> wa_role a = ''CHECKER'')"
    using add by (auto simp: add_activation_def insert_row_def eff_simps n split: if_splits)
  have same: "activation_ready s1 = activation_ready s"
    by (rule ready_cong) (simp_all add: s1(1))
  have s3: "s3 = s1\<lparr>ct_configurations := set_status product state (ct_configurations s),
      ct_products := (if decision = ''APPROVE'' then update_where (\<lambda>p. gp_id p = product \<and> gp_status p = ''DRAFT'')
        (\<lambda>p. p\<lparr>gp_status := ''ACTIVE'', gp_version := gp_version p + 1\<rparr>) (ct_products s) else ct_products s)\<rparr>"
    using act cfg by (auto simp: thenE_Inr ready_same activate_product_def modifyE_iff retE_iff set_configuration_def set_status_def n s1(1) split: if_splits)
  have ready: "decision = ''APPROVE'' \<Longrightarrow> activation_ready s (sv_clock h) tenant product (tm_roles tm)"
    using act by (simp add: thenE_Inr ready_same same)
  show thesis
    by (rule that [OF f n(1) s1(2) ready n(2)], assumption) (use preservesD [OF snapshot_core snap] preservesD [OF record_core rec] s3 s1 t in simp)
qed

end
