(* ===== verification/CatalogSteps.thy ===== *)
theory CatalogSteps
  imports CatalogFacts
begin

text \<open>
  The steps of the catalogue. \<open>catalog_effect\<close> says what each operation may do to the tables, without
  its inputs, its audit and its snapshots; \<open>step_effect\<close> shows that every operation of the model, with
  its validation and its transaction, does one of these.
\<close>

section \<open>The effects of the operations\<close>

definition revoke_effect :: "string \<Rightarrow> string \<Rightarrow> int \<Rightarrow> catalog_db \<Rightarrow> catalog_db" where
  "revoke_effect institution keyId at s = invalidate_evidence_for institution keyId (s\<lparr>ct_keys := update_where
     (\<lambda>k. sk_institution k = institution \<and> sk_key k = keyId \<and> sk_status k = ''ACTIVE'') (revoke_row at) (ct_keys s)\<rparr>)"

definition attach_effect :: "activation_evidence \<Rightarrow> catalog_db \<Rightarrow> catalog_db" where
  "attach_effect row s = s\<lparr>ct_evidence := ct_evidence s @ [row],
     ct_requirements := update_where (\<lambda>r. rr_product r = ve_product row \<and> rr_code r = ve_requirement row)
       (\<lambda>r. r\<lparr>rr_status := ''SATISFIED'', rr_evidence := Some (ve_id row)\<rparr>) (ct_requirements s),
     ct_configurations := update_where (\<lambda>c. fg_product c = ve_product row) (\<lambda>c. c\<lparr>fg_version := fg_version c + 1\<rparr>) (ct_configurations s)\<rparr>"

definition activation :: "string \<Rightarrow> nat \<Rightarrow> string \<Rightarrow> string \<Rightarrow> string \<Rightarrow> string \<Rightarrow> activation_row" where
  "activation product n role actorRef decision reason = \<lparr>wa_product = product, wa_round = n, wa_role = role, wa_actor = actorRef,
     wa_decision = decision, wa_reason = reason\<rparr>"

definition decide_effect :: "string \<Rightarrow> nat \<Rightarrow> string \<Rightarrow> string \<Rightarrow> string \<Rightarrow> catalog_db \<Rightarrow> catalog_db" where
  "decide_effect product n actorRef decision reason s = s\<lparr>ct_activations := ct_activations s @ [activation product n ''CHECKER'' actorRef decision reason],
     ct_configurations := set_status product (if decision = ''APPROVE'' then ''ACTIVE'' else ''READY_FOR_EVIDENCE'') (ct_configurations s),
     ct_products := (if decision = ''APPROVE'' then update_where (\<lambda>p. gp_id p = product \<and> gp_status p = ''DRAFT'')
       (\<lambda>p. p\<lparr>gp_status := ''ACTIVE'', gp_version := gp_version p + 1\<rparr>) (ct_products s) else ct_products s)\<rparr>"

definition review :: "string \<Rightarrow> string \<Rightarrow> nat \<Rightarrow> string \<Rightarrow> string \<Rightarrow> string \<Rightarrow> string \<Rightarrow> review_row" where
  "review tenant institution n role actorRef decision reason = \<lparr>wr_tenant = tenant, wr_institution = institution, wr_round = n, wr_role = role,
     wr_actor = actorRef, wr_decision = decision, wr_reason = reason\<rparr>"

definition review_effect :: "string \<Rightarrow> string \<Rightarrow> review_row \<Rightarrow> string \<Rightarrow> string \<Rightarrow> string \<Rightarrow> catalog_db \<Rightarrow> catalog_db" where
  "review_effect tenant institution proposal actorRef decision reason s =
     s\<lparr>ct_reviews := ct_reviews s @ [review tenant institution (wr_round proposal) ''CHECKER'' actorRef decision reason],
       ct_memberships := (if decision = ''APPROVE'' then update_where (\<lambda>m. mm_tenant m = tenant \<and> mm_institution m = institution)
         (\<lambda>m. m\<lparr>mm_status := if wr_decision proposal = ''APPROVE'' then ''APPROVED'' else ''REJECTED''\<rparr>) (ct_memberships s) else ct_memberships s)\<rparr>"

inductive catalog_effect :: "evidence_crypto \<Rightarrow> catalog_db \<Rightarrow> catalog_db \<Rightarrow> bool" for y :: evidence_crypto and s :: catalog_db where
  nothing: "catalog_effect y s s"
| institution: "ui_id i \<notin> iu_id ` set (ct_institutions s) \<Longrightarrow> catalog_effect y s (add_institution h tenant i s)"
| key: "\<not> (\<exists>x \<in> set (ct_keys s). sk_institution x = sk_institution k \<and> sk_key x = sk_key k) \<Longrightarrow> catalog_effect y s (s\<lparr>ct_keys := ct_keys s @ [k]\<rparr>)"
| revoked: "find (\<lambda>k. sk_institution k = institution \<and> sk_key k = keyId \<and> sk_status k = ''ACTIVE'') (ct_keys s) = Some k \<Longrightarrow>
    sk_from k < at \<Longrightarrow> catalog_effect y s (revoke_effect institution keyId at s)"
| drafted: "xi_id p \<notin> gp_id ` set (ct_products s) \<Longrightarrow> catalog_effect y s (add_product tenant actorRef p s)"
| assigned: "find_product s tenant product = Some (p, c, tm) \<Longrightarrow> gp_status p = ''DRAFT'' \<Longrightarrow> institution_approved s tenant institution \<Longrightarrow>
    status \<in> {''READY_FOR_EVIDENCE'', ''ROLES_PENDING''} \<Longrightarrow>
    catalog_effect y s (assign product role institution s\<lparr>ct_configurations := set_status product status (ct_configurations s)\<rparr>)"
| proposed_review: "n = last_round (map wr_round (reviews_of s tenant institution)) + 1 \<Longrightarrow>
    catalog_effect y s (s\<lparr>ct_reviews := ct_reviews s @ [review tenant institution n ''MAKER'' actorRef decision reason]\<rparr>)"
| decided_review: "latest_by wr_round (open_reviews s tenant institution) = Some proposal \<Longrightarrow> wr_actor proposal \<noteq> actorRef \<Longrightarrow>
    decision \<in> {''APPROVE'', ''REJECT''} \<Longrightarrow> catalog_effect y s (review_effect tenant institution proposal actorRef decision reason s)"
| attached: "find_product s tenant product = Some (p, c, tm) \<Longrightarrow> gp_status p = ''DRAFT'' \<Longrightarrow>
    find (\<lambda>r. rr_product r = product \<and> rr_code r = vi_requirement e) (ct_requirements s) = Some r \<Longrightarrow> institution_approved s tenant (vi_source e) \<Longrightarrow>
    \<exists>x \<in> set (ct_roles s). rg_product x = product \<and> rg_role x = rr_role r \<and> rg_institution x = vi_source e \<and> rg_active x \<Longrightarrow>
    find (\<lambda>k. sk_institution k = vi_source e \<and> sk_key k = vi_key e) (ct_keys s) = Some k \<Longrightarrow> evidence_key_policy e k = Inr () \<Longrightarrow>
    verifyProductEvidenceSignature y (signed_fields tenant product e) (vi_signature e) (sk_pem k) = Inr (payload, payloadHash, version) \<Longrightarrow>
    vi_id e \<notin> ve_id ` set (ct_evidence s) \<Longrightarrow> catalog_effect y s (attach_effect (attached_row h product actorRef e payloadHash version) s)"
| proposed: "find_product s tenant product = Some (p, c, tm) \<Longrightarrow> gp_status p = ''DRAFT'' \<Longrightarrow> fg_status c = ''READY_FOR_EVIDENCE'' \<Longrightarrow>
    activation_ready s clock tenant product (tm_roles tm) \<Longrightarrow> open_activations s product = [] \<Longrightarrow>
    n = last_round (map wa_round (activations_of s product)) + 1 \<Longrightarrow>
    catalog_effect y s (s\<lparr>ct_activations := ct_activations s @ [activation product n ''MAKER'' actorRef ''ACTIVATE'' reason],
      ct_configurations := set_status product ''ACTIVATION_PENDING'' (ct_configurations s)\<rparr>)"
| decided: "find_product s tenant product = Some (p, c, tm) \<Longrightarrow> gp_status p = ''DRAFT'' \<Longrightarrow> fg_status c = ''ACTIVATION_PENDING'' \<Longrightarrow>
    latest_by wa_round (open_activations s product) = Some maker \<Longrightarrow> wa_actor maker \<noteq> actorRef \<Longrightarrow>
    \<not> (\<exists>a \<in> set (ct_activations s). wa_product a = product \<and> wa_round a = wa_round maker \<and> wa_role a = ''CHECKER'') \<Longrightarrow>
    decision \<in> {''APPROVE'', ''REJECT''} \<Longrightarrow> (decision = ''APPROVE'' \<Longrightarrow> activation_ready s clock tenant product (tm_roles tm)) \<Longrightarrow>
    catalog_effect y s (decide_effect product (wa_round maker) actorRef decision reason s)"
| switched: "find (\<lambda>p. gp_id p = product) (ct_products s) = Some p \<Longrightarrow> gp_status p \<in> {''ACTIVE'', ''PAUSED''} \<Longrightarrow> status \<in> {''ACTIVE'', ''PAUSED''} \<Longrightarrow>
    catalog_effect y s (s\<lparr>ct_products := update_where (\<lambda>p. gp_id p = product)
      (\<lambda>p. p\<lparr>gp_status := status, gp_version := gp_version p + 1\<rparr>) (ct_products s)\<rparr>)"

section \<open>The steps\<close>

inductive cat_step :: "evidence_crypto \<Rightarrow> catalog_db \<Rightarrow> catalog_db \<Rightarrow> bool" for y :: evidence_crypto where
  provisions: "provisionTenant h commit input actorRef s = (r1, t) \<Longrightarrow> cat_step y s t"
| registers_institution: "catalog_registerInstitution h commit tenant actorRef input s = (r2, t) \<Longrightarrow> cat_step y s t"
| registers_key: "registerInstitutionSigningKey h commit tenant actorRef institution input s = (r3, t) \<Longrightarrow> cat_step y s t"
| revokes_key: "revokeInstitutionSigningKey h commit tenant actorRef institution keyId reason s = (r4, t) \<Longrightarrow> cat_step y s t"
| creates_product: "catalog_createProduct h commit tenant actorRef input s = (r5, t) \<Longrightarrow> cat_step y s t"
| assigns_role: "assignRole h commit tenant actorRef product role institution s = (r6, t) \<Longrightarrow> cat_step y s t"
| proposes_review: "proposeInstitutionReview h commit tenant actorRef institution input s = (r7, t) \<Longrightarrow> cat_step y s t"
| decides_review: "decideInstitutionReview h commit tenant actorRef institution input s = (r8, t) \<Longrightarrow> cat_step y s t"
| attaches_evidence: "sv_crypto h = y \<Longrightarrow> attachActivationEvidence h commit tenant actorRef product input s = (r9, t) \<Longrightarrow> cat_step y s t"
| proposes_activation: "proposeActivation h commit tenant actorRef product input s = (r10, t) \<Longrightarrow> cat_step y s t"
| decides_activation: "decideActivation h commit tenant actorRef product input s = (r11, t) \<Longrightarrow> cat_step y s t"
| switches_status: "switch_status product status s = (r12, t) \<Longrightarrow> cat_step y s t"
| cat_elsewhere: "catalog_core t = catalog_core s \<Longrightarrow> cat_step y s t"
  \<comment> \<open>the store, the tenants and the snapshots\<close>

section \<open>Every step has one of the effects\<close>

lemma lifted_run: "thenE (liftE x) m s = (r, t) \<Longrightarrow> t = s \<or> (\<exists>a. x = Inr a) \<and> m s = (r, t)"
  by (cases x) (auto simp: eff_defs)

lemma ensured_run: "thenE (ensureE c code) m s = (r, t) \<Longrightarrow> t = s \<or> c \<and> m s = (r, t)"
  by (auto simp: eff_defs split: if_splits)

lemma bound_run: "bindE (liftE x) f s = (r, t) \<Longrightarrow> t = s \<or> (\<exists>a. x = Inr a \<and> f a s = (r, t))"
  by (cases x) (auto simp: eff_defs)

definition leads_to :: "catalog_db \<Rightarrow> catalog_db \<Rightarrow> bool" where
  "leads_to u t = (catalog_core t = catalog_core u)"

lemma tail_core: "preserves catalog_core m \<Longrightarrow> m u = (r, t) \<Longrightarrow> catalog_core t = catalog_core u"
  by (rule preservesD)

lemma transaction_cases:
  assumes "withSerializableTransaction n commit m s = (r, t)"
  obtains "t = s" | a where "m s = (Inr a, t)"
  using serializable_cases [OF assms] by blast

lemma provision_core: "preserves catalog_core (provisionTenant h commit input actorRef)"
  unfolding provisionTenant_def
  by (intro core_rules preserves_modifyE) (simp add: catalog_core_def)

lemma register_steps:
  assumes "register_in h tenant actorRef i s = (Inr a, t)"
  shows "ui_id i \<notin> iu_id ` set (ct_institutions s)" and "catalog_core t = catalog_core (add_institution h tenant i s)"
proof -
  from assms obtain row s0 where s0: "catalog_tenant tenant s = (Inr row, s0)" and rest: "withE (\<lambda>s.
     thenE (ensureE (ui_id i \<notin> iu_id ` set (ct_institutions s)) ''INSTITUTION_ALREADY_EXISTS'')
    (thenE (modifyE (add_institution h tenant i))
    (thenE (catalog_audit h tenant ''institution.registered'' ''institution'' (ui_id i)
       (JObj [(''actorRef'', JStr actorRef), (''jurisdiction'', JStr (ui_jurisdiction i)), (''onboardingStatus'', JStr ''DUE_DILIGENCE'')]))
    (retE i)))) s0 = (Inr a, t)"
    unfolding register_in_def thenE_Inr [of "catalog_tenant _"] by (elim exE conjE) (rule that)
  have s: "s0 = s" by (rule tenant_same [OF s0])
  from rest show "ui_id i \<notin> iu_id ` set (ct_institutions s)" unfolding withE_run thenE_Inr [of "ensureE _ _"] ensureE_Inr s by blast
  from rest have "thenE (catalog_audit h tenant ''institution.registered'' ''institution'' (ui_id i)
       (JObj [(''actorRef'', JStr actorRef), (''jurisdiction'', JStr (ui_jurisdiction i)), (''onboardingStatus'', JStr ''DUE_DILIGENCE'')]))
    (retE i) (add_institution h tenant i s) = (Inr a, t)"
    unfolding withE_run thenE_Inr [of "ensureE _ _"] thenE_Inr [of "modifyE _"] ensureE_Inr modifyE_iff s by blast
  then show "catalog_core t = catalog_core (add_institution h tenant i s)" by (rule tail_core [rotated]) (intro core_rules)
qed

lemma register_key_steps:
  assumes "register_key_in h tenant actorRef institution k s = (Inr a, t)"
  shows "\<not> (\<exists>x \<in> set (ct_keys s). sk_institution x = institution \<and> sk_key x = sk_key k)"
    and "catalog_core t = catalog_core (s\<lparr>ct_keys := ct_keys s @ [k]\<rparr>)"
proof -
  from assms have run: "\<not> (\<exists>x \<in> set (ct_keys s). sk_institution x = institution \<and> sk_key x = sk_key k)
    \<and> thenE (catalog_record h tenant ''institution.signing_key_registered'' ''institution'' institution
       (JObj [(''actorRef'', JStr actorRef), (''keyId'', JStr (sk_key k)), (''algorithm'', JStr (sk_algorithm k)),
          (''validFrom'', JStr (ey_iso (sv_crypto h) (sk_from k))), (''validUntil'', nullable_date h (sk_until k))]))
    (retE k) (s\<lparr>ct_keys := ct_keys s @ [k]\<rparr>) = (Inr a, t)"
    unfolding register_key_in_def withE_run thenE_Inr [of "approvedInstitution _ _"] approved_same thenE_Inr [of "ensureE _ _"]
      thenE_Inr [of "modifyE _"] ensureE_Inr modifyE_iff by blast
  from conjunct1 [OF run] show "\<not> (\<exists>x \<in> set (ct_keys s). sk_institution x = institution \<and> sk_key x = sk_key k)" .
  from conjunct2 [OF run] show "catalog_core t = catalog_core (s\<lparr>ct_keys := ct_keys s @ [k]\<rparr>)"
    by (rule tail_core [rotated]) (intro core_rules)
qed

lemma revoke_steps:
  assumes "revoke_in h tenant actorRef institution keyId reason s = (Inr a, t)"
  obtains k where "find (\<lambda>k. sk_institution k = institution \<and> sk_key k = keyId \<and> sk_status k = ''ACTIVE'') (ct_keys s) = Some k" and "sk_from k < sv_now h"
    and "catalog_core t = catalog_core (revoke_effect institution keyId (sv_now h) s)"
proof -
  from assms obtain x u where act: "revoke_key institution keyId (sv_now h) s = (Inr x, u)" and
    rec: "catalog_record h tenant ''institution.signing_key_revoked'' ''institution'' institution
       (JObj [(''actorRef'', JStr actorRef), (''keyId'', JStr keyId), (''reason'', JStr reason),
          (''revokedAt'', JStr (ey_iso (sv_crypto h) (sv_now h)))]) u = (Inr a, t)"
    unfolding revoke_in_def withE_run thenE_Inr ensureE_Inr by blast
  from act obtain k where k: "find (\<lambda>k. sk_institution k = institution \<and> sk_key k = keyId \<and> sk_status k = ''ACTIVE'') (ct_keys s) = Some k"
    "sk_from k < the (sk_until (revoke_row (sv_now h) k))" "u = revoke_effect institution keyId (sv_now h) s"
    by (auto simp: revoke_key_def revoke_effect_def eff_simps split: option.splits if_splits)
  have "sk_from k < sv_now h" using k(2) by (auto simp: revoke_row_def split: option.splits)
  then show thesis by (rule that [OF k(1)]) (use preservesD [OF record_core rec] k(3) in simp)
qed

lemma create_steps:
  assumes "create_in h tenant actorRef input s = (Inr a, t)"
  obtains p where "xi_id p \<notin> gp_id ` set (ct_products s)" and "catalog_core t = catalog_core (add_product tenant actorRef p s)"
proof -
  from assms obtain row s0 where s0: "catalog_tenant tenant s = (Inr row, s0)" and rest: "withE (\<lambda>s.
     bindE (liftE (validateProductInput input (find (\<lambda>t. JStr (tm_id t) = jfield input ''templateId'') (ct_templates s)))) (\<lambda>p.
     thenE (approvedInstitution tenant (xi_issuer p))
    (thenE (ensureE (xi_id p \<notin> gp_id ` set (ct_products s)) ''PRODUCT_ALREADY_EXISTS'')
    (thenE (modifyE (add_product tenant actorRef p))
    (thenE (catalog_audit h tenant ''product.draft_created'' ''product'' (xi_id p)
       (JObj [(''actorRef'', JStr actorRef), (''templateId'', JStr (xi_template p)), (''jurisdiction'', JStr (xi_jurisdiction p)),
          (''currency'', JStr (xi_currency p))]))
    (thenE (catalog_snapshot h tenant (xi_id p) actorRef ''product.draft_created'')
    (retE p))))))) s0 = (Inr a, t)"
    unfolding create_in_def thenE_Inr [of "catalog_tenant _"] by (elim exE conjE) (rule that)
  have s: "s0 = s" by (rule tenant_same [OF s0])
  from rest obtain p where p: "xi_id p \<notin> gp_id ` set (ct_products s)" and tail: "thenE (catalog_audit h tenant ''product.draft_created'' ''product'' (xi_id p)
       (JObj [(''actorRef'', JStr actorRef), (''templateId'', JStr (xi_template p)), (''jurisdiction'', JStr (xi_jurisdiction p)),
          (''currency'', JStr (xi_currency p))]))
    (thenE (catalog_snapshot h tenant (xi_id p) actorRef ''product.draft_created'') (retE p)) (add_product tenant actorRef p s) = (Inr a, t)"
    unfolding withE_run bindE_Inr thenE_Inr [of "approvedInstitution _ _"] approved_same thenE_Inr [of "ensureE _ _"]
      thenE_Inr [of "modifyE _"] ensureE_Inr modifyE_iff liftE_iff s by blast
  from tail have "catalog_core t = catalog_core (add_product tenant actorRef p s)" by (rule tail_core [rotated]) (intro core_rules)
  with p show thesis by (rule that)
qed

lemma refresh_result:
  assumes "refreshConfigurationStatus product required s = (Inr status, u)"
  shows "status \<in> {''READY_FOR_EVIDENCE'', ''ROLES_PENDING''} \<and> u = s\<lparr>ct_configurations := set_status product status (ct_configurations s)\<rparr>"
  using assms unfolding refreshConfigurationStatus_def withE_run Let_def thenE_Inr set_configuration_def modifyE_iff retE_iff set_status_def by auto

lemma assign_steps:
  assumes "assign_in h tenant actorRef product role institution s = (Inr a, t)"
  obtains p c tm status where "find_product s tenant product = Some (p, c, tm)" and "gp_status p = ''DRAFT''" and "institution_approved s tenant institution"
    and "status \<in> {''READY_FOR_EVIDENCE'', ''ROLES_PENDING''}"
    and "catalog_core t = catalog_core (assign product role institution s\<lparr>ct_configurations := set_status product status (ct_configurations s)\<rparr>)"
proof -
  let ?tail = "\<lambda>status. thenE (catalog_audit h tenant ''product.role_assigned'' ''product'' product
       (JObj [(''actorRef'', JStr actorRef), (''role'', JStr role), (''institutionId'', JStr institution), (''configurationStatus'', JStr status)]))
    (thenE (catalog_snapshot h tenant product actorRef ''product.role_assigned'') (retE status))"
  from assms obtain p c tm where f: "find_product s tenant product = Some (p, c, tm)" "gp_status p = ''DRAFT''" "institution_approved s tenant institution"
    and rest: "bindE (refreshConfigurationStatus product (tm_roles tm)) ?tail (assign product role institution s) = (Inr a, t)"
    by (auto simp: assign_in_def bindE_Inr [of "catalog_product_of _ _"] product_of_same thenE_Inr [of "ensureE _ _"] thenE_Inr [of "approvedInstitution _ _"]
      thenE_Inr [of "modifyE _"] approved_same ensureE_Inr modifyE_iff)
  from rest obtain status u where r: "refreshConfigurationStatus product (tm_roles tm) (assign product role institution s) = (Inr status, u)"
    and tail: "?tail status u = (Inr a, t)" unfolding bindE_Inr by (elim exE conjE) (rule that)
  have u: "u = assign product role institution s\<lparr>ct_configurations := set_status product status (ct_configurations s)\<rparr>"
    using refresh_result [OF r] by (simp add: assign_def)
  from tail have "catalog_core t = catalog_core u" by (rule tail_core [rotated]) (intro core_rules)
  moreover have "status \<in> {''READY_FOR_EVIDENCE'', ''ROLES_PENDING''}" using refresh_result [OF r] by blast
  ultimately show thesis unfolding u by (intro that [OF f])
qed

lemma due_same: "in_due_diligence tenant institution s = (Inr u, t) \<longleftrightarrow>
    map mm_status (filter (\<lambda>m. mm_tenant m = tenant \<and> mm_institution m = institution) (ct_memberships s)) = [''DUE_DILIGENCE''] \<and> t = s"
  by (simp add: in_due_diligence_def withE_run ensureE_Inr)

lemma propose_review_steps:
  assumes "propose_review_in h tenant actorRef institution decision reason s = (Inr a, t)"
  obtains n where "n = last_round (map wr_round (reviews_of s tenant institution)) + 1"
    and "catalog_core t = catalog_core (s\<lparr>ct_reviews := ct_reviews s @ [review tenant institution n ''MAKER'' actorRef decision reason]\<rparr>)"
proof -
  let ?n = "last_round (map wr_round (reviews_of s tenant institution)) + 1"
  let ?tail = "thenE (catalog_record h tenant ''institution.review_proposed'' ''institution'' institution
       (JObj [(''actorRef'', JStr actorRef), (''round'', JNum (int ?n)), (''decision'', JStr decision), (''reason'', JStr reason)]))
    (retE (?n, decision))"
  from assms obtain row s0 where s0: "catalog_tenant tenant s = (Inr row, s0)" and "thenE (in_due_diligence tenant institution) (withE (\<lambda>s.
     let rows = reviews_of s tenant institution; lastRound = last_round (map wr_round rows);
         pending = (0 < lastRound \<and> \<not> (\<exists>c \<in> set rows. wr_round c = lastRound \<and> wr_role c = ''CHECKER'')) in
     thenE (ensureE (\<not> pending) ''INSTITUTION_REVIEW_PENDING'')
    (thenE (add_review tenant institution (lastRound + 1) ''MAKER'' actorRef decision reason)
    (thenE (catalog_record h tenant ''institution.review_proposed'' ''institution'' institution
       (JObj [(''actorRef'', JStr actorRef), (''round'', JNum (int (lastRound + 1))), (''decision'', JStr decision), (''reason'', JStr reason)]))
    (retE (lastRound + 1, decision)))))) s0 = (Inr a, t)"
    unfolding propose_review_in_def thenE_Inr [of "catalog_tenant _"] by (elim exE conjE) (rule that)
  then obtain x u where add: "add_review tenant institution ?n ''MAKER'' actorRef decision reason s = (Inr x, u)" and tail: "?tail u = (Inr a, t)"
    unfolding tenant_same [OF s0] thenE_Inr [of "in_due_diligence _ _"] due_same withE_run Let_def thenE_Inr [of "ensureE _ _"] ensureE_Inr
      thenE_Inr [of "add_review _ _ _ _ _ _ _"] by blast
  have u: "u = s\<lparr>ct_reviews := ct_reviews s @ [review tenant institution ?n ''MAKER'' actorRef decision reason]\<rparr>"
    using add by (auto simp: add_review_def insert_row_def eff_simps review_def split: if_splits)
  from tail have "catalog_core t = catalog_core u" by (rule tail_core [rotated]) (intro core_rules)
  then show thesis unfolding u by (rule that [OF refl])
qed

lemma decide_review_steps:
  assumes "decide_review_in h tenant actorRef institution decision reason s = (Inr a, t)"
  obtains proposal where "latest_by wr_round (open_reviews s tenant institution) = Some proposal" and "wr_actor proposal \<noteq> actorRef"
    and "catalog_core t = catalog_core (review_effect tenant institution proposal actorRef decision reason s)"
proof -
  let ?state = "\<lambda>m. if decision = ''APPROVE'' then (if wr_decision m = ''APPROVE'' then ''APPROVED'' else ''REJECTED'') else ''DUE_DILIGENCE''"
  let ?tail = "\<lambda>m. thenE (catalog_record h tenant (if decision = ''APPROVE'' then ''institution.review_decided'' else ''institution.review_returned'')
       ''institution'' institution (JObj [(''actorRef'', JStr actorRef), (''round'', JNum (int (wr_round m))), (''checkerDecision'', JStr decision),
          (''makerDecision'', JStr (wr_decision m)), (''resultingState'', JStr (?state m)), (''reason'', JStr reason)]))
    (retE (wr_round m, ?state m))"
  from assms obtain m where m: "latest_by wr_round (open_reviews s tenant institution) = Some m" "wr_actor m \<noteq> actorRef"
    and rest: "thenE (add_review tenant institution (wr_round m) ''CHECKER'' actorRef decision reason)
      (thenE (if decision = ''APPROVE'' then set_onboarding tenant institution (?state m) else retE ()) (?tail m)) s = (Inr a, t)"
    unfolding decide_review_in_def Let_def thenE_Inr [of "in_due_diligence _ _"] due_same withE_run bindE_Inr [of "optE _ _"] optE_Inr
      thenE_Inr [of "ensureE _ _"] ensureE_Inr by blast
  from rest obtain x v y u where add: "add_review tenant institution (wr_round m) ''CHECKER'' actorRef decision reason s = (Inr x, v)"
    and set: "(if decision = ''APPROVE'' then set_onboarding tenant institution (?state m) else retE ()) v = (Inr y, u)" and tail: "?tail m u = (Inr a, t)"
    unfolding thenE_Inr [of "add_review _ _ _ _ _ _ _"] thenE_Inr [of "if _ then _ else _"] by (elim exE conjE) (rule that)
  have u: "u = review_effect tenant institution m actorRef decision reason s"
    using add set by (auto simp: add_review_def insert_row_def eff_simps review_def review_effect_def set_onboarding_def split: if_splits)
  from tail have "catalog_core t = catalog_core u" by (rule tail_core [rotated]) (intro core_rules)
  then show thesis unfolding u by (rule that [OF m])
qed

section \<open>The specification is met\<close>

lemma register_met:
  assumes "catalog_registerInstitution h commit tenant actorRef input s = (r, t)"
  shows "t = s \<or> (\<exists>i. ui_id i \<notin> iu_id ` set (ct_institutions s) \<and> catalog_core t = catalog_core (add_institution h tenant i s))"
  using bound_run [OF assms [unfolded catalog_registerInstitution_def]] register_steps by (elim disjE exE conjE transaction_cases) blast+

lemma register_key_met:
  assumes "registerInstitutionSigningKey h commit tenant actorRef institution input s = (r, t)"
  shows "t = s \<or> (\<exists>k. \<not> (\<exists>x \<in> set (ct_keys s). sk_institution x = sk_institution k \<and> sk_key x = sk_key k)
    \<and> catalog_core t = catalog_core (s\<lparr>ct_keys := ct_keys s @ [k]\<rparr>))"
proof -
  have inst: "sk_institution k = institution" if "signingKeyInput h institution input = Inr k" for k
    using that by (auto simp: signingKeyInput_def bindR_Inr ensureR_Inr)
  from lifted_run [OF assms [unfolded registerInstitutionSigningKey_def]] show ?thesis
  proof (elim disjE conjE)
    assume "bindE (liftE (signingKeyInput h institution input))
      (\<lambda>k. withSerializableTransaction 3 commit (register_key_in h tenant actorRef institution k)) s = (r, t)"
    from bound_run [OF this] show ?thesis
      by (elim disjE exE conjE transaction_cases) (use register_key_steps inst in blast)+
  qed simp
qed

lemma revoke_met:
  assumes "revokeInstitutionSigningKey h commit tenant actorRef institution keyId reason s = (r, t)"
  shows "t = s \<or> (\<exists>k. find (\<lambda>k. sk_institution k = institution \<and> sk_key k = keyId \<and> sk_status k = ''ACTIVE'') (ct_keys s) = Some k
    \<and> sk_from k < sv_now h \<and> catalog_core t = catalog_core (revoke_effect institution keyId (sv_now h) s))"
  using lifted_run [OF assms [unfolded revokeInstitutionSigningKey_def]]
  by (elim disjE conjE) (simp, drule lifted_run, elim disjE conjE, simp, drule bound_run, elim disjE exE conjE transaction_cases, (blast elim: revoke_steps)+)

lemma create_met:
  assumes "catalog_createProduct h commit tenant actorRef input s = (r, t)"
  shows "t = s \<or> (\<exists>p. xi_id p \<notin> gp_id ` set (ct_products s) \<and> catalog_core t = catalog_core (add_product tenant actorRef p s))"
  using assms unfolding catalog_createProduct_def by (elim transaction_cases) (simp, erule create_steps, blast)

lemma assign_met:
  assumes "assignRole h commit tenant actorRef product role institution s = (r, t)"
  shows "t = s \<or> (\<exists>a. assign_in h tenant actorRef product role institution s = (Inr a, t))"
  using lifted_run [OF assms [unfolded assignRole_def]]
  by (elim disjE conjE) (simp, drule lifted_run, elim disjE conjE, simp, drule ensured_run, elim disjE conjE transaction_cases, blast+)

lemma propose_review_met:
  assumes "proposeInstitutionReview h commit tenant actorRef institution input s = (r, t)"
  shows "t = s \<or> (\<exists>decision reason a. propose_review_in h tenant actorRef institution decision reason s = (Inr a, t))"
  using lifted_run [OF assms [unfolded proposeInstitutionReview_def]] unfolding case_prod_beta
  by (elim disjE conjE) (simp, drule bound_run, elim disjE exE conjE transaction_cases, blast+)

lemma review_decision: "reviewInput input = Inr (decision, reason) \<Longrightarrow> decision \<in> {''APPROVE'', ''REJECT''}"
  by (auto simp: reviewInput_def bindR_Inr ensureR_Inr)

lemma decide_review_met:
  assumes "decideInstitutionReview h commit tenant actorRef institution input s = (r, t)"
  shows "t = s \<or> (\<exists>decision reason a. decision \<in> {''APPROVE'', ''REJECT''} \<and> decide_review_in h tenant actorRef institution decision reason s = (Inr a, t))"
  using lifted_run [OF assms [unfolded decideInstitutionReview_def]] review_decision [of input] unfolding case_prod_beta
  by (elim disjE conjE) (simp, drule bound_run, elim disjE exE conjE transaction_cases, (metis prod.collapse)+)

lemma attach_met:
  assumes "attachActivationEvidence h commit tenant actorRef product input s = (r, t)"
  shows "t = s \<or> (\<exists>e a. attach_in h tenant actorRef product e s = (Inr a, t))"
  using lifted_run [OF assms [unfolded attachActivationEvidence_def]]
  by (elim disjE conjE) (simp, drule bound_run, elim disjE exE conjE, simp, drule lifted_run, elim disjE conjE transaction_cases, blast+)

lemma propose_met:
  assumes "proposeActivation h commit tenant actorRef product input s = (r, t)"
  shows "t = s \<or> (\<exists>reason n. propose_in h tenant actorRef product reason s = (Inr n, t))"
  using lifted_run [OF assms [unfolded proposeActivation_def]]
  by (elim disjE conjE) (simp, drule bound_run, elim disjE exE conjE transaction_cases, blast+)

lemma decide_met:
  assumes "decideActivation h commit tenant actorRef product input s = (r, t)"
  shows "t = s \<or> (\<exists>decision reason n state. decision \<in> {''APPROVE'', ''REJECT''} \<and> r = Inr (n, state)
    \<and> decide_in h tenant actorRef product decision reason s = (Inr (n, state), t))"
proof -
  from lifted_run [OF assms [unfolded decideActivation_def]] show ?thesis
  proof (elim disjE conjE)
    assume "bindE (liftE (reviewInput input)) (\<lambda>(decision, reason).
       withSerializableTransaction 3 commit (decide_in h tenant actorRef product decision reason)) s = (r, t)"
    from bound_run [OF this] show ?thesis
    proof (elim disjE exE conjE)
      fix dr assume input: "reviewInput input = Inr dr"
        and "(case dr of (decision, reason) \<Rightarrow> withSerializableTransaction 3 commit (decide_in h tenant actorRef product decision reason)) s = (r, t)"
      moreover obtain decision reason where dr: "dr = (decision, reason)" by (cases dr)
      ultimately have run: "withSerializableTransaction 3 commit (decide_in h tenant actorRef product decision reason) s = (r, t)" by simp
      have d: "decision \<in> {''APPROVE'', ''REJECT''}" using review_decision input dr by blast
      from serializable_from_result [OF run [unfolded withSerializableTransaction_def]] show ?thesis
      proof (elim disjE exE conjE)
        fix a assume "r = Inr a" "decide_in h tenant actorRef product decision reason s = (Inr a, t)"
        then show ?thesis using d by (cases a) blast
      qed simp
    qed simp
  qed simp
qed

lemma switch_met:
  assumes "switch_status product status s = (r, t)"
  shows "t = s \<or> catalog_effect y s t"
proof (cases r)
  case (Inl e)
  then show ?thesis using assms by (auto simp: switch_status_def eff_simps)
next
  case (Inr a)
  then obtain p where "status \<in> {''ACTIVE'', ''PAUSED''}" "find (\<lambda>p. gp_id p = product) (ct_products s) = Some p" "gp_status p = (if status = ''PAUSED'' then ''ACTIVE'' else ''PAUSED'')"
    "t = s\<lparr>ct_products := update_where (\<lambda>p. gp_id p = product) (\<lambda>p. p\<lparr>gp_status := status, gp_version := gp_version p + 1\<rparr>) (ct_products s)\<rparr>"
    using assms by (auto simp: switch_status_def eff_simps)
  then show ?thesis using switched [of product s p status y] by auto
qed

lemma effect_met: "catalog_effect y s u \<Longrightarrow> catalog_core t = catalog_core u \<Longrightarrow> \<exists>u. catalog_effect y s u \<and> catalog_core t = catalog_core u"
  by blast

lemma nothing_met: "t = s \<Longrightarrow> \<exists>u. catalog_effect y s u \<and> catalog_core t = catalog_core u"
  using catalog_effect.nothing by blast

theorem step_effect:
  assumes "cat_step y s t"
  shows "\<exists>u. catalog_effect y s u \<and> catalog_core t = catalog_core u"
  using assms
proof cases
  case (provisions h commit input actorRef r1)
  show ?thesis using preservesD [OF provision_core provisions] catalog_effect.nothing by blast
next
  case (registers_institution h commit tenant actorRef input r2)
  from register_met [OF registers_institution] show ?thesis
    by (elim disjE exE conjE) (erule nothing_met, rule effect_met [OF catalog_effect.institution], assumption+)
next
  case (registers_key h commit tenant actorRef institution input r3)
  from register_key_met [OF registers_key] show ?thesis
    by (elim disjE exE conjE) (erule nothing_met, rule effect_met [OF catalog_effect.key], assumption+)
next
  case (revokes_key h commit tenant actorRef institution keyId reason r4)
  from revoke_met [OF revokes_key] show ?thesis
    by (elim disjE exE conjE) (erule nothing_met, rule effect_met [OF catalog_effect.revoked], assumption+)
next
  case (creates_product h commit tenant actorRef input r5)
  from create_met [OF creates_product] show ?thesis
    by (elim disjE exE conjE) (erule nothing_met, rule effect_met [OF catalog_effect.drafted], assumption+)
next
  case (assigns_role h commit tenant actorRef product role institution r6)
  from assign_met [OF this] show ?thesis
  proof (elim disjE exE)
    fix a assume "assign_in h tenant actorRef product role institution s = (Inr a, t)"
    then show ?thesis by (rule assign_steps) (rule effect_met [OF catalog_effect.assigned], assumption+)
  qed (erule nothing_met)
next
  case (proposes_review h commit tenant actorRef institution input r7)
  from propose_review_met [OF this] show ?thesis
  proof (elim disjE exE)
    fix decision reason a assume "propose_review_in h tenant actorRef institution decision reason s = (Inr a, t)"
    then show ?thesis by (rule propose_review_steps) (rule effect_met [OF catalog_effect.proposed_review], assumption+)
  qed (erule nothing_met)
next
  case (decides_review h commit tenant actorRef institution input r8)
  from decide_review_met [OF this] show ?thesis
  proof (elim disjE exE conjE)
    fix decision reason a assume d: "decision \<in> {''APPROVE'', ''REJECT''}" and "decide_review_in h tenant actorRef institution decision reason s = (Inr a, t)"
    from this(2) show ?thesis by (rule decide_review_steps) (rule effect_met [OF catalog_effect.decided_review [OF _ _ d]], assumption+)
  qed (erule nothing_met)
next
  case (attaches_evidence h commit tenant actorRef product input r9)
  from attach_met [OF this(2)] show ?thesis
  proof (elim disjE exE)
    fix e a assume run: "attach_in h tenant actorRef product e s = (Inr a, t)"
    from run show ?thesis
    proof (rule attach_steps)
      fix p c tm r k payload payloadHash version
      assume f: "find_product s tenant product = Some (p, c, tm)" "gp_status p = ''DRAFT''"
        "find (\<lambda>r. rr_product r = product \<and> rr_code r = vi_requirement e) (ct_requirements s) = Some r" "institution_approved s tenant (vi_source e)"
        "\<exists>x \<in> set (ct_roles s). rg_product x = product \<and> rg_role x = rr_role r \<and> rg_institution x = vi_source e \<and> rg_active x"
        "find (\<lambda>k. sk_institution k = vi_source e \<and> sk_key k = vi_key e) (ct_keys s) = Some k" "evidence_key_policy e k = Inr ()"
        "verifyProductEvidenceSignature (sv_crypto h) (signed_fields tenant product e) (vi_signature e) (sk_pem k) = Inr (payload, payloadHash, version)"
        "vi_id e \<notin> ve_id ` set (ct_evidence s)"
      assume t: "ct_evidence t = ct_evidence s @ [attached_row h product actorRef e payloadHash version]"
        "ct_requirements t = update_where (\<lambda>r. rr_product r = product \<and> rr_code r = vi_requirement e)
          (\<lambda>r. r\<lparr>rr_status := ''SATISFIED'', rr_evidence := Some (vi_id e)\<rparr>) (ct_requirements s)"
        "ct_configurations t = update_where (\<lambda>c. fg_product c = product) (\<lambda>c. c\<lparr>fg_version := fg_version c + 1\<rparr>) (ct_configurations s)"
        "ct_products t = ct_products s" "ct_keys t = ct_keys s" "ct_activations t = ct_activations s" "ct_roles t = ct_roles s"
        "ct_memberships t = ct_memberships s" "ct_institutions t = ct_institutions s" "ct_templates t = ct_templates s" "ct_reviews t = ct_reviews s"
      have "catalog_core t = catalog_core (attach_effect (attached_row h product actorRef e payloadHash version) s)"
        by (simp add: catalog_core_def attach_effect_def t attached_row_def)
      then show ?thesis using catalog_effect.attached [OF f [unfolded attaches_evidence(1)]] by blast
    qed
  qed (erule nothing_met)
next
  case (proposes_activation h commit tenant actorRef product input r10)
  from propose_met [OF this] show ?thesis
  proof (elim disjE exE)
    fix reason n assume "propose_in h tenant actorRef product reason s = (Inr n, t)"
    then show ?thesis by (rule propose_steps) (rule effect_met [OF catalog_effect.proposed [unfolded activation_def]], assumption+)
  qed (erule nothing_met)
next
  case (decides_activation h commit tenant actorRef product input r11)
  from decide_met [OF this] show ?thesis
  proof (elim disjE exE conjE)
    fix decision reason n state assume d: "decision \<in> {''APPROVE'', ''REJECT''}" and "decide_in h tenant actorRef product decision reason s = (Inr (n, state), t)"
    from this(2) show ?thesis
      by (rule decide_steps) (rule effect_met [OF catalog_effect.decided [OF _ _ _ _ _ _ d, unfolded decide_effect_def activation_def]], (assumption | simp)+)
  qed (erule nothing_met)
next
  case (switches_status product status r12)
  from switch_met [OF this, of y] show ?thesis using catalog_effect.nothing by blast
next
  case cat_elsewhere
  then show ?thesis using catalog_effect.nothing by blast
qed

end
