(* ===== verification/CatalogInvariants.thy ===== *)
theory CatalogInvariants
  imports CatalogSteps
begin

text \<open>
  What holds of the catalogue in every state it reaches: who approved an institution and a product, whose
  signature stands behind a piece of evidence, and that a key, once revoked, is never used again.
\<close>

section \<open>The invariant\<close>

definition two_reviewers :: "catalog_db \<Rightarrow> string \<Rightarrow> string \<Rightarrow> bool" where
  \<comment> \<open>a maker proposed to approve the institution and another person agreed\<close>
  "two_reviewers s tenant institution = (\<exists>m \<in> set (ct_reviews s). \<exists>c \<in> set (ct_reviews s).
     wr_tenant m = tenant \<and> wr_institution m = institution \<and> wr_tenant c = tenant \<and> wr_institution c = institution \<and> wr_round c = wr_round m
     \<and> wr_role m = ''MAKER'' \<and> wr_role c = ''CHECKER'' \<and> wr_decision m = ''APPROVE'' \<and> wr_decision c = ''APPROVE'' \<and> wr_actor c \<noteq> wr_actor m)"

definition two_approvers :: "catalog_db \<Rightarrow> string \<Rightarrow> bool" where
  "two_approvers s product = (\<exists>m \<in> set (ct_activations s). \<exists>c \<in> set (ct_activations s).
     wa_product m = product \<and> wa_product c = product \<and> wa_round c = wa_round m \<and> wa_role m = ''MAKER'' \<and> wa_role c = ''CHECKER''
     \<and> wa_decision c = ''APPROVE'' \<and> wa_actor c \<noteq> wa_actor m)"

definition evidence_fields_of :: "string \<Rightarrow> activation_evidence \<Rightarrow> evidence_fields" where
  "evidence_fields_of tenant e = \<lparr>ef_tenant = tenant, ef_product = ve_product e, ef_id = ve_id e, ef_requirement = ve_requirement e,
     ef_source = ve_source e, ef_schema = ve_schema e, ef_content = ve_content e, ef_issuedAt = ve_issuedAt e, ef_expiresAt = ve_expiresAt e,
     ef_key = ve_key e\<rparr>"

definition signed_by_source :: "evidence_crypto \<Rightarrow> catalog_db \<Rightarrow> activation_evidence \<Rightarrow> bool" where
  \<comment> \<open>under a key of its source, for a tenant that has the product\<close>
  "signed_by_source y s e = (\<exists>k \<in> set (ct_keys s). \<exists>c \<in> set (ct_configurations s).
     sk_institution k = ve_source e \<and> sk_key k = ve_key e \<and> fg_product c = ve_product e
     \<and> (\<exists>bytes. ve_signature e = base64_encode bytes
          \<and> ey_verify y (canonicalizeProductEvidence (productEvidencePayload y (evidence_fields_of (fg_tenant c) e))) (sk_pem k) bytes = Some True))"

definition key_name :: "signing_key \<Rightarrow> string \<times> string" where
  "key_name k = (sk_institution k, sk_key k)"

definition catalog_ok :: "evidence_crypto \<Rightarrow> catalog_db \<Rightarrow> bool" where
  "catalog_ok y s = (
     (\<forall>m \<in> set (ct_memberships s). mm_status m = ''APPROVED'' \<longrightarrow> two_reviewers s (mm_tenant m) (mm_institution m))
     \<and> (\<forall>p \<in> set (ct_products s). gp_status p \<noteq> ''DRAFT'' \<longrightarrow> two_approvers s (gp_id p))
     \<and> (\<forall>e \<in> set (ct_evidence s). signed_by_source y s e)
     \<and> distinct (map key_name (ct_keys s)))"

lemma ok_core: "catalog_core t = catalog_core s \<Longrightarrow> catalog_ok y t = catalog_ok y s"
  unfolding catalog_ok_def two_reviewers_def two_approvers_def signed_by_source_def catalog_core_def by simp

lemma catalog_okD:
  assumes "catalog_ok y s"
  shows "m \<in> set (ct_memberships s) \<Longrightarrow> mm_status m = ''APPROVED'' \<Longrightarrow> two_reviewers s (mm_tenant m) (mm_institution m)"
    and "p \<in> set (ct_products s) \<Longrightarrow> gp_status p \<noteq> ''DRAFT'' \<Longrightarrow> two_approvers s (gp_id p)"
    and "e \<in> set (ct_evidence s) \<Longrightarrow> signed_by_source y s e" and "distinct (map key_name (ct_keys s))"
  using assms by (simp_all add: catalog_ok_def)

section \<open>Parts that only grow\<close>

lemma two_reviewers_grow: "two_reviewers s tenant institution \<Longrightarrow> set (ct_reviews s) \<subseteq> set (ct_reviews t) \<Longrightarrow> two_reviewers t tenant institution"
  unfolding two_reviewers_def by blast

lemma two_approvers_grow: "two_approvers s product \<Longrightarrow> set (ct_activations s) \<subseteq> set (ct_activations t) \<Longrightarrow> two_approvers t product"
  unfolding two_approvers_def by blast

definition key_material :: "signing_key \<Rightarrow> string \<times> string \<times> string" where
  "key_material k = (sk_institution k, sk_key k, sk_pem k)"

definition tenancy :: "configuration \<Rightarrow> string \<times> string" where
  "tenancy c = (fg_product c, fg_tenant c)"

lemma signed_grow:
  assumes "signed_by_source y s e" and "key_material ` set (ct_keys s) \<subseteq> key_material ` set (ct_keys t)"
    and "tenancy ` set (ct_configurations s) \<subseteq> tenancy ` set (ct_configurations t)"
  shows "signed_by_source y t e"
proof -
  obtain k c bytes where k: "k \<in> set (ct_keys s)" "sk_institution k = ve_source e" "sk_key k = ve_key e" and c: "c \<in> set (ct_configurations s)" "fg_product c = ve_product e"
    and v: "ve_signature e = base64_encode bytes"
      "ey_verify y (canonicalizeProductEvidence (productEvidencePayload y (evidence_fields_of (fg_tenant c) e))) (sk_pem k) bytes = Some True"
    using assms(1) unfolding signed_by_source_def by blast
  obtain k' where k': "k' \<in> set (ct_keys t)" "key_material k' = key_material k" using assms(2) k(1) by (metis imageE image_eqI subsetD)
  obtain c' where c': "c' \<in> set (ct_configurations t)" "tenancy c' = tenancy c" using assms(3) c(1) by (metis imageE image_eqI subsetD)
  show ?thesis unfolding signed_by_source_def
    by (intro bexI [OF _ k'(1)] bexI [OF _ c'(1)] conjI exI [of _ bytes]) (use k k' c c' v in \<open>simp_all add: key_material_def tenancy_def\<close>)
qed

lemma update_image: "(\<And>r. g (f r) = g r) \<Longrightarrow> g ` set (update_where p f rows) = g ` set rows"
proof -
  assume "\<And>r. g (f r) = g r"
  then have "map g (update_where p f rows) = map g rows" by (simp add: update_where_def)
  then show ?thesis by (metis set_map)
qed

lemma update_map: "(\<And>r. g (f r) = g r) \<Longrightarrow> map g (update_where p f rows) = map g rows"
  by (simp add: update_where_def)

lemma status_tenancy: "tenancy ` set (set_status product status cs) = tenancy ` set cs"
  unfolding set_status_def by (rule update_image) (simp add: tenancy_def)

lemma in_update: "x \<in> set (update_where p f rows) \<longleftrightarrow> (\<exists>r \<in> set rows. x = (if p r then f r else r))"
  by (auto simp: update_where_def)

section \<open>Every effect keeps it\<close>

lemma ok_grow:
  assumes ok: "catalog_ok y s"
    and memberships: "\<And>m. m \<in> set (ct_memberships t) \<Longrightarrow> mm_status m = ''APPROVED'' \<Longrightarrow> m \<in> set (ct_memberships s) \<or> two_reviewers t (mm_tenant m) (mm_institution m)"
    and products: "\<And>p. p \<in> set (ct_products t) \<Longrightarrow> gp_status p \<noteq> ''DRAFT'' \<Longrightarrow>
      (\<exists>q \<in> set (ct_products s). gp_status q \<noteq> ''DRAFT'' \<and> gp_id q = gp_id p) \<or> two_approvers t (gp_id p)"
    and evidence: "\<And>e. e \<in> set (ct_evidence t) \<Longrightarrow> e \<in> set (ct_evidence s) \<or> signed_by_source y t e"
    and keys: "distinct (map key_name (ct_keys t))" "key_material ` set (ct_keys s) \<subseteq> key_material ` set (ct_keys t)"
    and configurations: "tenancy ` set (ct_configurations s) \<subseteq> tenancy ` set (ct_configurations t)"
    and rows: "set (ct_reviews s) \<subseteq> set (ct_reviews t)" "set (ct_activations s) \<subseteq> set (ct_activations t)"
  shows "catalog_ok y t"
  unfolding catalog_ok_def
proof (intro conjI ballI impI)
  fix m assume "m \<in> set (ct_memberships t)" "mm_status m = ''APPROVED''"
  with memberships catalog_okD(1) [OF ok] two_reviewers_grow [OF _ rows(1)] show "two_reviewers t (mm_tenant m) (mm_institution m)" by blast
next
  fix p assume "p \<in> set (ct_products t)" "gp_status p \<noteq> ''DRAFT''"
  with products catalog_okD(2) [OF ok] two_approvers_grow [OF _ rows(2)] show "two_approvers t (gp_id p)" by metis
next
  fix e assume "e \<in> set (ct_evidence t)"
  with evidence catalog_okD(3) [OF ok] signed_grow [OF _ keys(2) configurations] show "signed_by_source y t e" by blast
qed (rule keys(1))

lemma revoked_parts:
  shows "ct_memberships (revoke_effect i j at s) = ct_memberships s" "ct_evidence (revoke_effect i j at s) = ct_evidence s"
    "ct_reviews (revoke_effect i j at s) = ct_reviews s" "ct_activations (revoke_effect i j at s) = ct_activations s"
    "ct_roles (revoke_effect i j at s) = ct_roles s" "ct_institutions (revoke_effect i j at s) = ct_institutions s"
    "ct_templates (revoke_effect i j at s) = ct_templates s"
    "ct_keys (revoke_effect i j at s) = update_where (\<lambda>k. sk_institution k = i \<and> sk_key k = j \<and> sk_status k = ''ACTIVE'') (revoke_row at) (ct_keys s)"
    "tenancy ` set (ct_configurations (revoke_effect i j at s)) = tenancy ` set (ct_configurations s)"
  by (simp_all add: revoke_effect_def invalidate_evidence_for_def pause_products_def suspend_configurations_def invalidate_requirements_def)
    (rule update_image, simp add: tenancy_def)

lemma revoked_products:
  assumes "p \<in> set (ct_products (revoke_effect i j at s))"
  shows "\<exists>q \<in> set (ct_products s). gp_id q = gp_id p \<and> (p = q \<or> gp_status q = ''ACTIVE'' \<and> gp_status p = ''PAUSED'')"
  using assms by (auto simp: revoke_effect_def invalidate_evidence_for_def pause_products_def suspend_configurations_def invalidate_requirements_def in_update split: if_splits)

lemma revoke_row_facts: "key_name (revoke_row at k) = key_name k" "key_material (revoke_row at k) = key_material k"
  by (simp_all add: revoke_row_def key_name_def key_material_def)

lemma open_activationD: "m \<in> set (open_activations s product) \<Longrightarrow> m \<in> set (ct_activations s) \<and> wa_product m = product \<and> wa_role m = ''MAKER''"
  by (simp add: open_activations_def activations_of_def)

lemma open_reviewD: "m \<in> set (open_reviews s tenant institution) \<Longrightarrow>
    m \<in> set (ct_reviews s) \<and> wr_tenant m = tenant \<and> wr_institution m = institution \<and> wr_role m = ''MAKER''"
  by (simp add: open_reviews_def reviews_of_def)

lemma latest_in: "latest_by key rows = Some r \<Longrightarrow> r \<in> set rows"
  unfolding latest_by_def by (drule find_someD) simp

lemma effect_keeps_ok:
  assumes ok: "catalog_ok y s" and "catalog_effect y s t"
  shows "catalog_ok y t"
  using assms(2)
proof cases
  case nothing
  then show ?thesis using ok by simp
next
  case (institution i h tenant)
  then show ?thesis using catalog_okD(4) [OF ok]
    by (intro ok_grow [OF ok]) (auto simp: add_institution_def key_name_def primary_key_def split: if_splits)
next
  case (key k)
  then show ?thesis using catalog_okD(4) [OF ok]
    by (intro ok_grow [OF ok]) (auto simp: key_name_def)
next
  case (revoked i j k at)
  have d: "distinct (map key_name (ct_keys t))" unfolding revoked(1) revoked_parts using catalog_okD(4) [OF ok] by (simp add: update_map revoke_row_facts)
  show ?thesis
    by (rule ok_grow [OF ok _ _ _ d])
      (use revoked_products in \<open>force simp: revoked(1) revoked_parts update_image revoke_row_facts\<close>)+
next
  case (drafted p tenant actorRef)
  then show ?thesis using catalog_okD(4) [OF ok] by (intro ok_grow [OF ok]) (auto simp: add_product_def)
next
  case (assigned tenant product p c tm institution status role)
  then show ?thesis using catalog_okD(4) [OF ok] by (intro ok_grow [OF ok]) (auto simp: assign_def status_tenancy)
next
  case (proposed_review n tenant institution actorRef decision reason)
  then show ?thesis using catalog_okD(4) [OF ok] by (intro ok_grow [OF ok]) auto
next
  case (decided_review tenant institution proposal actorRef decision reason)
  note m = open_reviewD [OF latest_in [OF decided_review(2)]]
  have two: "two_reviewers t tenant institution" if "decision = ''APPROVE''" "wr_decision proposal = ''APPROVE''"
    using m that decided_review(3) unfolding two_reviewers_def decided_review(1) review_effect_def
    by (intro bexI [of _ proposal] bexI [of _ "review tenant institution (wr_round proposal) ''CHECKER'' actorRef decision reason"]) (auto simp: review_def)
  show ?thesis using two catalog_okD(4) [OF ok]
    by (intro ok_grow [OF ok]) (auto simp: decided_review(1) review_effect_def in_update split: if_splits)
next
  case (attached tenant product p c tm e r k payload payloadHash version h actorRef)
  let ?row = "attached_row h product actorRef e payloadHash version"
  note k = find_someD [OF attached(7)] and c = find_productD [OF attached(2)]
  obtain bytes where b: "vi_signature e = base64_encode bytes"
    "ey_verify y (canonicalizeProductEvidence (productEvidencePayload y (signed_fields tenant product e))) (sk_pem k) bytes = Some True"
    using attached(9) unfolding verified_evidence by blast
  obtain c' where c': "c' \<in> set (ct_configurations t)" "fg_product c' = product" "fg_tenant c' = tenant"
    using c(3,4,5) by (force simp: attached(1) attach_effect_def attached_row_def in_update)
  have "signed_by_source y t ?row"
    unfolding signed_by_source_def
    by (intro bexI [of _ k] bexI [OF _ c'(1)] conjI exI [of _ bytes])
      (use k b c' in \<open>auto simp: attached(1) attach_effect_def attached_row_def evidence_fields_of_def signed_fields_def\<close>)
  moreover have "tenancy ` set (ct_configurations t) = tenancy ` set (ct_configurations s)"
    unfolding attached(1) attach_effect_def by (simp, rule update_image, simp add: tenancy_def)
  ultimately show ?thesis using catalog_okD(4) [OF ok] by (intro ok_grow [OF ok]) (auto simp: attached(1) attach_effect_def)
next
  case (proposed tenant product p c tm clock n actorRef reason)
  then show ?thesis using catalog_okD(4) [OF ok] by (intro ok_grow [OF ok]) (auto simp: status_tenancy)
next
  case (decided tenant product p c tm maker actorRef decision clock reason)
  note m = open_activationD [OF latest_in [OF decided(5)]]
  have two: "two_approvers t product" if "decision = ''APPROVE''"
    using m that decided(6) unfolding two_approvers_def decided(1) decide_effect_def
    by (intro bexI [of _ maker] bexI [of _ "activation product (wa_round maker) ''CHECKER'' actorRef decision reason"]) (auto simp: activation_def)
  show ?thesis using two catalog_okD(4) [OF ok]
    by (intro ok_grow [OF ok]) (auto simp: decided(1) decide_effect_def status_tenancy in_update split: if_splits)
next
  case (switched product p status)
  have "\<exists>q \<in> set (ct_products s). gp_status q \<noteq> ''DRAFT'' \<and> gp_id q = product"
    using find_someD [OF switched(2)] switched(3) by (intro bexI [of _ p]) auto
  then show ?thesis using catalog_okD(4) [OF ok]
    by (intro ok_grow [OF ok]) (auto simp: switched(1) in_update split: if_splits)
qed

definition catalog_start :: "template_row list \<Rightarrow> template_requirement list \<Rightarrow> catalog_db" where
  \<comment> \<open>the templates of the migrations and their requirements\<close>
  "catalog_start templates requirements = \<lparr>ct_store = empty_db [] [], ct_tenants = [], ct_templates = templates,
     ct_templateRequirements = requirements, ct_institutions = [], ct_memberships = [], ct_keys = [], ct_products = [], ct_configurations = [],
     ct_roles = [], ct_requirements = [], ct_evidence = [], ct_reviews = [], ct_activations = [], ct_snapshots = []\<rparr>"

interpretation catalogue: invariant_of "cat_step y" "catalog_start templates requirements" "catalog_ok y" for y templates requirements
proof
  show "catalog_ok y (catalog_start templates requirements)" by (simp add: catalog_start_def catalog_ok_def)
  show "catalog_ok y t" if "catalog_ok y s" "cat_step y s t" for s t
    using step_effect [OF that(2)] effect_keeps_ok [OF that(1)] ok_core by blast
qed

end
