(* ===== verification/CatalogRun.thy ===== *)
theory CatalogRun
  imports CatalogInvariants ZkRun
begin

text \<open>
  A run of the catalogue: an institution is registered and approved, drafts a product, takes its role,
  attaches its evidence; a maker proposes the activation. Then the role is assigned again, or a checker
  approves, the key is revoked and the product is resumed.
\<close>

section \<open>Running forward\<close>

lemma ensureE_ok: "c \<Longrightarrow> ensureE c code s = (Inr (), s)"
  by (simp add: ensureE_def retE_def)

lemma retE_run: "retE x s = (Inr x, s)"
  by (simp add: retE_def)

lemma audit_runs: "\<exists>t. catalog_audit h tenant event aggType aggId metadata s = (Inr (), t) \<and> catalog_core t = catalog_core s
    \<and> ct_tenants t = ct_tenants s \<and> db_outbox (ct_store t) = db_outbox (ct_store s)"
  by (simp add: catalog_audit_def inCatalog_def recordAuditEvent_def eff_defs Let_def catalog_core_def)

lemma record_runs:
  assumes "db_outbox (ct_store s) = []"
  shows "\<exists>t. catalog_record h tenant event aggType aggId metadata s = (Inr (), t) \<and> catalog_core t = catalog_core s"
proof -
  obtain u where u: "catalog_audit h tenant event aggType aggId metadata s = (Inr (), u)" "catalog_core u = catalog_core s" "db_outbox (ct_store u) = []"
    using audit_runs [of h tenant event aggType aggId metadata s] assms by auto
  have "\<exists>t. thenE (inCatalog (enqueueOutbox (sv_sha h) (sv_clock h) (sv_eventId h) tenant (''rwa.'' @ event) aggId metadata None)) (retE ()) u = (Inr (), t)
    \<and> catalog_core t = catalog_core u"
    using u(3) by (simp add: inCatalog_def enqueueOutbox_def eff_defs Let_def catalog_core_def)
  then show ?thesis unfolding catalog_record_def thenE_def [of "catalog_audit h tenant event aggType aggId metadata"] bindE_def
    using u(1,2) by (simp add: bindE_def)
qed

lemma record_result:
  assumes "db_outbox (ct_store s) = []"
  obtains t where "catalog_record h tenant event aggType aggId metadata s = (Inr (), t)" and "catalog_core t = catalog_core s"
  using record_runs [OF assms, of h tenant event aggType aggId metadata] by (elim exE conjE) (rule that)

lemma snapshot_runs:
  assumes "catalog_core u = catalog_core s" and "find (\<lambda>p. gp_id p = product) (ct_products s) = Some p"
    and "find (\<lambda>c. fg_product c = product \<and> fg_tenant c = tenant) (ct_configurations s) = Some c"
  shows "\<exists>t. thenE (catalog_snapshot h tenant product actorRef event) (retE x) u = (Inr x, t) \<and> catalog_core t = catalog_core s"
proof -
  have "ct_products u = ct_products s" "ct_configurations u = ct_configurations s" using assms(1) by (simp_all add: catalog_core_def)
  then show ?thesis using assms by (simp add: catalog_snapshot_def eff_defs catalog_core_def)
qed

lemma record_snapshot_runs:
  assumes "db_outbox (ct_store s) = []" and "find (\<lambda>p. gp_id p = product) (ct_products s) = Some p"
    and "find (\<lambda>c. fg_product c = product \<and> fg_tenant c = tenant) (ct_configurations s) = Some c"
  shows "\<exists>t. thenE (catalog_record h tenant event aggType aggId metadata)
      (thenE (catalog_snapshot h tenant product actorRef event') (retE x)) s = (Inr x, t) \<and> catalog_core t = catalog_core s"
proof -
  obtain u where u: "catalog_record h tenant event aggType aggId metadata s = (Inr (), u)" "catalog_core u = catalog_core s"
    using record_runs [OF assms(1), of h tenant event aggType aggId metadata] by (elim exE conjE) (rule that)
  from snapshot_runs [OF u(2) assms(2,3), of h actorRef event' x] show ?thesis
    unfolding thenE_def [of "catalog_record h tenant event aggType aggId metadata"] bindE_def u(1) by simp
qed

lemma audit_snapshot_runs:
  assumes "find (\<lambda>p. gp_id p = product) (ct_products s) = Some p"
    and "find (\<lambda>c. fg_product c = product \<and> fg_tenant c = tenant) (ct_configurations s) = Some c"
  shows "\<exists>t. thenE (catalog_audit h tenant event aggType aggId metadata)
      (thenE (catalog_snapshot h tenant product actorRef event') (retE x)) s = (Inr x, t) \<and> catalog_core t = catalog_core s"
proof -
  obtain u where u: "catalog_audit h tenant event aggType aggId metadata s = (Inr (), u)" "catalog_core u = catalog_core s"
    using audit_runs [of h tenant event aggType aggId metadata s] by (elim exE conjE) (rule that)
  from snapshot_runs [OF u(2) assms, of h actorRef event' x] show ?thesis
    unfolding thenE_def [of "catalog_audit h tenant event aggType aggId metadata"] bindE_def u(1) by simp
qed

section \<open>The service and its inputs\<close>

definition run_crypto :: evidence_crypto where
  "run_crypto = \<lparr>ey_sha = run_sha, ey_iso = (\<lambda>_. ''t''), ey_key = (\<lambda>_. Some (''public'', ''ed25519'')), ey_verify = (\<lambda>_ _ _. Some True)\<rparr>"

definition run_catalog :: catalog_service where
  "run_catalog = \<lparr>sv_crypto = run_crypto, sv_date = (\<lambda>v. if v = JStr ''1'' then Some 1 else if v = JStr ''9'' then Some 9 else None),
     sv_now = 5, sv_clock = 0, sv_skew = 10, sv_validity = 100, sv_eventId = ''e''\<rparr>"

definition run_pem :: string where
  "run_pem = ''BEGIN PUBLIC KEY'' @ replicate 50 CHR ''k''"

definition run_institution :: institution_input where
  "run_institution = \<lparr>ui_id = ''iss'', ui_legalName = ''iss'', ui_jurisdiction = ''HK'', ui_pem = run_pem, ui_reference = None\<rparr>"

lemma run_institution_valid: "validateInstitutionInput run_catalog (JObj [(''publicKeyPem'', JStr run_pem), (''id'', JStr ''iss''), (''legalName'', JStr ''iss''),
    (''jurisdiction'', JStr ''HK'')]) = Inr run_institution"
proof -
  have "contains_text run_pem ''BEGIN PUBLIC KEY''" "\<not> contains_text run_pem ''PRIVATE KEY''" "slug_text 99 ''iss''" "country_code ''HK''" "length run_pem = 66"
    by code_simp+
  then show ?thesis
    by (simp add: validateInstitutionInput_def jfield_def requireString_def any_text_def assertEd25519PublicKey_def run_catalog_def run_crypto_def ensureR_def
      nullish_def run_institution_def)
qed

definition run_template :: template_row where
  "run_template = \<lparr>tm_id = ''TPL'', tm_assetClass = ''FUND'', tm_version = 1, tm_displayName = ''t'', tm_roles = [''issuer''], tm_actions = JArr [],
     tm_rules = [(''allowedInvestorClasses'', JArr [JStr ''professional'']), (''allowedJurisdictions'', JArr [JStr ''HK'']), (''maxPriceDeviationBps'', JNum 100)],
     tm_status = ''ACTIVE''\<rparr>"

definition run_requirement :: template_requirement where
  "run_requirement = \<lparr>tq_template = ''TPL'', tq_code = ''deed'', tq_role = ''issuer'', tq_description = ''deed'', tq_mandatory = True\<rparr>"

definition run_product_input :: product_input where
  "run_product_input = \<lparr>xi_id = ''prd'', xi_name = ''prd'', xi_jurisdiction = ''HK'', xi_issuer = ''iss'', xi_currency = ''HKD'', xi_template = ''TPL'',
     xi_rules = tm_rules run_template @ [(''currency'', JStr ''HKD'')]\<rparr>"

definition run_product_json :: json where
  "run_product_json = JObj [(''templateId'', JStr ''TPL''), (''id'', JStr ''prd''), (''name'', JStr ''prd''), (''jurisdiction'', JStr ''HK''),
     (''issuerId'', JStr ''iss''), (''currency'', JStr ''HKD'')]"

lemma run_product_valid: "validateProductInput run_product_json (Some run_template) = Inr run_product_input"
proof -
  have "slug_text 99 ''iss''" "slug_text 99 ''prd''" "country_code ''HK''" "currency_code ''HKD''" by code_simp+
  then show ?thesis
    by (simp add: validateProductInput_def run_product_json_def jfield_def requireString_def any_text_def ensureR_def supplied_rules_def nullish_def
      merged_rules_def product_rules_def run_template_def stringList_def integer_between_def run_product_input_def)
qed

definition run_signature :: string where
  "run_signature = base64_encode (replicate 12 CHR ''s'')"

definition run_evidence :: evidence_input where
  "run_evidence = \<lparr>vi_id = ''ev1'', vi_requirement = ''deed'', vi_source = ''iss'', vi_schema = ''1'', vi_content = replicate 64 CHR ''a'',
     vi_envelope = PRODUCT_EVIDENCE_ENVELOPE, vi_algorithm = PRODUCT_EVIDENCE_ALGORITHM, vi_key = DEFAULT_CALLBACK_KEY_ID, vi_signature = run_signature,
     vi_issuedAt = 1, vi_expiresAt = 9\<rparr>"

definition run_evidence_json :: json where
  "run_evidence_json = JObj [(''id'', JStr ''ev1''), (''requirementCode'', JStr ''deed''), (''sourceInstitutionId'', JStr ''iss''), (''schemaVersion'', JStr ''1''),
     (''contentHash'', JStr (replicate 64 CHR ''a'')), (''envelopeVersion'', JStr PRODUCT_EVIDENCE_ENVELOPE),
     (''signatureAlgorithm'', JStr PRODUCT_EVIDENCE_ALGORITHM), (''keyId'', JStr DEFAULT_CALLBACK_KEY_ID), (''signature'', JStr run_signature),
     (''issuedAt'', JStr ''1''), (''expiresAt'', JStr ''9'')]"

lemma run_signature_length: "length run_signature = 16"
  by (simp add: run_signature_def encode_length)

lemma run_evidence_valid: "evidenceInput run_catalog run_evidence_json = Inr run_evidence"
proof -
  have "slug_text 99 ''iss''" "slug_text 99 ''ev1''" "requirement_code ''deed''" "sha256_text (replicate 64 CHR ''a'')" "id_text ''._:-'' 127 DEFAULT_CALLBACK_KEY_ID"
    "length PRODUCT_EVIDENCE_ENVELOPE = 34" "length PRODUCT_EVIDENCE_ALGORITHM = 7" "length DEFAULT_CALLBACK_KEY_ID = 10"
    by code_simp+
  then show ?thesis
    by (simp add: evidenceInput_def evidence_times_def run_evidence_json_def jfield_def requireString_def any_text_def ensureR_def run_catalog_def
      run_evidence_def run_signature_length)
qed

lemma run_evidence_policy: "evidence_policy run_catalog run_evidence = Inr ()"
  by (simp add: evidence_policy_def guards.simps run_evidence_def run_catalog_def)

lemma run_evidence_verified:
  "verifyProductEvidenceSignature run_crypto (signed_fields tenant product run_evidence) run_signature pem
     = Inr (productEvidencePayload run_crypto (signed_fields tenant product run_evidence), ''h'', PRODUCT_EVIDENCE_VERIFIER)"
  unfolding verified_evidence using run_signature_length
  by (auto simp: run_crypto_def productEvidencePayloadHash_def run_sha_def run_signature_def)

lemma run_texts: "slug_text 99 ''iss''" "slug_text 99 ''prd''" "slug_text 62 ''ten''" "id_text ''._:-'' 127 DEFAULT_CALLBACK_KEY_ID"
  "length DEFAULT_CALLBACK_KEY_ID = 10"
  by code_simp+

section \<open>The states of the run\<close>

definition run_ct0 :: catalog_db where
  "run_ct0 = catalog_start [run_template] [run_requirement]\<lparr>ct_tenants := [\<lparr>tn_id = ''ten'', tn_legalName = ''ten'', tn_home = ''HK'',
     tn_region = ''hk1'', tn_status = ''ONBOARDING''\<rparr>]\<rparr>"

definition run_ct1 :: catalog_db where
  "run_ct1 = add_institution run_catalog ''ten'' run_institution run_ct0"

definition run_ct2 :: catalog_db where
  "run_ct2 = run_ct1\<lparr>ct_reviews := [review ''ten'' ''iss'' 1 ''MAKER'' ''m'' ''APPROVE'' ''why'']\<rparr>"

definition run_ct3 :: catalog_db where
  "run_ct3 = review_effect ''ten'' ''iss'' (review ''ten'' ''iss'' 1 ''MAKER'' ''m'' ''APPROVE'' ''why'') ''c'' ''APPROVE'' ''why'' run_ct2"

definition run_ct4 :: catalog_db where
  "run_ct4 = add_product ''ten'' ''m'' run_product_input run_ct3"

definition run_ct5 :: catalog_db where
  "run_ct5 = assign ''prd'' ''issuer'' ''iss'' run_ct4\<lparr>ct_configurations := set_status ''prd'' ''READY_FOR_EVIDENCE'' (ct_configurations run_ct4)\<rparr>"

definition run_ct6 :: catalog_db where
  "run_ct6 = attach_effect (attached_row run_catalog ''prd'' ''m'' run_evidence ''h'' PRODUCT_EVIDENCE_VERIFIER) run_ct5"

definition run_ct7 :: catalog_db where
  "run_ct7 = run_ct6\<lparr>ct_activations := [activation ''prd'' 1 ''MAKER'' ''m'' ''ACTIVATE'' ''why''],
     ct_configurations := set_status ''prd'' ''ACTIVATION_PENDING'' (ct_configurations run_ct6)\<rparr>"

definition run_ct8 :: catalog_db where
  "run_ct8 = assign ''prd'' ''issuer'' ''iss'' run_ct7\<lparr>ct_configurations := set_status ''prd'' ''READY_FOR_EVIDENCE'' (ct_configurations run_ct7)\<rparr>"

definition run_ct9 :: catalog_db where
  "run_ct9 = decide_effect ''prd'' 1 ''c'' ''APPROVE'' ''why'' run_ct7"

definition run_ct10 :: catalog_db where
  "run_ct10 = revoke_effect ''iss'' DEFAULT_CALLBACK_KEY_ID 5 run_ct9"

definition run_ct11 :: catalog_db where
  "run_ct11 = run_ct10\<lparr>ct_products := update_where (\<lambda>p. gp_id p = ''prd'')
     (\<lambda>p. p\<lparr>gp_status := ''ACTIVE'', gp_version := gp_version p + 1\<rparr>) (ct_products run_ct10)\<rparr>"

lemmas run_ct_defs = run_ct1_def run_ct2_def run_ct3_def run_ct4_def run_ct5_def run_ct6_def run_ct7_def run_ct8_def run_ct9_def run_ct10_def run_ct11_def
  add_institution_def review_def review_effect_def add_product_def assign_def attach_effect_def attached_row_def activation_def decide_effect_def set_status_def update_where_def

lemmas run_values = run_ct0_def catalog_start_def run_template_def run_requirement_def run_institution_def run_product_input_def run_evidence_def primary_key_def
  run_catalog_def empty_db_def

lemma run_store: "db_outbox (ct_store run_ct5) = []" "db_outbox (ct_store run_ct6) = []" "db_outbox (ct_store run_ct7) = []" "db_outbox (ct_store run_ct1) = []"
    "db_outbox (ct_store run_ct2) = []" "db_outbox (ct_store run_ct9) = []"
  by (simp_all add: run_ct_defs run_values)

lemma run_registers: "\<exists>t. register_in run_catalog ''ten'' ''m'' run_institution run_ct0 = (Inr run_institution, t) \<and> catalog_core t = catalog_core run_ct1"
proof -
  have "catalog_tenant ''ten'' run_ct0 = (Inr (hd (ct_tenants run_ct0)), run_ct0)"
    by (simp add: catalog_tenant_def eff_defs requireString_def ensureR_def run_texts run_ct0_def)
  moreover have "ui_id run_institution \<notin> iu_id ` set (ct_institutions run_ct0)" by (simp add: run_values)
  ultimately show ?thesis
    using audit_runs [of run_catalog "''ten''" "''institution.registered''" "''institution''" "ui_id run_institution"
      "JObj [(''actorRef'', JStr ''m''), (''jurisdiction'', JStr (ui_jurisdiction run_institution)), (''onboardingStatus'', JStr ''DUE_DILIGENCE'')]" run_ct1]
    by (auto simp: register_in_def eff_defs run_ct1_def)
qed

lemma run_proposes_review: "\<exists>t. propose_review_in run_catalog ''ten'' ''m'' ''iss'' ''APPROVE'' ''why'' run_ct1 = (Inr (1, ''APPROVE''), t)
    \<and> catalog_core t = catalog_core run_ct2"
proof -
  let ?json = "JObj [(''actorRef'', JStr ''m''), (''round'', JNum 1), (''decision'', JStr ''APPROVE''), (''reason'', JStr ''why'')]"
  have tenant: "catalog_tenant ''ten'' run_ct1 = (Inr (hd (ct_tenants run_ct1)), run_ct1)"
    by (simp add: catalog_tenant_def eff_defs requireString_def ensureR_def run_texts run_ct1_def add_institution_def run_ct0_def)
  have due: "in_due_diligence ''ten'' ''iss'' run_ct1 = (Inr (), run_ct1)"
    by (simp add: due_same run_ct_defs run_values)
  have none: "reviews_of run_ct1 ''ten'' ''iss'' = []" by (simp add: reviews_of_def run_ct_defs run_values)
  have lr: "last_round (map wr_round (reviews_of run_ct1 ''ten'' ''iss'')) = 0" by (simp add: none last_round_def)
  have add: "add_review ''ten'' ''iss'' (Suc 0) ''MAKER'' ''m'' ''APPROVE'' ''why'' run_ct1 = (Inr (), run_ct2)"
    by (simp add: add_review_def eff_defs insert_row_def run_ct_defs run_values)
  obtain t where t: "catalog_record run_catalog ''ten'' ''institution.review_proposed'' ''institution'' ''iss'' ?json run_ct2 = (Inr (), t)" "catalog_core t = catalog_core run_ct2"
    by (rule record_result [OF run_store(5)])
  show ?thesis unfolding propose_review_in_def thenE_def bindE_def tenant
    using t by (simp add: due lr withE_def Let_def add ensureE_def retE_def)
qed

lemma review_fields: "wr_actor (review tenant i n r a d w) = a" "wr_decision (review tenant i n r a d w) = d" "wr_round (review tenant i n r a d w) = n"
  by (simp_all add: review_def)

lemma run_decides_review: "\<exists>t. decide_review_in run_catalog ''ten'' ''c'' ''iss'' ''APPROVE'' ''why'' run_ct2 = (Inr (1, ''APPROVED''), t)
    \<and> catalog_core t = catalog_core run_ct3"
proof -
  let ?m = "review ''ten'' ''iss'' 1 ''MAKER'' ''m'' ''APPROVE'' ''why''"
  have due: "in_due_diligence ''ten'' ''iss'' run_ct2 = (Inr (), run_ct2)"
    by (simp add: due_same run_ct_defs run_values)
  have m: "latest_by wr_round (open_reviews run_ct2 ''ten'' ''iss'') = Some ?m"
    by (simp add: latest_by_def open_reviews_def reviews_of_def run_ct2_def review_def)
  have add: "add_review ''ten'' ''iss'' (wr_round ?m) ''CHECKER'' ''c'' ''APPROVE'' ''why'' run_ct2
    = (Inr (), run_ct2\<lparr>ct_reviews := [?m, review ''ten'' ''iss'' 1 ''CHECKER'' ''c'' ''APPROVE'' ''why'']\<rparr>)"
    by (simp add: add_review_def eff_defs insert_row_def run_ct2_def review_def)
  have set: "set_onboarding ''ten'' ''iss'' ''APPROVED'' (run_ct2\<lparr>ct_reviews := [?m, review ''ten'' ''iss'' 1 ''CHECKER'' ''c'' ''APPROVE'' ''why'']\<rparr>) = (Inr (), run_ct3)"
    by (simp add: set_onboarding_def modifyE_def run_ct3_def review_effect_def run_ct2_def review_def)
  obtain t where t: "catalog_record run_catalog ''ten'' ''institution.review_decided'' ''institution'' ''iss''
      (JObj [(''actorRef'', JStr ''c''), (''round'', JNum (int (wr_round ?m))), (''checkerDecision'', JStr ''APPROVE''),
        (''makerDecision'', JStr (wr_decision ?m)), (''resultingState'', JStr ''APPROVED''), (''reason'', JStr ''why'')]) run_ct3 = (Inr (), t)"
    "catalog_core t = catalog_core run_ct3"
    by (rule record_result [of run_ct3]) (simp add: run_ct_defs run_values)
  show ?thesis unfolding decide_review_in_def thenE_def bindE_def withE_def Let_def due
    using t add set by (simp add: m [simplified] optE_def retE_def ensureE_def review_fields)
qed

lemma run_creates_product: "\<exists>t. create_in run_catalog ''ten'' ''m'' run_product_json run_ct3 = (Inr run_product_input, t) \<and> catalog_core t = catalog_core run_ct4"
proof -
  have tenant: "catalog_tenant ''ten'' run_ct3 = (Inr (hd (ct_tenants run_ct3)), run_ct3)"
    by (simp add: catalog_tenant_def eff_defs requireString_def ensureR_def run_texts run_ct_defs run_values)
  have template: "find (\<lambda>t. JStr (tm_id t) = jfield run_product_json ''templateId'') (ct_templates run_ct3) = Some run_template"
    by (simp add: run_ct_defs run_values run_product_json_def jfield_def)
  have issuer: "approvedInstitution ''ten'' (xi_issuer run_product_input) run_ct3 = (Inr (), run_ct3)"
    by (simp add: approved_same institution_approved_def run_ct_defs run_values)
  have new: "xi_id run_product_input \<notin> gp_id ` set (ct_products run_ct3)" by (simp add: run_ct_defs run_values)
  have add: "modifyE (add_product ''ten'' ''m'' run_product_input) run_ct3 = (Inr (), run_ct4)" by (simp add: modifyE_def run_ct4_def)
  have "\<exists>t. thenE (catalog_audit run_catalog ''ten'' ''product.draft_created'' ''product'' (xi_id run_product_input)
      (JObj [(''actorRef'', JStr ''m''), (''templateId'', JStr (xi_template run_product_input)), (''jurisdiction'', JStr (xi_jurisdiction run_product_input)),
        (''currency'', JStr (xi_currency run_product_input))]))
      (thenE (catalog_snapshot run_catalog ''ten'' (xi_id run_product_input) ''m'' ''product.draft_created'') (retE run_product_input)) run_ct4 = (Inr run_product_input, t)
    \<and> catalog_core t = catalog_core run_ct4"
    by (rule audit_snapshot_runs [of _ _ "hd (ct_products run_ct4)" _ "hd (ct_configurations run_ct4)"]) (simp_all add: run_ct_defs run_values)
  then show ?thesis unfolding create_in_def thenE_def [of "catalog_tenant _"] thenE_def [of "approvedInstitution _ _"] thenE_def [of "ensureE _ _"]
      thenE_def [of "modifyE _"] bindE_def withE_def
    by (simp add: tenant template liftE_def run_product_valid issuer new add ensureE_def retE_def)
qed

definition run_drafted :: "catalog_db \<Rightarrow> bool" where
  \<comment> \<open>the draft of the run, with its institution approved\<close>
  "run_drafted s = (\<exists>c. ct_products s = ct_products run_ct4 \<and> ct_configurations s = [c] \<and> fg_product c = ''prd'' \<and> fg_tenant c = ''ten''
     \<and> fg_template c = ''TPL'' \<and> ct_templates s = [run_template] \<and> ct_institutions s = ct_institutions run_ct3 \<and> ct_memberships s = ct_memberships run_ct3)"

lemma run_find:
  assumes "run_drafted s"
  shows "find_product s ''ten'' ''prd'' = Some (hd (ct_products run_ct4), hd (ct_configurations s), run_template)"
    and "gp_status (hd (ct_products run_ct4)) = ''DRAFT''" and "institution_approved s ''ten'' ''iss''"
    and "find (\<lambda>p. gp_id p = ''prd'') (ct_products s) = Some (hd (ct_products run_ct4))"
    and "find (\<lambda>c. fg_product c = ''prd'' \<and> fg_tenant c = ''ten'') (ct_configurations s) = Some (hd (ct_configurations s))"
  using assms by (auto simp: run_drafted_def find_product_def institution_approved_def run_ct_defs run_values)

lemma run_assigns:
  assumes "run_drafted s"
  shows "\<exists>t. assign_in run_catalog ''ten'' ''m'' ''prd'' ''issuer'' ''iss'' s = (Inr ''READY_FOR_EVIDENCE'', t)
    \<and> catalog_core t = catalog_core (assign ''prd'' ''issuer'' ''iss'' s\<lparr>ct_configurations := set_status ''prd'' ''READY_FOR_EVIDENCE'' (ct_configurations s)\<rparr>)"
proof -
  let ?u = "assign ''prd'' ''issuer'' ''iss'' s\<lparr>ct_configurations := set_status ''prd'' ''READY_FOR_EVIDENCE'' (ct_configurations s)\<rparr>"
  have product: "catalog_product_of ''ten'' ''prd'' s = (Inr (hd (ct_products run_ct4), hd (ct_configurations s), run_template), s)"
    by (simp add: product_of_same run_find [OF assms])
  have refresh: "refreshConfigurationStatus ''prd'' (tm_roles run_template) (assign ''prd'' ''issuer'' ''iss'' s) = (Inr ''READY_FOR_EVIDENCE'', ?u)"
  proof -
    have "''issuer'' \<in> set (assigned_roles (assign ''prd'' ''issuer'' ''iss'' s) ''prd'')"
      unfolding assigned_roles_def assign_def set_map set_filter
      by (rule image_eqI [of _ _ "\<lparr>rg_product = ''prd'', rg_role = ''issuer'', rg_institution = ''iss'', rg_active = True\<rparr>"]) simp_all
    then show ?thesis
      by (simp add: refreshConfigurationStatus_def eff_defs Let_def set_configuration_def set_status_def run_template_def) (simp add: assign_def)
  qed
  have "\<exists>c. find (\<lambda>c. fg_product c = ''prd'' \<and> fg_tenant c = ''ten'') (ct_configurations ?u) = Some c"
    using assms by (auto simp: run_drafted_def set_status_def update_where_def)
  then obtain c where c: "find (\<lambda>c. fg_product c = ''prd'' \<and> fg_tenant c = ''ten'') (ct_configurations ?u) = Some c" by blast
  have p: "find (\<lambda>p. gp_id p = ''prd'') (ct_products ?u) = Some (hd (ct_products run_ct4))" using run_find(4) [OF assms] by (simp add: assign_def)
  have role: "''issuer'' \<in> set (tm_roles run_template)" by (simp add: run_template_def)
  show ?thesis
    using audit_snapshot_runs [OF p c, of run_catalog "''product.role_assigned''" "''product''" "''prd''" _ "''m''" "''product.role_assigned''" "''READY_FOR_EVIDENCE''"]
      product refresh role run_find(2,3) [OF assms]
    unfolding assign_in_def bindE_def [of "catalog_product_of _ _"] thenE_def [of "ensureE _ _"] thenE_def [of "approvedInstitution _ _"] thenE_def [of "modifyE _"]
    by (simp add: bindE_def ensureE_def retE_def approvedInstitution_def withE_def modifyE_def)
qed

lemma run_draft: "run_drafted run_ct4" "run_drafted run_ct5" "run_drafted run_ct6" "run_drafted run_ct7"
  by (simp_all add: run_drafted_def run_ct_defs run_values)

lemma run_attaches: "\<exists>t. attach_in run_catalog ''ten'' ''m'' ''prd'' run_evidence run_ct5 = (Inr ''h'', t) \<and> catalog_core t = catalog_core run_ct6"
proof -
  let ?row = "attached_row run_catalog ''prd'' ''m'' run_evidence ''h'' PRODUCT_EVIDENCE_VERIFIER"
  let ?k = "primary_key run_catalog run_institution"
  let ?u = "run_ct5\<lparr>ct_evidence := ct_evidence run_ct5 @ [?row]\<rparr>"
  let ?v = "?u\<lparr>ct_requirements := update_where (\<lambda>r. rr_product r = ''prd'' \<and> rr_code r = ''deed'')
      (\<lambda>r. r\<lparr>rr_status := ''SATISFIED'', rr_evidence := Some ''ev1''\<rparr>) (ct_requirements run_ct5)\<rparr>"
  note f = run_find [OF run_draft(2)]
  have product: "catalog_product_of ''ten'' ''prd'' run_ct5 = (Inr (hd (ct_products run_ct4), hd (ct_configurations run_ct5), run_template), run_ct5)"
    by (simp add: product_of_same f)
  have source: "evidence_source ''ten'' ''prd'' run_evidence run_ct5 = (Inr ?k, run_ct5)"
    unfolding evidence_source_same using f(3) by (simp add: run_ct_defs run_values)
  have policy: "evidence_key_policy run_evidence ?k = Inr ()"
    by (simp add: evidence_key_policy_def guards.simps run_evidence_def primary_key_def run_catalog_def PRODUCT_EVIDENCE_ALGORITHM_def)
  have verified: "verifyProductEvidenceSignature (sv_crypto run_catalog) (signed_fields ''ten'' ''prd'' run_evidence) (vi_signature run_evidence) (sk_pem ?k)
    = Inr (productEvidencePayload run_crypto (signed_fields ''ten'' ''prd'' run_evidence), ''h'', PRODUCT_EVIDENCE_VERIFIER)"
    using run_evidence_verified by (simp add: run_catalog_def run_evidence_def)
  have add: "add_evidence ?row run_ct5 = (Inr (), ?u)" by (simp add: add_evidence_def eff_defs insert_row_def run_ct_defs run_values)
  have sat: "satisfy ''prd'' (vi_requirement run_evidence) (vi_id run_evidence) ?u = (Inr (), ?v)" by (simp add: satisfy_def modifyE_def run_evidence_def)
  have set: "set_configuration ''prd'' (\<lambda>c. c) ?v = (Inr (), run_ct6)"
    by (simp add: set_configuration_def modifyE_def run_ct6_def attach_effect_def attached_row_def run_evidence_def)
  have "db_outbox (ct_store run_ct6) = []" by (rule run_store(2))
  note tail = record_snapshot_runs [OF this run_find(4,5) [OF run_draft(3)], of run_catalog "''product.activation_evidence_attached''" "''product''" "''prd''"
    "evidence_metadata run_catalog ''m'' run_evidence ''h'' PRODUCT_EVIDENCE_VERIFIER" "''m''" "''product.activation_evidence_attached''" "''h''"]
  show ?thesis
    using tail f(2)
    unfolding attach_in_def bindE_def thenE_def [of "ensureE _ _"] thenE_def [of "liftE _"] thenE_def [of "add_evidence _"] thenE_def [of "satisfy _ _ _"]
      thenE_def [of "set_configuration _ _"] product
    by (simp add: ensureE_ok source policy verified liftE_def add sat set)
qed

lemma run_ready: "activation_ready run_ct6 0 ''ten'' ''prd'' [''issuer'']" "activation_ready run_ct7 0 ''ten'' ''prd'' [''issuer'']"
  by (simp_all add: activation_ready_def approved_roles_def institution_approved_def requirement_missing_def key_unfit_def run_ct_defs run_values image_iff)

lemma run_proposes: "\<exists>t. propose_in run_catalog ''ten'' ''m'' ''prd'' ''why'' run_ct6 = (Inr 1, t) \<and> catalog_core t = catalog_core run_ct7"
proof -
  let ?u = "run_ct6\<lparr>ct_activations := [activation ''prd'' 1 ''MAKER'' ''m'' ''ACTIVATE'' ''why'']\<rparr>"
  note f = run_find [OF run_draft(3)]
  have product: "catalog_product_of ''ten'' ''prd'' run_ct6 = (Inr (hd (ct_products run_ct4), hd (ct_configurations run_ct6), run_template), run_ct6)"
    by (simp add: product_of_same f)
  have status: "fg_status (hd (ct_configurations run_ct6)) = ''READY_FOR_EVIDENCE''" by (simp add: run_ct_defs run_values)
  have ready: "assertActivationReady run_catalog ''ten'' ''prd'' (tm_roles run_template) run_ct6 = (Inr (), run_ct6)"
    using run_ready(1) by (simp add: ready_same run_template_def run_catalog_def)
  have none: "activations_of run_ct6 ''prd'' = []" "open_activations run_ct6 ''prd'' = []"
    by (simp_all add: activations_of_def open_activations_def run_ct_defs run_values)
  have add: "add_activation ''prd'' (Suc 0) ''MAKER'' ''m'' ''ACTIVATE'' ''why'' run_ct6 = (Inr (), ?u)"
    by (simp add: add_activation_def eff_defs insert_row_def activation_def run_ct6_def run_ct5_def run_ct4_def run_ct3_def run_ct2_def run_ct1_def attach_effect_def
      assign_def add_product_def review_effect_def add_institution_def run_ct0_def catalog_start_def)
  have set: "set_configuration ''prd'' (\<lambda>c. c\<lparr>fg_status := ''ACTIVATION_PENDING''\<rparr>) ?u = (Inr (), run_ct7)"
    by (simp add: set_configuration_def modifyE_def run_ct7_def set_status_def)
  note tail = record_snapshot_runs [OF run_store(3) run_find(4,5) [OF run_draft(4)], of run_catalog "''product.activation_proposed''" "''product''" "''prd''"
    "JObj [(''actorRef'', JStr ''m''), (''round'', JNum (int (0 + 1))), (''reason'', JStr ''why'')]" "''m''" "''product.activation_proposed''" "0 + 1 :: nat"]
  have "last_round (map wa_round (activations_of run_ct6 ''prd'')) = 0" by (simp add: none last_round_def)
  then show ?thesis
    using tail f(2) status ready none(2) set add
    unfolding propose_in_def bindE_def thenE_def [of "ensureE _ _"] thenE_def [of "assertActivationReady _ _ _ _"] thenE_def [of "add_activation _ _ _ _ _ _"]
      thenE_def [of "set_configuration _ _"] product withE_def Let_def
    by (simp add: ensureE_ok)
qed

lemma run_decides: "\<exists>t. decide_in run_catalog ''ten'' ''c'' ''prd'' ''APPROVE'' ''why'' run_ct7 = (Inr (1, ''ACTIVE''), t) \<and> catalog_core t = catalog_core run_ct9"
proof -
  define m where "m = activation ''prd'' 1 ''MAKER'' ''m'' ''ACTIVATE'' ''why''"
  let ?u = "run_ct7\<lparr>ct_activations := [m, activation ''prd'' 1 ''CHECKER'' ''c'' ''APPROVE'' ''why'']\<rparr>"
  let ?v = "?u\<lparr>ct_products := update_where (\<lambda>p. gp_id p = ''prd'' \<and> gp_status p = ''DRAFT'')
       (\<lambda>p. p\<lparr>gp_status := ''ACTIVE'', gp_version := gp_version p + 1\<rparr>) (ct_products run_ct7)\<rparr>"
  note f = run_find [OF run_draft(4)]
  have m: "wa_actor m = ''m''" "wa_round m = 1" by (simp_all add: m_def activation_def)
  have product: "catalog_product_of ''ten'' ''prd'' run_ct7 = (Inr (hd (ct_products run_ct4), hd (ct_configurations run_ct7), run_template), run_ct7)"
    by (simp add: product_of_same f)
  have status: "fg_status (hd (ct_configurations run_ct7)) = ''ACTIVATION_PENDING''" by (simp add: run_ct_defs run_values)
  have acts: "ct_activations run_ct7 = [m]" by (simp add: run_ct7_def m_def)
  have latest: "latest_by wa_round (open_activations run_ct7 ''prd'') = Some m"
    by (simp add: latest_by_def open_activations_def activations_of_def acts) (simp add: m_def activation_def)
  have add: "add_activation ''prd'' (wa_round m) ''CHECKER'' ''c'' ''APPROVE'' ''why'' run_ct7 = (Inr (), ?u)"
    by (simp add: add_activation_def eff_defs insert_row_def acts m) (simp add: m_def activation_def)
  have "activation_ready ?u = activation_ready run_ct7" by (rule ready_cong) simp_all
  then have ready: "assertActivationReady run_catalog ''ten'' ''prd'' (tm_roles run_template) ?u = (Inr (), ?u)"
    using run_ready(2) by (simp add: ready_same run_template_def run_catalog_def)
  have act: "activate_product ''prd'' ?u = (Inr (), ?v)" by (simp add: activate_product_def modifyE_def)
  have set: "set_configuration ''prd'' (\<lambda>c. c\<lparr>fg_status := ''ACTIVE''\<rparr>) ?v = (Inr (), run_ct9)"
    by (simp add: set_configuration_def modifyE_def run_ct9_def decide_effect_def set_status_def acts)
  have p: "find (\<lambda>p. gp_id p = ''prd'') (ct_products run_ct9) = Some (hd (ct_products run_ct9))"
    "find (\<lambda>c. fg_product c = ''prd'' \<and> fg_tenant c = ''ten'') (ct_configurations run_ct9) = Some (hd (ct_configurations run_ct9))"
    by (simp_all add: run_ct_defs run_values)
  note tail = record_snapshot_runs [OF run_store(6) p, of run_catalog "''product.activation_approved''" "''product''" "''prd''"
    "JObj [(''actorRef'', JStr ''c''), (''round'', JNum (int (wa_round m))), (''decision'', JStr ''APPROVE''), (''reason'', JStr ''why''),
      (''resultingState'', JStr ''ACTIVE'')]" "''c''" "''product.activation_approved''" "(wa_round m, ''ACTIVE'')"]
  have differ: "''m'' \<noteq> (''c'' :: string)" by simp
  obtain t where t: "thenE (catalog_record run_catalog ''ten'' ''product.activation_approved'' ''product'' ''prd''
      (JObj [(''actorRef'', JStr ''c''), (''round'', JNum (int (wa_round m))), (''decision'', JStr ''APPROVE''), (''reason'', JStr ''why''),
        (''resultingState'', JStr ''ACTIVE'')])) (thenE (catalog_snapshot run_catalog ''ten'' ''prd'' ''c'' ''product.activation_approved'') (retE (wa_round m, ''ACTIVE''))) run_ct9
      = (Inr (wa_round m, ''ACTIVE''), t)" "catalog_core t = catalog_core run_ct9"
    using tail by (elim exE conjE) (rule that)
  have "decide_in run_catalog ''ten'' ''c'' ''prd'' ''APPROVE'' ''why'' run_ct7 = (Inr (wa_round m, ''ACTIVE''), t)"
    unfolding decide_in_def bindE_def thenE_def [of "ensureE _ _"] thenE_def [of "add_activation _ _ _ _ _ _"] thenE_def [of "if _ then _ else _"]
      thenE_def [of "assertActivationReady _ _ _ _"] thenE_def [of "set_configuration _ _"] product withE_def Let_def
    using t(1) f(2) status differ ready add act set m(1) by (simp add: ensureE_ok latest optE_def retE_run)
  then show ?thesis using t(2) m(2) by auto
qed

lemma run_revokes: "\<exists>t. revoke_in run_catalog ''ten'' ''m'' ''iss'' DEFAULT_CALLBACK_KEY_ID ''why'' run_ct9 = (Inr (), t) \<and> catalog_core t = catalog_core run_ct10"
proof -
  have member: "\<exists>m \<in> set (ct_memberships run_ct9). mm_tenant m = ''ten'' \<and> mm_institution m = ''iss''" by (simp add: run_ct_defs run_values)
  have key: "find (\<lambda>k. sk_institution k = ''iss'' \<and> sk_key k = DEFAULT_CALLBACK_KEY_ID \<and> sk_status k = ''ACTIVE'') (ct_keys run_ct9)
      = Some (primary_key run_catalog run_institution)"
    by (simp add: run_ct_defs run_values)
  have act: "revoke_key ''iss'' DEFAULT_CALLBACK_KEY_ID (sv_now run_catalog) run_ct9 = (Inr (), run_ct10)"
    using key by (simp add: revoke_key_def withE_def modifyE_def revoke_row_def primary_key_def run_catalog_def run_ct10_def revoke_effect_def)
  have "db_outbox (ct_store run_ct10) = []"
    using run_store(6) by (simp add: run_ct10_def revoke_effect_def invalidate_evidence_for_def pause_products_def suspend_configurations_def invalidate_requirements_def)
  from record_runs [OF this] show ?thesis
    unfolding revoke_in_def withE_def thenE_def [of "ensureE _ _"] thenE_def [of "revoke_key _ _ _"] bindE_def by (simp add: ensureE_ok member act)
qed

section \<open>The states are reached\<close>

abbreviation "run_catalog_start \<equiv> catalog_start [run_template] [run_requirement]"

lemma hop:
  assumes "reach (cat_step y) i s" and "\<exists>t. cat_step y s t \<and> catalog_core t = catalog_core s'"
  shows "reach (cat_step y) i s'"
  using assms reach.more cat_elsewhere by metis

lemma run_string: "requireString lo hi any_text (JStr s) = (if lo \<le> length s \<and> length s \<le> hi then Inr s else Inl (Coded ''INVALID_CATALOG_INPUT''))"
  by (simp add: requireString_def ensureR_def any_text_def)

definition run_review :: json where
  "run_review = JObj [(''decision'', JStr ''APPROVE''), (''reason'', JStr ''why'')]"

lemma run_catalog_inputs:
  "reviewInput run_review = Inr (''APPROVE'', ''why'')" "requireString 3 1000 any_text (jfield run_review ''reason'') = Inr ''why''"
  "requireString 3 100 (slug_text 99) (JStr ''iss'') = Inr ''iss''" "requireString 3 100 (slug_text 99) (JStr ''prd'') = Inr ''prd''"
  "requireString (Suc 0) 128 (id_text ''._:-'' 127) (JStr DEFAULT_CALLBACK_KEY_ID) = Inr DEFAULT_CALLBACK_KEY_ID"
  by (simp_all add: reviewInput_def run_review_def jfield_def run_string ensureR_def) (simp_all add: requireString_def ensureR_def run_texts)

lemma run_liftE: "thenE (liftE (Inr x)) m s = m s" "bindE (liftE (Inr x)) f s = f x s" "c \<Longrightarrow> thenE (ensureE c code) m s = m s"
  by (simp_all add: eff_defs)

lemma call_registers: "\<exists>t. catalog_registerInstitution run_catalog run_ok ''ten'' ''m'' (JObj [(''publicKeyPem'', JStr run_pem), (''id'', JStr ''iss''), (''legalName'', JStr ''iss''), (''jurisdiction'', JStr ''HK'')]) run_ct0 = (Inr run_institution, t) \<and> catalog_core t = catalog_core run_ct1"
  using run_registers by (simp add: catalog_registerInstitution_def run_institution_valid run_catalog_inputs run_liftE run_serializable)

lemma call_proposes_review: "\<exists>t. proposeInstitutionReview run_catalog run_ok ''ten'' ''m'' ''iss'' run_review run_ct1 = (Inr (1, ''APPROVE''), t) \<and> catalog_core t = catalog_core run_ct2"
  using run_proposes_review by (simp add: proposeInstitutionReview_def run_catalog_inputs run_liftE run_serializable)

lemma call_decides_review: "\<exists>t. decideInstitutionReview run_catalog run_ok ''ten'' ''c'' ''iss'' run_review run_ct2 = (Inr (1, ''APPROVED''), t) \<and> catalog_core t = catalog_core run_ct3"
  using run_decides_review by (simp add: decideInstitutionReview_def run_catalog_inputs run_liftE run_serializable)

lemma call_creates: "\<exists>t. catalog_createProduct run_catalog run_ok ''ten'' ''m'' run_product_json run_ct3 = (Inr run_product_input, t) \<and> catalog_core t = catalog_core run_ct4"
  using run_creates_product by (simp add: catalog_createProduct_def run_catalog_inputs run_liftE run_serializable)

lemma call_assigns: "\<exists>t. assignRole run_catalog run_ok ''ten'' ''m'' ''prd'' ''issuer'' ''iss'' run_ct4 = (Inr ''READY_FOR_EVIDENCE'', t) \<and> catalog_core t = catalog_core run_ct5"
  using run_assigns [OF run_draft(1), folded run_ct5_def] by (simp add: assignRole_def ROLE_def run_catalog_inputs run_liftE run_serializable)

lemma call_attaches: "\<exists>t. attachActivationEvidence run_catalog run_ok ''ten'' ''m'' ''prd'' run_evidence_json run_ct5 = (Inr ''h'', t) \<and> catalog_core t = catalog_core run_ct6"
  using run_attaches by (simp add: attachActivationEvidence_def run_evidence_valid run_evidence_policy run_catalog_inputs run_liftE run_serializable)

lemma call_proposes: "\<exists>t. proposeActivation run_catalog run_ok ''ten'' ''m'' ''prd'' run_review run_ct6 = (Inr 1, t) \<and> catalog_core t = catalog_core run_ct7"
  using run_proposes by (simp add: proposeActivation_def run_catalog_inputs run_liftE run_serializable)

lemma call_reassigns: "\<exists>t. assignRole run_catalog run_ok ''ten'' ''m'' ''prd'' ''issuer'' ''iss'' run_ct7 = (Inr ''READY_FOR_EVIDENCE'', t) \<and> catalog_core t = catalog_core run_ct8"
  using run_assigns [OF run_draft(4), folded run_ct8_def] by (simp add: assignRole_def ROLE_def run_catalog_inputs run_liftE run_serializable)

lemma call_decides: "\<exists>t. decideActivation run_catalog run_ok ''ten'' ''c'' ''prd'' run_review run_ct7 = (Inr (1, ''ACTIVE''), t) \<and> catalog_core t = catalog_core run_ct9"
  using run_decides by (simp add: decideActivation_def run_catalog_inputs run_liftE run_serializable)

lemma call_revokes: "\<exists>t. revokeInstitutionSigningKey run_catalog run_ok ''ten'' ''m'' ''iss'' DEFAULT_CALLBACK_KEY_ID (JStr ''why'') run_ct9 = (Inr (), t) \<and> catalog_core t = catalog_core run_ct10"
  using run_revokes by (simp add: revokeInstitutionSigningKey_def run_string run_catalog_inputs run_liftE run_serializable)

lemmas revoke_defs = revoke_effect_def invalidate_evidence_for_def pause_products_def suspend_configurations_def invalidate_requirements_def

lemma run_paused: "\<exists>p. find (\<lambda>p. gp_id p = ''prd'') (ct_products run_ct10) = Some p \<and> gp_status p = ''PAUSED''"
  by (simp add: run_ct_defs run_values revoke_defs)

lemma call_resumes: "switch_status ''prd'' ''ACTIVE'' run_ct10 = (Inr (), run_ct11)"
proof -
  obtain p where "find (\<lambda>p. gp_id p = ''prd'') (ct_products run_ct10) = Some p" "gp_status p = ''PAUSED''" using run_paused by blast
  then show ?thesis by (simp add: switch_status_def eff_defs run_ct11_def)
qed

lemma run_reached0: "reach (cat_step run_crypto) run_catalog_start run_ct0"
  by (rule hop [OF reach.start], intro exI conjI, rule cat_elsewhere, rule refl) (simp add: run_ct0_def catalog_core_def)

lemma run_reached_registers: "reach (cat_step run_crypto) run_catalog_start run_ct1"
proof (rule hop [OF run_reached0])
  from call_registers obtain t where t: "catalog_registerInstitution run_catalog run_ok ''ten'' ''m'' (JObj [(''publicKeyPem'', JStr run_pem), (''id'', JStr ''iss''), (''legalName'', JStr ''iss''), (''jurisdiction'', JStr ''HK'')]) run_ct0 = (Inr run_institution, t)" "catalog_core t = catalog_core run_ct1" by (elim exE conjE) (rule that)
  show "\<exists>t. cat_step run_crypto run_ct0 t \<and> catalog_core t = catalog_core run_ct1"
    by (intro exI conjI, rule registers_institution [OF t(1)], rule t(2))
qed

lemma run_reached_proposes_review: "reach (cat_step run_crypto) run_catalog_start run_ct2"
proof (rule hop [OF run_reached_registers])
  from call_proposes_review obtain t where t: "proposeInstitutionReview run_catalog run_ok ''ten'' ''m'' ''iss'' run_review run_ct1 = (Inr (1, ''APPROVE''), t)" "catalog_core t = catalog_core run_ct2" by (elim exE conjE) (rule that)
  show "\<exists>t. cat_step run_crypto run_ct1 t \<and> catalog_core t = catalog_core run_ct2"
    by (intro exI conjI, rule proposes_review [OF t(1)], rule t(2))
qed

lemma run_reached_decides_review: "reach (cat_step run_crypto) run_catalog_start run_ct3"
proof (rule hop [OF run_reached_proposes_review])
  from call_decides_review obtain t where t: "decideInstitutionReview run_catalog run_ok ''ten'' ''c'' ''iss'' run_review run_ct2 = (Inr (1, ''APPROVED''), t)" "catalog_core t = catalog_core run_ct3" by (elim exE conjE) (rule that)
  show "\<exists>t. cat_step run_crypto run_ct2 t \<and> catalog_core t = catalog_core run_ct3"
    by (intro exI conjI, rule decides_review [OF t(1)], rule t(2))
qed

lemma run_reached_creates: "reach (cat_step run_crypto) run_catalog_start run_ct4"
proof (rule hop [OF run_reached_decides_review])
  from call_creates obtain t where t: "catalog_createProduct run_catalog run_ok ''ten'' ''m'' run_product_json run_ct3 = (Inr run_product_input, t)" "catalog_core t = catalog_core run_ct4" by (elim exE conjE) (rule that)
  show "\<exists>t. cat_step run_crypto run_ct3 t \<and> catalog_core t = catalog_core run_ct4"
    by (intro exI conjI, rule creates_product [OF t(1)], rule t(2))
qed

lemma run_reached_assigns: "reach (cat_step run_crypto) run_catalog_start run_ct5"
proof (rule hop [OF run_reached_creates])
  from call_assigns obtain t where t: "assignRole run_catalog run_ok ''ten'' ''m'' ''prd'' ''issuer'' ''iss'' run_ct4 = (Inr ''READY_FOR_EVIDENCE'', t)" "catalog_core t = catalog_core run_ct5" by (elim exE conjE) (rule that)
  show "\<exists>t. cat_step run_crypto run_ct4 t \<and> catalog_core t = catalog_core run_ct5"
    by (intro exI conjI, rule assigns_role [OF t(1)], rule t(2))
qed

lemma run_reached_attaches: "reach (cat_step run_crypto) run_catalog_start run_ct6"
proof (rule hop [OF run_reached_assigns])
  from call_attaches obtain t where t: "attachActivationEvidence run_catalog run_ok ''ten'' ''m'' ''prd'' run_evidence_json run_ct5 = (Inr ''h'', t)" "catalog_core t = catalog_core run_ct6" by (elim exE conjE) (rule that)
  show "\<exists>t. cat_step run_crypto run_ct5 t \<and> catalog_core t = catalog_core run_ct6"
    by (intro exI conjI, rule attaches_evidence [OF _ t(1)], simp add: run_catalog_def, rule t(2))
qed

lemma run_reached_proposes: "reach (cat_step run_crypto) run_catalog_start run_ct7"
proof (rule hop [OF run_reached_attaches])
  from call_proposes obtain t where t: "proposeActivation run_catalog run_ok ''ten'' ''m'' ''prd'' run_review run_ct6 = (Inr 1, t)" "catalog_core t = catalog_core run_ct7" by (elim exE conjE) (rule that)
  show "\<exists>t. cat_step run_crypto run_ct6 t \<and> catalog_core t = catalog_core run_ct7"
    by (intro exI conjI, rule proposes_activation [OF t(1)], rule t(2))
qed

lemma run_reached_reassigns: "reach (cat_step run_crypto) run_catalog_start run_ct8"
proof (rule hop [OF run_reached_proposes])
  from call_reassigns obtain t where t: "assignRole run_catalog run_ok ''ten'' ''m'' ''prd'' ''issuer'' ''iss'' run_ct7 = (Inr ''READY_FOR_EVIDENCE'', t)" "catalog_core t = catalog_core run_ct8" by (elim exE conjE) (rule that)
  show "\<exists>t. cat_step run_crypto run_ct7 t \<and> catalog_core t = catalog_core run_ct8"
    by (intro exI conjI, rule assigns_role [OF t(1)], rule t(2))
qed

lemma run_reached_decides: "reach (cat_step run_crypto) run_catalog_start run_ct9"
proof (rule hop [OF run_reached_proposes])
  from call_decides obtain t where t: "decideActivation run_catalog run_ok ''ten'' ''c'' ''prd'' run_review run_ct7 = (Inr (1, ''ACTIVE''), t)" "catalog_core t = catalog_core run_ct9" by (elim exE conjE) (rule that)
  show "\<exists>t. cat_step run_crypto run_ct7 t \<and> catalog_core t = catalog_core run_ct9"
    by (intro exI conjI, rule decides_activation [OF t(1)], rule t(2))
qed

lemma run_reached_revokes: "reach (cat_step run_crypto) run_catalog_start run_ct10"
proof (rule hop [OF run_reached_decides])
  from call_revokes obtain t where t: "revokeInstitutionSigningKey run_catalog run_ok ''ten'' ''m'' ''iss'' DEFAULT_CALLBACK_KEY_ID (JStr ''why'') run_ct9 = (Inr (), t)" "catalog_core t = catalog_core run_ct10" by (elim exE conjE) (rule that)
  show "\<exists>t. cat_step run_crypto run_ct9 t \<and> catalog_core t = catalog_core run_ct10"
    by (intro exI conjI, rule revokes_key [OF t(1)], rule t(2))
qed

lemma run_reached_resumes: "reach (cat_step run_crypto) run_catalog_start run_ct11"
  by (rule reach.more [OF run_reached_revokes]) (rule switches_status [OF call_resumes])

end
