(* ===== verification/CatalogProperties.thy ===== *)
theory CatalogProperties
  imports CatalogRun
begin

text \<open>The properties of the product catalogue, applied to the run of \<open>CatalogRun\<close>.\<close>

section \<open>Keys\<close>

definition key_dead :: "string \<times> string \<Rightarrow> catalog_db \<Rightarrow> bool" where
  "key_dead name s = (\<exists>k \<in> set (ct_keys s). key_name k = name \<and> sk_revoked k)"

lemma key_dead_kept: "catalog_effect y s t \<Longrightarrow> key_dead name s \<Longrightarrow> key_dead name t"
proof (cases rule: catalog_effect.cases, assumption)
  fix i j k at assume t: "t = revoke_effect i j at s" and "key_dead name s"
  then obtain k where k: "k \<in> set (ct_keys s)" "key_name k = name" "sk_revoked k" by (auto simp: key_dead_def)
  let ?k = "if sk_institution k = i \<and> sk_key k = j \<and> sk_status k = ''ACTIVE'' then revoke_row at k else k"
  have "?k \<in> set (ct_keys t)" using k(1) unfolding t revoked_parts in_update by blast
  moreover have "key_name ?k = name" "sk_revoked ?k" using k by (simp_all add: revoke_row_facts) (simp_all add: revoke_row_def)
  ultimately show "key_dead name t" unfolding key_dead_def by blast
qed (auto simp: key_dead_def add_institution_def add_product_def assign_def review_effect_def attach_effect_def decide_effect_def)

lemma key_dead_always: "(cat_step y)\<^sup>*\<^sup>* s t \<Longrightarrow> key_dead name s \<Longrightarrow> key_dead name t"
proof (induction rule: rtranclp_induct)
  case (step t u)
  obtain v where v: "catalog_effect y t v" "catalog_core u = catalog_core v" using step_effect [OF step(2)] by blast
  have "key_dead name v" by (rule key_dead_kept [OF v(1) step.IH [OF step.prems]])
  then show ?case using v(2) by (simp add: key_dead_def catalog_core_def)
qed

lemma only_one:
  assumes "distinct (map f xs)" and "x \<in> set xs"
  shows "filter (\<lambda>r. f r = f x) xs = [x]" and "find (\<lambda>r. f r = f x) xs = Some x"
proof -
  have "filter (\<lambda>r. f r = f x) xs = [x] \<and> find (\<lambda>r. f r = f x) xs = Some x"
    using assms
  proof (induction xs)
    case (Cons a xs)
    show ?case
    proof (cases "x = a")
      case True
      have "\<forall>r \<in> set xs. f r \<noteq> f a" using Cons.prems(1) by (metis distinct.simps(2) image_eqI list.map(2) list.set_map)
      then show ?thesis using True by (simp add: filter_empty_conv)
    next
      case False
      then have "x \<in> set xs" using Cons.prems(2) by simp
      moreover from this have "f a \<noteq> f x" using Cons.prems(1) by (metis distinct.simps(2) image_eqI list.map(2) list.set_map)
      ultimately show ?thesis using Cons by simp
    qed
  qed simp
  then show "filter (\<lambda>r. f r = f x) xs = [x]" "find (\<lambda>r. f r = f x) xs = Some x" by simp_all
qed

lemma only_key:
  assumes "distinct (map key_name ks)" and "k \<in> set ks" and "key_name k = (i, j)"
  shows "filter (\<lambda>r. sk_institution r = i \<and> sk_key r = j) ks = [k]" and "find (\<lambda>r. sk_institution r = i \<and> sk_key r = j) ks = Some k"
proof -
  have "(\<lambda>r. sk_institution r = i \<and> sk_key r = j) = (\<lambda>r. key_name r = key_name k)" using assms(3) by (auto simp: key_name_def)
  then show "filter (\<lambda>r. sk_institution r = i \<and> sk_key r = j) ks = [k]" "find (\<lambda>r. sk_institution r = i \<and> sk_key r = j) ks = Some k"
    using only_one [OF assms(1,2)] by simp_all
qed

section \<open>Proposals nobody can decide\<close>

definition orphaned :: "catalog_db \<Rightarrow> string \<Rightarrow> bool" where
  \<comment> \<open>a draft has an open proposal, and its configuration does not say so\<close>
  "orphaned s product = (product \<in> gp_id ` set (ct_products s) \<and> (\<forall>p \<in> set (ct_products s). gp_id p = product \<longrightarrow> gp_status p = ''DRAFT'')
     \<and> (\<forall>c \<in> set (ct_configurations s). fg_product c = product \<longrightarrow> fg_status c \<noteq> ''ACTIVATION_PENDING'') \<and> open_activations s product \<noteq> [])"

lemma open_added: "m \<in> set (open_activations s product) \<Longrightarrow> ct_activations t = ct_activations s @ [a] \<Longrightarrow>
    wa_role a \<noteq> ''CHECKER'' \<or> wa_product a \<noteq> product \<Longrightarrow> m \<in> set (open_activations t product)"
  by (auto simp: open_activations_def activations_of_def)

lemma orphaned_kept:
  assumes "catalog_effect y s t" and o: "orphaned s product"
  shows "orphaned t product"
  using assms(1)
proof cases
  case (revoked i j k at)
  have "gp_id ` set (ct_products t) = gp_id ` set (ct_products s)"
    unfolding revoked(1) revoke_defs by (simp, rule update_image, simp)
  moreover have "\<forall>p \<in> set (ct_products t). gp_id p = product \<longrightarrow> gp_status p = ''DRAFT''"
    using o revoked_products unfolding revoked(1) orphaned_def by fastforce
  moreover have "\<forall>c \<in> set (ct_configurations t). fg_product c = product \<longrightarrow> fg_status c \<noteq> ''ACTIVATION_PENDING''"
    using o by (auto simp: orphaned_def revoked(1) revoke_defs in_update split: if_splits)
  moreover have "open_activations t product = open_activations s product"
    by (simp add: open_activations_def activations_of_def revoked(1) revoked_parts)
  ultimately show ?thesis using o by (simp add: orphaned_def)
next
  case (proposed tenant product' p c tm clock n actorRef reason)
  have other: "product' \<noteq> product" using o proposed(6) by (auto simp: orphaned_def)
  from o have "hd (open_activations s product) \<in> set (open_activations s product)" by (simp add: orphaned_def)
  then have "hd (open_activations s product) \<in> set (open_activations t product)" using open_added other by (force simp: proposed(1) activation_def)
  then have "open_activations t product \<noteq> []" by auto
  then show ?thesis using o other by (auto simp: orphaned_def proposed(1) set_status_def in_update split: if_splits)
next
  case (decided tenant product' p c tm maker actorRef decision clock reason)
  have other: "product' \<noteq> product" using o find_productD(3,4) [OF decided(2)] decided(4) by (auto simp: orphaned_def)
  from o have "hd (open_activations s product) \<in> set (open_activations s product)" by (simp add: orphaned_def)
  then have "hd (open_activations s product) \<in> set (open_activations t product)" using open_added other by (force simp: decided(1) decide_effect_def activation_def)
  then have "open_activations t product \<noteq> []" by auto
  moreover have "gp_id ` set (ct_products t) = gp_id ` set (ct_products s)"
    unfolding decided(1) decide_effect_def by (simp add: update_image)
  ultimately show ?thesis using o other by (auto simp: orphaned_def decided(1) decide_effect_def set_status_def in_update split: if_splits)
next
  case (switched product' p status)
  have "product' \<noteq> product" using o find_someD [OF switched(2)] switched(3) by (auto simp: orphaned_def)
  moreover have "gp_id ` set (ct_products t) = gp_id ` set (ct_products s)" unfolding switched(1) by (simp add: update_image)
  moreover have "open_activations t product = open_activations s product" by (simp add: switched(1) open_activations_def activations_of_def)
  ultimately show ?thesis using o by (auto simp: orphaned_def switched(1) in_update split: if_splits)
qed (use o in \<open>auto simp: orphaned_def add_institution_def add_product_def assign_def review_effect_def attach_effect_def set_status_def in_update
    open_activations_def activations_of_def image_iff split: if_splits\<close>)

lemma orphaned_always: "(cat_step y)\<^sup>*\<^sup>* s t \<Longrightarrow> orphaned s product \<Longrightarrow> orphaned t product"
proof (induction rule: rtranclp_induct)
  case (step t u)
  obtain v where v: "catalog_effect y t v" "catalog_core u = catalog_core v" using step_effect [OF step(2)] by blast
  have "orphaned v product" by (rule orphaned_kept [OF v(1) step.IH [OF step.prems]])
  then show ?case using v(2) by (simp add: orphaned_def catalog_core_def open_activations_def activations_of_def)
qed

section \<open>Who activates a product\<close>

definition all_draft :: "catalog_db \<Rightarrow> string \<Rightarrow> bool" where
  "all_draft s product = (\<forall>p \<in> set (ct_products s). gp_id p = product \<longrightarrow> gp_status p = ''DRAFT'')"

lemma all_draft_same: "ct_products t = ct_products s \<Longrightarrow> all_draft t product = all_draft s product"
  by (simp add: all_draft_def)

lemma core_products: "catalog_core t = catalog_core u \<Longrightarrow> ct_products t = ct_products u"
  by (simp add: catalog_core_def)

lemma products_through: "catalog_core t = catalog_core u \<Longrightarrow> ct_products u = ct_products s \<Longrightarrow> ct_products t = ct_products s"
  using core_products by metis

lemma products_kept:
  shows "provisionTenant h commit input actorRef s = (r1, t) \<Longrightarrow> ct_products t = ct_products s"
    and "catalog_registerInstitution h commit tenant actorRef input s = (r2, t) \<Longrightarrow> ct_products t = ct_products s"
    and "registerInstitutionSigningKey h commit tenant actorRef institution input s = (r3, t) \<Longrightarrow> ct_products t = ct_products s"
    and "assignRole h commit tenant actorRef product role institution s = (r6, t) \<Longrightarrow> ct_products t = ct_products s"
    and "proposeInstitutionReview h commit tenant actorRef institution input s = (r7, t) \<Longrightarrow> ct_products t = ct_products s"
    and "decideInstitutionReview h commit tenant actorRef institution input s = (r8, t) \<Longrightarrow> ct_products t = ct_products s"
    and "attachActivationEvidence h commit tenant actorRef product input s = (r9, t) \<Longrightarrow> ct_products t = ct_products s"
    and "proposeActivation h commit tenant actorRef product input s = (r10, t) \<Longrightarrow> ct_products t = ct_products s"
proof -
  show "provisionTenant h commit input actorRef s = (r1, t) \<Longrightarrow> ct_products t = ct_products s"
    using preservesD [OF provision_core] core_products by blast
  show "catalog_registerInstitution h commit tenant actorRef input s = (r2, t) \<Longrightarrow> ct_products t = ct_products s"
    by (drule register_met, elim disjE exE conjE, simp, erule products_through, simp add: add_institution_def)
  show "registerInstitutionSigningKey h commit tenant actorRef institution input s = (r3, t) \<Longrightarrow> ct_products t = ct_products s"
    by (drule register_key_met, elim disjE exE conjE, simp, erule products_through, simp)
  show "assignRole h commit tenant actorRef product role institution s = (r6, t) \<Longrightarrow> ct_products t = ct_products s"
    by (drule assign_met, elim disjE exE, simp, erule assign_steps, erule products_through, simp add: assign_def)
  show "proposeInstitutionReview h commit tenant actorRef institution input s = (r7, t) \<Longrightarrow> ct_products t = ct_products s"
    by (drule propose_review_met, elim disjE exE, simp, erule propose_review_steps, erule products_through, simp)
  show "decideInstitutionReview h commit tenant actorRef institution input s = (r8, t) \<Longrightarrow> ct_products t = ct_products s"
    by (drule decide_review_met, elim disjE exE conjE, simp, erule decide_review_steps, erule products_through, simp add: review_effect_def)
  show "attachActivationEvidence h commit tenant actorRef product input s = (r9, t) \<Longrightarrow> ct_products t = ct_products s"
    by (drule attach_met, elim disjE exE, simp, erule attach_steps, assumption)
  show "proposeActivation h commit tenant actorRef product input s = (r10, t) \<Longrightarrow> ct_products t = ct_products s"
    by (drule propose_met, elim disjE exE, simp, erule propose_steps, erule products_through, simp)
qed

lemma draft_through: "catalog_core t = catalog_core u \<Longrightarrow> all_draft u product \<Longrightarrow> all_draft t product"
  using all_draft_same [OF core_products] by blast

lemma drafts_kept:
  assumes d: "all_draft s product"
  shows "revokeInstitutionSigningKey h commit tenant actorRef institution keyId reason s = (r4, t) \<Longrightarrow> all_draft t product"
    and "catalog_createProduct h commit tenant actorRef input s = (r5, t) \<Longrightarrow> all_draft t product"
    and "product \<noteq> product' \<Longrightarrow> decideActivation h commit tenant actorRef product' input s = (r11, t) \<Longrightarrow> all_draft t product"
    and "product \<in> gp_id ` set (ct_products s) \<Longrightarrow> switch_status product' status s = (r12, t) \<Longrightarrow> all_draft t product"
proof -
  have "all_draft (revoke_effect i j at s) product" for i j at using d revoked_products unfolding all_draft_def by fastforce
  then show "revokeInstitutionSigningKey h commit tenant actorRef institution keyId reason s = (r4, t) \<Longrightarrow> all_draft t product"
    using d by (drule_tac revoke_met, elim disjE exE conjE, simp, elim draft_through) simp
  have "all_draft (add_product i j p s) product" for i j p using d by (auto simp: all_draft_def add_product_def)
  then show "catalog_createProduct h commit tenant actorRef input s = (r5, t) \<Longrightarrow> all_draft t product"
    using d by (drule_tac create_met, elim disjE exE conjE, simp, elim draft_through) simp
  assume other: "product \<noteq> product'" and run: "decideActivation h commit tenant actorRef product' input s = (r11, t)"
  from decide_met [OF run] show "all_draft t product"
  proof (elim disjE exE conjE)
    fix decision reason n state assume "decide_in h tenant actorRef product' decision reason s = (Inr (n, state), t)"
    then show ?thesis by (rule decide_steps, elim draft_through) (use d other in \<open>auto simp: all_draft_def in_update split: if_splits\<close>)
  qed (use d in simp)
next
  assume known: "product \<in> gp_id ` set (ct_products s)" and run: "switch_status product' status s = (r12, t)"
  show "all_draft t product"
  proof (cases r12)
    case (Inl e)
    then show ?thesis using d run by (auto simp: switch_status_def eff_simps)
  next
    case (Inr a)
    then obtain p where p: "find (\<lambda>p. gp_id p = product') (ct_products s) = Some p" "gp_status p \<noteq> ''DRAFT''"
      "ct_products t = update_where (\<lambda>p. gp_id p = product') (\<lambda>p. p\<lparr>gp_status := status, gp_version := gp_version p + 1\<rparr>) (ct_products s)"
      using run by (auto simp: switch_status_def eff_simps split: if_splits)
    have "product' \<noteq> product" using find_someD [OF p(1)] p(2) d by (auto simp: all_draft_def)
    then show ?thesis using d p(3) by (auto simp: all_draft_def in_update)
  qed
qed

lemma only_decisions_activate:
  assumes "cat_step y s t" and d: "all_draft s product" "product \<in> gp_id ` set (ct_products s)" and a: "\<not> all_draft t product"
  obtains h commit tenant actorRef input r where "decideActivation h commit tenant actorRef product input s = (r, t)"
proof -
  have same: "ct_products t \<noteq> ct_products s" using d(1) a all_draft_same by blast
  show thesis
    using assms(1)
  proof cases
    case (decides_activation h commit tenant actorRef product' input)
    then show ?thesis using that drafts_kept(3) [OF d(1)] a by metis
  next
    case provisions
    from products_kept(1) [OF this] show ?thesis using same by simp
  next
    case registers_institution
    from products_kept(2) [OF this] show ?thesis using same by simp
  next
    case registers_key
    from products_kept(3) [OF this] show ?thesis using same by simp
  next
    case assigns_role
    from products_kept(4) [OF this] show ?thesis using same by simp
  next
    case proposes_review
    from products_kept(5) [OF this] show ?thesis using same by simp
  next
    case decides_review
    from products_kept(6) [OF this] show ?thesis using same by simp
  next
    case proposes_activation
    from products_kept(8) [OF this] show ?thesis using same by simp
  next
    case attaches_evidence
    from products_kept(7) [OF this(2)] show ?thesis using same by simp
  next
    case revokes_key
    from drafts_kept(1) [OF d(1) this] show ?thesis using a by simp
  next
    case creates_product
    from drafts_kept(2) [OF d(1) this] show ?thesis using a by simp
  next
    case switches_status
    from drafts_kept(4) [OF d this] show ?thesis using a by simp
  next
    case cat_elsewhere
    from core_products [OF this] show ?thesis using same by simp
  qed
qed

definition backed :: "evidence_crypto \<Rightarrow> catalog_db \<Rightarrow> int \<Rightarrow> requirement \<Rightarrow> bool" where
  \<comment> \<open>evidence that has not expired, signed by its source under a key that was valid and is not revoked\<close>
  "backed y s clock r = (\<exists>e \<in> set (ct_evidence s). rr_evidence r = Some (ve_id e) \<and> ve_status e = ''VERIFIED'' \<and> clock < ve_expiresAt e
     \<and> signed_by_source y s e
     \<and> (\<exists>k \<in> set (ct_keys s). key_name k = (ve_source e, ve_key e) \<and> sk_status k = ''ACTIVE'' \<and> \<not> sk_revoked k \<and> sk_from k \<le> ve_issuedAt e
          \<and> (\<forall>u. sk_until k = Some u \<longrightarrow> ve_issuedAt e < u)))"

lemma ready_backed:
  assumes ok: "catalog_ok y s" and ready: "activation_ready s clock tenant product required"
    and r: "r \<in> set (ct_requirements s)" "rr_product r = product" "rr_mandatory r"
  shows "backed y s clock r"
proof -
  have m: "\<not> requirement_missing s clock r" using ready r by (simp add: activation_ready_def)
  then obtain e where e: "Option.bind (rr_evidence r) (\<lambda>i. find (\<lambda>e. ve_id e = i) (ct_evidence s)) = Some e"
    and v: "clock < ve_expiresAt e" "ve_status e = ''VERIFIED''"
    using r(3) by (auto simp: requirement_missing_def split: option.splits)
  have in_e: "e \<in> set (ct_evidence s)" "rr_evidence r = Some (ve_id e)" using e by (auto simp: bind_eq_Some_conv dest!: find_someD)
  have signed: "signed_by_source y s e" by (rule catalog_okD(3) [OF ok in_e(1)])
  then obtain k where k: "k \<in> set (ct_keys s)" "key_name k = (ve_source e, ve_key e)" unfolding signed_by_source_def key_name_def by blast
  have "find (\<lambda>k. sk_institution k = ve_source e \<and> sk_key k = ve_key e) (ct_keys s) = Some k" by (rule only_key [OF catalog_okD(4) [OF ok] k])
  then have "\<not> key_unfit (ve_issuedAt e) k" using m r(3) e by (simp add: requirement_missing_def)
  then show ?thesis unfolding backed_def key_unfit_def
    by (intro bexI [OF _ in_e(1)] conjI in_e(2) v signed bexI [OF _ k(1)] k(2)) (auto split: option.splits)
qed

lemma ready_roles:
  assumes "activation_ready s clock tenant product required" and "role \<in> set required"
  shows "\<exists>a \<in> set (ct_roles s). rg_product a = product \<and> rg_role a = role \<and> rg_active a \<and> institution_approved s tenant (rg_institution a)"
  using assms by (auto simp: activation_ready_def approved_roles_def)

lemma decision_activates:
  assumes "decideActivation h commit tenant actorRef product input s = (r, t)" and "all_draft s product" and "\<not> all_draft t product"
  obtains p c tm where "find_product s tenant product = Some (p, c, tm)" and "fg_status c = ''ACTIVATION_PENDING''"
    and "activation_ready s (sv_clock h) tenant product (tm_roles tm)"
proof -
  from decide_met [OF assms(1)] assms(2,3) obtain decision reason n state where run: "decide_in h tenant actorRef product decision reason s = (Inr (n, state), t)" by blast
  show thesis
    using run
  proof (rule decide_steps)
    fix p c tm maker assume f: "find_product s tenant product = Some (p, c, tm)" "fg_status c = ''ACTIVATION_PENDING''"
      and ready: "decision = ''APPROVE'' \<Longrightarrow> activation_ready s (sv_clock h) tenant product (tm_roles tm)"
      and core: "catalog_core t = catalog_core (s\<lparr>ct_activations := ct_activations s @ [\<lparr>wa_product = product, wa_round = n, wa_role = ''CHECKER'',
        wa_actor = actorRef, wa_decision = decision, wa_reason = reason\<rparr>], ct_configurations := set_status product state (ct_configurations s),
        ct_products := (if decision = ''APPROVE'' then update_where (\<lambda>p. gp_id p = product \<and> gp_status p = ''DRAFT'')
          (\<lambda>p. p\<lparr>gp_status := ''ACTIVE'', gp_version := gp_version p + 1\<rparr>) (ct_products s) else ct_products s)\<rparr>)"
    have "decision = ''APPROVE''" using core_products [OF core] assms(2,3) by (auto simp: all_draft_def split: if_splits)
    then show thesis using that [OF f] ready by blast
  qed
qed

section \<open>The properties\<close>

text \<open>
  C16. A draft leaves the state \<open>DRAFT\<close> only by \<open>decideActivation\<close>, on an open proposal, when an approved
  institution holds every role of the template, every mandatory requirement is backed by evidence its
  source signed under a key that was valid and is not revoked, and a maker and another checker agreed.
\<close>

theorem activation_is_gated:
  assumes run: "reach (cat_step y) (catalog_start templates requirements) s" and step: "cat_step y s t"
    and before: "all_draft s product" and known: "product \<in> gp_id ` set (ct_products s)" and after: "\<not> all_draft t product"
  shows "\<exists>h commit tenant actorRef input r p c tm. decideActivation h commit tenant actorRef product input s = (r, t)
     \<and> find_product s tenant product = Some (p, c, tm) \<and> fg_status c = ''ACTIVATION_PENDING''
     \<and> (\<forall>role \<in> set (tm_roles tm). \<exists>a \<in> set (ct_roles s). rg_product a = product \<and> rg_role a = role \<and> rg_active a
          \<and> institution_approved s tenant (rg_institution a))
     \<and> (\<forall>r \<in> set (ct_requirements s). rr_product r = product \<longrightarrow> rr_mandatory r \<longrightarrow> backed y s (sv_clock h) r)
     \<and> two_approvers t product"
proof -
  obtain h commit tenant actorRef input r where d: "decideActivation h commit tenant actorRef product input s = (r, t)"
    by (rule only_decisions_activate [OF step before known after])
  obtain p c tm where f: "find_product s tenant product = Some (p, c, tm)" "fg_status c = ''ACTIVATION_PENDING''"
    and ready: "activation_ready s (sv_clock h) tenant product (tm_roles tm)" by (rule decision_activates [OF d before after])
  have "two_approvers t product"
    using after catalog_okD(2) [OF catalogue.always [OF reach.more [OF run step]]] unfolding all_draft_def by blast
  then show ?thesis
    by (intro exI conjI ballI impI) (rule d f ready_roles [OF ready] ready_backed [OF catalogue.always [OF run] ready] | assumption)+
qed

theorem activation_is_gated_witness:
  "\<exists>t. decideActivation run_catalog run_ok ''ten'' ''c'' ''prd'' run_review run_ct7 = (Inr (1, ''ACTIVE''), t) \<and> two_approvers t ''prd''"
proof -
  obtain t where t: "decideActivation run_catalog run_ok ''ten'' ''c'' ''prd'' run_review run_ct7 = (Inr (1, ''ACTIVE''), t)"
    "catalog_core t = catalog_core run_ct9"
    using call_decides by (elim exE conjE) (rule that)
  have "all_draft run_ct7 ''prd''" "''prd'' \<in> gp_id ` set (ct_products run_ct7)" by (simp_all add: all_draft_def run_ct_defs run_values)
  moreover have "\<not> all_draft t ''prd''" unfolding all_draft_same [OF core_products [OF t(2)]] by (simp add: all_draft_def run_ct_defs run_values)
  ultimately have "two_approvers t ''prd''"
    using activation_is_gated [OF run_reached_proposes decides_activation [OF t(1)], of "''prd''"] by blast
  then show ?thesis using t(1) by blast
qed

text \<open>
  C39. Once a signing key is revoked, then after any further steps no callback signed under it is
  authorised, by a callback service of any tenant on the same table of keys, and no evidence signed under
  it is attached.
\<close>

theorem revoked_key_is_dead:
  assumes run: "reach (cat_step y) (catalog_start templates requirements) s" and k: "k \<in> set (ct_keys s)" "sk_revoked k"
    and later: "(cat_step y)\<^sup>*\<^sup>* s t"
  shows "(\<forall>h c m pem. ks_keys c = ct_keys t \<longrightarrow> ik_institution m = sk_institution k \<longrightarrow> ik_keyId m = sk_key k \<longrightarrow> authorizedSource h c m \<noteq> Inr pem)
    \<and> (\<forall>h tenant actorRef product e a u. vi_source e = sk_institution k \<longrightarrow> vi_key e = sk_key k \<longrightarrow>
         attach_in h tenant actorRef product e t \<noteq> (Inr a, u))"
proof -
  have "key_dead (key_name k) t" by (rule key_dead_always [OF later]) (use k in \<open>auto simp: key_dead_def\<close>)
  then obtain k' where k': "k' \<in> set (ct_keys t)" "key_name k' = (sk_institution k, sk_key k)" "sk_revoked k'"
    by (auto simp: key_dead_def key_name_def)
  note only = only_key [OF catalog_okD(4) [OF catalogue.after_steps [OF catalogue.always [OF run] later]] k'(1,2)]
  show ?thesis
  proof (intro conjI allI impI notI)
    fix h c m pem assume "ks_keys c = ct_keys t" "ik_institution m = sk_institution k" "ik_keyId m = sk_key k" "authorizedSource h c m = Inr pem"
    then show False using only(1) k'(3) by (simp add: authorizedSource_def key_available_def ensureR_def split: if_splits)
  next
    fix h tenant actorRef product e a u assume e: "vi_source e = sk_institution k" "vi_key e = sk_key k"
      and run: "attach_in h tenant actorRef product e t = (Inr a, u)"
    from run show False
      by (rule attach_steps) (use e only(2) k'(3) in \<open>simp add: evidence_key_policy_def guards.simps\<close>)
  qed
qed

theorem revoked_key_is_dead_witness:
  "\<forall>a u. attach_in run_catalog ''ten'' ''m'' ''prd'' run_evidence run_ct10 \<noteq> (Inr a, u)"
proof -
  define k where "k = hd (ct_keys run_ct10)"
  have k: "k \<in> set (ct_keys run_ct10)" "sk_revoked k" "sk_institution k = ''iss''" "sk_key k = DEFAULT_CALLBACK_KEY_ID"
    by (simp_all add: k_def run_ct_defs run_values revoke_defs revoke_row_def)
  note dead = revoked_key_is_dead [OF run_reached_revokes k(1,2) rtranclp.rtrancl_refl, unfolded k(3,4)]
  show "\<forall>a u. attach_in run_catalog ''ten'' ''m'' ''prd'' run_evidence run_ct10 \<noteq> (Inr a, u)"
    using dead by (simp add: run_evidence_def)
qed

text \<open>
  C36. A draft with an open proposal whose configuration does not say so is blocked for good: after any
  steps it is still a draft, no proposal for it is accepted and none is decided. A role assigned while the
  proposal is pending leads there.
\<close>

theorem orphaned_proposal_blocks:
  assumes known: "product \<in> gp_id ` set (ct_products s)" and draft: "all_draft s product"
    and unsaid: "\<forall>c \<in> set (ct_configurations s). fg_product c = product \<longrightarrow> fg_status c \<noteq> ''ACTIVATION_PENDING''"
    and pending: "open_activations s product \<noteq> []" and later: "(cat_step y)\<^sup>*\<^sup>* s t"
  shows "all_draft t product
    \<and> (\<forall>h tenant actorRef reason n u. propose_in h tenant actorRef product reason t \<noteq> (Inr n, u))
    \<and> (\<forall>h tenant actorRef decision reason d u. decide_in h tenant actorRef product decision reason t \<noteq> (Inr d, u))"
proof -
  have "orphaned s product" using known draft unsaid pending by (simp add: orphaned_def all_draft_def)
  then have o: "orphaned t product" by (rule orphaned_always [OF later])
  show ?thesis
  proof (intro conjI allI notI)
    show "all_draft t product" using o by (simp add: orphaned_def all_draft_def)
    fix h tenant actorRef reason n u assume "propose_in h tenant actorRef product reason t = (Inr n, u)"
    then show False by (rule propose_steps) (use o in \<open>simp add: orphaned_def\<close>)
  next
    fix h tenant actorRef decision reason d u assume "decide_in h tenant actorRef product decision reason t = (Inr d, u)"
    then have "decide_in h tenant actorRef product decision reason t = (Inr (fst d, snd d), u)" by simp
    then show False by (rule decide_steps) (use o find_productD(3,4) in \<open>fastforce simp: orphaned_def\<close>)
  qed
qed

theorem orphaned_proposal_blocks_witness:
  "reach (cat_step run_crypto) run_catalog_start run_ct8 \<and> all_draft run_ct8 ''prd''
    \<and> (\<forall>h tenant actorRef reason n u. propose_in h tenant actorRef ''prd'' reason run_ct8 \<noteq> (Inr n, u))
    \<and> (\<forall>h tenant actorRef decision reason d u. decide_in h tenant actorRef ''prd'' decision reason run_ct8 \<noteq> (Inr d, u))"
proof -
  have "''prd'' \<in> gp_id ` set (ct_products run_ct8)" "all_draft run_ct8 ''prd''"
    "\<forall>c \<in> set (ct_configurations run_ct8). fg_product c = ''prd'' \<longrightarrow> fg_status c \<noteq> ''ACTIVATION_PENDING''"
    "open_activations run_ct8 ''prd'' \<noteq> []"
    by (simp_all add: all_draft_def open_activations_def activations_of_def run_ct_defs run_values)
  from orphaned_proposal_blocks [OF this rtranclp.rtrancl_refl] show ?thesis using run_reached_reassigns by blast
qed

text \<open>
  C7. In every state the catalogue reaches, an approved institution was proposed by a maker and approved
  by another person in the same round, a product that is not a draft was approved by a checker other than
  its maker, every piece of evidence carries a signature that verifies under a key of its source, and no
  two keys of an institution have one name.
\<close>

theorem approved_and_signed:
  assumes "reach (cat_step y) (catalog_start templates requirements) s"
  shows "(\<forall>m \<in> set (ct_memberships s). mm_status m = ''APPROVED'' \<longrightarrow> two_reviewers s (mm_tenant m) (mm_institution m))
    \<and> (\<forall>p \<in> set (ct_products s). gp_status p \<noteq> ''DRAFT'' \<longrightarrow> two_approvers s (gp_id p))
    \<and> (\<forall>e \<in> set (ct_evidence s). signed_by_source y s e)
    \<and> distinct (map key_name (ct_keys s))"
  using catalogue.always [OF assms] by (simp add: catalog_ok_def)

theorem approved_and_signed_witness:
  "two_reviewers run_ct9 ''ten'' ''iss'' \<and> two_approvers run_ct9 ''prd'' \<and> signed_by_source run_crypto run_ct9 (hd (ct_evidence run_ct9))"
proof -
  note all = approved_and_signed [OF run_reached_decides]
  have m: "hd (ct_memberships run_ct9) \<in> set (ct_memberships run_ct9)" "mm_status (hd (ct_memberships run_ct9)) = ''APPROVED''"
    "mm_tenant (hd (ct_memberships run_ct9)) = ''ten''" "mm_institution (hd (ct_memberships run_ct9)) = ''iss''" by (simp_all add: run_ct_defs run_values)
  have p: "hd (ct_products run_ct9) \<in> set (ct_products run_ct9)" "gp_status (hd (ct_products run_ct9)) \<noteq> ''DRAFT''"
    "gp_id (hd (ct_products run_ct9)) = ''prd''" by (simp_all add: run_ct_defs run_values)
  have e: "hd (ct_evidence run_ct9) \<in> set (ct_evidence run_ct9)" by (simp add: run_ct_defs run_values)
  show ?thesis using all m p e by metis
qed

text \<open>Pausing and resuming do not look at the evidence: a product paused by a revoked key is resumed without it.\<close>

theorem resumed_without_evidence:
  "reach (cat_step run_crypto) run_catalog_start run_ct11
    \<and> (\<exists>p \<in> set (ct_products run_ct11). gp_id p = ''prd'' \<and> gp_status p = ''ACTIVE'')
    \<and> (\<exists>c \<in> set (ct_configurations run_ct11). fg_product c = ''prd'' \<and> fg_status c = ''SUSPENDED'')
    \<and> (\<exists>r \<in> set (ct_requirements run_ct11). rr_product r = ''prd'' \<and> rr_mandatory r \<and> \<not> backed y run_ct11 clock r)"
proof -
  have "\<exists>p \<in> set (ct_products run_ct11). gp_id p = ''prd'' \<and> gp_status p = ''ACTIVE''"
    "\<exists>c \<in> set (ct_configurations run_ct11). fg_product c = ''prd'' \<and> fg_status c = ''SUSPENDED''"
    "\<exists>r \<in> set (ct_requirements run_ct11). rr_product r = ''prd'' \<and> rr_mandatory r \<and> rr_evidence r = None"
    by (simp_all add: run_ct_defs run_values revoke_defs)
  then show ?thesis using run_reached_resumes unfolding backed_def by fastforce
qed

end
