(* ===== verification/ExternalIncident.thy ===== *)
theory ExternalIncident
  imports InstitutionCallback
begin

text \<open>
  Incidents that callbacks open, \<open>src/storage/external-incident-service.js\<close>: a maker proposes to
  acknowledge or to remediate one, another person decides. The tables are those of the callbacks. The
  triggers of \<open>009_external_incidents.sql\<close> on approvals repeat checks of the operations and are not
  represented; an empty reference is falsy, like none.
\<close>

section \<open>The service\<close>

record incident_service =
  xs_tenant :: string
  xs_clock :: int
  xs_sha :: "string \<Rightarrow> string"
  xs_eventId :: string   \<comment> \<open>the id drawn for the outbox event\<close>

definition ExternalIncidentService :: "json \<Rightarrow> string outcome" where
  \<comment> \<open>the tenant of a new service\<close>
  "ExternalIncidentService tenantId = (case tenantId of
     JStr t \<Rightarrow> ensureR (1 \<le> length t \<and> length t \<le> 200) ''INCIDENT_TENANT_REQUIRED'' (Inr t)
   | _ \<Rightarrow> Inl (Coded ''INCIDENT_TENANT_REQUIRED''))"

definition incident_record :: "incident_service \<Rightarrow> incident \<Rightarrow> string \<Rightarrow> json \<Rightarrow> (callback_db, unit) eff" where
  "incident_record h i event metadata =
     thenE (inCallbacks (recordAuditEvent (xs_sha h) \<lparr>ae_tenant = nc_tenant i, ae_event = event, ae_aggType = ''external_incident'',
         ae_aggId = nc_id i, ae_metadata = metadata\<rparr>))
    (thenE (inCallbacks (enqueueOutbox (xs_sha h) (xs_clock h) (xs_eventId h) (nc_tenant i) (''rwa.'' @ event) (nc_id i) metadata None)) (retE ()))"

definition find_incident :: "callback_db \<Rightarrow> string \<Rightarrow> string \<Rightarrow> incident option" where
  "find_incident s tenant incidentId = find (\<lambda>i. nc_id i = incidentId \<and> nc_tenant i = tenant) (ks_incidents s)"

definition add_approval :: "incident_approval \<Rightarrow> (callback_db, unit) eff" where
  "add_approval a = withE (\<lambda>s. insert_row
     (\<exists>b \<in> set (ks_approvals s). np_incident b = np_incident a \<and> np_round b = np_round a \<and> np_role b = np_role a)
     (\<lambda>s. s\<lparr>ks_approvals := ks_approvals s @ [a]\<rparr>))"

definition update_incident :: "string \<Rightarrow> (incident \<Rightarrow> incident) \<Rightarrow> (callback_db, unit) eff" where
  \<comment> \<open>an \<open>UPDATE\<close> of one row, which also counts up its version\<close>
  "update_incident incidentId f = modifyE (\<lambda>s. s\<lparr>ks_incidents := update_where (\<lambda>i. nc_id i = incidentId)
     (\<lambda>i. (f i)\<lparr>nc_version := nc_version i + 1\<rparr>) (ks_incidents s)\<rparr>)"

section \<open>Proposing\<close>

definition incident_propose_in ::
  "incident_service \<Rightarrow> string \<Rightarrow> string \<Rightarrow> string \<Rightarrow> string option \<Rightarrow> string option \<Rightarrow> (callback_db, nat) eff" where
  "incident_propose_in h incidentId makerRef decision reference signature = withE (\<lambda>s.
     bindE (optE (find_incident s (xs_tenant h) incidentId) (Coded ''INVALID_INCIDENT_STATE'')) (\<lambda>i.
     thenE (ensureE (nc_status i = ''OPEN'') ''INVALID_INCIDENT_STATE'')
    (let n = nc_round i + 1 in
     thenE (add_approval \<lparr>np_incident = incidentId, np_round = n, np_role = ''MAKER'', np_actor = makerRef, np_decision = decision,
         np_reference = reference, np_signature = signature\<rparr>)
    (thenE (update_incident incidentId (\<lambda>i. i\<lparr>nc_status := ''PENDING_APPROVAL'', nc_round := n\<rparr>))
    (thenE (incident_record h i ''external_incident.proposed'' (JObj [(''incidentId'', JStr incidentId), (''round'', JNum (int n)),
         (''makerRef'', JStr makerRef), (''decision'', JStr decision), (''remediationReference'', nullable reference)]))
    (retE n))))))"

definition incident_propose ::
  "incident_service \<Rightarrow> (nat \<Rightarrow> unit outcome) \<Rightarrow> string \<Rightarrow> string \<Rightarrow> string \<Rightarrow> string option \<Rightarrow> string option \<Rightarrow> (callback_db, nat) eff" where
  "incident_propose h commit incidentId makerRef decision reference signature =
     thenE (ensureE (decision \<in> {''ACKNOWLEDGE'', ''REMEDIATE''}) ''INVALID_INCIDENT_DECISION'')
    (thenE (ensureE (\<not> (decision = ''REMEDIATE'' \<and> reference \<in> {None, Some []})) ''MISSING_REMEDIATION_REFERENCE'')
    (withSerializableTransaction 3 commit (incident_propose_in h incidentId makerRef decision reference signature)))"

section \<open>Deciding\<close>

definition resolved_state :: "string \<Rightarrow> string" where
  "resolved_state makerDecision = (if makerDecision = ''REMEDIATE'' then ''RESOLVED_REMEDIATED'' else ''RESOLVED_ACKNOWLEDGED'')"

definition settle_incident :: "incident_service \<Rightarrow> incident \<Rightarrow> incident_approval \<Rightarrow> string \<Rightarrow> string \<Rightarrow> (callback_db, string) eff" where
  \<comment> \<open>what follows the row of the checker; the new state\<close>
  "settle_incident h i maker checkerRef decision =
     (if decision = ''REJECT'' then
        thenE (update_incident (nc_id i) (\<lambda>i. i\<lparr>nc_status := ''OPEN''\<rparr>))
       (thenE (incident_record h i ''external_incident.returned'' (JObj [(''incidentId'', JStr (nc_id i)), (''round'', JNum (int (nc_round i))),
          (''checkerRef'', JStr checkerRef)]))
       (retE ''OPEN''))
      else let state = resolved_state (np_decision maker) in
        thenE (update_incident (nc_id i) (\<lambda>i. i\<lparr>nc_status := state, nc_remediation := np_reference maker\<rparr>))
       (thenE (incident_record h i ''external_incident.resolved'' (JObj [(''incidentId'', JStr (nc_id i)), (''round'', JNum (int (nc_round i))),
          (''makerRef'', JStr (np_actor maker)), (''checkerRef'', JStr checkerRef), (''resolution'', JStr state),
          (''remediationReference'', nullable (np_reference maker))]))
       (retE state)))"

definition incident_decide_in :: "incident_service \<Rightarrow> string \<Rightarrow> string \<Rightarrow> string \<Rightarrow> string option \<Rightarrow> (callback_db, string \<times> nat) eff" where
  "incident_decide_in h incidentId checkerRef decision signature = withE (\<lambda>s.
     bindE (optE (find_incident s (xs_tenant h) incidentId) (Coded ''INVALID_INCIDENT_STATE'')) (\<lambda>i.
     thenE (ensureE (nc_status i = ''PENDING_APPROVAL'') ''INVALID_INCIDENT_STATE'')
    (bindE (optE (find (\<lambda>a. np_incident a = incidentId \<and> np_round a = nc_round i \<and> np_role a = ''MAKER'') (ks_approvals s))
       (Coded ''INVALID_INCIDENT_STATE'')) (\<lambda>maker.
     thenE (ensureE (np_actor maker \<noteq> checkerRef) ''MAKER_CHECKER_CONFLICT'')
    (thenE (add_approval \<lparr>np_incident = incidentId, np_round = nc_round i, np_role = ''CHECKER'', np_actor = checkerRef, np_decision = decision,
         np_reference = None, np_signature = signature\<rparr>)
    (bindE (settle_incident h i maker checkerRef decision) (\<lambda>state. retE (state, nc_round i))))))))"

definition incident_decide ::
  "incident_service \<Rightarrow> (nat \<Rightarrow> unit outcome) \<Rightarrow> string \<Rightarrow> string \<Rightarrow> string \<Rightarrow> string option \<Rightarrow> (callback_db, string \<times> nat) eff" where
  "incident_decide h commit incidentId checkerRef decision signature =
     thenE (ensureE (decision \<in> {''APPROVE'', ''REJECT''}) ''INVALID_INCIDENT_DECISION'')
    (withSerializableTransaction 3 commit (incident_decide_in h incidentId checkerRef decision signature))"

end
