(* ===== verification/IncidentProperties.thy ===== *)
theory IncidentProperties
  imports ExternalIncident CallbackFacts CallbackProperties
begin

text \<open>The incidents of the callbacks, from the callback that opens one to its resolution.\<close>

text \<open>
  What holds of the incidents in every state: callbacks only open them, and one that is resolved was
  proposed by a maker and approved by another person.
\<close>

section \<open>The tables of the incidents\<close>

definition incident_tables :: "callback_db \<Rightarrow> incident list \<times> incident_approval list" where
  "incident_tables s = (ks_incidents s, ks_approvals s)"

lemma inCallbacks_incidents: "preserves incident_tables (inCallbacks m)"
  by (rule preservesI) (auto simp: inCallbacks_def incident_tables_def split: prod.splits)

lemma record_incidents: "preserves incident_tables (incident_record h i event metadata)"
  unfolding incident_record_def by (intro preserves_intros inCallbacks_incidents)

lemma report_incidents: "preserves incident_tables (report_incident h tenant incidentId metadata)"
  unfolding report_incident_def by (intro preserves_intros inCallbacks_incidents)

definition approved_by_two :: "callback_db \<Rightarrow> incident \<Rightarrow> bool" where
  \<comment> \<open>a maker proposed the way the incident was resolved and another person approved\<close>
  "approved_by_two s i = (\<exists>m \<in> set (ks_approvals s). \<exists>c \<in> set (ks_approvals s).
     np_incident m = nc_id i \<and> np_incident c = nc_id i \<and> np_round m = nc_round i \<and> np_round c = nc_round i \<and> np_role m = ''MAKER'' \<and> np_role c = ''CHECKER''
     \<and> np_decision c = ''APPROVE'' \<and> np_actor c \<noteq> np_actor m \<and> nc_status i = resolved_state (np_decision m) \<and> nc_remediation i = np_reference m
     \<and> (nc_status i = ''RESOLVED_REMEDIATED'' \<longrightarrow> (\<exists>r. nc_remediation i = Some r \<and> r \<noteq> [])))"

definition incident_ok :: "callback_db \<Rightarrow> incident \<Rightarrow> bool" where
  "incident_ok s i = (nc_status i \<in> {''OPEN'', ''PENDING_APPROVAL''} \<or> approved_by_two s i)"

definition approval_ok :: "incident_approval \<Rightarrow> bool" where
  "approval_ok a = (np_role a = ''MAKER'' \<longrightarrow> np_decision a \<in> {''ACKNOWLEDGE'', ''REMEDIATE''}
     \<and> (np_decision a = ''REMEDIATE'' \<longrightarrow> (\<exists>r. np_reference a = Some r \<and> r \<noteq> [])))"

definition incidents_ok :: "callback_db \<Rightarrow> bool" where
  "incidents_ok s = (distinct (map nc_id (ks_incidents s)) \<and> (\<forall>i \<in> set (ks_incidents s). incident_ok s i)
     \<and> (\<forall>a \<in> set (ks_approvals s). approval_ok a))"

lemma same_incidents: "incident_tables t = incident_tables s \<Longrightarrow> incidents_ok t = incidents_ok s"
  by (simp add: incidents_ok_def incident_ok_def approved_by_two_def incident_tables_def)

section \<open>Callbacks only open incidents\<close>

definition opened_since :: "callback_db \<Rightarrow> callback_db \<Rightarrow> bool" where
  "opened_since s t = (ks_approvals t = ks_approvals s \<and> (distinct (map nc_id (ks_incidents s)) \<longrightarrow> distinct (map nc_id (ks_incidents t)))
     \<and> (\<exists>new. ks_incidents t = ks_incidents s @ new \<and> (\<forall>i \<in> set new. nc_status i = ''OPEN'')))"

lemma opened_same [simp]: "opened_since s s"
  by (simp add: opened_since_def)

lemma opened_frame [keeps_intros]:
  assumes "preserves incident_tables m"
  shows "keeps (opened_since s) m"
proof -
  have "opened_since s t = opened_since s u" if "incident_tables t = incident_tables u" for t u
    using that by (simp add: opened_since_def incident_tables_def)
  then show ?thesis using assms unfolding preserves_def keeps_def by blast
qed

lemma opened_add [keeps_intros]:
  assumes "nc_status i = ''OPEN''"
  shows "keeps (opened_since s) (add_incident i)"
proof (rule keepsI)
  fix u r t assume u: "opened_since s u" and run: "add_incident i u = (r, t)"
  show "opened_since s t"
  proof (cases "\<exists>j \<in> set (ks_incidents u). nc_id j = nc_id i \<or> nc_callback j = nc_callback i")
    case True
    then show ?thesis using u run by (auto simp: add_incident_def withE_run insert_row_def throwE_iff)
  next
    case False
    then have t: "t = u\<lparr>ks_incidents := ks_incidents u @ [i]\<rparr>" using run by (auto simp: add_incident_def withE_run insert_row_def modifyE_iff)
    obtain new where new: "ks_incidents u = ks_incidents s @ new" "\<forall>i \<in> set new. nc_status i = ''OPEN''" using u unfolding opened_since_def by blast
    have "nc_id i \<notin> nc_id ` set (ks_incidents u)" using False by auto
    then show ?thesis using u new assms unfolding opened_since_def t by (auto intro: exI [of _ "new @ [i]"])
  qed
qed

lemma new_is_open: "nc_status (new_incident incidentId k tx severity reasonCode) = ''OPEN''"
  by (simp add: new_incident_def)

lemma insert_incidents [keeps_intros]: "(\<And>s. incident_tables (add s) = incident_tables s) \<Longrightarrow> keeps (opened_since s) (insert_row taken add)"
  by (rule opened_frame) (rule insert_row_preserves)

lemma blocked_opens: "keeps (opened_since s) (openBlockedStreamIncident h k code)"
  unfolding openBlockedStreamIncident_def Let_def
  by (rule keeps_withE) (intro keeps_intros report_incidents, rule new_is_open)

lemma reconciliation_opens: "keeps (opened_since s) (recordEvidenceAndReconciliation h k)"
  unfolding recordEvidenceAndReconciliation_def open_callback_incident_def Let_def case_prod_beta
  by (intro keeps_intros keeps_withE report_incidents new_is_open) (simp_all add: incident_tables_def)

lemma apply_opens: "keeps (opened_since s) (apply_callback h k buffered)"
  unfolding apply_callback_def mark_applied_def add_effect_def Let_def
  by (intro keeps_intros keeps_withE keeps_modifyE reconciliation_opens) (simp_all add: incident_tables_def opened_since_def)

lemma drain_opens: "keeps (opened_since s) (drain_stream h st fuel n d)"
proof (induction fuel arbitrary: n d)
  case (Suc fuel)
  show ?case unfolding drain_stream.simps
  proof (rule keeps_withE)
    fix u
    show "keeps (opened_since s) (case buffered_at u st n of
     None \<Rightarrow> retE (n, d, None)
   | Some k \<Rightarrow> (case authorizedSource h u k of
       Inl e \<Rightarrow> (let code = (case e of Coded c \<Rightarrow> c | Native n \<Rightarrow> n) in
         thenE (openBlockedStreamIncident h k code) (retE (n, d, Some (ik_id k, ik_sequence k, code))))
     | Inr _ \<Rightarrow> thenE (apply_callback h k True) (drain_stream h st fuel (n + 1) (d + 1))))"
    proof (cases "buffered_at u st n")
      case (Some k)
      then show ?thesis
        by (cases "authorizedSource h u k") (simp_all add: Let_def keeps_thenE blocked_opens keeps_retE apply_opens Suc.IH)
    qed (simp add: keeps_retE)
  qed
qed (simp add: keeps_throwE)

lemma opened_step: "(\<And>s. incident_tables (g s) = incident_tables s) \<Longrightarrow> keeps (opened_since s) (modifyE g)"
  by (rule opened_frame) (rule preserves_modifyE)

lemma position_opens: "keeps (opened_since s) (set_position st n)"
  unfolding set_position_def by (rule opened_step) (simp add: incident_tables_def)

lemma receipt_opens: "keeps (opened_since s) (add_receipt_row k envelopeHash)"
  unfolding add_receipt_row_def
  by (rule keeps_withE, rule keeps_if, rule keeps_throwE, rule opened_step) (simp add: incident_tables_def)

lemma buffer_opens: "keeps (opened_since s) (buffer_callback k)"
  unfolding buffer_callback_def by (rule keeps_withE, rule insert_incidents) (simp add: incident_tables_def)

lemma turn_opens: "keeps (opened_since s) (apply_and_drain h k)"
  unfolding apply_and_drain_def
  by (rule keeps_thenE [OF apply_opens], rule keeps_withE, rule keeps_bindE [OF drain_opens], rule keeps_case_prod, rule keeps_case_prod)
    (rule keeps_thenE [OF position_opens keeps_retE])

lemma accept_opens: "keeps (opened_since s) (accept_callback h k envelopeHash)"
  unfolding accept_callback_def Let_def
  by (rule keeps_withE, rule keeps_thenE [OF position_opens], rule keeps_thenE [OF keeps_ensureE], rule keeps_thenE [OF receipt_opens], rule keeps_if)
    (rule turn_opens, rule keeps_thenE [OF buffer_opens keeps_retE])

lemma receive_opens:
  assumes run: "receive h commit e s = (r, t)"
  shows "opened_since s t"
  using receive_result [OF run]
proof (elim disjE exE)
  fix a assume "receive_in h e s = (Inr a, t)"
  from receive_cases [OF this] show ?thesis by (elim disjE) (simp, erule keepsD [OF accept_opens opened_same])
qed simp

lemma opened_ok:
  assumes ok: "incidents_ok s" and o: "opened_since s t"
  shows "incidents_ok t"
proof -
  obtain new where new: "ks_incidents t = ks_incidents s @ new" "\<forall>i \<in> set new. nc_status i = ''OPEN''" and a: "ks_approvals t = ks_approvals s"
    and d: "distinct (map nc_id (ks_incidents t))"
    using o ok unfolding opened_since_def incidents_ok_def by blast
  show ?thesis using ok d unfolding incidents_ok_def incident_ok_def approved_by_two_def new(1) a using new(2) by auto
qed

section \<open>What a maker and a checker do\<close>

lemma found_incident:
  "find_incident s tenant incidentId = Some i \<Longrightarrow> i \<in> set (ks_incidents s) \<and> nc_id i = incidentId \<and> nc_tenant i = tenant"
  unfolding find_incident_def by (drule find_member) simp

lemma incident_tablesD:
  assumes "preserves incident_tables m" and "m s = (r, t)"
  shows "ks_incidents t = ks_incidents s" and "ks_approvals t = ks_approvals s"
  using preservesD [OF assms] by (simp_all add: incident_tables_def)

definition proposed_row :: "incident \<Rightarrow> string \<Rightarrow> string \<Rightarrow> string option \<Rightarrow> string option \<Rightarrow> incident_approval" where
  "proposed_row i makerRef decision reference signature = \<lparr>np_incident = nc_id i, np_round = nc_round i + 1, np_role = ''MAKER'',
     np_actor = makerRef, np_decision = decision, np_reference = reference, np_signature = signature\<rparr>"

definition checked_row :: "incident \<Rightarrow> string \<Rightarrow> string \<Rightarrow> string option \<Rightarrow> incident_approval" where
  "checked_row i checkerRef decision signature = \<lparr>np_incident = nc_id i, np_round = nc_round i, np_role = ''CHECKER'',
     np_actor = checkerRef, np_decision = decision, np_reference = None, np_signature = signature\<rparr>"

definition with_incident :: "string \<Rightarrow> (incident \<Rightarrow> incident) \<Rightarrow> incident list \<Rightarrow> incident list" where
  "with_incident incidentId f is = update_where (\<lambda>i. nc_id i = incidentId) (\<lambda>i. (f i)\<lparr>nc_version := nc_version i + 1\<rparr>) is"

lemma propose_effect:
  assumes run: "incident_propose_in h incidentId makerRef decision reference signature s = (Inr a, t)"
  obtains i where "find_incident s (xs_tenant h) incidentId = Some i" and "nc_status i = ''OPEN''"
    and "ks_approvals t = ks_approvals s @ [proposed_row i makerRef decision reference signature]"
    and "ks_incidents t = with_incident incidentId (\<lambda>j. j\<lparr>nc_status := ''PENDING_APPROVAL'', nc_round := nc_round i + 1\<rparr>) (ks_incidents s)"
proof -
  from run obtain i where i: "find_incident s (xs_tenant h) incidentId = Some i" "nc_status i = ''OPEN''"
    and rest: "thenE (add_approval \<lparr>np_incident = incidentId, np_round = nc_round i + 1, np_role = ''MAKER'', np_actor = makerRef, np_decision = decision,
         np_reference = reference, np_signature = signature\<rparr>)
    (thenE (update_incident incidentId (\<lambda>j. j\<lparr>nc_status := ''PENDING_APPROVAL'', nc_round := nc_round i + 1\<rparr>))
    (thenE (incident_record h i ''external_incident.proposed'' (JObj [(''incidentId'', JStr incidentId), (''round'', JNum (int (nc_round i + 1))),
         (''makerRef'', JStr makerRef), (''decision'', JStr decision), (''remediationReference'', nullable reference)]))
    (retE (nc_round i + 1)))) s = (Inr a, t)"
    unfolding incident_propose_in_def withE_run bindE_Inr [of "optE _ _"] optE_Inr thenE_Inr [of "ensureE _ _"] ensureE_Inr Let_def by blast
  from rest obtain x y z u v w where add: "add_approval \<lparr>np_incident = incidentId, np_round = nc_round i + 1, np_role = ''MAKER'', np_actor = makerRef,
         np_decision = decision, np_reference = reference, np_signature = signature\<rparr> s = (Inr x, u)"
    and upd: "update_incident incidentId (\<lambda>j. j\<lparr>nc_status := ''PENDING_APPROVAL'', nc_round := nc_round i + 1\<rparr>) u = (Inr y, v)"
    and rec: "incident_record h i ''external_incident.proposed'' (JObj [(''incidentId'', JStr incidentId), (''round'', JNum (int (nc_round i + 1))),
         (''makerRef'', JStr makerRef), (''decision'', JStr decision), (''remediationReference'', nullable reference)]) v = (Inr z, w)" and "w = t"
    unfolding thenE_Inr [of "add_approval _"] thenE_Inr [of "update_incident _ _"] thenE_Inr [of "incident_record _ _ _ _"] retE_iff
    by (elim exE conjE) (rule that; simp)
  have "nc_id i = incidentId" using found_incident [OF i(1)] by blast
  then show thesis
    using that [OF i] add upd incident_tablesD [OF record_incidents rec] \<open>w = t\<close>
    by (auto simp: add_approval_def withE_run insert_row_def throwE_iff modifyE_iff update_incident_def proposed_row_def with_incident_def split: if_splits)
qed

lemma decide_effect_of:
  assumes run: "incident_decide_in h incidentId checkerRef decision signature s = (Inr a, t)"
  obtains i m where "find_incident s (xs_tenant h) incidentId = Some i" and "nc_status i = ''PENDING_APPROVAL''"
    and "m \<in> set (ks_approvals s)" and "np_incident m = incidentId" and "np_round m = nc_round i" and "np_role m = ''MAKER''" and "np_actor m \<noteq> checkerRef"
    and "ks_approvals t = ks_approvals s @ [checked_row i checkerRef decision signature]"
    and "ks_incidents t = with_incident incidentId (\<lambda>j. if decision = ''REJECT'' then j\<lparr>nc_status := ''OPEN''\<rparr>
      else j\<lparr>nc_status := resolved_state (np_decision m), nc_remediation := np_reference m\<rparr>) (ks_incidents s)"
proof -
  from run obtain i m where i: "find_incident s (xs_tenant h) incidentId = Some i" "nc_status i = ''PENDING_APPROVAL''"
    and m: "find (\<lambda>a. np_incident a = incidentId \<and> np_round a = nc_round i \<and> np_role a = ''MAKER'') (ks_approvals s) = Some m" "np_actor m \<noteq> checkerRef"
    and rest: "thenE (add_approval \<lparr>np_incident = incidentId, np_round = nc_round i, np_role = ''CHECKER'', np_actor = checkerRef, np_decision = decision,
         np_reference = None, np_signature = signature\<rparr>) (bindE (settle_incident h i m checkerRef decision) (\<lambda>state. retE (state, nc_round i))) s = (Inr a, t)"
    unfolding incident_decide_in_def withE_run bindE_Inr [of "optE _ _"] optE_Inr thenE_Inr [of "ensureE _ _"] ensureE_Inr by blast
  from rest obtain x u state where add: "add_approval \<lparr>np_incident = incidentId, np_round = nc_round i, np_role = ''CHECKER'', np_actor = checkerRef,
         np_decision = decision, np_reference = None, np_signature = signature\<rparr> s = (Inr x, u)"
    and settle: "settle_incident h i m checkerRef decision u = (Inr state, t)"
    unfolding thenE_Inr [of "add_approval _"] bindE_Inr [of "settle_incident _ _ _ _ _"] retE_iff by blast
  have id: "nc_id i = incidentId" using found_incident [OF i(1)] by blast
  have t: "ks_approvals t = ks_approvals u" "ks_incidents t = with_incident incidentId (\<lambda>j. if decision = ''REJECT'' then j\<lparr>nc_status := ''OPEN''\<rparr>
      else j\<lparr>nc_status := resolved_state (np_decision m), nc_remediation := np_reference m\<rparr>) (ks_incidents u)"
    using settle incident_tablesD [OF record_incidents]
    by (auto simp: settle_incident_def Let_def thenE_Inr retE_iff update_incident_def modifyE_iff with_incident_def id split: if_splits)
  have u: "ks_approvals u = ks_approvals s @ [checked_row i checkerRef decision signature]" "ks_incidents u = ks_incidents s"
    using add by (auto simp: add_approval_def withE_run insert_row_def throwE_iff modifyE_iff checked_row_def id split: if_splits)
  note m' = find_member [OF m(1)]
  show thesis by (rule that [OF i _ _ _ _ m(2)]) (use m' t u in simp_all)
qed

lemma incident_propose_from:
  assumes "incident_propose h commit incidentId makerRef decision reference signature s = (r, t)"
  shows "t = s \<or> decision \<in> {''ACKNOWLEDGE'', ''REMEDIATE''} \<and> \<not> (decision = ''REMEDIATE'' \<and> reference \<in> {None, Some []})
    \<and> (\<exists>a. incident_propose_in h incidentId makerRef decision reference signature s = (Inr a, t))"
  using assms unfolding incident_propose_def withSerializableTransaction_def
  by (auto simp: eff_defs dest: serializable_from_result split: if_splits)

lemma decide_result:
  assumes "incident_decide h commit incidentId checkerRef decision signature s = (r, t)"
  shows "t = s \<or> decision \<in> {''APPROVE'', ''REJECT''} \<and> (\<exists>a. incident_decide_in h incidentId checkerRef decision signature s = (Inr a, t))"
  using assms unfolding incident_decide_def withSerializableTransaction_def
  by (auto simp: eff_defs dest: serializable_from_result split: if_splits)

section \<open>The incidents of all runs\<close>

inductive incident_step :: "callback_db \<Rightarrow> callback_db \<Rightarrow> bool" where
  callback_received: "receive c commit e s = (r1, t) \<Longrightarrow> incident_step s t"
| incident_proposed: "incident_propose h commit incidentId makerRef decision reference signature s = (r2, t) \<Longrightarrow> incident_step s t"
| incident_decided: "incident_decide h commit incidentId checkerRef decision signature s = (r3, t) \<Longrightarrow> incident_step s t"
| incidents_elsewhere: "incident_tables t = incident_tables s \<Longrightarrow> incident_step s t"

lemma with_ids: "(\<And>j. nc_id (f j) = nc_id j) \<Longrightarrow> map nc_id (with_incident incidentId f is) = map nc_id is"
  by (auto simp: with_incident_def update_where_def)

lemma in_with: "j \<in> set (with_incident incidentId f is) \<longleftrightarrow>
    (\<exists>i \<in> set is. j = (if nc_id i = incidentId then (f i)\<lparr>nc_version := nc_version i + 1\<rparr> else i))"
  unfolding with_incident_def update_where_def set_map image_iff by (rule refl)

lemma approved_grow: "approved_by_two s i \<Longrightarrow> ks_approvals t = ks_approvals s @ added \<Longrightarrow> approved_by_two t i"
  unfolding approved_by_two_def by auto

lemma incidents_okI:
  assumes ok: "incidents_ok s" and rows: "ks_approvals t = ks_approvals s @ [a]" "approval_ok a"
    and f: "ks_incidents t = with_incident incidentId f (ks_incidents s)" "\<And>j. nc_id (f j) = nc_id j"
    and new: "\<And>j. j \<in> set (ks_incidents s) \<Longrightarrow> nc_id j = incidentId \<Longrightarrow> incident_ok t ((f j)\<lparr>nc_version := nc_version j + 1\<rparr>)"
  shows "incidents_ok t"
proof -
  have "incident_ok t j" if j: "j \<in> set (ks_incidents t)" for j
  proof -
    obtain i where i: "i \<in> set (ks_incidents s)" "j = (if nc_id i = incidentId then (f i)\<lparr>nc_version := nc_version i + 1\<rparr> else i)"
      using j unfolding f(1) in_with by blast
    have "incident_ok t i" using ok i(1) approved_grow [OF _ rows(1)] unfolding incidents_ok_def incident_ok_def by blast
    then show ?thesis using new [OF i(1)] i(2) by (cases "nc_id i = incidentId") auto
  qed
  then show ?thesis using ok f(2) rows unfolding incidents_ok_def by (simp add: f(1) with_ids)
qed

lemma incident_step_ok:
  assumes ok: "incidents_ok s" and step: "incident_step s t"
  shows "incidents_ok t"
  using step
proof cases
  case callback_received
  then show ?thesis by (rule opened_ok [OF ok receive_opens])
next
  case (incident_proposed h commit incidentId makerRef decision reference signature)
  from incident_propose_from [OF this] show ?thesis
  proof (elim disjE conjE exE)
    fix a assume d: "decision \<in> {''ACKNOWLEDGE'', ''REMEDIATE''}" "\<not> (decision = ''REMEDIATE'' \<and> reference \<in> {None, Some []})"
      and run: "incident_propose_in h incidentId makerRef decision reference signature s = (Inr a, t)"
    from run show ?thesis
    proof (rule propose_effect)
      fix i assume t: "ks_approvals t = ks_approvals s @ [proposed_row i makerRef decision reference signature]"
        "ks_incidents t = with_incident incidentId (\<lambda>j. j\<lparr>nc_status := ''PENDING_APPROVAL'', nc_round := nc_round i + 1\<rparr>) (ks_incidents s)"
      show ?thesis
        by (rule incidents_okI [OF ok t(1) _ t(2)]) (use d in \<open>auto simp: approval_ok_def proposed_row_def incident_ok_def\<close>)
    qed
  qed (use ok in simp)
next
  case (incident_decided h commit incidentId checkerRef decision signature)
  from decide_result [OF this] show ?thesis
  proof (elim disjE conjE exE)
    fix a assume d: "decision \<in> {''APPROVE'', ''REJECT''}" and run: "incident_decide_in h incidentId checkerRef decision signature s = (Inr a, t)"
    from run show ?thesis
    proof (rule decide_effect_of)
      fix i m assume i: "find_incident s (xs_tenant h) incidentId = Some i"
        and m: "m \<in> set (ks_approvals s)" "np_incident m = incidentId" "np_round m = nc_round i" "np_role m = ''MAKER''" "np_actor m \<noteq> checkerRef"
        and t: "ks_approvals t = ks_approvals s @ [checked_row i checkerRef decision signature]"
          "ks_incidents t = with_incident incidentId (\<lambda>j. if decision = ''REJECT'' then j\<lparr>nc_status := ''OPEN''\<rparr>
            else j\<lparr>nc_status := resolved_state (np_decision m), nc_remediation := np_reference m\<rparr>) (ks_incidents s)"
      have same: "j = i" if "j \<in> set (ks_incidents s)" "nc_id j = incidentId" for j
        using that found_incident [OF i] ok unfolding incidents_ok_def by (metis distinct_map inj_onD)
      have "approval_ok m" using ok m(1) unfolding incidents_ok_def by blast
      then have two: "approved_by_two t (i\<lparr>nc_status := resolved_state (np_decision m), nc_remediation := np_reference m, nc_version := n\<rparr>)"
        if "decision = ''APPROVE''" for n
        using m that found_incident [OF i] unfolding approved_by_two_def t(1)
        by (intro bexI [of _ m] bexI [of _ "checked_row i checkerRef decision signature"])
          (auto simp: checked_row_def approval_ok_def resolved_state_def)
      show ?thesis
        by (rule incidents_okI [OF ok t(1) _ t(2)]) (use two d same in \<open>auto simp: approval_ok_def checked_row_def incident_ok_def\<close>)
    qed
  qed (use ok in simp)
next
  case incidents_elsewhere
  then show ?thesis using ok same_incidents by blast
qed

interpretation incidents: invariant_of incident_step cb_empty incidents_ok
proof
  show "incidents_ok cb_empty" by (simp add: cb_empty_def incidents_ok_def)
qed (rule incident_step_ok)


section \<open>Resolved incidents\<close>

definition incident_resolved :: "incident \<Rightarrow> bool" where
  "incident_resolved i = (nc_status i \<notin> {''OPEN'', ''PENDING_APPROVAL''})"

lemma with_others: "i \<in> set is \<Longrightarrow> nc_id i \<noteq> incidentId \<Longrightarrow> i \<in> set (with_incident incidentId f is)"
  unfolding in_with by (intro bexI [of _ i]) simp_all

lemma resolved_kept:
  assumes ok: "incidents_ok s" and i: "i \<in> set (ks_incidents s)" "incident_resolved i" and step: "incident_step s t"
  shows "i \<in> set (ks_incidents t)"
proof -
  have other: "nc_id i \<noteq> incidentId" if "find_incident s tenant incidentId = Some j" "\<not> incident_resolved j" for tenant incidentId j
    using found_incident [OF that(1)] that(2) i ok unfolding incidents_ok_def by (metis distinct_map inj_onD)
  show ?thesis
    using step
  proof cases
    case callback_received
    then show ?thesis using receive_opens i(1) unfolding opened_since_def by fastforce
  next
    case (incident_proposed h commit incidentId makerRef decision reference signature)
    from incident_propose_from [OF this] show ?thesis
    proof (elim disjE conjE exE)
      fix a assume "incident_propose_in h incidentId makerRef decision reference signature s = (Inr a, t)"
      then show ?thesis by (rule propose_effect) (use other i(1) with_others in \<open>simp add: incident_resolved_def\<close>)
    qed (use i in simp)
  next
    case (incident_decided h commit incidentId checkerRef decision signature)
    from decide_result [OF this] show ?thesis
    proof (elim disjE conjE exE)
      fix a assume "incident_decide_in h incidentId checkerRef decision signature s = (Inr a, t)"
      then show ?thesis by (rule decide_effect_of) (use other i(1) with_others in \<open>simp add: incident_resolved_def\<close>)
    qed (use i in simp)
  next
    case incidents_elsewhere
    then show ?thesis using i by (simp add: incident_tables_def)
  qed
qed

lemma resolved_always:
  assumes "incident_step\<^sup>*\<^sup>* s t" and "incidents_ok s" and "i \<in> set (ks_incidents s)" and "incident_resolved i"
  shows "i \<in> set (ks_incidents t)"
  using assms
proof (induction rule: rtranclp_induct)
  case (step t u)
  show ?case by (rule resolved_kept [OF incidents.after_steps [OF step.prems(1) step.hyps(1)] step.IH [OF step.prems] step.prems(3) step.hyps(2)])
qed

section \<open>A run\<close>

definition in_service :: incident_service where
  "in_service = \<lparr>xs_tenant = ''T'', xs_clock = 0, xs_sha = run_sha, xs_eventId = ''e''\<rparr>"

definition in_opened :: callback_db where
  "in_opened = cb_empty\<lparr>ks_incidents := [cb_incident]\<rparr>"

definition in_proposal :: incident_approval where
  "in_proposal = proposed_row cb_incident ''m'' ''REMEDIATE'' (Some ''ref'') None"

definition in_pending :: callback_db where
  "in_pending = in_opened\<lparr>ks_incidents := [cb_incident\<lparr>nc_status := ''PENDING_APPROVAL'', nc_round := 1, nc_version := 1\<rparr>], ks_approvals := [in_proposal]\<rparr>"

definition in_remediated :: incident where
  "in_remediated = cb_incident\<lparr>nc_status := ''RESOLVED_REMEDIATED'', nc_remediation := Some ''ref'', nc_round := 1, nc_version := 2\<rparr>"

definition in_resolved :: callback_db where
  "in_resolved = in_pending\<lparr>ks_incidents := [in_remediated],
     ks_approvals := [in_proposal, checked_row (cb_incident\<lparr>nc_round := 1\<rparr>) ''c'' ''APPROVE'' None]\<rparr>"

lemmas in_defs = in_opened_def in_proposal_def in_pending_def in_remediated_def in_resolved_def proposed_row_def checked_row_def cb_incident_def new_incident_def
  cb_empty_def empty_db_def in_service_def cb_callback_def

lemma in_proposes: "\<exists>t. incident_propose_in in_service ''external-incident:blocked:c2'' ''m'' ''REMEDIATE'' (Some ''ref'') None in_opened = (Inr 1, t)
    \<and> incident_tables t = incident_tables in_pending"
  by (simp add: incident_propose_in_def find_incident_def eff_defs add_approval_def insert_row_def update_incident_def update_where_def Let_def
    incident_record_def inCallbacks_def recordAuditEvent_def enqueueOutbox_def incident_tables_def in_defs)

lemma in_decides: "\<exists>t. incident_decide_in in_service ''external-incident:blocked:c2'' ''c'' ''APPROVE'' None in_pending = (Inr (''RESOLVED_REMEDIATED'', 1), t)
    \<and> incident_tables t = incident_tables in_resolved"
  by (simp add: incident_decide_in_def find_incident_def eff_defs add_approval_def insert_row_def settle_incident_def resolved_state_def update_incident_def
    update_where_def Let_def incident_record_def inCallbacks_def recordAuditEvent_def enqueueOutbox_def incident_tables_def in_defs)

lemma in_hop:
  assumes "reach incident_step cb_empty s" and "incident_step s t" and "incident_tables u = incident_tables t"
  shows "reach incident_step cb_empty u"
  using assms reach.more incidents_elsewhere by metis

lemma in_reaches_opened: "reach incident_step cb_empty in_opened"
proof -
  have "reach incident_step cb_empty cb_start" by (rule in_hop [OF reach.start incidents_elsewhere refl]) (simp add: cb_start_def incident_tables_def)
  then have b: "reach incident_step cb_empty cb_buffered" by (rule in_hop) (rule callback_received [OF cb_buffers], rule refl)
  then have r: "reach incident_step cb_empty cb_revoked" by (rule in_hop [OF _ incidents_elsewhere refl]) (simp add: cb_revoked_def incident_tables_def)
  obtain t where t: "receive cb_service run_ok (cb_envelope ''c1'' 1 ''k1'') cb_revoked
      = (Inr (Applied_callback 0 (Some (''c2'', 2, ''CALLBACK_SIGNING_KEY_UNAVAILABLE''))), t)" "ks_incidents t = [cb_incident]"
    using cb_receives_first by (elim exE conjE) (rule that)
  have "ks_approvals t = ks_approvals cb_revoked" using receive_opens [OF t(1)] by (simp add: opened_since_def)
  then have "incident_tables in_opened = incident_tables t"
    using t(2) by (simp add: incident_tables_def in_opened_def cb_revoked_def cb_buffered_def cb_start_def cb_empty_def)
  then show ?thesis by (rule in_hop [OF r callback_received [OF t(1)]])
qed

lemma in_reaches_resolved: "reach incident_step cb_empty in_resolved"
proof -
  obtain t where t: "incident_propose_in in_service ''external-incident:blocked:c2'' ''m'' ''REMEDIATE'' (Some ''ref'') None in_opened = (Inr 1, t)"
    "incident_tables t = incident_tables in_pending" using in_proposes by (elim exE conjE) (rule that)
  have "incident_propose in_service run_ok ''external-incident:blocked:c2'' ''m'' ''REMEDIATE'' (Some ''ref'') None in_opened = (Inr 1, t)"
    using t(1) by (simp add: incident_propose_def thenE_def bindE_def ensureE_def retE_def run_serializable)
  then have p: "reach incident_step cb_empty in_pending" by (rule in_hop [OF in_reaches_opened incident_proposed]) (simp add: t(2))
  obtain u where u: "incident_decide_in in_service ''external-incident:blocked:c2'' ''c'' ''APPROVE'' None in_pending = (Inr (''RESOLVED_REMEDIATED'', 1), u)"
    "incident_tables u = incident_tables in_resolved" using in_decides by (elim exE conjE) (rule that)
  have "incident_decide in_service run_ok ''external-incident:blocked:c2'' ''c'' ''APPROVE'' None in_pending = (Inr (''RESOLVED_REMEDIATED'', 1), u)"
    using u(1) by (simp add: incident_decide_def thenE_def bindE_def ensureE_def retE_def run_serializable)
  then show ?thesis by (rule in_hop [OF p incident_decided]) (simp add: u(2))
qed

section \<open>The property\<close>

text \<open>
  An incident that is resolved was proposed by a maker and approved by another person in the same
  round, in the way the maker proposed, with a reference where it was remediated; and it stays as it is
  whatever callbacks, proposals and decisions follow.
\<close>

theorem resolved_by_two:
  assumes run: "reach incident_step cb_empty s" and i: "i \<in> set (ks_incidents s)" "incident_resolved i" and later: "incident_step\<^sup>*\<^sup>* s t"
  shows "approved_by_two s i \<and> i \<in> set (ks_incidents t)"
proof
  have ok: "incidents_ok s" by (rule incidents.always [OF run])
  then show "approved_by_two s i" using i unfolding incidents_ok_def incident_ok_def incident_resolved_def by blast
  show "i \<in> set (ks_incidents t)" by (rule resolved_always [OF later ok i])
qed

theorem resolved_by_two_witness:
  "reach incident_step cb_empty in_resolved \<and> approved_by_two in_resolved in_remediated \<and> in_remediated \<in> set (ks_incidents in_resolved)"
proof -
  have "in_remediated \<in> set (ks_incidents in_resolved)" "incident_resolved in_remediated"
    by (simp_all add: in_resolved_def incident_resolved_def in_remediated_def)
  from resolved_by_two [OF in_reaches_resolved this rtranclp.rtrancl_refl] show ?thesis using in_reaches_resolved by blast
qed

end
