(* ===== verification/OidcVerifier.thy ===== *)
theory OidcVerifier
  imports Outcome
begin

text \<open>
  ID tokens of the identity providers, \<open>src/security/oidc-verifier.js\<close>: the shape of a token, the
  provider it selects, the signing key, the signature and the claims, with the cache of key sets. Decoding,
  fetching, key parsing and the signature check are the platform's.
\<close>

section \<open>The platform and the providers\<close>

record oidc_verifier =
  ov_now :: int
  ov_cacheTtlMs :: int
  ov_decode :: "string \<Rightarrow> json option"   \<comment> \<open>base64url, then \<open>JSON.parse\<close>; \<open>None\<close> if it throws\<close>
  ov_protocol :: "string \<Rightarrow> string option"   \<comment> \<open>of \<open>new URL(uri)\<close>; \<open>None\<close> if it throws\<close>
  ov_fetch :: "string \<Rightarrow> json option outcome"   \<comment> \<open>the body of a response, \<open>None\<close> if it is not ok\<close>
  ov_key :: "json \<Rightarrow> (string \<times> int) option"   \<comment> \<open>type and modulus length of a key; \<open>None\<close> if it throws\<close>
  ov_check :: "string \<Rightarrow> string \<Rightarrow> json \<Rightarrow> string \<Rightarrow> bool outcome"   \<comment> \<open>algorithm, message, key, signature\<close>
  ov_text :: "json \<Rightarrow> string"   \<comment> \<open>the text the database driver makes of a value that is not a string\<close>
  ov_date :: "json \<Rightarrow> int"   \<comment> \<open>\<open>new Date(value * 1000)\<close> of a value that is not an integer\<close>

record identity_provider =
  ip_id :: string
  ip_issuer :: string
  ip_audience :: string
  ip_jwks_uri :: string
  ip_required_acr :: "string option"
  ip_status :: string

type_synonym jwks_cache = "(string, json list \<times> int) jsmap"   \<comment> \<open>key sets and when they expire\<close>

record oidc_claims =
  cl_provider :: string
  cl_verified :: bool
  cl_issuer :: string
  cl_audience :: string
  cl_subject :: string
  cl_session :: json
  cl_expiresAt :: int
  cl_authTime :: int
  cl_mfaTime :: "int option"
  cl_methods :: "json list"
  cl_acr :: json
  cl_nonce :: string

fun split_text :: "char \<Rightarrow> string \<Rightarrow> string list" where
  \<comment> \<open>\<open>text.split(c)\<close>\<close>
  "split_text c [] = [[]]"
| "split_text c (x # xs) = (if x = c then [] # split_text c xs else
     (case split_text c xs of [] \<Rightarrow> [[x]] | y # ys \<Rightarrow> (x # y) # ys))"

section \<open>The token\<close>

definition token_segments :: "json \<Rightarrow> (string \<times> string \<times> string) outcome" where
  "token_segments idToken = (case idToken of
     JStr t \<Rightarrow> (case split_text CHR ''.'' t of
       [h, p, s] \<Rightarrow> ensureR (h \<noteq> [] \<and> p \<noteq> [] \<and> s \<noteq> []) ''INVALID_OIDC_TOKEN'' (Inr (h, p, s))
     | _ \<Rightarrow> Inl (Coded ''INVALID_OIDC_TOKEN''))
   | JUndefined \<Rightarrow> Inl (Coded ''INVALID_OIDC_TOKEN'')
   | JNull \<Rightarrow> Inl (Coded ''INVALID_OIDC_TOKEN'')
   | _ \<Rightarrow> Inl type_error)"

definition decodeJson :: "oidc_verifier \<Rightarrow> string \<Rightarrow> json outcome" where
  "decodeJson h segment = (case ov_decode h segment of None \<Rightarrow> Inl (Coded ''INVALID_OIDC_TOKEN'') | Some v \<Rightarrow> Inr v)"

definition audienceMatches :: "json \<Rightarrow> string \<Rightarrow> bool" where
  "audienceMatches actual expected = (case actual of JArr xs \<Rightarrow> JStr expected \<in> set xs | _ \<Rightarrow> actual = JStr expected)"

definition signed_header :: "json \<Rightarrow> unit outcome" where
  "signed_header header =
     bindR (not_null header) (\<lambda>_.
     ensureR (jfield header ''alg'' \<in> {JStr ''RS256'', JStr ''PS256''} \<and> jtruthy (jfield header ''kid'')) ''UNSUPPORTED_OIDC_ALGORITHM'' (Inr ()))"

definition select_provider :: "json \<Rightarrow> identity_provider list \<Rightarrow> identity_provider outcome" where
  "select_provider payload providers =
     bindR (if providers = [] then Inr () else not_null payload) (\<lambda>_.
     case filter (\<lambda>p. jfield payload ''iss'' = JStr (ip_issuer p) \<and> audienceMatches (jfield payload ''aud'') (ip_audience p)) providers of
       [p] \<Rightarrow> Inr p
     | _ \<Rightarrow> Inl (Coded ''UNTRUSTED_IDENTITY_PROVIDER''))"

definition secure_uri :: "oidc_verifier \<Rightarrow> string \<Rightarrow> unit outcome" where
  "secure_uri h uri = (case ov_protocol h uri of
     None \<Rightarrow> Inl type_error
   | Some p \<Rightarrow> ensureR (p = ''https:'') ''INSECURE_JWKS_URI'' (Inr ()))"

definition fetch_keys :: "oidc_verifier \<Rightarrow> string \<Rightarrow> (jwks_cache, json list) eff" where
  "fetch_keys h uri =
     bindE (liftE (ov_fetch h uri)) (\<lambda>response.
     bindE (optE response (Coded ''OIDC_JWKS_UNAVAILABLE'')) (\<lambda>v.
     thenE (liftE (not_null v))
    (case jfield v ''keys'' of
       JArr keys \<Rightarrow> thenE (modifyE (jm_set uri (keys, ov_now h + ov_cacheTtlMs h))) (retE keys)
     | _ \<Rightarrow> throwE (Coded ''INVALID_OIDC_JWKS''))))"

definition jwks :: "oidc_verifier \<Rightarrow> string \<Rightarrow> (jwks_cache, json list) eff" where
  "jwks h uri = withE (\<lambda>cache. case jm_get cache uri of
     Some (keys, expiresAt) \<Rightarrow> if ov_now h < expiresAt then retE keys else fetch_keys h uri
   | None \<Rightarrow> fetch_keys h uri)"

section \<open>The signature\<close>

definition usable_key :: "json \<Rightarrow> json \<Rightarrow> bool" where
  "usable_key header k = (jstrict_eq (jfield k ''kid'') (jfield header ''kid'') \<and> jfield k ''kty'' = JStr ''RSA''
     \<and> (\<not> jtruthy (jfield k ''use'') \<or> jfield k ''use'' = JStr ''sig'')
     \<and> (\<not> jtruthy (jfield k ''alg'') \<or> jstrict_eq (jfield k ''alg'') (jfield header ''alg'')))"

definition signing_jwk :: "json \<Rightarrow> json list \<Rightarrow> json outcome" where
  "signing_jwk header keys =
     (if JNull \<in> set keys then Inl type_error
      else case filter (usable_key header) keys of
        [k] \<Rightarrow> Inr k
      | _ \<Rightarrow> Inl (Coded ''OIDC_SIGNING_KEY_NOT_FOUND''))"

definition strong_key :: "oidc_verifier \<Rightarrow> json \<Rightarrow> unit outcome" where
  "strong_key h k = (case ov_key h k of
     None \<Rightarrow> Inl type_error
   | Some (kind, modulusLength) \<Rightarrow> ensureR (kind = ''rsa'' \<and> 2048 \<le> modulusLength) ''OIDC_SIGNING_KEY_TOO_WEAK'' (Inr ()))"

definition signed_by :: "oidc_verifier \<Rightarrow> json \<Rightarrow> string \<Rightarrow> string \<Rightarrow> json \<Rightarrow> string \<Rightarrow> unit outcome" where
  "signed_by h header encodedHeader encodedPayload k signature =
     bindR (ov_check h (case jfield header ''alg'' of JStr a \<Rightarrow> a | _ \<Rightarrow> []) (encodedHeader @ ''.'' @ encodedPayload) k signature) (\<lambda>valid.
     ensureR valid ''INVALID_OIDC_SIGNATURE'' (Inr ()))"

section \<open>The claims\<close>

definition token_time :: "int \<Rightarrow> json \<Rightarrow> unit outcome" where
  "token_time nowSeconds payload = ensureR (
     (case jfield payload ''exp'' of JNum e \<Rightarrow> nowSeconds < e | _ \<Rightarrow> False)
     \<and> (case jfield payload ''nbf'' of JUndefined \<Rightarrow> True | JNum n \<Rightarrow> n \<le> nowSeconds + 60 | _ \<Rightarrow> False)) ''INVALID_OIDC_TIME'' (Inr ())"

definition token_claims :: "identity_provider \<Rightarrow> json \<Rightarrow> unit outcome" where
  "token_claims p payload =
     (let aud = jfield payload ''aud''; azp = jfield payload ''azp''; nonce = jfield payload ''nonce'' in
      ensureR (jtruthy (jfield payload ''sub'') \<and> (case jfield payload ''auth_time'' of JNum _ \<Rightarrow> True | _ \<Rightarrow> False)) ''INVALID_OIDC_CLAIMS''
     (ensureR (((case aud of JArr xs \<Rightarrow> length xs \<noteq> 1 | _ \<Rightarrow> False) \<or> azp \<noteq> JUndefined) \<longrightarrow> azp = JStr (ip_audience p)) ''OIDC_AUTHORIZED_PARTY_MISMATCH''
     (ensureR (case nonce of JStr n \<Rightarrow> 16 \<le> length n \<and> length n \<le> 512 | _ \<Rightarrow> False) ''OIDC_NONCE_REQUIRED'' (Inr ()))))"

definition seconds_date :: "oidc_verifier \<Rightarrow> json \<Rightarrow> int" where
  "seconds_date h v = (case v of JNum n \<Rightarrow> n * 1000 | _ \<Rightarrow> ov_date h v)"

definition text_of :: "oidc_verifier \<Rightarrow> json \<Rightarrow> string" where
  "text_of h v = (case v of JStr t \<Rightarrow> t | _ \<Rightarrow> ov_text h v)"

definition or_null :: "json \<Rightarrow> json" where
  \<comment> \<open>\<open>v ?? null\<close>\<close>
  "or_null v = (if v = JUndefined then JNull else v)"

definition claims_of :: "oidc_verifier \<Rightarrow> identity_provider \<Rightarrow> json \<Rightarrow> oidc_claims" where
  "claims_of h p payload = \<lparr>cl_provider = ip_id p, cl_verified = True, cl_issuer = text_of h (jfield payload ''iss''), cl_audience = ip_audience p,
     cl_subject = text_of h (jfield payload ''sub''), cl_session = or_null (jfield payload ''sid''),
     cl_expiresAt = seconds_date h (jfield payload ''exp''), cl_authTime = seconds_date h (jfield payload ''auth_time''),
     cl_mfaTime = (if jtruthy (jfield payload ''mfa_time'') then Some (seconds_date h (jfield payload ''mfa_time'')) else None),
     cl_methods = jelems (jfield payload ''amr''), cl_acr = or_null (jfield payload ''acr''),
     cl_nonce = text_of h (jfield payload ''nonce'')\<rparr>"

definition verify_token :: "oidc_verifier \<Rightarrow> json \<Rightarrow> identity_provider list \<Rightarrow> (jwks_cache, oidc_claims) eff" where
  "verify_token h idToken providers =
     bindE (liftE (token_segments idToken)) (\<lambda>(encodedHeader, encodedPayload, encodedSignature).
     bindE (liftE (decodeJson h encodedHeader)) (\<lambda>header.
     bindE (liftE (decodeJson h encodedPayload)) (\<lambda>payload.
     thenE (liftE (signed_header header))
    (bindE (liftE (select_provider payload providers)) (\<lambda>p.
     thenE (liftE (secure_uri h (ip_jwks_uri p)))
    (bindE (jwks h (ip_jwks_uri p)) (\<lambda>keys.
     bindE (liftE (signing_jwk header keys)) (\<lambda>k.
     thenE (liftE (strong_key h k))
    (thenE (liftE (signed_by h header encodedHeader encodedPayload k encodedSignature))
    (thenE (liftE (token_time (ov_now h div 1000) payload))
    (thenE (liftE (token_claims p payload))
    (retE (claims_of h p payload)))))))))))))"

section \<open>Who signed an accepted token\<close>

definition token_signed :: "oidc_verifier \<Rightarrow> json \<Rightarrow> json list \<Rightarrow> bool" where
  \<comment> \<open>the only key of the set that the header of the token names is strong and verifies it\<close>
  "token_signed h idToken keys = (\<exists>hd p s header k alg modulusLength. token_segments idToken = Inr (hd, p, s) \<and> ov_decode h hd = Some header
     \<and> jfield header ''alg'' = JStr alg \<and> alg \<in> {''RS256'', ''PS256''} \<and> filter (usable_key header) keys = [k]
     \<and> ov_key h k = Some (''rsa'', modulusLength) \<and> 2048 \<le> modulusLength \<and> ov_check h alg (hd @ ''.'' @ p) k s = Inr True)"

lemma jwks_source:
  assumes "jwks h uri cache = (Inr keys, t)"
  shows "(\<exists>e. jm_get cache uri = Some (keys, e) \<and> ov_now h < e) \<or> (\<exists>v. ov_fetch h uri = Inr (Some v) \<and> jfield v ''keys'' = JArr keys)"
  using assms by (auto simp: jwks_def fetch_keys_def eff_simps not_null_def split: option.splits if_splits json.splits)

lemma verified_token:
  assumes run: "verify_token h idToken providers cache = (Inr c, t)"
  obtains p keys u where "p \<in> set providers" and "cl_provider c = ip_id p" and "cl_issuer c = ip_issuer p" and "cl_audience c = ip_audience p"
    and "ov_protocol h (ip_jwks_uri p) = Some ''https:''" and "jwks h (ip_jwks_uri p) cache = (Inr keys, u)" and "token_signed h idToken keys"
    and "ov_now h div 1000 * 1000 < cl_expiresAt c" and "16 \<le> length (cl_nonce c)" and "cl_verified c"
proof -
  from run obtain eh ep es header payload p keys u k where seg: "token_segments idToken = Inr (eh, ep, es)" and hd: "ov_decode h eh = Some header"
    and pl: "ov_decode h ep = Some payload" and sh: "signed_header header = Inr ()" and sp: "select_provider payload providers = Inr p"
    and su: "secure_uri h (ip_jwks_uri p) = Inr ()" and ks: "jwks h (ip_jwks_uri p) cache = (Inr keys, u)" and sk: "signing_jwk header keys = Inr k"
    and st: "strong_key h k = Inr ()" and sb: "signed_by h header eh ep k es = Inr ()" and tt: "token_time (ov_now h div 1000) payload = Inr ()"
    and tc: "token_claims p payload = Inr ()" and c: "c = claims_of h p payload"
    unfolding verify_token_def by (auto simp: eff_simps decodeJson_def split: option.splits)
  have p: "p \<in> set providers" "jfield payload ''iss'' = JStr (ip_issuer p)"
  proof -
    have "filter (\<lambda>p. jfield payload ''iss'' = JStr (ip_issuer p) \<and> audienceMatches (jfield payload ''aud'') (ip_audience p)) providers = [p]"
      using sp by (auto simp: select_provider_def bindR_Inr split: list.splits)
    then have "p \<in> set (filter (\<lambda>p. jfield payload ''iss'' = JStr (ip_issuer p) \<and> audienceMatches (jfield payload ''aud'') (ip_audience p)) providers)" by simp
    then show "p \<in> set providers" "jfield payload ''iss'' = JStr (ip_issuer p)" by simp_all
  qed
  have https: "ov_protocol h (ip_jwks_uri p) = Some ''https:''" using su by (auto simp: secure_uri_def ensureR_Inr split: option.splits)
  have signed: "token_signed h idToken keys"
  proof -
    obtain alg where alg: "jfield header ''alg'' = JStr alg" "alg \<in> {''RS256'', ''PS256''}" using sh by (auto simp: signed_header_def bindR_Inr ensureR_Inr)
    have "filter (usable_key header) keys = [k]" using sk by (auto simp: signing_jwk_def split: if_splits list.splits)
    moreover obtain n where "ov_key h k = Some (''rsa'', n)" "2048 \<le> n" using st by (auto simp: strong_key_def ensureR_Inr split: option.splits)
    moreover have "ov_check h alg (eh @ ''.'' @ ep) k es = Inr True" using sb alg by (auto simp: signed_by_def bindR_Inr ensureR_Inr)
    ultimately show ?thesis using seg hd alg unfolding token_signed_def by blast
  qed
  have exp: "ov_now h div 1000 * 1000 < cl_expiresAt c"
    using tt by (auto simp: token_time_def ensureR_Inr c claims_of_def seconds_date_def split: json.splits)
  have nonce: "16 \<le> length (cl_nonce c)"
    using tc by (auto simp: token_claims_def Let_def ensureR_Inr c claims_of_def text_of_def split: json.splits)
  show thesis
    by (rule that [OF p(1) _ _ _ https ks signed exp nonce]) (simp_all add: c claims_of_def text_of_def p(2))
qed

end
