(* ===== verification/ProductionAuth.thy ===== *)
theory ProductionAuth
  imports OidcVerifier PgFrames
begin

text \<open>
  Logins and sessions in production, \<open>src/security/production-auth.js\<close>: single-use login challenges, the
  claims of a verified ID token, the membership a session stands for, and what a request is let through
  with. Random tokens, percent decoding and the two clocks are fields of the service; a retried
  transaction draws the same tokens here. A role or tenant that is absent is the empty text.
\<close>

section \<open>The tables\<close>

record principal_row =
  pn_id :: string
  pn_provider :: string
  pn_subject :: string
  pn_status :: string
  pn_investor :: "string option"

record auth_membership =
  hm_principal :: string
  hm_tenant :: string
  hm_institution :: "string option"
  hm_role :: string
  hm_status :: string
  hm_effectiveAt :: int
  hm_expiresAt :: "int option"

record login_challenge =
  lc_hash :: string
  lc_expiresAt :: int
  lc_consumed :: bool

record consumed_token =
  ot_hash :: string
  ot_provider :: string
  ot_subject :: string
  ot_expiresAt :: int

record session_row =
  ss_id :: string
  ss_csrf :: string
  ss_principal :: string
  ss_tenant :: string
  ss_role :: string
  ss_institution :: "string option"
  ss_investor :: "string option"
  ss_permissions :: "string list"
  ss_providerSession :: json
  ss_authTime :: int
  ss_mfaTime :: int
  ss_issuedAt :: int
  ss_expiresAt :: int
  ss_lastSeenAt :: int
  ss_revoked :: "string option"   \<comment> \<open>the reason of a revoked session\<close>

record auth_event =
  av_principal :: "string option"
  av_tenant :: "string option"
  av_outcome :: string
  av_reason :: "string option"
  av_provider :: "string option"

record auth_db =
  hd_cache :: jwks_cache   \<comment> \<open>of the verifier\<close>
  hd_providers :: "identity_provider list"
  hd_principals :: "principal_row list"
  hd_memberships :: "auth_membership list"
  hd_permissions :: "(string \<times> string) list"   \<comment> \<open>role and permission\<close>
  hd_challenges :: "login_challenge list"
  hd_tokens :: "consumed_token list"
  hd_sessions :: "session_row list"
  hd_events :: "auth_event list"

record auth_service =
  hs_verifier :: oidc_verifier
  hs_sha :: "string \<Rightarrow> string"
  hs_now :: int
  hs_clock :: int   \<comment> \<open>of the database\<close>
  hs_ttlMs :: int
  hs_maxAuthAgeMs :: int
  hs_challengeTtlMs :: int
  hs_secureCookies :: bool
  hs_nonce :: string
  hs_sessionToken :: string
  hs_csrfToken :: string
  hs_encode :: "string \<Rightarrow> string"   \<comment> \<open>\<open>encodeURIComponent\<close>\<close>
  hs_decode :: "string \<Rightarrow> string option"   \<comment> \<open>\<open>decodeURIComponent\<close>; \<open>None\<close> if it throws\<close>

definition inVerifier :: "(jwks_cache, 'a) eff \<Rightarrow> (auth_db, 'a) eff" where
  "inVerifier m = (\<lambda>s. case m (hd_cache s) of (r, cache) \<Rightarrow> (r, s\<lparr>hd_cache := cache\<rparr>))"

section \<open>Cookies and tokens\<close>

fun cookieValue :: "(string \<Rightarrow> string option) \<Rightarrow> string list \<Rightarrow> string option outcome" where
  \<comment> \<open>over the parts of the header between semicolons\<close>
  "cookieValue decode [] = Inr None"
| "cookieValue decode (part # parts) =
     (let name = takeWhile (\<lambda>c. c \<noteq> CHR ''='') part; rest = drop (length name + 1) part in
      if CHR ''='' \<in> set part \<and> name \<noteq> [] \<and> js_trim name = ''rwa_session'' then
        (case decode (js_trim rest) of None \<Rightarrow> Inl (Native ''URIError'') | Some v \<Rightarrow> Inr (Some v))
      else cookieValue decode parts)"

definition safeTokenMatch :: "(string \<Rightarrow> string) \<Rightarrow> string \<Rightarrow> string \<Rightarrow> bool" where
  "safeTokenMatch sha supplied expectedHash = (supplied \<noteq> [] \<and> expectedHash \<noteq> [] \<and> sha supplied = expectedHash)"

definition cookie_text :: "auth_service \<Rightarrow> string \<Rightarrow> int \<Rightarrow> string" where
  "cookie_text h token maxAge = ''rwa_session='' @ hs_encode h token @ ''; Path=/; HttpOnly; SameSite=Strict; Max-Age='' @ int_text maxAge
     @ (if hs_secureCookies h then ''; Secure'' else [])"

definition expiry_violation :: js_error where
  \<comment> \<open>of the checks \<open>expires_at > created_at\<close> and \<open>expires_at > issued_at\<close>\<close>
  "expiry_violation = Coded ''23514''"

section \<open>The challenge\<close>

definition createLoginChallenge :: "auth_service \<Rightarrow> (auth_db, string \<times> int \<times> string) eff" where
  "createLoginChallenge h = withE (\<lambda>s.
     let nonce = hs_nonce h; expiresAt = hs_clock h + hs_challengeTtlMs h in
     if hs_sha h nonce \<in> lc_hash ` set (hd_challenges s) then throwE unique_violation
     else if expiresAt \<le> hs_clock h then throwE expiry_violation
     else thenE (modifyE (\<lambda>s. s\<lparr>hd_challenges := hd_challenges s @ [\<lparr>lc_hash = hs_sha h nonce, lc_expiresAt = expiresAt, lc_consumed = False\<rparr>]\<rparr>))
       (retE (nonce, expiresAt, ''rwa_oidc_nonce='' @ nonce @ ''; Path=/api/oidc; HttpOnly; SameSite=Strict; Max-Age=''
          @ int_text (hs_challengeTtlMs h div 1000) @ (if hs_secureCookies h then ''; Secure'' else []))))"

section \<open>Logging in\<close>

record login_request =
  lq_idToken :: json
  lq_tenant :: string
  lq_role :: string
  lq_nonce :: "string option"

record auth_identity =
  an_principal :: string
  an_tenant :: string
  an_institution :: "string option"
  an_role :: string
  an_actor :: "string option"
  an_permissions :: "string list"

record login_answer =
  la_identity :: auth_identity
  la_csrfToken :: string
  la_cookie :: string
  la_expiresAt :: int

definition assertClaims :: "auth_service \<Rightarrow> oidc_claims \<Rightarrow> identity_provider \<Rightarrow> unit outcome" where
  "assertClaims h c p =
     ensureR (cl_verified c \<and> cl_issuer c = ip_issuer p \<and> cl_audience c = ip_audience p) ''INVALID_OIDC_ASSERTION''
    (ensureR (cl_subject c \<noteq> [] \<and> hs_now h < cl_expiresAt c) ''INVALID_OIDC_ASSERTION''
    (ensureR (hs_now h - cl_authTime c \<le> hs_maxAuthAgeMs h) ''REAUTHENTICATION_REQUIRED''
    (ensureR (set (cl_methods c) \<inter> {JStr ''mfa'', JStr ''otp'', JStr ''hwk''} \<noteq> {}) ''MFA_REQUIRED''
    (ensureR (case ip_required_acr p of None \<Rightarrow> True | Some acr \<Rightarrow> acr \<noteq> [] \<longrightarrow> cl_acr c = JStr acr) ''MFA_ASSURANCE_INSUFFICIENT'' (Inr ())))))"

definition consume_challenge :: "auth_service \<Rightarrow> string \<Rightarrow> (auth_db, unit) eff" where
  "consume_challenge h nonce = withE (\<lambda>s.
     let open_row = (\<lambda>c. lc_hash c = hs_sha h nonce \<and> \<not> lc_consumed c \<and> hs_clock h < lc_expiresAt c) in
     thenE (ensureE (length (filter open_row (hd_challenges s)) = 1) ''OIDC_LOGIN_CHALLENGE_INVALID'')
     (modifyE (\<lambda>s. s\<lparr>hd_challenges := update_where open_row (\<lambda>c. c\<lparr>lc_consumed := True\<rparr>) (hd_challenges s)\<rparr>)))"

definition consume_token :: "auth_service \<Rightarrow> string \<Rightarrow> identity_provider \<Rightarrow> oidc_claims \<Rightarrow> (auth_db, unit) eff" where
  "consume_token h idToken p c = withE (\<lambda>s.
     thenE (ensureE (hs_sha h idToken \<notin> ot_hash ` set (hd_tokens s)) ''OIDC_TOKEN_REPLAYED'')
     (modifyE (\<lambda>s. s\<lparr>hd_tokens := hd_tokens s @ [\<lparr>ot_hash = hs_sha h idToken, ot_provider = ip_id p, ot_subject = cl_subject c,
        ot_expiresAt = cl_expiresAt c\<rparr>]\<rparr>)))"

definition current_membership :: "auth_service \<Rightarrow> auth_membership \<Rightarrow> bool" where
  "current_membership h m = (hm_status m = ''ACTIVE'' \<and> hm_effectiveAt m \<le> hs_clock h \<and> (\<forall>u. hm_expiresAt m = Some u \<longrightarrow> hs_clock h < u))"

definition login_rows :: "auth_service \<Rightarrow> auth_db \<Rightarrow> string \<Rightarrow> string \<Rightarrow> string \<Rightarrow> string \<Rightarrow> (principal_row \<times> auth_membership) list" where
  "login_rows h s provider subject tenant role =
     filter (\<lambda>(n, m). pn_provider n = provider \<and> pn_subject n = subject \<and> hm_principal m = pn_id n \<and> hm_tenant m = tenant \<and> hm_role m = role
       \<and> current_membership h m) (List.product (hd_principals s) (hd_memberships s))"

definition member_of :: "auth_service \<Rightarrow> string \<Rightarrow> string \<Rightarrow> string \<Rightarrow> string \<Rightarrow> (auth_db, principal_row \<times> auth_membership) eff" where
  "member_of h provider subject tenant role = withE (\<lambda>s. case login_rows h s provider subject tenant role of
     [(n, m)] \<Rightarrow> thenE (ensureE (pn_status n = ''ACTIVE'') ''AUTHORIZATION_DENIED'') (retE (n, m))
   | _ \<Rightarrow> throwE (Coded ''AUTHORIZATION_DENIED''))"

definition permissions_of :: "auth_db \<Rightarrow> string \<Rightarrow> string list" where
  "permissions_of s role = sort (map snd (filter (\<lambda>(r, _). r = role) (hd_permissions s)))"

definition new_session :: "auth_service \<Rightarrow> auth_db \<Rightarrow> oidc_claims \<Rightarrow> principal_row \<Rightarrow> auth_membership \<Rightarrow> session_row" where
  "new_session h s c n m = \<lparr>ss_id = hs_sha h (hs_sessionToken h), ss_csrf = hs_sha h (hs_csrfToken h), ss_principal = pn_id n,
     ss_tenant = hm_tenant m, ss_role = hm_role m, ss_institution = hm_institution m, ss_investor = pn_investor n,
     ss_permissions = permissions_of s (hm_role m), ss_providerSession = cl_session c, ss_authTime = cl_authTime c,
     ss_mfaTime = (case cl_mfaTime c of None \<Rightarrow> cl_authTime c | Some t \<Rightarrow> t), ss_issuedAt = hs_now h, ss_expiresAt = hs_now h + hs_ttlMs h,
     ss_lastSeenAt = hs_now h, ss_revoked = None\<rparr>"

definition add_session :: "session_row \<Rightarrow> (auth_db, unit) eff" where
  "add_session r = withE (\<lambda>s.
     if ss_id r \<in> ss_id ` set (hd_sessions s) then throwE unique_violation
     else if ss_expiresAt r \<le> ss_issuedAt r then throwE expiry_violation
     else modifyE (\<lambda>s. s\<lparr>hd_sessions := hd_sessions s @ [r]\<rparr>))"

definition add_event :: "auth_event \<Rightarrow> (auth_db, unit) eff" where
  "add_event e = modifyE (\<lambda>s. s\<lparr>hd_events := hd_events s @ [e]\<rparr>)"

definition session_identity :: "principal_row \<Rightarrow> auth_membership \<Rightarrow> string list \<Rightarrow> auth_identity" where
  "session_identity n m permissions = \<lparr>an_principal = pn_id n, an_tenant = hm_tenant m, an_institution = hm_institution m, an_role = hm_role m,
     an_actor = pn_investor n, an_permissions = permissions\<rparr>"

definition login_tx :: "auth_service \<Rightarrow> login_request \<Rightarrow> string \<Rightarrow> string \<Rightarrow> identity_provider \<Rightarrow> oidc_claims \<Rightarrow> (auth_db, login_answer) eff" where
  "login_tx h q idToken nonce p c =
     thenE (consume_challenge h nonce)
    (thenE (consume_token h idToken p c)
    (bindE (member_of h (ip_id p) (cl_subject c) (lq_tenant q) (lq_role q)) (\<lambda>(n, m).
     thenE (ensureE (\<not> (lq_role q = ''investor'' \<and> pn_investor n \<in> {None, Some []})) ''INVALID_IDENTITY_BINDING'') (withE (\<lambda>s.
     let r = new_session h s c n m in
     thenE (add_session r)
    (thenE (add_event \<lparr>av_principal = Some (pn_id n), av_tenant = Some (lq_tenant q), av_outcome = ''SUCCESS'', av_reason = None, av_provider = Some (ip_id p)\<rparr>)
    (retE \<lparr>la_identity = session_identity n m (ss_permissions r), la_csrfToken = hs_csrfToken h,
       la_cookie = cookie_text h (hs_sessionToken h) (hs_ttlMs h div 1000), la_expiresAt = ss_expiresAt r\<rparr>)))))))"

definition idToken_text :: "json \<Rightarrow> string" where
  "idToken_text v = (case v of JStr t \<Rightarrow> t | _ \<Rightarrow> [])"

definition login_in :: "auth_service \<Rightarrow> (nat \<Rightarrow> unit outcome) \<Rightarrow> login_request \<Rightarrow> (auth_db, login_answer) eff" where
  "login_in h commit q =
     thenE (ensureE (jtruthy (lq_idToken q) \<and> lq_tenant q \<noteq> [] \<and> lq_role q \<noteq> []) ''INVALID_LOGIN_REQUEST'')
    (bindE (optE (lq_nonce q) (Coded ''OIDC_LOGIN_CHALLENGE_REQUIRED'')) (\<lambda>nonce.
     thenE (ensureE (16 \<le> length nonce) ''OIDC_LOGIN_CHALLENGE_REQUIRED'') (withE (\<lambda>s.
     let providers = filter (\<lambda>p. ip_status p = ''ACTIVE'') (hd_providers s) in
     thenE (ensureE (providers \<noteq> []) ''IDENTITY_PROVIDER_UNAVAILABLE'')
    (bindE (inVerifier (verify_token (hs_verifier h) (lq_idToken q) providers)) (\<lambda>c.
     bindE (optE (find (\<lambda>p. ip_id p = cl_provider c) providers) (Coded ''UNTRUSTED_IDENTITY_PROVIDER'')) (\<lambda>p.
     thenE (liftE (assertClaims h c p))
    (thenE (ensureE (safeTokenMatch (hs_sha h) (cl_nonce c) (hs_sha h nonce)) ''OIDC_NONCE_MISMATCH'')
    (withSerializableTransaction 3 commit (login_tx h q (idToken_text (lq_idToken q)) nonce p c))))))))))"

definition login :: "auth_service \<Rightarrow> (nat \<Rightarrow> unit outcome) \<Rightarrow> login_request \<Rightarrow> (auth_db, login_answer) eff" where
  "login h commit q = catchE (login_in h commit q) (\<lambda>e.
     thenE (add_event \<lparr>av_principal = None, av_tenant = (if lq_tenant q = [] then None else Some (lq_tenant q)), av_outcome = ''DENIED'',
         av_reason = Some (case e of Coded c \<Rightarrow> c | Native _ \<Rightarrow> ''LOGIN_FAILED''), av_provider = None\<rparr>)
     (throwE e))"

section \<open>Requests of a session\<close>

record authenticated =
  ad_session :: string
  ad_identity :: auth_identity
  ad_csrfHash :: string

definition session_rows :: "auth_db \<Rightarrow> string \<Rightarrow> (session_row \<times> principal_row \<times> auth_membership option) list" where
  \<comment> \<open>the join of the session, its principal and the active membership, if there is one\<close>
  "session_rows s i = concat (map (\<lambda>r. concat (map (\<lambda>n.
     (case filter (\<lambda>m. hm_principal m = ss_principal r \<and> hm_tenant m = ss_tenant r \<and> hm_role m = ss_role r \<and> hm_status m = ''ACTIVE'') (hd_memberships s) of
        [] \<Rightarrow> [(r, n, None)]
      | ms \<Rightarrow> map (\<lambda>m. (r, n, Some m)) ms))
     (filter (\<lambda>n. pn_id n = ss_principal r) (hd_principals s)))) (filter (\<lambda>r. ss_id r = i) (hd_sessions s)))"

definition session_alive :: "int \<Rightarrow> session_row \<Rightarrow> principal_row \<Rightarrow> auth_membership \<Rightarrow> bool" where
  "session_alive at r n m = (ss_revoked r = None \<and> at < ss_expiresAt r \<and> pn_status n = ''ACTIVE''
     \<and> (\<forall>u. hm_expiresAt m = Some u \<longrightarrow> at < u))"

definition authenticate_session :: "auth_service \<Rightarrow> string \<Rightarrow> (auth_db, authenticated) eff" where
  "authenticate_session h cookieHeader =
     bindE (liftE (cookieValue (hs_decode h) (split_text CHR '';'' cookieHeader))) (\<lambda>token.
     thenE (ensureE (token \<notin> {None, Some []}) ''AUTHENTICATION_REQUIRED'') (withE (\<lambda>s.
     case session_rows s (hs_sha h (the token)) of
       [(r, n, Some m)] \<Rightarrow>
         thenE (ensureE (session_alive (hs_now h) r n m) ''SESSION_EXPIRED'')
        (thenE (modifyE (\<lambda>s. s\<lparr>hd_sessions := update_where (\<lambda>x. ss_id x = ss_id r \<and> ss_revoked x = None)
           (\<lambda>x. x\<lparr>ss_lastSeenAt := hs_clock h\<rparr>) (hd_sessions s)\<rparr>))
        (retE \<lparr>ad_session = ss_id r, ad_identity = \<lparr>an_principal = ss_principal r, an_tenant = ss_tenant r, an_institution = hm_institution m,
           an_role = ss_role r, an_actor = ss_investor r, an_permissions = permissions_of s (ss_role r)\<rparr>, ad_csrfHash = ss_csrf r\<rparr>))
     | [(r, n, None)] \<Rightarrow> throwE (Coded ''SESSION_EXPIRED'')
     | _ \<Rightarrow> throwE (Coded ''INVALID_SESSION''))))"

definition assertCsrf :: "auth_service \<Rightarrow> authenticated \<Rightarrow> string \<Rightarrow> unit outcome" where
  "assertCsrf h a suppliedToken = ensureR (safeTokenMatch (hs_sha h) suppliedToken (ad_csrfHash a)) ''CSRF_REJECTED'' (Inr ())"

definition revoke_session :: "string \<Rightarrow> string \<Rightarrow> (auth_db, unit) eff" where
  "revoke_session sessionId reason = modifyE (\<lambda>s. s\<lparr>hd_sessions := update_where (\<lambda>r. ss_id r = sessionId \<and> ss_revoked r = None)
     (\<lambda>r. r\<lparr>ss_revoked := Some reason\<rparr>) (hd_sessions s)\<rparr>)"

definition authorizePermission :: "auth_identity \<Rightarrow> string \<Rightarrow> unit outcome" where
  "authorizePermission i permission = ensureR (permission \<in> set (an_permissions i)) ''AUTHORIZATION_DENIED'' (Inr ())"

end
