(* ===== verification/AuthFacts.thy ===== *)
theory AuthFacts
  imports ProductionAuth
begin

text \<open>
  What logins, challenges and revocations do to the tables, the steps of the service, and what holds in
  every state: a challenge and a session have a name of their own, and neither is ever taken back.
\<close>

section \<open>Operations that fail\<close>

definition auth_tables :: "auth_db \<Rightarrow> login_challenge list \<times> consumed_token list \<times> session_row list" where
  "auth_tables s = (hd_challenges s, hd_tokens s, hd_sessions s)"

definition fails_clean :: "('s \<Rightarrow> 'b) \<Rightarrow> ('s, 'a) eff \<Rightarrow> bool" where
  "fails_clean f m = (\<forall>s e t. m s = (Inl e, t) \<longrightarrow> f t = f s)"

lemma fails_frame: "preserves f m \<Longrightarrow> fails_clean f m"
  by (auto simp: fails_clean_def dest: preservesD)

lemma fails_bind:
  assumes "preserves f m" and "\<And>a. fails_clean f (g a)"
  shows "fails_clean f (bindE m g)"
  unfolding fails_clean_def
proof (intro allI impI)
  fix s e t assume "bindE m g s = (Inl e, t)"
  then consider "m s = (Inl e, t)" | a u where "m s = (Inr a, u)" "g a u = (Inl e, t)" by (auto simp: bindE_Inl)
  then show "f t = f s"
  proof cases
    case 2
    then show ?thesis using preservesD [OF assms(1) 2(1)] assms(2) by (simp add: fails_clean_def)
  qed (rule preservesD [OF assms(1)])
qed

lemma fails_then: "preserves f m \<Longrightarrow> fails_clean f n \<Longrightarrow> fails_clean f (thenE m n)"
  by (simp add: thenE_def fails_bind)

lemma fails_with: "(\<And>s. fails_clean f (g s)) \<Longrightarrow> fails_clean f (withE g)"
  by (simp add: fails_clean_def withE_def)

lemma fails_transaction: "fails_clean f (withSerializableTransaction n commit m)"
  unfolding fails_clean_def withSerializableTransaction_def using serializable_from_result by fastforce

lemma verifier_frame: "preserves auth_tables (inVerifier m)"
  by (rule preservesI) (auto simp: inVerifier_def auth_tables_def split: prod.splits)

lemma login_in_fails: "fails_clean auth_tables (login_in h commit q)"
  unfolding login_in_def Let_def
  by (intro fails_then fails_bind fails_with fails_transaction verifier_frame preserves_intros)

lemma login_failed:
  assumes "login h commit q s = (Inl e, t)"
  shows "auth_tables t = auth_tables s"
proof -
  obtain u e' where "login_in h commit q s = (Inl e', u)" "auth_tables t = auth_tables u"
    using assms by (auto simp: login_def catchE_def add_event_def auth_tables_def eff_defs split: prod.splits sum.splits)
  then show ?thesis using login_in_fails unfolding fails_clean_def by metis
qed

section \<open>Logins that succeed\<close>

lemma found_row: "find P xs = Some x \<Longrightarrow> x \<in> set xs \<and> P x"
  by (induction xs) (auto split: if_splits)

lemma login_accepted:
  assumes "login h commit q s = (Inr a, t)"
  obtains nonce c p cache where "lq_nonce q = Some nonce" and "16 \<le> length nonce" and "p \<in> set (hd_providers s)" and "ip_status p = ''ACTIVE''"
    and "ip_id p = cl_provider c"
    and "verify_token (hs_verifier h) (lq_idToken q) (filter (\<lambda>p. ip_status p = ''ACTIVE'') (hd_providers s)) (hd_cache s) = (Inr c, cache)"
    and "assertClaims h c p = Inr ()" and "hs_sha h (cl_nonce c) = hs_sha h nonce"
    and "login_tx h q (idToken_text (lq_idToken q)) nonce p c (s\<lparr>hd_cache := cache\<rparr>) = (Inr a, t)"
proof -
  have "login_in h commit q s = (Inr a, t)"
    using assms by (auto simp: login_def catchE_def eff_defs add_event_def split: prod.splits sum.splits)
  then obtain nonce c u p where n: "lq_nonce q = Some nonce" "16 \<le> length nonce"
    and v: "inVerifier (verify_token (hs_verifier h) (lq_idToken q) (filter (\<lambda>p. ip_status p = ''ACTIVE'') (hd_providers s))) s = (Inr c, u)"
    and p: "find (\<lambda>p. ip_id p = cl_provider c) (filter (\<lambda>p. ip_status p = ''ACTIVE'') (hd_providers s)) = Some p"
    and a: "assertClaims h c p = Inr ()" and m: "safeTokenMatch (hs_sha h) (cl_nonce c) (hs_sha h nonce)"
    and tx: "withSerializableTransaction 3 commit (login_tx h q (idToken_text (lq_idToken q)) nonce p c) u = (Inr a, t)"
    unfolding login_in_def Let_def thenE_Inr bindE_Inr withE_run ensureE_Inr optE_Inr liftE_iff
    by (elim exE conjE) (hypsubst, rule that, (assumption | simp)+)
  obtain cache where cache: "u = s\<lparr>hd_cache := cache\<rparr>"
    "verify_token (hs_verifier h) (lq_idToken q) (filter (\<lambda>p. ip_status p = ''ACTIVE'') (hd_providers s)) (hd_cache s) = (Inr c, cache)"
    using v by (auto simp: inVerifier_def split: prod.splits)
  have "login_tx h q (idToken_text (lq_idToken q)) nonce p c u = (Inr a, t)"
    using serializable_from_result [OF tx [unfolded withSerializableTransaction_def]] by auto
  moreover have "p \<in> set (hd_providers s)" "ip_status p = ''ACTIVE''" "ip_id p = cl_provider c"
    using found_row [OF p] by simp_all
  ultimately show thesis using that n a m cache by (simp add: safeTokenMatch_def)
qed

definition opens_challenge :: "auth_service \<Rightarrow> string \<Rightarrow> login_challenge \<Rightarrow> bool" where
  "opens_challenge h nonce c = (lc_hash c = hs_sha h nonce \<and> \<not> lc_consumed c \<and> hs_clock h < lc_expiresAt c)"

lemma login_tx_effect:
  assumes run: "login_tx h q idToken nonce p c s = (Inr a, t)"
  obtains n m k where "filter (opens_challenge h nonce) (hd_challenges s) = [k]" and "hs_sha h idToken \<notin> ot_hash ` set (hd_tokens s)"
    and "login_rows h s (ip_id p) (cl_subject c) (lq_tenant q) (lq_role q) = [(n, m)]" and "pn_status n = ''ACTIVE''"
    and "hs_sha h (hs_sessionToken h) \<notin> ss_id ` set (hd_sessions s)"
    and "hd_challenges t = update_where (opens_challenge h nonce) (\<lambda>c. c\<lparr>lc_consumed := True\<rparr>) (hd_challenges s)"
    and "\<exists>k. ot_hash k = hs_sha h idToken \<and> hd_tokens t = hd_tokens s @ [k]" and "hd_sessions t = hd_sessions s @ [new_session h s c n m]"
    and "la_identity a = session_identity n m (permissions_of s (hm_role m))"
proof -
  obtain s1 s2 s3 x y nm where ch: "consume_challenge h nonce s = (Inr x, s1)" and tk: "consume_token h idToken p c s1 = (Inr y, s2)"
    and mb: "member_of h (ip_id p) (cl_subject c) (lq_tenant q) (lq_role q) s2 = (Inr nm, s3)"
    and rest: "(case nm of (n, m) \<Rightarrow> thenE (ensureE (\<not> (lq_role q = ''investor'' \<and> pn_investor n \<in> {None, Some []})) ''INVALID_IDENTITY_BINDING'') (withE (\<lambda>s.
     let r = new_session h s c n m in
     thenE (add_session r)
    (thenE (add_event \<lparr>av_principal = Some (pn_id n), av_tenant = Some (lq_tenant q), av_outcome = ''SUCCESS'', av_reason = None, av_provider = Some (ip_id p)\<rparr>)
    (retE \<lparr>la_identity = session_identity n m (ss_permissions r), la_csrfToken = hs_csrfToken h,
       la_cookie = cookie_text h (hs_sessionToken h) (hs_ttlMs h div 1000), la_expiresAt = ss_expiresAt r\<rparr>))))) s3 = (Inr a, t)"
    using run unfolding login_tx_def thenE_Inr [of "consume_challenge _ _"] thenE_Inr [of "consume_token _ _ _ _"] bindE_Inr [of "member_of _ _ _ _ _"]
    by (elim exE conjE) (rule that)
  obtain n m where nm: "nm = (n, m)" by (cases nm)
  have opens: "(\<lambda>c. lc_hash c = hs_sha h nonce \<and> \<not> lc_consumed c \<and> hs_clock h < lc_expiresAt c) = opens_challenge h nonce"
    by (simp add: opens_challenge_def fun_eq_iff)
  obtain k where k: "filter (opens_challenge h nonce) (hd_challenges s) = [k]"
    and s1: "s1 = s\<lparr>hd_challenges := update_where (opens_challenge h nonce) (\<lambda>c. c\<lparr>lc_consumed := True\<rparr>) (hd_challenges s)\<rparr>"
    using ch unfolding consume_challenge_def Let_def opens by (auto simp: eff_simps length_Suc_conv)
  have token: "hs_sha h idToken \<notin> ot_hash ` set (hd_tokens s)"
    and s2: "s2 = s1\<lparr>hd_tokens := hd_tokens s1 @ [\<lparr>ot_hash = hs_sha h idToken, ot_provider = ip_id p, ot_subject = cl_subject c, ot_expiresAt = cl_expiresAt c\<rparr>]\<rparr>"
    using tk by (auto simp: consume_token_def eff_simps s1)
  have rows: "login_rows h s (ip_id p) (cl_subject c) (lq_tenant q) (lq_role q) = [(n, m)]" and active: "pn_status n = ''ACTIVE''" and s3: "s3 = s2"
    using mb s1 s2 by (auto simp: member_of_def login_rows_def eff_simps nm split: list.splits)
  have new: "new_session h s3 c n m = new_session h s c n m" using s1 s2 s3 by (auto simp: new_session_def permissions_of_def)
  have added: "hs_sha h (hs_sessionToken h) \<notin> ss_id ` set (hd_sessions s3)"
    "t = s3\<lparr>hd_sessions := hd_sessions s3 @ [new_session h s c n m], hd_events := hd_events t\<rparr>"
    "la_identity a = session_identity n m (permissions_of s (hm_role m))"
    using rest new by (auto simp: nm eff_simps Let_def add_session_def add_event_def new_session_def split: if_splits)
  have t: "hd_challenges t = hd_challenges s3" "hd_tokens t = hd_tokens s3" "hd_sessions t = hd_sessions s3 @ [new_session h s c n m]"
    by (subst added(2), simp)+
  show thesis
    by (rule that [OF k token rows active]) (use added(1,3) t s1 s2 s3 in auto)
qed

section \<open>Steps\<close>

definition auth_ok :: "auth_db \<Rightarrow> bool" where
  "auth_ok s = (distinct (map lc_hash (hd_challenges s)) \<and> distinct (map ss_id (hd_sessions s)))"

definition auth_grows :: "auth_db \<Rightarrow> auth_db \<Rightarrow> bool" where
  \<comment> \<open>rows are added and changed, and what was consumed or revoked stays so\<close>
  "auth_grows s t = (
     (\<exists>g added. hd_challenges t = map g (hd_challenges s) @ added \<and> (\<forall>c. lc_hash (g c) = lc_hash c \<and> (lc_consumed c \<longrightarrow> lc_consumed (g c))))
     \<and> set (hd_tokens s) \<subseteq> set (hd_tokens t)
     \<and> (\<exists>f added. hd_sessions t = map f (hd_sessions s) @ added \<and> (\<forall>r. ss_id (f r) = ss_id r \<and> (ss_revoked r \<noteq> None \<longrightarrow> ss_revoked (f r) \<noteq> None)))
     \<and> (auth_ok s \<longrightarrow> auth_ok t))"

inductive auth_step :: "(string \<Rightarrow> string) \<Rightarrow> auth_db \<Rightarrow> auth_db \<Rightarrow> bool" for sha :: "string \<Rightarrow> string" where
  challenges: "hs_sha h = sha \<Longrightarrow> createLoginChallenge h s = (r1, t) \<Longrightarrow> auth_step sha s t"
| logs_in: "hs_sha h = sha \<Longrightarrow> login h commit q s = (r2, t) \<Longrightarrow> auth_step sha s t"
| requests: "hs_sha h = sha \<Longrightarrow> authenticate_session h cookieHeader s = (r3, t) \<Longrightarrow> auth_step sha s t"
| revokes: "revoke_session sessionId reason s = (r4, t) \<Longrightarrow> auth_step sha s t"
| auth_elsewhere: "auth_tables t = auth_tables s \<Longrightarrow> auth_step sha s t"
  \<comment> \<open>providers, principals, memberships and permissions\<close>

lemma grows_same: "auth_tables t = auth_tables s \<Longrightarrow> auth_grows s t"
proof -
  assume "auth_tables t = auth_tables s"
  then have same: "hd_challenges t = map id (hd_challenges s) @ []" "hd_tokens t = hd_tokens s" "hd_sessions t = map id (hd_sessions s) @ []"
    by (simp_all add: auth_tables_def)
  show ?thesis unfolding auth_grows_def
  proof (intro conjI)
    show "\<exists>g added. hd_challenges t = map g (hd_challenges s) @ added \<and> (\<forall>c. lc_hash (g c) = lc_hash c \<and> (lc_consumed c \<longrightarrow> lc_consumed (g c)))"
      using same(1) by (intro exI conjI allI impI) (assumption | simp)+
    show "\<exists>f added. hd_sessions t = map f (hd_sessions s) @ added \<and> (\<forall>r. ss_id (f r) = ss_id r \<and> (ss_revoked r \<noteq> None \<longrightarrow> ss_revoked (f r) \<noteq> None))"
      using same(3) by (intro exI conjI allI impI) (assumption | simp)+
  qed (use same in \<open>simp_all add: auth_ok_def\<close>)
qed

lemma update_where_map: "update_where p f rows = map (\<lambda>r. if p r then f r else r) rows"
  by (simp add: update_where_def)

lemma grows_sessions:
  assumes "hd_sessions t = update_where p f (hd_sessions s)" and "hd_challenges t = hd_challenges s" and "hd_tokens t = hd_tokens s"
    and f: "\<And>r. ss_id (f r) = ss_id r" "\<And>r. p r \<Longrightarrow> ss_revoked r \<noteq> None \<Longrightarrow> ss_revoked (f r) \<noteq> None"
  shows "auth_grows s t"
proof -
  let ?f = "\<lambda>r. if p r then f r else r"
  have "map ss_id (hd_sessions t) = map ss_id (hd_sessions s)" by (simp add: assms(1) update_where_map f(1))
  then have "auth_ok s \<longrightarrow> auth_ok t" by (simp add: auth_ok_def assms(2))
  moreover have "hd_sessions t = map ?f (hd_sessions s) @ []" "hd_challenges t = map id (hd_challenges s) @ []" by (simp_all add: assms(1,2) update_where_map)
  ultimately show ?thesis unfolding auth_grows_def
    by (intro conjI exI [of _ ?f] exI [of _ id] exI [of _ "[]"] allI impI) (use f assms(3) in auto)
qed

lemma challenge_grows:
  assumes "createLoginChallenge h s = (r, t)"
  shows "auth_grows s t"
proof (cases "auth_tables t = auth_tables s")
  case False
  then have new: "hs_sha h (hs_nonce h) \<notin> lc_hash ` set (hd_challenges s)"
    and t: "hd_challenges t = map id (hd_challenges s) @ [\<lparr>lc_hash = hs_sha h (hs_nonce h), lc_expiresAt = hs_clock h + hs_challengeTtlMs h, lc_consumed = False\<rparr>]"
      "hd_tokens t = hd_tokens s" "hd_sessions t = map id (hd_sessions s) @ []"
    using assms by (auto simp: createLoginChallenge_def Let_def eff_simps auth_tables_def thenE_def bindE_def modifyE_def retE_def throwE_def split: if_splits)
  have "auth_ok s \<longrightarrow> auth_ok t" using new t by (simp add: auth_ok_def)
  then show ?thesis unfolding auth_grows_def
    by (intro conjI exI [of _ id] exI) (use t in \<open>(assumption | simp)+\<close>)
qed (rule grows_same)

lemma login_grows:
  assumes "login h commit q s = (r, t)"
  shows "auth_grows s t"
proof (cases r)
  case (Inl e)
  then show ?thesis using login_failed grows_same assms by blast
next
  case (Inr a)
  from assms [unfolded Inr] show ?thesis
  proof (rule login_accepted)
    fix nonce c p cache assume tx: "login_tx h q (idToken_text (lq_idToken q)) nonce p c (s\<lparr>hd_cache := cache\<rparr>) = (Inr a, t)"
    from tx show ?thesis
    proof (rule login_tx_effect)
      fix n m
      assume id: "hs_sha h (hs_sessionToken h) \<notin> ss_id ` set (hd_sessions (s\<lparr>hd_cache := cache\<rparr>))"
        and ch: "hd_challenges t = update_where (opens_challenge h nonce) (\<lambda>c. c\<lparr>lc_consumed := True\<rparr>) (hd_challenges (s\<lparr>hd_cache := cache\<rparr>))"
        and tk: "\<exists>k. ot_hash k = hs_sha h (idToken_text (lq_idToken q)) \<and> hd_tokens t = hd_tokens (s\<lparr>hd_cache := cache\<rparr>) @ [k]"
        and ss: "hd_sessions t = hd_sessions (s\<lparr>hd_cache := cache\<rparr>) @ [new_session h (s\<lparr>hd_cache := cache\<rparr>) c n m]"
      let ?g = "\<lambda>c. if opens_challenge h nonce c then c\<lparr>lc_consumed := True\<rparr> else c"
      have ch': "hd_challenges t = map ?g (hd_challenges s) @ []" using ch by (simp add: update_where_map)
      have ss': "hd_sessions t = map id (hd_sessions s) @ [new_session h (s\<lparr>hd_cache := cache\<rparr>) c n m]" using ss by simp
      have "map lc_hash (hd_challenges t) = map lc_hash (hd_challenges s)" by (simp add: ch')
      then have "auth_ok s \<longrightarrow> auth_ok t" using id by (simp add: auth_ok_def ss' new_session_def)
      then show ?thesis unfolding auth_grows_def
        by (intro conjI exI [of _ ?g] exI [of _ "[]"] exI [of _ id] exI [of _ "[new_session h (s\<lparr>hd_cache := cache\<rparr>) c n m]"])
          (use ch' ss' tk in auto)
    qed
  qed
qed

lemma request_grows:
  assumes "authenticate_session h cookieHeader s = (r, t)"
  shows "auth_grows s t"
proof -
  have "t = s \<or> (\<exists>i. hd_sessions t = update_where (\<lambda>x. ss_id x = i \<and> ss_revoked x = None) (\<lambda>x. x\<lparr>ss_lastSeenAt := hs_clock h\<rparr>) (hd_sessions s)
    \<and> hd_challenges t = hd_challenges s \<and> hd_tokens t = hd_tokens s)"
    using assms by (auto simp: authenticate_session_def eff_defs split: sum.splits list.splits option.splits if_splits prod.splits)
  then show ?thesis
    by (elim disjE exE conjE) (simp add: grows_same, rule grows_sessions, assumption+, simp_all)
qed

lemma step_grows: "auth_step sha s t \<Longrightarrow> auth_grows s t"
proof (induction rule: auth_step.induct)
  case (revokes sessionId reason s r4 t)
  then have t: "t = s\<lparr>hd_sessions := update_where (\<lambda>r. ss_id r = sessionId \<and> ss_revoked r = None) (\<lambda>r. r\<lparr>ss_revoked := Some reason\<rparr>) (hd_sessions s)\<rparr>"
    by (simp add: revoke_session_def modifyE_iff)
  show ?case
    by (rule grows_sessions [of t "\<lambda>r. ss_id r = sessionId \<and> ss_revoked r = None" "\<lambda>r. r\<lparr>ss_revoked := Some reason\<rparr>" s]) (simp_all add: t)
qed (auto intro: challenge_grows login_grows request_grows grows_same)

definition auth_empty :: auth_db where
  "auth_empty = \<lparr>hd_cache = [], hd_providers = [], hd_principals = [], hd_memberships = [], hd_permissions = [], hd_challenges = [], hd_tokens = [],
     hd_sessions = [], hd_events = []\<rparr>"

interpretation logins: invariant_of "auth_step sha" auth_empty auth_ok for sha
proof
  show "auth_ok auth_empty" by (simp add: auth_ok_def auth_empty_def)
  show "auth_ok t" if "auth_ok s" "auth_step sha s t" for s t
    using step_grows [OF that(2)] that(1) unfolding auth_grows_def by blast
qed

section \<open>What stays\<close>

definition used_up :: "string \<Rightarrow> auth_db \<Rightarrow> bool" where
  "used_up k s = (k \<in> lc_hash ` set (hd_challenges s) \<and> (\<forall>c \<in> set (hd_challenges s). lc_hash c = k \<longrightarrow> lc_consumed c))"

definition session_dead :: "string \<Rightarrow> auth_db \<Rightarrow> bool" where
  "session_dead i s = (i \<in> ss_id ` set (hd_sessions s) \<and> (\<forall>r \<in> set (hd_sessions s). ss_id r = i \<longrightarrow> ss_revoked r \<noteq> None))"

lemma rows_stay:
  \<comment> \<open>rows with names of their own: a named row is an old one, changed\<close>
  assumes "distinct (map name new)" and "new = map f old @ added" and "\<And>r. name (f r) = name r" and "k \<in> name ` set old" and "r \<in> set new" and "name r = k"
  obtains r' where "r' \<in> set old" and "r = f r'" and "name r' = k"
proof -
  obtain o' where o': "o' \<in> set old" "name o' = k" using assms(4) by blast
  have "name (f o') = name r" by (simp add: assms(3,6) o'(2))
  then have "r \<notin> set added" using assms(1,2) o'(1) by (auto simp: disjoint_iff)
  then show thesis using that assms(2,3,5,6) by auto
qed

lemma used_up_kept:
  assumes "auth_ok s" and "auth_step sha s t" and u: "used_up k s"
  shows "used_up k t"
proof -
  obtain g added where g: "hd_challenges t = map g (hd_challenges s) @ added" "\<And>c. lc_hash (g c) = lc_hash c" "\<And>c. lc_consumed c \<Longrightarrow> lc_consumed (g c)"
    and ok: "auth_ok t" using step_grows [OF assms(2)] assms(1) unfolding auth_grows_def by blast
  have "lc_consumed c" if c: "c \<in> set (hd_challenges t)" "lc_hash c = k" for c
  proof -
    have d: "distinct (map lc_hash (hd_challenges t))" and k: "k \<in> lc_hash ` set (hd_challenges s)" using ok u by (simp_all add: auth_ok_def used_up_def)
    obtain c' where "c' \<in> set (hd_challenges s)" "c = g c'" "lc_hash c' = k" by (rule rows_stay [OF d g(1,2) k c])
    then show ?thesis using u g(3) by (simp add: used_up_def)
  qed
  moreover have "k \<in> lc_hash ` set (hd_challenges t)" using u by (simp add: used_up_def g(1,2) image_Un image_image)
  ultimately show ?thesis by (simp add: used_up_def)
qed

lemma session_dead_kept:
  assumes "auth_ok s" and "auth_step sha s t" and u: "session_dead i s"
  shows "session_dead i t"
proof -
  obtain f added where f: "hd_sessions t = map f (hd_sessions s) @ added" "\<And>r. ss_id (f r) = ss_id r" "\<And>r. ss_revoked r \<noteq> None \<Longrightarrow> ss_revoked (f r) \<noteq> None"
    and ok: "auth_ok t" using step_grows [OF assms(2)] assms(1) unfolding auth_grows_def by blast
  have "ss_revoked r \<noteq> None" if r: "r \<in> set (hd_sessions t)" "ss_id r = i" for r
  proof -
    have d: "distinct (map ss_id (hd_sessions t))" and k: "i \<in> ss_id ` set (hd_sessions s)" using ok u by (simp_all add: auth_ok_def session_dead_def)
    obtain r' where "r' \<in> set (hd_sessions s)" "r = f r'" "ss_id r' = i" by (rule rows_stay [OF d f(1,2) k r])
    then show ?thesis using u f(3) by (simp add: session_dead_def)
  qed
  moreover have "i \<in> ss_id ` set (hd_sessions t)" using u by (simp add: session_dead_def f(1,2) image_Un image_image)
  ultimately show ?thesis by (simp add: session_dead_def)
qed

lemma stays_always:
  assumes "(auth_step sha)\<^sup>*\<^sup>* s t" and "auth_ok s"
  shows "used_up k s \<Longrightarrow> used_up k t" and "session_dead i s \<Longrightarrow> session_dead i t" and "set (hd_tokens s) \<subseteq> set (hd_tokens t)"
proof -
  have "auth_ok t \<and> (used_up k s \<longrightarrow> used_up k t) \<and> (session_dead i s \<longrightarrow> session_dead i t) \<and> set (hd_tokens s) \<subseteq> set (hd_tokens t)"
    using assms
  proof (induction rule: rtranclp_induct)
    case (step t u)
    then have "auth_grows t u" by (simp add: step_grows)
    then have "auth_ok u" "set (hd_tokens t) \<subseteq> set (hd_tokens u)" using step.IH [OF step.prems] unfolding auth_grows_def by blast+
    then show ?case using step.IH [OF step.prems] used_up_kept [OF _ step.hyps(2)] session_dead_kept [OF _ step.hyps(2)] by blast
  qed simp
  then show "used_up k s \<Longrightarrow> used_up k t" "session_dead i s \<Longrightarrow> session_dead i t" "set (hd_tokens s) \<subseteq> set (hd_tokens t)" by blast+
qed

end
