(* ===== verification/AuthProperties.thy ===== *)
theory AuthProperties
  imports AuthFacts ZkRun
begin

text \<open>The properties of production logins, and a run with two of them.\<close>

section \<open>Two logins\<close>

definition au_payload :: "string \<Rightarrow> json" where
  "au_payload n = JObj [(''iss'', JStr ''I''), (''aud'', JStr ''A''), (''sub'', JStr ''S''), (''exp'', JNum 100), (''auth_time'', JNum 1),
     (''amr'', JArr [JStr ''mfa'']), (''nonce'', JStr n)]"

definition au_key :: json where
  "au_key = JObj [(''kid'', JStr ''k''), (''kty'', JStr ''RSA'')]"

definition au_verifier :: oidc_verifier where
  "au_verifier = \<lparr>ov_now = 5000, ov_cacheTtlMs = 0,
     ov_decode = (\<lambda>s. Some (if s = ''h'' then JObj [(''alg'', JStr ''RS256''), (''kid'', JStr ''k'')] else au_payload s)),
     ov_protocol = (\<lambda>_. Some ''https:''), ov_fetch = (\<lambda>_. Inr (Some (JObj [(''keys'', JArr [au_key])]))), ov_key = (\<lambda>_. Some (''rsa'', 2048)),
     ov_check = (\<lambda>_ _ _ _. Inr True), ov_text = (\<lambda>_. []), ov_date = (\<lambda>_. 0)\<rparr>"

definition au_provider :: identity_provider where
  "au_provider = \<lparr>ip_id = ''p'', ip_issuer = ''I'', ip_audience = ''A'', ip_jwks_uri = ''u'', ip_required_acr = None, ip_status = ''ACTIVE''\<rparr>"

definition au_nonce :: "char \<Rightarrow> string" where
  "au_nonce c = replicate 16 c"

definition au_service :: "char \<Rightarrow> auth_service" where
  "au_service c = \<lparr>hs_verifier = au_verifier, hs_sha = (\<lambda>x. x), hs_now = 5000, hs_clock = 0, hs_ttlMs = 1000, hs_maxAuthAgeMs = 10000,
     hs_challengeTtlMs = 1000, hs_secureCookies = True, hs_nonce = au_nonce c, hs_sessionToken = [c], hs_csrfToken = [c],
     hs_encode = (\<lambda>x. x), hs_decode = Some\<rparr>"

definition au_request :: "char \<Rightarrow> login_request" where
  "au_request c = \<lparr>lq_idToken = JStr (''h.'' @ au_nonce c @ ''.s''), lq_tenant = ''T'', lq_role = ''broker'', lq_nonce = Some (au_nonce c)\<rparr>"

definition au_principal :: principal_row where
  "au_principal = \<lparr>pn_id = ''n'', pn_provider = ''p'', pn_subject = ''S'', pn_status = ''ACTIVE'', pn_investor = None\<rparr>"

definition au_member :: auth_membership where
  "au_member = \<lparr>hm_principal = ''n'', hm_tenant = ''T'', hm_institution = Some ''i'', hm_role = ''broker'', hm_status = ''ACTIVE'', hm_effectiveAt = 0,
     hm_expiresAt = None\<rparr>"

definition au_challenge :: "char \<Rightarrow> bool \<Rightarrow> login_challenge" where
  "au_challenge c used = \<lparr>lc_hash = au_nonce c, lc_expiresAt = 1000, lc_consumed = used\<rparr>"

definition au_ready :: auth_db where
  "au_ready = auth_empty\<lparr>hd_providers := [au_provider], hd_principals := [au_principal], hd_memberships := [au_member],
     hd_permissions := [(''broker'', ''transaction.transfer'')], hd_challenges := [au_challenge CHR ''a'' False, au_challenge CHR ''b'' False]\<rparr>"

definition au_registered :: "auth_db \<Rightarrow> bool" where
  \<comment> \<open>the provider, the principal and its membership\<close>
  "au_registered s = (hd_providers s = [au_provider] \<and> hd_principals s = [au_principal] \<and> hd_memberships s = [au_member]
     \<and> (jm_get (hd_cache s) ''u'' = None \<or> jm_get (hd_cache s) ''u'' = Some ([au_key], 5000)))"

definition au_claims :: "char \<Rightarrow> oidc_claims" where
  "au_claims c = claims_of au_verifier au_provider (au_payload (au_nonce c))"

lemma au_segments: "c \<noteq> CHR ''.'' \<Longrightarrow> token_segments (lq_idToken (au_request c)) = Inr (''h'', au_nonce c, ''s'')"
  by (simp add: token_segments_def au_request_def au_nonce_def numeral_eq_Suc ensureR_def)

lemma au_keys:
  assumes "jm_get cache ''u'' = None \<or> jm_get cache ''u'' = Some ([au_key], 5000)"
  shows "\<exists>cache'. jwks au_verifier ''u'' cache = (Inr [au_key], cache') \<and> jm_get cache' ''u'' = Some ([au_key], 5000)"
  using assms by (auto simp: jwks_def fetch_keys_def eff_defs au_verifier_def not_null_def jfield_def)

lemma au_verifies:
  assumes "jm_get cache ''u'' = None \<or> jm_get cache ''u'' = Some ([au_key], 5000)" and c: "c \<noteq> CHR ''.''"
  shows "\<exists>cache'. verify_token au_verifier (lq_idToken (au_request c)) [au_provider] cache = (Inr (au_claims c), cache')
    \<and> jm_get cache' ''u'' = Some ([au_key], 5000)"
proof -
  obtain cache' where k: "jwks au_verifier ''u'' cache = (Inr [au_key], cache')" "jm_get cache' ''u'' = Some ([au_key], 5000)"
    using au_keys [OF assms(1)] by blast
  have n: "au_nonce c \<noteq> ''h''" "length (au_nonce c) = 16" by (simp_all add: au_nonce_def numeral_eq_Suc)
  let ?header = "JObj [(''alg'', JStr ''RS256''), (''kid'', JStr ''k'')]"
  have d: "decodeJson au_verifier ''h'' = Inr ?header" "decodeJson au_verifier (au_nonce c) = Inr (au_payload (au_nonce c))"
    using n(1) by (simp_all add: decodeJson_def au_verifier_def)
  have h: "signed_header ?header = Inr ()" "signing_jwk ?header [au_key] = Inr au_key" "strong_key au_verifier au_key = Inr ()"
    "signed_by au_verifier ?header ''h'' (au_nonce c) au_key ''s'' = Inr ()" "secure_uri au_verifier ''u'' = Inr ()"
    by (simp_all add: signed_header_def not_null_def ensureR_def jfield_def signing_jwk_def usable_key_def au_key_def strong_key_def au_verifier_def
      signed_by_def secure_uri_def)
  have u: "ip_jwks_uri au_provider = ''u''" by (simp add: au_provider_def)
  have p: "select_provider (au_payload (au_nonce c)) [au_provider] = Inr au_provider"
    by (simp add: select_provider_def not_null_def au_payload_def jfield_def au_provider_def audienceMatches_def)
  have t: "token_time (ov_now au_verifier div 1000) (au_payload (au_nonce c)) = Inr ()"
    by (simp add: token_time_def au_payload_def jfield_def au_verifier_def ensureR_def)
  have l: "token_claims au_provider (au_payload (au_nonce c)) = Inr ()"
    using n(2) by (simp add: token_claims_def Let_def au_payload_def jfield_def ensureR_def)
  have "verify_token au_verifier (lq_idToken (au_request c)) [au_provider] cache = (Inr (au_claims c), cache')"
    unfolding verify_token_def bindE_def thenE_def liftE_def au_segments [OF c]
    by (simp add: d h p t l u k(1) au_claims_def retE_def)
  then show ?thesis using k(2) by blast
qed

lemma au_claims_ok: "assertClaims (au_service c) (au_claims c) au_provider = Inr ()"
  "cl_provider (au_claims c) = ip_id au_provider" "safeTokenMatch (hs_sha (au_service c)) (cl_nonce (au_claims c)) (hs_sha (au_service c) (au_nonce c))"
  "cl_subject (au_claims c) = ''S''"
  by (simp_all add: assertClaims_def ensureR_def au_claims_def claims_of_def au_payload_def jfield_def text_of_def seconds_date_def au_service_def au_provider_def
    safeTokenMatch_def au_nonce_def)

definition au_token :: "char \<Rightarrow> string" where
  "au_token c = ''h.'' @ au_nonce c @ ''.s''"

definition au_session :: "char \<Rightarrow> session_row \<Rightarrow> bool" where
  "au_session c r = (ss_id r = [c] \<and> ss_revoked r = None \<and> ss_expiresAt r = 6000 \<and> ss_principal r = ''n'' \<and> ss_tenant r = ''T'' \<and> ss_role r = ''broker'')"

text \<open>A login of the run, in any state that is ready for it.\<close>

lemma au_logs_in:
  assumes reg: "au_registered s" and open_row: "filter (opens_challenge (au_service c) (au_nonce c)) (hd_challenges s) = [k]"
    and new: "au_token c \<notin> ot_hash ` set (hd_tokens s)" "[c] \<notin> ss_id ` set (hd_sessions s)" and c: "c \<noteq> CHR ''.''"
  shows "\<exists>a t. login (au_service c) run_ok (au_request c) s = (Inr a, t) \<and> au_registered t
    \<and> hd_challenges t = update_where (opens_challenge (au_service c) (au_nonce c)) (\<lambda>c. c\<lparr>lc_consumed := True\<rparr>) (hd_challenges s)
    \<and> ot_hash ` set (hd_tokens t) = insert (au_token c) (ot_hash ` set (hd_tokens s)) \<and> ss_id ` set (hd_sessions t) = insert [c] (ss_id ` set (hd_sessions s)) \<and> (\<exists>r. hd_sessions t = hd_sessions s @ [r] \<and> au_session c r)"
proof -
  have prov: "filter (\<lambda>p. ip_status p = ''ACTIVE'') (hd_providers s) = [au_provider]" using reg by (simp add: au_registered_def au_provider_def)
  obtain cache where v: "verify_token au_verifier (lq_idToken (au_request c)) [au_provider] (hd_cache s) = (Inr (au_claims c), cache)"
    "jm_get cache ''u'' = Some ([au_key], 5000)"
    using au_verifies [OF _ c] reg unfolding au_registered_def by blast
  let ?s = "s\<lparr>hd_cache := cache\<rparr>"
  have opens: "(\<lambda>r. lc_hash r = hs_sha (au_service c) (au_nonce c) \<and> \<not> lc_consumed r \<and> hs_clock (au_service c) < lc_expiresAt r) = opens_challenge (au_service c) (au_nonce c)"
    by (simp add: opens_challenge_def fun_eq_iff)
  have rows: "login_rows (au_service c) u ''p'' ''S'' ''T'' ''broker'' = [(au_principal, au_member)]"
    if "hd_principals u = [au_principal]" "hd_memberships u = [au_member]" for u
    using that by (simp add: login_rows_def au_principal_def au_member_def current_membership_def au_service_def)
  obtain a t where tx: "login_tx (au_service c) (au_request c) (idToken_text (lq_idToken (au_request c))) (au_nonce c) au_provider (au_claims c) ?s = (Inr a, t)"
    and t: "au_registered t" "hd_challenges t = update_where (opens_challenge (au_service c) (au_nonce c)) (\<lambda>c. c\<lparr>lc_consumed := True\<rparr>) (hd_challenges s)"
      "ot_hash ` set (hd_tokens t) = insert (au_token c) (ot_hash ` set (hd_tokens s))" "ss_id ` set (hd_sessions t) = insert [c] (ss_id ` set (hd_sessions s))" "\<exists>r. hd_sessions t = hd_sessions s @ [r] \<and> au_session c r"
  proof -
    have tok: "hs_sha (au_service c) (idToken_text (lq_idToken (au_request c))) = au_token c"
      by (simp add: au_service_def idToken_text_def au_request_def au_token_def)
    have p: "pn_status au_principal = ''ACTIVE''" "ip_id au_provider = ''p''" "lq_tenant (au_request c) = ''T''" "lq_role (au_request c) = ''broker''"
      by (simp_all add: au_principal_def au_provider_def au_request_def)
    have r: "ss_id (new_session (au_service c) u (au_claims c) au_principal au_member) = [c]"
      "ss_issuedAt (new_session (au_service c) u (au_claims c) au_principal au_member) = 5000"
      "ss_expiresAt (new_session (au_service c) u (au_claims c) au_principal au_member) = 6000"
      "au_session c (new_session (au_service c) u (au_claims c) au_principal au_member)" for u
      by (simp_all add: new_session_def au_service_def au_session_def au_principal_def au_member_def)
    have reg': "hd_principals s = [au_principal]" "hd_memberships s = [au_member]" "hd_providers s = [au_provider]" using reg by (simp_all add: au_registered_def)
    have "\<exists>a t. login_tx (au_service c) (au_request c) (idToken_text (lq_idToken (au_request c))) (au_nonce c) au_provider (au_claims c) ?s = (Inr a, t)
      \<and> au_registered t \<and> hd_challenges t = update_where (opens_challenge (au_service c) (au_nonce c)) (\<lambda>c. c\<lparr>lc_consumed := True\<rparr>) (hd_challenges s)
      \<and> ot_hash ` set (hd_tokens t) = insert (au_token c) (ot_hash ` set (hd_tokens s)) \<and> ss_id ` set (hd_sessions t) = insert [c] (ss_id ` set (hd_sessions s)) \<and> (\<exists>r. hd_sessions t = hd_sessions s @ [r] \<and> au_session c r)"
      by (simp add: login_tx_def thenE_def bindE_def withE_def ensureE_def retE_def throwE_def modifyE_def Let_def consume_challenge_def opens open_row
          consume_token_def tok new(1) member_of_def rows reg' p au_claims_ok add_session_def r new(2) add_event_def au_registered_def v(2))
    then show thesis by (elim exE conjE) (rule that, assumption+, blast)
  qed
  have "withSerializableTransaction 3 run_ok (login_tx (au_service c) (au_request c) (idToken_text (lq_idToken (au_request c))) (au_nonce c) au_provider (au_claims c)) ?s
      = (Inr a, t)"
    using tx by (simp add: run_serializable)
  moreover have "inVerifier (verify_token au_verifier (lq_idToken (au_request c)) [au_provider]) s = (Inr (au_claims c), ?s)"
    by (simp add: inVerifier_def v(1))
  moreover have "jtruthy (lq_idToken (au_request c))" "lq_tenant (au_request c) \<noteq> []" "lq_role (au_request c) \<noteq> []" "lq_nonce (au_request c) = Some (au_nonce c)"
    "length (au_nonce c) = 16" "hs_verifier (au_service c) = au_verifier"
    by (simp_all add: au_request_def au_nonce_def au_service_def)
  ultimately have "login_in (au_service c) run_ok (au_request c) s = (Inr a, t)"
    by (simp add: login_in_def thenE_def bindE_def withE_def ensureE_def retE_def optE_def liftE_def Let_def prov au_claims_ok)
  then have "login (au_service c) run_ok (au_request c) s = (Inr a, t)" by (simp add: login_def catchE_def)
  then show ?thesis using t by blast
qed

lemma au_first_login:
  "\<exists>a t r. login (au_service CHR ''a'') run_ok (au_request CHR ''a'') au_ready = (Inr a, t) \<and> au_registered t
    \<and> filter (opens_challenge (au_service CHR ''b'') (au_nonce CHR ''b'')) (hd_challenges t) = [au_challenge CHR ''b'' False]
    \<and> ot_hash ` set (hd_tokens t) = {au_token CHR ''a''} \<and> hd_sessions t = [r] \<and> au_session CHR ''a'' r"
proof -
  have o1: "filter (opens_challenge (au_service CHR ''a'') (au_nonce CHR ''a'')) (hd_challenges au_ready) = [au_challenge CHR ''a'' False]"
    by (simp add: au_ready_def opens_challenge_def au_challenge_def au_service_def au_nonce_def numeral_eq_Suc)
  have r: "au_registered au_ready" by (simp add: au_registered_def au_ready_def auth_empty_def)
  have e: "hd_tokens au_ready = []" "hd_sessions au_ready = []" by (simp_all add: au_ready_def auth_empty_def)
  obtain a t where t: "login (au_service CHR ''a'') run_ok (au_request CHR ''a'') au_ready = (Inr a, t)" "au_registered t"
    "hd_challenges t = update_where (opens_challenge (au_service CHR ''a'') (au_nonce CHR ''a'')) (\<lambda>c. c\<lparr>lc_consumed := True\<rparr>) (hd_challenges au_ready)"
    "ot_hash ` set (hd_tokens t) = {au_token CHR ''a''}" "\<exists>r. hd_sessions t = [r] \<and> au_session CHR ''a'' r"
    using au_logs_in [OF r o1] e by auto
  have o2: "filter (opens_challenge (au_service CHR ''b'') (au_nonce CHR ''b'')) (hd_challenges t) = [au_challenge CHR ''b'' False]"
    by (simp add: t(3) au_ready_def opens_challenge_def au_challenge_def au_service_def au_nonce_def update_where_def numeral_eq_Suc)
  then show ?thesis using t by blast
qed

lemma au_two_logins:
  "\<exists>a t b v. login (au_service CHR ''a'') run_ok (au_request CHR ''a'') au_ready = (Inr a, t)
    \<and> login (au_service CHR ''b'') run_ok (au_request CHR ''b'') t = (Inr b, v)"
proof -
  obtain a t r where t: "login (au_service CHR ''a'') run_ok (au_request CHR ''a'') au_ready = (Inr a, t)" "au_registered t"
    "filter (opens_challenge (au_service CHR ''b'') (au_nonce CHR ''b'')) (hd_challenges t) = [au_challenge CHR ''b'' False]"
    "ot_hash ` set (hd_tokens t) = {au_token CHR ''a''}" "hd_sessions t = [r]" "au_session CHR ''a'' r"
    using au_first_login by blast
  have "au_token CHR ''b'' \<noteq> au_token CHR ''a''" by (simp add: au_token_def au_nonce_def numeral_eq_Suc)
  then show ?thesis using t(1) au_logs_in [OF t(2,3)] t(4-6) by (auto simp: au_session_def)
qed

lemma au_ready_reached: "reach (auth_step (\<lambda>x. x)) auth_empty au_ready"
proof -
  let ?s = "auth_empty\<lparr>hd_challenges := [au_challenge CHR ''a'' False]\<rparr>"
  have "createLoginChallenge (au_service CHR ''a'') auth_empty = (Inr (fst (projr (fst (createLoginChallenge (au_service CHR ''a'') auth_empty))),
      snd (projr (fst (createLoginChallenge (au_service CHR ''a'') auth_empty)))), ?s)"
    by (simp add: createLoginChallenge_def eff_defs Let_def au_service_def auth_empty_def au_challenge_def)
  then have "auth_step (\<lambda>x. x) auth_empty ?s" by (rule auth_step.challenges [rotated]) (simp add: au_service_def)
  then have s1: "reach (auth_step (\<lambda>x. x)) auth_empty ?s" by (rule reach.more [OF reach.start])
  let ?t = "auth_empty\<lparr>hd_challenges := [au_challenge CHR ''a'' False, au_challenge CHR ''b'' False]\<rparr>"
  have "createLoginChallenge (au_service CHR ''b'') ?s = (Inr (fst (projr (fst (createLoginChallenge (au_service CHR ''b'') ?s))),
      snd (projr (fst (createLoginChallenge (au_service CHR ''b'') ?s)))), ?t)"
    by (simp add: createLoginChallenge_def eff_defs Let_def au_service_def auth_empty_def au_challenge_def au_nonce_def numeral_eq_Suc)
  then have "auth_step (\<lambda>x. x) ?s ?t" by (rule auth_step.challenges [rotated]) (simp add: au_service_def)
  then have "reach (auth_step (\<lambda>x. x)) auth_empty ?t" by (rule reach.more [OF s1])
  then show ?thesis by (rule reach.more) (rule auth_elsewhere, simp add: au_ready_def auth_tables_def auth_empty_def)
qed

section \<open>What a login uses up\<close>

lemma login_uses_up:
  assumes "login h commit q s = (Inr a, t)"
  obtains nonce where "lq_nonce q = Some nonce" and "\<exists>c \<in> set (hd_challenges s). lc_hash c = hs_sha h nonce \<and> \<not> lc_consumed c"
    and "hs_sha h (idToken_text (lq_idToken q)) \<notin> ot_hash ` set (hd_tokens s)" and "hs_sha h (idToken_text (lq_idToken q)) \<in> ot_hash ` set (hd_tokens t)"
    and "auth_ok s \<Longrightarrow> used_up (hs_sha h nonce) t"
proof (rule login_accepted [OF assms])
  fix nonce c p cache
  assume n: "lq_nonce q = Some nonce" and tx: "login_tx h q (idToken_text (lq_idToken q)) nonce p c (s\<lparr>hd_cache := cache\<rparr>) = (Inr a, t)"
  from tx show thesis
  proof (rule login_tx_effect)
    fix k
    assume k: "filter (opens_challenge h nonce) (hd_challenges (s\<lparr>hd_cache := cache\<rparr>)) = [k]"
      and new: "hs_sha h (idToken_text (lq_idToken q)) \<notin> ot_hash ` set (hd_tokens (s\<lparr>hd_cache := cache\<rparr>))"
      and ch: "hd_challenges t = update_where (opens_challenge h nonce) (\<lambda>c. c\<lparr>lc_consumed := True\<rparr>) (hd_challenges (s\<lparr>hd_cache := cache\<rparr>))"
      and tk: "\<exists>k. ot_hash k = hs_sha h (idToken_text (lq_idToken q)) \<and> hd_tokens t = hd_tokens (s\<lparr>hd_cache := cache\<rparr>) @ [k]"
    have "k \<in> set (filter (opens_challenge h nonce) (hd_challenges s))" using k by simp
    then have old: "k \<in> set (hd_challenges s)" "opens_challenge h nonce k" by simp_all
    then have was_open: "\<exists>c \<in> set (hd_challenges s). lc_hash c = hs_sha h nonce \<and> \<not> lc_consumed c" by (auto simp: opens_challenge_def)
    have "used_up (hs_sha h nonce) t" if ok: "auth_ok s"
    proof -
      have only: "c = k" if "c \<in> set (hd_challenges s)" "lc_hash c = hs_sha h nonce" for c
        using inj_onD [of lc_hash "set (hd_challenges s)" c k] ok old that by (simp add: auth_ok_def distinct_map opens_challenge_def)
      let ?g = "\<lambda>c. if opens_challenge h nonce c then c\<lparr>lc_consumed := True\<rparr> else c"
      have rows: "set (hd_challenges t) = ?g ` set (hd_challenges s)" by (simp add: ch update_where_map)
      have "lc_consumed (?g c)" if "c \<in> set (hd_challenges s)" "lc_hash (?g c) = hs_sha h nonce" for c
        using only [OF that(1)] that(2) old(2) by (simp split: if_splits)
      then have "\<forall>c \<in> set (hd_challenges t). lc_hash c = hs_sha h nonce \<longrightarrow> lc_consumed c" by (simp only: rows ball_simps) blast
      moreover have "hs_sha h nonce \<in> lc_hash ` set (hd_challenges t)"
        by (rule image_eqI [of _ _ "?g k"]) (use old in \<open>simp_all add: rows opens_challenge_def\<close>)
      ultimately show ?thesis by (simp add: used_up_def)
    qed
    then show thesis using that n was_open new tk by auto
  qed
qed

text \<open>
  C24. A login challenge and an ID token serve one login: whatever happens after a successful login, another
  login that succeeds has another nonce and another token, already by their hashes.
\<close>

theorem login_is_single_use:
  assumes "reach (auth_step sha) auth_empty s" and "hs_sha h = sha" and "login h commit q s = (Inr a, t)"
    and "(auth_step sha)\<^sup>*\<^sup>* t u" and "hs_sha h' = sha" and "login h' commit' q' u = (Inr b, v)"
  shows "map_option sha (lq_nonce q') \<noteq> map_option sha (lq_nonce q) \<and> sha (idToken_text (lq_idToken q')) \<noteq> sha (idToken_text (lq_idToken q))"
proof -
  have ok: "auth_ok s" "auth_ok t" using logins.always [OF assms(1)] logins.kept [of s sha t] auth_step.logs_in [OF assms(2,3)] by blast+
  obtain n where n: "lq_nonce q = Some n" "used_up (hs_sha h n) t" "hs_sha h (idToken_text (lq_idToken q)) \<in> ot_hash ` set (hd_tokens t)"
    using login_uses_up [OF assms(3)] ok(1) by metis
  obtain n' where n': "lq_nonce q' = Some n'" "\<exists>c \<in> set (hd_challenges u). lc_hash c = hs_sha h' n' \<and> \<not> lc_consumed c"
    "hs_sha h' (idToken_text (lq_idToken q')) \<notin> ot_hash ` set (hd_tokens u)"
    using login_uses_up [OF assms(6)] by metis
  have "used_up (hs_sha h n) u" "set (hd_tokens t) \<subseteq> set (hd_tokens u)" using stays_always [OF assms(4) ok(2)] n(2) by blast+
  then show ?thesis using n n' assms(2,5) unfolding used_up_def by auto
qed

theorem login_is_single_use_witness:
  "\<exists>a t b v. login (au_service CHR ''a'') run_ok (au_request CHR ''a'') au_ready = (Inr a, t)
    \<and> login (au_service CHR ''b'') run_ok (au_request CHR ''b'') t = (Inr b, v)
    \<and> map_option (\<lambda>x. x) (lq_nonce (au_request CHR ''b'')) \<noteq> map_option (\<lambda>x. x) (lq_nonce (au_request CHR ''a''))"
proof -
  obtain a t b v where runs: "login (au_service CHR ''a'') run_ok (au_request CHR ''a'') au_ready = (Inr a, t)"
    "login (au_service CHR ''b'') run_ok (au_request CHR ''b'') t = (Inr b, v)"
    using au_two_logins by blast
  have sha: "hs_sha (au_service c) = (\<lambda>x. x)" for c by (simp add: au_service_def)
  show ?thesis
    using runs login_is_single_use [OF au_ready_reached sha runs(1) rtranclp.rtrancl_refl sha runs(2)] by blast
qed

section \<open>What a session stands for\<close>

lemma names_kept: "(\<And>r. name (f r) = name r) \<Longrightarrow> name ` set (update_where p f rows) = name ` set rows"
proof -
  assume f: "\<And>r. name (f r) = name r"
  have "name (if p r then f r else r) = name r" for r by (simp add: f)
  then show ?thesis by (simp only: update_where_map set_map image_image)
qed

lemma revoked_dead:
  assumes "i \<in> ss_id ` set (hd_sessions s)"
    and t: "hd_sessions t = update_where (\<lambda>r. ss_id r = i \<and> ss_revoked r = None) (\<lambda>r. r\<lparr>ss_revoked := Some reason\<rparr>) (hd_sessions s)"
  shows "session_dead i t"
proof -
  have "i \<in> ss_id ` set (hd_sessions t)" using assms(1) by (simp add: t names_kept)
  moreover have "\<forall>r \<in> set (hd_sessions t). ss_id r = i \<longrightarrow> ss_revoked r \<noteq> None"
    by (simp only: t update_where_map set_map ball_simps) simp
  ultimately show ?thesis by (simp add: session_dead_def)
qed

lemma join_first: "(r, z) \<in> set (case ms of [] \<Rightarrow> [(x, y, None)] | m # ms \<Rightarrow> map (\<lambda>m. (x, y, Some m)) (m # ms)) \<Longrightarrow> r = x"
  by (cases ms) auto

lemma the_only_row:
  assumes "(case rows of [(r, n, Some m)] \<Rightarrow> f r n m | [(r, n, None)] \<Rightarrow> throwE e1 | _ \<Rightarrow> throwE e2) s = (Inr a, t)"
  obtains r n m where "rows = [(r, n, Some m)]" and "f r n m s = (Inr a, t)"
proof (cases rows)
  case (Cons x xs)
  obtain r n m where "x = (r, n, m)" by (cases x)
  then show thesis using assms Cons that by (cases m; cases xs) (simp_all add: throwE_def)
qed (use assms in \<open>simp add: throwE_def\<close>)

lemma authenticated_session:
  assumes "authenticate_session h cookieHeader s = (Inr a, t)"
  obtains r where "r \<in> set (hd_sessions s)" and "ss_id r = ad_session a" and "ss_revoked r = None"
    and "hd_sessions t = update_where (\<lambda>x. ss_id x = ad_session a \<and> ss_revoked x = None) (\<lambda>x. x\<lparr>ss_lastSeenAt := hs_clock h\<rparr>) (hd_sessions s)"
proof -
  obtain i r n m where rows: "session_rows s i = [(r, n, Some m)]" and alive: "session_alive (hs_now h) r n m" and a: "ad_session a = ss_id r"
    and t: "t = s\<lparr>hd_sessions := update_where (\<lambda>x. ss_id x = ss_id r \<and> ss_revoked x = None) (\<lambda>x. x\<lparr>ss_lastSeenAt := hs_clock h\<rparr>) (hd_sessions s)\<rparr>"
    using assms unfolding authenticate_session_def bindE_Inr thenE_Inr [of "ensureE _ _"] withE_run ensureE_Inr liftE_iff
    by (elim exE conjE) (hypsubst, erule the_only_row, auto simp: eff_simps)
  have "(r, n, Some m) \<in> set (session_rows s i)" by (simp add: rows)
  then have "r \<in> set (hd_sessions s)" by (auto simp: session_rows_def dest: join_first)
  then show thesis using that a t alive by (auto simp: session_alive_def)
qed

text \<open>
  C30. A session that was revoked serves no request again: whatever happens after a logout, no cookie is
  authenticated as that session.
\<close>

theorem revoked_session_is_dead:
  assumes "reach (auth_step sha) auth_empty s" and "hs_sha h = sha" and "authenticate_session h cookieHeader s = (Inr a, s')"
    and "revoke_session (ad_session a) reason s' = (Inr (), t)" and "(auth_step sha)\<^sup>*\<^sup>* t u"
    and "hs_sha h' = sha" and "authenticate_session h' cookieHeader' u = (Inr b, v)"
  shows "ad_session b \<noteq> ad_session a"
proof
  assume same: "ad_session b = ad_session a"
  have ok: "auth_ok t" using logins.always [OF assms(1)] logins.kept [of s sha s'] logins.kept [of s' sha t] auth_step.requests [OF assms(2,3)] auth_step.revokes [OF assms(4)] by blast
  obtain r where r: "r \<in> set (hd_sessions s)" "ss_id r = ad_session a"
    "hd_sessions s' = update_where (\<lambda>x. ss_id x = ad_session a \<and> ss_revoked x = None) (\<lambda>x. x\<lparr>ss_lastSeenAt := hs_clock h\<rparr>) (hd_sessions s)"
    by (rule authenticated_session [OF assms(3)])
  have t: "hd_sessions t = update_where (\<lambda>r. ss_id r = ad_session a \<and> ss_revoked r = None) (\<lambda>r. r\<lparr>ss_revoked := Some reason\<rparr>) (hd_sessions s')"
    using assms(4) by (auto simp: revoke_session_def modifyE_iff)
  have "ad_session a \<in> ss_id ` set (hd_sessions s')" using imageI [OF r(1), of ss_id] r(2) by (simp add: r(3) names_kept)
  then have "session_dead (ad_session a) t" using t by (rule revoked_dead)
  then have "session_dead (ad_session a) u" by (rule stays_always(2) [OF assms(5) ok])
  moreover obtain r' where "r' \<in> set (hd_sessions u)" "ss_id r' = ad_session b" "ss_revoked r' = None" by (rule authenticated_session [OF assms(7)])
  ultimately show False using same by (auto simp: session_dead_def)
qed

lemma au_cookie: "cookieValue Some (split_text CHR '';'' ''rwa_session=a'') = Inr (Some ''a'')" "cookieValue Some (split_text CHR '';'' ''rwa_session=b'') = Inr (Some ''b'')"
  by (simp_all add: js_trim_def js_space_def)

lemma au_serves:
  assumes reg: "au_registered s" and row: "filter (\<lambda>r. ss_id r = [c]) (hd_sessions s) = [r]" "au_session c r" and c: "cookieValue Some (split_text CHR '';'' header) = Inr (Some [c])"
  shows "\<exists>a t. authenticate_session (au_service c) header s = (Inr a, t) \<and> ad_session a = [c]
    \<and> t = s\<lparr>hd_sessions := update_where (\<lambda>x. ss_id x = [c] \<and> ss_revoked x = None) (\<lambda>x. x\<lparr>ss_lastSeenAt := 0\<rparr>) (hd_sessions s)\<rparr>"
proof -
  have tables: "hd_principals s = [au_principal]" "hd_memberships s = [au_member]" using reg by (simp_all add: au_registered_def)
  have rows: "session_rows s [c] = [(r, au_principal, Some au_member)]"
    using row by (simp add: session_rows_def tables au_session_def au_principal_def au_member_def)
  have h: "hs_decode (au_service c) = Some" "hs_sha (au_service c) = (\<lambda>x. x)" "hs_clock (au_service c) = 0" "session_alive (hs_now (au_service c)) r au_principal au_member"
    using row(2) by (simp_all add: au_service_def session_alive_def au_session_def au_principal_def au_member_def)
  show ?thesis using row(2)
    by (simp add: authenticate_session_def bindE_def thenE_def withE_def liftE_def ensureE_def modifyE_def retE_def h c rows au_session_def)
qed

lemma au_logged_out:
  "\<exists>s a s' t b v. reach (auth_step (\<lambda>x. x)) auth_empty s \<and> authenticate_session (au_service CHR ''a'') ''rwa_session=a'' s = (Inr a, s')
    \<and> revoke_session (ad_session a) ''LOGOUT'' s' = (Inr (), t) \<and> (\<exists>u. (auth_step (\<lambda>x. x))\<^sup>*\<^sup>* t u
    \<and> authenticate_session (au_service CHR ''b'') ''rwa_session=b'' u = (Inr b, v))"
proof -
  have sha: "hs_sha (au_service c) = (\<lambda>x. x)" for c by (simp add: au_service_def)
  obtain la s r where s: "login (au_service CHR ''a'') run_ok (au_request CHR ''a'') au_ready = (Inr la, s)" "au_registered s"
    "filter (opens_challenge (au_service CHR ''b'') (au_nonce CHR ''b'')) (hd_challenges s) = [au_challenge CHR ''b'' False]"
    "ot_hash ` set (hd_tokens s) = {au_token CHR ''a''}" "hd_sessions s = [r]" "au_session CHR ''a'' r"
    using au_first_login by blast
  have reached: "reach (auth_step (\<lambda>x. x)) auth_empty s" by (rule reach.more [OF au_ready_reached auth_step.logs_in [OF sha s(1)]])
  have r: "filter (\<lambda>r. ss_id r = ''a'') (hd_sessions s) = [r]" using s(5,6) by (simp add: au_session_def)
  obtain a s' where a: "authenticate_session (au_service CHR ''a'') ''rwa_session=a'' s = (Inr a, s')" "ad_session a = ''a''"
    "s' = s\<lparr>hd_sessions := update_where (\<lambda>x. ss_id x = ''a'' \<and> ss_revoked x = None) (\<lambda>x. x\<lparr>ss_lastSeenAt := 0\<rparr>) (hd_sessions s)\<rparr>"
    using au_serves [OF s(2) r s(6) au_cookie(1)] by auto
  obtain t where t: "revoke_session (ad_session a) ''LOGOUT'' s' = (Inr (), t)" by (simp add: revoke_session_def modifyE_def)
  have out: "t = s\<lparr>hd_sessions := hd_sessions t\<rparr>" "map ss_id (hd_sessions t) = [''a'']"
    using t a(2,3) s(5,6) by (auto simp: revoke_session_def modifyE_iff update_where_map au_session_def)
  have kept: "au_registered t" "filter (opens_challenge (au_service CHR ''b'') (au_nonce CHR ''b'')) (hd_challenges t) = [au_challenge CHR ''b'' False]"
    "ot_hash ` set (hd_tokens t) = {au_token CHR ''a''}"
    by (subst out(1), use s(2-4) in \<open>simp add: au_registered_def\<close>)+
  have new: "au_token CHR ''b'' \<notin> ot_hash ` set (hd_tokens t)" "''b'' \<notin> ss_id ` set (hd_sessions t)"
    using out(2) by (auto simp: kept(3) au_token_def au_nonce_def numeral_eq_Suc)
  obtain lb u r' where u: "login (au_service CHR ''b'') run_ok (au_request CHR ''b'') t = (Inr lb, u)" "au_registered u"
    "hd_sessions u = hd_sessions t @ [r']" "au_session CHR ''b'' r'"
    using au_logs_in [OF kept(1,2) new] by auto
  have r': "filter (\<lambda>r. ss_id r = ''b'') (hd_sessions u) = [r']" using u(3,4) out(2) by (auto simp: au_session_def)
  obtain b v where b: "authenticate_session (au_service CHR ''b'') ''rwa_session=b'' u = (Inr b, v)"
    using au_serves [OF u(2) r' u(4) au_cookie(2)] by auto
  have "(auth_step (\<lambda>x. x))\<^sup>*\<^sup>* t u" by (rule r_into_rtranclp [of "auth_step (\<lambda>x. x)", OF auth_step.logs_in [OF sha u(1)]])
  then show ?thesis using reached a(1) t b by blast
qed

theorem revoked_session_is_dead_witness:
  "\<exists>s a s' t u b v. authenticate_session (au_service CHR ''a'') ''rwa_session=a'' s = (Inr a, s')
    \<and> revoke_session (ad_session a) ''LOGOUT'' s' = (Inr (), t)
    \<and> authenticate_session (au_service CHR ''b'') ''rwa_session=b'' u = (Inr b, v) \<and> ad_session b \<noteq> ad_session a"
proof -
  obtain s a s' t u b v where run: "reach (auth_step (\<lambda>x. x)) auth_empty s" "authenticate_session (au_service CHR ''a'') ''rwa_session=a'' s = (Inr a, s')"
    "revoke_session (ad_session a) ''LOGOUT'' s' = (Inr (), t)" "(auth_step (\<lambda>x. x))\<^sup>*\<^sup>* t u"
    "authenticate_session (au_service CHR ''b'') ''rwa_session=b'' u = (Inr b, v)"
    using au_logged_out by blast
  have sha: "hs_sha (au_service c) = (\<lambda>x. x)" for c by (simp add: au_service_def)
  show ?thesis using run(2,3,5) revoked_session_is_dead [OF run(1) sha run(2-4) sha run(5)] by blast
qed

section \<open>What a login rests on\<close>

definition token_backed :: "auth_service \<Rightarrow> login_request \<Rightarrow> auth_db \<Rightarrow> oidc_claims \<Rightarrow> identity_provider \<Rightarrow> bool" where
  \<comment> \<open>the claims are those of the token, which one strong key of the active provider's set signed over \<open>https\<close>; they are
    fresh, have a second factor and carry the nonce of the browser\<close>
  "token_backed h q s c p = (p \<in> set (hd_providers s) \<and> ip_status p = ''ACTIVE'' \<and> cl_issuer c = ip_issuer p \<and> cl_audience c = ip_audience p
     \<and> ov_protocol (hs_verifier h) (ip_jwks_uri p) = Some ''https:''
     \<and> (\<exists>keys. fst (jwks (hs_verifier h) (ip_jwks_uri p) (hd_cache s)) = Inr keys \<and> token_signed (hs_verifier h) (lq_idToken q) keys)
     \<and> fst (verify_token (hs_verifier h) (lq_idToken q) (filter (\<lambda>p. ip_status p = ''ACTIVE'') (hd_providers s)) (hd_cache s)) = Inr c
     \<and> hs_now h < cl_expiresAt c \<and> hs_now h - cl_authTime c \<le> hs_maxAuthAgeMs h \<and> set (cl_methods c) \<inter> {JStr ''mfa'', JStr ''otp'', JStr ''hwk''} \<noteq> {}
     \<and> (case ip_required_acr p of None \<Rightarrow> True | Some acr \<Rightarrow> acr = [] \<or> cl_acr c = JStr acr)
     \<and> (\<exists>nonce. lq_nonce q = Some nonce \<and> hs_sha h (cl_nonce c) = hs_sha h nonce
       \<and> (\<exists>k \<in> set (hd_challenges s). lc_hash k = hs_sha h nonce \<and> \<not> lc_consumed k \<and> hs_clock h < lc_expiresAt k)))"

definition member_backed :: "auth_service \<Rightarrow> login_request \<Rightarrow> auth_db \<Rightarrow> oidc_claims \<Rightarrow> identity_provider \<Rightarrow> principal_row \<Rightarrow> auth_membership \<Rightarrow> bool" where
  \<comment> \<open>the subject is an active principal with one membership that now gives it the role in the tenant\<close>
  "member_backed h q s c p n m = (n \<in> set (hd_principals s) \<and> pn_provider n = ip_id p \<and> pn_subject n = cl_subject c \<and> pn_status n = ''ACTIVE''
     \<and> m \<in> set (hd_memberships s) \<and> hm_principal m = pn_id n \<and> hm_tenant m = lq_tenant q \<and> hm_role m = lq_role q \<and> current_membership h m)"

lemma claims_asserted:
  assumes "assertClaims h c p = Inr ()"
  shows "hs_now h < cl_expiresAt c" and "hs_now h - cl_authTime c \<le> hs_maxAuthAgeMs h" and "set (cl_methods c) \<inter> {JStr ''mfa'', JStr ''otp'', JStr ''hwk''} \<noteq> {}"
    and "case ip_required_acr p of None \<Rightarrow> True | Some acr \<Rightarrow> acr = [] \<or> cl_acr c = JStr acr"
    and "cl_issuer c = ip_issuer p" and "cl_audience c = ip_audience p"
  using assms unfolding assertClaims_def ensureR_Inr by (auto split: option.splits)

lemma provider_of_token:
  assumes "verify_token h idToken providers cache = (Inr c, t)" and "p \<in> set providers" and "ip_id p = cl_provider c" and ids: "distinct (map ip_id providers)"
  shows "ov_protocol h (ip_jwks_uri p) = Some ''https:''" and "\<exists>keys. fst (jwks h (ip_jwks_uri p) cache) = Inr keys \<and> token_signed h idToken keys"
proof -
  obtain p' keys u where p': "p' \<in> set providers" "cl_provider c = ip_id p'" "ov_protocol h (ip_jwks_uri p') = Some ''https:''"
    "jwks h (ip_jwks_uri p') cache = (Inr keys, u)" "token_signed h idToken keys"
    by (rule verified_token [OF assms(1)])
  have "p' = p" using inj_onD [of ip_id "set providers" p' p] ids p'(1,2) assms(2,3) by (simp add: distinct_map)
  then show "ov_protocol h (ip_jwks_uri p) = Some ''https:''" "\<exists>keys. fst (jwks h (ip_jwks_uri p) cache) = Inr keys \<and> token_signed h idToken keys"
    using p' by auto
qed

lemma distinct_filtered: "distinct (map f xs) \<Longrightarrow> distinct (map f (filter P xs))"
  by (simp add: distinct_map inj_on_def)

text \<open>
  C18. Whoever is logged in presented a token that an active provider signed for the challenge of this
  browser, recently and with a second factor, and is an active principal whose membership gives the role asked
  for now; the session that is added is for that principal, tenant and role, with the permissions of the role.
\<close>

theorem login_is_backed:
  assumes run: "login h commit q s = (Inr a, t)" and ids: "distinct (map ip_id (hd_providers s))"
  shows "\<exists>c p n m r. token_backed h q s c p \<and> member_backed h q s c p n m
    \<and> la_identity a = session_identity n m (permissions_of s (lq_role q))
    \<and> hd_sessions t = hd_sessions s @ [r] \<and> ss_principal r = pn_id n \<and> ss_tenant r = lq_tenant q \<and> ss_role r = lq_role q
    \<and> ss_permissions r = permissions_of s (lq_role q) \<and> ss_id r = hs_sha h (hs_sessionToken h) \<and> ss_revoked r = None"
proof (rule login_accepted [OF run])
  fix nonce c p cache
  assume n: "lq_nonce q = Some nonce" and p: "p \<in> set (hd_providers s)" "ip_status p = ''ACTIVE''" "ip_id p = cl_provider c"
    and v: "verify_token (hs_verifier h) (lq_idToken q) (filter (\<lambda>p. ip_status p = ''ACTIVE'') (hd_providers s)) (hd_cache s) = (Inr c, cache)"
    and ac: "assertClaims h c p = Inr ()" and match: "hs_sha h (cl_nonce c) = hs_sha h nonce"
    and tx: "login_tx h q (idToken_text (lq_idToken q)) nonce p c (s\<lparr>hd_cache := cache\<rparr>) = (Inr a, t)"
  have "p \<in> set (filter (\<lambda>p. ip_status p = ''ACTIVE'') (hd_providers s))" using p by simp
  note signed = provider_of_token [OF v this p(3) distinct_filtered [OF ids]]
  from tx show ?thesis
  proof (rule login_tx_effect)
    fix pn m k
    assume k: "filter (opens_challenge h nonce) (hd_challenges (s\<lparr>hd_cache := cache\<rparr>)) = [k]"
      and rows: "login_rows h (s\<lparr>hd_cache := cache\<rparr>) (ip_id p) (cl_subject c) (lq_tenant q) (lq_role q) = [(pn, m)]" and active: "pn_status pn = ''ACTIVE''"
      and ss: "hd_sessions t = hd_sessions (s\<lparr>hd_cache := cache\<rparr>) @ [new_session h (s\<lparr>hd_cache := cache\<rparr>) c pn m]"
      and la: "la_identity a = session_identity pn m (permissions_of (s\<lparr>hd_cache := cache\<rparr>) (hm_role m))"
    have "k \<in> set (filter (opens_challenge h nonce) (hd_challenges s))" using k by simp
    then have "\<exists>k \<in> set (hd_challenges s). lc_hash k = hs_sha h nonce \<and> \<not> lc_consumed k \<and> hs_clock h < lc_expiresAt k" by (auto simp: opens_challenge_def)
    then have token: "token_backed h q s c p" using n p v match signed claims_asserted [OF ac] by (simp add: token_backed_def)
    have "(pn, m) \<in> set (login_rows h (s\<lparr>hd_cache := cache\<rparr>) (ip_id p) (cl_subject c) (lq_tenant q) (lq_role q))" by (simp add: rows)
    then have member: "member_backed h q s c p pn m" using active by (auto simp: login_rows_def member_backed_def)
    have perms: "permissions_of (s\<lparr>hd_cache := cache\<rparr>) role = permissions_of s role" for role by (simp add: permissions_of_def)
    have role: "hm_role m = lq_role q" "hm_tenant m = lq_tenant q" using member by (simp_all add: member_backed_def)
    show ?thesis
      by (rule exI [of _ c], rule exI [of _ p], rule exI [of _ pn], rule exI [of _ m], rule exI [of _ "new_session h (s\<lparr>hd_cache := cache\<rparr>) c pn m"])
        (use token member la ss role in \<open>simp add: perms new_session_def\<close>)
  qed
qed

theorem login_is_backed_witness:
  "\<exists>a t c p n m. login (au_service CHR ''a'') run_ok (au_request CHR ''a'') au_ready = (Inr a, t)
    \<and> token_backed (au_service CHR ''a'') (au_request CHR ''a'') au_ready c p \<and> member_backed (au_service CHR ''a'') (au_request CHR ''a'') au_ready c p n m
    \<and> la_identity a = session_identity n m (permissions_of au_ready ''broker'')"
proof -
  obtain a t where run: "login (au_service CHR ''a'') run_ok (au_request CHR ''a'') au_ready = (Inr a, t)" using au_first_login by blast
  have role: "lq_role (au_request CHR ''a'') = ''broker''" by (simp add: au_request_def)
  have "distinct (map ip_id (hd_providers au_ready))" by (simp add: au_ready_def)
  then show ?thesis using run login_is_backed [OF run, unfolded role] by blast
qed

end
