(* ===== verification/RateLimiter.thy ===== *)
theory RateLimiter
  imports JsValues
begin

text \<open>
  The limiter of the endpoints that are open to anyone, \<open>src/security/rate-limiter.js\<close>: one window per
  client that starts with its first request, with a bound on the number of clients. Requests are counted
  also when they are refused.
\<close>

section \<open>The limiter\<close>

record rate_limiter =
  rl_limit :: nat
  rl_windowMs :: int
  rl_maxKeys :: nat

record rate_window =
  rw_startedAt :: int
  rw_count :: nat

type_synonym windows = "(string, rate_window) jsmap"

definition FixedWindowRateLimiter :: "json \<Rightarrow> json \<Rightarrow> nat \<Rightarrow> rate_limiter outcome" where
  "FixedWindowRateLimiter limit windowMs maxKeys = (case limit of
     JNum n \<Rightarrow> if n < 1 then Inl (Native ''rate limit must be a positive integer'')
       else (case windowMs of
         JNum w \<Rightarrow> if w < 1000 then Inl (Native ''rate limit window must be at least one second'')
           else Inr \<lparr>rl_limit = nat n, rl_windowMs = w, rl_maxKeys = maxKeys\<rparr>
       | _ \<Rightarrow> Inl (Native ''rate limit window must be at least one second''))
   | _ \<Rightarrow> Inl (Native ''rate limit must be a positive integer''))"

definition over :: "rate_limiter \<Rightarrow> int \<Rightarrow> rate_window \<Rightarrow> bool" where
  "over l current w = (rl_windowMs l \<le> current - rw_startedAt w)"

definition evictExpired :: "rate_limiter \<Rightarrow> int \<Rightarrow> windows \<Rightarrow> windows" where
  "evictExpired l current m = filter (\<lambda>(_, w). \<not> over l current w) m"

definition start_window :: "rate_limiter \<Rightarrow> int \<Rightarrow> string \<Rightarrow> (windows, unit) eff" where
  \<comment> \<open>for a client without a window, or whose window is over\<close>
  "start_window l current key = withE (\<lambda>m.
     let known = jm_has m key in
     thenE (if \<not> known \<and> rl_maxKeys l \<le> length m then modifyE (evictExpired l current) else retE ()) (withE (\<lambda>m.
     thenE (ensureE (known \<or> length m < rl_maxKeys l) ''RATE_LIMITED'')
     (modifyE (jm_set key \<lparr>rw_startedAt = current, rw_count = 0\<rparr>)))))"

definition count_request :: "rate_limiter \<Rightarrow> string \<Rightarrow> rate_window \<Rightarrow> (windows, unit) eff" where
  "count_request l key w =
     thenE (modifyE (jm_set key (w\<lparr>rw_count := rw_count w + 1\<rparr>))) (ensureE (rw_count w + 1 \<le> rl_limit l) ''RATE_LIMITED'')"

definition consume_request :: "rate_limiter \<Rightarrow> int \<Rightarrow> string \<Rightarrow> (windows, unit) eff" where
  "consume_request l current key = withE (\<lambda>m. case jm_get m key of
     Some w \<Rightarrow> if over l current w
       then thenE (start_window l current key) (count_request l key \<lparr>rw_startedAt = current, rw_count = 0\<rparr>)
       else count_request l key w
   | None \<Rightarrow> thenE (start_window l current key) (count_request l key \<lparr>rw_startedAt = current, rw_count = 0\<rparr>))"

definition retryAfterSeconds :: "rate_limiter \<Rightarrow> int \<Rightarrow> rate_window \<Rightarrow> int" where
  \<comment> \<open>of the error of a client over the limit; \<open>Math.ceil\<close>\<close>
  "retryAfterSeconds l current w = max 1 (- ((current - rw_startedAt w - rl_windowMs l) div 1000))"

section \<open>What one request does\<close>

lemma evicted_get:
  assumes "jm_wf m"
  shows "jm_get (evictExpired l current m) k = (case jm_get m k of None \<Rightarrow> None | Some w \<Rightarrow> if over l current w then None else Some w)"
proof -
  have "k \<notin> fst ` set m \<Longrightarrow> map_of (filter (\<lambda>(_, w). \<not> over l current w) m) k = None" for m :: windows
    by (auto simp: map_of_eq_None_iff)
  with assms show ?thesis
    unfolding evictExpired_def jm_wf_def by (induction m) (auto simp: map_of_eq_None_iff)
qed

lemma evicted_wf: "jm_wf m \<Longrightarrow> jm_wf (evictExpired l current m)"
  unfolding jm_wf_def evictExpired_def by (induction m) auto

lemma set_length: "jm_has m k \<Longrightarrow> length (jm_set k v m) = length m" "\<not> jm_has m k \<Longrightarrow> length (jm_set k v m) = Suc (length m)"
  by (induction m) (auto simp: jm_has_def split: if_splits)

lemma evicted_length: "length (evictExpired l current m) \<le> length m"
  by (simp add: evictExpired_def)

text \<open>A request is counted in the window of its client, or starts one, or finds no room.\<close>

lemma consume_request_cases:
  assumes wf: "jm_wf m" and run: "consume_request l current key m = (r, t)"
  obtains (counted) w where "jm_get m key = Some w" and "\<not> over l current w" and "t = jm_set key (w\<lparr>rw_count := rw_count w + 1\<rparr>) m"
      and "r = Inr () \<longleftrightarrow> rw_count w + 1 \<le> rl_limit l"
  | (opened) u where "u = m \<or> u = evictExpired l current m" and "jm_has u key \<or> length u < rl_maxKeys l" and "case jm_get m key of None \<Rightarrow> True | Some w \<Rightarrow> over l current w"
      and "t = jm_set key \<lparr>rw_startedAt = current, rw_count = 1\<rparr> u" and "r = Inr () \<longleftrightarrow> 1 \<le> rl_limit l"
  | (full) "jm_get m key = None" and "t = evictExpired l current m" and "r \<noteq> Inr ()"
proof (cases "jm_get m key")
  case None
  show thesis
  proof (cases "length m < rl_maxKeys l")
    case True
    then have "t = jm_set key \<lparr>rw_startedAt = current, rw_count = 1\<rparr> m" "r = Inr () \<longleftrightarrow> 1 \<le> rl_limit l"
      using run None by (auto simp: consume_request_def start_window_def count_request_def Let_def eff_defs jm_has_def split: if_splits)
    then show thesis using opened [of m] None True by simp
  next
    case False
    show thesis
    proof (cases "length (evictExpired l current m) < rl_maxKeys l")
      case True
      then have "t = jm_set key \<lparr>rw_startedAt = current, rw_count = 1\<rparr> (evictExpired l current m)" "r = Inr () \<longleftrightarrow> 1 \<le> rl_limit l"
        using run None False by (auto simp: consume_request_def start_window_def count_request_def Let_def eff_defs jm_has_def split: if_splits)
      then show thesis using opened [of "evictExpired l current m"] None True by simp
    next
      case room: False
      then have "t = evictExpired l current m" "r \<noteq> Inr ()"
        using run None False by (auto simp: consume_request_def start_window_def count_request_def Let_def eff_defs jm_has_def split: if_splits)
      then show thesis using full None by simp
    qed
  qed
next
  case (Some w)
  show thesis
  proof (cases "over l current w")
    case True
    then have "t = jm_set key \<lparr>rw_startedAt = current, rw_count = 1\<rparr> m" "r = Inr () \<longleftrightarrow> 1 \<le> rl_limit l"
      using run Some by (auto simp: consume_request_def start_window_def count_request_def Let_def eff_defs jm_has_def split: if_splits)
    then show thesis using opened [of m] Some True by (simp add: jm_has_def)
  next
    case False
    then have "t = jm_set key (w\<lparr>rw_count := rw_count w + 1\<rparr>) m" "r = Inr () \<longleftrightarrow> rw_count w + 1 \<le> rl_limit l"
      using run Some by (auto simp: consume_request_def count_request_def eff_defs split: if_splits)
    then show thesis using counted Some False by blast
  qed
qed

section \<open>Sequences of requests\<close>

fun after_calls :: "rate_limiter \<Rightarrow> (int \<times> string) list \<Rightarrow> windows \<Rightarrow> windows" where
  "after_calls l [] m = m"
| "after_calls l ((current, key) # calls) m = after_calls l calls (snd (consume_request l current key m))"

fun grants :: "rate_limiter \<Rightarrow> string \<Rightarrow> (int \<times> string) list \<Rightarrow> windows \<Rightarrow> nat" where
  \<comment> \<open>how many requests of a client are let through\<close>
  "grants l k [] m = 0"
| "grants l k ((current, key) # calls) m =
     (if key = k \<and> fst (consume_request l current key m) = Inr () then 1 else 0) + grants l k calls (snd (consume_request l current key m))"

definition windows_ok :: "rate_limiter \<Rightarrow> windows \<Rightarrow> bool" where
  "windows_ok l m = (jm_wf m \<and> length m \<le> rl_maxKeys l \<and> (\<forall>k w. jm_get m k = Some w \<longrightarrow> 1 \<le> rw_count w))"

lemma consume_request_ok:
  assumes ok: "windows_ok l m" and run: "consume_request l current key m = (r, t)"
  shows "windows_ok l t"
proof -
  have wf: "jm_wf m" and len: "length m \<le> rl_maxKeys l" and used: "\<And>k w. jm_get m k = Some w \<Longrightarrow> 1 \<le> rw_count w"
    using ok by (simp_all add: windows_ok_def)
  have kept: "1 \<le> rw_count w" if "jm_get (evictExpired l current m) k = Some w" for k w
    using that used evicted_get [OF wf] by (auto split: option.splits if_splits)
  from wf run show ?thesis
  proof (cases rule: consume_request_cases)
    case (counted w)
    then show ?thesis using wf len used by (auto simp: windows_ok_def set_length(1) jm_has_def)
  next
    case (opened u)
    have "jm_wf u" "length u \<le> rl_maxKeys l" using opened(1) wf evicted_wf len evicted_length [of l current m] by auto
    moreover have "1 \<le> rw_count w" if "jm_get u k = Some w" for k w using that opened(1) used kept by blast
    ultimately show ?thesis using opened(2,4) by (cases "jm_has u key") (simp_all add: windows_ok_def set_length)
  next
    case full
    then show ?thesis using wf len kept evicted_wf evicted_length [of l current m] by (simp add: windows_ok_def)
  qed
qed

lemma after_ok: "windows_ok l m \<Longrightarrow> windows_ok l (after_calls l calls m)"
proof (induction l calls m rule: after_calls.induct)
  case (2 l current key calls m)
  have "windows_ok l (snd (consume_request l current key m))" by (rule consume_request_ok [OF 2(2) prod.collapse [symmetric]])
  then show ?case using 2(1) by simp
qed simp

lemma other_client:
  assumes "jm_wf m" and "consume_request l current key m = (r, t)" and "k \<noteq> key"
  shows "jm_get t k = jm_get m k \<or> (\<exists>w. jm_get m k = Some w \<and> over l current w \<and> jm_get t k = None)"
  using assms(1,2)
proof (cases rule: consume_request_cases)
  case (opened u)
  then show ?thesis using assms(3) evicted_get [OF assms(1)] by (auto split: option.splits if_splits)
next
  case full
  then show ?thesis using evicted_get [OF assms(1)] by (auto split: option.splits if_splits)
qed (use assms(3) in simp)

lemma one_window:
  "windows_ok l m \<Longrightarrow> jm_get m k = Some w \<Longrightarrow> \<forall>(current, key) \<in> set calls. current < rw_startedAt w + rl_windowMs l \<Longrightarrow>
    grants l k calls m \<le> rl_limit l - rw_count w"
proof (induction calls arbitrary: m w)
  case (Cons call calls)
  obtain current key where call: "call = (current, key)" by (cases call)
  obtain r t where run: "consume_request l current key m = (r, t)" by (cases "consume_request l current key m")
  have ok: "windows_ok l t" by (rule consume_request_ok [OF Cons(2) run])
  have wf: "jm_wf m" using Cons(2) by (simp add: windows_ok_def)
  have live: "\<not> over l current w" using Cons(4) by (simp add: call over_def)
  show ?case
  proof (cases "key = k")
    case True
    note here = call [unfolded True] run [unfolded True]
    from wf run show ?thesis
    proof (cases rule: consume_request_cases)
      case (counted v)
      have v: "v = w" using counted(1) Cons(3) True by simp
      have "grants l k calls t \<le> rl_limit l - (rw_count w + 1)"
        using Cons(1) [OF ok, of "w\<lparr>rw_count := rw_count w + 1\<rparr>"] Cons(4) counted(3) True by (simp add: v)
      then show ?thesis using counted(4) by (auto simp: here v)
    qed (use Cons(3) live True in simp_all)
  next
    case False
    have "jm_get t k = Some w" using other_client [OF wf run not_sym [OF False]] Cons(3) live by auto
    then have "grants l k calls t \<le> rl_limit l - rw_count w" using Cons(1) [OF ok] Cons(4) by simp
    then show ?thesis using False by (simp add: call run)
  qed
qed simp

lemma two_windows:
  "windows_ok l m \<Longrightarrow> \<forall>(current, key) \<in> set calls. a \<le> current \<and> current < a + rl_windowMs l \<Longrightarrow>
    grants l k calls m \<le> (case jm_get m k of None \<Rightarrow> 0 | Some w \<Rightarrow> rl_limit l - rw_count w) + rl_limit l"
proof (induction calls arbitrary: m)
  case (Cons call calls)
  obtain current key where call: "call = (current, key)" by (cases call)
  obtain r t where run: "consume_request l current key m = (r, t)" by (cases "consume_request l current key m")
  have ok: "windows_ok l t" by (rule consume_request_ok [OF Cons(2) run])
  have wf: "jm_wf m" using Cons(2) by (simp add: windows_ok_def)
  have IH: "grants l k calls t \<le> (case jm_get t k of None \<Rightarrow> 0 | Some w \<Rightarrow> rl_limit l - rw_count w) + rl_limit l"
    using Cons(1) [OF ok] Cons(3) by simp
  show ?case
  proof (cases "key = k")
    case True
    note here = call [unfolded True] run [unfolded True]
    from wf run show ?thesis
    proof (cases rule: consume_request_cases)
      case (counted w)
      then show ?thesis using IH True by (auto simp: here)
    next
      case (opened u)
      have "a \<le> current" using Cons(3) by (simp add: call)
      then have "\<forall>(later, key) \<in> set calls. later < current + rl_windowMs l" using Cons(3) by fastforce
      then have "grants l k calls t \<le> rl_limit l - 1"
        using one_window [OF ok, of k "\<lparr>rw_startedAt = current, rw_count = 1\<rparr>" calls] opened(4) True by simp
      then show ?thesis using opened(5) by (auto simp: here)
    next
      case full
      have "jm_get t k = None" using evicted_get [OF wf] full(1,2) True by simp
      then show ?thesis using IH full(1,3) True by (simp add: here)
    qed
  next
    case False
    have "grants l k calls t \<le> (case jm_get m k of None \<Rightarrow> 0 | Some w \<Rightarrow> rl_limit l - rw_count w) + rl_limit l"
      using IH other_client [OF wf run not_sym [OF False]] by (auto split: option.splits)
    then show ?thesis using False by (simp add: call run)
  qed
qed simp

section \<open>The bound\<close>

text \<open>
  Whatever requests came before, and from any number of clients: within any interval of the length
  of a window fewer than twice the limit of requests of one client are let through, and the limiter never
  remembers more clients than it may.
\<close>

theorem bounded_requests:
  assumes "\<forall>(current, key) \<in> set calls. a \<le> current \<and> current < a + rl_windowMs l"
  shows "grants l k calls (after_calls l before []) \<le> 2 * rl_limit l - 1 \<and> length (after_calls l before []) \<le> rl_maxKeys l"
proof -
  let ?m = "after_calls l before []"
  have ok: "windows_ok l ?m" by (rule after_ok) (simp add: windows_ok_def jm_wf_def)
  have "grants l k calls ?m \<le> (case jm_get ?m k of None \<Rightarrow> 0 | Some w \<Rightarrow> rl_limit l - rw_count w) + rl_limit l"
    by (rule two_windows [OF ok assms])
  also have "\<dots> \<le> 2 * rl_limit l - 1"
  proof (cases "jm_get ?m k")
    case (Some w)
    then have "1 \<le> rw_count w" using ok by (simp add: windows_ok_def)
    then show ?thesis using Some by (cases "rl_limit l") auto
  qed (cases "rl_limit l"; simp)
  finally show ?thesis using ok by (simp add: windows_ok_def)
qed

definition run_limiter :: rate_limiter where
  "run_limiter = \<lparr>rl_limit = 2, rl_windowMs = 1000, rl_maxKeys = 5\<rparr>"

lemma bound_is_reached: "grants run_limiter ''a'' [(999, ''a''), (1000, ''a''), (1001, ''a'')] (after_calls run_limiter [(0, ''a'')] []) = 3"
  by (simp add: run_limiter_def consume_request_def start_window_def count_request_def Let_def eff_defs jm_has_def over_def)

theorem bounded_requests_witness:
  "grants run_limiter ''a'' [(999, ''a''), (1000, ''a''), (1001, ''a''), (1002, ''a'')] (after_calls run_limiter [(0, ''a''), (1, ''b'')] []) \<le> 3"
  using bounded_requests [of "[(999, ''a''), (1000, ''a''), (1001, ''a''), (1002, ''a'')]" 999 run_limiter "''a''" "[(0, ''a''), (1, ''b'')]"]
  by (simp add: run_limiter_def)

end
