(* ===== verification/EnvelopeCipher.thy ===== *)
theory EnvelopeCipher
  imports ProductEvidence
begin

text \<open>
  Encryption of private payloads, \<open>src/security/envelope-crypto.js\<close>: envelopes under a local key or under
  data keys that a key management service wraps, and that service in software, whose keys can be made active
  and disabled. AES-256-GCM, \<open>JSON.parse\<close> and \<open>Buffer.from\<close> of a value that is not base64 are fields
  of the platform; a text stands for its UTF-8 bytes.
\<close>

section \<open>The platform\<close>

record crypto_platform =
  gc_encrypt :: "string \<Rightarrow> string \<Rightarrow> string \<Rightarrow> string \<Rightarrow> string \<times> string"   \<comment> \<open>key, iv, associated data, text; ciphertext and tag\<close>
  gc_decrypt :: "string \<Rightarrow> string \<Rightarrow> string \<Rightarrow> string \<Rightarrow> string \<Rightarrow> string option"
    \<comment> \<open>key, iv, associated data, ciphertext, tag; \<open>None\<close> if it throws\<close>
  gc_parse :: "string \<Rightarrow> json option"
  gc_buffer :: "json \<Rightarrow> string option"

type_synonym entries = "(string \<times> json) list"

definition labelled :: "string \<Rightarrow> string \<Rightarrow> entries \<Rightarrow> entries" where
  \<comment> \<open>\<open>{ name: label, ...context }\<close>\<close>
  "labelled name label context = fold (\<lambda>(k, v) m. jm_set k v m) context [(name, JStr label)]"

definition bound_to :: "entries \<Rightarrow> string" where
  \<comment> \<open>the associated data of a labelled context\<close>
  "bound_to e = canonicalize (JObj e)"

definition from_base64 :: "crypto_platform \<Rightarrow> json \<Rightarrow> string option" where
  "from_base64 g v = (case v of
     JStr t \<Rightarrow> if t = [] \<or> base64_pattern t then Some (base64_decode t) else gc_buffer g v
   | _ \<Rightarrow> gc_buffer g v)"

definition open_sealed :: "crypto_platform \<Rightarrow> string \<Rightarrow> string \<Rightarrow> json \<Rightarrow> json option" where
  \<comment> \<open>what the fields of an envelope decrypt to\<close>
  "open_sealed g key aad e = (case (from_base64 g (jfield e ''iv''), from_base64 g (jfield e ''tag''), from_base64 g (jfield e ''ciphertext'')) of
     (Some iv, Some tag, Some c) \<Rightarrow> Option.bind (gc_decrypt g key iv aad c tag) (gc_parse g)
   | _ \<Rightarrow> None)"

definition parsed_envelope :: "crypto_platform \<Rightarrow> string \<Rightarrow> json outcome" where
  "parsed_envelope g bytes = (case gc_parse g bytes of
     None \<Rightarrow> Inl (Coded ''INVALID_CIPHERTEXT_ENVELOPE'')
   | Some e \<Rightarrow> bindR (not_null e) (\<lambda>_. Inr e))"

section \<open>Keys of the process\<close>

record local_keyring =
  lk_active :: string
  lk_keys :: "(string, string) jsmap"

definition key_map :: "(string \<times> 'a) list \<Rightarrow> (string, 'a) jsmap" where
  \<comment> \<open>\<open>new Map(Object.entries(keys))\<close>\<close>
  "key_map keys = fold (\<lambda>(k, v) m. jm_set k v m) keys []"

definition LocalKeyring :: "string \<Rightarrow> (string \<times> string) list \<Rightarrow> local_keyring outcome" where
  \<comment> \<open>the keys as bytes\<close>
  "LocalKeyring activeKeyId keys =
     ensureR (\<forall>(_, material) \<in> set keys. length material = 32) ''INVALID_MASTER_KEY''
    (ensureR (jm_has (key_map keys) activeKeyId) ''UNKNOWN_ACTIVE_KEY'' (Inr \<lparr>lk_active = activeKeyId, lk_keys = key_map keys\<rparr>))"

definition keyring_get :: "local_keyring \<Rightarrow> string \<Rightarrow> string outcome" where
  "keyring_get r keyId = (case jm_get (lk_keys r) keyId of None \<Rightarrow> Inl (Coded ''UNKNOWN_ENCRYPTION_KEY'') | Some key \<Rightarrow> Inr key)"

definition local_encrypt :: "crypto_platform \<Rightarrow> string \<Rightarrow> local_keyring \<Rightarrow> json \<Rightarrow> entries \<Rightarrow> string outcome" where
  \<comment> \<open>with the initialisation vector drawn\<close>
  "local_encrypt g iv r value context =
     bindR (keyring_get r (lk_active r)) (\<lambda>key.
     nativeR (value \<noteq> JUndefined) ''TypeError''
    (case gc_encrypt g key iv (bound_to (labelled ''schema'' ''rwa-private-v1'' context)) (canonicalize value) of (c, tag) \<Rightarrow>
     Inr (render (JObj [(''v'', JNum 1), (''alg'', JStr ''A256GCM''), (''kid'', JStr (lk_active r)), (''iv'', JStr (base64_encode iv)),
       (''tag'', JStr (base64_encode tag)), (''ciphertext'', JStr (base64_encode c))]))))"

definition local_decrypt :: "crypto_platform \<Rightarrow> local_keyring \<Rightarrow> string \<Rightarrow> entries \<Rightarrow> json outcome" where
  "local_decrypt g r bytes context =
     bindR (parsed_envelope g bytes) (\<lambda>e.
     case jfield e ''kid'' of
       JStr kid \<Rightarrow> ensureR (jfield e ''v'' = JNum 1 \<and> jfield e ''alg'' = JStr ''A256GCM'') ''UNSUPPORTED_CIPHERTEXT_ENVELOPE''
         (bindR (keyring_get r kid) (\<lambda>key.
          case open_sealed g key (bound_to (labelled ''schema'' ''rwa-private-v1'' context)) e of
            None \<Rightarrow> Inl (Coded ''CIPHERTEXT_AUTHENTICATION_FAILED'')
          | Some v \<Rightarrow> Inr v))
     | _ \<Rightarrow> Inl (Coded ''UNSUPPORTED_CIPHERTEXT_ENVELOPE''))"

section \<open>Data keys wrapped by a service\<close>

record key_provider =
  kp_wrap :: "string \<Rightarrow> entries \<Rightarrow> (string \<times> string) outcome"   \<comment> \<open>data key, context; key id and wrapped key\<close>
  kp_unwrap :: "string \<Rightarrow> string \<Rightarrow> entries \<Rightarrow> string outcome"   \<comment> \<open>key id, wrapped key, context\<close>

definition kms_encrypt :: "crypto_platform \<Rightarrow> key_provider \<Rightarrow> string \<Rightarrow> string \<Rightarrow> json \<Rightarrow> entries \<Rightarrow> string outcome" where
  \<comment> \<open>with the data key and the initialisation vector drawn\<close>
  "kms_encrypt g w dataKey iv value context =
     (let kmsContext = labelled ''schema'' ''rwa-private-v2'' context in
      nativeR (value \<noteq> JUndefined) ''TypeError''
     (case gc_encrypt g dataKey iv (bound_to kmsContext) (canonicalize value) of (c, tag) \<Rightarrow>
      bindR (kp_wrap w dataKey kmsContext) (\<lambda>(keyId, wrappedKey).
      ensureR (keyId \<noteq> []) ''INVALID_KMS_RESPONSE''
     (Inr (render (JObj [(''v'', JNum 2), (''alg'', JStr ''A256GCM''), (''keyManagement'', JStr ''KMS_ENVELOPE''), (''kid'', JStr keyId),
        (''edk'', JStr (base64_encode wrappedKey)), (''iv'', JStr (base64_encode iv)), (''tag'', JStr (base64_encode tag)),
        (''ciphertext'', JStr (base64_encode c))]))))))"

definition kms_failure :: "json outcome \<Rightarrow> json outcome" where
  \<comment> \<open>the \<open>catch\<close> of \<open>decrypt\<close>\<close>
  "kms_failure x = (case x of
     Inl (Coded c) \<Rightarrow> if take 4 c = ''KMS_'' \<or> c = ''INVALID_KMS_RESPONSE'' then x else Inl (Coded ''CIPHERTEXT_AUTHENTICATION_FAILED'')
   | Inl (Native _) \<Rightarrow> Inl (Coded ''CIPHERTEXT_AUTHENTICATION_FAILED'')
   | Inr v \<Rightarrow> x)"

definition kms_decrypt :: "crypto_platform \<Rightarrow> key_provider \<Rightarrow> string \<Rightarrow> entries \<Rightarrow> json outcome" where
  "kms_decrypt g w bytes context =
     bindR (parsed_envelope g bytes) (\<lambda>e.
     case (jfield e ''kid'', jfield e ''edk'') of
       (JStr kid, JStr edk) \<Rightarrow>
         ensureR (jfield e ''v'' = JNum 2 \<and> jfield e ''alg'' = JStr ''A256GCM'' \<and> jfield e ''keyManagement'' = JStr ''KMS_ENVELOPE'')
           ''UNSUPPORTED_CIPHERTEXT_ENVELOPE''
        (let kmsContext = labelled ''schema'' ''rwa-private-v2'' context in
         kms_failure
          (bindR (case from_base64 g (JStr edk) of None \<Rightarrow> Inl type_error | Some b \<Rightarrow> Inr b) (\<lambda>wrappedKey.
           bindR (kp_unwrap w kid wrappedKey kmsContext) (\<lambda>dataKey.
           ensureR (length dataKey = 32) ''INVALID_KMS_RESPONSE''
          (case open_sealed g dataKey (bound_to kmsContext) e of
             None \<Rightarrow> Inl (Coded ''CIPHERTEXT_AUTHENTICATION_FAILED'')
           | Some v \<Rightarrow> Inr v)))))
     | _ \<Rightarrow> Inl (Coded ''UNSUPPORTED_CIPHERTEXT_ENVELOPE''))"

section \<open>The service in software\<close>

record software_kms =
  sw_active :: string
  sw_keys :: "(string, string \<times> bool) jsmap"   \<comment> \<open>material, and whether the key is enabled\<close>

definition SoftwareKmsProvider :: "string \<Rightarrow> (string \<times> string) list \<Rightarrow> software_kms outcome" where
  "SoftwareKmsProvider activeKeyId keys =
     ensureR (\<forall>(_, material) \<in> set keys. length material = 32) ''INVALID_MASTER_KEY''
    (ensureR (jm_has (key_map keys) activeKeyId) ''KMS_KEY_UNAVAILABLE''
    (Inr \<lparr>sw_active = activeKeyId, sw_keys = key_map (map (\<lambda>(k, material). (k, material, True)) keys)\<rparr>))"

definition kms_key :: "software_kms \<Rightarrow> string \<Rightarrow> string outcome" where
  "kms_key k keyId = (case jm_get (sw_keys k) keyId of
     Some (material, True) \<Rightarrow> Inr material
   | _ \<Rightarrow> Inl (Coded ''KMS_KEY_UNAVAILABLE''))"

definition kms_disable :: "string \<Rightarrow> (software_kms, unit) eff" where
  "kms_disable keyId = withE (\<lambda>k.
     bindE (optE (jm_get (sw_keys k) keyId) (Coded ''KMS_KEY_UNAVAILABLE'')) (\<lambda>(material, _).
     modifyE (\<lambda>k. k\<lparr>sw_keys := jm_set keyId (material, False) (sw_keys k)\<rparr>)))"

definition kms_setActive :: "string \<Rightarrow> (software_kms, unit) eff" where
  "kms_setActive keyId = withE (\<lambda>k.
     bindE (liftE (kms_key k keyId)) (\<lambda>_. modifyE (\<lambda>k. k\<lparr>sw_active := keyId\<rparr>)))"

definition wrapDataKey :: "crypto_platform \<Rightarrow> string \<Rightarrow> software_kms \<Rightarrow> string \<Rightarrow> entries \<Rightarrow> (string \<times> string) outcome" where
  "wrapDataKey g iv k dataKey context =
     bindR (kms_key k (sw_active k)) (\<lambda>material.
     case gc_encrypt g material iv (bound_to (labelled ''domain'' ''rwa-kms-wrap-v1'' context)) dataKey of (c, tag) \<Rightarrow>
     Inr (sw_active k, iv @ tag @ c))"

definition unwrapDataKey :: "crypto_platform \<Rightarrow> software_kms \<Rightarrow> string \<Rightarrow> string \<Rightarrow> entries \<Rightarrow> string outcome" where
  "unwrapDataKey g k keyId wrappedKey context =
     bindR (kms_key k keyId) (\<lambda>material.
     case gc_decrypt g material (take 12 wrappedKey) (bound_to (labelled ''domain'' ''rwa-kms-wrap-v1'' context)) (drop 28 wrappedKey)
         (take 16 (drop 12 wrappedKey)) of
       None \<Rightarrow> Inl (Coded ''KMS_UNWRAP_FAILED'')
     | Some d \<Rightarrow> Inr d)"

definition software_provider :: "crypto_platform \<Rightarrow> string \<Rightarrow> software_kms \<Rightarrow> key_provider" where
  "software_provider g iv k = \<lparr>kp_wrap = wrapDataKey g iv k, kp_unwrap = unwrapDataKey g k\<rparr>"

definition redacted_encrypt :: string where
  "redacted_encrypt = ''SANDBOX_REDACTED''"

definition redacted_decrypt :: "json outcome" where
  "redacted_decrypt = Inl (Coded ''PRIVATE_PAYLOAD_UNAVAILABLE'')"

end
