(* ===== verification/EnvelopeFacts.thy ===== *)
theory EnvelopeFacts
  imports EnvelopeCipher
begin

text \<open>
  What is encrypted is opened with the same context while the key that wrapped it is enabled, and only with that
  context; what was wrapped by a key that is disabled is never read again. Decryption ends in \<open>JSON.parse\<close> of the
  canonical text: the value is read back when that text is JSON, which it is not for a value with an undefined part.
\<close>

section \<open>What the platform promises\<close>

definition aead_ok :: "crypto_platform \<Rightarrow> bool" where
  \<comment> \<open>decryption undoes encryption; a tag has 16 bytes\<close>
  "aead_ok g = (\<forall>key iv aad p. gc_decrypt g key iv aad (fst (gc_encrypt g key iv aad p)) (snd (gc_encrypt g key iv aad p)) = Some p
     \<and> length (snd (gc_encrypt g key iv aad p)) = 16)"

definition name_key :: "string \<Rightarrow> bool" where
  \<comment> \<open>not an array index, which a JavaScript object would list first\<close>
  "name_key k = (k = [] \<or> hd k \<notin> set ''0123456789'')"

primrec storable :: "json \<Rightarrow> bool" where
  \<comment> \<open>a value that its JSON text determines: no undefined part, safe integers, keys that are names\<close>
  "storable JUndefined = False"
| "storable JNull = True"
| "storable (JBool b) = True"
| "storable (JNum n) = (\<bar>n\<bar> < 2 ^ 53)"
| "storable (JFloat s) = False"
| "storable (JStr s) = True"
| "storable (JArr xs) = list_all (\<lambda>b. b) (map storable xs)"
| "storable (JObj kvs) = (distinct (map fst kvs) \<and> list_all name_key (map fst kvs) \<and> list_all snd (map (map_prod id storable) kvs))"

definition json_ok :: "crypto_platform \<Rightarrow> string set \<Rightarrow> bool" where
  \<comment> \<open>\<open>JSON.parse\<close> reads these texts as the values \<open>JSON.stringify\<close> made them of\<close>
  "json_ok g texts = (\<forall>v. storable v \<and> render v \<in> texts \<longrightarrow> gc_parse g (render v) = Some v)"

lemma storable_entries:
  "storable (JObj kvs) \<longleftrightarrow> distinct (map fst kvs) \<and> (\<forall>e \<in> set kvs. name_key (fst e) \<and> storable (snd e))"
  by (auto simp: list_all_iff)

lemma storable_elems: "storable (JArr xs) \<longleftrightarrow> (\<forall>x \<in> set xs. storable x)"
  by (auto simp: list_all_iff)

lemma storable_jnorm: "storable v \<Longrightarrow> storable (jnorm v)"
proof (induction v)
  case (JArr xs)
  then show ?case by (auto simp: list_all_iff)
next
  case (JObj kvs)
  let ?kvs = "map (map_prod id jnorm) kvs"
  have keys: "map fst ?kvs = map fst kvs" by simp
  have "distinct (map fst (sort_key fst ?kvs)) = distinct (map fst ?kvs)"
    by (rule mset_eq_imp_distinct_iff) (simp only: mset_map mset_sort)
  then have "distinct (map fst (sort_key fst ?kvs))" using JObj.prems unfolding storable_entries keys by blast
  moreover have "storable (jnorm (snd e))" if e: "e \<in> set kvs" for e
  proof (rule JObj.IH [OF e])
    show "snd e \<in> Basic_BNFs.snds e" by (cases e) (simp add: snds_in)
    show "storable (snd e)" using JObj.prems e by (simp only: storable_entries)
  qed
  ultimately show ?case using JObj.prems unfolding jnorm.simps storable_entries by (auto simp: map_prod_def)
qed simp_all

lemma read_base64: "from_base64 g (JStr (base64_encode b)) = Some b"
  using encode_pattern [of b] decode_encode [of b] by (cases "b = []") (simp_all add: from_base64_def base64_encode_def)

lemma opens_sealed:
  assumes g: "aead_ok g" and sealed: "gc_encrypt g key iv aad (canonicalize v) = (c, tag)"
    and e: "jfield e ''iv'' = JStr (base64_encode iv)" "jfield e ''tag'' = JStr (base64_encode tag)" "jfield e ''ciphertext'' = JStr (base64_encode c)"
  shows "open_sealed g key aad e = gc_parse g (canonicalize v)"
proof -
  have "gc_decrypt g key iv aad c tag = Some (canonicalize v)" using g sealed unfolding aead_ok_def by (metis fst_conv snd_conv)
  then show ?thesis by (simp add: open_sealed_def e read_base64)
qed

lemma storable_parsed: "json_ok g T \<Longrightarrow> canonicalize v \<in> T \<Longrightarrow> storable v \<Longrightarrow> gc_parse g (canonicalize v) = Some (jnorm v)"
  using storable_jnorm unfolding json_ok_def canonicalize_render by blast

section \<open>The keys of the service\<close>

inductive kms_step :: "software_kms \<Rightarrow> software_kms \<Rightarrow> bool" where
  disables: "kms_disable keyId k = (r, t) \<Longrightarrow> kms_step k t"
| activates: "kms_setActive keyId k = (r, t) \<Longrightarrow> kms_step k t"

definition key_disabled :: "string \<Rightarrow> software_kms \<Rightarrow> bool" where
  "key_disabled i k = (\<exists>material. jm_get (sw_keys k) i = Some (material, False))"

lemma disable_effect: "kms_disable i k = (r, t) \<Longrightarrow> t = k \<or> (\<exists>material b. jm_get (sw_keys k) i = Some (material, b) \<and> t = k\<lparr>sw_keys := jm_set i (material, False) (sw_keys k)\<rparr>)"
  by (auto simp: kms_disable_def eff_defs split: option.splits)

lemma activate_effect: "kms_setActive i k = (r, t) \<Longrightarrow> sw_keys t = sw_keys k"
  by (auto simp: kms_setActive_def eff_defs split: sum.splits)

lemma kms_step_keys:
  assumes "kms_step k t"
  shows "map_option fst (jm_get (sw_keys t) i) = map_option fst (jm_get (sw_keys k) i)" and "key_disabled i k \<Longrightarrow> key_disabled i t"
proof -
  have "map_option fst (jm_get (sw_keys t) i) = map_option fst (jm_get (sw_keys k) i) \<and> (key_disabled i k \<longrightarrow> key_disabled i t)"
    using assms
  proof cases
    case (disables j r)
    then show ?thesis using disable_effect [of j k r t] by (auto simp: key_disabled_def update_conv')
  next
    case (activates j r)
    then show ?thesis using activate_effect by (auto simp: key_disabled_def)
  qed
  then show "map_option fst (jm_get (sw_keys t) i) = map_option fst (jm_get (sw_keys k) i)" "key_disabled i k \<Longrightarrow> key_disabled i t" by simp_all
qed

lemma kms_steps_keys:
  assumes "kms_step\<^sup>*\<^sup>* k t"
  shows "map_option fst (jm_get (sw_keys t) i) = map_option fst (jm_get (sw_keys k) i)" and "key_disabled i k \<Longrightarrow> key_disabled i t"
  using assms by (induction rule: rtranclp_induct) (simp_all add: kms_step_keys)

lemma kms_key_Inr: "kms_key k i = Inr m \<longleftrightarrow> jm_get (sw_keys k) i = Some (m, True)"
  by (auto simp: kms_key_def split: option.splits bool.splits)

lemma disabled_unavailable: "key_disabled i k \<Longrightarrow> kms_key k i = Inl (Coded ''KMS_KEY_UNAVAILABLE'')"
  by (auto simp: key_disabled_def kms_key_def)

lemma unwraps_wrapped:
  assumes g: "aead_ok g" and iv: "length iv = 12" and w: "wrapDataKey g iv k d context = Inr (i, x)" and k: "kms_step\<^sup>*\<^sup>* k k'"
    and en: "\<not> key_disabled i k'"
  shows "unwrapDataKey g k' i x context = Inr d"
proof -
  let ?aad = "bound_to (labelled ''domain'' ''rwa-kms-wrap-v1'' context)"
  obtain m where m: "jm_get (sw_keys k) i = Some (m, True)" and i: "i = sw_active k"
    and x: "x = iv @ snd (gc_encrypt g m iv ?aad d) @ fst (gc_encrypt g m iv ?aad d)"
    using w by (auto simp: wrapDataKey_def bindR_Inr kms_key_Inr case_prod_unfold)
  obtain b where "jm_get (sw_keys k') i = Some (m, b)" using kms_steps_keys(1) [OF k, of i] m by auto
  then have "kms_key k' i = Inr m" using en by (cases b) (auto simp: kms_key_Inr key_disabled_def)
  moreover have t: "length (snd (gc_encrypt g m iv ?aad d)) = 16" "gc_decrypt g m iv ?aad (fst (gc_encrypt g m iv ?aad d)) (snd (gc_encrypt g m iv ?aad d)) = Some d"
    using g by (simp_all add: aead_ok_def)
  ultimately show ?thesis by (simp add: unwrapDataKey_def x iv)
qed

section \<open>Envelopes\<close>

definition kms_envelope :: "string \<Rightarrow> string \<Rightarrow> string \<Rightarrow> string \<Rightarrow> string \<Rightarrow> json" where
  "kms_envelope keyId wrappedKey iv tag c = JObj [(''v'', JNum 2), (''alg'', JStr ''A256GCM''), (''keyManagement'', JStr ''KMS_ENVELOPE''),
     (''kid'', JStr keyId), (''edk'', JStr (base64_encode wrappedKey)), (''iv'', JStr (base64_encode iv)), (''tag'', JStr (base64_encode tag)),
     (''ciphertext'', JStr (base64_encode c))]"

lemma kms_envelope_fields:
  "jfield (kms_envelope i x iv tag c) ''v'' = JNum 2" "jfield (kms_envelope i x iv tag c) ''alg'' = JStr ''A256GCM''"
  "jfield (kms_envelope i x iv tag c) ''keyManagement'' = JStr ''KMS_ENVELOPE''" "jfield (kms_envelope i x iv tag c) ''kid'' = JStr i"
  "jfield (kms_envelope i x iv tag c) ''edk'' = JStr (base64_encode x)" "jfield (kms_envelope i x iv tag c) ''iv'' = JStr (base64_encode iv)"
  "jfield (kms_envelope i x iv tag c) ''tag'' = JStr (base64_encode tag)" "jfield (kms_envelope i x iv tag c) ''ciphertext'' = JStr (base64_encode c)"
  by (simp_all add: kms_envelope_def jfield_def)

lemma kms_envelope_parsed:
  "json_ok g T \<Longrightarrow> render (kms_envelope i x iv tag c) \<in> T \<Longrightarrow> parsed_envelope g (render (kms_envelope i x iv tag c)) = Inr (kms_envelope i x iv tag c)"
proof -
  assume g: "json_ok g T" "render (kms_envelope i x iv tag c) \<in> T"
  have "storable (kms_envelope i x iv tag c)" by (simp add: kms_envelope_def name_key_def)
  then have "gc_parse g (render (kms_envelope i x iv tag c)) = Some (kms_envelope i x iv tag c)" using g unfolding json_ok_def by blast
  then show ?thesis by (simp add: parsed_envelope_def not_null_def kms_envelope_def)
qed

lemma kms_encrypted:
  assumes "kms_encrypt g w d iv v context = Inr bytes"
  obtains i x c tag where "kp_wrap w d (labelled ''schema'' ''rwa-private-v2'' context) = Inr (i, x)"
    and "gc_encrypt g d iv (bound_to (labelled ''schema'' ''rwa-private-v2'' context)) (canonicalize v) = (c, tag)"
    and "bytes = render (kms_envelope i x iv tag c)"
  using assms unfolding kms_encrypt_def Let_def
  by (auto simp: nativeR_Inr bindR_Inr ensureR_Inr kms_envelope_def [symmetric] simp del: render.simps split: prod.splits)

lemma kms_failure_Inr: "kms_failure x = Inr v \<longleftrightarrow> x = Inr v"
  by (auto simp: kms_failure_def split: sum.splits js_error.splits)

lemma kms_decrypted:
  "parsed_envelope g bytes = Inr (kms_envelope i x iv tag c) \<Longrightarrow> kms_decrypt g w bytes context = Inr u \<longleftrightarrow>
    (\<exists>d. kp_unwrap w i x (labelled ''schema'' ''rwa-private-v2'' context) = Inr d \<and> length d = 32
      \<and> open_sealed g d (bound_to (labelled ''schema'' ''rwa-private-v2'' context)) (kms_envelope i x iv tag c) = Some u)"
  by (auto simp: kms_decrypt_def kms_envelope_fields ensureR_def read_base64 Let_def kms_failure_Inr bindR_Inr split: option.splits)

lemma kms_decrypt_opened:
  "parsed_envelope g bytes = Inr (kms_envelope i x iv tag c) \<Longrightarrow> kp_unwrap w i x (labelled ''schema'' ''rwa-private-v2'' context) = Inr d \<Longrightarrow> length d = 32
    \<Longrightarrow> kms_decrypt g w bytes context = (case open_sealed g d (bound_to (labelled ''schema'' ''rwa-private-v2'' context)) (kms_envelope i x iv tag c) of
        None \<Rightarrow> Inl (Coded ''CIPHERTEXT_AUTHENTICATION_FAILED'') | Some u \<Rightarrow> Inr u)"
  by (simp add: kms_decrypt_def kms_envelope_fields ensureR_def read_base64 Let_def bindR_def kms_failure_def split: option.split)

lemma kms_reads_text:
  assumes g: "aead_ok g" "json_ok g T" "bytes \<in> T" and sizes: "length dataKey = 32" "length kiv = 12"
    and enc: "kms_encrypt g (software_provider g kiv k) dataKey iv v context = Inr bytes"
    and k: "kms_step\<^sup>*\<^sup>* k k'" "\<not> key_disabled (sw_active k) k'"
  shows "kms_decrypt g (software_provider g kiv' k') bytes context = (case gc_parse g (canonicalize v) of
      None \<Rightarrow> Inl (Coded ''CIPHERTEXT_AUTHENTICATION_FAILED'') | Some u \<Rightarrow> Inr u)"
proof (rule kms_encrypted [OF enc])
  fix i x c tag
  assume w: "kp_wrap (software_provider g kiv k) dataKey (labelled ''schema'' ''rwa-private-v2'' context) = Inr (i, x)"
    and c: "gc_encrypt g dataKey iv (bound_to (labelled ''schema'' ''rwa-private-v2'' context)) (canonicalize v) = (c, tag)"
    and bytes: "bytes = render (kms_envelope i x iv tag c)"
  have i: "i = sw_active k" using w by (auto simp: software_provider_def wrapDataKey_def bindR_Inr case_prod_unfold)
  have "unwrapDataKey g k' i x (labelled ''schema'' ''rwa-private-v2'' context) = Inr dataKey"
    by (rule unwraps_wrapped [OF g(1) sizes(2) _ k(1)]) (use w k(2) i in \<open>simp_all add: software_provider_def\<close>)
  moreover have "open_sealed g dataKey (bound_to (labelled ''schema'' ''rwa-private-v2'' context)) (kms_envelope i x iv tag c) = gc_parse g (canonicalize v)"
    by (rule opens_sealed [OF g(1) c]) (simp_all add: kms_envelope_fields)
  ultimately show ?thesis
    using sizes(1) kms_decrypt_opened [of g bytes i x iv tag c] kms_envelope_parsed [OF g(2)] bytes g(3) by (simp add: software_provider_def)
qed

text \<open>
  \<open>encrypt\<close> takes any payload but undefined itself. One with an undefined property has a text that is not JSON, as
  \<open>{"reason":undefined}\<close>: it is encrypted, and its envelope is refused as a failed authentication under every key.
\<close>

lemma undefined_payload_text: "canonicalize (JObj [(''reason'', JUndefined)]) = ''{'' @ json_quote ''reason'' @ '':undefined}''"
  by simp

lemma undefined_payload_is_lost:
  assumes "aead_ok g" and "json_ok g {bytes}" and "length dataKey = 32" and "length kiv = 12"
    and "kms_encrypt g (software_provider g kiv k) dataKey iv (JObj [(''reason'', JUndefined)]) context = Inr bytes"
    and "kms_step\<^sup>*\<^sup>* k k'" and "\<not> key_disabled (sw_active k) k'"
    and "gc_parse g (''{'' @ json_quote ''reason'' @ '':undefined}'') = None"
  shows "kms_decrypt g (software_provider g kiv' k') bytes context = Inl (Coded ''CIPHERTEXT_AUTHENTICATION_FAILED'')"
  using kms_reads_text [OF assms(1,2) _ assms(3-7)] assms(8) unfolding undefined_payload_text by simp

text \<open>
  C23. Take a payload that \<open>encrypt\<close> of the KMS cipher sealed under a data key of 32 bytes that the software
  service wrapped. Whatever keys are made active or disabled later, as long as the one that wrapped it is not
  disabled, \<open>decrypt\<close> with the same context answers \<open>JSON.parse\<close> of the payload's canonical text, and fails as
  an unauthentic ciphertext only if that text is not JSON. A storable payload (no undefined part, integers
  within 53 bits and no other numbers, distinct keys that do not begin with a digit) is read back as it was, up to the order of keys.
  Assumed of the platform: AES-GCM decrypts what it encrypted, with a tag of 16 bytes, and \<open>JSON.parse\<close> reads
  these two texts as the storable value they print.
\<close>

theorem envelope_round_trip:
  assumes g: "aead_ok g" "json_ok g {bytes, canonicalize v}" and sizes: "length dataKey = 32" "length kiv = 12"
    and enc: "kms_encrypt g (software_provider g kiv k) dataKey iv v context = Inr bytes"
    and k: "kms_step\<^sup>*\<^sup>* k k'" "\<not> key_disabled (sw_active k) k'"
  shows "kms_decrypt g (software_provider g kiv' k') bytes context = (case gc_parse g (canonicalize v) of
        None \<Rightarrow> Inl (Coded ''CIPHERTEXT_AUTHENTICATION_FAILED'') | Some u \<Rightarrow> Inr u)
    \<and> (storable v \<longrightarrow> kms_decrypt g (software_provider g kiv' k') bytes context = Inr (jnorm v))"
proof -
  have "kms_decrypt g (software_provider g kiv' k') bytes context = (case gc_parse g (canonicalize v) of
      None \<Rightarrow> Inl (Coded ''CIPHERTEXT_AUTHENTICATION_FAILED'') | Some u \<Rightarrow> Inr u)"
    by (rule kms_reads_text [OF g _ sizes enc k]) simp
  then show ?thesis using storable_parsed [OF g(2)] by simp
qed

text \<open>A key that was disabled wraps nothing again, and no envelope under it is read again.\<close>

theorem disabled_key_is_dead:
  assumes off: "kms_disable i k = (Inr (), t)" and later: "kms_step\<^sup>*\<^sup>* t u" and e: "gc_parse g bytes = Some e" "jfield e ''kid'' = JStr i"
  shows "(\<forall>v. kms_decrypt g (software_provider g iv u) bytes context \<noteq> Inr v) \<and> wrapDataKey g iv u d context \<noteq> Inr (i, x)"
proof -
  have "key_disabled i t" using off by (auto simp: kms_disable_def eff_defs key_disabled_def split: option.splits)
  then have dead: "kms_key u i = Inl (Coded ''KMS_KEY_UNAVAILABLE'')" using kms_steps_keys(2) [OF later] disabled_unavailable by blast
  then have "unwrapDataKey g u i y c = Inl (Coded ''KMS_KEY_UNAVAILABLE'')" for y c by (simp add: unwrapDataKey_def)
  then have "\<forall>v. kms_decrypt g (software_provider g iv u) bytes context \<noteq> Inr v"
    by (auto simp: kms_decrypt_def parsed_envelope_def e bindR_Inr ensureR_Inr Let_def kms_failure_Inr software_provider_def split: json.splits option.splits)
  moreover have "wrapDataKey g iv u d context \<noteq> Inr (i, x)" using dead by (auto simp: wrapDataKey_def bindR_Inr split: prod.splits)
  ultimately show ?thesis by blast
qed

definition forged :: "crypto_platform \<Rightarrow> string \<Rightarrow> string \<Rightarrow> string \<Rightarrow> string \<Rightarrow> string \<Rightarrow> bool" where
  "forged g key iv aad aad' p = (aad \<noteq> aad' \<and> gc_decrypt g key iv aad' (fst (gc_encrypt g key iv aad p)) (snd (gc_encrypt g key iv aad p)) \<noteq> None)"

text \<open>
  Whoever reads an envelope with another context than the one it was made with has a forgery: a ciphertext and
  tag of the cipher that it also opens with other associated data.
\<close>

theorem context_is_bound:
  assumes g: "aead_ok g" "json_ok g {bytes}" and sizes: "length kiv = 12"
    and enc: "kms_encrypt g (software_provider g kiv k) dataKey iv v context = Inr bytes"
    and k: "kms_step\<^sup>*\<^sup>* k k'" and dec: "kms_decrypt g (software_provider g kiv' k') bytes context' = Inr u"
  shows "bound_to (labelled ''domain'' ''rwa-kms-wrap-v1'' (labelled ''schema'' ''rwa-private-v2'' context'))
      = bound_to (labelled ''domain'' ''rwa-kms-wrap-v1'' (labelled ''schema'' ''rwa-private-v2'' context))
    \<or> (\<exists>key iv aad aad' p. forged g key iv aad aad' p)"
proof (rule kms_encrypted [OF enc])
  fix i x c tag
  let ?aad = "\<lambda>context. bound_to (labelled ''domain'' ''rwa-kms-wrap-v1'' (labelled ''schema'' ''rwa-private-v2'' context))"
  assume w: "kp_wrap (software_provider g kiv k) dataKey (labelled ''schema'' ''rwa-private-v2'' context) = Inr (i, x)"
    and bytes: "bytes = render (kms_envelope i x iv tag c)"
  obtain m where m: "jm_get (sw_keys k) i = Some (m, True)" and x: "x = kiv @ snd (gc_encrypt g m kiv (?aad context) dataKey) @ fst (gc_encrypt g m kiv (?aad context) dataKey)"
    using w by (auto simp: software_provider_def wrapDataKey_def bindR_Inr kms_key_Inr case_prod_unfold)
  obtain d where "unwrapDataKey g k' i x (labelled ''schema'' ''rwa-private-v2'' context') = Inr d"
    using dec kms_decrypted [of g bytes i x iv tag c] kms_envelope_parsed [OF g(2)] bytes by (auto simp: software_provider_def)
  then obtain m' where m': "jm_get (sw_keys k') i = Some (m', True)"
    and open_key: "gc_decrypt g m' (take 12 x) (?aad context') (drop 28 x) (take 16 (drop 12 x)) = Some d"
    by (auto simp: unwrapDataKey_def bindR_Inr kms_key_Inr split: option.splits)
  have "m' = m" using kms_steps_keys(1) [OF k, of i] m m' by simp
  moreover have "length (snd (gc_encrypt g m kiv (?aad context) dataKey)) = 16" using g(1) by (simp add: aead_ok_def)
  ultimately have opened: "gc_decrypt g m kiv (?aad context') (fst (gc_encrypt g m kiv (?aad context) dataKey)) (snd (gc_encrypt g m kiv (?aad context) dataKey)) \<noteq> None"
    using open_key by (simp add: x sizes)
  show ?thesis
  proof (cases "?aad context' = ?aad context")
    case False
    then have "forged g m kiv (?aad context) (?aad context') dataKey" using opened unfolding forged_def by metis
    then show ?thesis by blast
  qed blast
qed

section \<open>A run\<close>

text \<open>
  A cipher for the run, whose ciphertext is the associated data and the text; the parser knows the two texts of the
  run. The key is replaced by another one between encryption and decryption.
\<close>

definition en_seal :: "string \<Rightarrow> string \<Rightarrow> string \<Rightarrow> string \<Rightarrow> string \<times> string" where
  "en_seal key iv aad p = (json_quote aad @ p, replicate 16 CHR ''t'')"

definition en_unseal :: "string \<Rightarrow> string \<Rightarrow> string \<Rightarrow> string \<Rightarrow> string \<Rightarrow> string option" where
  "en_unseal key iv aad c tag =
     (if take (length (json_quote aad)) c = json_quote aad then Some (drop (length (json_quote aad)) c) else None)"

definition en_value :: json where
  "en_value = JObj [(''amount'', JStr ''100'')]"

definition en_context :: entries where
  "en_context = [(''tenantId'', JStr ''T'')]"

definition en_wrapped :: string where
  "en_wrapped = replicate 12 CHR ''i'' @ replicate 16 CHR ''t'' @ fst (en_seal [] [] (bound_to (labelled ''domain'' ''rwa-kms-wrap-v1''
     (labelled ''schema'' ''rwa-private-v2'' en_context))) (replicate 32 CHR ''d''))"

definition en_envelope :: json where
  "en_envelope = kms_envelope ''k1'' en_wrapped (replicate 12 CHR ''j'') (replicate 16 CHR ''t'')
     (fst (en_seal [] [] (bound_to (labelled ''schema'' ''rwa-private-v2'' en_context)) (canonicalize en_value)))"

definition en_platform :: crypto_platform where
  "en_platform = \<lparr>gc_encrypt = en_seal, gc_decrypt = en_unseal,
     gc_parse = (\<lambda>t. if t = render en_envelope then Some en_envelope else if t = canonicalize en_value then Some en_value else None),
     gc_buffer = (\<lambda>_. None)\<rparr>"

definition en_kms :: "string \<Rightarrow> software_kms" where
  "en_kms active = \<lparr>sw_active = active, sw_keys = [(''k1'', replicate 32 CHR ''1'', True), (''k2'', replicate 32 CHR ''2'', True)]\<rparr>"

lemma storable_normal: "storable v \<Longrightarrow> normal_json v"
proof (induction v)
  case (JArr xs)
  then show ?case by (auto simp: list_all_iff)
next
  case (JObj kvs)
  have "normal_json (snd e)" if e: "e \<in> set kvs" for e
  proof (rule JObj.IH [OF e])
    show "snd e \<in> Basic_BNFs.snds e" by (cases e) (simp add: snds_in)
    show "storable (snd e)" using JObj.prems e by (simp only: storable_entries)
  qed
  then show ?case by (simp only: normal_json_entries) blast
qed simp_all

lemma render_inject: "storable v \<Longrightarrow> storable w \<Longrightarrow> render v = render w \<Longrightarrow> v = w"
  using prefix_free_atD [OF render_prefix_free [OF storable_normal], of v w "[]" "[]"] storable_normal by (simp add: delim_def)

lemma en_aead: "aead_ok en_platform"
  by (simp add: aead_ok_def en_platform_def en_seal_def en_unseal_def)

lemma en_value_normal: "jnorm en_value = en_value" "canonicalize en_value = render en_value"
  by (simp_all add: en_value_def canonicalize_render)

lemma en_storable: "storable en_value" "storable en_envelope"
  by (simp_all add: en_value_def name_key_def en_envelope_def kms_envelope_def)

lemma en_json: "json_ok en_platform {render en_envelope, canonicalize en_value}"
  unfolding json_ok_def
proof (intro allI impI, elim conjE)
  fix v assume v: "storable v" "render v \<in> {render en_envelope, canonicalize en_value}"
  show "gc_parse en_platform (render v) = Some v"
  proof (cases "render v = render en_envelope")
    case True
    then show ?thesis using render_inject [OF v(1) en_storable(2) True] by (simp add: en_platform_def)
  next
    case False
    then have "render v = render en_value" using v(2) by (simp add: en_value_normal)
    then show ?thesis using False render_inject [OF v(1) en_storable(1)] by (simp add: en_platform_def en_value_normal)
  qed
qed

lemma en_encrypted:
  "kms_encrypt en_platform (software_provider en_platform (replicate 12 CHR ''i'') (en_kms ''k1'')) (replicate 32 CHR ''d'') (replicate 12 CHR ''j'') en_value en_context
    = Inr (render en_envelope)"
proof -
  have w: "wrapDataKey en_platform (replicate 12 CHR ''i'') (en_kms ''k1'') (replicate 32 CHR ''d'') (labelled ''schema'' ''rwa-private-v2'' en_context) = Inr (''k1'', en_wrapped)"
    by (simp add: wrapDataKey_def kms_key_def en_kms_def en_platform_def en_seal_def en_wrapped_def)
  have "en_value \<noteq> JUndefined" "gc_encrypt en_platform = en_seal" by (simp_all add: en_value_def en_platform_def)
  then show ?thesis
    by (simp add: kms_encrypt_def software_provider_def w nativeR_def ensureR_def en_envelope_def kms_envelope_def en_seal_def Let_def del: render.simps)
qed

lemma en_rotated: "kms_step\<^sup>*\<^sup>* (en_kms ''k1'') (en_kms ''k2'')" "\<not> key_disabled (sw_active (en_kms ''k1'')) (en_kms ''k2'')"
proof -
  have "kms_setActive ''k2'' (en_kms ''k1'') = (Inr (), en_kms ''k2'')" by (simp add: kms_setActive_def eff_defs kms_key_def en_kms_def)
  then show "kms_step\<^sup>*\<^sup>* (en_kms ''k1'') (en_kms ''k2'')" by (intro r_into_rtranclp kms_step.activates)
qed (simp add: key_disabled_def en_kms_def)

theorem envelope_round_trip_witness:
  "kms_decrypt en_platform (software_provider en_platform [] (en_kms ''k2'')) (render en_envelope) en_context = Inr en_value"
proof -
  have "length (replicate 32 CHR ''d'') = 32" "length (replicate 12 CHR ''i'') = 12" by simp_all
  from envelope_round_trip [OF en_aead en_json this en_encrypted en_rotated, of "[]"] en_storable(1)
  have "kms_decrypt en_platform (software_provider en_platform [] (en_kms ''k2'')) (render en_envelope) en_context = Inr (jnorm en_value)" by blast
  then show ?thesis by (simp only: en_value_normal)
qed

end
