(* ===== verification/SandboxAuth.thy ===== *)
theory SandboxAuth
  imports OidcVerifier
begin

text \<open>
  Sessions of the sandbox and the authorisation of actions, \<open>src/security/server-auth.js\<close>. Both kinds of
  session, those of the sandbox and those of production, pass through \<open>authorizeAction\<close>. Random
  tokens, percent coding and the clock are fields of the manager.
\<close>

section \<open>The tables\<close>

definition demo_identity :: "string \<Rightarrow> json \<Rightarrow> string \<Rightarrow> json \<Rightarrow> json" where
  "demo_identity principalId institutionId role actorRef = JObj [(''principalId'', JStr principalId), (''tenantId'', JStr ''sandbox-hk''),
     (''institutionId'', institutionId), (''role'', JStr role), (''actorRef'', actorRef)]"

definition SANDBOX_IDENTITIES :: "(string \<times> json) list" where
  "SANDBOX_IDENTITIES = [
     (''issuer-console'', demo_identity ''issuer-console'' (JStr ''demo-issuer'') ''issuer'' (JNull)),
     (''distributor-console'', demo_identity ''distributor-console'' (JStr ''demo-broker'') ''distributor'' (JNull)),
     (''investor-a-console'', demo_identity ''investor-a-console'' (JNull) ''investor'' (JStr ''investor-a'')),
     (''investor-b-console'', demo_identity ''investor-b-console'' (JNull) ''investor'' (JStr ''investor-b'')),
     (''broker-console'', demo_identity ''broker-console'' (JStr ''demo-broker'') ''broker'' (JNull)),
     (''operations-console'', demo_identity ''operations-console'' (JStr ''demo-admin'') ''operations'' (JNull)),
     (''operations-checker-console'', demo_identity ''operations-checker-console'' (JStr ''demo-admin'') ''operations'' (JNull)),
     (''supervisor-console'', demo_identity ''supervisor-console'' (JStr ''demo-supervisor'') ''supervisor'' (JNull))]"

definition OBJECT_PROTOTYPE :: "string list" where
  \<comment> \<open>the names every object inherits: looking one up finds something truthy without properties of its own to spread\<close>
  "OBJECT_PROTOTYPE = [''constructor'', ''hasOwnProperty'', ''isPrototypeOf'', ''propertyIsEnumerable'', ''toLocaleString'', ''toString'', ''valueOf'',
     ''__proto__'', ''__defineGetter__'', ''__defineSetter__'', ''__lookupGetter__'', ''__lookupSetter__'']"

definition identity_of :: "string \<Rightarrow> json option" where
  \<comment> \<open>\<open>{ ...SANDBOX_IDENTITIES[principalId] }\<close> if that is truthy\<close>
  "identity_of principalId = (case map_of SANDBOX_IDENTITIES principalId of
     Some i \<Rightarrow> Some i
   | None \<Rightarrow> if principalId \<in> set OBJECT_PROTOTYPE then Some (JObj []) else None)"

definition ACTION_ROLES :: "(string \<times> string list) list" where
  "ACTION_ROLES = [
     (''pause'', [''issuer'']),
     (''resume'', [''issuer'']),
     (''reset'', [''issuer'']),
     (''revoke-b'', [''distributor'']),
     (''subscribe'', [''investor:investor-a'']),
     (''redeem'', [''investor:investor-b'']),
     (''transfer'', [''broker'']),
     (''simulate-register-failure'', [''operations'']),
     (''propose-exception-retry'', [''operations'']),
     (''approve-exception-retry'', [''operations'']),
     (''zk-transfer-prepare'', [''broker'']),
     (''zk-owner-key-register'', [''distributor'']),
     (''zk-owner-key-revoke'', [''distributor'']),
     (''zk-transfer-authorize'', [''broker'']),
     (''zk-transfer-settle'', [''broker'', ''operations'']),
     (''zk-prover-request'', [''broker'']),
     (''zk-prover-read'', [''broker'', ''operations'']),
     (''zk-transfer-finality-propose'', [''operations'']),
     (''zk-transfer-finality-approve'', [''operations'']),
     (''zk-transfer-finality-cancel'', [''operations'']),
     (''zk-parameters-propose'', [''operations'']),
     (''zk-parameters-approve'', [''operations'']),
     (''catalog-read'', [''issuer'', ''operations'', ''supervisor'']),
     (''institution-configure'', [''issuer'']),
     (''institution-signing-key-manage'', [''issuer'']),
     (''product-configure'', [''issuer'']),
     (''institution-review-propose'', [''operations'']),
     (''institution-review-approve'', [''operations'']),
     (''product-evidence-attach'', [''operations'']),
     (''product-activation-propose'', [''operations'']),
     (''product-activation-approve'', [''operations'']),
     (''catalog-audit-export'', [''operations'', ''supervisor''])]"

definition ACTION_PERMISSIONS :: "(string \<times> string) list" where
  "ACTION_PERMISSIONS = [
     (''pause'', ''product.pause''),
     (''resume'', ''product.resume''),
     (''revoke-b'', ''credential.restrict''),
     (''subscribe'', ''transaction.subscribe''),
     (''redeem'', ''transaction.redeem''),
     (''transfer'', ''transaction.transfer''),
     (''simulate-register-failure'', ''exception.propose''),
     (''propose-exception-retry'', ''exception.propose''),
     (''approve-exception-retry'', ''exception.approve''),
     (''zk-transfer-prepare'', ''transaction.zk.prepare''),
     (''zk-owner-key-register'', ''confidential.owner_key.register''),
     (''zk-owner-key-revoke'', ''confidential.owner_key.revoke''),
     (''zk-transfer-authorize'', ''transaction.zk.authorize''),
     (''zk-transfer-settle'', ''transaction.zk.settle''),
     (''zk-prover-request'', ''transaction.zk.prover.request''),
     (''zk-prover-read'', ''transaction.zk.prover.read''),
     (''zk-transfer-finality-propose'', ''transaction.zk.finalize.propose''),
     (''zk-transfer-finality-approve'', ''transaction.zk.finalize.approve''),
     (''zk-transfer-finality-cancel'', ''transaction.zk.finalize.cancel''),
     (''zk-parameters-propose'', ''zk.parameters.propose''),
     (''zk-parameters-approve'', ''zk.parameters.approve''),
     (''catalog-read'', ''catalog.read''),
     (''institution-configure'', ''institution.configure''),
     (''institution-signing-key-manage'', ''institution.key.manage''),
     (''product-configure'', ''product.configure''),
     (''institution-review-propose'', ''institution.review.propose''),
     (''institution-review-approve'', ''institution.review.approve''),
     (''product-evidence-attach'', ''product.evidence.attach''),
     (''product-activation-propose'', ''product.activation.propose''),
     (''product-activation-approve'', ''product.activation.approve''),
     (''catalog-audit-export'', ''catalog.audit.read'')]"

section \<open>Actions\<close>

definition role_scope :: "json \<Rightarrow> json" where
  "role_scope identity = (if jfield identity ''role'' = JStr ''investor'' then JStr (''investor:'' @ text_field identity ''actorRef'')
     else jfield identity ''role'')"

definition authorizeAction :: "json \<Rightarrow> string \<Rightarrow> unit outcome" where
  "authorizeAction identity action = (case jfield identity ''permissions'' of
     JArr permissions \<Rightarrow> ensureR (case map_of ACTION_PERMISSIONS action of
         None \<Rightarrow> False | Some permission \<Rightarrow> permission \<noteq> [] \<and> JStr permission \<in> set permissions) ''AUTHORIZATION_DENIED'' (Inr ())
   | _ \<Rightarrow> ensureR (case map_of ACTION_ROLES action of
         None \<Rightarrow> False | Some grants \<Rightarrow> role_scope identity \<in> JStr ` set grants) ''AUTHORIZATION_DENIED'' (Inr ()))"

definition assertSandboxAuthMode :: "string \<Rightarrow> unit outcome" where
  "assertSandboxAuthMode mode = ensureR (mode = ''sandbox'') ''PRODUCTION_IDENTITY_PROVIDER_REQUIRED'' (Inr ())"

section \<open>Sessions\<close>

record sandbox_manager =
  sm_now :: int
  sm_ttlMs :: int
  sm_secureCookies :: bool
  sm_sessionId :: string
  sm_csrfToken :: string
  sm_encode :: "string \<Rightarrow> string"
  sm_decode :: "string \<Rightarrow> string option"

record sandbox_session =
  sb_identity :: json
  sb_csrfToken :: string
  sb_expiresAt :: int

type_synonym sandbox_sessions = "(string, sandbox_session) jsmap"

record sandbox_request =
  sr_sessionId :: string
  sr_identity :: json
  sr_csrfToken :: string

fun parseCookies :: "(string \<Rightarrow> string option) \<Rightarrow> string list \<Rightarrow> (string \<times> string) list outcome" where
  \<comment> \<open>the entries of the parts of the header between semicolons; a later one replaces an earlier one of its name\<close>
  "parseCookies decode [] = Inr []"
| "parseCookies decode (part # parts) =
     (let name = takeWhile (\<lambda>c. c \<noteq> CHR ''='') part in
      if CHR ''='' \<in> set part \<and> name \<noteq> [] then
        bindR (case decode (js_trim (drop (length name + 1) part)) of None \<Rightarrow> Inl (Native ''URIError'') | Some v \<Rightarrow> Inr v) (\<lambda>v.
        bindR (parseCookies decode parts) (\<lambda>cookies. Inr (cookies @ [(js_trim name, v)])))
      else parseCookies decode parts)"

definition sandbox_cookie :: "sandbox_manager \<Rightarrow> string" where
  "sandbox_cookie h = ''rwa_session='' @ sm_encode h (sm_sessionId h) @ ''; Path=/; HttpOnly; SameSite=Strict; Max-Age='' @ int_text (sm_ttlMs h div 1000)
     @ (if sm_secureCookies h then ''; Secure'' else [])"

definition sandbox_issue :: "sandbox_manager \<Rightarrow> string \<Rightarrow> (sandbox_sessions, json \<times> string \<times> string \<times> int) eff" where
  "sandbox_issue h principalId =
     bindE (optE (identity_of principalId) (Coded ''UNKNOWN_SANDBOX_PRINCIPAL'')) (\<lambda>identity.
     let expiresAt = sm_now h + sm_ttlMs h in
     thenE (modifyE (jm_set (sm_sessionId h) \<lparr>sb_identity = identity, sb_csrfToken = sm_csrfToken h, sb_expiresAt = expiresAt\<rparr>))
     (retE (identity, sm_csrfToken h, sandbox_cookie h, expiresAt)))"

definition session_of :: "sandbox_manager \<Rightarrow> string option \<Rightarrow> (sandbox_sessions, sandbox_request) eff" where
  \<comment> \<open>for the value of the cookie\<close>
  "session_of h sessionId = (case sessionId of
     Some (c # cs) \<Rightarrow> withE (\<lambda>m. case jm_get m (c # cs) of
       None \<Rightarrow> throwE (Coded ''INVALID_SESSION'')
     | Some r \<Rightarrow>
         if sb_expiresAt r \<le> sm_now h then thenE (modifyE (jm_delete (c # cs))) (throwE (Coded ''SESSION_EXPIRED''))
         else retE \<lparr>sr_sessionId = c # cs, sr_identity = sb_identity r, sr_csrfToken = sb_csrfToken r\<rparr>)
   | _ \<Rightarrow> throwE (Coded ''AUTHENTICATION_REQUIRED''))"

definition sandbox_authenticate :: "sandbox_manager \<Rightarrow> string \<Rightarrow> (sandbox_sessions, sandbox_request) eff" where
  "sandbox_authenticate h cookieHeader =
     bindE (liftE (parseCookies (sm_decode h) (split_text CHR '';'' cookieHeader))) (\<lambda>cookies.
     session_of h (map_of cookies ''rwa_session''))"

definition sandbox_assertCsrf :: "sandbox_request \<Rightarrow> string \<Rightarrow> unit outcome" where
  "sandbox_assertCsrf a suppliedToken = ensureR (suppliedToken \<noteq> [] \<and> suppliedToken = sr_csrfToken a) ''CSRF_REJECTED'' (Inr ())"

definition sandbox_revoke :: "string \<Rightarrow> (sandbox_sessions, unit) eff" where
  "sandbox_revoke sessionId = modifyE (jm_delete sessionId)"

section \<open>Who may act\<close>

inductive sandbox_step :: "sandbox_sessions \<Rightarrow> sandbox_sessions \<Rightarrow> bool" where
  issued: "sandbox_issue h principalId s = (r1, t) \<Longrightarrow> sandbox_step s t"
| asked: "sandbox_authenticate h cookieHeader s = (r2, t) \<Longrightarrow> sandbox_step s t"
| logged_out: "sandbox_revoke sessionId s = (r3, t) \<Longrightarrow> sandbox_step s t"

definition known_identities :: "sandbox_sessions \<Rightarrow> bool" where
  "known_identities s = (\<forall>r \<in> set (jm_values s). sb_identity r = JObj [] \<or> sb_identity r \<in> snd ` set SANDBOX_IDENTITIES)"

lemma identity_known: "identity_of p = Some i \<Longrightarrow> i = JObj [] \<or> i \<in> snd ` set SANDBOX_IDENTITIES"
  by (auto simp: identity_of_def split: option.splits if_splits dest!: map_of_SomeD intro: rev_image_eqI)

lemma session_of_effect:
  assumes "session_of h v s = (r, t)"
  shows "t = s \<or> (\<exists>k. t = jm_delete k s)"
    and "r = Inr a \<Longrightarrow> \<exists>x. jm_get s (sr_sessionId a) = Some x \<and> sb_identity x = sr_identity a \<and> sm_now h < sb_expiresAt x"
proof -
  have "(t = s \<or> (\<exists>k. t = jm_delete k s))
    \<and> (r = Inr a \<longrightarrow> (\<exists>x. jm_get s (sr_sessionId a) = Some x \<and> sb_identity x = sr_identity a \<and> sm_now h < sb_expiresAt x))"
  proof (cases v)
    case (Some u)
    show ?thesis
    proof (cases u)
      case (Cons c cs)
      then show ?thesis using assms Some by (cases "jm_get s (c # cs)") (auto simp: session_of_def eff_defs split: if_splits)
    qed (use assms Some in \<open>auto simp: session_of_def throwE_def\<close>)
  qed (use assms in \<open>auto simp: session_of_def throwE_def\<close>)
  then show "t = s \<or> (\<exists>k. t = jm_delete k s)"
    "r = Inr a \<Longrightarrow> \<exists>x. jm_get s (sr_sessionId a) = Some x \<and> sb_identity x = sr_identity a \<and> sm_now h < sb_expiresAt x" by blast+
qed

lemma authenticated_session_of:
  assumes "sandbox_authenticate h cookieHeader s = (r, t)"
  shows "t = s \<and> (\<exists>e. r = Inl e) \<or> (\<exists>v. session_of h v s = (r, t))"
  using assms unfolding sandbox_authenticate_def
  by (cases "parseCookies (sm_decode h) (split_text CHR '';'' cookieHeader)") (auto simp: bindE_def liftE_def throwE_def retE_def)

lemma delete_known: "known_identities s \<Longrightarrow> known_identities (jm_delete k s)"
  by (auto simp: known_identities_def jm_delete_def)

interpretation sandbox: invariant_of sandbox_step "[]" known_identities
proof
  show "known_identities t" if "known_identities s" "sandbox_step s t" for s t
    using that(2)
  proof cases
    case (issued h p r)
    then have "t = s \<or> (\<exists>i. identity_of p = Some i \<and> t = jm_set (sm_sessionId h) \<lparr>sb_identity = i, sb_csrfToken = sm_csrfToken h,
        sb_expiresAt = sm_now h + sm_ttlMs h\<rparr> s)"
      by (auto simp: sandbox_issue_def eff_defs Let_def split: option.splits)
    moreover have "known_identities (jm_set k r s)" if "identity_of p = Some (sb_identity r)" for k r
      using \<open>known_identities s\<close> identity_known [OF that] subsetD [OF set_values_update, of _ k r s] unfolding known_identities_def by blast
    ultimately show ?thesis using that(1) by fastforce
  next
    case (asked h header r)
    then have "t = s \<or> (\<exists>k. t = jm_delete k s)" using authenticated_session_of session_of_effect(1) by blast
    then show ?thesis using that(1) delete_known by blast
  next
    case (logged_out sessionId r)
    then show ?thesis using that(1) delete_known by (auto simp: sandbox_revoke_def modifyE_iff)
  qed
qed (simp add: known_identities_def)

lemma nobody_may_nothing: "authorizeAction (JObj []) action \<noteq> Inr ()"
  by (auto simp: authorizeAction_def jfield_def role_scope_def ensureR_def split: option.splits)

text \<open>
  Who is authorised for an action has a session that has not expired and is one of the registered principals, whose
  role is granted the action. A session that was issued for the name of an inherited property
  (\<open>prototype_session\<close>) is authorised for nothing.
\<close>

theorem acting_principal_is_registered:
  assumes "reach sandbox_step [] s" and "sandbox_authenticate h cookieHeader s = (Inr a, t)" and act: "authorizeAction (sr_identity a) action = Inr ()"
  shows "\<exists>p r grants. (p, sr_identity a) \<in> set SANDBOX_IDENTITIES \<and> jm_get s (sr_sessionId a) = Some r \<and> sm_now h < sb_expiresAt r
    \<and> (action, grants) \<in> set ACTION_ROLES \<and> role_scope (sr_identity a) \<in> JStr ` set grants"
proof -
  obtain r where r: "jm_get s (sr_sessionId a) = Some r" "sb_identity r = sr_identity a" "sm_now h < sb_expiresAt r"
    using authenticated_session_of [OF assms(2)] session_of_effect(2) by blast
  then have "sr_identity a = JObj [] \<or> sr_identity a \<in> snd ` set SANDBOX_IDENTITIES"
    using sandbox.always [OF assms(1)] map_of_SomeD [OF r(1)] unfolding known_identities_def by force
  then have known: "sr_identity a \<in> snd ` set SANDBOX_IDENTITIES" using act nobody_may_nothing by metis
  then have "jfield (sr_identity a) ''permissions'' = JUndefined" by (auto simp: SANDBOX_IDENTITIES_def demo_identity_def jfield_def)
  then obtain grants where "map_of ACTION_ROLES action = Some grants" "role_scope (sr_identity a) \<in> JStr ` set grants"
    using act by (auto simp: authorizeAction_def ensureR_Inr split: option.splits)
  then show ?thesis using known r map_of_SomeD by (force simp: image_iff)
qed

lemma prototype_session:
  "sandbox_issue h ''constructor'' s = (Inr (JObj [], sm_csrfToken h, sandbox_cookie h, sm_now h + sm_ttlMs h),
     jm_set (sm_sessionId h) \<lparr>sb_identity = JObj [], sb_csrfToken = sm_csrfToken h, sb_expiresAt = sm_now h + sm_ttlMs h\<rparr> s)"
  by (simp add: sandbox_issue_def identity_of_def SANDBOX_IDENTITIES_def OBJECT_PROTOTYPE_def eff_defs Let_def)

end
