(* ===== verification/Spec2Isabelle.thy ===== *)
theory Spec2Isabelle
  imports CpProperties MerkleTree ProductionPreflight PgProperties AuditCheckpoints ProverProperties ZkProperties DurableProperties CallbackProperties CatalogProperties IncidentProperties AuthProperties RateLimiter EnvelopeFacts SandboxAuth
begin

text \<open>
  Verification of the RWA control plane.

  The program issues, transfers and redeems tokenised fund units under the policies of the institutions
  behind a product. It has an in-memory control plane (\<open>src/control-plane.js\<close>), which the sandbox runs
  on, and a durable one over PostgreSQL (\<open>src/storage\<close>), with signed callbacks of the institutions,
  an outbox for what they are told, a confidential rail that settles on zero-knowledge proofs, a product
  catalogue with maker and checker, and production logins (\<open>src/security\<close>). File names below are those
  under \<open>src\<close> of the repository.

  \<^bold>\<open>How the code is modelled.\<close> A method that changes \<open>this\<close> or the database is a
  function from the state to an error or a value and the new state (\<open>Effects\<close>: \<open>eff\<close>, with
  \<open>bindE\<close>, \<open>ensureE\<close>, \<open>throwE\<close>, \<open>catchE\<close>); a pure function that may throw
  is an \<open>outcome\<close> (\<open>Outcome\<close>). An error is \<open>Coded\<close> with the code of the source or
  \<open>Native\<close>. JSON-like values are the datatype \<open>json\<close> (\<open>JsValues\<close>); a \<open>Map\<close>
  of the code is an association list in insertion order (\<open>jsmap\<close>, the locale \<open>keyed_store\<close> of
  \<open>Prelude\<close>), a table is a list of records in the order of insertion. Integers are unbounded like BigInt.
  A transaction is \<open>withSerializableTransaction\<close> of \<open>PgStore\<close>: it runs its body, discards every
  effect when it throws, and tries again at most three times when the commit meets a serialization failure, whose
  occurrences are the argument \<open>commit\<close>. A \<open>jsonb\<close> column that is written with
  \<open>JSON.stringify\<close> holds \<open>stored_json\<close> of the value: undefined properties are left out. What the platform computes (hashes, signatures, HMAC, date
  parsing, random identifiers, clocks, URL parsing, the prover) is a field of a host or service record or an
  argument; what a theorem needs of it is a premise of the theorem, such as a collision it returns.

  \<^bold>\<open>How properties over time are stated.\<close> Every component with a state is a step relation with one
  rule per public operation, whatever its arguments and its result, and one for what other components do to its
  tables. \<open>reach stp ini\<close> are the states reached, \<open>invariant_of\<close> (in \<open>Prelude\<close>)
  is the interface of an invariant: it holds at the start and every step keeps it; its interpretations name the
  invariants of the components: \<open>cp\<close>, \<open>numbered\<close>, \<open>filed\<close>, \<open>signed\<close> (control plane),
  \<open>pg_books\<close>, \<open>pg_tracks\<close>, \<open>pg_audit\<close>, \<open>pg_approvals\<close>,
  \<open>pg_replays\<close>, \<open>pg_outbox\<close> (durable store), \<open>checkpoints\<close>,
  \<open>zk_rail\<close>, \<open>durable_books\<close>, \<open>callbacks\<close>, \<open>incidents\<close>,
  \<open>catalogue\<close>, \<open>logins\<close>, \<open>sandbox\<close>. What never shrinks is an interpretation of \<open>state_preorder\<close>
  of \<open>Effects\<close>.

  \<^bold>\<open>The control plane\<close>, \<open>src/control-plane.js\<close>.
  \<^item> \<open>JsValues\<close>, \<open>JsonText\<close>, \<open>Canonical\<close>: values, the decimal text of an
    integer and its reading by \<open>BigInt\<close>, \<open>canonicalize\<close>. The amounts round trip, and the
    canonical text determines a value up to the order of keys and up to \<open>[undefined]\<close> for the empty array, which the
    code prints alike.
  \<^item> \<open>CpState\<close>, \<open>CpRegistry\<close>: the class and its registry (institutions, products,
    credentials, signed evidence, sandbox cash). \<open>CpPolicy\<close>, \<open>CpSettlement\<close>: disclosure, the policy
    checks, \<open>idempotent\<close>, and \<open>subscribe\<close>, \<open>transfer\<close>, \<open>redeem\<close>,
    \<open>simulateRegisterFailure\<close>. \<open>CpExceptions\<close>: the maker's proposal and the checker's
    approval. \<open>CpViews\<close>: receipts, evidence packages, \<open>reconcile\<close>,
    the views of the roles.
  \<^item> \<open>CpFrames\<close>, \<open>CpRuns\<close>, \<open>CpChecks\<close>: what an operation leaves alone, total
    correctness of effects, what a passed check guarantees. \<open>CpSpecs\<close>, \<open>CpRegistrySpecs\<close>,
    \<open>CpResolution\<close>: abstract specifications as relations between two states and the proofs that the
    handlers implement them on every branch. \<open>CpInvariant\<close>, \<open>CpSteps\<close>, \<open>CpFacts\<close>,
    \<open>CpHistory\<close>: the invariant (ledger and register agree, nothing is negative, cases and transactions agree,
    maker is not checker), the reachable states, and what is never taken back. \<open>CpDemo\<close> is a concrete run,
    \<open>CpProperties\<close> the properties.

  \<^bold>\<open>The durable store\<close>, \<open>src/storage\<close>.
  \<^item> \<open>PgState\<close>, \<open>PgStore\<close>, \<open>Outbox\<close>: tables and operations of
    \<open>postgres-store.js\<close>, with \<open>outbox-dispatcher.js\<close> and the cycle of \<open>outbox-worker.js\<close>.
    \<open>PgFrames\<close>, \<open>PgInvariants\<close>, \<open>OutboxOrder\<close>, \<open>OutboxDelivery\<close>,
    \<open>PgProperties\<close>: double entry, the state machine of the intents, the hash chain of the audit log (over the metadata
    as given, of which a row holds the stored form), delivery
    in order, and that repeated rounds of the dispatcher publish everything when the outbox is calm and nothing fails.
  \<^item> \<open>AuditCheckpoints\<close>: \<open>audit-checkpoint-service.js\<close>; two histories that end in the
    same digest agree on their boundaries and stored hashes, unless two hashed texts collide. The rows of the table are
    whole, content included: the contents agree too where each stored hash is the digest of its row's content, which
    the verification does not check (\<open>content_edit_unnoticed\<close>).
  \<^item> \<open>ProverJobs\<close>, \<open>ProverProperties\<close>:
    \<open>prover-job-service.js\<close>, \<open>prover-worker.js\<close>, \<open>prover-monitor.js\<close>: leases, the
    well-formedness of a row, and that failing attempts end.
  \<^item> \<open>EconomicCommitment\<close>, \<open>DurableWorkflow\<close>, \<open>DurableBootstrap\<close>:
    \<open>economic-commitment.js\<close> and \<open>durable-workflow-service.js\<close>, which settles on the tables.
    \<open>DurableFacts\<close>, \<open>DurableSteps\<close>, \<open>DurableReplay\<close>,
    \<open>DurableProperties\<close>: the register is the unit side of the ledger, entry by entry, and no account but a clearing one is
    below zero while every product keeps unit and cash accounts apart (\<open>own_accounts\<close>); a request sent again
    answers what it answered; a retry that is blocked leaves no trace.
  \<^item> \<open>InstitutionCallback\<close>, \<open>CallbackFacts\<close>,
    \<open>CallbackProperties\<close>: \<open>institution-callback-service.js\<close>; the effects of a stream are its
    callbacks in order, without a gap and each once. \<open>ExternalIncident\<close>,
    \<open>IncidentProperties\<close>: \<open>external-incident-service.js\<close>, the incidents that callbacks open.
  \<^item> \<open>ProductEvidence\<close>, \<open>CatalogInput\<close>, \<open>ProductCatalog\<close>,
    \<open>CatalogWorkflow\<close>, \<open>CatalogActivation\<close>: \<open>product-evidence.js\<close> and
    \<open>product-catalog-service.js\<close> with the triggers of its migrations. \<open>CatalogFacts\<close>,
    \<open>CatalogSteps\<close>, \<open>CatalogInvariants\<close>, \<open>CatalogRun\<close>,
    \<open>CatalogProperties\<close>: activation is gated by roles, evidence and two people, a revoked key is dead.

  \<^bold>\<open>The confidential rail\<close>.
  \<^item> \<open>ProofAdapter\<close>: \<open>proof-adapter.js\<close>. \<open>PoseidonConstants\<close>, \<open>MerkleTree\<close>:
    \<open>poseidon-merkle.js\<close>; appending to the frontier gives the root of the whole tree, and two trees the code filled
    to the same size and root were given the same leaves, or a collision of its node function is exhibited.
  \<^item> \<open>ZkState\<close>, \<open>ConfidentialTransfer\<close>, \<open>ZkGovernance\<close>, \<open>ZkGate\<close>,
    \<open>ZkFinality\<close>: \<open>confidential-eligibility.js\<close>, \<open>confidential-transfer-service.js\<close>,
    \<open>zk-governance-service.js\<close>, \<open>zk-settlement-gate.js\<close>.
    \<open>ZkInvariants\<close>, \<open>ZkSteps\<close>, \<open>ZkRun\<close>, \<open>ZkProperties\<close>: with proofs in flight,
    a nullifier is spent once and the current tree is the tree of what was made final.

  \<^bold>\<open>The edge\<close>.
  \<^item> \<open>RuntimeConfig\<close>, \<open>ProductionPreflight\<close>: \<open>runtime-config.js\<close>,
    \<open>production-preflight.js\<close>, \<open>monitoring-config.js\<close>.
  \<^item> \<open>OidcVerifier\<close>, \<open>ProductionAuth\<close>, \<open>AuthFacts\<close>, \<open>AuthProperties\<close>:
    \<open>oidc-verifier.js\<close>, \<open>production-auth.js\<close>; a login is backed by a signed token for an open
    challenge, is single use, and a revoked session is dead. \<open>SandboxAuth\<close>: \<open>server-auth.js\<close>, the
    sessions of the sandbox and the authorisation of actions. \<open>RateLimiter\<close>: \<open>rate-limiter.js\<close>.
  \<^item> \<open>EnvelopeCipher\<close>, \<open>EnvelopeFacts\<close>: \<open>envelope-crypto.js\<close>; decryption answers what \<open>JSON.parse\<close> makes of
    the canonical text, and so the payload where it has a JSON text, while the key that wrapped it is enabled, and
    only with its context.

  \<^bold>\<open>Bounds and fuel.\<close> The loop over buffered callbacks (\<open>drain_stream\<close>) has one unit of
  fuel more than there are receipts; \<open>enough_fuel\<close> and \<open>receipts_are_enough\<close> in
  \<open>CallbackFacts\<close> show that more changes nothing, as each round applies another receipt. The carry loop of the Merkle tree
  is a function with a measure, the Merkle depth is the constant of the code; a transaction has the three attempts of the
  code, a prover job eight. Every other loop is structural recursion over a list.

  \<^bold>\<open>Not modelled.\<close> Row and advisory locks and the isolation of concurrent transactions, except that an
  operation of the rail is split where it leaves the database; triggers that repeat a check the code made before, and the unique indices of the prover's jobs; the
  prototype chain of objects (a property is one the code set); strings beyond the code units below 256 and the collation of
  the database, which is taken to be the order of code units; generated identifiers, which are arguments; the removal of the
  demonstration product by \<open>resetSandboxDemo\<close>; read-only listings that only shape rows for a response; the HTTP
  server, the browser, timers, metrics, process start-up and deployment scripts, which call what is modelled.
\<close>

end
